(* ===== verification/Prelude.thy ===== *)
theory Prelude
  imports Main "HOL-Library.Word" "HOL-Library.AList" "HOL-Library.FSet"
begin

text \<open>
  Shared vocabulary of the development: the machine integers and UUIDs of the Rust
  sources, Rust strings as lists of Unicode scalar values, results and state-passing
  results with the combinators that stand for the \<open>?\<close> operator, a small calculus of
  postconditions for them (collection \<open>outcome_rules\<close>), the host clock and randomness,
  and the lemmas on association lists that stand for hash maps.
\<close>

named_theorems outcome_rules \<open>introduction rules of the postcondition calculus\<close>

section \<open>Machine integers\<close>

type_synonym u8 = "8 word"
type_synonym u16 = "16 word"
type_synonym u32 = "32 word"
type_synonym u64 = "64 word"

text \<open>
  Addition, subtraction and multiplication on words wrap, as release builds of the crate
  do (no profile turns overflow checks on). The checked and saturating operations of the
  Rust core library are written out.
\<close>

definition checked_add :: "'l::len word \<Rightarrow> 'l word \<Rightarrow> 'l word option" where
  "checked_add a b = (if unat a + unat b < 2 ^ LENGTH('l) then Some (a + b) else None)"

definition checked_sub :: "'l::len word \<Rightarrow> 'l word \<Rightarrow> 'l word option" where
  "checked_sub a b = (if b \<le> a then Some (a - b) else None)"

definition saturating_add :: "'l::len word \<Rightarrow> 'l word \<Rightarrow> 'l word" where
  "saturating_add a b = (if unat a + unat b < 2 ^ LENGTH('l) then a + b else - 1)"

definition saturating_sub :: "'l::len word \<Rightarrow> 'l word \<Rightarrow> 'l word" where
  "saturating_sub a b = (if b \<le> a then a - b else 0)"

definition abs_diff :: "'l::len word \<Rightarrow> 'l word \<Rightarrow> 'l word" where
  "abs_diff a b = (if a < b then b - a else a - b)"

lemma checked_add_Some_iff:
  "checked_add a b = Some c \<longleftrightarrow> unat a + unat b < 2 ^ LENGTH('l) \<and> c = a + b"
  for a b c :: "'l::len word"
  by (auto simp: checked_add_def)

lemma unat_checked_add:
  assumes "checked_add a b = Some c"
  shows "unat c = unat a + unat b"
  using assms by (auto simp: checked_add_Some_iff unat_word_ariths)

lemma checked_sub_Some_iff: "checked_sub a b = Some c \<longleftrightarrow> b \<le> a \<and> c = a - b"
  by (auto simp: checked_sub_def)

lemma unat_sub_le: "b \<le> a \<Longrightarrow> unat (a - b) = unat a - unat b"
  for a b :: "'l::len word"
  by (simp add: unat_sub)

lemma unat_saturating_add:
  "unat (saturating_add a b) = min (unat a + unat b) (2 ^ LENGTH('l) - 1)"
  for a b :: "'l::len word"
  by (auto simp: saturating_add_def unat_word_ariths unsigned_minus_1_eq_mask
      mask_eq_exp_minus_1 min_def)

lemma unat_abs_diff:
  "unat (abs_diff a b) = (if unat a < unat b then unat b - unat a else unat a - unat b)"
  for a b :: "'l::len word"
  by (simp add: abs_diff_def word_less_nat_alt unat_sub word_le_nat_alt)

lemma abs_diff_commute: "abs_diff a b = abs_diff b a"
  by (auto simp: abs_diff_def)

section \<open>UUIDs\<close>

text \<open>
  A UUID is its 128 bits. Rust compares UUIDs as byte strings in network order, which is
  the unsigned order of the 128-bit value.
\<close>

datatype uuid = Uuid (uuid_bits: "128 word")

definition nil_uuid :: uuid where
  "nil_uuid = Uuid 0"

instantiation uuid :: linorder
begin

definition less_eq_uuid :: "uuid \<Rightarrow> uuid \<Rightarrow> bool" where
  "a \<le> b \<longleftrightarrow> uuid_bits a \<le> uuid_bits b"

definition less_uuid :: "uuid \<Rightarrow> uuid \<Rightarrow> bool" where
  "a < b \<longleftrightarrow> uuid_bits a < uuid_bits b"

instance
  by intro_classes (auto simp: less_eq_uuid_def less_uuid_def uuid.expand)

end

section \<open>Strings\<close>

text \<open>
  A Rust string is a sequence of Unicode scalar values, here numbers; \<open>lit\<close> embeds
  ASCII literals. Lengths are in UTF-8 bytes, as \<open>str::len\<close>.
\<close>

type_synonym str = "nat list"

definition lit :: "string \<Rightarrow> str" where
  "lit s = map of_char s"

lemma lit_eq_iff: "lit a = lit b \<longleftrightarrow> a = b"
  by (auto simp: lit_def dest: injD [OF inj_mapI [OF inj_of_char]])

definition utf8_bytes :: "nat \<Rightarrow> nat list" where
  "utf8_bytes c =
     (if c < 128 then [c]
      else if c < 2048 then [192 + c div 64, 128 + c mod 64]
      else if c < 65536 then [224 + c div 4096, 128 + c div 64 mod 64, 128 + c mod 64]
      else [240 + c div 262144, 128 + c div 4096 mod 64, 128 + c div 64 mod 64,
            128 + c mod 64])"

definition str_bytes :: "str \<Rightarrow> nat list" where
  "str_bytes s = concat (map utf8_bytes s)"

definition str_len :: "str \<Rightarrow> nat" where
  "str_len s = length (str_bytes s)"

text \<open>The Unicode property \<open>White_Space\<close>, which \<open>str::trim\<close> strips.\<close>

definition is_whitespace :: "nat \<Rightarrow> bool" where
  "is_whitespace c \<longleftrightarrow>
     9 \<le> c \<and> c \<le> 13 \<or> c = 32 \<or> c = 133 \<or> c = 160 \<or> c = 5760 \<or> 8192 \<le> c \<and> c \<le> 8202
     \<or> c = 8232 \<or> c = 8233 \<or> c = 8239 \<or> c = 8287 \<or> c = 12288"

definition str_trim :: "str \<Rightarrow> str" where
  "str_trim s = rev (dropWhile is_whitespace (rev (dropWhile is_whitespace s)))"

text \<open>The general category \<open>Cc\<close>, which \<open>char::is_control\<close> tests.\<close>

definition is_control :: "nat \<Rightarrow> bool" where
  "is_control c \<longleftrightarrow> c < 32 \<or> 127 \<le> c \<and> c < 160"

definition is_ascii_digit :: "nat \<Rightarrow> bool" where
  "is_ascii_digit b \<longleftrightarrow> 48 \<le> b \<and> b \<le> 57"

definition is_ascii_uppercase :: "nat \<Rightarrow> bool" where
  "is_ascii_uppercase b \<longleftrightarrow> 65 \<le> b \<and> b \<le> 90"

definition is_ascii_lowercase :: "nat \<Rightarrow> bool" where
  "is_ascii_lowercase b \<longleftrightarrow> 97 \<le> b \<and> b \<le> 122"

definition is_ascii_alphanumeric :: "nat \<Rightarrow> bool" where
  "is_ascii_alphanumeric b \<longleftrightarrow> is_ascii_digit b \<or> is_ascii_uppercase b \<or> is_ascii_lowercase b"

text \<open>The byte class of nonces, secrets and tokens: base64url without padding.\<close>

definition is_base64url :: "nat \<Rightarrow> bool" where
  "is_base64url b \<longleftrightarrow> is_ascii_alphanumeric b \<or> b = 95 \<or> b = 45"

definition is_lower_hex :: "nat \<Rightarrow> bool" where
  "is_lower_hex b \<longleftrightarrow> is_ascii_digit b \<or> 97 \<le> b \<and> b \<le> 102"

lemmas ascii_class_defs =
  is_ascii_digit_def is_ascii_uppercase_def is_ascii_lowercase_def is_ascii_alphanumeric_def
  is_base64url_def is_lower_hex_def

text \<open>Decimal and hexadecimal rendering, as \<open>format!\<close> prints integers and UUIDs.\<close>

fun show_nat :: "nat \<Rightarrow> str" where
  "show_nat n = (if n < 10 then [48 + n] else show_nat (n div 10) @ [48 + n mod 10])"

declare show_nat.simps [simp del]

definition hex_digit :: "nat \<Rightarrow> nat" where
  "hex_digit n = (if n < 10 then 48 + n else 87 + n)"

fun show_hex :: "nat \<Rightarrow> nat \<Rightarrow> str" where
  "show_hex 0 n = []"
| "show_hex (Suc k) n = show_hex k (n div 16) @ [hex_digit (n mod 16)]"

text \<open>\<open>Uuid::simple\<close>: thirty-two lower-case hexadecimal digits.\<close>

definition uuid_simple :: "uuid \<Rightarrow> str" where
  "uuid_simple u = show_hex 32 (unat (uuid_bits u))"

text \<open>The hyphenated form, which \<open>Display\<close> prints.\<close>

definition uuid_to_string :: "uuid \<Rightarrow> str" where
  "uuid_to_string u =
     (let s = uuid_simple u in
      take 8 s @ [45] @ take 4 (drop 8 s) @ [45] @ take 4 (drop 12 s) @ [45]
      @ take 4 (drop 16 s) @ [45] @ drop 20 s)"

lemma str_bytes_Nil [simp]: "str_bytes [] = []"
  by (simp add: str_bytes_def)

lemma str_bytes_Cons [simp]: "str_bytes (c # s) = utf8_bytes c @ str_bytes s"
  by (simp add: str_bytes_def)

lemma str_bytes_append [simp]: "str_bytes (s @ t) = str_bytes s @ str_bytes t"
  by (simp add: str_bytes_def)

lemma str_len_Nil [simp]: "str_len [] = 0"
  by (simp add: str_len_def)

lemma str_len_append [simp]: "str_len (s @ t) = str_len s + str_len t"
  by (simp add: str_len_def)

lemma utf8_bytes_ascii [simp]: "c < 128 \<Longrightarrow> utf8_bytes c = [c]"
  by (simp add: utf8_bytes_def)

lemma utf8_bytes_neq_Nil [simp]: "utf8_bytes c \<noteq> []"
  by (simp add: utf8_bytes_def)

lemma str_len_eq_0 [simp]: "str_len s = 0 \<longleftrightarrow> s = []"
  by (cases s) (auto simp: str_len_def)

lemma length_le_str_len: "length s \<le> str_len s"
proof (induction s)
  case (Cons c s)
  have "Suc 0 \<le> length (utf8_bytes c)"
    by (simp add: utf8_bytes_def)
  with Cons show ?case by (simp add: str_len_def)
qed simp

text \<open>
  All bytes below 128 force every scalar value below 128; then bytes and scalar values are
  the same list.
\<close>

lemma utf8_bytes_small:
  assumes "\<forall>b \<in> set (utf8_bytes c). b < 128"
  shows "c < 128"
proof (rule ccontr)
  assume "\<not> c < 128"
  then have "hd (utf8_bytes c) \<ge> 128" "hd (utf8_bytes c) \<in> set (utf8_bytes c)"
    by (auto simp: utf8_bytes_def)
  with assms show False by (meson leD)
qed

lemma ascii_str_bytes:
  assumes "\<forall>b \<in> set (str_bytes s). b < 128"
  shows "str_bytes s = s"
  using assms
proof (induction s)
  case (Cons c s)
  then have "c < 128" by (auto intro: utf8_bytes_small)
  with Cons show ?case by auto
qed simp

lemma base64url_ascii: "is_base64url b \<Longrightarrow> b < 128"
  by (auto simp: ascii_class_defs)

lemma lower_hex_ascii: "is_lower_hex b \<Longrightarrow> b < 128"
  by (auto simp: ascii_class_defs)

lemma base64url_str_bytes:
  "list_all is_base64url (str_bytes s) \<Longrightarrow> str_bytes s = s \<and> str_len s = length s"
  using ascii_str_bytes [of s] base64url_ascii by (auto simp: list_all_iff str_len_def)

lemma length_show_hex [simp]: "length (show_hex k n) = k"
  by (induction k arbitrary: n) auto

lemma hex_digit_lower_hex: "n < 16 \<Longrightarrow> is_lower_hex (hex_digit n)"
  by (auto simp: hex_digit_def ascii_class_defs)

lemma show_hex_lower_hex: "c \<in> set (show_hex k n) \<Longrightarrow> is_lower_hex c"
  by (induction k arbitrary: n) (auto simp: hex_digit_lower_hex)

lemma lower_hex_base64url: "is_lower_hex b \<Longrightarrow> is_base64url b"
  by (auto simp: ascii_class_defs)

lemma str_bytes_lower_hex:
  "\<forall>c \<in> set s. is_lower_hex c \<Longrightarrow> str_bytes s = s"
  by (induction s) (auto dest: lower_hex_ascii)

lemma uuid_simple_bytes [simp]: "str_bytes (uuid_simple u) = uuid_simple u"
  by (rule str_bytes_lower_hex) (auto simp: uuid_simple_def intro: show_hex_lower_hex)

lemma uuid_simple_len [simp]: "str_len (uuid_simple u) = 32"
  by (simp add: str_len_def) (simp add: uuid_simple_def)

lemma uuid_simple_base64url [simp]: "list_all is_base64url (uuid_simple u)"
  by (auto simp: list_all_iff uuid_simple_def intro: lower_hex_base64url show_hex_lower_hex)

text \<open>Hexadecimal digits determine the number, so distinct UUIDs print differently.\<close>

lemma hex_digit_inj: "m < 16 \<Longrightarrow> n < 16 \<Longrightarrow> hex_digit m = hex_digit n \<Longrightarrow> m = n"
  by (auto simp: hex_digit_def split: if_splits)

lemma show_hex_inj:
  assumes "m < 16 ^ k" and "n < 16 ^ k" and "show_hex k m = show_hex k n"
  shows "m = n"
  using assms
proof (induction k arbitrary: m n)
  case (Suc k)
  from Suc.prems have "m div 16 < 16 ^ k" "n div 16 < 16 ^ k"
    by (auto simp: less_mult_imp_div_less mult.commute)
  moreover from Suc.prems have "show_hex k (m div 16) = show_hex k (n div 16)"
    and "hex_digit (m mod 16) = hex_digit (n mod 16)" by auto
  ultimately have "m div 16 = n div 16" and "m mod 16 = n mod 16"
    by (auto intro: Suc.IH hex_digit_inj)
  then show ?case by (metis div_mult_mod_eq)
qed simp

lemma uuid_simple_inj: "uuid_simple u = uuid_simple v \<longleftrightarrow> u = v"
proof
  assume eq: "uuid_simple u = uuid_simple v"
  have "unat (uuid_bits w) < 16 ^ 32" for w
    using unsigned_less [of "uuid_bits w"] by simp
  with eq have "unat (uuid_bits u) = unat (uuid_bits v)"
    unfolding uuid_simple_def by (blast intro: show_hex_inj)
  then show "u = v" by (auto intro: uuid.expand unsigned_word_eqI)
qed simp

section \<open>Results and outcomes\<close>

text \<open>
  A fallible operation returns \<open>error + value\<close>; a fallible operation on a state returns
  that and the state it leaves, on the error branch too. \<open>rbind\<close> and \<open>sbind\<close> stand for
  the \<open>?\<close> operator: the first error ends the computation.
\<close>

type_synonym ('e, 'a, 's) outcome = "('e + 'a) \<times> 's"

definition rbind :: "'e + 'a \<Rightarrow> ('a \<Rightarrow> 'e + 'b) \<Rightarrow> 'e + 'b" where
  "rbind r f = (case r of Inl e \<Rightarrow> Inl e | Inr x \<Rightarrow> f x)"

definition sbind :: "('e, 'a, 's) outcome \<Rightarrow> ('a \<Rightarrow> 's \<Rightarrow> ('e, 'b, 's) outcome)
    \<Rightarrow> ('e, 'b, 's) outcome" where
  "sbind m f = (case m of (Inl e, s) \<Rightarrow> (Inl e, s) | (Inr x, s) \<Rightarrow> f x s)"

definition map_err :: "('e \<Rightarrow> 'f) \<Rightarrow> 'e + 'a \<Rightarrow> 'f + 'a" where
  "map_err g r = (case r of Inl e \<Rightarrow> Inl (g e) | Inr x \<Rightarrow> Inr x)"

definition ok_or :: "'e \<Rightarrow> 'a option \<Rightarrow> 'e + 'a" where
  "ok_or e v = (case v of None \<Rightarrow> Inl e | Some x \<Rightarrow> Inr x)"

definition is_ok :: "'e + 'a \<Rightarrow> bool" where
  "is_ok r = (case r of Inl _ \<Rightarrow> False | Inr _ \<Rightarrow> True)"

definition filter_option :: "('a \<Rightarrow> bool) \<Rightarrow> 'a option \<Rightarrow> 'a option" where
  "filter_option p v = (case v of None \<Rightarrow> None | Some x \<Rightarrow> if p x then Some x else None)"

text \<open>\<open>for x in xs { f(x)?; }\<close>\<close>

fun try_each :: "('a \<Rightarrow> 'e + unit) \<Rightarrow> 'a list \<Rightarrow> 'e + unit" where
  "try_each f [] = Inr ()"
| "try_each f (x # xs) = rbind (f x) (\<lambda>_. try_each f xs)"

lemma rbind_simps [simp]:
  "rbind (Inl e) f = Inl e"
  "rbind (Inr x) f = f x"
  by (simp_all add: rbind_def)

lemma sbind_simps [simp]:
  "sbind (Inl e, s) f = (Inl e, s)"
  "sbind (Inr x, s) f = f x s"
  by (simp_all add: sbind_def)

lemma map_err_simps [simp]:
  "map_err g (Inl e) = Inl (g e)"
  "map_err g (Inr x) = Inr x"
  by (simp_all add: map_err_def)

lemma ok_or_simps [simp]:
  "ok_or e None = Inl e"
  "ok_or e (Some x) = Inr x"
  by (simp_all add: ok_or_def)

lemma is_ok_simps [simp]:
  "is_ok (Inl e) = False"
  "is_ok (Inr x) = True"
  by (simp_all add: is_ok_def)

lemma filter_option_simps [simp]:
  "filter_option p None = None"
  "filter_option p (Some x) = (if p x then Some x else None)"
  by (simp_all add: filter_option_def)

lemma filter_option_Some_iff [simp]: "filter_option p v = Some x \<longleftrightarrow> v = Some x \<and> p x"
  by (cases v) auto

lemma rbind_Inr_iff [simp]: "rbind r f = Inr y \<longleftrightarrow> (\<exists>x. r = Inr x \<and> f x = Inr y)"
  by (cases r) auto

lemma map_err_Inr_iff [simp]: "map_err g r = Inr x \<longleftrightarrow> r = Inr x"
  by (cases r) auto

lemma ok_or_Inr_iff [simp]: "ok_or e v = Inr x \<longleftrightarrow> v = Some x"
  by (cases v) auto

lemma sbind_assoc: "sbind (sbind m f) g = sbind m (\<lambda>x s. sbind (f x s) g)"
  by (cases m; cases "fst m") auto

lemma sbind_Inr_iff:
  "sbind m f = (Inr y, t) \<longleftrightarrow> (\<exists>x s. m = (Inr x, s) \<and> f x s = (Inr y, t))"
  by (cases m; cases "fst m") auto

lemma try_each_Inr_iff: "try_each f xs = Inr u \<longleftrightarrow> (\<forall>x \<in> set xs. f x = Inr ())"
  by (induction xs) auto

text \<open>
  The postcondition calculus: \<open>outcome Q E m\<close> says that the outcome \<open>m\<close> satisfies \<open>Q\<close> on
  success and \<open>E\<close> on failure. The rules decompose a handler along its \<open>?\<close> steps.
\<close>

definition outcome :: "('a \<Rightarrow> 's \<Rightarrow> bool) \<Rightarrow> ('e \<Rightarrow> 's \<Rightarrow> bool) \<Rightarrow> ('e, 'a, 's) outcome \<Rightarrow> bool"
  where "outcome Q E m = (case m of (Inl e, s) \<Rightarrow> E e s | (Inr x, s) \<Rightarrow> Q x s)"

lemma outcome_simps [simp]:
  "outcome Q E (Inl e, s) = E e s"
  "outcome Q E (Inr x, s) = Q x s"
  by (simp_all add: outcome_def)

lemma outcome_sbind [simp]:
  "outcome Q E (sbind m f) = outcome (\<lambda>x s. outcome Q E (f x s)) E m"
  by (cases m; cases "fst m") auto

lemma outcome_mono:
  assumes "outcome Q E m" "\<And>x s. Q x s \<Longrightarrow> Q' x s" "\<And>e s. E e s \<Longrightarrow> E' e s"
  shows "outcome Q' E' m"
  using assms by (cases m; cases "fst m") auto

lemma outcome_const: "outcome (\<lambda>_. P) (\<lambda>_. P) m \<longleftrightarrow> P (snd m)"
  by (cases m; cases "fst m") auto

lemma outcome_InrD: "outcome Q E m \<Longrightarrow> m = (Inr x, s) \<Longrightarrow> Q x s"
  by simp

lemma outcome_InlD: "outcome Q E m \<Longrightarrow> m = (Inl e, s) \<Longrightarrow> E e s"
  by simp

lemma outcome_pure [simp]:
  "outcome Q E (r, s) = (case r of Inl e \<Rightarrow> E e s | Inr x \<Rightarrow> Q x s)"
  by (cases r) auto

lemma outcome_sbindI:
  assumes "outcome R E m" and "\<And>x s. R x s \<Longrightarrow> outcome Q E (f x s)"
  shows "outcome Q E (sbind m f)"
  using assms by (simp, blast intro: outcome_mono)

lemma outcome_sbindW:
  assumes "outcome R F m" and "\<And>x s. R x s \<Longrightarrow> outcome Q E (f x s)" and "\<And>e s. F e s \<Longrightarrow> E e s"
  shows "outcome Q E (sbind m f)"
  using assms by (simp, blast intro: outcome_mono)

lemma outcome_pure_bindI [outcome_rules]:
  assumes "\<And>x. r = Inr x \<Longrightarrow> outcome Q E (f x s)" and "\<And>e. r = Inl e \<Longrightarrow> E e s"
  shows "outcome Q E (sbind (r, s) f)"
  using assms by (cases r) auto

lemma outcome_ifI [outcome_rules]:
  assumes "b \<Longrightarrow> outcome Q E m" and "\<not> b \<Longrightarrow> outcome Q E m'"
  shows "outcome Q E (if b then m else m')"
  using assms by simp

lemma outcome_sumI [outcome_rules]:
  assumes "\<And>x. r = Inr x \<Longrightarrow> outcome Q E (g x)" and "\<And>e. r = Inl e \<Longrightarrow> outcome Q E (f e)"
  shows "outcome Q E (case r of Inl e \<Rightarrow> f e | Inr x \<Rightarrow> g x)"
  using assms by (cases r) auto

lemma outcome_optionI [outcome_rules]:
  assumes "\<And>x. v = Some x \<Longrightarrow> outcome Q E (g x)" and "v = None \<Longrightarrow> outcome Q E m"
  shows "outcome Q E (case v of None \<Rightarrow> m | Some x \<Rightarrow> g x)"
  using assms by (cases v) auto

lemma outcome_InlI [outcome_rules]: "E e s \<Longrightarrow> outcome Q E (Inl e, s)"
  by simp

lemma outcome_InrI [outcome_rules]: "Q x s \<Longrightarrow> outcome Q E (Inr x, s)"
  by simp

lemma outcome_conj:
  "outcome Q E m \<Longrightarrow> outcome Q' E' m
   \<Longrightarrow> outcome (\<lambda>x s. Q x s \<and> Q' x s) (\<lambda>e s. E e s \<and> E' e s) m"
  by (cases m; cases "fst m") auto

lemma outcome_caseI:
  assumes "outcome R F m" and "\<And>x s. R x s \<Longrightarrow> outcome Q E (g x s)"
    and "\<And>e s. F e s \<Longrightarrow> outcome Q E (f e s)"
  shows "outcome Q E (case m of (Inl e, s) \<Rightarrow> f e s | (Inr x, s) \<Rightarrow> g x s)"
  using assms by (cases m; cases "fst m") auto

section \<open>The host: clock and randomness\<close>

text \<open>
  The operating system's clock and random UUIDs are oracles: the \<open>i\<close>-th read of the clock
  returns \<open>clock_at i\<close>, the \<open>i\<close>-th version-4 UUID is \<open>uuid_at i\<close>. Nothing is assumed of
  either; a statement that needs fresh or non-nil UUIDs says so.
\<close>

record host =
  clock_at :: "nat \<Rightarrow> u64"
  clock_reads :: nat
  uuid_at :: "nat \<Rightarrow> uuid"
  uuid_draws :: nat

definition now_unix_ms :: "host \<Rightarrow> u64 \<times> host" where
  "now_unix_ms h = (clock_at h (clock_reads h), h\<lparr>clock_reads := Suc (clock_reads h)\<rparr>)"

definition new_v4 :: "host \<Rightarrow> uuid \<times> host" where
  "new_v4 h = (uuid_at h (uuid_draws h), h\<lparr>uuid_draws := Suc (uuid_draws h)\<rparr>)"

section \<open>Hash maps as association lists\<close>

text \<open>
  A \<open>HashMap\<close> is an association list with distinct keys; its order stands for the
  unspecified iteration order. Insertion is \<open>AList.update\<close>, lookup \<open>map_of\<close>.
\<close>

type_synonym ('k, 'v) hmap = "('k \<times> 'v) list"

abbreviation keys_distinct :: "('k, 'v) hmap \<Rightarrow> bool" where
  "keys_distinct m \<equiv> distinct (map fst m)"

lemma map_of_update [simp]: "map_of (AList.update k v m) = (map_of m)(k \<mapsto> v)"
  by (simp add: update_conv')

lemma map_of_delete [simp]: "map_of (AList.delete k m) = (map_of m)(k := None)"
  by (simp add: delete_conv')

lemma set_update_keys: "fst ` set (AList.update k v m) = insert k (fst ` set m)"
  by (metis dom_map_of_conv_image_fst dom_fun_upd map_of_update option.distinct(1))

lemma in_set_update:
  "keys_distinct m \<Longrightarrow> (k', v') \<in> set (AList.update k v m)
    \<longleftrightarrow> (if k' = k then v' = v else (k', v') \<in> set m)"
  by (metis distinct_update fun_upd_apply map_of_eq_Some_iff map_of_update option.inject)

lemma length_update_absent: "map_of m k = None \<Longrightarrow> length (AList.update k v m) = Suc (length m)"
  by (induction m) (auto split: if_splits)

lemma length_update_present:
  "map_of m k \<noteq> None \<Longrightarrow> length (AList.update k v m) = length m"
  by (induction m) (auto split: if_splits)

end
