(* ===== verification/Wire_Protocol.thy ===== *)
theory Wire_Protocol
  imports Prelude
begin

text \<open>
  The types both sides of the remote protocol share (\<open>crates/verisilo-remote-backend/src/lib.rs\<close>):
  limits, TLS pins and endpoints, the nine lifecycle operations and their capabilities,
  network policies, guest evidence with its validation, the controller's error type with its
  rendering, and the freshness, nonce and text checks. Parsing of URLs is the \<open>url\<close> crate's;
  it is the parameter \<open>parse_url\<close> of the definitions that use it.
\<close>

section \<open>Limits\<close>

definition PROTOCOL_VERSION :: u16 where "PROTOCOL_VERSION = 1"
definition MAX_MESSAGE_BYTES :: nat where "MAX_MESSAGE_BYTES = 64 * 1024"
definition MAX_PAIRING_TOKEN_LIFETIME_MS :: u64 where
  "MAX_PAIRING_TOKEN_LIFETIME_MS = 5 * 60 * 1000"
definition MAX_TLS_PIN_ROTATION_AUTHORIZATION_LIFETIME_MS :: u64 where
  "MAX_TLS_PIN_ROTATION_AUTHORIZATION_LIFETIME_MS = 60 * 1000"
definition MAX_CLOCK_SKEW_MS :: u64 where "MAX_CLOCK_SKEW_MS = 2 * 60 * 1000"
definition MAX_EVIDENCE_AGE_MS :: u64 where "MAX_EVIDENCE_AGE_MS = 2 * 60 * 1000"
definition MAX_LOG_ENTRIES :: u16 where "MAX_LOG_ENTRIES = 200"
definition MAX_REPLAY_WINDOW_ENTRIES :: nat where "MAX_REPLAY_WINDOW_ENTRIES = 4096"
definition MAX_STORED_BINDINGS :: nat where "MAX_STORED_BINDINGS = 10000"
definition MAX_AUTOMATION_AUTHORIZATIONS_PER_SILO :: nat where
  "MAX_AUTOMATION_AUTHORIZATIONS_PER_SILO = 128"
definition MAX_TEXT_BYTES :: nat where "MAX_TEXT_BYTES = 1024"

lemmas protocol_limits =
  PROTOCOL_VERSION_def MAX_MESSAGE_BYTES_def MAX_PAIRING_TOKEN_LIFETIME_MS_def
  MAX_TLS_PIN_ROTATION_AUTHORIZATION_LIFETIME_MS_def MAX_CLOCK_SKEW_MS_def
  MAX_EVIDENCE_AGE_MS_def MAX_LOG_ENTRIES_def MAX_REPLAY_WINDOW_ENTRIES_def
  MAX_STORED_BINDINGS_def MAX_AUTOMATION_AUTHORIZATIONS_PER_SILO_def MAX_TEXT_BYTES_def

section \<open>Data\<close>

datatype endpoint_ownership = UserSelfHosted

datatype tls_pin_kind = CertificateSha256 | SpkiSha256

record tls_pin =
  pin_kind :: tls_pin_kind
  pin_sha256 :: str

record remote_endpoint =
  ep_ownership :: endpoint_ownership
  ep_origin :: str
  ep_pin :: tls_pin

datatype remote_operation =
    Create | Start | Stop | Pause | Snapshot | Destroy | ConfigureNetwork | Health | Logs

definition ALL_OPERATIONS :: "remote_operation list" where
  "ALL_OPERATIONS =
     [remote_operation.Create, remote_operation.Start, remote_operation.Stop,
      remote_operation.Pause, remote_operation.Snapshot, remote_operation.Destroy,
      remote_operation.ConfigureNetwork, remote_operation.Health, remote_operation.Logs]"

datatype capability_availability = Available | Unavailable str

record remote_capability =
  cap_operation :: remote_operation
  cap_availability :: capability_availability

datatype remote_network_policy = Direct | FixedProxy bool uuid

fun requires_proxy :: "remote_network_policy \<Rightarrow> bool" where
  "requires_proxy (FixedProxy required _) = required"
| "requires_proxy Direct = False"

fun policy_id :: "remote_network_policy \<Rightarrow> uuid option" where
  "policy_id (FixedProxy _ pid) = Some pid"
| "policy_id Direct = None"

datatype guest_evidence_source = GuestAgent

datatype evidence_check_state = Verified | Failed | Unavailable

datatype proxy_evidence_state = NotRequired | Enforced | Failed | Unavailable

record proxy_evidence =
  px_state :: proxy_evidence_state
  px_policy_id :: "uuid option"

record exit_evidence =
  ex_state :: evidence_check_state
  ex_public_addresses :: "str list"

record dns_evidence =
  dns_state :: evidence_check_state
  dns_resolvers :: "str list"
  dns_leak_detected :: bool

record web_rtc_evidence =
  rtc_state :: evidence_check_state
  rtc_observed_candidates :: "str list"
  rtc_leak_detected :: bool

datatype guest_health_state = Healthy | Degraded | Unhealthy

record guest_health_evidence =
  gh_state :: guest_health_state
  gh_agent_version :: str
  gh_checks :: "str list"

record guest_evidence =
  ge_protocol_version :: u16
  ge_evidence_id :: uuid
  ge_binding_id :: uuid
  ge_remote_environment_id :: uuid
  ge_source :: guest_evidence_source
  ge_sequence :: u64
  ge_observed_at_unix_ms :: u64
  ge_proxy :: proxy_evidence
  ge_exit :: exit_evidence
  ge_dns :: dns_evidence
  ge_web_rtc :: web_rtc_evidence
  ge_health :: guest_health_evidence

datatype rejection_code =
    NotPaired | Unauthorized | InvalidState | InvalidRequest | StaleRequest | Replay
  | LimitExceeded | ProxyUnverified

datatype pairing_rejection_code =
    ApprovalRequired | TokenExpired | TokenInvalid | Replay | LimitExceeded
  | RotationAuthorizationInvalid

text \<open>The claim a controller presents with a rotation pairing.\<close>

record tls_pin_rotation_pairing_claim =
  tc_challenge :: str
  tc_server_id :: uuid
  tc_old_client_credential_id :: uuid
  tc_authorization_request_id :: uuid
  tc_authorization_request_nonce :: str
  tc_authorization_request_sequence :: u64
  tc_authorization_response_sequence :: u64
  tc_authorization_expires_at_unix_ms :: u64
  tc_pairing_token_id :: uuid
  tc_new_pin :: tls_pin

section \<open>Errors of the controller side\<close>

datatype remote_backend_error =
    InvalidEndpoint str
  | InvalidRequest str
  | Protocol str
  | VersionMismatch u16 u16
  | TlsNotValidated
  | PinMismatch
  | PairingApprovalRequired
  | PairingTokenLifetime
  | PairingTokenReplay
  | AlreadyPaired
  | NotPaired
  | CredentialExpired
  | ReplayDetected
  | StaleMessage
  | SequenceReplay
  | Unavailable remote_operation str
  | Rejected rejection_code str
  | PairingRejected pairing_rejection_code str
  | SiloAlreadyBound uuid
  | SiloNotBound uuid
  | BindingMismatch
  | RotationOriginMismatch
  | RotationPinUnchanged
  | RotationAuthorizationExpired
  | RotationServerMismatch uuid uuid
  | ForceDetachConfirmationRequired
  | RequiredProxyUnverified
  | RemoteBlocked
  | InteractiveUnavailable str
  | InteractiveRejected rejection_code str
  | LimitExceeded str
  | Json str
  | Transport str
  | Store str

fun debug_operation :: "remote_operation \<Rightarrow> str" where
  "debug_operation remote_operation.Create = lit ''Create''"
| "debug_operation remote_operation.Start = lit ''Start''"
| "debug_operation remote_operation.Stop = lit ''Stop''"
| "debug_operation remote_operation.Pause = lit ''Pause''"
| "debug_operation remote_operation.Snapshot = lit ''Snapshot''"
| "debug_operation remote_operation.Destroy = lit ''Destroy''"
| "debug_operation remote_operation.ConfigureNetwork = lit ''ConfigureNetwork''"
| "debug_operation remote_operation.Health = lit ''Health''"
| "debug_operation remote_operation.Logs = lit ''Logs''"

fun debug_rejection_code :: "rejection_code \<Rightarrow> str" where
  "debug_rejection_code rejection_code.NotPaired = lit ''NotPaired''"
| "debug_rejection_code rejection_code.Unauthorized = lit ''Unauthorized''"
| "debug_rejection_code rejection_code.InvalidState = lit ''InvalidState''"
| "debug_rejection_code rejection_code.InvalidRequest = lit ''InvalidRequest''"
| "debug_rejection_code rejection_code.StaleRequest = lit ''StaleRequest''"
| "debug_rejection_code rejection_code.Replay = lit ''Replay''"
| "debug_rejection_code rejection_code.LimitExceeded = lit ''LimitExceeded''"
| "debug_rejection_code rejection_code.ProxyUnverified = lit ''ProxyUnverified''"

fun debug_pairing_rejection_code :: "pairing_rejection_code \<Rightarrow> str" where
  "debug_pairing_rejection_code pairing_rejection_code.ApprovalRequired = lit ''ApprovalRequired''"
| "debug_pairing_rejection_code pairing_rejection_code.TokenExpired = lit ''TokenExpired''"
| "debug_pairing_rejection_code pairing_rejection_code.TokenInvalid = lit ''TokenInvalid''"
| "debug_pairing_rejection_code pairing_rejection_code.Replay = lit ''Replay''"
| "debug_pairing_rejection_code pairing_rejection_code.LimitExceeded = lit ''LimitExceeded''"
| "debug_pairing_rejection_code pairing_rejection_code.RotationAuthorizationInvalid =
     lit ''RotationAuthorizationInvalid''"

text \<open>\<open>to_string\<close> of the error type, from its \<open>#[error]\<close> attributes.\<close>

fun error_to_string :: "remote_backend_error \<Rightarrow> str" where
  "error_to_string (remote_backend_error.InvalidEndpoint m) = lit ''Invalid remote endpoint: '' @ m"
| "error_to_string (remote_backend_error.InvalidRequest m) = lit ''Invalid remote request: '' @ m"
| "error_to_string (remote_backend_error.Protocol m) = lit ''Remote protocol error: '' @ m"
| "error_to_string (remote_backend_error.VersionMismatch expected actual) =
     lit ''Remote protocol version mismatch: expected '' @ show_nat (unat expected)
     @ lit '', received '' @ show_nat (unat actual)"
| "error_to_string remote_backend_error.TlsNotValidated =
     lit ''Remote transport did not validate ordinary TLS''"
| "error_to_string remote_backend_error.PinMismatch =
     lit ''Remote TLS certificate/public-key pin did not match''"
| "error_to_string remote_backend_error.PairingApprovalRequired =
     lit ''Pairing requires an explicit user approval''"
| "error_to_string remote_backend_error.PairingTokenLifetime =
     lit ''Pairing token is expired or exceeds the five-minute lifetime''"
| "error_to_string remote_backend_error.PairingTokenReplay =
     lit ''Pairing token has already been used locally''"
| "error_to_string remote_backend_error.AlreadyPaired = lit ''Remote backend is already paired''"
| "error_to_string remote_backend_error.NotPaired = lit ''Remote backend is not paired''"
| "error_to_string remote_backend_error.CredentialExpired = lit ''Remote credential expired''"
| "error_to_string remote_backend_error.ReplayDetected =
     lit ''Replay detected in remote response''"
| "error_to_string remote_backend_error.StaleMessage =
     lit ''Stale or future remote message timestamp''"
| "error_to_string remote_backend_error.SequenceReplay =
     lit ''Remote response sequence did not advance''"
| "error_to_string (remote_backend_error.Unavailable operation reason) =
     lit ''Remote operation '' @ debug_operation operation @ lit '' is unavailable: '' @ reason"
| "error_to_string (remote_backend_error.Rejected code message) =
     lit ''Remote request was rejected ('' @ debug_rejection_code code @ lit ''): '' @ message"
| "error_to_string (remote_backend_error.PairingRejected code message) =
     lit ''Remote pairing was rejected ('' @ debug_pairing_rejection_code code @ lit ''): ''
     @ message"
| "error_to_string (remote_backend_error.SiloAlreadyBound silo_id) =
     lit ''Silo '' @ uuid_to_string silo_id @ lit '' already has a stable remote binding''"
| "error_to_string (remote_backend_error.SiloNotBound silo_id) =
     lit ''Silo '' @ uuid_to_string silo_id @ lit '' has no remote binding''"
| "error_to_string remote_backend_error.BindingMismatch =
     lit ''Remote response does not match the Silo binding''"
| "error_to_string remote_backend_error.RotationOriginMismatch =
     lit ''TLS pin rotation must keep the existing HTTPS origin''"
| "error_to_string remote_backend_error.RotationPinUnchanged =
     lit ''TLS pin rotation requires a different certificate/public-key pin''"
| "error_to_string remote_backend_error.RotationAuthorizationExpired =
     lit ''TLS pin rotation authorization expired before the new pin was contacted''"
| "error_to_string (remote_backend_error.RotationServerMismatch expected actual) =
     lit ''TLS pin rotation reached a different server: expected '' @ uuid_to_string expected
     @ lit '', received '' @ uuid_to_string actual"
| "error_to_string remote_backend_error.ForceDetachConfirmationRequired =
     lit ''Force detach requires both local-removal and remote-orphan risk confirmations''"
| "error_to_string remote_backend_error.RequiredProxyUnverified =
     lit ''Required proxy guest evidence is missing, stale, failed, or leaked''"
| "error_to_string remote_backend_error.RemoteBlocked =
     lit ''Remote provider reported the operation as blocked''"
| "error_to_string (remote_backend_error.InteractiveUnavailable m) =
     lit ''Remote interactive provider is unavailable: '' @ m"
| "error_to_string (remote_backend_error.InteractiveRejected code message) =
     lit ''Remote interactive request was rejected ('' @ debug_rejection_code code
     @ lit ''): '' @ message"
| "error_to_string (remote_backend_error.LimitExceeded m) =
     lit ''Remote message exceeds a protocol limit: '' @ m"
| "error_to_string (remote_backend_error.Json m) = lit ''Remote JSON error: '' @ m"
| "error_to_string (remote_backend_error.Transport m) = lit ''Remote transport error: '' @ m"
| "error_to_string (remote_backend_error.Store m) = lit ''Remote binding store error: '' @ m"

section \<open>Checks\<close>

definition validate_fresh_timestamp ::
    "u64 \<Rightarrow> u64 \<Rightarrow> u64 \<Rightarrow> remote_backend_error + unit" where
  "validate_fresh_timestamp sent_at_unix_ms now_ms allowed_skew_ms =
     (if allowed_skew_ms < abs_diff sent_at_unix_ms now_ms
      then Inl remote_backend_error.StaleMessage else Inr ())"

definition validate_nonce :: "str \<Rightarrow> remote_backend_error + unit" where
  "validate_nonce nonce =
     (if \<not> (32 \<le> str_len nonce \<and> str_len nonce \<le> 128)
         \<or> \<not> list_all is_base64url (str_bytes nonce)
      then Inl (remote_backend_error.Protocol
             (lit ''Nonce must be 32-128 base64url characters.''))
      else Inr ())"

definition validate_text :: "str \<Rightarrow> str \<Rightarrow> remote_backend_error + unit" where
  "validate_text label value =
     (if str_trim value = [] \<or> MAX_TEXT_BYTES < str_len value
      then Inl (remote_backend_error.LimitExceeded
             (label @ lit '' must contain 1-'' @ show_nat MAX_TEXT_BYTES @ lit '' bytes''))
      else Inr ())"

definition validate_string_list ::
    "str \<Rightarrow> str list \<Rightarrow> nat \<Rightarrow> nat \<Rightarrow> remote_backend_error + unit" where
  "validate_string_list label values max_items max_item_bytes =
     (if max_items < length values
         \<or> list_ex (\<lambda>value. str_trim value = [] \<or> max_item_bytes < str_len value) values
      then Inl (remote_backend_error.LimitExceeded
             (label @ lit '' exceeds its item or byte limit''))
      else Inr ())"

definition valid_secret_token :: "str \<Rightarrow> nat \<Rightarrow> nat \<Rightarrow> bool" where
  "valid_secret_token value minimum maximum \<longleftrightarrow>
     minimum \<le> str_len value \<and> str_len value \<le> maximum
     \<and> list_all is_base64url (str_bytes value)"

definition new_nonce :: "host \<Rightarrow> str \<times> host" where
  "new_nonce h =
     (let (a, h) = new_v4 h; (b, h) = new_v4 h in (uuid_simple a @ uuid_simple b, h))"

definition tls_pin_validate :: "tls_pin \<Rightarrow> remote_backend_error + unit" where
  "tls_pin_validate pin =
     (if str_len (pin_sha256 pin) \<noteq> 64
         \<or> \<not> list_all is_lower_hex (str_bytes (pin_sha256 pin))
         \<or> list_all (\<lambda>byte. byte = 48) (str_bytes (pin_sha256 pin))
      then Inl (remote_backend_error.InvalidEndpoint
             (lit ''TLS pin must be a non-zero, lowercase SHA-256 hex digest.''))
      else Inr ())"

text \<open>
  What \<open>url::Url\<close> answers about a parsed URL; \<open>parse_url\<close> is \<open>Url::parse\<close>, with the text of
  its error.
\<close>

record url_parts =
  url_scheme :: str
  url_host :: "str option"
  url_username :: str
  url_password :: "str option"
  url_query :: "str option"
  url_fragment :: "str option"
  url_path :: str
  url_origin :: str

definition endpoint_validate ::
    "(str \<Rightarrow> str + url_parts) \<Rightarrow> remote_endpoint \<Rightarrow> remote_backend_error + unit" where
  "endpoint_validate parse_url ep =
     rbind (tls_pin_validate (ep_pin ep)) (\<lambda>_.
     rbind (map_err (\<lambda>error. remote_backend_error.InvalidEndpoint
              (lit ''Endpoint is not a URL: '' @ error)) (parse_url (ep_origin ep))) (\<lambda>url.
     if url_scheme url \<noteq> lit ''https'' \<or> url_host url = None \<or> url_username url \<noteq> []
        \<or> url_password url \<noteq> None \<or> url_query url \<noteq> None \<or> url_fragment url \<noteq> None
        \<or> url_path url \<noteq> lit ''/''
     then Inl (remote_backend_error.InvalidEndpoint
       (lit ''Endpoint must be a credential-free HTTPS origin with no path, query, or fragment.''))
     else Inr ()))"

definition same_https_origin ::
    "(str \<Rightarrow> str + url_parts) \<Rightarrow> remote_endpoint \<Rightarrow> remote_endpoint \<Rightarrow> bool" where
  "same_https_origin parse_url left right =
     (case parse_url (ep_origin left) of Inl _ \<Rightarrow> False
      | Inr l \<Rightarrow> (case parse_url (ep_origin right) of Inl _ \<Rightarrow> False
                 | Inr r \<Rightarrow> url_origin l = url_origin r))"

definition count_capability :: "remote_capability list \<Rightarrow> remote_operation \<Rightarrow> nat" where
  "count_capability capabilities operation =
     length (filter (\<lambda>c. cap_operation c = operation) capabilities)"

definition validate_capabilities :: "remote_capability list \<Rightarrow> remote_backend_error + unit" where
  "validate_capabilities capabilities =
     (if length capabilities \<noteq> length ALL_OPERATIONS
      then Inl (remote_backend_error.Protocol
             (lit ''Capability response must describe exactly nine operations.''))
      else rbind (try_each (\<lambda>operation.
             if count_capability capabilities operation \<noteq> 1
             then Inl (remote_backend_error.Protocol
                    (lit ''Capability response must describe '' @ debug_operation operation
                     @ lit '' exactly once.''))
             else Inr ()) ALL_OPERATIONS) (\<lambda>_.
           try_each (\<lambda>capability. case cap_availability capability of
               capability_availability.Unavailable reason \<Rightarrow>
                 validate_text (lit ''unavailable reason'') reason
             | Available \<Rightarrow> Inr ()) capabilities))"

section \<open>Guest evidence\<close>

definition guest_evidence_validate ::
    "guest_evidence \<Rightarrow> uuid \<Rightarrow> uuid \<Rightarrow> u64 \<Rightarrow> remote_backend_error + unit" where
  "guest_evidence_validate ev binding_id remote_environment_id now_ms =
     (if ge_protocol_version ev \<noteq> PROTOCOL_VERSION
      then Inl (remote_backend_error.VersionMismatch PROTOCOL_VERSION (ge_protocol_version ev))
      else if ge_binding_id ev \<noteq> binding_id
              \<or> ge_remote_environment_id ev \<noteq> remote_environment_id
      then Inl remote_backend_error.BindingMismatch
      else if ge_sequence ev = 0
      then Inl (remote_backend_error.Protocol (lit ''Guest evidence sequence must be positive.''))
      else
        rbind (validate_fresh_timestamp (ge_observed_at_unix_ms ev) now_ms MAX_EVIDENCE_AGE_MS) (\<lambda>_.
        rbind (validate_string_list (lit ''exit addresses'')
                 (ex_public_addresses (ge_exit ev)) 16 128) (\<lambda>_.
        rbind (validate_string_list (lit ''DNS resolvers'')
                 (dns_resolvers (ge_dns ev)) 16 128) (\<lambda>_.
        rbind (validate_string_list (lit ''WebRTC candidates'')
                 (rtc_observed_candidates (ge_web_rtc ev)) 32 128) (\<lambda>_.
        rbind (validate_text (lit ''guest agent version'') (gh_agent_version (ge_health ev))) (\<lambda>_.
        rbind (validate_string_list (lit ''health checks'')
                 (gh_checks (ge_health ev)) 32 MAX_TEXT_BYTES) (\<lambda>_.
        Inr ())))))))"

definition validates_required_proxy :: "guest_evidence \<Rightarrow> remote_network_policy \<Rightarrow> bool" where
  "validates_required_proxy ev network \<longleftrightarrow>
     (if \<not> requires_proxy network then True
      else px_state (ge_proxy ev) = proxy_evidence_state.Enforced
        \<and> px_policy_id (ge_proxy ev) = policy_id network
        \<and> ex_state (ge_exit ev) = evidence_check_state.Verified
        \<and> ex_public_addresses (ge_exit ev) \<noteq> []
        \<and> dns_state (ge_dns ev) = evidence_check_state.Verified
        \<and> \<not> dns_leak_detected (ge_dns ev)
        \<and> rtc_state (ge_web_rtc ev) = evidence_check_state.Verified
        \<and> \<not> rtc_leak_detected (ge_web_rtc ev)
        \<and> gh_state (ge_health ev) = guest_health_state.Healthy)"

section \<open>Facts the components share\<close>

lemma validate_fresh_timestamp_Inr [simp]:
  "validate_fresh_timestamp sent now skew = Inr u \<longleftrightarrow> abs_diff sent now \<le> skew"
  by (auto simp: validate_fresh_timestamp_def)

lemma validate_text_Inr:
  "validate_text label value = Inr u \<longleftrightarrow> str_trim value \<noteq> [] \<and> str_len value \<le> MAX_TEXT_BYTES"
  by (auto simp: validate_text_def)

lemma validate_string_list_Inr:
  "validate_string_list label values items bytes = Inr u \<longleftrightarrow>
     length values \<le> items
     \<and> (\<forall>v \<in> set values. str_trim v \<noteq> [] \<and> str_len v \<le> bytes)"
  by (auto simp: validate_string_list_def list_ex_iff intro: leI dest: leD)

lemma validate_nonce_Inr:
  "validate_nonce n = Inr u \<longleftrightarrow>
     32 \<le> str_len n \<and> str_len n \<le> 128 \<and> list_all is_base64url (str_bytes n)"
  by (auto simp: validate_nonce_def)

lemma tls_pin_validate_Inr:
  "tls_pin_validate pin = Inr u \<longleftrightarrow>
     str_len (pin_sha256 pin) = 64 \<and> list_all is_lower_hex (str_bytes (pin_sha256 pin))
     \<and> \<not> list_all (\<lambda>byte. byte = 48) (str_bytes (pin_sha256 pin))"
  by (auto simp: tls_pin_validate_def)

lemma guest_evidence_validate_Inr:
  "guest_evidence_validate ev b r now = Inr u \<Longrightarrow>
     ge_protocol_version ev = PROTOCOL_VERSION \<and> ge_binding_id ev = b
     \<and> ge_remote_environment_id ev = r \<and> ge_sequence ev \<noteq> 0
     \<and> abs_diff (ge_observed_at_unix_ms ev) now \<le> MAX_EVIDENCE_AGE_MS"
  by (auto simp: guest_evidence_validate_def split: if_splits)

lemma length_ALL_OPERATIONS [simp]: "length ALL_OPERATIONS = 9"
  by (simp add: ALL_OPERATIONS_def)

lemma set_ALL_OPERATIONS [simp]: "set ALL_OPERATIONS = UNIV"
  by (auto simp: ALL_OPERATIONS_def) (metis remote_operation.exhaust)

lemma validate_capabilities_Inr:
  "validate_capabilities cs = Inr u \<Longrightarrow>
     length cs = 9 \<and> (\<forall>operation. count_capability cs operation = 1)"
  by (auto simp: validate_capabilities_def try_each_Inr_iff split: if_splits)

text \<open>The controller's nonces pass its own and the agent's checks.\<close>

lemma new_nonce_valid: "validate_nonce (fst (new_nonce h)) = Inr ()"
  by (simp add: validate_nonce_Inr new_nonce_def split_def Let_def)

end
