(* ===== verification/Agent_Types.thy ===== *)
theory Agent_Types
  imports Wire_Protocol
begin

text \<open>
  The data model of the remote Agent (\<open>crates/verisilo-remote-backend/src/agent.rs\<close>):
  disclosures, environment records, deletion receipts and proofs, authorizations, commands,
  requests and responses, the Agent's error type, and the checks on them that need no state.
\<close>

section \<open>Limits\<close>

definition MAX_ENVIRONMENT_TTL_SECONDS :: u64 where
  "MAX_ENVIRONMENT_TTL_SECONDS = 30 * 24 * 60 * 60"
definition MAX_HUMAN_SESSION_SECONDS :: u64 where "MAX_HUMAN_SESSION_SECONDS = 8 * 60 * 60"
definition MAX_AUTOMATION_SECONDS :: u64 where "MAX_AUTOMATION_SECONDS = 60 * 60"
definition MAX_INPUT_EVENTS :: nat where "MAX_INPUT_EVENTS = 128"
definition MAX_ACTIVITY_ENTRIES :: nat where "MAX_ACTIVITY_ENTRIES = 2000"
definition MAX_SCREEN_CHANNEL_LIFETIME_MS :: u64 where
  "MAX_SCREEN_CHANNEL_LIFETIME_MS = 5 * 60 * 1000"

lemmas agent_limits =
  MAX_ENVIRONMENT_TTL_SECONDS_def MAX_HUMAN_SESSION_SECONDS_def MAX_AUTOMATION_SECONDS_def
  MAX_INPUT_EVENTS_def MAX_ACTIVITY_ENTRIES_def MAX_SCREEN_CHANNEL_LIFETIME_MS_def

section \<open>Data\<close>

datatype node_ownership = UserSelfHosted

datatype key_custody = UserControlled

record cost_disclosure =
  cost_currency :: str
  cost_estimated_micros_per_hour :: u64
  cost_notice :: str

record node_disclosure =
  nd_node_id :: uuid
  nd_ownership :: node_ownership
  nd_operator_label :: str
  nd_data_region :: str
  nd_key_custody :: key_custody
  nd_cost :: cost_disclosure

datatype environment_state = Provisioning | Created | Running | Stopped | Paused | Deleted

record volume_attestation =
  va_encrypted :: bool
  va_key_custody :: key_custody
  va_volume_id :: uuid
  va_key_id :: uuid

record environment_record =
  er_silo_id :: uuid
  er_binding_id :: uuid
  er_remote_environment_id :: uuid
  er_node_id :: uuid
  er_state :: environment_state
  er_network :: remote_network_policy
  er_volume :: volume_attestation
  er_created_at_unix_ms :: u64
  er_expires_at_unix_ms :: u64
  er_last_activity_at_unix_ms :: u64
  er_deletion_proof_id :: "uuid option"

datatype deletion_reason = UserConfirmed | TtlExpired | ProviderPolicy

datatype deletion_resource_kind =
    ComputeInstance | PersistentVolume | ResourceSnapshot | EphemeralKey

datatype deletion_resource_status = Deleted | NotApplicable

record resource_deletion_item =
  rd_kind :: deletion_resource_kind
  rd_resource_id :: "uuid option"
  rd_status :: deletion_resource_status

record provider_deletion_receipt =
  pr_receipt_id :: uuid
  pr_remote_environment_id :: uuid
  pr_volume_id :: uuid
  pr_resource_deletions :: "resource_deletion_item list"

record deletion_proof =
  dp_proof_id :: uuid
  dp_silo_id :: uuid
  dp_binding_id :: uuid
  dp_remote_environment_id :: uuid
  dp_volume_id :: uuid
  dp_provider_receipt_id :: uuid
  dp_resource_deletions :: "resource_deletion_item list"
  dp_deleted_at_unix_ms :: u64
  dp_reason :: deletion_reason

datatype automation_scope = ReadScreen | SendInput

record session_authorization =
  sa_authorization_id :: uuid
  sa_silo_id :: uuid
  sa_remote_environment_id :: uuid
  sa_issued_at_unix_ms :: u64
  sa_expires_at_unix_ms :: u64
  sa_revoked :: bool

record automation_authorization =
  aa_authorization_id :: uuid
  aa_silo_id :: uuid
  aa_remote_environment_id :: uuid
  aa_issued_at_unix_ms :: u64
  aa_expires_at_unix_ms :: u64
  aa_scopes :: "automation_scope list"
  aa_approved_by_user :: bool
  aa_revoked :: bool

datatype principal_kind = ControlPlane | HumanSession | Automation

record principal =
  p_kind :: principal_kind
  p_credential_id :: uuid
  p_authorization_id :: "uuid option"

datatype pointer_button = Primary | Secondary | Middle

datatype input_event =
    Key str bool
  | PointerMove u32 u32
  | PointerButton pointer_button bool
  | Text str

datatype agent_command =
    Create uuid uuid uuid u64 remote_network_policy bool
  | Start uuid
  | Stop uuid
  | Pause uuid
  | Snapshot uuid
  | Destroy uuid bool
  | ConfigureNetwork uuid remote_network_policy
  | Health uuid
  | Logs uuid u16
  | OpenHumanSession uuid u64
  | CloseHumanSession uuid
  | GrantAutomation uuid u64 "automation_scope list" bool
  | RevokeAutomation uuid uuid
  | OpenScreen uuid
  | SendInput uuid "input_event list"

record agent_request =
  rq_protocol_version :: u16
  rq_request_id :: uuid
  rq_nonce :: str
  rq_sequence :: u64
  rq_sent_at_unix_ms :: u64
  rq_principal :: principal
  rq_command :: agent_command

datatype screen_transport = AuthenticatedEncryptedStream

record screen_channel =
  sc_channel_id :: uuid
  sc_remote_environment_id :: uuid
  sc_authorization_id :: uuid
  sc_expires_at_unix_ms :: u64
  sc_transport :: screen_transport

record activity_entry =
  ae_activity_id :: uuid
  ae_silo_id :: uuid
  ae_principal :: principal_kind
  ae_operation :: str
  ae_accepted :: bool
  ae_occurred_at_unix_ms :: u64

datatype agent_response =
    Environment environment_record "guest_evidence option"
  | DeletedEnvironment deletion_proof
  | HumanSession session_authorization
  | Automation automation_authorization
  | Screen screen_channel
  | InputAccepted nat
  | Logs "str list" u64

record provision_receipt =
  pv_volume :: volume_attestation
  pv_evidence :: guest_evidence

record lifecycle_receipt =
  lr_evidence :: "guest_evidence option"
  lr_logs :: "str list"

datatype agent_error =
    VersionMismatch
  | Stale
  | Replay
  | InvalidRequest str
  | Unauthorized str
  | Unavailable str
  | Provider str
  | Conflict str
  | NotFound
  | Expired
  | InvalidState str
  | LimitExceeded str
  | Store str
  | Json str

text \<open>\<open>to_string\<close> of the Agent's error type, from its \<open>#[error]\<close> attributes.\<close>

fun agent_error_to_string :: "agent_error \<Rightarrow> str" where
  "agent_error_to_string agent_error.VersionMismatch =
     lit ''Remote Agent protocol version mismatch''"
| "agent_error_to_string agent_error.Stale = lit ''Remote Agent request is stale''"
| "agent_error_to_string agent_error.Replay = lit ''Remote Agent replay detected''"
| "agent_error_to_string (agent_error.InvalidRequest m) =
     lit ''Remote Agent request is invalid: '' @ m"
| "agent_error_to_string (agent_error.Unauthorized m) =
     lit ''Remote Agent request is unauthorized: '' @ m"
| "agent_error_to_string (agent_error.Unavailable m) =
     lit ''Remote Agent operation is unavailable: '' @ m"
| "agent_error_to_string (agent_error.Provider m) = lit ''Remote Agent provider failed: '' @ m"
| "agent_error_to_string (agent_error.Conflict m) = lit ''Remote Agent state conflict: '' @ m"
| "agent_error_to_string agent_error.NotFound = lit ''Remote Agent record not found''"
| "agent_error_to_string agent_error.Expired = lit ''Remote Agent environment expired''"
| "agent_error_to_string (agent_error.InvalidState m) =
     lit ''Remote Agent state is invalid: '' @ m"
| "agent_error_to_string (agent_error.LimitExceeded m) =
     lit ''Remote Agent limit exceeded: '' @ m"
| "agent_error_to_string (agent_error.Store m) = lit ''Remote Agent durable store failed: '' @ m"
| "agent_error_to_string (agent_error.Json m) = lit ''Remote Agent JSON error: '' @ m"

section \<open>Checks\<close>

definition bounded_text :: "string \<Rightarrow> str \<Rightarrow> nat \<Rightarrow> nat \<Rightarrow> agent_error + unit" where
  "bounded_text label value minimum maximum =
     (if str_trim value \<noteq> value \<or> str_len value < minimum \<or> maximum < str_len value
      then Inl (agent_error.InvalidRequest
             (lit label @ lit '' must contain '' @ show_nat minimum @ lit '' to ''
              @ show_nat maximum @ lit '' bytes without surrounding whitespace.''))
      else Inr ())"

definition node_disclosure_validate :: "node_disclosure \<Rightarrow> agent_error + unit" where
  "node_disclosure_validate node =
     (if nd_node_id node = nil_uuid
      then Inl (agent_error.InvalidRequest (lit ''Node identity must be a non-zero UUID.''))
      else
        rbind (bounded_text ''operator label'' (nd_operator_label node) 1 120) (\<lambda>_.
        rbind (bounded_text ''data region'' (nd_data_region node) 2 120) (\<lambda>_.
        rbind (bounded_text ''cost notice'' (cost_notice (nd_cost node)) 1 500) (\<lambda>_.
        if str_len (cost_currency (nd_cost node)) \<noteq> 3
           \<or> \<not> list_all is_ascii_uppercase (str_bytes (cost_currency (nd_cost node)))
        then Inl (agent_error.InvalidRequest
               (lit ''Cost currency must be a three-letter uppercase code.''))
        else Inr ()))))"

definition REQUIRED_DELETION_RESOURCE_KINDS :: "deletion_resource_kind list" where
  "REQUIRED_DELETION_RESOURCE_KINDS =
     [ComputeInstance, PersistentVolume, ResourceSnapshot, EphemeralKey]"

text \<open>The disposition a single resource must have, by its kind.\<close>

fun resource_is_bound ::
    "uuid \<Rightarrow> uuid \<Rightarrow> uuid \<Rightarrow> deletion_resource_kind \<Rightarrow> deletion_resource_status
     \<Rightarrow> uuid option \<Rightarrow> bool" where
  "resource_is_bound env_id vol_id kid ComputeInstance deletion_resource_status.Deleted (Some rid) =
     (rid = env_id)"
| "resource_is_bound env_id vol_id kid PersistentVolume deletion_resource_status.Deleted (Some rid) =
     (rid = vol_id)"
| "resource_is_bound env_id vol_id kid EphemeralKey deletion_resource_status.Deleted (Some rid) =
     (rid = kid)"
| "resource_is_bound env_id vol_id kid ResourceSnapshot deletion_resource_status.Deleted (Some rid) =
     (rid \<noteq> nil_uuid)"
| "resource_is_bound env_id vol_id kid ResourceSnapshot NotApplicable None = True"
| "resource_is_bound env_id vol_id kid _ _ _ = False"

definition deletion_resources_are_bound ::
    "resource_deletion_item list \<Rightarrow> uuid \<Rightarrow> uuid \<Rightarrow> uuid \<Rightarrow> bool" where
  "deletion_resources_are_bound resources remote_environment_id volume_id key_id =
     (if remote_environment_id = nil_uuid \<or> volume_id = nil_uuid \<or> key_id = nil_uuid
         \<or> length resources \<noteq> length REQUIRED_DELETION_RESOURCE_KINDS
         \<or> \<not> distinct (map rd_kind resources)
      then False
      else list_all (\<lambda>kind.
             case find (\<lambda>resource. rd_kind resource = kind) resources of
               None \<Rightarrow> False
             | Some resource \<Rightarrow>
                 resource_is_bound remote_environment_id volume_id key_id (rd_kind resource)
                   (rd_status resource) (rd_resource_id resource))
           REQUIRED_DELETION_RESOURCE_KINDS)"

definition provisioned_volume_is_valid :: "volume_attestation \<Rightarrow> bool" where
  "provisioned_volume_is_valid volume \<longleftrightarrow>
     va_encrypted volume \<and> va_key_custody volume = UserControlled
     \<and> va_volume_id volume \<noteq> nil_uuid \<and> va_key_id volume \<noteq> nil_uuid"

definition hydrate_recovered_resource_ids ::
    "environment_record \<Rightarrow> provider_deletion_receipt \<Rightarrow> environment_record" where
  "hydrate_recovered_resource_ids record receipt =
     (if er_state record \<noteq> Provisioning then record
      else
        let record =
          (if va_volume_id (er_volume record) = nil_uuid
           then record\<lparr>er_volume := (er_volume record)\<lparr>va_volume_id := pr_volume_id receipt\<rparr>\<rparr>
           else record)
        in if va_key_id (er_volume record) = nil_uuid
           then (case List.map_filter (\<lambda>resource.
                   if rd_kind resource = EphemeralKey
                      \<and> rd_status resource = deletion_resource_status.Deleted
                   then rd_resource_id resource else None) (pr_resource_deletions receipt) of
                   [] \<Rightarrow> record
                 | key_id # _ \<Rightarrow> record\<lparr>er_volume := (er_volume record)\<lparr>va_key_id := key_id\<rparr>\<rparr>)
           else record)"

definition validate_capabilities ::
    "remote_capability list \<Rightarrow> agent_error + unit" where
  "validate_capabilities capabilities =
     (if length capabilities \<noteq> length ALL_OPERATIONS
         \<or> list_ex (\<lambda>operation. count_capability capabilities operation \<noteq> 1) ALL_OPERATIONS
      then Inl (agent_error.Provider
             (lit ''Provider must describe each of nine lifecycle operations exactly once.''))
      else Inr ())"

definition ensure_capability ::
    "remote_capability list \<Rightarrow> remote_operation \<Rightarrow> agent_error + unit" where
  "ensure_capability capabilities operation =
     (case find (\<lambda>item. cap_operation item = operation) capabilities of
        Some item \<Rightarrow>
          (case cap_availability item of
             Available \<Rightarrow> Inr ()
           | capability_availability.Unavailable reason \<Rightarrow> Inl (agent_error.Unavailable reason))
      | None \<Rightarrow> Inl (agent_error.Provider (lit ''Provider capability is missing.'')))"

definition validate_evidence ::
    "guest_evidence \<Rightarrow> environment_record \<Rightarrow> u64 \<Rightarrow> agent_error + unit" where
  "validate_evidence evidence record now =
     rbind (map_err (\<lambda>error. agent_error.Provider (error_to_string error))
              (guest_evidence_validate evidence (er_binding_id record)
                 (er_remote_environment_id record) now)) (\<lambda>_.
     if \<not> validates_required_proxy evidence (er_network record)
     then Inl (agent_error.Provider (lit ''Required proxy evidence failed closed.''))
     else Inr ())"

definition require_control :: "principal \<Rightarrow> agent_error + unit" where
  "require_control who =
     (if p_kind who = ControlPlane then Inr ()
      else Inl (agent_error.Unauthorized
             (lit ''Only the control-plane credential may change lifecycle.'')))"

definition validate_input_event :: "input_event \<Rightarrow> agent_error + unit" where
  "validate_input_event event =
     (case event of
        Key code _ \<Rightarrow>
          if code = [] \<or> 40 < str_len code
             \<or> \<not> list_all (\<lambda>byte. is_ascii_alphanumeric byte \<or> byte = 95) (str_bytes code)
          then Inl (agent_error.InvalidRequest (lit ''Key code is invalid.''))
          else Inr ()
      | PointerMove x y \<Rightarrow>
          if 16384 < x \<or> 16384 < y
          then Inl (agent_error.InvalidRequest
                 (lit ''Pointer coordinate exceeds negotiated bounds.''))
          else Inr ()
      | Text value \<Rightarrow>
          rbind (bounded_text ''input text'' value 1 512) (\<lambda>_.
          if list_ex (\<lambda>character. is_control character \<and> character \<noteq> 10 \<and> character \<noteq> 9) value
          then Inl (agent_error.InvalidRequest
                 (lit ''Input text contains unsupported control characters.''))
          else Inr ())
      | PointerButton _ _ \<Rightarrow> Inr ())"

definition validate_input :: "input_event list \<Rightarrow> agent_error + unit" where
  "validate_input events =
     (if events = [] \<or> MAX_INPUT_EVENTS < length events
      then Inl (agent_error.LimitExceeded (lit ''Input batch must contain 1 to 128 events.''))
      else try_each validate_input_event events)"

fun command_silo_id :: "agent_command \<Rightarrow> uuid" where
  "command_silo_id (agent_command.Create silo_id _ _ _ _ _) = silo_id"
| "command_silo_id (agent_command.Start silo_id) = silo_id"
| "command_silo_id (agent_command.Stop silo_id) = silo_id"
| "command_silo_id (agent_command.Pause silo_id) = silo_id"
| "command_silo_id (agent_command.Snapshot silo_id) = silo_id"
| "command_silo_id (agent_command.Destroy silo_id _) = silo_id"
| "command_silo_id (agent_command.ConfigureNetwork silo_id _) = silo_id"
| "command_silo_id (agent_command.Health silo_id) = silo_id"
| "command_silo_id (agent_command.Logs silo_id _) = silo_id"
| "command_silo_id (OpenHumanSession silo_id _) = silo_id"
| "command_silo_id (CloseHumanSession silo_id) = silo_id"
| "command_silo_id (GrantAutomation silo_id _ _ _) = silo_id"
| "command_silo_id (RevokeAutomation silo_id _) = silo_id"
| "command_silo_id (OpenScreen silo_id) = silo_id"
| "command_silo_id (agent_command.SendInput silo_id _) = silo_id"

fun command_label :: "agent_command \<Rightarrow> str" where
  "command_label (agent_command.Create _ _ _ _ _ _) = lit ''create''"
| "command_label (agent_command.Start _) = lit ''start''"
| "command_label (agent_command.Stop _) = lit ''stop''"
| "command_label (agent_command.Pause _) = lit ''pause''"
| "command_label (agent_command.Snapshot _) = lit ''snapshot''"
| "command_label (agent_command.Destroy _ _) = lit ''destroy''"
| "command_label (agent_command.ConfigureNetwork _ _) = lit ''configure_network''"
| "command_label (agent_command.Health _) = lit ''health''"
| "command_label (agent_command.Logs _ _) = lit ''logs''"
| "command_label (OpenHumanSession _ _) = lit ''open_human_session''"
| "command_label (CloseHumanSession _) = lit ''close_human_session''"
| "command_label (GrantAutomation _ _ _ _) = lit ''grant_automation''"
| "command_label (RevokeAutomation _ _) = lit ''revoke_automation''"
| "command_label (OpenScreen _) = lit ''open_screen''"
| "command_label (agent_command.SendInput _ _) = lit ''send_input''"

section \<open>Facts the components share\<close>

lemma require_control_Inr [simp]: "require_control p = Inr u \<longleftrightarrow> p_kind p = ControlPlane"
  by (simp add: require_control_def)

lemma bounded_text_Inr:
  "bounded_text label value lo hi = Inr u \<longleftrightarrow>
     str_trim value = value \<and> lo \<le> str_len value \<and> str_len value \<le> hi"
  by (auto simp: bounded_text_def)

lemma validate_evidence_Inr:
  "validate_evidence ev r now = Inr u \<longleftrightarrow>
     guest_evidence_validate ev (er_binding_id r) (er_remote_environment_id r) now = Inr ()
     \<and> validates_required_proxy ev (er_network r)"
  by (auto simp: validate_evidence_def)

text \<open>
  A bound list of dispositions names the compute instance, the volume and the key exactly,
  with identifiers that are not nil.
\<close>

lemma deletion_resources_are_boundD:
  assumes "deletion_resources_are_bound rs e v k"
  shows "e \<noteq> nil_uuid" "v \<noteq> nil_uuid" "k \<noteq> nil_uuid" "length rs = 4" "distinct (map rd_kind rs)"
  using assms
  by (auto simp: deletion_resources_are_bound_def REQUIRED_DELETION_RESOURCE_KINDS_def
      simp del: distinct_map split: if_splits)

end
