(* ===== verification/Agent_Store.thy ===== *)
theory Agent_Store
  imports Agent_Types
begin

text \<open>
  The persistence boundary of the Agent: the trait \<open>AgentStore\<close> as a record of operations,
  its contract as the locale \<open>agent_store\<close> (every operation refines an update of the
  abstract \<open>agent_view\<close>, or fails without changing it), and the in-memory implementation
  \<open>MemoryAgentStore\<close> of \<open>agent.rs\<close>, proved to satisfy the contract. The on-disk
  implementation is in the theory \<open>Durable_Store\<close>.
\<close>

section \<open>The trait\<close>

record 's agent_store_ops =
  st_claim_request :: "uuid \<Rightarrow> uuid \<Rightarrow> str \<Rightarrow> u64 \<Rightarrow> 's \<Rightarrow> (agent_error, unit, 's) outcome"
  st_environment_ids :: "'s \<Rightarrow> uuid list"
  st_environment :: "'s \<Rightarrow> uuid \<Rightarrow> environment_record option"
  st_insert_environment :: "environment_record \<Rightarrow> 's \<Rightarrow> (agent_error, unit, 's) outcome"
  st_update_environment :: "environment_record \<Rightarrow> 's \<Rightarrow> (agent_error, unit, 's) outcome"
  st_human_session :: "'s \<Rightarrow> uuid \<Rightarrow> session_authorization option"
  st_set_human_session :: "session_authorization \<Rightarrow> 's \<Rightarrow> (agent_error, unit, 's) outcome"
  st_automation :: "'s \<Rightarrow> uuid \<Rightarrow> automation_authorization option"
  st_set_automation :: "automation_authorization \<Rightarrow> 's \<Rightarrow> (agent_error, unit, 's) outcome"
  st_commit_deletion ::
    "environment_record \<Rightarrow> deletion_proof \<Rightarrow> 's \<Rightarrow> (agent_error, unit, 's) outcome"
  st_deletion_proof :: "'s \<Rightarrow> uuid \<Rightarrow> deletion_proof option"
  st_append_activity :: "activity_entry \<Rightarrow> 's \<Rightarrow> (agent_error, unit, 's) outcome"
  st_activities :: "'s \<Rightarrow> uuid \<Rightarrow> activity_entry list"

section \<open>The contract\<close>

text \<open>
  What a store promises is a state of five maps and a bounded log: environments and human
  sessions by Silo, automation grants and deletion proofs by their identifier, and the
  highest request sequence claimed by each principal.
\<close>

record agent_view =
  v_environments :: "uuid \<Rightarrow> environment_record option"
  v_human_sessions :: "uuid \<Rightarrow> session_authorization option"
  v_automation :: "uuid \<Rightarrow> automation_authorization option"
  v_proofs :: "uuid \<Rightarrow> deletion_proof option"
  v_high_water :: "uuid \<Rightarrow> u64"
  v_activity :: "activity_entry list"

text \<open>An environment record and the proof of its deletion, as one transition.\<close>

definition deletion_matches :: "environment_record \<Rightarrow> deletion_proof \<Rightarrow> bool" where
  "deletion_matches record proof \<longleftrightarrow>
     er_deletion_proof_id record = Some (dp_proof_id proof)
     \<and> er_state record = environment_state.Deleted
     \<and> er_silo_id record = dp_silo_id proof
     \<and> er_binding_id record = dp_binding_id proof
     \<and> er_remote_environment_id record = dp_remote_environment_id proof
     \<and> va_volume_id (er_volume record) = dp_volume_id proof"

definition push_bounded :: "nat \<Rightarrow> 'a \<Rightarrow> 'a list \<Rightarrow> 'a list" where
  "push_bounded limit x xs = (if length xs = limit then tl xs else xs) @ [x]"

lemma length_push_bounded:
  "length xs \<le> limit \<Longrightarrow> 0 < limit \<Longrightarrow> length (push_bounded limit x xs) \<le> limit"
  by (auto simp: push_bounded_def)

locale agent_store =
  fixes ops :: "'s agent_store_ops"
    and view :: "'s \<Rightarrow> agent_view"
    and invar :: "'s \<Rightarrow> bool"
  assumes environment_view: "st_environment ops s = v_environments (view s)"
    and human_session_view: "st_human_session ops s = v_human_sessions (view s)"
    and automation_view: "st_automation ops s = v_automation (view s)"
    and deletion_proof_view: "st_deletion_proof ops s = v_proofs (view s)"
    and activities_view:
      "st_activities ops s silo = filter (\<lambda>a. ae_silo_id a = silo) (v_activity (view s))"
    and environment_ids_view:
      "invar s \<Longrightarrow> distinct (st_environment_ids ops s)
        \<and> set (st_environment_ids ops s) = dom (v_environments (view s))"
    and claim_request_ok:
      "invar s \<Longrightarrow> outcome
        (\<lambda>_ s'. invar s' \<and> v_high_water (view s) pid < q
          \<and> view s' = (view s)\<lparr>v_high_water := (v_high_water (view s))(pid := q)\<rparr>)
        (\<lambda>_ s'. invar s' \<and> view s' = view s)
        (st_claim_request ops pid rid nonce q s)"
    and insert_environment_ok:
      "invar s \<Longrightarrow> outcome
        (\<lambda>_ s'. invar s' \<and> v_environments (view s) (er_silo_id r) = None
          \<and> view s' = (view s)\<lparr>v_environments := (v_environments (view s))(er_silo_id r \<mapsto> r)\<rparr>)
        (\<lambda>_ s'. invar s' \<and> view s' = view s)
        (st_insert_environment ops r s)"
    and update_environment_ok:
      "invar s \<Longrightarrow> outcome
        (\<lambda>_ s'. invar s' \<and> v_environments (view s) (er_silo_id r) \<noteq> None
          \<and> view s' = (view s)\<lparr>v_environments := (v_environments (view s))(er_silo_id r \<mapsto> r)\<rparr>)
        (\<lambda>_ s'. invar s' \<and> view s' = view s)
        (st_update_environment ops r s)"
    and set_human_session_ok:
      "invar s \<Longrightarrow> outcome
        (\<lambda>_ s'. invar s' \<and> view s' =
          (view s)\<lparr>v_human_sessions := (v_human_sessions (view s))(sa_silo_id h \<mapsto> h)\<rparr>)
        (\<lambda>_ s'. invar s' \<and> view s' = view s)
        (st_set_human_session ops h s)"
    and set_automation_ok:
      "invar s \<Longrightarrow> outcome
        (\<lambda>_ s'. invar s' \<and> view s' =
          (view s)\<lparr>v_automation := (v_automation (view s))(aa_authorization_id a \<mapsto> a)\<rparr>)
        (\<lambda>_ s'. invar s' \<and> view s' = view s)
        (st_set_automation ops a s)"
    and commit_deletion_ok:
      "invar s \<Longrightarrow> outcome
        (\<lambda>_ s'. invar s' \<and> v_environments (view s) (er_silo_id r) \<noteq> None \<and> deletion_matches r p
          \<and> view s' = (view s)
              \<lparr>v_environments := (v_environments (view s))(er_silo_id r \<mapsto> r),
               v_proofs := (v_proofs (view s))(dp_proof_id p \<mapsto> p)\<rparr>)
        (\<lambda>_ s'. invar s' \<and> view s' = view s)
        (st_commit_deletion ops r p s)"
    and append_activity_ok:
      "invar s \<Longrightarrow> outcome
        (\<lambda>_ s'. invar s' \<and> view s' =
          (view s)\<lparr>v_activity := push_bounded MAX_ACTIVITY_ENTRIES e (v_activity (view s))\<rparr>)
        (\<lambda>_ s'. invar s' \<and> view s' = view s)
        (st_append_activity ops e s)"
begin

lemmas views =
  environment_view human_session_view automation_view deletion_proof_view activities_view

text \<open>The replay barrier: a sequence at or below the high-water mark cannot be claimed.\<close>

lemma claim_below_high_water_fails:
  assumes "invar s" and "q \<le> v_high_water (view s) pid"
  shows "\<exists>e s'. st_claim_request ops pid rid nonce q s = (Inl e, s')"
  using claim_request_ok [OF assms(1), of pid q rid nonce] assms(2)
  by (cases "st_claim_request ops pid rid nonce q s";
      cases "fst (st_claim_request ops pid rid nonce q s)") auto

end

section \<open>The in-memory store\<close>

record memory_agent_store =
  ms_environments :: "(uuid, environment_record) hmap"
  ms_human_sessions :: "(uuid, session_authorization) hmap"
  ms_automation :: "(uuid, automation_authorization) hmap"
  ms_proofs :: "(uuid, deletion_proof) hmap"
  ms_request_ids :: "uuid fset"
  ms_nonces :: "str fset"
  ms_sequences :: "(uuid, u64) hmap"
  ms_activity :: "activity_entry list"

definition memory_store_default :: memory_agent_store where
  "memory_store_default =
     \<lparr>ms_environments = [], ms_human_sessions = [], ms_automation = [], ms_proofs = [],
      ms_request_ids = {||}, ms_nonces = {||}, ms_sequences = [], ms_activity = []\<rparr>"

definition last_sequence :: "(uuid, u64) hmap \<Rightarrow> uuid \<Rightarrow> u64" where
  "last_sequence sequences principal_id =
     (case map_of sequences principal_id of None \<Rightarrow> 0 | Some q \<Rightarrow> q)"

definition memory_claim_request ::
    "uuid \<Rightarrow> uuid \<Rightarrow> str \<Rightarrow> u64 \<Rightarrow> memory_agent_store
     \<Rightarrow> (agent_error, unit, memory_agent_store) outcome" where
  "memory_claim_request principal_id request_id nonce sequence s =
     (if MAX_REPLAY_WINDOW_ENTRIES \<le> fcard (ms_request_ids s)
      then (Inl (agent_error.LimitExceeded
              (lit ''Replay ledger is full; durable pruning is required.'')), s)
      else if sequence \<le> last_sequence (ms_sequences s) principal_id
              \<or> request_id |\<in>| ms_request_ids s \<or> nonce |\<in>| ms_nonces s
      then (Inl agent_error.Replay, s)
      else (Inr (), s\<lparr>ms_request_ids := finsert request_id (ms_request_ids s),
                      ms_nonces := finsert nonce (ms_nonces s),
                      ms_sequences := AList.update principal_id sequence (ms_sequences s)\<rparr>))"

definition memory_insert_environment ::
    "environment_record \<Rightarrow> memory_agent_store \<Rightarrow> (agent_error, unit, memory_agent_store) outcome"
  where
  "memory_insert_environment record s =
     (if map_of (ms_environments s) (er_silo_id record) \<noteq> None
      then (Inl (agent_error.Conflict
              (lit ''A remote environment already exists for this Silo.'')), s)
      else (Inr (), s\<lparr>ms_environments :=
              AList.update (er_silo_id record) record (ms_environments s)\<rparr>))"

definition memory_update_environment ::
    "environment_record \<Rightarrow> memory_agent_store \<Rightarrow> (agent_error, unit, memory_agent_store) outcome"
  where
  "memory_update_environment record s =
     (if map_of (ms_environments s) (er_silo_id record) = None
      then (Inl agent_error.NotFound, s)
      else (Inr (), s\<lparr>ms_environments :=
              AList.update (er_silo_id record) record (ms_environments s)\<rparr>))"

definition memory_set_human_session ::
    "session_authorization \<Rightarrow> memory_agent_store
     \<Rightarrow> (agent_error, unit, memory_agent_store) outcome" where
  "memory_set_human_session authorization s =
     (Inr (), s\<lparr>ms_human_sessions :=
        AList.update (sa_silo_id authorization) authorization (ms_human_sessions s)\<rparr>)"

definition memory_set_automation ::
    "automation_authorization \<Rightarrow> memory_agent_store
     \<Rightarrow> (agent_error, unit, memory_agent_store) outcome" where
  "memory_set_automation authorization s =
     (Inr (), s\<lparr>ms_automation :=
        AList.update (aa_authorization_id authorization) authorization (ms_automation s)\<rparr>)"

definition memory_commit_deletion ::
    "environment_record \<Rightarrow> deletion_proof \<Rightarrow> memory_agent_store
     \<Rightarrow> (agent_error, unit, memory_agent_store) outcome" where
  "memory_commit_deletion record proof s =
     (if map_of (ms_environments s) (er_silo_id record) = None
         \<or> er_deletion_proof_id record \<noteq> Some (dp_proof_id proof)
         \<or> er_state record \<noteq> environment_state.Deleted
         \<or> er_silo_id record \<noteq> dp_silo_id proof
         \<or> er_binding_id record \<noteq> dp_binding_id proof
         \<or> er_remote_environment_id record \<noteq> dp_remote_environment_id proof
         \<or> va_volume_id (er_volume record) \<noteq> dp_volume_id proof
      then (Inl (agent_error.InvalidState
              (lit ''Deletion record and proof do not form one atomic state transition.'')), s)
      else (Inr (), s\<lparr>ms_environments :=
                        AList.update (er_silo_id record) record (ms_environments s),
                      ms_proofs := AList.update (dp_proof_id proof) proof (ms_proofs s)\<rparr>))"

definition memory_append_activity ::
    "activity_entry \<Rightarrow> memory_agent_store \<Rightarrow> (agent_error, unit, memory_agent_store) outcome"
  where
  "memory_append_activity activity s =
     (Inr (), s\<lparr>ms_activity := push_bounded MAX_ACTIVITY_ENTRIES activity (ms_activity s)\<rparr>)"

definition memory_ops :: "memory_agent_store agent_store_ops" where
  "memory_ops =
     \<lparr>st_claim_request = memory_claim_request,
      st_environment_ids = (\<lambda>s. map fst (ms_environments s)),
      st_environment = (\<lambda>s. map_of (ms_environments s)),
      st_insert_environment = memory_insert_environment,
      st_update_environment = memory_update_environment,
      st_human_session = (\<lambda>s. map_of (ms_human_sessions s)),
      st_set_human_session = memory_set_human_session,
      st_automation = (\<lambda>s. map_of (ms_automation s)),
      st_set_automation = memory_set_automation,
      st_commit_deletion = memory_commit_deletion,
      st_deletion_proof = (\<lambda>s. map_of (ms_proofs s)),
      st_append_activity = memory_append_activity,
      st_activities = (\<lambda>s silo_id. filter (\<lambda>a. ae_silo_id a = silo_id) (ms_activity s))\<rparr>"

lemmas memory_op_defs =
  memory_claim_request_def memory_insert_environment_def memory_update_environment_def
  memory_set_human_session_def memory_set_automation_def memory_commit_deletion_def
  memory_append_activity_def

definition memory_view :: "memory_agent_store \<Rightarrow> agent_view" where
  "memory_view s =
     \<lparr>v_environments = map_of (ms_environments s),
      v_human_sessions = map_of (ms_human_sessions s),
      v_automation = map_of (ms_automation s),
      v_proofs = map_of (ms_proofs s),
      v_high_water = last_sequence (ms_sequences s),
      v_activity = ms_activity s\<rparr>"

definition memory_invar :: "memory_agent_store \<Rightarrow> bool" where
  "memory_invar s \<longleftrightarrow>
     keys_distinct (ms_environments s) \<and> length (ms_activity s) \<le> MAX_ACTIVITY_ENTRIES"

lemma last_sequence_update [simp]:
  "last_sequence (AList.update p q m) = (last_sequence m)(p := q)"
  by (auto simp: last_sequence_def fun_eq_iff)

lemma memory_invar_default: "memory_invar memory_store_default"
  by (simp add: memory_invar_def memory_store_default_def)

interpretation mem: agent_store memory_ops memory_view memory_invar
  by unfold_locales
    (auto simp: memory_ops_def memory_op_defs memory_view_def memory_invar_def
      deletion_matches_def distinct_update dom_map_of_conv_image_fst MAX_ACTIVITY_ENTRIES_def
      length_push_bounded not_le map_of_eq_None_iff)

end
