(* ===== verification/Agent_Core.thy ===== *)
theory Agent_Core
  imports Agent_Store
begin

text \<open>
  The Agent's request processor, \<open>AgentCore\<close> of
  \<open>crates/verisilo-remote-backend/src/agent.rs\<close>: construction with crash recovery, request
  validation, authorization, the fifteen commands, deletion with proof, compensation of failed
  creates, and the expiry sweep. The provider (the trait \<open>AgentProvider\<close>, implemented outside
  this crate) and the store (theory \<open>Agent_Store\<close>) are records of operations; the length of a
  request's JSON, which \<open>serde_json\<close> computes, is a function parameter.
\<close>

section \<open>State and collaborators\<close>

record 'p agent_provider_ops =
  ap_capabilities :: "'p \<Rightarrow> remote_capability list"
  ap_create :: "environment_record \<Rightarrow> 'p \<Rightarrow> (agent_error, provision_receipt, 'p) outcome"
  ap_lifecycle :: "remote_operation \<Rightarrow> environment_record \<Rightarrow> u16 option \<Rightarrow> 'p
    \<Rightarrow> (agent_error, lifecycle_receipt, 'p) outcome"
  ap_destroy :: "environment_record \<Rightarrow> 'p
    \<Rightarrow> (agent_error, provider_deletion_receipt, 'p) outcome"
  ap_open_screen :: "environment_record \<Rightarrow> uuid \<Rightarrow> u64 \<Rightarrow> 'p
    \<Rightarrow> (agent_error, screen_channel, 'p) outcome"
  ap_send_input :: "environment_record \<Rightarrow> uuid \<Rightarrow> input_event list \<Rightarrow> 'p
    \<Rightarrow> (agent_error, unit, 'p) outcome"

record ('p, 's) agent_deps =
  d_provider :: "'p agent_provider_ops"
  d_store :: "'s agent_store_ops"
  d_json_len :: "agent_request \<Rightarrow> str + nat"

record ('p, 's) agent_core =
  ac_node :: node_disclosure
  ac_provider :: 'p
  ac_store :: 's
  ac_host :: host

definition in_store ::
    "('s \<Rightarrow> ('e, 'a, 's) outcome) \<Rightarrow> ('p, 's) agent_core
     \<Rightarrow> ('e, 'a, ('p, 's) agent_core) outcome" where
  "in_store f c = (case f (ac_store c) of (r, s) \<Rightarrow> (r, c\<lparr>ac_store := s\<rparr>))"

definition in_provider ::
    "('p \<Rightarrow> ('e, 'a, 'p) outcome) \<Rightarrow> ('p, 's) agent_core
     \<Rightarrow> ('e, 'a, ('p, 's) agent_core) outcome" where
  "in_provider f c = (case f (ac_provider c) of (r, p) \<Rightarrow> (r, c\<lparr>ac_provider := p\<rparr>))"

definition core_now :: "('p, 's) agent_core \<Rightarrow> u64 \<times> ('p, 's) agent_core" where
  "core_now c = (case now_unix_ms (ac_host c) of (now, h) \<Rightarrow> (now, c\<lparr>ac_host := h\<rparr>))"

definition core_new_v4 :: "('p, 's) agent_core \<Rightarrow> uuid \<times> ('p, 's) agent_core" where
  "core_new_v4 c = (case new_v4 (ac_host c) of (u, h) \<Rightarrow> (u, c\<lparr>ac_host := h\<rparr>))"

definition core_capabilities ::
    "('p, 's) agent_deps \<Rightarrow> ('p, 's) agent_core \<Rightarrow> remote_capability list" where
  "core_capabilities D c = ap_capabilities (d_provider D) (ac_provider c)"

definition core_environment ::
    "('p, 's) agent_deps \<Rightarrow> ('p, 's) agent_core \<Rightarrow> uuid \<Rightarrow> environment_record option" where
  "core_environment D c silo_id = st_environment (d_store D) (ac_store c) silo_id"

section \<open>Requests and records\<close>

definition validate_request ::
    "('p, 's) agent_deps \<Rightarrow> agent_request \<Rightarrow> ('p, 's) agent_core
     \<Rightarrow> (agent_error, unit, ('p, 's) agent_core) outcome" where
  "validate_request D request c =
     (if rq_protocol_version request \<noteq> PROTOCOL_VERSION
      then (Inl agent_error.VersionMismatch, c)
      else if rq_sequence request = 0 \<or> str_len (rq_nonce request) < 32
              \<or> 128 < str_len (rq_nonce request)
              \<or> \<not> list_all is_base64url (str_bytes (rq_nonce request))
      then (Inl (agent_error.InvalidRequest (lit ''Nonce or sequence is invalid.'')), c)
      else
        let (now, c) = core_now c in
        if MAX_CLOCK_SKEW_MS < abs_diff (rq_sent_at_unix_ms request) now
        then (Inl agent_error.Stale, c)
        else sbind (map_err agent_error.Json (d_json_len D request), c) (\<lambda>len c.
          if MAX_MESSAGE_BYTES < len
          then (Inl (agent_error.LimitExceeded (lit ''Agent request exceeds 64 KiB.'')), c)
          else (case (p_kind (rq_principal request), p_authorization_id (rq_principal request)) of
                  (ControlPlane, None) \<Rightarrow> (Inr (), c)
                | (principal_kind.HumanSession, Some _) \<Rightarrow> (Inr (), c)
                | (principal_kind.Automation, Some _) \<Rightarrow> (Inr (), c)
                | _ \<Rightarrow> (Inl (agent_error.Unauthorized
                        (lit ''Principal kind and authorization ID do not agree.'')), c))))"

definition core_record ::
    "('p, 's) agent_deps \<Rightarrow> uuid \<Rightarrow> u64 \<Rightarrow> bool \<Rightarrow> ('p, 's) agent_core
     \<Rightarrow> agent_error + environment_record" where
  "core_record D silo_id now allow_expired c =
     rbind (ok_or agent_error.NotFound (core_environment D c silo_id)) (\<lambda>record.
     if er_state record = Provisioning
     then Inl (agent_error.InvalidState
            (lit ''Environment provisioning recovery is incomplete.''))
     else if er_state record = environment_state.Deleted
     then Inl (agent_error.InvalidState (lit ''Environment has already been deleted.''))
     else if \<not> allow_expired \<and> er_expires_at_unix_ms record \<le> now
     then Inl agent_error.Expired
     else Inr record)"

section \<open>Authorization\<close>

definition authorize_human ::
    "'s agent_store_ops \<Rightarrow> principal \<Rightarrow> uuid \<Rightarrow> u64 \<Rightarrow> 's
     \<Rightarrow> agent_error + session_authorization" where
  "authorize_human ops who silo_id now s =
     rbind (ok_or agent_error.NotFound (st_human_session ops s silo_id)) (\<lambda>authorization.
     if p_kind who \<noteq> principal_kind.HumanSession
        \<or> p_authorization_id who \<noteq> Some (sa_authorization_id authorization)
        \<or> sa_revoked authorization
        \<or> sa_expires_at_unix_ms authorization \<le> now
     then Inl (agent_error.Unauthorized
            (lit ''Human session is mismatched, revoked, or expired.''))
     else Inr authorization)"

definition authorize_automation ::
    "'s agent_store_ops \<Rightarrow> principal \<Rightarrow> uuid \<Rightarrow> u64 \<Rightarrow> 's
     \<Rightarrow> agent_error + automation_authorization" where
  "authorize_automation ops who silo_id now s =
     rbind (ok_or (agent_error.Unauthorized (lit ''Automation authorization ID is missing.''))
              (p_authorization_id who)) (\<lambda>authorization_id.
     rbind (ok_or agent_error.NotFound
              (filter_option (\<lambda>item. aa_silo_id item = silo_id)
                 (st_automation ops s authorization_id))) (\<lambda>authorization.
     if p_kind who \<noteq> principal_kind.Automation
        \<or> \<not> aa_approved_by_user authorization
        \<or> aa_revoked authorization
        \<or> aa_expires_at_unix_ms authorization \<le> now
     then Inl (agent_error.Unauthorized
            (lit ''Automation grant is mismatched, unapproved, revoked, or expired.''))
     else Inr authorization))"

definition authorize_scope ::
    "'s agent_store_ops \<Rightarrow> principal \<Rightarrow> uuid \<Rightarrow> u64 \<Rightarrow> automation_scope \<Rightarrow> 's
     \<Rightarrow> agent_error + uuid \<times> u64" where
  "authorize_scope ops who silo_id now scope s =
     (if p_kind who = principal_kind.HumanSession
      then rbind (authorize_human ops who silo_id now s) (\<lambda>authorization.
             Inr (sa_authorization_id authorization, sa_expires_at_unix_ms authorization))
      else rbind (authorize_automation ops who silo_id now s) (\<lambda>authorization.
             if scope \<notin> set (aa_scopes authorization)
             then Inl (agent_error.Unauthorized
                    (lit ''Automation grant lacks the requested scope.''))
             else Inr (aa_authorization_id authorization,
                       aa_expires_at_unix_ms authorization)))"

definition human_session_is_active :: "session_authorization option \<Rightarrow> u64 \<Rightarrow> bool" where
  "human_session_is_active session now \<longleftrightarrow>
     (case session of None \<Rightarrow> False
      | Some authorization \<Rightarrow>
          \<not> sa_revoked authorization \<and> now < sa_expires_at_unix_ms authorization)"

definition authorize_input ::
    "'s agent_store_ops \<Rightarrow> principal \<Rightarrow> uuid \<Rightarrow> u64 \<Rightarrow> 's \<Rightarrow> agent_error + uuid" where
  "authorize_input ops who silo_id now s =
     (if p_kind who = principal_kind.Automation
         \<and> human_session_is_active (st_human_session ops s silo_id) now
      then Inl (agent_error.Unauthorized
             (lit ''Automation input is suspended while a human session is active.''))
      else rbind (authorize_scope ops who silo_id now automation_scope.SendInput s)
             (\<lambda>(authorization_id, _). Inr authorization_id))"

section \<open>Deletion\<close>

definition destroy_record ::
    "('p, 's) agent_deps \<Rightarrow> environment_record \<Rightarrow> deletion_reason \<Rightarrow> u64 \<Rightarrow> ('p, 's) agent_core
     \<Rightarrow> (agent_error, deletion_proof, ('p, 's) agent_core) outcome" where
  "destroy_record D record reason now c =
     sbind (ensure_capability (core_capabilities D c) remote_operation.Destroy, c) (\<lambda>_ c.
     sbind (in_provider (ap_destroy (d_provider D) record) c) (\<lambda>receipt c.
     let record = hydrate_recovered_resource_ids record receipt in
     if pr_receipt_id receipt = nil_uuid
        \<or> pr_remote_environment_id receipt \<noteq> er_remote_environment_id record
        \<or> pr_volume_id receipt \<noteq> va_volume_id (er_volume record)
        \<or> \<not> deletion_resources_are_bound (pr_resource_deletions receipt)
              (er_remote_environment_id record) (va_volume_id (er_volume record))
              (va_key_id (er_volume record))
     then (Inl (agent_error.Provider
            (lit ''Deletion receipt does not contain one bound typed disposition for compute, volume, snapshot and ephemeral key.'')), c)
     else
       let (proof_id, c) = core_new_v4 c;
           proof = \<lparr>dp_proof_id = proof_id,
                    dp_silo_id = er_silo_id record,
                    dp_binding_id = er_binding_id record,
                    dp_remote_environment_id = er_remote_environment_id record,
                    dp_volume_id = va_volume_id (er_volume record),
                    dp_provider_receipt_id = pr_receipt_id receipt,
                    dp_resource_deletions = pr_resource_deletions receipt,
                    dp_deleted_at_unix_ms = now,
                    dp_reason = reason\<rparr>;
           record = record\<lparr>er_state := environment_state.Deleted,
                           er_deletion_proof_id := Some (dp_proof_id proof),
                           er_last_activity_at_unix_ms := now\<rparr>
       in sbind (in_store (st_commit_deletion (d_store D) record proof) c) (\<lambda>_ c.
          (Inr proof, c))))"

definition fail_create_with_compensation ::
    "('p, 's) agent_deps \<Rightarrow> environment_record \<Rightarrow> agent_error \<Rightarrow> u64 \<Rightarrow> ('p, 's) agent_core
     \<Rightarrow> agent_error \<times> ('p, 's) agent_core" where
  "fail_create_with_compensation D record original_error now c =
     (case destroy_record D record ProviderPolicy now c of
        (Inr _, c) \<Rightarrow> (original_error, c)
      | (Inl _, c) \<Rightarrow> (agent_error.Provider
          (lit ''Create failed and compensating deletion is still pending; restart is required.''), c))"

text \<open>\<open>return Err(self.fail_create_with_compensation(..))\<close>\<close>

definition abort_create ::
    "('p, 's) agent_deps \<Rightarrow> environment_record \<Rightarrow> agent_error \<Rightarrow> u64 \<Rightarrow> ('p, 's) agent_core
     \<Rightarrow> (agent_error, 'a, ('p, 's) agent_core) outcome" where
  "abort_create D record error now c =
     (case fail_create_with_compensation D record error now c of (e, c) \<Rightarrow> (Inl e, c))"

section \<open>Commands\<close>

text \<open>The record a create journals before it calls the provider.\<close>

definition pending_record ::
    "uuid \<Rightarrow> uuid \<Rightarrow> uuid \<Rightarrow> uuid \<Rightarrow> u64 \<Rightarrow> remote_network_policy \<Rightarrow> u64
     \<Rightarrow> environment_record" where
  "pending_record node_id silo_id binding_id remote_environment_id ttl_seconds network now =
     \<lparr>er_silo_id = silo_id,
      er_binding_id = binding_id,
      er_remote_environment_id = remote_environment_id,
      er_node_id = node_id,
      er_state = Provisioning,
      er_network = network,
      er_volume = \<lparr>va_encrypted = False, va_key_custody = UserControlled,
                   va_volume_id = nil_uuid, va_key_id = nil_uuid\<rparr>,
      er_created_at_unix_ms = now,
      er_expires_at_unix_ms = now + ttl_seconds * 1000,
      er_last_activity_at_unix_ms = now,
      er_deletion_proof_id = None\<rparr>"

text \<open>The rest of a create, once the record is journalled.\<close>

definition provision ::
    "('p, 's) agent_deps \<Rightarrow> environment_record \<Rightarrow> u64 \<Rightarrow> ('p, 's) agent_core
     \<Rightarrow> (agent_error, agent_response, ('p, 's) agent_core) outcome" where
  "provision D record now c =
     (case in_provider (ap_create (d_provider D) record) c of
        (Inl error, c) \<Rightarrow> abort_create D record error now c
      | (Inr receipt, c) \<Rightarrow>
          let record = record\<lparr>er_volume := pv_volume receipt\<rparr> in
          (case in_store (st_update_environment (d_store D) record) c of
             (Inl error, c) \<Rightarrow> abort_create D record error now c
           | (Inr _, c) \<Rightarrow>
               if \<not> provisioned_volume_is_valid (pv_volume receipt)
               then abort_create D record (agent_error.Provider
                      (lit ''Provider did not attest a user-controlled encrypted volume.''))
                      now c
               else (case validate_evidence (pv_evidence receipt) record now of
                       Inl error \<Rightarrow> abort_create D record error now c
                     | Inr _ \<Rightarrow>
                         let record = record\<lparr>er_state := environment_state.Created\<rparr> in
                         sbind (in_store (st_update_environment (d_store D) record) c)
                           (\<lambda>_ c. (Inr (Environment record (Some (pv_evidence receipt))),
                                   c)))))"

definition core_create ::
    "('p, 's) agent_deps \<Rightarrow> principal \<Rightarrow> uuid \<Rightarrow> uuid \<Rightarrow> uuid \<Rightarrow> u64 \<Rightarrow> remote_network_policy
     \<Rightarrow> bool \<Rightarrow> u64 \<Rightarrow> ('p, 's) agent_core
     \<Rightarrow> (agent_error, agent_response, ('p, 's) agent_core) outcome" where
  "core_create D who silo_id binding_id remote_environment_id ttl_seconds network
     cost_acknowledged now c =
     sbind (require_control who, c) (\<lambda>_ c.
     if silo_id = nil_uuid \<or> binding_id = nil_uuid \<or> remote_environment_id = nil_uuid
     then (Inl (agent_error.InvalidRequest
            (lit ''Create identifiers must be non-zero UUIDs.'')), c)
     else if \<not> cost_acknowledged
     then (Inl (agent_error.Unauthorized
            (lit ''The user must acknowledge the node cost disclosure.'')), c)
     else if \<not> (60 \<le> ttl_seconds \<and> ttl_seconds \<le> MAX_ENVIRONMENT_TTL_SECONDS)
     then (Inl (agent_error.InvalidRequest
            (lit ''Environment TTL must be between one minute and 30 days.'')), c)
     else if core_environment D c silo_id \<noteq> None
     then (Inl (agent_error.Conflict
            (lit ''A remote environment already exists for this Silo.'')), c)
     else
       sbind (ensure_capability (core_capabilities D c) remote_operation.Create, c) (\<lambda>_ c.
       sbind (ensure_capability (core_capabilities D c) remote_operation.Destroy, c) (\<lambda>_ c.
       let record = pending_record (nd_node_id (ac_node c)) silo_id binding_id
                      remote_environment_id ttl_seconds network now
       in sbind (in_store (st_insert_environment (d_store D) record) c) (\<lambda>_ c.
          provision D record now c))))"

definition open_human_session ::
    "('p, 's) agent_deps \<Rightarrow> principal \<Rightarrow> uuid \<Rightarrow> u64 \<Rightarrow> u64 \<Rightarrow> ('p, 's) agent_core
     \<Rightarrow> (agent_error, agent_response, ('p, 's) agent_core) outcome" where
  "open_human_session D who silo_id lifetime_seconds now c =
     sbind (require_control who, c) (\<lambda>_ c.
     if \<not> (60 \<le> lifetime_seconds \<and> lifetime_seconds \<le> MAX_HUMAN_SESSION_SECONDS)
     then (Inl (agent_error.InvalidRequest
            (lit ''Human session lifetime must be one minute to eight hours.'')), c)
     else sbind (core_record D silo_id now False c, c) (\<lambda>record c.
       let (authorization_id, c) = core_new_v4 c;
           authorization = \<lparr>sa_authorization_id = authorization_id,
                            sa_silo_id = silo_id,
                            sa_remote_environment_id = er_remote_environment_id record,
                            sa_issued_at_unix_ms = now,
                            sa_expires_at_unix_ms = now + lifetime_seconds * 1000,
                            sa_revoked = False\<rparr>
       in sbind (in_store (st_set_human_session (d_store D) authorization) c) (\<lambda>_ c.
          (Inr (agent_response.HumanSession authorization), c))))"

definition close_human_session ::
    "('p, 's) agent_deps \<Rightarrow> principal \<Rightarrow> uuid \<Rightarrow> u64 \<Rightarrow> ('p, 's) agent_core
     \<Rightarrow> (agent_error, agent_response, ('p, 's) agent_core) outcome" where
  "close_human_session D who silo_id now c =
     sbind (authorize_human (d_store D) who silo_id now (ac_store c), c) (\<lambda>authorization c.
     let authorization = authorization\<lparr>sa_revoked := True\<rparr> in
     sbind (in_store (st_set_human_session (d_store D) authorization) c) (\<lambda>_ c.
     (Inr (agent_response.HumanSession authorization), c)))"

definition grant_automation ::
    "('p, 's) agent_deps \<Rightarrow> principal \<Rightarrow> uuid \<Rightarrow> u64 \<Rightarrow> automation_scope list \<Rightarrow> bool \<Rightarrow> u64
     \<Rightarrow> ('p, 's) agent_core \<Rightarrow> (agent_error, agent_response, ('p, 's) agent_core) outcome" where
  "grant_automation D who silo_id lifetime_seconds scopes approved_by_user now c =
     sbind (require_control who, c) (\<lambda>_ c.
     if \<not> approved_by_user
        \<or> \<not> (60 \<le> lifetime_seconds \<and> lifetime_seconds \<le> MAX_AUTOMATION_SECONDS)
        \<or> scopes = [] \<or> 2 < length scopes \<or> \<not> distinct scopes
     then (Inl (agent_error.InvalidRequest
            (lit ''Automation requires explicit approval, unique scopes, and a one-minute to one-hour lifetime.'')), c)
     else sbind (core_record D silo_id now False c, c) (\<lambda>record c.
       let (authorization_id, c) = core_new_v4 c;
           authorization = \<lparr>aa_authorization_id = authorization_id,
                            aa_silo_id = silo_id,
                            aa_remote_environment_id = er_remote_environment_id record,
                            aa_issued_at_unix_ms = now,
                            aa_expires_at_unix_ms = now + lifetime_seconds * 1000,
                            aa_scopes = scopes,
                            aa_approved_by_user = approved_by_user,
                            aa_revoked = False\<rparr>
       in sbind (in_store (st_set_automation (d_store D) authorization) c) (\<lambda>_ c.
          (Inr (agent_response.Automation authorization), c))))"

definition revoke_automation ::
    "('p, 's) agent_deps \<Rightarrow> principal \<Rightarrow> uuid \<Rightarrow> uuid \<Rightarrow> ('p, 's) agent_core
     \<Rightarrow> (agent_error, agent_response, ('p, 's) agent_core) outcome" where
  "revoke_automation D who silo_id authorization_id c =
     sbind (require_control who, c) (\<lambda>_ c.
     sbind (ok_or agent_error.NotFound
              (filter_option (\<lambda>item. aa_silo_id item = silo_id)
                 (st_automation (d_store D) (ac_store c) authorization_id)), c) (\<lambda>authorization c.
     let authorization = authorization\<lparr>aa_revoked := True\<rparr> in
     sbind (in_store (st_set_automation (d_store D) authorization) c) (\<lambda>_ c.
     (Inr (agent_response.Automation authorization), c))))"

definition open_screen ::
    "('p, 's) agent_deps \<Rightarrow> principal \<Rightarrow> uuid \<Rightarrow> u64 \<Rightarrow> ('p, 's) agent_core
     \<Rightarrow> (agent_error, agent_response, ('p, 's) agent_core) outcome" where
  "open_screen D who silo_id now c =
     sbind (core_record D silo_id now False c, c) (\<lambda>record c.
     sbind (authorize_scope (d_store D) who silo_id now ReadScreen (ac_store c), c)
       (\<lambda>(authorization_id, authorization_expires_at_unix_ms) c.
     let requested_expires_at_unix_ms =
           min authorization_expires_at_unix_ms
             (saturating_add now MAX_SCREEN_CHANNEL_LIFETIME_MS)
     in sbind (in_provider (ap_open_screen (d_provider D) record authorization_id
                 requested_expires_at_unix_ms) c) (\<lambda>channel c.
        if sc_remote_environment_id channel \<noteq> er_remote_environment_id record
           \<or> sc_authorization_id channel \<noteq> authorization_id
           \<or> sc_expires_at_unix_ms channel \<le> now
           \<or> requested_expires_at_unix_ms < sc_expires_at_unix_ms channel
        then (Inl (agent_error.Provider
               (lit ''Provider returned a mismatched or out-of-bounds screen channel.'')), c)
        else (Inr (Screen channel), c))))"

definition send_input ::
    "('p, 's) agent_deps \<Rightarrow> principal \<Rightarrow> uuid \<Rightarrow> input_event list \<Rightarrow> u64 \<Rightarrow> ('p, 's) agent_core
     \<Rightarrow> (agent_error, agent_response, ('p, 's) agent_core) outcome" where
  "send_input D who silo_id events now c =
     sbind (validate_input events, c) (\<lambda>_ c.
     sbind (core_record D silo_id now False c, c) (\<lambda>record c.
     sbind (authorize_input (d_store D) who silo_id now (ac_store c), c) (\<lambda>authorization_id c.
     sbind (in_provider (ap_send_input (d_provider D) record authorization_id events) c) (\<lambda>_ c.
     (Inr (InputAccepted (length events)), c)))))"

text \<open>The match of \<open>lifecycle\<close> on its command.\<close>

fun lifecycle_operation ::
    "agent_command
     \<Rightarrow> agent_error + remote_operation \<times> remote_network_policy option \<times> u16 option" where
  "lifecycle_operation (agent_command.Start _) = Inr (remote_operation.Start, None, None)"
| "lifecycle_operation (agent_command.Stop _) = Inr (remote_operation.Stop, None, None)"
| "lifecycle_operation (agent_command.Pause _) = Inr (remote_operation.Pause, None, None)"
| "lifecycle_operation (agent_command.Snapshot _) = Inr (remote_operation.Snapshot, None, None)"
| "lifecycle_operation (agent_command.ConfigureNetwork _ network) =
     Inr (remote_operation.ConfigureNetwork, Some network, None)"
| "lifecycle_operation (agent_command.Health _) = Inr (remote_operation.Health, None, None)"
| "lifecycle_operation (agent_command.Logs _ limit) =
     (if 1 \<le> limit \<and> limit \<le> 200 then Inr (remote_operation.Logs, None, Some limit)
      else Inl (agent_error.LimitExceeded (lit ''Log limit must be between 1 and 200.'')))"
| "lifecycle_operation _ =
     Inl (agent_error.InvalidRequest (lit ''Command is not a lifecycle operation.''))"

definition state_after :: "remote_operation \<Rightarrow> environment_state \<Rightarrow> environment_state" where
  "state_after operation state =
     (case operation of
        remote_operation.Start \<Rightarrow> Running
      | remote_operation.Stop \<Rightarrow> Stopped
      | remote_operation.Pause \<Rightarrow> Paused
      | _ \<Rightarrow> state)"

definition evidence_required :: "remote_operation \<Rightarrow> bool" where
  "evidence_required operation \<longleftrightarrow>
     operation = remote_operation.Start \<or> operation = remote_operation.ConfigureNetwork
     \<or> operation = remote_operation.Health"

definition with_network ::
    "remote_network_policy option \<Rightarrow> environment_record \<Rightarrow> environment_record" where
  "with_network network record =
     (case network of None \<Rightarrow> record | Some n \<Rightarrow> record\<lparr>er_network := n\<rparr>)"

definition lifecycle ::
    "('p, 's) agent_deps \<Rightarrow> agent_command \<Rightarrow> u64 \<Rightarrow> ('p, 's) agent_core
     \<Rightarrow> (agent_error, agent_response, ('p, 's) agent_core) outcome" where
  "lifecycle D command now c =
     sbind (core_record D (command_silo_id command) now False c, c) (\<lambda>record c.
     sbind (lifecycle_operation command, c) (\<lambda>(operation, network, log_limit) c.
     sbind (ensure_capability (core_capabilities D c) operation, c) (\<lambda>_ c.
     let record = with_network network record in
     sbind (in_provider (ap_lifecycle (d_provider D) operation record log_limit) c) (\<lambda>receipt c.
     if operation = remote_operation.Logs
     then
       let limit = unat (case log_limit of None \<Rightarrow> 0 | Some l \<Rightarrow> l) in
       if limit < length (lr_logs receipt)
          \<or> list_ex (\<lambda>entry. 1024 < str_len entry) (lr_logs receipt)
       then (Inl (agent_error.Provider
              (lit ''Provider logs exceeded negotiated limits.'')), c)
       else sbind (in_store (st_update_environment (d_store D)
                     (record\<lparr>er_last_activity_at_unix_ms := now\<rparr>)) c) (\<lambda>_ c.
              (Inr (agent_response.Logs (lr_logs receipt) now), c))
     else
       sbind (if evidence_required operation
              then rbind (ok_or (agent_error.Provider (lit ''Provider omitted guest evidence.''))
                     (lr_evidence receipt)) (\<lambda>evidence. validate_evidence evidence record now)
              else Inr (), c) (\<lambda>_ c.
       let record = record\<lparr>er_state := state_after operation (er_state record),
                           er_last_activity_at_unix_ms := now\<rparr>
       in sbind (in_store (st_update_environment (d_store D) record) c) (\<lambda>_ c.
          (Inr (Environment record (lr_evidence receipt)), c)))))))"

definition deletion_proof_is_bound :: "environment_record \<Rightarrow> deletion_proof \<Rightarrow> bool" where
  "deletion_proof_is_bound record proof \<longleftrightarrow>
     dp_silo_id proof = er_silo_id record
     \<and> dp_binding_id proof = er_binding_id record
     \<and> dp_remote_environment_id proof = er_remote_environment_id record
     \<and> dp_volume_id proof = va_volume_id (er_volume record)
     \<and> dp_deleted_at_unix_ms proof = er_last_activity_at_unix_ms record
     \<and> deletion_resources_are_bound (dp_resource_deletions proof)
         (er_remote_environment_id record) (va_volume_id (er_volume record))
         (va_key_id (er_volume record))"

definition core_destroy ::
    "('p, 's) agent_deps \<Rightarrow> principal \<Rightarrow> uuid \<Rightarrow> bool \<Rightarrow> u64 \<Rightarrow> ('p, 's) agent_core
     \<Rightarrow> (agent_error, agent_response, ('p, 's) agent_core) outcome" where
  "core_destroy D who silo_id confirm_destroy now c =
     sbind (require_control who, c) (\<lambda>_ c.
     case filter_option (\<lambda>record. er_state record = environment_state.Deleted)
            (core_environment D c silo_id) of
       Some record \<Rightarrow>
         sbind (ok_or (agent_error.InvalidState
                   (lit ''Deleted environment is missing its bound deletion proof.''))
                 (filter_option (deletion_proof_is_bound record)
                    (Option.bind (er_deletion_proof_id record)
                       (st_deletion_proof (d_store D) (ac_store c)))), c) (\<lambda>proof c.
         (Inr (DeletedEnvironment proof), c))
     | None \<Rightarrow>
         if \<not> confirm_destroy
         then (Inl (agent_error.InvalidRequest
                (lit ''Destroy requires explicit confirmation unless the environment is already deleted.'')), c)
         else sbind (core_record D silo_id now True c, c) (\<lambda>record c.
              sbind (destroy_record D record UserConfirmed now c) (\<lambda>proof c.
              (Inr (DeletedEnvironment proof), c))))"

section \<open>Dispatch\<close>

definition execute_authorized ::
    "('p, 's) agent_deps \<Rightarrow> principal \<Rightarrow> agent_command \<Rightarrow> u64 \<Rightarrow> ('p, 's) agent_core
     \<Rightarrow> (agent_error, agent_response, ('p, 's) agent_core) outcome" where
  "execute_authorized D who command now c =
     (case command of
        agent_command.Create silo_id binding_id remote_environment_id ttl_seconds network
            cost_acknowledged \<Rightarrow>
          core_create D who silo_id binding_id remote_environment_id ttl_seconds network
            cost_acknowledged now c
      | agent_command.Destroy silo_id confirm_destroy \<Rightarrow>
          core_destroy D who silo_id confirm_destroy now c
      | OpenHumanSession silo_id lifetime_seconds \<Rightarrow>
          open_human_session D who silo_id lifetime_seconds now c
      | CloseHumanSession silo_id \<Rightarrow> close_human_session D who silo_id now c
      | GrantAutomation silo_id lifetime_seconds scopes approved_by_user \<Rightarrow>
          grant_automation D who silo_id lifetime_seconds scopes approved_by_user now c
      | RevokeAutomation silo_id authorization_id \<Rightarrow>
          revoke_automation D who silo_id authorization_id c
      | OpenScreen silo_id \<Rightarrow> open_screen D who silo_id now c
      | agent_command.SendInput silo_id events \<Rightarrow> send_input D who silo_id events now c
      | other \<Rightarrow> sbind (require_control who, c) (\<lambda>_ c. lifecycle D other now c))"

definition execute ::
    "('p, 's) agent_deps \<Rightarrow> agent_request \<Rightarrow> ('p, 's) agent_core
     \<Rightarrow> (agent_error, agent_response, ('p, 's) agent_core) outcome" where
  "execute D request c =
     sbind (validate_request D request c) (\<lambda>_ c.
     let (now, c) = core_now c in
     sbind (in_store (st_claim_request (d_store D) (p_credential_id (rq_principal request))
              (rq_request_id request) (rq_nonce request) (rq_sequence request)) c) (\<lambda>_ c.
     let silo_id = command_silo_id (rq_command request);
         label = command_label (rq_command request);
         (result, c) = execute_authorized D (rq_principal request) (rq_command request) now c;
         (activity_id, c) = core_new_v4 c
     in sbind (in_store (st_append_activity (d_store D)
                 \<lparr>ae_activity_id = activity_id,
                  ae_silo_id = silo_id,
                  ae_principal = p_kind (rq_principal request),
                  ae_operation = label,
                  ae_accepted = is_ok result,
                  ae_occurred_at_unix_ms = now\<rparr>) c) (\<lambda>_ c.
        (result, c))))"

section \<open>Expiry sweep and crash recovery\<close>

fun sweep_loop ::
    "('p, 's) agent_deps \<Rightarrow> u64 \<Rightarrow> uuid list \<Rightarrow> ('p, 's) agent_core
     \<Rightarrow> (agent_error + deletion_proof) list \<times> ('p, 's) agent_core" where
  "sweep_loop D now [] c = ([], c)"
| "sweep_loop D now (silo_id # ids) c =
     (case filter_option (\<lambda>record. er_state record \<noteq> environment_state.Deleted
                            \<and> er_expires_at_unix_ms record \<le> now)
             (core_environment D c silo_id) of
        None \<Rightarrow> sweep_loop D now ids c
      | Some record \<Rightarrow>
          let (result, c) = destroy_record D record TtlExpired now c;
              (activity_id, c) = core_new_v4 c;
              (activity_result, c) = in_store (st_append_activity (d_store D)
                 \<lparr>ae_activity_id = activity_id,
                  ae_silo_id = er_silo_id record,
                  ae_principal = ControlPlane,
                  ae_operation = lit ''destroy'',
                  ae_accepted = is_ok result,
                  ae_occurred_at_unix_ms = now\<rparr>) c;
              final = (case activity_result of Inr _ \<Rightarrow> result | Inl error \<Rightarrow> Inl error);
              (results, c) = sweep_loop D now ids c
          in (final # results, c))"

definition sweep_expired ::
    "('p, 's) agent_deps \<Rightarrow> ('p, 's) agent_core
     \<Rightarrow> (agent_error + deletion_proof) list \<times> ('p, 's) agent_core" where
  "sweep_expired D c =
     (let (now, c) = core_now c in
      sweep_loop D now (st_environment_ids (d_store D) (ac_store c)) c)"

fun recover_loop ::
    "('p, 's) agent_deps \<Rightarrow> u64 \<Rightarrow> environment_record list \<Rightarrow> ('p, 's) agent_core
     \<Rightarrow> (agent_error, unit, ('p, 's) agent_core) outcome" where
  "recover_loop D now [] c = (Inr (), c)"
| "recover_loop D now (record # records) c =
     (if er_silo_id record = nil_uuid \<or> er_binding_id record = nil_uuid
         \<or> er_remote_environment_id record = nil_uuid
         \<or> er_node_id record \<noteq> nd_node_id (ac_node c)
      then (Inl (agent_error.InvalidState
             (lit ''Provisioning recovery record is not bound to this Agent node.'')), c)
      else sbind (destroy_record D record ProviderPolicy now c) (\<lambda>_ c.
           recover_loop D now records c))"

definition recover_incomplete_creates ::
    "('p, 's) agent_deps \<Rightarrow> ('p, 's) agent_core
     \<Rightarrow> (agent_error, unit, ('p, 's) agent_core) outcome" where
  "recover_incomplete_creates D c =
     (let (now, c) = core_now c;
          records = filter (\<lambda>record. er_state record = Provisioning)
            (List.map_filter (core_environment D c)
               (st_environment_ids (d_store D) (ac_store c)))
      in recover_loop D now records c)"

definition agent_core_new ::
    "('p, 's) agent_deps \<Rightarrow> node_disclosure \<Rightarrow> 'p \<Rightarrow> 's \<Rightarrow> host
     \<Rightarrow> agent_error + ('p, 's) agent_core" where
  "agent_core_new D node provider store host =
     rbind (node_disclosure_validate node) (\<lambda>_.
     rbind (Agent_Types.validate_capabilities (ap_capabilities (d_provider D) provider)) (\<lambda>_.
     case recover_incomplete_creates D
            \<lparr>ac_node = node, ac_provider = provider, ac_store = store, ac_host = host\<rparr> of
       (Inl error, _) \<Rightarrow> Inl error
     | (Inr _, c) \<Rightarrow> Inr c))"

end
