(* ===== verification/Agent_Machine.thy ===== *)
theory Agent_Machine
  imports Agent_Store
begin

text \<open>
  The abstract Agent: a step relation on \<open>agent_view\<close> that says which changes of the durable
  state the Agent may make, and the invariants of its reachable states. The first parameter
  is the set of Silos whose environment record the step may change, the second says whether
  the step may hand out or revoke grants; both are empty-handed for a principal that is not
  the control plane. The theory \<open>Agent_Refinement\<close> proves that the code only makes such steps.
\<close>

definition live_state :: "environment_state \<Rightarrow> bool" where
  "live_state st \<longleftrightarrow> st \<noteq> Provisioning \<and> st \<noteq> environment_state.Deleted"

definition same_identity :: "environment_record \<Rightarrow> environment_record \<Rightarrow> bool" where
  "same_identity r r' \<longleftrightarrow>
     er_silo_id r' = er_silo_id r
     \<and> er_binding_id r' = er_binding_id r
     \<and> er_remote_environment_id r' = er_remote_environment_id r
     \<and> er_node_id r' = er_node_id r
     \<and> er_created_at_unix_ms r' = er_created_at_unix_ms r
     \<and> er_expires_at_unix_ms r' = er_expires_at_unix_ms r"

text \<open>A proof whose dispositions are bound to exactly the record's resources.\<close>

definition proof_binds :: "environment_record \<Rightarrow> deletion_proof \<Rightarrow> bool" where
  "proof_binds r p \<longleftrightarrow>
     deletion_matches r p
     \<and> dp_provider_receipt_id p \<noteq> nil_uuid
     \<and> dp_deleted_at_unix_ms p = er_last_activity_at_unix_ms r
     \<and> deletion_resources_are_bound (dp_resource_deletions p) (er_remote_environment_id r)
         (va_volume_id (er_volume r)) (va_key_id (er_volume r))"

abbreviation set_environment :: "environment_record \<Rightarrow> agent_view \<Rightarrow> agent_view" where
  "set_environment r v \<equiv> v\<lparr>v_environments := (v_environments v)(er_silo_id r \<mapsto> r)\<rparr>"

inductive agent_step :: "uuid set \<Rightarrow> bool \<Rightarrow> agent_view \<Rightarrow> agent_view \<Rightarrow> bool"
  for S :: "uuid set" and G :: bool where
  claim:
    "v_high_water v pid < q
     \<Longrightarrow> agent_step S G v (v\<lparr>v_high_water := (v_high_water v)(pid := q)\<rparr>)"
| provision:
    "v_environments v (er_silo_id r) = None \<Longrightarrow> er_silo_id r \<in> S
     \<Longrightarrow> er_state r = Provisioning \<Longrightarrow> er_deletion_proof_id r = None
     \<Longrightarrow> agent_step S G v (set_environment r v)"
| journal:
    "v_environments v (er_silo_id r) = Some r \<Longrightarrow> er_silo_id r \<in> S
     \<Longrightarrow> er_state r = Provisioning
     \<Longrightarrow> agent_step S G v (v\<lparr>v_environments :=
           (v_environments v)(er_silo_id r \<mapsto> r\<lparr>er_volume := vol\<rparr>)\<rparr>)"
| activate:
    "v_environments v (er_silo_id r) = Some r \<Longrightarrow> er_silo_id r \<in> S
     \<Longrightarrow> er_state r = Provisioning \<Longrightarrow> provisioned_volume_is_valid (er_volume r)
     \<Longrightarrow> agent_step S G v (v\<lparr>v_environments :=
           (v_environments v)(er_silo_id r \<mapsto> r\<lparr>er_state := environment_state.Created\<rparr>)\<rparr>)"
| operate:
    "v_environments v (er_silo_id r) = Some r \<Longrightarrow> er_silo_id r \<in> S
     \<Longrightarrow> live_state (er_state r) \<Longrightarrow> live_state (er_state r')
     \<Longrightarrow> same_identity r r' \<Longrightarrow> er_volume r' = er_volume r
     \<Longrightarrow> er_deletion_proof_id r' = er_deletion_proof_id r
     \<Longrightarrow> agent_step S G v (set_environment r' v)"
| delete:
    "v_environments v (er_silo_id r) = Some r \<Longrightarrow> er_silo_id r \<in> S
     \<Longrightarrow> er_state r \<noteq> environment_state.Deleted
     \<Longrightarrow> same_identity r r' \<Longrightarrow> er_network r' = er_network r
     \<Longrightarrow> er_state r = Provisioning \<or> er_volume r' = er_volume r
     \<Longrightarrow> proof_binds r' p
     \<Longrightarrow> agent_step S G v ((set_environment r' v)\<lparr>v_proofs := (v_proofs v)(dp_proof_id p \<mapsto> p)\<rparr>)"
| open_session:
    "G \<Longrightarrow> v_environments v (sa_silo_id h) = Some r \<Longrightarrow> live_state (er_state r)
     \<Longrightarrow> sa_remote_environment_id h = er_remote_environment_id r \<Longrightarrow> \<not> sa_revoked h
     \<Longrightarrow> agent_step S G v
           (v\<lparr>v_human_sessions := (v_human_sessions v)(sa_silo_id h \<mapsto> h)\<rparr>)"
| revoke_session:
    "v_human_sessions v (sa_silo_id h) = Some h
     \<Longrightarrow> agent_step S G v (v\<lparr>v_human_sessions :=
           (v_human_sessions v)(sa_silo_id h \<mapsto> h\<lparr>sa_revoked := True\<rparr>)\<rparr>)"
| grant_automation:
    "G \<Longrightarrow> v_environments v (aa_silo_id a) = Some r \<Longrightarrow> live_state (er_state r)
     \<Longrightarrow> aa_remote_environment_id a = er_remote_environment_id r
     \<Longrightarrow> aa_approved_by_user a \<Longrightarrow> aa_scopes a \<noteq> [] \<Longrightarrow> distinct (aa_scopes a)
     \<Longrightarrow> agent_step S G v
           (v\<lparr>v_automation := (v_automation v)(aa_authorization_id a \<mapsto> a)\<rparr>)"
| revoke_automation:
    "G \<Longrightarrow> v_automation v (aa_authorization_id a) = Some a
     \<Longrightarrow> agent_step S G v (v\<lparr>v_automation :=
           (v_automation v)(aa_authorization_id a \<mapsto> a\<lparr>aa_revoked := True\<rparr>)\<rparr>)"
| record_activity:
    "agent_step S G v
       (v\<lparr>v_activity := push_bounded MAX_ACTIVITY_ENTRIES e (v_activity v)\<rparr>)"

abbreviation agent_steps :: "uuid set \<Rightarrow> bool \<Rightarrow> agent_view \<Rightarrow> agent_view \<Rightarrow> bool" where
  "agent_steps S G \<equiv> (agent_step S G)\<^sup>*\<^sup>*"

section \<open>Invariants\<close>

definition record_wf :: "environment_record \<Rightarrow> bool" where
  "record_wf r \<longleftrightarrow>
     (er_state r = environment_state.Deleted \<longleftrightarrow> er_deletion_proof_id r \<noteq> None)
     \<and> (live_state (er_state r) \<longrightarrow> provisioned_volume_is_valid (er_volume r))"

definition view_wf :: "agent_view \<Rightarrow> bool" where
  "view_wf v \<longleftrightarrow>
     (\<forall>silo r. v_environments v silo = Some r \<longrightarrow> er_silo_id r = silo \<and> record_wf r)
     \<and> (\<forall>silo h. v_human_sessions v silo = Some h \<longrightarrow> sa_silo_id h = silo)
     \<and> (\<forall>i a. v_automation v i = Some a \<longrightarrow> aa_authorization_id a = i)
     \<and> length (v_activity v) \<le> MAX_ACTIVITY_ENTRIES"

lemma view_wf_environment:
  assumes "view_wf v" and "v_environments v silo = Some r"
  shows "er_silo_id r = silo" "record_wf r"
  using assms by (auto simp: view_wf_def)

lemma view_wf_human_session:
  "view_wf v \<Longrightarrow> v_human_sessions v silo = Some h \<Longrightarrow> sa_silo_id h = silo"
  by (auto simp: view_wf_def)

lemma view_wf_automation:
  "view_wf v \<Longrightarrow> v_automation v i = Some a \<Longrightarrow> aa_authorization_id a = i"
  by (auto simp: view_wf_def)

lemma view_wf_set_environment:
  "view_wf v \<Longrightarrow> record_wf r \<Longrightarrow> silo = er_silo_id r
   \<Longrightarrow> view_wf (v\<lparr>v_environments := (v_environments v)(silo \<mapsto> r)\<rparr>)"
  by (auto simp: view_wf_def)

lemma view_wf_other_fields [simp]:
  "view_wf (v\<lparr>v_high_water := hw\<rparr>) = view_wf v"
  "view_wf (v\<lparr>v_proofs := ps\<rparr>) = view_wf v"
  by (auto simp: view_wf_def)

lemma view_wf_set_human_session:
  "view_wf v \<Longrightarrow> silo = sa_silo_id h
   \<Longrightarrow> view_wf (v\<lparr>v_human_sessions := (v_human_sessions v)(silo \<mapsto> h)\<rparr>)"
  by (auto simp: view_wf_def)

lemma view_wf_set_automation:
  "view_wf v \<Longrightarrow> i = aa_authorization_id a
   \<Longrightarrow> view_wf (v\<lparr>v_automation := (v_automation v)(i \<mapsto> a)\<rparr>)"
  by (auto simp: view_wf_def)

lemma view_wf_push_activity:
  "view_wf v
   \<Longrightarrow> view_wf (v\<lparr>v_activity := push_bounded MAX_ACTIVITY_ENTRIES e (v_activity v)\<rparr>)"
  by (simp add: view_wf_def length_push_bounded MAX_ACTIVITY_ENTRIES_def)

lemmas view_wf_updates =
  view_wf_set_environment view_wf_set_human_session view_wf_set_automation
  view_wf_push_activity

lemma agent_step_view_wf: "agent_step S G v v' \<Longrightarrow> view_wf v \<Longrightarrow> view_wf v'"
proof (induction rule: agent_step.induct)
  case (provision v r)
  then show ?case
    by (intro view_wf_updates) (simp_all add: record_wf_def live_state_def)
next
  case (journal v r vol)
  then show ?case
    using view_wf_environment(2) [of v "er_silo_id r" r]
    by (intro view_wf_updates) (simp_all add: record_wf_def live_state_def)
next
  case (activate v r)
  then show ?case
    using view_wf_environment(2) [of v "er_silo_id r" r]
    by (intro view_wf_updates) (simp_all add: record_wf_def)
next
  case (operate v r r')
  then have "record_wf r" by (blast dest: view_wf_environment)
  with operate have "record_wf r'" by (simp add: record_wf_def live_state_def)
  with operate show ?case by (intro view_wf_updates) simp_all
next
  case (delete v r r' p)
  then have "record_wf r'"
    by (simp add: record_wf_def live_state_def proof_binds_def deletion_matches_def)
  with delete have "view_wf (set_environment r' v)"
    by (intro view_wf_updates) simp_all
  then show ?case by simp
qed (auto intro!: view_wf_updates)

lemma agent_steps_view_wf: "agent_steps S G v v' \<Longrightarrow> view_wf v \<Longrightarrow> view_wf v'"
  by (induction rule: rtranclp_induct) (auto intro: agent_step_view_wf)

text \<open>Frame: only the environments of the Silos in \<open>S\<close> change.\<close>

lemma agent_step_frame:
  "agent_step S G v v' \<Longrightarrow> silo \<notin> S \<Longrightarrow> v_environments v' silo = v_environments v silo"
  by (induction rule: agent_step.induct) (auto simp: same_identity_def)

lemma agent_steps_frame:
  "agent_steps S G v v' \<Longrightarrow> silo \<notin> S \<Longrightarrow> v_environments v' silo = v_environments v silo"
  by (induction rule: rtranclp_induct) (auto simp: agent_step_frame)

text \<open>
  Persistence of identity: an environment, once recorded, stays recorded under the same
  identifiers, node and lifetime; a deleted one never changes again, and a live one never
  returns to provisioning.
\<close>

definition continues :: "environment_record \<Rightarrow> environment_record \<Rightarrow> bool" where
  "continues r r' \<longleftrightarrow>
     same_identity r r'
     \<and> (er_state r = environment_state.Deleted \<longrightarrow> r' = r)
     \<and> (er_state r \<noteq> Provisioning \<longrightarrow> er_state r' \<noteq> Provisioning \<and> er_volume r' = er_volume r)"

lemma continues_refl [simp, intro]: "continues r r"
  by (simp add: continues_def same_identity_def)

lemma continues_trans: "continues r r' \<Longrightarrow> continues r' r'' \<Longrightarrow> continues r r''"
  by (auto simp: continues_def same_identity_def)

lemma agent_step_continues:
  "agent_step S G v v' \<Longrightarrow> view_wf v \<Longrightarrow> v_environments v silo = Some r
   \<Longrightarrow> \<exists>r'. v_environments v' silo = Some r' \<and> continues r r'"
  by (induction rule: agent_step.induct)
    (auto simp: continues_def same_identity_def live_state_def proof_binds_def
      deletion_matches_def dest: view_wf_environment)

lemma agent_steps_continues:
  assumes "agent_steps S G v v'" "view_wf v" "v_environments v silo = Some r"
  shows "\<exists>r'. v_environments v' silo = Some r' \<and> continues r r'"
  using assms(1)
proof (induction rule: rtranclp_induct)
  case base
  then show ?case using assms(3) by blast
next
  case (step w w')
  then obtain r' where "v_environments w silo = Some r'" "continues r r'" by blast
  moreover from step.hyps(1) assms(2) have "view_wf w" by (rule agent_steps_view_wf)
  ultimately show ?case
    using agent_step_continues [OF step.hyps(2)] by (blast intro: continues_trans)
qed

text \<open>The replay barrier never moves down.\<close>

lemma agent_step_high_water:
  "agent_step S G v v' \<Longrightarrow> v_high_water v pid \<le> v_high_water v' pid"
  by (induction rule: agent_step.induct) auto

lemma agent_steps_high_water:
  "agent_steps S G v v' \<Longrightarrow> v_high_water v pid \<le> v_high_water v' pid"
  by (induction rule: rtranclp_induct) (auto intro: agent_step_high_water order_trans)

text \<open>Without grant rights nobody gains access: sessions can only be revoked.\<close>

lemma agent_step_no_grant:
  assumes "agent_step S False v v'"
  shows "v_automation v' = v_automation v"
    "v_human_sessions v' silo = v_human_sessions v silo
     \<or> (\<exists>h. v_human_sessions v silo = Some h
          \<and> v_human_sessions v' silo = Some (h\<lparr>sa_revoked := True\<rparr>))"
  using assms by (induction rule: agent_step.induct) auto

lemma agent_steps_no_grant:
  assumes "agent_steps S False v v'"
  shows "v_automation v' = v_automation v"
    "v_human_sessions v' silo = v_human_sessions v silo
     \<or> (\<exists>h. v_human_sessions v silo = Some h
          \<and> v_human_sessions v' silo = Some (h\<lparr>sa_revoked := True\<rparr>))"
  using assms
proof (induction rule: rtranclp_induct)
  case (step w w')
  { case 1 then show ?case using step agent_step_no_grant(1) by metis }
  { case 2
    have "h\<lparr>sa_revoked := True\<rparr>\<lparr>sa_revoked := True\<rparr> = h\<lparr>sa_revoked := True\<rparr>"
      for h :: session_authorization by simp
    with step.IH(2) agent_step_no_grant(2) [OF step.hyps(2), of silo] show ?case
      by (metis option.inject) }
qed auto

lemma agent_steps_mono:
  assumes "agent_steps S G v v'" "S \<subseteq> S'" "G \<longrightarrow> G'"
  shows "agent_steps S' G' v v'"
proof -
  have "agent_step S' G' a b" if "agent_step S G a b" for a b
    using that assms(2,3)
    by (induction rule: agent_step.induct) (auto intro: agent_step.intros)
  then have "agent_step S G \<le> agent_step S' G'" by blast
  then show ?thesis using assms(1) by (rule rtranclp_mono [THEN predicate2D])
qed

end
