(* ===== verification/Agent_Refinement.thy ===== *)
theory Agent_Refinement
  imports Agent_Core Agent_Machine
begin

text \<open>
  The code of \<open>AgentCore\<close> refines the abstract Agent: over any store that keeps the contract
  \<open>agent_store\<close> and with any provider, every request, sweep and recovery changes the store's
  view by a sequence of \<open>agent_step\<close>s, on the error paths too. The locale \<open>agent_core_client\<close>
  is the request processor's use of the store; it is interpreted here on the in-memory store
  and in \<open>Durable_Store\<close> on the store that the Agent binary runs on.
\<close>

section \<open>Outcomes of lifted operations\<close>

lemma outcome_in_store [simp]:
  "outcome Q E (in_store f c) =
     outcome (\<lambda>x s. Q x (c\<lparr>ac_store := s\<rparr>)) (\<lambda>e s. E e (c\<lparr>ac_store := s\<rparr>)) (f (ac_store c))"
  by (cases "f (ac_store c)"; cases "fst (f (ac_store c))") (auto simp: in_store_def)

lemma outcome_in_provider:
  assumes "\<And>x p. Q x (c\<lparr>ac_provider := p\<rparr>)" and "\<And>e p. E e (c\<lparr>ac_provider := p\<rparr>)"
  shows "outcome Q E (in_provider f c)"
  using assms
  by (cases "f (ac_provider c)"; cases "fst (f (ac_provider c))") (auto simp: in_provider_def)

lemma core_now_sel [simp]:
  "ac_store (snd (core_now c)) = ac_store c"
  "ac_node (snd (core_now c)) = ac_node c"
  "ac_provider (snd (core_now c)) = ac_provider c"
  by (simp_all add: core_now_def split_def)

lemma core_new_v4_sel [simp]:
  "ac_store (snd (core_new_v4 c)) = ac_store c"
  "ac_node (snd (core_new_v4 c)) = ac_node c"
  "ac_provider (snd (core_new_v4 c)) = ac_provider c"
  by (simp_all add: core_new_v4_def split_def)

lemma in_provider_sel [simp]:
  "in_provider f c = (r, c') \<Longrightarrow> ac_store c' = ac_store c \<and> ac_node c' = ac_node c"
  by (auto simp: in_provider_def split: prod.splits)

lemma in_set_map_filter: "y \<in> set (List.map_filter f xs) \<longleftrightarrow> (\<exists>x \<in> set xs. f x = Some y)"
  by (induction xs) (auto simp: List.map_filter_def)

lemma map_key_map_filter:
  assumes "\<And>x y. f x = Some y \<Longrightarrow> key y = x"
  shows "map key (List.map_filter f xs) = filter (\<lambda>x. f x \<noteq> None) xs"
  by (induction xs) (auto simp: List.map_filter_def dest: assms)

section \<open>Pure facts about records\<close>

lemma same_identity_refl [simp, intro]: "same_identity r r"
  by (simp add: same_identity_def)

lemma hydrate_recovered_same [simp]:
  "same_identity r0 (hydrate_recovered_resource_ids r receipt) = same_identity r0 r"
  "er_silo_id (hydrate_recovered_resource_ids r receipt) = er_silo_id r"
  "er_binding_id (hydrate_recovered_resource_ids r receipt) = er_binding_id r"
  "er_remote_environment_id (hydrate_recovered_resource_ids r receipt)
     = er_remote_environment_id r"
  "er_network (hydrate_recovered_resource_ids r receipt) = er_network r"
  "er_state (hydrate_recovered_resource_ids r receipt) = er_state r"
  "er_state r \<noteq> Provisioning \<Longrightarrow> hydrate_recovered_resource_ids r receipt = r"
  by (auto simp: hydrate_recovered_resource_ids_def same_identity_def Let_def split: list.split)

lemma with_network_sel [simp]:
  "same_identity r0 (with_network n r) = same_identity r0 r"
  "er_volume (with_network n r) = er_volume r"
  "er_state (with_network n r) = er_state r"
  "er_deletion_proof_id (with_network n r) = er_deletion_proof_id r"
  "er_binding_id (with_network n r) = er_binding_id r"
  "er_remote_environment_id (with_network n r) = er_remote_environment_id r"
  by (simp_all add: with_network_def same_identity_def split: option.split)

lemma same_identity_update [simp]:
  "same_identity r0 (r\<lparr>er_state := st\<rparr>) = same_identity r0 r"
  "same_identity r0 (r\<lparr>er_last_activity_at_unix_ms := t\<rparr>) = same_identity r0 r"
  "same_identity r0 (r\<lparr>er_volume := vol\<rparr>) = same_identity r0 r"
  by (simp_all add: same_identity_def)

text \<open>
  The final record of a deletion: the receipt's identifiers, the state, the proof, the time.
\<close>

definition deleted_record ::
    "environment_record \<Rightarrow> uuid \<Rightarrow> u64 \<Rightarrow> environment_record" where
  "deleted_record r proof_id now =
     r\<lparr>er_state := environment_state.Deleted, er_deletion_proof_id := Some proof_id,
       er_last_activity_at_unix_ms := now\<rparr>"

lemma deleted_record_sel [simp]:
  "same_identity r0 (deleted_record r i now) = same_identity r0 r"
  "er_silo_id (deleted_record r i now) = er_silo_id r"
  "er_network (deleted_record r i now) = er_network r"
  "er_volume (deleted_record r i now) = er_volume r"
  "er_state (deleted_record r i now) = environment_state.Deleted"
  "er_deletion_proof_id (deleted_record r i now) = Some i"
  "er_last_activity_at_unix_ms (deleted_record r i now) = now"
  by (simp_all add: deleted_record_def same_identity_def)

lemma same_identity_silo: "same_identity r r' \<Longrightarrow> er_silo_id r' = er_silo_id r"
  by (simp add: same_identity_def)

lemma proof_binds_state: "proof_binds r p \<Longrightarrow> er_state r = environment_state.Deleted"
  by (simp add: proof_binds_def deletion_matches_def)

text \<open>The proof that \<open>destroy_record\<close> builds from a receipt, and that it binds the record.\<close>

definition receipt_proof ::
    "environment_record \<Rightarrow> provider_deletion_receipt \<Rightarrow> uuid \<Rightarrow> u64 \<Rightarrow> deletion_reason
     \<Rightarrow> deletion_proof" where
  "receipt_proof r receipt proof_id now reason =
     \<lparr>dp_proof_id = proof_id, dp_silo_id = er_silo_id r, dp_binding_id = er_binding_id r,
      dp_remote_environment_id = er_remote_environment_id r,
      dp_volume_id = va_volume_id (er_volume r),
      dp_provider_receipt_id = pr_receipt_id receipt,
      dp_resource_deletions = pr_resource_deletions receipt, dp_deleted_at_unix_ms = now,
      dp_reason = reason\<rparr>"

lemma receipt_proof_sel [simp]:
  "dp_proof_id (receipt_proof r receipt i now reason) = i"
  "dp_deleted_at_unix_ms (receipt_proof r receipt i now reason) = now"
  "dp_reason (receipt_proof r receipt i now reason) = reason"
  by (simp_all add: receipt_proof_def)

lemma receipt_proof_binds:
  "pr_receipt_id receipt \<noteq> nil_uuid
   \<Longrightarrow> deletion_resources_are_bound (pr_resource_deletions receipt)
         (er_remote_environment_id r) (va_volume_id (er_volume r)) (va_key_id (er_volume r))
   \<Longrightarrow> proof_binds (deleted_record r i now) (receipt_proof r receipt i now reason)"
  by (simp add: proof_binds_def deletion_matches_def receipt_proof_def deleted_record_def)

text \<open>The effect of recovery: exactly the given records are deleted, all else is kept.\<close>

definition recovered :: "environment_record list \<Rightarrow> agent_view \<Rightarrow> agent_view \<Rightarrow> bool" where
  "recovered rs v v' \<longleftrightarrow>
     (\<forall>r \<in> set rs. \<exists>r'. v_environments v' (er_silo_id r) = Some r'
        \<and> same_identity r r' \<and> er_state r' = environment_state.Deleted)
     \<and> (\<forall>silo. silo \<notin> er_silo_id ` set rs \<longrightarrow> v_environments v' silo = v_environments v silo)"

lemma recovered_Nil [simp]: "recovered [] v v"
  by (simp add: recovered_def)

lemma recovered_Cons:
  assumes "v_environments w = (v_environments v)(er_silo_id r \<mapsto> r')"
    "same_identity r r'" "er_state r' = environment_state.Deleted"
    "recovered rs w v'" "er_silo_id r \<notin> er_silo_id ` set rs"
  shows "recovered (r # rs) v v'"
  unfolding recovered_def
proof (intro conjI ballI allI impI)
  fix q assume "q \<in> set (r # rs)"
  then consider "q = r" | "q \<in> set rs" by auto
  then show "\<exists>r'. v_environments v' (er_silo_id q) = Some r'
      \<and> same_identity q r' \<and> er_state r' = environment_state.Deleted"
  proof cases
    case 1
    from assms(4,5) have "v_environments v' (er_silo_id r) = v_environments w (er_silo_id r)"
      by (simp add: recovered_def)
    with 1 assms(1-3) show ?thesis by simp
  next
    case 2
    with assms(4) show ?thesis by (simp add: recovered_def)
  qed
next
  fix silo assume "silo \<notin> er_silo_id ` set (r # rs)"
  with assms(1,4) show "v_environments v' silo = v_environments v silo"
    by (simp add: recovered_def)
qed

section \<open>The request processor over a store\<close>

locale agent_core_client = agent_store ops view invar
  for ops :: "'s agent_store_ops" and view :: "'s \<Rightarrow> agent_view" and invar :: "'s \<Rightarrow> bool" +
  fixes D :: "('p, 's) agent_deps"
  assumes uses_store [simp]: "d_store D = ops"
begin

abbreviation core_view :: "('p, 's) agent_core \<Rightarrow> agent_view" where
  "core_view c \<equiv> view (ac_store c)"

text \<open>The states reachable from the view \<open>v0\<close> under the rights \<open>S\<close> and \<open>G\<close>.\<close>

definition reach ::
    "uuid set \<Rightarrow> bool \<Rightarrow> agent_view \<Rightarrow> ('p, 's) agent_core \<Rightarrow> bool" where
  "reach S G v0 c \<longleftrightarrow> invar (ac_store c) \<and> agent_steps S G v0 (core_view c)"

abbreviation keeps ::
    "uuid set \<Rightarrow> bool \<Rightarrow> agent_view \<Rightarrow> ('e, 'a, ('p, 's) agent_core) outcome \<Rightarrow> bool" where
  "keeps S G v0 m \<equiv> outcome (\<lambda>_. reach S G v0) (\<lambda>_. reach S G v0) m"

lemma reach_other_fields [simp]:
  "reach S G v0 (c\<lparr>ac_provider := p\<rparr>) = reach S G v0 c"
  "reach S G v0 (c\<lparr>ac_host := h\<rparr>) = reach S G v0 c"
  "reach S G v0 (snd (core_new_v4 c)) = reach S G v0 c"
  "reach S G v0 (snd (core_now c)) = reach S G v0 c"
  by (simp_all add: reach_def)

lemma reach_step:
  "reach S G v0 c \<Longrightarrow> invar s \<Longrightarrow> agent_step S G (core_view c) (view s)
   \<Longrightarrow> reach S G v0 (c\<lparr>ac_store := s\<rparr>)"
  by (auto simp: reach_def)

lemma reach_same:
  "reach S G v0 c \<Longrightarrow> invar s \<Longrightarrow> view s = core_view c \<Longrightarrow> reach S G v0 (c\<lparr>ac_store := s\<rparr>)"
  by (auto simp: reach_def)

lemma reach_invar: "reach S G v0 c \<Longrightarrow> invar (ac_store c)"
  by (simp add: reach_def)

lemma core_environment_view [simp]:
  "core_environment D c silo = v_environments (core_view c) silo"
  by (simp add: core_environment_def environment_view)

lemma core_record_Inr:
  "core_record D silo now allow c = Inr r \<longleftrightarrow>
     v_environments (core_view c) silo = Some r \<and> live_state (er_state r)
     \<and> (allow \<or> now < er_expires_at_unix_ms r)"
proof (cases "v_environments (core_view c) silo")
  case (Some a)
  have "core_record D silo now allow c = Inr r \<longleftrightarrow>
      live_state (er_state a) \<and> (allow \<or> now < er_expires_at_unix_ms a) \<and> a = r"
    unfolding core_record_def core_environment_view Some
    by (cases "er_state a"; cases allow; cases "er_expires_at_unix_ms a \<le> now")
      (simp_all add: live_state_def not_le)
  then show ?thesis unfolding Some by blast
qed (simp add: core_record_def)

text \<open>Each store operation as a step of the abstract Agent.\<close>

lemma keeps_claim:
  "reach S G v0 c \<Longrightarrow> keeps S G v0 (in_store (st_claim_request ops pid rid nonce q) c)"
  by (simp, rule outcome_mono [OF claim_request_ok [OF reach_invar]])
    (auto intro!: agent_step.claim intro: reach_step reach_same)

lemma keeps_activity:
  "reach S G v0 c \<Longrightarrow> keeps S G v0 (in_store (st_append_activity ops e) c)"
  by (simp, rule outcome_mono [OF append_activity_ok [OF reach_invar]])
    (auto intro!: agent_step.record_activity intro: reach_step reach_same)

lemma keeps_operate:
  assumes "reach S G v0 c" "v_environments (core_view c) (er_silo_id r) = Some r"
    "er_silo_id r \<in> S" "live_state (er_state r)" "live_state (er_state r')"
    "same_identity r r'" "er_volume r' = er_volume r"
    "er_deletion_proof_id r' = er_deletion_proof_id r"
  shows "keeps S G v0 (in_store (st_update_environment ops r') c)"
proof -
  have "agent_step S G (core_view c) (set_environment r' (core_view c))"
    using assms(2-) by (rule agent_step.operate)
  then show ?thesis
    by (simp, intro outcome_mono [OF update_environment_ok [OF reach_invar [OF assms(1)]]])
      (auto intro: reach_step [OF assms(1)] reach_same [OF assms(1)])
qed

lemma destroy_record_outcome:
  assumes "invar (ac_store c)" "v_environments (core_view c) (er_silo_id r0) = Some r0"
    "same_identity r0 r" "er_state r = er_state r0" "er_network r = er_network r0"
    "er_state r0 = Provisioning \<or> er_volume r = er_volume r0"
  shows "outcome
     (\<lambda>p c'. invar (ac_store c') \<and>
        (\<exists>r'. same_identity r0 r' \<and> er_network r' = er_network r0
           \<and> (er_state r0 = Provisioning \<or> er_volume r' = er_volume r0)
           \<and> proof_binds r' p \<and> dp_reason p = reason \<and> dp_deleted_at_unix_ms p = now
           \<and> core_view c' = (set_environment r' (core_view c))
               \<lparr>v_proofs := (v_proofs (core_view c))(dp_proof_id p \<mapsto> p)\<rparr>))
     (\<lambda>e c'. invar (ac_store c') \<and> core_view c' = core_view c)
     (destroy_record D r reason now c)"
proof (cases "ensure_capability (core_capabilities D c) remote_operation.Destroy")
  case (Inl e)
  then show ?thesis using assms(1) by (simp add: destroy_record_def)
next
  case (Inr u)
  have commit: "outcome
     (\<lambda>_ s. invar s \<and> view s =
        (set_environment (deleted_record r' i now) (core_view c))
          \<lparr>v_proofs := (v_proofs (core_view c))(i \<mapsto> receipt_proof r' receipt i now reason)\<rparr>)
     (\<lambda>_ s. invar s \<and> view s = core_view c)
     (st_commit_deletion ops (deleted_record r' i now) (receipt_proof r' receipt i now reason) s0)"
    if "s0 = ac_store c" for r' i receipt s0
    unfolding that by (rule outcome_mono [OF commit_deletion_ok [OF assms(1)]]) auto
  show ?thesis
    unfolding destroy_record_def
    apply (simp only: outcome_sbind outcome_pure Inr sum.case)
    apply (rule outcome_in_provider)
     apply (simp only: Let_def split_def split: if_split)
     apply (intro conjI impI)
      apply (simp add: assms(1))
     apply (simp only: outcome_sbind outcome_in_store uses_store receipt_proof_def [symmetric]
        deletion_proof.select_convs outcome_pure sum.case)
     apply (simp only: deleted_record_def [symmetric] core_new_v4_sel receipt_proof_sel)
     apply (rule outcome_mono [OF commit])
       apply simp
    subgoal for receipt p u s
      by (simp, rule exI [of _ "deleted_record (hydrate_recovered_resource_ids r receipt)
              (fst (core_new_v4 (c\<lparr>ac_provider := p\<rparr>))) now"])
        (use assms(3-) in \<open>simp add: receipt_proof_binds, metis hydrate_recovered_same(7)\<close>)
     apply (simp_all add: assms(1))
    done
qed

lemma keeps_destroy_record:
  assumes "reach S G v0 c" "v_environments (core_view c) (er_silo_id r0) = Some r0"
    "er_silo_id r0 \<in> S" "er_state r0 \<noteq> environment_state.Deleted"
    "same_identity r0 r" "er_state r = er_state r0" "er_network r = er_network r0"
    "er_state r0 = Provisioning \<or> er_volume r = er_volume r0"
  shows "keeps S G v0 (destroy_record D r reason now c)"
proof (rule outcome_mono [OF destroy_record_outcome [OF reach_invar [OF assms(1)] assms(2,5-8)]],
    elim conjE exE)
  fix p c' r'
  assume inv: "invar (ac_store c')" and r': "same_identity r0 r'" "er_network r' = er_network r0"
    "er_state r0 = Provisioning \<or> er_volume r' = er_volume r0" "proof_binds r' p"
    and eq: "core_view c' = (set_environment r' (core_view c))
      \<lparr>v_proofs := (v_proofs (core_view c))(dp_proof_id p \<mapsto> p)\<rparr>"
  have "agent_step S G (core_view c) (core_view c')"
    unfolding eq using assms(2-4) r' agent_step.delete [of "core_view c" r0 S r' p G]
    by simp
  with assms(1) inv show "reach S G v0 c'" by (auto simp: reach_def)
next
  fix e c'
  assume "invar (ac_store c') \<and> core_view c' = core_view c"
  with assms(1) show "reach S G v0 c'" by (simp add: reach_def)
qed

lemma keeps_abort_create:
  assumes "keeps S G v0 (destroy_record D r ProviderPolicy now c)"
  shows "keeps S G v0 (abort_create D r e now c)"
  using assms
  by (auto simp: abort_create_def fail_create_with_compensation_def split_def outcome_const
      split: prod.split sum.split)

lemma reach_view_wf: "reach S G v0 c \<Longrightarrow> view_wf v0 \<Longrightarrow> view_wf (core_view c)"
  by (auto simp: reach_def intro: agent_steps_view_wf)

lemma keeps_insert:
  assumes "reach S G v0 c" "er_silo_id r \<in> S" "er_state r = Provisioning"
    "er_deletion_proof_id r = None"
  shows "outcome
     (\<lambda>_ c'. reach S G v0 c' \<and> v_environments (core_view c') (er_silo_id r) = Some r)
     (\<lambda>_. reach S G v0)
     (in_store (st_insert_environment ops r) c)"
  using assms
  by (simp, intro outcome_mono [OF insert_environment_ok [OF reach_invar [OF assms(1)]]])
    (auto intro!: agent_step.provision intro: reach_step [OF assms(1)] reach_same [OF assms(1)])

lemma keeps_journal:
  assumes "reach S G v0 c" "v_environments (core_view c) (er_silo_id r) = Some r"
    "er_silo_id r \<in> S" "er_state r = Provisioning"
  shows "outcome
     (\<lambda>_ c'. reach S G v0 c'
        \<and> v_environments (core_view c') (er_silo_id r) = Some (r\<lparr>er_volume := vol\<rparr>))
     (\<lambda>_ c'. reach S G v0 c' \<and> v_environments (core_view c') (er_silo_id r) = Some r)
     (in_store (st_update_environment ops (r\<lparr>er_volume := vol\<rparr>)) c)"
  using assms
  by (simp, intro outcome_mono [OF update_environment_ok [OF reach_invar [OF assms(1)]]])
    (auto intro!: agent_step.journal intro: reach_step [OF assms(1)] reach_same [OF assms(1)])

lemma keeps_activate:
  assumes "reach S G v0 c" "v_environments (core_view c) (er_silo_id r) = Some r"
    "er_silo_id r \<in> S" "er_state r = Provisioning" "provisioned_volume_is_valid (er_volume r)"
  shows "keeps S G v0
     (in_store (st_update_environment ops (r\<lparr>er_state := environment_state.Created\<rparr>)) c)"
  using assms
  by (simp, intro outcome_mono [OF update_environment_ok [OF reach_invar [OF assms(1)]]])
    (auto intro!: agent_step.activate intro: reach_step [OF assms(1)] reach_same [OF assms(1)])

text \<open>A state with the record of a create in progress.\<close>

lemma keeps_abort_pending:
  assumes "reach S G v0 c" "v_environments (core_view c) (er_silo_id r) = Some r"
    "er_silo_id r \<in> S" "er_state r = Provisioning" "r' = r \<or> (\<exists>vol. r' = r\<lparr>er_volume := vol\<rparr>)"
  shows "keeps S G v0 (abort_create D r' e now c)"
  by (rule keeps_abort_create, rule keeps_destroy_record [OF assms(1-3)])
    (use assms(4,5) in \<open>auto simp: same_identity_def\<close>)

lemma keeps_provision:
  assumes c: "reach S G v0 c" and env: "v_environments (core_view c) (er_silo_id r) = Some r"
    and r: "er_silo_id r \<in> S" "er_state r = Provisioning"
  shows "keeps S G v0 (provision D r now c)"
proof -
  have journal: "outcome
     (\<lambda>_ c'. reach S G v0 c'
        \<and> v_environments (core_view c') (er_silo_id r) = Some (r\<lparr>er_volume := vol\<rparr>))
     (\<lambda>_ c'. reach S G v0 c' \<and> v_environments (core_view c') (er_silo_id r) = Some r)
     (in_store (st_update_environment ops (r\<lparr>er_volume := vol\<rparr>)) (c\<lparr>ac_provider := p\<rparr>))" for vol p
    using keeps_journal [of S G v0 "c\<lparr>ac_provider := p\<rparr>" r vol] c env r by simp
  have abort: "keeps S G v0 (abort_create D (r\<lparr>er_volume := vol'\<rparr>) e now c')"
    if "reach S G v0 c'"
      "v_environments (core_view c') (er_silo_id r) = Some (r\<lparr>er_volume := vol\<rparr>)" for c' vol vol' e
    by (rule keeps_abort_create,
        rule keeps_destroy_record [of S G v0 c' "r\<lparr>er_volume := vol\<rparr>"])
      (simp_all add: that r same_identity_def)
  have activate: "keeps S G v0 (in_store (st_update_environment ops
      (r\<lparr>er_volume := vol, er_state := environment_state.Created\<rparr>)) c')"
    if "reach S G v0 c'"
      "v_environments (core_view c') (er_silo_id r) = Some (r\<lparr>er_volume := vol\<rparr>)"
      "provisioned_volume_is_valid vol" for c' vol
    using keeps_activate [of S G v0 c' "r\<lparr>er_volume := vol\<rparr>"] that r by simp
  show ?thesis
    unfolding provision_def Let_def uses_store
    apply (rule outcome_caseI [where R = "\<lambda>_ c'. \<exists>p. c' = c\<lparr>ac_provider := p\<rparr>"
          and F = "\<lambda>_ c'. \<exists>p. c' = c\<lparr>ac_provider := p\<rparr>"])
      apply (rule outcome_in_provider; blast)
     apply (elim exE, hypsubst)
     apply (rule outcome_caseI [OF journal])
      apply (intro outcome_ifI outcome_sumI outcome_sbindI [OF activate] outcome_InrI)
    apply (simp_all del: outcome_in_store)
    apply (auto intro: abort abort [of _ "er_volume r", simplified]
        abort [of _ "er_volume r" "er_volume r", simplified] simp: c env)
    done
qed

lemma pending_record_sel [simp]:
  "er_silo_id (pending_record n silo b rid ttl network now) = silo"
  "er_state (pending_record n silo b rid ttl network now) = Provisioning"
  "er_deletion_proof_id (pending_record n silo b rid ttl network now) = None"
  by (simp_all add: pending_record_def)

lemma keeps_core_create:
  assumes c: "reach S G v0 c" and silo: "silo_id \<in> S"
  shows "keeps S G v0 (core_create D who silo_id binding_id rid ttl network ack now c)"
  unfolding core_create_def Let_def uses_store
  apply (intro outcome_rules c)
  apply (rule outcome_sbindI [OF keeps_insert [OF c]])
     apply (simp_all add: silo)
  apply (rule keeps_provision)
     apply (simp_all add: silo)
  done

lemma keeps_core_destroy:
  assumes c: "reach S G v0 c" and wf: "view_wf v0" and silo: "silo_id \<in> S"
  shows "keeps S G v0 (core_destroy D who silo_id confirm now c)"
proof -
  have destroy: "keeps S G v0 (destroy_record D r UserConfirmed now c)"
    if "core_record D silo_id now True c = Inr r" for r
    using that view_wf_environment(1) [OF reach_view_wf [OF c wf], of silo_id r] silo
    by (intro keeps_destroy_record [OF c, of r]) (auto simp: core_record_Inr live_state_def)
  show ?thesis
    unfolding core_destroy_def
    by (intro outcome_rules c outcome_sbindI [OF destroy])
qed

lemma keeps_open_human_session:
  assumes c: "reach S G v0 c" and G: "p_kind who = ControlPlane \<Longrightarrow> G"
  shows "keeps S G v0 (open_human_session D who silo_id lifetime now c)"
proof -
  have step: "keeps S G v0 (in_store (st_set_human_session ops h) (snd (core_new_v4 c)))"
    if "core_record D silo_id now False c = Inr r" "sa_silo_id h = silo_id" "\<not> sa_revoked h"
      "sa_remote_environment_id h = er_remote_environment_id r" "p_kind who = ControlPlane" for r h
  proof -
    have "agent_step S G (core_view c)
        ((core_view c)\<lparr>v_human_sessions := (v_human_sessions (core_view c))(sa_silo_id h \<mapsto> h)\<rparr>)"
      using that G by (intro agent_step.open_session [of _ _ _ r]) (auto simp: core_record_Inr)
    then show ?thesis
      using c set_human_session_ok [OF reach_invar [OF c], of h]
      by (simp, elim outcome_mono) (auto simp: reach_def)
  qed
  show ?thesis
    unfolding open_human_session_def Let_def split_def uses_store
    by (intro outcome_rules c outcome_sbindI [OF step]) (auto simp: c)
qed

lemma authorize_human_Inr:
  "authorize_human ops who silo now s = Inr h \<longleftrightarrow>
     v_human_sessions (view s) silo = Some h \<and> p_kind who = principal_kind.HumanSession
     \<and> p_authorization_id who = Some (sa_authorization_id h) \<and> \<not> sa_revoked h
     \<and> now < sa_expires_at_unix_ms h"
  by (cases "v_human_sessions (view s) silo")
    (auto simp: authorize_human_def human_session_view not_le)

lemma authorize_automation_Inr:
  "authorize_automation ops who silo now s = Inr a \<longleftrightarrow>
     (\<exists>i. p_authorization_id who = Some i \<and> v_automation (view s) i = Some a)
     \<and> aa_silo_id a = silo \<and> p_kind who = principal_kind.Automation
     \<and> aa_approved_by_user a \<and> \<not> aa_revoked a \<and> now < aa_expires_at_unix_ms a"
  by (cases "p_authorization_id who"; cases "v_automation (view s) (the (p_authorization_id who))")
    (auto simp: authorize_automation_def automation_view not_le)

lemma keeps_revoke_session:
  assumes c: "reach S G v0 c" and wf: "view_wf v0"
    and h: "v_human_sessions (core_view c) silo = Some h"
  shows "keeps S G v0 (in_store (st_set_human_session ops (h\<lparr>sa_revoked := True\<rparr>)) c)"
proof -
  have "sa_silo_id h = silo" using view_wf_human_session [OF reach_view_wf [OF c wf] h] .
  with h have "agent_step S G (core_view c) ((core_view c)\<lparr>v_human_sessions :=
      (v_human_sessions (core_view c))(sa_silo_id h \<mapsto> h\<lparr>sa_revoked := True\<rparr>)\<rparr>)"
    by (intro agent_step.revoke_session) simp
  then show ?thesis
    using c set_human_session_ok [OF reach_invar [OF c], of "h\<lparr>sa_revoked := True\<rparr>"]
    by (simp, elim outcome_mono) (auto simp: reach_def)
qed

lemma keeps_close_human_session:
  assumes c: "reach S G v0 c" and wf: "view_wf v0"
  shows "keeps S G v0 (close_human_session D who silo_id now c)"
  unfolding close_human_session_def Let_def uses_store
  by (intro outcome_rules c outcome_sbindI [OF keeps_revoke_session [OF c wf, of silo_id]])
    (auto simp: authorize_human_Inr)

lemma keeps_grant_automation:
  assumes c: "reach S G v0 c" and G: "p_kind who = ControlPlane \<Longrightarrow> G"
  shows "keeps S G v0 (grant_automation D who silo_id lifetime scopes approved now c)"
proof -
  have step: "keeps S G v0 (in_store (st_set_automation ops a) (snd (core_new_v4 c)))"
    if "core_record D silo_id now False c = Inr r" "aa_silo_id a = silo_id"
      "aa_approved_by_user a" "aa_scopes a \<noteq> []" "distinct (aa_scopes a)"
      "aa_remote_environment_id a = er_remote_environment_id r" "p_kind who = ControlPlane" for r a
  proof -
    have "agent_step S G (core_view c) ((core_view c)\<lparr>v_automation :=
        (v_automation (core_view c))(aa_authorization_id a \<mapsto> a)\<rparr>)"
      using that G by (intro agent_step.grant_automation [of _ _ _ r]) (auto simp: core_record_Inr)
    then show ?thesis
      using c set_automation_ok [OF reach_invar [OF c], of a]
      by (simp, elim outcome_mono) (auto simp: reach_def)
  qed
  show ?thesis
    unfolding grant_automation_def Let_def split_def uses_store
    by (intro outcome_rules c outcome_sbindI [OF step]) (auto simp: c)
qed

lemma keeps_revoke_automation:
  assumes c: "reach S G v0 c" and wf: "view_wf v0" and G: "p_kind who = ControlPlane \<Longrightarrow> G"
  shows "keeps S G v0 (revoke_automation D who silo_id i c)"
proof -
  have step: "keeps S G v0 (in_store (st_set_automation ops (a\<lparr>aa_revoked := True\<rparr>)) c)"
    if a: "v_automation (core_view c) i = Some a" and who: "p_kind who = ControlPlane" for a
  proof -
    have "aa_authorization_id a = i" using view_wf_automation [OF reach_view_wf [OF c wf] a] .
    with a G [OF who] have "agent_step S G (core_view c) ((core_view c)\<lparr>v_automation :=
        (v_automation (core_view c))(aa_authorization_id a \<mapsto> a\<lparr>aa_revoked := True\<rparr>)\<rparr>)"
      by (intro agent_step.revoke_automation) auto
    then show ?thesis
      using c set_automation_ok [OF reach_invar [OF c], of "a\<lparr>aa_revoked := True\<rparr>"]
      by (simp, elim outcome_mono) (auto simp: reach_def)
  qed
  show ?thesis
    unfolding revoke_automation_def Let_def uses_store
    by (intro outcome_rules c outcome_sbindI [OF step]) (auto simp: automation_view)
qed

lemma keeps_open_screen:
  assumes c: "reach S G v0 c"
  shows "keeps S G v0 (open_screen D who silo_id now c)"
  unfolding open_screen_def Let_def split_def
  by (intro outcome_rules c outcome_sbindI [where R = "\<lambda>_. reach S G v0"] outcome_in_provider)
    (auto simp: c)

lemma keeps_send_input:
  assumes c: "reach S G v0 c"
  shows "keeps S G v0 (send_input D who silo_id events now c)"
  unfolding send_input_def
  by (intro outcome_rules c outcome_sbindI [where R = "\<lambda>_. reach S G v0"] outcome_in_provider)
    (auto simp: c)

lemma live_state_after [simp]: "live_state (state_after op st) \<longleftrightarrow> live_state st \<or>
    op \<in> {remote_operation.Start, remote_operation.Stop, remote_operation.Pause}"
  by (cases op) (auto simp: state_after_def live_state_def)

text \<open>The record a lifecycle command stores: network, state and activity time may change.\<close>

lemma keeps_lifecycle_update:
  assumes c: "reach S G v0 c'" "core_view c' = core_view c" and wf: "view_wf v0"
    and r: "core_record D silo now False c = Inr r" "silo \<in> S"
    and r': "live_state (er_state r')" "same_identity r r'" "er_volume r' = er_volume r"
      "er_deletion_proof_id r' = er_deletion_proof_id r"
  shows "keeps S G v0 (in_store (st_update_environment ops r') c')"
proof -
  from r(1) have env: "v_environments (core_view c') silo = Some r" and live: "live_state (er_state r)"
    by (auto simp: core_record_Inr c(2))
  have "er_silo_id r = silo" by (rule view_wf_environment(1) [OF reach_view_wf [OF c(1) wf] env])
  with env live r(2) r' show ?thesis by (intro keeps_operate [OF c(1), of r]) simp_all
qed

lemma keeps_lifecycle:
  assumes c: "reach S G v0 c" and wf: "view_wf v0" and silo: "command_silo_id command \<in> S"
  shows "keeps S G v0 (lifecycle D command now c)"
proof -
  note update = keeps_lifecycle_update [where c = c, OF _ _ wf _ silo]
  show ?thesis
    unfolding lifecycle_def Let_def split_def uses_store
    apply (intro outcome_rules c)
    apply (rule outcome_sbindI [where R = "\<lambda>_ c'. reach S G v0 c' \<and> core_view c' = core_view c"])
     apply (rule outcome_in_provider)
      apply (simp_all add: c) [2]
    apply (intro outcome_rules)
       apply (simp_all del: outcome_pure outcome_sbind)
    apply (rule outcome_sbindI [OF update]; auto simp: core_record_Inr)+
    done
qed

lemma keeps_execute_authorized:
  assumes c: "reach S G v0 c" and wf: "view_wf v0"
    and rights: "p_kind who = ControlPlane \<Longrightarrow> command_silo_id command \<in> S \<and> G"
  shows "keeps S G v0 (execute_authorized D who command now c)"
proof (cases "p_kind who = ControlPlane")
  case True
  note keeps = keeps_core_create keeps_core_destroy keeps_open_human_session
    keeps_close_human_session keeps_grant_automation keeps_revoke_automation keeps_open_screen
    keeps_send_input keeps_lifecycle
  from True rights have silo: "command_silo_id command \<in> S" and G by simp_all
  show ?thesis
    unfolding execute_authorized_def using silo
    by (cases command)
      (auto intro!: outcome_rules keeps c wf \<open>G\<close> simp del: outcome_pure outcome_sbind)
next
  case False
  then have deny: "require_control who = Inl (agent_error.Unauthorized
      (lit ''Only the control-plane credential may change lifecycle.''))"
    by (simp add: require_control_def)
  show ?thesis
    unfolding execute_authorized_def
    by (cases command)
      (simp_all add: core_create_def core_destroy_def open_human_session_def grant_automation_def
        revoke_automation_def deny c wf keeps_close_human_session keeps_open_screen
        keeps_send_input)
qed

lemma validate_request_state:
  "outcome (\<lambda>_ c'. ac_store c' = ac_store c \<and> ac_provider c' = ac_provider c \<and> ac_node c' = ac_node c)
     (\<lambda>_ c'. ac_store c' = ac_store c \<and> ac_provider c' = ac_provider c \<and> ac_node c' = ac_node c)
     (validate_request D request c)"
  unfolding validate_request_def Let_def split_def
  by (auto intro!: outcome_rules split: principal_kind.split option.split
      simp del: outcome_pure outcome_sbind)

lemma keeps_execute:
  assumes c: "reach S G v0 c" and wf: "view_wf v0"
    and rights: "p_kind (rq_principal q) = ControlPlane
      \<Longrightarrow> command_silo_id (rq_command q) \<in> S \<and> G"
  shows "keeps S G v0 (execute D q c)"
proof -
  have valid: "keeps S G v0 (validate_request D q c)"
    by (rule outcome_mono [OF validate_request_state]) (use c in \<open>auto simp: reach_def\<close>)
  show ?thesis
    unfolding execute_def Let_def split_def uses_store
    apply (rule outcome_sbindI [OF valid])
    apply (rule outcome_sbindI [OF keeps_claim])
     apply simp
    apply (rule outcome_sbindI [OF keeps_activity])
    using keeps_execute_authorized [OF _ wf rights]
    by (auto simp: outcome_const split: sum.split)
qed

lemma keeps_sweep_loop:
  assumes "reach S G v0 c" "view_wf v0" "set ids \<subseteq> S"
  shows "reach S G v0 (snd (sweep_loop D now ids c))"
  using assms(1,3)
proof (induction ids arbitrary: c)
  case (Cons silo ids)
  show ?case
  proof (cases "filter_option (\<lambda>record. er_state record \<noteq> environment_state.Deleted
      \<and> er_expires_at_unix_ms record \<le> now) (core_environment D c silo)")
    case None
    with Cons show ?thesis by simp
  next
    case (Some r)
    then have env: "v_environments (core_view c) silo = Some r"
      and alive: "er_state r \<noteq> environment_state.Deleted"
      and expired: "er_expires_at_unix_ms r \<le> now" by simp_all
    have silo: "er_silo_id r = silo"
      by (rule view_wf_environment(1) [OF reach_view_wf [OF Cons.prems(1) assms(2)] env])
    have destroy: "keeps S G v0 (destroy_record D r TtlExpired now c)"
      using Cons.prems env alive silo
      by (intro keeps_destroy_record [OF Cons.prems(1), of r]) simp_all
    have log: "reach S G v0 (snd (in_store (st_append_activity ops e) c'))"
      if "reach S G v0 c'" for e c'
      using keeps_activity [OF that, of e] by (simp only: outcome_const)
    from destroy show ?thesis
      using Cons.prems(2)
      by (simp add: env alive expired Let_def split_def outcome_const)
        (intro Cons.IH log, simp_all)
  qed
qed simp

lemma keeps_sweep_expired:
  assumes "reach UNIV G v0 c" "view_wf v0"
  shows "reach UNIV G v0 (snd (sweep_expired D c))"
  using keeps_sweep_loop [OF _ assms(2), of UNIV G "snd (core_now c)"] assms(1)
  by (simp add: sweep_expired_def split_def Let_def)

text \<open>
  Recovery: the pending records are deleted one by one; on success none is left, on failure
  the remaining ones are still pending.
\<close>

lemma recover_loop_outcome:
  assumes "reach UNIV G v0 c"
    "\<forall>r \<in> set rs. v_environments (core_view c) (er_silo_id r) = Some r \<and> er_state r = Provisioning"
    "distinct (map er_silo_id rs)"
  shows "outcome (\<lambda>_ c'. reach UNIV G v0 c' \<and> recovered rs (core_view c) (core_view c'))
     (\<lambda>_. reach UNIV G v0) (recover_loop D now rs c)"
  using assms
proof (induction rs arbitrary: c)
  case (Cons r rs)
  let ?silo = "er_silo_id r"
  define deleted where "deleted c' \<longleftrightarrow>
      (\<exists>r'. same_identity r r' \<and> er_state r' = environment_state.Deleted
          \<and> v_environments (core_view c') = (v_environments (core_view c))(?silo \<mapsto> r'))" for c'
  from Cons.prems(2) have r: "v_environments (core_view c) ?silo = Some r" "er_state r = Provisioning"
    by simp_all
  have keeps: "keeps UNIV G v0 (destroy_record D r ProviderPolicy now c)"
    by (rule keeps_destroy_record [OF Cons.prems(1) r(1)]) (simp_all add: r(2))
  have "outcome (\<lambda>_. deleted) (\<lambda>_ _. True) (destroy_record D r ProviderPolicy now c)"
  proof (rule outcome_mono [OF destroy_record_outcome [OF reach_invar [OF Cons.prems(1)] r(1), of r]])
    fix p c'
    assume "invar (ac_store c') \<and> (\<exists>r'. same_identity r r' \<and> er_network r' = er_network r
        \<and> (er_state r = Provisioning \<or> er_volume r' = er_volume r) \<and> proof_binds r' p
        \<and> dp_reason p = ProviderPolicy \<and> dp_deleted_at_unix_ms p = now
        \<and> core_view c' = (set_environment r' (core_view c))
            \<lparr>v_proofs := (v_proofs (core_view c))(dp_proof_id p \<mapsto> p)\<rparr>)"
    then obtain r' where r': "same_identity r r'" "proof_binds r' p"
      and env: "v_environments (core_view c') = (v_environments (core_view c))(er_silo_id r' \<mapsto> r')"
      by (elim conjE exE) simp
    show "deleted c'"
      unfolding deleted_def
      by (rule exI [of _ r']) (simp add: env r' same_identity_silo [OF r'(1)] proof_binds_state [OF r'(2)])
  qed simp_all
  note both = outcome_conj [OF keeps this]
  have one: "outcome (\<lambda>_ c'. reach UNIV G v0 c' \<and> deleted c')
      (\<lambda>_. reach UNIV G v0) (destroy_record D r ProviderPolicy now c)"
    by (rule outcome_mono [OF both]) simp_all
  have rest: "outcome (\<lambda>_ c''. reach UNIV G v0 c'' \<and> recovered (r # rs) (core_view c) (core_view c''))
      (\<lambda>_. reach UNIV G v0) (recover_loop D now rs c')"
    if c': "reach UNIV G v0 c'" and "deleted c'" for c'
  proof -
    from \<open>deleted c'\<close> obtain r' where r': "same_identity r r'" "er_state r' = environment_state.Deleted"
      and env: "v_environments (core_view c') = (v_environments (core_view c))(?silo \<mapsto> r')"
      unfolding deleted_def by blast
    from Cons.prems(3) have fresh: "?silo \<notin> er_silo_id ` set rs" by simp
    have "v_environments (core_view c') (er_silo_id q) = Some q \<and> er_state q = Provisioning"
      if "q \<in> set rs" for q
    proof -
      from fresh that have "er_silo_id q \<noteq> ?silo" by (metis imageI)
      with Cons.prems(2) that show ?thesis by (simp add: env)
    qed
    with Cons.IH [OF c'] Cons.prems(3) have "outcome
        (\<lambda>_ c''. reach UNIV G v0 c'' \<and> recovered rs (core_view c') (core_view c''))
        (\<lambda>_. reach UNIV G v0) (recover_loop D now rs c')" by simp
    then show ?thesis by (rule outcome_mono) (use recovered_Cons [OF env r' _ fresh] in blast)+
  qed
  show ?case
    by (simp only: recover_loop.simps, intro outcome_rules Cons.prems(1), rule outcome_sbindI [OF one])
      (elim conjE, rule rest)
qed simp

lemma recover_incomplete_creates_outcome:
  assumes inv: "invar (ac_store c)" and wf: "view_wf (core_view c)"
  shows "outcome
     (\<lambda>_ c'. reach UNIV False (core_view c) c'
        \<and> (\<forall>silo r. v_environments (core_view c) silo = Some r \<longrightarrow>
             (\<exists>r'. v_environments (core_view c') silo = Some r' \<and> same_identity r r'
                \<and> (if er_state r = Provisioning then er_state r' = environment_state.Deleted
                   else r' = r)))
        \<and> (\<forall>silo. v_environments (core_view c) silo = None
             \<longrightarrow> v_environments (core_view c') silo = None))
     (\<lambda>_. reach UNIV False (core_view c)) (recover_incomplete_creates D c)"
proof -
  let ?c = "snd (core_now c)"
  let ?env = "v_environments (core_view c)"
  define ids where "ids = st_environment_ids ops (ac_store c)"
  define rs where "rs = filter (\<lambda>r. er_state r = Provisioning) (List.map_filter ?env ids)"
  have ids: "distinct ids" "set ids = dom ?env"
    using environment_ids_view [OF inv] by (simp_all add: ids_def)
  have silo: "er_silo_id r = i" if "?env i = Some r" for i r
    by (rule view_wf_environment(1) [OF wf that])
  have in_rs: "r \<in> set rs \<longleftrightarrow> ?env (er_silo_id r) = Some r \<and> er_state r = Provisioning" for r
  proof -
    have "(\<exists>i \<in> dom ?env. ?env i = Some r) \<longleftrightarrow> ?env (er_silo_id r) = Some r"
      using silo [of _ r] by blast
    then show ?thesis by (simp add: rs_def in_set_map_filter ids(2))
  qed
  have "distinct (map er_silo_id (List.map_filter ?env ids))"
    using map_key_map_filter [of ?env er_silo_id ids, OF silo] ids(1) by simp
  then have dist: "distinct (map er_silo_id rs)"
    by (simp add: rs_def distinct_map_filter)
  have "outcome (\<lambda>_ c'. reach UNIV False (core_view c) c' \<and> recovered rs (core_view ?c) (core_view c'))
     (\<lambda>_. reach UNIV False (core_view c)) (recover_loop D now rs ?c)" for now
    using inv dist by (intro recover_loop_outcome) (auto simp: reach_def in_rs)
  note loop = this
  have post: "\<exists>r'. v_environments v' silo = Some r' \<and> same_identity r r'
      \<and> (if er_state r = Provisioning then er_state r' = environment_state.Deleted else r' = r)"
    if "recovered rs (core_view c) v'" "?env silo = Some r" for v' silo r
  proof (cases "er_state r = Provisioning")
    case True
    with that silo [OF that(2)] have "r \<in> set rs" by (simp add: in_rs)
    with that(1) True silo [OF that(2)] show ?thesis by (auto simp: recovered_def)
  next
    case False
    have "silo \<notin> er_silo_id ` set rs"
      using False that(2) by (auto simp: in_rs)
    with that False show ?thesis by (auto simp: recovered_def)
  qed
  have absent: "v_environments v' silo = None"
    if "recovered rs (core_view c) v'" "?env silo = None" for v' silo
  proof -
    have "silo \<notin> er_silo_id ` set rs" using that(2) by (auto simp: in_rs)
    with that show ?thesis by (simp add: recovered_def)
  qed
  have env: "core_environment D ?c = ?env" by (rule ext) simp
  show ?thesis
    unfolding recover_incomplete_creates_def Let_def split_def uses_store core_now_sel
      ids_def [symmetric] env rs_def [symmetric]
    by (rule outcome_mono [OF loop]) (simp_all add: post absent)
qed

text \<open>
  Replay: a request at or below its credential's mark is refused without effect, and a
  request with any effect, or with an answer, moves the mark up to its sequence.
\<close>

definition untouched ::
    "('p, 's) agent_core \<Rightarrow> ('p, 's) agent_core \<Rightarrow> bool" where
  "untouched c c' \<longleftrightarrow>
     invar (ac_store c') \<and> core_view c' = core_view c \<and> ac_provider c' = ac_provider c"

lemma validate_request_untouched:
  "invar (ac_store c)
   \<Longrightarrow> outcome (\<lambda>_. untouched c) (\<lambda>_. untouched c) (validate_request D q c)"
  by (rule outcome_mono [OF validate_request_state]) (auto simp: untouched_def)

lemma claim_untouched:
  assumes "untouched c0 c"
  shows "outcome
     (\<lambda>_ c'. invar (ac_store c') \<and> v_high_water (core_view c0) pid < q
        \<and> core_view c' = (core_view c0)\<lparr>v_high_water := (v_high_water (core_view c0))(pid := q)\<rparr>)
     (\<lambda>_. untouched c0) (in_store (st_claim_request ops pid rid nonce q) c)"
  using assms
  by (simp, intro outcome_mono [OF claim_request_ok]) (auto simp: untouched_def)

definition moved :: "agent_request \<Rightarrow> ('p, 's) agent_core \<Rightarrow> ('p, 's) agent_core \<Rightarrow> bool" where
  "moved q c c' \<longleftrightarrow>
     v_high_water (core_view c) (p_credential_id (rq_principal q)) < rq_sequence q
     \<and> rq_sequence q \<le> v_high_water (core_view c') (p_credential_id (rq_principal q))"

lemma execute_moved:
  assumes inv: "invar (ac_store c)" and wf: "view_wf (core_view c)"
  shows "outcome (\<lambda>_. moved q c) (\<lambda>_ c'. untouched c c' \<or> moved q c c') (execute D q c)"
proof -
  let ?pid = "p_credential_id (rq_principal q)"
  let ?v = "(core_view c)\<lparr>v_high_water := (v_high_water (core_view c))(?pid := rq_sequence q)\<rparr>"
  have wf': "view_wf ?v" using wf by simp
  have final: "moved q c c'" if "v_high_water (core_view c) ?pid < rq_sequence q" "reach UNIV True ?v c'" for c'
    using that agent_steps_high_water [of UNIV True ?v "core_view c'" ?pid]
    by (simp add: moved_def reach_def)
  have keeps: "reach UNIV True ?v (snd (execute_authorized D (rq_principal q) (rq_command q) now c'))"
    if "reach UNIV True ?v c'" for c' now
    using keeps_execute_authorized [OF that wf'] by (simp add: outcome_const)
  have log: "outcome (\<lambda>_. moved q c) (\<lambda>_ c'. untouched c c' \<or> moved q c c')
      (in_store (st_append_activity ops e) c')"
    if "v_high_water (core_view c) ?pid < rq_sequence q" "reach UNIV True ?v c'" for e c'
    by (rule outcome_mono [OF keeps_activity [OF that(2)]]) (auto intro: final that(1))
  show ?thesis
    unfolding execute_def Let_def split_def uses_store
    apply (rule outcome_sbindW [OF validate_request_untouched [OF inv]])
     apply (rule outcome_sbindW [OF claim_untouched])
       apply (simp add: untouched_def)
      apply (rule outcome_sbindI [OF log])
        apply simp
       apply (simp, rule keeps, simp add: reach_def)
      apply (auto split: sum.split)
    done
qed

end

interpretation memory_core: agent_core_client memory_ops memory_view memory_invar
  "\<lparr>d_provider = P, d_store = memory_ops, d_json_len = J\<rparr>" for P J
  by unfold_locales simp

end
