(* ===== verification/File_System.thy ===== *)
theory File_System
  imports Prelude
begin

text \<open>
  The part of \<open>std::fs\<close> that the state files of the remote stack use
  (\<open>crates/verisilo-remote-backend/src/durable_store.rs\<close> and \<open>auth_store.rs\<close>): a directory of
  a few kinds of names, operations that can each fail, and the directory images that a crash
  may expose, which are the images since the last directory sync, in order.
\<close>

section \<open>The file system\<close>

text \<open>
  The state file, its \<open>bak\<close> sibling, the \<open>tmp-<uuid>\<close> siblings, and the fixed \<open>.tmp\<close> and
  \<open>.lock\<close> siblings. File contents are volatile until the file is synced; a crash may tear a
  volatile file.
\<close>

datatype file_name = StateFile | BackupFile | TempFile uuid | TmpFile | LockFile

datatype stored_file = Stable "nat list" | Volatile "nat list"

fun file_bytes :: "stored_file \<Rightarrow> nat list" where
  "file_bytes (Stable b) = b"
| "file_bytes (Volatile b) = b"

type_synonym dir = "file_name \<Rightarrow> stored_file option"

text \<open>
  The disk: the directory now, the images a crash may expose, all images there have been, and
  the faults: the \<open>i\<close>-th operation fails with the given error text, when there is one.
\<close>

record disk =
  dk_now :: dir
  dk_images :: "dir list"
  dk_history :: "dir list"
  dk_fault_at :: "nat \<Rightarrow> str option"
  dk_count :: nat

definition fs_change :: "(dir \<Rightarrow> str + dir) \<Rightarrow> disk \<Rightarrow> (str, unit, disk) outcome" where
  "fs_change f d =
     (let d = d\<lparr>dk_count := Suc (dk_count d)\<rparr> in
      case dk_fault_at d (dk_count d - 1) of
        Some e \<Rightarrow> (Inl e, d)
      | None \<Rightarrow>
          (case f (dk_now d) of
             Inl e \<Rightarrow> (Inl e, d)
           | Inr now \<Rightarrow> (Inr (), d\<lparr>dk_now := now, dk_images := dk_images d @ [now],
                                   dk_history := dk_history d @ [now]\<rparr>)))"

definition fs_not_found :: str where "fs_not_found = lit ''entity not found''"

definition fs_remove_file :: "file_name \<Rightarrow> disk \<Rightarrow> (str, unit, disk) outcome" where
  "fs_remove_file n = fs_change (\<lambda>dir. if dir n = None then Inl fs_not_found
                                       else Inr (dir(n := None)))"

definition fs_rename :: "file_name \<Rightarrow> file_name \<Rightarrow> disk \<Rightarrow> (str, unit, disk) outcome" where
  "fs_rename a b = fs_change (\<lambda>dir. if dir a = None then Inl fs_not_found
                                    else Inr (dir(b := dir a, a := None)))"

definition fs_create_new :: "file_name \<Rightarrow> disk \<Rightarrow> (str, unit, disk) outcome" where
  "fs_create_new n = fs_change (\<lambda>dir. if dir n \<noteq> None then Inl (lit ''entity already exists'')
                                      else Inr (dir(n := Some (Volatile []))))"

definition fs_write_all :: "file_name \<Rightarrow> nat list \<Rightarrow> disk \<Rightarrow> (str, unit, disk) outcome" where
  "fs_write_all n bytes = fs_change (\<lambda>dir. Inr (dir(n := Some (Volatile bytes))))"

definition fs_sync_file :: "file_name \<Rightarrow> disk \<Rightarrow> (str, unit, disk) outcome" where
  "fs_sync_file n = fs_change (\<lambda>dir. Inr (dir(n := map_option (Stable \<circ> file_bytes) (dir n))))"

definition fs_create_dir_all :: "disk \<Rightarrow> (str, unit, disk) outcome" where
  "fs_create_dir_all = fs_change Inr"

definition fs_read :: "file_name \<Rightarrow> disk \<Rightarrow> (str, nat list, disk) outcome" where
  "fs_read n d =
     sbind (fs_change Inr d) (\<lambda>_ d.
     (ok_or fs_not_found (map_option file_bytes (dk_now d n)), d))"

text \<open>A successful sync of the directory makes its present image the only one.\<close>

definition fs_sync_dir :: "disk \<Rightarrow> (str, unit, disk) outcome" where
  "fs_sync_dir d =
     sbind (fs_change Inr d) (\<lambda>_ d. (Inr (), d\<lparr>dk_images := [dk_now d]\<rparr>))"

text \<open>Queries of a file's metadata, and changes of its mode.\<close>

definition fs_metadata :: "file_name \<Rightarrow> disk \<Rightarrow> (str, unit, disk) outcome" where
  "fs_metadata n = fs_change (\<lambda>dir. if dir n = None then Inl fs_not_found else Inr dir)"

text \<open>\<open>symlink_metadata\<close> where an absent file is no error.\<close>

definition fs_probe :: "disk \<Rightarrow> (str, unit, disk) outcome" where
  "fs_probe = fs_change Inr"

text \<open>Opening a file that is created empty when it is absent.\<close>

definition fs_open_or_create :: "file_name \<Rightarrow> disk \<Rightarrow> (str, unit, disk) outcome" where
  "fs_open_or_create n = fs_change (\<lambda>dir. if dir n = None then Inr (dir(n := Some (Volatile [])))
                                          else Inr dir)"

definition fs_exists :: "file_name \<Rightarrow> disk \<Rightarrow> bool" where
  "fs_exists n d \<longleftrightarrow> dk_now d n \<noteq> None"

section \<open>Outcomes\<close>

lemma fs_change_outcome:
  "outcome (\<lambda>_ d'. \<exists>now. f (dk_now d) = Inr now \<and> dk_now d' = now
        \<and> dk_images d' = dk_images d @ [now] \<and> dk_history d' = dk_history d @ [now])
     (\<lambda>_ d'. dk_now d' = dk_now d \<and> dk_images d' = dk_images d \<and> dk_history d' = dk_history d)
     (fs_change f d)"
  by (auto simp: fs_change_def Let_def outcome_def split: option.splits sum.splits)

section \<open>After a crash\<close>

text \<open>Opening a disk that was left by a crash, with no further faults.\<close>

definition crashed_disk :: "dir \<Rightarrow> disk" where
  "crashed_disk dir =
     \<lparr>dk_now = dir, dk_images = [dir], dk_history = [dir],
      dk_fault_at = (\<lambda>_. None), dk_count = 0\<rparr>"

lemma fs_change_no_fault:
  "dk_fault_at d = (\<lambda>_. None) \<Longrightarrow> fs_change f d =
     (case f (dk_now d) of Inl e \<Rightarrow> (Inl e, d\<lparr>dk_count := Suc (dk_count d)\<rparr>)
      | Inr now \<Rightarrow> (Inr (), d\<lparr>dk_count := Suc (dk_count d), dk_now := now,
          dk_images := dk_images d @ [now], dk_history := dk_history d @ [now]\<rparr>))"
  by (simp add: fs_change_def Let_def split: sum.split)

end
