(* ===== verification/Transactions.thy ===== *)
theory Transactions
  imports Prelude
begin

text \<open>
  The contract of the two state files of the remote stack: a change is applied to a copy of the
  state; the copy takes the state's place when it is valid and has been written, and the state
  stays what it was otherwise. \<open>DurableAgentStore::mutate\<close> and \<open>AuthStore::mutate\<close> keep it.
\<close>

locale transactional =
  fixes current :: "'s \<Rightarrow> 'state"
    and valid :: "'state \<Rightarrow> bool"
    and transact :: "('state \<Rightarrow> 'e + 'state) \<Rightarrow> 's \<Rightarrow> ('e, unit, 's) outcome"
  assumes transact_outcome:
    "outcome (\<lambda>_ s'. change (current s) = Inr (current s') \<and> valid (current s'))
       (\<lambda>_ s'. current s' = current s) (transact change s)"
begin

lemma transact_valid:
  "valid (current s) \<Longrightarrow> valid (current (snd (transact change s)))"
  using transact_outcome [of change s]
  by (cases "transact change s"; cases "fst (transact change s)") auto

text \<open>What holds before and after every accepted change holds across a transaction.\<close>

lemma transact_keeps:
  assumes "R (current s)" "\<And>state'. change (current s) = Inr state' \<Longrightarrow> valid state' \<Longrightarrow> R state'"
  shows "R (current (snd (transact change s)))"
  using transact_outcome [of change s] assms
  by (cases "transact change s"; cases "fst (transact change s)") auto

lemma transact_done:
  assumes "transact change s = (Inr (), s')"
  shows "change (current s) = Inr (current s')" "valid (current s')"
  using transact_outcome [of change s] assms by auto

lemma transact_failed:
  "transact change s = (Inl e, s') \<Longrightarrow> current s' = current s"
  using transact_outcome [of change s] by auto

end

end
