(* ===== verification/Durable_Store.thy ===== *)
theory Durable_Store
  imports Agent_Refinement File_System Transactions
begin

text \<open>
  The Agent's on-disk store, \<open>DurableAgentStore\<close> of
  \<open>crates/verisilo-remote-backend/src/durable_store.rs\<close>: the persisted state with its
  validation, mutation through a prospective copy, the write of a temporary file and its
  renaming over the state file with a backup, and recovery at start. It keeps the contract
  \<open>agent_store\<close>, so that the request processor's lemmas hold on it, and a crash at any moment of
  a write leaves a directory from which the old or the new state is recovered.

  The JSON codec is \<open>serde_json\<close>'s: a parameter. The directory is the one of \<open>File_System\<close>.
\<close>

section \<open>The persisted state\<close>

definition STORE_SCHEMA_VERSION :: u32 where "STORE_SCHEMA_VERSION = 1"
definition MAX_STORE_BYTES :: nat where "MAX_STORE_BYTES = 8 * 1024 * 1024"
definition MAX_ENVIRONMENTS :: nat where "MAX_ENVIRONMENTS = 1000"
definition MAX_AUTHORIZATIONS :: nat where "MAX_AUTHORIZATIONS = 4096"

record persisted_agent_state =
  ps_schema_version :: u32
  ps_environments :: "(uuid, environment_record) hmap"
  ps_human_sessions :: "(uuid, session_authorization) hmap"
  ps_automation :: "(uuid, automation_authorization) hmap"
  ps_proofs :: "(uuid, deletion_proof) hmap"
  ps_request_ids :: "uuid list"
  ps_nonces :: "str list"
  ps_sequences :: "(uuid, u64) hmap"
  ps_activity :: "activity_entry list"

definition persisted_default :: persisted_agent_state where
  "persisted_default =
     \<lparr>ps_schema_version = STORE_SCHEMA_VERSION, ps_environments = [], ps_human_sessions = [],
      ps_automation = [], ps_proofs = [], ps_request_ids = [], ps_nonces = [],
      ps_sequences = [], ps_activity = []\<rparr>"

record state_codec =
  cd_encode :: "persisted_agent_state \<Rightarrow> str + nat list"
  cd_decode :: "nat list \<Rightarrow> str + persisted_agent_state"

text \<open>Where the state file is: what the code asks of its path.\<close>

record state_path =
  sp_is_absolute :: bool
  sp_has_parent :: bool

record durable_store =
  ds_path :: state_path
  ds_state :: persisted_agent_state
  ds_poisoned :: bool
  ds_disk :: disk
  ds_host :: host

definition store_error :: "str \<Rightarrow> agent_error" where
  "store_error message = agent_error.Store message"

definition io_error :: "str \<Rightarrow> agent_error" where
  "io_error error = store_error (lit ''Filesystem error: '' @ error)"

section \<open>Validation\<close>

definition valid_nonce_text :: "str \<Rightarrow> bool" where
  "valid_nonce_text nonce \<longleftrightarrow>
     32 \<le> str_len nonce \<and> str_len nonce \<le> 128 \<and> list_all is_base64url (str_bytes nonce)"

text \<open>One iteration of the loop over the environments.\<close>

definition validate_stored_environment ::
    "(uuid, deletion_proof) hmap \<Rightarrow> uuid \<times> environment_record \<Rightarrow> agent_error + unit" where
  "validate_stored_environment proofs entry =
     (case entry of (silo_id, record) \<Rightarrow>
      if silo_id \<noteq> er_silo_id record
         \<or> er_silo_id record = nil_uuid
         \<or> er_binding_id record = nil_uuid
         \<or> er_remote_environment_id record = nil_uuid
         \<or> er_node_id record = nil_uuid
         \<or> er_expires_at_unix_ms record \<le> er_created_at_unix_ms record
         \<or> er_last_activity_at_unix_ms record < er_created_at_unix_ms record
      then Inl (store_error (lit ''Agent environment record is inconsistent.''))
      else
        let volume_is_active_attestation =
              va_encrypted (er_volume record)
              \<and> va_key_custody (er_volume record) = UserControlled
              \<and> va_volume_id (er_volume record) \<noteq> nil_uuid
              \<and> va_key_id (er_volume record) \<noteq> nil_uuid
        in case (er_state record, er_deletion_proof_id record) of
             (Provisioning, None) \<Rightarrow> Inr ()
           | (environment_state.Deleted, Some proof_id) \<Rightarrow>
               rbind (ok_or (store_error
                        (lit ''Deleted environment is missing its deletion proof.''))
                        (map_of proofs proof_id)) (\<lambda>proof.
               if dp_proof_id proof = nil_uuid
                  \<or> dp_provider_receipt_id proof = nil_uuid
                  \<or> dp_deleted_at_unix_ms proof = 0
                  \<or> dp_silo_id proof \<noteq> er_silo_id record
                  \<or> dp_binding_id proof \<noteq> er_binding_id record
                  \<or> dp_remote_environment_id proof \<noteq> er_remote_environment_id record
                  \<or> dp_volume_id proof \<noteq> va_volume_id (er_volume record)
                  \<or> dp_deleted_at_unix_ms proof \<noteq> er_last_activity_at_unix_ms record
                  \<or> \<not> deletion_resources_are_bound (dp_resource_deletions proof)
                        (er_remote_environment_id record) (va_volume_id (er_volume record))
                        (va_key_id (er_volume record))
               then Inl (store_error (lit ''Deletion proof does not match its environment.''))
               else Inr ())
           | (environment_state.Deleted, None) \<Rightarrow>
               Inl (store_error (lit ''Environment deletion state is ambiguous.''))
           | (_, Some _) \<Rightarrow>
               Inl (store_error (lit ''Environment deletion state is ambiguous.''))
           | (_, None) \<Rightarrow>
               if volume_is_active_attestation then Inr ()
               else Inl (store_error (lit ''Active environment volume attestation is invalid.'')))"

definition validate_state :: "persisted_agent_state \<Rightarrow> agent_error + unit" where
  "validate_state state =
     (if ps_schema_version state \<noteq> STORE_SCHEMA_VERSION
         \<or> MAX_ENVIRONMENTS < length (ps_environments state)
         \<or> MAX_ENVIRONMENTS < length (ps_human_sessions state)
         \<or> MAX_AUTHORIZATIONS < length (ps_automation state)
         \<or> MAX_ENVIRONMENTS < length (ps_proofs state)
         \<or> MAX_REPLAY_WINDOW_ENTRIES < length (ps_request_ids state)
         \<or> MAX_REPLAY_WINDOW_ENTRIES < length (ps_nonces state)
         \<or> length (ps_request_ids state) \<noteq> length (ps_nonces state)
         \<or> MAX_AUTHORIZATIONS < length (ps_sequences state)
         \<or> MAX_ACTIVITY_ENTRIES < length (ps_activity state)
      then Inl (store_error (lit ''Agent state exceeds its schema or item limits.''))
      else if list_ex (\<lambda>nonce. \<not> valid_nonce_text nonce) (ps_nonces state)
         \<or> \<not> distinct (ps_request_ids state)
         \<or> \<not> distinct (ps_nonces state)
         \<or> list_ex (\<lambda>sequence. sequence = 0) (map snd (ps_sequences state))
      then Inl (store_error (lit ''Agent replay state is malformed.''))
      else
        rbind (try_each (validate_stored_environment (ps_proofs state)) (ps_environments state))
          (\<lambda>_.
        if list_ex (\<lambda>(silo_id, authorization). silo_id \<noteq> sa_silo_id authorization)
             (ps_human_sessions state)
           \<or> list_ex (\<lambda>(authorization_id, authorization).
                authorization_id \<noteq> aa_authorization_id authorization) (ps_automation state)
           \<or> list_ex (\<lambda>(proof_id, proof). proof_id \<noteq> dp_proof_id proof) (ps_proofs state)
        then Inl (store_error (lit ''Agent authorization or proof index is inconsistent.''))
        else Inr ()))"

section \<open>Writing and recovering the state file\<close>

definition in_disk ::
    "(disk \<Rightarrow> (str, 'a, disk) outcome) \<Rightarrow> durable_store
     \<Rightarrow> (agent_error, 'a, durable_store) outcome" where
  "in_disk f ds = (case f (ds_disk ds) of (r, d) \<Rightarrow> (map_err io_error r, ds\<lparr>ds_disk := d\<rparr>))"

text \<open>\<open>let _ = operation(..);\<close>\<close>

definition ignoring ::
    "(disk \<Rightarrow> (str, 'a, disk) outcome) \<Rightarrow> durable_store \<Rightarrow> durable_store" where
  "ignoring f ds = ds\<lparr>ds_disk := snd (f (ds_disk ds))\<rparr>"

definition parent_directory :: "state_path \<Rightarrow> agent_error + unit" where
  "parent_directory path =
     (if sp_has_parent path then Inr ()
      else Inl (store_error (lit ''Agent state path has no parent.'')))"

definition sync_parent_directory ::
    "durable_store \<Rightarrow> (agent_error, unit, durable_store) outcome" where
  "sync_parent_directory ds =
     sbind (parent_directory (ds_path ds), ds) (\<lambda>_ ds. in_disk fs_sync_dir ds)"

definition replace_file :: "uuid \<Rightarrow> durable_store \<Rightarrow> (agent_error, unit, durable_store) outcome"
  where
  "replace_file temporary ds =
     sbind (if fs_exists BackupFile (ds_disk ds)
            then sbind (in_disk (fs_remove_file BackupFile) ds) (\<lambda>_ ds. sync_parent_directory ds)
            else (Inr (), ds)) (\<lambda>_ ds.
     sbind (if fs_exists StateFile (ds_disk ds)
            then sbind (in_disk (fs_rename StateFile BackupFile) ds)
                   (\<lambda>_ ds. sync_parent_directory ds)
            else (Inr (), ds)) (\<lambda>_ ds.
     case in_disk (fs_rename (TempFile temporary) StateFile) ds of
       (Inl error, ds) \<Rightarrow>
         if fs_exists BackupFile (ds_disk ds)
         then (case in_disk (fs_rename BackupFile StateFile) ds of
                 (Inr _, ds) \<Rightarrow> (Inl error, snd (sync_parent_directory ds))
               | (Inl _, ds) \<Rightarrow> (Inl error, ds))
         else (Inl error, ds)
     | (Inr _, ds) \<Rightarrow>
         sbind (sync_parent_directory ds) (\<lambda>_ ds.
         if fs_exists BackupFile (ds_disk ds)
         then (case in_disk (fs_remove_file BackupFile) ds of
                 (Inr _, ds) \<Rightarrow> (Inr (), snd (sync_parent_directory ds))
               | (Inl _, ds) \<Rightarrow> (Inr (), ds))
         else (Inr (), ds))))"

definition recover_interrupted_write ::
    "durable_store \<Rightarrow> (agent_error, unit, durable_store) outcome" where
  "recover_interrupted_write ds =
     (if \<not> fs_exists StateFile (ds_disk ds) \<and> fs_exists BackupFile (ds_disk ds)
      then sbind (in_disk (fs_rename BackupFile StateFile) ds)
             (\<lambda>_ ds. sync_parent_directory ds)
      else if fs_exists StateFile (ds_disk ds) \<and> fs_exists BackupFile (ds_disk ds)
      then sbind (in_disk (fs_remove_file BackupFile) ds) (\<lambda>_ ds. sync_parent_directory ds)
      else (Inr (), ds))"

definition persist ::
    "state_codec \<Rightarrow> persisted_agent_state \<Rightarrow> durable_store
     \<Rightarrow> (agent_error, unit, durable_store) outcome" where
  "persist C state ds =
     sbind (map_err (\<lambda>error. store_error (lit ''Could not serialize Agent state: '' @ error))
              (cd_encode C state), ds) (\<lambda>raw ds.
     if MAX_STORE_BYTES < length raw
     then (Inl (store_error (lit ''Agent state exceeds 8 MiB.'')), ds)
     else
       sbind (parent_directory (ds_path ds), ds) (\<lambda>_ ds.
       sbind (in_disk fs_create_dir_all ds) (\<lambda>_ ds.
       let temporary = fst (new_v4 (ds_host ds));
           ds = ds\<lparr>ds_host := snd (new_v4 (ds_host ds))\<rparr> in
       sbind (in_disk (fs_create_new (TempFile temporary)) ds) (\<lambda>_ ds.
       case in_disk (\<lambda>d. sbind (fs_write_all (TempFile temporary) raw d)
                          (\<lambda>_ d. fs_sync_file (TempFile temporary) d)) ds of
         (Inl error, ds) \<Rightarrow> (Inl error, ignoring (fs_remove_file (TempFile temporary)) ds)
       | (Inr _, ds) \<Rightarrow>
           (case replace_file temporary ds of
              (Inl error, ds) \<Rightarrow> (Inl error, ignoring (fs_remove_file (TempFile temporary)) ds)
            | (Inr _, ds) \<Rightarrow> (Inr (), ds))))))"

definition durable_open ::
    "state_codec \<Rightarrow> state_path \<Rightarrow> disk \<Rightarrow> host
     \<Rightarrow> (agent_error, durable_store, durable_store) outcome" where
  "durable_open C path disk host =
     (let ds = \<lparr>ds_path = path, ds_state = persisted_default, ds_poisoned = False,
               ds_disk = disk, ds_host = host\<rparr> in
      if \<not> sp_is_absolute path
      then (Inl (store_error (lit ''Agent state path must be absolute.'')), ds)
      else
        sbind (recover_interrupted_write ds) (\<lambda>_ ds.
        sbind (if fs_exists StateFile (ds_disk ds)
               then if MAX_STORE_BYTES < length (file_bytes (the (dk_now (ds_disk ds) StateFile)))
                    then (Inl (store_error
                           (lit ''Agent state is not a bounded regular file.'')), ds)
                    else sbind (in_disk (fs_read StateFile) ds) (\<lambda>raw ds.
                         (map_err (\<lambda>error. store_error
                             (lit ''Agent state JSON is invalid: '' @ error))
                           (cd_decode C raw), ds))
               else (Inr persisted_default, ds)) (\<lambda>state ds.
        sbind (validate_state state, ds) (\<lambda>_ ds.
        let store = ds\<lparr>ds_state := state, ds_poisoned := False\<rparr> in
        if fs_exists StateFile (ds_disk store) then (Inr store, store)
        else sbind (persist C state store) (\<lambda>_ store. (Inr store, store))))))"

section \<open>The store's operations\<close>

definition mutate ::
    "state_codec \<Rightarrow> (persisted_agent_state \<Rightarrow> agent_error + persisted_agent_state)
     \<Rightarrow> durable_store \<Rightarrow> (agent_error, unit, durable_store) outcome" where
  "mutate C change ds =
     (if ds_poisoned ds
      then (Inl (store_error
              (lit ''Agent state durability is uncertain; restart is required.'')), ds)
      else
        sbind (change (ds_state ds), ds) (\<lambda>prospective ds.
        sbind (validate_state prospective, ds) (\<lambda>_ ds.
        case persist C prospective ds of
          (Inl error, ds) \<Rightarrow> (Inl error, ds\<lparr>ds_poisoned := True\<rparr>)
        | (Inr _, ds) \<Rightarrow> (Inr (), ds\<lparr>ds_state := prospective\<rparr>))))"

definition change_claim_request ::
    "uuid \<Rightarrow> uuid \<Rightarrow> str \<Rightarrow> u64 \<Rightarrow> persisted_agent_state
     \<Rightarrow> agent_error + persisted_agent_state" where
  "change_claim_request principal_id request_id nonce sequence state =
     (if sequence = 0 \<or> sequence \<le> last_sequence (ps_sequences state) principal_id
         \<or> request_id \<in> set (ps_request_ids state) \<or> nonce \<in> set (ps_nonces state)
      then Inl agent_error.Replay
      else
        let state = (if length (ps_request_ids state) = MAX_REPLAY_WINDOW_ENTRIES
                     then state\<lparr>ps_request_ids := tl (ps_request_ids state),
                                ps_nonces := tl (ps_nonces state)\<rparr>
                     else state)
        in Inr (state\<lparr>ps_request_ids := ps_request_ids state @ [request_id],
                      ps_nonces := ps_nonces state @ [nonce],
                      ps_sequences :=
                        AList.update principal_id sequence (ps_sequences state)\<rparr>))"

definition change_insert_environment ::
    "environment_record \<Rightarrow> persisted_agent_state \<Rightarrow> agent_error + persisted_agent_state" where
  "change_insert_environment record state =
     (if map_of (ps_environments state) (er_silo_id record) \<noteq> None
      then Inl (agent_error.Conflict
             (lit ''A remote environment already exists for this Silo.''))
      else Inr (state\<lparr>ps_environments :=
             AList.update (er_silo_id record) record (ps_environments state)\<rparr>))"

definition change_update_environment ::
    "environment_record \<Rightarrow> persisted_agent_state \<Rightarrow> agent_error + persisted_agent_state" where
  "change_update_environment record state =
     (if map_of (ps_environments state) (er_silo_id record) = None
      then Inl agent_error.NotFound
      else Inr (state\<lparr>ps_environments :=
             AList.update (er_silo_id record) record (ps_environments state)\<rparr>))"

definition change_set_human_session ::
    "session_authorization \<Rightarrow> persisted_agent_state \<Rightarrow> agent_error + persisted_agent_state" where
  "change_set_human_session authorization state =
     Inr (state\<lparr>ps_human_sessions :=
       AList.update (sa_silo_id authorization) authorization (ps_human_sessions state)\<rparr>)"

definition change_set_automation ::
    "automation_authorization \<Rightarrow> persisted_agent_state \<Rightarrow> agent_error + persisted_agent_state"
  where
  "change_set_automation authorization state =
     Inr (state\<lparr>ps_automation :=
       AList.update (aa_authorization_id authorization) authorization (ps_automation state)\<rparr>)"

definition change_commit_deletion ::
    "environment_record \<Rightarrow> deletion_proof \<Rightarrow> persisted_agent_state
     \<Rightarrow> agent_error + persisted_agent_state" where
  "change_commit_deletion record proof state =
     (if map_of (ps_environments state) (er_silo_id record) = None
         \<or> er_state record \<noteq> environment_state.Deleted
         \<or> er_deletion_proof_id record \<noteq> Some (dp_proof_id proof)
         \<or> er_silo_id record \<noteq> dp_silo_id proof
         \<or> er_binding_id record \<noteq> dp_binding_id proof
         \<or> er_remote_environment_id record \<noteq> dp_remote_environment_id proof
         \<or> va_volume_id (er_volume record) \<noteq> dp_volume_id proof
      then Inl (agent_error.InvalidState (lit ''Deletion record and proof do not match.''))
      else Inr (state\<lparr>ps_environments :=
                        AList.update (er_silo_id record) record (ps_environments state),
                      ps_proofs := AList.update (dp_proof_id proof) proof (ps_proofs state)\<rparr>))"

definition change_append_activity ::
    "activity_entry \<Rightarrow> persisted_agent_state \<Rightarrow> agent_error + persisted_agent_state" where
  "change_append_activity activity state =
     Inr (state\<lparr>ps_activity := push_bounded MAX_ACTIVITY_ENTRIES activity (ps_activity state)\<rparr>)"

definition durable_ops :: "state_codec \<Rightarrow> durable_store agent_store_ops" where
  "durable_ops C =
     \<lparr>st_claim_request = (\<lambda>principal_id request_id nonce sequence.
        mutate C (change_claim_request principal_id request_id nonce sequence)),
      st_environment_ids = (\<lambda>ds. map fst (ps_environments (ds_state ds))),
      st_environment = (\<lambda>ds. map_of (ps_environments (ds_state ds))),
      st_insert_environment = (\<lambda>record. mutate C (change_insert_environment record)),
      st_update_environment = (\<lambda>record. mutate C (change_update_environment record)),
      st_human_session = (\<lambda>ds. map_of (ps_human_sessions (ds_state ds))),
      st_set_human_session = (\<lambda>a. mutate C (change_set_human_session a)),
      st_automation = (\<lambda>ds. map_of (ps_automation (ds_state ds))),
      st_set_automation = (\<lambda>a. mutate C (change_set_automation a)),
      st_commit_deletion = (\<lambda>record proof. mutate C (change_commit_deletion record proof)),
      st_deletion_proof = (\<lambda>ds. map_of (ps_proofs (ds_state ds))),
      st_append_activity = (\<lambda>activity. mutate C (change_append_activity activity)),
      st_activities = (\<lambda>ds silo_id.
        filter (\<lambda>entry. ae_silo_id entry = silo_id) (ps_activity (ds_state ds)))\<rparr>"

definition durable_view :: "durable_store \<Rightarrow> agent_view" where
  "durable_view ds =
     \<lparr>v_environments = map_of (ps_environments (ds_state ds)),
      v_human_sessions = map_of (ps_human_sessions (ds_state ds)),
      v_automation = map_of (ps_automation (ds_state ds)),
      v_proofs = map_of (ps_proofs (ds_state ds)),
      v_high_water = last_sequence (ps_sequences (ds_state ds)),
      v_activity = ps_activity (ds_state ds)\<rparr>"

definition persisted_maps_distinct :: "persisted_agent_state \<Rightarrow> bool" where
  "persisted_maps_distinct s \<longleftrightarrow>
     keys_distinct (ps_environments s) \<and> keys_distinct (ps_human_sessions s)
     \<and> keys_distinct (ps_automation s) \<and> keys_distinct (ps_proofs s)
     \<and> keys_distinct (ps_sequences s)"

definition durable_invar :: "durable_store \<Rightarrow> bool" where
  "durable_invar ds \<longleftrightarrow>
     validate_state (ds_state ds) = Inr () \<and> persisted_maps_distinct (ds_state ds)"

section \<open>The store keeps the contract\<close>

text \<open>Writing changes the disk and draws a UUID; the state in memory stays.\<close>

definition same_memory :: "durable_store \<Rightarrow> durable_store \<Rightarrow> bool" where
  "same_memory ds ds' \<longleftrightarrow>
     ds_state ds' = ds_state ds \<and> ds_poisoned ds' = ds_poisoned ds \<and> ds_path ds' = ds_path ds"

lemma same_memory_refl [simp]: "same_memory ds ds"
  by (simp add: same_memory_def)

lemma same_memory_disk [simp]:
  "same_memory ds0 (ds\<lparr>ds_disk := d\<rparr>) = same_memory ds0 ds"
  "same_memory ds0 (ds\<lparr>ds_host := h\<rparr>) = same_memory ds0 ds"
  by (simp_all add: same_memory_def)

lemma outcome_in_disk [simp]:
  "outcome Q E (in_disk f ds) =
     outcome (\<lambda>x d. Q x (ds\<lparr>ds_disk := d\<rparr>)) (\<lambda>e d. E (io_error e) (ds\<lparr>ds_disk := d\<rparr>))
       (f (ds_disk ds))"
  by (cases "f (ds_disk ds)"; cases "fst (f (ds_disk ds))") (auto simp: in_disk_def)

abbreviation keeps_memory ::
    "durable_store \<Rightarrow> ('e, 'a, durable_store) outcome \<Rightarrow> bool" where
  "keeps_memory ds0 m \<equiv> outcome (\<lambda>_. same_memory ds0) (\<lambda>_. same_memory ds0) m"

lemma keeps_memory_in_disk:
  "same_memory ds0 ds \<Longrightarrow> keeps_memory ds0 (in_disk f ds)"
  by (cases "f (ds_disk ds)") (simp add: in_disk_def outcome_const)

lemma keeps_memory_sync: "same_memory ds0 ds \<Longrightarrow> keeps_memory ds0 (sync_parent_directory ds)"
  unfolding sync_parent_directory_def by (intro outcome_rules keeps_memory_in_disk)

lemma keeps_memory_syncD:
  "same_memory ds0 ds \<Longrightarrow> same_memory ds0 (snd (sync_parent_directory ds))"
  using keeps_memory_sync by (simp only: outcome_const)

lemma keeps_memory_replace_file:
  "same_memory ds0 ds \<Longrightarrow> keeps_memory ds0 (replace_file temporary ds)"
  unfolding replace_file_def
  by (intro outcome_rules outcome_sbindI [where R = "\<lambda>_. same_memory ds0"]
      outcome_caseI [where R = "\<lambda>_. same_memory ds0" and F = "\<lambda>_. same_memory ds0"]
      keeps_memory_in_disk keeps_memory_sync keeps_memory_syncD)

lemma keeps_memory_persist:
  "same_memory ds0 ds \<Longrightarrow> keeps_memory ds0 (persist C state ds)"
  unfolding persist_def Let_def ignoring_def
  by (intro outcome_rules outcome_sbindI [where R = "\<lambda>_. same_memory ds0"]
      outcome_caseI [where R = "\<lambda>_. same_memory ds0" and F = "\<lambda>_. same_memory ds0"]
      keeps_memory_in_disk keeps_memory_sync keeps_memory_replace_file)
    auto

lemma mutate_outcome:
  "outcome
     (\<lambda>_ ds'. \<not> ds_poisoned ds \<and> change (ds_state ds) = Inr (ds_state ds')
        \<and> validate_state (ds_state ds') = Inr () \<and> \<not> ds_poisoned ds')
     (\<lambda>_ ds'. ds_state ds' = ds_state ds)
     (mutate C change ds)"
  unfolding mutate_def
  by (intro outcome_rules
      outcome_caseI [OF keeps_memory_persist [OF same_memory_refl]])
    (auto simp: same_memory_def)

interpretation durable_transactions: transactional ds_state "\<lambda>s. validate_state s = Inr ()"
  "mutate C" for C
  by unfold_locales (rule outcome_mono [OF mutate_outcome], auto)

lemmas change_defs =
  change_claim_request_def change_insert_environment_def change_update_environment_def
  change_set_human_session_def change_set_automation_def change_commit_deletion_def
  change_append_activity_def

text \<open>Every change keeps the keys of the maps distinct.\<close>

lemma changes_maps_distinct:
  "change_claim_request pid rid nonce q s = Inr s' \<Longrightarrow> persisted_maps_distinct s
    \<Longrightarrow> persisted_maps_distinct s'"
  "change_insert_environment r s = Inr s' \<Longrightarrow> persisted_maps_distinct s
    \<Longrightarrow> persisted_maps_distinct s'"
  "change_update_environment r s = Inr s' \<Longrightarrow> persisted_maps_distinct s
    \<Longrightarrow> persisted_maps_distinct s'"
  "change_set_human_session h s = Inr s' \<Longrightarrow> persisted_maps_distinct s
    \<Longrightarrow> persisted_maps_distinct s'"
  "change_set_automation a s = Inr s' \<Longrightarrow> persisted_maps_distinct s
    \<Longrightarrow> persisted_maps_distinct s'"
  "change_commit_deletion r p s = Inr s' \<Longrightarrow> persisted_maps_distinct s
    \<Longrightarrow> persisted_maps_distinct s'"
  "change_append_activity e s = Inr s' \<Longrightarrow> persisted_maps_distinct s
    \<Longrightarrow> persisted_maps_distinct s'"
  by (auto simp: change_defs persisted_maps_distinct_def Let_def distinct_update split: if_splits)

lemma mutate_view:
  assumes inv: "durable_invar ds"
    and change: "\<And>s'. change (ds_state ds) = Inr s' \<Longrightarrow> persisted_maps_distinct s'
      \<and> P (durable_view (ds\<lparr>ds_state := s'\<rparr>))"
  shows "outcome (\<lambda>_ ds'. durable_invar ds' \<and> P (durable_view ds'))
     (\<lambda>_ ds'. durable_invar ds' \<and> durable_view ds' = durable_view ds) (mutate C change ds)"
  using inv change
  by (intro outcome_mono [OF mutate_outcome]) (auto simp: durable_invar_def durable_view_def)

lemma mutate_views [simp]: "durable_view (ds\<lparr>ds_state := s\<rparr>) =
    \<lparr>v_environments = map_of (ps_environments s),
     v_human_sessions = map_of (ps_human_sessions s),
     v_automation = map_of (ps_automation s),
     v_proofs = map_of (ps_proofs s),
     v_high_water = last_sequence (ps_sequences s),
     v_activity = ps_activity s\<rparr>"
  by (simp add: durable_view_def)

interpretation durable: agent_store "durable_ops C" durable_view durable_invar for C
proof unfold_locales
  fix s silo
  show "st_environment (durable_ops C) s = v_environments (durable_view s)"
    "st_human_session (durable_ops C) s = v_human_sessions (durable_view s)"
    "st_automation (durable_ops C) s = v_automation (durable_view s)"
    "st_deletion_proof (durable_ops C) s = v_proofs (durable_view s)"
    "st_activities (durable_ops C) s silo =
       filter (\<lambda>a. ae_silo_id a = silo) (v_activity (durable_view s))"
    by (simp_all add: durable_ops_def durable_view_def)
next
  fix s assume "durable_invar s"
  then show "distinct (st_environment_ids (durable_ops C) s)
      \<and> set (st_environment_ids (durable_ops C) s) = dom (v_environments (durable_view s))"
    by (simp add: durable_ops_def durable_view_def durable_invar_def persisted_maps_distinct_def
        dom_map_of_conv_image_fst)
qed (unfold durable_ops_def agent_store_ops.select_convs; rule mutate_view, assumption,
    rule conjI, erule changes_maps_distinct, simp add: durable_invar_def,
    auto simp: durable_view_def change_defs Let_def deletion_matches_def not_le split: if_splits)+

section \<open>A crash never loses the state\<close>

text \<open>
  What \<open>recover_interrupted_write\<close> finds: the state file, or else its backup. A disk is
  settled on contents when every image a crash may expose recovers to them.
\<close>

definition recovered_file :: "dir \<Rightarrow> stored_file option" where
  "recovered_file dir = (case dir StateFile of Some f \<Rightarrow> Some f | None \<Rightarrow> dir BackupFile)"

definition settled :: "nat list option \<Rightarrow> disk \<Rightarrow> bool" where
  "settled contents d \<longleftrightarrow>
     dk_now d \<in> set (dk_images d)
     \<and> (\<forall>i \<in> set (dk_images d). recovered_file i = map_option Stable contents)
     \<and> dk_now d StateFile = map_option Stable contents"

text \<open>
  The phases of a write: the files now, and what every image seen so far satisfies; \<open>H\<close> are
  the images from before the write.
\<close>

definition phase ::
    "dir set \<Rightarrow> stored_file option set \<Rightarrow> uuid \<Rightarrow> stored_file option \<Rightarrow> stored_file option
     \<Rightarrow> stored_file option \<Rightarrow> disk \<Rightarrow> bool" where
  "phase H R t state backup temp d \<longleftrightarrow>
     dk_now d \<in> set (dk_images d)
     \<and> (\<forall>i \<in> set (dk_history d). i \<in> H \<or> recovered_file i \<in> R)
     \<and> (\<forall>i \<in> set (dk_images d). recovered_file i \<in> R)
     \<and> dk_now d StateFile = state \<and> dk_now d BackupFile = backup
     \<and> dk_now d (TempFile t) = temp"

lemma phase_change:
  assumes "phase H R t s b m d"
    and "\<And>now. f (dk_now d) = Inr now \<Longrightarrow> recovered_file now \<in> R \<and> now StateFile = s'
      \<and> now BackupFile = b' \<and> now (TempFile t) = m'"
  shows "outcome (\<lambda>_. phase H R t s' b' m') (\<lambda>_. phase H R t s b m) (fs_change f d)"
  using assms by (intro outcome_mono [OF fs_change_outcome]) (auto simp: phase_def)

lemma phase_same:
  "phase H R t s b m d
   \<Longrightarrow> outcome (\<lambda>_. phase H R t s b m) (\<lambda>_. phase H R t s b m) (fs_change Inr d)"
  by (rule phase_change, assumption) (auto simp: phase_def)

lemma phase_sync_dir:
  "phase H R t s b m d
   \<Longrightarrow> outcome (\<lambda>_ d'. phase H R t s b m d' \<and> (\<forall>i \<in> set (dk_images d'). i StateFile = s))
        (\<lambda>_. phase H R t s b m) (fs_sync_dir d)"
  unfolding fs_sync_dir_def
  by (rule outcome_sbindI [OF phase_same]) (auto simp: phase_def)

lemma phase_remove_backup:
  "phase H R t (Some f) b m d \<Longrightarrow> Some f \<in> R
   \<Longrightarrow> outcome (\<lambda>_. phase H R t (Some f) None m) (\<lambda>_. phase H R t (Some f) b m)
        (fs_remove_file BackupFile d)"
  unfolding fs_remove_file_def
  by (rule phase_change, assumption) (auto simp: phase_def recovered_file_def split: if_splits)

lemma phase_rename_state:
  "phase H R t (Some f) None m d \<Longrightarrow> Some f \<in> R
   \<Longrightarrow> outcome (\<lambda>_. phase H R t None (Some f) m) (\<lambda>_. phase H R t (Some f) None m)
        (fs_rename StateFile BackupFile d)"
  unfolding fs_rename_def
  by (rule phase_change, assumption) (auto simp: phase_def recovered_file_def split: if_splits)

lemma phase_rename_temp:
  "phase H R t None b (Some f) d \<Longrightarrow> Some f \<in> R
   \<Longrightarrow> outcome (\<lambda>_. phase H R t (Some f) b None) (\<lambda>_. phase H R t None b (Some f))
        (fs_rename (TempFile t) StateFile d)"
  unfolding fs_rename_def
  by (rule phase_change, assumption) (auto simp: phase_def recovered_file_def split: if_splits)

lemma phase_rename_back:
  "phase H R t None (Some f) m d \<Longrightarrow> Some f \<in> R
   \<Longrightarrow> outcome (\<lambda>_. phase H R t (Some f) None m) (\<lambda>_. phase H R t None (Some f) m)
        (fs_rename BackupFile StateFile d)"
  unfolding fs_rename_def
  by (rule phase_change, assumption) (auto simp: phase_def recovered_file_def split: if_splits)

text \<open>What the temporary file's own operations do to the state file: nothing.\<close>

lemma recovered_file_temp [simp]: "recovered_file (dir(TempFile t := f)) = recovered_file dir"
  by (simp add: recovered_file_def split: option.split)

lemma phase_recovered: "phase H R t s b m d \<Longrightarrow> recovered_file (dk_now d) \<in> R"
  by (auto simp: phase_def)

lemma phase_create_temp:
  "phase H R t s b m d \<Longrightarrow> outcome (\<lambda>_. phase H R t s b (Some (Volatile [])))
     (\<lambda>_. phase H R t s b m) (fs_create_new (TempFile t) d)"
  unfolding fs_create_new_def
  by (rule phase_change, assumption, frule phase_recovered) (auto simp: phase_def split: if_splits)

lemma phase_write_temp:
  "phase H R t s b m d \<Longrightarrow> outcome (\<lambda>_. phase H R t s b (Some (Volatile bytes)))
     (\<lambda>_. phase H R t s b m) (fs_write_all (TempFile t) bytes d)"
  unfolding fs_write_all_def
  by (rule phase_change, assumption, frule phase_recovered) (auto simp: phase_def)

lemma phase_sync_temp:
  "phase H R t s b (Some f) d \<Longrightarrow> outcome (\<lambda>_. phase H R t s b (Some (Stable (file_bytes f))))
     (\<lambda>_. phase H R t s b (Some f)) (fs_sync_file (TempFile t) d)"
  unfolding fs_sync_file_def
  by (rule phase_change, assumption, frule phase_recovered) (auto simp: phase_def)

lemma phase_remove_temp:
  "phase H R t s b m d \<Longrightarrow> outcome (\<lambda>_. phase H R t s b None)
     (\<lambda>_. phase H R t s b m) (fs_remove_file (TempFile t) d)"
  unfolding fs_remove_file_def
  by (rule phase_change, assumption, frule phase_recovered) (auto simp: phase_def split: if_splits)

lemma fs_exists_phase [simp]:
  assumes "phase H R t s b m d"
  shows "fs_exists StateFile d \<longleftrightarrow> s \<noteq> None" "fs_exists BackupFile d \<longleftrightarrow> b \<noteq> None"
  using assms by (auto simp: phase_def fs_exists_def)

text \<open>The same on the store's disk.\<close>

definition some_phase :: "dir set \<Rightarrow> stored_file option set \<Rightarrow> uuid \<Rightarrow> durable_store \<Rightarrow> bool" where
  "some_phase H R t ds \<longleftrightarrow> (\<exists>s b m. phase H R t s b m (ds_disk ds))"

lemma some_phaseI: "phase H R t s b m (ds_disk ds) \<Longrightarrow> some_phase H R t ds"
  by (auto simp: some_phase_def)

lemma stage_sync_dir:
  "phase H R t s b m (ds_disk ds)
   \<Longrightarrow> outcome (\<lambda>_ ds'. phase H R t s b m (ds_disk ds')
          \<and> (\<forall>i \<in> set (dk_images (ds_disk ds')). i StateFile = s))
        (\<lambda>_ ds'. phase H R t s b m (ds_disk ds')) (in_disk fs_sync_dir ds)"
  by (simp add: phase_sync_dir)

lemma stage_remove_backup:
  "phase H R t (Some f) b m (ds_disk ds) \<Longrightarrow> Some f \<in> R
   \<Longrightarrow> outcome (\<lambda>_ ds'. phase H R t (Some f) None m (ds_disk ds'))
        (\<lambda>_ ds'. phase H R t (Some f) b m (ds_disk ds')) (in_disk (fs_remove_file BackupFile) ds)"
  by (simp add: phase_remove_backup)

lemma stage_rename_state:
  "phase H R t (Some f) None m (ds_disk ds) \<Longrightarrow> Some f \<in> R
   \<Longrightarrow> outcome (\<lambda>_ ds'. phase H R t None (Some f) m (ds_disk ds'))
        (\<lambda>_ ds'. phase H R t (Some f) None m (ds_disk ds'))
        (in_disk (fs_rename StateFile BackupFile) ds)"
  by (simp add: phase_rename_state)

lemma stage_rename_temp:
  "phase H R t None b (Some f) (ds_disk ds) \<Longrightarrow> Some f \<in> R
   \<Longrightarrow> outcome (\<lambda>_ ds'. phase H R t (Some f) b None (ds_disk ds'))
        (\<lambda>_ ds'. phase H R t None b (Some f) (ds_disk ds'))
        (in_disk (fs_rename (TempFile t) StateFile) ds)"
  by (simp add: phase_rename_temp)

lemma stage_rename_back:
  "phase H R t None b m (ds_disk ds) \<Longrightarrow> b \<in> R
   \<Longrightarrow> outcome (\<lambda>_. some_phase H R t) (\<lambda>_. some_phase H R t)
        (in_disk (fs_rename BackupFile StateFile) ds)"
proof (cases b)
  case None
  assume ph: "phase H R t None b m (ds_disk ds)"
  have "outcome (\<lambda>_ _. False) (\<lambda>_. phase H R t None b m)
      (fs_rename BackupFile StateFile (ds_disk ds))"
    unfolding fs_rename_def
    by (rule outcome_mono [OF fs_change_outcome]) (use ph None in \<open>auto simp: phase_def\<close>)
  then show ?thesis
    by (simp, elim outcome_mono) (auto simp: some_phase_def)
next
  case (Some f)
  assume "phase H R t None b m (ds_disk ds)" "b \<in> R"
  with Some phase_rename_back [of H R t f m "ds_disk ds"] show ?thesis
    by (simp, elim outcome_mono) (auto simp: some_phase_def)
qed

lemma sync_parent_phase:
  assumes "phase H R t s b m (ds_disk ds)"
  shows "outcome (\<lambda>_ ds'. phase H R t s b m (ds_disk ds')
        \<and> (\<forall>i \<in> set (dk_images (ds_disk ds')). i StateFile = s))
     (\<lambda>_ ds'. phase H R t s b m (ds_disk ds')) (sync_parent_directory ds)"
  unfolding sync_parent_directory_def
  by (intro outcome_rules assms stage_sync_dir)

lemma sync_parent_phaseD:
  "phase H R t s b m (ds_disk ds) \<Longrightarrow> phase H R t s b m (ds_disk (snd (sync_parent_directory ds)))"
  using sync_parent_phase [of H R t s b m ds]
  by (cases "sync_parent_directory ds"; cases "fst (sync_parent_directory ds)") auto

lemma drop_backup_phase:
  assumes ph: "phase H R t s b m (ds_disk ds)" and R: "s \<in> R" and clean: "s = None \<longrightarrow> b = None"
  shows "outcome (\<lambda>_ ds'. phase H R t s None m (ds_disk ds')) (\<lambda>_. some_phase H R t)
     (if fs_exists BackupFile (ds_disk ds)
      then sbind (in_disk (fs_remove_file BackupFile) ds) (\<lambda>_ ds. sync_parent_directory ds)
      else (Inr (), ds))"
proof (cases b)
  case None
  with ph show ?thesis by simp
next
  case (Some b')
  with clean obtain f where s: "s = Some f" by (cases s) auto
  have "outcome (\<lambda>_ ds'. phase H R t s None m (ds_disk ds')) (\<lambda>_. some_phase H R t)
      (sbind (in_disk (fs_remove_file BackupFile) ds) (\<lambda>_ ds. sync_parent_directory ds))"
    using R s
    by (intro outcome_sbindW [OF stage_remove_backup [OF ph [unfolded s]]]
        outcome_mono [OF sync_parent_phase]) (auto intro: some_phaseI)
  with ph Some show ?thesis by simp
qed

lemma backup_state_phase:
  assumes ph: "phase H R t s None m (ds_disk ds)" and R: "s \<in> R"
  shows "outcome (\<lambda>_ ds'. phase H R t None s m (ds_disk ds')) (\<lambda>_. some_phase H R t)
     (if fs_exists StateFile (ds_disk ds)
      then sbind (in_disk (fs_rename StateFile BackupFile) ds) (\<lambda>_ ds. sync_parent_directory ds)
      else (Inr (), ds))"
proof (cases s)
  case None
  with ph show ?thesis by simp
next
  case (Some f)
  have "outcome (\<lambda>_ ds'. phase H R t None s m (ds_disk ds')) (\<lambda>_. some_phase H R t)
      (sbind (in_disk (fs_rename StateFile BackupFile) ds) (\<lambda>_ ds. sync_parent_directory ds))"
    using R Some
    by (intro outcome_sbindW [OF stage_rename_state [OF ph [unfolded Some]]]
        outcome_mono [OF sync_parent_phase]) (auto intro: some_phaseI)
  with ph Some show ?thesis by simp
qed

lemma some_phase_syncD: "some_phase H R t ds \<Longrightarrow> some_phase H R t (snd (sync_parent_directory ds))"
  by (auto simp: some_phase_def dest: sync_parent_phaseD)

text \<open>The commit point is behind: every image a crash may expose has the new state file.\<close>

definition committed ::
    "dir set \<Rightarrow> stored_file option set \<Rightarrow> stored_file \<Rightarrow> disk \<Rightarrow> bool" where
  "committed H R f d \<longleftrightarrow>
     dk_now d \<in> set (dk_images d)
     \<and> (\<forall>i \<in> set (dk_history d). i \<in> H \<or> recovered_file i \<in> R)
     \<and> (\<forall>i \<in> set (dk_images d). i StateFile = Some f)"

lemma recovered_file_state: "dir StateFile = Some f \<Longrightarrow> recovered_file dir = Some f"
  by (simp add: recovered_file_def)

lemma committed_change:
  assumes "committed H R f d" "Some f \<in> R"
    and "\<And>now. g (dk_now d) = Inr now \<Longrightarrow> now StateFile = dk_now d StateFile"
  shows "outcome (\<lambda>_. committed H R f) (\<lambda>_. committed H R f) (fs_change g d)"
proof (rule outcome_mono [OF fs_change_outcome])
  fix d' :: disk
  assume "\<exists>now. g (dk_now d) = Inr now \<and> dk_now d' = now
        \<and> dk_images d' = dk_images d @ [now] \<and> dk_history d' = dk_history d @ [now]"
  then obtain now where now: "g (dk_now d) = Inr now" "dk_now d' = now"
    "dk_images d' = dk_images d @ [now]" "dk_history d' = dk_history d @ [now]" by blast
  from assms(1) have "dk_now d StateFile = Some f" by (auto simp: committed_def)
  with assms(3) [OF now(1)] have "now StateFile = Some f" by simp
  with now assms(1,2) recovered_file_state [of now f] show "committed H R f d'"
    by (simp add: committed_def)
next
  fix d' :: disk
  assume "dk_now d' = dk_now d \<and> dk_images d' = dk_images d \<and> dk_history d' = dk_history d"
  with assms(1) show "committed H R f d'" by (simp add: committed_def)
qed

lemma committed_images: "committed H R f d \<Longrightarrow> committed H R f (d\<lparr>dk_images := [dk_now d]\<rparr>)"
  by (simp add: committed_def)

lemma committed_sync:
  assumes "committed H R f (ds_disk ds)" "Some f \<in> R"
  shows "committed H R f (ds_disk (snd (sync_parent_directory ds)))"
proof -
  have "outcome (\<lambda>_. committed H R f) (\<lambda>_. committed H R f) (fs_sync_dir (ds_disk ds))"
    unfolding fs_sync_dir_def
    by (intro outcome_sbindI [OF committed_change [OF assms]] outcome_InrI committed_images) simp
  then have "outcome (\<lambda>_ ds. committed H R f (ds_disk ds)) (\<lambda>_ ds. committed H R f (ds_disk ds))
      (in_disk fs_sync_dir ds)" by simp
  then have "outcome (\<lambda>_ ds. committed H R f (ds_disk ds)) (\<lambda>_ ds. committed H R f (ds_disk ds))
      (sync_parent_directory ds)"
    unfolding sync_parent_directory_def by (intro outcome_rules assms(1))
  then show ?thesis by (simp only: outcome_const)
qed

lemma committed_cleanup:
  assumes "committed H R f (ds_disk ds)" "Some f \<in> R"
  shows "outcome (\<lambda>_ ds. committed H R f (ds_disk ds)) E
     (if fs_exists BackupFile (ds_disk ds)
      then (case in_disk (fs_remove_file BackupFile) ds of
              (Inr _, ds) \<Rightarrow> (Inr (), snd (sync_parent_directory ds))
            | (Inl _, ds) \<Rightarrow> (Inr (), ds))
      else (Inr (), ds))"
proof -
  have "outcome (\<lambda>_. committed H R f) (\<lambda>_. committed H R f) (fs_remove_file BackupFile (ds_disk ds))"
    unfolding fs_remove_file_def
    by (rule committed_change [OF assms]) (simp split: if_splits, force)
  then have remove: "outcome (\<lambda>_ ds. committed H R f (ds_disk ds))
      (\<lambda>_ ds. committed H R f (ds_disk ds)) (in_disk (fs_remove_file BackupFile) ds)" by simp
  show ?thesis
    by (intro outcome_ifI outcome_caseI [OF remove] outcome_InrI committed_sync assms)
qed

lemma replace_file_phase:
  assumes ph: "phase H R t s b (Some f) (ds_disk ds)" and R: "s \<in> R" "Some f \<in> R"
    and clean: "s = None \<longrightarrow> b = None"
  shows "outcome (\<lambda>_ ds. committed H R f (ds_disk ds)) (\<lambda>_. some_phase H R t) (replace_file t ds)"
  unfolding replace_file_def
  apply (rule outcome_sbindI [OF drop_backup_phase [OF ph R(1) clean]])
  apply (rule outcome_sbindI [OF backup_state_phase [OF _ R(1)]], assumption)
  apply (rule outcome_caseI [OF stage_rename_temp], assumption, rule R(2))
   apply (rule outcome_sbindI [where R = "\<lambda>_ ds. committed H R f (ds_disk ds)"])
    apply (rule outcome_mono [OF sync_parent_phase], assumption)
     apply (simp add: committed_def phase_def)
    apply (erule some_phaseI)
   apply (rule committed_cleanup, assumption, rule R(2))
  apply (intro outcome_ifI)
   apply (rule outcome_caseI [OF stage_rename_back], assumption, rule R(1))
    apply (auto intro: some_phaseI some_phase_syncD)
  done

definition written ::
    "dir set \<Rightarrow> stored_file option set \<Rightarrow> durable_store \<Rightarrow> bool" where
  "written H R ds \<longleftrightarrow>
     dk_now (ds_disk ds) \<in> set (dk_images (ds_disk ds))
     \<and> (\<forall>i \<in> set (dk_history (ds_disk ds)). i \<in> H \<or> recovered_file i \<in> R)
     \<and> (\<forall>i \<in> set (dk_images (ds_disk ds)). recovered_file i \<in> R)"

lemma some_phase_written: "some_phase H R t ds \<Longrightarrow> written H R ds"
  by (auto simp: some_phase_def phase_def written_def)

lemma written_remove_temp:
  assumes "some_phase H R t ds"
  shows "written H R (ignoring (fs_remove_file (TempFile t)) ds)"
proof -
  from assms obtain s b m where "phase H R t s b m (ds_disk ds)" by (auto simp: some_phase_def)
  from phase_remove_temp [OF this]
  have "outcome (\<lambda>_ d. \<exists>s b m. phase H R t s b m d) (\<lambda>_ d. \<exists>s b m. phase H R t s b m d)
      (fs_remove_file (TempFile t) (ds_disk ds))"
    by (elim outcome_mono) blast+
  then show ?thesis
    by (intro some_phase_written [where t = t]) (simp add: some_phase_def ignoring_def outcome_const)
qed

text \<open>Before the temporary file has a name.\<close>

definition idle ::
    "dir set \<Rightarrow> stored_file option set \<Rightarrow> stored_file option \<Rightarrow> stored_file option
     \<Rightarrow> durable_store \<Rightarrow> bool" where
  "idle H R s b ds \<longleftrightarrow>
     (\<forall>t. phase H R t s b (dk_now (ds_disk ds) (TempFile t)) (ds_disk ds))"

lemma idle_phase:
  "idle H R s b ds \<Longrightarrow> phase H R t s b (dk_now (ds_disk ds) (TempFile t)) (ds_disk ds)"
  by (simp add: idle_def)

lemma idle_written: "idle H R s b ds \<Longrightarrow> written H R ds"
  by (simp add: idle_def phase_def written_def)

lemma stage_create_dir_all:
  assumes "idle H R s b ds"
  shows "outcome (\<lambda>_. idle H R s b) (\<lambda>_. idle H R s b) (in_disk fs_create_dir_all ds)"
  unfolding outcome_in_disk fs_create_dir_all_def
  by (rule outcome_mono [OF fs_change_outcome]) (use assms in \<open>auto simp: idle_def phase_def\<close>)

lemma stage_create_temp:
  "phase H R t s b m (ds_disk ds)
   \<Longrightarrow> outcome (\<lambda>_ ds'. phase H R t s b (Some (Volatile [])) (ds_disk ds'))
        (\<lambda>_ ds'. phase H R t s b m (ds_disk ds')) (in_disk (fs_create_new (TempFile t)) ds)"
  by (simp add: phase_create_temp)

lemma stage_write_temp:
  "phase H R t s b m (ds_disk ds)
   \<Longrightarrow> outcome (\<lambda>_ ds'. phase H R t s b (Some (Stable raw)) (ds_disk ds')) (\<lambda>_. some_phase H R t)
        (in_disk (\<lambda>d. sbind (fs_write_all (TempFile t) raw d)
           (\<lambda>_ d. fs_sync_file (TempFile t) d)) ds)"
  unfolding outcome_in_disk
  by (rule outcome_sbindW [OF phase_write_temp], assumption,
      rule outcome_mono [OF phase_sync_temp], assumption) (auto simp: some_phase_def)

text \<open>
  The persistence theorem at the level of contents: from a settled disk, all images of the
  write recover to the old or the new contents, and after success only to the new ones.
\<close>

lemma persist_outcome:
  assumes "settled old (ds_disk ds)" and clean: "old = None \<longrightarrow> dk_now (ds_disk ds) BackupFile = None"
    and raw: "cd_encode C state = Inr raw"
  defines "R \<equiv> {map_option Stable old, Some (Stable raw)}"
  defines "H \<equiv> set (dk_history (ds_disk ds))"
  shows "outcome
     (\<lambda>_ ds'. written H R ds' \<and> settled (Some raw) (ds_disk ds'))
     (\<lambda>_. written H R) (persist C state ds)"
proof -
  let ?t = "fst (new_v4 (ds_host ds))"
  let ?s = "map_option Stable old"
  have start: "idle H R ?s (dk_now (ds_disk ds) BackupFile) ds"
    using assms(1) by (auto simp: idle_def phase_def settled_def R_def H_def)
  have success: "written H R ds' \<and> settled (Some raw) (ds_disk ds')"
    if "committed H R (Stable raw) (ds_disk ds')" for ds'
    using that by (auto simp: committed_def written_def settled_def R_def recovered_file_state)
  have R: "?s \<in> R" "Some (Stable raw) \<in> R" by (simp_all add: R_def)
  have replace: "outcome (\<lambda>_ ds'. committed H R (Stable raw) (ds_disk ds'))
      (\<lambda>_. some_phase H R t) (replace_file t ds'')"
    if "phase H R t ?s (dk_now (ds_disk ds) BackupFile) (Some (Stable raw)) (ds_disk ds'')"
    for ds'' t
    by (rule replace_file_phase [OF that R]) (use clean in simp)
  show ?thesis
    unfolding persist_def raw Let_def
    apply (simp only: map_err_simps sbind_simps)
    apply (intro outcome_rules)
      apply (rule idle_written [OF start])
     apply (rule outcome_sbindW [OF stage_create_dir_all [OF start]])
      apply (rule outcome_sbindW [OF stage_create_temp])
        apply (simp, erule idle_phase)
       apply (rule outcome_caseI [OF stage_write_temp], assumption)
        apply (rule outcome_caseI [OF replace], assumption)
         apply (simp add: success)
        apply (simp add: written_remove_temp)
       apply (simp add: written_remove_temp)
      apply (erule some_phase_written [OF some_phaseI])
     apply (erule idle_written)
    apply (rule idle_written [OF start])
    done
qed

section \<open>Reopening\<close>

text \<open>The state in memory is the one every image of the disk recovers to.\<close>

definition durable_on_disk :: "state_codec \<Rightarrow> durable_store \<Rightarrow> bool" where
  "durable_on_disk C ds \<longleftrightarrow>
     (\<exists>raw. cd_encode C (ds_state ds) = Inr raw \<and> settled (Some raw) (ds_disk ds))"

text \<open>The file contents that a mutation may leave behind: those of the old or the new state.\<close>

definition old_or_new ::
    "state_codec \<Rightarrow> (persisted_agent_state \<Rightarrow> agent_error + persisted_agent_state)
     \<Rightarrow> persisted_agent_state \<Rightarrow> stored_file option \<Rightarrow> bool" where
  "old_or_new C change state file \<longleftrightarrow>
     (\<exists>s raw. file = Some (Stable raw) \<and> cd_encode C s = Inr raw
        \<and> (s = state \<or> change state = Inr s \<and> validate_state s = Inr ()))"

lemma mutate_on_disk:
  assumes "durable_on_disk C ds"
  shows "outcome
     (\<lambda>_ ds'. durable_on_disk C ds')
     (\<lambda>_ ds'. ds_poisoned ds' \<or> durable_on_disk C ds')
     (mutate C change ds)"
    and "\<forall>i \<in> set (dk_history (ds_disk (snd (mutate C change ds)))).
      i \<in> set (dk_history (ds_disk ds)) \<or> old_or_new C change (ds_state ds) (recovered_file i)"
    and "\<forall>i \<in> set (dk_images (ds_disk (snd (mutate C change ds)))).
      old_or_new C change (ds_state ds) (recovered_file i)"
proof -
  let ?H = "set (dk_history (ds_disk ds))"
  let ?safe = "\<lambda>ds'. (\<forall>i \<in> set (dk_history (ds_disk ds')).
        i \<in> ?H \<or> old_or_new C change (ds_state ds) (recovered_file i))
      \<and> (\<forall>i \<in> set (dk_images (ds_disk ds')). old_or_new C change (ds_state ds) (recovered_file i))"
  obtain raw where raw: "cd_encode C (ds_state ds) = Inr raw" "settled (Some raw) (ds_disk ds)"
    using assms by (auto simp: durable_on_disk_def)
  have here: "?safe ds"
    using raw by (auto simp: settled_def old_or_new_def)
  have persist: "outcome
      (\<lambda>_ ds'. ?safe ds' \<and> durable_on_disk C (ds'\<lparr>ds_state := s'\<rparr>))
      (\<lambda>_ ds'. ?safe ds') (persist C s' ds)"
    if s': "change (ds_state ds) = Inr s'" "validate_state s' = Inr ()" for s'
  proof (cases "cd_encode C s'")
    case (Inl e)
    with here show ?thesis by (simp add: persist_def)
  next
    case (Inr raw')
    have "old_or_new C change (ds_state ds) f" if "f \<in> {map_option Stable (Some raw), Some (Stable raw')}" for f
      using that raw(1) s' Inr by (auto simp: old_or_new_def)
    with Inr show ?thesis
      by (intro outcome_mono [OF persist_outcome [OF raw(2) _ Inr]])
        (auto simp: written_def durable_on_disk_def)
  qed
  have all: "outcome (\<lambda>_ ds'. ?safe ds' \<and> durable_on_disk C ds')
      (\<lambda>_ ds'. ?safe ds' \<and> (ds_poisoned ds' \<or> durable_on_disk C ds')) (mutate C change ds)"
    unfolding mutate_def
    by (intro outcome_rules outcome_caseI [OF persist]) (use here assms in auto)
  from all show "outcome (\<lambda>_ ds'. durable_on_disk C ds')
     (\<lambda>_ ds'. ds_poisoned ds' \<or> durable_on_disk C ds') (mutate C change ds)"
    by (rule outcome_mono) auto
  from all have "?safe (snd (mutate C change ds))"
    by (cases "mutate C change ds"; cases "fst (mutate C change ds)") auto
  then show "\<forall>i \<in> set (dk_history (ds_disk (snd (mutate C change ds)))).
      i \<in> ?H \<or> old_or_new C change (ds_state ds) (recovered_file i)"
    and "\<forall>i \<in> set (dk_images (ds_disk (snd (mutate C change ds)))).
      old_or_new C change (ds_state ds) (recovered_file i)"
    by blast+
qed

text \<open>
  The codec's contract: decoding what was encoded gives the same state, the maps with their
  entries in any order.
\<close>

definition same_content :: "persisted_agent_state \<Rightarrow> persisted_agent_state \<Rightarrow> bool" where
  "same_content s s' \<longleftrightarrow>
     persisted_maps_distinct s'
     \<and> ps_schema_version s' = ps_schema_version s
     \<and> set (ps_environments s') = set (ps_environments s)
     \<and> set (ps_human_sessions s') = set (ps_human_sessions s)
     \<and> set (ps_automation s') = set (ps_automation s)
     \<and> set (ps_proofs s') = set (ps_proofs s)
     \<and> ps_request_ids s' = ps_request_ids s \<and> ps_nonces s' = ps_nonces s
     \<and> set (ps_sequences s') = set (ps_sequences s)
     \<and> ps_activity s' = ps_activity s"

definition codec_round_trips :: "state_codec \<Rightarrow> bool" where
  "codec_round_trips C \<longleftrightarrow>
     (\<forall>s raw. persisted_maps_distinct s \<longrightarrow> cd_encode C s = Inr raw \<longrightarrow>
        (\<exists>s'. cd_decode C raw = Inr s' \<and> same_content s s'))"

lemma same_map:
  assumes "keys_distinct m" "keys_distinct m'" "set m' = set m"
  shows "map_of m' = map_of m" "length m' = length m"
proof -
  show "map_of m' = map_of m" using assms by (simp add: map_of_inject_set)
  from assms have "distinct m" "distinct m'" by (auto simp: distinct_map)
  with assms(3) show "length m' = length m" by (metis distinct_card)
qed

lemma same_content_maps:
  assumes "persisted_maps_distinct s" "same_content s s'"
  shows "map_of (ps_environments s') = map_of (ps_environments s)"
    "map_of (ps_human_sessions s') = map_of (ps_human_sessions s)"
    "map_of (ps_automation s') = map_of (ps_automation s)"
    "map_of (ps_proofs s') = map_of (ps_proofs s)"
    "map_of (ps_sequences s') = map_of (ps_sequences s)"
    "length (ps_environments s') = length (ps_environments s)"
    "length (ps_human_sessions s') = length (ps_human_sessions s)"
    "length (ps_automation s') = length (ps_automation s)"
    "length (ps_proofs s') = length (ps_proofs s)"
    "length (ps_sequences s') = length (ps_sequences s)"
  using assms by (auto simp: same_content_def persisted_maps_distinct_def intro: same_map)

text \<open>The entry check reads the proofs only through lookups.\<close>

lemma validate_stored_environment_cong:
  "map_of ps' = map_of ps \<Longrightarrow> validate_stored_environment ps' = validate_stored_environment ps"
  by (rule ext) (simp only: validate_stored_environment_def)

lemma same_content_valid:
  assumes "persisted_maps_distinct s" "same_content s s'" "validate_state s = Inr ()"
  shows "validate_state s' = Inr ()"
proof -
  note maps = same_content_maps [OF assms(1,2)]
  have same: "ps_schema_version s' = ps_schema_version s"
    "set (ps_environments s') = set (ps_environments s)"
    "set (ps_human_sessions s') = set (ps_human_sessions s)"
    "set (ps_automation s') = set (ps_automation s)"
    "set (ps_proofs s') = set (ps_proofs s)" "ps_request_ids s' = ps_request_ids s"
    "ps_nonces s' = ps_nonces s" "set (ps_sequences s') = set (ps_sequences s)"
    "ps_activity s' = ps_activity s"
    using assms(2) by (simp_all add: same_content_def)
  from assms(3) show ?thesis
    unfolding validate_state_def list_ex_iff set_map same maps(6-10)
      validate_stored_environment_cong [OF maps(4)]
    by (simp add: try_each_Inr_iff same split: if_splits)
qed

lemma same_content_view:
  assumes "persisted_maps_distinct (ds_state ds)" "same_content (ds_state ds) (ds_state ds')"
  shows "durable_view ds' = durable_view ds"
  using same_content_maps [OF assms] assms(2)
  by (simp add: durable_view_def same_content_def last_sequence_def fun_eq_iff)

lemma reopen:
  assumes "recovered_file dir = Some (Stable raw)" "cd_decode C raw = Inr s"
    "validate_state s = Inr ()" "length raw \<le> MAX_STORE_BYTES"
    "sp_is_absolute path" "sp_has_parent path"
  shows "\<exists>ds ds'. durable_open C path (crashed_disk dir) h = (Inr ds, ds') \<and> ds_state ds = s
    \<and> \<not> ds_poisoned ds \<and> settled (Some raw) (ds_disk ds)"
proof (cases "dir StateFile")
  case None
  with assms(1) have "dir BackupFile = Some (Stable raw)" by (simp add: recovered_file_def)
  with None assms(2-) show ?thesis
    by (simp add: durable_open_def recover_interrupted_write_def crashed_disk_def fs_exists_def
        sync_parent_directory_def parent_directory_def in_disk_def fs_rename_def fs_sync_dir_def
        fs_read_def fs_change_no_fault settled_def recovered_file_def Let_def)
next
  case (Some f)
  with assms(1) have "f = Stable raw" by (simp add: recovered_file_def)
  with Some assms(2-) show ?thesis
    by (cases "dir BackupFile")
      (simp_all add: durable_open_def recover_interrupted_write_def crashed_disk_def fs_exists_def
        sync_parent_directory_def parent_directory_def in_disk_def fs_remove_file_def
        fs_sync_dir_def fs_read_def fs_change_no_fault settled_def recovered_file_def Let_def)
qed

section \<open>Progress\<close>

text \<open>Without faults every valid change is committed.\<close>

definition healthy :: "durable_store \<Rightarrow> bool" where
  "healthy ds \<longleftrightarrow>
     dk_fault_at (ds_disk ds) = (\<lambda>_. None) \<and> sp_has_parent (ds_path ds)
     \<and> (\<forall>t. dk_now (ds_disk ds) (TempFile t) = None) \<and> \<not> ds_poisoned ds"

lemma persist_healthy:
  assumes "healthy ds" "cd_encode C s = Inr raw" "length raw \<le> MAX_STORE_BYTES"
  shows "\<exists>ds'. persist C s ds = (Inr (), ds') \<and> healthy ds'"
  using assms
  by (cases "dk_now (ds_disk ds) BackupFile"; cases "dk_now (ds_disk ds) StateFile")
    (simp_all add: healthy_def persist_def replace_file_def sync_parent_directory_def
      parent_directory_def in_disk_def fs_create_dir_all_def fs_create_new_def fs_write_all_def
      fs_sync_file_def fs_sync_dir_def fs_rename_def fs_remove_file_def fs_exists_def
      fs_change_no_fault Let_def)

lemma mutate_healthy:
  assumes "healthy ds" "change (ds_state ds) = Inr s" "validate_state s = Inr ()"
    "cd_encode C s = Inr raw" "length raw \<le> MAX_STORE_BYTES"
  shows "\<exists>ds'. mutate C change ds = (Inr (), ds') \<and> ds_state ds' = s \<and> healthy ds'"
proof -
  obtain ds' where "persist C s ds = (Inr (), ds')" "healthy ds'"
    using persist_healthy [OF assms(1,4,5)] by blast
  with assms show ?thesis by (simp add: mutate_def healthy_def)
qed

end
