(* ===== verification/Agent_Behaviour.thy ===== *)
theory Agent_Behaviour
  imports Durable_Store
begin

text \<open>
  What the commands of \<open>AgentCore\<close> answer, over any store that keeps the contract: the state
  after a successful and a failed create, deletion with its proof and its idempotence, the
  evidence a lifecycle command demands, authorization of screens and input, and the expiry
  sweep. The theory also instantiates the request processor with the on-disk store, which is
  what the Agent binary runs.
\<close>

lemma same_identity_volume_left [simp]: "same_identity (r\<lparr>er_volume := vol\<rparr>) r"
  by (simp add: same_identity_def)

lemma validate_evidence_state [simp]:
  "validate_evidence ev (r\<lparr>er_state := st\<rparr>) now = validate_evidence ev r now"
  "validate_evidence ev (r\<lparr>er_last_activity_at_unix_ms := t\<rparr>) now = validate_evidence ev r now"
  "validate_evidence ev (r\<lparr>er_volume := vol\<rparr>) now = validate_evidence ev r now"
  by (simp_all add: validate_evidence_def)

text \<open>Who may see a screen or send input.\<close>

definition authorized ::
    "principal \<Rightarrow> uuid \<Rightarrow> u64 \<Rightarrow> automation_scope \<Rightarrow> uuid \<Rightarrow> u64 \<Rightarrow> agent_view \<Rightarrow> bool" where
  "authorized who silo now scope i expires v \<longleftrightarrow>
     p_authorization_id who = Some i \<and> now < expires \<and>
     (if p_kind who = principal_kind.HumanSession
      then (\<exists>h. v_human_sessions v silo = Some h \<and> sa_authorization_id h = i
              \<and> sa_expires_at_unix_ms h = expires \<and> \<not> sa_revoked h)
      else p_kind who = principal_kind.Automation
         \<and> (\<exists>a. v_automation v i = Some a \<and> aa_silo_id a = silo
              \<and> aa_expires_at_unix_ms a = expires \<and> aa_approved_by_user a
              \<and> \<not> aa_revoked a \<and> scope \<in> set (aa_scopes a)))"

text \<open>What the sweep looks for and what it leaves.\<close>

definition expired_at :: "u64 \<Rightarrow> environment_record option \<Rightarrow> bool" where
  "expired_at now v \<longleftrightarrow>
     (\<exists>r. v = Some r \<and> er_state r \<noteq> environment_state.Deleted \<and> er_expires_at_unix_ms r \<le> now)"

definition is_deleted :: "environment_record option \<Rightarrow> bool" where
  "is_deleted v \<longleftrightarrow> (\<exists>r. v = Some r \<and> er_state r = environment_state.Deleted)"

context agent_core_client
begin

text \<open>The answer of a destroy: the environment is deleted and the proof is the stored one.\<close>

definition deleted_with :: "uuid \<Rightarrow> deletion_proof \<Rightarrow> ('p, 's) agent_core \<Rightarrow> bool" where
  "deleted_with silo p c \<longleftrightarrow>
     (\<exists>r i. v_environments (core_view c) silo = Some r \<and> er_state r = environment_state.Deleted
        \<and> er_deletion_proof_id r = Some i \<and> v_proofs (core_view c) i = Some p
        \<and> deletion_proof_is_bound r p)"

lemma proof_binds_is_bound:
  "proof_binds r p \<Longrightarrow> deletion_proof_is_bound r p"
  unfolding proof_binds_def deletion_matches_def deletion_proof_is_bound_def by (elim conjE) simp

lemma destroy_record_deletes:
  assumes "invar (ac_store c)" "v_environments (core_view c) (er_silo_id r) = Some r"
  shows "outcome (\<lambda>p. deleted_with (er_silo_id r) p)
     (\<lambda>_ c'. core_view c' = core_view c) (destroy_record D r reason now c)"
proof (rule outcome_mono [OF destroy_record_outcome [OF assms]])
  fix p c'
  assume "invar (ac_store c') \<and> (\<exists>r'. same_identity r r' \<and> er_network r' = er_network r
      \<and> (er_state r = Provisioning \<or> er_volume r' = er_volume r) \<and> proof_binds r' p
      \<and> dp_reason p = reason \<and> dp_deleted_at_unix_ms p = now
      \<and> core_view c' = (set_environment r' (core_view c))
          \<lparr>v_proofs := (v_proofs (core_view c))(dp_proof_id p \<mapsto> p)\<rparr>)"
  then obtain r' where r': "same_identity r r'" "proof_binds r' p"
    and v: "core_view c' = (set_environment r' (core_view c))
          \<lparr>v_proofs := (v_proofs (core_view c))(dp_proof_id p \<mapsto> p)\<rparr>" by blast
  from r'(2) have "er_deletion_proof_id r' = Some (dp_proof_id p)"
    by (simp add: proof_binds_def deletion_matches_def)
  with r' v show "deleted_with (er_silo_id r) p c'"
    by (simp add: deleted_with_def same_identity_silo [OF r'(1)] proof_binds_state [OF r'(2)]
        proof_binds_is_bound)
qed simp_all

lemma core_destroy_deletes:
  assumes inv: "invar (ac_store c)" and wf: "view_wf (core_view c)"
  shows "outcome (\<lambda>a c'. \<exists>p. a = DeletedEnvironment p \<and> deleted_with silo_id p c')
     (\<lambda>_ c'. core_view c' = core_view c) (core_destroy D who silo_id confirm now c)"
proof -
  have destroy: "outcome (\<lambda>p. deleted_with silo_id p) (\<lambda>_ c'. core_view c' = core_view c)
      (destroy_record D r UserConfirmed now c)"
    if "core_record D silo_id now True c = Inr r" for r
    using that view_wf_environment(1) [OF wf, of silo_id r] destroy_record_deletes [OF inv, of r]
    by (auto simp: core_record_Inr)
  show ?thesis
    unfolding core_destroy_def uses_store
    apply (intro outcome_rules outcome_sbindI [OF destroy])
         apply (auto simp: deleted_with_def deletion_proof_view bind_eq_Some_conv)
    done
qed

text \<open>Destroying again answers the same proof and does nothing else.\<close>

lemma core_destroy_again:
  assumes "deleted_with silo_id p c" "p_kind who = ControlPlane"
  shows "core_destroy D who silo_id confirm now c = (Inr (DeletedEnvironment p), c)"
  using assms by (auto simp: core_destroy_def deleted_with_def deletion_proof_view require_control_def)

text \<open>
  Create: an answer means an activated environment whose volume and evidence were checked; a
  failure leaves no live environment behind.
\<close>

definition activated ::
    "uuid \<Rightarrow> u64 \<Rightarrow> agent_response \<Rightarrow> ('p, 's) agent_core \<Rightarrow> bool" where
  "activated silo now a c \<longleftrightarrow>
     (\<exists>r ev. a = Environment r (Some ev) \<and> v_environments (core_view c) silo = Some r
        \<and> er_state r = environment_state.Created \<and> provisioned_volume_is_valid (er_volume r)
        \<and> validate_evidence ev r now = Inr ())"

definition not_live :: "uuid \<Rightarrow> ('p, 's) agent_core \<Rightarrow> bool" where
  "not_live silo c \<longleftrightarrow>
     (\<forall>r. v_environments (core_view c) silo = Some r \<longrightarrow> \<not> live_state (er_state r))"

lemma abort_create_not_live:
  assumes "invar (ac_store c)" "v_environments (core_view c) (er_silo_id r) = Some r0"
    "er_silo_id r0 = er_silo_id r" "same_identity r0 r" "er_state r = Provisioning" "er_state r0 = Provisioning"
    "er_network r = er_network r0"
  shows "outcome Q (\<lambda>_ c'. not_live (er_silo_id r) c') (abort_create D r e now c)"
proof -
  have "outcome (\<lambda>_. not_live (er_silo_id r)) (\<lambda>_. not_live (er_silo_id r))
      (destroy_record D r ProviderPolicy now c)"
  proof (rule outcome_mono [OF destroy_record_outcome [OF assms(1), of r0]])
    fix p c'
    assume "invar (ac_store c') \<and> (\<exists>r'. same_identity r0 r' \<and> er_network r' = er_network r0
        \<and> (er_state r0 = Provisioning \<or> er_volume r' = er_volume r0) \<and> proof_binds r' p
        \<and> dp_reason p = ProviderPolicy \<and> dp_deleted_at_unix_ms p = now
        \<and> core_view c' = (set_environment r' (core_view c))
            \<lparr>v_proofs := (v_proofs (core_view c))(dp_proof_id p \<mapsto> p)\<rparr>)"
    then show "not_live (er_silo_id r) c'"
      using assms(3) by (auto simp: not_live_def live_state_def same_identity_silo
          dest: proof_binds_state)
  qed (use assms in \<open>simp_all add: not_live_def live_state_def\<close>)
  then show ?thesis
    by (simp add: abort_create_def fail_create_with_compensation_def split_def outcome_const
        split: sum.split prod.split)
qed

lemma update_outcome:
  assumes "invar (ac_store c)"
  shows "outcome
     (\<lambda>_ c'. invar (ac_store c') \<and> core_view c' = set_environment r (core_view c))
     (\<lambda>_ c'. invar (ac_store c') \<and> core_view c' = core_view c)
     (in_store (st_update_environment ops r) c)"
  using outcome_mono [OF update_environment_ok [OF assms]] by simp

lemma provision_outcome:
  assumes inv: "invar (ac_store c)" and env: "v_environments (core_view c) (er_silo_id r) = Some r"
    and state: "er_state r = Provisioning"
  shows "outcome (activated (er_silo_id r) now) (\<lambda>_. not_live (er_silo_id r)) (provision D r now c)"
proof -
  have abort: "outcome Q (\<lambda>_. not_live (er_silo_id r)) (abort_create D r' e now c')"
    if "invar (ac_store c')" "v_environments (core_view c') (er_silo_id r) = Some r0"
      "same_identity r0 r'" "er_state r0 = Provisioning" "er_state r' = Provisioning"
      "er_network r' = er_network r0" "er_silo_id r0 = er_silo_id r" "er_silo_id r' = er_silo_id r"
    for Q :: "agent_response \<Rightarrow> ('p, 's) agent_core \<Rightarrow> bool" and r0 r' e c'
    using abort_create_not_live [OF that(1), of r' r0 Q e now] that by simp
  show ?thesis
    unfolding provision_def Let_def uses_store
    apply (rule outcome_caseI [where R = "\<lambda>_ c'. \<exists>p. c' = c\<lparr>ac_provider := p\<rparr>"
          and F = "\<lambda>_ c'. \<exists>p. c' = c\<lparr>ac_provider := p\<rparr>"])
      apply (rule outcome_in_provider; blast)
     apply (elim exE, hypsubst)
     apply (rule outcome_caseI [OF update_outcome])
       apply (simp add: inv)
      apply (intro outcome_ifI outcome_sumI)
        subgoal by (rule abort, simp, simp) (simp_all add: state)
       apply (rule outcome_sbindW [OF update_outcome], simp)
        apply (rule outcome_InrI)
        apply (simp add: activated_def)
       apply (simp add: not_live_def live_state_def state)
      subgoal by (rule abort, simp, simp) (simp_all add: state)
     subgoal by (rule abort, simp, simp add: env) (simp_all add: state)
    apply (elim exE, hypsubst)
    subgoal by (rule abort, simp add: inv, simp add: env) (simp_all add: state)
    done
qed

lemma core_create_outcome:
  assumes inv: "invar (ac_store c)"
  shows "outcome (activated silo_id now)
     (\<lambda>_ c'. core_view c' = core_view c
        \<or> v_environments (core_view c) silo_id = None \<and> not_live silo_id c')
     (core_create D who silo_id binding_id rid ttl network ack now c)"
proof -
  have insert: "outcome
     (\<lambda>_ c'. invar (ac_store c') \<and> v_environments (core_view c') (er_silo_id r) = Some r
        \<and> v_environments (core_view c) (er_silo_id r) = None)
     (\<lambda>_ c'. core_view c' = core_view c)
     (in_store (st_insert_environment ops r) c)" for r
    using outcome_mono [OF insert_environment_ok [OF inv]] by simp
  show ?thesis
    unfolding core_create_def Let_def uses_store
    apply (intro outcome_rules disjI1 refl)
    apply (rule outcome_sbindW [OF insert])
     apply (rule outcome_mono [OF provision_outcome])
         apply simp_all
    done
qed

text \<open>
  A lifecycle command either leaves the stored state alone or answers with the record it
  stored; what must be proved by guest evidence was proved.
\<close>

definition operated ::
    "environment_record \<Rightarrow> remote_operation \<Rightarrow> remote_network_policy option \<Rightarrow> u64
     \<Rightarrow> agent_response \<Rightarrow> ('p, 's) agent_core \<Rightarrow> bool" where
  "operated r op net now a c \<longleftrightarrow>
     (\<exists>r' ev. a = Environment r' ev \<and> v_environments (core_view c) (er_silo_id r) = Some r'
        \<and> r' = (with_network net r)\<lparr>er_state := state_after op (er_state r),
                                     er_last_activity_at_unix_ms := now\<rparr>
        \<and> (evidence_required op \<longrightarrow>
             (\<exists>e. ev = Some e \<and> validate_evidence e r' now = Inr ())))"

lemma with_network_silo [simp]: "er_silo_id (with_network n r) = er_silo_id r"
  by (simp add: with_network_def split: option.split)

lemma lifecycle_outcome:
  assumes inv: "invar (ac_store c)" and wf: "view_wf (core_view c)"
  shows "outcome
     (\<lambda>a c'. \<exists>r op net lim. core_record D (command_silo_id command) now False c = Inr r
        \<and> lifecycle_operation command = Inr (op, net, lim)
        \<and> ensure_capability (core_capabilities D c) op = Inr ()
        \<and> (op = remote_operation.Logs \<or> operated r op net now a c'))
     (\<lambda>_ c'. core_view c' = core_view c)
     (lifecycle D command now c)"
  unfolding lifecycle_def Let_def split_def uses_store
  apply (intro outcome_rules refl)
  apply (rule outcome_sbindW [where R = "\<lambda>_ c'. invar (ac_store c') \<and> core_view c' = core_view c"
        and F = "\<lambda>_ c'. core_view c' = core_view c"])
    apply (rule outcome_in_provider; simp add: inv)
   apply (intro outcome_rules)
      apply simp
     apply (rule outcome_sbindW [OF update_outcome], simp)
      apply (rule outcome_InrI)
    subgoal for r op by (cases op) auto
    apply simp
   apply (rule outcome_sbindW [OF update_outcome], simp)
    apply (rule outcome_InrI)
    subgoal for r op by (cases op) (auto simp: operated_def)
   apply simp
  apply simp_all
  done

lemma authorize_scope_Inr:
  assumes "view_wf (view s)" "authorize_scope ops who silo now scope s = Inr (i, expires)"
  shows "authorized who silo now scope i expires (view s)"
proof (cases "p_kind who = principal_kind.HumanSession")
  case True
  with assms(2) show ?thesis
    by (auto simp: authorize_scope_def authorize_human_Inr authorized_def)
next
  case False
  with assms(2) obtain a where a: "authorize_automation ops who silo now s = Inr a"
    "scope \<in> set (aa_scopes a)" "i = aa_authorization_id a" "expires = aa_expires_at_unix_ms a"
    by (auto simp: authorize_scope_def split: if_splits)
  from a(1) obtain j where "p_authorization_id who = Some j" "v_automation (view s) j = Some a"
    "aa_silo_id a = silo" "p_kind who = principal_kind.Automation" "aa_approved_by_user a"
    "\<not> aa_revoked a" "now < aa_expires_at_unix_ms a"
    by (auto simp: authorize_automation_Inr)
  moreover from this assms(1) have "aa_authorization_id a = j" by (blast dest: view_wf_automation)
  ultimately show ?thesis using a False by (simp add: authorized_def)
qed

lemma open_screen_outcome:
  assumes wf: "view_wf (core_view c)"
  shows "outcome
     (\<lambda>a c'. core_view c' = core_view c \<and> (\<exists>ch r expires. a = Screen ch
        \<and> v_environments (core_view c) silo = Some r \<and> live_state (er_state r)
        \<and> now < er_expires_at_unix_ms r
        \<and> sc_remote_environment_id ch = er_remote_environment_id r
        \<and> authorized who silo now ReadScreen (sc_authorization_id ch) expires (core_view c)
        \<and> now < sc_expires_at_unix_ms ch \<and> sc_expires_at_unix_ms ch \<le> expires
        \<and> sc_expires_at_unix_ms ch \<le> saturating_add now MAX_SCREEN_CHANNEL_LIFETIME_MS))
     (\<lambda>_ c'. core_view c' = core_view c)
     (open_screen D who silo now c)"
  unfolding open_screen_def Let_def uses_store
  apply (intro outcome_rules refl)
  subgoal for r grant
    apply (cases grant, simp only: prod.case)
    apply (rule outcome_sbindW [where R = "\<lambda>_ c'. core_view c' = core_view c"
          and F = "\<lambda>_ c'. core_view c' = core_view c"])
      apply (rule outcome_in_provider; simp)
     apply (intro outcome_rules, assumption)
     apply (use authorize_scope_Inr [OF wf] in \<open>fastforce simp: core_record_Inr not_le not_less\<close>)
    apply assumption
    done
  done

lemma send_input_outcome:
  assumes wf: "view_wf (core_view c)"
  shows "outcome
     (\<lambda>a c'. core_view c' = core_view c \<and> a = InputAccepted (length events)
        \<and> validate_input events = Inr ()
        \<and> (\<exists>r i expires. v_environments (core_view c) silo = Some r \<and> live_state (er_state r)
             \<and> now < er_expires_at_unix_ms r
             \<and> authorized who silo now automation_scope.SendInput i expires (core_view c)
             \<and> (p_kind who = principal_kind.Automation
                  \<longrightarrow> \<not> human_session_is_active (v_human_sessions (core_view c) silo) now)))
     (\<lambda>_ c'. core_view c' = core_view c)
     (send_input D who silo events now c)"
  unfolding send_input_def
  apply (intro outcome_rules refl)
  subgoal for u r i
    apply (rule outcome_sbindW [where R = "\<lambda>_ c'. core_view c' = core_view c"
          and F = "\<lambda>_ c'. core_view c' = core_view c"])
      apply (rule outcome_in_provider; simp)
     apply (rule outcome_InrI)
     apply (auto simp: core_record_Inr authorize_input_def human_session_view split: if_splits
        dest!: authorize_scope_Inr [OF wf])
    done
  done

text \<open>While a human session is active, automation input is refused before the provider is asked.\<close>

lemma send_input_human_priority:
  assumes "p_kind who = principal_kind.Automation"
    "human_session_is_active (v_human_sessions (core_view c) silo) now"
  shows "\<exists>e. send_input D who silo events now c = (Inl e, c)"
  using assms
  by (cases "validate_input events"; cases "core_record D silo now False c")
    (simp_all add: send_input_def authorize_input_def human_session_view)

text \<open>One iteration on an expired environment.\<close>

definition sweep_one ::
    "u64 \<Rightarrow> environment_record \<Rightarrow> ('p, 's) agent_core
     \<Rightarrow> (agent_error + deletion_proof) \<times> ('p, 's) agent_core" where
  "sweep_one now r c =
     (let (result, c) = destroy_record D r TtlExpired now c;
          (activity_id, c) = core_new_v4 c;
          (activity_result, c) = in_store (st_append_activity (d_store D)
             \<lparr>ae_activity_id = activity_id, ae_silo_id = er_silo_id r,
              ae_principal = ControlPlane, ae_operation = lit ''destroy'',
              ae_accepted = is_ok result, ae_occurred_at_unix_ms = now\<rparr>) c
      in (case activity_result of Inr _ \<Rightarrow> result | Inl error \<Rightarrow> Inl error, c))"

lemma sweep_one_outcome:
  assumes inv: "invar (ac_store c)" and wf: "view_wf (core_view c)"
    and env: "v_environments (core_view c) (er_silo_id r) = Some r"
    and state: "er_state r \<noteq> environment_state.Deleted"
  shows "invar (ac_store (snd (sweep_one now r c)))" "view_wf (core_view (snd (sweep_one now r c)))"
    "silo \<noteq> er_silo_id r \<Longrightarrow> v_environments (core_view (snd (sweep_one now r c))) silo
       = v_environments (core_view c) silo"
    "is_ok (fst (sweep_one now r c))
       \<Longrightarrow> is_deleted (v_environments (core_view (snd (sweep_one now r c))) (er_silo_id r))"
proof -
  let ?S = "{er_silo_id r}"
  have reach: "reach ?S False (core_view c) c" using inv by (simp add: reach_def)
  obtain res c1 where d: "destroy_record D r TtlExpired now c = (res, c1)" by fastforce
  have c1: "reach ?S False (core_view c) c1"
    using keeps_destroy_record [OF reach env, of r TtlExpired now] state d by (simp add: outcome_const)
  have del: "is_deleted (v_environments (core_view c1) (er_silo_id r))" if "is_ok res"
    using destroy_record_deletes [OF inv env, of TtlExpired now] d that
    by (cases res) (auto simp: deleted_with_def is_deleted_def)
  obtain ares c2 where a: "in_store (st_append_activity ops
       \<lparr>ae_activity_id = fst (core_new_v4 c1), ae_silo_id = er_silo_id r,
        ae_principal = ControlPlane, ae_operation = lit ''destroy'',
        ae_accepted = is_ok res, ae_occurred_at_unix_ms = now\<rparr>) (snd (core_new_v4 c1)) = (ares, c2)"
    by fastforce
  have c2: "reach ?S False (core_view c) c2"
    using keeps_activity [of ?S False "core_view c" "snd (core_new_v4 c1)"] c1 a
    by (metis outcome_const reach_other_fields(3) snd_conv)
  have env2: "v_environments (core_view c2) = v_environments (core_view c1)"
  proof -
    have "outcome (\<lambda>_ c'. v_environments (core_view c') = v_environments (core_view c1))
        (\<lambda>_ c'. v_environments (core_view c') = v_environments (core_view c1)) (ares, c2)"
      unfolding a [symmetric]
      by (simp only: outcome_in_store, rule outcome_mono [OF append_activity_ok])
        (use c1 in \<open>simp_all add: reach_def\<close>)
    then show ?thesis by (simp add: outcome_const del: outcome_pure)
  qed
  have eq: "sweep_one now r c = (case ares of Inr _ \<Rightarrow> res | Inl e \<Rightarrow> Inl e, c2)"
    using a by (cases ares) (simp_all add: sweep_one_def d Let_def split_def)
  show "invar (ac_store (snd (sweep_one now r c)))" using c2 by (simp add: eq reach_def)
  show "view_wf (core_view (snd (sweep_one now r c)))" using reach_view_wf [OF c2 wf] by (simp add: eq)
  show "v_environments (core_view (snd (sweep_one now r c))) silo = v_environments (core_view c) silo"
    if "silo \<noteq> er_silo_id r"
    using c2 agent_steps_frame [of ?S False "core_view c" "core_view c2" silo] that
    by (simp add: eq reach_def)
  show "is_deleted (v_environments (core_view (snd (sweep_one now r c))) (er_silo_id r))"
    if "is_ok (fst (sweep_one now r c))"
    using that del by (cases ares) (auto simp: eq env2)
qed

lemma sweep_loop_Cons:
  "sweep_loop D now (i # ids) c =
     (case filter_option (\<lambda>record. er_state record \<noteq> environment_state.Deleted
            \<and> er_expires_at_unix_ms record \<le> now) (v_environments (core_view c) i) of
        None \<Rightarrow> sweep_loop D now ids c
      | Some r \<Rightarrow>
          (fst (sweep_one now r c) # fst (sweep_loop D now ids (snd (sweep_one now r c))),
           snd (sweep_loop D now ids (snd (sweep_one now r c)))))"
  by (simp add: sweep_one_def Let_def split_def split: option.split)

lemma sweep_loop_outcome:
  assumes "invar (ac_store c)" "view_wf (core_view c)" "distinct ids"
  shows "(list_all is_ok (fst (sweep_loop D now ids c)) \<longrightarrow> silo \<in> set ids
      \<longrightarrow> expired_at now (v_environments (core_view c) silo)
      \<longrightarrow> is_deleted (v_environments (core_view (snd (sweep_loop D now ids c))) silo))
    \<and> (silo \<notin> set ids \<or> \<not> expired_at now (v_environments (core_view c) silo)
      \<longrightarrow> v_environments (core_view (snd (sweep_loop D now ids c))) silo
        = v_environments (core_view c) silo)"
  using assms
proof (induction ids arbitrary: c)
  case (Cons i ids)
  show ?case
  proof (cases "expired_at now (v_environments (core_view c) i)")
    case False
    then have "sweep_loop D now (i # ids) c = sweep_loop D now ids c"
      by (auto simp: sweep_loop_Cons expired_at_def simp del: sweep_loop.simps split: option.split)
    with Cons False show ?thesis by (auto simp del: sweep_loop.simps)
  next
    case True
    then obtain r where env: "v_environments (core_view c) i = Some r"
      and r: "er_state r \<noteq> environment_state.Deleted" "er_expires_at_unix_ms r \<le> now"
      by (auto simp: expired_at_def)
    have i: "er_silo_id r = i" by (rule view_wf_environment(1) [OF Cons.prems(2) env])
    define c1 where "c1 = snd (sweep_one now r c)"
    have loop: "sweep_loop D now (i # ids) c =
        (fst (sweep_one now r c) # fst (sweep_loop D now ids c1), snd (sweep_loop D now ids c1))"
      using env r by (simp add: sweep_loop_Cons c1_def del: sweep_loop.simps)
    have "v_environments (core_view c) (er_silo_id r) = Some r" by (simp add: i env)
    note one = sweep_one_outcome [OF Cons.prems(1,2) this r(1), where now = now,
        folded c1_def, unfolded i]
    from one(1,2) Cons.prems(3) have ih: "(list_all is_ok (fst (sweep_loop D now ids c1)) \<longrightarrow>
        silo \<in> set ids \<longrightarrow> expired_at now (v_environments (core_view c1) silo)
        \<longrightarrow> is_deleted (v_environments (core_view (snd (sweep_loop D now ids c1))) silo))
      \<and> (silo \<notin> set ids \<or> \<not> expired_at now (v_environments (core_view c1) silo)
        \<longrightarrow> v_environments (core_view (snd (sweep_loop D now ids c1))) silo
          = v_environments (core_view c1) silo)"
      by (intro Cons.IH) auto
    show ?thesis
    proof (cases "silo = i")
      case True
      with ih one(4) Cons.prems(3) \<open>expired_at now (v_environments (core_view c) i)\<close> show ?thesis
        by (auto simp: loop simp del: sweep_loop.simps)
    next
      case False
      with ih one(3) show ?thesis by (auto simp: loop simp del: sweep_loop.simps)
    qed
  qed
qed simp

lemma sweep_expired_outcome:
  assumes "invar (ac_store c)" "view_wf (core_view c)"
  shows "list_all is_ok (fst (sweep_expired D c))
      \<Longrightarrow> expired_at (fst (core_now c)) (v_environments (core_view c) silo)
      \<Longrightarrow> is_deleted (v_environments (core_view (snd (sweep_expired D c))) silo)"
    and "\<not> expired_at (fst (core_now c)) (v_environments (core_view c) silo)
      \<Longrightarrow> v_environments (core_view (snd (sweep_expired D c))) silo = v_environments (core_view c) silo"
proof -
  note ids = environment_ids_view [OF assms(1)]
  have "silo \<in> set (st_environment_ids ops (ac_store c))"
    if "expired_at (fst (core_now c)) (v_environments (core_view c) silo)"
    using that ids by (auto simp: expired_at_def)
  with sweep_loop_outcome [of "snd (core_now c)" "st_environment_ids ops (ac_store c)"
      "fst (core_now c)" silo] assms ids
  show "list_all is_ok (fst (sweep_expired D c))
      \<Longrightarrow> expired_at (fst (core_now c)) (v_environments (core_view c) silo)
      \<Longrightarrow> is_deleted (v_environments (core_view (snd (sweep_expired D c))) silo)"
    and "\<not> expired_at (fst (core_now c)) (v_environments (core_view c) silo)
      \<Longrightarrow> v_environments (core_view (snd (sweep_expired D c))) silo = v_environments (core_view c) silo"
    by (simp_all add: sweep_expired_def split_def Let_def)
qed

end

section \<open>The Agent on its on-disk store\<close>

text \<open>What \<open>verisilo-remote-agent\<close> runs: \<open>AgentCore\<close> with a \<open>DurableAgentStore\<close>.\<close>

definition durable_agent ::
    "state_codec \<Rightarrow> 'p agent_provider_ops \<Rightarrow> (agent_request \<Rightarrow> str + nat)
     \<Rightarrow> ('p, durable_store) agent_deps" where
  "durable_agent C P J = \<lparr>d_provider = P, d_store = durable_ops C, d_json_len = J\<rparr>"

interpretation durable_core: agent_core_client "durable_ops C" durable_view durable_invar
  "durable_agent C P J" for C P J
  by unfold_locales (simp add: durable_agent_def)

text \<open>A valid persisted state is well formed.\<close>

lemma validate_stored_environment_wf:
  assumes "validate_stored_environment proofs (silo, r) = Inr ()"
  shows "er_silo_id r = silo" "record_wf r"
  using assms
  by (auto simp: validate_stored_environment_def record_wf_def live_state_def Let_def
      provisioned_volume_is_valid_def
      split: if_splits environment_state.splits option.splits)

lemma durable_view_wf: "durable_invar ds \<Longrightarrow> view_wf (durable_view ds)"
  unfolding view_wf_def
proof (intro conjI allI impI)
  assume inv: "durable_invar ds"
  then have valid: "validate_state (ds_state ds) = Inr ()" by (simp add: durable_invar_def)
  fix silo r assume "v_environments (durable_view ds) silo = Some r"
  then have "(silo, r) \<in> set (ps_environments (ds_state ds))"
    by (auto simp: durable_view_def dest: map_of_SomeD)
  with valid have "validate_stored_environment (ps_proofs (ds_state ds)) (silo, r) = Inr ()"
    by (auto simp: validate_state_def try_each_Inr_iff split: if_splits)
  from validate_stored_environment_wf [OF this] show "er_silo_id r = silo" "record_wf r" .
next
  fix silo h assume "durable_invar ds" "v_human_sessions (durable_view ds) silo = Some h"
  then show "sa_silo_id h = silo"
    by (auto simp: durable_invar_def durable_view_def validate_state_def list_ex_iff
        dest!: map_of_SomeD split: if_splits)
next
  fix i a assume "durable_invar ds" "v_automation (durable_view ds) i = Some a"
  then show "aa_authorization_id a = i"
    by (auto simp: durable_invar_def durable_view_def validate_state_def list_ex_iff
        dest!: map_of_SomeD split: if_splits)
next
  assume "durable_invar ds"
  then show "length (v_activity (durable_view ds)) \<le> MAX_ACTIVITY_ENTRIES"
    by (simp add: durable_invar_def durable_view_def validate_state_def split: if_splits)
qed

text \<open>A sequence of requests, one after the other.\<close>

fun run_requests ::
    "('p, 's) agent_deps \<Rightarrow> agent_request list \<Rightarrow> ('p, 's) agent_core \<Rightarrow> ('p, 's) agent_core" where
  "run_requests D [] c = c"
| "run_requests D (q # qs) c = run_requests D qs (snd (execute D q c))"

lemma execute_durable:
  assumes "durable_invar (ac_store c)"
  shows "durable_invar (ac_store (snd (execute (durable_agent C P J) q c)))"
    and "p_kind (rq_principal q) = ControlPlane \<longrightarrow> command_silo_id (rq_command q) \<in> S \<and> G
      \<Longrightarrow> agent_steps S G (durable_view (ac_store c))
            (durable_view (ac_store (snd (execute (durable_agent C P J) q c))))"
proof -
  have "durable_core.reach S G (durable_view (ac_store c)) (snd (execute (durable_agent C P J) q c))"
    if "p_kind (rq_principal q) = ControlPlane \<longrightarrow> command_silo_id (rq_command q) \<in> S \<and> G" for S G
    using durable_core.keeps_execute [of S G "durable_view (ac_store c)" c q C P J] that assms
      durable_view_wf [OF assms]
    by (simp add: outcome_const durable_core.reach_def)
  from this [of S G] this [of UNIV True]
  show "durable_invar (ac_store (snd (execute (durable_agent C P J) q c)))"
    and "p_kind (rq_principal q) = ControlPlane \<longrightarrow> command_silo_id (rq_command q) \<in> S \<and> G
      \<Longrightarrow> agent_steps S G (durable_view (ac_store c))
            (durable_view (ac_store (snd (execute (durable_agent C P J) q c))))"
    by (simp_all add: durable_core.reach_def)
qed

lemma run_durable:
  assumes "durable_invar (ac_store c)"
  shows "durable_invar (ac_store (run_requests (durable_agent C P J) qs c))
    \<and> agent_steps UNIV True (durable_view (ac_store c))
        (durable_view (ac_store (run_requests (durable_agent C P J) qs c)))"
  using assms
proof (induction qs arbitrary: c)
  case (Cons q qs)
  note step = execute_durable [OF Cons.prems, where q = q and C = C and P = P and J = J]
  from Cons.IH [OF step(1)] step(2) [where S = UNIV and G = True] show ?case by auto
qed simp

end
