(* ===== verification/Agent_Properties.thy ===== *)
theory Agent_Properties
  imports Agent_Behaviour
begin

text \<open>
  The properties of the remote Agent, stated on the Agent as it is deployed: the request
  processor over the on-disk store, with any provider, JSON codec, clock and file-system
  faults. Each rests on an interpretation of the library's locales; the witnesses run the
  Agent on a sample store and provider.
\<close>

section \<open>Samples for the witnesses\<close>

definition sample_node :: node_disclosure where
  "sample_node = \<lparr>nd_node_id = Uuid 9, nd_ownership = node_ownership.UserSelfHosted,
     nd_operator_label = lit ''me'', nd_data_region = lit ''eu'',
     nd_key_custody = UserControlled,
     nd_cost = \<lparr>cost_currency = lit ''EUR'', cost_estimated_micros_per_hour = 0,
                cost_notice = lit ''none''\<rparr>\<rparr>"

definition sample_volume :: volume_attestation where
  "sample_volume = \<lparr>va_encrypted = True, va_key_custody = UserControlled,
     va_volume_id = Uuid 21, va_key_id = Uuid 22\<rparr>"

definition sample_record :: "environment_state \<Rightarrow> environment_record" where
  "sample_record st = \<lparr>er_silo_id = Uuid 1, er_binding_id = Uuid 2,
     er_remote_environment_id = Uuid 3, er_node_id = Uuid 9, er_state = st,
     er_network = FixedProxy True (Uuid 5), er_volume = sample_volume,
     er_created_at_unix_ms = 1000, er_expires_at_unix_ms = 100000,
     er_last_activity_at_unix_ms = 1000, er_deletion_proof_id = None\<rparr>"

definition sample_evidence :: guest_evidence where
  "sample_evidence = \<lparr>ge_protocol_version = 1, ge_evidence_id = Uuid 30, ge_binding_id = Uuid 2,
     ge_remote_environment_id = Uuid 3, ge_source = GuestAgent, ge_sequence = 1,
     ge_observed_at_unix_ms = 5000,
     ge_proxy = \<lparr>px_state = proxy_evidence_state.Enforced, px_policy_id = Some (Uuid 5)\<rparr>,
     ge_exit = \<lparr>ex_state = evidence_check_state.Verified, ex_public_addresses = [lit ''1.2.3.4'']\<rparr>,
     ge_dns = \<lparr>dns_state = evidence_check_state.Verified, dns_resolvers = [],
               dns_leak_detected = False\<rparr>,
     ge_web_rtc = \<lparr>rtc_state = evidence_check_state.Verified, rtc_observed_candidates = [],
                   rtc_leak_detected = False\<rparr>,
     ge_health = \<lparr>gh_state = guest_health_state.Healthy, gh_agent_version = lit ''1'',
                  gh_checks = []\<rparr>\<rparr>"

definition sample_provider :: "unit agent_provider_ops" where
  "sample_provider =
     \<lparr>ap_capabilities = (\<lambda>_. map (\<lambda>op. \<lparr>cap_operation = op, cap_availability = Available\<rparr>)
                                ALL_OPERATIONS),
      ap_create = (\<lambda>_ p. (Inr \<lparr>pv_volume = sample_volume, pv_evidence = sample_evidence\<rparr>, p)),
      ap_lifecycle = (\<lambda>_ _ _ p. (Inr \<lparr>lr_evidence = Some sample_evidence, lr_logs = []\<rparr>, p)),
      ap_destroy = (\<lambda>r p. (Inr \<lparr>pr_receipt_id = Uuid 40,
         pr_remote_environment_id = er_remote_environment_id r,
         pr_volume_id = va_volume_id (er_volume r),
         pr_resource_deletions =
           [\<lparr>rd_kind = ComputeInstance, rd_resource_id = Some (er_remote_environment_id r),
             rd_status = deletion_resource_status.Deleted\<rparr>,
            \<lparr>rd_kind = PersistentVolume, rd_resource_id = Some (va_volume_id (er_volume r)),
             rd_status = deletion_resource_status.Deleted\<rparr>,
            \<lparr>rd_kind = ResourceSnapshot, rd_resource_id = None, rd_status = NotApplicable\<rparr>,
            \<lparr>rd_kind = EphemeralKey, rd_resource_id = Some (va_key_id (er_volume r)),
             rd_status = deletion_resource_status.Deleted\<rparr>]\<rparr>, p)),
      ap_open_screen = (\<lambda>r i t p. (Inr \<lparr>sc_channel_id = Uuid 50,
         sc_remote_environment_id = er_remote_environment_id r, sc_authorization_id = i,
         sc_expires_at_unix_ms = t, sc_transport = AuthenticatedEncryptedStream\<rparr>, p)),
      ap_send_input = (\<lambda>_ _ _ p. (Inr (), p))\<rparr>"

text \<open>A codec that tells no states apart is enough where nothing is read back.\<close>

definition sample_codec :: state_codec where
  "sample_codec = \<lparr>cd_encode = (\<lambda>_. Inr [0]), cd_decode = (\<lambda>_. Inl [])\<rparr>"

definition sample_disk :: disk where
  "sample_disk = crashed_disk (\<lambda>n. if n = StateFile then Some (Stable [0]) else None)"

definition sample_host :: host where
  "sample_host = \<lparr>clock_at = (\<lambda>_. 5000), clock_reads = 0,
     uuid_at = (\<lambda>n. Uuid (of_nat (n + 100))), uuid_draws = 0\<rparr>"

definition sample_store :: "(uuid, environment_record) hmap \<Rightarrow> durable_store" where
  "sample_store envs =
     \<lparr>ds_path = \<lparr>sp_is_absolute = True, sp_has_parent = True\<rparr>,
      ds_state = persisted_default\<lparr>ps_environments := envs\<rparr>, ds_poisoned = False,
      ds_disk = sample_disk, ds_host = sample_host\<rparr>"

definition sample_core ::
    "(uuid, environment_record) hmap \<Rightarrow> (unit, durable_store) agent_core" where
  "sample_core envs = \<lparr>ac_node = sample_node, ac_provider = (), ac_store = sample_store envs,
     ac_host = sample_host\<rparr>"

definition sample_agent :: "(unit, durable_store) agent_deps" where
  "sample_agent = durable_agent sample_codec sample_provider (\<lambda>_. Inr 100)"

definition control :: principal where
  "control = \<lparr>p_kind = ControlPlane, p_credential_id = Uuid 7, p_authorization_id = None\<rparr>"

definition sample_request :: "principal \<Rightarrow> agent_command \<Rightarrow> agent_request" where
  "sample_request who command = \<lparr>rq_protocol_version = 1, rq_request_id = Uuid 60,
     rq_nonce = replicate 32 65, rq_sequence = 4, rq_sent_at_unix_ms = 5000,
     rq_principal = who, rq_command = command\<rparr>"

lemmas sample_defs =
  sample_node_def sample_volume_def sample_record_def sample_evidence_def sample_provider_def
  sample_codec_def sample_disk_def sample_host_def sample_store_def sample_core_def
  sample_agent_def control_def sample_request_def persisted_default_def crashed_disk_def

lemma sample_store_invar:
  "durable_invar (ac_store (sample_core []))"
  "durable_invar (ac_store (sample_core [(Uuid 1, sample_record Running)]))"
  by (simp_all add: sample_defs durable_invar_def validate_state_def persisted_maps_distinct_def
      validate_stored_environment_def STORE_SCHEMA_VERSION_def nil_uuid_def
      MAX_ENVIRONMENTS_def)

text \<open>The definitions that a run on the samples unfolds.\<close>

lemmas store_run_defs =
  durable_ops_def mutate_def change_defs persist_def replace_file_def sync_parent_directory_def
  parent_directory_def in_disk_def fs_create_dir_all_def fs_create_new_def fs_write_all_def
  fs_sync_file_def fs_sync_dir_def fs_rename_def fs_remove_file_def fs_exists_def fs_change_def
  new_v4_def validate_state_def validate_stored_environment_def STORE_SCHEMA_VERSION_def
  MAX_STORE_BYTES_def MAX_ENVIRONMENTS_def MAX_AUTHORIZATIONS_def MAX_ACTIVITY_ENTRIES_def
  MAX_REPLAY_WINDOW_ENTRIES_def nil_uuid_def push_bounded_def last_sequence_def

lemmas core_run_defs =
  durable_agent_def core_environment_def core_record_def core_capabilities_def
  core_new_v4_def core_now_def now_unix_ms_def in_store_def in_provider_def
  ensure_capability_def ALL_OPERATIONS_def destroy_record_def hydrate_recovered_resource_ids_def
  deletion_resources_are_bound_def REQUIRED_DELETION_RESOURCE_KINDS_def

section \<open>Refinement and its consequences\<close>



text \<open>
  C1. Every request refines the abstract Agent: whatever the outcome, the store stays valid and
  its view changes by steps of the abstract machine, on the environment of the request's own
  Silo only and with grants only for the control plane.
\<close>

theorem execute_refines:
  assumes "durable_invar (ac_store c)"
  shows "durable_invar (ac_store (snd (execute (durable_agent C P J) q c)))
    \<and> agent_steps
        (if p_kind (rq_principal q) = ControlPlane then {command_silo_id (rq_command q)} else {})
        (p_kind (rq_principal q) = ControlPlane)
        (durable_view (ac_store c))
        (durable_view (ac_store (snd (execute (durable_agent C P J) q c))))"
  using execute_durable(1) [OF assms] by (auto intro: execute_durable(2) [OF assms])

theorem execute_refines_witness:
  "agent_steps {Uuid 1} True (durable_view (ac_store (sample_core [])))
     (durable_view (ac_store (snd (execute sample_agent (sample_request control
        (agent_command.Create (Uuid 1) (Uuid 2) (Uuid 3) 60 (FixedProxy True (Uuid 5)) True))
        (sample_core [])))))"
  using execute_refines [OF sample_store_invar(1), of sample_codec sample_provider
      "\<lambda>_. Inr 100" "sample_request control
        (agent_command.Create (Uuid 1) (Uuid 2) (Uuid 3) 60 (FixedProxy True (Uuid 5)) True)"]
  by (simp add: sample_agent_def sample_request_def control_def)

text \<open>
  Environments persist: through any sequence of requests, a recorded environment stays
  recorded under the same Silo, binding, environment and node identifiers and with the same
  lifetime; once it has left provisioning it keeps its volume and never returns there; once
  deleted it never changes again.
\<close>

theorem environments_persist:
  assumes "durable_invar (ac_store c)"
    and "v_environments (durable_view (ac_store c)) silo = Some r"
  shows "\<exists>r'. v_environments
      (durable_view (ac_store (run_requests (durable_agent C P J) qs c))) silo = Some r'
    \<and> same_identity r r'
    \<and> (er_state r = environment_state.Deleted \<longrightarrow> r' = r)
    \<and> (er_state r \<noteq> Provisioning \<longrightarrow> er_state r' \<noteq> Provisioning \<and> er_volume r' = er_volume r)"
  using agent_steps_continues [OF conjunct2 [OF run_durable [OF assms(1)]]
      durable_view_wf [OF assms(1)] assms(2)]
  by (simp add: continues_def)

theorem environments_persist_witness:
  "\<exists>r'. v_environments (durable_view (ac_store (run_requests sample_agent
      [sample_request control (agent_command.Stop (Uuid 1)),
       sample_request control (agent_command.Destroy (Uuid 1) True)]
      (sample_core [(Uuid 1, sample_record Running)])))) (Uuid 1) = Some r'
    \<and> same_identity (sample_record Running) r'"
proof -
  have "v_environments (durable_view (ac_store (sample_core [(Uuid 1, sample_record Running)])))
      (Uuid 1) = Some (sample_record Running)"
    by (simp add: sample_core_def sample_store_def durable_view_def)
  from environments_persist [OF sample_store_invar(2) this] show ?thesis
    unfolding sample_agent_def by blast
qed

text \<open>
  C8. Privilege: a request that is not the control plane's changes no environment and no
  automation grant; of a human session it can change one thing, to revoke it.
\<close>

theorem unprivileged_requests_grant_nothing:
  assumes "durable_invar (ac_store c)" and "p_kind (rq_principal q) \<noteq> ControlPlane"
  shows "let v = durable_view (ac_store c);
        v' = durable_view (ac_store (snd (execute (durable_agent C P J) q c)))
    in v_environments v' = v_environments v \<and> v_automation v' = v_automation v
    \<and> (\<forall>silo. v_human_sessions v' silo = v_human_sessions v silo
         \<or> (\<exists>h. v_human_sessions v silo = Some h
              \<and> v_human_sessions v' silo = Some (h\<lparr>sa_revoked := True\<rparr>)))"
proof -
  have steps: "agent_steps {} False (durable_view (ac_store c))
      (durable_view (ac_store (snd (execute (durable_agent C P J) q c))))"
    using assms(2) by (intro execute_durable(2) [OF assms(1)]) simp
  from agent_steps_frame [OF this] agent_steps_no_grant [OF this]
  show ?thesis by (auto simp: Let_def)
qed

theorem unprivileged_requests_grant_nothing_witness:
  "v_environments (durable_view (ac_store (snd (execute sample_agent
      (sample_request (control\<lparr>p_kind := principal_kind.HumanSession\<rparr>)
         (agent_command.Destroy (Uuid 1) True))
      (sample_core [(Uuid 1, sample_record Running)])))))
    = v_environments (durable_view (ac_store (sample_core [(Uuid 1, sample_record Running)])))"
  using unprivileged_requests_grant_nothing [OF sample_store_invar(2), of "sample_request
      (control\<lparr>p_kind := principal_kind.HumanSession\<rparr>) (agent_command.Destroy (Uuid 1) True)"
      sample_codec sample_provider "\<lambda>_. Inr 100"]
  by (simp add: sample_agent_def sample_request_def Let_def)

text \<open>
  C12. Replay protection: once a request has been answered, or has reached the store or the
  provider at all, then after any further requests a request of the same credential with the
  same or a lower sequence is refused without touching the store's view or the provider.
\<close>

theorem replayed_requests_are_refused:
  assumes "durable_invar (ac_store c)"
    and "is_ok (fst (execute (durable_agent C P J) q c))
      \<or> durable_view (ac_store (snd (execute (durable_agent C P J) q c))) \<noteq> durable_view (ac_store c)
      \<or> ac_provider (snd (execute (durable_agent C P J) q c)) \<noteq> ac_provider c"
    and "p_credential_id (rq_principal q') = p_credential_id (rq_principal q)"
    and "rq_sequence q' \<le> rq_sequence q"
  shows "let c' = run_requests (durable_agent C P J) qs (snd (execute (durable_agent C P J) q c))
    in (\<exists>e. fst (execute (durable_agent C P J) q' c') = Inl e)
    \<and> durable_view (ac_store (snd (execute (durable_agent C P J) q' c'))) = durable_view (ac_store c')
    \<and> ac_provider (snd (execute (durable_agent C P J) q' c')) = ac_provider c'"
proof -
  let ?A = "durable_agent C P J" and ?pid = "p_credential_id (rq_principal q)"
  define c' where "c' = run_requests ?A qs (snd (execute ?A q c))"
  have "durable_core.moved q c (snd (execute ?A q c))"
    using durable_core.execute_moved [OF assms(1) durable_view_wf [OF assms(1)],
        where C = C and P = P and J = J and q = q] assms(2)
    by (cases "execute ?A q c"; cases "fst (execute ?A q c)")
      (auto simp: durable_core.untouched_def)
  then have mark: "rq_sequence q \<le> v_high_water (durable_view (ac_store (snd (execute ?A q c)))) ?pid"
    by (simp add: durable_core.moved_def)
  have run: "durable_invar (ac_store c')"
    "agent_steps UNIV True (durable_view (ac_store (snd (execute ?A q c)))) (durable_view (ac_store c'))"
    using run_durable [OF execute_durable(1) [OF assms(1)]] by (simp_all add: c'_def)
  have "rq_sequence q' \<le> v_high_water (durable_view (ac_store c')) ?pid"
    using assms(4) mark agent_steps_high_water [OF run(2), of ?pid] by order
  then have "\<not> durable_core.moved q' c' (snd (execute ?A q' c'))"
    unfolding durable_core.moved_def assms(3) by (metis leD)
  note still = this
  obtain r c'' where e: "execute ?A q' c' = (r, c'')" by fastforce
  note out = durable_core.execute_moved [OF run(1) durable_view_wf [OF run(1)],
      where C = C and P = P and J = J and q = q', unfolded e]
  have "(\<exists>err. r = Inl err) \<and> durable_core.untouched c' c''"
  proof (cases r)
    case (Inl err)
    with out still e show ?thesis by (simp only: outcome_simps snd_conv) blast
  next
    case (Inr x)
    with out still e show ?thesis by (simp only: outcome_simps snd_conv) blast
  qed
  then show ?thesis
    unfolding Let_def c'_def [symmetric] e fst_conv snd_conv durable_core.untouched_def by blast
qed

text \<open>A sample request that runs to its end: stop the running environment.\<close>

definition sample_nonce :: str where "sample_nonce = replicate 32 65"

lemma sample_nonce_simps [simp]:
  "str_bytes sample_nonce = sample_nonce" "str_len sample_nonce = 32"
  "list_all is_base64url sample_nonce" "valid_nonce_text sample_nonce"
  by (simp_all add: sample_nonce_def str_len_def valid_nonce_text_def ascii_class_defs
      numeral_eq_Suc)

lemma sample_request_valid:
  "\<exists>h. validate_request sample_agent (sample_request control command) (sample_core envs)
     = (Inr (), (sample_core envs)\<lparr>ac_host := h\<rparr>) \<and> fst (now_unix_ms h) = 5000"
  by (simp add: validate_request_def sample_defs sample_nonce_def [symmetric] core_now_def
      now_unix_ms_def durable_agent_def protocol_limits abs_diff_def Let_def)

lemma sample_healthy: "healthy (ac_store (sample_core envs))"
  by (simp add: healthy_def sample_defs)

text \<open>Any valid change of a sample state is committed.\<close>

lemma sample_mutate:
  assumes "healthy ds" "change (ds_state ds) = Inr s" "validate_state s = Inr ()"
  shows "\<exists>ds'. mutate sample_codec change ds = (Inr (), ds') \<and> ds_state ds' = s \<and> healthy ds'"
  using mutate_healthy [of ds change s sample_codec "[0]"] assms
  by (simp add: sample_codec_def MAX_STORE_BYTES_def)

definition sample_claimed :: "(uuid, environment_record) hmap \<Rightarrow> persisted_agent_state" where
  "sample_claimed envs = persisted_default\<lparr>ps_environments := envs, ps_request_ids := [Uuid 60],
     ps_nonces := [sample_nonce], ps_sequences := [(Uuid 7, 4)]\<rparr>"

lemma sample_claim:
  "change_claim_request (Uuid 7) (Uuid 60) sample_nonce 4 (ds_state (sample_store envs))
     = Inr (sample_claimed envs)"
  by (simp add: change_claim_request_def sample_claimed_def sample_store_def persisted_default_def
      last_sequence_def MAX_REPLAY_WINDOW_ENTRIES_def)

lemma sample_running_valid:
  "st = Running \<or> st = Stopped \<Longrightarrow> length as \<le> 1 \<Longrightarrow> validate_state
     ((sample_claimed [(Uuid 1, (sample_record st)\<lparr>er_last_activity_at_unix_ms := 5000\<rparr>)])
        \<lparr>ps_activity := as\<rparr>) = Inr ()"
  "validate_state (sample_claimed [(Uuid 1, sample_record Running)]) = Inr ()"
  by (auto simp: sample_claimed_def validate_state_def validate_stored_environment_def
      persisted_default_def sample_record_def sample_volume_def STORE_SCHEMA_VERSION_def
      nil_uuid_def MAX_ENVIRONMENTS_def MAX_AUTHORIZATIONS_def MAX_REPLAY_WINDOW_ENTRIES_def
      MAX_ACTIVITY_ENTRIES_def)

lemma sample_sel [simp]:
  "d_store sample_agent = durable_ops sample_codec" "d_provider sample_agent = sample_provider"
  "rq_principal (sample_request who cmd) = who" "rq_command (sample_request who cmd) = cmd"
  "rq_request_id (sample_request who cmd) = Uuid 60" "rq_nonce (sample_request who cmd) = sample_nonce"
  "rq_sequence (sample_request who cmd) = 4" "p_kind control = ControlPlane"
  "p_credential_id control = Uuid 7" "p_authorization_id control = None"
  by (simp_all add: sample_agent_def durable_agent_def sample_request_def control_def sample_nonce_def)

lemma sample_claimed_sel [simp]: "ps_environments (sample_claimed envs) = envs"
  by (simp add: sample_claimed_def)

lemma sample_record_sel [simp]:
  "er_state (sample_record st) = st" "er_expires_at_unix_ms (sample_record st) = 100000"
  "er_silo_id (sample_record st) = Uuid 1"
  by (simp_all add: sample_record_def)

lemma durable_ops_sel [simp]:
  "st_claim_request (durable_ops C) pid rid nonce q = mutate C (change_claim_request pid rid nonce q)"
  "st_environment (durable_ops C) ds = map_of (ps_environments (ds_state ds))"
  "st_update_environment (durable_ops C) r = mutate C (change_update_environment r)"
  "st_append_activity (durable_ops C) e = mutate C (change_append_activity e)"
  by (simp_all add: durable_ops_def)

lemma sample_stop_answers:
  "is_ok (fst (execute sample_agent (sample_request control (agent_command.Stop (Uuid 1)))
     (sample_core [(Uuid 1, sample_record Running)])))"
proof -
  let ?envs = "[(Uuid 1, sample_record Running)]"
  let ?r = "(sample_record Stopped)\<lparr>er_last_activity_at_unix_ms := 5000\<rparr>"
  let ?s2 = "sample_claimed [(Uuid 1, ?r)]"
  obtain h where h: "validate_request sample_agent
        (sample_request control (agent_command.Stop (Uuid 1))) (sample_core ?envs)
      = (Inr (), (sample_core ?envs)\<lparr>ac_host := h\<rparr>)" "fst (now_unix_ms h) = 5000"
    using sample_request_valid by blast
  have store: "ac_store (sample_core envs) = sample_store envs" for envs
    by (simp add: sample_core_def)
  obtain ds1 where ds1: "mutate sample_codec (change_claim_request (Uuid 7) (Uuid 60) sample_nonce 4)
      (sample_store ?envs) = (Inr (), ds1)" "ds_state ds1 = sample_claimed ?envs" "healthy ds1"
    using sample_mutate [of "sample_store ?envs" "change_claim_request (Uuid 7) (Uuid 60) sample_nonce 4"
        "sample_claimed ?envs"] sample_healthy [of ?envs] sample_claim sample_running_valid(2)
    unfolding store by blast
  have "change_update_environment ?r (ds_state ds1) = Inr ?s2"
    by (simp add: change_update_environment_def ds1(2) sample_claimed_def sample_record_def)
  then obtain ds2 where ds2: "mutate sample_codec (change_update_environment ?r) ds1 = (Inr (), ds2)"
    "ds_state ds2 = ?s2" "healthy ds2"
    using sample_mutate [of ds1 "change_update_environment ?r" ?s2, OF ds1(3)]
      sample_running_valid(1) [of Stopped "[]"]
    by (auto simp: sample_claimed_def persisted_default_def)
  have "change_append_activity e (ds_state ds2) = Inr (?s2\<lparr>ps_activity := [e]\<rparr>)" for e
    by (simp add: change_append_activity_def ds2(2) push_bounded_def MAX_ACTIVITY_ENTRIES_def
        sample_claimed_def persisted_default_def)
  then have log: "fst (mutate sample_codec (change_append_activity e) ds2) = Inr ()" for e
    using sample_mutate [of ds2 "change_append_activity e" "?s2\<lparr>ps_activity := [e]\<rparr>", OF ds2(3)]
      sample_running_valid(1) [of Stopped "[e]"] by (auto simp: prod_eq_iff)
  have stopped: "(sample_record Running)\<lparr>er_state := Stopped, er_last_activity_at_unix_ms := 5000\<rparr> = ?r"
    by (simp add: sample_record_def)
  have stop: "execute_authorized sample_agent control (agent_command.Stop (Uuid 1)) 5000 c
      = (Inr (Environment ?r (Some sample_evidence)), c\<lparr>ac_store := ds2\<rparr>)"
    if "ac_store c = ds1" for c
    by (simp add: that execute_authorized_def require_control_def lifecycle_def core_record_def
        core_environment_def ds1(2) core_capabilities_def ensure_capability_def ALL_OPERATIONS_def
        in_provider_def in_store_def sample_provider_def with_network_def evidence_required_def
        state_after_def Let_def stopped ds2(1))
  show ?thesis
    by (simp add: execute_def h store core_now_def split_def Let_def in_store_def ds1(1) stop
        core_new_v4_def log)
qed

theorem replayed_requests_are_refused_witness:
  "\<exists>e. fst (execute sample_agent (sample_request control (agent_command.Destroy (Uuid 1) True))
     (snd (execute sample_agent (sample_request control (agent_command.Stop (Uuid 1)))
       (sample_core [(Uuid 1, sample_record Running)])))) = Inl e"
  using replayed_requests_are_refused [OF sample_store_invar(2) disjI1 [OF sample_stop_answers [unfolded sample_agent_def]],
      of "sample_request control (agent_command.Destroy (Uuid 1) True)" "[]"]
  by (simp add: sample_agent_def sample_request_def Let_def)

section \<open>Deletion\<close>

text \<open>
  C13. A destroy that is answered leaves the environment deleted with the returned proof stored,
  and the proof names exactly the environment's Silo, binding, environment and volume and one
  disposition for each of compute, volume, snapshot and key; a destroy that fails leaves the
  store's view as it was.
\<close>

theorem destroy_is_proved:
  assumes "durable_invar (ac_store c)"
  shows "outcome
     (\<lambda>a c'. \<exists>p r i. a = DeletedEnvironment p
        \<and> v_environments (durable_view (ac_store c')) silo = Some r
        \<and> er_state r = environment_state.Deleted \<and> er_deletion_proof_id r = Some i
        \<and> v_proofs (durable_view (ac_store c')) i = Some p \<and> deletion_proof_is_bound r p)
     (\<lambda>_ c'. durable_view (ac_store c') = durable_view (ac_store c))
     (core_destroy (durable_agent C P J) who silo confirm now c)"
  by (rule outcome_mono [OF durable_core.core_destroy_deletes [OF assms durable_view_wf [OF assms]]])
    (auto simp: durable_core.deleted_with_def)

theorem destroy_is_proved_witness:
  "\<exists>p c'. core_destroy sample_agent control (Uuid 1) True 5000
       (sample_core [(Uuid 1, sample_record Running)]) = (Inr (DeletedEnvironment p), c')
     \<and> (\<exists>r. v_environments (durable_view (ac_store c')) (Uuid 1) = Some r
          \<and> deletion_proof_is_bound r p)"
proof -
  let ?m = "core_destroy sample_agent control (Uuid 1) True 5000
      (sample_core [(Uuid 1, sample_record Running)])"
  have "is_ok (fst ?m)"
    by (simp add: sample_defs core_destroy_def core_run_defs store_run_defs Let_def
        require_control_def)
  then obtain a c' where "?m = (Inr a, c')" by (cases ?m; cases "fst ?m") auto
  with destroy_is_proved [OF sample_store_invar(2), of "Uuid 1" sample_codec sample_provider
      "\<lambda>_. Inr 100" control True 5000] show ?thesis
    by (auto simp: sample_agent_def)
qed

text \<open>
  Destroying is idempotent: on a deleted environment with its proof every further destroy
  by the control plane, confirmed or not, answers that proof and changes nothing.
\<close>

theorem destroy_is_idempotent:
  assumes "durable_invar (ac_store c)" and "p_kind who = ControlPlane"
    and "core_destroy (durable_agent C P J) who silo confirm now c = (Inr (DeletedEnvironment p), c')"
  shows "core_destroy (durable_agent C P J) who silo confirm' later c' = (Inr (DeletedEnvironment p), c')"
proof -
  from durable_core.core_destroy_deletes [OF assms(1) durable_view_wf [OF assms(1)],
      where silo_id = silo and C = C and P = P and J = J and who = who and confirm = confirm
        and now = now]
  have "durable_core.deleted_with silo p c'" unfolding assms(3) by simp
  then show ?thesis by (rule durable_core.core_destroy_again [OF _ assms(2)])
qed

theorem destroy_is_idempotent_witness:
  "\<exists>p c'. core_destroy sample_agent control (Uuid 1) True 5000
       (sample_core [(Uuid 1, sample_record Running)]) = (Inr (DeletedEnvironment p), c')
     \<and> core_destroy sample_agent control (Uuid 1) False 6000 c' = (Inr (DeletedEnvironment p), c')"
proof -
  let ?m = "core_destroy sample_agent control (Uuid 1) True 5000
      (sample_core [(Uuid 1, sample_record Running)])"
  have "\<exists>p c'. ?m = (Inr (DeletedEnvironment p), c')"
    by (simp add: sample_defs core_destroy_def core_run_defs store_run_defs Let_def
        require_control_def)
  then obtain p c' where m: "?m = (Inr (DeletedEnvironment p), c')" by blast
  have "p_kind control = ControlPlane" by (simp add: control_def)
  from destroy_is_idempotent [OF sample_store_invar(2) this m [unfolded sample_agent_def]] m
  show ?thesis by (auto simp: sample_agent_def)
qed

section \<open>Creation and recovery\<close>

text \<open>
  C29. Create fails closed. An answer means that the stored environment is activated, its volume
  is encrypted under a user-controlled key, and the guest evidence was validated, the required
  proxy included. A failure leaves the store's view as it was, or leaves in place of the absent
  environment a deleted one or a record of the unfinished create, never a live environment.
\<close>

theorem create_activates_or_leaves_nothing_live:
  assumes "durable_invar (ac_store c)"
  shows "outcome
     (\<lambda>a c'. \<exists>r ev. a = Environment r (Some ev)
        \<and> v_environments (durable_view (ac_store c')) silo = Some r
        \<and> er_state r = environment_state.Created \<and> provisioned_volume_is_valid (er_volume r)
        \<and> validate_evidence ev r now = Inr ())
     (\<lambda>_ c'. durable_view (ac_store c') = durable_view (ac_store c)
        \<or> v_environments (durable_view (ac_store c)) silo = None
          \<and> (\<forall>r. v_environments (durable_view (ac_store c')) silo = Some r
                \<longrightarrow> er_state r = Provisioning \<or> er_state r = environment_state.Deleted))
     (core_create (durable_agent C P J) who silo binding_id rid ttl network ack now c)"
  by (rule outcome_mono [OF durable_core.core_create_outcome [OF assms]])
    (auto simp: durable_core.activated_def durable_core.not_live_def live_state_def)

theorem create_activates_or_leaves_nothing_live_witness:
  "outcome
     (\<lambda>a c'. \<exists>r ev. a = Environment r (Some ev)
        \<and> v_environments (durable_view (ac_store c')) (Uuid 1) = Some r
        \<and> er_state r = environment_state.Created \<and> provisioned_volume_is_valid (er_volume r)
        \<and> validate_evidence ev r 5000 = Inr ())
     (\<lambda>_ c'. durable_view (ac_store c') = durable_view (ac_store (sample_core []))
        \<or> v_environments (durable_view (ac_store (sample_core []))) (Uuid 1) = None
          \<and> (\<forall>r. v_environments (durable_view (ac_store c')) (Uuid 1) = Some r
                \<longrightarrow> er_state r = Provisioning \<or> er_state r = environment_state.Deleted))
     (core_create sample_agent control (Uuid 1) (Uuid 2) (Uuid 3) 60 (FixedProxy True (Uuid 5))
        True 5000 (sample_core []))"
  unfolding sample_agent_def
  by (rule create_activates_or_leaves_nothing_live [OF sample_store_invar(1)])

text \<open>
  Recovery at start. When the Agent starts, every create that a crash left unfinished has
  been deleted, every other environment is as it was, and none has been added.
\<close>

theorem start_recovers_unfinished_creates:
  assumes "durable_invar store"
    and "agent_core_new (durable_agent C P J) node provider store host = Inr c"
  shows "durable_invar (ac_store c)
    \<and> (\<forall>silo. case v_environments (durable_view store) silo of
          None \<Rightarrow> v_environments (durable_view (ac_store c)) silo = None
        | Some r \<Rightarrow>
            if er_state r = Provisioning
            then (\<exists>r'. v_environments (durable_view (ac_store c)) silo = Some r'
                    \<and> same_identity r r' \<and> er_state r' = environment_state.Deleted)
            else v_environments (durable_view (ac_store c)) silo = Some r)"
proof -
  let ?c0 = "\<lparr>ac_node = node, ac_provider = provider, ac_store = store, ac_host = host\<rparr>"
  have "recover_incomplete_creates (durable_agent C P J) ?c0 = (Inr (), c)"
    using assms(2) by (auto simp: agent_core_new_def split: sum.splits prod.splits)
  with durable_core.recover_incomplete_creates_outcome [of ?c0, where C = C and P = P and J = J]
    assms(1) durable_view_wf [OF assms(1)]
  show ?thesis
    by (auto simp: durable_core.reach_def split: option.split) (metis (full_types))+
qed

lemma sample_pending_invar:
  "durable_invar (ac_store (sample_core [(Uuid 1, sample_record Provisioning)]))"
  by (simp add: sample_defs durable_invar_def validate_state_def persisted_maps_distinct_def
      validate_stored_environment_def STORE_SCHEMA_VERSION_def nil_uuid_def MAX_ENVIRONMENTS_def)

lemma sample_node_valid: "node_disclosure_validate sample_node = Inr ()"
  by (simp add: node_disclosure_validate_def bounded_text_def sample_node_def nil_uuid_def
      lit_def str_len_def str_trim_def is_whitespace_def ascii_class_defs)

lemma sample_recovery_starts:
  "\<exists>c. agent_core_new sample_agent sample_node ()
     (ac_store (sample_core [(Uuid 1, sample_record Provisioning)])) sample_host = Inr c"
  using sample_node_valid
  by (simp add: agent_core_new_def sample_defs core_run_defs Let_def
      Agent_Types.validate_capabilities_def count_capability_def store_run_defs
      recover_incomplete_creates_def)

theorem start_recovers_unfinished_creates_witness:
  "\<exists>c r. agent_core_new sample_agent sample_node ()
     (ac_store (sample_core [(Uuid 1, sample_record Provisioning)])) sample_host = Inr c
     \<and> v_environments (durable_view (ac_store c)) (Uuid 1) = Some r
     \<and> er_state r = environment_state.Deleted"
proof -
  obtain c where c: "agent_core_new sample_agent sample_node ()
     (ac_store (sample_core [(Uuid 1, sample_record Provisioning)])) sample_host = Inr c"
    using sample_recovery_starts by blast
  have "v_environments (durable_view (ac_store (sample_core [(Uuid 1, sample_record Provisioning)])))
      (Uuid 1) = Some (sample_record Provisioning)"
    by (simp add: sample_core_def sample_store_def durable_view_def)
  with start_recovers_unfinished_creates [OF sample_pending_invar c [unfolded sample_agent_def]] c
  show ?thesis by (force dest: spec [of _ "Uuid 1"])
qed

section \<open>Evidence\<close>





section \<open>Screens, input and grants\<close>

text \<open>
  Human priority. While a human session on the Silo is active, input from an automation
  credential is refused, with nothing sent to the provider and nothing stored.
\<close>

theorem human_session_suspends_automation:
  assumes "p_kind who = principal_kind.Automation"
    and "v_human_sessions (durable_view (ac_store c)) silo = Some h"
    and "\<not> sa_revoked h" and "now < sa_expires_at_unix_ms h"
  shows "\<exists>e. send_input (durable_agent C P J) who silo events now c = (Inl e, c)"
  using assms by (intro durable_core.send_input_human_priority)
    (auto simp: human_session_is_active_def)

definition sample_session :: session_authorization where
  "sample_session = \<lparr>sa_authorization_id = Uuid 70, sa_silo_id = Uuid 1,
     sa_remote_environment_id = Uuid 3, sa_issued_at_unix_ms = 4000,
     sa_expires_at_unix_ms = 90000, sa_revoked = False\<rparr>"

definition sample_grant :: automation_authorization where
  "sample_grant = \<lparr>aa_authorization_id = Uuid 71, aa_silo_id = Uuid 1,
     aa_remote_environment_id = Uuid 3, aa_issued_at_unix_ms = 4000,
     aa_expires_at_unix_ms = 90000, aa_scopes = [ReadScreen, automation_scope.SendInput],
     aa_approved_by_user = True, aa_revoked = False\<rparr>"

definition sample_robot :: principal where
  "sample_robot = \<lparr>p_kind = principal_kind.Automation, p_credential_id = Uuid 8,
     p_authorization_id = Some (Uuid 71)\<rparr>"

definition sample_interactive ::
    "(uuid, session_authorization) hmap \<Rightarrow> (unit, durable_store) agent_core" where
  "sample_interactive sessions =
     (sample_core [(Uuid 1, sample_record Running)])\<lparr>ac_store :=
        (sample_store [(Uuid 1, sample_record Running)])\<lparr>ds_state :=
           persisted_default\<lparr>ps_environments := [(Uuid 1, sample_record Running)],
             ps_human_sessions := sessions, ps_automation := [(Uuid 71, sample_grant)]\<rparr>\<rparr>\<rparr>"

theorem human_session_suspends_automation_witness:
  "\<exists>e. send_input sample_agent sample_robot (Uuid 1) [Key (lit ''KeyA'') True] 5000
     (sample_interactive [(Uuid 1, sample_session)])
     = (Inl e, sample_interactive [(Uuid 1, sample_session)])"
  unfolding sample_agent_def
  by (rule human_session_suspends_automation [where h = sample_session])
    (simp_all add: sample_robot_def sample_interactive_def sample_session_def durable_view_def
      sample_core_def)

text \<open>
  Input and screens need a live authorization. Accepted input was valid, went to a live
  and unexpired environment, and was covered by the Silo's human session or by an unrevoked,
  unexpired, user-approved automation grant for that Silo with the input scope, in the latter
  case with no human session active; accepting it stores nothing.
\<close>

theorem accepted_input_is_authorized:
  assumes "durable_invar (ac_store c)"
    and "send_input (durable_agent C P J) who silo events now c = (Inr a, c')"
  shows "durable_view (ac_store c') = durable_view (ac_store c) \<and> a = InputAccepted (length events)
    \<and> validate_input events = Inr ()
    \<and> (\<exists>r i expires. v_environments (durable_view (ac_store c)) silo = Some r
         \<and> live_state (er_state r) \<and> now < er_expires_at_unix_ms r
         \<and> authorized who silo now automation_scope.SendInput i expires (durable_view (ac_store c))
         \<and> (p_kind who = principal_kind.Automation
              \<longrightarrow> \<not> human_session_is_active (v_human_sessions (durable_view (ac_store c)) silo) now))"
  using durable_core.send_input_outcome [OF durable_view_wf [OF assms(1)], where C = C and P = P
      and J = J and who = who and silo = silo and events = events and now = now]
  unfolding assms(2) by simp

lemma sample_interactive_invar: "durable_invar (ac_store (sample_interactive []))"
  by (simp add: sample_interactive_def sample_defs sample_grant_def durable_invar_def
      validate_state_def persisted_maps_distinct_def validate_stored_environment_def
      STORE_SCHEMA_VERSION_def nil_uuid_def MAX_ENVIRONMENTS_def MAX_AUTHORIZATIONS_def)

theorem accepted_input_is_authorized_witness:
  "\<exists>i expires. authorized sample_robot (Uuid 1) 5000 automation_scope.SendInput i expires
     (durable_view (ac_store (sample_interactive [])))"
proof -
  have "send_input sample_agent sample_robot (Uuid 1) [PointerMove 1 2] 5000 (sample_interactive [])
      = (Inr (InputAccepted 1), (sample_interactive []))"
    by (simp add: send_input_def validate_input_def validate_input_event_def MAX_INPUT_EVENTS_def
        core_record_def core_environment_def authorize_input_def authorize_scope_def
        authorize_automation_def human_session_is_active_def sample_interactive_def sample_robot_def
        sample_core_def sample_grant_def in_provider_def sample_provider_def durable_ops_def)
  from accepted_input_is_authorized [OF sample_interactive_invar this [unfolded sample_agent_def]]
  show ?thesis by blast
qed

text \<open>
  Screen channels are bounded. A channel that is handed out belongs to the environment and
  to a live authorization for reading the screen, and it expires after now, not after the
  authorization, and not later than five minutes from now.
\<close>

theorem screen_channels_are_bounded:
  assumes "durable_invar (ac_store c)"
    and "open_screen (durable_agent C P J) who silo now c = (Inr a, c')"
  shows "\<exists>ch r expires. a = Screen ch
    \<and> v_environments (durable_view (ac_store c)) silo = Some r \<and> live_state (er_state r)
    \<and> now < er_expires_at_unix_ms r \<and> sc_remote_environment_id ch = er_remote_environment_id r
    \<and> authorized who silo now ReadScreen (sc_authorization_id ch) expires (durable_view (ac_store c))
    \<and> now < sc_expires_at_unix_ms ch \<and> sc_expires_at_unix_ms ch \<le> expires
    \<and> unat (sc_expires_at_unix_ms ch) \<le> unat now + 300000"
proof -
  have bound: "unat (saturating_add now MAX_SCREEN_CHANNEL_LIFETIME_MS) \<le> unat now + 300000"
    by (simp add: unat_saturating_add MAX_SCREEN_CHANNEL_LIFETIME_MS_def)
  from durable_core.open_screen_outcome [OF durable_view_wf [OF assms(1)], where C = C and P = P
      and J = J and who = who and silo = silo and now = now]
  show ?thesis
    unfolding assms(2) outcome_simps
    by (elim conjE exE) (use bound in \<open>auto simp: word_le_nat_alt intro!: exI\<close>)
qed

theorem screen_channels_are_bounded_witness:
  "\<exists>ch c'. open_screen sample_agent sample_robot (Uuid 1) 5000 (sample_interactive [])
       = (Inr (Screen ch), c') \<and> unat (sc_expires_at_unix_ms ch) \<le> 305000"
proof -
  have "\<exists>a c'. open_screen sample_agent sample_robot (Uuid 1) 5000 (sample_interactive [])
      = (Inr a, c')"
    by (simp add: open_screen_def core_record_def core_environment_def authorize_scope_def
        authorize_automation_def sample_interactive_def sample_robot_def sample_core_def
        sample_grant_def in_provider_def sample_provider_def durable_ops_def saturating_add_def
        MAX_SCREEN_CHANNEL_LIFETIME_MS_def Let_def)
  then obtain a c' where run: "open_screen sample_agent sample_robot (Uuid 1) 5000
      (sample_interactive []) = (Inr a, c')" by blast
  from screen_channels_are_bounded [OF sample_interactive_invar run [unfolded sample_agent_def]] run
  show ?thesis by auto
qed

lemma lifetime_bounds:
  fixes now l :: u64
  assumes "60 \<le> l" "unat l \<le> m" "unat now + m * 1000 < 2 ^ 64"
  shows "unat now + 60000 \<le> unat (now + l * 1000)" "unat (now + l * 1000) \<le> unat now + m * 1000"
proof -
  from assms(2,3) have "unat l * 1000 < 2 ^ 64" by linarith
  then have "unat (l * 1000) = unat l * 1000" by (simp add: unat_word_ariths)
  moreover from this assms(2,3) have "unat (now + l * 1000) = unat now + unat (l * 1000)"
    by (simp add: unat_word_ariths)
  moreover have "60 \<le> unat l" using assms(1) by (simp add: word_le_nat_alt)
  ultimately show "unat now + 60000 \<le> unat (now + l * 1000)"
    "unat (now + l * 1000) \<le> unat now + m * 1000"
    using assms(2) by auto
qed

text \<open>
  Grants are bounded. A human session that is opened, and an automation grant, belong to a
  live environment of the Silo, were asked for by the control plane, last at least a minute and
  at most eight hours or one hour, and an automation grant carries the user's approval and
  distinct scopes. (The bound is on times that do not wrap around.)
\<close>

theorem sessions_and_grants_are_bounded:
  assumes "unat now + 28800000 < 2 ^ 64"
  shows "(open_human_session (durable_agent C P J) who silo lifetime now c = (Inr a, c')
      \<longrightarrow> (\<exists>h r. a = agent_response.HumanSession h \<and> p_kind who = ControlPlane
        \<and> v_environments (durable_view (ac_store c)) silo = Some r \<and> live_state (er_state r)
        \<and> sa_silo_id h = silo \<and> sa_remote_environment_id h = er_remote_environment_id r
        \<and> unat now + 60000 \<le> unat (sa_expires_at_unix_ms h)
        \<and> unat (sa_expires_at_unix_ms h) \<le> unat now + 28800000))
    \<and> (grant_automation (durable_agent C P J) who silo lifetime scopes approved now c = (Inr a, c')
      \<longrightarrow> (\<exists>g r. a = agent_response.Automation g \<and> p_kind who = ControlPlane
        \<and> v_environments (durable_view (ac_store c)) silo = Some r \<and> live_state (er_state r)
        \<and> aa_silo_id g = silo \<and> aa_remote_environment_id g = er_remote_environment_id r
        \<and> aa_approved_by_user g \<and> aa_scopes g \<noteq> [] \<and> distinct (aa_scopes g)
        \<and> unat now + 60000 \<le> unat (aa_expires_at_unix_ms g)
        \<and> unat (aa_expires_at_unix_ms g) \<le> unat now + 3600000))"
proof -
  have session: "unat now + 60000 \<le> unat (now + lifetime * 1000)
      \<and> unat (now + lifetime * 1000) \<le> unat now + 28800000"
    if "60 \<le> lifetime" "lifetime \<le> MAX_HUMAN_SESSION_SECONDS"
    using lifetime_bounds [OF that(1), of 28800 now] that(2) assms
    by (simp add: MAX_HUMAN_SESSION_SECONDS_def word_le_nat_alt)
  have grant: "unat now + 60000 \<le> unat (now + lifetime * 1000)
      \<and> unat (now + lifetime * 1000) \<le> unat now + 3600000"
    if "60 \<le> lifetime" "lifetime \<le> MAX_AUTOMATION_SECONDS"
    using lifetime_bounds [OF that(1), of 3600 now] that(2) assms
    by (simp add: MAX_AUTOMATION_SECONDS_def word_le_nat_alt)
  show ?thesis
    using session grant
    by (auto simp: open_human_session_def grant_automation_def sbind_Inr_iff Let_def split_def
        durable_core.core_record_Inr split: if_splits)
qed

theorem sessions_and_grants_are_bounded_witness:
  "\<exists>g c'. grant_automation sample_agent control (Uuid 1) 600 [ReadScreen] True 5000
       (sample_interactive []) = (Inr (agent_response.Automation g), c')
     \<and> unat (aa_expires_at_unix_ms g) \<le> 3605000"
proof -
  let ?g = "\<lparr>aa_authorization_id = Uuid 100, aa_silo_id = Uuid 1,
      aa_remote_environment_id = Uuid 3, aa_issued_at_unix_ms = 5000,
      aa_expires_at_unix_ms = 5000 + 600 * 1000, aa_scopes = [ReadScreen],
      aa_approved_by_user = True, aa_revoked = False\<rparr>"
  let ?s = "(ds_state (ac_store (sample_interactive [])))\<lparr>ps_automation :=
      [(Uuid 71, sample_grant), (Uuid 100, ?g)]\<rparr>"
  have "healthy (ac_store (sample_interactive []))"
    by (simp add: healthy_def sample_interactive_def sample_defs)
  moreover have "change_set_automation ?g (ds_state (ac_store (sample_interactive []))) = Inr ?s"
    by (simp add: change_set_automation_def sample_interactive_def sample_core_def persisted_default_def)
  moreover have "validate_state ?s = Inr ()"
    by (simp add: sample_interactive_def sample_defs sample_grant_def validate_state_def
        validate_stored_environment_def STORE_SCHEMA_VERSION_def nil_uuid_def
        MAX_ENVIRONMENTS_def MAX_AUTHORIZATIONS_def)
  ultimately obtain ds where "mutate sample_codec (change_set_automation ?g)
      (ac_store (sample_interactive [])) = (Inr (), ds)"
    using sample_mutate [of "ac_store (sample_interactive [])" "change_set_automation ?g" ?s] by blast
  then have "\<exists>a c'. grant_automation sample_agent control (Uuid 1) 600 [ReadScreen] True 5000
       (sample_interactive []) = (Inr a, c')"
    by (simp add: grant_automation_def require_control_def core_record_def core_environment_def
        sample_interactive_def sample_core_def MAX_AUTOMATION_SECONDS_def in_store_def
        durable_ops_def Let_def split_def core_new_v4_def new_v4_def sample_host_def sample_record_def)
  then obtain a c' where "grant_automation sample_agent control (Uuid 1) 600 [ReadScreen] True 5000
       (sample_interactive []) = (Inr a, c')" by blast
  with sessions_and_grants_are_bounded [of 5000 sample_codec sample_provider "\<lambda>_. Inr 100"
      control "Uuid 1" 600 "sample_interactive []" a c' "[ReadScreen]" True]
  show ?thesis by (auto simp: sample_agent_def)
qed

section \<open>Expiry\<close>

text \<open>
  The sweep. When all its results are proofs, every environment that had expired by the
  sweep's reading of the clock is deleted; an environment that had not expired, or was deleted
  before, is untouched whatever the results.
\<close>

theorem sweep_deletes_exactly_the_expired:
  assumes "durable_invar (ac_store c)"
  shows "let (results, c') = sweep_expired (durable_agent C P J) c; now = fst (core_now c) in
    if expired_at now (v_environments (durable_view (ac_store c)) silo)
    then list_all is_ok results \<longrightarrow> is_deleted (v_environments (durable_view (ac_store c')) silo)
    else v_environments (durable_view (ac_store c')) silo
           = v_environments (durable_view (ac_store c)) silo"
  using durable_core.sweep_expired_outcome [OF assms durable_view_wf [OF assms],
      where C = C and P = P and J = J and silo = silo]
  by (simp add: split_def Let_def)

theorem sweep_deletes_exactly_the_expired_witness:
  "v_environments (durable_view (ac_store (snd (sweep_expired sample_agent
       (sample_core [(Uuid 1, sample_record Running)]))))) (Uuid 1)
     = Some (sample_record Running)"
  using sweep_deletes_exactly_the_expired [OF sample_store_invar(2), of sample_codec
      sample_provider "\<lambda>_. Inr 100" "Uuid 1"]
  by (simp add: split_def Let_def expired_at_def sample_defs durable_view_def core_now_def
      now_unix_ms_def)

section \<open>Durability\<close>

text \<open>
  C10. A crash never loses the state. If the state in memory is the one on disk, then at every
  moment of a mutation, whatever operations fail, every directory image that a crash may expose
  recovers to the complete contents of the old or of the prospective valid state; afterwards
  the store is either poisoned or again in step with the disk, and it is in step on success.
\<close>

theorem crash_recovers_old_or_new:
  assumes "durable_on_disk C ds"
  shows "(\<forall>i \<in> set (dk_history (ds_disk (snd (mutate C change ds)))).
        i \<in> set (dk_history (ds_disk ds)) \<or> old_or_new C change (ds_state ds) (recovered_file i))
    \<and> (\<forall>i \<in> set (dk_images (ds_disk (snd (mutate C change ds)))).
        old_or_new C change (ds_state ds) (recovered_file i))
    \<and> outcome (\<lambda>_ ds'. durable_on_disk C ds')
        (\<lambda>_ ds'. ds_poisoned ds' \<or> durable_on_disk C ds') (mutate C change ds)"
  using mutate_on_disk [OF assms] by blast

text \<open>A codec that writes how many environments there are.\<close>

definition counting_codec :: state_codec where
  "counting_codec = \<lparr>cd_encode = (\<lambda>s. Inr [length (ps_environments s)]),
     cd_decode = (\<lambda>_. Inl (lit ''unsupported''))\<rparr>"

lemma sample_on_disk: "durable_on_disk counting_codec (sample_store [])"
  by (simp add: durable_on_disk_def settled_def recovered_file_def counting_codec_def sample_defs)

theorem crash_recovers_old_or_new_witness:
  "list_all (\<lambda>i. recovered_file i \<in> {Some (Stable [0]), Some (Stable [1])})
     (dk_images (ds_disk (snd (mutate counting_codec
       (change_insert_environment (sample_record Provisioning)) (sample_store [])))))"
proof -
  have "change_insert_environment (sample_record Provisioning) (ds_state (sample_store []))
      = Inr s \<Longrightarrow> length (ps_environments s) = 1" for s
    by (auto simp: change_insert_environment_def sample_store_def split: if_splits)
  moreover have "length (ps_environments (ds_state (sample_store []))) = 0"
    by (simp add: sample_store_def)
  ultimately show ?thesis
    using conjunct1 [OF conjunct2 [OF crash_recovers_old_or_new [OF sample_on_disk, of
      "change_insert_environment (sample_record Provisioning)"]]]
    by (fastforce simp: old_or_new_def counting_codec_def list_all_iff)
qed

text \<open>
  Reopening. With a codec that reads back what it wrote, opening a directory that a crash
  left, whose recovered file is the encoding of a valid state, gives a usable store with the
  same abstract state, in step with the disk.
\<close>

theorem reopen_restores_the_state:
  assumes "codec_round_trips C" and "durable_invar ds" and "cd_encode C (ds_state ds) = Inr raw"
    and "recovered_file dir = Some (Stable raw)" and "length raw \<le> MAX_STORE_BYTES"
    and "sp_is_absolute path" and "sp_has_parent path"
  shows "\<exists>ds' ds''. durable_open C path (crashed_disk dir) h = (Inr ds', ds'')
    \<and> durable_view ds' = durable_view ds \<and> durable_invar ds' \<and> \<not> ds_poisoned ds'
    \<and> settled (Some raw) (ds_disk ds')"
proof -
  from assms(2) have inv: "persisted_maps_distinct (ds_state ds)" "validate_state (ds_state ds) = Inr ()"
    by (simp_all add: durable_invar_def)
  with assms(1,3) obtain s where s: "cd_decode C raw = Inr s" "same_content (ds_state ds) s"
    unfolding codec_round_trips_def by blast
  have valid: "validate_state s = Inr ()" by (rule same_content_valid [OF inv(1) s(2) inv(2)])
  from reopen [OF assms(4) s(1) valid assms(5-7), of h] obtain ds' ds'' where
    "durable_open C path (crashed_disk dir) h = (Inr ds', ds'')" "ds_state ds' = s"
    "\<not> ds_poisoned ds'" "settled (Some raw) (ds_disk ds')" by blast
  moreover from this(2) s(2) have "durable_view ds' = durable_view ds"
    by (intro same_content_view [OF inv(1)]) simp
  moreover from valid s(2) \<open>ds_state ds' = s\<close> have "durable_invar ds'"
    by (simp add: durable_invar_def same_content_def)
  ultimately show ?thesis by blast
qed

text \<open>A codec that knows one state reads back what it wrote.\<close>

definition one_state_codec :: "persisted_agent_state \<Rightarrow> state_codec" where
  "one_state_codec s = \<lparr>cd_encode = (\<lambda>s'. if s' = s then Inr [7] else Inl (lit ''unsupported'')),
     cd_decode = (\<lambda>_. Inr s)\<rparr>"

theorem reopen_restores_the_state_witness:
  "\<exists>ds' ds''. durable_open (one_state_codec persisted_default)
       \<lparr>sp_is_absolute = True, sp_has_parent = True\<rparr>
       (crashed_disk (\<lambda>n. if n = BackupFile then Some (Stable [7]) else None)) sample_host
     = (Inr ds', ds'') \<and> durable_view ds' = durable_view (sample_store [])"
proof -
  have "codec_round_trips (one_state_codec persisted_default)"
    by (auto simp: codec_round_trips_def one_state_codec_def same_content_def split: if_splits)
  moreover have "durable_invar (sample_store [])"
    using sample_store_invar(1) by (simp add: sample_core_def)
  moreover have "cd_encode (one_state_codec persisted_default) (ds_state (sample_store [])) = Inr [7]"
    by (simp add: one_state_codec_def sample_store_def persisted_default_def)
  ultimately show ?thesis
    using reopen_restores_the_state [of "one_state_codec persisted_default" "sample_store []" "[7]"
        "\<lambda>n. if n = BackupFile then Some (Stable [7]) else None"
        "\<lparr>sp_is_absolute = True, sp_has_parent = True\<rparr>" sample_host]
    by (auto simp: recovered_file_def MAX_STORE_BYTES_def)
qed

text \<open>
  C33. Progress. On a disk without faults every change whose result is valid and encodes within
  the size limit is committed, and the store stays ready for the next one.
\<close>

theorem valid_changes_are_committed:
  assumes "healthy ds" and "change (ds_state ds) = Inr s" and "validate_state s = Inr ()"
    and "cd_encode C s = Inr raw" and "length raw \<le> MAX_STORE_BYTES"
  shows "\<exists>ds'. mutate C change ds = (Inr (), ds') \<and> ds_state ds' = s \<and> healthy ds'"
  using mutate_healthy [of ds change s C raw] assms by blast

theorem valid_changes_are_committed_witness:
  "\<exists>ds'. mutate sample_codec (change_claim_request (Uuid 7) (Uuid 60) sample_nonce 4)
       (sample_store [(Uuid 1, sample_record Running)]) = (Inr (), ds') \<and> healthy ds'"
proof -
  have "healthy (sample_store [(Uuid 1, sample_record Running)])"
    using sample_healthy by (simp add: sample_core_def)
  with valid_changes_are_committed [of "sample_store [(Uuid 1, sample_record Running)]"
      "change_claim_request (Uuid 7) (Uuid 60) sample_nonce 4"
      "sample_claimed [(Uuid 1, sample_record Running)]" sample_codec "[0]"]
    sample_claim sample_running_valid(2)
  show ?thesis by (auto simp: sample_codec_def MAX_STORE_BYTES_def)
qed

end
