(* ===== verification/Auth_Store.thy ===== *)
theory Auth_Store
  imports File_System Wire_Protocol
begin

text \<open>
  The Agent's authentication state, \<open>AuthStore\<close> of
  \<open>crates/verisilo-remote-backend/src/auth_store.rs\<close>: one-time pairing tokens, hashed control
  credentials, replay claims, pin rotation authorizations and the global response sequence, in
  a state file that is replaced atomically.

  SHA-256 and the JSON codec are parameters. The platform is Unix. The advisory lock's result
  is a parameter of \<open>auth_open\<close>; file modes are not modelled beyond the calls that may fail.
\<close>

unbundle bit_operations_syntax

section \<open>The persisted state\<close>

definition AUTH_SCHEMA_VERSION :: u32 where "AUTH_SCHEMA_VERSION = 1"
definition MAX_AUTH_STATE_BYTES :: nat where "MAX_AUTH_STATE_BYTES = 4 * 1024 * 1024"
definition MAX_CREDENTIALS :: nat where "MAX_CREDENTIALS = 64"
definition MAX_PAIRING_REPLAY_CLAIMS :: nat where "MAX_PAIRING_REPLAY_CLAIMS = 4096"
definition MAX_OPERATION_REPLAY_CLAIMS :: nat where "MAX_OPERATION_REPLAY_CLAIMS = 4096"
definition MAX_PIN_ROTATION_AUTHORIZATIONS :: nat where "MAX_PIN_ROTATION_AUTHORIZATIONS = 64"
definition MIN_SECRET_LIFETIME_MS :: u64 where "MIN_SECRET_LIFETIME_MS = 1000"
definition AUTH_PAIRING_TOKEN_LIFETIME_MS :: u64 where
  "AUTH_PAIRING_TOKEN_LIFETIME_MS = 5 * 60 * 1000"
definition MAX_CONTROL_CREDENTIAL_LIFETIME_MS :: u64 where
  "MAX_CONTROL_CREDENTIAL_LIFETIME_MS = 24 * 60 * 60 * 1000"

definition PAIRING_HASH_DOMAIN :: "nat list" where
  "PAIRING_HASH_DOMAIN = lit ''verisilo-remote-auth-v1'' @ [0] @ lit ''pairing-token'' @ [0]"

definition CREDENTIAL_HASH_DOMAIN :: "nat list" where
  "CREDENTIAL_HASH_DOMAIN =
     lit ''verisilo-remote-auth-v1'' @ [0] @ lit ''control-credential'' @ [0]"

record pairing_token_record =
  pt_token_id :: uuid
  pt_digest_sha256 :: str
  pt_issued_at_unix_ms :: u64
  pt_expires_at_unix_ms :: u64

record credential_record =
  cr_credential_id :: uuid
  cr_digest_sha256 :: str
  cr_issued_at_unix_ms :: u64
  cr_expires_at_unix_ms :: u64
  cr_revoked :: bool
  cr_last_request_sequence :: u64

record pairing_replay_claim =
  pc_request_id :: uuid
  pc_nonce :: str

record operation_replay_claim =
  oc_credential_id :: uuid
  oc_request_id :: uuid
  oc_nonce :: str

record pin_rotation_authorization_record =
  ra_challenge :: str
  ra_server_id :: uuid
  ra_credential_id :: uuid
  ra_request_id :: uuid
  ra_request_nonce :: str
  ra_request_sequence :: u64
  ra_response_sequence :: u64
  ra_pairing_token_id :: uuid
  ra_new_pin :: tls_pin
  ra_issued_at_unix_ms :: u64
  ra_expires_at_unix_ms :: u64

record persisted_auth_state =
  au_schema_version :: u32
  au_server_id :: uuid
  au_response_sequence :: u64
  au_pairing_token :: "pairing_token_record option"
  au_credentials :: "credential_record list"
  au_pairing_claims :: "pairing_replay_claim list"
  au_operation_claims :: "operation_replay_claim list"
  au_pin_rotation_authorizations :: "pin_rotation_authorization_record list"

definition persisted_auth_state_new :: "uuid \<Rightarrow> persisted_auth_state" where
  "persisted_auth_state_new server_id =
     \<lparr>au_schema_version = AUTH_SCHEMA_VERSION, au_server_id = server_id,
      au_response_sequence = 0, au_pairing_token = None, au_credentials = [],
      au_pairing_claims = [], au_operation_claims = [],
      au_pin_rotation_authorizations = []\<rparr>"

text \<open>What the operations answer.\<close>

record issued_pairing_token =
  it_token_id :: uuid
  it_secret :: str
  it_expires_at_unix_ms :: u64

record pairing_grant =
  pg_credential_id :: uuid
  pg_credential :: str
  pg_credential_expires_at_unix_ms :: u64
  pg_response_sequence :: u64

record authenticated_operation =
  ao_credential_id :: uuid
  ao_response_sequence :: u64

record pin_rotation_authorization_grant =
  rg_credential_id :: uuid
  rg_response_sequence :: u64
  rg_challenge :: str
  rg_expires_at_unix_ms :: u64

datatype auth_store_error =
    InvalidPath
  | UnsafeFile
  | AlreadyLocked
  | UnsupportedPlatform
  | Io str
  | Json str
  | InvalidState
  | StatePoisoned
  | StateLimitExceeded
  | InvalidLifetime str
  | PairingTokenInvalid
  | PairingTokenExpired
  | PinRotationAuthorizationInvalid
  | Replay
  | CredentialLimitReached
  | CredentialInvalid
  | CredentialExpired
  | CredentialRevoked
  | InvalidRequestIdentity
  | ResponseSequenceExhausted

section \<open>Digests\<close>

fun hex_nibble :: "nat \<Rightarrow> auth_store_error + u8" where
  "hex_nibble value =
     (if 48 \<le> value \<and> value \<le> 57 then Inr (of_nat value - 48)
      else if 97 \<le> value \<and> value \<le> 102 then Inr (of_nat value - 97 + 10)
      else Inl InvalidState)"

definition encode_byte :: "u8 \<Rightarrow> str" where
  "encode_byte byte = [hex_digit (unat (drop_bit 4 byte)), hex_digit (unat (take_bit 4 byte))]"

definition encode_digest :: "u8 list \<Rightarrow> str" where
  "encode_digest digest = concat (map encode_byte digest)"

fun decode_pairs :: "nat list \<Rightarrow> auth_store_error + u8 list" where
  "decode_pairs (high # low # rest) =
     rbind (hex_nibble high) (\<lambda>h. rbind (hex_nibble low) (\<lambda>l.
     rbind (decode_pairs rest) (\<lambda>digest. Inr ((push_bit 4 h OR l) # digest))))"
| "decode_pairs _ = Inr []"

definition decode_digest :: "str \<Rightarrow> auth_store_error + u8 list" where
  "decode_digest value =
     (if str_len value \<noteq> 64 \<or> \<not> list_all is_lower_hex (str_bytes value) then Inl InvalidState
      else decode_pairs (str_bytes value))"

fun difference :: "u8 list \<Rightarrow> u8 list \<Rightarrow> u8 \<Rightarrow> u8" where
  "difference (l # left) (r # right) acc = difference left right (acc OR (l XOR r))"
| "difference _ _ acc = acc"

definition constant_time_eq :: "u8 list \<Rightarrow> u8 list \<Rightarrow> bool" where
  "constant_time_eq left right \<longleftrightarrow> difference left right 0 = 0"

section \<open>Validation\<close>

definition validate_lifetime :: "u64 \<Rightarrow> u64 \<Rightarrow> str \<Rightarrow> auth_store_error + unit" where
  "validate_lifetime lifetime_ms maximum_ms label =
     (if MIN_SECRET_LIFETIME_MS \<le> lifetime_ms \<and> lifetime_ms \<le> maximum_ms then Inr ()
      else Inl (InvalidLifetime label))"

definition validate_secret :: "str \<Rightarrow> auth_store_error + unit" where
  "validate_secret secret =
     (if str_len secret < 32 \<or> 512 < str_len secret
         \<or> \<not> list_all is_base64url (str_bytes secret)
      then Inl CredentialInvalid else Inr ())"

definition validate_request_identity :: "uuid \<Rightarrow> str \<Rightarrow> auth_store_error + unit" where
  "validate_request_identity request_id nonce =
     (if request_id = nil_uuid \<or> str_len nonce < 32 \<or> 128 < str_len nonce
         \<or> \<not> list_all is_base64url (str_bytes nonce)
      then Inl InvalidRequestIdentity else Inr ())"

text \<open>The checks of \<open>validate_state\<close>, per collection; each loop compares with the later entries.\<close>

definition valid_token :: "pairing_token_record \<Rightarrow> bool" where
  "valid_token token \<longleftrightarrow>
     pt_token_id token \<noteq> nil_uuid
     \<and> pt_issued_at_unix_ms token < pt_expires_at_unix_ms token
     \<and> pt_expires_at_unix_ms token - pt_issued_at_unix_ms token \<le> AUTH_PAIRING_TOKEN_LIFETIME_MS
     \<and> is_ok (decode_digest (pt_digest_sha256 token))"

fun valid_credentials :: "credential_record list \<Rightarrow> bool" where
  "valid_credentials [] = True"
| "valid_credentials (credential # rest) =
     (cr_credential_id credential \<noteq> nil_uuid
      \<and> cr_issued_at_unix_ms credential < cr_expires_at_unix_ms credential
      \<and> cr_expires_at_unix_ms credential - cr_issued_at_unix_ms credential
          \<le> MAX_CONTROL_CREDENTIAL_LIFETIME_MS
      \<and> is_ok (decode_digest (cr_digest_sha256 credential))
      \<and> \<not> list_ex (\<lambda>other. cr_credential_id other = cr_credential_id credential
             \<or> cr_digest_sha256 other = cr_digest_sha256 credential) rest
      \<and> valid_credentials rest)"

fun valid_pairing_claims :: "pairing_replay_claim list \<Rightarrow> bool" where
  "valid_pairing_claims [] = True"
| "valid_pairing_claims (claim # rest) =
     (is_ok (validate_request_identity (pc_request_id claim) (pc_nonce claim))
      \<and> \<not> list_ex (\<lambda>other. pc_request_id other = pc_request_id claim
             \<or> pc_nonce other = pc_nonce claim) rest
      \<and> valid_pairing_claims rest)"

fun valid_operation_claims ::
    "credential_record list \<Rightarrow> operation_replay_claim list \<Rightarrow> bool" where
  "valid_operation_claims credentials [] = True"
| "valid_operation_claims credentials (claim # rest) =
     (is_ok (validate_request_identity (oc_request_id claim) (oc_nonce claim))
      \<and> list_ex (\<lambda>item. cr_credential_id item = oc_credential_id claim) credentials
      \<and> \<not> list_ex (\<lambda>other. oc_request_id other = oc_request_id claim
             \<or> oc_nonce other = oc_nonce claim) rest
      \<and> valid_operation_claims credentials rest)"

text \<open>Whether a claim is the one that an authorization's request left.\<close>

definition authorization_claim ::
    "pin_rotation_authorization_record \<Rightarrow> operation_replay_claim \<Rightarrow> bool" where
  "authorization_claim authorization claim \<longleftrightarrow>
     oc_credential_id claim = ra_credential_id authorization
     \<and> oc_request_id claim = ra_request_id authorization
     \<and> oc_nonce claim = ra_request_nonce authorization"

definition valid_authorization ::
    "persisted_auth_state \<Rightarrow> pin_rotation_authorization_record \<Rightarrow> bool" where
  "valid_authorization state authorization \<longleftrightarrow>
     is_ok (validate_request_identity (Uuid 1) (ra_challenge authorization))
     \<and> ra_server_id authorization = au_server_id state
     \<and> ra_credential_id authorization \<noteq> nil_uuid
     \<and> is_ok (validate_request_identity (ra_request_id authorization)
                (ra_request_nonce authorization))
     \<and> ra_request_sequence authorization \<noteq> 0
     \<and> ra_response_sequence authorization \<noteq> 0
     \<and> ra_response_sequence authorization \<le> au_response_sequence state
     \<and> ra_pairing_token_id authorization \<noteq> nil_uuid
     \<and> is_ok (tls_pin_validate (ra_new_pin authorization))
     \<and> ra_issued_at_unix_ms authorization < ra_expires_at_unix_ms authorization
     \<and> ra_expires_at_unix_ms authorization - ra_issued_at_unix_ms authorization
         \<le> MAX_TLS_PIN_ROTATION_AUTHORIZATION_LIFETIME_MS
     \<and> list_ex (\<lambda>credential. cr_credential_id credential = ra_credential_id authorization)
         (au_credentials state)
     \<and> (case au_pairing_token state of None \<Rightarrow> False
         | Some token \<Rightarrow> pt_token_id token = ra_pairing_token_id authorization)
     \<and> list_ex (authorization_claim authorization) (au_operation_claims state)"

fun valid_authorizations ::
    "persisted_auth_state \<Rightarrow> pin_rotation_authorization_record list \<Rightarrow> bool" where
  "valid_authorizations state [] = True"
| "valid_authorizations state (authorization # rest) =
     (valid_authorization state authorization
      \<and> \<not> list_ex (\<lambda>other. ra_challenge other = ra_challenge authorization
             \<or> ra_pairing_token_id other = ra_pairing_token_id authorization) rest
      \<and> valid_authorizations state rest)"

definition validate_auth_state :: "persisted_auth_state \<Rightarrow> auth_store_error + unit" where
  "validate_auth_state state =
     (if au_schema_version state \<noteq> AUTH_SCHEMA_VERSION
         \<or> au_server_id state = nil_uuid
         \<or> MAX_CREDENTIALS < length (au_credentials state)
         \<or> MAX_PAIRING_REPLAY_CLAIMS < length (au_pairing_claims state)
         \<or> MAX_OPERATION_REPLAY_CLAIMS < length (au_operation_claims state)
         \<or> MAX_PIN_ROTATION_AUTHORIZATIONS < length (au_pin_rotation_authorizations state)
      then Inl InvalidState
      else if \<not> (case au_pairing_token state of None \<Rightarrow> True | Some token \<Rightarrow> valid_token token)
      then Inl InvalidState
      else if \<not> valid_credentials (au_credentials state)
      then Inl InvalidState
      else if \<not> valid_pairing_claims (au_pairing_claims state)
      then Inl InvalidState
      else if \<not> valid_operation_claims (au_credentials state) (au_operation_claims state)
      then Inl InvalidState
      else if \<not> valid_authorizations state (au_pin_rotation_authorizations state)
      then Inl InvalidState
      else Inr ())"

section \<open>The state file\<close>

text \<open>What the code asks of the path, and the host it runs on.\<close>

record auth_path =
  ap_is_absolute :: bool
  ap_has_file_name :: bool
  ap_has_parent :: bool
  ap_parent_is_canonical :: bool

record auth_deps =
  ad_sha256 :: "nat list \<Rightarrow> u8 list"
  ad_encode :: "persisted_auth_state \<Rightarrow> str + nat list"
  ad_decode :: "nat list \<Rightarrow> str + persisted_auth_state"

record auth_store =
  as_state :: persisted_auth_state
  as_poisoned :: bool
  as_disk :: disk
  as_host :: host

definition on_disk ::
    "(disk \<Rightarrow> (str, 'a, disk) outcome) \<Rightarrow> auth_store \<Rightarrow> (auth_store_error, 'a, auth_store) outcome"
  where
  "on_disk f st = (case f (as_disk st) of (r, d) \<Rightarrow> (map_err Io r, st\<lparr>as_disk := d\<rparr>))"

definition reject_symlink_if_present ::
    "auth_store \<Rightarrow> (auth_store_error, unit, auth_store) outcome" where
  "reject_symlink_if_present st = on_disk fs_probe st"

text \<open>
  Checking and, where needed, setting a file's mode changes no contents: one operation that may
  fail stands for the query and the change.
\<close>

definition set_mode_0600 ::
    "file_name \<Rightarrow> auth_store \<Rightarrow> (auth_store_error, unit, auth_store) outcome" where
  "set_mode_0600 n st = on_disk (fs_metadata n) st"

definition sync_parent :: "auth_store \<Rightarrow> (auth_store_error, unit, auth_store) outcome" where
  "sync_parent st = on_disk fs_sync_dir st"

definition auth_persist ::
    "auth_deps \<Rightarrow> persisted_auth_state \<Rightarrow> auth_store
     \<Rightarrow> (auth_store_error, unit, auth_store) outcome" where
  "auth_persist D state st =
     sbind (map_err Json (ad_encode D state), st) (\<lambda>raw st.
     if MAX_AUTH_STATE_BYTES < length raw then (Inl StateLimitExceeded, st)
     else
       sbind (reject_symlink_if_present st) (\<lambda>_ st.
       sbind (if fs_exists TmpFile (as_disk st) then on_disk (fs_remove_file TmpFile) st
              else (Inr (), st)) (\<lambda>_ st.
       sbind (on_disk (fs_create_new TmpFile) st) (\<lambda>_ st.
       case on_disk (\<lambda>d. sbind (fs_write_all TmpFile raw d) (\<lambda>_ d. fs_sync_file TmpFile d)) st of
         (Inl error, st) \<Rightarrow> (Inl error, snd (on_disk (fs_remove_file TmpFile) st))
       | (Inr _, st) \<Rightarrow>
           sbind (on_disk (fs_rename TmpFile StateFile) st) (\<lambda>_ st.
           sbind (set_mode_0600 StateFile st) (\<lambda>_ st.
           sync_parent st))))))"

definition read_state_file ::
    "auth_deps \<Rightarrow> file_name \<Rightarrow> auth_store
     \<Rightarrow> (auth_store_error, persisted_auth_state, auth_store) outcome" where
  "read_state_file D n st =
     sbind (reject_symlink_if_present st) (\<lambda>_ st.
     sbind (on_disk (fs_metadata n) st) (\<lambda>_ st.
     if MAX_AUTH_STATE_BYTES < length (file_bytes (the (dk_now (as_disk st) n)))
     then (Inl UnsafeFile, st)
     else
       sbind (set_mode_0600 n st) (\<lambda>_ st.
       sbind (on_disk (fs_read n) st) (\<lambda>raw st.
       if MAX_AUTH_STATE_BYTES < length raw then (Inl StateLimitExceeded, st)
       else
         sbind (map_err Json (ad_decode D raw), st) (\<lambda>state st.
         sbind (validate_auth_state state, st) (\<lambda>_ st.
         (Inr state, st)))))))"

definition auth_recover_interrupted_write ::
    "auth_deps \<Rightarrow> auth_store \<Rightarrow> (auth_store_error, unit, auth_store) outcome" where
  "auth_recover_interrupted_write D st =
     sbind (reject_symlink_if_present st) (\<lambda>_ st.
     if fs_exists StateFile (as_disk st)
     then if fs_exists TmpFile (as_disk st) then on_disk (fs_remove_file TmpFile) st
          else (Inr (), st)
     else if fs_exists TmpFile (as_disk st)
     then sbind (read_state_file D TmpFile st) (\<lambda>state st.
          sbind (validate_auth_state state, st) (\<lambda>_ st.
          sbind (on_disk (fs_rename TmpFile StateFile) st) (\<lambda>_ st.
          sbind (set_mode_0600 StateFile st) (\<lambda>_ st.
          sync_parent st))))
     else (Inr (), st))"

definition validate_state_path ::
    "auth_path \<Rightarrow> auth_store \<Rightarrow> (auth_store_error, unit, auth_store) outcome" where
  "validate_state_path path st =
     (if \<not> ap_is_absolute path \<or> \<not> ap_has_file_name path then (Inl InvalidPath, st)
      else if \<not> ap_has_parent path then (Inl InvalidPath, st)
      else if \<not> ap_parent_is_canonical path then (Inl InvalidPath, st)
      else reject_symlink_if_present st)"

definition open_lock_file :: "auth_store \<Rightarrow> (auth_store_error, unit, auth_store) outcome" where
  "open_lock_file st =
     sbind (on_disk (fs_open_or_create LockFile) st) (\<lambda>_ st. set_mode_0600 LockFile st)"

definition auth_new_v4 :: "auth_store \<Rightarrow> uuid \<times> auth_store" where
  "auth_new_v4 st = (case new_v4 (as_host st) of (u, h) \<Rightarrow> (u, st\<lparr>as_host := h\<rparr>))"

definition auth_open ::
    "auth_deps \<Rightarrow> auth_path \<Rightarrow> auth_store_error + unit \<Rightarrow> disk \<Rightarrow> host
     \<Rightarrow> (auth_store_error, auth_store, auth_store) outcome" where
  "auth_open D path lock disk host =
     (let st = \<lparr>as_state = persisted_auth_state_new nil_uuid, as_poisoned = False,
               as_disk = disk, as_host = host\<rparr> in
      sbind (validate_state_path path st) (\<lambda>_ st.
      sbind (reject_symlink_if_present st) (\<lambda>_ st.
      sbind (open_lock_file st) (\<lambda>_ st.
      sbind (lock, st) (\<lambda>_ st.
      sbind (auth_recover_interrupted_write D st) (\<lambda>_ st.
      sbind (if fs_exists StateFile (as_disk st) then read_state_file D StateFile st
             else let (server_id, st) = auth_new_v4 st
                  in (Inr (persisted_auth_state_new server_id), st)) (\<lambda>state st.
      sbind (validate_auth_state state, st) (\<lambda>_ st.
      let store = st\<lparr>as_state := state, as_poisoned := False\<rparr> in
      if fs_exists StateFile (as_disk store) then (Inr store, store)
      else sbind (auth_persist D state store) (\<lambda>_ store. (Inr store, store))))))))))"

definition auth_commit ::
    "auth_deps \<Rightarrow> persisted_auth_state \<Rightarrow> auth_store
     \<Rightarrow> (auth_store_error, unit, auth_store) outcome" where
  "auth_commit D prospective st =
     (if as_poisoned st then (Inl StatePoisoned, st)
      else
        sbind (validate_auth_state prospective, st) (\<lambda>_ st.
        case auth_persist D prospective st of
          (Inl error, st) \<Rightarrow> (Inl error, st\<lparr>as_poisoned := True\<rparr>)
        | (Inr _, st) \<Rightarrow> (Inr (), st\<lparr>as_state := prospective\<rparr>)))"

definition auth_mutate ::
    "auth_deps \<Rightarrow> (persisted_auth_state \<Rightarrow> auth_store_error + persisted_auth_state) \<Rightarrow> auth_store
     \<Rightarrow> (auth_store_error, unit, auth_store) outcome" where
  "auth_mutate D change st =
     sbind (change (as_state st), st) (\<lambda>prospective st. auth_commit D prospective st)"

section \<open>Credentials\<close>

definition hash_secret :: "auth_deps \<Rightarrow> nat list \<Rightarrow> str \<Rightarrow> u8 list" where
  "hash_secret D domain secret = ad_sha256 D (domain @ str_bytes secret)"

definition hash_secret_hex :: "auth_deps \<Rightarrow> nat list \<Rightarrow> str \<Rightarrow> str" where
  "hash_secret_hex D domain secret = encode_digest (hash_secret D domain secret)"

definition fresh_nonce :: "auth_store \<Rightarrow> str \<times> auth_store" where
  "fresh_nonce st = (case auth_new_v4 st of (u, st) \<Rightarrow> (uuid_simple u, st))"

definition new_high_entropy_secret :: "auth_store \<Rightarrow> str \<times> auth_store" where
  "new_high_entropy_secret st =
     (let (a, st) = auth_new_v4 st; (b, st) = auth_new_v4 st
      in (uuid_simple a @ uuid_simple b, st))"

definition increment_response_sequence ::
    "persisted_auth_state \<Rightarrow> auth_store_error + persisted_auth_state" where
  "increment_response_sequence state =
     rbind (ok_or ResponseSequenceExhausted (checked_add (au_response_sequence state) 1))
       (\<lambda>sequence. Inr (state\<lparr>au_response_sequence := sequence\<rparr>))"

text \<open>The search goes through all credentials and keeps the last match.\<close>

fun matching_loop ::
    "credential_record list \<Rightarrow> u8 list \<Rightarrow> nat \<Rightarrow> nat option \<Rightarrow> auth_store_error + nat option" where
  "matching_loop [] supplied_digest index matching = Inr matching"
| "matching_loop (credential # rest) supplied_digest index matching =
     rbind (decode_digest (cr_digest_sha256 credential)) (\<lambda>expected.
     matching_loop rest supplied_digest (Suc index)
       (if constant_time_eq expected supplied_digest then Some index else matching))"

definition matching_credential_index ::
    "persisted_auth_state \<Rightarrow> u8 list \<Rightarrow> auth_store_error + nat" where
  "matching_credential_index state supplied_digest =
     (if au_credentials state = [] then Inl CredentialInvalid
      else rbind (matching_loop (au_credentials state) supplied_digest 0 None)
             (ok_or CredentialInvalid))"

text \<open>Pushing onto a bounded window drops the oldest entry of a full one.\<close>

definition push_claim :: "nat \<Rightarrow> 'a \<Rightarrow> 'a list \<Rightarrow> 'a list" where
  "push_claim bound claim claims = (if length claims = bound then tl claims else claims) @ [claim]"

section \<open>Pairing\<close>

definition issue_pairing_token ::
    "auth_deps \<Rightarrow> u64 \<Rightarrow> u64 \<Rightarrow> auth_store
     \<Rightarrow> (auth_store_error, issued_pairing_token, auth_store) outcome" where
  "issue_pairing_token D now lifetime_ms st =
     sbind (validate_lifetime lifetime_ms AUTH_PAIRING_TOKEN_LIFETIME_MS (lit ''pairing token''), st)
       (\<lambda>_ st.
     sbind (ok_or (InvalidLifetime (lit ''pairing token'')) (checked_add now lifetime_ms), st)
       (\<lambda>expires_at st.
     let (token_id, st) = auth_new_v4 st;
         (secret, st) = new_high_entropy_secret st;
         digest_sha256 = hash_secret_hex D PAIRING_HASH_DOMAIN secret in
     sbind (auth_mutate D (\<lambda>state.
         Inr (state\<lparr>au_pairing_token := Some \<lparr>pt_token_id = token_id,
                       pt_digest_sha256 = digest_sha256, pt_issued_at_unix_ms = now,
                       pt_expires_at_unix_ms = expires_at\<rparr>,
                     au_pin_rotation_authorizations := []\<rparr>)) st) (\<lambda>_ st.
     (Inr \<lparr>it_token_id = token_id, it_secret = secret, it_expires_at_unix_ms = expires_at\<rparr>,
      st))))"

definition credential_is_active :: "u64 \<Rightarrow> credential_record \<Rightarrow> bool" where
  "credential_is_active now credential \<longleftrightarrow>
     \<not> cr_revoked credential \<and> now < cr_expires_at_unix_ms credential"

definition rotation_claim_matches ::
    "persisted_auth_state \<Rightarrow> uuid \<Rightarrow> u64 \<Rightarrow> pin_rotation_authorization_record
     \<Rightarrow> tls_pin_rotation_pairing_claim \<Rightarrow> bool" where
  "rotation_claim_matches state token_id now authorization claim \<longleftrightarrow>
     now < ra_expires_at_unix_ms authorization
     \<and> tc_server_id claim = au_server_id state
     \<and> tc_server_id claim = ra_server_id authorization
     \<and> tc_pairing_token_id claim = token_id
     \<and> tc_challenge claim = ra_challenge authorization
     \<and> tc_old_client_credential_id claim = ra_credential_id authorization
     \<and> tc_authorization_request_id claim = ra_request_id authorization
     \<and> tc_authorization_request_nonce claim = ra_request_nonce authorization
     \<and> tc_authorization_request_sequence claim = ra_request_sequence authorization
     \<and> tc_authorization_response_sequence claim = ra_response_sequence authorization
     \<and> tc_authorization_expires_at_unix_ms claim = ra_expires_at_unix_ms authorization
     \<and> tc_new_pin claim = ra_new_pin authorization
     \<and> list_ex (\<lambda>credential. cr_credential_id credential = ra_credential_id authorization
                     \<and> credential_is_active now credential) (au_credentials state)"

text \<open>The changes of a redemption, from the checks on to the new credential.\<close>

definition check_pairing_token ::
    "persisted_auth_state \<Rightarrow> uuid \<Rightarrow> u8 list \<Rightarrow> u64 \<Rightarrow> u64 \<Rightarrow> auth_store_error + unit" where
  "check_pairing_token state token_id supplied_digest advertised_expires_at now =
     rbind (ok_or PairingTokenInvalid (au_pairing_token state)) (\<lambda>token.
     if pt_expires_at_unix_ms token \<le> now then Inl PairingTokenExpired
     else rbind (decode_digest (pt_digest_sha256 token)) (\<lambda>expected_digest.
       if pt_token_id token \<noteq> token_id
          \<or> pt_expires_at_unix_ms token \<noteq> advertised_expires_at
          \<or> \<not> constant_time_eq expected_digest supplied_digest
       then Inl PairingTokenInvalid else Inr ()))"

definition check_rotation ::
    "persisted_auth_state \<Rightarrow> uuid \<Rightarrow> u64 \<Rightarrow> tls_pin_rotation_pairing_claim option
     \<Rightarrow> auth_store_error + unit" where
  "check_rotation state token_id now rotation =
     (case (find (\<lambda>authorization. ra_pairing_token_id authorization = token_id)
              (au_pin_rotation_authorizations state), rotation) of
        (None, None) \<Rightarrow> Inr ()
      | (Some authorization, Some claim) \<Rightarrow>
          if rotation_claim_matches state token_id now authorization claim then Inr ()
          else Inl PinRotationAuthorizationInvalid
      | _ \<Rightarrow> Inl PinRotationAuthorizationInvalid)"

definition purge_credentials :: "u64 \<Rightarrow> persisted_auth_state \<Rightarrow> persisted_auth_state" where
  "purge_credentials now state =
     (let credentials = filter (credential_is_active now) (au_credentials state) in
      state\<lparr>au_credentials := credentials,
            au_operation_claims :=
              filter (\<lambda>claim. oc_credential_id claim \<in> set (map cr_credential_id credentials))
                (au_operation_claims state)\<rparr>)"

definition redeem_change ::
    "uuid \<Rightarrow> str \<Rightarrow> uuid \<Rightarrow> u8 list \<Rightarrow> u64 \<Rightarrow> u64 \<Rightarrow> credential_record
     \<Rightarrow> tls_pin_rotation_pairing_claim option \<Rightarrow> persisted_auth_state
     \<Rightarrow> auth_store_error + persisted_auth_state" where
  "redeem_change request_id nonce token_id supplied_digest advertised_expires_at now credential
       rotation state =
     (if list_ex (\<lambda>claim. pc_request_id claim = request_id \<or> pc_nonce claim = nonce)
           (au_pairing_claims state)
      then Inl Replay
      else
        rbind (check_pairing_token state token_id supplied_digest advertised_expires_at now) (\<lambda>_.
        rbind (check_rotation state token_id now rotation) (\<lambda>_.
        let state = purge_credentials now state in
        if MAX_CREDENTIALS \<le> length (au_credentials state) then Inl CredentialLimitReached
        else
          rbind (increment_response_sequence state) (\<lambda>state.
          Inr (state\<lparr>
            au_pairing_token := None,
            au_pin_rotation_authorizations :=
              filter (\<lambda>authorization. ra_pairing_token_id authorization \<noteq> token_id)
                (au_pin_rotation_authorizations state),
            au_pairing_claims :=
              push_claim MAX_PAIRING_REPLAY_CLAIMS
                \<lparr>pc_request_id = request_id, pc_nonce = nonce\<rparr> (au_pairing_claims state),
            au_credentials := au_credentials state @ [credential]\<rparr>)))))"

definition redeem_pairing_token_inner ::
    "auth_deps \<Rightarrow> uuid \<Rightarrow> str \<Rightarrow> uuid \<Rightarrow> str \<Rightarrow> u64 \<Rightarrow> u64 \<Rightarrow> u64
     \<Rightarrow> tls_pin_rotation_pairing_claim option \<Rightarrow> auth_store
     \<Rightarrow> (auth_store_error, pairing_grant, auth_store) outcome" where
  "redeem_pairing_token_inner D request_id nonce token_id token_secret advertised_expires_at now
       credential_lifetime_ms rotation st =
     sbind (validate_request_identity request_id nonce, st) (\<lambda>_ st.
     sbind (validate_secret token_secret, st) (\<lambda>_ st.
     sbind (validate_lifetime credential_lifetime_ms MAX_CONTROL_CREDENTIAL_LIFETIME_MS
              (lit ''control credential''), st) (\<lambda>_ st.
     sbind (ok_or (InvalidLifetime (lit ''control credential''))
              (checked_add now credential_lifetime_ms), st) (\<lambda>credential_expires_at st.
     let supplied_digest = hash_secret D PAIRING_HASH_DOMAIN token_secret;
         (credential_id, st) = auth_new_v4 st;
         (credential, st) = new_high_entropy_secret st;
         credential_digest = hash_secret_hex D CREDENTIAL_HASH_DOMAIN credential in
     sbind (redeem_change request_id nonce token_id supplied_digest advertised_expires_at now
              \<lparr>cr_credential_id = credential_id, cr_digest_sha256 = credential_digest,
               cr_issued_at_unix_ms = now, cr_expires_at_unix_ms = credential_expires_at,
               cr_revoked = False, cr_last_request_sequence = 0\<rparr>
              rotation (as_state st), st) (\<lambda>prospective st.
     sbind (auth_commit D prospective st) (\<lambda>_ st.
     (Inr \<lparr>pg_credential_id = credential_id, pg_credential = credential,
           pg_credential_expires_at_unix_ms = credential_expires_at,
           pg_response_sequence = au_response_sequence prospective\<rparr>, st)))))))"

definition redeem_pairing_token ::
    "auth_deps \<Rightarrow> uuid \<Rightarrow> str \<Rightarrow> uuid \<Rightarrow> str \<Rightarrow> u64 \<Rightarrow> u64 \<Rightarrow> u64 \<Rightarrow> auth_store
     \<Rightarrow> (auth_store_error, pairing_grant, auth_store) outcome" where
  "redeem_pairing_token D request_id nonce token_id token_secret advertised_expires_at now
       credential_lifetime_ms =
     redeem_pairing_token_inner D request_id nonce token_id token_secret advertised_expires_at now
       credential_lifetime_ms None"

definition redeem_pairing_token_for_rotation ::
    "auth_deps \<Rightarrow> uuid \<Rightarrow> str \<Rightarrow> uuid \<Rightarrow> str \<Rightarrow> u64 \<Rightarrow> u64 \<Rightarrow> u64
     \<Rightarrow> tls_pin_rotation_pairing_claim \<Rightarrow> auth_store
     \<Rightarrow> (auth_store_error, pairing_grant, auth_store) outcome" where
  "redeem_pairing_token_for_rotation D request_id nonce token_id token_secret advertised_expires_at
       now credential_lifetime_ms rotation =
     redeem_pairing_token_inner D request_id nonce token_id token_secret advertised_expires_at now
       credential_lifetime_ms (Some rotation)"

section \<open>Authenticated requests\<close>

text \<open>The checks that an operation and a rotation authorization share.\<close>

definition claim_operation ::
    "uuid \<Rightarrow> str \<Rightarrow> u64 \<Rightarrow> u64 \<Rightarrow> nat \<Rightarrow> persisted_auth_state \<Rightarrow> auth_store_error + unit" where
  "claim_operation request_id nonce request_sequence now index state =
     (let credential = au_credentials state ! index in
      if cr_revoked credential then Inl CredentialRevoked
      else if cr_expires_at_unix_ms credential \<le> now then Inl CredentialExpired
      else if request_sequence \<le> cr_last_request_sequence credential
              \<or> list_ex (\<lambda>claim. oc_request_id claim = request_id \<or> oc_nonce claim = nonce)
                  (au_operation_claims state)
      then Inl Replay
      else Inr ())"

definition record_operation ::
    "uuid \<Rightarrow> str \<Rightarrow> u64 \<Rightarrow> nat \<Rightarrow> persisted_auth_state \<Rightarrow> persisted_auth_state" where
  "record_operation request_id nonce request_sequence index state =
     (let credential = au_credentials state ! index in
      state\<lparr>au_credentials := (au_credentials state)[index :=
               credential\<lparr>cr_last_request_sequence := request_sequence\<rparr>],
            au_operation_claims :=
              push_claim MAX_OPERATION_REPLAY_CLAIMS
                \<lparr>oc_credential_id = cr_credential_id credential, oc_request_id = request_id,
                 oc_nonce = nonce\<rparr> (au_operation_claims state)\<rparr>)"

definition check_rotation_token ::
    "uuid \<Rightarrow> u64 \<Rightarrow> persisted_auth_state \<Rightarrow> auth_store_error + unit" where
  "check_rotation_token pairing_token_id now state =
     rbind (ok_or PairingTokenInvalid (au_pairing_token state)) (\<lambda>token.
     if pt_token_id token \<noteq> pairing_token_id \<or> pt_expires_at_unix_ms token \<le> now
     then Inl PairingTokenInvalid else Inr ())"

definition drop_authorizations :: "uuid \<Rightarrow> u64 \<Rightarrow> persisted_auth_state \<Rightarrow> persisted_auth_state" where
  "drop_authorizations pairing_token_id now state =
     state\<lparr>au_pin_rotation_authorizations :=
       filter (\<lambda>authorization. now < ra_expires_at_unix_ms authorization
                 \<and> ra_pairing_token_id authorization \<noteq> pairing_token_id)
         (au_pin_rotation_authorizations state)\<rparr>"

definition authorize_pin_rotation ::
    "auth_deps \<Rightarrow> str \<Rightarrow> uuid \<Rightarrow> str \<Rightarrow> u64 \<Rightarrow> uuid \<Rightarrow> uuid \<Rightarrow> tls_pin \<Rightarrow> u64 \<Rightarrow> auth_store
     \<Rightarrow> (auth_store_error, pin_rotation_authorization_grant, auth_store) outcome" where
  "authorize_pin_rotation D bearer request_id nonce request_sequence expected_credential_id
       pairing_token_id new_pin now st =
     sbind (validate_secret bearer, st) (\<lambda>_ st.
     sbind (validate_request_identity request_id nonce, st) (\<lambda>_ st.
     sbind (map_err (\<lambda>_. InvalidRequestIdentity) (tls_pin_validate new_pin), st) (\<lambda>_ st.
     if request_sequence = 0 \<or> expected_credential_id = nil_uuid \<or> pairing_token_id = nil_uuid
     then (Inl InvalidRequestIdentity, st)
     else
       sbind (matching_credential_index (as_state st) (hash_secret D CREDENTIAL_HASH_DOMAIN bearer),
              st) (\<lambda>index st.
       sbind (claim_operation request_id nonce request_sequence now index (as_state st), st) (\<lambda>_ st.
       sbind (check_rotation_token pairing_token_id now (as_state st), st) (\<lambda>_ st.
       let credential_id = cr_credential_id (au_credentials (as_state st) ! index) in
       if credential_id \<noteq> expected_credential_id then (Inl CredentialInvalid, st)
       else
         let prospective = drop_authorizations pairing_token_id now
               (record_operation request_id nonce request_sequence index (as_state st)) in
         if MAX_PIN_ROTATION_AUTHORIZATIONS \<le> length (au_pin_rotation_authorizations prospective)
         then (Inl StateLimitExceeded, st)
         else
           let (challenge, st) = fresh_nonce st in
           sbind (ok_or (InvalidLifetime (lit ''pin rotation authorization''))
                    (checked_add now MAX_TLS_PIN_ROTATION_AUTHORIZATION_LIFETIME_MS), st)
             (\<lambda>expires_at st.
           sbind (increment_response_sequence prospective, st) (\<lambda>prospective st.
           let response_sequence = au_response_sequence prospective;
               prospective = prospective\<lparr>au_pin_rotation_authorizations :=
                 au_pin_rotation_authorizations prospective @
                 [\<lparr>ra_challenge = challenge, ra_server_id = au_server_id prospective,
                   ra_credential_id = credential_id, ra_request_id = request_id,
                   ra_request_nonce = nonce, ra_request_sequence = request_sequence,
                   ra_response_sequence = response_sequence,
                   ra_pairing_token_id = pairing_token_id, ra_new_pin = new_pin,
                   ra_issued_at_unix_ms = now, ra_expires_at_unix_ms = expires_at\<rparr>]\<rparr> in
           sbind (auth_commit D prospective st) (\<lambda>_ st.
           (Inr \<lparr>rg_credential_id = credential_id, rg_response_sequence = response_sequence,
                 rg_challenge = challenge, rg_expires_at_unix_ms = expires_at\<rparr>, st))))))))))"

definition authenticate_operation ::
    "auth_deps \<Rightarrow> str \<Rightarrow> uuid \<Rightarrow> str \<Rightarrow> u64 \<Rightarrow> u64 \<Rightarrow> auth_store
     \<Rightarrow> (auth_store_error, authenticated_operation, auth_store) outcome" where
  "authenticate_operation D bearer request_id nonce request_sequence now st =
     sbind (validate_secret bearer, st) (\<lambda>_ st.
     sbind (validate_request_identity request_id nonce, st) (\<lambda>_ st.
     if request_sequence = 0 then (Inl InvalidRequestIdentity, st)
     else
       sbind (matching_credential_index (as_state st) (hash_secret D CREDENTIAL_HASH_DOMAIN bearer),
              st) (\<lambda>index st.
       sbind (claim_operation request_id nonce request_sequence now index (as_state st), st) (\<lambda>_ st.
       let credential_id = cr_credential_id (au_credentials (as_state st) ! index) in
       sbind (increment_response_sequence
                (record_operation request_id nonce request_sequence index (as_state st)), st)
         (\<lambda>prospective st.
       sbind (auth_commit D prospective st) (\<lambda>_ st.
       (Inr \<lparr>ao_credential_id = credential_id,
             ao_response_sequence = au_response_sequence prospective\<rparr>, st)))))))"

definition authenticate ::
    "auth_deps \<Rightarrow> str \<Rightarrow> u64 \<Rightarrow> auth_store \<Rightarrow> auth_store_error + uuid" where
  "authenticate D bearer now st =
     rbind (validate_secret bearer) (\<lambda>_.
     rbind (matching_credential_index (as_state st) (hash_secret D CREDENTIAL_HASH_DOMAIN bearer))
       (\<lambda>index.
     let credential = au_credentials (as_state st) ! index in
     if cr_revoked credential then Inl CredentialRevoked
     else if cr_expires_at_unix_ms credential \<le> now then Inl CredentialExpired
     else Inr (cr_credential_id credential)))"

definition has_active_credentials :: "u64 \<Rightarrow> auth_store \<Rightarrow> bool" where
  "has_active_credentials now st \<longleftrightarrow>
     list_ex (credential_is_active now) (au_credentials (as_state st))"

section \<open>Revocation\<close>

fun revoke_first :: "uuid \<Rightarrow> credential_record list \<Rightarrow> credential_record list option" where
  "revoke_first credential_id [] = None"
| "revoke_first credential_id (credential # rest) =
     (if cr_credential_id credential = credential_id
      then Some (credential\<lparr>cr_revoked := True\<rparr> # rest)
      else map_option (\<lambda>rest. credential # rest) (revoke_first credential_id rest))"

definition revoke_credential ::
    "auth_deps \<Rightarrow> uuid \<Rightarrow> auth_store \<Rightarrow> (auth_store_error, unit, auth_store) outcome" where
  "revoke_credential D credential_id st =
     auth_mutate D (\<lambda>state.
       rbind (ok_or CredentialInvalid (revoke_first credential_id (au_credentials state)))
         (\<lambda>credentials. Inr (state\<lparr>au_credentials := credentials\<rparr>))) st"

definition revoke_all_credentials ::
    "auth_deps \<Rightarrow> auth_store \<Rightarrow> (auth_store_error, nat, auth_store) outcome" where
  "revoke_all_credentials D st =
     (let prospective = (as_state st)\<lparr>au_credentials :=
            map (cr_revoked_update (\<lambda>_. True)) (au_credentials (as_state st))\<rparr>;
          revoked = length (filter (\<lambda>credential. \<not> cr_revoked credential)
                              (au_credentials (as_state st))) in
      sbind (auth_commit D prospective st) (\<lambda>_ st. (Inr revoked, st)))"

definition reserve_response_sequence ::
    "auth_deps \<Rightarrow> auth_store \<Rightarrow> (auth_store_error, u64, auth_store) outcome" where
  "reserve_response_sequence D st =
     sbind (increment_response_sequence (as_state st), st) (\<lambda>prospective st.
     sbind (auth_commit D prospective st) (\<lambda>_ st.
     (Inr (au_response_sequence prospective), st)))"

end
