(* ===== verification/Auth_Facts.thy ===== *)
theory Auth_Facts
  imports Auth_Store Transactions
begin

text \<open>
  Facts about the authentication store: digests, the transaction that every operation commits,
  and what each operation does to the state.
\<close>

section \<open>Digests\<close>

lemma xor_zero_iff: "l XOR r = 0 \<longleftrightarrow> l = (r :: 'l::len word)"
  by (metis xor.assoc xor.left_neutral xor.right_neutral xor_self_eq)

lemma difference_zero:
  "length left = length right \<Longrightarrow> difference left right acc = 0 \<longleftrightarrow> acc = 0 \<and> left = right"
  by (induction left right acc rule: difference.induct) (auto simp: or_eq_0_iff xor_zero_iff)

lemma constant_time_eq_iff:
  "length left = length right \<Longrightarrow> constant_time_eq left right \<longleftrightarrow> left = right"
  by (simp add: constant_time_eq_def difference_zero)

lemma hex_nibble_digit: "n < 16 \<Longrightarrow> hex_nibble (hex_digit n) = Inr (of_nat n)"
  by (auto simp: hex_digit_def of_nat_diff)

declare hex_nibble.simps [simp del]

lemma nibble_less:
  "unat (drop_bit 4 b) < 16" "unat (take_bit 4 b) < 16" for b :: u8
proof -
  have "unat b < 256" using unsigned_less [of b] by simp
  then show "unat (drop_bit 4 b) < 16" "unat (take_bit 4 b) < 16"
    by (simp_all add: drop_bit_eq_div take_bit_eq_mod unat_div unat_mod)
qed

lemma byte_of_nibbles: "push_bit 4 (drop_bit 4 b) OR take_bit 4 b = (b :: u8)"
  by (simp add: bit_eq_iff bit_simps) auto

lemma decode_encode_pairs: "decode_pairs (encode_digest d) = Inr d"
  by (induction d)
    (simp_all add: encode_digest_def encode_byte_def hex_nibble_digit nibble_less byte_of_nibbles)

lemma encode_digest_lower_hex: "c \<in> set (encode_digest d) \<Longrightarrow> is_lower_hex c"
  by (auto simp: encode_digest_def encode_byte_def hex_digit_lower_hex nibble_less)

lemma encode_digest_bytes [simp]: "str_bytes (encode_digest d) = encode_digest d"
  by (rule str_bytes_lower_hex) (blast intro: encode_digest_lower_hex)

lemma length_encode_digest [simp]: "length (encode_digest d) = 2 * length d"
  by (induction d) (simp_all add: encode_digest_def encode_byte_def)

lemma decode_encode_digest: "length d = 32 \<Longrightarrow> decode_digest (encode_digest d) = Inr d"
  by (auto simp: decode_digest_def str_len_def list_all_iff decode_encode_pairs
      dest: encode_digest_lower_hex)

lemma decode_pairs_length:
  "decode_pairs v = Inr d \<Longrightarrow> length d = length v div 2"
  by (induction v arbitrary: d rule: decode_pairs.induct)
    (auto simp: rbind_def split: sum.splits)

lemma decode_digest_length: "decode_digest v = Inr d \<Longrightarrow> length d = 32"
  by (auto simp: decode_digest_def str_len_def dest: decode_pairs_length split: if_splits)

lemma hex_nibble_Inr:
  assumes "is_lower_hex c" obtains n where "n < 16" "c = hex_digit n"
proof -
  from assms have "c = hex_digit (if c \<le> 57 then c - 48 else c - 87)"
      and "(if c \<le> 57 then c - 48 else c - 87) < 16"
    by (auto simp: hex_digit_def ascii_class_defs)
  then show thesis using that by blast
qed

lemma nibbles_of_byte:
  assumes "m < 16" "n < 16"
  shows "encode_byte (push_bit 4 (of_nat m) OR of_nat n) = [hex_digit m, hex_digit n]"
proof -
  have small: "(of_nat k :: u8) = take_bit 4 (of_nat k)" "unat (of_nat k :: u8) = k"
    if "k < 16" for k
    using that by (simp_all add: take_bit_of_nat take_bit_nat_eq_self unsigned_of_nat)
  have "drop_bit 4 (push_bit 4 (take_bit 4 a) OR take_bit 4 b) = take_bit 4 a"
    "take_bit 4 (push_bit 4 (take_bit 4 a) OR take_bit 4 b) = take_bit 4 b" for a b :: u8
    by (auto simp: bit_eq_iff bit_simps)
  from this [of "of_nat m" "of_nat n"] small [OF assms(1)] small [OF assms(2)] show ?thesis
    by (simp add: encode_byte_def)
qed

lemma encode_decode_pairs:
  "\<forall>c \<in> set v. is_lower_hex c \<Longrightarrow> even (length v)
   \<Longrightarrow> \<exists>d. decode_pairs v = Inr d \<and> encode_digest d = v"
proof (induction v rule: decode_pairs.induct)
  case (1 high low rest)
  then obtain d where d: "decode_pairs rest = Inr d" "encode_digest d = rest" by auto
  from 1(2) obtain m n where mn: "m < 16" "high = hex_digit m" "n < 16" "low = hex_digit n"
    by (metis hex_nibble_Inr list.set_intros(1,2))
  with d show ?case
    using nibbles_of_byte [OF mn(1,3)] by (simp add: hex_nibble_digit encode_digest_def)
qed (auto simp: encode_digest_def)

lemma encode_decode_digest:
  assumes "decode_digest v = Inr d" shows "encode_digest d = v"
proof -
  from assms have hex: "list_all is_lower_hex (str_bytes v)" and len: "str_len v = 64"
    by (auto simp: decode_digest_def split: if_splits)
  have v: "str_bytes v = v"
    by (rule ascii_str_bytes) (use hex lower_hex_ascii in \<open>auto simp: list_all_iff\<close>)
  with hex len encode_decode_pairs [of v] assms show ?thesis
    by (auto simp: decode_digest_def str_len_def list_all_iff)
qed

lemma decode_digest_inj: "decode_digest v = Inr d \<Longrightarrow> decode_digest w = Inr d \<Longrightarrow> v = w"
  using encode_decode_digest by metis

section \<open>Matching credentials\<close>

lemma matching_loop_index:
  assumes "matching_loop cs d k m = Inr (Some i)" and "length d = 32"
  shows "m = Some i \<or> (k \<le> i \<and> i < k + length cs
    \<and> decode_digest (cr_digest_sha256 (cs ! (i - k))) = Inr d)"
  using assms
proof (induction cs d k m rule: matching_loop.induct)
  case (2 c rest d k m)
  from 2(2) obtain e where e: "decode_digest (cr_digest_sha256 c) = Inr e"
    "matching_loop rest d (Suc k) (if constant_time_eq e d then Some k else m) = Inr (Some i)"
    by auto
  have "constant_time_eq e d \<longleftrightarrow> e = d"
    by (rule constant_time_eq_iff) (simp add: decode_digest_length [OF e(1)] 2(3))
  moreover from 2(1) [OF e(2)] 2(3) have
    "(if constant_time_eq e d then Some k else m) = Some i
     \<or> (Suc k \<le> i \<and> i < Suc k + length rest
         \<and> decode_digest (cr_digest_sha256 (rest ! (i - Suc k))) = Inr d)" by simp
  ultimately show ?case using e(1) by (auto split: if_splits simp: Suc_diff_Suc nth_Cons')
qed simp

lemma matching_credential_indexD:
  assumes "matching_credential_index s d = Inr i" and "length d = 32"
  shows "i < length (au_credentials s)"
    and "decode_digest (cr_digest_sha256 (au_credentials s ! i)) = Inr d"
  using assms matching_loop_index [of "au_credentials s" d 0 None i]
  by (auto simp: matching_credential_index_def split: if_splits)

text \<open>Of valid credentials exactly the one with the digest is found.\<close>

lemma matching_loop_none:
  assumes "valid_credentials cs" "length d = 32"
    and "\<forall>c \<in> set cs. decode_digest (cr_digest_sha256 c) \<noteq> Inr d"
  shows "matching_loop cs d k m = Inr m"
  using assms
proof (induction cs arbitrary: k m)
  case (Cons c cs)
  from Cons.prems obtain e where e: "decode_digest (cr_digest_sha256 c) = Inr e" "e \<noteq> d"
    by (auto simp: is_ok_def split: sum.splits)
  then have "\<not> constant_time_eq e d"
    using constant_time_eq_iff decode_digest_length [OF e(1)] Cons.prems(2) by simp
  with Cons e show ?case by simp
qed simp

lemma matching_loop_found:
  assumes "valid_credentials cs" "length d = 32" "i < length cs"
    and "decode_digest (cr_digest_sha256 (cs ! i)) = Inr d"
  shows "matching_loop cs d k m = Inr (Some (k + i))"
  using assms
proof (induction cs arbitrary: k m i)
  case (Cons c cs)
  from Cons.prems obtain e where e: "decode_digest (cr_digest_sha256 c) = Inr e"
    by (auto simp: is_ok_def split: sum.splits)
  have eq: "constant_time_eq e d \<longleftrightarrow> e = d"
    using constant_time_eq_iff decode_digest_length [OF e] Cons.prems(2) by simp
  show ?case
  proof (cases i)
    case 0
    with Cons.prems e have "e = d" by simp
    moreover have "\<forall>c' \<in> set cs. decode_digest (cr_digest_sha256 c') \<noteq> Inr d"
      using Cons.prems(1) e \<open>e = d\<close>
      by (auto simp: list_ex_iff dest: decode_digest_inj)
    ultimately show ?thesis
      using Cons.prems matching_loop_none [of cs d "Suc k" "Some k"] e eq 0 by simp
  next
    case (Suc j)
    with Cons e eq show ?thesis by simp
  qed
qed simp

lemma matching_credential_index_valid:
  assumes "valid_credentials (au_credentials s)" "length d = 32" "i < length (au_credentials s)"
    and "decode_digest (cr_digest_sha256 (au_credentials s ! i)) = Inr d"
  shows "matching_credential_index s d = Inr i"
  using matching_loop_found [OF assms, of 0 None] assms(3)
  by (auto simp: matching_credential_index_def)

end
