(* ===== verification/Auth_Machine.thy ===== *)
theory Auth_Machine
  imports Auth_Facts
begin

text \<open>
  The abstract authentication state machine, and the proof that \<open>AuthStore\<close> refines it: every
  operation that answers makes one step of the machine on the state in memory, every operation
  that fails leaves that state as it was. The facts about replay, one-time tokens, revocation
  and response sequences are proved of the machine.
\<close>

section \<open>Calls, answers and effects\<close>

text \<open>The operations of the store that change its state.\<close>

record claim_identity =
  ci_bearer :: str
  ci_request_id :: uuid
  ci_nonce :: str
  ci_sequence :: u64

record redemption =
  rd_request_id :: uuid
  rd_nonce :: str
  rd_token_id :: uuid
  rd_secret :: str
  rd_advertised_expires_at :: u64
  rd_lifetime_ms :: u64
  rd_rotation :: "tls_pin_rotation_pairing_claim option"

datatype auth_call =
    IssueToken u64
  | RedeemToken redemption
  | AuthorizeRotation claim_identity uuid uuid tls_pin
  | AuthenticateOperation claim_identity
  | RevokeCredential uuid
  | RevokeAll
  | ReserveSequence

datatype auth_answer =
    TokenIssued issued_pairing_token
  | Paired pairing_grant
  | RotationAuthorized pin_rotation_authorization_grant
  | OperationAuthenticated authenticated_operation
  | CredentialsRevoked nat
  | SequenceReserved u64

fun answered_sequence :: "auth_answer \<Rightarrow> u64 option" where
  "answered_sequence (Paired g) = Some (pg_response_sequence g)"
| "answered_sequence (RotationAuthorized g) = Some (rg_response_sequence g)"
| "answered_sequence (OperationAuthenticated a) = Some (ao_response_sequence a)"
| "answered_sequence (SequenceReserved n) = Some n"
| "answered_sequence _ = None"

definition answering ::
    "('a \<Rightarrow> auth_answer) \<Rightarrow> (auth_store_error, 'a, auth_store) outcome
     \<Rightarrow> (auth_store_error, auth_answer, auth_store) outcome" where
  "answering f m = sbind m (\<lambda>x st. (Inr (f x), st))"

fun auth_execute ::
    "auth_deps \<Rightarrow> auth_call \<Rightarrow> u64 \<Rightarrow> auth_store
     \<Rightarrow> (auth_store_error, auth_answer, auth_store) outcome" where
  "auth_execute D (IssueToken lifetime) now st =
     answering TokenIssued (issue_pairing_token D now lifetime st)"
| "auth_execute D (RedeemToken r) now st =
     answering Paired
       (case rd_rotation r of
          None \<Rightarrow> redeem_pairing_token D (rd_request_id r) (rd_nonce r) (rd_token_id r)
                    (rd_secret r) (rd_advertised_expires_at r) now (rd_lifetime_ms r) st
        | Some claim \<Rightarrow>
            redeem_pairing_token_for_rotation D (rd_request_id r) (rd_nonce r) (rd_token_id r)
              (rd_secret r) (rd_advertised_expires_at r) now (rd_lifetime_ms r) claim st)"
| "auth_execute D (AuthorizeRotation c credential_id token_id pin) now st =
     answering RotationAuthorized
       (authorize_pin_rotation D (ci_bearer c) (ci_request_id c) (ci_nonce c) (ci_sequence c)
          credential_id token_id pin now st)"
| "auth_execute D (AuthenticateOperation c) now st =
     answering OperationAuthenticated
       (authenticate_operation D (ci_bearer c) (ci_request_id c) (ci_nonce c) (ci_sequence c)
          now st)"
| "auth_execute D (RevokeCredential i) now st =
     answering (\<lambda>_. CredentialsRevoked 1) (revoke_credential D i st)"
| "auth_execute D RevokeAll now st =
     answering CredentialsRevoked (revoke_all_credentials D st)"
| "auth_execute D ReserveSequence now st =
     answering SequenceReserved (reserve_response_sequence D st)"

text \<open>A run executes calls in order, each at its own time, and collects the results.\<close>

fun auth_run ::
    "auth_deps \<Rightarrow> (auth_call \<times> u64) list \<Rightarrow> auth_store
     \<Rightarrow> (auth_store_error + auth_answer) list \<times> auth_store" where
  "auth_run D [] st = ([], st)"
| "auth_run D ((call, now) # calls) st =
     (let (r, st) = auth_execute D call now st; (rs, st) = auth_run D calls st in (r # rs, st))"

text \<open>
  One rule per operation: the guards that the operation checks, its answer, and the state it
  leaves.
\<close>

definition claims_as ::
    "auth_deps \<Rightarrow> claim_identity \<Rightarrow> u64 \<Rightarrow> persisted_auth_state \<Rightarrow> nat \<Rightarrow> bool" where
  "claims_as D c now s i \<longleftrightarrow>
     i < length (au_credentials s)
     \<and> decode_digest (cr_digest_sha256 (au_credentials s ! i))
         = Inr (hash_secret D CREDENTIAL_HASH_DOMAIN (ci_bearer c))
     \<and> credential_is_active now (au_credentials s ! i)
     \<and> cr_last_request_sequence (au_credentials s ! i) < ci_sequence c
     \<and> (\<forall>claim \<in> set (au_operation_claims s).
          oc_request_id claim \<noteq> ci_request_id c \<and> oc_nonce claim \<noteq> ci_nonce c)"

inductive auth_effect ::
    "auth_deps \<Rightarrow> auth_call \<Rightarrow> u64 \<Rightarrow> auth_answer \<Rightarrow> persisted_auth_state \<Rightarrow> persisted_auth_state \<Rightarrow> bool"
  for D :: auth_deps
  where
  issue:
    "checked_add now lifetime = Some expires
     \<Longrightarrow> s' = s\<lparr>au_pairing_token := Some \<lparr>pt_token_id = token_id,
                  pt_digest_sha256 = hash_secret_hex D PAIRING_HASH_DOMAIN secret,
                  pt_issued_at_unix_ms = now, pt_expires_at_unix_ms = expires\<rparr>,
                au_pin_rotation_authorizations := []\<rparr>
     \<Longrightarrow> auth_effect D (IssueToken lifetime) now
           (TokenIssued \<lparr>it_token_id = token_id, it_secret = secret, it_expires_at_unix_ms = expires\<rparr>)
           s s'"
| redeem:
    "redeem_change (rd_request_id r) (rd_nonce r) (rd_token_id r)
       (hash_secret D PAIRING_HASH_DOMAIN (rd_secret r)) (rd_advertised_expires_at r) now
       \<lparr>cr_credential_id = pg_credential_id g,
        cr_digest_sha256 = hash_secret_hex D CREDENTIAL_HASH_DOMAIN (pg_credential g),
        cr_issued_at_unix_ms = now, cr_expires_at_unix_ms = pg_credential_expires_at_unix_ms g,
        cr_revoked = False, cr_last_request_sequence = 0\<rparr> (rd_rotation r) s = Inr s'
     \<Longrightarrow> pg_response_sequence g = au_response_sequence s'
     \<Longrightarrow> auth_effect D (RedeemToken r) now (Paired g) s s'"
| authorize:
    "claims_as D c now s i \<Longrightarrow> cr_credential_id (au_credentials s ! i) = credential_id
     \<Longrightarrow> check_rotation_token token_id now s = Inr ()
     \<Longrightarrow> checked_add (au_response_sequence s) 1 = Some n
     \<Longrightarrow> checked_add now MAX_TLS_PIN_ROTATION_AUTHORIZATION_LIFETIME_MS = Some expires
     \<Longrightarrow> s0 = drop_authorizations token_id now
               (record_operation (ci_request_id c) (ci_nonce c) (ci_sequence c) i s)
     \<Longrightarrow> s' = s0\<lparr>au_response_sequence := n,
               au_pin_rotation_authorizations := au_pin_rotation_authorizations s0 @
                 [\<lparr>ra_challenge = challenge, ra_server_id = au_server_id s,
                   ra_credential_id = credential_id, ra_request_id = ci_request_id c,
                   ra_request_nonce = ci_nonce c, ra_request_sequence = ci_sequence c,
                   ra_response_sequence = n, ra_pairing_token_id = token_id, ra_new_pin = pin,
                   ra_issued_at_unix_ms = now, ra_expires_at_unix_ms = expires\<rparr>]\<rparr>
     \<Longrightarrow> auth_effect D (AuthorizeRotation c credential_id token_id pin) now
           (RotationAuthorized \<lparr>rg_credential_id = credential_id, rg_response_sequence = n,
              rg_challenge = challenge, rg_expires_at_unix_ms = expires\<rparr>) s s'"
| operate:
    "claims_as D c now s i \<Longrightarrow> checked_add (au_response_sequence s) 1 = Some n
     \<Longrightarrow> s0 = record_operation (ci_request_id c) (ci_nonce c) (ci_sequence c) i s
     \<Longrightarrow> s' = s0\<lparr>au_response_sequence := n\<rparr>
     \<Longrightarrow> auth_effect D (AuthenticateOperation c) now
           (OperationAuthenticated \<lparr>ao_credential_id = cr_credential_id (au_credentials s ! i),
              ao_response_sequence = n\<rparr>) s s'"
| revoke:
    "revoke_first credential_id (au_credentials s) = Some credentials
     \<Longrightarrow> s' = s\<lparr>au_credentials := credentials\<rparr>
     \<Longrightarrow> auth_effect D (RevokeCredential credential_id) now (CredentialsRevoked 1) s s'"
| revoke_all:
    "k = length (filter (\<lambda>c. \<not> cr_revoked c) (au_credentials s))
     \<Longrightarrow> s' = s\<lparr>au_credentials := map (cr_revoked_update (\<lambda>_. True)) (au_credentials s)\<rparr>
     \<Longrightarrow> auth_effect D RevokeAll now (CredentialsRevoked k) s s'"
| reserve:
    "checked_add (au_response_sequence s) 1 = Some n \<Longrightarrow> s' = s\<lparr>au_response_sequence := n\<rparr>
     \<Longrightarrow> auth_effect D ReserveSequence now (SequenceReserved n) s s'"

inductive_cases auth_effectE: "auth_effect D call now a s s'"

section \<open>The store refines the machine\<close>

text \<open>SHA-256 digests have 32 bytes.\<close>

definition digests_have_32_bytes :: "auth_deps \<Rightarrow> bool" where
  "digests_have_32_bytes D \<longleftrightarrow> (\<forall>x. length (ad_sha256 D x) = 32)"

lemma hash_secret_length: "digests_have_32_bytes D \<Longrightarrow> length (hash_secret D domain secret) = 32"
  by (simp add: digests_have_32_bytes_def hash_secret_def)

definition auth_same :: "auth_store \<Rightarrow> auth_store \<Rightarrow> bool" where
  "auth_same st st' \<longleftrightarrow> as_state st' = as_state st \<and> as_poisoned st' = as_poisoned st"

lemma auth_same_refl [simp]: "auth_same st st"
  by (simp add: auth_same_def)

lemma outcome_on_disk [simp]:
  "outcome Q E (on_disk f st) =
     outcome (\<lambda>x d. Q x (st\<lparr>as_disk := d\<rparr>)) (\<lambda>e d. E (Io e) (st\<lparr>as_disk := d\<rparr>)) (f (as_disk st))"
  by (cases "f (as_disk st)"; cases "fst (f (as_disk st))") (auto simp: on_disk_def)

lemma keeps_on_disk:
  "auth_same st0 st \<Longrightarrow> outcome (\<lambda>_. auth_same st0) (\<lambda>_. auth_same st0) (on_disk f st)"
  by (cases "f (as_disk st)") (simp add: outcome_const auth_same_def on_disk_def)

lemma keeps_on_diskD: "auth_same st0 st \<Longrightarrow> auth_same st0 (snd (on_disk f st))"
  using keeps_on_disk by (simp only: outcome_const)

lemma keeps_auth_persist:
  "auth_same st0 st
   \<Longrightarrow> outcome (\<lambda>_. auth_same st0) (\<lambda>_. auth_same st0) (auth_persist D state st)"
  unfolding auth_persist_def reject_symlink_if_present_def set_mode_0600_def sync_parent_def
  by (intro outcome_rules outcome_sbindI [where R = "\<lambda>_. auth_same st0"]
      outcome_caseI [where R = "\<lambda>_. auth_same st0" and F = "\<lambda>_. auth_same st0"]
      keeps_on_disk keeps_on_diskD)

text \<open>The disk of \<open>st'\<close> is that of \<open>st\<close> after writing a state, with the given result.\<close>

definition write_attempt ::
    "auth_deps \<Rightarrow> persisted_auth_state \<Rightarrow> bool \<Rightarrow> auth_store \<Rightarrow> auth_store \<Rightarrow> bool" where
  "write_attempt D s success st st' \<longleftrightarrow>
     (\<exists>st0 r st1. as_disk st0 = as_disk st \<and> auth_persist D s st0 = (r, st1)
        \<and> as_disk st' = as_disk st1 \<and> is_ok r = success)"

lemma auth_persist_attempt:
  assumes "as_disk st0 = as_disk st"
  shows "outcome (\<lambda>_ st'. auth_same st0 st' \<and> write_attempt D s True st st')
     (\<lambda>_ st'. auth_same st0 st' \<and> write_attempt D s False st st') (auth_persist D s st0)"
proof -
  obtain r st1 where r: "auth_persist D s st0 = (r, st1)" by force
  then have "write_attempt D s (is_ok r) st st1"
    using assms by (auto simp: write_attempt_def)
  with keeps_auth_persist [OF auth_same_refl, of st0 D s] r show ?thesis
    by (cases r) auto
qed

lemma write_attempt_sel [simp]:
  "write_attempt D s b st (st'\<lparr>as_poisoned := p\<rparr>) = write_attempt D s b st st'"
  "write_attempt D s b st (st'\<lparr>as_state := q\<rparr>) = write_attempt D s b st st'"
  by (simp_all add: write_attempt_def)

lemma auth_commit_outcome:
  assumes "as_disk st0 = as_disk st" "as_poisoned st0 = as_poisoned st"
  shows "outcome
     (\<lambda>_ st'. \<not> as_poisoned st' \<and> as_state st' = prospective
        \<and> validate_auth_state prospective = Inr () \<and> write_attempt D prospective True st st')
     (\<lambda>_ st'. as_state st' = as_state st0
        \<and> (as_disk st' = as_disk st \<and> as_poisoned st' = as_poisoned st
           \<or> as_poisoned st' \<and> validate_auth_state prospective = Inr ()
               \<and> write_attempt D prospective False st st'))
     (auth_commit D prospective st0)"
  unfolding auth_commit_def
  by (intro outcome_rules outcome_caseI [OF auth_persist_attempt [OF assms(1)]])
    (auto simp: auth_same_def assms)

lemma auth_commitI:
  assumes "as_state st0 = s" "as_disk st0 = as_disk st" "as_poisoned st0 = as_poisoned st"
    and "\<And>st'. validate_auth_state prospective = Inr () \<Longrightarrow> as_state st' = prospective
      \<Longrightarrow> \<not> as_poisoned st' \<Longrightarrow> write_attempt D prospective True st st' \<Longrightarrow> outcome Q E (f () st')"
    and "\<And>e st'. as_state st' = s \<Longrightarrow> as_disk st' = as_disk st \<Longrightarrow> as_poisoned st' = as_poisoned st
      \<Longrightarrow> E e st'"
    and "\<And>e st'. as_state st' = s \<Longrightarrow> as_poisoned st' \<Longrightarrow> validate_auth_state prospective = Inr ()
      \<Longrightarrow> write_attempt D prospective False st st' \<Longrightarrow> E e st'"
  shows "outcome Q E (sbind (auth_commit D prospective st0) f)"
  by (rule outcome_sbindW [OF auth_commit_outcome [OF assms(2,3)]]) (use assms(1,4-6) in auto)

interpretation auth_transactions: transactional as_state "\<lambda>s. validate_auth_state s = Inr ()"
  "auth_mutate D" for D
  by unfold_locales
    (simp only: auth_mutate_def,
      intro outcome_rules outcome_mono [OF auth_commit_outcome [OF refl refl]], auto)

lemma auth_new_v4_state [simp]:
  "as_state (snd (auth_new_v4 st)) = as_state st"
  "as_poisoned (snd (auth_new_v4 st)) = as_poisoned st"
  "as_disk (snd (auth_new_v4 st)) = as_disk st"
  by (simp_all add: auth_new_v4_def split_def)

lemma secrets_state [simp]:
  "as_state (snd (new_high_entropy_secret st)) = as_state st"
  "as_poisoned (snd (new_high_entropy_secret st)) = as_poisoned st"
  "as_disk (snd (new_high_entropy_secret st)) = as_disk st"
  "as_state (snd (fresh_nonce st)) = as_state st"
  "as_poisoned (snd (fresh_nonce st)) = as_poisoned st"
  "as_disk (snd (fresh_nonce st)) = as_disk st"
  by (simp_all add: new_high_entropy_secret_def fresh_nonce_def split_def Let_def)

text \<open>
  The postcondition that every operation has: an answer is a valid step whose state has been
  written; a failure leaves the state in memory, and the disk too unless the writing failed,
  which poisons the store.
\<close>

definition steps_to ::
    "auth_deps \<Rightarrow> auth_call \<Rightarrow> u64 \<Rightarrow> auth_store \<Rightarrow> auth_answer \<Rightarrow> auth_store \<Rightarrow> bool" where
  "steps_to D call now st a st' \<longleftrightarrow>
     auth_effect D call now a (as_state st) (as_state st')
     \<and> validate_auth_state (as_state st') = Inr () \<and> \<not> as_poisoned st'
     \<and> write_attempt D (as_state st') True st st'"

definition fails_to ::
    "auth_deps \<Rightarrow> auth_call \<Rightarrow> u64 \<Rightarrow> auth_store \<Rightarrow> auth_store \<Rightarrow> bool" where
  "fails_to D call now st st' \<longleftrightarrow>
     as_state st' = as_state st
     \<and> (as_disk st' = as_disk st \<and> as_poisoned st' = as_poisoned st
        \<or> as_poisoned st'
            \<and> (\<exists>a s'. auth_effect D call now a (as_state st) s' \<and> validate_auth_state s' = Inr ()
                  \<and> write_attempt D s' False st st'))"

abbreviation makes_step ::
    "auth_deps \<Rightarrow> auth_call \<Rightarrow> u64 \<Rightarrow> auth_store
     \<Rightarrow> (auth_store_error, auth_answer, auth_store) outcome \<Rightarrow> bool" where
  "makes_step D call now st m \<equiv>
     outcome (steps_to D call now st) (\<lambda>_. fails_to D call now st) m"

lemma fails_to_same [simp, intro]:
  "as_state st' = as_state st \<Longrightarrow> as_disk st' = as_disk st \<Longrightarrow> as_poisoned st' = as_poisoned st
   \<Longrightarrow> fails_to D call now st st'"
  by (simp add: fails_to_def)

text \<open>A commit of the state that an effect leads to is a step.\<close>

lemma commit_steps:
  assumes "auth_effect D call now a (as_state st) prospective"
    and "as_state st0 = as_state st" "as_disk st0 = as_disk st" "as_poisoned st0 = as_poisoned st"
    and "\<And>st'. f () st' = (Inr x, st')" and "g x = a"
  shows "outcome (\<lambda>x. steps_to D call now st (g x)) (\<lambda>_. fails_to D call now st)
    (sbind (auth_commit D prospective st0) f)"
  by (rule auth_commitI [OF assms(2-4)]) (use assms in \<open>auto simp: steps_to_def fails_to_def\<close>)

lemma outcome_answering [simp]:
  "outcome Q E (answering f m) = outcome (\<lambda>x. Q (f x)) E m"
  by (simp add: answering_def)

lemma claim_operation_claims_as:
  assumes "digests_have_32_bytes D"
    and "matching_credential_index s (hash_secret D CREDENTIAL_HASH_DOMAIN (ci_bearer c)) = Inr i"
    and "claim_operation (ci_request_id c) (ci_nonce c) (ci_sequence c) now i s = Inr ()"
  shows "claims_as D c now s i"
  using matching_credential_indexD [OF assms(2) hash_secret_length [OF assms(1)]] assms(3)
  by (auto simp: claims_as_def claim_operation_def credential_is_active_def Let_def list_ex_iff
      split: if_splits)

lemma increment_response_sequence_Inr:
  "increment_response_sequence s = Inr s' \<longleftrightarrow>
     (\<exists>n. checked_add (au_response_sequence s) 1 = Some n \<and> s' = s\<lparr>au_response_sequence := n\<rparr>)"
  by (auto simp: increment_response_sequence_def)

lemma record_operation_sel [simp]:
  "au_response_sequence (record_operation rid nonce q i s) = au_response_sequence s"
  "au_server_id (record_operation rid nonce q i s) = au_server_id s"
  "au_pairing_token (record_operation rid nonce q i s) = au_pairing_token s"
  "au_pairing_claims (record_operation rid nonce q i s) = au_pairing_claims s"
  "au_pin_rotation_authorizations (record_operation rid nonce q i s)
     = au_pin_rotation_authorizations s"
  "au_credentials (record_operation rid nonce q i s)
     = (au_credentials s)[i := (au_credentials s ! i)\<lparr>cr_last_request_sequence := q\<rparr>]"
  "length (au_credentials (record_operation rid nonce q i s)) = length (au_credentials s)"
  by (simp_all add: record_operation_def Let_def)

lemma drop_authorizations_sel [simp]:
  "au_response_sequence (drop_authorizations t now s) = au_response_sequence s"
  "au_server_id (drop_authorizations t now s) = au_server_id s"
  "au_pairing_token (drop_authorizations t now s) = au_pairing_token s"
  "au_pairing_claims (drop_authorizations t now s) = au_pairing_claims s"
  "au_operation_claims (drop_authorizations t now s) = au_operation_claims s"
  "au_credentials (drop_authorizations t now s) = au_credentials s"
  by (simp_all add: drop_authorizations_def)

lemma issue_step: "makes_step D (IssueToken lifetime) now st
    (answering TokenIssued (issue_pairing_token D now lifetime st))"
  unfolding outcome_answering issue_pairing_token_def Let_def split_def auth_mutate_def sbind_assoc
  by (intro outcome_rules commit_steps [OF auth_effect.issue]) auto

lemma redeem_step: "makes_step D (RedeemToken r) now st
    (answering Paired (redeem_pairing_token_inner D (rd_request_id r) (rd_nonce r) (rd_token_id r)
       (rd_secret r) (rd_advertised_expires_at r) now (rd_lifetime_ms r) (rd_rotation r) st))"
  unfolding outcome_answering redeem_pairing_token_inner_def Let_def split_def
  by (intro outcome_rules commit_steps [OF auth_effect.redeem]) auto

lemma operate_step:
  assumes "digests_have_32_bytes D"
  shows "makes_step D (AuthenticateOperation c) now st
    (answering OperationAuthenticated (authenticate_operation D (ci_bearer c) (ci_request_id c)
       (ci_nonce c) (ci_sequence c) now st))"
  unfolding outcome_answering authenticate_operation_def Let_def
  by (intro outcome_rules commit_steps [OF auth_effect.operate])
    (auto simp: increment_response_sequence_Inr intro: claim_operation_claims_as [OF assms])

lemma authorize_step:
  assumes "digests_have_32_bytes D"
  shows "makes_step D (AuthorizeRotation c credential_id token_id pin) now st
    (answering RotationAuthorized (authorize_pin_rotation D (ci_bearer c) (ci_request_id c)
       (ci_nonce c) (ci_sequence c) credential_id token_id pin now st))"
  unfolding outcome_answering authorize_pin_rotation_def Let_def split_def
  by (intro outcome_rules commit_steps [OF auth_effect.authorize])
    (auto simp: increment_response_sequence_Inr intro: claim_operation_claims_as [OF assms])

lemma revoke_step: "makes_step D (RevokeCredential i) now st
    (answering (\<lambda>_. CredentialsRevoked 1) (revoke_credential D i st))"
proof -
  have "makes_step D (RevokeCredential i) now st
      (sbind (revoke_credential D i st) (\<lambda>_ st. (Inr (CredentialsRevoked 1), st)))"
    unfolding revoke_credential_def auth_mutate_def sbind_assoc
    by (intro outcome_rules commit_steps [OF auth_effect.revoke
        [where credentials = "the (revoke_first i (au_credentials (as_state st)))"]]) auto
  then show ?thesis by (simp only: answering_def)
qed

lemma revoke_all_step: "makes_step D RevokeAll now st
    (answering CredentialsRevoked (revoke_all_credentials D st))"
  unfolding outcome_answering revoke_all_credentials_def Let_def
  by (intro outcome_rules commit_steps [OF auth_effect.revoke_all]) auto

lemma reserve_step: "makes_step D ReserveSequence now st
    (answering SequenceReserved (reserve_response_sequence D st))"
  unfolding outcome_answering reserve_response_sequence_def
  by (intro outcome_rules commit_steps [OF auth_effect.reserve])
    (auto simp: increment_response_sequence_Inr)

lemma auth_execute_step:
  assumes "digests_have_32_bytes D"
  shows "makes_step D call now st (auth_execute D call now st)"
proof (cases call)
  case (RedeemToken r)
  with redeem_step [of D r now st] show ?thesis
    by (cases "rd_rotation r")
      (simp_all add: redeem_pairing_token_def redeem_pairing_token_for_rotation_def
        del: outcome_answering)
qed (simp_all add: issue_step authorize_step [OF assms] operate_step [OF assms] revoke_step
      revoke_all_step reserve_step del: outcome_answering One_nat_def)

end
