(* ===== verification/Auth_Behaviour.thy ===== *)
theory Auth_Behaviour
  imports Auth_Machine
begin

text \<open>
  What holds along runs of the authentication store: response sequences increase, used request
  sequences stay used, consumed tokens stay consumed, revoked credentials stay revoked.
\<close>

section \<open>Runs\<close>

lemma auth_execute_effect:
  assumes "digests_have_32_bytes D" "auth_execute D call now st = (Inr a, st')"
  shows "auth_effect D call now a (as_state st) (as_state st')"
    "validate_auth_state (as_state st') = Inr ()"
  using auth_execute_step [OF assms(1), of call now st] by (simp_all add: assms(2) steps_to_def)

lemma auth_execute_failed:
  assumes "digests_have_32_bytes D" "auth_execute D call now st = (Inl e, st')"
  shows "as_state st' = as_state st"
  using auth_execute_step [OF assms(1), of call now st] by (auto simp: assms(2) fails_to_def)

lemma auth_run_keeps:
  assumes "digests_have_32_bytes D" and "auth_run D calls st = (rs, st')" and "R (as_state st)"
    and "\<And>call now a s s'. \<lbrakk>(call, now) \<in> set calls; Inr a \<in> set rs; R s;
      auth_effect D call now a s s'; validate_auth_state s' = Inr ()\<rbrakk> \<Longrightarrow> R s'"
  shows "R (as_state st')"
  using assms(2-4)
proof (induction calls arbitrary: st rs)
  case (Cons c calls)
  obtain call now where c: "c = (call, now)" by force
  obtain r st1 where r: "auth_execute D call now st = (r, st1)" by force
  obtain rs1 where run: "auth_run D calls st1 = (rs1, st')" and rs: "rs = r # rs1"
    using Cons.prems(1) c r by (auto split: prod.splits)
  have "R (as_state st1)"
  proof (cases r)
    case (Inl e)
    with auth_execute_failed [OF assms(1) r [unfolded Inl]] Cons.prems(2) show ?thesis by simp
  next
    case (Inr a)
    show ?thesis
      by (rule Cons.prems(3) [OF _ _ Cons.prems(2) auth_execute_effect [OF assms(1) r [unfolded Inr]]])
        (simp_all add: c rs Inr)
  qed
  then show ?case
    by (rule Cons.IH [OF run]) (rule Cons.prems(3); auto simp: rs)
qed simp

section \<open>Response sequences\<close>

lemma checked_add_one_less: "checked_add n (1 :: u64) = Some m \<Longrightarrow> n < m"
  by (drule unat_checked_add) (simp add: word_less_nat_alt)

lemma redeem_change_sel:
  assumes "redeem_change rid nonce tid d adv now c rot s = Inr s'"
  shows "checked_add (au_response_sequence s) 1 = Some (au_response_sequence s')"
    "au_server_id s' = au_server_id s" "au_pairing_token s' = None"
    "au_credentials s' = filter (credential_is_active now) (au_credentials s) @ [c]"
    "check_pairing_token s tid d adv now = Inr ()" "check_rotation s tid now rot = Inr ()"
    "au_pin_rotation_authorizations s' =
       filter (\<lambda>a. ra_pairing_token_id a \<noteq> tid) (au_pin_rotation_authorizations s)"
  using assms
  by (auto simp: redeem_change_def purge_credentials_def increment_response_sequence_Inr Let_def
      split: if_splits)

lemma auth_effect_sequence:
  assumes "auth_effect D call now a s s'"
  shows "au_server_id s' = au_server_id s
    \<and> (case answered_sequence a of
          None \<Rightarrow> au_response_sequence s' = au_response_sequence s
        | Some n \<Rightarrow> n = au_response_sequence s' \<and> au_response_sequence s < n)"
  using assms
  by cases (auto dest: checked_add_one_less redeem_change_sel(1,2))

definition answered_sequences :: "(auth_store_error + auth_answer) list \<Rightarrow> u64 list" where
  "answered_sequences rs =
     List.map_filter (\<lambda>r. case r of Inl _ \<Rightarrow> None | Inr a \<Rightarrow> answered_sequence a) rs"

lemma answered_sequences_simps [simp]:
  "answered_sequences [] = []"
  "answered_sequences (Inl e # rs) = answered_sequences rs"
  "answered_sequences (Inr a # rs) =
     (case answered_sequence a of None \<Rightarrow> answered_sequences rs
      | Some n \<Rightarrow> n # answered_sequences rs)"
  by (simp_all add: answered_sequences_def List.map_filter_def split: option.split)

lemma auth_run_sequences:
  assumes "digests_have_32_bytes D" and "auth_run D calls st = (rs, st')"
  shows "sorted_wrt (<) (au_response_sequence (as_state st) # answered_sequences rs)
    \<and> last (au_response_sequence (as_state st) # answered_sequences rs)
        = au_response_sequence (as_state st')
    \<and> au_server_id (as_state st') = au_server_id (as_state st)"
  using assms(2)
proof (induction calls arbitrary: st rs)
  case (Cons c calls)
  obtain call now where c: "c = (call, now)" by force
  obtain r st1 where r: "auth_execute D call now st = (r, st1)" by force
  obtain rs1 where run: "auth_run D calls st1 = (rs1, st')" and rs: "rs = r # rs1"
    using Cons.prems(1) c r by (auto split: prod.splits)
  note IH = Cons.IH [OF run]
  show ?case
  proof (cases r)
    case (Inl e)
    with auth_execute_failed [OF assms(1) r [unfolded Inl]] IH show ?thesis by (simp add: rs)
  next
    case (Inr a)
    from auth_effect_sequence [OF auth_execute_effect(1) [OF assms(1) r [unfolded Inr]]] IH
    show ?thesis
      by (auto simp: rs Inr split: option.splits intro: less_trans)
  qed
qed simp

section \<open>Replay\<close>

text \<open>Every credential with the digest has accepted the sequence.\<close>

definition sequence_used :: "u8 list \<Rightarrow> u64 \<Rightarrow> persisted_auth_state \<Rightarrow> bool" where
  "sequence_used d q s \<longleftrightarrow>
     (\<forall>c \<in> set (au_credentials s). decode_digest (cr_digest_sha256 c) = Inr d
        \<longrightarrow> q \<le> cr_last_request_sequence c)"

lemma revoke_first_in:
  "revoke_first i cs = Some cs' \<Longrightarrow> c' \<in> set cs'
   \<Longrightarrow> \<exists>c \<in> set cs. c' = c \<or> c' = c\<lparr>cr_revoked := True\<rparr>"
  by (induction cs arbitrary: cs') (auto split: if_splits)

lemma claims_as_kept:
  assumes "claims_as D c now s i" "sequence_used d q s"
  shows "sequence_used d q (s\<lparr>au_credentials := (au_credentials s)
           [i := (au_credentials s ! i)\<lparr>cr_last_request_sequence := ci_sequence c\<rparr>]\<rparr>)"
  unfolding sequence_used_def
proof (intro ballI impI)
  let ?x = "(au_credentials s ! i)\<lparr>cr_last_request_sequence := ci_sequence c\<rparr>"
  fix c' assume c': "c' \<in> set (au_credentials (s\<lparr>au_credentials := (au_credentials s)[i := ?x]\<rparr>))"
    and d: "decode_digest (cr_digest_sha256 c') = Inr d"
  have i: "au_credentials s ! i \<in> set (au_credentials s)"
    using assms(1) by (simp add: claims_as_def)
  from c' consider "c' = ?x" | "c' \<in> set (au_credentials s)"
    using set_update_subset_insert [of "au_credentials s" i ?x] by auto
  then show "q \<le> cr_last_request_sequence c'"
  proof cases
    case 1
    with d i assms(2) have "q \<le> cr_last_request_sequence (au_credentials s ! i)"
      by (simp add: sequence_used_def)
    also have "\<dots> \<le> ci_sequence c" using assms(1) by (simp add: claims_as_def less_imp_le)
    finally show ?thesis using 1 by simp
  qed (use d assms(2) in \<open>simp add: sequence_used_def\<close>)
qed

lemma auth_effect_sequence_used:
  assumes "auth_effect D call now a s s'" "digests_have_32_bytes D" "sequence_used d q s"
    and "\<And>g. a = Paired g \<Longrightarrow> hash_secret D CREDENTIAL_HASH_DOMAIN (pg_credential g) \<noteq> d"
  shows "sequence_used d q s'"
  using assms(1)
proof cases
  case (redeem r g)
  then show ?thesis
    using assms(2-4) redeem_change_sel(4) [OF redeem(3)]
    by (auto simp: sequence_used_def hash_secret_hex_def decode_encode_digest hash_secret_length)
next
  case (revoke i cs)
  then show ?thesis using assms(3) by (force simp: sequence_used_def dest: revoke_first_in)
next
  case (authorize c i cid tid n e s0 ch pin)
  with claims_as_kept [OF authorize(3) assms(3)] show ?thesis
    by (simp add: sequence_used_def)
next
  case (operate c i n s0)
  with claims_as_kept [OF operate(3) assms(3)] show ?thesis
    by (simp add: sequence_used_def)
qed (use assms(3) in \<open>auto simp: sequence_used_def\<close>)

lemma sequence_used_refuses:
  "sequence_used (hash_secret D CREDENTIAL_HASH_DOMAIN (ci_bearer c)) q s \<Longrightarrow> ci_sequence c \<le> q
   \<Longrightarrow> \<not> claims_as D c now s i"
  by (auto simp: claims_as_def sequence_used_def dest!: nth_mem)

text \<open>Of valid credentials only one has the digest, so an accepted sequence is used.\<close>

lemma valid_credentials_distinct:
  "valid_credentials cs \<Longrightarrow> i < length cs \<Longrightarrow> j < length cs
   \<Longrightarrow> cr_digest_sha256 (cs ! i) = cr_digest_sha256 (cs ! j)
       \<or> cr_credential_id (cs ! i) = cr_credential_id (cs ! j) \<Longrightarrow> i = j"
proof (induction cs arbitrary: i j)
  case (Cons c cs)
  then show ?case
    by (cases i; cases j) (auto simp: list_ex_iff dest!: nth_mem)
qed simp

lemma claims_as_used:
  fixes s :: persisted_auth_state
  defines "cs \<equiv> \<lambda>i q. (au_credentials s)[i := (au_credentials s ! i)\<lparr>cr_last_request_sequence := q\<rparr>]"
  assumes "claims_as D c now s i" "valid_credentials (cs i (ci_sequence c))"
    and "au_credentials s' = cs i (ci_sequence c)"
  shows "sequence_used (hash_secret D CREDENTIAL_HASH_DOMAIN (ci_bearer c)) (ci_sequence c) s'"
  unfolding sequence_used_def
proof (intro ballI impI)
  let ?cs = "cs i (ci_sequence c)"
  have i: "i < length ?cs" "cr_last_request_sequence (?cs ! i) = ci_sequence c"
    "decode_digest (cr_digest_sha256 (?cs ! i))
       = Inr (hash_secret D CREDENTIAL_HASH_DOMAIN (ci_bearer c))"
    using assms(2) by (simp_all add: claims_as_def cs_def)
  fix c' assume "c' \<in> set (au_credentials s')"
    and d: "decode_digest (cr_digest_sha256 c')
      = Inr (hash_secret D CREDENTIAL_HASH_DOMAIN (ci_bearer c))"
  then obtain j where j: "j < length ?cs" "c' = ?cs ! j"
    by (auto simp: in_set_conv_nth assms(4))
  with d i(3) have "cr_digest_sha256 (?cs ! i) = cr_digest_sha256 (?cs ! j)"
    by (auto intro: decode_digest_inj)
  then have "i = j"
    by (intro valid_credentials_distinct [OF assms(3) i(1) j(1)]) simp
  with i(2) j(2) show "ci_sequence c \<le> cr_last_request_sequence c'" by simp
qed

lemma validate_auth_state_Inr:
  "validate_auth_state s = Inr () \<longleftrightarrow>
     au_schema_version s = AUTH_SCHEMA_VERSION \<and> au_server_id s \<noteq> nil_uuid
     \<and> length (au_credentials s) \<le> MAX_CREDENTIALS
     \<and> length (au_pairing_claims s) \<le> MAX_PAIRING_REPLAY_CLAIMS
     \<and> length (au_operation_claims s) \<le> MAX_OPERATION_REPLAY_CLAIMS
     \<and> length (au_pin_rotation_authorizations s) \<le> MAX_PIN_ROTATION_AUTHORIZATIONS
     \<and> (\<forall>t. au_pairing_token s = Some t \<longrightarrow> valid_token t)
     \<and> valid_credentials (au_credentials s) \<and> valid_pairing_claims (au_pairing_claims s)
     \<and> valid_operation_claims (au_credentials s) (au_operation_claims s)
     \<and> valid_authorizations s (au_pin_rotation_authorizations s)"
  by (cases "au_pairing_token s") (auto simp: validate_auth_state_def split: if_splits)

lemma claim_uses_sequence:
  assumes "auth_effect D call now a s s'" "validate_auth_state s' = Inr ()"
    and "call = AuthenticateOperation c \<or> (\<exists>i t p. call = AuthorizeRotation c i t p)"
  shows "sequence_used (hash_secret D CREDENTIAL_HASH_DOMAIN (ci_bearer c)) (ci_sequence c) s'"
  using assms(1)
proof cases
  case (authorize c' i cid tid n e s0 ch pin)
  with assms(2,3) show ?thesis
    by (intro claims_as_used [where s = s and i = i and s' = s' and now = now])
      (auto simp: validate_auth_state_Inr)
next
  case (operate c' i n s0)
  with assms(2,3) show ?thesis
    by (intro claims_as_used [where s = s and i = i and s' = s' and now = now])
      (auto simp: validate_auth_state_Inr)
qed (use assms(3) in auto)

section \<open>Pairing tokens and revocation\<close>

lemma auth_effect_no_token:
  assumes "auth_effect D call now a s s'" "au_pairing_token s = None" "\<And>l. call \<noteq> IssueToken l"
  shows "au_pairing_token s' = None"
  using assms by cases (auto dest: redeem_change_sel(3))

lemma check_pairing_tokenD:
  assumes "digests_have_32_bytes D"
    and "check_pairing_token s tid (hash_secret D PAIRING_HASH_DOMAIN secret) adv now = Inr ()"
  shows "\<exists>token. au_pairing_token s = Some token \<and> pt_token_id token = tid
    \<and> now < pt_expires_at_unix_ms token \<and> pt_expires_at_unix_ms token = adv
    \<and> pt_digest_sha256 token = hash_secret_hex D PAIRING_HASH_DOMAIN secret"
proof -
  from assms(2) obtain token d where token: "au_pairing_token s = Some token"
    "pt_token_id token = tid" "now < pt_expires_at_unix_ms token" "pt_expires_at_unix_ms token = adv"
    and d: "decode_digest (pt_digest_sha256 token) = Inr d"
    "constant_time_eq d (hash_secret D PAIRING_HASH_DOMAIN secret)"
    by (auto simp: check_pairing_token_def not_le split: if_splits)
  from d have "d = hash_secret D PAIRING_HASH_DOMAIN secret"
    by (simp add: constant_time_eq_iff decode_digest_length [OF d(1)] hash_secret_length [OF assms(1)])
  with d(1) have "pt_digest_sha256 token = hash_secret_hex D PAIRING_HASH_DOMAIN secret"
    using encode_decode_digest [OF d(1)] by (simp add: hash_secret_hex_def)
  with token show ?thesis by simp
qed

lemma valid_authorizations_token:
  "valid_authorizations s as \<Longrightarrow> au_pairing_token s = Some token
   \<Longrightarrow> filter (\<lambda>a. ra_pairing_token_id a \<noteq> pt_token_id token) as = []"
  by (induction as) (auto simp: valid_authorization_def)

definition all_revoked :: "uuid \<Rightarrow> persisted_auth_state \<Rightarrow> bool" where
  "all_revoked i s \<longleftrightarrow> (\<forall>c \<in> set (au_credentials s). cr_credential_id c = i \<longrightarrow> cr_revoked c)"

lemma revoke_first_revokes:
  assumes "revoke_first i cs = Some cs'" "valid_credentials cs'" "c \<in> set cs'" "cr_credential_id c = i"
  shows "cr_revoked c"
  using assms
proof (induction cs arbitrary: cs')
  case (Cons c0 cs)
  show ?case
  proof (cases "cr_credential_id c0 = i")
    case True
    with Cons.prems(1) have cs': "cs' = c0\<lparr>cr_revoked := True\<rparr> # cs" by simp
    with Cons.prems(2) True have "\<forall>c \<in> set cs. cr_credential_id c \<noteq> i"
      by (simp add: list_ex_iff)
    with Cons.prems(3,4) cs' show ?thesis by auto
  next
    case False
    with Cons.prems(1) obtain rest where "revoke_first i cs = Some rest" "cs' = c0 # rest" by auto
    with Cons.IH [of rest] Cons.prems(2-4) False show ?thesis by auto
  qed
qed simp

lemma claims_not_revoked: "claims_as D c now s i \<Longrightarrow> \<not> cr_revoked (au_credentials s ! i)"
  by (simp add: claims_as_def credential_is_active_def)

lemma auth_effect_all_revoked:
  assumes "auth_effect D call now a s s'" "all_revoked i s"
    and "\<And>g. a = Paired g \<Longrightarrow> pg_credential_id g \<noteq> i"
  shows "all_revoked i s'"
  using assms(1)
proof cases
  case (redeem r g)
  then show ?thesis using assms(2,3) redeem_change_sel(4) [OF redeem(3)]
    by (auto simp: all_revoked_def)
next
  case (revoke j cs)
  then show ?thesis using assms(2) by (force simp: all_revoked_def dest: revoke_first_in)
next
  case (authorize c j cid tid n e s0 ch pin)
  then show ?thesis using assms(2) claims_not_revoked [OF authorize(3)]
    by (auto simp: all_revoked_def claims_as_def dest!: set_update_subset_insert [THEN subsetD])
next
  case (operate c j n s0)
  then show ?thesis using assms(2) claims_not_revoked [OF operate(3)]
    by (auto simp: all_revoked_def claims_as_def dest!: set_update_subset_insert [THEN subsetD])
qed (use assms(2) in \<open>auto simp: all_revoked_def\<close>)

lemma all_revoked_claims: "all_revoked i s \<Longrightarrow> claims_as D c now s k \<Longrightarrow> cr_credential_id (au_credentials s ! k) \<noteq> i"
  by (auto simp: all_revoked_def claims_as_def credential_is_active_def)

end
