(* ===== verification/Auth_Durability.thy ===== *)
theory Auth_Durability
  imports Auth_Behaviour
begin

text \<open>
  Crash safety of the authentication store: the state file is replaced by one rename, so every
  directory image that a crash may expose has the complete old or the complete new state; an
  answer is given only when every such image has the new one.
\<close>

section \<open>Phases of a write\<close>

lemma as_disk_update: "as_disk (st\<lparr>as_disk := d\<rparr>) = d"
  by simp

definition auth_phase ::
    "dir set \<Rightarrow> stored_file option set \<Rightarrow> stored_file option \<Rightarrow> stored_file option \<Rightarrow> disk \<Rightarrow> bool"
  where
  "auth_phase H R s t d \<longleftrightarrow>
     dk_now d \<in> set (dk_images d)
     \<and> (\<forall>i \<in> set (dk_history d). i \<in> H \<or> i StateFile \<in> R)
     \<and> (\<forall>i \<in> set (dk_images d). i StateFile \<in> R)
     \<and> dk_now d StateFile = s \<and> dk_now d TmpFile = t"

lemma auth_phase_change:
  assumes "auth_phase H R s t d"
    and "\<And>now. f (dk_now d) = Inr now \<Longrightarrow> now StateFile = s' \<and> now TmpFile = t'" and "s' \<in> R"
  shows "outcome (\<lambda>_. auth_phase H R s' t') (\<lambda>_. auth_phase H R s t) (fs_change f d)"
  using assms by (intro outcome_mono [OF fs_change_outcome]) (auto simp: auth_phase_def)

lemma auth_phase_R: "auth_phase H R s t d \<Longrightarrow> s \<in> R"
  by (auto simp: auth_phase_def)

lemma phase_reject:
  "auth_phase H R s t (as_disk st)
   \<Longrightarrow> outcome (\<lambda>_ st'. auth_phase H R s t (as_disk st')) (\<lambda>_ st'. auth_phase H R s t (as_disk st'))
        (reject_symlink_if_present st)"
  unfolding reject_symlink_if_present_def outcome_on_disk fs_probe_def as_disk_update
  by (rule auth_phase_change) (auto simp: auth_phase_def)

lemma phase_mode:
  "auth_phase H R s t (as_disk st)
   \<Longrightarrow> outcome (\<lambda>_ st'. auth_phase H R s t (as_disk st')) (\<lambda>_ st'. auth_phase H R s t (as_disk st'))
        (set_mode_0600 n st)"
  unfolding set_mode_0600_def outcome_on_disk fs_metadata_def as_disk_update
  by (rule auth_phase_change) (auto simp: auth_phase_def split: if_splits)

lemma phase_remove_tmp:
  "auth_phase H R s t (as_disk st)
   \<Longrightarrow> outcome (\<lambda>_ st'. auth_phase H R s None (as_disk st')) (\<lambda>_ st'. auth_phase H R s t (as_disk st'))
        (on_disk (fs_remove_file TmpFile) st)"
  unfolding outcome_on_disk fs_remove_file_def as_disk_update
  by (rule auth_phase_change) (auto simp: auth_phase_def split: if_splits)

lemma phase_remove_tmpD:
  assumes "auth_phase H R s t (as_disk st)"
  shows "\<exists>t. auth_phase H R s t (as_disk (snd (on_disk (fs_remove_file TmpFile) st)))"
proof -
  have "outcome (\<lambda>_ st'. \<exists>t. auth_phase H R s t (as_disk st'))
      (\<lambda>_ st'. \<exists>t. auth_phase H R s t (as_disk st')) (on_disk (fs_remove_file TmpFile) st)"
    by (rule outcome_mono [OF phase_remove_tmp [OF assms]]) blast+
  then show ?thesis by (simp only: outcome_const)
qed

lemma phase_create_tmp:
  "auth_phase H R s t (as_disk st)
   \<Longrightarrow> outcome (\<lambda>_ st'. auth_phase H R s (Some (Volatile [])) (as_disk st'))
        (\<lambda>_ st'. auth_phase H R s t (as_disk st')) (on_disk (fs_create_new TmpFile) st)"
  unfolding outcome_on_disk fs_create_new_def as_disk_update
  by (rule auth_phase_change) (auto simp: auth_phase_def split: if_splits)

lemma phase_write_tmp:
  assumes "auth_phase H R s t (as_disk st)"
  shows "outcome (\<lambda>_ st'. auth_phase H R s (Some (Stable raw)) (as_disk st'))
     (\<lambda>_ st'. \<exists>t. auth_phase H R s t (as_disk st'))
     (on_disk (\<lambda>d. sbind (fs_write_all TmpFile raw d) (\<lambda>_ d. fs_sync_file TmpFile d)) st)"
proof -
  have put: "outcome (\<lambda>_. auth_phase H R s (Some (Volatile raw))) (\<lambda>_. auth_phase H R s t)
      (fs_write_all TmpFile raw (as_disk st))"
    unfolding fs_write_all_def
    by (rule auth_phase_change [OF assms]) (use assms in \<open>auto simp: auth_phase_def\<close>)
  have sync: "outcome (\<lambda>_. auth_phase H R s (Some (Stable raw)))
      (\<lambda>_. auth_phase H R s (Some (Volatile raw))) (fs_sync_file TmpFile d)"
    if "auth_phase H R s (Some (Volatile raw)) d" for d
    unfolding fs_sync_file_def
    by (rule auth_phase_change [OF that]) (use that in \<open>auto simp: auth_phase_def\<close>)
  show ?thesis
    unfolding outcome_on_disk as_disk_update
    by (rule outcome_sbindW [OF put]) (auto intro: outcome_mono [OF sync])
qed

lemma phase_rename_tmp:
  "auth_phase H R s (Some f) (as_disk st) \<Longrightarrow> Some f \<in> R
   \<Longrightarrow> outcome (\<lambda>_ st'. auth_phase H R (Some f) None (as_disk st'))
        (\<lambda>_ st'. auth_phase H R s (Some f) (as_disk st')) (on_disk (fs_rename TmpFile StateFile) st)"
  unfolding outcome_on_disk fs_rename_def as_disk_update
  by (rule auth_phase_change) (auto simp: auth_phase_def split: if_splits)

lemma phase_sync_parent:
  assumes "auth_phase H R s t (as_disk st)"
  shows "outcome
     (\<lambda>_ st'. auth_phase H R s t (as_disk st') \<and> dk_images (as_disk st') = [dk_now (as_disk st')])
     (\<lambda>_ st'. auth_phase H R s t (as_disk st')) (sync_parent st)"
proof -
  have "outcome (\<lambda>_. auth_phase H R s t) (\<lambda>_. auth_phase H R s t) (fs_change Inr (as_disk st))"
    by (rule auth_phase_change [OF assms]) (use assms in \<open>auto simp: auth_phase_def\<close>)
  then show ?thesis
    unfolding sync_parent_def outcome_on_disk fs_sync_dir_def as_disk_update
    by (rule outcome_sbindW) (auto simp: auth_phase_def)
qed

text \<open>Every image has the given state file.\<close>

definition auth_settled :: "stored_file option \<Rightarrow> disk \<Rightarrow> bool" where
  "auth_settled f d \<longleftrightarrow>
     dk_now d \<in> set (dk_images d) \<and> (\<forall>i \<in> set (dk_images d). i StateFile = f)"

lemma auth_persist_outcome:
  assumes old: "auth_settled old (as_disk st)" and raw: "ad_encode D s = Inr raw"
  defines "R \<equiv> {old, Some (Stable raw)}" and "H \<equiv> set (dk_history (as_disk st))"
  shows "outcome
     (\<lambda>_ st'. (\<exists>f t. auth_phase H R f t (as_disk st')) \<and> auth_settled (Some (Stable raw)) (as_disk st'))
     (\<lambda>_ st'. \<exists>f t. auth_phase H R f t (as_disk st')) (auth_persist D s st)"
proof -
  have start: "auth_phase H R old (dk_now (as_disk st) TmpFile) (as_disk st)"
    using old by (auto simp: auth_phase_def auth_settled_def R_def H_def)
  have new: "Some (Stable raw) \<in> R" by (simp add: R_def)
  show ?thesis
    unfolding auth_persist_def raw
    apply (simp only: map_err_simps sbind_simps)
    apply (intro outcome_ifI outcome_InlI)
     apply (use start in blast)
    apply (rule outcome_sbindW [OF phase_reject [OF start]])
     apply (rule outcome_sbindI [where R = "\<lambda>_ st'. \<exists>t. auth_phase H R old t (as_disk st')"])
      apply (intro outcome_ifI outcome_InrI)
       apply (rule outcome_mono [OF phase_remove_tmp], assumption, blast, blast)
      apply blast
     apply (elim exE)
     apply (rule outcome_sbindW [OF phase_create_tmp], assumption)
      apply (rule outcome_caseI [OF phase_write_tmp], assumption)
       apply (rule outcome_sbindW [OF phase_rename_tmp], assumption, rule new)
        apply (rule outcome_sbindW [OF phase_mode], assumption)
         apply (rule outcome_mono [OF phase_sync_parent], assumption)
          apply (auto simp: auth_settled_def auth_phase_def) [1]
         apply blast
        apply blast
       apply blast
      apply (intro outcome_InlI)
      apply (blast dest: phase_remove_tmpD)
     apply blast
    apply blast
    done
qed

section \<open>Calls\<close>

text \<open>The state in memory is the one that every image of the disk has.\<close>

definition auth_on_disk :: "auth_deps \<Rightarrow> auth_store \<Rightarrow> bool" where
  "auth_on_disk D st \<longleftrightarrow>
     (\<exists>raw. ad_encode D (as_state st) = Inr raw \<and> auth_settled (Some (Stable raw)) (as_disk st))"

text \<open>The state file of an image after a call: the old state, or the one an answer makes.\<close>

definition old_or_answered ::
    "auth_deps \<Rightarrow> auth_call \<Rightarrow> u64 \<Rightarrow> persisted_auth_state \<Rightarrow> stored_file option \<Rightarrow> bool" where
  "old_or_answered D call now s f \<longleftrightarrow>
     (\<exists>s' raw. f = Some (Stable raw) \<and> ad_encode D s' = Inr raw
        \<and> (s' = s \<or> (\<exists>a. auth_effect D call now a s s' \<and> validate_auth_state s' = Inr ())))"

lemma auth_settled_unchanged:
  "auth_on_disk D st \<Longrightarrow> as_disk st' = as_disk st
   \<Longrightarrow> \<forall>i \<in> set (dk_images (as_disk st')). old_or_answered D call now (as_state st) (i StateFile)"
  by (auto simp: auth_on_disk_def auth_settled_def old_or_answered_def)

lemma write_attempt_images:
  assumes "auth_on_disk D st" and "write_attempt D s' b st st'"
    and "auth_effect D call now a (as_state st) s'" "validate_auth_state s' = Inr ()"
  shows "(\<forall>i \<in> set (dk_history (as_disk st')). i \<in> set (dk_history (as_disk st))
        \<or> old_or_answered D call now (as_state st) (i StateFile))
    \<and> (\<forall>i \<in> set (dk_images (as_disk st')). old_or_answered D call now (as_state st) (i StateFile))
    \<and> (b \<and> as_state st' = s' \<longrightarrow> auth_on_disk D st')"
proof -
  obtain old where old: "ad_encode D (as_state st) = Inr old"
    "auth_settled (Some (Stable old)) (as_disk st)"
    using assms(1) by (auto simp: auth_on_disk_def)
  obtain st0 r st1 where run: "as_disk st0 = as_disk st" "auth_persist D s' st0 = (r, st1)"
    "as_disk st' = as_disk st1" "is_ok r = b"
    using assms(2) by (auto simp: write_attempt_def)
  show ?thesis
  proof (cases "ad_encode D s'")
    case (Inl e)
    with run have "r = Inl (Json e)" "as_disk st' = as_disk st"
      by (auto simp: auth_persist_def)
    with run(4) auth_settled_unchanged [OF assms(1)] show ?thesis by auto
  next
    case (Inr raw)
    let ?R = "{Some (Stable old), Some (Stable raw)}"
    have R: "old_or_answered D call now (as_state st) f" if "f \<in> ?R" for f
      using that old(1) Inr assms(3,4) by (auto simp: old_or_answered_def)
    from auth_persist_outcome [of "Some (Stable old)" st0 D s' raw] old(2) Inr run
    have "(\<exists>f t. auth_phase (set (dk_history (as_disk st))) ?R f t (as_disk st'))
        \<and> (b \<longrightarrow> auth_settled (Some (Stable raw)) (as_disk st'))"
      by (cases r) auto
    with R Inr show ?thesis by (auto simp: auth_phase_def auth_on_disk_def)
  qed
qed

lemma auth_execute_durable:
  assumes "digests_have_32_bytes D" and "auth_on_disk D st"
  shows "outcome (\<lambda>_ st'. auth_on_disk D st')
     (\<lambda>_ st'. as_poisoned st' \<or> auth_on_disk D st') (auth_execute D call now st)"
    and "\<forall>i \<in> set (dk_history (as_disk (snd (auth_execute D call now st)))).
      i \<in> set (dk_history (as_disk st)) \<or> old_or_answered D call now (as_state st) (i StateFile)"
    and "\<forall>i \<in> set (dk_images (as_disk (snd (auth_execute D call now st)))).
      old_or_answered D call now (as_state st) (i StateFile)"
proof -
  let ?ok = "\<lambda>st'. (\<forall>i \<in> set (dk_history (as_disk st')). i \<in> set (dk_history (as_disk st))
        \<or> old_or_answered D call now (as_state st) (i StateFile))
    \<and> (\<forall>i \<in> set (dk_images (as_disk st')). old_or_answered D call now (as_state st) (i StateFile))"
  have all: "outcome (\<lambda>_ st'. ?ok st' \<and> auth_on_disk D st')
      (\<lambda>_ st'. ?ok st' \<and> (as_poisoned st' \<or> auth_on_disk D st')) (auth_execute D call now st)"
  proof (rule outcome_mono [OF auth_execute_step [OF assms(1)]])
    fix a st' assume "steps_to D call now st a st'"
    with write_attempt_images [OF assms(2), of "as_state st'" True st' call now a]
    show "?ok st' \<and> auth_on_disk D st'" by (auto simp: steps_to_def)
  next
    fix e st' assume "fails_to D call now st st'"
    then consider "as_state st' = as_state st" "as_disk st' = as_disk st"
      | a s' where "as_poisoned st'" "auth_effect D call now a (as_state st) s'"
          "validate_auth_state s' = Inr ()" "write_attempt D s' False st st'"
      by (auto simp: fails_to_def)
    then show "?ok st' \<and> (as_poisoned st' \<or> auth_on_disk D st')"
    proof cases
      case 1
      with assms(2) auth_settled_unchanged [OF assms(2) 1(2)] show ?thesis
        by (simp add: auth_on_disk_def)
    next
      case 2
      from write_attempt_images [OF assms(2) 2(4,2,3)] 2(1) show ?thesis by blast
    qed
  qed
  from all show "outcome (\<lambda>_ st'. auth_on_disk D st')
     (\<lambda>_ st'. as_poisoned st' \<or> auth_on_disk D st') (auth_execute D call now st)"
    by (rule outcome_mono) auto
  from all have "?ok (snd (auth_execute D call now st))"
    by (cases "auth_execute D call now st"; cases "fst (auth_execute D call now st)") auto
  then show "\<forall>i \<in> set (dk_history (as_disk (snd (auth_execute D call now st)))).
      i \<in> set (dk_history (as_disk st)) \<or> old_or_answered D call now (as_state st) (i StateFile)"
    and "\<forall>i \<in> set (dk_images (as_disk (snd (auth_execute D call now st)))).
      old_or_answered D call now (as_state st) (i StateFile)" by blast+
qed

section \<open>Reopening\<close>

lemma auth_reopen:
  assumes "dir StateFile = Some (Stable raw)" and "ad_decode D raw = Inr s"
    and "validate_auth_state s = Inr ()" and "length raw \<le> MAX_AUTH_STATE_BYTES"
    and "ap_is_absolute path" "ap_has_file_name path" "ap_has_parent path" "ap_parent_is_canonical path"
  shows "\<exists>st st'. auth_open D path (Inr ()) (crashed_disk dir) h = (Inr st, st') \<and> as_state st = s
    \<and> \<not> as_poisoned st \<and> dk_now (as_disk st) StateFile = Some (Stable raw)"
  using assms
  by (cases "dir LockFile"; cases "dir TmpFile")
    (simp_all add: auth_open_def validate_state_path_def reject_symlink_if_present_def
      open_lock_file_def set_mode_0600_def auth_recover_interrupted_write_def read_state_file_def
      on_disk_def crashed_disk_def fs_exists_def fs_probe_def fs_metadata_def
      fs_open_or_create_def fs_remove_file_def fs_read_def fs_change_no_fault Let_def)

section \<open>Progress\<close>

definition auth_healthy :: "auth_store \<Rightarrow> bool" where
  "auth_healthy st \<longleftrightarrow> dk_fault_at (as_disk st) = (\<lambda>_. None) \<and> \<not> as_poisoned st"

lemma auth_persist_healthy:
  assumes "dk_fault_at (as_disk st) = (\<lambda>_. None)" "ad_encode D s = Inr raw"
    "length raw \<le> MAX_AUTH_STATE_BYTES"
  shows "\<exists>st'. auth_persist D s st = (Inr (), st') \<and> dk_fault_at (as_disk st') = (\<lambda>_. None)
    \<and> auth_same st st'"
  using assms
  by (cases "dk_now (as_disk st) TmpFile")
    (simp_all add: auth_persist_def reject_symlink_if_present_def set_mode_0600_def sync_parent_def
      on_disk_def fs_exists_def fs_probe_def fs_metadata_def fs_remove_file_def fs_create_new_def
      fs_write_all_def fs_sync_file_def fs_rename_def fs_sync_dir_def fs_change_no_fault
      auth_same_def)

lemma auth_commit_healthy:
  assumes "auth_healthy st" "ad_encode D s = Inr raw" "length raw \<le> MAX_AUTH_STATE_BYTES"
    and "validate_auth_state s = Inr ()"
  shows "\<exists>st'. auth_commit D s st = (Inr (), st') \<and> as_state st' = s \<and> auth_healthy st'"
proof -
  from assms(1) auth_persist_healthy [of st D s raw] assms(2,3) obtain st' where
    "auth_persist D s st = (Inr (), st')" "dk_fault_at (as_disk st') = (\<lambda>_. None)" "auth_same st st'"
    by (auto simp: auth_healthy_def)
  with assms(1,4) show ?thesis by (simp add: auth_commit_def auth_healthy_def auth_same_def)
qed

text \<open>
  A full window of operation claims gives up its oldest one. A pin rotation authorization whose
  own claim that is would be left without it.
\<close>

definition claim_window_blocked :: "persisted_auth_state \<Rightarrow> bool" where
  "claim_window_blocked s \<longleftrightarrow>
     length (au_operation_claims s) = MAX_OPERATION_REPLAY_CLAIMS
     \<and> list_ex (\<lambda>a. authorization_claim a (hd (au_operation_claims s)))
          (au_pin_rotation_authorizations s)"

definition valid_credential :: "credential_record \<Rightarrow> bool" where
  "valid_credential c \<longleftrightarrow>
     cr_credential_id c \<noteq> nil_uuid \<and> cr_issued_at_unix_ms c < cr_expires_at_unix_ms c
     \<and> cr_expires_at_unix_ms c - cr_issued_at_unix_ms c \<le> MAX_CONTROL_CREDENTIAL_LIFETIME_MS
     \<and> is_ok (decode_digest (cr_digest_sha256 c))"

lemma list_ex_key: "list_ex (\<lambda>y. f y = k) xs \<longleftrightarrow> k \<in> set (map f xs)"
  by (induction xs) auto

lemma valid_credentials_iff:
  "valid_credentials cs \<longleftrightarrow>
     (\<forall>c \<in> set cs. valid_credential c) \<and> distinct (map cr_credential_id cs)
     \<and> distinct (map cr_digest_sha256 cs)"
  by (induction cs) (simp_all add: list_ex_iff valid_credential_def image_iff, metis)

lemma valid_operation_claims_iff:
  "valid_operation_claims cs xs \<longleftrightarrow>
     (\<forall>x \<in> set xs. is_ok (validate_request_identity (oc_request_id x) (oc_nonce x))
        \<and> oc_credential_id x \<in> set (map cr_credential_id cs))
     \<and> distinct (map oc_request_id xs) \<and> distinct (map oc_nonce xs)"
proof (induction xs)
  case (Cons x xs)
  have "list_ex (\<lambda>item. cr_credential_id item = oc_credential_id x) cs
      \<longleftrightarrow> oc_credential_id x \<in> set (map cr_credential_id cs)"
    by (rule list_ex_key)
  moreover have "list_ex (\<lambda>other. oc_request_id other = oc_request_id x
        \<or> oc_nonce other = oc_nonce x) xs
      \<longleftrightarrow> oc_request_id x \<in> set (map oc_request_id xs) \<or> oc_nonce x \<in> set (map oc_nonce xs)"
    unfolding list_ex_key [symmetric] by (auto simp: list_ex_iff)
  ultimately show ?case using Cons by (simp del: set_map) blast
qed simp

lemma set_push_claim: "x \<in> set (push_claim n c xs) \<Longrightarrow> x = c \<or> x \<in> set xs"
  by (auto simp: push_claim_def dest: list.set_sel(2) split: if_splits) (metis list.sel(2) list.set_sel(2))

lemma distinct_push_claim:
  "distinct (map f xs) \<Longrightarrow> f c \<notin> f ` set xs \<Longrightarrow> distinct (map f (push_claim n c xs))"
  by (cases xs) (auto simp: push_claim_def)

lemma length_push_claim: "length xs \<le> n \<Longrightarrow> 0 < n \<Longrightarrow> length (push_claim n c xs) \<le> n"
  by (auto simp: push_claim_def)

lemma map_credential_use:
  "map cr_credential_id (cs[i := (cs ! i)\<lparr>cr_last_request_sequence := q\<rparr>]) = map cr_credential_id cs"
  "map cr_digest_sha256 (cs[i := (cs ! i)\<lparr>cr_last_request_sequence := q\<rparr>]) = map cr_digest_sha256 cs"
  by (simp_all add: map_update) (metis list_update_id map_update)+

lemma valid_operation_claims_push:
  assumes "valid_operation_claims cs xs"
    and "is_ok (validate_request_identity (oc_request_id c) (oc_nonce c))"
    and "oc_credential_id c \<in> set (map cr_credential_id cs)"
    and "\<forall>x \<in> set xs. oc_request_id x \<noteq> oc_request_id c \<and> oc_nonce x \<noteq> oc_nonce c"
  shows "valid_operation_claims cs (push_claim n c xs)"
proof -
  have "distinct (map oc_request_id (push_claim n c xs))" "distinct (map oc_nonce (push_claim n c xs))"
    using assms(1,4) by (auto simp: valid_operation_claims_iff intro!: distinct_push_claim)
  moreover have "is_ok (validate_request_identity (oc_request_id x) (oc_nonce x))
      \<and> oc_credential_id x \<in> set (map cr_credential_id cs)" if "x \<in> set (push_claim n c xs)" for x
    using set_push_claim [OF that] assms(1-3) by (auto simp: valid_operation_claims_iff)
  ultimately show ?thesis by (simp add: valid_operation_claims_iff)
qed

lemma valid_credentials_use:
  assumes "valid_credentials cs" "i < length cs"
  shows "valid_credentials (cs[i := (cs ! i)\<lparr>cr_last_request_sequence := q\<rparr>])"
proof -
  have "valid_credential ((cs ! i)\<lparr>cr_last_request_sequence := q\<rparr>)"
    using assms by (simp add: valid_credentials_iff valid_credential_def)
  with assms(1) show ?thesis
    by (auto simp: valid_credentials_iff map_credential_use dest!: set_update_subset_insert [THEN subsetD])
qed

lemma valid_authorizations_mono:
  assumes "valid_authorizations s as"
    and "\<And>a. a \<in> set as \<Longrightarrow> valid_authorization s a \<Longrightarrow> valid_authorization s' a"
  shows "valid_authorizations s' as"
  using assms by (induction as) auto

text \<open>An accepted operation leads to a valid state, unless the window is blocked.\<close>

lemma operation_valid:
  assumes valid: "validate_auth_state s = Inr ()" and claims: "claims_as D c now s i"
    and "validate_request_identity (ci_request_id c) (ci_nonce c) = Inr ()"
    and n: "checked_add (au_response_sequence s) 1 = Some n" and free: "\<not> claim_window_blocked s"
  shows "validate_auth_state
    ((record_operation (ci_request_id c) (ci_nonce c) (ci_sequence c) i s)\<lparr>au_response_sequence := n\<rparr>)
      = Inr ()"
proof -
  let ?claim = "\<lparr>oc_credential_id = cr_credential_id (au_credentials s ! i),
    oc_request_id = ci_request_id c, oc_nonce = ci_nonce c\<rparr>"
  let ?claims = "push_claim MAX_OPERATION_REPLAY_CLAIMS ?claim (au_operation_claims s)"
  let ?s = "(record_operation (ci_request_id c) (ci_nonce c) (ci_sequence c) i s)
    \<lparr>au_response_sequence := n\<rparr>"
  note v = valid [unfolded validate_auth_state_Inr]
  have i: "i < length (au_credentials s)" using claims by (simp add: claims_as_def)
  have "valid_operation_claims (au_credentials s) ?claims"
    using v claims assms(3) i by (intro valid_operation_claims_push) (auto simp: claims_as_def)
  then have claims': "valid_operation_claims (au_credentials ?s) (au_operation_claims ?s)"
    unfolding valid_operation_claims_iff
    by (simp add: record_operation_def Let_def map_credential_use del: set_map)
  have auths: "valid_authorizations ?s (au_pin_rotation_authorizations s)"
  proof (rule valid_authorizations_mono)
    show "valid_authorizations s (au_pin_rotation_authorizations s)" using v by blast
    fix a assume a: "a \<in> set (au_pin_rotation_authorizations s)" and va: "valid_authorization s a"
    from va obtain k where k: "k \<in> set (au_operation_claims s)" "authorization_claim a k"
      by (auto simp: valid_authorization_def list_ex_iff)
    have "k \<in> set ?claims"
    proof (cases "length (au_operation_claims s) = MAX_OPERATION_REPLAY_CLAIMS")
      case True
      with free a k(2) have "k \<noteq> hd (au_operation_claims s)"
        by (auto simp: claim_window_blocked_def list_ex_iff)
      with k(1) True show ?thesis
        by (cases "au_operation_claims s") (auto simp: push_claim_def)
    qed (use k(1) in \<open>simp add: push_claim_def\<close>)
    with k(2) have "list_ex (authorization_claim a) (au_operation_claims ?s)"
      by (auto simp: list_ex_iff record_operation_def Let_def)
    moreover have "list_ex (\<lambda>credential. cr_credential_id credential = ra_credential_id a)
        (au_credentials ?s)"
      using va unfolding valid_authorization_def list_ex_key
      by (simp add: map_credential_use del: set_map)
    moreover have "ra_response_sequence a \<le> n"
      using va checked_add_one_less [OF n] by (auto simp: valid_authorization_def)
    ultimately show "valid_authorization ?s a"
      using va by (simp add: valid_authorization_def)
  qed
  show ?thesis
    using v valid_credentials_use [OF _ i] claims' auths
    by (simp add: validate_auth_state_Inr) (simp add: record_operation_def Let_def length_push_claim
        MAX_OPERATION_REPLAY_CLAIMS_def)
qed

text \<open>The guards of the code accept what the machine accepts.\<close>

lemma claims_as_accepted:
  assumes "digests_have_32_bytes D" "valid_credentials (au_credentials s)" "claims_as D c now s i"
  shows "matching_credential_index s (hash_secret D CREDENTIAL_HASH_DOMAIN (ci_bearer c)) = Inr i"
    and "claim_operation (ci_request_id c) (ci_nonce c) (ci_sequence c) now i s = Inr ()"
    and "ci_sequence c \<noteq> 0"
proof -
  from assms(3) have i: "i < length (au_credentials s)"
    "decode_digest (cr_digest_sha256 (au_credentials s ! i))
       = Inr (hash_secret D CREDENTIAL_HASH_DOMAIN (ci_bearer c))"
    by (simp_all add: claims_as_def)
  show "matching_credential_index s (hash_secret D CREDENTIAL_HASH_DOMAIN (ci_bearer c)) = Inr i"
    by (rule matching_credential_index_valid [OF assms(2) hash_secret_length [OF assms(1)] i])
  from assms(3) show "claim_operation (ci_request_id c) (ci_nonce c) (ci_sequence c) now i s = Inr ()"
    by (auto simp: claims_as_def claim_operation_def credential_is_active_def Let_def list_ex_iff)
  from assms(3) show "ci_sequence c \<noteq> 0" by (auto simp: claims_as_def)
qed

lemma operation_commits:
  fixes st D c i n
  defines "s' \<equiv> (record_operation (ci_request_id c) (ci_nonce c) (ci_sequence c) i (as_state st))
    \<lparr>au_response_sequence := n\<rparr>"
  assumes "digests_have_32_bytes D" "auth_healthy st" "validate_auth_state (as_state st) = Inr ()"
    and "claims_as D c now (as_state st) i" "validate_secret (ci_bearer c) = Inr ()"
    and "validate_request_identity (ci_request_id c) (ci_nonce c) = Inr ()"
    and "checked_add (au_response_sequence (as_state st)) 1 = Some n"
    and "\<not> claim_window_blocked (as_state st)"
    and "ad_encode D s' = Inr raw" "length raw \<le> MAX_AUTH_STATE_BYTES"
  shows "\<exists>st'. auth_execute D (AuthenticateOperation c) now st
      = (Inr (OperationAuthenticated
           \<lparr>ao_credential_id = cr_credential_id (au_credentials (as_state st) ! i),
            ao_response_sequence = n\<rparr>), st')
    \<and> auth_healthy st' \<and> as_state st' = s'"
proof -
  have "validate_auth_state s' = Inr ()"
    unfolding s'_def by (rule operation_valid [OF assms(4,5,7,8,9)])
  from auth_commit_healthy [OF assms(3,10,11) this] obtain st' where
    commit: "auth_commit D s' st = (Inr (), st')" "as_state st' = s'" "auth_healthy st'" by blast
  have "valid_credentials (au_credentials (as_state st))"
    using assms(4) by (simp add: validate_auth_state_Inr)
  note accepted = claims_as_accepted [OF assms(2) this assms(5)]
  have "increment_response_sequence
      (record_operation (ci_request_id c) (ci_nonce c) (ci_sequence c) i (as_state st)) = Inr s'"
    using assms(8) by (simp add: increment_response_sequence_Inr s'_def)
  with accepted commit assms(6,7) show ?thesis
    by (simp add: answering_def authenticate_operation_def Let_def) (simp add: s'_def)
qed

text \<open>When the window is blocked, no operation is answered.\<close>

lemma blocked_window_refuses:
  assumes "validate_auth_state s = Inr ()" "claim_window_blocked s" "claims_as D c now s i"
  shows "validate_auth_state
    ((record_operation (ci_request_id c) (ci_nonce c) (ci_sequence c) i s)\<lparr>au_response_sequence := n\<rparr>)
      = Inl InvalidState"
proof -
  let ?s = "(record_operation (ci_request_id c) (ci_nonce c) (ci_sequence c) i s)
    \<lparr>au_response_sequence := n\<rparr>"
  from assms(2) obtain a where a: "a \<in> set (au_pin_rotation_authorizations s)"
    "authorization_claim a (hd (au_operation_claims s))"
    and full: "length (au_operation_claims s) = MAX_OPERATION_REPLAY_CLAIMS"
    by (auto simp: claim_window_blocked_def list_ex_iff)
  obtain k ks where ks: "au_operation_claims s = k # ks"
    using full by (cases "au_operation_claims s") (auto simp: MAX_OPERATION_REPLAY_CLAIMS_def)
  have "valid_operation_claims (au_credentials s) (k # ks)"
    using assms(1) ks by (simp add: validate_auth_state_Inr)
  with a(2) ks have "\<not> list_ex (authorization_claim a) ks"
    by (auto simp: list_ex_iff authorization_claim_def)
  moreover have "oc_request_id k \<noteq> ci_request_id c"
    using assms(3) ks by (simp add: claims_as_def)
  ultimately have "\<not> list_ex (authorization_claim a) (au_operation_claims ?s)"
    using a(2) ks full
    by (simp add: record_operation_def Let_def push_claim_def authorization_claim_def)
  then have "\<not> valid_authorization ?s a" by (simp add: valid_authorization_def)
  moreover have "valid_authorizations t as \<Longrightarrow> x \<in> set as \<Longrightarrow> valid_authorization t x" for t as x
    by (induction as) auto
  ultimately have "\<not> valid_authorizations ?s (au_pin_rotation_authorizations ?s)"
    using a(1) by auto
  then show ?thesis by (simp add: validate_auth_state_def split: option.split)
qed

section \<open>A directory left by a crash in the first write\<close>

definition torn :: "nat list \<Rightarrow> disk \<Rightarrow> bool" where
  "torn raw d \<longleftrightarrow> dk_now d StateFile = None \<and> map_option file_bytes (dk_now d TmpFile) = Some raw"

lemma torn_change:
  assumes "torn raw d" and "\<And>now. f (dk_now d) = Inr now
      \<Longrightarrow> now StateFile = dk_now d StateFile \<and> now TmpFile = dk_now d TmpFile"
  shows "outcome (\<lambda>_. torn raw) (\<lambda>_. torn raw) (fs_change f d)"
  using assms by (intro outcome_mono [OF fs_change_outcome]) (auto simp: torn_def)

lemma torn_steps:
  assumes "torn raw (as_disk st)"
  shows "outcome (\<lambda>_ st'. torn raw (as_disk st')) (\<lambda>_ st'. torn raw (as_disk st'))
      (reject_symlink_if_present st)" (is ?reject)
    and "outcome (\<lambda>_ st'. torn raw (as_disk st')) (\<lambda>_ st'. torn raw (as_disk st'))
      (on_disk (fs_metadata n) st)" (is ?meta)
    and "outcome (\<lambda>_ st'. torn raw (as_disk st')) (\<lambda>_ st'. torn raw (as_disk st'))
      (on_disk (fs_open_or_create LockFile) st)" (is ?open)
    and "outcome (\<lambda>x st'. torn raw (as_disk st') \<and> x = raw) (\<lambda>_ st'. torn raw (as_disk st'))
      (on_disk (fs_read TmpFile) st)" (is ?read)
proof -
  show ?reject
    unfolding reject_symlink_if_present_def outcome_on_disk fs_probe_def as_disk_update
    by (rule torn_change [OF assms]) simp
  show ?meta
    unfolding outcome_on_disk fs_metadata_def as_disk_update
    by (rule torn_change [OF assms]) (simp split: if_splits)
  show ?open
    unfolding outcome_on_disk fs_open_or_create_def as_disk_update
    by (rule torn_change [OF assms]) (auto split: if_splits)
  have same: "outcome (\<lambda>_. torn raw) (\<lambda>_. torn raw) (fs_change Inr (as_disk st))"
    by (rule torn_change [OF assms]) simp
  show ?read
    unfolding outcome_on_disk fs_read_def as_disk_update
    by (rule outcome_sbindW [OF same]) (auto simp: torn_def)
qed

lemma torn_read:
  assumes "torn raw (as_disk st)" and "ad_decode D raw = Inl e"
  shows "outcome (\<lambda>_ _. False) (\<lambda>_ st'. torn raw (as_disk st')) (read_state_file D TmpFile st)"
  unfolding read_state_file_def set_mode_0600_def
  by (rule outcome_sbindI [OF torn_steps(1) [OF assms(1)]],
      rule outcome_sbindI [OF torn_steps(2)], assumption, rule outcome_ifI, simp,
      rule outcome_sbindI [OF torn_steps(2)], assumption,
      rule outcome_sbindI [OF torn_steps(4)], assumption, rule outcome_ifI)
    (auto simp: assms(2))

lemma torn_open:
  assumes "torn raw disk" and "ad_decode D raw = Inl e"
  shows "outcome (\<lambda>_ _. False) (\<lambda>_ st'. torn raw (as_disk st')) (auth_open D path lock disk host)"
proof -
  have recover: "outcome (\<lambda>_ _. False) (\<lambda>_ st'. torn raw (as_disk st'))
      (auth_recover_interrupted_write D st)" if "torn raw (as_disk st)" for st
    unfolding auth_recover_interrupted_write_def
    by (rule outcome_sbindI [OF torn_steps(1) [OF that]])
      (auto simp: fs_exists_def torn_def intro: outcome_mono [OF torn_read [OF _ assms(2)]])
  have path: "outcome (\<lambda>_ st'. torn raw (as_disk st')) (\<lambda>_ st'. torn raw (as_disk st'))
      (validate_state_path path st)" if "torn raw (as_disk st)" for st
    unfolding validate_state_path_def
    by (intro outcome_ifI outcome_InlI that torn_steps(1))
  have lock_file: "outcome (\<lambda>_ st'. torn raw (as_disk st')) (\<lambda>_ st'. torn raw (as_disk st'))
      (open_lock_file st)" if "torn raw (as_disk st)" for st
    unfolding open_lock_file_def set_mode_0600_def
    by (rule outcome_sbindI [OF torn_steps(3) [OF that]], rule torn_steps(2))
  show ?thesis
    unfolding auth_open_def Let_def
    by (rule outcome_sbindI [OF path], simp add: assms(1),
        rule outcome_sbindI [OF torn_steps(1)], assumption,
        rule outcome_sbindI [OF lock_file], assumption, rule outcome_pure_bindI,
        rule outcome_sbindI [OF recover], assumption, rule FalseE, assumption, assumption)
qed

end
