(* ===== verification/Auth_Properties.thy ===== *)
theory Auth_Properties
  imports Auth_Durability
begin

text \<open>
  The properties of the authentication store, each with a witness that applies it to a
  concrete store: a server with one pairing token and one control credential.
\<close>

section \<open>A sample store\<close>

definition sample_sha :: "nat list \<Rightarrow> u8 list" where
  "sample_sha x = replicate 31 0 @ [of_nat (length x)]"

text \<open>The file holds the response sequence, which is enough where nothing is read back.\<close>

definition sample_deps :: auth_deps where
  "sample_deps = \<lparr>ad_sha256 = sample_sha,
     ad_encode = (\<lambda>s. Inr [unat (au_response_sequence s)]),
     ad_decode = (\<lambda>_. Inl (lit ''unsupported''))\<rparr>"

definition sample_secret :: str where "sample_secret = replicate 32 97"
definition sample_claim_nonce :: str where "sample_claim_nonce = replicate 32 98"

definition sample_credential :: credential_record where
  "sample_credential = \<lparr>cr_credential_id = Uuid 30,
     cr_digest_sha256 = hash_secret_hex sample_deps CREDENTIAL_HASH_DOMAIN sample_secret,
     cr_issued_at_unix_ms = 1000, cr_expires_at_unix_ms = 900000, cr_revoked = False,
     cr_last_request_sequence = 5\<rparr>"

definition sample_token :: pairing_token_record where
  "sample_token = \<lparr>pt_token_id = Uuid 20,
     pt_digest_sha256 = hash_secret_hex sample_deps PAIRING_HASH_DOMAIN sample_secret,
     pt_issued_at_unix_ms = 1000, pt_expires_at_unix_ms = 200000\<rparr>"

definition sample_auth_state :: persisted_auth_state where
  "sample_auth_state = \<lparr>au_schema_version = 1, au_server_id = Uuid 9, au_response_sequence = 4,
     au_pairing_token = Some sample_token, au_credentials = [sample_credential],
     au_pairing_claims = [], au_operation_claims = [], au_pin_rotation_authorizations = []\<rparr>"

definition sample_auth_store :: auth_store where
  "sample_auth_store = \<lparr>as_state = sample_auth_state, as_poisoned = False,
     as_disk = crashed_disk (\<lambda>n. if n = StateFile then Some (Stable [4]) else None),
     as_host = \<lparr>clock_at = (\<lambda>_. 2000), clock_reads = 0, uuid_at = (\<lambda>n. Uuid (of_nat n + 100)),
                uuid_draws = 0\<rparr>\<rparr>"

definition sample_identity :: claim_identity where
  "sample_identity = \<lparr>ci_bearer = sample_secret, ci_request_id = Uuid 40,
     ci_nonce = sample_claim_nonce, ci_sequence = 6\<rparr>"

lemmas sample_auth_defs =
  sample_auth_store_def sample_auth_state_def sample_credential_def sample_token_def
  sample_identity_def crashed_disk_def

lemma sample_digests [simp]: "digests_have_32_bytes sample_deps"
  by (simp add: digests_have_32_bytes_def sample_deps_def sample_sha_def)

lemma sample_digest_ok [simp]:
  "decode_digest (hash_secret_hex sample_deps domain secret)
     = Inr (hash_secret sample_deps domain secret)"
  by (simp add: hash_secret_hex_def decode_encode_digest hash_secret_length)

lemma sample_valid [simp]: "validate_auth_state sample_auth_state = Inr ()"
  by (simp add: validate_auth_state_Inr sample_auth_state_def AUTH_SCHEMA_VERSION_def nil_uuid_def
      MAX_CREDENTIALS_def valid_token_def sample_token_def sample_credential_def
      AUTH_PAIRING_TOKEN_LIFETIME_MS_def MAX_CONTROL_CREDENTIAL_LIFETIME_MS_def)

lemma sample_secret_bytes: "str_bytes sample_secret = replicate 32 97"
proof -
  have "str_bytes (replicate n 97) = replicate n 97" for n
    by (induction n) simp_all
  then show ?thesis by (simp add: sample_secret_def)
qed

lemma uuid_simple_length: "length (uuid_simple u) = 32"
  by (simp add: uuid_simple_def)

lemma sample_strings [simp]:
  "validate_secret sample_secret = Inr ()"
  "u \<noteq> nil_uuid \<Longrightarrow> validate_request_identity u sample_claim_nonce = Inr ()"
proof -
  have "str_bytes (replicate n 97) = replicate n 97" "str_bytes (replicate n 98) = replicate n 98" for n
    by (induction n) simp_all
  then show "validate_secret sample_secret = Inr ()"
    "u \<noteq> nil_uuid \<Longrightarrow> validate_request_identity u sample_claim_nonce = Inr ()"
    by (simp_all add: validate_secret_def sample_secret_def validate_request_identity_def
        sample_claim_nonce_def str_len_def list_all_iff ascii_class_defs)
qed

lemma sample_claims: "claims_as sample_deps sample_identity 2000 sample_auth_state 0"
  by (simp add: claims_as_def credential_is_active_def sample_auth_defs)

lemma sample_not_blocked: "\<not> claim_window_blocked sample_auth_state"
  by (simp add: claim_window_blocked_def sample_auth_defs)

lemma sample_state [simp]: "as_state sample_auth_store = sample_auth_state"
  by (simp add: sample_auth_store_def)

lemma sample_answered:
  "\<exists>st'. auth_execute sample_deps (AuthenticateOperation sample_identity) 2000 sample_auth_store
      = (Inr (OperationAuthenticated \<lparr>ao_credential_id = Uuid 30, ao_response_sequence = 5\<rparr>), st')
    \<and> auth_healthy st'
    \<and> as_state st' = (record_operation (Uuid 40) sample_claim_nonce 6 0 sample_auth_state)
        \<lparr>au_response_sequence := 5\<rparr>"
  using operation_commits [OF sample_digests, of sample_auth_store sample_identity 2000 0 5 "[5]"]
    sample_claims sample_not_blocked
  by (simp add: auth_healthy_def checked_add_def sample_deps_def MAX_AUTH_STATE_BYTES_def)
    (simp add: sample_auth_defs nil_uuid_def)

section \<open>Refinement and response sequences\<close>



text \<open>
  Response sequences never repeat: along any run of operations the sequences that are
  handed out increase strictly, from above the store's own to exactly the one it ends with; and
  the server keeps its identity.
\<close>

theorem response_sequences_increase:
  assumes "digests_have_32_bytes D" and "auth_run D calls st = (rs, st')"
  shows "sorted_wrt (<) (au_response_sequence (as_state st) # answered_sequences rs)
    \<and> last (au_response_sequence (as_state st) # answered_sequences rs)
        = au_response_sequence (as_state st')
    \<and> au_server_id (as_state st') = au_server_id (as_state st)"
  by (rule auth_run_sequences [OF assms])

theorem response_sequences_increase_witness:
  "\<exists>rs st'. auth_run sample_deps [(ReserveSequence, 2000), (RevokeAll, 2500), (ReserveSequence, 3000)]
       sample_auth_store = (rs, st')
     \<and> sorted_wrt (<) (4 # answered_sequences rs) \<and> au_server_id (as_state st') = Uuid 9"
proof -
  obtain rs st' where "auth_run sample_deps
      [(ReserveSequence, 2000), (RevokeAll, 2500), (ReserveSequence, 3000)] sample_auth_store
    = (rs, st')" by force
  with response_sequences_increase [OF sample_digests this] show ?thesis
    by (simp add: sample_auth_store_def sample_auth_state_def)
qed

section \<open>Replay\<close>

text \<open>
  Used sequences stay used: after a bearer's request has been answered, and whatever the
  store does next, evicting old claims included, a request of that bearer with the same or a
  lower sequence is refused, provided that no credential paired since has the bearer's digest.
\<close>

theorem used_sequences_stay_used:
  assumes "digests_have_32_bytes D"
    and "auth_execute D (AuthenticateOperation c) now st = (Inr a, st1)"
    and "auth_run D calls st1 = (rs, st2)"
    and "\<forall>g. Inr (Paired g) \<in> set rs \<longrightarrow>
      hash_secret D CREDENTIAL_HASH_DOMAIN (pg_credential g)
        \<noteq> hash_secret D CREDENTIAL_HASH_DOMAIN (ci_bearer c)"
    and "ci_bearer c' = ci_bearer c" and "ci_sequence c' \<le> ci_sequence c"
  shows "(\<exists>e. fst (auth_execute D (AuthenticateOperation c') now' st2) = Inl e)
    \<and> (\<exists>e. fst (auth_execute D (AuthorizeRotation c' i t pin) now' st2) = Inl e)"
proof -
  let ?used = "sequence_used (hash_secret D CREDENTIAL_HASH_DOMAIN (ci_bearer c)) (ci_sequence c)"
  have "?used (as_state st1)"
    by (rule claim_uses_sequence [OF auth_execute_effect [OF assms(1,2)]]) simp
  then have used: "?used (as_state st2)"
    by (rule auth_run_keeps [OF assms(1,3)])
      (erule auth_effect_sequence_used [OF _ assms(1)], assumption, use assms(4) in blast)
  have "False" if "call = AuthenticateOperation c' \<or> call = AuthorizeRotation c' i t pin"
    and "auth_execute D call now' st2 = (Inr b, st3)" for call b st3
    using auth_execute_effect(1) [OF assms(1) that(2)] that(1)
      sequence_used_refuses [of D c' "ci_sequence c" "as_state st2"] used assms(5,6)
    by (auto elim: auth_effectE)
  then show ?thesis
    by (metis obj_sumE prod.collapse)
qed

theorem used_sequences_stay_used_witness:
  "\<exists>st1 r st2. auth_execute sample_deps (AuthenticateOperation sample_identity) 2000 sample_auth_store
      = (Inr (OperationAuthenticated \<lparr>ao_credential_id = Uuid 30, ao_response_sequence = 5\<rparr>), st1)
    \<and> auth_execute sample_deps ReserveSequence 2500 st1 = (r, st2)
    \<and> (\<exists>e. fst (auth_execute sample_deps (AuthenticateOperation
             (sample_identity\<lparr>ci_request_id := Uuid 41\<rparr>)) 3000 st2) = Inl e)"
proof -
  obtain st1 where st1: "auth_execute sample_deps (AuthenticateOperation sample_identity) 2000
      sample_auth_store
    = (Inr (OperationAuthenticated \<lparr>ao_credential_id = Uuid 30, ao_response_sequence = 5\<rparr>), st1)"
    using sample_answered by blast
  obtain r st2 where r: "auth_execute sample_deps ReserveSequence 2500 st1 = (r, st2)" by force
  then have run: "auth_run sample_deps [(ReserveSequence, 2500)] st1 = ([r], st2)" by simp
  have "r \<noteq> Inr (Paired g)" for g
    using r by (auto simp: answering_def sbind_Inr_iff)
  then have fresh: "\<forall>g. Inr (Paired g) \<in> set [r] \<longrightarrow>
      hash_secret sample_deps CREDENTIAL_HASH_DOMAIN (pg_credential g)
        \<noteq> hash_secret sample_deps CREDENTIAL_HASH_DOMAIN (ci_bearer sample_identity)" by auto
  show ?thesis
    using st1 r conjunct1 [OF used_sequences_stay_used [OF sample_digests st1 run fresh,
        of "sample_identity\<lparr>ci_request_id := Uuid 41\<rparr>" 3000]] by auto
qed

section \<open>Pairing\<close>


definition sample_redemption :: redemption where
  "sample_redemption = \<lparr>rd_request_id = Uuid 50, rd_nonce = sample_claim_nonce,
     rd_token_id = Uuid 20, rd_secret = sample_secret, rd_advertised_expires_at = 200000,
     rd_lifetime_ms = 60000, rd_rotation = None\<rparr>"

lemma sample_host_draws [simp]:
  "uuid_at (as_host sample_auth_store) = (\<lambda>n. Uuid (of_nat n + 100))"
  "uuid_draws (as_host sample_auth_store) = 0"
  by (simp_all add: sample_auth_store_def)

lemma sample_paired:
  "\<exists>g st'. auth_execute sample_deps (RedeemToken sample_redemption) 2000 sample_auth_store
      = (Inr (Paired g), st') \<and> auth_healthy st'"
proof -
  let ?secret = "uuid_simple (Uuid 101) @ uuid_simple (Uuid 102)"
  let ?credential = "\<lparr>cr_credential_id = Uuid 100,
    cr_digest_sha256 = hash_secret_hex sample_deps CREDENTIAL_HASH_DOMAIN ?secret,
    cr_issued_at_unix_ms = 2000, cr_expires_at_unix_ms = 62000, cr_revoked = False,
    cr_last_request_sequence = 0\<rparr>"
  let ?s = "sample_auth_state\<lparr>au_response_sequence := 5, au_pairing_token := None,
    au_pairing_claims := [\<lparr>pc_request_id = Uuid 50, pc_nonce = sample_claim_nonce\<rparr>],
    au_credentials := [sample_credential, ?credential]\<rparr>"
  have "hash_secret sample_deps CREDENTIAL_HASH_DOMAIN ?secret
      \<noteq> hash_secret sample_deps CREDENTIAL_HASH_DOMAIN sample_secret"
    by (simp add: hash_secret_def sample_deps_def sample_sha_def CREDENTIAL_HASH_DOMAIN_def lit_def
        sample_secret_bytes uuid_simple_length)
  then have "hash_secret_hex sample_deps CREDENTIAL_HASH_DOMAIN ?secret
      \<noteq> hash_secret_hex sample_deps CREDENTIAL_HASH_DOMAIN sample_secret"
    by (metis sample_digest_ok sum.inject(2))
  then have "validate_auth_state ?s = Inr ()"
    using sample_valid
    by (simp add: validate_auth_state_Inr sample_auth_state_def nil_uuid_def MAX_CREDENTIALS_def
        MAX_PAIRING_REPLAY_CLAIMS_def sample_credential_def MAX_CONTROL_CREDENTIAL_LIFETIME_MS_def)
  moreover have "redeem_change (Uuid 50) sample_claim_nonce (Uuid 20)
      (hash_secret sample_deps PAIRING_HASH_DOMAIN sample_secret) 200000 2000 ?credential None
      sample_auth_state = Inr ?s"
    by (simp add: redeem_change_def check_pairing_token_def check_rotation_def purge_credentials_def
        increment_response_sequence_def checked_add_def push_claim_def constant_time_eq_iff
        credential_is_active_def sample_auth_defs MAX_CREDENTIALS_def MAX_PAIRING_REPLAY_CLAIMS_def)
  moreover have "\<exists>st'. auth_commit sample_deps ?s (sample_auth_store\<lparr>as_host := h\<rparr>) = (Inr (), st')
      \<and> auth_healthy st'" for h
  proof -
    have "auth_healthy (sample_auth_store\<lparr>as_host := h\<rparr>)"
      by (simp add: auth_healthy_def sample_auth_store_def crashed_disk_def)
    from auth_commit_healthy [OF this, of sample_deps ?s "[5]"] \<open>validate_auth_state ?s = Inr ()\<close>
    show ?thesis by (auto simp: sample_deps_def MAX_AUTH_STATE_BYTES_def)
  qed
  ultimately show ?thesis
    by (auto simp: answering_def sample_redemption_def redeem_pairing_token_def
        redeem_pairing_token_inner_def validate_lifetime_def MIN_SECRET_LIFETIME_MS_def
        MAX_CONTROL_CREDENTIAL_LIFETIME_MS_def checked_add_def auth_new_v4_def new_v4_def
        new_high_entropy_secret_def nil_uuid_def sbind_Inr_iff)
qed


text \<open>
  A pending pin rotation binds its pairing. While an authorization for the token is
  pending, redeeming the token needs a claim that repeats every field of the authorization, the
  new pin included, before it expires and while the old credential is active; a claim without a
  pending authorization is refused too.
\<close>

theorem rotations_bind_their_pairing:
  assumes "digests_have_32_bytes D"
    and "auth_execute D (RedeemToken r) now st = (Inr a, st')"
  shows "case find (\<lambda>p. ra_pairing_token_id p = rd_token_id r)
           (au_pin_rotation_authorizations (as_state st)) of
       None \<Rightarrow> rd_rotation r = None
     | Some p \<Rightarrow> now < ra_expires_at_unix_ms p
         \<and> rd_rotation r = Some \<lparr>tc_challenge = ra_challenge p,
             tc_server_id = au_server_id (as_state st),
             tc_old_client_credential_id = ra_credential_id p,
             tc_authorization_request_id = ra_request_id p,
             tc_authorization_request_nonce = ra_request_nonce p,
             tc_authorization_request_sequence = ra_request_sequence p,
             tc_authorization_response_sequence = ra_response_sequence p,
             tc_authorization_expires_at_unix_ms = ra_expires_at_unix_ms p,
             tc_pairing_token_id = rd_token_id r, tc_new_pin = ra_new_pin p\<rparr>
         \<and> list_ex (\<lambda>c. cr_credential_id c = ra_credential_id p \<and> credential_is_active now c)
             (au_credentials (as_state st))"
proof -
  from auth_execute_effect(1) [OF assms] have
    "check_rotation (as_state st) (rd_token_id r) now (rd_rotation r) = Inr ()"
    by (auto elim!: auth_effectE dest: redeem_change_sel(6))
  then show ?thesis
    by (auto simp: check_rotation_def rotation_claim_matches_def split: option.splits if_splits)
qed

theorem rotations_bind_their_pairing_witness:
  "\<exists>a st'. auth_execute sample_deps (RedeemToken sample_redemption) 2000 sample_auth_store = (Inr a, st')
     \<and> rd_rotation sample_redemption = None"
proof -
  obtain a st' where st': "auth_execute sample_deps (RedeemToken sample_redemption) 2000
      sample_auth_store = (Inr a, st')"
    using sample_paired by blast
  with rotations_bind_their_pairing [OF sample_digests st'] show ?thesis
    by (auto simp: sample_auth_defs)
qed

section \<open>Revocation\<close>

text \<open>
  C27. Revocation is final: once revoking a credential has been answered, no request is answered
  as that credential's again, whatever the store does next, provided no credential paired since
  has its identifier.
\<close>

theorem revocation_is_final:
  assumes "digests_have_32_bytes D" and "validate_auth_state (as_state st) = Inr ()"
    and "auth_execute D (RevokeCredential i) now st = (Inr a, st1)"
    and "auth_run D calls st1 = (rs, st2)"
    and "\<forall>g. Inr (Paired g) \<in> set rs \<longrightarrow> pg_credential_id g \<noteq> i"
  shows "fst (auth_execute D (AuthenticateOperation c) now' st2)
      \<noteq> Inr (OperationAuthenticated \<lparr>ao_credential_id = i, ao_response_sequence = n\<rparr>)
    \<and> (\<exists>e. fst (auth_execute D (AuthorizeRotation c i t pin) now' st2) = Inl e)"
proof -
  from auth_execute_effect [OF assms(1,3)] have "all_revoked i (as_state st1)"
    by (auto elim!: auth_effectE simp: all_revoked_def validate_auth_state_Inr
        intro: revoke_first_revokes)
  then have revoked: "all_revoked i (as_state st2)"
    by (rule auth_run_keeps [OF assms(1,4)])
      (erule auth_effect_all_revoked, assumption, use assms(5) in blast)
  have "fst (auth_execute D (AuthenticateOperation c) now' st2)
      \<noteq> Inr (OperationAuthenticated \<lparr>ao_credential_id = i, ao_response_sequence = n\<rparr>)"
  proof
    assume "fst (auth_execute D (AuthenticateOperation c) now' st2)
      = Inr (OperationAuthenticated \<lparr>ao_credential_id = i, ao_response_sequence = n\<rparr>)"
    then obtain st3 where "auth_execute D (AuthenticateOperation c) now' st2
      = (Inr (OperationAuthenticated \<lparr>ao_credential_id = i, ao_response_sequence = n\<rparr>), st3)"
      by (metis prod.collapse)
    from auth_execute_effect(1) [OF assms(1) this] show False
      using all_revoked_claims [OF revoked] by (auto elim!: auth_effectE)
  qed
  moreover have False if "auth_execute D (AuthorizeRotation c i t pin) now' st2 = (Inr b, st3)"
    for b st3
    using auth_execute_effect(1) [OF assms(1) that] all_revoked_claims [OF revoked]
    by (auto elim!: auth_effectE)
  ultimately show ?thesis by (metis obj_sumE prod.collapse)
qed

lemma sample_revoked:
  "\<exists>a st'. auth_execute sample_deps (RevokeCredential (Uuid 30)) 2000 sample_auth_store = (Inr a, st')"
proof -
  let ?s = "sample_auth_state\<lparr>au_credentials := [sample_credential\<lparr>cr_revoked := True\<rparr>]\<rparr>"
  have "auth_healthy sample_auth_store"
    by (simp add: auth_healthy_def sample_auth_store_def crashed_disk_def)
  moreover have "validate_auth_state ?s = Inr ()"
    using sample_valid by (simp add: validate_auth_state_Inr sample_auth_state_def)
  moreover have "ad_encode sample_deps ?s = Inr [4]"
    by (simp add: sample_deps_def sample_auth_state_def)
  ultimately obtain st' where "auth_commit sample_deps ?s sample_auth_store = (Inr (), st')"
    using auth_commit_healthy [of sample_auth_store sample_deps ?s "[4]"]
    by (auto simp: MAX_AUTH_STATE_BYTES_def)
  moreover have "revoke_first (Uuid 30) (au_credentials sample_auth_state)
      = Some [sample_credential\<lparr>cr_revoked := True\<rparr>]"
    by (simp add: sample_auth_state_def sample_credential_def)
  ultimately show ?thesis
    by (simp add: answering_def revoke_credential_def auth_mutate_def)
qed

theorem revocation_is_final_witness:
  "\<exists>a st1. auth_execute sample_deps (RevokeCredential (Uuid 30)) 2000 sample_auth_store = (Inr a, st1)
     \<and> fst (auth_execute sample_deps (AuthenticateOperation sample_identity) 3000 st1)
         \<noteq> Inr (OperationAuthenticated \<lparr>ao_credential_id = Uuid 30, ao_response_sequence = 5\<rparr>)"
proof -
  obtain a st1 where st1: "auth_execute sample_deps (RevokeCredential (Uuid 30)) 2000
      sample_auth_store = (Inr a, st1)"
    using sample_revoked by blast
  have valid: "validate_auth_state (as_state sample_auth_store) = Inr ()" by simp
  have "auth_run sample_deps [] st1 = ([], st1)" by simp
  from revocation_is_final [OF sample_digests valid st1 this, of sample_identity 3000 5] st1
  show ?thesis by (simp del: auth_execute.simps)
qed

section \<open>Digests\<close>

text \<open>
  Digests round trip: decoding the stored hexadecimal form of 32 bytes gives the bytes,
  whatever decodes is the form of what it decodes to, and the constant-time comparison of two
  digests is equality.
\<close>

theorem digests_round_trip:
  "(length d = 32 \<longrightarrow> decode_digest (encode_digest d) = Inr d)
   \<and> (decode_digest v = Inr d \<longrightarrow> encode_digest d = v \<and> length d = 32)
   \<and> (length d = length d' \<longrightarrow> constant_time_eq d d' = (d = d'))"
  by (simp add: decode_encode_digest encode_decode_digest decode_digest_length constant_time_eq_iff)

theorem digests_round_trip_witness:
  "decode_digest (encode_digest (replicate 32 171)) = Inr (replicate 32 171)
   \<and> \<not> constant_time_eq [1, 2] [1, 3]"
  using digests_round_trip [of "replicate 32 171" "[]" "[]"]
    digests_round_trip [of "[1, 2]" "[]" "[1, 3]"] by simp

section \<open>Durability\<close>

text \<open>
  C20. Answers are durable. If the state in memory is on disk, then at every moment of an
  operation, whatever file operations fail, every directory image that a crash may expose has
  in its state file the complete old state or the complete valid state of an answer; after an
  answer every image has that state, and after a failure the store is poisoned or again in step
  with the disk.
\<close>

theorem auth_answers_are_durable:
  assumes "digests_have_32_bytes D" and "auth_on_disk D st"
  shows "(\<forall>i \<in> set (dk_history (as_disk (snd (auth_execute D call now st)))).
        i \<in> set (dk_history (as_disk st)) \<or> old_or_answered D call now (as_state st) (i StateFile))
    \<and> (\<forall>i \<in> set (dk_images (as_disk (snd (auth_execute D call now st)))).
        old_or_answered D call now (as_state st) (i StateFile))
    \<and> outcome (\<lambda>_ st'. auth_on_disk D st')
        (\<lambda>_ st'. as_poisoned st' \<or> auth_on_disk D st') (auth_execute D call now st)"
  using auth_execute_durable [OF assms] by blast

lemma sample_on_disk_auth: "auth_on_disk sample_deps sample_auth_store"
  by (simp add: auth_on_disk_def auth_settled_def sample_deps_def sample_auth_defs)

theorem auth_answers_are_durable_witness:
  "list_all (\<lambda>i. old_or_answered sample_deps (AuthenticateOperation sample_identity) 2000
       sample_auth_state (i StateFile))
     (dk_images (as_disk (snd (auth_execute sample_deps (AuthenticateOperation sample_identity) 2000
       sample_auth_store))))"
  using auth_answers_are_durable [OF sample_digests sample_on_disk_auth,
      of "AuthenticateOperation sample_identity" 2000]
  by (simp add: list_all_iff del: auth_execute.simps)

text \<open>
  Reopening. Opening a directory that a crash left, whose state file is the encoding of a
  valid state, with a codec that reads back what it wrote, gives a usable store with that very
  state, its response sequence included, whatever temporary file the crash left.
\<close>

theorem auth_reopen_restores_the_state:
  assumes "dir StateFile = Some (Stable raw)" and "ad_encode D s = Inr raw"
    and "ad_decode D raw = Inr s" and "validate_auth_state s = Inr ()"
    and "length raw \<le> MAX_AUTH_STATE_BYTES"
    and "ap_is_absolute path \<and> ap_has_file_name path \<and> ap_has_parent path \<and> ap_parent_is_canonical path"
  shows "\<exists>st st'. auth_open D path (Inr ()) (crashed_disk dir) h = (Inr st, st') \<and> as_state st = s
    \<and> \<not> as_poisoned st \<and> dk_now (as_disk st) StateFile = Some (Stable raw)"
  using auth_reopen [of dir raw D s path h] assms by blast

definition one_auth_codec :: auth_deps where
  "one_auth_codec = sample_deps\<lparr>
     ad_encode := (\<lambda>s. if s = sample_auth_state then Inr [7] else Inl (lit ''unsupported'')),
     ad_decode := (\<lambda>_. Inr sample_auth_state)\<rparr>"

theorem auth_reopen_restores_the_state_witness:
  "\<exists>st st'. auth_open one_auth_codec
       \<lparr>ap_is_absolute = True, ap_has_file_name = True, ap_has_parent = True,
        ap_parent_is_canonical = True\<rparr> (Inr ())
       (crashed_disk (\<lambda>n. if n = StateFile then Some (Stable [7]) else
          if n = TmpFile then Some (Volatile [1]) else None)) (as_host sample_auth_store) = (Inr st, st')
     \<and> as_state st = sample_auth_state"
  using auth_reopen_restores_the_state [of "\<lambda>n. if n = StateFile then Some (Stable [7]) else
          if n = TmpFile then Some (Volatile [1]) else None" "[7]" one_auth_codec sample_auth_state
      "\<lparr>ap_is_absolute = True, ap_has_file_name = True, ap_has_parent = True,
        ap_parent_is_canonical = True\<rparr>" "as_host sample_auth_store"]
  by (auto simp: one_auth_codec_def MAX_AUTH_STATE_BYTES_def)

section \<open>Progress\<close>

text \<open>
  A well-formed request of a live credential with a fresh identity and a higher sequence is
  answered, with the next response sequence, on a store without faults, unless the window of
  operation claims is full and its oldest claim belongs to a pending pin rotation.
\<close>

theorem live_credentials_are_answered:
  assumes "digests_have_32_bytes D" and "auth_healthy st"
    and "validate_auth_state (as_state st) = Inr ()" and "claims_as D c now (as_state st) i"
    and "validate_secret (ci_bearer c) = Inr ()"
    and "validate_request_identity (ci_request_id c) (ci_nonce c) = Inr ()"
    and "checked_add (au_response_sequence (as_state st)) 1 = Some n"
    and "\<not> claim_window_blocked (as_state st)"
    and "ad_encode D ((record_operation (ci_request_id c) (ci_nonce c) (ci_sequence c) i (as_state st))
           \<lparr>au_response_sequence := n\<rparr>) = Inr raw" and "length raw \<le> MAX_AUTH_STATE_BYTES"
  shows "\<exists>st'. auth_execute D (AuthenticateOperation c) now st
      = (Inr (OperationAuthenticated
           \<lparr>ao_credential_id = cr_credential_id (au_credentials (as_state st) ! i),
            ao_response_sequence = n\<rparr>), st')
    \<and> auth_healthy st'"
  using operation_commits [OF assms] by blast

theorem live_credentials_are_answered_witness:
  "\<exists>st'. auth_execute sample_deps (AuthenticateOperation sample_identity) 2000 sample_auth_store
      = (Inr (OperationAuthenticated \<lparr>ao_credential_id = Uuid 30, ao_response_sequence = 5\<rparr>), st')
    \<and> auth_healthy st'"
  using live_credentials_are_answered [OF sample_digests, of sample_auth_store sample_identity 2000 0 5
      "[5]"] sample_claims sample_not_blocked
  by (simp add: auth_healthy_def checked_add_def sample_deps_def MAX_AUTH_STATE_BYTES_def
      del: auth_execute.simps)
    (simp add: sample_auth_defs nil_uuid_def)

text \<open>
  C34. A pending pin rotation that is never redeemed ends the service of its server: once the
  window of operation claims is full and the rotation's own claim is the oldest, every operation
  is refused and changes nothing, at any later time, also long after the rotation authorization
  has expired. (The comment at the eviction says that evicting keeps normal traffic from
  exhausting the service.)
\<close>

theorem abandoned_rotation_blocks_operations:
  assumes "digests_have_32_bytes D" and "validate_auth_state (as_state st) = Inr ()"
    and "claim_window_blocked (as_state st)"
    and "auth_run D (map (\<lambda>(c, now). (AuthenticateOperation c, now)) requests) st = (rs, st')"
  shows "list_all (\<lambda>r. \<not> is_ok r) rs \<and> as_state st' = as_state st"
  using assms(2-4)
proof (induction requests arbitrary: st rs)
  case (Cons request requests)
  obtain c now where request: "request = (c, now)" by force
  obtain r st1 where r: "auth_execute D (AuthenticateOperation c) now st = (r, st1)" by force
  obtain rs1 where run: "auth_run D (map (\<lambda>(c, now). (AuthenticateOperation c, now)) requests) st1
      = (rs1, st')" and rs: "rs = r # rs1"
    using Cons.prems(3) request r by (auto simp del: auth_execute.simps split: prod.splits)
  obtain e where e: "r = Inl e"
  proof (cases r)
    case (Inr a)
    from auth_execute_effect [OF assms(1) r [unfolded Inr]] have False
      using blocked_window_refuses [OF Cons.prems(1,2)] by (auto elim!: auth_effectE)
    then show ?thesis ..
  qed
  have "as_state st1 = as_state st" by (rule auth_execute_failed [OF assms(1) r [unfolded e]])
  with Cons.IH [OF _ _ run] Cons.prems(1,2) rs e show ?case by simp
qed simp

definition sample_pin :: tls_pin where
  "sample_pin = \<lparr>pin_kind = SpkiSha256, pin_sha256 = replicate 64 97\<rparr>"

definition sample_rotation :: pin_rotation_authorization_record where
  "sample_rotation = \<lparr>ra_challenge = sample_claim_nonce, ra_server_id = Uuid 9,
     ra_credential_id = Uuid 30, ra_request_id = Uuid 60, ra_request_nonce = replicate 33 97,
     ra_request_sequence = 1, ra_response_sequence = 1, ra_pairing_token_id = Uuid 20,
     ra_new_pin = sample_pin, ra_issued_at_unix_ms = 1000, ra_expires_at_unix_ms = 2000\<rparr>"

definition sample_claims_window :: "operation_replay_claim list" where
  "sample_claims_window =
     \<lparr>oc_credential_id = Uuid 30, oc_request_id = Uuid 60, oc_nonce = replicate 33 97\<rparr>
     # map (\<lambda>k. \<lparr>oc_credential_id = Uuid 30, oc_request_id = Uuid (of_nat k + 1000),
                 oc_nonce = uuid_simple (Uuid (of_nat k))\<rparr>) [0..<4095]"

definition sample_blocked_state :: persisted_auth_state where
  "sample_blocked_state = sample_auth_state\<lparr>au_operation_claims := sample_claims_window,
     au_pin_rotation_authorizations := [sample_rotation]\<rparr>"

lemma sample_long_nonce: "str_bytes (replicate n 97) = replicate n 97"
  by (induction n) simp_all

lemma sample_window_numbers:
  assumes "j < 4095" "k < 4095"
  shows "of_nat j = (of_nat k :: 128 word) \<longleftrightarrow> j = k"
    and "of_nat j + 1000 \<noteq> (0 :: 128 word)" and "of_nat j + 1000 \<noteq> (60 :: 128 word)"
proof -
  have small: "unat (of_nat n :: 128 word) = n" if "n < 2 ^ 128" for n
    using that by (simp add: unat_of_nat)
  show "of_nat j = (of_nat k :: 128 word) \<longleftrightarrow> j = k"
  proof
    assume "of_nat j = (of_nat k :: 128 word)"
    then have "unat (of_nat j :: 128 word) = unat (of_nat k :: 128 word)" by (rule arg_cong)
    moreover have "j < 2 ^ 128" "k < 2 ^ 128" using assms by simp_all
    ultimately show "j = k" by (simp only: small)
  qed (rule arg_cong)
  have shifted: "unat (of_nat j + 1000 :: 128 word) = j + 1000"
  proof -
    have "of_nat j + 1000 = (of_nat (j + 1000) :: 128 word)" by simp
    moreover have "j + 1000 < 2 ^ 128" using assms by simp
    ultimately show ?thesis by (simp only: small)
  qed
  show "of_nat j + 1000 \<noteq> (0 :: 128 word)"
  proof
    assume "of_nat j + 1000 = (0 :: 128 word)"
    then have "j + 1000 = unat (0 :: 128 word)" by (simp only: shifted [symmetric])
    then show False by simp
  qed
  show "of_nat j + 1000 \<noteq> (60 :: 128 word)"
  proof
    assume "of_nat j + 1000 = (60 :: 128 word)"
    then have "j + 1000 = unat (60 :: 128 word)" by (simp only: shifted [symmetric])
    then show False by simp
  qed
qed

lemma sample_window_identities:
  "is_ok (validate_request_identity (Uuid 60) (replicate 33 97))"
  "u \<noteq> nil_uuid \<Longrightarrow> is_ok (validate_request_identity u (uuid_simple v))"
proof -
  show "is_ok (validate_request_identity (Uuid 60) (replicate 33 97))"
    by (simp add: validate_request_identity_def nil_uuid_def str_len_def sample_long_nonce
        list_all_iff ascii_class_defs)
  show "u \<noteq> nil_uuid \<Longrightarrow> is_ok (validate_request_identity u (uuid_simple v))"
    by (simp add: validate_request_identity_def)
qed

lemma sample_window_valid: "valid_operation_claims [sample_credential] sample_claims_window"
  unfolding valid_operation_claims_iff
proof (intro conjI)
  show "\<forall>x \<in> set sample_claims_window.
      is_ok (validate_request_identity (oc_request_id x) (oc_nonce x))
      \<and> oc_credential_id x \<in> set (map cr_credential_id [sample_credential])"
    using sample_window_numbers(2)
    by (auto simp: sample_claims_window_def sample_credential_def sample_window_identities
        nil_uuid_def)
  show "distinct (map oc_request_id sample_claims_window)"
    using sample_window_numbers
    by (auto simp: sample_claims_window_def comp_def distinct_map inj_on_def)
  have "replicate 33 97 \<noteq> uuid_simple u" for u
    by (metis length_replicate uuid_simple_length numeral_eq_iff semiring_norm(88))
  then show "distinct (map oc_nonce sample_claims_window)"
    using sample_window_numbers(1)
    by (auto simp: sample_claims_window_def comp_def distinct_map inj_on_def uuid_simple_inj)
qed

lemma sample_rotation_valid: "valid_authorization sample_blocked_state sample_rotation"
proof -
  have "is_ok (tls_pin_validate sample_pin)"
    by (simp add: tls_pin_validate_def sample_pin_def str_len_def sample_long_nonce list_all_iff
        ascii_class_defs)
  moreover note sample_window_identities(1)
  ultimately show ?thesis
    by (simp add: valid_authorization_def sample_rotation_def sample_blocked_state_def
        sample_auth_state_def sample_token_def sample_credential_def nil_uuid_def
        MAX_TLS_PIN_ROTATION_AUTHORIZATION_LIFETIME_MS_def sample_claims_window_def
        authorization_claim_def)
qed

lemma sample_blocked:
  "claim_window_blocked sample_blocked_state" "validate_auth_state sample_blocked_state = Inr ()"
proof -
  show "claim_window_blocked sample_blocked_state"
    by (simp add: claim_window_blocked_def sample_blocked_state_def sample_claims_window_def
        MAX_OPERATION_REPLAY_CLAIMS_def authorization_claim_def sample_rotation_def)
  have "length sample_claims_window = MAX_OPERATION_REPLAY_CLAIMS"
    by (simp add: sample_claims_window_def MAX_OPERATION_REPLAY_CLAIMS_def)
  moreover have "valid_operation_claims [sample_credential] sample_claims_window"
    by (rule sample_window_valid)
  moreover have "valid_authorization sample_blocked_state sample_rotation"
    by (rule sample_rotation_valid)
  ultimately show "validate_auth_state sample_blocked_state = Inr ()"
    using sample_valid
    by (simp add: validate_auth_state_Inr sample_blocked_state_def sample_auth_state_def
        MAX_PIN_ROTATION_AUTHORIZATIONS_def del: valid_operation_claims.simps)
qed

theorem abandoned_rotation_blocks_operations_witness:
  "list_all (\<lambda>r. \<not> is_ok r) (fst (auth_run sample_deps
     [(AuthenticateOperation sample_identity, 100000), (AuthenticateOperation sample_identity, 800000)]
     (sample_auth_store\<lparr>as_state := sample_blocked_state\<rparr>)))"
proof -
  let ?st = "sample_auth_store\<lparr>as_state := sample_blocked_state\<rparr>"
  let ?qs = "[(sample_identity, 100000), (sample_identity, 800000)]"
  obtain rs st' where run: "auth_run sample_deps
      (map (\<lambda>(c, now). (AuthenticateOperation c, now)) ?qs) ?st = (rs, st')" by force
  have "validate_auth_state (as_state ?st) = Inr ()" "claim_window_blocked (as_state ?st)"
    by (simp_all add: sample_blocked)
  from abandoned_rotation_blocks_operations [OF sample_digests this run] run show ?thesis
    by (simp del: auth_run.simps)
qed

section \<open>A crash in the first write\<close>

text \<open>
  A directory without a state file whose temporary file does not decode (what a crash in the
  very first write leaves) is never opened again: every attempt is refused, and both files stay as
  they are.
\<close>

theorem torn_first_write_is_never_opened:
  assumes "dk_now disk StateFile = None" and "dk_now disk TmpFile = Some f"
    and "ad_decode D (file_bytes f) = Inl e"
  shows "\<exists>e' st. auth_open D path lock disk h = (Inl e', st)
    \<and> dk_now (as_disk st) StateFile = None
    \<and> map_option file_bytes (dk_now (as_disk st) TmpFile) = Some (file_bytes f)"
proof -
  have "torn (file_bytes f) disk" using assms(1,2) by (simp add: torn_def)
  from torn_open [OF this assms(3), of path lock h] show ?thesis
    by (cases "auth_open D path lock disk h"; cases "fst (auth_open D path lock disk h)")
      (auto simp: torn_def)
qed

theorem torn_first_write_is_never_opened_witness:
  "\<exists>e' st. auth_open sample_deps
       \<lparr>ap_is_absolute = True, ap_has_file_name = True, ap_has_parent = True,
        ap_parent_is_canonical = True\<rparr> (Inr ())
       (crashed_disk (\<lambda>n. if n = TmpFile then Some (Volatile []) else None))
       (as_host sample_auth_store) = (Inl e', st)
    \<and> dk_now (as_disk st) StateFile = None"
  using torn_first_write_is_never_opened
    [of "crashed_disk (\<lambda>n. if n = TmpFile then Some (Volatile []) else None)" "Volatile []" sample_deps
      "lit ''unsupported''" "\<lparr>ap_is_absolute = True, ap_has_file_name = True, ap_has_parent = True,
        ap_parent_is_canonical = True\<rparr>" "Inr ()" "as_host sample_auth_store"]
  by (auto simp: crashed_disk_def sample_deps_def)

end
