(* ===== verification/Controller_Types.thy ===== *)
theory Controller_Types
  imports Agent_Types
begin

text \<open>
  The data of the remote environment controller (\<open>crates/verisilo-remote-backend/src/lib.rs\<close>):
  request and response envelopes of the nine lifecycle operations, of pairing, of TLS pin
  rotation and of interactive commands, the Silo bindings and snapshots it keeps, and its checks
  that need no state.
\<close>

section \<open>Requests\<close>

datatype operation_body =
    Create (ob_network: remote_network_policy) (ob_ttl_seconds: u64) (ob_cost_acknowledged: bool)
  | Start uuid uuid
  | Stop uuid uuid
  | Pause uuid uuid
  | Snapshot uuid uuid
  | Destroy uuid uuid bool
  | ConfigureNetwork uuid uuid remote_network_policy
  | Health uuid uuid
  | Logs uuid uuid "uuid option" u16

fun operation_body_operation :: "operation_body \<Rightarrow> remote_operation" where
  "operation_body_operation (operation_body.Create _ _ _) = remote_operation.Create"
| "operation_body_operation (operation_body.Start _ _) = remote_operation.Start"
| "operation_body_operation (operation_body.Stop _ _) = remote_operation.Stop"
| "operation_body_operation (operation_body.Pause _ _) = remote_operation.Pause"
| "operation_body_operation (operation_body.Snapshot _ _) = remote_operation.Snapshot"
| "operation_body_operation (operation_body.Destroy _ _ _) = remote_operation.Destroy"
| "operation_body_operation (operation_body.ConfigureNetwork _ _ _) =
     remote_operation.ConfigureNetwork"
| "operation_body_operation (operation_body.Health _ _) = remote_operation.Health"
| "operation_body_operation (operation_body.Logs _ _ _ _) = remote_operation.Logs"

fun operation_body_validate :: "operation_body \<Rightarrow> remote_backend_error + unit" where
  "operation_body_validate (operation_body.Create _ ttl_seconds cost_acknowledged) =
     (if \<not> cost_acknowledged
      then Inl (remote_backend_error.InvalidRequest
             (lit ''Create requires a separate, explicit cost acknowledgement.''))
      else if \<not> (60 \<le> ttl_seconds \<and> ttl_seconds \<le> MAX_ENVIRONMENT_TTL_SECONDS)
      then Inl (remote_backend_error.InvalidRequest
             (lit ''Environment TTL must be between 60 and ''
              @ show_nat (unat MAX_ENVIRONMENT_TTL_SECONDS) @ lit '' seconds.''))
      else Inr ())"
| "operation_body_validate (operation_body.Logs _ _ _ limit) =
     (if limit = 0 \<or> MAX_LOG_ENTRIES < limit
      then Inl (remote_backend_error.LimitExceeded (lit ''Log limit must be between 1 and 200.''))
      else Inr ())"
| "operation_body_validate _ = Inr ()"

record operation_request_envelope =
  or_protocol_version :: u16
  or_request_id :: uuid
  or_nonce :: str
  or_sequence :: u64
  or_sent_at_unix_ms :: u64
  or_silo_id :: uuid
  or_body :: operation_body

datatype pairing_operation = Pair

record pairing_request_body =
  pb_operation :: pairing_operation
  pb_approved_by_user :: bool
  pb_pairing_token_id :: uuid
  pb_pairing_token :: str
  pb_pairing_token_expires_at_unix_ms :: u64
  pb_tls_pin_rotation :: "tls_pin_rotation_pairing_claim option"

record pairing_request_envelope =
  pq_protocol_version :: u16
  pq_request_id :: uuid
  pq_nonce :: str
  pq_sent_at_unix_ms :: u64
  pq_body :: pairing_request_body

record pairing_approval =
  pa_approved_by_user :: bool
  pa_pairing_token_id :: uuid
  pa_pairing_token :: str
  pa_pairing_token_expires_at_unix_ms :: u64

datatype tls_pin_rotation_operation = AuthorizeTlsPinRotation

record tls_pin_rotation_authorization_body =
  tb_operation :: tls_pin_rotation_operation
  tb_client_credential_id :: uuid
  tb_pairing_token_id :: uuid
  tb_new_pin :: tls_pin

record tls_pin_rotation_authorization_request_envelope =
  tq_protocol_version :: u16
  tq_request_id :: uuid
  tq_nonce :: str
  tq_sequence :: u64
  tq_sent_at_unix_ms :: u64
  tq_body :: tls_pin_rotation_authorization_body

section \<open>Responses\<close>

datatype remote_result_state =
    Created | Started | Stopped | Paused | SnapshotCreated | Destroyed | NetworkConfigured
  | Healthy | LogsReturned | Blocked

datatype remote_log_level = Debug | Info | Warn | Error

record remote_log_entry =
  le_sequence :: u64
  le_observed_at_unix_ms :: u64
  le_level :: remote_log_level
  le_message :: str

record operation_result =
  os_operation :: remote_operation
  os_silo_id :: uuid
  os_binding_id :: uuid
  os_remote_environment_id :: uuid
  os_server_id :: uuid
  os_last_activity_at_unix_ms :: u64
  os_state :: remote_result_state
  os_volume :: "volume_attestation option"
  os_evidence :: "guest_evidence option"
  os_logs :: "remote_log_entry list option"
  os_next_cursor :: "uuid option"
  os_deletion_proof :: "deletion_proof option"

datatype operation_response_body =
    Success operation_result
  | Unavailable remote_operation str
  | Rejected rejection_code str

text \<open>
  The four response envelopes have the same members; the type of the body tells them apart.
\<close>

record 'body response_envelope =
  re_protocol_version :: u16
  re_response_id :: uuid
  re_in_reply_to :: uuid
  re_nonce :: str
  re_sent_at_unix_ms :: u64
  re_sequence :: u64
  re_body :: 'body

type_synonym operation_response_envelope = "operation_response_body response_envelope"

record pairing_success =
  ps_server_id :: uuid
  ps_client_credential_id :: uuid
  ps_node :: node_disclosure
  ps_client_credential :: str
  ps_credential_expires_at_unix_ms :: u64
  ps_capabilities :: "remote_capability list"

datatype pairing_response_body =
    Success pairing_success
  | Rejected pairing_rejection_code str

type_synonym pairing_response_envelope = "pairing_response_body response_envelope"

datatype agent_control_response_body =
    Success agent_response
  | Unavailable str
  | Rejected rejection_code str

type_synonym agent_response_envelope = "agent_control_response_body response_envelope"

record tls_pin_rotation_authorization_success =
  ts_server_id :: uuid
  ts_client_credential_id :: uuid
  ts_pairing_token_id :: uuid
  ts_new_pin :: tls_pin
  ts_challenge :: str
  ts_authorization_expires_at_unix_ms :: u64

datatype tls_pin_rotation_authorization_response_body =
    Success tls_pin_rotation_authorization_success
  | Rejected rejection_code str

type_synonym tls_pin_rotation_authorization_response_envelope =
  "tls_pin_rotation_authorization_response_body response_envelope"

datatype agent_control_operation =
    OpenHumanSession | CloseHumanSession | GrantAutomation | RevokeAutomation | OpenScreen
  | SendInput

record agent_interaction_receipt =
  ir_operation :: agent_control_operation
  ir_observed_at_unix_ms :: u64
  ir_response :: agent_response

datatype interactive_principal = HumanSession uuid | Automation uuid

record transport_request =
  tr_endpoint :: remote_endpoint
  tr_credential :: "str option"
  tr_payload :: "nat list"

record transport_response =
  tp_tls_validated :: bool
  tp_peer_pin :: tls_pin
  tp_payload :: "nat list"

section \<open>What the controller keeps\<close>

record silo_binding =
  sb_silo_id :: uuid
  sb_binding_id :: uuid
  sb_remote_environment_id :: uuid
  sb_server_id :: uuid
  sb_endpoint :: remote_endpoint
  sb_network :: remote_network_policy
  sb_volume :: volume_attestation
  sb_last_activity_at_unix_ms :: u64
  sb_human_session :: "session_authorization option"
  sb_automation_authorizations :: "automation_authorization list"
  sb_last_screen_channel :: "screen_channel option"
  sb_last_interaction :: "agent_interaction_receipt option"
  sb_last_evidence :: "guest_evidence option"

definition REMOTE_ORPHAN_NOTICE :: str where
  "REMOTE_ORPHAN_NOTICE = lit ''The local binding was force-detached without authenticated remote deletion. The remote environment and billable resources may still be running; contact the self-hosted operator using this receipt.''"

record remote_orphan_receipt =
  oo_receipt_id :: uuid
  oo_silo_id :: uuid
  oo_binding_id :: uuid
  oo_remote_environment_id :: uuid
  oo_server_id :: uuid
  oo_endpoint :: remote_endpoint
  oo_detached_at_unix_ms :: u64
  oo_notice :: str

definition remote_orphan_receipt_validate ::
    "(str \<Rightarrow> str + url_parts) \<Rightarrow> remote_orphan_receipt \<Rightarrow> remote_backend_error + unit" where
  "remote_orphan_receipt_validate parse_url receipt =
     rbind (endpoint_validate parse_url (oo_endpoint receipt)) (\<lambda>_.
     if oo_receipt_id receipt = nil_uuid \<or> oo_silo_id receipt = nil_uuid
        \<or> oo_binding_id receipt = nil_uuid \<or> oo_remote_environment_id receipt = nil_uuid
        \<or> oo_server_id receipt = nil_uuid \<or> oo_detached_at_unix_ms receipt = 0
        \<or> oo_notice receipt \<noteq> REMOTE_ORPHAN_NOTICE
     then Inl (remote_backend_error.Store
            (lit ''Remote orphan receipt has invalid identities, time, or risk notice.''))
     else Inr ())"

record pairing_state =
  pg_server_id :: uuid
  pg_client_credential_id :: uuid
  pg_node :: node_disclosure
  pg_credential :: str
  pg_credential_expires_at_unix_ms :: u64
  pg_capabilities :: "remote_capability list"
  pg_last_client_sequence :: u64
  pg_last_server_sequence :: u64

record pairing_snapshot =
  pn_server_id :: uuid
  pn_client_credential_id :: uuid
  pn_node :: node_disclosure
  pn_client_credential :: str
  pn_credential_expires_at_unix_ms :: u64
  pn_capabilities :: "remote_capability list"
  pn_last_client_sequence :: u64
  pn_last_server_sequence :: u64

record remote_backend_snapshot =
  rs_pairing :: "pairing_snapshot option"
  rs_used_pairing_token_ids :: "uuid list"
  rs_bindings :: "silo_binding list"

section \<open>Checks of authorizations\<close>

text \<open>\<open>lifetime_ms.is_some_and(|lifetime_ms| (60_000..=maximum).contains(&lifetime_ms))\<close>\<close>

definition lifetime_within :: "u64 \<Rightarrow> u64 \<Rightarrow> u64 \<Rightarrow> bool" where
  "lifetime_within issued expires maximum =
     (case checked_sub expires issued of None \<Rightarrow> False
      | Some lifetime_ms \<Rightarrow> 60000 \<le> lifetime_ms \<and> lifetime_ms \<le> maximum)"

definition validate_session_authorization_shape ::
    "session_authorization \<Rightarrow> silo_binding \<Rightarrow> remote_backend_error + unit" where
  "validate_session_authorization_shape authorization binding =
     (if sa_authorization_id authorization = nil_uuid
         \<or> sa_silo_id authorization \<noteq> sb_silo_id binding
         \<or> sa_remote_environment_id authorization \<noteq> sb_remote_environment_id binding
         \<or> \<not> lifetime_within (sa_issued_at_unix_ms authorization)
               (sa_expires_at_unix_ms authorization) (MAX_HUMAN_SESSION_SECONDS * 1000)
      then Inl (remote_backend_error.Protocol
             (lit ''Human-session authorization is not bound to this environment or has an invalid lifetime.''))
      else Inr ())"

definition validate_session_authorization ::
    "session_authorization \<Rightarrow> silo_binding \<Rightarrow> u64 \<Rightarrow> bool \<Rightarrow> remote_backend_error + unit" where
  "validate_session_authorization authorization binding now_ms expected_revoked =
     rbind (validate_session_authorization_shape authorization binding) (\<lambda>_.
     if sa_revoked authorization \<noteq> expected_revoked
        \<or> (\<not> expected_revoked
           \<and> (sa_expires_at_unix_ms authorization \<le> now_ms
              \<or> MAX_CLOCK_SKEW_MS < abs_diff (sa_issued_at_unix_ms authorization) now_ms))
     then Inl (remote_backend_error.Protocol
            (lit ''Human-session authorization has an invalid revocation or freshness state.''))
     else Inr ())"

definition validate_automation_authorization_shape ::
    "automation_authorization \<Rightarrow> silo_binding \<Rightarrow> remote_backend_error + unit" where
  "validate_automation_authorization_shape authorization binding =
     (if aa_authorization_id authorization = nil_uuid
         \<or> aa_silo_id authorization \<noteq> sb_silo_id binding
         \<or> aa_remote_environment_id authorization \<noteq> sb_remote_environment_id binding
         \<or> \<not> aa_approved_by_user authorization
         \<or> aa_scopes authorization = []
         \<or> 2 < length (aa_scopes authorization)
         \<or> \<not> distinct (aa_scopes authorization)
         \<or> \<not> lifetime_within (aa_issued_at_unix_ms authorization)
               (aa_expires_at_unix_ms authorization) (MAX_AUTOMATION_SECONDS * 1000)
      then Inl (remote_backend_error.Protocol
             (lit ''Automation authorization is unapproved, unbound, duplicated, or has an invalid lifetime.''))
      else Inr ())"

definition validate_automation_authorization ::
    "automation_authorization \<Rightarrow> silo_binding \<Rightarrow> u64 \<Rightarrow> bool \<Rightarrow> remote_backend_error + unit" where
  "validate_automation_authorization authorization binding now_ms expected_revoked =
     rbind (validate_automation_authorization_shape authorization binding) (\<lambda>_.
     if aa_revoked authorization \<noteq> expected_revoked
        \<or> (\<not> expected_revoked
           \<and> (aa_expires_at_unix_ms authorization \<le> now_ms
              \<or> MAX_CLOCK_SKEW_MS < abs_diff (aa_issued_at_unix_ms authorization) now_ms))
     then Inl (remote_backend_error.Protocol
            (lit ''Automation authorization has an invalid revocation or freshness state.''))
     else Inr ())"

definition unauthorized :: "string \<Rightarrow> remote_backend_error" where
  "unauthorized message = remote_backend_error.InteractiveRejected rejection_code.Unauthorized (lit message)"

definition human_session_is_live :: "u64 \<Rightarrow> silo_binding \<Rightarrow> bool" where
  "human_session_is_live now_ms binding =
     (case sb_human_session binding of None \<Rightarrow> False
      | Some authorization \<Rightarrow>
          \<not> sa_revoked authorization \<and> now_ms < sa_expires_at_unix_ms authorization)"

fun authorize_interactive_principal ::
    "silo_binding \<Rightarrow> interactive_principal \<Rightarrow> u64 \<Rightarrow> automation_scope \<Rightarrow> bool
     \<Rightarrow> remote_backend_error + principal_kind \<times> uuid \<times> u64" where
  "authorize_interactive_principal binding (interactive_principal.HumanSession authorization_id)
       now_ms required_scope enforce_human_priority =
     rbind (ok_or (unauthorized ''Human-session authorization is not stored for this Silo.'')
              (filter_option (\<lambda>a. sa_authorization_id a = authorization_id)
                (sb_human_session binding))) (\<lambda>authorization.
     rbind (validate_session_authorization_shape authorization binding) (\<lambda>_.
     if sa_revoked authorization \<or> sa_expires_at_unix_ms authorization \<le> now_ms
     then Inl (unauthorized ''Human-session authorization is revoked or expired.'')
     else Inr (principal_kind.HumanSession, authorization_id, sa_expires_at_unix_ms authorization)))"
| "authorize_interactive_principal binding (interactive_principal.Automation authorization_id)
       now_ms required_scope enforce_human_priority =
     (if enforce_human_priority \<and> human_session_is_live now_ms binding
      then Inl (unauthorized ''Automation input is suspended while a human session is active.'')
      else
        rbind (ok_or (unauthorized ''Automation authorization is not stored for this Silo.'')
                 (find (\<lambda>a. aa_authorization_id a = authorization_id)
                   (sb_automation_authorizations binding))) (\<lambda>authorization.
        rbind (validate_automation_authorization_shape authorization binding) (\<lambda>_.
        if aa_revoked authorization \<or> aa_expires_at_unix_ms authorization \<le> now_ms
           \<or> required_scope \<notin> set (aa_scopes authorization)
        then Inl (unauthorized
               ''Automation authorization is revoked, expired, or lacks the required scope.'')
        else Inr (principal_kind.Automation, authorization_id,
                  aa_expires_at_unix_ms authorization))))"

section \<open>Checks of responses and inputs\<close>

definition validate_screen_channel_shape ::
    "screen_channel \<Rightarrow> silo_binding \<Rightarrow> remote_backend_error + unit" where
  "validate_screen_channel_shape channel binding =
     (if sc_channel_id channel = nil_uuid \<or> sc_authorization_id channel = nil_uuid
         \<or> sc_remote_environment_id channel \<noteq> sb_remote_environment_id binding
         \<or> sc_expires_at_unix_ms channel = 0
      then Inl (remote_backend_error.Protocol
             (lit ''Screen channel is not bound to the selected environment and authorization.''))
      else Inr ())"

definition validate_screen_channel ::
    "screen_channel \<Rightarrow> silo_binding \<Rightarrow> uuid \<Rightarrow> u64 \<Rightarrow> u64 \<Rightarrow> remote_backend_error + unit" where
  "validate_screen_channel channel binding authorization_id authorization_expires_at_unix_ms now_ms =
     rbind (validate_screen_channel_shape channel binding) (\<lambda>_.
     if sc_authorization_id channel \<noteq> authorization_id
        \<or> sc_expires_at_unix_ms channel \<le> now_ms
        \<or> authorization_expires_at_unix_ms < sc_expires_at_unix_ms channel
        \<or> saturating_add now_ms (MAX_HUMAN_SESSION_SECONDS * 1000) < sc_expires_at_unix_ms channel
     then Inl (remote_backend_error.Protocol
            (lit ''Screen channel authorization or expiry does not match the request.''))
     else Inr ())"

text \<open>One iteration of the loop of \<open>validate_input_events\<close>.\<close>

fun check_input_event :: "input_event \<Rightarrow> remote_backend_error + unit" where
  "check_input_event (Key code _) =
     (if code = [] \<or> 40 < str_len code
         \<or> \<not> list_all (\<lambda>byte. is_ascii_alphanumeric byte \<or> byte = 95) (str_bytes code)
      then Inl (remote_backend_error.InvalidRequest (lit ''Key code is invalid.''))
      else Inr ())"
| "check_input_event (PointerMove x y) =
     (if 16384 < x \<or> 16384 < y
      then Inl (remote_backend_error.InvalidRequest
             (lit ''Pointer coordinate exceeds negotiated bounds.''))
      else Inr ())"
| "check_input_event (Text value) =
     (if str_trim value \<noteq> value \<or> value = [] \<or> 512 < str_len value
         \<or> list_ex (\<lambda>character. is_control character \<and> character \<noteq> 10 \<and> character \<noteq> 9) value
      then Inl (remote_backend_error.InvalidRequest
             (lit ''Input text is empty, oversized, padded, or contains unsupported controls.''))
      else Inr ())"
| "check_input_event (PointerButton _ _) = Inr ()"

definition validate_input_events :: "input_event list \<Rightarrow> remote_backend_error + unit" where
  "validate_input_events events =
     (if events = [] \<or> MAX_INPUT_EVENTS < length events
      then Inl (remote_backend_error.LimitExceeded
             (lit ''Input batch must contain 1 to 128 events.''))
      else try_each check_input_event events)"

definition validate_interaction_receipt_shape ::
    "agent_interaction_receipt \<Rightarrow> silo_binding \<Rightarrow> remote_backend_error + unit" where
  "validate_interaction_receipt_shape receipt binding =
     (if ir_observed_at_unix_ms receipt = 0
      then Inl (remote_backend_error.Protocol
             (lit ''Stored interaction receipt has no observation time.''))
      else
        let mismatch = Inl (remote_backend_error.Protocol
              (lit ''Stored interaction receipt operation and response do not match.'')) in
        case ir_response receipt of
          agent_response.HumanSession authorization \<Rightarrow>
            if ir_operation receipt = agent_control_operation.OpenHumanSession
               \<or> ir_operation receipt = agent_control_operation.CloseHumanSession
            then validate_session_authorization_shape authorization binding else mismatch
        | agent_response.Automation authorization \<Rightarrow>
            if ir_operation receipt = agent_control_operation.GrantAutomation
               \<or> ir_operation receipt = agent_control_operation.RevokeAutomation
            then validate_automation_authorization_shape authorization binding else mismatch
        | agent_response.Screen channel \<Rightarrow>
            if ir_operation receipt = agent_control_operation.OpenScreen
            then validate_screen_channel_shape channel binding else mismatch
        | agent_response.InputAccepted event_count \<Rightarrow>
            if ir_operation receipt = agent_control_operation.SendInput
               \<and> 1 \<le> event_count \<and> event_count \<le> MAX_INPUT_EVENTS
            then Inr () else mismatch
        | _ \<Rightarrow> mismatch)"

text \<open>The key that a proof's dispositions name, when they name one.\<close>

definition proof_key_id :: "deletion_proof \<Rightarrow> uuid option" where
  "proof_key_id dproof =
     Option.bind (find (\<lambda>resource. rd_kind resource = EphemeralKey) (dp_resource_deletions dproof))
       rd_resource_id"

definition validate_deletion_proof ::
    "deletion_proof \<Rightarrow> operation_result \<Rightarrow> remote_backend_error + unit" where
  "validate_deletion_proof dproof result =
     (if dp_proof_id dproof = nil_uuid \<or> dp_provider_receipt_id dproof = nil_uuid
         \<or> dp_volume_id dproof = nil_uuid
         \<or> dp_silo_id dproof \<noteq> os_silo_id result
         \<or> dp_binding_id dproof \<noteq> os_binding_id result
         \<or> dp_remote_environment_id dproof \<noteq> os_remote_environment_id result
         \<or> dp_deleted_at_unix_ms dproof = 0
         \<or> dp_deleted_at_unix_ms dproof \<noteq> os_last_activity_at_unix_ms result
         \<or> \<not> (case proof_key_id dproof of None \<Rightarrow> False
               | Some key_id \<Rightarrow>
                   deletion_resources_are_bound (dp_resource_deletions dproof)
                     (dp_remote_environment_id dproof) (dp_volume_id dproof) key_id)
      then Inl (remote_backend_error.Protocol
             (lit ''Deletion proof does not contain the stable bound resource dispositions.''))
      else Inr ())"

definition validate_pairing_approval ::
    "pairing_approval \<Rightarrow> u64 \<Rightarrow> remote_backend_error + unit" where
  "validate_pairing_approval approval now_ms =
     (if \<not> pa_approved_by_user approval then Inl remote_backend_error.PairingApprovalRequired
      else if \<not> valid_secret_token (pa_pairing_token approval) 32 256
      then Inl (remote_backend_error.InvalidRequest
             (lit ''Pairing token must be 32-256 base64url characters.''))
      else if pa_pairing_token_id approval = nil_uuid
      then Inl (remote_backend_error.InvalidRequest (lit ''Pairing token ID must be non-nil.''))
      else
        rbind (ok_or remote_backend_error.PairingTokenLifetime
                 (checked_sub (pa_pairing_token_expires_at_unix_ms approval) now_ms)) (\<lambda>lifetime.
        if lifetime = 0 \<or> MAX_PAIRING_TOKEN_LIFETIME_MS < lifetime
        then Inl remote_backend_error.PairingTokenLifetime else Inr ()))"

section \<open>Checks of stored bindings\<close>

text \<open>The loop over the automation authorizations, with the ids it has seen.\<close>

fun check_automations ::
    "silo_binding \<Rightarrow> uuid list \<Rightarrow> automation_authorization list
     \<Rightarrow> remote_backend_error + unit" where
  "check_automations binding seen [] = Inr ()"
| "check_automations binding seen (authorization # rest) =
     rbind (validate_automation_authorization_shape authorization binding) (\<lambda>_.
     if aa_authorization_id authorization \<in> set seen
     then Inl (remote_backend_error.Store
            (lit ''Binding snapshot contains duplicate automation authorization IDs.''))
     else check_automations binding (aa_authorization_id authorization # seen) rest)"

definition knows_authorization :: "silo_binding \<Rightarrow> uuid \<Rightarrow> bool" where
  "knows_authorization binding authorization_id \<longleftrightarrow>
     (case sb_human_session binding of None \<Rightarrow> False
      | Some authorization \<Rightarrow> sa_authorization_id authorization = authorization_id)
     \<or> list_ex (\<lambda>authorization. aa_authorization_id authorization = authorization_id)
         (sb_automation_authorizations binding)"

definition validate_binding_snapshot ::
    "(str \<Rightarrow> str + url_parts) \<Rightarrow> silo_binding \<Rightarrow> remote_backend_error + unit" where
  "validate_binding_snapshot parse_url binding =
     rbind (endpoint_validate parse_url (sb_endpoint binding)) (\<lambda>_.
     if sb_silo_id binding = nil_uuid \<or> sb_binding_id binding = nil_uuid
        \<or> sb_remote_environment_id binding = nil_uuid \<or> sb_server_id binding = nil_uuid
        \<or> sb_last_activity_at_unix_ms binding = 0
        \<or> \<not> va_encrypted (sb_volume binding)
        \<or> va_key_custody (sb_volume binding) \<noteq> UserControlled
        \<or> va_volume_id (sb_volume binding) = nil_uuid
        \<or> va_key_id (sb_volume binding) = nil_uuid
        \<or> policy_id (sb_network binding) = Some nil_uuid
     then Inl (remote_backend_error.Store
            (lit ''Binding snapshot has invalid IDs, network policy, or encrypted-volume custody.''))
     else
       rbind (case sb_human_session binding of None \<Rightarrow> Inr ()
              | Some authorization \<Rightarrow> validate_session_authorization_shape authorization binding) (\<lambda>_.
       if MAX_AUTOMATION_AUTHORIZATIONS_PER_SILO < length (sb_automation_authorizations binding)
       then Inl (remote_backend_error.LimitExceeded
              (lit ''A Silo may retain at most ''
               @ show_nat MAX_AUTOMATION_AUTHORIZATIONS_PER_SILO
               @ lit '' automation authorizations.''))
       else
         rbind (check_automations binding [] (sb_automation_authorizations binding)) (\<lambda>_.
         rbind (case sb_last_screen_channel binding of None \<Rightarrow> Inr ()
                | Some channel \<Rightarrow>
                    rbind (validate_screen_channel_shape channel binding) (\<lambda>_.
                    if \<not> knows_authorization binding (sc_authorization_id channel)
                    then Inl (remote_backend_error.Store
                           (lit ''Stored screen channel references an unknown authorization.''))
                    else Inr ())) (\<lambda>_.
         rbind (case sb_last_interaction binding of None \<Rightarrow> Inr ()
                | Some receipt \<Rightarrow> validate_interaction_receipt_shape receipt binding) (\<lambda>_.
         if (case sb_last_evidence binding of None \<Rightarrow> False
             | Some evidence \<Rightarrow>
                 ge_binding_id evidence \<noteq> sb_binding_id binding
                 \<or> ge_remote_environment_id evidence \<noteq> sb_remote_environment_id binding)
         then Inl (remote_backend_error.Store
                (lit ''Stored guest evidence does not match the binding.''))
         else Inr ())))))"

end
