(* ===== verification/Binding_Store.thy ===== *)
theory Binding_Store
  imports Controller_Types
begin

text \<open>
  The controller's persistence boundary (\<open>lib.rs\<close>): the trait \<open>BindingStore\<close> as a record of
  operations, its contract as the locale \<open>binding_store\<close>, and \<open>MemoryBindingStore\<close>, which
  satisfies it and can be saved to and restored from a list of bindings; the replay window of
  response nonces.
\<close>

section \<open>The trait and its contract\<close>

record 's binding_store_ops =
  bs_get :: "'s \<Rightarrow> uuid \<Rightarrow> remote_backend_error + silo_binding option"
  bs_insert_if_absent :: "silo_binding \<Rightarrow> 's \<Rightarrow> (remote_backend_error, unit, 's) outcome"
  bs_update :: "silo_binding \<Rightarrow> 's \<Rightarrow> (remote_backend_error, unit, 's) outcome"
  bs_remove :: "uuid \<Rightarrow> 's \<Rightarrow> (remote_backend_error, unit, 's) outcome"

text \<open>
  A store is a map that files every binding under its own Silo. Every operation may fail; then the
  map is what it was.
\<close>

locale binding_store =
  fixes ops :: "'s binding_store_ops"
    and view :: "'s \<Rightarrow> uuid \<Rightarrow> silo_binding option"
    and invar :: "'s \<Rightarrow> bool"
  assumes filed: "invar s \<Longrightarrow> view s silo_id = Some b \<Longrightarrow> sb_silo_id b = silo_id"
    and get_ok: "bs_get ops s silo_id = Inr v \<Longrightarrow> v = view s silo_id"
    and insert_ok:
      "invar s \<Longrightarrow> outcome
         (\<lambda>_ s'. invar s' \<and> view s (sb_silo_id b) = None
           \<and> view s' = (view s)(sb_silo_id b \<mapsto> b))
         (\<lambda>_ s'. invar s' \<and> view s' = view s) (bs_insert_if_absent ops b s)"
    and update_ok:
      "invar s \<Longrightarrow> outcome
         (\<lambda>_ s'. invar s' \<and> view s (sb_silo_id b) \<noteq> None
           \<and> view s' = (view s)(sb_silo_id b \<mapsto> b))
         (\<lambda>_ s'. invar s' \<and> view s' = view s) (bs_update ops b s)"
    and remove_ok:
      "invar s \<Longrightarrow> outcome (\<lambda>_ s'. invar s' \<and> view s' = (view s)(silo_id := None))
         (\<lambda>_ s'. invar s' \<and> view s' = view s) (bs_remove ops silo_id s)"

section \<open>The in-memory store\<close>

type_synonym memory_binding_store = "(uuid, silo_binding) hmap"

definition memory_get ::
    "memory_binding_store \<Rightarrow> uuid \<Rightarrow> remote_backend_error + silo_binding option" where
  "memory_get store silo_id = Inr (map_of store silo_id)"

definition memory_insert_if_absent ::
    "silo_binding \<Rightarrow> memory_binding_store
     \<Rightarrow> (remote_backend_error, unit, memory_binding_store) outcome" where
  "memory_insert_if_absent binding store =
     (if map_of store (sb_silo_id binding) \<noteq> None
      then (Inl (remote_backend_error.SiloAlreadyBound (sb_silo_id binding)), store)
      else (Inr (), AList.update (sb_silo_id binding) binding store))"

definition memory_update ::
    "silo_binding \<Rightarrow> memory_binding_store
     \<Rightarrow> (remote_backend_error, unit, memory_binding_store) outcome" where
  "memory_update binding store =
     (if map_of store (sb_silo_id binding) = None
      then (Inl (remote_backend_error.SiloNotBound (sb_silo_id binding)), store)
      else (Inr (), AList.update (sb_silo_id binding) binding store))"

definition memory_remove ::
    "uuid \<Rightarrow> memory_binding_store
     \<Rightarrow> (remote_backend_error, unit, memory_binding_store) outcome" where
  "memory_remove silo_id store = (Inr (), AList.delete silo_id store)"

definition memory_binding_ops :: "memory_binding_store binding_store_ops" where
  "memory_binding_ops = \<lparr>bs_get = memory_get, bs_insert_if_absent = memory_insert_if_absent,
     bs_update = memory_update, bs_remove = memory_remove\<rparr>"

text \<open>The loop of \<open>from_bindings\<close>, and the store it builds.\<close>

fun insert_bindings ::
    "(str \<Rightarrow> str + url_parts) \<Rightarrow> silo_binding list \<Rightarrow> memory_binding_store
     \<Rightarrow> remote_backend_error + memory_binding_store" where
  "insert_bindings parse_url [] store = Inr store"
| "insert_bindings parse_url (binding # rest) store =
     rbind (validate_binding_snapshot parse_url binding) (\<lambda>_.
     if map_of store (sb_silo_id binding) \<noteq> None
     then Inl (remote_backend_error.Store
            (lit ''Binding snapshot contains duplicate Silo IDs.''))
     else insert_bindings parse_url rest (AList.update (sb_silo_id binding) binding store))"

definition from_bindings ::
    "(str \<Rightarrow> str + url_parts) \<Rightarrow> silo_binding list
     \<Rightarrow> remote_backend_error + memory_binding_store" where
  "from_bindings parse_url bindings =
     (if MAX_STORED_BINDINGS < length bindings
      then Inl (remote_backend_error.LimitExceeded
             (lit ''Binding snapshot exceeds '' @ show_nat MAX_STORED_BINDINGS @ lit '' entries.''))
      else insert_bindings parse_url bindings [])"

definition store_snapshot :: "memory_binding_store \<Rightarrow> silo_binding list" where
  "store_snapshot store = sort_key sb_silo_id (map snd store)"

section \<open>The replay window\<close>

type_synonym replay_window = "(str, u64) hmap"

definition check_and_record ::
    "str \<Rightarrow> u64 \<Rightarrow> replay_window \<Rightarrow> (remote_backend_error, unit, replay_window) outcome" where
  "check_and_record nonce now_ms seen =
     sbind (validate_nonce nonce, seen) (\<lambda>_ seen.
     let seen = filter (\<lambda>(_, recorded_at).
           saturating_sub now_ms recorded_at \<le> MAX_CLOCK_SKEW_MS * 2) seen in
     if map_of seen nonce \<noteq> None then (Inl remote_backend_error.ReplayDetected, seen)
     else if MAX_REPLAY_WINDOW_ENTRIES \<le> length seen
     then (Inl (remote_backend_error.LimitExceeded (lit ''Response replay window is full.'')), seen)
     else (Inr (), AList.update nonce now_ms seen))"

section \<open>Saving and restoring\<close>

text \<open>Every entry of the store is filed under its own Silo.\<close>

definition well_filed :: "memory_binding_store \<Rightarrow> bool" where
  "well_filed store \<longleftrightarrow> keys_distinct store \<and> (\<forall>(k, b) \<in> set store. sb_silo_id b = k)"

lemma well_filed_Nil [simp]: "well_filed []"
  by (simp add: well_filed_def)

lemma well_filed_update:
  "well_filed store \<Longrightarrow> well_filed (AList.update (sb_silo_id b) b store)"
  by (auto simp: well_filed_def distinct_update in_set_update split: if_splits)

lemma well_filed_delete: "well_filed store \<Longrightarrow> well_filed (AList.delete k store)"
  by (auto simp: well_filed_def AList.delete_eq distinct_map_filter)

lemma well_filed_map_of: "well_filed store \<Longrightarrow> map_of store k = Some b \<Longrightarrow> sb_silo_id b = k"
  by (auto simp: well_filed_def dest: map_of_SomeD)

interpretation mbs: binding_store memory_binding_ops map_of well_filed
  by unfold_locales
    (auto simp: memory_binding_ops_def memory_get_def memory_insert_if_absent_def
      memory_update_def memory_remove_def well_filed_update well_filed_delete well_filed_map_of)

lemma insert_bindings_outcome:
  "insert_bindings u bs store = Inr store' \<longleftrightarrow>
     (\<forall>b \<in> set bs. validate_binding_snapshot u b = Inr ())
     \<and> distinct (map sb_silo_id bs) \<and> (\<forall>b \<in> set bs. map_of store (sb_silo_id b) = None)
     \<and> store' = fold (\<lambda>b. AList.update (sb_silo_id b) b) bs store"
proof (induction bs arbitrary: store)
  case (Cons b bs)
  have none: "map_of (AList.update (sb_silo_id b) b store) (sb_silo_id c) = None
      \<longleftrightarrow> sb_silo_id c \<noteq> sb_silo_id b \<and> map_of store (sb_silo_id c) = None" for c
    by simp
  show ?case
    by (cases "validate_binding_snapshot u b"; cases "map_of store (sb_silo_id b)")
      (auto simp: Cons.IH none image_iff dest: sym simp del: map_of_update)
qed auto

lemma well_filed_fold:
  "well_filed store \<Longrightarrow> well_filed (fold (\<lambda>b. AList.update (sb_silo_id b) b) bs store)"
  by (induction bs arbitrary: store) (auto simp: well_filed_update)

lemma map_of_fold_absent:
  "k \<notin> sb_silo_id ` set bs
   \<Longrightarrow> map_of (fold (\<lambda>b. AList.update (sb_silo_id b) b) bs store) k = map_of store k"
  by (induction bs arbitrary: store) auto

lemma map_of_fold_present:
  "distinct (map sb_silo_id bs) \<Longrightarrow> b \<in> set bs
   \<Longrightarrow> map_of (fold (\<lambda>b. AList.update (sb_silo_id b) b) bs store) (sb_silo_id b) = Some b"
  by (induction bs arbitrary: store) (auto simp: map_of_fold_absent)

lemma from_bindings_Inr:
  "from_bindings u bs = Inr store \<longleftrightarrow>
     length bs \<le> MAX_STORED_BINDINGS \<and> (\<forall>b \<in> set bs. validate_binding_snapshot u b = Inr ())
     \<and> distinct (map sb_silo_id bs)
     \<and> store = fold (\<lambda>b. AList.update (sb_silo_id b) b) bs []"
  by (auto simp: from_bindings_def insert_bindings_outcome)

lemma store_snapshot_set: "set (store_snapshot store) = snd ` set store"
  by (simp add: store_snapshot_def)

lemma store_snapshot_distinct:
  assumes "well_filed store"
  shows "distinct (map sb_silo_id (store_snapshot store))"
proof -
  have "map sb_silo_id (map snd store) = map fst store"
    using assms unfolding well_filed_def map_map by (intro map_cong) auto
  then have "distinct (map sb_silo_id (map snd store))"
    using assms unfolding well_filed_def by metis
  then show ?thesis
    by (metis store_snapshot_def distinct_map distinct_sort set_sort)
qed

text \<open>Restoring what was saved, with every binding changed in place.\<close>

lemma from_bindings_changed:
  assumes "well_filed store" and "\<And>b. sb_silo_id (f b) = sb_silo_id b"
    and "from_bindings u (map f (store_snapshot store)) = Inr store'"
  shows "well_filed store'" and "map_of store' k = map_option f (map_of store k)"
proof -
  let ?bs = "store_snapshot store"
  have fold: "store' = fold (\<lambda>b. AList.update (sb_silo_id b) b) (map f ?bs) []"
    and distinct: "distinct (map sb_silo_id (map f ?bs))"
    using assms(3) unfolding from_bindings_Inr by blast+
  have bs: "b \<in> set ?bs \<longleftrightarrow> map_of store (sb_silo_id b) = Some b" for b
    using assms(1) by (force simp: store_snapshot_set well_filed_def)
  show "map_of store' k = map_option f (map_of store k)"
  proof (cases "map_of store k")
    case None
    have "k \<notin> sb_silo_id ` set (map f ?bs)"
    proof
      assume "k \<in> sb_silo_id ` set (map f ?bs)"
      then obtain b where "b \<in> set ?bs" "k = sb_silo_id b" by (auto simp: assms(2))
      with bs None show False by simp
    qed
    then show ?thesis unfolding fold by (simp add: map_of_fold_absent None)
  next
    case (Some b)
    then have k: "sb_silo_id b = k" by (rule well_filed_map_of [OF assms(1)])
    with Some bs have "f b \<in> set (map f ?bs)" by simp
    from map_of_fold_present [OF distinct this] show ?thesis
      unfolding fold by (simp add: Some assms(2) k)
  qed
  show "well_filed store'" by (simp add: fold well_filed_fold)
qed

lemma restore_snapshot:
  assumes "well_filed store" and "length store \<le> MAX_STORED_BINDINGS"
    and "\<And>k b. map_of store k = Some b \<Longrightarrow> validate_binding_snapshot u b = Inr ()"
  shows "\<exists>store'. from_bindings u (store_snapshot store) = Inr store'
    \<and> well_filed store' \<and> map_of store' = map_of store"
proof -
  let ?bs = "store_snapshot store"
  have "\<forall>b \<in> set ?bs. validate_binding_snapshot u b = Inr ()"
    using assms(1,3) by (force simp: store_snapshot_set well_filed_def)
  moreover have "length ?bs \<le> MAX_STORED_BINDINGS"
    using assms(2) by (simp add: store_snapshot_def)
  ultimately obtain store' where store': "from_bindings u ?bs = Inr store'"
    using store_snapshot_distinct [OF assms(1)] by (auto simp: from_bindings_Inr)
  from from_bindings_changed [OF assms(1), where f = "\<lambda>b. b" and u = u] this
  have "well_filed store'" and "map_of store' k = map_of store k" for k
    by (simp_all add: option.map_ident)
  with store' show ?thesis by (auto simp: fun_eq_iff)
qed

section \<open>Replays are refused\<close>

definition window_ok :: "replay_window \<Rightarrow> bool" where
  "window_ok seen \<longleftrightarrow> keys_distinct seen \<and> length seen \<le> MAX_REPLAY_WINDOW_ENTRIES"

lemma map_of_filter_distinct:
  "keys_distinct m \<Longrightarrow> map_of (filter P m) k
     = (case map_of m k of None \<Rightarrow> None | Some v \<Rightarrow> if P (k, v) then Some v else None)"
  by (induction m) (auto simp: image_iff split: option.splits dest: map_of_SomeD)

lemma check_and_record_outcome:
  assumes "window_ok seen"
  shows "outcome
     (\<lambda>_ seen'. window_ok seen' \<and> map_of seen' nonce = Some now
        \<and> (\<forall>t. map_of seen nonce = Some t \<longrightarrow> MAX_CLOCK_SKEW_MS * 2 < saturating_sub now t))
     (\<lambda>_. window_ok) (check_and_record nonce now seen)"
proof -
  let ?seen = "filter (\<lambda>(_, t). saturating_sub now t \<le> MAX_CLOCK_SKEW_MS * 2) seen"
  have ok: "window_ok ?seen"
    using assms by (auto simp: window_ok_def distinct_map_filter
        intro: order_trans [OF length_filter_le])
  show ?thesis
    unfolding check_and_record_def
  proof (rule outcome_pure_bindI, unfold Let_def, intro outcome_ifI outcome_InlI outcome_InrI)
    assume "\<not> map_of ?seen nonce \<noteq> None" and "\<not> MAX_REPLAY_WINDOW_ENTRIES \<le> length ?seen"
    moreover have "MAX_CLOCK_SKEW_MS * 2 < saturating_sub now t"
      if "map_of ?seen nonce = None" and "map_of seen nonce = Some t" for t
      using that assms by (simp add: window_ok_def map_of_filter_distinct not_le
          del: map_of_eq_Some_iff split: if_splits)
    ultimately show "window_ok (AList.update nonce now ?seen)
        \<and> map_of (AList.update nonce now ?seen) nonce = Some now
        \<and> (\<forall>t. map_of seen nonce = Some t \<longrightarrow> MAX_CLOCK_SKEW_MS * 2 < saturating_sub now t)"
      using ok by (simp add: window_ok_def distinct_update length_update_absent
          del: map_of_eq_Some_iff)
  qed (use assms ok in simp_all)
qed

end
