(* ===== verification/Controller.thy ===== *)
theory Controller
  imports Binding_Store
begin

text \<open>
  \<open>RemoteEnvironmentBackend\<close> of \<open>lib.rs\<close>: pairing, the nine lifecycle operations, interactive
  sessions, TLS pin rotation, forced detachment, snapshots. The transport is a parameter with its
  own state; the JSON codecs and the URL parser are parameters too.
\<close>

section \<open>State and parameters\<close>

record ('t, 's) controller =
  co_endpoint :: remote_endpoint
  co_transport :: 't
  co_store :: 's
  co_host :: host
  co_pairing :: "pairing_state option"
  co_used_pairing_tokens :: "uuid list"
  co_response_replay :: replay_window

type_synonym ('a, 't, 's) controlled = "(remote_backend_error, 'a, ('t, 's) controller) outcome"

record ('t, 's) controller_deps =
  cd_exchange :: "transport_request \<Rightarrow> 't \<Rightarrow> (remote_backend_error, transport_response, 't) outcome"
  cd_store :: "'s binding_store_ops"
  cd_parse_url :: "str \<Rightarrow> str + url_parts"
  cd_encode_operation :: "operation_request_envelope \<Rightarrow> str + nat list"
  cd_decode_operation :: "nat list \<Rightarrow> str + operation_response_envelope"
  cd_encode_pairing :: "pairing_request_envelope \<Rightarrow> str + nat list"
  cd_decode_pairing :: "nat list \<Rightarrow> str + pairing_response_envelope"
  cd_encode_rotation :: "tls_pin_rotation_authorization_request_envelope \<Rightarrow> str + nat list"
  cd_decode_rotation :: "nat list \<Rightarrow> str + tls_pin_rotation_authorization_response_envelope"
  cd_encode_agent :: "agent_request \<Rightarrow> str + nat list"
  cd_decode_agent :: "nat list \<Rightarrow> str + agent_response_envelope"

definition co_now :: "('t, 's) controller \<Rightarrow> u64 \<times> ('t, 's) controller" where
  "co_now c = (case now_unix_ms (co_host c) of (t, h) \<Rightarrow> (t, c\<lparr>co_host := h\<rparr>))"

definition co_new_v4 :: "('t, 's) controller \<Rightarrow> uuid \<times> ('t, 's) controller" where
  "co_new_v4 c = (case new_v4 (co_host c) of (u, h) \<Rightarrow> (u, c\<lparr>co_host := h\<rparr>))"

definition co_new_nonce :: "('t, 's) controller \<Rightarrow> str \<times> ('t, 's) controller" where
  "co_new_nonce c = (case new_nonce (co_host c) of (n, h) \<Rightarrow> (n, c\<lparr>co_host := h\<rparr>))"

text \<open>A change of the binding store.\<close>

definition in_store ::
    "('s \<Rightarrow> (remote_backend_error, 'a, 's) outcome) \<Rightarrow> ('t, 's) controller \<Rightarrow> ('a, 't, 's) controlled"
  where
  "in_store f c = (case f (co_store c) of (r, s) \<Rightarrow> (r, c\<lparr>co_store := s\<rparr>))"

definition controller_new ::
    "('t, 's) controller_deps \<Rightarrow> remote_endpoint \<Rightarrow> 't \<Rightarrow> 's \<Rightarrow> host
     \<Rightarrow> remote_backend_error + ('t, 's) controller" where
  "controller_new D endpoint transport store clock =
     rbind (endpoint_validate (cd_parse_url D) endpoint) (\<lambda>_.
     Inr \<lparr>co_endpoint = endpoint, co_transport = transport, co_store = store, co_host = clock,
          co_pairing = None, co_used_pairing_tokens = [], co_response_replay = []\<rparr>)"

section \<open>Exchanges\<close>

definition encode_json :: "('q \<Rightarrow> str + nat list) \<Rightarrow> 'q \<Rightarrow> remote_backend_error + nat list" where
  "encode_json to_vec value =
     rbind (map_err remote_backend_error.Json (to_vec value)) (\<lambda>payload.
     if MAX_MESSAGE_BYTES < length payload
     then Inl (remote_backend_error.LimitExceeded
            (lit ''request is '' @ show_nat (length payload) @ lit '' bytes; maximum is ''
             @ show_nat MAX_MESSAGE_BYTES))
     else Inr payload)"

definition decode_json :: "(nat list \<Rightarrow> str + 'r) \<Rightarrow> nat list \<Rightarrow> remote_backend_error + 'r" where
  "decode_json from_slice payload =
     (if MAX_MESSAGE_BYTES < length payload
      then Inl (remote_backend_error.LimitExceeded
             (lit ''message is '' @ show_nat (length payload) @ lit '' bytes; maximum is ''
              @ show_nat MAX_MESSAGE_BYTES))
      else map_err remote_backend_error.Json (from_slice payload))"

definition validate_transport_response ::
    "remote_endpoint \<Rightarrow> transport_response \<Rightarrow> remote_backend_error + unit" where
  "validate_transport_response endpoint response =
     (if \<not> tp_tls_validated response then Inl remote_backend_error.TlsNotValidated
      else if tp_peer_pin response \<noteq> ep_pin endpoint then Inl remote_backend_error.PinMismatch
      else if MAX_MESSAGE_BYTES < length (tp_payload response)
      then Inl (remote_backend_error.LimitExceeded
             (lit ''response is '' @ show_nat (length (tp_payload response))
              @ lit '' bytes; maximum is '' @ show_nat MAX_MESSAGE_BYTES))
      else Inr ())"

text \<open>The steps from the request to the decoded response that the four exchanges share.\<close>

definition exchange_envelopes ::
    "('t, 's) controller_deps \<Rightarrow> ('q \<Rightarrow> str + nat list) \<Rightarrow> (nat list \<Rightarrow> str + 'r)
     \<Rightarrow> remote_endpoint \<Rightarrow> str option \<Rightarrow> 'q \<Rightarrow> ('t, 's) controller \<Rightarrow> ('r, 't, 's) controlled" where
  "exchange_envelopes D to_vec from_slice endpoint credential request c =
     sbind (encode_json to_vec request, c) (\<lambda>payload c.
     sbind (case cd_exchange D \<lparr>tr_endpoint = endpoint, tr_credential = credential,
                                tr_payload = payload\<rparr> (co_transport c) of
              (r, t) \<Rightarrow> (r, c\<lparr>co_transport := t\<rparr>)) (\<lambda>response c.
     sbind (validate_transport_response endpoint response, c) (\<lambda>_ c.
     (decode_json from_slice (tp_payload response), c))))"

definition record_response_nonce :: "str \<Rightarrow> u64 \<Rightarrow> ('t, 's) controller \<Rightarrow> (unit, 't, 's) controlled" where
  "record_response_nonce nonce now_ms c =
     (case check_and_record nonce now_ms (co_response_replay c) of
        (r, window) \<Rightarrow> (r, c\<lparr>co_response_replay := window\<rparr>))"

definition validate_pairing_response_metadata ::
    "u16 \<Rightarrow> uuid \<Rightarrow> uuid \<Rightarrow> str \<Rightarrow> u64 \<Rightarrow> u64 \<Rightarrow> ('t, 's) controller
     \<Rightarrow> (unit, 't, 's) controlled" where
  "validate_pairing_response_metadata protocol_version in_reply_to request_id nonce
       sent_at_unix_ms response_sequence c =
     (if protocol_version \<noteq> PROTOCOL_VERSION
      then (Inl (remote_backend_error.VersionMismatch PROTOCOL_VERSION protocol_version), c)
      else if in_reply_to \<noteq> request_id
      then (Inl (remote_backend_error.Protocol
              (lit ''Response inReplyTo does not match the request.'')), c)
      else
        let (now_ms, c) = co_now c in
        sbind (validate_fresh_timestamp sent_at_unix_ms now_ms MAX_CLOCK_SKEW_MS, c) (\<lambda>_ c.
        sbind (record_response_nonce nonce now_ms c) (\<lambda>_ c.
        if response_sequence = 0 then (Inl remote_backend_error.SequenceReplay, c)
        else (Inr (), c))))"

definition validate_response_metadata ::
    "u16 \<Rightarrow> uuid \<Rightarrow> uuid \<Rightarrow> str \<Rightarrow> u64 \<Rightarrow> u64 \<Rightarrow> ('t, 's) controller
     \<Rightarrow> (unit, 't, 's) controlled" where
  "validate_response_metadata protocol_version in_reply_to request_id nonce sent_at_unix_ms
       response_sequence c =
     (if protocol_version \<noteq> PROTOCOL_VERSION
      then (Inl (remote_backend_error.VersionMismatch PROTOCOL_VERSION protocol_version), c)
      else if in_reply_to \<noteq> request_id
      then (Inl (remote_backend_error.Protocol
              (lit ''Response inReplyTo does not match the request.'')), c)
      else
        let (now_ms, c) = co_now c in
        sbind (validate_fresh_timestamp sent_at_unix_ms now_ms MAX_CLOCK_SKEW_MS, c) (\<lambda>_ c.
        sbind (record_response_nonce nonce now_ms c) (\<lambda>_ c.
        if response_sequence = 0 then (Inl remote_backend_error.SequenceReplay, c)
        else
          case co_pairing c of
            None \<Rightarrow> (Inr (), c)
          | Some pairing \<Rightarrow>
              if response_sequence \<le> pg_last_server_sequence pairing
              then (Inl remote_backend_error.SequenceReplay, c)
              else (Inr (), c\<lparr>co_pairing :=
                      Some (pairing\<lparr>pg_last_server_sequence := response_sequence\<rparr>)\<rparr>))))"

definition reserve_authenticated_request ::
    "('t, 's) controller \<Rightarrow> (u64 \<times> u64 \<times> uuid \<times> str, 't, 's) controlled" where
  "reserve_authenticated_request c =
     (let (now_ms, c) = co_now c in
      sbind (ok_or remote_backend_error.NotPaired (co_pairing c), c) (\<lambda>pairing c.
      if pg_credential_expires_at_unix_ms pairing \<le> now_ms
      then (Inl remote_backend_error.CredentialExpired, c)
      else
        sbind (ok_or (remote_backend_error.LimitExceeded
                 (lit ''Client request sequence is exhausted; explicit re-pairing is required.''))
                 (checked_add (pg_last_client_sequence pairing) 1), c) (\<lambda>request_sequence c.
        (Inr (now_ms, request_sequence, pg_client_credential_id pairing, pg_credential pairing),
         c\<lparr>co_pairing := Some (pairing\<lparr>pg_last_client_sequence := request_sequence\<rparr>)\<rparr>))))"

section \<open>Lifecycle operations\<close>

definition require_available ::
    "remote_operation \<Rightarrow> ('t, 's) controller \<Rightarrow> remote_backend_error + unit" where
  "require_available operation c =
     rbind (ok_or remote_backend_error.NotPaired (co_pairing c)) (\<lambda>pairing.
     rbind (ok_or (remote_backend_error.Protocol
              (lit ''Missing capability for '' @ debug_operation operation @ lit ''.''))
              (find (\<lambda>capability. cap_operation capability = operation)
                (pg_capabilities pairing))) (\<lambda>capability.
     case cap_availability capability of
       Available \<Rightarrow> Inr ()
     | capability_availability.Unavailable reason \<Rightarrow>
         Inl (remote_backend_error.Unavailable operation reason)))"

fun result_state_ok :: "remote_operation \<Rightarrow> remote_result_state \<Rightarrow> bool" where
  "result_state_ok remote_operation.Create state =
     (state = remote_result_state.Created \<or> state = Blocked)"
| "result_state_ok remote_operation.Start state = (state = Started \<or> state = Blocked)"
| "result_state_ok remote_operation.Stop state = (state = remote_result_state.Stopped)"
| "result_state_ok remote_operation.Pause state = (state = remote_result_state.Paused)"
| "result_state_ok remote_operation.Snapshot state = (state = SnapshotCreated)"
| "result_state_ok remote_operation.Destroy state = (state = Destroyed)"
| "result_state_ok remote_operation.ConfigureNetwork state =
     (state = NetworkConfigured \<or> state = Blocked)"
| "result_state_ok remote_operation.Health state =
     (state = remote_result_state.Healthy \<or> state = Blocked)"
| "result_state_ok remote_operation.Logs state = (state = LogsReturned)"

definition result_evidence_required :: "remote_operation \<Rightarrow> bool" where
  "result_evidence_required operation \<longleftrightarrow>
     operation \<in> {remote_operation.Create, remote_operation.Start,
                  remote_operation.ConfigureNetwork, remote_operation.Health}"

definition validate_result_volume :: "operation_result \<Rightarrow> remote_operation \<Rightarrow> remote_backend_error + unit" where
  "validate_result_volume result operation =
     (case os_volume result of
        Some volume \<Rightarrow>
          if operation = remote_operation.Create
          then if va_encrypted volume \<and> va_key_custody volume = UserControlled
                  \<and> va_volume_id volume \<noteq> nil_uuid \<and> va_key_id volume \<noteq> nil_uuid
               then Inr ()
               else Inl (remote_backend_error.Protocol
                      (lit ''Create must attest a non-nil, user-controlled encrypted volume.''))
          else Inl (remote_backend_error.Protocol
                 (lit ''Only create results may contain a volume attestation.''))
      | None \<Rightarrow>
          if operation = remote_operation.Create
          then Inl (remote_backend_error.Protocol
                 (lit ''Create must attest a non-nil, user-controlled encrypted volume.''))
          else Inr ())"

definition validate_result_proof :: "operation_result \<Rightarrow> remote_operation \<Rightarrow> remote_backend_error + unit" where
  "validate_result_proof result operation =
     (case os_deletion_proof result of
        Some dproof \<Rightarrow>
          if operation = remote_operation.Destroy then validate_deletion_proof dproof result
          else Inl (remote_backend_error.Protocol
                 (lit ''Only destroy results may contain a deletion proof.''))
      | None \<Rightarrow>
          if operation = remote_operation.Destroy
          then Inl (remote_backend_error.Protocol
                 (lit ''Destroy must include a bound deletion proof.''))
          else Inr ())"

definition validate_log :: "u64 \<Rightarrow> remote_log_entry \<Rightarrow> remote_backend_error + unit" where
  "validate_log now_ms log =
     (if le_sequence log = 0
      then Inl (remote_backend_error.Protocol (lit ''Log sequence must be positive.''))
      else
        rbind (validate_fresh_timestamp (le_observed_at_unix_ms log) now_ms MAX_EVIDENCE_AGE_MS) (\<lambda>_.
        validate_text (lit ''log message'') (le_message log)))"

definition validate_result ::
    "operation_result \<Rightarrow> remote_operation \<Rightarrow> uuid \<Rightarrow> u64 \<Rightarrow> ('t, 's) controller
     \<Rightarrow> remote_backend_error + unit" where
  "validate_result result operation silo_id now_ms c =
     (if os_operation result \<noteq> operation \<or> os_silo_id result \<noteq> silo_id
      then Inl (remote_backend_error.Protocol
             (lit ''Operation result does not match request operation/Silo.''))
      else
        rbind (ok_or remote_backend_error.NotPaired (co_pairing c)) (\<lambda>pairing.
        if os_server_id result \<noteq> pg_server_id pairing \<or> os_server_id result = nil_uuid
           \<or> os_last_activity_at_unix_ms result = 0
           \<or> saturating_add now_ms MAX_CLOCK_SKEW_MS < os_last_activity_at_unix_ms result
        then Inl remote_backend_error.BindingMismatch
        else if \<not> result_state_ok operation (os_state result)
        then Inl (remote_backend_error.Protocol
               (lit ''Operation result state does not match the operation.''))
        else if result_evidence_required operation \<and> os_evidence result = None
        then Inl (remote_backend_error.Protocol
               (lit ''Guest evidence is required for this operation.''))
        else
          rbind (case os_evidence result of None \<Rightarrow> Inr ()
                 | Some evidence \<Rightarrow> guest_evidence_validate evidence (os_binding_id result)
                     (os_remote_environment_id result) now_ms) (\<lambda>_.
          rbind (validate_result_volume result operation) (\<lambda>_.
          rbind (validate_result_proof result operation) (\<lambda>_.
          if operation \<noteq> remote_operation.Logs
             \<and> (os_logs result \<noteq> None \<or> os_next_cursor result \<noteq> None)
          then Inl (remote_backend_error.Protocol
                 (lit ''Only logs responses may contain log fields.''))
          else
            case os_logs result of None \<Rightarrow> Inr ()
            | Some logs \<Rightarrow>
                if unat MAX_LOG_ENTRIES < length logs
                then Inl (remote_backend_error.LimitExceeded
                       (lit ''Remote returned more than 200 log entries.''))
                else try_each (validate_log now_ms) logs)))))"

definition send_operation ::
    "('t, 's) controller_deps \<Rightarrow> uuid \<Rightarrow> operation_body \<Rightarrow> ('t, 's) controller
     \<Rightarrow> (operation_result, 't, 's) controlled" where
  "send_operation D silo_id body c =
     sbind (operation_body_validate body, c) (\<lambda>_ c.
     let operation = operation_body_operation body in
     sbind (if operation \<noteq> remote_operation.Destroy then (require_available operation c, c)
            else (Inr (), c)) (\<lambda>_ c.
     sbind (reserve_authenticated_request c) (\<lambda>(now_ms, request_sequence, _, credential) c.
     let (request_id, c) = co_new_v4 c; (nonce, c) = co_new_nonce c in
     sbind (exchange_envelopes D (cd_encode_operation D) (cd_decode_operation D) (co_endpoint c)
              (Some credential)
              \<lparr>or_protocol_version = PROTOCOL_VERSION, or_request_id = request_id,
               or_nonce = nonce, or_sequence = request_sequence, or_sent_at_unix_ms = now_ms,
               or_silo_id = silo_id, or_body = body\<rparr> c) (\<lambda>response c.
     sbind (validate_response_metadata (re_protocol_version response) (re_in_reply_to response)
              request_id (re_nonce response) (re_sent_at_unix_ms response)
              (re_sequence response) c) (\<lambda>_ c.
     case re_body response of
       operation_response_body.Success result \<Rightarrow>
         sbind (validate_result result operation silo_id now_ms c, c) (\<lambda>_ c. (Inr result, c))
     | operation_response_body.Unavailable response_operation reason \<Rightarrow>
         sbind (validate_text (lit ''unavailable reason'') reason, c) (\<lambda>_ c.
         if response_operation \<noteq> operation
         then (Inl (remote_backend_error.Protocol
                 (lit ''Unavailable response names a different operation.'')), c)
         else (Inl (remote_backend_error.Unavailable operation reason), c))
     | operation_response_body.Rejected code message \<Rightarrow>
         sbind (validate_text (lit ''rejection message'') message, c) (\<lambda>_ c.
         (Inl (remote_backend_error.Rejected code message), c)))))))"

fun bound_body ::
    "silo_binding \<Rightarrow> remote_operation \<Rightarrow> remote_network_policy option \<Rightarrow> bool option
     \<Rightarrow> (uuid option \<times> u16) option \<Rightarrow> remote_backend_error + operation_body" where
  "bound_body b remote_operation.Create _ _ _ =
     Inl (remote_backend_error.Protocol (lit ''Create is not a bound operation.''))"
| "bound_body b remote_operation.Start _ _ _ =
     Inr (operation_body.Start (sb_binding_id b) (sb_remote_environment_id b))"
| "bound_body b remote_operation.Stop _ _ _ =
     Inr (operation_body.Stop (sb_binding_id b) (sb_remote_environment_id b))"
| "bound_body b remote_operation.Pause _ _ _ =
     Inr (operation_body.Pause (sb_binding_id b) (sb_remote_environment_id b))"
| "bound_body b remote_operation.Snapshot _ _ _ =
     Inr (operation_body.Snapshot (sb_binding_id b) (sb_remote_environment_id b))"
| "bound_body b remote_operation.Destroy _ confirm_destroy _ =
     Inr (operation_body.Destroy (sb_binding_id b) (sb_remote_environment_id b)
       (case confirm_destroy of None \<Rightarrow> False | Some confirm \<Rightarrow> confirm))"
| "bound_body b remote_operation.ConfigureNetwork network _ _ =
     rbind (ok_or (remote_backend_error.InvalidRequest
              (lit ''configureNetwork requires a network policy.'')) network) (\<lambda>network.
     Inr (operation_body.ConfigureNetwork (sb_binding_id b) (sb_remote_environment_id b) network))"
| "bound_body b remote_operation.Health _ _ _ =
     Inr (operation_body.Health (sb_binding_id b) (sb_remote_environment_id b))"
| "bound_body b remote_operation.Logs _ _ logs =
     rbind (ok_or (remote_backend_error.InvalidRequest
              (lit ''logs requires a bounded limit.'')) logs) (\<lambda>(cursor, limit).
     Inr (operation_body.Logs (sb_binding_id b) (sb_remote_environment_id b) cursor limit))"

text \<open>The deletion proof names the volume and the key of the binding.\<close>

definition proof_is_bound :: "silo_binding \<Rightarrow> operation_result \<Rightarrow> bool" where
  "proof_is_bound binding result \<longleftrightarrow>
     (case os_deletion_proof result of None \<Rightarrow> False
      | Some dproof \<Rightarrow>
          dp_volume_id dproof = va_volume_id (sb_volume binding)
          \<and> deletion_resources_are_bound (dp_resource_deletions dproof)
              (sb_remote_environment_id binding) (va_volume_id (sb_volume binding))
              (va_key_id (sb_volume binding)))"

definition send_bound_operation ::
    "('t, 's) controller_deps \<Rightarrow> silo_binding \<Rightarrow> remote_operation \<Rightarrow> remote_network_policy option
     \<Rightarrow> bool option \<Rightarrow> (uuid option \<times> u16) option \<Rightarrow> ('t, 's) controller
     \<Rightarrow> (operation_result, 't, 's) controlled" where
  "send_bound_operation D binding operation network confirm_destroy logs c =
     sbind (bound_body binding operation network confirm_destroy logs, c) (\<lambda>body c.
     sbind (send_operation D (sb_silo_id binding) body c) (\<lambda>result c.
     if os_binding_id result \<noteq> sb_binding_id binding
        \<or> os_remote_environment_id result \<noteq> sb_remote_environment_id binding
        \<or> os_server_id result \<noteq> sb_server_id binding
     then (Inl remote_backend_error.BindingMismatch, c)
     else if operation = remote_operation.Destroy \<and> \<not> proof_is_bound binding result
     then (Inl remote_backend_error.BindingMismatch, c)
     else (Inr result, c)))"

end
