(* ===== verification/Controller_Operations.thy ===== *)
theory Controller_Operations
  imports Controller
begin

text \<open>
  The public operations of \<open>RemoteEnvironmentBackend\<close> (\<open>lib.rs\<close>) on top of its exchanges:
  pairing and pairing tokens, TLS pin rotation, snapshots, lifecycle operations with the binding
  they keep, interactive operations with the authorizations they keep, forced detachment.
\<close>

section \<open>Bindings and evidence\<close>

definition store_get ::
    "('t, 's) controller_deps \<Rightarrow> uuid \<Rightarrow> ('t, 's) controller
     \<Rightarrow> (silo_binding option, 't, 's) controlled" where
  "store_get D silo_id c = (bs_get (cd_store D) (co_store c) silo_id, c)"

definition store_update ::
    "('t, 's) controller_deps \<Rightarrow> silo_binding \<Rightarrow> ('t, 's) controller \<Rightarrow> (unit, 't, 's) controlled" where
  "store_update D binding = in_store (bs_update (cd_store D) binding)"

definition require_binding ::
    "('t, 's) controller_deps \<Rightarrow> uuid \<Rightarrow> ('t, 's) controller \<Rightarrow> (silo_binding, 't, 's) controlled" where
  "require_binding D silo_id c =
     sbind (store_get D silo_id c) (\<lambda>found c.
     sbind (ok_or (remote_backend_error.SiloNotBound silo_id) found, c) (\<lambda>binding c.
     sbind (ok_or remote_backend_error.NotPaired (co_pairing c), c) (\<lambda>pairing c.
     if sb_server_id binding \<noteq> pg_server_id pairing \<or> sb_endpoint binding \<noteq> co_endpoint c
     then (Inl remote_backend_error.BindingMismatch, c)
     else (Inr binding, c))))"

definition require_proxy_evidence :: "silo_binding \<Rightarrow> u64 \<Rightarrow> remote_backend_error + unit" where
  "require_proxy_evidence binding now_ms =
     (if \<not> requires_proxy (sb_network binding) then Inr ()
      else
        rbind (ok_or remote_backend_error.RequiredProxyUnverified (sb_last_evidence binding)) (\<lambda>evidence.
        rbind (map_err (\<lambda>_. remote_backend_error.RequiredProxyUnverified)
                 (guest_evidence_validate evidence (sb_binding_id binding)
                   (sb_remote_environment_id binding) now_ms)) (\<lambda>_.
        if \<not> validates_required_proxy evidence (sb_network binding)
        then Inl remote_backend_error.RequiredProxyUnverified else Inr ())))"

definition enforce_proxy_now :: "silo_binding \<Rightarrow> ('t, 's) controller \<Rightarrow> (unit, 't, 's) controlled" where
  "enforce_proxy_now binding c =
     (let (now_ms, c) = co_now c in (require_proxy_evidence binding now_ms, c))"

definition ensure_evidence_advances ::
    "silo_binding \<Rightarrow> operation_result \<Rightarrow> remote_backend_error + unit" where
  "ensure_evidence_advances binding result =
     (case (sb_last_evidence binding, os_evidence result) of
        (Some previous, Some current) \<Rightarrow>
          if ge_sequence current \<le> ge_sequence previous
          then Inl remote_backend_error.SequenceReplay else Inr ()
      | _ \<Rightarrow> Inr ())"

definition update_optional_evidence ::
    "('t, 's) controller_deps \<Rightarrow> silo_binding \<Rightarrow> operation_result \<Rightarrow> ('t, 's) controller
     \<Rightarrow> (unit, 't, 's) controlled" where
  "update_optional_evidence D binding result c =
     sbind (case os_evidence result of None \<Rightarrow> (Inr binding, c)
            | Some evidence \<Rightarrow>
                if (case sb_last_evidence binding of None \<Rightarrow> False
                    | Some previous \<Rightarrow> ge_sequence evidence \<le> ge_sequence previous)
                then (Inl remote_backend_error.SequenceReplay, c)
                else (Inr (binding\<lparr>sb_last_evidence := Some evidence\<rparr>), c)) (\<lambda>binding c.
     store_update D
       (binding\<lparr>sb_last_activity_at_unix_ms := os_last_activity_at_unix_ms result\<rparr>) c)"

text \<open>What \<open>update_evidence_and_enforce\<close> and \<open>configure_network\<close> do once the binding is stored.\<close>

definition enforce_result ::
    "silo_binding \<Rightarrow> operation_result \<Rightarrow> ('t, 's) controller
     \<Rightarrow> (operation_result, 't, 's) controlled" where
  "enforce_result binding result c =
     (if os_state result = Blocked then (Inl remote_backend_error.RemoteBlocked, c)
      else sbind (enforce_proxy_now binding c) (\<lambda>_ c. (Inr result, c)))"

definition update_evidence_and_enforce ::
    "('t, 's) controller_deps \<Rightarrow> silo_binding \<Rightarrow> operation_result \<Rightarrow> ('t, 's) controller
     \<Rightarrow> (operation_result, 't, 's) controlled" where
  "update_evidence_and_enforce D binding result c =
     sbind (ensure_evidence_advances binding result, c) (\<lambda>_ c.
     let binding = binding\<lparr>sb_last_evidence := os_evidence result,
           sb_last_activity_at_unix_ms := os_last_activity_at_unix_ms result\<rparr> in
     sbind (store_update D binding c) (\<lambda>_ c. enforce_result binding result c))"

section \<open>Lifecycle operations\<close>

definition created_binding ::
    "uuid \<Rightarrow> remote_network_policy \<Rightarrow> operation_result \<Rightarrow> uuid \<Rightarrow> remote_endpoint
     \<Rightarrow> volume_attestation \<Rightarrow> silo_binding" where
  "created_binding silo_id network result server_id endpoint volume =
     \<lparr>sb_silo_id = silo_id, sb_binding_id = os_binding_id result,
      sb_remote_environment_id = os_remote_environment_id result, sb_server_id = server_id,
      sb_endpoint = endpoint, sb_network = network, sb_volume = volume,
      sb_last_activity_at_unix_ms = os_last_activity_at_unix_ms result,
      sb_human_session = None, sb_automation_authorizations = [], sb_last_screen_channel = None,
      sb_last_interaction = None, sb_last_evidence = os_evidence result\<rparr>"

definition controller_create ::
    "('t, 's) controller_deps \<Rightarrow> uuid \<Rightarrow> remote_network_policy \<Rightarrow> u64 \<Rightarrow> bool
     \<Rightarrow> ('t, 's) controller \<Rightarrow> (operation_result, 't, 's) controlled" where
  "controller_create D silo_id network ttl_seconds cost_acknowledged c =
     sbind (store_get D silo_id c) (\<lambda>found c.
     if found \<noteq> None then (Inl (remote_backend_error.SiloAlreadyBound silo_id), c)
     else
       sbind (send_operation D silo_id
                (operation_body.Create network ttl_seconds cost_acknowledged) c) (\<lambda>result c.
       sbind (ok_or remote_backend_error.NotPaired (co_pairing c), c) (\<lambda>pairing c.
       sbind (ok_or (remote_backend_error.Protocol
                (lit ''Create result did not include an encrypted volume attestation.''))
                (os_volume result), c) (\<lambda>volume c.
       let binding = created_binding silo_id network result (pg_server_id pairing)
             (co_endpoint c) volume in
       sbind (in_store (bs_insert_if_absent (cd_store D) binding) c) (\<lambda>_ c.
       enforce_result binding result c)))))"

definition controller_start ::
    "('t, 's) controller_deps \<Rightarrow> uuid \<Rightarrow> ('t, 's) controller
     \<Rightarrow> (operation_result, 't, 's) controlled" where
  "controller_start D silo_id c =
     sbind (require_binding D silo_id c) (\<lambda>binding c.
     sbind (enforce_proxy_now binding c) (\<lambda>_ c.
     sbind (send_bound_operation D binding remote_operation.Start None None None c) (\<lambda>result c.
     update_evidence_and_enforce D binding result c)))"

text \<open>\<open>stop\<close>, \<open>pause\<close> and \<open>snapshot\<close> differ in the operation they send.\<close>

definition quiescent_operation ::
    "('t, 's) controller_deps \<Rightarrow> remote_operation \<Rightarrow> uuid \<Rightarrow> ('t, 's) controller
     \<Rightarrow> (operation_result, 't, 's) controlled" where
  "quiescent_operation D operation silo_id c =
     sbind (require_binding D silo_id c) (\<lambda>binding c.
     sbind (send_bound_operation D binding operation None None None c) (\<lambda>result c.
     sbind (update_optional_evidence D binding result c) (\<lambda>_ c. (Inr result, c))))"

definition controller_stop ::
    "('t, 's) controller_deps \<Rightarrow> uuid \<Rightarrow> ('t, 's) controller
     \<Rightarrow> (operation_result, 't, 's) controlled" where
  "controller_stop D = quiescent_operation D remote_operation.Stop"

definition controller_pause ::
    "('t, 's) controller_deps \<Rightarrow> uuid \<Rightarrow> ('t, 's) controller
     \<Rightarrow> (operation_result, 't, 's) controlled" where
  "controller_pause D = quiescent_operation D remote_operation.Pause"

definition controller_snapshot ::
    "('t, 's) controller_deps \<Rightarrow> uuid \<Rightarrow> ('t, 's) controller
     \<Rightarrow> (operation_result, 't, 's) controlled" where
  "controller_snapshot D = quiescent_operation D remote_operation.Snapshot"

definition controller_destroy ::
    "('t, 's) controller_deps \<Rightarrow> uuid \<Rightarrow> bool \<Rightarrow> ('t, 's) controller
     \<Rightarrow> (operation_result, 't, 's) controlled" where
  "controller_destroy D silo_id confirm_destroy c =
     sbind (require_binding D silo_id c) (\<lambda>binding c.
     sbind (send_bound_operation D binding remote_operation.Destroy None (Some confirm_destroy)
              None c) (\<lambda>result c.
     sbind (in_store (bs_remove (cd_store D) silo_id) c) (\<lambda>_ c. (Inr result, c))))"

definition controller_configure_network ::
    "('t, 's) controller_deps \<Rightarrow> uuid \<Rightarrow> remote_network_policy \<Rightarrow> ('t, 's) controller
     \<Rightarrow> (operation_result, 't, 's) controlled" where
  "controller_configure_network D silo_id network c =
     sbind (require_binding D silo_id c) (\<lambda>binding c.
     sbind (send_bound_operation D binding remote_operation.ConfigureNetwork (Some network) None
              None c) (\<lambda>result c.
     sbind (ensure_evidence_advances binding result, c) (\<lambda>_ c.
     let binding = binding\<lparr>sb_network := network, sb_last_evidence := os_evidence result,
           sb_last_activity_at_unix_ms := os_last_activity_at_unix_ms result\<rparr> in
     sbind (store_update D binding c) (\<lambda>_ c. enforce_result binding result c))))"

definition controller_health ::
    "('t, 's) controller_deps \<Rightarrow> uuid \<Rightarrow> ('t, 's) controller
     \<Rightarrow> (operation_result, 't, 's) controlled" where
  "controller_health D silo_id c =
     sbind (require_binding D silo_id c) (\<lambda>binding c.
     sbind (send_bound_operation D binding remote_operation.Health None None None c) (\<lambda>result c.
     update_evidence_and_enforce D binding result c))"

definition controller_logs ::
    "('t, 's) controller_deps \<Rightarrow> uuid \<Rightarrow> uuid option \<Rightarrow> u16 \<Rightarrow> ('t, 's) controller
     \<Rightarrow> (operation_result, 't, 's) controlled" where
  "controller_logs D silo_id cursor limit c =
     sbind (require_binding D silo_id c) (\<lambda>binding c.
     sbind (send_bound_operation D binding remote_operation.Logs None None (Some (cursor, limit)) c)
       (\<lambda>result c.
     sbind (store_update D
              (binding\<lparr>sb_last_activity_at_unix_ms := os_last_activity_at_unix_ms result\<rparr>) c)
       (\<lambda>_ c. (Inr result, c))))"

definition force_detach_binding ::
    "('t, 's) controller_deps \<Rightarrow> uuid \<Rightarrow> bool \<Rightarrow> bool \<Rightarrow> ('t, 's) controller
     \<Rightarrow> (remote_orphan_receipt, 't, 's) controlled" where
  "force_detach_binding D silo_id confirm_local_detach acknowledge_remote_orphan_risk c =
     (if \<not> confirm_local_detach \<or> \<not> acknowledge_remote_orphan_risk
      then (Inl remote_backend_error.ForceDetachConfirmationRequired, c)
      else
        sbind (store_get D silo_id c) (\<lambda>found c.
        sbind (ok_or (remote_backend_error.SiloNotBound silo_id) found, c) (\<lambda>binding c.
        let (receipt_id, c) = co_new_v4 c; (now_ms, c) = co_now c;
            receipt = \<lparr>oo_receipt_id = receipt_id, oo_silo_id = sb_silo_id binding,
              oo_binding_id = sb_binding_id binding,
              oo_remote_environment_id = sb_remote_environment_id binding,
              oo_server_id = sb_server_id binding, oo_endpoint = sb_endpoint binding,
              oo_detached_at_unix_ms = now_ms, oo_notice = REMOTE_ORPHAN_NOTICE\<rparr> in
        sbind (remote_orphan_receipt_validate (cd_parse_url D) receipt, c) (\<lambda>_ c.
        sbind (in_store (bs_remove (cd_store D) silo_id) c) (\<lambda>_ c. (Inr receipt, c))))))"

section \<open>Interactive operations\<close>

definition send_agent_command ::
    "('t, 's) controller_deps \<Rightarrow> principal_kind \<Rightarrow> uuid option \<Rightarrow> agent_command
     \<Rightarrow> ('t, 's) controller \<Rightarrow> (agent_response, 't, 's) controlled" where
  "send_agent_command D kind authorization_id command c =
     sbind (reserve_authenticated_request c) (\<lambda>(now_ms, request_sequence, credential_id, credential) c.
     let (request_id, c) = co_new_v4 c; (nonce, c) = co_new_nonce c in
     sbind (exchange_envelopes D (cd_encode_agent D) (cd_decode_agent D) (co_endpoint c)
              (Some credential)
              \<lparr>rq_protocol_version = PROTOCOL_VERSION, rq_request_id = request_id, rq_nonce = nonce,
               rq_sequence = request_sequence, rq_sent_at_unix_ms = now_ms,
               rq_principal = \<lparr>p_kind = kind, p_credential_id = credential_id,
                  p_authorization_id = authorization_id\<rparr>,
               rq_command = command\<rparr> c) (\<lambda>response c.
     sbind (validate_response_metadata (re_protocol_version response) (re_in_reply_to response)
              request_id (re_nonce response) (re_sent_at_unix_ms response)
              (re_sequence response) c) (\<lambda>_ c.
     case re_body response of
       agent_control_response_body.Success response \<Rightarrow> (Inr response, c)
     | agent_control_response_body.Unavailable reason \<Rightarrow>
         sbind (validate_text (lit ''interactive unavailable reason'') reason, c) (\<lambda>_ c.
         (Inl (remote_backend_error.InteractiveUnavailable reason), c))
     | agent_control_response_body.Rejected code message \<Rightarrow>
         sbind (validate_text (lit ''interactive rejection'') message, c) (\<lambda>_ c.
         (Inl (remote_backend_error.InteractiveRejected code message), c)))))"

definition persist_interaction ::
    "('t, 's) controller_deps \<Rightarrow> silo_binding \<Rightarrow> agent_control_operation \<Rightarrow> agent_response
     \<Rightarrow> ('t, 's) controller \<Rightarrow> (agent_interaction_receipt, 't, 's) controlled" where
  "persist_interaction D binding operation response c =
     (let (now_ms, c) = co_now c;
          receipt = \<lparr>ir_operation = operation, ir_observed_at_unix_ms = now_ms,
                     ir_response = response\<rparr> in
      sbind (store_update D (binding\<lparr>sb_last_interaction := Some receipt\<rparr>) c) (\<lambda>_ c.
      (Inr receipt, c)))"

definition human_session_of :: "string \<Rightarrow> agent_response \<Rightarrow> remote_backend_error + session_authorization" where
  "human_session_of message response =
     (case response of agent_response.HumanSession authorization \<Rightarrow> Inr authorization
      | _ \<Rightarrow> Inl (remote_backend_error.Protocol (lit message)))"

definition automation_of :: "string \<Rightarrow> agent_response \<Rightarrow> remote_backend_error + automation_authorization" where
  "automation_of message response =
     (case response of agent_response.Automation authorization \<Rightarrow> Inr authorization
      | _ \<Rightarrow> Inl (remote_backend_error.Protocol (lit message)))"

definition controller_open_human_session ::
    "('t, 's) controller_deps \<Rightarrow> uuid \<Rightarrow> u64 \<Rightarrow> ('t, 's) controller
     \<Rightarrow> (agent_interaction_receipt, 't, 's) controlled" where
  "controller_open_human_session D silo_id lifetime_seconds c =
     (if \<not> (60 \<le> lifetime_seconds \<and> lifetime_seconds \<le> MAX_HUMAN_SESSION_SECONDS)
      then (Inl (remote_backend_error.InvalidRequest
              (lit ''Human session lifetime must be between 60 seconds and eight hours.'')), c)
      else
        sbind (require_binding D silo_id c) (\<lambda>binding c.
        sbind (send_agent_command D ControlPlane None
                 (agent_command.OpenHumanSession silo_id lifetime_seconds) c) (\<lambda>response c.
        sbind (human_session_of ''openHumanSession returned the wrong Agent response type.''
                 response, c) (\<lambda>authorization c.
        let (now_ms, c) = co_now c in
        sbind (validate_session_authorization authorization binding now_ms False, c) (\<lambda>_ c.
        if sa_expires_at_unix_ms authorization - sa_issued_at_unix_ms authorization
             \<noteq> lifetime_seconds * 1000
        then (Inl (remote_backend_error.Protocol
                (lit ''Human-session authorization lifetime differs from the user-approved request.'')), c)
        else
          persist_interaction D (binding\<lparr>sb_human_session := Some authorization\<rparr>)
            agent_control_operation.OpenHumanSession response c)))))"

definition controller_close_human_session ::
    "('t, 's) controller_deps \<Rightarrow> uuid \<Rightarrow> ('t, 's) controller
     \<Rightarrow> (agent_interaction_receipt, 't, 's) controlled" where
  "controller_close_human_session D silo_id c =
     sbind (require_binding D silo_id c) (\<lambda>binding c.
     sbind (ok_or (remote_backend_error.InvalidRequest
              (lit ''No human session authorization is stored for this Silo.''))
              (sb_human_session binding), c) (\<lambda>stored c.
     let (now_ms, c) = co_now c in
     if sa_revoked stored \<or> sa_expires_at_unix_ms stored \<le> now_ms
     then (Inl (remote_backend_error.InvalidRequest
             (lit ''The human session is already revoked or expired.'')), c)
     else
       sbind (send_agent_command D principal_kind.HumanSession (Some (sa_authorization_id stored))
                (agent_command.CloseHumanSession silo_id) c) (\<lambda>response c.
       sbind (human_session_of ''closeHumanSession returned the wrong Agent response type.''
                response, c) (\<lambda>authorization c.
       sbind (validate_session_authorization authorization binding now_ms True, c) (\<lambda>_ c.
       if sa_authorization_id authorization \<noteq> sa_authorization_id stored
       then (Inl remote_backend_error.BindingMismatch, c)
       else
         persist_interaction D (binding\<lparr>sb_human_session := Some authorization\<rparr>)
           agent_control_operation.CloseHumanSession response c)))))"

text \<open>\<open>Iterator::position\<close>: the index of the first element that satisfies a predicate.\<close>

fun find_index :: "('a \<Rightarrow> bool) \<Rightarrow> 'a list \<Rightarrow> nat option" where
  "find_index p [] = None"
| "find_index p (x # xs) = (if p x then Some 0 else map_option Suc (find_index p xs))"

definition store_automation ::
    "automation_authorization \<Rightarrow> automation_authorization list
     \<Rightarrow> remote_backend_error + automation_authorization list" where
  "store_automation authorization stored =
     (case find_index (\<lambda>a. aa_authorization_id a = aa_authorization_id authorization) stored of
        Some i \<Rightarrow> Inr (stored[i := authorization])
      | None \<Rightarrow>
          if MAX_AUTOMATION_AUTHORIZATIONS_PER_SILO \<le> length stored
          then Inl (remote_backend_error.LimitExceeded
                 (lit ''A Silo may retain at most ''
                  @ show_nat MAX_AUTOMATION_AUTHORIZATIONS_PER_SILO
                  @ lit '' automation authorizations.''))
          else Inr (stored @ [authorization]))"

definition controller_grant_automation ::
    "('t, 's) controller_deps \<Rightarrow> uuid \<Rightarrow> u64 \<Rightarrow> automation_scope list \<Rightarrow> bool
     \<Rightarrow> ('t, 's) controller \<Rightarrow> (agent_interaction_receipt, 't, 's) controlled" where
  "controller_grant_automation D silo_id lifetime_seconds scopes approved_by_user c =
     (if \<not> approved_by_user
         \<or> \<not> (60 \<le> lifetime_seconds \<and> lifetime_seconds \<le> MAX_AUTOMATION_SECONDS)
         \<or> scopes = [] \<or> 2 < length scopes \<or> \<not> distinct scopes
      then (Inl (remote_backend_error.InvalidRequest
              (lit ''Automation requires explicit approval, unique scopes and a 60-3600 second lifetime.'')), c)
      else
        sbind (require_binding D silo_id c) (\<lambda>binding c.
        sbind (send_agent_command D ControlPlane None
                 (agent_command.GrantAutomation silo_id lifetime_seconds scopes approved_by_user) c)
          (\<lambda>response c.
        sbind (automation_of ''grantAutomation returned the wrong Agent response type.''
                 response, c) (\<lambda>authorization c.
        let (now_ms, c) = co_now c in
        sbind (validate_automation_authorization authorization binding now_ms False, c) (\<lambda>_ c.
        if aa_expires_at_unix_ms authorization - aa_issued_at_unix_ms authorization
             \<noteq> lifetime_seconds * 1000
           \<or> set (aa_scopes authorization) \<noteq> set scopes
        then (Inl (remote_backend_error.Protocol
                (lit ''Automation authorization differs from the user-approved lifetime or scope set.'')), c)
        else
          sbind (store_automation authorization (sb_automation_authorizations binding), c)
            (\<lambda>authorizations c.
          persist_interaction D (binding\<lparr>sb_automation_authorizations := authorizations\<rparr>)
            agent_control_operation.GrantAutomation response c))))))"

definition controller_revoke_automation ::
    "('t, 's) controller_deps \<Rightarrow> uuid \<Rightarrow> uuid \<Rightarrow> ('t, 's) controller
     \<Rightarrow> (agent_interaction_receipt, 't, 's) controlled" where
  "controller_revoke_automation D silo_id authorization_id c =
     sbind (require_binding D silo_id c) (\<lambda>binding c.
     sbind (ok_or (remote_backend_error.InvalidRequest
              (lit ''The selected automation authorization is not stored for this Silo.''))
              (find_index (\<lambda>a. aa_authorization_id a = authorization_id)
                (sb_automation_authorizations binding)), c) (\<lambda>index c.
     sbind (send_agent_command D ControlPlane None
              (agent_command.RevokeAutomation silo_id authorization_id) c) (\<lambda>response c.
     sbind (automation_of ''revokeAutomation returned the wrong Agent response type.''
              response, c) (\<lambda>authorization c.
     let (now_ms, c) = co_now c in
     sbind (validate_automation_authorization authorization binding now_ms True, c) (\<lambda>_ c.
     if aa_authorization_id authorization \<noteq> authorization_id
     then (Inl remote_backend_error.BindingMismatch, c)
     else
       persist_interaction D (binding\<lparr>sb_automation_authorizations :=
             (sb_automation_authorizations binding)[index := authorization]\<rparr>)
         agent_control_operation.RevokeAutomation response c)))))"

definition controller_open_screen ::
    "('t, 's) controller_deps \<Rightarrow> uuid \<Rightarrow> interactive_principal \<Rightarrow> ('t, 's) controller
     \<Rightarrow> (agent_interaction_receipt, 't, 's) controlled" where
  "controller_open_screen D silo_id who c =
     sbind (require_binding D silo_id c) (\<lambda>binding c.
     let (now_ms, c) = co_now c in
     sbind (authorize_interactive_principal binding who now_ms ReadScreen False, c)
       (\<lambda>(kind, authorization_id, authorization_expires_at) c.
     sbind (send_agent_command D kind (Some authorization_id) (agent_command.OpenScreen silo_id) c)
       (\<lambda>response c.
     sbind (case response of agent_response.Screen channel \<Rightarrow> Inr channel
            | _ \<Rightarrow> Inl (remote_backend_error.Protocol
                    (lit ''openScreen returned the wrong Agent response type.'')), c) (\<lambda>channel c.
     let (now_ms, c) = co_now c in
     sbind (validate_screen_channel channel binding authorization_id authorization_expires_at
              now_ms, c) (\<lambda>_ c.
     persist_interaction D (binding\<lparr>sb_last_screen_channel := Some channel\<rparr>)
       agent_control_operation.OpenScreen response c)))))"

definition controller_send_input ::
    "('t, 's) controller_deps \<Rightarrow> uuid \<Rightarrow> interactive_principal \<Rightarrow> input_event list
     \<Rightarrow> ('t, 's) controller \<Rightarrow> (agent_interaction_receipt, 't, 's) controlled" where
  "controller_send_input D silo_id who events c =
     sbind (validate_input_events events, c) (\<lambda>_ c.
     sbind (require_binding D silo_id c) (\<lambda>binding c.
     let (now_ms, c) = co_now c in
     sbind (authorize_interactive_principal binding who now_ms automation_scope.SendInput True, c)
       (\<lambda>(kind, authorization_id, _) c.
     sbind (send_agent_command D kind (Some authorization_id)
              (agent_command.SendInput silo_id events) c) (\<lambda>response c.
     if response \<noteq> agent_response.InputAccepted (length events)
     then (Inl (remote_backend_error.Protocol
             (lit ''sendInput returned the wrong Agent response type or event count.'')), c)
     else persist_interaction D binding agent_control_operation.SendInput response c))))"

section \<open>Pairing\<close>

text \<open>Consumes a one-time pairing token locally; nothing is sent.\<close>

definition reserve_pairing_token ::
    "pairing_approval \<Rightarrow> ('t, 's) controller \<Rightarrow> (unit, 't, 's) controlled" where
  "reserve_pairing_token approval c =
     (let (now_ms, c) = co_now c in
      sbind (validate_pairing_approval approval now_ms, c) (\<lambda>_ c.
      if pa_pairing_token_id approval \<in> set (co_used_pairing_tokens c)
      then (Inl remote_backend_error.PairingTokenReplay, c)
      else if MAX_REPLAY_WINDOW_ENTRIES \<le> length (co_used_pairing_tokens c)
      then (Inl (remote_backend_error.LimitExceeded
              (lit ''Pairing-token replay ledger may retain at most ''
               @ show_nat MAX_REPLAY_WINDOW_ENTRIES @ lit '' entries.'')), c)
      else (Inr (), c\<lparr>co_used_pairing_tokens :=
                      pa_pairing_token_id approval # co_used_pairing_tokens c\<rparr>)))"

definition check_pairing_success ::
    "pairing_success \<Rightarrow> u64 \<Rightarrow> remote_backend_error + unit" where
  "check_pairing_success success now_ms =
     rbind (Wire_Protocol.validate_capabilities (ps_capabilities success)) (\<lambda>_.
     rbind (map_err (\<lambda>error. remote_backend_error.Protocol (agent_error_to_string error))
              (node_disclosure_validate (ps_node success))) (\<lambda>_.
     if \<not> valid_secret_token (ps_client_credential success) 32 512
     then Inl (remote_backend_error.Protocol
            (lit ''Client credential must be 32-512 base64url characters.''))
     else if ps_server_id success = nil_uuid \<or> ps_client_credential_id success = nil_uuid
     then Inl (remote_backend_error.Protocol
            (lit ''Server and client credential IDs must be non-nil.''))
     else if ps_credential_expires_at_unix_ms success \<le> now_ms
     then Inl remote_backend_error.CredentialExpired
     else Inr ()))"

definition exchange_pairing ::
    "('t, 's) controller_deps \<Rightarrow> remote_endpoint \<Rightarrow> pairing_approval
     \<Rightarrow> tls_pin_rotation_pairing_claim option \<Rightarrow> ('t, 's) controller
     \<Rightarrow> (pairing_state, 't, 's) controlled" where
  "exchange_pairing D endpoint approval tls_pin_rotation c =
     (let (now_ms, c) = co_now c; (request_id, c) = co_new_v4 c; (nonce, c) = co_new_nonce c in
      sbind (exchange_envelopes D (cd_encode_pairing D) (cd_decode_pairing D) endpoint None
               \<lparr>pq_protocol_version = PROTOCOL_VERSION, pq_request_id = request_id,
                pq_nonce = nonce, pq_sent_at_unix_ms = now_ms,
                pq_body = \<lparr>pb_operation = Pair,
                   pb_approved_by_user = pa_approved_by_user approval,
                   pb_pairing_token_id = pa_pairing_token_id approval,
                   pb_pairing_token = pa_pairing_token approval,
                   pb_pairing_token_expires_at_unix_ms =
                     pa_pairing_token_expires_at_unix_ms approval,
                   pb_tls_pin_rotation = tls_pin_rotation\<rparr>\<rparr> c) (\<lambda>response c.
      sbind (validate_pairing_response_metadata (re_protocol_version response)
               (re_in_reply_to response) request_id (re_nonce response)
               (re_sent_at_unix_ms response) (re_sequence response) c) (\<lambda>_ c.
      case re_body response of
        pairing_response_body.Success success \<Rightarrow>
          sbind (check_pairing_success success now_ms, c) (\<lambda>_ c.
          (Inr \<lparr>pg_server_id = ps_server_id success,
                pg_client_credential_id = ps_client_credential_id success,
                pg_node = ps_node success, pg_credential = ps_client_credential success,
                pg_credential_expires_at_unix_ms = ps_credential_expires_at_unix_ms success,
                pg_capabilities = ps_capabilities success, pg_last_client_sequence = 0,
                pg_last_server_sequence = re_sequence response\<rparr>, c))
      | pairing_response_body.Rejected code message \<Rightarrow>
          sbind (validate_text (lit ''pairing rejection'') message, c) (\<lambda>_ c.
          (Inl (remote_backend_error.PairingRejected code message), c)))))"

definition controller_pair ::
    "('t, 's) controller_deps \<Rightarrow> pairing_approval \<Rightarrow> ('t, 's) controller
     \<Rightarrow> (uuid, 't, 's) controlled" where
  "controller_pair D approval c =
     (if co_pairing c \<noteq> None then (Inl remote_backend_error.AlreadyPaired, c)
      else
        sbind (reserve_pairing_token approval c) (\<lambda>_ c.
        sbind (exchange_pairing D (co_endpoint c) approval None c) (\<lambda>pairing c.
        (Inr (pg_server_id pairing), c\<lparr>co_pairing := Some pairing\<rparr>))))"

definition revoke_pairing :: "('t, 's) controller \<Rightarrow> ('t, 's) controller" where
  "revoke_pairing c = c\<lparr>co_pairing := None, co_response_replay := []\<rparr>"

section \<open>Snapshots\<close>

definition pairing_snapshot_of :: "('t, 's) controller \<Rightarrow> pairing_snapshot option" where
  "pairing_snapshot_of c = map_option (\<lambda>pairing.
     \<lparr>pn_server_id = pg_server_id pairing,
      pn_client_credential_id = pg_client_credential_id pairing, pn_node = pg_node pairing,
      pn_client_credential = pg_credential pairing,
      pn_credential_expires_at_unix_ms = pg_credential_expires_at_unix_ms pairing,
      pn_capabilities = pg_capabilities pairing,
      pn_last_client_sequence = pg_last_client_sequence pairing,
      pn_last_server_sequence = pg_last_server_sequence pairing\<rparr>) (co_pairing c)"

definition restore_pairing ::
    "pairing_snapshot \<Rightarrow> ('t, 's) controller \<Rightarrow> (unit, 't, 's) controlled" where
  "restore_pairing snapshot c =
     (if co_pairing c \<noteq> None then (Inl remote_backend_error.AlreadyPaired, c)
      else if \<not> valid_secret_token (pn_client_credential snapshot) 32 512
      then (Inl (remote_backend_error.Protocol
              (lit ''Stored client credential must be 32-512 base64url characters.'')), c)
      else if pn_server_id snapshot = nil_uuid \<or> pn_client_credential_id snapshot = nil_uuid
      then (Inl (remote_backend_error.Protocol
              (lit ''Stored server and client credential IDs must be non-nil.'')), c)
      else
        sbind (Wire_Protocol.validate_capabilities (pn_capabilities snapshot), c) (\<lambda>_ c.
        sbind (map_err (\<lambda>error. remote_backend_error.Protocol (agent_error_to_string error))
                 (node_disclosure_validate (pn_node snapshot)), c) (\<lambda>_ c.
        if pn_credential_expires_at_unix_ms snapshot = 0 \<or> pn_last_server_sequence snapshot = 0
        then (Inl (remote_backend_error.Protocol
                (lit ''Stored pairing expiry and server sequence must be positive.'')), c)
        else (Inr (), c\<lparr>co_pairing := Some
          \<lparr>pg_server_id = pn_server_id snapshot,
           pg_client_credential_id = pn_client_credential_id snapshot, pg_node = pn_node snapshot,
           pg_credential = pn_client_credential snapshot,
           pg_credential_expires_at_unix_ms = pn_credential_expires_at_unix_ms snapshot,
           pg_capabilities = pn_capabilities snapshot,
           pg_last_client_sequence = pn_last_client_sequence snapshot,
           pg_last_server_sequence = pn_last_server_sequence snapshot\<rparr>\<rparr>))))"

definition used_pairing_token_ids :: "('t, 's) controller \<Rightarrow> uuid list" where
  "used_pairing_token_ids c = sort (co_used_pairing_tokens c)"

definition restore_used_pairing_tokens ::
    "uuid list \<Rightarrow> ('t, 's) controller \<Rightarrow> (unit, 't, 's) controlled" where
  "restore_used_pairing_tokens ids c =
     (if MAX_REPLAY_WINDOW_ENTRIES < length ids
      then (Inl (remote_backend_error.LimitExceeded
              (lit ''Pairing-token replay ledger exceeds ''
               @ show_nat MAX_REPLAY_WINDOW_ENTRIES @ lit '' entries.'')), c)
      else if \<not> distinct ids
      then (Inl (remote_backend_error.Store
              (lit ''Pairing-token replay ledger contains duplicate IDs.'')), c)
      else (Inr (), c\<lparr>co_used_pairing_tokens := ids\<rparr>))"

definition from_snapshot ::
    "('t, memory_binding_store) controller_deps \<Rightarrow> remote_endpoint \<Rightarrow> 't \<Rightarrow> host
     \<Rightarrow> remote_backend_snapshot \<Rightarrow> remote_backend_error + ('t, memory_binding_store) controller"
  where
  "from_snapshot D endpoint transport clock snapshot =
     (if MAX_REPLAY_WINDOW_ENTRIES < length (rs_used_pairing_token_ids snapshot)
      then Inl (remote_backend_error.LimitExceeded
             (lit ''Pairing-token replay ledger exceeds ''
              @ show_nat MAX_REPLAY_WINDOW_ENTRIES @ lit '' entries.''))
      else
        rbind (from_bindings (cd_parse_url D) (rs_bindings snapshot)) (\<lambda>store.
        rbind (controller_new D endpoint transport store clock) (\<lambda>c.
        fst (sbind (restore_used_pairing_tokens (rs_used_pairing_token_ids snapshot) c) (\<lambda>_ c.
             sbind (case rs_pairing snapshot of None \<Rightarrow> (Inr (), c)
                    | Some pairing \<Rightarrow> restore_pairing pairing c) (\<lambda>_ c.
             (Inr c, c)))))))"

definition export_snapshot ::
    "('t, memory_binding_store) controller \<Rightarrow> remote_backend_snapshot" where
  "export_snapshot c =
     \<lparr>rs_pairing = pairing_snapshot_of c, rs_used_pairing_token_ids = used_pairing_token_ids c,
      rs_bindings = store_snapshot (co_store c)\<rparr>"

section \<open>TLS pin rotation\<close>

definition check_rotation_success ::
    "tls_pin_rotation_authorization_success \<Rightarrow> uuid \<Rightarrow> uuid \<Rightarrow> uuid \<Rightarrow> tls_pin \<Rightarrow> u64
     \<Rightarrow> remote_backend_error + unit" where
  "check_rotation_success success expected_server_id client_credential_id pairing_token_id new_pin
       now_ms =
     rbind (validate_nonce (ts_challenge success)) (\<lambda>_.
     rbind (ok_or remote_backend_error.StaleMessage
              (checked_sub (ts_authorization_expires_at_unix_ms success) now_ms)) (\<lambda>lifetime.
     if ts_server_id success \<noteq> expected_server_id
        \<or> ts_client_credential_id success \<noteq> client_credential_id
        \<or> ts_pairing_token_id success \<noteq> pairing_token_id
        \<or> ts_new_pin success \<noteq> new_pin
        \<or> lifetime = 0 \<or> MAX_TLS_PIN_ROTATION_AUTHORIZATION_LIFETIME_MS < lifetime
     then Inl remote_backend_error.BindingMismatch else Inr ()))"

definition authorize_tls_pin_rotation ::
    "('t, 's) controller_deps \<Rightarrow> remote_endpoint \<Rightarrow> pairing_approval \<Rightarrow> ('t, 's) controller
     \<Rightarrow> (tls_pin_rotation_pairing_claim, 't, 's) controlled" where
  "authorize_tls_pin_rotation D new_endpoint approval c =
     sbind (ok_or remote_backend_error.NotPaired (co_pairing c), c) (\<lambda>pairing c.
     let expected_server_id = pg_server_id pairing in
     sbind (reserve_authenticated_request c)
       (\<lambda>(now_ms, request_sequence, client_credential_id, credential) c.
     let (request_id, c) = co_new_v4 c; (nonce, c) = co_new_nonce c in
     sbind (exchange_envelopes D (cd_encode_rotation D) (cd_decode_rotation D) (co_endpoint c)
              (Some credential)
              \<lparr>tq_protocol_version = PROTOCOL_VERSION, tq_request_id = request_id, tq_nonce = nonce,
               tq_sequence = request_sequence, tq_sent_at_unix_ms = now_ms,
               tq_body = \<lparr>tb_operation = AuthorizeTlsPinRotation,
                  tb_client_credential_id = client_credential_id,
                  tb_pairing_token_id = pa_pairing_token_id approval,
                  tb_new_pin = ep_pin new_endpoint\<rparr>\<rparr> c) (\<lambda>response c.
     sbind (validate_response_metadata (re_protocol_version response) (re_in_reply_to response)
              request_id (re_nonce response) (re_sent_at_unix_ms response)
              (re_sequence response) c) (\<lambda>_ c.
     case re_body response of
       tls_pin_rotation_authorization_response_body.Success success \<Rightarrow>
         sbind (check_rotation_success success expected_server_id client_credential_id
                  (pa_pairing_token_id approval) (ep_pin new_endpoint) now_ms, c) (\<lambda>_ c.
         (Inr \<lparr>tc_challenge = ts_challenge success, tc_server_id = ts_server_id success,
               tc_old_client_credential_id = client_credential_id,
               tc_authorization_request_id = request_id,
               tc_authorization_request_nonce = nonce,
               tc_authorization_request_sequence = request_sequence,
               tc_authorization_response_sequence = re_sequence response,
               tc_authorization_expires_at_unix_ms = ts_authorization_expires_at_unix_ms success,
               tc_pairing_token_id = ts_pairing_token_id success,
               tc_new_pin = ts_new_pin success\<rparr>, c))
     | tls_pin_rotation_authorization_response_body.Rejected code message \<Rightarrow>
         sbind (validate_text (lit ''TLS pin rotation authorization rejection'') message, c) (\<lambda>_ c.
         (Inl (remote_backend_error.Rejected code message), c))))))"

text \<open>The checks of the candidate endpoint, and of the bindings, that both phases make.\<close>

definition check_rotation_endpoint ::
    "('t, 's) controller_deps \<Rightarrow> remote_endpoint \<Rightarrow> ('t, 's) controller
     \<Rightarrow> remote_backend_error + unit" where
  "check_rotation_endpoint D new_endpoint c =
     (if \<not> same_https_origin (cd_parse_url D) (co_endpoint c) new_endpoint
      then Inl remote_backend_error.RotationOriginMismatch
      else if ep_pin (co_endpoint c) = ep_pin new_endpoint
      then Inl remote_backend_error.RotationPinUnchanged
      else Inr ())"

definition check_rotation_bindings ::
    "uuid \<Rightarrow> ('t, memory_binding_store) controller \<Rightarrow> remote_backend_error + unit" where
  "check_rotation_bindings expected_server_id c =
     (if list_ex (\<lambda>binding. sb_endpoint binding \<noteq> co_endpoint c
            \<or> sb_server_id binding \<noteq> expected_server_id) (store_snapshot (co_store c))
      then Inl remote_backend_error.BindingMismatch else Inr ())"

definition begin_tls_pin_rotation ::
    "('t, memory_binding_store) controller_deps \<Rightarrow> remote_endpoint \<Rightarrow> pairing_approval
     \<Rightarrow> ('t, memory_binding_store) controller
     \<Rightarrow> (tls_pin_rotation_pairing_claim, 't, memory_binding_store) controlled" where
  "begin_tls_pin_rotation D new_endpoint approval c =
     sbind (reserve_pairing_token approval c) (\<lambda>_ c.
     sbind (endpoint_validate (cd_parse_url D) new_endpoint, c) (\<lambda>_ c.
     let (now_ms, c) = co_now c in
     sbind (ok_or remote_backend_error.NotPaired (co_pairing c), c) (\<lambda>old_pairing c.
     if pg_credential_expires_at_unix_ms old_pairing \<le> now_ms
     then (Inl remote_backend_error.CredentialExpired, c)
     else
       sbind (check_rotation_endpoint D new_endpoint c, c) (\<lambda>_ c.
       sbind (check_rotation_bindings (pg_server_id old_pairing) c, c) (\<lambda>_ c.
       authorize_tls_pin_rotation D new_endpoint approval c)))))"

text \<open>A binding moved to the new endpoint; no grant of the old credential is kept.\<close>

definition move_binding :: "remote_endpoint \<Rightarrow> silo_binding \<Rightarrow> silo_binding" where
  "move_binding new_endpoint binding =
     binding\<lparr>sb_endpoint := new_endpoint, sb_human_session := None,
       sb_automation_authorizations := [], sb_last_screen_channel := None\<rparr>"

definition finish_tls_pin_rotation ::
    "('t, memory_binding_store) controller_deps \<Rightarrow> remote_endpoint \<Rightarrow> pairing_approval
     \<Rightarrow> tls_pin_rotation_pairing_claim \<Rightarrow> ('t, memory_binding_store) controller
     \<Rightarrow> (uuid, 't, memory_binding_store) controlled" where
  "finish_tls_pin_rotation D new_endpoint approval rotation_claim c =
     sbind (endpoint_validate (cd_parse_url D) new_endpoint, c) (\<lambda>_ c.
     sbind (ok_or remote_backend_error.NotPaired (co_pairing c), c) (\<lambda>old_pairing c.
     let (now_ms, c) = co_now c in
     if pg_credential_expires_at_unix_ms old_pairing \<le> now_ms
     then (Inl remote_backend_error.CredentialExpired, c)
     else
       let expected_server_id = pg_server_id old_pairing in
       sbind (check_rotation_endpoint D new_endpoint c, c) (\<lambda>_ c.
       if pa_pairing_token_id approval \<notin> set (co_used_pairing_tokens c)
          \<or> tc_server_id rotation_claim \<noteq> expected_server_id
          \<or> tc_old_client_credential_id rotation_claim \<noteq> pg_client_credential_id old_pairing
          \<or> tc_pairing_token_id rotation_claim \<noteq> pa_pairing_token_id approval
          \<or> tc_new_pin rotation_claim \<noteq> ep_pin new_endpoint
       then (Inl remote_backend_error.BindingMismatch, c)
       else
         let (now_ms, c) = co_now c in
         if tc_authorization_expires_at_unix_ms rotation_claim \<le> now_ms
         then (Inl remote_backend_error.RotationAuthorizationExpired, c)
         else
           let bindings = store_snapshot (co_store c) in
           sbind (check_rotation_bindings expected_server_id c, c) (\<lambda>_ c.
           sbind (exchange_pairing D new_endpoint approval (Some rotation_claim) c) (\<lambda>new_pairing c.
           if pg_server_id new_pairing \<noteq> expected_server_id
           then (Inl (remote_backend_error.RotationServerMismatch expected_server_id
                   (pg_server_id new_pairing)), c)
           else
             sbind (from_bindings (cd_parse_url D) (map (move_binding new_endpoint) bindings), c)
               (\<lambda>new_store c.
             (Inr expected_server_id,
              c\<lparr>co_endpoint := new_endpoint, co_store := new_store,
                co_pairing := Some new_pairing\<rparr>)))))))"

definition rotate_tls_pin ::
    "('t, memory_binding_store) controller_deps \<Rightarrow> remote_endpoint \<Rightarrow> pairing_approval
     \<Rightarrow> ('t, memory_binding_store) controller \<Rightarrow> (uuid, 't, memory_binding_store) controlled" where
  "rotate_tls_pin D new_endpoint approval c =
     sbind (begin_tls_pin_rotation D new_endpoint approval c) (\<lambda>rotation_claim c.
     finish_tls_pin_rotation D new_endpoint approval rotation_claim c)"

end
