(* ===== verification/Controller_Facts.thy ===== *)
theory Controller_Facts
  imports Controller_Operations
begin

text \<open>
  What the controller's exchanges leave unchanged, and what their success means: the endpoint, the
  bindings and the used pairing tokens stay, the sequences of the pairing only advance, and a
  request that reached the transport has consumed a client sequence.
\<close>

section \<open>What an exchange may change\<close>

definition pairing_advances :: "pairing_state option \<Rightarrow> pairing_state option \<Rightarrow> bool" where
  "pairing_advances p p' \<longleftrightarrow>
     (case (p, p') of
        (None, None) \<Rightarrow> True
      | (Some p, Some p') \<Rightarrow>
          pg_last_client_sequence p \<le> pg_last_client_sequence p'
          \<and> pg_last_server_sequence p \<le> pg_last_server_sequence p'
          \<and> pg_server_id p' = pg_server_id p
          \<and> pg_client_credential_id p' = pg_client_credential_id p \<and> pg_node p' = pg_node p
          \<and> pg_credential p' = pg_credential p
          \<and> pg_credential_expires_at_unix_ms p' = pg_credential_expires_at_unix_ms p
          \<and> pg_capabilities p' = pg_capabilities p
      | _ \<Rightarrow> False)"

definition spent :: "('t, 's) controller \<Rightarrow> ('t, 's) controller \<Rightarrow> bool" where
  "spent c c' \<longleftrightarrow> (\<exists>p p'. co_pairing c = Some p \<and> co_pairing c' = Some p'
     \<and> pg_last_client_sequence p < pg_last_client_sequence p')"

text \<open>\<open>quiet\<close>: nothing but the transport, the host, the replay window and the sequences changed.\<close>

definition quiet :: "('t, 's) controller \<Rightarrow> ('t, 's) controller \<Rightarrow> bool" where
  "quiet c c' \<longleftrightarrow> co_endpoint c' = co_endpoint c \<and> co_store c' = co_store c
     \<and> co_used_pairing_tokens c' = co_used_pairing_tokens c
     \<and> pairing_advances (co_pairing c) (co_pairing c')"

definition exchanged :: "('t, 's) controller \<Rightarrow> ('t, 's) controller \<Rightarrow> bool" where
  "exchanged c c' \<longleftrightarrow> quiet c c' \<and> (co_transport c' = co_transport c \<or> spent c c')"

lemma pairing_advances_simps [simp]:
  "pairing_advances None None"
  "pairing_advances None p' \<longleftrightarrow> p' = None"
  "pairing_advances p None \<longleftrightarrow> p = None"
  by (auto simp: pairing_advances_def split: option.splits)

lemma pairing_advances_refl [simp]: "pairing_advances p p"
  by (cases p) (auto simp: pairing_advances_def)

lemma pairing_advances_trans:
  "pairing_advances p q \<Longrightarrow> pairing_advances q r \<Longrightarrow> pairing_advances p r"
  by (auto simp: pairing_advances_def split: option.splits)

lemma pairing_advances_Some:
  assumes "pairing_advances (Some p) p'"
  obtains q where "p' = Some q" "pg_server_id q = pg_server_id p"
    "pg_client_credential_id q = pg_client_credential_id p" "pg_credential q = pg_credential p"
    "pg_capabilities q = pg_capabilities p"
    "pg_credential_expires_at_unix_ms q = pg_credential_expires_at_unix_ms p"
    "pg_last_client_sequence p \<le> pg_last_client_sequence q"
    "pg_last_server_sequence p \<le> pg_last_server_sequence q" "pg_node q = pg_node p"
  using assms by (auto simp: pairing_advances_def split: option.splits)

lemma quiet_refl [simp]: "quiet c c"
  by (simp add: quiet_def)

lemma quiet_trans: "quiet a b \<Longrightarrow> quiet b c \<Longrightarrow> quiet a c"
  by (auto simp: quiet_def intro: pairing_advances_trans)

lemma spent_quiet: "spent a b \<Longrightarrow> quiet b c \<Longrightarrow> spent a c"
  by (auto simp: spent_def quiet_def pairing_advances_def intro: less_le_trans split: option.splits)

lemma quiet_spent: "quiet a b \<Longrightarrow> spent b c \<Longrightarrow> spent a c"
  by (auto simp: spent_def quiet_def pairing_advances_def split: option.splits
      intro: le_less_trans)

lemma exchanged_refl [simp]: "exchanged c c"
  by (simp add: exchanged_def)

lemma exchanged_trans: "exchanged a b \<Longrightarrow> exchanged b c \<Longrightarrow> exchanged a c"
  by (auto simp: exchanged_def intro: quiet_trans spent_quiet quiet_spent)

lemma exchanged_quiet: "exchanged c c' \<Longrightarrow> quiet c c'"
  by (simp add: exchanged_def)

text \<open>The host's draws.\<close>

definition drawn :: "('t, 's) controller \<Rightarrow> ('t, 's) controller \<Rightarrow> bool" where
  "drawn c c' \<longleftrightarrow> (\<exists>h. c' = c\<lparr>co_host := h\<rparr>)"

lemma drawn_refl [simp]: "drawn c c"
  by (auto simp: drawn_def intro: exI [of _ "co_host c"])

lemma drawn_now: "drawn c (snd (co_now c))"
  by (auto simp: drawn_def co_now_def split: prod.splits)

lemma drawn_v4: "drawn c (snd (co_new_v4 c))"
  by (auto simp: drawn_def co_new_v4_def split: prod.splits)

lemma drawn_nonce: "drawn c (snd (co_new_nonce c))"
  by (auto simp: drawn_def co_new_nonce_def split: prod.splits)

lemma drawn_trans: "drawn a b \<Longrightarrow> drawn b c \<Longrightarrow> drawn a c"
  by (auto simp: drawn_def)

lemma drawn_fields:
  assumes "drawn c c'"
  shows "co_endpoint c' = co_endpoint c" "co_transport c' = co_transport c"
    "co_store c' = co_store c" "co_pairing c' = co_pairing c"
    "co_used_pairing_tokens c' = co_used_pairing_tokens c"
    "co_response_replay c' = co_response_replay c"
  using assms by (auto simp: drawn_def)

lemma drawn_exchanged: "drawn c c' \<Longrightarrow> exchanged c c'"
  by (simp add: exchanged_def quiet_def drawn_fields)

lemma co_nowE:
  obtains t c' where "co_now c = (t, c')" "drawn c c'"
  using drawn_now [of c] by (cases "co_now c") auto

lemma co_new_v4E:
  obtains u c' where "co_new_v4 c = (u, c')" "drawn c c'"
  using drawn_v4 [of c] by (cases "co_new_v4 c") auto

lemma co_new_nonceE:
  obtains n c' where "co_new_nonce c = (n, c')" "drawn c c'"
  using drawn_nonce [of c] by (cases "co_new_nonce c") auto

lemma quiet_drawn: "quiet a b \<Longrightarrow> drawn b c \<Longrightarrow> quiet a c"
  by (meson drawn_exchanged exchanged_quiet quiet_trans)

lemma spent_drawn: "spent a b \<Longrightarrow> drawn b c \<Longrightarrow> spent a c"
  by (meson drawn_exchanged exchanged_quiet spent_quiet)

lemma quiet_drawn_endpoint: "quiet a b \<Longrightarrow> drawn b c \<Longrightarrow> co_endpoint c = co_endpoint a"
  by (simp add: quiet_def drawn_fields)

section \<open>Exchanges\<close>

text \<open>Whether a response came over validated TLS from the pinned peer, within the size limit.\<close>

definition pinned :: "remote_endpoint \<Rightarrow> transport_response \<Rightarrow> bool" where
  "pinned endpoint response \<longleftrightarrow> tp_tls_validated response \<and> tp_peer_pin response = ep_pin endpoint
     \<and> length (tp_payload response) \<le> MAX_MESSAGE_BYTES"

lemma validate_transport_response_Inr [simp]:
  "validate_transport_response endpoint response = Inr u \<longleftrightarrow> pinned endpoint response"
  by (auto simp: validate_transport_response_def pinned_def)

lemma exchange_outcome:
  "outcome
     (\<lambda>r c'. quiet c c' \<and> co_pairing c' = co_pairing c \<and> (\<exists>payload response. to_vec request = Inr payload
        \<and> fst (cd_exchange D \<lparr>tr_endpoint = endpoint, tr_credential = credential,
             tr_payload = payload\<rparr> (co_transport c)) = Inr response
        \<and> pinned endpoint response \<and> from_slice (tp_payload response) = Inr r))
     (\<lambda>_ c'. quiet c c' \<and> co_pairing c' = co_pairing c)
     (exchange_envelopes D to_vec from_slice endpoint credential request c)"
  by (auto simp: exchange_envelopes_def encode_json_def decode_json_def outcome_def quiet_def
      sbind_def split: prod.splits sum.splits if_splits)

lemma metadata_outcome:
  "outcome
     (\<lambda>_ c'. quiet c c' \<and> co_transport c' = co_transport c \<and> version = PROTOCOL_VERSION
        \<and> in_reply_to = request_id \<and> n \<noteq> 0
        \<and> (case co_pairing c of None \<Rightarrow> True
           | Some p \<Rightarrow> pg_last_server_sequence p < n
               \<and> co_pairing c' = Some (p\<lparr>pg_last_server_sequence := n\<rparr>)))
     (\<lambda>_ c'. quiet c c' \<and> co_transport c' = co_transport c)
     (validate_response_metadata version in_reply_to request_id nonce sent n c)"
proof -
  obtain t c1 where now: "co_now c = (t, c1)" "drawn c c1" by (rule co_nowE)
  have advance: "pairing_advances (Some p) (Some (p\<lparr>pg_last_server_sequence := n\<rparr>))"
    if "\<not> n \<le> pg_last_server_sequence p" for p
    using that by (auto simp: pairing_advances_def)
  show ?thesis
    unfolding validate_response_metadata_def now(1) record_response_nonce_def
    using drawn_fields [OF now(2)]
    by (auto intro!: outcome_ifI outcome_pure_bindI advance simp: quiet_def not_le
        split: prod.splits sum.splits option.splits)
qed

lemma reserve_outcome:
  "outcome
     (\<lambda>(now, n, credential_id, credential) c'. quiet c c' \<and> spent c c'
        \<and> co_transport c' = co_transport c \<and> (\<exists>p. co_pairing c = Some p
        \<and> now < pg_credential_expires_at_unix_ms p
        \<and> unat n = Suc (unat (pg_last_client_sequence p))
        \<and> credential_id = pg_client_credential_id p \<and> credential = pg_credential p
        \<and> co_pairing c' = Some (p\<lparr>pg_last_client_sequence := n\<rparr>)))
     (\<lambda>_ c'. quiet c c' \<and> co_transport c' = co_transport c)
     (reserve_authenticated_request c)"
proof -
  obtain t c1 where now: "co_now c = (t, c1)" "drawn c c1" by (rule co_nowE)
  have advance: "pg_last_client_sequence p < n" "pg_last_client_sequence p \<le> n"
    "unat n = Suc (unat (pg_last_client_sequence p))"
    if "checked_add (pg_last_client_sequence p) 1 = Some n" for p n
    using unat_checked_add [OF that] by (simp_all add: word_less_nat_alt word_le_nat_alt)
  note fields = drawn_fields [OF now(2)]
  show ?thesis
  proof (cases "co_pairing c")
    case None
    then show ?thesis
      by (simp add: reserve_authenticated_request_def now(1) fields quiet_def)
  next
    case (Some p)
    show ?thesis
      unfolding reserve_authenticated_request_def now(1) Let_def prod.case fields(4) Some
        ok_or_simps sbind_simps
      by (intro outcome_ifI outcome_pure_bindI outcome_InlI outcome_InrI)
        (simp_all add: fields Some quiet_def spent_def pairing_advances_def advance not_le)
  qed
qed

text \<open>The endpoint's pinned peer answered some request.\<close>

definition heard :: "('t, 's) controller_deps \<Rightarrow> remote_endpoint \<Rightarrow> bool" where
  "heard D endpoint \<longleftrightarrow> (\<exists>request t response. tr_endpoint request = endpoint
     \<and> fst (cd_exchange D request t) = Inr response \<and> pinned endpoint response)"

definition server_advances :: "('t, 's) controller \<Rightarrow> ('t, 's) controller \<Rightarrow> bool" where
  "server_advances c c' \<longleftrightarrow> (\<exists>p p'. co_pairing c = Some p \<and> co_pairing c' = Some p'
     \<and> pg_last_server_sequence p < pg_last_server_sequence p')"

text \<open>An authenticated request was sent and its response accepted.\<close>

definition answered ::
    "('t, 's) controller_deps \<Rightarrow> ('t, 's) controller \<Rightarrow> ('t, 's) controller \<Rightarrow> bool" where
  "answered D c c' \<longleftrightarrow> quiet c c' \<and> spent c c' \<and> server_advances c c' \<and> heard D (co_endpoint c)"

lemma answered_exchanged: "answered D c c' \<Longrightarrow> exchanged c c'"
  by (simp add: answered_def exchanged_def)

lemma answered_quiet: "answered D a b \<Longrightarrow> drawn b c \<Longrightarrow> answered D a c"
  using drawn_exchanged [of b c] drawn_fields [of b c]
  by (auto simp: answered_def exchanged_def server_advances_def intro: quiet_trans spent_quiet)

lemma quiet_answered: "drawn a b \<Longrightarrow> answered D b c \<Longrightarrow> answered D a c"
  using drawn_exchanged [of a b] drawn_fields [of a b]
  by (auto simp: answered_def exchanged_def server_advances_def intro: quiet_trans quiet_spent)

text \<open>The common part of the authenticated exchanges: draws, exchange, metadata.\<close>

lemma authenticated_outcome:
  assumes reserved: "quiet c c1" "spent c c1" and endpoint: "endpoint = co_endpoint c"
    and rest: "\<And>r c2. answered D c c2 \<Longrightarrow> outcome Q (\<lambda>_ c'. exchanged c c') (f r c2)"
  shows "outcome Q (\<lambda>_ c'. exchanged c c')
    (sbind (exchange_envelopes D to_vec from_slice endpoint credential request c1) (\<lambda>r c.
     sbind (validate_response_metadata (re_protocol_version r) (re_in_reply_to r) request_id
              (re_nonce r) (re_sent_at_unix_ms r) (re_sequence r) c) (\<lambda>_ c. f r c)))"
proof (rule outcome_sbindW [OF exchange_outcome])
  fix r c2
  assume "quiet c1 c2 \<and> co_pairing c2 = co_pairing c1 \<and> (\<exists>payload response. to_vec request = Inr payload
      \<and> fst (cd_exchange D \<lparr>tr_endpoint = endpoint, tr_credential = credential,
           tr_payload = payload\<rparr> (co_transport c1)) = Inr response
      \<and> pinned endpoint response \<and> from_slice (tp_payload response) = Inr r)"
  then have q2: "quiet c c2" and s2: "spent c c2" and h: "heard D (co_endpoint c)"
    using quiet_trans [OF reserved(1)] spent_quiet [OF reserved(2)]
    unfolding heard_def endpoint by (blast, blast, metis transport_request.select_convs(1))
  show "outcome Q (\<lambda>_ c'. exchanged c c') (sbind (validate_response_metadata
      (re_protocol_version r) (re_in_reply_to r) request_id (re_nonce r) (re_sent_at_unix_ms r)
      (re_sequence r) c2) (\<lambda>_ c. f r c))"
  proof (rule outcome_sbindW [OF metadata_outcome])
    fix c3
    assume m: "quiet c2 c3 \<and> co_transport c3 = co_transport c2
        \<and> re_protocol_version r = PROTOCOL_VERSION \<and> re_in_reply_to r = request_id
        \<and> re_sequence r \<noteq> 0
        \<and> (case co_pairing c2 of None \<Rightarrow> True
           | Some p \<Rightarrow> pg_last_server_sequence p < re_sequence r
               \<and> co_pairing c3 = Some (p\<lparr>pg_last_server_sequence := re_sequence r\<rparr>))"
    have "server_advances c c3"
      using s2 q2 m by (auto simp: server_advances_def spent_def quiet_def pairing_advances_def
          split: option.splits)
    then have "answered D c c3"
      using q2 s2 h m by (auto simp: answered_def intro: quiet_trans spent_quiet)
    then show "outcome Q (\<lambda>_ c'. exchanged c c') (f r c3)" by (rule rest)
  qed (use q2 s2 in \<open>auto simp: exchanged_def intro: quiet_trans spent_quiet\<close>)
qed (use reserved in \<open>auto simp: exchanged_def intro: quiet_trans spent_quiet\<close>)

lemma reserved_outcome:
  assumes "\<And>now n p c1. quiet c c1 \<Longrightarrow> spent c c1 \<Longrightarrow> co_pairing c = Some p
      \<Longrightarrow> unat n = Suc (unat (pg_last_client_sequence p))
      \<Longrightarrow> outcome Q (\<lambda>_ c'. exchanged c c')
           (f (now, n, pg_client_credential_id p, pg_credential p) c1)"
  shows "outcome Q (\<lambda>_ c'. exchanged c c') (sbind (reserve_authenticated_request c) f)"
  by (rule outcome_sbindW [OF reserve_outcome]) (clarsimp, rule assms, assumption+,
      simp add: exchanged_def)

lemma outcome_co_now:
  assumes "\<And>t c1. drawn c c1 \<Longrightarrow> outcome Q E (f t c1)"
  shows "outcome Q E (let (t, c) = co_now c in f t c)"
proof -
  obtain t c1 where "co_now c = (t, c1)" "drawn c c1" by (rule co_nowE)
  then show ?thesis by (simp add: assms)
qed

lemma outcome_request_ids:
  assumes "\<And>u n c1. drawn c c1 \<Longrightarrow> outcome Q E (f u n c1)"
  shows "outcome Q E (let (u, c) = co_new_v4 c; (n, c) = co_new_nonce c in f u n c)"
proof -
  obtain u c1 where u: "co_new_v4 c = (u, c1)" "drawn c c1" by (rule co_new_v4E)
  obtain n c2 where n: "co_new_nonce c1 = (n, c2)" "drawn c1 c2" by (rule co_new_nonceE)
  show ?thesis using assms [OF drawn_trans [OF u(2) n(2)]] by (simp add: u(1) n(1))
qed

section \<open>What an accepted result means\<close>

definition result_accepted ::
    "operation_result \<Rightarrow> remote_operation \<Rightarrow> uuid \<Rightarrow> uuid \<Rightarrow> u64 \<Rightarrow> bool" where
  "result_accepted r operation silo_id server_id now \<longleftrightarrow>
     os_operation r = operation \<and> os_silo_id r = silo_id \<and> os_server_id r = server_id
     \<and> server_id \<noteq> nil_uuid \<and> os_last_activity_at_unix_ms r \<noteq> 0
     \<and> result_state_ok operation (os_state r)
     \<and> (result_evidence_required operation \<longrightarrow> os_evidence r \<noteq> None)
     \<and> (\<forall>ev. os_evidence r = Some ev \<longrightarrow> guest_evidence_validate ev (os_binding_id r)
          (os_remote_environment_id r) now = Inr ())
     \<and> validate_result_volume r operation = Inr () \<and> validate_result_proof r operation = Inr ()"

lemma validate_result_accepted:
  assumes "validate_result r operation silo_id now c = Inr u" and "co_pairing c = Some p"
  shows "result_accepted r operation silo_id (pg_server_id p) now"
  using assms by (auto simp: validate_result_def result_accepted_def split: if_splits option.splits)

lemma send_operation_outcome:
  "outcome
     (\<lambda>r c'. answered D c c' \<and> (\<exists>p now. co_pairing c = Some p
        \<and> result_accepted r (operation_body_operation body) silo_id (pg_server_id p) now))
     (\<lambda>_ c'. exchanged c c')
     (send_operation D silo_id body c)"
proof -
  have continue: "outcome
      (\<lambda>r c'. answered D c c' \<and> (\<exists>p now. co_pairing c = Some p
        \<and> result_accepted r (operation_body_operation body) silo_id (pg_server_id p) now))
      (\<lambda>_ c'. exchanged c c')
      (case re_body response of
         operation_response_body.Success result \<Rightarrow>
           sbind (validate_result result (operation_body_operation body) silo_id now c2, c2)
             (\<lambda>_ c. (Inr result, c))
       | operation_response_body.Unavailable response_operation reason \<Rightarrow>
           sbind (validate_text (lit ''unavailable reason'') reason, c2) (\<lambda>_ c.
           if response_operation \<noteq> operation_body_operation body
           then (Inl (remote_backend_error.Protocol
                   (lit ''Unavailable response names a different operation.'')), c)
           else (Inl (remote_backend_error.Unavailable (operation_body_operation body) reason), c))
       | operation_response_body.Rejected code message \<Rightarrow>
           sbind (validate_text (lit ''rejection message'') message, c2) (\<lambda>_ c.
           (Inl (remote_backend_error.Rejected code message), c)))"
    if a: "answered D c c2" for response now c2
  proof -
    obtain p p' where p: "co_pairing c = Some p" "co_pairing c2 = Some p'"
      "pg_server_id p' = pg_server_id p"
      using a by (auto simp: answered_def spent_def quiet_def pairing_advances_def)
    have accepted: "\<exists>now. result_accepted r operation silo_id (pg_server_id p) now"
      if "validate_result r operation silo_id now c2 = Inr u" for r operation now u
      using validate_result_accepted [OF that p(2)] p(3) by auto
    show ?thesis
      using a answered_exchanged [OF a] p(1) accepted
      by (cases "re_body response"; simp only: operation_response_body.case;
          intro outcome_pure_bindI outcome_ifI outcome_InlI outcome_InrI) auto
  qed
  show ?thesis
    unfolding send_operation_def Let_def [of "operation_body_operation body"]
    by (rule outcome_pure_bindI, rule outcome_sbindI [where R = "\<lambda>_ c1. c1 = c"],
        simp split: sum.split, simp only:, rule reserved_outcome, unfold prod.case,
        rule outcome_request_ids, rule authenticated_outcome [where c = c],
        erule (1) quiet_drawn, erule (1) spent_drawn, erule (1) quiet_drawn_endpoint,
        erule continue, simp)
qed

text \<open>A result of an operation on a binding names the binding.\<close>

definition result_bound :: "operation_result \<Rightarrow> remote_operation \<Rightarrow> silo_binding \<Rightarrow> u64 \<Rightarrow> bool" where
  "result_bound r operation b now \<longleftrightarrow>
     result_accepted r operation (sb_silo_id b) (sb_server_id b) now
     \<and> os_binding_id r = sb_binding_id b
     \<and> os_remote_environment_id r = sb_remote_environment_id b
     \<and> (operation = remote_operation.Destroy \<longrightarrow> proof_is_bound b r)"

lemma bound_body_operation:
  "bound_body b operation network confirm logs = Inr body
   \<Longrightarrow> operation_body_operation body = operation"
  by (cases operation) (auto split: prod.splits)

lemma send_bound_outcome:
  "outcome
     (\<lambda>r c'. answered D c c' \<and> (\<exists>now. result_bound r operation b now))
     (\<lambda>_ c'. exchanged c c')
     (send_bound_operation D b operation network confirm logs c)"
  unfolding send_bound_operation_def
proof (rule outcome_pure_bindI)
  fix body assume body: "bound_body b operation network confirm logs = Inr body"
  show "outcome (\<lambda>r c'. answered D c c' \<and> (\<exists>now. result_bound r operation b now))
      (\<lambda>_ c'. exchanged c c')
      (sbind (send_operation D (sb_silo_id b) body c) (\<lambda>result c.
         if os_binding_id result \<noteq> sb_binding_id b
            \<or> os_remote_environment_id result \<noteq> sb_remote_environment_id b
            \<or> os_server_id result \<noteq> sb_server_id b
         then (Inl remote_backend_error.BindingMismatch, c)
         else if operation = remote_operation.Destroy \<and> \<not> proof_is_bound b result
         then (Inl remote_backend_error.BindingMismatch, c)
         else (Inr result, c)))"
    by (rule outcome_sbindW [OF send_operation_outcome], intro outcome_ifI outcome_InlI outcome_InrI)
      (auto simp: bound_body_operation [OF body] result_bound_def result_accepted_def
        dest: answered_exchanged)
qed simp

lemma send_agent_outcome:
  "outcome (\<lambda>_ c'. answered D c c') (\<lambda>_ c'. exchanged c c')
     (send_agent_command D kind authorization_id command c)"
  unfolding send_agent_command_def
  by (rule reserved_outcome, unfold prod.case, rule outcome_request_ids,
      rule authenticated_outcome [where c = c], erule (1) quiet_drawn, erule (1) spent_drawn,
      erule (1) quiet_drawn_endpoint)
    (auto intro: outcome_pure_bindI answered_exchanged split: agent_control_response_body.split)

text \<open>A pairing exchange changes no part of the state but the transport and the window.\<close>

definition pairing_accepted :: "pairing_state \<Rightarrow> bool" where
  "pairing_accepted p \<longleftrightarrow> valid_secret_token (pg_credential p) 32 512
     \<and> pg_server_id p \<noteq> nil_uuid \<and> pg_client_credential_id p \<noteq> nil_uuid
     \<and> Wire_Protocol.validate_capabilities (pg_capabilities p) = Inr ()
     \<and> node_disclosure_validate (pg_node p) = Inr ()
     \<and> pg_credential_expires_at_unix_ms p \<noteq> 0 \<and> pg_last_server_sequence p \<noteq> 0"

lemma pairing_metadata_outcome:
  "outcome (\<lambda>_ c'. quiet c c' \<and> co_pairing c' = co_pairing c \<and> n \<noteq> 0)
     (\<lambda>_ c'. quiet c c' \<and> co_pairing c' = co_pairing c)
     (validate_pairing_response_metadata version in_reply_to request_id nonce sent n c)"
proof -
  obtain t c1 where now: "co_now c = (t, c1)" "drawn c c1" by (rule co_nowE)
  show ?thesis
    unfolding validate_pairing_response_metadata_def now(1) record_response_nonce_def
    using drawn_fields [OF now(2)]
    by (auto intro!: outcome_ifI outcome_pure_bindI simp: quiet_def
        split: prod.splits sum.splits)
qed

lemma exchange_pairing_outcome:
  "outcome
     (\<lambda>p c'. quiet c c' \<and> co_pairing c' = co_pairing c \<and> heard D endpoint
        \<and> pairing_accepted p \<and> pg_last_client_sequence p = 0)
     (\<lambda>_ c'. quiet c c' \<and> co_pairing c' = co_pairing c)
     (exchange_pairing D endpoint approval rotation c)"
proof -
  obtain t c1 where now: "co_now c = (t, c1)" "drawn c c1" by (rule co_nowE)
  obtain u c2 where u: "co_new_v4 c1 = (u, c2)" "drawn c1 c2" by (rule co_new_v4E)
  obtain n c3 where n: "co_new_nonce c2 = (n, c3)" "drawn c2 c3" by (rule co_new_nonceE)
  have d: "drawn c c3" using now(2) u(2) n(2) by (blast intro: drawn_trans)
  then have q: "quiet c c3" and p: "co_pairing c3 = co_pairing c"
    by (simp_all add: drawn_fields exchanged_quiet [OF drawn_exchanged])
  show ?thesis
    unfolding exchange_pairing_def now(1) u(1) n(1) Let_def prod.case
  proof (rule outcome_sbindW [OF exchange_outcome], rule outcome_sbindW [OF pairing_metadata_outcome])
    fix r c4 c5
    assume "quiet c3 c4 \<and> co_pairing c4 = co_pairing c3 \<and> (\<exists>payload response.
        cd_encode_pairing D \<lparr>pq_protocol_version = PROTOCOL_VERSION, pq_request_id = u,
            pq_nonce = n, pq_sent_at_unix_ms = t, pq_body = \<lparr>pb_operation = Pair,
              pb_approved_by_user = pa_approved_by_user approval,
              pb_pairing_token_id = pa_pairing_token_id approval,
              pb_pairing_token = pa_pairing_token approval,
              pb_pairing_token_expires_at_unix_ms = pa_pairing_token_expires_at_unix_ms approval,
              pb_tls_pin_rotation = rotation\<rparr>\<rparr> = Inr payload
        \<and> fst (cd_exchange D \<lparr>tr_endpoint = endpoint, tr_credential = None,
             tr_payload = payload\<rparr> (co_transport c3)) = Inr response
        \<and> pinned endpoint response \<and> cd_decode_pairing D (tp_payload response) = Inr r)"
      and "quiet c4 c5 \<and> co_pairing c5 = co_pairing c4 \<and> re_sequence r \<noteq> 0"
    then have facts: "quiet c c5" "co_pairing c5 = co_pairing c" "heard D endpoint"
      "re_sequence r \<noteq> 0"
      using q p unfolding heard_def
      by (metis quiet_trans, simp, metis transport_request.select_convs(1), simp)
    show "outcome (\<lambda>p c'. quiet c c' \<and> co_pairing c' = co_pairing c \<and> heard D endpoint
          \<and> pairing_accepted p \<and> pg_last_client_sequence p = 0)
        (\<lambda>_ c'. quiet c c' \<and> co_pairing c' = co_pairing c)
        (case re_body r of
           pairing_response_body.Success success \<Rightarrow>
             sbind (check_pairing_success success t, c5) (\<lambda>_ c.
             (Inr \<lparr>pg_server_id = ps_server_id success,
                pg_client_credential_id = ps_client_credential_id success,
                pg_node = ps_node success, pg_credential = ps_client_credential success,
                pg_credential_expires_at_unix_ms = ps_credential_expires_at_unix_ms success,
                pg_capabilities = ps_capabilities success, pg_last_client_sequence = 0,
                pg_last_server_sequence = re_sequence r\<rparr>, c))
         | pairing_response_body.Rejected code message \<Rightarrow>
             sbind (validate_text (lit ''pairing rejection'') message, c5) (\<lambda>_ c.
             (Inl (remote_backend_error.PairingRejected code message), c)))"
      using facts
      by (cases "re_body r"; simp only: pairing_response_body.case;
          intro outcome_pure_bindI outcome_InlI outcome_InrI)
        (auto simp: check_pairing_success_def pairing_accepted_def split: if_splits)
  qed (use q p in \<open>auto intro: quiet_trans\<close>)
qed

end
