(* ===== verification/Controller_Behaviour.thy ===== *)
theory Controller_Behaviour
  imports Controller_Facts
begin

text \<open>
  What the operations of the controller do to the bindings of a store that keeps the contract
  \<open>binding_store\<close>: every lifecycle and interactive operation changes at most the binding of its
  Silo, only after the pinned Agent answered, and never its identity.
\<close>

section \<open>Frames\<close>

definition framed :: "('t, 's) controller \<Rightarrow> ('t, 's) controller \<Rightarrow> bool" where
  "framed c c' \<longleftrightarrow> co_endpoint c' = co_endpoint c
     \<and> co_used_pairing_tokens c' = co_used_pairing_tokens c
     \<and> pairing_advances (co_pairing c) (co_pairing c')
     \<and> (co_transport c' = co_transport c \<or> spent c c')"

text \<open>As \<open>answered\<close>, the binding store aside.\<close>

definition acknowledged ::
    "('t, 's) controller_deps \<Rightarrow> ('t, 's) controller \<Rightarrow> ('t, 's) controller \<Rightarrow> bool" where
  "acknowledged D c c' \<longleftrightarrow> framed c c' \<and> spent c c' \<and> server_advances c c' \<and> heard D (co_endpoint c)"

lemma framed_refl [simp]: "framed c c"
  by (simp add: framed_def)

lemma exchanged_framed: "exchanged c c' \<Longrightarrow> framed c c'"
  by (auto simp: exchanged_def quiet_def framed_def)

lemma exchanged_store: "exchanged c c' \<Longrightarrow> co_store c' = co_store c"
  by (auto simp: exchanged_def quiet_def)

lemma answered_acknowledged: "answered D c c' \<Longrightarrow> acknowledged D c c'"
  by (simp add: acknowledged_def answered_def exchanged_def quiet_def framed_def)

lemma answered_store: "answered D c c' \<Longrightarrow> co_store c' = co_store c"
  by (auto simp: answered_def quiet_def)

lemma acknowledged_framed: "acknowledged D c c' \<Longrightarrow> framed c c'"
  by (simp add: acknowledged_def)

text \<open>Replacing the store changes no frame.\<close>

lemma stored_frames [simp]:
  "framed c (c'\<lparr>co_store := s\<rparr>) = framed c c'"
  "acknowledged D c (c'\<lparr>co_store := s\<rparr>) = acknowledged D c c'"
  by (simp_all add: framed_def acknowledged_def spent_def server_advances_def)

lemma drawn_frames:
  assumes "drawn b c"
  shows "framed a b \<Longrightarrow> framed a c" and "acknowledged D a b \<Longrightarrow> acknowledged D a c"
    and "framed c d \<Longrightarrow> framed b d" and "acknowledged D c d \<Longrightarrow> acknowledged D b d"
    and "answered D c d \<Longrightarrow> answered D b d" and "exchanged c d \<Longrightarrow> exchanged b d"
  using assms
  by (auto simp: drawn_def framed_def acknowledged_def spent_def server_advances_def
      answered_def exchanged_def quiet_def)

section \<open>Effects on the bindings\<close>

definition kept :: "silo_binding \<Rightarrow> silo_binding \<Rightarrow> bool" where
  "kept b b' \<longleftrightarrow> sb_silo_id b' = sb_silo_id b \<and> sb_binding_id b' = sb_binding_id b
     \<and> sb_remote_environment_id b' = sb_remote_environment_id b
     \<and> sb_server_id b' = sb_server_id b \<and> sb_endpoint b' = sb_endpoint b
     \<and> sb_volume b' = sb_volume b"

lemma kept_refl [simp]: "kept b b"
  by (simp add: kept_def)

text \<open>The binding the controller found for a Silo, of the paired server and endpoint.\<close>

definition found ::
    "('s \<Rightarrow> uuid \<Rightarrow> silo_binding option) \<Rightarrow> uuid \<Rightarrow> silo_binding \<Rightarrow> ('t, 's) controller \<Rightarrow> bool" where
  "found view silo_id b c \<longleftrightarrow> view (co_store c) silo_id = Some b \<and> sb_silo_id b = silo_id
     \<and> sb_endpoint b = co_endpoint c
     \<and> (\<exists>p. co_pairing c = Some p \<and> sb_server_id b = pg_server_id p)"

definition same_bindings ::
    "('s \<Rightarrow> uuid \<Rightarrow> silo_binding option) \<Rightarrow> ('t, 's) controller \<Rightarrow> ('t, 's) controller \<Rightarrow> bool" where
  "same_bindings view c c' \<longleftrightarrow> framed c c' \<and> view (co_store c') = view (co_store c)"

definition put_binding ::
    "('t, 's) controller_deps \<Rightarrow> ('s \<Rightarrow> uuid \<Rightarrow> silo_binding option) \<Rightarrow> silo_binding
     \<Rightarrow> ('t, 's) controller \<Rightarrow> ('t, 's) controller \<Rightarrow> bool" where
  "put_binding D view b c c' \<longleftrightarrow> acknowledged D c c'
     \<and> view (co_store c') = (view (co_store c))(sb_silo_id b \<mapsto> b)"

text \<open>A failed operation leaves the bindings alone, or has updated the binding it found.\<close>

definition at_most_updates ::
    "('t, 's) controller_deps \<Rightarrow> ('s \<Rightarrow> uuid \<Rightarrow> silo_binding option) \<Rightarrow> uuid
     \<Rightarrow> ('t, 's) controller \<Rightarrow> ('t, 's) controller \<Rightarrow> bool" where
  "at_most_updates D view silo_id c c' \<longleftrightarrow> same_bindings view c c'
     \<or> (\<exists>b b'. found view silo_id b c \<and> kept b b' \<and> put_binding D view b' c c')"

lemma same_bindings_refl [simp]: "same_bindings view c c"
  by (simp add: same_bindings_def)

lemma same_bindings_updates: "same_bindings view c c' \<Longrightarrow> at_most_updates D view silo_id c c'"
  by (simp add: at_most_updates_def)

lemma put_binding_updates:
  "found view silo_id b c \<Longrightarrow> kept b b' \<Longrightarrow> put_binding D view b' c c'
   \<Longrightarrow> at_most_updates D view silo_id c c'"
  by (auto simp: at_most_updates_def)

lemma exchanged_same: "exchanged c c' \<Longrightarrow> same_bindings view c c'"
  by (simp add: same_bindings_def exchanged_framed exchanged_store)

text \<open>The binding with the evidence and the activity of a result.\<close>

definition refreshed :: "silo_binding \<Rightarrow> operation_result \<Rightarrow> silo_binding" where
  "refreshed b r = b\<lparr>sb_last_evidence := os_evidence r,
     sb_last_activity_at_unix_ms := os_last_activity_at_unix_ms r\<rparr>"

lemma refreshed_simps [simp]:
  "sb_silo_id (refreshed b r) = sb_silo_id b" "kept b (refreshed b r)"
  "sb_network (refreshed b r) = sb_network b"
  "sb_human_session (refreshed b r) = sb_human_session b"
  "sb_last_evidence (refreshed b r) = os_evidence r"
  "sb_remote_environment_id (refreshed b r) = sb_remote_environment_id b"
  "sb_binding_id (refreshed b r) = sb_binding_id b"
  by (simp_all add: refreshed_def kept_def)

text \<open>Operations that only report: \<open>stop\<close>, \<open>pause\<close>, \<open>snapshot\<close>, \<open>logs\<close>.\<close>

definition reported ::
    "('t, 's) controller_deps \<Rightarrow> ('s \<Rightarrow> uuid \<Rightarrow> silo_binding option) \<Rightarrow> uuid \<Rightarrow> remote_operation \<Rightarrow> operation_result
     \<Rightarrow> ('t, 's) controller \<Rightarrow> ('t, 's) controller \<Rightarrow> bool" where
  "reported D view silo_id operation r c c' \<longleftrightarrow> (\<exists>b b' now. found view silo_id b c
     \<and> result_bound r operation b now \<and> kept b b' \<and> sb_network b' = sb_network b
     \<and> sb_human_session b' = sb_human_session b \<and> put_binding D view b' c c')"

text \<open>A binding made from the result of a create.\<close>

definition created ::
    "('s \<Rightarrow> uuid \<Rightarrow> silo_binding option) \<Rightarrow> uuid \<Rightarrow> remote_network_policy \<Rightarrow> operation_result \<Rightarrow> silo_binding \<Rightarrow> ('t, 's) controller \<Rightarrow> bool"
  where
  "created view silo_id network r b c \<longleftrightarrow> view (co_store c) silo_id = None
     \<and> (\<exists>p now volume. co_pairing c = Some p
        \<and> result_accepted r remote_operation.Create silo_id (pg_server_id p) now
        \<and> os_volume r = Some volume
        \<and> b = created_binding silo_id network r (pg_server_id p) (co_endpoint c) volume)"

section \<open>The operations over any store\<close>

context binding_store
begin

lemma store_get_outcome:
  assumes "cd_store D = ops"
  shows "outcome (\<lambda>v c'. c' = c \<and> v = view (co_store c) silo_id) (\<lambda>_ c'. c' = c) (store_get D silo_id c)"
  using get_ok assms by (auto simp: store_get_def split: sum.split)

lemma require_binding_outcome:
  assumes "cd_store D = ops" and "invar (co_store c)"
  shows "outcome (\<lambda>b c'. c' = c \<and> found view silo_id b c) (\<lambda>_ c'. c' = c)
     (require_binding D silo_id c)"
  unfolding require_binding_def
  by (rule outcome_sbindW [OF store_get_outcome [OF assms(1)]], elim conjE, simp only:,
      intro outcome_pure_bindI outcome_ifI outcome_InlI outcome_InrI)
    (auto simp: found_def filed [OF assms(2)])

lemma in_store_outcome:
  assumes "outcome (\<lambda>x s'. Q x s') (\<lambda>e s'. E e s') (f (co_store c))"
  shows "outcome (\<lambda>x c'. \<exists>s'. c' = c\<lparr>co_store := s'\<rparr> \<and> Q x s')
     (\<lambda>e c'. \<exists>s'. c' = c\<lparr>co_store := s'\<rparr> \<and> E e s') (in_store f c)"
  using assms by (cases "f (co_store c)"; cases "fst (f (co_store c))") (auto simp: in_store_def)

lemma store_update_outcome:
  assumes "cd_store D = ops" and "invar (co_store c)"
  shows "outcome
     (\<lambda>_ c'. \<exists>s'. c' = c\<lparr>co_store := s'\<rparr> \<and> invar s'
        \<and> view s' = (view (co_store c))(sb_silo_id b \<mapsto> b))
     (\<lambda>_ c'. \<exists>s'. c' = c\<lparr>co_store := s'\<rparr> \<and> invar s' \<and> view s' = view (co_store c))
     (store_update D b c)"
  unfolding store_update_def assms(1)
  by (rule outcome_mono [OF in_store_outcome
        [where f = "bs_update ops b" and c = c, OF update_ok [OF assms(2)]]]) auto

text \<open>An update after an answer.\<close>

lemma put_outcome:
  assumes "cd_store D = ops" and "invar (co_store c)" and "acknowledged D c c1"
    and "co_store c1 = co_store c"
  shows "outcome (\<lambda>_ c'. invar (co_store c') \<and> put_binding D view b c c')
     (\<lambda>_ c'. invar (co_store c') \<and> same_bindings view c c') (store_update D b c1)"
  by (rule outcome_mono [OF store_update_outcome [OF assms(1)]])
    (use assms in \<open>auto simp: put_binding_def same_bindings_def acknowledged_framed\<close>)

lemma enforce_outcome:
  assumes "invar (co_store c1)" and "put_binding D view b' c c1"
  shows "outcome
     (\<lambda>r' c'. r' = r \<and> invar (co_store c') \<and> put_binding D view b' c c' \<and> os_state r \<noteq> Blocked
        \<and> (\<exists>t. require_proxy_evidence b' t = Inr ()))
     (\<lambda>_ c'. invar (co_store c') \<and> put_binding D view b' c c')
     (enforce_result b' r c1)"
proof -
  obtain t c2 where now: "co_now c1 = (t, c2)" "drawn c1 c2" by (rule co_nowE)
  have "put_binding D view b' c c2" "invar (co_store c2)"
    using assms drawn_frames(2) [OF now(2)] drawn_fields [OF now(2)] by (auto simp: put_binding_def)
  then show ?thesis
    using assms unfolding enforce_result_def enforce_proxy_now_def now(1) Let_def prod.case
    by (auto intro!: outcome_ifI outcome_pure_bindI split: sum.split)
qed

lemma enforce_now_outcome:
  "outcome (\<lambda>_ c'. drawn c c' \<and> (\<exists>t. require_proxy_evidence b t = Inr ())) (\<lambda>_ c'. drawn c c')
     (enforce_proxy_now b c)"
proof -
  obtain t c1 where "co_now c = (t, c1)" "drawn c c1" by (rule co_nowE)
  then show ?thesis by (auto simp: enforce_proxy_now_def split: sum.split)
qed

lemma persist_interaction_outcome:
  assumes "cd_store D = ops" and "invar (co_store c)" and "acknowledged D c c1"
    and "co_store c1 = co_store c"
  shows "outcome
     (\<lambda>receipt c'. invar (co_store c') \<and> ir_operation receipt = operation
        \<and> ir_response receipt = response
        \<and> put_binding D view (b\<lparr>sb_last_interaction := Some receipt\<rparr>) c c')
     (\<lambda>_ c'. invar (co_store c') \<and> same_bindings view c c')
     (persist_interaction D b operation response c1)"
proof -
  obtain t c2 where now: "co_now c1 = (t, c2)" "drawn c1 c2" by (rule co_nowE)
  have "acknowledged D c c2" "co_store c2 = co_store c"
    using drawn_frames(2) [OF now(2) assms(3)] drawn_fields [OF now(2)] assms(4) by simp_all
  from put_outcome [OF assms(1,2) this] show ?thesis
    unfolding persist_interaction_def now(1) Let_def prod.case
    by (rule outcome_sbindW) auto
qed

section \<open>Lifecycle operations\<close>

text \<open>From a found binding over a bound operation to the rest of the handler.\<close>

lemma bound_operation_outcome:
  assumes "found view silo_id b c" and "drawn c c0" and "invar (co_store c)"
    and "\<And>r c1 now. answered D c c1 \<Longrightarrow> result_bound r operation b now
      \<Longrightarrow> outcome Q (\<lambda>_ c'. invar (co_store c') \<and> at_most_updates D view silo_id c c') (f r c1)"
  shows "outcome Q (\<lambda>_ c'. invar (co_store c') \<and> at_most_updates D view silo_id c c')
     (sbind (send_bound_operation D b operation network confirm logs c0) f)"
proof (rule outcome_sbindW [OF send_bound_outcome])
  fix r c1 assume "answered D c0 c1 \<and> (\<exists>now. result_bound r operation b now)"
  then show "outcome Q (\<lambda>_ c'. invar (co_store c') \<and> at_most_updates D view silo_id c c') (f r c1)"
    using assms(4) quiet_answered [OF assms(2)] by blast
next
  fix c1 assume e: "exchanged c0 c1"
  show "invar (co_store c1) \<and> at_most_updates D view silo_id c c1"
    using exchanged_store [OF e] drawn_fields [OF assms(2)] assms(3)
      exchanged_same [OF drawn_frames(6) [OF assms(2) e]]
    by (auto intro: same_bindings_updates)
qed

lemma update_and_enforce_outcome:
  assumes "cd_store D = ops" and "invar (co_store c)" and "found view silo_id b c"
    and "answered D c c1" and "sb_silo_id b' = silo_id" and "kept b b'"
  shows "outcome
     (\<lambda>r' c'. r' = r \<and> invar (co_store c') \<and> put_binding D view b' c c' \<and> os_state r \<noteq> Blocked
        \<and> (\<exists>t. require_proxy_evidence b' t = Inr ()))
     (\<lambda>_ c'. invar (co_store c') \<and> at_most_updates D view silo_id c c')
     (sbind (store_update D b' c1) (\<lambda>_ c. enforce_result b' r c))"
proof (rule outcome_sbindW [OF put_outcome [OF assms(1,2)]])
  fix c2 assume "invar (co_store c2) \<and> put_binding D view b' c c2"
  then show "outcome (\<lambda>r' c'. r' = r \<and> invar (co_store c') \<and> put_binding D view b' c c'
        \<and> os_state r \<noteq> Blocked \<and> (\<exists>t. require_proxy_evidence b' t = Inr ()))
      (\<lambda>_ c'. invar (co_store c') \<and> at_most_updates D view silo_id c c') (enforce_result b' r c2)"
    by (intro outcome_mono [OF enforce_outcome])
      (auto intro: put_binding_updates [OF assms(3,6)])
qed (use assms answered_acknowledged answered_store same_bindings_updates in blast)+

lemma evidence_and_enforce_outcome:
  assumes "cd_store D = ops" and "invar (co_store c)" and "found view silo_id b c"
    and "answered D c c1"
  shows "outcome
     (\<lambda>r' c'. r' = r \<and> invar (co_store c') \<and> put_binding D view (refreshed b r) c c'
        \<and> os_state r \<noteq> Blocked \<and> (\<exists>t. require_proxy_evidence (refreshed b r) t = Inr ()))
     (\<lambda>_ c'. invar (co_store c') \<and> at_most_updates D view silo_id c c')
     (update_evidence_and_enforce D b r c1)"
  unfolding update_evidence_and_enforce_def Let_def refreshed_def [symmetric]
  by (rule outcome_pure_bindI, rule update_and_enforce_outcome [OF assms])
    (use assms answered_store [OF assms(4)] exchanged_same [OF answered_exchanged [OF assms(4)]]
      in \<open>auto simp: found_def intro: same_bindings_updates\<close>)

lemma start_outcome:
  assumes "cd_store D = ops" and "invar (co_store c)"
  shows "outcome
     (\<lambda>r c'. invar (co_store c') \<and> (\<exists>b t now t'. found view silo_id b c
        \<and> require_proxy_evidence b t = Inr () \<and> result_bound r remote_operation.Start b now
        \<and> put_binding D view (refreshed b r) c c' \<and> os_state r \<noteq> Blocked
        \<and> require_proxy_evidence (refreshed b r) t' = Inr ()))
     (\<lambda>_ c'. invar (co_store c') \<and> at_most_updates D view silo_id c c')
     (controller_start D silo_id c)" (is "outcome ?Q ?E _")
  unfolding controller_start_def
proof (rule outcome_sbindW [OF require_binding_outcome [OF assms]], elim conjE, simp only:)
  fix b assume b: "found view silo_id b c"
  show "outcome ?Q ?E (sbind (enforce_proxy_now b c) (\<lambda>_ c.
      sbind (send_bound_operation D b remote_operation.Start None None None c)
        (update_evidence_and_enforce D b)))"
  proof (rule outcome_sbindW [OF enforce_now_outcome], elim conjE exE)
    fix c0 t assume c0: "drawn c c0" and t: "require_proxy_evidence b t = Inr ()"
    show "outcome ?Q ?E (sbind (send_bound_operation D b remote_operation.Start None None None c0)
         (update_evidence_and_enforce D b))"
    proof (rule bound_operation_outcome [OF b c0 assms(2)])
      fix r c1 now assume r: "answered D c c1" "result_bound r remote_operation.Start b now"
      show "outcome ?Q ?E (update_evidence_and_enforce D b r c1)"
        by (rule outcome_mono [OF evidence_and_enforce_outcome [OF assms b r(1)]])
          (use b t r in blast)+
    qed
  qed (use assms(2) in \<open>auto dest: drawn_exchanged intro!: same_bindings_updates exchanged_same
        simp: drawn_fields\<close>)
qed (use assms(2) in \<open>auto intro: same_bindings_updates\<close>)

lemma health_outcome:
  assumes "cd_store D = ops" and "invar (co_store c)"
  shows "outcome
     (\<lambda>r c'. invar (co_store c') \<and> (\<exists>b now t'. found view silo_id b c
        \<and> result_bound r remote_operation.Health b now
        \<and> put_binding D view (refreshed b r) c c' \<and> os_state r \<noteq> Blocked
        \<and> require_proxy_evidence (refreshed b r) t' = Inr ()))
     (\<lambda>_ c'. invar (co_store c') \<and> at_most_updates D view silo_id c c')
     (controller_health D silo_id c)" (is "outcome ?Q ?E _")
  unfolding controller_health_def
proof (rule outcome_sbindW [OF require_binding_outcome [OF assms]], elim conjE, simp only:)
  fix b assume b: "found view silo_id b c"
  show "outcome ?Q ?E (sbind (send_bound_operation D b remote_operation.Health None None None c)
      (update_evidence_and_enforce D b))"
  proof (rule bound_operation_outcome [OF b drawn_refl assms(2)])
    fix r c1 now assume r: "answered D c c1" "result_bound r remote_operation.Health b now"
    show "outcome ?Q ?E (update_evidence_and_enforce D b r c1)"
      by (rule outcome_mono [OF evidence_and_enforce_outcome [OF assms b r(1)]])
        (use b r in blast)+
  qed
qed (use assms(2) in \<open>auto intro: same_bindings_updates\<close>)

lemma configure_outcome:
  assumes "cd_store D = ops" and "invar (co_store c)"
  shows "outcome
     (\<lambda>r c'. invar (co_store c') \<and> (\<exists>b b' now t'. found view silo_id b c
        \<and> result_bound r remote_operation.ConfigureNetwork b now
        \<and> b' = (refreshed b r)\<lparr>sb_network := network\<rparr>
        \<and> put_binding D view b' c c' \<and> os_state r \<noteq> Blocked
        \<and> require_proxy_evidence b' t' = Inr ()))
     (\<lambda>_ c'. invar (co_store c') \<and> at_most_updates D view silo_id c c')
     (controller_configure_network D silo_id network c)" (is "outcome ?Q ?E _")
  unfolding controller_configure_network_def
proof (rule outcome_sbindW [OF require_binding_outcome [OF assms]], elim conjE, simp only:)
  fix b assume b: "found view silo_id b c"
  show "outcome ?Q ?E (sbind (send_bound_operation D b remote_operation.ConfigureNetwork
      (Some network) None None c) (\<lambda>result c.
      sbind (ensure_evidence_advances b result, c) (\<lambda>_ c.
      let binding = b\<lparr>sb_network := network, sb_last_evidence := os_evidence result,
            sb_last_activity_at_unix_ms := os_last_activity_at_unix_ms result\<rparr> in
      sbind (store_update D binding c) (\<lambda>_ c. enforce_result binding result c))))"
  proof (rule bound_operation_outcome [OF b drawn_refl assms(2)])
    fix r c1 now
    assume r: "answered D c c1" "result_bound r remote_operation.ConfigureNetwork b now"
    let ?b' = "b\<lparr>sb_network := network, sb_last_evidence := os_evidence r,
            sb_last_activity_at_unix_ms := os_last_activity_at_unix_ms r\<rparr>"
    have b': "?b' = (refreshed b r)\<lparr>sb_network := network\<rparr>" "kept b ?b'" "sb_silo_id ?b' = silo_id"
      using b by (simp_all add: refreshed_def kept_def found_def)
    show "outcome ?Q ?E (sbind (ensure_evidence_advances b r, c1) (\<lambda>_ c.
        let binding = ?b' in
        sbind (store_update D binding c) (\<lambda>_ c. enforce_result binding r c)))"
      unfolding Let_def
      by (rule outcome_pure_bindI,
          rule outcome_mono [OF update_and_enforce_outcome [OF assms b r(1) b'(3,2)]])
        (use b r b'(1) answered_store [OF r(1)] assms(2) exchanged_same [OF answered_exchanged [OF r(1)]]
          in \<open>auto intro: same_bindings_updates\<close>)
  qed
qed (use assms(2) in \<open>auto intro: same_bindings_updates\<close>)

lemma put_after_answer:
  assumes "cd_store D = ops" and "invar (co_store c)" and "found view silo_id b c"
    and "answered D c c1" and "kept b b'"
  shows "outcome (\<lambda>_ c'. invar (co_store c') \<and> put_binding D view b' c c')
     (\<lambda>_ c'. invar (co_store c') \<and> at_most_updates D view silo_id c c') (store_update D b' c1)"
  by (rule outcome_mono [OF put_outcome [OF assms(1,2)]])
    (use assms answered_acknowledged answered_store same_bindings_updates in blast)+

lemma reportedI:
  "found view silo_id b c \<Longrightarrow> result_bound r operation b now \<Longrightarrow> kept b b'
   \<Longrightarrow> sb_network b' = sb_network b \<Longrightarrow> sb_human_session b' = sb_human_session b
   \<Longrightarrow> put_binding D view b' c c' \<Longrightarrow> reported D view silo_id operation r c c'"
  by (auto simp: reported_def)

lemma quiescent_outcome:
  assumes "cd_store D = ops" and "invar (co_store c)"
  shows "outcome (\<lambda>r c'. invar (co_store c') \<and> reported D view silo_id operation r c c')
     (\<lambda>_ c'. invar (co_store c') \<and> at_most_updates D view silo_id c c')
     (quiescent_operation D operation silo_id c)" (is "outcome ?Q ?E _")
  unfolding quiescent_operation_def
proof (rule outcome_sbindW [OF require_binding_outcome [OF assms]], elim conjE, simp only:)
  fix b assume b: "found view silo_id b c"
  show "outcome ?Q ?E (sbind (send_bound_operation D b operation None None None c) (\<lambda>result c.
      sbind (update_optional_evidence D b result c) (\<lambda>_ c. (Inr result, c))))"
  proof (rule bound_operation_outcome [OF b drawn_refl assms(2)])
    fix r c1 now assume r: "answered D c c1" "result_bound r operation b now"
    have quit: "?E e c1" for e
      using assms(2) answered_store [OF r(1)] exchanged_same [OF answered_exchanged [OF r(1)]]
      by (simp add: same_bindings_updates)
    have put: "outcome ?Q ?E (sbind (store_update D b' c1) (\<lambda>_ c. (Inr r, c)))"
      if "kept b b'" "sb_network b' = sb_network b" "sb_human_session b' = sb_human_session b" for b'
      by (rule outcome_sbindI [OF put_after_answer [OF assms b r(1) that(1)]])
        (use that b r(2) in \<open>auto intro: reportedI\<close>)
    show "outcome ?Q ?E (sbind (update_optional_evidence D b r c1) (\<lambda>_ c. (Inr r, c)))"
    proof (cases "os_evidence r")
      case None
      show ?thesis
        unfolding update_optional_evidence_def None option.case sbind_simps
        by (rule put) (simp_all add: kept_def)
    next
      case (Some ev)
      show ?thesis
      proof (cases "case sb_last_evidence b of None \<Rightarrow> False
          | Some previous \<Rightarrow> ge_sequence ev \<le> ge_sequence previous")
        case True
        then show ?thesis
          unfolding update_optional_evidence_def Some option.case if_P [OF True] sbind_simps
          by (intro outcome_InlI quit)
      next
        case False
        then show ?thesis
          unfolding update_optional_evidence_def Some option.case if_not_P [OF False] sbind_simps
          by (intro put) (simp_all add: kept_def)
      qed
    qed
  qed
qed (use assms(2) in \<open>auto intro: same_bindings_updates\<close>)

lemma logs_outcome:
  assumes "cd_store D = ops" and "invar (co_store c)"
  shows "outcome
     (\<lambda>r c'. invar (co_store c') \<and> reported D view silo_id remote_operation.Logs r c c')
     (\<lambda>_ c'. invar (co_store c') \<and> at_most_updates D view silo_id c c')
     (controller_logs D silo_id cursor limit c)" (is "outcome ?Q ?E _")
  unfolding controller_logs_def
proof (rule outcome_sbindW [OF require_binding_outcome [OF assms]], elim conjE, simp only:)
  fix b assume b: "found view silo_id b c"
  show "outcome ?Q ?E (sbind (send_bound_operation D b remote_operation.Logs None None
      (Some (cursor, limit)) c) (\<lambda>result c.
      sbind (store_update D (b\<lparr>sb_last_activity_at_unix_ms := os_last_activity_at_unix_ms result\<rparr>) c)
        (\<lambda>_ c. (Inr result, c))))"
  proof (rule bound_operation_outcome [OF b drawn_refl assms(2)])
    fix r c1 now assume r: "answered D c c1" "result_bound r remote_operation.Logs b now"
    let ?b' = "b\<lparr>sb_last_activity_at_unix_ms := os_last_activity_at_unix_ms r\<rparr>"
    have "kept b ?b'" by (simp add: kept_def)
    then show "outcome ?Q ?E (sbind (store_update D ?b' c1) (\<lambda>_ c. (Inr r, c)))"
      by (intro outcome_sbindI [OF put_after_answer [OF assms b r(1)]])
        (use b r(2) in \<open>auto intro: reportedI\<close>)
  qed
qed (use assms(2) in \<open>auto intro: same_bindings_updates\<close>)

lemma destroy_outcome:
  assumes "cd_store D = ops" and "invar (co_store c)"
  shows "outcome
     (\<lambda>r c'. invar (co_store c') \<and> (\<exists>b now. found view silo_id b c
        \<and> result_bound r remote_operation.Destroy b now \<and> acknowledged D c c'
        \<and> view (co_store c') = (view (co_store c))(silo_id := None)))
     (\<lambda>_ c'. invar (co_store c') \<and> same_bindings view c c')
     (controller_destroy D silo_id confirm c)" (is "outcome ?Q ?E _")
  unfolding controller_destroy_def
proof (rule outcome_sbindW [OF require_binding_outcome [OF assms]], elim conjE, simp only:)
  fix b assume b: "found view silo_id b c"
  show "outcome ?Q ?E (sbind (send_bound_operation D b remote_operation.Destroy None (Some confirm)
      None c) (\<lambda>result c.
      sbind (in_store (bs_remove (cd_store D) silo_id) c) (\<lambda>_ c. (Inr result, c))))"
  proof (rule outcome_sbindW [OF send_bound_outcome], elim conjE exE)
    fix r c1 now assume r: "answered D c c1" "result_bound r remote_operation.Destroy b now"
    have "invar (co_store c1)" using assms(2) answered_store [OF r(1)] by simp
    note remove = in_store_outcome [where f = "bs_remove ops silo_id" and c = c1,
        OF remove_ok [OF this]]
    show "outcome ?Q ?E (sbind (in_store (bs_remove (cd_store D) silo_id) c1) (\<lambda>_ c. (Inr r, c)))"
      unfolding assms(1)
      by (rule outcome_sbindW [OF remove])
        (use b r(2) answered_acknowledged [OF r(1)] answered_store [OF r(1)]
          in \<open>auto simp: same_bindings_def acknowledged_framed\<close>)
  qed (use assms(2) in \<open>auto simp: exchanged_store intro: exchanged_same\<close>)
qed (use assms(2) in auto)

lemma create_outcome:
  assumes "cd_store D = ops" and "invar (co_store c)"
  shows "outcome
     (\<lambda>r c'. invar (co_store c') \<and> (\<exists>b t. created view silo_id network r b c
        \<and> put_binding D view b c c' \<and> os_state r \<noteq> Blocked
        \<and> require_proxy_evidence b t = Inr ()))
     (\<lambda>_ c'. invar (co_store c') \<and> (same_bindings view c c'
        \<or> (\<exists>b r. created view silo_id network r b c \<and> put_binding D view b c c')))
     (controller_create D silo_id network ttl cost c)" (is "outcome ?Q ?E _")
  unfolding controller_create_def
proof (rule outcome_sbindW [OF store_get_outcome [OF assms(1)]], elim conjE, simp only:,
    intro outcome_ifI outcome_InlI)
  assume "\<not> view (co_store c) silo_id \<noteq> None"
  then have none: "view (co_store c) silo_id = None" by simp
  show "outcome ?Q ?E (sbind (send_operation D silo_id
      (operation_body.Create network ttl cost) c) (\<lambda>result c.
      sbind (ok_or remote_backend_error.NotPaired (co_pairing c), c) (\<lambda>pairing c.
      sbind (ok_or (remote_backend_error.Protocol
               (lit ''Create result did not include an encrypted volume attestation.''))
               (os_volume result), c) (\<lambda>volume c.
      let binding = created_binding silo_id network result (pg_server_id pairing)
            (co_endpoint c) volume in
      sbind (in_store (bs_insert_if_absent (cd_store D) binding) c) (\<lambda>_ c.
      enforce_result binding result c)))))"
  proof (rule outcome_sbindW [OF send_operation_outcome], elim conjE exE)
    fix r c1 p now
    assume r: "answered D c c1" "co_pairing c = Some p"
      "result_accepted r (operation_body_operation (operation_body.Create network ttl cost))
         silo_id (pg_server_id p) now"
    obtain p1 where p1: "co_pairing c1 = Some p1" "pg_server_id p1 = pg_server_id p"
      using r(1,2) by (auto simp: answered_def quiet_def elim: pairing_advances_Some)
    have store: "co_store c1 = co_store c" and endpoint: "co_endpoint c1 = co_endpoint c"
      using r(1) by (simp_all add: answered_def quiet_def)
    show "outcome ?Q ?E (sbind (ok_or remote_backend_error.NotPaired (co_pairing c1), c1) (\<lambda>pairing c.
        sbind (ok_or (remote_backend_error.Protocol
                 (lit ''Create result did not include an encrypted volume attestation.''))
                 (os_volume r), c) (\<lambda>volume c.
        let binding = created_binding silo_id network r (pg_server_id pairing)
              (co_endpoint c) volume in
        sbind (in_store (bs_insert_if_absent (cd_store D) binding) c) (\<lambda>_ c.
        enforce_result binding r c))))"
      unfolding p1(1) ok_or_simps sbind_simps p1(2) Let_def
    proof (rule outcome_pure_bindI)
      fix volume assume "ok_or (remote_backend_error.Protocol
          (lit ''Create result did not include an encrypted volume attestation.'')) (os_volume r)
        = Inr volume"
      then have volume: "os_volume r = Some volume" by simp
      let ?b = "created_binding silo_id network r (pg_server_id p) (co_endpoint c) volume"
      have b: "created view silo_id network r ?b c" "sb_silo_id ?b = silo_id"
        using none r(2,3) volume by (auto simp: created_def created_binding_def)
      note insert = in_store_outcome [where f = "bs_insert_if_absent ops ?b" and c = c1,
          OF insert_ok, unfolded store, OF assms(2)]
      let ?b1 = "created_binding silo_id network r (pg_server_id p) (co_endpoint c1) volume"
      show "outcome ?Q ?E (sbind (in_store (bs_insert_if_absent (cd_store D) ?b1) c1) (\<lambda>_ c.
          enforce_result ?b1 r c))"
        unfolding assms(1) endpoint
      proof (rule outcome_sbindW [OF insert], elim exE conjE)
        fix c2 s' assume s': "c2 = c1\<lparr>co_store := s'\<rparr>" "invar s'"
          "view s' = (view (co_store c))(sb_silo_id ?b \<mapsto> ?b)"
        then have "invar (co_store c2)" "put_binding D view ?b c c2"
          using answered_acknowledged [OF r(1)] by (simp_all add: put_binding_def)
        from enforce_outcome [OF this] show "outcome ?Q ?E (enforce_result ?b r c2)"
          by (rule outcome_mono) (use b(1) in blast)+
      qed (use answered_acknowledged [OF r(1)] in \<open>auto simp: same_bindings_def acknowledged_framed\<close>)
    qed (use store assms(2) exchanged_same [OF answered_exchanged [OF r(1)]] in auto)
  qed (use assms(2) in \<open>auto simp: exchanged_store intro: exchanged_same\<close>)
qed (use assms(2) in auto)

lemma detach_outcome:
  assumes "cd_store D = ops" and "invar (co_store c)"
  shows "outcome
     (\<lambda>receipt c'. invar (co_store c') \<and> framed c c' \<and> confirm \<and> acknowledge
        \<and> (\<exists>b. view (co_store c) silo_id = Some b \<and> oo_silo_id receipt = sb_silo_id b
            \<and> oo_binding_id receipt = sb_binding_id b
            \<and> oo_remote_environment_id receipt = sb_remote_environment_id b
            \<and> oo_server_id receipt = sb_server_id b)
        \<and> remote_orphan_receipt_validate (cd_parse_url D) receipt = Inr ()
        \<and> co_transport c' = co_transport c \<and> co_pairing c' = co_pairing c
        \<and> view (co_store c') = (view (co_store c))(silo_id := None))
     (\<lambda>_ c'. invar (co_store c') \<and> same_bindings view c c' \<and> co_transport c' = co_transport c)
     (force_detach_binding D silo_id confirm acknowledge c)" (is "outcome ?Q ?E _")
  unfolding force_detach_binding_def
proof (intro outcome_ifI outcome_InlI, goal_cases)
  case 2
  then have confirmed: confirm acknowledge by simp_all
  show ?case
  proof (rule outcome_sbindW [OF store_get_outcome [OF assms(1)]], elim conjE, simp only:,
      rule outcome_pure_bindI)
    fix b assume "ok_or (remote_backend_error.SiloNotBound silo_id) (view (co_store c) silo_id) = Inr b"
    then have b: "view (co_store c) silo_id = Some b" by simp
    obtain u c1 where u: "co_new_v4 c = (u, c1)" "drawn c c1" by (rule co_new_v4E)
    obtain t c2 where t: "co_now c1 = (t, c2)" "drawn c1 c2" by (rule co_nowE)
    have d: "drawn c c2" using u(2) t(2) by (rule drawn_trans)
    have c2: "co_store c2 = co_store c" "co_transport c2 = co_transport c" "framed c c2"
      "co_pairing c2 = co_pairing c"
      using drawn_fields [OF d] exchanged_framed [OF drawn_exchanged [OF d]] by simp_all
    note remove = in_store_outcome [where f = "bs_remove ops silo_id" and c = c2,
        OF remove_ok, unfolded c2(1), OF assms(2)]
    show "outcome ?Q ?E (let (receipt_id, c) = co_new_v4 c; (now_ms, c) = co_now c;
            receipt = \<lparr>oo_receipt_id = receipt_id, oo_silo_id = sb_silo_id b,
              oo_binding_id = sb_binding_id b,
              oo_remote_environment_id = sb_remote_environment_id b,
              oo_server_id = sb_server_id b, oo_endpoint = sb_endpoint b,
              oo_detached_at_unix_ms = now_ms, oo_notice = REMOTE_ORPHAN_NOTICE\<rparr> in
        sbind (remote_orphan_receipt_validate (cd_parse_url D) receipt, c) (\<lambda>_ c.
        sbind (in_store (bs_remove (cd_store D) silo_id) c) (\<lambda>_ c. (Inr receipt, c))))"
      unfolding u(1) t(1) Let_def prod.case assms(1)
      by (rule outcome_pure_bindI, rule outcome_sbindW [OF remove])
        (use b c2 assms(2) confirmed in \<open>auto simp: same_bindings_def\<close>)
  qed (use assms(2) in auto)
qed (use assms(2) in auto)

end

end
