(* ===== verification/Controller_Sessions.thy ===== *)
theory Controller_Sessions
  imports Controller_Behaviour
begin

text \<open>
  The interactive operations of the controller over any store with the contract
  \<open>binding_store\<close>: what an answered operation has stored, and that a failed one changes at most
  the binding it found. Then pairing and pin rotation, over the in-memory store.
\<close>

section \<open>Interactive operations over any store\<close>

text \<open>An answered interaction: the binding it found, and the one it stored with the receipt.\<close>

definition interacted ::
    "('t, 's) controller_deps \<Rightarrow> ('s \<Rightarrow> uuid \<Rightarrow> silo_binding option) \<Rightarrow> uuid
     \<Rightarrow> agent_control_operation \<Rightarrow> agent_interaction_receipt \<Rightarrow> silo_binding \<Rightarrow> silo_binding
     \<Rightarrow> ('t, 's) controller \<Rightarrow> ('t, 's) controller \<Rightarrow> bool" where
  "interacted D view silo_id operation receipt b b' c c' \<longleftrightarrow> found view silo_id b c
     \<and> kept b b' \<and> sb_network b' = sb_network b \<and> ir_operation receipt = operation
     \<and> put_binding D view (b'\<lparr>sb_last_interaction := Some receipt\<rparr>) c c'"

lemma find_index_less: "find_index p xs = Some i \<Longrightarrow> i < length xs"
  by (induction xs arbitrary: i) (auto split: if_splits)

lemma find_index_sound: "find_index p xs = Some i \<Longrightarrow> p (xs ! i)"
  by (induction xs arbitrary: i) (auto split: if_splits)

lemma store_automation_Inr:
  "store_automation a stored = Inr as \<Longrightarrow> a \<in> set as \<and> set as \<subseteq> insert a (set stored)"
proof (cases "find_index (\<lambda>x. aa_authorization_id x = aa_authorization_id a) stored")
  case (Some i)
  then have "i < length stored" by (rule find_index_less)
  moreover assume "store_automation a stored = Inr as"
  ultimately show ?thesis
    using Some set_update_subset_insert [of stored i a]
    by (auto simp: store_automation_def intro: set_update_memI)
qed (auto simp: store_automation_def split: if_splits)

lemma outcome_co_now_split:
  assumes "\<And>t c1. drawn c c1 \<Longrightarrow> outcome Q E (f t c1)"
  shows "outcome Q E (let p = co_now c in f (fst p) (snd p))"
  by (simp add: Let_def assms drawn_now)

context binding_store
begin

lemma agent_command_outcome:
  assumes "drawn c c0" and "invar (co_store c)"
    and "\<And>response c1. answered D c c1
      \<Longrightarrow> outcome Q (\<lambda>_ c'. invar (co_store c') \<and> at_most_updates D view silo_id c c') (f response c1)"
  shows "outcome Q (\<lambda>_ c'. invar (co_store c') \<and> at_most_updates D view silo_id c c')
     (sbind (send_agent_command D kind authorization_id command c0) f)"
proof (rule outcome_sbindW [OF send_agent_outcome])
  fix response c1 assume "answered D c0 c1"
  then show "outcome Q (\<lambda>_ c'. invar (co_store c') \<and> at_most_updates D view silo_id c c') (f response c1)"
    by (intro assms(3) quiet_answered [OF assms(1)])
next
  fix c1 assume e: "exchanged c0 c1"
  show "invar (co_store c1) \<and> at_most_updates D view silo_id c c1"
    using exchanged_store [OF e] drawn_fields [OF assms(1)] assms(2)
      exchanged_same [OF drawn_frames(6) [OF assms(1) e]]
    by (auto intro: same_bindings_updates)
qed

lemma answered_quits:
  assumes "invar (co_store c)" and "answered D c c1" and "drawn c1 c2"
  shows "invar (co_store c2) \<and> at_most_updates D view silo_id c c2"
  using assms(1) answered_store [OF answered_quiet [OF assms(2,3)]]
    same_bindings_updates [OF exchanged_same [OF answered_exchanged [OF answered_quiet [OF assms(2,3)]]]]
  by simp

lemma drawn_quits:
  assumes "invar (co_store c)" and "drawn c c1"
  shows "invar (co_store c1) \<and> at_most_updates D view silo_id c c1"
  using assms drawn_exchanged [OF assms(2)]
  by (simp add: drawn_fields same_bindings_updates exchanged_same)

lemma interaction_outcome:
  assumes "cd_store D = ops" and "invar (co_store c)" and "found view silo_id b c"
    and "answered D c c1" and "drawn c1 c2" and "kept b b'" and "sb_network b' = sb_network b"
  shows "outcome
     (\<lambda>receipt c'. invar (co_store c') \<and> interacted D view silo_id operation receipt b b' c c'
        \<and> ir_response receipt = response)
     (\<lambda>_ c'. invar (co_store c') \<and> at_most_updates D view silo_id c c')
     (persist_interaction D b' operation response c2)"
proof -
  note a = answered_quiet [OF assms(4,5)]
  show ?thesis
    by (rule outcome_mono [OF persist_interaction_outcome [OF assms(1,2) answered_acknowledged [OF a]
            answered_store [OF a]]])
      (use assms in \<open>auto simp: interacted_def intro: same_bindings_updates\<close>)
qed

text \<open>The frame of the handlers: the found binding, then the rest.\<close>

lemma with_binding_outcome:
  assumes "cd_store D = ops" and "invar (co_store c)"
    and "\<And>b. found view silo_id b c \<Longrightarrow> outcome Q
      (\<lambda>_ c'. invar (co_store c') \<and> at_most_updates D view silo_id c c') (f b c)"
  shows "outcome Q (\<lambda>_ c'. invar (co_store c') \<and> at_most_updates D view silo_id c c')
     (sbind (require_binding D silo_id c) f)"
  by (rule outcome_sbindW [OF require_binding_outcome [OF assms(1,2)]])
    (use assms in \<open>auto intro: same_bindings_updates\<close>)

lemma open_session_outcome:
  assumes "cd_store D = ops" and "invar (co_store c)"
  shows "outcome
     (\<lambda>receipt c'. invar (co_store c') \<and> (\<exists>b a now.
        interacted D view silo_id agent_control_operation.OpenHumanSession receipt b
          (b\<lparr>sb_human_session := Some a\<rparr>) c c'
        \<and> ir_response receipt = agent_response.HumanSession a
        \<and> validate_session_authorization a b now False = Inr ()
        \<and> sa_expires_at_unix_ms a - sa_issued_at_unix_ms a = seconds * 1000
        \<and> 60 \<le> seconds \<and> seconds \<le> MAX_HUMAN_SESSION_SECONDS))
     (\<lambda>_ c'. invar (co_store c') \<and> at_most_updates D view silo_id c c')
     (controller_open_human_session D silo_id seconds c)" (is "outcome ?Q ?E _")
  unfolding controller_open_human_session_def
proof (intro outcome_ifI outcome_InlI with_binding_outcome [OF assms] agent_command_outcome drawn_refl
    assms(2) outcome_pure_bindI outcome_co_now, goal_cases)
  case (3 b response c1 a t c2)
  from 3(4) have response: "response = agent_response.HumanSession a"
    by (auto simp: human_session_of_def split: agent_response.splits)
  show ?case
    by (rule outcome_mono [OF interaction_outcome [OF assms 3(2,3,5)]])
      (use 3 response in \<open>auto simp: kept_def\<close>)
qed (rule drawn_quits [OF assms(2)] answered_quits [OF assms(2)], (assumption | rule drawn_refl)+)+

lemma close_session_outcome:
  assumes "cd_store D = ops" and "invar (co_store c)"
  shows "outcome
     (\<lambda>receipt c'. invar (co_store c') \<and> (\<exists>b stored a now.
        interacted D view silo_id agent_control_operation.CloseHumanSession receipt b
          (b\<lparr>sb_human_session := Some a\<rparr>) c c'
        \<and> ir_response receipt = agent_response.HumanSession a
        \<and> sb_human_session b = Some stored \<and> \<not> sa_revoked stored
        \<and> now < sa_expires_at_unix_ms stored
        \<and> sa_authorization_id a = sa_authorization_id stored
        \<and> validate_session_authorization a b now True = Inr ()))
     (\<lambda>_ c'. invar (co_store c') \<and> at_most_updates D view silo_id c c')
     (controller_close_human_session D silo_id c)" (is "outcome ?Q ?E _")
  unfolding controller_close_human_session_def
proof (intro outcome_ifI outcome_InlI with_binding_outcome [OF assms] agent_command_outcome
    assms(2) outcome_pure_bindI outcome_co_now, goal_cases)
  case (4 b stored t c1 response c2 a)
  then have response: "response = agent_response.HumanSession a"
    by (auto simp: human_session_of_def split: agent_response.splits)
  show ?case
    by (rule outcome_mono [OF interaction_outcome [OF assms 4(1,5) drawn_refl]])
      (use 4 response in \<open>auto simp: kept_def not_le\<close>)
qed (rule drawn_quits [OF assms(2)] answered_quits [OF assms(2)], (assumption | rule drawn_refl)+)+

lemma grant_automation_outcome:
  assumes "cd_store D = ops" and "invar (co_store c)"
  shows "outcome
     (\<lambda>receipt c'. invar (co_store c') \<and> (\<exists>b a as now.
        interacted D view silo_id agent_control_operation.GrantAutomation receipt b
          (b\<lparr>sb_automation_authorizations := as\<rparr>) c c'
        \<and> ir_response receipt = agent_response.Automation a
        \<and> a \<in> set as \<and> set as \<subseteq> insert a (set (sb_automation_authorizations b))
        \<and> validate_automation_authorization a b now False = Inr ()
        \<and> aa_expires_at_unix_ms a - aa_issued_at_unix_ms a = seconds * 1000
        \<and> set (aa_scopes a) = set scopes \<and> approved
        \<and> 60 \<le> seconds \<and> seconds \<le> MAX_AUTOMATION_SECONDS))
     (\<lambda>_ c'. invar (co_store c') \<and> at_most_updates D view silo_id c c')
     (controller_grant_automation D silo_id seconds scopes approved c)" (is "outcome ?Q ?E _")
  unfolding controller_grant_automation_def
proof (intro outcome_ifI outcome_InlI with_binding_outcome [OF assms] agent_command_outcome drawn_refl
    assms(2) outcome_pure_bindI outcome_co_now, goal_cases)
  case (3 b response c1 a t c2 _ as')
  then have response: "response = agent_response.Automation a"
    by (auto simp: automation_of_def split: agent_response.splits)
  show ?case
    by (rule outcome_mono [OF interaction_outcome [OF assms 3(2,3,5)]])
      (use 3 response store_automation_Inr [of a "sb_automation_authorizations b" as'] in
        \<open>auto simp: kept_def intro!: exI [of _ b] exI [of _ as']\<close>)
qed (rule drawn_quits [OF assms(2)] answered_quits [OF assms(2)], (assumption | rule drawn_refl)+)+

lemma revoke_automation_outcome:
  assumes "cd_store D = ops" and "invar (co_store c)"
  shows "outcome
     (\<lambda>receipt c'. invar (co_store c') \<and> (\<exists>b i a now.
        interacted D view silo_id agent_control_operation.RevokeAutomation receipt b
          (b\<lparr>sb_automation_authorizations := (sb_automation_authorizations b)[i := a]\<rparr>) c c'
        \<and> ir_response receipt = agent_response.Automation a
        \<and> i < length (sb_automation_authorizations b)
        \<and> aa_authorization_id (sb_automation_authorizations b ! i) = authorization_id
        \<and> aa_authorization_id a = authorization_id
        \<and> validate_automation_authorization a b now True = Inr ()))
     (\<lambda>_ c'. invar (co_store c') \<and> at_most_updates D view silo_id c c')
     (controller_revoke_automation D silo_id authorization_id c)" (is "outcome ?Q ?E _")
  unfolding controller_revoke_automation_def
proof (intro outcome_ifI outcome_InlI with_binding_outcome [OF assms] agent_command_outcome drawn_refl
    assms(2) outcome_pure_bindI outcome_co_now, goal_cases)
  case (2 b i response c1 a t c2)
  then have response: "response = agent_response.Automation a"
    by (auto simp: automation_of_def split: agent_response.splits)
  have i: "find_index (\<lambda>a. aa_authorization_id a = authorization_id)
      (sb_automation_authorizations b) = Some i"
    using 2 by simp
  show ?case
    by (rule outcome_mono [OF interaction_outcome [OF assms 2(1,3,5)]])
      (use 2 response find_index_less [OF i] find_index_sound [OF i] in \<open>auto simp: kept_def\<close>)
qed (rule drawn_quits [OF assms(2)] answered_quits [OF assms(2)], (assumption | rule drawn_refl)+)+

lemma open_screen_outcome:
  assumes "cd_store D = ops" and "invar (co_store c)"
  shows "outcome
     (\<lambda>receipt c'. invar (co_store c') \<and> (\<exists>b channel kind id expires t t'.
        interacted D view silo_id agent_control_operation.OpenScreen receipt b
          (b\<lparr>sb_last_screen_channel := Some channel\<rparr>) c c'
        \<and> ir_response receipt = agent_response.Screen channel
        \<and> authorize_interactive_principal b who t ReadScreen False = Inr (kind, id, expires)
        \<and> validate_screen_channel channel b id expires t' = Inr ()))
     (\<lambda>_ c'. invar (co_store c') \<and> at_most_updates D view silo_id c c')
     (controller_open_screen D silo_id who c)" (is "outcome ?Q ?E _")
  unfolding controller_open_screen_def split_def
proof (intro outcome_ifI outcome_InlI with_binding_outcome [OF assms] agent_command_outcome
    assms(2) outcome_pure_bindI outcome_co_now_split, goal_cases)
  case (2 b t c0 p response c1 channel t' c2)
  then have response: "response = agent_response.Screen channel"
    by (auto split: agent_response.splits)
  obtain kind id expires where p: "p = (kind, id, expires)" by (cases p)
  show ?case
    by (rule outcome_mono [OF interaction_outcome [OF assms 2(1,4,6)]])
      (use 2 response p in \<open>auto simp: kept_def intro!: exI [of _ b]\<close>)
qed (assumption | rule drawn_quits [OF assms(2)] answered_quits [OF assms(2)], (assumption | rule drawn_refl)+)+

lemma send_input_outcome:
  assumes "cd_store D = ops" and "invar (co_store c)"
  shows "outcome
     (\<lambda>receipt c'. invar (co_store c') \<and> (\<exists>b kind id expires t.
        interacted D view silo_id agent_control_operation.SendInput receipt b b c c'
        \<and> ir_response receipt = agent_response.InputAccepted (length events)
        \<and> validate_input_events events = Inr ()
        \<and> authorize_interactive_principal b who t automation_scope.SendInput True
            = Inr (kind, id, expires)))
     (\<lambda>_ c'. invar (co_store c') \<and> at_most_updates D view silo_id c c')
     (controller_send_input D silo_id who events c)" (is "outcome ?Q ?E _")
  unfolding controller_send_input_def split_def
proof (intro outcome_ifI outcome_InlI with_binding_outcome [OF assms] agent_command_outcome
    assms(2) outcome_pure_bindI outcome_co_now_split, goal_cases)
  case (3 _ b t c0 p response c1)
  obtain kind id expires where p: "p = (kind, id, expires)" by (cases p)
  show ?case
    by (rule outcome_mono [OF interaction_outcome [OF assms 3(2,5) drawn_refl kept_refl refl]])
      (use 3 p in \<open>auto intro!: exI [of _ b]\<close>)
qed (assumption | rule drawn_quits [OF assms(2)] answered_quits [OF assms(2)], (assumption | rule drawn_refl)+)+

end

end
