(* ===== verification/Controller_Pairing.thy ===== *)
theory Controller_Pairing
  imports Controller_Sessions
begin

text \<open>
  Pairing, the local ledger of used pairing tokens, TLS pin rotation and snapshots of the
  controller: what succeeds, and that a failure keeps the endpoint, the bindings and the pairing.
\<close>

section \<open>The ledger of pairing tokens\<close>

text \<open>Only the ledger of used tokens grew; the sequences of the pairing advanced.\<close>

definition ledger_grows :: "('t, 's) controller \<Rightarrow> ('t, 's) controller \<Rightarrow> bool" where
  "ledger_grows c c' \<longleftrightarrow> co_endpoint c' = co_endpoint c \<and> co_store c' = co_store c
     \<and> pairing_advances (co_pairing c) (co_pairing c')
     \<and> set (co_used_pairing_tokens c) \<subseteq> set (co_used_pairing_tokens c')"

lemma ledger_grows_refl [simp]: "ledger_grows c c"
  by (simp add: ledger_grows_def)

lemma ledger_grows_trans: "ledger_grows a b \<Longrightarrow> ledger_grows b c \<Longrightarrow> ledger_grows a c"
  by (auto simp: ledger_grows_def intro: pairing_advances_trans)

lemma quiet_ledger: "quiet c c' \<Longrightarrow> ledger_grows c c'"
  by (simp add: ledger_grows_def quiet_def)

lemma drawn_ledger: "drawn c c' \<Longrightarrow> ledger_grows c c'"
  by (simp add: ledger_grows_def drawn_fields)

lemma reserve_token_outcome:
  "outcome
     (\<lambda>_ c'. ledger_grows c c' \<and> co_transport c' = co_transport c \<and> co_pairing c' = co_pairing c
        \<and> pa_pairing_token_id approval \<notin> set (co_used_pairing_tokens c)
        \<and> pa_pairing_token_id approval \<in> set (co_used_pairing_tokens c')
        \<and> pa_approved_by_user approval)
     (\<lambda>_ c'. drawn c c') (reserve_pairing_token approval c)"
proof -
  obtain t c1 where now: "co_now c = (t, c1)" "drawn c c1" by (rule co_nowE)
  show ?thesis
    unfolding reserve_pairing_token_def now(1) Let_def prod.case
    by (intro outcome_pure_bindI outcome_ifI outcome_InlI outcome_InrI)
      (use now(2) drawn_fields [OF now(2)] in
        \<open>auto simp: ledger_grows_def validate_pairing_approval_def split: if_splits\<close>)
qed

section \<open>Pairing\<close>

lemma pair_outcome:
  "outcome
     (\<lambda>server_id c'. co_pairing c = None
        \<and> pa_pairing_token_id approval \<notin> set (co_used_pairing_tokens c)
        \<and> pa_pairing_token_id approval \<in> set (co_used_pairing_tokens c')
        \<and> set (co_used_pairing_tokens c) \<subseteq> set (co_used_pairing_tokens c')
        \<and> pa_approved_by_user approval \<and> heard D (co_endpoint c)
        \<and> co_endpoint c' = co_endpoint c \<and> co_store c' = co_store c
        \<and> (\<exists>p. co_pairing c' = Some p \<and> pairing_accepted p \<and> pg_server_id p = server_id))
     (\<lambda>_ c'. ledger_grows c c'
        \<and> (pa_pairing_token_id approval \<in> set (co_used_pairing_tokens c)
            \<longrightarrow> co_transport c' = co_transport c)
        \<and> (co_transport c' \<noteq> co_transport c
            \<longrightarrow> pa_pairing_token_id approval \<in> set (co_used_pairing_tokens c')))
     (controller_pair D approval c)" (is "outcome ?Q ?E _")
  unfolding controller_pair_def
proof (intro outcome_ifI outcome_InlI)
  assume unpaired: "\<not> co_pairing c \<noteq> None"
  show "outcome ?Q ?E
     (sbind (reserve_pairing_token approval c) (\<lambda>_ c.
      sbind (exchange_pairing D (co_endpoint c) approval None c) (\<lambda>pairing c.
      (Inr (pg_server_id pairing), c\<lparr>co_pairing := Some pairing\<rparr>))))"
  proof (rule outcome_sbindW [OF reserve_token_outcome], rule outcome_sbindW [OF exchange_pairing_outcome])
  qed (use unpaired in \<open>auto simp: ledger_grows_def quiet_def drawn_fields\<close>)
qed simp

section \<open>TLS pin rotation\<close>

lemma authorize_rotation_outcome:
  "outcome
     (\<lambda>claim c'. answered D c c' \<and> tc_pairing_token_id claim = pa_pairing_token_id approval
        \<and> tc_new_pin claim = ep_pin new_endpoint
        \<and> (\<exists>p. co_pairing c = Some p \<and> tc_server_id claim = pg_server_id p
            \<and> tc_old_client_credential_id claim = pg_client_credential_id p))
     (\<lambda>_ c'. exchanged c c') (authorize_tls_pin_rotation D new_endpoint approval c)"
  (is "outcome ?Q ?E _")
proof -
  have continue: "outcome ?Q ?E
      (case re_body response of
         tls_pin_rotation_authorization_response_body.Success success \<Rightarrow>
           sbind (check_rotation_success success (pg_server_id p) (pg_client_credential_id q)
                    (pa_pairing_token_id approval) (ep_pin new_endpoint) now_ms, c2) (\<lambda>_ c.
           (Inr \<lparr>tc_challenge = ts_challenge success, tc_server_id = ts_server_id success,
                 tc_old_client_credential_id = pg_client_credential_id q,
                 tc_authorization_request_id = request_id,
                 tc_authorization_request_nonce = nonce,
                 tc_authorization_request_sequence = n,
                 tc_authorization_response_sequence = re_sequence response,
                 tc_authorization_expires_at_unix_ms = ts_authorization_expires_at_unix_ms success,
                 tc_pairing_token_id = ts_pairing_token_id success,
                 tc_new_pin = ts_new_pin success\<rparr>, c))
       | tls_pin_rotation_authorization_response_body.Rejected code message \<Rightarrow>
           sbind (validate_text (lit ''TLS pin rotation authorization rejection'') message, c2) (\<lambda>_ c.
           (Inl (remote_backend_error.Rejected code message), c)))"
    if a: "answered D c c2" and p: "co_pairing c = Some p" and "co_pairing c = Some q"
    for response c2 p q now_ms request_id nonce n
    using a answered_exchanged [OF a] that
    by (cases "re_body response"; simp only: tls_pin_rotation_authorization_response_body.case;
        intro outcome_pure_bindI outcome_InlI outcome_InrI)
      (auto simp: check_rotation_success_def split: if_splits)
  show ?thesis
    unfolding authorize_tls_pin_rotation_def
    by (rule outcome_pure_bindI, unfold Let_def [of "pg_server_id _"] ok_or_Inr_iff,
        rule reserved_outcome, unfold prod.case, rule outcome_request_ids,
        rule authenticated_outcome [where c = c], erule (1) quiet_drawn, erule (1) spent_drawn,
        erule (1) quiet_drawn_endpoint, erule (2) continue, simp)
qed

lemma begin_rotation_outcome:
  "outcome
     (\<lambda>claim c'. ledger_grows c c' \<and> spent c c'
        \<and> pa_pairing_token_id approval \<notin> set (co_used_pairing_tokens c)
        \<and> pa_pairing_token_id approval \<in> set (co_used_pairing_tokens c')
        \<and> heard D (co_endpoint c))
     (\<lambda>_ c'. ledger_grows c c' \<and> (co_transport c' = co_transport c
        \<or> spent c c' \<and> pa_pairing_token_id approval \<notin> set (co_used_pairing_tokens c)
            \<and> pa_pairing_token_id approval \<in> set (co_used_pairing_tokens c')))
     (begin_tls_pin_rotation D new_endpoint approval c)" (is "outcome ?Q ?E _")
  unfolding begin_tls_pin_rotation_def
proof (rule outcome_sbindW [OF reserve_token_outcome],
    intro outcome_ifI outcome_InlI outcome_pure_bindI outcome_co_now, goal_cases)
  case (2 u c1 v t c2 p w x)
  have c2: "ledger_grows c c2" "co_pairing c2 = co_pairing c" "co_endpoint c2 = co_endpoint c"
    "co_transport c2 = co_transport c"
    "pa_pairing_token_id approval \<in> set (co_used_pairing_tokens c2)"
    using 2(1) drawn_fields [OF 2(3)] by (auto simp: ledger_grows_def)
  show ?case
  proof (rule outcome_mono [OF authorize_rotation_outcome])
    fix claim :: tls_pin_rotation_pairing_claim and c3
    assume "answered D c2 c3 \<and> tc_pairing_token_id claim = pa_pairing_token_id approval
        \<and> tc_new_pin claim = ep_pin new_endpoint
        \<and> (\<exists>p. co_pairing c2 = Some p \<and> tc_server_id claim = pg_server_id p
            \<and> tc_old_client_credential_id claim = pg_client_credential_id p)"
    then have a: "answered D c2 c3" by simp
    have "quiet c2 c3" using a by (simp add: answered_def)
    moreover from a have "spent c c3" "heard D (co_endpoint c)"
      using c2 by (simp_all add: answered_def spent_def)
    ultimately show "?Q claim c3"
      using 2(1) c2 quiet_ledger [of c2 c3] by (auto simp: quiet_def intro: ledger_grows_trans)
  next
    fix e c3 assume x: "exchanged c2 c3"
    then have "co_used_pairing_tokens c3 = co_used_pairing_tokens c2"
      by (simp add: exchanged_def quiet_def)
    with x show "?E e c3"
      using c2 2(1) by (auto simp: exchanged_def spent_def intro: ledger_grows_trans quiet_ledger)
  qed
qed (auto simp: ledger_grows_def drawn_fields)

lemma finish_rotation_outcome:
  assumes "well_filed (co_store c)"
  shows "outcome
     (\<lambda>server_id c'. co_endpoint c' = new_endpoint \<and> well_filed (co_store c')
        \<and> co_used_pairing_tokens c' = co_used_pairing_tokens c \<and> heard D new_endpoint
        \<and> (\<forall>k. map_of (co_store c') k = map_option (move_binding new_endpoint) (map_of (co_store c) k))
        \<and> same_https_origin (cd_parse_url D) (co_endpoint c) new_endpoint
        \<and> ep_pin new_endpoint \<noteq> ep_pin (co_endpoint c)
        \<and> endpoint_validate (cd_parse_url D) new_endpoint = Inr ()
        \<and> tc_new_pin claim = ep_pin new_endpoint
        \<and> (\<exists>p p'. co_pairing c = Some p \<and> co_pairing c' = Some p'
            \<and> pairing_accepted p' \<and> pg_server_id p' = pg_server_id p \<and> server_id = pg_server_id p
            \<and> tc_server_id claim = pg_server_id p))
     (\<lambda>_ c'. co_endpoint c' = co_endpoint c \<and> co_store c' = co_store c
        \<and> co_pairing c' = co_pairing c \<and> co_used_pairing_tokens c' = co_used_pairing_tokens c)
     (finish_tls_pin_rotation D new_endpoint approval claim c)" (is "outcome ?Q ?E _")
  unfolding finish_tls_pin_rotation_def Let_def [of "pg_server_id _"] Let_def [of "store_snapshot _"]
proof (intro outcome_ifI outcome_InlI outcome_pure_bindI outcome_co_now, goal_cases)
  case (4 u p t c1 v t' c2 w)
  have same: "co_endpoint c2 = co_endpoint c" "co_store c2 = co_store c"
    "co_pairing c2 = co_pairing c" "co_used_pairing_tokens c2 = co_used_pairing_tokens c"
    using drawn_fields [OF 4(3)] drawn_fields [OF 4(7)] by simp_all
  show ?case
  proof (rule outcome_sbindW [OF exchange_pairing_outcome], intro outcome_ifI outcome_InlI
      outcome_pure_bindI outcome_InrI)
    fix p' c3 store'
    assume p': "quiet c2 c3 \<and> co_pairing c3 = co_pairing c2 \<and> heard D new_endpoint
        \<and> pairing_accepted p' \<and> pg_last_client_sequence p' = 0"
      and "\<not> pg_server_id p' \<noteq> pg_server_id p"
      and "from_bindings (cd_parse_url D)
        (map (move_binding new_endpoint) (store_snapshot (co_store c2))) = Inr store'"
    then show "?Q (pg_server_id p) (c3\<lparr>co_endpoint := new_endpoint, co_store := store',
        co_pairing := Some p'\<rparr>)"
      using from_bindings_changed [OF assms, where f = "move_binding new_endpoint" and store' = store']
        4 same
      by (auto simp: quiet_def check_rotation_endpoint_def move_binding_def drawn_fields
          split: if_splits)
  qed (use same in \<open>auto simp: quiet_def\<close>)
qed (auto simp: drawn_fields)

section \<open>Snapshots\<close>

text \<open>What a pairing must satisfy to be restored; the responses give it.\<close>

lemma restore_pairing_of:
  assumes "co_pairing c = None" and "pairing_accepted p"
  shows "restore_pairing (the (pairing_snapshot_of (d\<lparr>co_pairing := Some p\<rparr>))) c
    = (Inr (), c\<lparr>co_pairing := Some p\<rparr>)"
  using assms by (simp add: restore_pairing_def pairing_snapshot_of_def pairing_accepted_def)

lemma from_snapshot_of_export:
  assumes "well_filed (co_store c)" and "length (co_store c) \<le> MAX_STORED_BINDINGS"
    and "\<And>k b. map_of (co_store c) k = Some b \<Longrightarrow> validate_binding_snapshot (cd_parse_url D) b = Inr ()"
    and "distinct (co_used_pairing_tokens c)"
    and "length (co_used_pairing_tokens c) \<le> MAX_REPLAY_WINDOW_ENTRIES"
    and "\<And>p. co_pairing c = Some p \<Longrightarrow> pairing_accepted p"
    and "endpoint_validate (cd_parse_url D) (co_endpoint c) = Inr ()"
  shows "\<exists>c'. from_snapshot D (co_endpoint c) transport clock (export_snapshot c) = Inr c'
    \<and> co_endpoint c' = co_endpoint c \<and> co_pairing c' = co_pairing c
    \<and> set (co_used_pairing_tokens c') = set (co_used_pairing_tokens c)
    \<and> well_filed (co_store c') \<and> map_of (co_store c') = map_of (co_store c)"
proof -
  obtain store where store: "from_bindings (cd_parse_url D) (store_snapshot (co_store c)) = Inr store"
    "well_filed store" "map_of store = map_of (co_store c)"
    using restore_snapshot [of "co_store c" "cd_parse_url D"] assms(1-3) by blast
  define c0 where "c0 = \<lparr>co_endpoint = co_endpoint c, co_transport = transport, co_store = store,
      co_host = clock, co_pairing = None, co_used_pairing_tokens = sort (co_used_pairing_tokens c),
      co_response_replay = []\<rparr>"
  have c0: "from_snapshot D (co_endpoint c) transport clock (export_snapshot c)
      = fst (sbind (case pairing_snapshot_of c of None \<Rightarrow> (Inr (), c0)
               | Some pairing \<Rightarrow> restore_pairing pairing c0) (\<lambda>_ c. (Inr c, c)))"
    using assms(4,5,7) store(1)
    by (cases "pairing_snapshot_of c")
      (simp_all add: from_snapshot_def export_snapshot_def used_pairing_token_ids_def
        controller_new_def restore_used_pairing_tokens_def c0_def)
  show ?thesis
  proof (cases "co_pairing c")
    case None
    then show ?thesis using c0 store(2,3) by (simp add: pairing_snapshot_of_def c0_def)
  next
    case (Some p)
    have "pairing_snapshot_of (c\<lparr>co_pairing := Some p\<rparr>) = pairing_snapshot_of c"
      by (simp add: pairing_snapshot_of_def Some)
    moreover have "pairing_snapshot_of c \<noteq> None" by (simp add: pairing_snapshot_of_def Some)
    ultimately obtain s where s: "pairing_snapshot_of c = Some s"
      "restore_pairing s c0 = (Inr (), c0\<lparr>co_pairing := Some p\<rparr>)"
      using restore_pairing_of [of c0 p c] assms(6) Some by (auto simp: c0_def)
    show ?thesis using c0 store(2,3) by (simp add: s) (simp add: c0_def Some)
  qed
qed

end
