(* ===== verification/Controller_Machine.thy ===== *)
theory Controller_Machine
  imports Controller_Pairing
begin

text \<open>
  The controller over the in-memory store as a machine: one call of its public interface per step,
  runs of calls, what one call may do to the bindings, and what runs preserve.
\<close>

section \<open>Calls\<close>

datatype controller_call =
    PairWith pairing_approval
  | RevokePairing
  | RotatePin remote_endpoint pairing_approval
  | CreateSilo uuid remote_network_policy u64 bool
  | StartSilo uuid
  | StopSilo uuid
  | PauseSilo uuid
  | SnapshotSilo uuid
  | DestroySilo uuid bool
  | ConfigureSilo uuid remote_network_policy
  | CheckHealth uuid
  | ReadLogs uuid "uuid option" u16
  | ForceDetach uuid bool bool
  | OpenSession uuid u64
  | CloseSession uuid
  | Grant uuid u64 "automation_scope list" bool
  | Revoke uuid uuid
  | ViewScreen uuid interactive_principal
  | Input uuid interactive_principal "input_event list"

datatype controller_answer =
    PairedServer uuid
  | PairingRevoked
  | RotatedServer uuid
  | Result operation_result
  | Orphaned remote_orphan_receipt
  | Interaction agent_interaction_receipt

definition answer_as :: "('a \<Rightarrow> controller_answer) \<Rightarrow> ('a, 't, 's) controlled
    \<Rightarrow> (controller_answer, 't, 's) controlled" where
  "answer_as f m = sbind m (\<lambda>x c. (Inr (f x), c))"

type_synonym 't memory_deps = "('t, memory_binding_store) controller_deps"
type_synonym 't memory_controller = "('t, memory_binding_store) controller"

fun controller_execute ::
    "'t memory_deps \<Rightarrow> controller_call \<Rightarrow> 't memory_controller
     \<Rightarrow> (controller_answer, 't, memory_binding_store) controlled" where
  "controller_execute D (PairWith approval) c = answer_as PairedServer (controller_pair D approval c)"
| "controller_execute D RevokePairing c = (Inr PairingRevoked, revoke_pairing c)"
| "controller_execute D (RotatePin endpoint approval) c =
     answer_as RotatedServer (rotate_tls_pin D endpoint approval c)"
| "controller_execute D (CreateSilo k network ttl cost) c =
     answer_as Result (controller_create D k network ttl cost c)"
| "controller_execute D (StartSilo k) c = answer_as Result (controller_start D k c)"
| "controller_execute D (StopSilo k) c = answer_as Result (controller_stop D k c)"
| "controller_execute D (PauseSilo k) c = answer_as Result (controller_pause D k c)"
| "controller_execute D (SnapshotSilo k) c = answer_as Result (controller_snapshot D k c)"
| "controller_execute D (DestroySilo k confirm) c =
     answer_as Result (controller_destroy D k confirm c)"
| "controller_execute D (ConfigureSilo k network) c =
     answer_as Result (controller_configure_network D k network c)"
| "controller_execute D (CheckHealth k) c = answer_as Result (controller_health D k c)"
| "controller_execute D (ReadLogs k cursor limit) c =
     answer_as Result (controller_logs D k cursor limit c)"
| "controller_execute D (ForceDetach k confirm acknowledge) c =
     answer_as Orphaned (force_detach_binding D k confirm acknowledge c)"
| "controller_execute D (OpenSession k seconds) c =
     answer_as Interaction (controller_open_human_session D k seconds c)"
| "controller_execute D (CloseSession k) c =
     answer_as Interaction (controller_close_human_session D k c)"
| "controller_execute D (Grant k seconds scopes approved) c =
     answer_as Interaction (controller_grant_automation D k seconds scopes approved c)"
| "controller_execute D (Revoke k authorization_id) c =
     answer_as Interaction (controller_revoke_automation D k authorization_id c)"
| "controller_execute D (ViewScreen k who) c =
     answer_as Interaction (controller_open_screen D k who c)"
| "controller_execute D (Input k who events) c =
     answer_as Interaction (controller_send_input D k who events c)"

fun controller_run ::
    "'t memory_deps \<Rightarrow> controller_call list \<Rightarrow> 't memory_controller
     \<Rightarrow> (remote_backend_error + controller_answer) list \<times> 't memory_controller" where
  "controller_run D [] c = ([], c)"
| "controller_run D (call # calls) c =
     (case controller_execute D call c of (r, c1) \<Rightarrow>
      case controller_run D calls c1 of (rs, c2) \<Rightarrow> (r # rs, c2))"

text \<open>The calls that change the pairing or the endpoint, and the Silo of the others.\<close>

fun call_silo :: "controller_call \<Rightarrow> uuid option" where
  "call_silo (PairWith _) = None"
| "call_silo RevokePairing = None"
| "call_silo (RotatePin _ _) = None"
| "call_silo (CreateSilo k _ _ _) = Some k"
| "call_silo (StartSilo k) = Some k"
| "call_silo (StopSilo k) = Some k"
| "call_silo (PauseSilo k) = Some k"
| "call_silo (SnapshotSilo k) = Some k"
| "call_silo (DestroySilo k _) = Some k"
| "call_silo (ConfigureSilo k _) = Some k"
| "call_silo (CheckHealth k) = Some k"
| "call_silo (ReadLogs k _ _) = Some k"
| "call_silo (ForceDetach k _ _) = Some k"
| "call_silo (OpenSession k _) = Some k"
| "call_silo (CloseSession k) = Some k"
| "call_silo (Grant k _ _ _) = Some k"
| "call_silo (Revoke k _) = Some k"
| "call_silo (ViewScreen k _) = Some k"
| "call_silo (Input k _ _) = Some k"

fun removes :: "controller_call \<Rightarrow> uuid option" where
  "removes (DestroySilo k _) = Some k"
| "removes (ForceDetach k _ _) = Some k"
| "removes _ = None"

fun is_detach :: "controller_call \<Rightarrow> bool" where
  "is_detach (ForceDetach _ _ _) = True"
| "is_detach _ = False"

lemma outcome_answer_as [simp]:
  "outcome Q E (answer_as f m) = outcome (\<lambda>x c. Q (f x) c) E m"
  by (simp add: answer_as_def)

section \<open>The effect of a call on a Silo\<close>

text \<open>
  What a call for a Silo does: nothing to the bindings; or it has an acknowledged answer and
  updates the binding it found, inserts a new one, or removes it; or it detaches it.
\<close>

definition silo_effect ::
    "'t memory_deps \<Rightarrow> controller_call \<Rightarrow> uuid \<Rightarrow> 't memory_controller \<Rightarrow> 't memory_controller \<Rightarrow> bool"
  where
  "silo_effect D call k c c' \<longleftrightarrow>
     at_most_updates D map_of k c c'
     \<or> (\<exists>network r b. created map_of k network r b c \<and> put_binding D map_of b c c')
     \<or> removes call = Some k \<and> (acknowledged D c c' \<or> is_detach call \<and> framed c c')
         \<and> map_of (co_store c') = (map_of (co_store c))(k := None)"

text \<open>An answered call, other than a detachment, was acknowledged by the pinned peer.\<close>

definition silo_answered ::
    "'t memory_deps \<Rightarrow> controller_call \<Rightarrow> 't memory_controller \<Rightarrow> 't memory_controller \<Rightarrow> bool" where
  "silo_answered D call c c' \<longleftrightarrow> acknowledged D c c' \<or> is_detach call"

lemma interacted_effect:
  "interacted D map_of k operation receipt b b' c c'
   \<Longrightarrow> acknowledged D c c' \<and> at_most_updates D map_of k c c'"
proof -
  assume i: "interacted D map_of k operation receipt b b' c c'"
  then have "kept b (b'\<lparr>sb_last_interaction := Some receipt\<rparr>)" by (simp add: interacted_def kept_def)
  with i show ?thesis
    unfolding interacted_def by (blast intro: put_binding_updates dest: put_binding_def [THEN iffD1])
qed

lemma reported_effect:
  "reported D map_of k operation r c c' \<Longrightarrow> acknowledged D c c' \<and> at_most_updates D map_of k c c'"
  unfolding reported_def by (blast intro: put_binding_updates dest: put_binding_def [THEN iffD1])

lemma refreshed_effect:
  "found map_of k b c \<Longrightarrow> put_binding D map_of (refreshed b r) c c'
   \<Longrightarrow> acknowledged D c c' \<and> at_most_updates D map_of k c c'"
  by (blast intro: put_binding_updates refreshed_simps(2) dest: put_binding_def [THEN iffD1])

lemma configured_effect:
  "found map_of k b c \<Longrightarrow> put_binding D map_of ((refreshed b r)\<lparr>sb_network := n\<rparr>) c c'
   \<Longrightarrow> acknowledged D c c' \<and> at_most_updates D map_of k c c'"
  by (rule conjI, simp add: put_binding_def, erule put_binding_updates)
    (simp_all add: kept_def refreshed_def)

lemma execute_outcome:
  assumes D: "cd_store D = memory_binding_ops" and w: "well_filed (co_store c)"
    and k: "call_silo call = Some k"
  shows "outcome
     (\<lambda>_ c'. well_filed (co_store c') \<and> silo_effect D call k c c' \<and> silo_answered D call c c')
     (\<lambda>_ c'. well_filed (co_store c') \<and> silo_effect D call k c c')
     (controller_execute D call c)"
proof -
  have put_ack: "put_binding D map_of b c c' \<Longrightarrow> acknowledged D c c'" for b c'
    by (simp add: put_binding_def)
  note quits = silo_effect_def silo_answered_def
  show ?thesis
  proof (cases call)
    case (CreateSilo k' network ttl cost)
    then show ?thesis using k
      by (simp, intro outcome_mono [OF mbs.create_outcome [OF D w]])
        (auto simp: quits put_ack intro: same_bindings_updates)
  next
    case (StartSilo k')
    then show ?thesis using k
      by (simp, intro outcome_mono [OF mbs.start_outcome [OF D w]])
        (auto simp: quits dest: refreshed_effect)
  next
    case (StopSilo k')
    then show ?thesis using k
      by (simp add: controller_stop_def, intro outcome_mono [OF mbs.quiescent_outcome [OF D w]])
        (auto simp: quits dest: reported_effect)
  next
    case (PauseSilo k')
    then show ?thesis using k
      by (simp add: controller_pause_def, intro outcome_mono [OF mbs.quiescent_outcome [OF D w]])
        (auto simp: quits dest: reported_effect)
  next
    case (SnapshotSilo k')
    then show ?thesis using k
      by (simp add: controller_snapshot_def, intro outcome_mono [OF mbs.quiescent_outcome [OF D w]])
        (auto simp: quits dest: reported_effect)
  next
    case (DestroySilo k' confirm)
    then show ?thesis using k
      by (simp, intro outcome_mono [OF mbs.destroy_outcome [OF D w]])
        (auto simp: quits intro: same_bindings_updates)
  next
    case (ConfigureSilo k' network)
    then show ?thesis using k
      by (simp, intro outcome_mono [OF mbs.configure_outcome [OF D w]])
        (auto simp: quits dest: configured_effect)
  next
    case (CheckHealth k')
    then show ?thesis using k
      by (simp, intro outcome_mono [OF mbs.health_outcome [OF D w]])
        (auto simp: quits dest: refreshed_effect)
  next
    case (ReadLogs k' cursor limit)
    then show ?thesis using k
      by (simp, intro outcome_mono [OF mbs.logs_outcome [OF D w]])
        (auto simp: quits dest: reported_effect)
  next
    case (ForceDetach k' confirm acknowledge)
    then show ?thesis using k
      by (simp, intro outcome_mono [OF mbs.detach_outcome [OF D w]])
        (auto simp: quits intro: same_bindings_updates)
  next
    case (OpenSession k' seconds)
    then show ?thesis using k
      by (simp, intro outcome_mono [OF mbs.open_session_outcome [OF D w]])
        (auto simp: quits dest: interacted_effect)
  next
    case (CloseSession k')
    then show ?thesis using k
      by (simp, intro outcome_mono [OF mbs.close_session_outcome [OF D w]])
        (auto simp: quits dest: interacted_effect)
  next
    case (Grant k' seconds scopes approved)
    then show ?thesis using k
      by (simp, intro outcome_mono [OF mbs.grant_automation_outcome [OF D w]])
        (auto simp: quits dest: interacted_effect)
  next
    case (Revoke k' authorization_id)
    then show ?thesis using k
      by (simp, intro outcome_mono [OF mbs.revoke_automation_outcome [OF D w]])
        (auto simp: quits dest: interacted_effect)
  next
    case (ViewScreen k' who)
    then show ?thesis using k
      by (simp, intro outcome_mono [OF mbs.open_screen_outcome [OF D w]])
        (auto simp: quits dest: interacted_effect)
  next
    case (Input k' who events)
    then show ?thesis using k
      by (simp, intro outcome_mono [OF mbs.send_input_outcome [OF D w]])
        (auto simp: quits dest: interacted_effect)
  qed (use k in simp_all)
qed

section \<open>Pairing calls\<close>

text \<open>A completed rotation: the endpoint, and every binding with it.\<close>

definition rotated ::
    "'t memory_deps \<Rightarrow> remote_endpoint \<Rightarrow> uuid \<Rightarrow> 't memory_controller \<Rightarrow> 't memory_controller \<Rightarrow> bool"
  where
  "rotated D endpoint server_id c c' \<longleftrightarrow> co_endpoint c' = endpoint
     \<and> (\<forall>k. map_of (co_store c') k = map_option (move_binding endpoint) (map_of (co_store c) k))
     \<and> same_https_origin (cd_parse_url D) (co_endpoint c) endpoint
     \<and> ep_pin endpoint \<noteq> ep_pin (co_endpoint c)
     \<and> heard D (co_endpoint c) \<and> heard D endpoint
     \<and> (\<exists>p p'. co_pairing c = Some p \<and> co_pairing c' = Some p' \<and> pairing_accepted p'
         \<and> pg_server_id p = server_id \<and> pg_server_id p' = server_id)"

lemma rotate_outcome:
  assumes "well_filed (co_store c)"
  shows "outcome
     (\<lambda>server_id c'. well_filed (co_store c') \<and> rotated D endpoint server_id c c'
        \<and> pa_pairing_token_id approval \<notin> set (co_used_pairing_tokens c)
        \<and> insert (pa_pairing_token_id approval) (set (co_used_pairing_tokens c))
            \<subseteq> set (co_used_pairing_tokens c'))
     (\<lambda>_ c'. ledger_grows c c'
        \<and> (pa_pairing_token_id approval \<in> set (co_used_pairing_tokens c)
            \<longrightarrow> co_transport c' = co_transport c)
        \<and> (co_transport c' \<noteq> co_transport c
            \<longrightarrow> pa_pairing_token_id approval \<in> set (co_used_pairing_tokens c')))
     (rotate_tls_pin D endpoint approval c)" (is "outcome ?Q ?E _")
  unfolding rotate_tls_pin_def
proof (rule outcome_sbindW [OF begin_rotation_outcome])
  fix claim c1
  assume b: "ledger_grows c c1 \<and> spent c c1
      \<and> pa_pairing_token_id approval \<notin> set (co_used_pairing_tokens c)
      \<and> pa_pairing_token_id approval \<in> set (co_used_pairing_tokens c1)
      \<and> heard D (co_endpoint c)"
  then have same: "co_endpoint c1 = co_endpoint c" "co_store c1 = co_store c"
    "set (co_used_pairing_tokens c) \<subseteq> set (co_used_pairing_tokens c1)"
    by (simp_all add: ledger_grows_def)
  have wf: "well_filed (co_store c1)" by (simp add: same assms)
  have server: "\<exists>q. co_pairing c = Some q \<and> pg_server_id q = pg_server_id p"
    if "co_pairing c1 = Some p" for p
    using b that by (auto simp: ledger_grows_def pairing_advances_def split: option.splits)
  show "outcome ?Q ?E (finish_tls_pin_rotation D endpoint approval claim c1)"
  proof (rule outcome_mono [OF finish_rotation_outcome [OF wf]])
    fix server_id and c2 :: "'a memory_controller"
    assume "co_endpoint c2 = endpoint \<and> well_filed (co_store c2)
        \<and> co_used_pairing_tokens c2 = co_used_pairing_tokens c1 \<and> heard D endpoint
        \<and> (\<forall>k. map_of (co_store c2) k = map_option (move_binding endpoint) (map_of (co_store c1) k))
        \<and> same_https_origin (cd_parse_url D) (co_endpoint c1) endpoint
        \<and> ep_pin endpoint \<noteq> ep_pin (co_endpoint c1)
        \<and> endpoint_validate (cd_parse_url D) endpoint = Inr ()
        \<and> tc_new_pin claim = ep_pin endpoint
        \<and> (\<exists>p p'. co_pairing c1 = Some p \<and> co_pairing c2 = Some p'
            \<and> pairing_accepted p' \<and> pg_server_id p' = pg_server_id p \<and> server_id = pg_server_id p
            \<and> tc_server_id claim = pg_server_id p)"
    then show "?Q server_id c2"
      using b same server unfolding rotated_def by fastforce
  qed (use b same in \<open>auto simp: ledger_grows_def\<close>)
qed auto

lemma execute_well_filed:
  assumes "cd_store D = memory_binding_ops" "well_filed (co_store c)"
    and "controller_execute D call c = (r, c')"
  shows "well_filed (co_store c')"
proof (cases "call_silo call")
  case (Some k)
  have "outcome (\<lambda>_ c'. well_filed (co_store c')) (\<lambda>_ c'. well_filed (co_store c'))
      (controller_execute D call c)"
    by (rule outcome_mono [OF execute_outcome [OF assms(1,2) Some]]) simp_all
  then show ?thesis using assms(3) by (cases r) auto
next
  case None
  have "outcome (\<lambda>_ c'. well_filed (co_store c')) (\<lambda>_ c'. well_filed (co_store c'))
      (controller_execute D call c)"
  proof (cases call)
    case (PairWith approval)
    show ?thesis unfolding PairWith
      by (simp, rule outcome_mono [OF pair_outcome]) (use assms(2) in \<open>auto simp: ledger_grows_def\<close>)
  next
    case (RotatePin endpoint approval)
    show ?thesis unfolding RotatePin
      by (simp, rule outcome_mono [OF rotate_outcome [OF assms(2)]])
        (use assms(2) in \<open>auto simp: ledger_grows_def\<close>)
  qed (use None assms(2) in \<open>simp_all add: revoke_pairing_def\<close>)
  then show ?thesis using assms(3) by (cases r) auto
qed

lemma run_well_filed:
  assumes "cd_store D = memory_binding_ops"
  shows "well_filed (co_store c) \<Longrightarrow> controller_run D calls c = (rs, c') \<Longrightarrow> well_filed (co_store c')"
  by (induction calls arbitrary: c rs)
    (auto split: prod.splits dest: execute_well_filed [OF assms])

section \<open>Stable bindings\<close>

definition same_binding_identity :: "silo_binding \<Rightarrow> silo_binding \<Rightarrow> bool" where
  "same_binding_identity b b' \<longleftrightarrow> sb_silo_id b' = sb_silo_id b \<and> sb_binding_id b' = sb_binding_id b
     \<and> sb_remote_environment_id b' = sb_remote_environment_id b
     \<and> sb_server_id b' = sb_server_id b \<and> sb_volume b' = sb_volume b"

lemma same_binding_identity_refl [simp]: "same_binding_identity b b"
  by (simp add: same_binding_identity_def)

lemma same_binding_identity_trans: "same_binding_identity a b \<Longrightarrow> same_binding_identity b c \<Longrightarrow> same_binding_identity a c"
  by (simp add: same_binding_identity_def)

lemma kept_identity: "kept b b' \<Longrightarrow> same_binding_identity b b'"
  by (simp add: kept_def same_binding_identity_def)

lemma move_identity [simp]: "same_binding_identity b (move_binding endpoint b)"
  by (simp add: move_binding_def same_binding_identity_def)

lemma silo_effect_keeps:
  assumes "silo_effect D call k' c c'" and "map_of (co_store c) k = Some b" and "removes call \<noteq> Some k"
  shows "\<exists>b'. map_of (co_store c') k = Some b' \<and> same_binding_identity b b'"
  using assms
  by (auto simp: silo_effect_def at_most_updates_def same_bindings_def put_binding_def found_def
      created_def created_binding_def kept_def same_binding_identity_def)

lemma execute_keeps:
  assumes "cd_store D = memory_binding_ops" "well_filed (co_store c)"
    and "controller_execute D call c = (r, c')" and b: "map_of (co_store c) k = Some b"
    and "removes call \<noteq> Some k"
  shows "\<exists>b'. map_of (co_store c') k = Some b' \<and> same_binding_identity b b'"
proof (cases "call_silo call")
  case (Some k')
  have "outcome (\<lambda>_ c'. silo_effect D call k' c c') (\<lambda>_ c'. silo_effect D call k' c c')
      (controller_execute D call c)"
    by (rule outcome_mono [OF execute_outcome [OF assms(1,2) Some]]) simp_all
  then have "silo_effect D call k' c c'" using assms(3) by (cases r) auto
  then show ?thesis using b assms(5) by (rule silo_effect_keeps)
next
  case None
  have "outcome (\<lambda>_ c'. \<exists>b'. map_of (co_store c') k = Some b' \<and> same_binding_identity b b')
      (\<lambda>_ c'. \<exists>b'. map_of (co_store c') k = Some b' \<and> same_binding_identity b b')
      (controller_execute D call c)"
  proof (cases call)
    case (PairWith approval)
    show ?thesis unfolding PairWith
      by (simp, rule outcome_mono [OF pair_outcome]) (use b in \<open>auto simp: ledger_grows_def\<close>)
  next
    case (RotatePin endpoint approval)
    show ?thesis unfolding RotatePin
      by (simp, rule outcome_mono [OF rotate_outcome [OF assms(2)]])
        (use b in \<open>auto simp: ledger_grows_def rotated_def\<close>)
  qed (use None b in \<open>simp_all add: revoke_pairing_def\<close>)
  then show ?thesis using assms(3) by (cases r) auto
qed

lemma run_keeps:
  assumes "cd_store D = memory_binding_ops"
  shows "well_filed (co_store c) \<Longrightarrow> controller_run D calls c = (rs, c')
    \<Longrightarrow> map_of (co_store c) k = Some b \<Longrightarrow> list_all (\<lambda>call. removes call \<noteq> Some k) calls
    \<Longrightarrow> \<exists>b'. map_of (co_store c') k = Some b' \<and> same_binding_identity b b'"
proof (induction calls arbitrary: c rs b)
  case (Cons call calls)
  obtain r c1 rs1 where step: "controller_execute D call c = (r, c1)"
    and run: "controller_run D calls c1 = (rs1, c')"
    using Cons.prems(2) by (auto split: prod.splits)
  obtain b1 where b1: "map_of (co_store c1) k = Some b1" "same_binding_identity b b1"
    using execute_keeps [OF assms Cons.prems(1) step Cons.prems(3)] Cons.prems(4) by auto
  have "list_all (\<lambda>call. removes call \<noteq> Some k) calls" using Cons.prems(4) by simp
  from Cons.IH [OF execute_well_filed [OF assms Cons.prems(1) step] run b1(1) this] b1(2)
  show ?case by (blast intro: same_binding_identity_trans)
qed auto

section \<open>Deaf transports\<close>

text \<open>No response ever comes over validated TLS from the pinned peer.\<close>

definition deaf :: "('t, 's) controller_deps \<Rightarrow> bool" where
  "deaf D \<longleftrightarrow> (\<forall>endpoint. \<not> heard D endpoint)"

lemma execute_deaf:
  assumes "cd_store D = memory_binding_ops" "well_filed (co_store c)"
    and "controller_execute D call c = (r, c')" and deaf: "deaf D"
    and "\<not> is_detach call" "call \<noteq> RevokePairing"
  shows "\<not> is_ok r" "map_of (co_store c') = map_of (co_store c)" "co_endpoint c' = co_endpoint c"
    "pairing_advances (co_pairing c) (co_pairing c')"
proof -
  have unheard: "\<not> heard D e" "\<not> acknowledged D a a'" for e a a'
    using deaf by (auto simp: deaf_def acknowledged_def)
  have "outcome (\<lambda>_ _. False) (\<lambda>_ c'. map_of (co_store c') = map_of (co_store c)
      \<and> co_endpoint c' = co_endpoint c \<and> pairing_advances (co_pairing c) (co_pairing c'))
      (controller_execute D call c)"
  proof (cases "call_silo call")
    case (Some k)
    show ?thesis
      by (rule outcome_mono [OF execute_outcome [OF assms(1,2) Some]])
        (use assms(5) unheard in \<open>auto simp: silo_answered_def silo_effect_def at_most_updates_def
          same_bindings_def put_binding_def framed_def\<close>)
  next
    case None
    show ?thesis
    proof (cases call)
      case (PairWith approval)
      show ?thesis unfolding PairWith
        by (simp, rule outcome_mono [OF pair_outcome])
          (use unheard in \<open>auto simp: ledger_grows_def\<close>)
    next
      case (RotatePin endpoint approval)
      show ?thesis unfolding RotatePin
        by (simp, rule outcome_mono [OF rotate_outcome [OF assms(2)]])
          (use unheard in \<open>auto simp: ledger_grows_def rotated_def\<close>)
    qed (use None assms(6) in simp_all)
  qed
  then show "\<not> is_ok r" "map_of (co_store c') = map_of (co_store c)"
    "co_endpoint c' = co_endpoint c" "pairing_advances (co_pairing c) (co_pairing c')"
    using assms(3) by (cases r; simp)+
qed

section \<open>Sequences\<close>

text \<open>A call for a Silo: the pairing advances, and a use of the transport consumes a sequence.\<close>

lemma execute_sequences:
  assumes "cd_store D = memory_binding_ops" "well_filed (co_store c)"
    and "controller_execute D call c = (r, c')" and "call_silo call \<noteq> None"
  shows "framed c c'" and "is_ok r \<Longrightarrow> \<not> is_detach call \<Longrightarrow> acknowledged D c c'"
proof -
  obtain k where k: "call_silo call = Some k" using assms(4) by blast
  have "outcome (\<lambda>_ c'. framed c c' \<and> (is_detach call \<or> acknowledged D c c')) (\<lambda>_ c'. framed c c')
      (controller_execute D call c)"
    by (rule outcome_mono [OF execute_outcome [OF assms(1,2) k]])
      (auto simp: silo_answered_def silo_effect_def at_most_updates_def same_bindings_def
        put_binding_def acknowledged_framed)
  then show "framed c c'" and "is_ok r \<Longrightarrow> \<not> is_detach call \<Longrightarrow> acknowledged D c c'"
    using assms(3) by (cases r; auto)+
qed

lemma framed_trans: "framed a b \<Longrightarrow> framed b c \<Longrightarrow> framed a c"
  by (auto simp: framed_def spent_def pairing_advances_def split: option.splits
      intro: le_less_trans less_le_trans)

lemma run_framed:
  assumes "cd_store D = memory_binding_ops"
  shows "well_filed (co_store c) \<Longrightarrow> controller_run D calls c = (rs, c')
    \<Longrightarrow> list_all (\<lambda>call. call_silo call \<noteq> None) calls \<Longrightarrow> framed c c'"
proof (induction calls arbitrary: c rs)
  case (Cons call calls)
  obtain r c1 rs1 where step: "controller_execute D call c = (r, c1)"
    and run: "controller_run D calls c1 = (rs1, c')"
    using Cons.prems(2) by (auto split: prod.splits)
  have "framed c c1"
    using execute_sequences [OF assms Cons.prems(1) step] Cons.prems(3) by simp
  moreover have "framed c1 c'"
    using Cons.IH [OF execute_well_filed [OF assms Cons.prems(1) step] run] Cons.prems(3) by simp
  ultimately show ?case by (rule framed_trans)
qed simp

lemma run_deaf:
  assumes "cd_store D = memory_binding_ops" and "deaf D"
  shows "well_filed (co_store c) \<Longrightarrow> controller_run D calls c = (rs, c')
    \<Longrightarrow> list_all (\<lambda>call. \<not> is_detach call \<and> call \<noteq> RevokePairing) calls
    \<Longrightarrow> list_all (\<lambda>r. \<not> is_ok r) rs \<and> map_of (co_store c') = map_of (co_store c)
      \<and> co_endpoint c' = co_endpoint c \<and> pairing_advances (co_pairing c) (co_pairing c')"
proof (induction calls arbitrary: c rs)
  case (Cons call calls)
  obtain r c1 rs1 where step: "controller_execute D call c = (r, c1)"
    and run: "controller_run D calls c1 = (rs1, c')" "rs = r # rs1"
    using Cons.prems(2) by (auto split: prod.splits)
  have call: "\<not> is_detach call" "call \<noteq> RevokePairing" using Cons.prems(3) by simp_all
  from Cons.prems(3) have "list_all (\<lambda>call. \<not> is_detach call \<and> call \<noteq> RevokePairing) calls" by simp
  from Cons.IH [OF execute_well_filed [OF assms(1) Cons.prems(1) step] run(1) this]
    execute_deaf [OF assms(1) Cons.prems(1) step assms(2) call]
  show ?case by (auto simp: run(2) intro: pairing_advances_trans)
qed simp

section \<open>Pairing tokens\<close>

text \<open>The one-time pairing token a call presents.\<close>

fun presented_token :: "controller_call \<Rightarrow> uuid option" where
  "presented_token (PairWith approval) = Some (pa_pairing_token_id approval)"
| "presented_token (RotatePin _ approval) = Some (pa_pairing_token_id approval)"
| "presented_token _ = None"

lemma execute_tokens:
  assumes "cd_store D = memory_binding_ops" "well_filed (co_store c)"
    and "controller_execute D call c = (r, c')"
  shows "set (co_used_pairing_tokens c) \<subseteq> set (co_used_pairing_tokens c')"
proof (cases "call_silo call")
  case (Some k)
  then show ?thesis using execute_sequences [OF assms] by (simp add: framed_def)
next
  case None
  have "outcome (\<lambda>_ c'. set (co_used_pairing_tokens c) \<subseteq> set (co_used_pairing_tokens c'))
      (\<lambda>_ c'. set (co_used_pairing_tokens c) \<subseteq> set (co_used_pairing_tokens c'))
      (controller_execute D call c)"
  proof (cases call)
    case (PairWith approval)
    show ?thesis unfolding PairWith
      by (simp, rule outcome_mono [OF pair_outcome]) (auto simp: ledger_grows_def)
  next
    case (RotatePin endpoint approval)
    show ?thesis unfolding RotatePin
      by (simp, rule outcome_mono [OF rotate_outcome [OF assms(2)]]) (auto simp: ledger_grows_def)
  qed (use None in \<open>simp_all add: revoke_pairing_def\<close>)
  then show ?thesis using assms(3) by (cases r) auto
qed

lemma run_tokens:
  assumes "cd_store D = memory_binding_ops"
  shows "well_filed (co_store c) \<Longrightarrow> controller_run D calls c = (rs, c')
    \<Longrightarrow> set (co_used_pairing_tokens c) \<subseteq> set (co_used_pairing_tokens c')"
proof (induction calls arbitrary: c rs)
  case (Cons call calls)
  obtain r c1 rs1 where step: "controller_execute D call c = (r, c1)"
    and run: "controller_run D calls c1 = (rs1, c')"
    using Cons.prems(2) by (auto split: prod.splits)
  show ?case
    using execute_tokens [OF assms Cons.prems(1) step]
      Cons.IH [OF execute_well_filed [OF assms Cons.prems(1) step] run] by simp
qed simp

text \<open>A call that presents a token: refused when it is used, and afterwards it is.\<close>

lemma execute_presented:
  assumes "well_filed (co_store c)" and "presented_token call = Some u"
    and "controller_execute D call c = (r, c')"
  shows "u \<in> set (co_used_pairing_tokens c) \<Longrightarrow> \<not> is_ok r \<and> co_transport c' = co_transport c"
    and "is_ok r \<or> co_transport c' \<noteq> co_transport c \<Longrightarrow> u \<in> set (co_used_pairing_tokens c')"
proof -
  have "outcome (\<lambda>_ c'. u \<notin> set (co_used_pairing_tokens c) \<and> u \<in> set (co_used_pairing_tokens c'))
     (\<lambda>_ c'. (u \<in> set (co_used_pairing_tokens c) \<longrightarrow> co_transport c' = co_transport c)
        \<and> (co_transport c' \<noteq> co_transport c \<longrightarrow> u \<in> set (co_used_pairing_tokens c')))
     (controller_execute D call c)"
    using assms(2)
  proof (cases call)
    case (PairWith approval)
    show ?thesis unfolding PairWith
      by (simp, rule outcome_mono [OF pair_outcome]) (use PairWith assms(2) in auto)
  next
    case (RotatePin endpoint approval)
    show ?thesis unfolding RotatePin
      by (simp, rule outcome_mono [OF rotate_outcome [OF assms(1)]]) (use RotatePin assms(2) in auto)
  qed simp_all
  then show "u \<in> set (co_used_pairing_tokens c) \<Longrightarrow> \<not> is_ok r \<and> co_transport c' = co_transport c"
    and "is_ok r \<or> co_transport c' \<noteq> co_transport c \<Longrightarrow> u \<in> set (co_used_pairing_tokens c')"
    using assms(3) by (cases r; auto)+
qed

section \<open>What an answered call has checked\<close>

lemma require_binding_found:
  assumes "require_binding D k c = (Inr b, c1)" and "cd_store D = memory_binding_ops"
  shows "c1 = c" and "map_of (co_store c) k = Some b"
  using assms
  by (auto simp: require_binding_def store_get_def memory_binding_ops_def memory_get_def sbind_def
      ok_or_def split: option.splits if_splits prod.splits sum.splits)

text \<open>The clock reading that the next check of an authorization or of evidence uses.\<close>

definition next_now :: "('t, 's) controller \<Rightarrow> u64" where
  "next_now c = fst (co_now c)"

lemma with_binding_found:
  assumes "fst (sbind (require_binding D k c) f) = Inr x" and "cd_store D = memory_binding_ops"
  obtains b where "map_of (co_store c) k = Some b" "fst (f b c) = Inr x"
proof -
  obtain b c1 where b: "require_binding D k c = (Inr b, c1)" "fst (f b c1) = Inr x"
    using assms(1) by (auto simp: sbind_def split: prod.splits sum.splits)
  from require_binding_found [OF b(1) assms(2)] b(2) that show thesis by simp
qed

lemma send_input_checked:
  assumes "fst (controller_send_input D k who events c) = Inr receipt"
    and "cd_store D = memory_binding_ops"
  shows "\<exists>b x. map_of (co_store c) k = Some b \<and> validate_input_events events = Inr ()
    \<and> authorize_interactive_principal b who (next_now c) automation_scope.SendInput True = Inr x"
proof -
  have valid: "validate_input_events events = Inr ()"
    using assms(1) by (auto simp: controller_send_input_def sbind_def split: sum.splits)
  obtain b where b: "map_of (co_store c) k = Some b"
    and rest: "fst (let (now_ms, c) = co_now c in
       sbind (authorize_interactive_principal b who now_ms automation_scope.SendInput True, c)
         (\<lambda>(kind, authorization_id, _) c.
       sbind (send_agent_command D kind (Some authorization_id)
                (agent_command.SendInput k events) c) (\<lambda>response c.
       if response \<noteq> agent_response.InputAccepted (length events)
       then (Inl (remote_backend_error.Protocol
               (lit ''sendInput returned the wrong Agent response type or event count.'')), c)
       else persist_interaction D b agent_control_operation.SendInput response c))) = Inr receipt"
    by (rule with_binding_found [OF _ assms(2)])
      (use assms(1) valid in \<open>auto simp: controller_send_input_def\<close>)
  from rest obtain x where
    "authorize_interactive_principal b who (next_now c) automation_scope.SendInput True = Inr x"
    by (cases "co_now c"; cases "authorize_interactive_principal b who (next_now c)
      automation_scope.SendInput True") (simp_all add: next_now_def)
  with b valid show ?thesis by blast
qed

lemma start_checked:
  assumes "fst (controller_start D k c) = Inr result" and "cd_store D = memory_binding_ops"
  shows "\<exists>b. map_of (co_store c) k = Some b \<and> require_proxy_evidence b (next_now c) = Inr ()"
proof -
  obtain b where b: "map_of (co_store c) k = Some b"
    and rest: "fst (sbind (enforce_proxy_now b c) (\<lambda>_ c.
       sbind (send_bound_operation D b remote_operation.Start None None None c) (\<lambda>result c.
       update_evidence_and_enforce D b result c))) = Inr result"
    by (rule with_binding_found [OF _ assms(2)]) (use assms(1) in \<open>auto simp: controller_start_def\<close>)
  from rest have "require_proxy_evidence b (next_now c) = Inr ()"
    by (cases "co_now c"; cases "require_proxy_evidence b (next_now c)")
      (simp_all add: enforce_proxy_now_def next_now_def)
  with b show ?thesis by blast
qed

end
