(* ===== verification/Controller_Samples.thy ===== *)
theory Controller_Samples
  imports Controller_Machine
begin

text \<open>
  Concrete controllers for the witnesses: a transport that counts its exchanges and always answers
  from the pinned peer, codecs that decode every payload to one response, a host whose clock
  stands still, and a bound Silo.
\<close>

section \<open>Parameters\<close>

definition sample_clock :: u64 where "sample_clock = 1000000"

definition sample_host :: host where
  "sample_host = \<lparr>clock_at = (\<lambda>_. sample_clock), clock_reads = 0,
     uuid_at = (\<lambda>_. Uuid 100), uuid_draws = 0\<rparr>"

definition hex_pin :: "nat \<Rightarrow> tls_pin" where
  "hex_pin digit = \<lparr>pin_kind = SpkiSha256, pin_sha256 = replicate 64 digit\<rparr>"

definition sample_endpoint :: remote_endpoint where
  "sample_endpoint = \<lparr>ep_ownership = endpoint_ownership.UserSelfHosted,
     ep_origin = lit ''https://node.example'', ep_pin = hex_pin 97\<rparr>"

definition sample_url :: url_parts where
  "sample_url = \<lparr>url_scheme = lit ''https'', url_host = Some (lit ''node.example''),
     url_username = [], url_password = None, url_query = None, url_fragment = None,
     url_path = lit ''/'', url_origin = lit ''https://node.example''\<rparr>"

definition nonce_of :: "nat \<Rightarrow> str" where
  "nonce_of digit = replicate 32 digit"

definition reply :: "nat \<Rightarrow> u64 \<Rightarrow> 'b \<Rightarrow> 'b response_envelope" where
  "reply digit n body = \<lparr>re_protocol_version = PROTOCOL_VERSION, re_response_id = Uuid 77,
     re_in_reply_to = Uuid 100, re_nonce = nonce_of digit,
     re_sent_at_unix_ms = sample_clock, re_sequence = n, re_body = body\<rparr>"

text \<open>The answer to an authorization of the pin of digits 98 with the token 40.\<close>

definition sample_rotation_body :: tls_pin_rotation_authorization_response_body where
  "sample_rotation_body = tls_pin_rotation_authorization_response_body.Success
     \<lparr>ts_server_id = Uuid 9, ts_client_credential_id = Uuid 30, ts_pairing_token_id = Uuid 40,
      ts_new_pin = hex_pin 98, ts_challenge = nonce_of 97,
      ts_authorization_expires_at_unix_ms = sample_clock + 1000\<rparr>"

definition controller_sample_deps ::
    "operation_response_body \<Rightarrow> pairing_response_body \<Rightarrow> agent_control_response_body \<Rightarrow> nat memory_deps"
  where
  "controller_sample_deps o_body p_body a_body =
     \<lparr>cd_exchange = (\<lambda>rq t. (Inr \<lparr>tp_tls_validated = True, tp_peer_pin = ep_pin (tr_endpoint rq),
        tp_payload = []\<rparr>, Suc t)),
      cd_store = memory_binding_ops, cd_parse_url = (\<lambda>_. Inr sample_url),
      cd_encode_operation = (\<lambda>_. Inr []), cd_decode_operation = (\<lambda>_. Inr (reply 98 9 o_body)),
      cd_encode_pairing = (\<lambda>_. Inr []), cd_decode_pairing = (\<lambda>_. Inr (reply 99 9 p_body)),
      cd_encode_rotation = (\<lambda>_. Inr []), cd_decode_rotation = (\<lambda>_. Inr (reply 98 9 sample_rotation_body)),
      cd_encode_agent = (\<lambda>_. Inr []), cd_decode_agent = (\<lambda>_. Inr (reply 98 9 a_body))\<rparr>"

section \<open>State\<close>

definition sample_node :: node_disclosure where
  "sample_node = \<lparr>nd_node_id = Uuid 5, nd_ownership = node_ownership.UserSelfHosted,
     nd_operator_label = lit ''operator'', nd_data_region = lit ''region'',
     nd_key_custody = UserControlled,
     nd_cost = \<lparr>cost_currency = lit ''EUR'', cost_estimated_micros_per_hour = 0,
       cost_notice = lit ''none''\<rparr>\<rparr>"

definition sample_capabilities :: "remote_capability list" where
  "sample_capabilities = map (\<lambda>operation. \<lparr>cap_operation = operation,
     cap_availability = Available\<rparr>) ALL_OPERATIONS"

definition sample_pairing :: pairing_state where
  "sample_pairing = \<lparr>pg_server_id = Uuid 9, pg_client_credential_id = Uuid 30,
     pg_node = sample_node, pg_credential = nonce_of 97,
     pg_credential_expires_at_unix_ms = sample_clock + 1, pg_capabilities = sample_capabilities,
     pg_last_client_sequence = 3, pg_last_server_sequence = 4\<rparr>"

definition sample_policy :: remote_network_policy where
  "sample_policy = FixedProxy True (Uuid 50)"

definition sample_evidence :: "u64 \<Rightarrow> guest_evidence" where
  "sample_evidence n = \<lparr>ge_protocol_version = PROTOCOL_VERSION, ge_evidence_id = Uuid 51,
     ge_binding_id = Uuid 2, ge_remote_environment_id = Uuid 3, ge_source = GuestAgent,
     ge_sequence = n, ge_observed_at_unix_ms = sample_clock,
     ge_proxy = \<lparr>px_state = Enforced, px_policy_id = Some (Uuid 50)\<rparr>,
     ge_exit = \<lparr>ex_state = Verified, ex_public_addresses = [lit ''192.0.2.1'']\<rparr>,
     ge_dns = \<lparr>dns_state = Verified, dns_resolvers = [], dns_leak_detected = False\<rparr>,
     ge_web_rtc = \<lparr>rtc_state = Verified, rtc_observed_candidates = [], rtc_leak_detected = False\<rparr>,
     ge_health = \<lparr>gh_state = guest_health_state.Healthy, gh_agent_version = lit ''1'',
       gh_checks = []\<rparr>\<rparr>"

definition sample_volume :: volume_attestation where
  "sample_volume = \<lparr>va_encrypted = True, va_key_custody = UserControlled,
     va_volume_id = Uuid 6, va_key_id = Uuid 7\<rparr>"

definition sample_session :: "uuid \<Rightarrow> session_authorization" where
  "sample_session u = \<lparr>sa_authorization_id = u, sa_silo_id = Uuid 1,
     sa_remote_environment_id = Uuid 3, sa_issued_at_unix_ms = sample_clock,
     sa_expires_at_unix_ms = sample_clock + 60000, sa_revoked = False\<rparr>"

definition sample_channel :: screen_channel where
  "sample_channel = \<lparr>sc_channel_id = Uuid 70, sc_remote_environment_id = Uuid 3,
     sc_authorization_id = Uuid 60, sc_expires_at_unix_ms = sample_clock + 1000,
     sc_transport = AuthenticatedEncryptedStream\<rparr>"

definition sample_binding :: silo_binding where
  "sample_binding = \<lparr>sb_silo_id = Uuid 1, sb_binding_id = Uuid 2,
     sb_remote_environment_id = Uuid 3, sb_server_id = Uuid 9, sb_endpoint = sample_endpoint,
     sb_network = sample_policy, sb_volume = sample_volume,
     sb_last_activity_at_unix_ms = 1, sb_human_session = Some (sample_session (Uuid 60)),
     sb_automation_authorizations = [], sb_last_screen_channel = Some sample_channel,
     sb_last_interaction = None, sb_last_evidence = Some (sample_evidence 2)\<rparr>"

definition sample_controller :: "nat memory_controller" where
  "sample_controller = \<lparr>co_endpoint = sample_endpoint, co_transport = 0,
     co_store = [(Uuid 1, sample_binding)], co_host = sample_host,
     co_pairing = Some sample_pairing, co_used_pairing_tokens = [Uuid 20],
     co_response_replay = []\<rparr>"

definition sample_result :: "remote_operation \<Rightarrow> remote_result_state \<Rightarrow> operation_result" where
  "sample_result operation state = \<lparr>os_operation = operation, os_silo_id = Uuid 1,
     os_binding_id = Uuid 2, os_remote_environment_id = Uuid 3, os_server_id = Uuid 9,
     os_last_activity_at_unix_ms = sample_clock, os_state = state, os_volume = None,
     os_evidence = Some (sample_evidence 3), os_logs = None, os_next_cursor = None,
     os_deletion_proof = None\<rparr>"

definition start_deps :: "nat memory_deps" where
  "start_deps = controller_sample_deps
     (operation_response_body.Success (sample_result remote_operation.Start Started))
     (pairing_response_body.Rejected TokenExpired (lit ''x'')) (agent_control_response_body.Unavailable (lit ''x''))"

lemma str_bytes_replicate: "d < 128 \<Longrightarrow> str_bytes (replicate n d) = replicate n d"
  by (induction n) (simp_all add: str_bytes_def utf8_bytes_def)

lemma nonce_of_ok [simp]:
  "validate_nonce (nonce_of 97) = Inr ()" "validate_nonce (nonce_of 98) = Inr ()"
  "validate_nonce (nonce_of 99) = Inr ()"
  by (simp_all add: nonce_of_def validate_nonce_def str_len_def str_bytes_replicate ascii_class_defs
      list_all_iff)

lemma controller_evidence_valid [simp]:
  "n \<noteq> 0 \<Longrightarrow> guest_evidence_validate (sample_evidence n) (Uuid 2) (Uuid 3) sample_clock = Inr ()"
  by (simp add: guest_evidence_validate_def sample_evidence_def validate_fresh_timestamp_def sample_clock_def
      validate_string_list_def validate_text_def lit_def str_len_def str_bytes_def utf8_bytes_def
      is_control_def str_trim_def is_whitespace_def MAX_TEXT_BYTES_def MAX_EVIDENCE_AGE_MS_def abs_diff_def
      MAX_CLOCK_SKEW_MS_def)

lemma sample_proxy [simp]:
  "validates_required_proxy (sample_evidence n) sample_policy"
  "requires_proxy sample_policy"
  "ge_sequence (sample_evidence n) = n"
  by (simp_all add: validates_required_proxy_def sample_evidence_def sample_policy_def)

lemma sample_require_proxy [simp]:
  "n \<noteq> 0 \<Longrightarrow> require_proxy_evidence (sample_binding\<lparr>sb_last_evidence := Some (sample_evidence n),
      sb_last_activity_at_unix_ms := t\<rparr>) sample_clock = Inr ()"
  "require_proxy_evidence sample_binding sample_clock = Inr ()"
  by (simp_all add: require_proxy_evidence_def sample_binding_def)

text \<open>The state after a number of clock reads, draws and exchanges.\<close>

definition sample_state ::
    "uuid list \<Rightarrow> nat \<Rightarrow> nat \<Rightarrow> nat \<Rightarrow> u64 \<Rightarrow> u64 \<Rightarrow> replay_window \<Rightarrow> silo_binding \<Rightarrow> nat memory_controller" where
  "sample_state tokens reads draws sent client server window b =
     \<lparr>co_endpoint = sample_endpoint, co_transport = sent, co_store = [(Uuid 1, b)],
      co_host = sample_host\<lparr>clock_reads := reads, uuid_draws := draws\<rparr>,
      co_pairing = Some (sample_pairing\<lparr>pg_last_client_sequence := client,
        pg_last_server_sequence := server\<rparr>),
      co_used_pairing_tokens = tokens, co_response_replay = window\<rparr>"

lemma sample_controller_state: "sample_controller = sample_state [Uuid 20] 0 0 0 3 4 [] sample_binding"
  by (simp add: sample_controller_def sample_state_def sample_host_def sample_pairing_def)

lemma sample_state_steps [simp]:
  "co_now (sample_state ts r d s m n w b) = (sample_clock, sample_state ts (Suc r) d s m n w b)"
  "co_new_v4 (sample_state ts r d s m n w b) = (Uuid 100, sample_state ts r (Suc d) s m n w b)"
  "co_new_nonce (sample_state ts r d s m n w b)
     = (uuid_simple (Uuid 100) @ uuid_simple (Uuid 100), sample_state ts r (Suc (Suc d)) s m n w b)"
  "reserve_authenticated_request (sample_state ts r d s 3 n w b)
     = (Inr (sample_clock, 4, Uuid 30, nonce_of 97), sample_state ts (Suc r) d s 4 n w b)"
  "validate_response_metadata PROTOCOL_VERSION (Uuid 100) (Uuid 100) (nonce_of 98) sample_clock 9
     (sample_state ts r d s m 4 [] b)
     = (Inr (), sample_state ts (Suc r) d s m 9 [(nonce_of 98, sample_clock)] b)"
  by (simp_all add: sample_state_def co_now_def co_new_v4_def co_new_nonce_def now_unix_ms_def sample_host_def
      new_v4_def new_nonce_def reserve_authenticated_request_def checked_add_def sample_pairing_def
      sample_clock_def validate_response_metadata_def validate_fresh_timestamp_def record_response_nonce_def
      check_and_record_def abs_diff_def MAX_CLOCK_SKEW_MS_def MAX_REPLAY_WINDOW_ENTRIES_def)

lemma sample_exchange [simp]:
  assumes "cd_exchange D = (\<lambda>rq t. (Inr \<lparr>tp_tls_validated = True,
     tp_peer_pin = ep_pin (tr_endpoint rq), tp_payload = []\<rparr>, Suc t))"
  shows "exchange_envelopes D (\<lambda>_. Inr []) (\<lambda>_. Inr x) e credential q
     (sample_state ts r d s m n w b) = (Inr x, sample_state ts r d (Suc s) m n w b)"
  by (simp add: assms sample_state_def exchange_envelopes_def encode_json_def decode_json_def
      validate_transport_response_def)

lemma sample_state_fields [simp]:
  "co_endpoint (sample_state ts r d s m n w b) = sample_endpoint"
  "co_store (sample_state ts r d s m n w b) = [(Uuid 1, b)]"
  "co_transport (sample_state ts r d s m n w b) = s"
  "co_used_pairing_tokens (sample_state ts r d s m n w b) = ts"
  "co_pairing (sample_state ts r d s m n w b) = Some (sample_pairing\<lparr>pg_last_client_sequence := m,
     pg_last_server_sequence := n\<rparr>)"
  by (simp_all add: sample_state_def)

lemma sample_deps_fields [simp]:
  "cd_store (controller_sample_deps ob pb ab) = memory_binding_ops"
  "cd_exchange (controller_sample_deps ob pb ab) = (\<lambda>rq t. (Inr \<lparr>tp_tls_validated = True,
     tp_peer_pin = ep_pin (tr_endpoint rq), tp_payload = []\<rparr>, Suc t))"
  "cd_encode_operation (controller_sample_deps ob pb ab) = (\<lambda>_. Inr [])"
  "cd_decode_operation (controller_sample_deps ob pb ab) = (\<lambda>_. Inr (reply 98 9 ob))"
  "cd_encode_pairing (controller_sample_deps ob pb ab) = (\<lambda>_. Inr [])"
  "cd_decode_pairing (controller_sample_deps ob pb ab) = (\<lambda>_. Inr (reply 99 9 pb))"
  "cd_encode_rotation (controller_sample_deps ob pb ab) = (\<lambda>_. Inr [])"
  "cd_decode_rotation (controller_sample_deps ob pb ab) = (\<lambda>_. Inr (reply 98 9 sample_rotation_body))"
  "cd_encode_agent (controller_sample_deps ob pb ab) = (\<lambda>_. Inr [])"
  "cd_decode_agent (controller_sample_deps ob pb ab) = (\<lambda>_. Inr (reply 98 9 ab))"
  by (simp_all add: controller_sample_deps_def)

lemma reply_fields [simp]:
  "re_protocol_version (reply digit n x) = PROTOCOL_VERSION" "re_in_reply_to (reply digit n x) = Uuid 100"
  "re_nonce (reply digit n x) = nonce_of digit" "re_sent_at_unix_ms (reply digit n x) = sample_clock"
  "re_sequence (reply digit n x) = n" "re_body (reply digit n x) = x"
  by (simp_all add: reply_def)

lemma sample_binding_fields [simp]:
  "sb_silo_id sample_binding = Uuid 1" "sb_server_id sample_binding = Uuid 9"
  "sb_endpoint sample_binding = sample_endpoint" "sb_binding_id sample_binding = Uuid 2"
  "sb_remote_environment_id sample_binding = Uuid 3" "sb_volume sample_binding = sample_volume"
  "sb_human_session sample_binding = Some (sample_session (Uuid 60))"
  "sb_network sample_binding = sample_policy"
  "sb_last_evidence sample_binding = Some (sample_evidence 2)"
  by (simp_all add: sample_binding_def)

lemma sample_available:
  "find (\<lambda>capability. cap_operation capability = operation) sample_capabilities
     = Some \<lparr>cap_operation = operation, cap_availability = Available\<rparr>"
  by (cases operation) (simp_all add: sample_capabilities_def ALL_OPERATIONS_def)

lemma sample_binding_steps [simp]:
  "require_binding (controller_sample_deps ob pb ab) (Uuid 1) (sample_state ts r d s m n w sample_binding)
     = (Inr sample_binding, sample_state ts r d s m n w sample_binding)"
  "enforce_proxy_now sample_binding (sample_state ts r d s m n w b)
     = (Inr (), sample_state ts (Suc r) d s m n w b)"
  "require_available operation (sample_state ts r d s m n w b) = Inr ()"
  "sb_silo_id b' = Uuid 1 \<Longrightarrow> store_update (controller_sample_deps ob pb ab) b' (sample_state ts r d s m n w b)
     = (Inr (), sample_state ts r d s m n w b')"
  by (simp_all add: require_binding_def store_get_def memory_binding_ops_def memory_get_def
      enforce_proxy_now_def store_update_def in_store_def memory_update_def require_available_def)
   (simp_all add: sample_state_def sample_pairing_def sample_available)

lemma sample_result_fields [simp]:
  "os_operation (sample_result operation state) = operation"
  "os_silo_id (sample_result operation state) = Uuid 1"
  "os_binding_id (sample_result operation state) = Uuid 2"
  "os_remote_environment_id (sample_result operation state) = Uuid 3"
  "os_server_id (sample_result operation state) = Uuid 9"
  "os_state (sample_result operation state) = state"
  "os_evidence (sample_result operation state) = Some (sample_evidence 3)"
  "os_last_activity_at_unix_ms (sample_result operation state) = sample_clock"
  by (simp_all add: sample_result_def)

text \<open>The deletion proof of the sample binding.\<close>

definition sample_deletions :: "resource_deletion_item list" where
  "sample_deletions =
     [\<lparr>rd_kind = ComputeInstance, rd_resource_id = Some (Uuid 3), rd_status = deletion_resource_status.Deleted\<rparr>,
      \<lparr>rd_kind = PersistentVolume, rd_resource_id = Some (Uuid 6), rd_status = deletion_resource_status.Deleted\<rparr>,
      \<lparr>rd_kind = ResourceSnapshot, rd_resource_id = None, rd_status = NotApplicable\<rparr>,
      \<lparr>rd_kind = EphemeralKey, rd_resource_id = Some (Uuid 7), rd_status = deletion_resource_status.Deleted\<rparr>]"

definition sample_destroyed :: operation_result where
  "sample_destroyed = (sample_result remote_operation.Destroy Destroyed)\<lparr>os_deletion_proof := Some
     \<lparr>dp_proof_id = Uuid 90, dp_silo_id = Uuid 1, dp_binding_id = Uuid 2,
      dp_remote_environment_id = Uuid 3, dp_volume_id = Uuid 6, dp_provider_receipt_id = Uuid 91,
      dp_resource_deletions = sample_deletions, dp_deleted_at_unix_ms = sample_clock,
      dp_reason = UserConfirmed\<rparr>\<rparr>"

definition destroy_deps :: "nat memory_deps" where
  "destroy_deps = controller_sample_deps (operation_response_body.Success sample_destroyed)
     (pairing_response_body.Rejected TokenExpired (lit ''x''))
     (agent_control_response_body.Unavailable (lit ''x''))"

definition interactive_deps :: "agent_response \<Rightarrow> nat memory_deps" where
  "interactive_deps response = controller_sample_deps
     (operation_response_body.Success (sample_result remote_operation.Start Started))
     (pairing_response_body.Rejected TokenExpired (lit ''x''))
     (agent_control_response_body.Success response)"

definition pairing_deps :: "nat memory_deps" where
  "pairing_deps = controller_sample_deps
     (operation_response_body.Success (sample_result remote_operation.Start Started))
     (pairing_response_body.Success
        \<lparr>ps_server_id = Uuid 9, ps_client_credential_id = Uuid 31, ps_node = sample_node,
         ps_client_credential = nonce_of 98, ps_credential_expires_at_unix_ms = sample_clock + 1,
         ps_capabilities = sample_capabilities\<rparr>)
     (agent_control_response_body.Unavailable (lit ''x''))"

definition sample_approval :: pairing_approval where
  "sample_approval = \<lparr>pa_approved_by_user = True, pa_pairing_token_id = Uuid 40,
     pa_pairing_token = nonce_of 97, pa_pairing_token_expires_at_unix_ms = sample_clock + 1000\<rparr>"

definition rotated_endpoint :: remote_endpoint where
  "rotated_endpoint = sample_endpoint\<lparr>ep_pin := hex_pin 98\<rparr>"

section \<open>Answered calls\<close>

lemma sample_result_valid [simp]:
  "validate_result (sample_result remote_operation.Start Started) remote_operation.Start (Uuid 1)
     sample_clock (sample_state ts r d s m n w b) = Inr ()"
  by (simp add: validate_result_def sample_pairing_def nil_uuid_def saturating_add_def
      MAX_CLOCK_SKEW_MS_def validate_result_volume_def validate_result_proof_def)
    (simp add: sample_result_def sample_clock_def)

lemma start_answered:
  "controller_execute start_deps (StartSilo (Uuid 1)) sample_controller
     = (Inr (Result (sample_result remote_operation.Start Started)),
        sample_state [Uuid 20] (Suc (Suc (Suc (Suc 0)))) (Suc (Suc (Suc 0))) 1 4 9
          [(nonce_of 98, sample_clock)]
          (refreshed sample_binding (sample_result remote_operation.Start Started)))"
  by (simp add: start_deps_def controller_start_def sample_controller_state
      answer_as_def send_bound_operation_def send_operation_def update_evidence_and_enforce_def
      ensure_evidence_advances_def enforce_result_def enforce_proxy_now_def Let_def)
   (simp add: refreshed_def)

lemma sample_deletions_bound:
  "deletion_resources_are_bound sample_deletions (Uuid 3) (Uuid 6) (Uuid 7)"
  by (simp add: deletion_resources_are_bound_def sample_deletions_def
      REQUIRED_DELETION_RESOURCE_KINDS_def nil_uuid_def)

lemma sample_destroyed_bound: "proof_is_bound sample_binding sample_destroyed"
  using sample_deletions_bound
  by (simp add: proof_is_bound_def sample_destroyed_def sample_volume_def)

lemma sample_destroyed_valid:
  "validate_result sample_destroyed remote_operation.Destroy (Uuid 1) sample_clock
     (sample_state ts r d s m n w b) = Inr ()"
  using sample_deletions_bound
  by (simp add: validate_result_def sample_destroyed_def sample_pairing_def nil_uuid_def
      saturating_add_def MAX_CLOCK_SKEW_MS_def validate_result_volume_def validate_result_proof_def
      validate_deletion_proof_def proof_key_id_def result_evidence_required_def)
    (simp add: sample_result_def sample_deletions_def sample_clock_def)

lemma destroy_answered:
  "controller_execute destroy_deps (DestroySilo (Uuid 1) True) sample_controller
     = (Inr (Result sample_destroyed),
        (sample_state [Uuid 20] (Suc (Suc 0)) (Suc (Suc (Suc 0))) 1 4 9
          [(nonce_of 98, sample_clock)] sample_binding)
          \<lparr>co_store := []\<rparr>)"
  using sample_destroyed_valid sample_destroyed_bound
  by (simp add: destroy_deps_def controller_destroy_def sample_controller_state
      answer_as_def send_bound_operation_def send_operation_def in_store_def
      memory_binding_ops_def memory_remove_def)
   (simp add: sample_destroyed_def)

lemma sample_session_valid:
  "validate_session_authorization (sample_session (Uuid 61)) sample_binding sample_clock False = Inr ()"
  by (simp add: validate_session_authorization_def validate_session_authorization_shape_def
      sample_session_def nil_uuid_def lifetime_within_def checked_sub_def sample_clock_def abs_diff_def
      MAX_CLOCK_SKEW_MS_def MAX_HUMAN_SESSION_SECONDS_def)

lemma session_answered:
  "controller_execute (interactive_deps (agent_response.HumanSession (sample_session (Uuid 61))))
      (OpenSession (Uuid 1) 60) sample_controller
     = (Inr (Interaction \<lparr>ir_operation = agent_control_operation.OpenHumanSession,
          ir_observed_at_unix_ms = sample_clock,
          ir_response = agent_response.HumanSession (sample_session (Uuid 61))\<rparr>),
        sample_state [Uuid 20] (Suc (Suc (Suc (Suc 0)))) (Suc (Suc (Suc 0))) 1 4 9
          [(nonce_of 98, sample_clock)]
          (sample_binding\<lparr>sb_human_session := Some (sample_session (Uuid 61)),
             sb_last_interaction := Some \<lparr>ir_operation = agent_control_operation.OpenHumanSession,
               ir_observed_at_unix_ms = sample_clock,
               ir_response = agent_response.HumanSession (sample_session (Uuid 61))\<rparr>\<rparr>))"
  using sample_session_valid
  by (simp add: interactive_deps_def controller_open_human_session_def sample_controller_state
      answer_as_def send_agent_command_def persist_interaction_def human_session_of_def Let_def
      MAX_HUMAN_SESSION_SECONDS_def)
   (simp add: sample_session_def)

definition sample_events :: "input_event list" where
  "sample_events = [PointerMove 10 20, Key (lit ''Enter'') True]"

lemma input_answered:
  "is_ok (fst (controller_execute (interactive_deps (agent_response.InputAccepted 2))
      (Input (Uuid 1) (interactive_principal.HumanSession (Uuid 60)) sample_events) sample_controller))"
proof -
  have "validate_input_events sample_events = Inr ()"
    by (simp add: validate_input_events_def sample_events_def MAX_INPUT_EVENTS_def str_len_def lit_def
        str_bytes_def utf8_bytes_def ascii_class_defs)
  moreover have "authorize_interactive_principal sample_binding
      (interactive_principal.HumanSession (Uuid 60)) sample_clock automation_scope.SendInput True
    = Inr (principal_kind.HumanSession, Uuid 60, sample_clock + 60000)"
    by (simp add: filter_option_def validate_session_authorization_shape_def sample_session_def
        nil_uuid_def lifetime_within_def checked_sub_def sample_clock_def MAX_HUMAN_SESSION_SECONDS_def)
  moreover have "length sample_events = 2" by (simp add: sample_events_def)
  ultimately show ?thesis
    by (simp add: interactive_deps_def controller_send_input_def sample_controller_state
        answer_as_def send_agent_command_def persist_interaction_def Let_def
        del: authorize_interactive_principal.simps)
qed

section \<open>An answered rotation\<close>

lemma sample_endpoints:
  "endpoint_validate (cd_parse_url (controller_sample_deps ob pb ab)) sample_endpoint = Inr ()"
  "endpoint_validate (cd_parse_url (controller_sample_deps ob pb ab)) rotated_endpoint = Inr ()"
  by (simp_all add: endpoint_validate_def tls_pin_validate_def rotated_endpoint_def sample_endpoint_def
      hex_pin_def str_len_def str_bytes_replicate list_all_iff ascii_class_defs sample_url_def
      controller_sample_deps_def)

lemma sample_rotation_checks:
  "check_rotation_endpoint (controller_sample_deps ob pb ab) rotated_endpoint
     (sample_state ts r d s m n w b) = Inr ()"
  "check_rotation_bindings (Uuid 9) (sample_state ts r d s m n w sample_binding) = Inr ()"
proof -
  have "hex_pin 97 \<noteq> hex_pin 98"
    by (simp add: hex_pin_def eval_nat_numeral)
  then show "check_rotation_endpoint (controller_sample_deps ob pb ab) rotated_endpoint
     (sample_state ts r d s m n w b) = Inr ()"
    by (simp add: check_rotation_endpoint_def same_https_origin_def rotated_endpoint_def
        sample_endpoint_def controller_sample_deps_def)
  show "check_rotation_bindings (Uuid 9) (sample_state ts r d s m n w sample_binding) = Inr ()"
    by (simp add: check_rotation_bindings_def store_snapshot_def)
qed

lemma sample_token_reserved:
  "reserve_pairing_token sample_approval (sample_state [Uuid 20] r d s m n w b)
     = (Inr (), sample_state [Uuid 40, Uuid 20] (Suc r) d s m n w b)"
  by (simp add: reserve_pairing_token_def validate_pairing_approval_def sample_approval_def
      valid_secret_token_def nonce_of_def str_len_def str_bytes_replicate list_all_iff ascii_class_defs
      nil_uuid_def checked_sub_def sample_clock_def MAX_PAIRING_TOKEN_LIFETIME_MS_def
      MAX_REPLAY_WINDOW_ENTRIES_def)
   (simp add: sample_state_def)

lemma sample_pairing_fields [simp]:
  "pg_server_id sample_pairing = Uuid 9"
  "pg_client_credential_id sample_pairing = Uuid 30"
  "pg_credential_expires_at_unix_ms sample_pairing = sample_clock + 1"
  "\<not> sample_clock + 1 \<le> sample_clock"
  "pa_pairing_token_id sample_approval = Uuid 40" "ep_pin rotated_endpoint = hex_pin 98"
  by (simp_all add: sample_pairing_def sample_clock_def sample_approval_def rotated_endpoint_def)

definition sample_claim :: tls_pin_rotation_pairing_claim where
  "sample_claim = \<lparr>tc_challenge = nonce_of 97, tc_server_id = Uuid 9,
     tc_old_client_credential_id = Uuid 30, tc_authorization_request_id = Uuid 100,
     tc_authorization_request_nonce = uuid_simple (Uuid 100) @ uuid_simple (Uuid 100),
     tc_authorization_request_sequence = 4, tc_authorization_response_sequence = 9,
     tc_authorization_expires_at_unix_ms = sample_clock + 1000, tc_pairing_token_id = Uuid 40,
     tc_new_pin = hex_pin 98\<rparr>"

lemma rotation_begun:
  "\<exists>r d. begin_tls_pin_rotation pairing_deps rotated_endpoint sample_approval sample_controller
     = (Inr sample_claim, sample_state [Uuid 40, Uuid 20] r d 1 4 9
          [(nonce_of 98, sample_clock)] sample_binding)"
proof -
  have "check_rotation_success \<lparr>ts_server_id = Uuid 9, ts_client_credential_id = Uuid 30,
      ts_pairing_token_id = Uuid 40, ts_new_pin = hex_pin 98, ts_challenge = nonce_of 97,
      ts_authorization_expires_at_unix_ms = sample_clock + 1000\<rparr>
    (Uuid 9) (Uuid 30) (Uuid 40) (hex_pin 98) sample_clock = Inr ()"
    by (simp add: check_rotation_success_def checked_sub_def sample_clock_def
        MAX_TLS_PIN_ROTATION_AUTHORIZATION_LIFETIME_MS_def)
  then show ?thesis
    by (simp add: begin_tls_pin_rotation_def sample_controller_state sample_token_reserved
        pairing_deps_def sample_endpoints sample_rotation_checks authorize_tls_pin_rotation_def
        sample_rotation_body_def)
      (auto simp: sample_claim_def)
qed

lemma sample_pairing_success:
  "check_pairing_success \<lparr>ps_server_id = Uuid 9, ps_client_credential_id = Uuid 31,
     ps_node = sample_node, ps_client_credential = nonce_of 98,
     ps_credential_expires_at_unix_ms = sample_clock + 1, ps_capabilities = sample_capabilities\<rparr>
     sample_clock = Inr ()"
proof -
  have "Wire_Protocol.validate_capabilities sample_capabilities = Inr ()"
    by (simp add: Wire_Protocol.validate_capabilities_def sample_capabilities_def
        ALL_OPERATIONS_def count_capability_def)
  moreover have "node_disclosure_validate sample_node = Inr ()"
    by (simp add: node_disclosure_validate_def sample_node_def nil_uuid_def bounded_text_def lit_def
        str_len_def str_bytes_def utf8_bytes_def str_trim_def is_whitespace_def ascii_class_defs)
  moreover have "valid_secret_token (nonce_of 98) 32 512"
    by (simp add: valid_secret_token_def nonce_of_def str_len_def str_bytes_replicate
        list_all_iff ascii_class_defs)
  ultimately show ?thesis by (simp add: check_pairing_success_def nil_uuid_def)
qed

lemma sample_moved:
  "from_bindings (cd_parse_url (controller_sample_deps ob pb ab))
     [move_binding rotated_endpoint sample_binding]
   = Inr [(Uuid 1, move_binding rotated_endpoint sample_binding)]"
proof -
  have "validate_binding_snapshot (cd_parse_url (controller_sample_deps ob pb ab))
      (move_binding rotated_endpoint sample_binding) = Inr ()"
    using sample_endpoints(2) [of ob pb ab]
    by (simp add: validate_binding_snapshot_def move_binding_def nil_uuid_def sample_volume_def
        sample_policy_def) (simp add: sample_binding_def sample_evidence_def)
  then show ?thesis
    by (simp add: from_bindings_def MAX_STORED_BINDINGS_def move_binding_def)
qed

lemma sample_claim_fields:
  "tc_server_id sample_claim = Uuid 9" "tc_old_client_credential_id sample_claim = Uuid 30"
  "tc_pairing_token_id sample_claim = Uuid 40" "tc_new_pin sample_claim = hex_pin 98"
  "\<not> tc_authorization_expires_at_unix_ms sample_claim \<le> sample_clock"
  by (simp_all add: sample_claim_def sample_clock_def)

lemma sample_pairing_metadata:
  "\<exists>w'. validate_pairing_response_metadata PROTOCOL_VERSION (Uuid 100) (Uuid 100) (nonce_of 99)
     sample_clock 9 (sample_state ts r d s m n [(nonce_of 98, sample_clock)] b)
   = (Inr (), sample_state ts (Suc r) d s m n w' b)"
proof -
  have "nonce_of 98 \<noteq> nonce_of 99" by (simp add: nonce_of_def eval_nat_numeral)
  then show ?thesis
    by (simp add: validate_pairing_response_metadata_def validate_fresh_timestamp_def
        record_response_nonce_def check_and_record_def abs_diff_def MAX_CLOCK_SKEW_MS_def
        MAX_REPLAY_WINDOW_ENTRIES_def saturating_sub_def Let_def)
      (auto simp: sample_state_def)
qed

lemma rotation_finished:
  "is_ok (fst (finish_tls_pin_rotation pairing_deps rotated_endpoint sample_approval sample_claim
     (sample_state [Uuid 40, Uuid 20] r d 1 4 9 [(nonce_of 98, sample_clock)] sample_binding)))"
proof -
  obtain w' where "validate_pairing_response_metadata PROTOCOL_VERSION (Uuid 100) (Uuid 100)
      (nonce_of 99) sample_clock 9 (sample_state [Uuid 40, Uuid 20] (Suc (Suc (Suc r)))
        (Suc (Suc (Suc d))) (Suc (Suc 0)) 4 9 [(nonce_of 98, sample_clock)] sample_binding)
    = (Inr (), sample_state [Uuid 40, Uuid 20] (Suc (Suc (Suc (Suc r)))) (Suc (Suc (Suc d)))
        (Suc (Suc 0)) 4 9 w' sample_binding)"
    using sample_pairing_metadata by blast
  with sample_pairing_success show ?thesis
    by (simp add: finish_tls_pin_rotation_def pairing_deps_def sample_endpoints
        sample_rotation_checks exchange_pairing_def Let_def sample_claim_fields sample_moved
        store_snapshot_def)
qed

lemma rotation_answered:
  "is_ok (fst (controller_execute pairing_deps (RotatePin rotated_endpoint sample_approval)
     sample_controller))"
proof -
  obtain r d where "begin_tls_pin_rotation pairing_deps rotated_endpoint sample_approval
      sample_controller = (Inr sample_claim, sample_state [Uuid 40, Uuid 20] r d 1 4 9
        [(nonce_of 98, sample_clock)] sample_binding)"
    using rotation_begun by blast
  then show ?thesis
    using rotation_finished [of r d]
    by (auto simp: rotate_tls_pin_def answer_as_def sbind_def is_ok_def split: prod.splits sum.splits)
qed

end
