(* ===== verification/Controller_Properties.thy ===== *)
theory Controller_Properties
  imports Controller_Samples
begin

text \<open>
  The properties of the controller, over its in-memory binding store: what calls and runs of calls
  do to the bindings, the pairing and the ledger of pairing tokens, what an answered call has
  checked, and snapshots. Each property is followed by its witness on the samples.
\<close>

section \<open>Bindings\<close>

text \<open>
  C21. Whatever calls are made, and whatever the remote side answers, the binding of a Silo that is
  neither destroyed nor detached by them stays, with its identities, its server and its volume.
\<close>

theorem bindings_are_stable:
  assumes "cd_store D = memory_binding_ops" and "well_filed (co_store c)"
    and "controller_run D calls c = (rs, c')" and "map_of (co_store c) k = Some b"
    and "list_all (\<lambda>call. removes call \<noteq> Some k) calls"
  shows "\<exists>b'. map_of (co_store c') k = Some b' \<and> sb_silo_id b' = k
    \<and> sb_binding_id b' = sb_binding_id b
    \<and> sb_remote_environment_id b' = sb_remote_environment_id b
    \<and> sb_server_id b' = sb_server_id b \<and> sb_volume b' = sb_volume b"
proof -
  obtain b' where "map_of (co_store c') k = Some b'" "same_binding_identity b b'"
    using run_keeps [OF assms(1-5)] by blast
  moreover have "sb_silo_id b = k" using assms(2,4) by (rule well_filed_map_of)
  ultimately show ?thesis by (auto simp: same_binding_identity_def)
qed

lemma sample_well_filed: "well_filed (co_store sample_controller)"
  by (simp add: sample_controller_def well_filed_def sample_binding_def)

lemma sample_lookup:
  "map_of (co_store sample_controller) (Uuid 1) = Some sample_binding"
  by (simp add: sample_controller_def)

lemma sample_stores [simp]:
  "cd_store start_deps = memory_binding_ops" "cd_store destroy_deps = memory_binding_ops"
  "cd_store pairing_deps = memory_binding_ops" "cd_store (interactive_deps x) = memory_binding_ops"
  by (simp_all add: start_deps_def destroy_deps_def pairing_deps_def interactive_deps_def)

theorem bindings_are_stable_witness:
  "is_ok (hd (fst (controller_run start_deps
       [StartSilo (Uuid 1), DestroySilo (Uuid 2) True, RevokePairing] sample_controller)))
   \<and> (\<exists>b'. map_of (co_store (snd (controller_run start_deps
         [StartSilo (Uuid 1), DestroySilo (Uuid 2) True, RevokePairing] sample_controller))) (Uuid 1)
           = Some b'
       \<and> sb_binding_id b' = Uuid 2 \<and> sb_volume b' = sample_volume)"
proof -
  let ?calls = "[StartSilo (Uuid 1), DestroySilo (Uuid 2) True, RevokePairing]"
  obtain rs c' where run: "controller_run start_deps ?calls sample_controller = (rs, c')" by force
  from bindings_are_stable [OF _ sample_well_filed run sample_lookup] run start_answered
  show ?thesis by (auto simp del: controller_execute.simps split: prod.splits)
qed

text \<open>
  When the transport never hands back a response over validated TLS from the pinned peer, no
  call is answered and the bindings, the endpoint and the pairing's identity stay. Forced
  detachment and revocation are local and not covered.
\<close>

theorem unpinned_peers_change_nothing:
  assumes "cd_store D = memory_binding_ops" and "well_filed (co_store c)"
    and "controller_run D calls c = (rs, c')"
    and "\<And>request t response. fst (cd_exchange D request t) = Inr response
      \<Longrightarrow> \<not> tp_tls_validated response \<or> tp_peer_pin response \<noteq> ep_pin (tr_endpoint request)"
    and "list_all (\<lambda>call. \<not> is_detach call \<and> call \<noteq> RevokePairing) calls"
  shows "list_all (\<lambda>r. \<not> is_ok r) rs \<and> map_of (co_store c') = map_of (co_store c)
    \<and> co_endpoint c' = co_endpoint c
    \<and> map_option pg_server_id (co_pairing c') = map_option pg_server_id (co_pairing c)
    \<and> map_option pg_credential (co_pairing c') = map_option pg_credential (co_pairing c)"
proof -
  have "deaf D" using assms(4) by (fastforce simp: deaf_def heard_def pinned_def)
  from run_deaf [OF assms(1) this assms(2,3,5)]
  show ?thesis
    by (auto simp: pairing_advances_def split: option.splits)
qed

definition unpinned_deps :: "nat memory_deps" where
  "unpinned_deps = start_deps\<lparr>cd_exchange := (\<lambda>request t.
     (Inr \<lparr>tp_tls_validated = False, tp_peer_pin = ep_pin (tr_endpoint request),
           tp_payload = []\<rparr>, Suc t))\<rparr>"

theorem unpinned_peers_change_nothing_witness:
  "list_all (\<lambda>r. \<not> is_ok r) (fst (controller_run unpinned_deps
      [StartSilo (Uuid 1), DestroySilo (Uuid 1) True, RotatePin rotated_endpoint sample_approval]
      sample_controller))
   \<and> map_of (co_store (snd (controller_run unpinned_deps
      [StartSilo (Uuid 1), DestroySilo (Uuid 1) True, RotatePin rotated_endpoint sample_approval]
      sample_controller))) (Uuid 1) = Some sample_binding"
proof -
  let ?calls = "[StartSilo (Uuid 1), DestroySilo (Uuid 1) True,
    RotatePin rotated_endpoint sample_approval]"
  obtain rs c' where run: "controller_run unpinned_deps ?calls sample_controller = (rs, c')" by force
  have store: "cd_store unpinned_deps = memory_binding_ops" by (simp add: unpinned_deps_def)
  have "\<not> tp_tls_validated response \<or> tp_peer_pin response \<noteq> ep_pin (tr_endpoint request)"
    if "fst (cd_exchange unpinned_deps request t) = Inr response" for request t response
    using that by (auto simp: unpinned_deps_def)
  from unpinned_peers_change_nothing [OF store sample_well_filed run this]
  show ?thesis by (simp add: run sample_lookup del: controller_run.simps)
qed

text \<open>
  Through any calls for Silos the pairing stays and its client sequence never falls; when the
  transport was used at all, it is larger than before, so no sequence number is used twice.
\<close>

theorem client_sequences_are_not_reused:
  assumes "cd_store D = memory_binding_ops" and "well_filed (co_store c)"
    and "controller_run D calls c = (rs, c')" and "co_pairing c = Some p"
    and "list_all (\<lambda>call. call_silo call \<noteq> None) calls"
  shows "\<exists>p'. co_pairing c' = Some p' \<and> pg_credential p' = pg_credential p
    \<and> pg_last_client_sequence p \<le> pg_last_client_sequence p'
    \<and> pg_last_server_sequence p \<le> pg_last_server_sequence p'
    \<and> (co_transport c' \<noteq> co_transport c
        \<longrightarrow> pg_last_client_sequence p < pg_last_client_sequence p')"
  using run_framed [OF assms(1-3,5)] assms(4)
  by (auto simp: framed_def spent_def elim: pairing_advances_Some)

theorem client_sequences_are_not_reused_witness:
  "\<exists>p'. co_pairing (snd (controller_run start_deps [StartSilo (Uuid 1), StopSilo (Uuid 1)]
      sample_controller)) = Some p' \<and> 3 \<le> pg_last_client_sequence p'"
proof -
  let ?calls = "[StartSilo (Uuid 1), StopSilo (Uuid 1)]"
  obtain rs c' where run: "controller_run start_deps ?calls sample_controller = (rs, c')" by force
  have p: "co_pairing sample_controller = Some sample_pairing" by (simp add: sample_controller_def)
  from client_sequences_are_not_reused [OF _ sample_well_filed run p] run
  show ?thesis by (auto simp: sample_pairing_def simp del: controller_run.simps)
qed

section \<open>Lifecycle operations\<close>

text \<open>
  C22. An answered destroy removes the binding of its Silo and no other, and the answer carries a
  deletion proof for exactly this Silo, binding and environment, whose dispositions delete the
  binding's own compute instance, volume and key. A failed destroy changes no binding.
\<close>

theorem destroy_needs_a_bound_proof:
  assumes "cd_store D = memory_binding_ops" and "well_filed (co_store c)"
    and "controller_execute D (DestroySilo k confirm) c = (r, c')"
  shows "case r of
      Inl _ \<Rightarrow> map_of (co_store c') = map_of (co_store c)
    | Inr answer \<Rightarrow> map_of (co_store c') = (map_of (co_store c))(k := None)
        \<and> (\<exists>b result dproof. answer = Result result \<and> map_of (co_store c) k = Some b
            \<and> os_deletion_proof result = Some dproof
            \<and> dp_silo_id dproof = k \<and> dp_binding_id dproof = sb_binding_id b
            \<and> dp_remote_environment_id dproof = sb_remote_environment_id b
            \<and> dp_volume_id dproof = va_volume_id (sb_volume b)
            \<and> deletion_resources_are_bound (dp_resource_deletions dproof)
                (sb_remote_environment_id b) (va_volume_id (sb_volume b))
                (va_key_id (sb_volume b)))"
proof -
  have bound: "\<exists>dproof. os_deletion_proof x = Some dproof \<and> dp_silo_id dproof = sb_silo_id b
      \<and> dp_binding_id dproof = sb_binding_id b
      \<and> dp_remote_environment_id dproof = sb_remote_environment_id b
      \<and> dp_volume_id dproof = va_volume_id (sb_volume b)
      \<and> deletion_resources_are_bound (dp_resource_deletions dproof) (sb_remote_environment_id b)
          (va_volume_id (sb_volume b)) (va_key_id (sb_volume b))"
    if "result_bound x remote_operation.Destroy b now" for x b now
    using that
    by (auto simp: result_bound_def result_accepted_def proof_is_bound_def validate_result_proof_def
        validate_deletion_proof_def split: option.splits if_splits)
  have "outcome
      (\<lambda>answer c'. map_of (co_store c') = (map_of (co_store c))(k := None)
        \<and> (\<exists>b result now. answer = Result result \<and> map_of (co_store c) k = Some b
            \<and> sb_silo_id b = k \<and> result_bound result remote_operation.Destroy b now))
      (\<lambda>_ c'. map_of (co_store c') = map_of (co_store c))
      (controller_execute D (DestroySilo k confirm) c)"
    by (simp, rule outcome_mono [OF mbs.destroy_outcome [OF assms(1,2)]])
      (auto simp: found_def same_bindings_def)
  then show ?thesis using assms(3) bound by (cases r) (fastforce simp del: controller_execute.simps)+
qed

theorem destroy_needs_a_bound_proof_witness:
  "is_ok (fst (controller_execute destroy_deps (DestroySilo (Uuid 1) True) sample_controller))
   \<and> map_of (co_store (snd (controller_execute destroy_deps (DestroySilo (Uuid 1) True)
       sample_controller))) (Uuid 1) = None
   \<and> deletion_resources_are_bound sample_deletions (Uuid 3) (Uuid 6) (Uuid 7)"
proof -
  from destroy_needs_a_bound_proof [OF _ sample_well_filed destroy_answered] sample_lookup
  have "deletion_resources_are_bound sample_deletions (Uuid 3) (Uuid 6) (Uuid 7)"
    by (auto simp: sample_destroyed_def sample_volume_def)
  then show ?thesis by (simp add: destroy_answered is_ok_def del: controller_execute.simps)
qed

fun enforces_proxy :: "controller_call \<Rightarrow> uuid option" where
  "enforces_proxy (CreateSilo k _ _ _) = Some k"
| "enforces_proxy (StartSilo k) = Some k"
| "enforces_proxy (ConfigureSilo k _) = Some k"
| "enforces_proxy (CheckHealth k) = Some k"
| "enforces_proxy _ = None"

definition proxy_verified :: "silo_binding \<Rightarrow> u64 \<Rightarrow> bool" where
  "proxy_verified b now \<longleftrightarrow> (case (requires_proxy (sb_network b), sb_last_evidence b) of
       (False, _) \<Rightarrow> True
     | (True, None) \<Rightarrow> False
     | (True, Some ev) \<Rightarrow> validates_required_proxy ev (sb_network b)
         \<and> guest_evidence_validate ev (sb_binding_id b) (sb_remote_environment_id b) now = Inr ())"

lemma require_proxy_verified: "require_proxy_evidence b now = Inr () \<Longrightarrow> proxy_verified b now"
  by (auto simp: require_proxy_evidence_def proxy_verified_def split: option.splits if_splits bool.splits)

lemma require_proxy_verified_ex: "require_proxy_evidence b now = Inr () \<Longrightarrow> Ex (proxy_verified b)"
  by (blast intro: require_proxy_verified)

lemma put_stored:
  "put_binding D map_of b c c' \<Longrightarrow> sb_silo_id b = k \<Longrightarrow> map_of (co_store c') k = Some b"
  by (simp add: put_binding_def)

text \<open>
  After an answered create, start, network configuration or health check the stored binding
  holds, when its policy requires a proxy, evidence for this very binding that validates the
  policy: the proxy enforced, and no leak. A start is sent only when this held before it, at the
  clock reading of the check.
\<close>

theorem required_proxy_is_verified:
  assumes "cd_store D = memory_binding_ops" and "well_filed (co_store c)"
    and "controller_execute D call c = (Inr answer, c')" and "enforces_proxy call = Some k"
  shows "\<exists>b' result now. map_of (co_store c') k = Some b' \<and> proxy_verified b' now
    \<and> answer = Result result \<and> os_state result \<noteq> Blocked
    \<and> (call = StartSilo k
        \<longrightarrow> (\<exists>b. map_of (co_store c) k = Some b \<and> proxy_verified b (next_now c)))"
proof -
  let ?Q = "\<lambda>answer c'. \<exists>b' result now. map_of (co_store c') k = Some b' \<and> proxy_verified b' now
    \<and> answer = Result result \<and> os_state result \<noteq> Blocked"
  have "outcome ?Q (\<lambda>_ _. True) (controller_execute D call c)"
    using assms(4)
  proof (cases call)
    case (CreateSilo k' network ttl cost)
    then show ?thesis using assms(4)
      by (simp, intro outcome_mono [OF mbs.create_outcome [OF assms(1,2)]])
        (auto simp: created_def created_binding_def dest!: put_stored require_proxy_verified)
  next
    case (StartSilo k')
    then show ?thesis using assms(4)
      by (simp, intro outcome_mono [OF mbs.start_outcome [OF assms(1,2)]])
        (auto simp: found_def dest!: put_stored intro: require_proxy_verified_ex)
  next
    case (ConfigureSilo k' network)
    then show ?thesis using assms(4)
      by (simp, intro outcome_mono [OF mbs.configure_outcome [OF assms(1,2)]])
        (auto simp: found_def dest!: put_stored intro: require_proxy_verified_ex)
  next
    case (CheckHealth k')
    then show ?thesis using assms(4)
      by (simp, intro outcome_mono [OF mbs.health_outcome [OF assms(1,2)]])
        (auto simp: found_def dest!: put_stored intro: require_proxy_verified_ex)
  qed simp_all
  then have q: "?Q answer c'" using assms(3) by (simp del: controller_execute.simps)
  have "\<exists>b. map_of (co_store c) k = Some b \<and> proxy_verified b (next_now c)" if start: "call = StartSilo k"
  proof -
    obtain result where "fst (controller_start D k c) = Inr result"
      using assms(3) start by (auto simp: answer_as_def sbind_def split: prod.splits sum.splits)
    from start_checked [OF this assms(1)] show ?thesis by (blast intro: require_proxy_verified)
  qed
  with q show ?thesis by blast
qed

theorem required_proxy_is_verified_witness:
  "\<exists>b' now. map_of (co_store (snd (controller_execute start_deps (StartSilo (Uuid 1))
      sample_controller))) (Uuid 1) = Some b' \<and> requires_proxy (sb_network b') \<and> proxy_verified b' now"
proof -
  from required_proxy_is_verified [OF _ sample_well_filed start_answered, of "Uuid 1"]
  obtain b' now where "map_of (co_store (snd (controller_execute start_deps (StartSilo (Uuid 1))
      sample_controller))) (Uuid 1) = Some b'" "proxy_verified b' now"
    by (auto simp: start_answered simp del: controller_execute.simps)
  moreover from this(1) have "requires_proxy (sb_network b')"
    by (auto simp: start_answered simp del: controller_execute.simps)
  ultimately show ?thesis by blast
qed

section \<open>Interaction\<close>

text \<open>
  Answered input was valid and authorized at the clock reading of its check: a human session
  by the stored, live session of the Silo; automation by a stored, live and approved grant with
  the input scope, and only while no human session is live.
\<close>

theorem controller_input_is_authorized:
  assumes "cd_store D = memory_binding_ops"
    and "controller_execute D (Input k who events) c = (Inr answer, c')"
  shows "validate_input_events events = Inr ()
    \<and> (\<exists>b. map_of (co_store c) k = Some b
      \<and> (case who of
           interactive_principal.HumanSession u \<Rightarrow>
             (\<exists>s. sb_human_session b = Some s \<and> sa_authorization_id s = u \<and> \<not> sa_revoked s
               \<and> next_now c < sa_expires_at_unix_ms s \<and> sa_silo_id s = sb_silo_id b)
         | interactive_principal.Automation u \<Rightarrow>
             \<not> human_session_is_live (next_now c) b
             \<and> (\<exists>a \<in> set (sb_automation_authorizations b). aa_authorization_id a = u
                 \<and> \<not> aa_revoked a \<and> next_now c < aa_expires_at_unix_ms a
                 \<and> aa_approved_by_user a \<and> automation_scope.SendInput \<in> set (aa_scopes a))))"
proof -
  obtain receipt where "fst (controller_send_input D k who events c) = Inr receipt"
    using assms(2) by (auto simp: answer_as_def sbind_def split: prod.splits sum.splits)
  from send_input_checked [OF this assms(1)] obtain b x where
    b: "map_of (co_store c) k = Some b" "validate_input_events events = Inr ()"
    and ok: "authorize_interactive_principal b who (next_now c) automation_scope.SendInput True = Inr x"
    by blast
  show ?thesis
  proof (cases who)
    case (HumanSession u)
    then show ?thesis using b ok
      by (auto simp: filter_option_def validate_session_authorization_shape_def
          split: option.splits if_splits)
  next
    case (Automation u)
    then show ?thesis using b ok
      by (auto simp: validate_automation_authorization_shape_def find_Some_iff
          split: option.splits if_splits)
  qed
qed

theorem controller_input_is_authorized_witness:
  "validate_input_events sample_events = Inr () \<and> (\<exists>s. sb_human_session sample_binding = Some s
     \<and> sa_authorization_id s = Uuid 60 \<and> sample_clock < sa_expires_at_unix_ms s)"
proof -
  let ?D = "interactive_deps (agent_response.InputAccepted 2)"
  let ?call = "Input (Uuid 1) (interactive_principal.HumanSession (Uuid 60)) sample_events"
  obtain answer c' where "controller_execute ?D ?call sample_controller = (Inr answer, c')"
    using input_answered
    by (cases "controller_execute ?D ?call sample_controller";
        cases "fst (controller_execute ?D ?call sample_controller)") (auto simp: is_ok_def)
  moreover have "next_now sample_controller = sample_clock"
    by (simp add: next_now_def sample_controller_state)
  ultimately show ?thesis
    using controller_input_is_authorized [of ?D "Uuid 1" "interactive_principal.HumanSession (Uuid 60)"
        sample_events sample_controller answer c'] sample_lookup
    by (simp del: controller_execute.simps)
qed

section \<open>Pairing\<close>

text \<open>
  A pairing token that a pairing or a pin rotation presented, and that was answered or at
  least reached the transport, is refused for ever: any later call that presents it is refused
  before anything is sent.
\<close>

theorem local_pairing_tokens_are_one_time:
  assumes "cd_store D = memory_binding_ops" and "well_filed (co_store c)"
    and "presented_token first = Some u" and "controller_execute D first c = (r1, c1)"
    and "is_ok r1 \<or> co_transport c1 \<noteq> co_transport c"
    and "controller_run D calls c1 = (rs, c2)"
    and "presented_token again = Some u" and "controller_execute D again c2 = (r2, c3)"
  shows "\<not> is_ok r2 \<and> co_transport c3 = co_transport c2"
proof -
  have w1: "well_filed (co_store c1)" by (rule execute_well_filed [OF assms(1,2,4)])
  have w2: "well_filed (co_store c2)" by (rule run_well_filed [OF assms(1) w1 assms(6)])
  have "u \<in> set (co_used_pairing_tokens c1)"
    by (rule execute_presented(2) [OF assms(2-5)])
  with run_tokens [OF assms(1) w1 assms(6)] have "u \<in> set (co_used_pairing_tokens c2)" by blast
  then show ?thesis by (rule execute_presented(1) [OF w2 assms(7,8)])
qed

theorem local_pairing_tokens_are_one_time_witness:
  "is_ok (hd (fst (controller_run pairing_deps [RotatePin rotated_endpoint sample_approval,
       RevokePairing, PairWith sample_approval] sample_controller)))
   \<and> \<not> is_ok (last (fst (controller_run pairing_deps [RotatePin rotated_endpoint sample_approval,
       RevokePairing, PairWith sample_approval] sample_controller)))"
proof -
  let ?first = "RotatePin rotated_endpoint sample_approval"
  obtain r1 c1 where e1: "controller_execute pairing_deps ?first sample_controller = (r1, c1)" by force
  obtain rs c2 where e2: "controller_run pairing_deps [RevokePairing] c1 = (rs, c2)" by force
  obtain r2 c3 where e3: "controller_execute pairing_deps (PairWith sample_approval) c2 = (r2, c3)"
    by force
  have ok: "is_ok r1" using rotation_answered e1 by (simp del: controller_execute.simps)
  from local_pairing_tokens_are_one_time [OF _ sample_well_filed _ e1 _ e2 _ e3] ok
  have "\<not> is_ok r2" by simp
  moreover have "c2 = revoke_pairing c1" using e2 by (auto split: prod.splits)
  ultimately show ?thesis
    using ok e1 e3 by (simp del: controller_execute.simps(1,3) split: prod.splits)
qed

text \<open>
  C28. A pin rotation is all or nothing. Answered, it moved the endpoint and every binding to the
  new pin of the same origin, keeps the server, has dropped every grant of the old credential, and
  both the old and the new pin were heard. Refused, the endpoint and the bindings are unchanged
  and the old credential stays.
\<close>

theorem rotation_is_atomic:
  assumes "well_filed (co_store c)" and "controller_execute D (RotatePin endpoint approval) c = (r, c')"
  shows "case r of
      Inl _ \<Rightarrow> co_endpoint c' = co_endpoint c \<and> co_store c' = co_store c
        \<and> map_option pg_credential (co_pairing c') = map_option pg_credential (co_pairing c)
    | Inr _ \<Rightarrow> co_endpoint c' = endpoint
        \<and> (\<forall>k. map_of (co_store c') k = map_option (\<lambda>b. b\<lparr>sb_endpoint := endpoint,
              sb_human_session := None, sb_automation_authorizations := [],
              sb_last_screen_channel := None\<rparr>) (map_of (co_store c) k))
        \<and> same_https_origin (cd_parse_url D) (co_endpoint c) endpoint
        \<and> ep_pin endpoint \<noteq> ep_pin (co_endpoint c)
        \<and> map_option pg_server_id (co_pairing c') = map_option pg_server_id (co_pairing c)
        \<and> heard D (co_endpoint c) \<and> heard D endpoint"
proof -
  have "outcome (\<lambda>_ c'. \<exists>server_id. rotated D endpoint server_id c c') (\<lambda>_ c'. ledger_grows c c')
      (controller_execute D (RotatePin endpoint approval) c)"
    by (simp, rule outcome_mono [OF rotate_outcome [OF assms(1)]]) auto
  moreover have "move_binding endpoint = (\<lambda>b. b\<lparr>sb_endpoint := endpoint, sb_human_session := None,
      sb_automation_authorizations := [], sb_last_screen_channel := None\<rparr>)"
    by (simp add: fun_eq_iff move_binding_def)
  ultimately show ?thesis
    using assms(2)
    by (cases r) (auto simp: rotated_def ledger_grows_def pairing_advances_def
        simp del: controller_execute.simps split: option.splits)
qed

theorem rotation_is_atomic_witness:
  "co_endpoint (snd (controller_execute pairing_deps (RotatePin rotated_endpoint sample_approval)
      sample_controller)) = rotated_endpoint
   \<and> map_of (co_store (snd (controller_execute pairing_deps
        (RotatePin rotated_endpoint sample_approval) sample_controller))) (Uuid 1)
      = Some (move_binding rotated_endpoint sample_binding)"
proof -
  obtain r c' where e: "controller_execute pairing_deps (RotatePin rotated_endpoint sample_approval)
      sample_controller = (r, c')" by force
  have "is_ok r" using rotation_answered e by (simp del: controller_execute.simps)
  with rotation_is_atomic [OF sample_well_filed e] sample_lookup show ?thesis
    by (cases r) (simp_all add: e is_ok_def move_binding_def del: controller_execute.simps)
qed

section \<open>Snapshots\<close>

text \<open>
  A controller whose parts pass the checks of a restore is restored from the snapshot it
  exports: same endpoint, pairing, bindings and ledger of used tokens.
\<close>

theorem snapshots_round_trip:
  assumes "well_filed (co_store c)" and "length (co_store c) \<le> MAX_STORED_BINDINGS"
    and "\<And>k b. map_of (co_store c) k = Some b \<Longrightarrow> validate_binding_snapshot (cd_parse_url D) b = Inr ()"
    and "distinct (co_used_pairing_tokens c)"
    and "length (co_used_pairing_tokens c) \<le> MAX_REPLAY_WINDOW_ENTRIES"
    and "\<And>p. co_pairing c = Some p \<Longrightarrow> pairing_accepted p"
    and "endpoint_validate (cd_parse_url D) (co_endpoint c) = Inr ()"
  shows "\<exists>c'. from_snapshot D (co_endpoint c) transport clock (export_snapshot c) = Inr c'
    \<and> co_endpoint c' = co_endpoint c \<and> co_pairing c' = co_pairing c
    \<and> set (co_used_pairing_tokens c') = set (co_used_pairing_tokens c)
    \<and> map_of (co_store c') = map_of (co_store c)"
proof -
  have "\<exists>c'. from_snapshot D (co_endpoint c) transport clock (export_snapshot c) = Inr c'
    \<and> co_endpoint c' = co_endpoint c \<and> co_pairing c' = co_pairing c
    \<and> set (co_used_pairing_tokens c') = set (co_used_pairing_tokens c)
    \<and> well_filed (co_store c') \<and> map_of (co_store c') = map_of (co_store c)"
    by (rule from_snapshot_of_export) (fact assms)+
  then show ?thesis by blast
qed

lemma sample_restorable:
  "validate_binding_snapshot (cd_parse_url (controller_sample_deps ob pb ab)) sample_binding = Inr ()"
proof -
  have "validate_session_authorization_shape (sample_session (Uuid 60)) sample_binding = Inr ()"
    by (simp add: validate_session_authorization_shape_def sample_session_def nil_uuid_def
        lifetime_within_def checked_sub_def sample_clock_def MAX_HUMAN_SESSION_SECONDS_def)
  moreover have "validate_screen_channel_shape sample_channel sample_binding = Inr ()"
    by (simp add: validate_screen_channel_shape_def sample_channel_def nil_uuid_def sample_clock_def)
  moreover have "knows_authorization sample_binding (Uuid 60)"
    by (simp add: knows_authorization_def sample_session_def)
  moreover have "sb_last_screen_channel sample_binding = Some sample_channel"
    "sb_automation_authorizations sample_binding = []" "sb_last_interaction sample_binding = None"
    "sb_last_activity_at_unix_ms sample_binding = 1"
    by (simp_all add: sample_binding_def)
  ultimately show ?thesis
    using sample_endpoints(1) [of ob pb ab]
    by (simp add: validate_binding_snapshot_def nil_uuid_def sample_volume_def sample_policy_def
        sample_channel_def) (simp add: sample_evidence_def)
qed

lemma sample_pairing_accepted: "pairing_accepted sample_pairing"
  using sample_pairing_success
  by (simp add: pairing_accepted_def sample_pairing_def check_pairing_success_def
      valid_secret_token_def nonce_of_def str_len_def str_bytes_replicate list_all_iff
      ascii_class_defs nil_uuid_def sample_clock_def split: sum.splits if_splits)

theorem snapshots_round_trip_witness:
  "\<exists>c'. from_snapshot start_deps sample_endpoint 0 sample_host (export_snapshot sample_controller)
      = Inr c' \<and> map_of (co_store c') (Uuid 1) = Some sample_binding
    \<and> co_pairing c' = Some sample_pairing"
proof -
  have "\<exists>c'. from_snapshot start_deps (co_endpoint sample_controller) 0 sample_host
      (export_snapshot sample_controller) = Inr c'
    \<and> co_endpoint c' = co_endpoint sample_controller \<and> co_pairing c' = co_pairing sample_controller
    \<and> set (co_used_pairing_tokens c') = set (co_used_pairing_tokens sample_controller)
    \<and> map_of (co_store c') = map_of (co_store sample_controller)"
    by (rule snapshots_round_trip [OF sample_well_filed])
      (auto simp: sample_controller_def start_deps_def MAX_STORED_BINDINGS_def sample_restorable
        MAX_REPLAY_WINDOW_ENTRIES_def sample_pairing_accepted sample_endpoints split: if_splits)
  then show ?thesis by (auto simp: sample_controller_def)
qed

lemma str_bytes_eq_Nil: "str_bytes s = [] \<longleftrightarrow> s = []"
  by (cases s) (simp_all add: str_bytes_def utf8_bytes_def)

lemma input_event_checks_agree: "is_ok (check_input_event e) = is_ok (validate_input_event e)"
  by (cases e)
    (auto simp: validate_input_event_def bounded_text_def rbind_def is_ok_def str_len_def
      str_bytes_eq_Nil split: if_splits)

text \<open>
  The controller and the Agent accept the same batches of input events: what passes the local
  check is never refused as invalid input by the Agent, and nothing else reaches it.
\<close>

theorem input_checks_agree:
  "is_ok (validate_input_events events) = is_ok (Agent_Types.validate_input events)"
proof -
  have "is_ok (try_each check_input_event events) = is_ok (try_each validate_input_event events)"
  proof (induction events)
    case (Cons e events)
    then show ?case
      using input_event_checks_agree [of e]
      by (cases "check_input_event e"; cases "validate_input_event e") (simp_all add: is_ok_def)
  qed (simp add: is_ok_def)
  then show ?thesis
    by (simp add: validate_input_events_def Agent_Types.validate_input_def is_ok_def)
qed

text \<open>
  A human session that is opened anew leaves the last screen channel of the old session in
  the binding. The snapshot exported from then on is refused by every restore, because the channel
  names an authorization that is no longer stored.
\<close>

theorem reopened_session_breaks_the_snapshot:
  assumes "cd_store D = memory_binding_ops" and "well_filed (co_store c)"
    and "controller_execute D (OpenSession k seconds) c = (Inr (Interaction receipt), c')"
    and "ir_response receipt = agent_response.HumanSession session"
    and "map_of (co_store c) k = Some b" and "sb_last_screen_channel b = Some channel"
    and "sa_authorization_id session \<noteq> sc_authorization_id channel"
    and "\<not> list_ex (\<lambda>a. aa_authorization_id a = sc_authorization_id channel)
        (sb_automation_authorizations b)"
  shows "\<not> is_ok (from_snapshot D' endpoint transport clock (export_snapshot c'))"
proof -
  have "outcome
      (\<lambda>answer c'. \<exists>receipt s. answer = Interaction receipt
        \<and> ir_response receipt = agent_response.HumanSession s \<and> well_filed (co_store c')
        \<and> map_of (co_store c') k = Some (b\<lparr>sb_human_session := Some s,
            sb_last_interaction := Some receipt\<rparr>))
      (\<lambda>_ _. True) (controller_execute D (OpenSession k seconds) c)"
    by (simp, rule outcome_mono [OF mbs.open_session_outcome [OF assms(1,2)]])
      (use assms(5) in \<open>auto simp: interacted_def found_def put_binding_def\<close>)
  with assms(3,4) have stored: "well_filed (co_store c')"
    "map_of (co_store c') k = Some (b\<lparr>sb_human_session := Some session,
        sb_last_interaction := Some receipt\<rparr>)" (is "_ = Some ?b")
    by (simp_all del: controller_execute.simps)
  have "\<not> knows_authorization ?b (sc_authorization_id channel)"
    using assms(7,8) by (simp add: knows_authorization_def)
  with assms(6) have "validate_binding_snapshot u ?b \<noteq> Inr ()" for u
    by (auto simp: validate_binding_snapshot_def)
  moreover have "?b \<in> set (store_snapshot (co_store c'))"
    using map_of_SomeD [OF stored(2)] by (force simp: store_snapshot_set)
  ultimately have "from_bindings (cd_parse_url D') (store_snapshot (co_store c')) \<noteq> Inr store" for store
    by (auto simp: from_bindings_Inr)
  then show ?thesis
    by (cases "from_bindings (cd_parse_url D') (store_snapshot (co_store c'))")
      (auto simp: from_snapshot_def export_snapshot_def is_ok_def)
qed

theorem reopened_session_breaks_the_snapshot_witness:
  "\<not> is_ok (from_snapshot start_deps sample_endpoint 0 sample_host (export_snapshot
     (snd (controller_execute (interactive_deps (agent_response.HumanSession (sample_session (Uuid 61))))
       (OpenSession (Uuid 1) 60) sample_controller))))"
proof -
  have "\<not> is_ok (from_snapshot start_deps sample_endpoint (0::nat) sample_host (export_snapshot c'))"
    if "controller_execute (interactive_deps (agent_response.HumanSession (sample_session (Uuid 61))))
       (OpenSession (Uuid 1) 60) sample_controller = (Inr (Interaction receipt), c')"
      and "ir_response receipt = agent_response.HumanSession (sample_session (Uuid 61))"
    for receipt c'
    by (rule reopened_session_breaks_the_snapshot [OF _ sample_well_filed that sample_lookup,
          of sample_channel])
      (simp_all add: sample_binding_def sample_session_def sample_channel_def)
  from this [OF session_answered] show ?thesis
    by (simp add: session_answered del: controller_execute.simps)
qed

end
