(* ===== verification/Agent_Service.thy ===== *)
theory Agent_Service
  imports Agent_Core Auth_Store Controller_Types
begin

text \<open>
  The router of the Remote Agent (\<open>agent_service.rs\<close>): the four wire shapes, authentication of
  every other request than a pairing, the translation of the nine lifecycle operations into Agent
  commands and of Agent responses into protocol results, and the poisoning of the service when the
  durable Agent state is uncertain. The JSON codecs are parameters; the Agent is the interface
  \<open>service_agent_ops\<close>.
\<close>

section \<open>State and parameters\<close>

definition MAX_SAFE_MESSAGE_BYTES :: nat where "MAX_SAFE_MESSAGE_BYTES = 512"

record 'a service_agent_ops =
  sg_environment :: "'a \<Rightarrow> uuid \<Rightarrow> environment_record option"
  sg_execute :: "agent_request \<Rightarrow> 'a \<Rightarrow> (agent_error, agent_response, 'a) outcome"
  sg_maintenance_tick :: "'a \<Rightarrow> bool \<times> 'a"

fun is_store_error :: "agent_error + 'b \<Rightarrow> bool" where
  "is_store_error (Inl (agent_error.Store _)) = True"
| "is_store_error _ = False"

definition core_service_ops ::
    "('p, 's) agent_deps \<Rightarrow> ('p, 's) agent_core service_agent_ops" where
  "core_service_ops D =
     \<lparr>sg_environment = core_environment D, sg_execute = execute D,
      sg_maintenance_tick = (\<lambda>c. case sweep_expired D c of
         (results, c) \<Rightarrow> (list_ex is_store_error results, c))\<rparr>"

record service_response =
  sr_status_code :: u16
  sr_body :: "nat list"

definition protocol_response :: "nat list \<Rightarrow> service_response" where
  "protocol_response body = \<lparr>sr_status_code = 200, sr_body = body\<rparr>"

definition fixed_error :: "u16 \<Rightarrow> string \<Rightarrow> service_response" where
  "fixed_error status_code code =
     \<lparr>sr_status_code = status_code,
      sr_body = str_bytes (lit ''{\"error\":\"'' @ lit code @ lit ''\"}'')\<rparr>"

definition internal_error :: service_response where
  "internal_error = fixed_error 500 ''internal_error''"

datatype authenticated_wire_request =
    Operation operation_request_envelope
  | Agent agent_request
  | TlsPinRotationAuthorization tls_pin_rotation_authorization_request_envelope

record 'a agent_service =
  sv_auth :: auth_store
  sv_agent :: 'a
  sv_node :: node_disclosure
  sv_capabilities :: "remote_capability list"
  sv_clock :: host
  sv_credential_lifetime_ms :: u64
  sv_agent_state_poisoned :: bool

record 'a service_deps =
  sd_agent :: "'a service_agent_ops"
  sd_auth :: auth_deps
  sd_decode_pairing :: "nat list \<Rightarrow> str + pairing_request_envelope"
  sd_decode_authenticated :: "nat list \<Rightarrow> str + authenticated_wire_request"
  sd_encode_pairing :: "pairing_response_envelope \<Rightarrow> str + nat list"
  sd_encode_operation :: "operation_response_envelope \<Rightarrow> str + nat list"
  sd_encode_agent :: "agent_response_envelope \<Rightarrow> str + nat list"
  sd_encode_pin_rotation ::
    "tls_pin_rotation_authorization_response_envelope \<Rightarrow> str + nat list"

type_synonym 'a served = "service_response \<times> 'a agent_service"
type_synonym rejection = "rejection_code \<times> str"

definition sv_now :: "'a agent_service \<Rightarrow> u64 \<times> 'a agent_service" where
  "sv_now v = (case now_unix_ms (sv_clock v) of (t, h) \<Rightarrow> (t, v\<lparr>sv_clock := h\<rparr>))"

definition sv_new_v4 :: "'a agent_service \<Rightarrow> uuid \<times> 'a agent_service" where
  "sv_new_v4 v = (case new_v4 (sv_clock v) of (u, h) \<Rightarrow> (u, v\<lparr>sv_clock := h\<rparr>))"

definition in_auth ::
    "(auth_store \<Rightarrow> (auth_store_error, 'b, auth_store) outcome) \<Rightarrow> 'a agent_service
     \<Rightarrow> (auth_store_error, 'b, 'a agent_service) outcome" where
  "in_auth f v = (case f (sv_auth v) of (r, st) \<Rightarrow> (r, v\<lparr>sv_auth := st\<rparr>))"

definition in_agent ::
    "('a \<Rightarrow> (agent_error, 'b, 'a) outcome) \<Rightarrow> 'a agent_service
     \<Rightarrow> (agent_error, 'b, 'a agent_service) outcome" where
  "in_agent f v = (case f (sv_agent v) of (r, a) \<Rightarrow> (r, v\<lparr>sv_agent := a\<rparr>))"

definition server_id :: "'a agent_service \<Rightarrow> uuid" where
  "server_id v = au_server_id (as_state (sv_auth v))"

section \<open>Checks\<close>

definition service_valid_secret :: "str \<Rightarrow> bool" where
  "service_valid_secret value \<longleftrightarrow>
     32 \<le> str_len value \<and> str_len value \<le> 512 \<and> list_all is_base64url (str_bytes value)"

definition service_valid_nonce :: "str \<Rightarrow> bool" where
  "service_valid_nonce value \<longleftrightarrow>
     32 \<le> str_len value \<and> str_len value \<le> 128 \<and> list_all is_base64url (str_bytes value)"

definition valid_safe_message :: "str \<Rightarrow> bool" where
  "valid_safe_message value \<longleftrightarrow>
     value \<noteq> [] \<and> str_len value \<le> MAX_SAFE_MESSAGE_BYTES \<and> str_trim value = value
     \<and> \<not> list_ex (\<lambda>character. is_control character \<and> character \<noteq> 9) value"

datatype service_build_error = InvalidConfiguration

definition capability_is_available :: "remote_capability list \<Rightarrow> remote_operation \<Rightarrow> bool" where
  "capability_is_available capabilities operation \<longleftrightarrow>
     list_ex (\<lambda>capability. cap_operation capability = operation
                \<and> cap_availability capability = Available) capabilities"

definition unsafe_reason :: "remote_capability \<Rightarrow> bool" where
  "unsafe_reason capability \<longleftrightarrow>
     (case cap_availability capability of Available \<Rightarrow> False
      | capability_availability.Unavailable reason \<Rightarrow> \<not> valid_safe_message reason)"

definition service_validate_capabilities ::
    "remote_capability list \<Rightarrow> service_build_error + unit" where
  "service_validate_capabilities capabilities =
     (if length capabilities \<noteq> length ALL_OPERATIONS
         \<or> list_ex (\<lambda>operation. count_capability capabilities operation \<noteq> 1) ALL_OPERATIONS
         \<or> list_ex unsafe_reason capabilities
      then Inl InvalidConfiguration
      else if capability_is_available capabilities remote_operation.Create
              \<and> \<not> capability_is_available capabilities remote_operation.Destroy
      then Inl InvalidConfiguration
      else Inr ())"

definition agent_service_new ::
    "auth_store \<Rightarrow> 'a \<Rightarrow> node_disclosure \<Rightarrow> remote_capability list \<Rightarrow> host \<Rightarrow> u64
     \<Rightarrow> service_build_error + 'a agent_service" where
  "agent_service_new auth agent node capabilities clock credential_lifetime_ms =
     rbind (map_err (\<lambda>_. InvalidConfiguration) (node_disclosure_validate node)) (\<lambda>_.
     if nd_node_id node = nil_uuid
        \<or> \<not> (60000 \<le> credential_lifetime_ms
             \<and> credential_lifetime_ms \<le> MAX_CONTROL_CREDENTIAL_LIFETIME_MS)
     then Inl InvalidConfiguration
     else
       rbind (service_validate_capabilities capabilities) (\<lambda>_.
       Inr \<lparr>sv_auth = auth, sv_agent = agent, sv_node = node, sv_capabilities = capabilities,
            sv_clock = clock, sv_credential_lifetime_ms = credential_lifetime_ms,
            sv_agent_state_poisoned = False\<rparr>))"

definition validate_authenticated_metadata ::
    "u16 \<Rightarrow> uuid \<Rightarrow> str \<Rightarrow> u64 \<Rightarrow> u64 \<Rightarrow> u64 \<Rightarrow> rejection option" where
  "validate_authenticated_metadata protocol_version request_id nonce sequence_number
       sent_at_unix_ms now =
     (if protocol_version \<noteq> PROTOCOL_VERSION \<or> request_id = nil_uuid \<or> sequence_number = 0
         \<or> \<not> service_valid_nonce nonce
      then Some (rejection_code.InvalidRequest,
             lit ''The authenticated request metadata is invalid.'')
      else if MAX_CLOCK_SKEW_MS < abs_diff sent_at_unix_ms now
      then Some (StaleRequest,
             lit ''The authenticated request timestamp is outside the allowed window.'')
      else None)"

definition unavailable_reason :: "remote_capability list \<Rightarrow> remote_operation \<Rightarrow> str option" where
  "unavailable_reason capabilities operation =
     Option.bind (find (\<lambda>capability. cap_operation capability = operation) capabilities)
       (\<lambda>capability. case cap_availability capability of
          Available \<Rightarrow> None
        | capability_availability.Unavailable reason \<Rightarrow> Some reason)"

fun result_state :: "remote_operation \<Rightarrow> remote_result_state" where
  "result_state remote_operation.Create = remote_result_state.Created"
| "result_state remote_operation.Start = Started"
| "result_state remote_operation.Stop = remote_result_state.Stopped"
| "result_state remote_operation.Pause = remote_result_state.Paused"
| "result_state remote_operation.Snapshot = SnapshotCreated"
| "result_state remote_operation.Destroy = Destroyed"
| "result_state remote_operation.ConfigureNetwork = NetworkConfigured"
| "result_state remote_operation.Health = remote_result_state.Healthy"
| "result_state remote_operation.Logs = LogsReturned"

fun map_agent_error :: "agent_error \<Rightarrow> rejection" where
  "map_agent_error agent_error.Stale =
     (StaleRequest, lit ''The typed Agent request timestamp is stale.'')"
| "map_agent_error agent_error.Replay =
     (rejection_code.Replay, lit ''The typed Agent request was already consumed.'')"
| "map_agent_error (agent_error.Unauthorized _) =
     (rejection_code.Unauthorized, lit ''The typed Agent request is not authorized.'')"
| "map_agent_error agent_error.VersionMismatch =
     (rejection_code.InvalidRequest, lit ''The typed Agent request is invalid.'')"
| "map_agent_error (agent_error.InvalidRequest _) =
     (rejection_code.InvalidRequest, lit ''The typed Agent request is invalid.'')"
| "map_agent_error (agent_error.Json _) =
     (rejection_code.InvalidRequest, lit ''The typed Agent request is invalid.'')"
| "map_agent_error (agent_error.Provider message) =
     (if message = lit ''Required proxy evidence failed closed.''
      then (ProxyUnverified, lit ''The required proxy evidence did not verify.'')
      else (rejection_code.InvalidState,
            lit ''The local Agent cannot perform this operation in its current state.''))"
| "map_agent_error (agent_error.LimitExceeded _) =
     (rejection_code.LimitExceeded, lit ''The operation exceeded a fixed local limit.'')"
| "map_agent_error (agent_error.Unavailable _) =
     (rejection_code.InvalidState,
      lit ''The operation is unavailable in local provider configuration.'')"
| "map_agent_error _ =
     (rejection_code.InvalidState,
      lit ''The local Agent cannot perform this operation in its current state.'')"

definition operation_error_body :: "remote_operation \<Rightarrow> agent_error \<Rightarrow> operation_response_body" where
  "operation_error_body operation error =
     (case error of
        agent_error.Unavailable _ \<Rightarrow>
          operation_response_body.Unavailable operation
            (lit ''The operation is unavailable in local provider configuration.'')
      | _ \<Rightarrow> (case map_agent_error error of
           (code, message) \<Rightarrow> operation_response_body.Rejected code message))"

section \<open>Lifecycle results\<close>

text \<open>
  The checks of \<open>lifecycle_result\<close> on the three kinds of Agent response; \<open>expected\<close> is the pair of
  the binding id and the environment id of the request.
\<close>

definition fresh_activity :: "u64 \<Rightarrow> u64 \<Rightarrow> bool" where
  "fresh_activity activity now \<longleftrightarrow>
     activity \<noteq> 0 \<and> \<not> saturating_add now MAX_CLOCK_SKEW_MS < activity"

definition record_is_expected :: "environment_record \<Rightarrow> uuid \<Rightarrow> uuid \<times> uuid \<Rightarrow> bool" where
  "record_is_expected record silo_id expected \<longleftrightarrow>
     er_silo_id record = silo_id \<and> er_binding_id record = fst expected
     \<and> er_remote_environment_id record = snd expected"

definition environment_result ::
    "remote_operation \<Rightarrow> uuid \<Rightarrow> uuid \<times> uuid \<Rightarrow> uuid \<Rightarrow> environment_record option
     \<Rightarrow> environment_record \<Rightarrow> guest_evidence option \<Rightarrow> u64 \<Rightarrow> agent_error + operation_result" where
  "environment_result operation silo_id expected server stored record evidence now =
     (if \<not> record_is_expected record silo_id expected
         \<or> \<not> fresh_activity (er_last_activity_at_unix_ms record) now
         \<or> stored \<noteq> Some record
         \<or> operation \<in> {remote_operation.Create, remote_operation.Start,
              remote_operation.ConfigureNetwork, remote_operation.Health} \<and> evidence = None
         \<or> (case evidence of None \<Rightarrow> False
            | Some item \<Rightarrow> ge_binding_id item \<noteq> er_binding_id record
                \<or> ge_remote_environment_id item \<noteq> er_remote_environment_id record)
      then Inl (agent_error.InvalidState (lit ''Agent response binding mismatch.''))
      else if operation = remote_operation.Create
              \<and> (\<not> va_encrypted (er_volume record)
                 \<or> va_key_custody (er_volume record) \<noteq> UserControlled
                 \<or> va_volume_id (er_volume record) = nil_uuid
                 \<or> va_key_id (er_volume record) = nil_uuid)
      then Inl (agent_error.InvalidState (lit ''Create omitted encrypted volume attestation.''))
      else Inr \<lparr>os_operation = operation, os_silo_id = silo_id,
             os_binding_id = er_binding_id record,
             os_remote_environment_id = er_remote_environment_id record, os_server_id = server,
             os_last_activity_at_unix_ms = er_last_activity_at_unix_ms record,
             os_state = result_state operation,
             os_volume = (if operation = remote_operation.Create then Some (er_volume record)
                          else None),
             os_evidence = evidence, os_logs = None, os_next_cursor = None,
             os_deletion_proof = None\<rparr>)"

definition deletion_matches_record ::
    "environment_record \<Rightarrow> uuid \<Rightarrow> uuid \<times> uuid \<Rightarrow> deletion_proof \<Rightarrow> u64 \<Rightarrow> bool" where
  "deletion_matches_record record silo_id expected dproof now \<longleftrightarrow>
     er_state record = environment_state.Deleted
     \<and> record_is_expected record silo_id expected
     \<and> er_deletion_proof_id record = Some (dp_proof_id dproof)
     \<and> er_last_activity_at_unix_ms record = dp_deleted_at_unix_ms dproof
     \<and> fresh_activity (dp_deleted_at_unix_ms dproof) now
     \<and> dp_silo_id dproof = silo_id \<and> dp_binding_id dproof = fst expected
     \<and> dp_remote_environment_id dproof = snd expected
     \<and> dp_volume_id dproof = va_volume_id (er_volume record)
     \<and> dp_provider_receipt_id dproof \<noteq> nil_uuid
     \<and> deletion_resources_are_bound (dp_resource_deletions dproof)
         (er_remote_environment_id record) (va_volume_id (er_volume record))
         (va_key_id (er_volume record))"

definition destroy_result ::
    "uuid \<Rightarrow> uuid \<times> uuid \<Rightarrow> uuid \<Rightarrow> environment_record option \<Rightarrow> deletion_proof \<Rightarrow> u64
     \<Rightarrow> agent_error + operation_result" where
  "destroy_result silo_id expected server stored dproof now =
     rbind (ok_or (agent_error.InvalidState
              (lit ''Deleted environment is missing its durable record.'')) stored) (\<lambda>record.
     if \<not> deletion_matches_record record silo_id expected dproof now
     then Inl (agent_error.InvalidState
            (lit ''Deletion proof does not match the durable deleted environment record.''))
     else Inr \<lparr>os_operation = remote_operation.Destroy, os_silo_id = silo_id,
            os_binding_id = dp_binding_id dproof,
            os_remote_environment_id = dp_remote_environment_id dproof, os_server_id = server,
            os_last_activity_at_unix_ms = er_last_activity_at_unix_ms record,
            os_state = Destroyed, os_volume = None, os_evidence = None, os_logs = None,
            os_next_cursor = None, os_deletion_proof = Some dproof\<rparr>)"

text \<open>Log entries get ordinals from 1 and the time of the request.\<close>

fun number_logs :: "u64 \<Rightarrow> u64 \<Rightarrow> str list \<Rightarrow> remote_log_entry list" where
  "number_logs ordinal now [] = []"
| "number_logs ordinal now (message # rest) =
     \<lparr>le_sequence = ordinal, le_observed_at_unix_ms = now, le_level = Info, le_message = message\<rparr>
     # number_logs (ordinal + 1) now rest"

definition logs_result ::
    "uuid \<Rightarrow> uuid \<times> uuid \<Rightarrow> uuid \<Rightarrow> environment_record option \<Rightarrow> str list \<Rightarrow> u64 \<Rightarrow> u64
     \<Rightarrow> agent_error + operation_result" where
  "logs_result silo_id expected server stored entries activity now =
     rbind (ok_or (agent_error.InvalidState
              (lit ''Log response is missing its environment record.'')) stored) (\<lambda>record.
     if unat MAX_LOG_ENTRIES < length entries
        \<or> list_ex (\<lambda>entry. \<not> valid_safe_message entry) entries
        \<or> \<not> record_is_expected record silo_id expected
        \<or> er_last_activity_at_unix_ms record \<noteq> activity
        \<or> \<not> fresh_activity activity now
     then Inl (agent_error.LimitExceeded
            (lit ''Provider log output exceeded protocol limits.''))
     else Inr \<lparr>os_operation = remote_operation.Logs, os_silo_id = silo_id,
            os_binding_id = fst expected, os_remote_environment_id = snd expected,
            os_server_id = server, os_last_activity_at_unix_ms = activity,
            os_state = LogsReturned, os_volume = None, os_evidence = None,
            os_logs = Some (number_logs 1 now entries), os_next_cursor = None,
            os_deletion_proof = None\<rparr>)"

definition lifecycle_result ::
    "remote_operation \<Rightarrow> uuid \<Rightarrow> uuid \<times> uuid \<Rightarrow> uuid \<Rightarrow> environment_record option
     \<Rightarrow> agent_response \<Rightarrow> u64 \<Rightarrow> agent_error + operation_result" where
  "lifecycle_result operation silo_id expected server stored response now =
     (if server = nil_uuid
      then Inl (agent_error.InvalidState (lit ''Agent server identity is unavailable.''))
      else
        case response of
          Environment record evidence \<Rightarrow>
            if operation = remote_operation.Destroy \<or> operation = remote_operation.Logs
            then Inl (agent_error.InvalidState (lit ''Agent returned the wrong response variant.''))
            else environment_result operation silo_id expected server stored record evidence now
        | DeletedEnvironment dproof \<Rightarrow>
            if operation = remote_operation.Destroy
            then destroy_result silo_id expected server stored dproof now
            else Inl (agent_error.InvalidState (lit ''Agent returned the wrong response variant.''))
        | agent_response.Logs entries activity \<Rightarrow>
            if operation = remote_operation.Logs
            then logs_result silo_id expected server stored entries activity now
            else Inl (agent_error.InvalidState (lit ''Agent returned the wrong response variant.''))
        | _ \<Rightarrow> Inl (agent_error.InvalidState (lit ''Agent returned the wrong response variant.'')))"

section \<open>Responses\<close>

definition serialize_bounded :: "('e \<Rightarrow> str + nat list) \<Rightarrow> 'e \<Rightarrow> unit + nat list" where
  "serialize_bounded to_vec value =
     rbind (map_err (\<lambda>_. ()) (to_vec value)) (\<lambda>raw.
     if MAX_MESSAGE_BYTES < length raw then Inl () else Inr raw)"

text \<open>\<open>serialize_bounded(..).map(ServiceResponse::protocol).unwrap_or_else(internal_error)\<close>\<close>

definition protocol_or_internal :: "unit + nat list \<Rightarrow> service_response" where
  "protocol_or_internal r =
     (case r of Inr raw \<Rightarrow> protocol_response raw | Inl _ \<Rightarrow> internal_error)"

text \<open>\<open>ResponseMetadata\<close>: the envelope of a body; \<open>new\<close> draws the response id and the nonce.\<close>

record response_metadata =
  rm_response_id :: uuid
  rm_in_reply_to :: uuid
  rm_nonce :: uuid
  rm_sent_at_unix_ms :: u64
  rm_sequence :: u64

definition response_metadata_new ::
    "uuid \<Rightarrow> u64 \<Rightarrow> u64 \<Rightarrow> 'a agent_service \<Rightarrow> response_metadata \<times> 'a agent_service" where
  "response_metadata_new in_reply_to sent_at_unix_ms sequence_number v =
     (let (response_id, v) = sv_new_v4 v; (nonce, v) = sv_new_v4 v in
      (\<lparr>rm_response_id = response_id, rm_in_reply_to = in_reply_to, rm_nonce = nonce,
        rm_sent_at_unix_ms = sent_at_unix_ms, rm_sequence = sequence_number\<rparr>, v))"

definition envelope_of :: "response_metadata \<Rightarrow> 'b \<Rightarrow> 'b response_envelope" where
  "envelope_of metadata body =
     \<lparr>re_protocol_version = PROTOCOL_VERSION, re_response_id = rm_response_id metadata,
      re_in_reply_to = rm_in_reply_to metadata, re_nonce = uuid_simple (rm_nonce metadata),
      re_sent_at_unix_ms = rm_sent_at_unix_ms metadata, re_sequence = rm_sequence metadata,
      re_body = body\<rparr>"

definition operation_body ::
    "'a service_deps \<Rightarrow> uuid \<Rightarrow> u64 \<Rightarrow> u64 \<Rightarrow> operation_response_body \<Rightarrow> 'a agent_service \<Rightarrow> 'a served"
  where
  "operation_body D in_reply_to now sequence_number body v =
     (let (metadata, v) = response_metadata_new in_reply_to now sequence_number v in
      case serialize_bounded (sd_encode_operation D) (envelope_of metadata body) of
        Inr raw \<Rightarrow> (protocol_response raw, v)
      | Inl _ \<Rightarrow>
          (protocol_or_internal (serialize_bounded (sd_encode_operation D)
             (envelope_of metadata (operation_response_body.Rejected rejection_code.LimitExceeded
                (lit ''The local response exceeded the protocol size limit.'')))), v))"

definition agent_body ::
    "'a service_deps \<Rightarrow> uuid \<Rightarrow> u64 \<Rightarrow> u64 \<Rightarrow> agent_control_response_body \<Rightarrow> 'a agent_service
     \<Rightarrow> 'a served" where
  "agent_body D in_reply_to now sequence_number body v =
     (let (metadata, v) = response_metadata_new in_reply_to now sequence_number v in
      case serialize_bounded (sd_encode_agent D) (envelope_of metadata body) of
        Inr raw \<Rightarrow> (protocol_response raw, v)
      | Inl _ \<Rightarrow>
          (protocol_or_internal (serialize_bounded (sd_encode_agent D)
             (envelope_of metadata (agent_control_response_body.Rejected rejection_code.LimitExceeded
                (lit ''The local response exceeded the protocol size limit.'')))), v))"

definition pin_rotation_body ::
    "'a service_deps \<Rightarrow> uuid \<Rightarrow> u64 \<Rightarrow> u64 \<Rightarrow> tls_pin_rotation_authorization_response_body
     \<Rightarrow> 'a agent_service \<Rightarrow> 'a served" where
  "pin_rotation_body D in_reply_to now sequence_number body v =
     (let (metadata, v) = response_metadata_new in_reply_to now sequence_number v in
      (protocol_or_internal (serialize_bounded (sd_encode_pin_rotation D)
         (envelope_of metadata body)), v))"

text \<open>
  The sequence of a rejection: the one reserved with the authentication, or a new one; no sequence
  means an internal error.
\<close>

definition rejecting ::
    "'a service_deps \<Rightarrow> u64 option \<Rightarrow> (u64 \<Rightarrow> 'a agent_service \<Rightarrow> 'a served) \<Rightarrow> 'a agent_service
     \<Rightarrow> 'a served" where
  "rejecting D reserved_sequence respond v =
     (case reserved_sequence of
        Some sequence_number \<Rightarrow> respond sequence_number v
      | None \<Rightarrow>
          (case in_auth (reserve_response_sequence (sd_auth D)) v of
             (Inl _, v) \<Rightarrow> (internal_error, v)
           | (Inr sequence_number, v) \<Rightarrow> respond sequence_number v))"

definition operation_rejection ::
    "'a service_deps \<Rightarrow> uuid \<Rightarrow> rejection \<Rightarrow> u64 \<Rightarrow> u64 option \<Rightarrow> 'a agent_service \<Rightarrow> 'a served"
  where
  "operation_rejection D in_reply_to why now reserved_sequence =
     rejecting D reserved_sequence (\<lambda>sequence_number.
       operation_body D in_reply_to now sequence_number
         (operation_response_body.Rejected (fst why) (snd why)))"

definition agent_rejection ::
    "'a service_deps \<Rightarrow> uuid \<Rightarrow> rejection \<Rightarrow> u64 \<Rightarrow> u64 option \<Rightarrow> 'a agent_service \<Rightarrow> 'a served"
  where
  "agent_rejection D in_reply_to why now reserved_sequence =
     rejecting D reserved_sequence (\<lambda>sequence_number.
       agent_body D in_reply_to now sequence_number
         (agent_control_response_body.Rejected (fst why) (snd why)))"

definition pin_rotation_rejection ::
    "'a service_deps \<Rightarrow> uuid \<Rightarrow> rejection \<Rightarrow> u64 \<Rightarrow> u64 option \<Rightarrow> 'a agent_service \<Rightarrow> 'a served"
  where
  "pin_rotation_rejection D in_reply_to why now reserved_sequence =
     rejecting D reserved_sequence (\<lambda>sequence_number.
       pin_rotation_body D in_reply_to now sequence_number
         (tls_pin_rotation_authorization_response_body.Rejected (fst why) (snd why)))"

text \<open>The pairing envelopes take their nonce from \<open>fresh_nonce\<close>, a simple UUID as well.\<close>

definition pairing_envelope ::
    "'a service_deps \<Rightarrow> uuid \<Rightarrow> u64 \<Rightarrow> u64 \<Rightarrow> pairing_response_body \<Rightarrow> 'a agent_service \<Rightarrow> 'a served"
  where
  "pairing_envelope D in_reply_to now sequence_number body v =
     (let (metadata, v) = response_metadata_new in_reply_to now sequence_number v in
      (protocol_or_internal (serialize_bounded (sd_encode_pairing D)
         (envelope_of metadata body)), v))"

definition pairing_rejection ::
    "'a service_deps \<Rightarrow> uuid \<Rightarrow> pairing_rejection_code \<Rightarrow> string \<Rightarrow> u64 \<Rightarrow> 'a agent_service \<Rightarrow> 'a served"
  where
  "pairing_rejection D in_reply_to code message now =
     rejecting D None (\<lambda>sequence_number.
       pairing_envelope D in_reply_to now sequence_number
         (pairing_response_body.Rejected code (lit message)))"

section \<open>Authentication\<close>

text \<open>
  What a failed \<open>authenticate_operation\<close> is answered with; \<open>active\<close> is
  \<open>has_active_credentials\<close>.
\<close>

fun authentication_rejection :: "bool \<Rightarrow> auth_store_error \<Rightarrow> rejection" where
  "authentication_rejection active auth_store_error.Replay =
     (rejection_code.Replay, lit ''The authenticated request was already consumed.'')"
| "authentication_rejection active error =
     (if error \<in> {CredentialInvalid, CredentialExpired, CredentialRevoked, InvalidRequestIdentity}
      then if active
        then (rejection_code.Unauthorized,
              lit ''The bearer credential is invalid, expired, or revoked.'')
        else (rejection_code.NotPaired, lit ''A paired control credential is required.'')
      else (rejection_code.InvalidState,
            lit ''The local authentication state could not accept the request.''))"

definition authenticate_request ::
    "'a service_deps \<Rightarrow> str option \<Rightarrow> uuid \<Rightarrow> str \<Rightarrow> u64 \<Rightarrow> u64 \<Rightarrow> 'a agent_service
     \<Rightarrow> (rejection, authenticated_operation, 'a agent_service) outcome" where
  "authenticate_request D bearer request_id nonce sequence_number now v =
     (case bearer of
        None \<Rightarrow> (Inl (rejection_code.NotPaired, lit ''A paired control credential is required.''), v)
      | Some credential \<Rightarrow>
          (case in_auth (authenticate_operation (sd_auth D) credential request_id nonce
                   sequence_number now) v of
             (Inr authenticated, v) \<Rightarrow> (Inr authenticated, v)
           | (Inl error, v) \<Rightarrow>
               (Inl (authentication_rejection (has_active_credentials now (sv_auth v)) error), v)))"

definition uncertain_state :: rejection where
  "uncertain_state = (rejection_code.InvalidState,
     lit ''The durable Agent state is uncertain; operator restart is required.'')"

section \<open>Lifecycle operations\<close>

record mapped_lifecycle_command =
  ml_command :: agent_command
  ml_binding_id :: uuid
  ml_remote_environment_id :: uuid

definition invalid_operation :: rejection where
  "invalid_operation = (rejection_code.InvalidRequest, lit ''The operation request is invalid.'')"

definition bound_environment ::
    "'a service_deps \<Rightarrow> 'a agent_service \<Rightarrow> uuid \<Rightarrow> uuid \<Rightarrow> uuid \<Rightarrow> rejection + unit" where
  "bound_environment D v silo_id binding_id remote_environment_id =
     (if binding_id = nil_uuid \<or> remote_environment_id = nil_uuid then Inl invalid_operation
      else rbind (ok_or (rejection_code.InvalidState,
               lit ''No bound remote environment exists for this Silo.'')
             (sg_environment (sd_agent D) (sv_agent v) silo_id)) (\<lambda>record.
        if er_binding_id record \<noteq> binding_id
           \<or> er_remote_environment_id record \<noteq> remote_environment_id
        then Inl (rejection_code.InvalidRequest,
               lit ''The operation binding does not match the stored environment.'')
        else Inr ()))"

definition mapped_when_bound ::
    "'a service_deps \<Rightarrow> 'a agent_service \<Rightarrow> uuid \<Rightarrow> uuid \<Rightarrow> uuid \<Rightarrow> agent_command
     \<Rightarrow> rejection + mapped_lifecycle_command" where
  "mapped_when_bound D v silo_id binding_id remote_environment_id command =
     rbind (bound_environment D v silo_id binding_id remote_environment_id) (\<lambda>_.
     Inr \<lparr>ml_command = command, ml_binding_id = binding_id,
          ml_remote_environment_id = remote_environment_id\<rparr>)"

text \<open>\<open>map_lifecycle_command\<close>: a \<open>Create\<close> draws the two identities of the new environment.\<close>

definition mapped_create ::
    "uuid \<Rightarrow> remote_network_policy \<Rightarrow> u64 \<Rightarrow> bool \<Rightarrow> 'a agent_service
     \<Rightarrow> (rejection, mapped_lifecycle_command, 'a agent_service) outcome" where
  "mapped_create silo_id network ttl_seconds cost_acknowledged v =
     (if \<not> (60 \<le> ttl_seconds \<and> ttl_seconds \<le> MAX_ENVIRONMENT_TTL_SECONDS) \<or> \<not> cost_acknowledged
      then (Inl (rejection_code.InvalidRequest,
                 lit ''Create requires bounded TTL and explicit cost acknowledgement.''), v)
      else
        let (binding_id, v) = sv_new_v4 v; (remote_environment_id, v) = sv_new_v4 v in
        (Inr \<lparr>ml_command = agent_command.Create silo_id binding_id remote_environment_id
                ttl_seconds network cost_acknowledged,
              ml_binding_id = binding_id, ml_remote_environment_id = remote_environment_id\<rparr>, v))"

fun map_lifecycle_command ::
    "'a service_deps \<Rightarrow> uuid \<Rightarrow> operation_body \<Rightarrow> 'a agent_service
     \<Rightarrow> (rejection, mapped_lifecycle_command, 'a agent_service) outcome" where
  "map_lifecycle_command D silo_id (operation_body.Create network ttl_seconds cost_acknowledged) v =
     mapped_create silo_id network ttl_seconds cost_acknowledged v"
| "map_lifecycle_command D silo_id (operation_body.Start b r) v =
     (mapped_when_bound D v silo_id b r (agent_command.Start silo_id), v)"
| "map_lifecycle_command D silo_id (operation_body.Stop b r) v =
     (mapped_when_bound D v silo_id b r (agent_command.Stop silo_id), v)"
| "map_lifecycle_command D silo_id (operation_body.Pause b r) v =
     (mapped_when_bound D v silo_id b r (agent_command.Pause silo_id), v)"
| "map_lifecycle_command D silo_id (operation_body.Snapshot b r) v =
     (mapped_when_bound D v silo_id b r (agent_command.Snapshot silo_id), v)"
| "map_lifecycle_command D silo_id (operation_body.Destroy b r confirm_destroy) v =
     (mapped_when_bound D v silo_id b r (agent_command.Destroy silo_id confirm_destroy), v)"
| "map_lifecycle_command D silo_id (operation_body.ConfigureNetwork b r network) v =
     (mapped_when_bound D v silo_id b r (agent_command.ConfigureNetwork silo_id network), v)"
| "map_lifecycle_command D silo_id (operation_body.Health b r) v =
     (mapped_when_bound D v silo_id b r (agent_command.Health silo_id), v)"
| "map_lifecycle_command D silo_id (operation_body.Logs b r cursor limit) v =
     (rbind (bound_environment D v silo_id b r) (\<lambda>_.
      if cursor \<noteq> None \<or> limit = 0 \<or> MAX_LOG_ENTRIES < limit
      then Inl (rejection_code.InvalidRequest, lit
        ''Logs require a 1-200 limit; provider pagination is not available in V0.9.'')
      else Inr \<lparr>ml_command = agent_command.Logs silo_id limit, ml_binding_id = b,
             ml_remote_environment_id = r\<rparr>), v)"

text \<open>The Agent request of an authenticated operation: the credential is the one of the bearer.\<close>

definition lifecycle_request ::
    "operation_request_envelope \<Rightarrow> uuid \<Rightarrow> agent_command \<Rightarrow> agent_request" where
  "lifecycle_request request credential_id command =
     \<lparr>rq_protocol_version = or_protocol_version request, rq_request_id = or_request_id request,
      rq_nonce = or_nonce request, rq_sequence = or_sequence request,
      rq_sent_at_unix_ms = or_sent_at_unix_ms request,
      rq_principal = \<lparr>p_kind = ControlPlane, p_credential_id = credential_id,
                      p_authorization_id = None\<rparr>,
      rq_command = command\<rparr>"

text \<open>
  The execution of a mapped command. A store error of the Agent poisons the service.
\<close>

definition poison_on_store_error ::
    "agent_error \<Rightarrow> 'a agent_service \<Rightarrow> 'a agent_service" where
  "poison_on_store_error error v =
     (case error of agent_error.Store _ \<Rightarrow> v\<lparr>sv_agent_state_poisoned := True\<rparr> | _ \<Rightarrow> v)"

definition execute_lifecycle ::
    "'a service_deps \<Rightarrow> operation_request_envelope \<Rightarrow> uuid \<Rightarrow> remote_operation
     \<Rightarrow> mapped_lifecycle_command \<Rightarrow> u64 \<Rightarrow> 'a agent_service
     \<Rightarrow> operation_response_body \<times> 'a agent_service" where
  "execute_lifecycle D request credential_id operation mapped now v =
     (case in_agent (sg_execute (sd_agent D)
              (lifecycle_request request credential_id (ml_command mapped))) v of
        (Inr response, v) \<Rightarrow>
          (case lifecycle_result operation (or_silo_id request)
                  (ml_binding_id mapped, ml_remote_environment_id mapped) (server_id v)
                  (sg_environment (sd_agent D) (sv_agent v) (or_silo_id request)) response now of
             Inr result \<Rightarrow> (operation_response_body.Success result, v)
           | Inl error \<Rightarrow> (operation_error_body operation error, v))
      | (Inl error, v) \<Rightarrow>
          (operation_error_body operation error, poison_on_store_error error v))"

definition route_authenticated_operation ::
    "'a service_deps \<Rightarrow> operation_request_envelope \<Rightarrow> authenticated_operation \<Rightarrow> u64
     \<Rightarrow> 'a agent_service \<Rightarrow> 'a served" where
  "route_authenticated_operation D request authenticated now v =
     (let reply = operation_body D (or_request_id request) now
            (ao_response_sequence authenticated);
          reject = (\<lambda>why. operation_rejection D (or_request_id request) why now
            (Some (ao_response_sequence authenticated))) in
      if sv_agent_state_poisoned v then reject uncertain_state v
      else
        let operation = operation_body_operation (or_body request) in
        case map_lifecycle_command D (or_silo_id request) (or_body request) v of
          (Inl why, v) \<Rightarrow> reject why v
        | (Inr mapped, v) \<Rightarrow>
            (case if operation \<noteq> remote_operation.Destroy
                  then unavailable_reason (sv_capabilities v) operation else None of
               Some reason \<Rightarrow> reply (operation_response_body.Unavailable operation reason) v
             | None \<Rightarrow>
                 (case execute_lifecycle D request (ao_credential_id authenticated) operation
                         mapped now v of
                    (body, v) \<Rightarrow> reply body v)))"

definition route_operation ::
    "'a service_deps \<Rightarrow> operation_request_envelope \<Rightarrow> str option \<Rightarrow> 'a agent_service \<Rightarrow> 'a served"
  where
  "route_operation D request bearer v =
     (let (now, v) = sv_now v;
          reject = (\<lambda>why. operation_rejection D (or_request_id request) why now None) in
      case validate_authenticated_metadata (or_protocol_version request) (or_request_id request)
             (or_nonce request) (or_sequence request) (or_sent_at_unix_ms request) now of
        Some why \<Rightarrow> reject why v
      | None \<Rightarrow>
          if or_silo_id request = nil_uuid then reject invalid_operation v
          else
            case authenticate_request D bearer (or_request_id request) (or_nonce request)
                   (or_sequence request) now v of
              (Inl why, v) \<Rightarrow> reject why v
            | (Inr authenticated, v) \<Rightarrow>
                route_authenticated_operation D request authenticated now v)"

section \<open>Interactive commands\<close>

fun is_interactive_command :: "agent_command \<Rightarrow> bool" where
  "is_interactive_command (agent_command.OpenHumanSession _ _) = True"
| "is_interactive_command (agent_command.CloseHumanSession _) = True"
| "is_interactive_command (agent_command.GrantAutomation _ _ _ _) = True"
| "is_interactive_command (agent_command.RevokeAutomation _ _) = True"
| "is_interactive_command (agent_command.OpenScreen _) = True"
| "is_interactive_command (agent_command.SendInput _ _) = True"
| "is_interactive_command _ = False"

datatype expected_agent_response = HumanSession | Automation | Screen | InputAccepted nat

text \<open>\<open>from_command\<close> is undefined on the commands that \<open>is_interactive_command\<close> refuses.\<close>

fun from_command :: "agent_command \<Rightarrow> expected_agent_response option" where
  "from_command (agent_command.OpenHumanSession _ _) = Some expected_agent_response.HumanSession"
| "from_command (agent_command.CloseHumanSession _) = Some expected_agent_response.HumanSession"
| "from_command (agent_command.GrantAutomation _ _ _ _) = Some expected_agent_response.Automation"
| "from_command (agent_command.RevokeAutomation _ _) = Some expected_agent_response.Automation"
| "from_command (agent_command.OpenScreen _) = Some expected_agent_response.Screen"
| "from_command (agent_command.SendInput _ events) =
     Some (expected_agent_response.InputAccepted (length events))"
| "from_command _ = None"

lemma from_command_is_defined: "is_interactive_command c \<longleftrightarrow> from_command c \<noteq> None"
  by (cases c) simp_all

fun matches_response :: "expected_agent_response \<Rightarrow> agent_response \<Rightarrow> bool" where
  "matches_response expected_agent_response.HumanSession (agent_response.HumanSession _) = True"
| "matches_response expected_agent_response.Automation (agent_response.Automation _) = True"
| "matches_response expected_agent_response.Screen (agent_response.Screen _) = True"
| "matches_response (expected_agent_response.InputAccepted expected)
     (agent_response.InputAccepted event_count) = (expected = event_count)"
| "matches_response _ _ = False"

definition agent_error_body :: "agent_error \<Rightarrow> agent_control_response_body" where
  "agent_error_body error =
     (case error of
        agent_error.Unavailable _ \<Rightarrow>
          agent_control_response_body.Unavailable (lit
            ''The interactive operation is unavailable in local provider configuration.'')
      | _ \<Rightarrow> (case map_agent_error error of
           (code, message) \<Rightarrow> agent_control_response_body.Rejected code message))"

definition execute_interactive ::
    "'a service_deps \<Rightarrow> agent_request \<Rightarrow> 'a agent_service
     \<Rightarrow> agent_control_response_body \<times> 'a agent_service" where
  "execute_interactive D request v =
     (case in_agent (sg_execute (sd_agent D) request) v of
        (Inr response, v) \<Rightarrow>
          (if (case from_command (rq_command request) of
                 None \<Rightarrow> False | Some expected \<Rightarrow> matches_response expected response)
           then agent_control_response_body.Success response
           else agent_control_response_body.Rejected rejection_code.InvalidState
             (lit ''The local Agent returned an unexpected response type.''), v)
      | (Inl error, v) \<Rightarrow> (agent_error_body error, poison_on_store_error error v))"

definition route_authenticated_agent ::
    "'a service_deps \<Rightarrow> agent_request \<Rightarrow> authenticated_operation \<Rightarrow> u64 \<Rightarrow> 'a agent_service
     \<Rightarrow> 'a served" where
  "route_authenticated_agent D request authenticated now v =
     (let reject = (\<lambda>why. agent_rejection D (rq_request_id request) why now
            (Some (ao_response_sequence authenticated))) in
      if sv_agent_state_poisoned v then reject uncertain_state v
      else if \<not> is_interactive_command (rq_command request)
      then reject (rejection_code.InvalidRequest,
             lit ''This endpoint accepts only the fixed interactive Agent commands.'') v
      else if p_credential_id (rq_principal request) \<noteq> ao_credential_id authenticated
      then reject (rejection_code.Unauthorized,
             lit ''The authenticated credential does not match the request principal.'') v
      else
        case execute_interactive D request v of
          (body, v) \<Rightarrow> agent_body D (rq_request_id request) now
                         (ao_response_sequence authenticated) body v)"

definition route_agent ::
    "'a service_deps \<Rightarrow> agent_request \<Rightarrow> str option \<Rightarrow> 'a agent_service \<Rightarrow> 'a served" where
  "route_agent D request bearer v =
     (let (now, v) = sv_now v;
          reject = (\<lambda>why. agent_rejection D (rq_request_id request) why now None) in
      case validate_authenticated_metadata (rq_protocol_version request) (rq_request_id request)
             (rq_nonce request) (rq_sequence request) (rq_sent_at_unix_ms request) now of
        Some why \<Rightarrow> reject why v
      | None \<Rightarrow>
          (case authenticate_request D bearer (rq_request_id request) (rq_nonce request)
                  (rq_sequence request) now v of
             (Inl why, v) \<Rightarrow> reject why v
           | (Inr authenticated, v) \<Rightarrow> route_authenticated_agent D request authenticated now v))"

section \<open>Pairing and TLS pin rotation\<close>

fun pairing_error :: "auth_store_error \<Rightarrow> (pairing_rejection_code \<times> string) option" where
  "pairing_error PairingTokenExpired =
     Some (TokenExpired, ''The one-time pairing token has expired.'')"
| "pairing_error auth_store_error.Replay =
     Some (pairing_rejection_code.Replay, ''The pairing request was already consumed.'')"
| "pairing_error CredentialLimitReached =
     Some (pairing_rejection_code.LimitExceeded,
           ''The local pairing state reached its configured limit.'')"
| "pairing_error PinRotationAuthorizationInvalid =
     Some (RotationAuthorizationInvalid,
           ''The TLS pin rotation authorization is invalid, expired, or already consumed.'')"
| "pairing_error PairingTokenInvalid =
     Some (TokenInvalid, ''The one-time pairing token is invalid.'')"
| "pairing_error CredentialInvalid =
     Some (TokenInvalid, ''The one-time pairing token is invalid.'')"
| "pairing_error InvalidRequestIdentity =
     Some (TokenInvalid, ''The one-time pairing token is invalid.'')"
| "pairing_error (InvalidLifetime _) =
     Some (TokenInvalid, ''The one-time pairing token is invalid.'')"
| "pairing_error _ = None"

text \<open>The refusals of a well-formed pairing request that are decided before its token is redeemed.\<close>

definition pairing_refusal ::
    "pairing_request_body \<Rightarrow> u64 \<Rightarrow> (pairing_rejection_code \<times> string) option" where
  "pairing_refusal body now =
     (if \<not> pb_approved_by_user body
      then Some (ApprovalRequired, ''Explicit local user approval is required.'')
      else if pb_pairing_token_expires_at_unix_ms body \<le> now
      then Some (TokenExpired, ''The one-time pairing token has expired.'')
      else if AUTH_PAIRING_TOKEN_LIFETIME_MS < pb_pairing_token_expires_at_unix_ms body - now
              \<or> \<not> service_valid_secret (pb_pairing_token body)
      then Some (TokenInvalid, ''The one-time pairing token is invalid.'')
      else None)"

definition redeem ::
    "'a service_deps \<Rightarrow> pairing_request_envelope \<Rightarrow> u64 \<Rightarrow> 'a agent_service
     \<Rightarrow> (auth_store_error, pairing_grant, 'a agent_service) outcome" where
  "redeem D request now v =
     (let body = pq_body request in
      in_auth (case pb_tls_pin_rotation body of
          Some rotation \<Rightarrow>
            redeem_pairing_token_for_rotation (sd_auth D) (pq_request_id request)
              (pq_nonce request) (pb_pairing_token_id body) (pb_pairing_token body)
              (pb_pairing_token_expires_at_unix_ms body) now (sv_credential_lifetime_ms v) rotation
        | None \<Rightarrow>
            redeem_pairing_token (sd_auth D) (pq_request_id request)
              (pq_nonce request) (pb_pairing_token_id body) (pb_pairing_token body)
              (pb_pairing_token_expires_at_unix_ms body) now (sv_credential_lifetime_ms v)) v)"

definition pairing_success_body :: "'a agent_service \<Rightarrow> pairing_grant \<Rightarrow> pairing_success" where
  "pairing_success_body v grant =
     \<lparr>ps_server_id = server_id v, ps_client_credential_id = pairing_grant.pg_credential_id grant,
      ps_node = sv_node v, ps_client_credential = pairing_grant.pg_credential grant,
      ps_credential_expires_at_unix_ms = pairing_grant.pg_credential_expires_at_unix_ms grant,
      ps_capabilities = sv_capabilities v\<rparr>"

definition route_pairing ::
    "'a service_deps \<Rightarrow> pairing_request_envelope \<Rightarrow> 'a agent_service \<Rightarrow> 'a served" where
  "route_pairing D request v =
     (let (now, v) = sv_now v;
          reject = (\<lambda>(code, message). pairing_rejection D (pq_request_id request) code message now) in
      if pq_protocol_version request \<noteq> PROTOCOL_VERSION \<or> pq_request_id request = nil_uuid
         \<or> \<not> service_valid_nonce (pq_nonce request)
         \<or> MAX_CLOCK_SKEW_MS < abs_diff (pq_sent_at_unix_ms request) now
         \<or> pb_pairing_token_id (pq_body request) = nil_uuid
      then (fixed_error 400 ''invalid_pairing_request'', v)
      else
        case pairing_refusal (pq_body request) now of
          Some why \<Rightarrow> reject why v
        | None \<Rightarrow>
            (case redeem D request now v of
               (Inr grant, v) \<Rightarrow>
                 pairing_envelope D (pq_request_id request) now (pairing_grant.pg_response_sequence grant)
                   (pairing_response_body.Success (pairing_success_body v grant)) v
             | (Inl error, v) \<Rightarrow>
                 (case pairing_error error of
                    Some why \<Rightarrow> reject why v
                  | None \<Rightarrow> (internal_error, v))))"

fun pin_rotation_error :: "auth_store_error \<Rightarrow> rejection" where
  "pin_rotation_error auth_store_error.Replay =
     (rejection_code.Replay,
      lit ''The TLS pin rotation authorization request was already consumed.'')"
| "pin_rotation_error error =
     (if error \<in> {CredentialInvalid, CredentialExpired, CredentialRevoked}
      then (rejection_code.Unauthorized,
            lit ''The old control credential is invalid, expired, or revoked.'')
      else if error \<in> {PairingTokenInvalid, PairingTokenExpired}
      then (rejection_code.InvalidRequest,
            lit ''The referenced one-time pairing token is unavailable or expired.'')
      else (rejection_code.InvalidState,
            lit ''The local authentication state could not authorize TLS pin rotation.''))"

definition request_pin_rotation ::
    "'a service_deps \<Rightarrow> tls_pin_rotation_authorization_request_envelope \<Rightarrow> str option \<Rightarrow> u64
     \<Rightarrow> 'a agent_service
     \<Rightarrow> (auth_store_error, pin_rotation_authorization_grant, 'a agent_service) outcome" where
  "request_pin_rotation D request bearer now v =
     (case bearer of
        Some credential \<Rightarrow>
          in_auth (authorize_pin_rotation (sd_auth D) credential (tq_request_id request)
            (tq_nonce request) (tq_sequence request) (tb_client_credential_id (tq_body request))
            (tb_pairing_token_id (tq_body request)) (tb_new_pin (tq_body request)) now) v
      | None \<Rightarrow> (Inl CredentialInvalid, v))"

definition pin_rotation_success_body ::
    "'a agent_service \<Rightarrow> tls_pin_rotation_authorization_body \<Rightarrow> pin_rotation_authorization_grant
     \<Rightarrow> tls_pin_rotation_authorization_success" where
  "pin_rotation_success_body v body grant =
     \<lparr>ts_server_id = server_id v, ts_client_credential_id = rg_credential_id grant,
      ts_pairing_token_id = tb_pairing_token_id body, ts_new_pin = tb_new_pin body,
      ts_challenge = rg_challenge grant,
      ts_authorization_expires_at_unix_ms = rg_expires_at_unix_ms grant\<rparr>"

definition route_tls_pin_rotation_authorization ::
    "'a service_deps \<Rightarrow> tls_pin_rotation_authorization_request_envelope \<Rightarrow> str option
     \<Rightarrow> 'a agent_service \<Rightarrow> 'a served" where
  "route_tls_pin_rotation_authorization D request bearer v =
     (let (now, v) = sv_now v;
          body = tq_body request;
          reject = (\<lambda>why. pin_rotation_rejection D (tq_request_id request) why now None) in
      case validate_authenticated_metadata (tq_protocol_version request) (tq_request_id request)
             (tq_nonce request) (tq_sequence request) (tq_sent_at_unix_ms request) now of
        Some why \<Rightarrow> reject why v
      | None \<Rightarrow>
          if tb_client_credential_id body = nil_uuid \<or> tb_pairing_token_id body = nil_uuid
             \<or> isl (tls_pin_validate (tb_new_pin body))
          then reject (rejection_code.InvalidRequest,
                 lit ''The TLS pin rotation authorization request is invalid.'') v
          else
            (case request_pin_rotation D request bearer now v of
               (Inr grant, v) \<Rightarrow>
                 pin_rotation_body D (tq_request_id request) now (rg_response_sequence grant)
                   (tls_pin_rotation_authorization_response_body.Success
                      (pin_rotation_success_body v body grant)) v
             | (Inl error, v) \<Rightarrow> reject (pin_rotation_error error) v))"

section \<open>The router\<close>

fun route_authenticated ::
    "'a service_deps \<Rightarrow> authenticated_wire_request \<Rightarrow> str option \<Rightarrow> 'a agent_service \<Rightarrow> 'a served"
  where
  "route_authenticated D (Operation request) bearer v = route_operation D request bearer v"
| "route_authenticated D (Agent request) bearer v = route_agent D request bearer v"
| "route_authenticated D (TlsPinRotationAuthorization request) bearer v =
     route_tls_pin_rotation_authorization D request bearer v"

definition decode_and_route ::
    "'a service_deps \<Rightarrow> str option \<Rightarrow> nat list \<Rightarrow> 'a agent_service \<Rightarrow> 'a served" where
  "decode_and_route D bearer payload v =
     (case sd_decode_authenticated D payload of
        Inr request \<Rightarrow> route_authenticated D request bearer v
      | Inl _ \<Rightarrow> (fixed_error 400 ''invalid_request'', v))"

definition route ::
    "'a service_deps \<Rightarrow> str option \<Rightarrow> nat list \<Rightarrow> 'a agent_service \<Rightarrow> 'a served" where
  "route D bearer payload v =
     (if payload = [] \<or> MAX_MESSAGE_BYTES < length payload
      then (fixed_error 400 ''invalid_request'', v)
      else
        case bearer of
          None \<Rightarrow>
            (case sd_decode_pairing D payload of
               Inr request \<Rightarrow> route_pairing D request v
             | Inl _ \<Rightarrow> decode_and_route D None payload v)
        | Some credential \<Rightarrow> decode_and_route D (Some credential) payload v)"

definition maintenance_tick :: "'a service_deps \<Rightarrow> 'a agent_service \<Rightarrow> 'a agent_service" where
  "maintenance_tick D v =
     (if sv_agent_state_poisoned v then v
      else case sg_maintenance_tick (sd_agent D) (sv_agent v) of
        (uncertain, agent) \<Rightarrow>
          if uncertain then v\<lparr>sv_agent := agent, sv_agent_state_poisoned := True\<rparr>
          else v\<lparr>sv_agent := agent\<rparr>)"

end
