(* ===== verification/Http_Request.thy ===== *)
theory Http_Request
  imports Wire_Protocol
begin

text \<open>
  The HTTP side of the Remote Agent's listener (\<open>https_server.rs\<close>): parsing of one complete
  request, reading of one request from a TLS stream piece by piece, and writing of a response.
  The tokenizer \<open>httparse\<close> is a parameter.
\<close>

section \<open>UTF-8\<close>

text \<open>
  \<open>std::str::from_utf8\<close>: the bytes of scalar values and nothing else, no overlong form, no
  surrogate and nothing above \<open>U+10FFFF\<close>.
\<close>

definition is_scalar_value :: "nat \<Rightarrow> bool" where
  "is_scalar_value c \<longleftrightarrow> c < 55296 \<or> 57344 \<le> c \<and> c < 1114112"

definition utf8_width :: "nat \<Rightarrow> nat" where
  "utf8_width b = (if b < 128 then 1 else if b < 224 then 2 else if b < 240 then 3 else 4)"

definition utf8_value :: "nat list \<Rightarrow> nat" where
  "utf8_value bs =
     (case bs of
        [a] \<Rightarrow> a
      | [a, b] \<Rightarrow> (a - 192) * 64 + (b - 128)
      | [a, b, c] \<Rightarrow> (a - 224) * 4096 + (b - 128) * 64 + (c - 128)
      | [a, b, c, d] \<Rightarrow> (a - 240) * 262144 + (b - 128) * 4096 + (c - 128) * 64 + (d - 128)
      | _ \<Rightarrow> 0)"

function from_utf8 :: "nat list \<Rightarrow> str option" where
  "from_utf8 [] = Some []"
| "from_utf8 (b # bs) =
     (let n = utf8_width b; c = utf8_value (take n (b # bs)) in
      if is_scalar_value c \<and> utf8_bytes c = take n (b # bs)
      then map_option (\<lambda>s. c # s) (from_utf8 (drop n (b # bs)))
      else None)"
  by pat_completeness auto
termination
  by (relation "measure length") (auto simp: utf8_width_def)

lemma utf8_width_bytes:
  "is_scalar_value c \<Longrightarrow> utf8_width (hd (utf8_bytes c)) = length (utf8_bytes c)"
  by (auto simp: utf8_bytes_def utf8_width_def is_scalar_value_def)

lemma base64_digits:
  "c div 4096 * 4096 + c div 64 mod 64 * 64 + c mod 64 = (c::nat)"
  "c div 262144 * 262144 + c div 4096 mod 64 * 4096 + c div 64 mod 64 * 64 + c mod 64 = c"
proof -
  have digits: "n = n div 64 * 64 + n mod 64" for n :: nat by simp
  have "c div 64 div 64 = c div 4096" "c div 4096 div 64 = c div 262144"
    by (simp_all flip: div_mult2_eq)
  with digits [of c] digits [of "c div 64"] digits [of "c div 4096"]
  show "c div 4096 * 4096 + c div 64 mod 64 * 64 + c mod 64 = c"
    "c div 262144 * 262144 + c div 4096 mod 64 * 4096 + c div 64 mod 64 * 64 + c mod 64 = c"
    by linarith+
qed

lemma utf8_value_bytes: "is_scalar_value c \<Longrightarrow> utf8_value (utf8_bytes c) = c"
  by (auto simp: utf8_bytes_def utf8_value_def is_scalar_value_def base64_digits)

lemma from_utf8_bytes:
  "list_all is_scalar_value s \<Longrightarrow> from_utf8 (str_bytes s) = Some s"
proof (induction s)
  case (Cons c s)
  obtain b bs where b: "utf8_bytes c = b # bs" by (meson utf8_bytes_neq_Nil neq_Nil_conv)
  have "utf8_width b = length (utf8_bytes c)" "utf8_value (utf8_bytes c) = c"
    using Cons.prems utf8_width_bytes [of c] utf8_value_bytes [of c] by (simp_all add: b)
  with Cons b show ?case by (simp add: Let_def)
qed simp

lemma from_utf8_Some: "from_utf8 bs = Some s \<Longrightarrow> str_bytes s = bs \<and> list_all is_scalar_value s"
proof (induction bs arbitrary: s rule: from_utf8.induct)
  case (2 b bs)
  then show ?case
    by (auto simp: Let_def split: if_splits)
qed simp

section \<open>Rejections\<close>

datatype http_rejection =
  BadRequest | MethodNotAllowed | PayloadTooLarge | HeadersTooLarge | RequestTimeout

fun http_status_code :: "http_rejection \<Rightarrow> u16" where
  "http_status_code BadRequest = 400"
| "http_status_code MethodNotAllowed = 405"
| "http_status_code PayloadTooLarge = 413"
| "http_status_code HeadersTooLarge = 431"
| "http_status_code RequestTimeout = 408"

fun public_code :: "http_rejection \<Rightarrow> string" where
  "public_code BadRequest = ''bad_request''"
| "public_code MethodNotAllowed = ''method_not_allowed''"
| "public_code PayloadTooLarge = ''payload_too_large''"
| "public_code HeadersTooLarge = ''headers_too_large''"
| "public_code RequestTimeout = ''request_timeout''"

section \<open>The request head\<close>

definition MAX_HEADER_BYTES :: nat where "MAX_HEADER_BYTES = 16 * 1024"
definition MAX_HEADERS :: nat where "MAX_HEADERS = 64"

text \<open>
  What \<open>httparse::Request::parse\<close> leaves in the request; \<open>ht_consumed\<close> is the count of a
  complete head and \<open>None\<close> for a partial one. The tokenizer fails on more than \<open>MAX_HEADERS\<close>.
\<close>

record tokenized_head =
  ht_consumed :: "nat option"
  ht_method :: "str option"
  ht_path :: "str option"
  ht_version :: "nat option"
  ht_headers :: "(str \<times> nat list) list"

type_synonym tokenizer = "nat \<Rightarrow> nat list \<Rightarrow> unit + tokenized_head"

record parsed_http_head =
  hh_content_length :: nat
  hh_bearer :: "str option"

record parsed_http_request =
  hq_bearer :: "str option"
  hq_body :: "nat list"

definition ascii_lower :: "nat \<Rightarrow> nat" where
  "ascii_lower c = (if is_ascii_uppercase c then c + 32 else c)"

definition to_ascii_lowercase :: "str \<Rightarrow> str" where
  "to_ascii_lowercase = map ascii_lower"

definition eq_ignore_ascii_case :: "str \<Rightarrow> str \<Rightarrow> bool" where
  "eq_ignore_ascii_case a b \<longleftrightarrow> to_ascii_lowercase a = to_ascii_lowercase b"

text \<open>\<open>str::split\<close> at one character.\<close>

fun split_at_char :: "nat \<Rightarrow> str \<Rightarrow> str list" where
  "split_at_char c [] = [[]]"
| "split_at_char c (x # xs) =
     (if x = c then [] # split_at_char c xs
      else case split_at_char c xs of [] \<Rightarrow> [[x]] | part # parts \<Rightarrow> (x # part) # parts)"

definition decimal_value :: "str \<Rightarrow> nat" where
  "decimal_value s = foldl (\<lambda>n c. 10 * n + (c - 48)) 0 s"

text \<open>\<open>parse::<usize>\<close> of a string of digits fails when it overflows 64 bits.\<close>

definition parse_usize :: "str \<Rightarrow> nat option" where
  "parse_usize s = (if decimal_value s < 2 ^ 64 then Some (decimal_value s) else None)"

definition parse_content_length :: "str \<Rightarrow> http_rejection + nat" where
  "parse_content_length v =
     (if v = [] \<or> \<not> list_all is_ascii_digit (str_bytes v) then Inl BadRequest
      else
        rbind (ok_or PayloadTooLarge (parse_usize v)) (\<lambda>n.
        if MAX_MESSAGE_BYTES < n then Inl PayloadTooLarge else Inr n))"

definition strip_prefix :: "'a list \<Rightarrow> 'a list \<Rightarrow> 'a list option" where
  "strip_prefix p s = (if take (length p) s = p then Some (drop (length p) s) else None)"

definition parse_bearer :: "str \<Rightarrow> http_rejection + str" where
  "parse_bearer v =
     rbind (ok_or BadRequest (strip_prefix (lit ''Bearer '') v)) (\<lambda>token.
     if \<not> (32 \<le> str_len token \<and> str_len token \<le> 512)
        \<or> \<not> list_all is_base64url (str_bytes token)
     then Inl BadRequest else Inr token)"

text \<open>The members that the loop over the headers fills in.\<close>

record header_fields =
  hf_host :: "str option"
  hf_content_length :: "nat option"
  hf_content_type :: "str option"
  hf_protocol :: "str option"
  hf_bearer :: "str option"

definition forbidden_headers :: "str list" where
  "forbidden_headers = map lit
     [''transfer-encoding'', ''upgrade'', ''expect'', ''proxy-authorization'', ''cookie'']"

definition take_header :: "str \<Rightarrow> str \<Rightarrow> header_fields \<Rightarrow> http_rejection + header_fields" where
  "take_header name v found =
     (if name = lit ''host'' then Inr (found\<lparr>hf_host := Some v\<rparr>)
      else if name = lit ''content-length''
      then rbind (parse_content_length v) (\<lambda>n. Inr (found\<lparr>hf_content_length := Some n\<rparr>))
      else if name = lit ''content-type'' then Inr (found\<lparr>hf_content_type := Some v\<rparr>)
      else if name = lit ''x-verisilo-protocol'' then Inr (found\<lparr>hf_protocol := Some v\<rparr>)
      else if name = lit ''authorization''
      then rbind (parse_bearer v) (\<lambda>token. Inr (found\<lparr>hf_bearer := Some token\<rparr>))
      else if name \<in> set forbidden_headers then Inl BadRequest
      else if name = lit ''connection''
              \<and> list_ex (\<lambda>token. eq_ignore_ascii_case (str_trim token) (lit ''upgrade''))
                  (split_at_char 44 v)
      then Inl BadRequest
      else Inr found)"

fun take_headers ::
    "str list \<Rightarrow> (str \<times> nat list) list \<Rightarrow> header_fields \<Rightarrow> http_rejection + header_fields" where
  "take_headers seen [] found = Inr found"
| "take_headers seen ((raw_name, raw_value) # headers) found =
     (let name = to_ascii_lowercase raw_name in
      if name \<in> set seen then Inl BadRequest
      else
        rbind (ok_or BadRequest (from_utf8 raw_value)) (\<lambda>v.
        if str_trim v \<noteq> v \<or> list_ex is_control v then Inl BadRequest
        else rbind (take_header name v found) (take_headers (name # seen) headers)))"

definition no_header_fields :: header_fields where
  "no_header_fields = \<lparr>hf_host = None, hf_content_length = None, hf_content_type = None,
     hf_protocol = None, hf_bearer = None\<rparr>"

definition head_line_ok :: "tokenized_head \<Rightarrow> nat \<Rightarrow> bool" where
  "head_line_ok head available \<longleftrightarrow>
     ht_consumed head = Some available \<and> ht_method head = Some (lit ''POST'')
     \<and> ht_path head = Some (lit ''/'') \<and> ht_version head = Some 1"

definition parse_http_head :: "tokenizer \<Rightarrow> nat list \<Rightarrow> http_rejection + parsed_http_head" where
  "parse_http_head tokenize bytes =
     rbind (map_err (\<lambda>_. BadRequest) (tokenize MAX_HEADERS bytes)) (\<lambda>head.
     if ht_consumed head = None then Inl BadRequest
     else if \<not> head_line_ok head (length bytes)
     then if ht_method head \<noteq> Some (lit ''POST'') then Inl MethodNotAllowed else Inl BadRequest
     else
       rbind (take_headers [] (ht_headers head) no_header_fields) (\<lambda>found.
       if (case hf_host found of None \<Rightarrow> True | Some v \<Rightarrow> v = [] \<or> 255 < str_len v)
          \<or> (case hf_content_type found of None \<Rightarrow> True
             | Some v \<Rightarrow> \<not> eq_ignore_ascii_case v (lit ''application/json''))
          \<or> hf_protocol found \<noteq> Some (lit ''1'')
       then Inl BadRequest
       else
         rbind (ok_or BadRequest (hf_content_length found)) (\<lambda>n.
         Inr \<lparr>hh_content_length = n, hh_bearer = hf_bearer found\<rparr>)))"

section \<open>A complete request\<close>

definition crlf_crlf :: "nat list" where "crlf_crlf = [13, 10, 13, 10]"

fun find_header_end :: "nat list \<Rightarrow> nat option" where
  "find_header_end [] = None"
| "find_header_end (b # bytes) =
     (if take 4 (b # bytes) = crlf_crlf then Some 4
      else map_option Suc (find_header_end bytes))"

text \<open>\<open>usize::checked_add\<close>\<close>

definition checked_usize_add :: "nat \<Rightarrow> nat \<Rightarrow> nat option" where
  "checked_usize_add a b = (if a + b < 2 ^ 64 then Some (a + b) else None)"

definition parse_http_request_bytes ::
    "tokenizer \<Rightarrow> nat list \<Rightarrow> http_rejection + parsed_http_request" where
  "parse_http_request_bytes tokenize bytes =
     rbind (ok_or BadRequest (find_header_end bytes)) (\<lambda>header_end.
     if MAX_HEADER_BYTES < header_end then Inl HeadersTooLarge
     else
       rbind (parse_http_head tokenize (take header_end bytes)) (\<lambda>head.
       rbind (ok_or PayloadTooLarge (checked_usize_add header_end (hh_content_length head)))
         (\<lambda>expected.
       if expected \<noteq> length bytes then Inl BadRequest
       else Inr \<lparr>hq_bearer = hh_bearer head, hq_body = drop header_end bytes\<rparr>)))"

section \<open>Reading from the stream\<close>

text \<open>
  What the TLS stream has in store: bytes that arrive together, a read that times out, a failed
  read, or the deadline passing before a read. After the last event the peer has closed.
\<close>

datatype read_event = Arrived "nat list" | TimedOut | ReadFailed | DeadlinePassed

definition BUFFER_BYTES :: nat where "BUFFER_BYTES = 4 * 1024"

fun read_before_deadline ::
    "nat \<Rightarrow> read_event list \<Rightarrow> (http_rejection, nat list, read_event list) outcome" where
  "read_before_deadline limit [] = (Inr [], [])"
| "read_before_deadline limit (Arrived bytes # events) =
     (if length bytes \<le> limit then (Inr bytes, events)
      else (Inr (take limit bytes), Arrived (drop limit bytes) # events))"
| "read_before_deadline limit (TimedOut # events) = (Inl RequestTimeout, events)"
| "read_before_deadline limit (ReadFailed # events) = (Inl BadRequest, events)"
| "read_before_deadline limit (DeadlinePassed # events) = (Inl RequestTimeout, events)"

fun event_size :: "read_event \<Rightarrow> nat" where
  "event_size (Arrived bytes) = Suc (length bytes)"
| "event_size _ = 1"

definition pending :: "read_event list \<Rightarrow> nat" where
  "pending events = sum_list (map event_size events)"

lemma read_before_deadline_pending:
  "read_before_deadline limit events = (Inr chunk, rest) \<Longrightarrow> chunk \<noteq> [] \<Longrightarrow> 0 < limit
   \<Longrightarrow> pending rest < pending events"
  by (cases "(limit, events)" rule: read_before_deadline.cases)
    (auto simp: pending_def split: if_splits)

text \<open>The loop up to the end of the head; it returns what was read and where the head ends.\<close>

function read_head ::
    "nat list \<Rightarrow> read_event list \<Rightarrow> (http_rejection, nat list \<times> nat, read_event list) outcome" where
  "read_head raw events =
     (case read_before_deadline BUFFER_BYTES events of
        (Inl rejection, events') \<Rightarrow> (Inl rejection, events')
      | (Inr chunk, events') \<Rightarrow>
          if chunk = [] then (Inl BadRequest, events')
          else
            case find_header_end (raw @ chunk) of
              Some header_end \<Rightarrow>
                if MAX_HEADER_BYTES < header_end then (Inl HeadersTooLarge, events')
                else (Inr (raw @ chunk, header_end), events')
            | None \<Rightarrow>
                if MAX_HEADER_BYTES < length (raw @ chunk) then (Inl HeadersTooLarge, events')
                else read_head (raw @ chunk) events')"
  by pat_completeness auto
termination
  by (relation "measure (pending \<circ> snd)")
    (auto intro!: read_before_deadline_pending simp: BUFFER_BYTES_def)

text \<open>The loop over the body, which never reads past the expected end.\<close>

function read_body ::
    "nat \<Rightarrow> nat list \<Rightarrow> read_event list \<Rightarrow> (http_rejection, nat list, read_event list) outcome" where
  "read_body expected raw events =
     (if expected \<le> length raw then (Inr raw, events)
      else
        case read_before_deadline (min (expected - length raw) BUFFER_BYTES) events of
          (Inl rejection, events') \<Rightarrow> (Inl rejection, events')
        | (Inr chunk, events') \<Rightarrow>
            if chunk = [] then (Inl BadRequest, events')
            else read_body expected (raw @ chunk) events')"
  by pat_completeness auto
termination
  by (relation "measure (pending \<circ> snd \<circ> snd)")
    (auto intro!: read_before_deadline_pending simp: BUFFER_BYTES_def)

declare read_head.simps [simp del] read_body.simps [simp del]

definition read_http_request ::
    "tokenizer \<Rightarrow> read_event list
     \<Rightarrow> (http_rejection, parsed_http_request, read_event list) outcome" where
  "read_http_request tokenize events =
     sbind (read_head [] events) (\<lambda>(raw, header_end) events.
     sbind (parse_http_head tokenize (take header_end raw), events) (\<lambda>head events.
     sbind (ok_or PayloadTooLarge (checked_usize_add header_end (hh_content_length head)), events)
       (\<lambda>expected events.
     if expected < length raw then (Inl BadRequest, events)
     else
       sbind (read_body expected raw events) (\<lambda>raw events.
       (parse_http_request_bytes tokenize raw, events)))))"

section \<open>Writing a response\<close>

fun reason_phrase :: "u16 \<Rightarrow> string option" where
  "reason_phrase n =
     (if n = 200 then Some ''OK'' else if n = 400 then Some ''Bad Request''
      else if n = 401 then Some ''Unauthorized'' else if n = 403 then Some ''Forbidden''
      else if n = 405 then Some ''Method Not Allowed'' else if n = 408 then Some ''Request Timeout''
      else if n = 413 then Some ''Payload Too Large''
      else if n = 431 then Some ''Request Header Fields Too Large''
      else if n = 500 then Some ''Internal Server Error''
      else if n = 503 then Some ''Service Unavailable'' else None)"

definition crlf :: str where "crlf = [13, 10]"

definition response_head :: "u16 \<Rightarrow> string \<Rightarrow> nat \<Rightarrow> str" where
  "response_head n reason body_bytes =
     lit ''HTTP/1.1 '' @ show_nat (unat n) @ lit '' '' @ lit reason @ crlf
     @ lit ''Content-Type: application/json'' @ crlf
     @ lit ''Content-Length: '' @ show_nat body_bytes @ crlf
     @ lit ''Cache-Control: no-store'' @ crlf
     @ lit ''X-Content-Type-Options: nosniff'' @ crlf
     @ lit ''X-VeriSilo-Protocol: '' @ show_nat (unat PROTOCOL_VERSION) @ crlf
     @ lit ''Connection: close'' @ crlf @ crlf"

text \<open>The bytes that a response puts on the stream, or none.\<close>

definition write_http_response :: "u16 \<Rightarrow> nat list \<Rightarrow> nat list option" where
  "write_http_response n body =
     (if MAX_MESSAGE_BYTES < length body then None
      else map_option (\<lambda>reason. str_bytes (response_head n reason (length body)) @ body)
             (reason_phrase n))"

definition write_fixed_error :: "u16 \<Rightarrow> string \<Rightarrow> nat list option" where
  "write_fixed_error n code =
     write_http_response n (str_bytes (lit ''{\"error\":\"'' @ lit code @ lit ''\"}''))"

end
