(* ===== verification/Https_Configuration.thy ===== *)
theory Https_Configuration
  imports Agent_Service Http_Request
begin

text \<open>
  The deployment configuration of the Remote Agent (\<open>https_server.rs\<close>): paths, the checks of local
  files, the strict configuration, and the TLS material. What \<open>std::fs\<close> says of a path, the JSON
  deserializer and the PEM and TLS libraries are parameters.
\<close>

section \<open>Constants and errors\<close>

definition MAX_CONFIGURATION_BYTES :: nat where "MAX_CONFIGURATION_BYTES = 64 * 1024"
definition MAX_CERTIFICATE_CHAIN_BYTES :: nat where "MAX_CERTIFICATE_CHAIN_BYTES = 512 * 1024"
definition MAX_PRIVATE_KEY_BYTES :: nat where "MAX_PRIVATE_KEY_BYTES = 64 * 1024"
definition MAX_PATH_BYTES :: nat where "MAX_PATH_BYTES = 4096"

datatype server_error =
    InvalidConfigurationPath
  | InvalidConfiguration
  | FileUnavailable
  | UnsafePermissions
  | UnsupportedPlatform
  | InvalidTlsMaterial
  | ListenerUnavailable
  | TlsUnavailable
  | WorkerUnavailable
  | ConnectionFailed

section \<open>Paths\<close>

text \<open>
  \<open>std::path::Path\<close> on Unix: a string that is compared by its components. Empty parts and all
  \<open>.\<close> parts but a leading one disappear.
\<close>

type_synonym file_path = str

datatype path_component = RootDir | CurDir | ParentDir | Normal str

definition path_is_absolute :: "file_path \<Rightarrow> bool" where
  "path_is_absolute path \<longleftrightarrow> path \<noteq> [] \<and> hd path = 47"

definition path_part :: "str \<Rightarrow> path_component" where
  "path_part part = (if part = [46, 46] then ParentDir else Normal part)"

definition path_components :: "file_path \<Rightarrow> path_component list" where
  "path_components path =
     (let parts = split_at_char 47 path;
          names = map path_part (filter (\<lambda>part. part \<noteq> [] \<and> part \<noteq> [46]) parts) in
      if path_is_absolute path then RootDir # names
      else if hd parts = [46] then CurDir # names else names)"

definition same_path :: "file_path \<Rightarrow> file_path \<Rightarrow> bool" where
  "same_path a b \<longleftrightarrow> path_components a = path_components b"

fun path_component_name :: "path_component \<Rightarrow> str option" where
  "path_component_name (Normal name) = Some name"
| "path_component_name _ = None"

definition path_file_name :: "file_path \<Rightarrow> str option" where
  "path_file_name path =
     (if path_components path = [] then None else path_component_name (last (path_components path)))"

text \<open>The separators, and the \<open>.\<close> parts, behind the last name; the string is reversed.\<close>

fun strip_path_end :: "str \<Rightarrow> str" where
  "strip_path_end (c # rest) =
     (if c = 47 then strip_path_end rest
      else if c = 46 \<and> rest \<noteq> [] \<and> hd rest = 47 then strip_path_end rest
      else c # rest)"
| "strip_path_end [] = []"

text \<open>\<open>Path::parent\<close>: the string up to the last name.\<close>

definition path_parent :: "file_path \<Rightarrow> file_path option" where
  "path_parent path =
     (if path_components path = [] \<or> last (path_components path) = RootDir then None
      else
        let before = dropWhile (\<lambda>c. c \<noteq> 47) (strip_path_end (rev path));
            parent = rev (strip_path_end before) in
        Some (if parent = [] \<and> path_is_absolute path then [47] else parent))"

text \<open>\<open>Path::with_extension\<close>: what follows the last dot of the name, unless that dot leads it.\<close>

definition file_stem_of :: "str \<Rightarrow> str" where
  "file_stem_of name =
     (let before = dropWhile (\<lambda>c. c \<noteq> 46) (rev name) in
      if before = [] \<or> tl before = [] then name else rev (tl before))"

definition path_with_extension :: "str \<Rightarrow> file_path \<Rightarrow> file_path" where
  "path_with_extension extension path =
     (case path_file_name path of
        None \<Rightarrow> path
      | Some name \<Rightarrow>
          rev (dropWhile (\<lambda>c. c \<noteq> 47) (strip_path_end (rev path)))
          @ file_stem_of name @ lit ''.'' @ extension)"

definition valid_absolute_path :: "file_path \<Rightarrow> bool" where
  "valid_absolute_path path \<longleftrightarrow>
     path_is_absolute path \<and> str_len path \<le> MAX_PATH_BYTES \<and> path_file_name path \<noteq> None
     \<and> list_all (\<lambda>part. part \<noteq> CurDir \<and> part \<noteq> ParentDir) (path_components path)"

section \<open>Local files\<close>

record file_metadata =
  fm_is_symlink :: bool
  fm_is_file :: bool
  fm_len :: nat
  fm_mode :: nat

text \<open>
  \<open>lf_read\<close> is the content of an opened file up to the given count; \<open>None\<close> stands for every
  error of the operating system.
\<close>

record local_files =
  lf_canonicalize :: "file_path \<Rightarrow> file_path option"
  lf_exists :: "file_path \<Rightarrow> bool"
  lf_metadata :: "file_path \<Rightarrow> file_metadata option"
  lf_symlink_metadata :: "file_path \<Rightarrow> file_metadata option"
  lf_read :: "file_path \<Rightarrow> nat \<Rightarrow> nat list option"

definition permission_bits :: "file_metadata \<Rightarrow> nat" where
  "permission_bits metadata = fm_mode metadata mod 512"

definition canonical_parent :: "local_files \<Rightarrow> file_path \<Rightarrow> bool" where
  "canonical_parent L path =
     (case path_parent path of
        None \<Rightarrow> False
      | Some parent \<Rightarrow>
          (case lf_canonicalize L parent of
             None \<Rightarrow> False | Some canonical \<Rightarrow> same_path canonical parent))"

definition optional_private_state_file :: "local_files \<Rightarrow> file_path \<Rightarrow> bool" where
  "optional_private_state_file L path =
     (if \<not> lf_exists L path then True
      else
        case lf_canonicalize L path of
          None \<Rightarrow> False
        | Some canonical \<Rightarrow>
            same_path canonical path
            \<and> (case lf_symlink_metadata L path of
                 None \<Rightarrow> False
               | Some metadata \<Rightarrow>
                   \<not> fm_is_symlink metadata \<and> fm_is_file metadata
                   \<and> permission_bits metadata = 384))"

definition reject_symlink :: "local_files \<Rightarrow> file_path \<Rightarrow> server_error + unit" where
  "reject_symlink L path =
     rbind (ok_or FileUnavailable (lf_symlink_metadata L path)) (\<lambda>metadata.
     if fm_is_symlink metadata \<or> \<not> fm_is_file metadata then Inl FileUnavailable else Inr ())"

definition require_private_permissions :: "local_files \<Rightarrow> file_path \<Rightarrow> server_error + unit" where
  "require_private_permissions L path =
     rbind (ok_or FileUnavailable (lf_metadata L path)) (\<lambda>metadata.
     if permission_bits metadata \<noteq> 384 then Inl UnsafePermissions else Inr ())"

text \<open>The bits \<open>0o022\<close>: no write permission for the group and for others.\<close>

definition require_safe_config_permissions :: "local_files \<Rightarrow> file_path \<Rightarrow> server_error + unit" where
  "require_safe_config_permissions L path =
     rbind (ok_or FileUnavailable (lf_metadata L path)) (\<lambda>metadata.
     let mode = permission_bits metadata in
     if odd (mode div 2) \<or> odd (mode div 16) then Inl UnsafePermissions else Inr ())"

definition read_bounded_file :: "local_files \<Rightarrow> file_path \<Rightarrow> nat \<Rightarrow> server_error + nat list" where
  "read_bounded_file L path maximum_bytes =
     rbind (ok_or FileUnavailable (lf_metadata L path)) (\<lambda>metadata.
     if \<not> fm_is_file metadata \<or> fm_len metadata = 0 \<or> maximum_bytes < fm_len metadata
     then Inl FileUnavailable
     else
       rbind (ok_or FileUnavailable (lf_read L path (maximum_bytes + 1))) (\<lambda>raw.
       if maximum_bytes < length raw then Inl FileUnavailable else Inr raw))"

definition strict_deployment_file ::
    "local_files \<Rightarrow> file_path \<Rightarrow> nat \<Rightarrow> bool \<Rightarrow> server_error + nat list" where
  "strict_deployment_file L path maximum_bytes private =
     (if \<not> valid_absolute_path path then Inl InvalidConfiguration
      else
        rbind (ok_or InvalidTlsMaterial (lf_canonicalize L path)) (\<lambda>canonical.
        if \<not> same_path canonical path then Inl InvalidTlsMaterial
        else
          rbind (reject_symlink L path) (\<lambda>_.
          rbind (if private then require_private_permissions L path else Inr ()) (\<lambda>_.
          read_bounded_file L path maximum_bytes))))"

section \<open>The configuration\<close>

datatype local_provider_configuration =
    Stdio file_path str "remote_capability list"
  | Unavailable "remote_capability list"

fun provider_capabilities :: "local_provider_configuration \<Rightarrow> remote_capability list" where
  "provider_capabilities (Stdio _ _ capabilities) = capabilities"
| "provider_capabilities (Unavailable capabilities) = capabilities"

record socket_address =
  so_ip :: "nat list"
  so_port :: u16

record server_configuration =
  sf_listen_address :: socket_address
  sf_tls_certificate_chain_path :: file_path
  sf_tls_private_key_path :: file_path
  sf_auth_state_path :: file_path
  sf_agent_state_path :: file_path
  sf_credential_lifetime_seconds :: u64
  sf_node :: node_disclosure
  sf_provider :: local_provider_configuration

definition server_validate_capabilities :: "remote_capability list \<Rightarrow> server_error + unit" where
  "server_validate_capabilities capabilities =
     (if length capabilities \<noteq> length ALL_OPERATIONS
         \<or> list_ex (\<lambda>operation. count_capability capabilities operation \<noteq> 1) ALL_OPERATIONS
         \<or> list_ex (\<lambda>capability. case cap_availability capability of
              Available \<Rightarrow> False
            | capability_availability.Unavailable reason \<Rightarrow>
                reason = [] \<or> 512 < str_len reason \<or> str_trim reason \<noteq> reason
                \<or> list_ex is_control reason) capabilities
      then Inl InvalidConfiguration
      else if capability_is_available capabilities remote_operation.Create
              \<and> \<not> capability_is_available capabilities remote_operation.Destroy
      then Inl InvalidConfiguration
      else Inr ())"

definition valid_sha256 :: "str \<Rightarrow> bool" where
  "valid_sha256 value \<longleftrightarrow>
     str_len value = 64 \<and> \<not> list_all (\<lambda>byte. byte = 48) (str_bytes value)
     \<and> list_all is_lower_hex (str_bytes value)"

definition configured_paths :: "server_configuration \<Rightarrow> file_path list" where
  "configured_paths cfg =
     [sf_tls_certificate_chain_path cfg, sf_tls_private_key_path cfg, sf_auth_state_path cfg,
      sf_agent_state_path cfg]
     @ (case sf_provider cfg of
          Stdio executable_path _ _ \<Rightarrow> [executable_path] | Unavailable _ \<Rightarrow> [])"

fun repeated_path :: "file_path list \<Rightarrow> bool" where
  "repeated_path [] = False"
| "repeated_path (path # paths) = (list_ex (same_path path) paths \<or> repeated_path paths)"

definition configuration_validate :: "local_files \<Rightarrow> server_configuration \<Rightarrow> server_error + unit" where
  "configuration_validate L cfg =
     (if so_port (sf_listen_address cfg) = 0
         \<or> nd_node_id (sf_node cfg) = nil_uuid
         \<or> \<not> (60 \<le> sf_credential_lifetime_seconds cfg
              \<and> sf_credential_lifetime_seconds cfg \<le> 24 * 60 * 60)
         \<or> isl (node_disclosure_validate (sf_node cfg))
      then Inl InvalidConfiguration
      else if list_ex (\<lambda>path. \<not> valid_absolute_path path) (configured_paths cfg)
         \<or> repeated_path (configured_paths cfg)
         \<or> \<not> canonical_parent L (sf_auth_state_path cfg)
         \<or> \<not> canonical_parent L (sf_agent_state_path cfg)
         \<or> \<not> optional_private_state_file L (sf_auth_state_path cfg)
         \<or> \<not> optional_private_state_file L (sf_agent_state_path cfg)
         \<or> \<not> optional_private_state_file L
                (path_with_extension (lit ''bak'') (sf_agent_state_path cfg))
      then Inl InvalidConfiguration
      else
        rbind (server_validate_capabilities (provider_capabilities (sf_provider cfg))) (\<lambda>_.
        case sf_provider cfg of
          Unavailable capabilities \<Rightarrow>
            if list_ex (\<lambda>capability. cap_availability capability = Available) capabilities
            then Inl InvalidConfiguration else Inr ()
        | Stdio _ executable_sha256 _ \<Rightarrow>
            if \<not> valid_sha256 executable_sha256 then Inl InvalidConfiguration else Inr ()))"

definition configuration_credential_lifetime_ms :: "server_configuration \<Rightarrow> server_error + u64" where
  "configuration_credential_lifetime_ms cfg =
     (let product = unat (sf_credential_lifetime_seconds cfg) * 1000 in
      if product < 2 ^ 64 then Inr (of_nat product) else Inl InvalidConfiguration)"

text \<open>
  The JSON deserializer gives the configuration and what is left of the input; \<open>cj_end\<close> accepts
  a rest without another value.
\<close>

record configuration_json =
  cj_deserialize :: "nat list \<Rightarrow> unit + server_configuration \<times> nat list"
  cj_end :: "nat list \<Rightarrow> unit + unit"

definition load_configuration ::
    "local_files \<Rightarrow> configuration_json \<Rightarrow> file_path \<Rightarrow> server_error + server_configuration" where
  "load_configuration L J path =
     (if \<not> valid_absolute_path path then Inl InvalidConfigurationPath
      else
        rbind (ok_or InvalidConfigurationPath (lf_canonicalize L path)) (\<lambda>canonical.
        if \<not> same_path canonical path then Inl InvalidConfigurationPath
        else
          rbind (reject_symlink L path) (\<lambda>_.
          rbind (require_safe_config_permissions L path) (\<lambda>_.
          rbind (read_bounded_file L path MAX_CONFIGURATION_BYTES) (\<lambda>raw.
          rbind (map_err (\<lambda>_. InvalidConfiguration) (cj_deserialize J raw)) (\<lambda>(cfg, rest).
          rbind (map_err (\<lambda>_. InvalidConfiguration) (cj_end J rest)) (\<lambda>_.
          rbind (configuration_validate L cfg) (\<lambda>_. Inr cfg))))))))"

section \<open>TLS material\<close>

text \<open>\<open>str::lines\<close>: a last empty line does not count, and a line ends before one \<open>\\r\<close>.\<close>

definition strip_cr :: "str \<Rightarrow> str" where
  "strip_cr line = (if line \<noteq> [] \<and> last line = 13 then butlast line else line)"

definition str_lines :: "str \<Rightarrow> str list" where
  "str_lines text =
     (let parts = split_at_char 10 text in
      map strip_cr (butlast parts) @ (if last parts = [] then [] else [last parts]))"

definition strip_suffix :: "'a list \<Rightarrow> 'a list \<Rightarrow> 'a list option" where
  "strip_suffix suffix s = map_option rev (strip_prefix (rev suffix) (rev s))"

definition pem_begin :: "str list \<Rightarrow> str \<Rightarrow> str option" where
  "pem_begin allowed_labels line =
     Option.bind (strip_prefix (lit ''-----BEGIN '') line) (\<lambda>value.
     Option.bind (strip_suffix (lit ''-----'') value) (\<lambda>value.
     if value \<in> set allowed_labels then Some value else None))"

definition pem_end :: "str \<Rightarrow> str" where
  "pem_end label = lit ''-----END '' @ label @ lit ''-----''"

definition pem_body_line :: "str \<Rightarrow> bool" where
  "pem_body_line line \<longleftrightarrow>
     line \<noteq> [] \<and> str_len line \<le> 128
     \<and> list_all (\<lambda>byte. is_ascii_alphanumeric byte \<or> byte \<in> {43, 47, 61}) (str_bytes line)"

fun pem_scan ::
    "str list \<Rightarrow> str option \<Rightarrow> str list \<Rightarrow> str list \<Rightarrow> server_error + str list" where
  "pem_scan allowed_labels active labels [] =
     (if active \<noteq> None then Inl InvalidTlsMaterial else Inr labels)"
| "pem_scan allowed_labels active labels (raw_line # raw_lines) =
     (let line = strip_cr raw_line in
      case active of
        None \<Rightarrow>
          if str_trim line = [] then pem_scan allowed_labels None labels raw_lines
          else rbind (ok_or InvalidTlsMaterial (pem_begin allowed_labels line)) (\<lambda>label.
               pem_scan allowed_labels (Some label) labels raw_lines)
      | Some label \<Rightarrow>
          if line = pem_end label then pem_scan allowed_labels None (labels @ [label]) raw_lines
          else if pem_body_line line then pem_scan allowed_labels active labels raw_lines
          else Inl InvalidTlsMaterial)"

definition validate_pem_structure :: "nat list \<Rightarrow> str list \<Rightarrow> server_error + str list" where
  "validate_pem_structure bytes allowed_labels =
     rbind (ok_or InvalidTlsMaterial (from_utf8 bytes)) (\<lambda>text.
     if \<not> list_all (\<lambda>c. c < 128) text then Inl InvalidTlsMaterial
     else pem_scan allowed_labels None [] (str_lines text))"

record 'tls tls_library =
  tl_pem_certificates :: "nat list \<Rightarrow> unit + nat list list"
  tl_pem_private_key :: "nat list \<Rightarrow> unit + nat list"
  tl_server_config :: "nat list list \<Rightarrow> nat list \<Rightarrow> unit + 'tls"

definition PRIVATE_KEY_LABELS :: "str list" where
  "PRIVATE_KEY_LABELS = map lit [''PRIVATE KEY'', ''RSA PRIVATE KEY'', ''EC PRIVATE KEY'']"

definition load_tls_configuration ::
    "local_files \<Rightarrow> 'tls tls_library \<Rightarrow> server_configuration \<Rightarrow> server_error + 'tls" where
  "load_tls_configuration L X cfg =
     rbind (configuration_validate L cfg) (\<lambda>_.
     rbind (strict_deployment_file L (sf_tls_certificate_chain_path cfg)
              MAX_CERTIFICATE_CHAIN_BYTES False) (\<lambda>certificate_bytes.
     rbind (strict_deployment_file L (sf_tls_private_key_path cfg)
              MAX_PRIVATE_KEY_BYTES True) (\<lambda>private_key_bytes.
     rbind (validate_pem_structure certificate_bytes [lit ''CERTIFICATE'']) (\<lambda>certificate_labels.
     rbind (validate_pem_structure private_key_bytes PRIVATE_KEY_LABELS) (\<lambda>private_key_labels.
     if certificate_labels = [] \<or> length private_key_labels \<noteq> 1 then Inl InvalidTlsMaterial
     else
       rbind (map_err (\<lambda>_. InvalidTlsMaterial) (tl_pem_certificates X certificate_bytes))
         (\<lambda>certificates.
       if length certificates \<noteq> length certificate_labels then Inl InvalidTlsMaterial
       else
         rbind (map_err (\<lambda>_. InvalidTlsMaterial) (tl_pem_private_key X private_key_bytes))
           (\<lambda>private_key.
         map_err (\<lambda>_. InvalidTlsMaterial) (tl_server_config X certificates private_key))))))))"

end
