(* ===== verification/Provider_Bridge.thy ===== *)
theory Provider_Bridge
  imports Agent_Core Https_Configuration
begin

text \<open>
  The bridge from the Agent to an environment provider that the operator installed
  (\<open>provider_bridge.rs\<close>): the executable is checked against its pin before every call, runs
  with one fixed argument, gets one request on its input and may give one bounded response. The
  operating system, the provider itself, SHA-256 and the JSON codecs are parameters.
\<close>

section \<open>Requests and responses\<close>

definition PROVIDER_PROTOCOL_VERSION :: u16 where "PROVIDER_PROTOCOL_VERSION = 1"
definition PROVIDER_TIMEOUT :: nat where "PROVIDER_TIMEOUT = 30 * 1000"
definition MAX_PROVIDER_STDERR_BYTES :: nat where "MAX_PROVIDER_STDERR_BYTES = 8 * 1024"
definition MAX_PROVIDER_BYTES :: nat where "MAX_PROVIDER_BYTES = 2 * 1024 * 1024 * 1024"

datatype provider_request =
    Create u16 environment_record
  | Lifecycle u16 remote_operation environment_record "u16 option"
  | Destroy u16 environment_record
  | OpenScreen u16 environment_record uuid u64
  | SendInput u16 environment_record uuid "input_event list"

datatype provider_response =
    Provisioned volume_attestation guest_evidence
  | Lifecycle "guest_evidence option" "str list"
  | Deleted uuid uuid uuid "resource_deletion_item list"
  | Screen uuid uuid uuid u64 screen_transport
  | InputAccepted bool
  | Rejected str str

section \<open>The operating system\<close>

text \<open>
  A started provider: whether its input took the request, what each poll of \<open>try_wait\<close> finds, by how
  much each pause of 20 milliseconds is late, and what reading its two outputs to their ends gives.
\<close>

datatype provider_poll = Exited bool | Running | PollFailed str

datatype provider_stream = StreamOf "nat list" | ReadError str | ReaderPanicked

record provider_process =
  pp_written :: "str + unit"
  pp_poll :: "nat \<Rightarrow> provider_poll"
  pp_late :: "nat \<Rightarrow> nat"
  pp_stdout :: provider_stream
  pp_stderr :: provider_stream

record 'w provider_host =
  po_canonicalize :: "'w \<Rightarrow> file_path \<Rightarrow> str + file_path"
  po_metadata :: "'w \<Rightarrow> file_path \<Rightarrow> str + file_metadata"
  po_open :: "'w \<Rightarrow> file_path \<Rightarrow> str + unit"
  po_content :: "'w \<Rightarrow> file_path \<Rightarrow> str + nat list"
  po_sha256 :: "nat list \<Rightarrow> nat list"
  po_spawn :: "file_path \<Rightarrow> str list \<Rightarrow> nat list \<Rightarrow> 'w \<Rightarrow> (str + provider_process) \<times> 'w"
  po_encode :: "provider_request \<Rightarrow> str + nat list"
  po_decode :: "nat list \<Rightarrow> str + provider_response"

record stdio_provider =
  bp_executable_path :: file_path
  bp_executable_sha256 :: str
  bp_capabilities :: "remote_capability list"

definition provider_error :: "string \<Rightarrow> agent_error" where
  "provider_error message = agent_error.Provider (lit message)"

definition provider_failure :: "string \<Rightarrow> str \<Rightarrow> agent_error" where
  "provider_failure message error = agent_error.Provider (lit message @ error)"

section \<open>Checks of the executable\<close>

definition secure_provider_path :: "'w provider_host \<Rightarrow> 'w \<Rightarrow> file_path \<Rightarrow> agent_error + file_path" where
  "secure_provider_path X w path =
     (if \<not> path_is_absolute path
      then Inl (provider_error ''Provider executable path must be absolute.'')
      else
        rbind (map_err (provider_failure ''Provider executable is unavailable: '')
                 (po_canonicalize X w path)) (\<lambda>canonical.
        rbind (map_err (provider_failure ''Provider metadata is unavailable: '')
                 (po_metadata X w canonical)) (\<lambda>metadata.
        if \<not> fm_is_file metadata \<or> fm_len metadata = 0 \<or> MAX_PROVIDER_BYTES < fm_len metadata
        then Inl (provider_error
               ''Provider must be a non-empty regular file no larger than 2 GiB.'')
        else Inr canonical)))"

definition validate_provider_digest :: "str \<Rightarrow> agent_error + unit" where
  "validate_provider_digest value =
     (if str_len value \<noteq> 64 \<or> \<not> list_all is_lower_hex (str_bytes value)
         \<or> list_all (\<lambda>byte. byte = 48) (str_bytes value)
      then Inl (provider_error ''Provider SHA-256 pin must be non-zero lowercase hexadecimal.'')
      else Inr ())"

definition sha256_file :: "'w provider_host \<Rightarrow> 'w \<Rightarrow> file_path \<Rightarrow> agent_error + str" where
  "sha256_file X w path =
     rbind (map_err (provider_failure ''Could not open provider executable: '') (po_open X w path)) (\<lambda>_.
     rbind (map_err (provider_failure ''Could not hash provider executable: '') (po_content X w path))
       (\<lambda>content. Inr (concat (map (show_hex 2) (po_sha256 X content)))))"

text \<open>The comparison folds the differences of all bytes together before it looks at them.\<close>

definition provider_constant_time_eq :: "nat list \<Rightarrow> nat list \<Rightarrow> bool" where
  "provider_constant_time_eq left right \<longleftrightarrow>
     length left = length right
     \<and> foldl (\<lambda>difference (l, r). or difference (xor (of_nat l) (of_nat r))) (0 :: 8 word)
         (zip left right) = 0"

definition verify_executable :: "'w provider_host \<Rightarrow> stdio_provider \<Rightarrow> 'w \<Rightarrow> agent_error + unit" where
  "verify_executable X p w =
     rbind (secure_provider_path X w (bp_executable_path p)) (\<lambda>current.
     if \<not> same_path current (bp_executable_path p)
     then Inl (provider_error ''Provider executable canonical path changed.'')
     else
       rbind (sha256_file X w current) (\<lambda>digest.
       if \<not> provider_constant_time_eq (str_bytes digest) (str_bytes (bp_executable_sha256 p))
       then Inl (provider_error ''Provider executable SHA-256 does not match the operator pin.'')
       else Inr ()))"

definition stdio_provider_new ::
    "'w provider_host \<Rightarrow> file_path \<Rightarrow> str \<Rightarrow> remote_capability list \<Rightarrow> 'w
     \<Rightarrow> agent_error + stdio_provider" where
  "stdio_provider_new X executable_path executable_sha256 capabilities w =
     rbind (secure_provider_path X w executable_path) (\<lambda>canonical.
     rbind (validate_provider_digest executable_sha256) (\<lambda>_.
     if length capabilities \<noteq> length ALL_OPERATIONS
        \<or> list_ex (\<lambda>operation. count_capability capabilities operation \<noteq> 1) ALL_OPERATIONS
     then Inl (provider_error
            ''Provider configuration must describe all nine operations exactly once.'')
     else
       let p = \<lparr>bp_executable_path = canonical, bp_executable_sha256 = executable_sha256,
                bp_capabilities = capabilities\<rparr> in
       rbind (verify_executable X p w) (\<lambda>_. Inr p)))"

section \<open>One exchange\<close>

text \<open>
  The loop that polls the process: it pauses for 20 milliseconds or more between two polls, and
  gives up at the first poll that finds the process running at the deadline.
\<close>

function wait_for_provider ::
    "(nat \<Rightarrow> provider_poll) \<Rightarrow> (nat \<Rightarrow> nat) \<Rightarrow> nat \<Rightarrow> nat \<Rightarrow> agent_error + bool" where
  "wait_for_provider polls late now i =
     (case polls i of
        Exited success \<Rightarrow> Inr success
      | Running \<Rightarrow>
          if now < PROVIDER_TIMEOUT then wait_for_provider polls late (now + 20 + late i) (Suc i)
          else Inl (provider_error
                 ''Provider exceeded the fixed 30-second timeout and was stopped.'')
      | PollFailed error \<Rightarrow> Inl (provider_failure ''Could not observe provider process: '' error))"
  by pat_completeness auto
termination
  by (relation "measure (\<lambda>(_, _, now, _). PROVIDER_TIMEOUT - now)") auto

declare wait_for_provider.simps [simp del]

text \<open>\<open>bounded_read\<close> on its own thread, and the join of that thread.\<close>

definition bounded_read :: "string \<Rightarrow> nat \<Rightarrow> provider_stream \<Rightarrow> agent_error + nat list" where
  "bounded_read name maximum stream =
     (case stream of
        ReaderPanicked \<Rightarrow> Inl (agent_error.Provider
          (lit ''Provider '' @ lit name @ lit '' reader panicked.''))
      | ReadError error \<Rightarrow> Inl (agent_error.Provider
          (lit ''Could not read provider '' @ lit name @ lit '': '' @ error))
      | StreamOf bytes \<Rightarrow> Inr (take maximum bytes))"

text \<open>
  \<open>String::from_utf8_lossy\<close>: every longest start of a character that does not go on becomes the
  replacement character.
\<close>

definition is_continuation :: "nat \<Rightarrow> bool" where
  "is_continuation b \<longleftrightarrow> 128 \<le> b \<and> b < 192"

definition second_byte_ok :: "nat \<Rightarrow> nat \<Rightarrow> bool" where
  "second_byte_ok b c \<longleftrightarrow>
     (if b = 224 then 160 \<le> c \<and> c < 192 else if b = 237 then 128 \<le> c \<and> c < 160
      else if b = 240 then 144 \<le> c \<and> c < 192 else if b = 244 then 128 \<le> c \<and> c < 144
      else is_continuation c)"

fun broken_length :: "nat list \<Rightarrow> nat" where
  "broken_length (b # c # d # _) =
     (if \<not> (224 \<le> b \<and> b < 245 \<and> second_byte_ok b c) then 1
      else if 240 \<le> b \<and> is_continuation d then 3 else 2)"
| "broken_length [b, c] = (if 224 \<le> b \<and> b < 245 \<and> second_byte_ok b c then 2 else 1)"
| "broken_length _ = 1"

function from_utf8_lossy :: "nat list \<Rightarrow> str" where
  "from_utf8_lossy [] = []"
| "from_utf8_lossy (b # bs) =
     (let n = utf8_width b; c = utf8_value (take n (b # bs)) in
      if is_scalar_value c \<and> utf8_bytes c = take n (b # bs)
      then c # from_utf8_lossy (drop n (b # bs))
      else 65533 # from_utf8_lossy (drop (broken_length (b # bs)) (b # bs)))"
  by pat_completeness auto
termination
proof (relation "measure length", goal_cases)
  case (3 b bs)
  have "broken_length (b # bs) > 0" by (cases "b # bs" rule: broken_length.cases) auto
  then show ?case by simp
qed (auto simp: utf8_width_def)

definition sanitized_stderr :: "nat list \<Rightarrow> str" where
  "sanitized_stderr stderr =
     (let cleaned = take 1024 (filter (\<lambda>c. \<not> is_control c \<or> c \<in> {32, 10, 9})
            (from_utf8_lossy stderr)) in
      if str_trim cleaned = [] then lit ''no bounded diagnostic'' else str_trim cleaned)"

definition valid_label :: "str \<Rightarrow> nat \<Rightarrow> bool" where
  "valid_label value maximum \<longleftrightarrow>
     value \<noteq> [] \<and> str_len value \<le> maximum \<and> list_all is_base64url (str_bytes value)"

definition valid_message :: "str \<Rightarrow> nat \<Rightarrow> bool" where
  "valid_message value maximum \<longleftrightarrow>
     str_trim value \<noteq> [] \<and> str_len value \<le> maximum
     \<and> \<not> list_ex (\<lambda>c. is_control c \<and> c \<notin> {10, 9}) value"

text \<open>A rejection of the provider is an error of the Agent.\<close>

definition accepted_response :: "provider_response \<Rightarrow> agent_error + provider_response" where
  "accepted_response response =
     (case response of
        Rejected code message \<Rightarrow>
          if \<not> valid_label code 80 \<or> \<not> valid_message message 1024
          then Inl (provider_error ''Provider rejection was malformed.'')
          else Inl (agent_error.Provider (lit ''Provider rejected operation ('' @ code
                 @ lit ''): '' @ message))
      | _ \<Rightarrow> Inr response)"

lemma accepted_response_Inr: "accepted_response response = Inr r \<Longrightarrow> r = response"
  by (cases response) (auto simp: accepted_response_def split: if_splits)

text \<open>The outputs of the process, once it has ended.\<close>

definition collect_response ::
    "'w provider_host \<Rightarrow> provider_process \<Rightarrow> bool \<Rightarrow> agent_error + provider_response" where
  "collect_response X process success =
     rbind (bounded_read ''stdout'' (MAX_MESSAGE_BYTES + 1) (pp_stdout process)) (\<lambda>stdout.
     rbind (bounded_read ''stderr'' (MAX_PROVIDER_STDERR_BYTES + 1) (pp_stderr process)) (\<lambda>stderr.
     if MAX_MESSAGE_BYTES < length stdout \<or> MAX_PROVIDER_STDERR_BYTES < length stderr
     then Inl (agent_error.LimitExceeded
            (lit ''Provider output exceeded its negotiated bound.''))
     else if \<not> success
     then Inl (provider_failure ''Provider exited unsuccessfully: '' (sanitized_stderr stderr))
     else
       rbind (map_err (provider_failure ''Provider returned invalid strict JSON: '')
                (po_decode X stdout)) accepted_response))"

definition provider_exchange ::
    "'w provider_host \<Rightarrow> stdio_provider \<Rightarrow> provider_request \<Rightarrow> 'w
     \<Rightarrow> (agent_error, provider_response, 'w) outcome" where
  "provider_exchange X p request w =
     sbind (verify_executable X p w, w) (\<lambda>_ w.
     sbind (map_err agent_error.Json (po_encode X request), w) (\<lambda>payload w.
     if MAX_MESSAGE_BYTES < length payload
     then (Inl (agent_error.LimitExceeded (lit ''Provider request exceeds 64 KiB.'')), w)
     else
       case po_spawn X (bp_executable_path p) [lit ''--verisilo-provider-v1''] payload w of
         (Inl error, w) \<Rightarrow> (Inl (provider_failure ''Could not start provider: '' error), w)
       | (Inr process, w) \<Rightarrow>
           (rbind (map_err (provider_failure ''Could not write provider request: '')
                     (pp_written process)) (\<lambda>_.
            rbind (wait_for_provider (pp_poll process) (pp_late process) 0 0) (\<lambda>success.
            collect_response X process success)), w)))"

section \<open>The provider's operations\<close>

definition response_mismatch :: "string \<Rightarrow> agent_error" where
  "response_mismatch expected =
     agent_error.Provider (lit ''Provider response type did not match expected '' @ lit expected
       @ lit ''.'')"

definition bridge_create ::
    "'w provider_host \<Rightarrow> stdio_provider \<Rightarrow> environment_record \<Rightarrow> 'w
     \<Rightarrow> (agent_error, provision_receipt, 'w) outcome" where
  "bridge_create X p record w =
     sbind (provider_exchange X p (provider_request.Create PROVIDER_PROTOCOL_VERSION record) w)
       (\<lambda>response w.
       (case response of
          Provisioned volume evidence \<Rightarrow>
            if \<not> va_encrypted volume \<or> va_key_custody volume \<noteq> UserControlled
            then Inl (provider_error
                   ''Provider did not attest a user-controlled encrypted volume.'')
            else Inr \<lparr>pv_volume = volume, pv_evidence = evidence\<rparr>
        | _ \<Rightarrow> Inl (response_mismatch ''provisioned''), w))"

definition bridge_lifecycle ::
    "'w provider_host \<Rightarrow> stdio_provider \<Rightarrow> remote_operation \<Rightarrow> environment_record \<Rightarrow> u16 option
     \<Rightarrow> 'w \<Rightarrow> (agent_error, lifecycle_receipt, 'w) outcome" where
  "bridge_lifecycle X p operation record log_limit w =
     sbind (provider_exchange X p (provider_request.Lifecycle PROVIDER_PROTOCOL_VERSION operation record log_limit)
              w) (\<lambda>response w.
       (case response of
          provider_response.Lifecycle evidence logs \<Rightarrow> Inr \<lparr>lr_evidence = evidence, lr_logs = logs\<rparr>
        | _ \<Rightarrow> Inl (response_mismatch ''lifecycle''), w))"

definition bridge_destroy ::
    "'w provider_host \<Rightarrow> stdio_provider \<Rightarrow> environment_record \<Rightarrow> 'w
     \<Rightarrow> (agent_error, provider_deletion_receipt, 'w) outcome" where
  "bridge_destroy X p record w =
     sbind (provider_exchange X p (provider_request.Destroy PROVIDER_PROTOCOL_VERSION record) w)
       (\<lambda>response w.
       (case response of
          provider_response.Deleted receipt_id remote_environment_id volume_id resource_deletions \<Rightarrow>
            Inr \<lparr>pr_receipt_id = receipt_id, pr_remote_environment_id = remote_environment_id,
                 pr_volume_id = volume_id, pr_resource_deletions = resource_deletions\<rparr>
        | _ \<Rightarrow> Inl (response_mismatch ''deleted''), w))"

definition bridge_open_screen ::
    "'w provider_host \<Rightarrow> stdio_provider \<Rightarrow> environment_record \<Rightarrow> uuid \<Rightarrow> u64 \<Rightarrow> 'w
     \<Rightarrow> (agent_error, screen_channel, 'w) outcome" where
  "bridge_open_screen X p record authorization_id expires_at_unix_ms w =
     sbind (provider_exchange X p (provider_request.OpenScreen PROVIDER_PROTOCOL_VERSION record
              authorization_id expires_at_unix_ms) w) (\<lambda>response w.
       (case response of
          provider_response.Screen channel_id remote_environment_id authorization_id expires_at_unix_ms transport \<Rightarrow>
            Inr \<lparr>sc_channel_id = channel_id, sc_remote_environment_id = remote_environment_id,
                 sc_authorization_id = authorization_id,
                 sc_expires_at_unix_ms = expires_at_unix_ms, sc_transport = transport\<rparr>
        | _ \<Rightarrow> Inl (response_mismatch ''screen''), w))"

definition bridge_send_input ::
    "'w provider_host \<Rightarrow> stdio_provider \<Rightarrow> environment_record \<Rightarrow> uuid \<Rightarrow> input_event list \<Rightarrow> 'w
     \<Rightarrow> (agent_error, unit, 'w) outcome" where
  "bridge_send_input X p record authorization_id events w =
     sbind (provider_exchange X p (provider_request.SendInput PROVIDER_PROTOCOL_VERSION record
              authorization_id events) w) (\<lambda>response w.
       (case response of
          provider_response.InputAccepted accepted \<Rightarrow>
            if accepted then Inr ()
            else Inl (provider_error ''Provider did not affirm input acceptance.'')
        | _ \<Rightarrow> Inl (response_mismatch ''input_accepted''), w))"

section \<open>What a call shows\<close>

lemma word_or_eq_0: "or (a :: 'a::len word) b = 0 \<longleftrightarrow> a = 0 \<and> b = 0"
  by (auto simp: bit_eq_iff bit_or_iff)

lemma word_xor_eq_0: "xor (a :: 'a::len word) b = 0 \<longleftrightarrow> a = b"
  by (auto simp: bit_eq_iff bit_xor_iff)

lemma provider_difference:
  "foldl (\<lambda>difference (l, r). or difference (xor (of_nat l) (of_nat r))) (acc :: 8 word) (zip left right) = 0
   \<longleftrightarrow> acc = 0 \<and> list_all (\<lambda>(l, r). (of_nat l :: 8 word) = of_nat r) (zip left right)"
  by (induction left right arbitrary: acc rule: list_induct2')
    (auto simp: word_or_eq_0 word_xor_eq_0)

lemma small_bytes_eq: "a < 256 \<Longrightarrow> b < 256 \<Longrightarrow> (of_nat a :: 8 word) = of_nat b \<longleftrightarrow> a = b"
  by (simp add: word_of_nat_eq_iff take_bit_eq_mod)

text \<open>On bytes the folded comparison is equality.\<close>

lemma provider_constant_time_eq_iff:
  assumes "\<forall>b \<in> set left \<union> set right. b < 256"
  shows "provider_constant_time_eq left right \<longleftrightarrow> left = right"
proof -
  have "list_all (\<lambda>(l, r). (of_nat l :: 8 word) = of_nat r) (zip left right) \<longleftrightarrow> left = right"
    if "length left = length right"
    using that assms by (induction rule: list_induct2) (auto simp: small_bytes_eq)
  then show ?thesis by (auto simp: provider_constant_time_eq_def provider_difference)
qed

text \<open>The executable is the pinned one: at the configured path, with the configured digest.\<close>

definition runs_pinned_executable :: "'w provider_host \<Rightarrow> stdio_provider \<Rightarrow> 'w \<Rightarrow> bool" where
  "runs_pinned_executable X p w \<longleftrightarrow>
     (\<exists>current content. po_canonicalize X w (bp_executable_path p) = Inr current
        \<and> same_path current (bp_executable_path p)
        \<and> po_content X w current = Inr content
        \<and> concat (map (show_hex 2) (po_sha256 X content)) = bp_executable_sha256 p)"

lemma sha256_text_bytes:
  "str_bytes (concat (map (show_hex 2) digest)) = concat (map (show_hex 2) digest)"
  "\<forall>b \<in> set (concat (map (show_hex 2) digest)). b < 256"
proof -
  have hex: "is_lower_hex c" if "c \<in> set (concat (map (show_hex 2) digest))" for c
    using that by (auto intro: show_hex_lower_hex)
  then show "str_bytes (concat (map (show_hex 2) digest)) = concat (map (show_hex 2) digest)"
    by (intro str_bytes_lower_hex) blast
  show "\<forall>b \<in> set (concat (map (show_hex 2) digest)). b < 256"
    using hex lower_hex_ascii by fastforce
qed

lemma verify_executable_pinned:
  assumes "verify_executable X p w = Inr ()" "list_all is_lower_hex (str_bytes (bp_executable_sha256 p))"
  shows "runs_pinned_executable X p w"
proof -
  from assms(1) obtain current content where v: "po_canonicalize X w (bp_executable_path p) = Inr current"
      "same_path current (bp_executable_path p)" "po_content X w current = Inr content"
      "provider_constant_time_eq (str_bytes (concat (map (show_hex 2) (po_sha256 X content))))
         (str_bytes (bp_executable_sha256 p))"
    by (auto simp: verify_executable_def secure_provider_path_def sha256_file_def split: if_splits)
  from assms(2) have pin: "str_bytes (bp_executable_sha256 p) = bp_executable_sha256 p"
      "\<forall>b \<in> set (bp_executable_sha256 p). b < 256"
    using ascii_str_bytes [of "bp_executable_sha256 p"] lower_hex_ascii
    by (fastforce simp: list_all_iff)+
  have "concat (map (show_hex 2) (po_sha256 X content)) = bp_executable_sha256 p"
    using v(4) unfolding sha256_text_bytes(1) pin(1)
    by (subst (asm) provider_constant_time_eq_iff) (use sha256_text_bytes(2) pin(2) in auto)
  with v show ?thesis unfolding runs_pinned_executable_def by blast
qed

text \<open>One whole exchange that succeeded.\<close>

definition provider_answered ::
    "'w provider_host \<Rightarrow> stdio_provider \<Rightarrow> provider_request \<Rightarrow> 'w \<Rightarrow> provider_response \<Rightarrow> 'w \<Rightarrow> bool" where
  "provider_answered X p request w response w' \<longleftrightarrow>
     (\<exists>payload process stdout.
        po_encode X request = Inr payload \<and> length payload \<le> MAX_MESSAGE_BYTES
        \<and> po_spawn X (bp_executable_path p) [lit ''--verisilo-provider-v1''] payload w = (Inr process, w')
        \<and> wait_for_provider (pp_poll process) (pp_late process) 0 0 = Inr True
        \<and> pp_stdout process = StreamOf stdout \<and> length stdout \<le> MAX_MESSAGE_BYTES
        \<and> po_decode X stdout = Inr response)"

lemma collect_response_Inr:
  assumes "collect_response X process success = Inr response"
  shows "success \<and> (\<exists>stdout. pp_stdout process = StreamOf stdout \<and> length stdout \<le> MAX_MESSAGE_BYTES
    \<and> po_decode X stdout = Inr response)"
proof -
  from assms obtain stdout where s: "pp_stdout process = StreamOf stdout" "success"
      "length (take (MAX_MESSAGE_BYTES + 1) stdout) \<le> MAX_MESSAGE_BYTES"
      "po_decode X (take (MAX_MESSAGE_BYTES + 1) stdout) = Inr response"
    by (auto simp: collect_response_def bounded_read_def dest!: accepted_response_Inr
        split: provider_stream.splits if_splits)
  then have "length stdout \<le> MAX_MESSAGE_BYTES" by simp
  with s show ?thesis by simp
qed

lemma provider_exchange_Inr:
  assumes "provider_exchange X p request w = (Inr response, w')"
  shows "verify_executable X p w = Inr () \<and> provider_answered X p request w response w'"
proof -
  from assms obtain payload process success where e: "verify_executable X p w = Inr ()"
      "po_encode X request = Inr payload" "length payload \<le> MAX_MESSAGE_BYTES"
      "po_spawn X (bp_executable_path p) [lit ''--verisilo-provider-v1''] payload w = (Inr process, w')"
      "wait_for_provider (pp_poll process) (pp_late process) 0 0 = Inr success"
      "collect_response X process success = Inr response"
    by (auto simp: provider_exchange_def sbind_Inr_iff split: if_splits prod.splits sum.splits)
  with collect_response_Inr [OF e(6)] show ?thesis
    unfolding provider_answered_def by auto
qed

text \<open>An executable that is not the pinned one does not run: the world stays as it is.\<close>

lemma provider_exchange_refused:
  "verify_executable X p w = Inl error \<Longrightarrow> provider_exchange X p request w = (Inl error, w)"
  by (simp add: provider_exchange_def)

text \<open>The wait looks at a bounded number of polls.\<close>

lemma wait_for_provider_cong:
  assumes "\<And>j. i \<le> j \<Longrightarrow> 20 * (j - i) \<le> PROVIDER_TIMEOUT + 19 - now \<Longrightarrow> polls j = polls' j \<and> late j = late' j"
  shows "wait_for_provider polls late now i = wait_for_provider polls' late' now i"
  using assms
proof (induction polls late now i rule: wait_for_provider.induct)
  case (1 polls late now i)
  have here: "polls i = polls' i" "late i = late' i" using "1.prems" [of i] by auto
  show ?case
  proof (cases "polls i = Running \<and> now < PROVIDER_TIMEOUT")
    case True
    have "wait_for_provider polls late (now + 20 + late i) (Suc i)
        = wait_for_provider polls' late' (now + 20 + late i) (Suc i)"
    proof (rule "1.IH")
      fix j assume "Suc i \<le> j" "20 * (j - Suc i) \<le> PROVIDER_TIMEOUT + 19 - (now + 20 + late i)"
      with True show "polls j = polls' j \<and> late j = late' j" by (intro "1.prems") auto
    qed (use True in auto)
    with True here show ?thesis
      by (simp add: wait_for_provider.simps [of polls late now i]
          wait_for_provider.simps [of polls' late' now i])
  next
    case False
    with here show ?thesis
      by (auto simp: wait_for_provider.simps [of polls late now i]
          wait_for_provider.simps [of polls' late' now i] split: provider_poll.splits)
  qed
qed

end
