(* ===== verification/Http_Behaviour.thy ===== *)
theory Http_Behaviour
  imports Http_Request
begin

text \<open>
  Facts on the HTTP side of the listener: where a head ends, what an accepted head promises, how
  the two reading loops relate to the parser of a complete request, and how much they read.
\<close>

section \<open>The end of the head\<close>

lemma crlf_crlf_length: "take 4 bytes = crlf_crlf \<Longrightarrow> 4 \<le> length bytes"
  by (drule arg_cong [where f = length]) (simp add: crlf_crlf_def)

lemma find_header_end_Cons:
  "find_header_end (b # bytes) =
     (if take 4 (b # bytes) = crlf_crlf then Some 4 else map_option Suc (find_header_end bytes))"
  by (rule find_header_end.simps(2))

declare find_header_end.simps(2) [simp del]

lemma find_header_end_bounds:
  "find_header_end bytes = Some e \<Longrightarrow> 4 \<le> e \<and> e \<le> length bytes"
proof (induction bytes arbitrary: e)
  case (Cons b bytes)
  then show ?case
    using crlf_crlf_length [of "b # bytes"]
    by (cases "take 4 (b # bytes) = crlf_crlf") (auto simp: find_header_end_Cons simp del: take_Cons_numeral)
qed simp

lemma find_header_end_append:
  "find_header_end bytes = Some e \<Longrightarrow> find_header_end (bytes @ extra) = Some e"
proof (induction bytes arbitrary: e)
  case (Cons b bytes)
  have same: "4 \<le> length (b # bytes) \<Longrightarrow> take 4 ((b # bytes) @ extra) = take 4 (b # bytes)" by simp
  from find_header_end_bounds [OF Cons.prems] have long: "4 \<le> length (b # bytes)" by simp
  show ?case
  proof (cases "take 4 (b # bytes) = crlf_crlf")
    case True
    with same [OF long] Cons.prems show ?thesis
      by (simp add: find_header_end_Cons del: take_Cons_numeral)
  next
    case False
    with Cons.prems Cons.IH same [OF long] show ?thesis
      by (auto simp: find_header_end_Cons simp del: take_Cons_numeral)
  qed
qed simp

lemma find_header_end_prefix:
  "find_header_end (bytes @ extra) = Some e \<Longrightarrow> find_header_end bytes = None \<Longrightarrow> length bytes < e"
proof (induction bytes arbitrary: e)
  case Nil
  then show ?case by (auto dest: find_header_end_bounds)
next
  case (Cons b bytes)
  have none: "find_header_end bytes = None" "take 4 (b # bytes) \<noteq> crlf_crlf"
    using Cons.prems(2) by (auto simp: find_header_end_Cons simp del: take_Cons_numeral split: if_splits)
  note IH = Cons.IH [OF _ none(1)]
  show ?case
  proof (cases "take 4 ((b # bytes) @ extra) = crlf_crlf")
    case True
    with none(2) have "length (b # bytes) < 4" by (cases "4 \<le> length (b # bytes)") simp_all
    moreover from True Cons.prems(1) have "e = 4"
      by (simp add: find_header_end_Cons del: take_Cons_numeral)
    ultimately show ?thesis by simp
  next
    case False
    then have "find_header_end ((b # bytes) @ extra) = map_option Suc (find_header_end (bytes @ extra))"
      by (simp add: find_header_end_Cons del: take_Cons_numeral)
    with Cons.prems(1) obtain e' where "find_header_end (bytes @ extra) = Some e'" "e = Suc e'"
      by (cases "find_header_end (bytes @ extra)") auto
    with IH show ?thesis by simp
  qed
qed

section \<open>Accepted heads\<close>

lemma take_headers_Inr:
  "take_headers seen headers found = Inr found' \<Longrightarrow>
     distinct (map (\<lambda>header. to_ascii_lowercase (fst header)) headers)
     \<and> (\<forall>header \<in> set headers. to_ascii_lowercase (fst header) \<notin> set seen \<union> set forbidden_headers)"
proof (induction headers arbitrary: seen found)
  case (Cons header headers)
  obtain raw_name raw_value where h: "header = (raw_name, raw_value)" by (cases header)
  let ?name = "to_ascii_lowercase raw_name"
  from Cons.prems obtain v between where v: "?name \<notin> set seen" "from_utf8 raw_value = Some v"
      "take_header ?name v found = Inr between"
      "take_headers (?name # seen) headers between = Inr found'"
    by (auto simp: h Let_def split: if_splits)
  from Cons.IH [OF v(4)] v(1) have rest:
    "distinct (map (\<lambda>header. to_ascii_lowercase (fst header)) headers)"
    "\<forall>header \<in> set headers. to_ascii_lowercase (fst header)
       \<notin> insert ?name (set seen) \<union> set forbidden_headers"
    by auto
  from v(3) have "?name \<notin> set forbidden_headers"
    by (auto simp: take_header_def forbidden_headers_def lit_def split: if_splits)
  with rest v(1) show ?case by (auto simp: h)
qed simp

text \<open>The value of a header as text, looked up by its lowercase name.\<close>

definition header_value :: "string \<Rightarrow> (str \<times> nat list) list \<Rightarrow> str option" where
  "header_value name headers =
     Option.bind (find (\<lambda>header. to_ascii_lowercase (fst header) = lit name) headers)
       (from_utf8 \<circ> snd)"

lemma header_value_simps [simp]:
  "header_value name [] = None"
  "header_value name (header # headers) =
     (if to_ascii_lowercase (fst header) = lit name then from_utf8 (snd header)
      else header_value name headers)"
  by (simp_all add: header_value_def)

lemma header_value_None:
  "(\<forall>header \<in> set headers. to_ascii_lowercase (fst header) \<noteq> lit name)
   \<Longrightarrow> header_value name headers = None"
  by (induction headers) auto

text \<open>
  A member that one header sets, by a parser of its own, and that no other header touches, holds
  what that header says.
\<close>

definition sets_member ::
    "string \<Rightarrow> (str \<Rightarrow> http_rejection + 'b) \<Rightarrow> (header_fields \<Rightarrow> 'b option) \<Rightarrow> bool" where
  "sets_member name parse get \<longleftrightarrow>
     (\<forall>v f f'. take_header (lit name) v f = Inr f' \<longrightarrow> (\<exists>x. parse v = Inr x \<and> get f' = Some x))
     \<and> (\<forall>other v f f'. other \<noteq> lit name \<longrightarrow> take_header other v f = Inr f' \<longrightarrow> get f' = get f)"

lemma sets_memberD:
  "sets_member name parse get \<Longrightarrow> take_header (lit name) v f = Inr f'
   \<Longrightarrow> \<exists>x. parse v = Inr x \<and> get f' = Some x"
  "sets_member name parse get \<Longrightarrow> other \<noteq> lit name \<Longrightarrow> take_header other v f = Inr f'
   \<Longrightarrow> get f' = get f"
  by (simp_all add: sets_member_def)

lemma take_headers_member:
  assumes "sets_member name parse get"
  shows "take_headers seen headers found = Inr found' \<Longrightarrow>
     (case header_value name headers of
        None \<Rightarrow> get found' = get found
      | Some v \<Rightarrow> \<exists>x. parse v = Inr x \<and> get found' = Some x)"
proof (induction headers arbitrary: seen found)
  case (Cons header headers)
  obtain raw_name raw_value where h: "header = (raw_name, raw_value)" by (cases header)
  let ?name = "to_ascii_lowercase raw_name"
  from Cons.prems obtain v between where v: "from_utf8 raw_value = Some v"
      "take_header ?name v found = Inr between"
      "take_headers (?name # seen) headers between = Inr found'"
    by (auto simp: h Let_def split: if_splits)
  note IH = Cons.IH [OF v(3)]
  show ?case
  proof (cases "?name = lit name")
    case True
    with take_headers_Inr [OF v(3)] have "header_value name headers = None"
      by (intro header_value_None) auto
    with IH have same: "get found' = get between" by simp
    obtain x where "parse v = Inr x" "get between = Some x"
      using sets_memberD(1) [OF assms v(2) [unfolded True]] by auto
    with same True v(1) show ?thesis by (simp add: h)
  next
    case False
    from sets_memberD(2) [OF assms False v(2)] have "get between = get found" .
    with IH False show ?thesis by (cases "header_value name headers") (simp_all add: h)
  qed
qed simp

lemma header_members:
  "sets_member ''host'' Inr hf_host"
  "sets_member ''content-length'' parse_content_length hf_content_length"
  "sets_member ''content-type'' Inr hf_content_type"
  "sets_member ''x-verisilo-protocol'' Inr hf_protocol"
  "sets_member ''authorization'' parse_bearer hf_bearer"
  by (auto simp: sets_member_def take_header_def lit_eq_iff split: if_splits)

lemma parse_content_length_Inr:
  "parse_content_length v = Inr n \<longleftrightarrow>
     v \<noteq> [] \<and> list_all is_ascii_digit (str_bytes v) \<and> n = decimal_value v \<and> n \<le> MAX_MESSAGE_BYTES"
  by (auto simp: parse_content_length_def parse_usize_def MAX_MESSAGE_BYTES_def split: if_splits)

lemma parse_bearer_Inr:
  "parse_bearer v = Inr token \<longleftrightarrow>
     v = lit ''Bearer '' @ token \<and> 32 \<le> str_len token \<and> str_len token \<le> 512
     \<and> list_all is_base64url (str_bytes token)"
proof -
  have "strip_prefix p v = Some token \<longleftrightarrow> v = p @ token" for p :: str
    by (auto simp: strip_prefix_def) (metis append_take_drop_id)
  then show ?thesis by (auto simp: parse_bearer_def split: if_splits)
qed

text \<open>What is certain of a request that the parser accepts.\<close>

definition unambiguous_head :: "tokenized_head \<Rightarrow> nat \<Rightarrow> bool" where
  "unambiguous_head head available \<longleftrightarrow>
     head_line_ok head available
     \<and> distinct (map (\<lambda>header. to_ascii_lowercase (fst header)) (ht_headers head))
     \<and> (\<forall>header \<in> set (ht_headers head).
          to_ascii_lowercase (fst header) \<notin> set forbidden_headers)"

definition declares_length :: "tokenized_head \<Rightarrow> nat \<Rightarrow> bool" where
  "declares_length head n \<longleftrightarrow>
     (\<exists>v. header_value ''content-length'' (ht_headers head) = Some v
          \<and> v \<noteq> [] \<and> list_all is_ascii_digit (str_bytes v) \<and> decimal_value v = n)
     \<and> n \<le> MAX_MESSAGE_BYTES"

definition declares_bearer :: "tokenized_head \<Rightarrow> str option \<Rightarrow> bool" where
  "declares_bearer head bearer \<longleftrightarrow>
     header_value ''authorization'' (ht_headers head) = map_option ((@) (lit ''Bearer '')) bearer
     \<and> (\<forall>token. bearer = Some token \<longrightarrow>
          32 \<le> str_len token \<and> str_len token \<le> 512 \<and> list_all is_base64url (str_bytes token))"

lemma parse_http_head_Inr:
  assumes "parse_http_head tokenize bytes = Inr head"
  shows "\<exists>tokens. tokenize MAX_HEADERS bytes = Inr tokens
           \<and> unambiguous_head tokens (length bytes)
           \<and> declares_length tokens (hh_content_length head)
           \<and> declares_bearer tokens (hh_bearer head)"
proof -
  from assms obtain tokens found n where t: "tokenize MAX_HEADERS bytes = Inr tokens"
      "head_line_ok tokens (length bytes)"
      "take_headers [] (ht_headers tokens) no_header_fields = Inr found"
      "hf_content_length found = Some n"
      "head = \<lparr>hh_content_length = n, hh_bearer = hf_bearer found\<rparr>"
    by (auto simp: parse_http_head_def split: if_splits)
  note member = take_headers_member [OF _ t(3)]
  have "declares_length tokens n"
    using member [OF header_members(2)] t(4)
    by (cases "header_value ''content-length'' (ht_headers tokens)")
      (auto simp: declares_length_def parse_content_length_Inr no_header_fields_def)
  moreover have "declares_bearer tokens (hf_bearer found)"
    using member [OF header_members(5)]
    by (cases "header_value ''authorization'' (ht_headers tokens)")
      (auto simp: declares_bearer_def parse_bearer_Inr no_header_fields_def)
  ultimately show ?thesis
    using t take_headers_Inr [OF t(3)] by (auto simp: unambiguous_head_def)
qed

lemma parse_http_head_length:
  "parse_http_head tokenize bytes = Inr head \<Longrightarrow> hh_content_length head \<le> MAX_MESSAGE_BYTES"
  by (auto dest!: parse_http_head_Inr simp: declares_length_def)

lemma expected_end:
  "header_end \<le> MAX_HEADER_BYTES \<Longrightarrow> parse_http_head tokenize bytes = Inr head
   \<Longrightarrow> checked_usize_add header_end (hh_content_length head)
         = Some (header_end + hh_content_length head)"
  using parse_http_head_length [of tokenize bytes head]
  by (simp add: checked_usize_add_def MAX_HEADER_BYTES_def MAX_MESSAGE_BYTES_def)

lemma parse_http_request_Inr:
  "parse_http_request_bytes tokenize bytes = Inr request \<longleftrightarrow>
     (\<exists>header_end head. find_header_end bytes = Some header_end \<and> header_end \<le> MAX_HEADER_BYTES
        \<and> parse_http_head tokenize (take header_end bytes) = Inr head
        \<and> length bytes = header_end + hh_content_length head
        \<and> request = \<lparr>hq_bearer = hh_bearer head, hq_body = drop header_end bytes\<rparr>)"
proof (cases "find_header_end bytes")
  case (Some header_end)
  show ?thesis
  proof (cases "header_end \<le> MAX_HEADER_BYTES")
    case True
    with Some show ?thesis
      by (cases "parse_http_head tokenize (take header_end bytes)")
        (auto simp: parse_http_request_bytes_def expected_end)
  qed (simp add: parse_http_request_bytes_def Some)
qed (simp add: parse_http_request_bytes_def)

section \<open>Reading\<close>

text \<open>The bytes that are still to arrive.\<close>

fun event_bytes :: "read_event \<Rightarrow> nat list" where
  "event_bytes (Arrived bytes) = bytes"
| "event_bytes _ = []"

definition arriving :: "read_event list \<Rightarrow> nat list" where
  "arriving events = concat (map event_bytes events)"

lemma arriving_simps [simp]:
  "arriving [] = []"
  "arriving (event # events) = event_bytes event @ arriving events"
  by (simp_all add: arriving_def)

lemma read_before_deadline_Inr:
  "read_before_deadline limit events = (Inr chunk, rest) \<Longrightarrow>
     arriving events = chunk @ arriving rest \<and> length chunk \<le> limit"
  by (cases "(limit, events)" rule: read_before_deadline.cases) (auto split: if_splits)

lemma read_before_deadline_Inl:
  "read_before_deadline limit events = (Inl rejection, rest) \<Longrightarrow> arriving events = arriving rest"
  by (cases "(limit, events)" rule: read_before_deadline.cases) (auto split: if_splits)

text \<open>
  \<open>takes_at_most limit raw events rest\<close>: a reader that starts with \<open>raw\<close> takes bytes off the
  front of the stream, in order, and never holds more than \<open>limit\<close> of them.
\<close>

definition takes_at_most :: "nat \<Rightarrow> nat list \<Rightarrow> read_event list \<Rightarrow> read_event list \<Rightarrow> bool" where
  "takes_at_most limit raw events rest \<longleftrightarrow>
     (\<exists>taken. arriving events = taken @ arriving rest \<and> length (raw @ taken) \<le> limit)"

lemma takes_nothing: "length raw \<le> limit \<Longrightarrow> arriving events = arriving rest
   \<Longrightarrow> takes_at_most limit raw events rest"
  by (simp add: takes_at_most_def)

lemma takes_more:
  assumes "takes_at_most limit (raw @ chunk) events' rest" "arriving events = chunk @ arriving events'"
  shows "takes_at_most limit raw events rest"
proof -
  from assms(1) obtain taken where "arriving events' = taken @ arriving rest"
      "length ((raw @ chunk) @ taken) \<le> limit"
    unfolding takes_at_most_def by auto
  with assms(2) show ?thesis unfolding takes_at_most_def by (intro exI [of _ "chunk @ taken"]) simp
qed

definition head_read :: "nat list \<Rightarrow> read_event list \<Rightarrow> nat list \<times> nat \<Rightarrow> read_event list \<Rightarrow> bool" where
  "head_read raw events found rest \<longleftrightarrow>
     fst found @ arriving rest = raw @ arriving events
     \<and> length (fst found) \<le> MAX_HEADER_BYTES + BUFFER_BYTES
     \<and> find_header_end (fst found) = Some (snd found) \<and> snd found \<le> MAX_HEADER_BYTES"

lemma read_head_spec:
  assumes "read_head raw events = (r, rest)" "length raw \<le> MAX_HEADER_BYTES"
  shows "takes_at_most (MAX_HEADER_BYTES + BUFFER_BYTES) raw events rest
    \<and> (\<forall>found. r = Inr found \<longrightarrow> head_read raw events found rest)"
  using assms
proof (induction raw events arbitrary: r rest rule: read_head.induct)
  case (1 raw events)
  let ?limit = "MAX_HEADER_BYTES + BUFFER_BYTES"
  obtain piece events' where p: "read_before_deadline BUFFER_BYTES events = (piece, events')"
    by fastforce
  show ?case
  proof (cases piece)
    case (Inl rejection)
    with "1.prems"(1) p have "r = Inl rejection" "rest = events'"
      by (simp_all add: read_head.simps [of raw events])
    with "1.prems"(2) p Inl show ?thesis
      by (auto intro!: takes_nothing dest: read_before_deadline_Inl)
  next
    case (Inr chunk)
    from p Inr have c: "arriving events = chunk @ arriving events'" "length chunk \<le> BUFFER_BYTES"
      by (auto dest: read_before_deadline_Inr)
    have here: "takes_at_most ?limit raw events events'"
      using c "1.prems"(2) by (auto simp: takes_at_most_def)
    have step: "read_head raw events =
        (if chunk = [] then (Inl BadRequest, events')
         else case find_header_end (raw @ chunk) of
             Some header_end \<Rightarrow>
               if MAX_HEADER_BYTES < header_end then (Inl HeadersTooLarge, events')
               else (Inr (raw @ chunk, header_end), events')
           | None \<Rightarrow>
               if MAX_HEADER_BYTES < length (raw @ chunk) then (Inl HeadersTooLarge, events')
               else read_head (raw @ chunk) events')"
      using p Inr by (subst read_head.simps) simp
    show ?thesis
    proof (cases "chunk \<noteq> [] \<and> find_header_end (raw @ chunk) = None
                  \<and> length (raw @ chunk) \<le> MAX_HEADER_BYTES")
      case True
      with step "1.prems"(1) have "read_head (raw @ chunk) events' = (r, rest)" by simp
      with "1.IH" [OF p [symmetric] Inr _ _ _ this] True
      have "takes_at_most ?limit (raw @ chunk) events' rest"
        "\<forall>found. r = Inr found \<longrightarrow> head_read (raw @ chunk) events' found rest"
        by auto
      with c(1) show ?thesis by (auto simp: head_read_def intro: takes_more)
    next
      case False
      with step "1.prems" here c show ?thesis
        by (auto simp: head_read_def split: option.splits if_splits)
    qed
  qed
qed

lemma read_body_spec:
  assumes "read_body expected raw events = (r, rest)" "length raw \<le> expected"
  shows "takes_at_most expected raw events rest
    \<and> (\<forall>raw'. r = Inr raw' \<longrightarrow> raw' @ arriving rest = raw @ arriving events \<and> length raw' = expected)"
  using assms
proof (induction expected raw events arbitrary: r rest rule: read_body.induct)
  case (1 expected raw events)
  show ?case
  proof (cases "expected \<le> length raw")
    case True
    with "1.prems" show ?thesis
      by (auto simp: read_body.simps [of expected raw events] intro: takes_nothing)
  next
    case False
    let ?limit = "min (expected - length raw) BUFFER_BYTES"
    obtain piece events' where p: "read_before_deadline ?limit events = (piece, events')"
      by fastforce
    show ?thesis
    proof (cases piece)
      case (Inl rejection)
      with "1.prems"(1) p False have "r = Inl rejection" "rest = events'"
        by (simp_all add: read_body.simps [of expected raw events])
      with "1.prems"(2) p Inl show ?thesis
        by (auto intro!: takes_nothing dest: read_before_deadline_Inl)
    next
      case (Inr chunk)
      with p have "arriving events = chunk @ arriving events' \<and> length chunk \<le> ?limit"
        by (intro read_before_deadline_Inr) simp
      with False have c: "arriving events = chunk @ arriving events'"
        "length (raw @ chunk) \<le> expected"
        by auto
      have step: "read_body expected raw events =
          (if chunk = [] then (Inl BadRequest, events') else read_body expected (raw @ chunk) events')"
        using p Inr False by (subst read_body.simps) simp
      show ?thesis
      proof (cases "chunk = []")
        case True
        with step "1.prems" c show ?thesis by (auto intro: takes_nothing)
      next
        case chunk: False
        with step "1.prems"(1) have "read_body expected (raw @ chunk) events' = (r, rest)" by simp
        from "1.IH" [OF False p [symmetric] Inr chunk this c(2)] c(1) show ?thesis
          by (auto intro: takes_more)
      qed
    qed
  qed
qed

definition MAX_REQUEST_BYTES :: nat where
  "MAX_REQUEST_BYTES = MAX_HEADER_BYTES + MAX_MESSAGE_BYTES"

lemma takes_at_most_mono:
  "takes_at_most limit raw events rest \<Longrightarrow> limit \<le> limit' \<Longrightarrow> takes_at_most limit' raw events rest"
  by (auto simp: takes_at_most_def)

lemma read_http_request_spec:
  assumes "read_http_request tokenize events = (r, rest)"
  shows "takes_at_most MAX_REQUEST_BYTES [] events rest
    \<and> (\<forall>request. r = Inr request \<longrightarrow>
         (\<exists>taken. arriving events = taken @ arriving rest
            \<and> parse_http_request_bytes tokenize taken = Inr request))"
proof -
  have small: "MAX_HEADER_BYTES + BUFFER_BYTES \<le> MAX_REQUEST_BYTES"
    by (simp add: MAX_REQUEST_BYTES_def MAX_MESSAGE_BYTES_def BUFFER_BYTES_def)
  obtain found events' where h: "read_head [] events = (found, events')" by fastforce
  have taken: "takes_at_most MAX_REQUEST_BYTES [] events events'"
    using read_head_spec [OF h] small by (auto intro: takes_at_most_mono)
  show ?thesis
  proof (cases found)
    case (Inl rejection)
    with assms h taken show ?thesis by (auto simp: read_http_request_def)
  next
    case (Inr raw_end)
    obtain raw header_end where f: "found = Inr (raw, header_end)" using Inr by (cases raw_end) simp
    from read_head_spec [OF h] f have raw: "raw @ arriving events' = arriving events"
        "find_header_end raw = Some header_end" "header_end \<le> MAX_HEADER_BYTES"
      by (auto simp: head_read_def)
    show ?thesis
    proof (cases "parse_http_head tokenize (take header_end raw)")
      case (Inl rejection)
      with assms h f taken show ?thesis by (auto simp: read_http_request_def)
    next
      case head: (Inr head)
      let ?expected = "header_end + hh_content_length head"
      show ?thesis
      proof (cases "?expected < length raw")
        case True
        with assms h f head taken raw(3) show ?thesis
          by (auto simp: read_http_request_def expected_end [OF raw(3) head])
      next
        case False
        obtain body events'' where b: "read_body ?expected raw events' = (body, events'')" by fastforce
        from read_body_spec [OF b] False have body: "takes_at_most ?expected raw events' events''"
            "\<forall>raw'. body = Inr raw' \<longrightarrow> arriving events = raw' @ arriving events''"
          using raw(1) by auto
        have "?expected \<le> MAX_REQUEST_BYTES"
          using raw(3) parse_http_head_length [OF head] by (simp add: MAX_REQUEST_BYTES_def)
        with body(1) raw(1) have "takes_at_most MAX_REQUEST_BYTES [] events events''"
          by (intro takes_more [of _ "[]" raw]) (auto intro: takes_at_most_mono)
        moreover from assms h f head False b have
          "(r, rest) = sbind (body, events'') (\<lambda>raw events.
             (parse_http_request_bytes tokenize raw, events))"
          by (simp add: read_http_request_def expected_end [OF raw(3) head])
        ultimately show ?thesis using body(2) by (cases body) auto
      qed
    qed
  qed
qed

section \<open>Reading whatever the pieces\<close>

text \<open>A peer that sends some nonempty pieces, and then whatever \<open>tail\<close> says.\<close>

definition sending :: "nat list list \<Rightarrow> read_event list \<Rightarrow> read_event list" where
  "sending chunks tail = map Arrived chunks @ tail"

lemma read_before_deadline_sending:
  assumes "[] \<notin> set chunks" "chunks \<noteq> []" "0 < limit"
  shows "\<exists>chunk chunks'. read_before_deadline limit (sending chunks tail)
           = (Inr chunk, sending chunks' tail)
         \<and> chunk \<noteq> [] \<and> length chunk \<le> limit \<and> [] \<notin> set chunks'
         \<and> concat chunks = chunk @ concat chunks'"
proof -
  obtain c cs where c: "chunks = c # cs" "c \<noteq> []" "[] \<notin> set cs" using assms by (cases chunks) auto
  show ?thesis
  proof (cases "length c \<le> limit")
    case True
    with c show ?thesis by (intro exI [of _ c] exI [of _ cs]) (simp add: sending_def)
  next
    case False
    with c assms(3) show ?thesis
      by (intro exI [of _ "take limit c"] exI [of _ "drop limit c # cs"]) (auto simp: sending_def)
  qed
qed

lemma read_head_complete:
  assumes "find_header_end (raw @ concat chunks) = Some e" "find_header_end raw = None"
    "e \<le> MAX_HEADER_BYTES" "[] \<notin> set chunks"
  shows "\<exists>raw' chunks'. read_head raw (sending chunks tail) = (Inr (raw', e), sending chunks' tail)
           \<and> raw' @ concat chunks' = raw @ concat chunks \<and> e \<le> length raw' \<and> [] \<notin> set chunks'"
  using assms
proof (induction "length (concat chunks)" arbitrary: raw chunks rule: less_induct)
  case less
  from less.prems have "chunks \<noteq> []" by auto
  then obtain chunk chunks' where c:
      "read_before_deadline BUFFER_BYTES (sending chunks tail) = (Inr chunk, sending chunks' tail)"
      "chunk \<noteq> []" "[] \<notin> set chunks'" "concat chunks = chunk @ concat chunks'"
    using read_before_deadline_sending [of chunks BUFFER_BYTES tail] less.prems(4)
    by (auto simp: BUFFER_BYTES_def)
  show ?case
  proof (cases "find_header_end (raw @ chunk)")
    case (Some e')
    from find_header_end_append [OF this] c(4) less.prems(1) have "e' = e"
      by (metis append_assoc option.inject)
    with Some c less.prems(3) find_header_end_bounds [OF Some] show ?thesis
      by (intro exI [of _ "raw @ chunk"] exI [of _ chunks'])
        (simp add: read_head.simps [of raw])
  next
    case None
    have whole: "find_header_end ((raw @ chunk) @ concat chunks') = Some e"
      using less.prems(1) c(4) by simp
    from find_header_end_prefix [OF this None] less.prems(3)
    have "length (raw @ chunk) \<le> MAX_HEADER_BYTES" by simp
    with None c have "read_head raw (sending chunks tail) = read_head (raw @ chunk) (sending chunks' tail)"
      by (subst read_head.simps) simp
    moreover have "length (concat chunks') < length (concat chunks)" using c(2,4) by simp
    ultimately show ?thesis
      using less.hyps [OF _ whole None less.prems(3) c(3)] c(4) by simp
  qed
qed

lemma read_body_complete:
  assumes "length (raw @ concat chunks) = expected" "[] \<notin> set chunks"
  shows "read_body expected raw (sending chunks tail) = (Inr (raw @ concat chunks), tail)"
  using assms
proof (induction "length (concat chunks)" arbitrary: raw chunks rule: less_induct)
  case less
  show ?case
  proof (cases "chunks = []")
    case True
    with less.prems show ?thesis by (simp add: read_body.simps [of expected] sending_def)
  next
    case False
    with less.prems have more: "length raw < expected"
      by (cases chunks) auto
    then obtain chunk chunks' where c:
        "read_before_deadline (min (expected - length raw) BUFFER_BYTES) (sending chunks tail)
           = (Inr chunk, sending chunks' tail)"
        "chunk \<noteq> []" "[] \<notin> set chunks'" "concat chunks = chunk @ concat chunks'"
      using read_before_deadline_sending [OF less.prems(2) False, of "min (expected - length raw) BUFFER_BYTES" tail]
      by (auto simp: BUFFER_BYTES_def)
    with more have "read_body expected raw (sending chunks tail)
        = read_body expected (raw @ chunk) (sending chunks' tail)"
      by (subst read_body.simps) simp
    moreover have "length (concat chunks') < length (concat chunks)" using c(2,4) by simp
    ultimately show ?thesis using less.hyps [of chunks' "raw @ chunk"] less.prems(1) c by simp
  qed
qed

lemma read_http_request_complete:
  assumes "parse_http_request_bytes tokenize (concat chunks) = Inr request" "[] \<notin> set chunks"
  shows "read_http_request tokenize (sending chunks tail) = (Inr request, tail)"
proof -
  from assms(1) obtain e head where p: "find_header_end (concat chunks) = Some e"
      "e \<le> MAX_HEADER_BYTES" "parse_http_head tokenize (take e (concat chunks)) = Inr head"
      "length (concat chunks) = e + hh_content_length head"
    unfolding parse_http_request_Inr by blast
  from read_head_complete [of "[]" chunks e tail] p assms(2) obtain raw chunks' where r:
      "read_head [] (sending chunks tail) = (Inr (raw, e), sending chunks' tail)"
      "raw @ concat chunks' = concat chunks" "e \<le> length raw" "[] \<notin> set chunks'"
    by auto
  have "take e raw = take e (concat chunks)" using r(2,3) by (metis take_append diff_is_0_eq take0 append_Nil2)
  with p have head: "parse_http_head tokenize (take e raw) = Inr head" by simp
  have "length raw \<le> e + hh_content_length head"
    using p(4) r(2) by (metis length_append le_add1)
  moreover have "read_body (e + hh_content_length head) raw (sending chunks' tail)
      = (Inr (concat chunks), tail)"
    using read_body_complete [of raw chunks' "e + hh_content_length head" tail] p(4) r(2,4) by simp
  ultimately show ?thesis
    using r(1) head assms(1) by (simp add: read_http_request_def expected_end [OF p(2) head])
qed

section \<open>Reading ends\<close>

text \<open>A reader that has returned before the end of \<open>events\<close> does not depend on what follows them.\<close>

definition followed_by ::
    "('e, 'b, read_event list) outcome \<Rightarrow> read_event list \<Rightarrow> ('e, 'b, read_event list) outcome" where
  "followed_by m extra = (case m of (r, rest) \<Rightarrow> (r, rest @ extra))"

lemma followed_by_simps [simp]: "followed_by (r, rest) extra = (r, rest @ extra)"
  by (simp add: followed_by_def)

lemma read_before_deadline_followed:
  "events \<noteq> [] \<Longrightarrow> read_before_deadline limit (events @ extra)
     = followed_by (read_before_deadline limit events) extra"
  by (cases "(limit, events)" rule: read_before_deadline.cases) simp_all

lemma read_before_deadline_progress:
  "read_before_deadline limit events = (r, rest) \<Longrightarrow> length events \<le> Suc (length rest)"
  by (cases "(limit, events)" rule: read_before_deadline.cases) (auto split: if_splits)

lemma read_head_followed:
  assumes "MAX_HEADER_BYTES < length events + length raw" "length raw \<le> MAX_HEADER_BYTES"
  shows "read_head raw (events @ extra) = followed_by (read_head raw events) extra
    \<and> (\<forall>raw' e rest. read_head raw events = (Inr (raw', e), rest) \<longrightarrow>
         length events + length raw \<le> length rest + length raw')"
  using assms
proof (induction raw events rule: read_head.induct)
  case (1 raw events)
  from "1.prems" have "events \<noteq> []" by auto
  note followed = read_before_deadline_followed [OF this, of BUFFER_BYTES extra]
  obtain piece events' where p: "read_before_deadline BUFFER_BYTES events = (piece, events')"
    by fastforce
  note progress = read_before_deadline_progress [OF p]
  show ?case
  proof (cases piece)
    case (Inl rejection)
    with p followed show ?thesis by (simp add: read_head.simps [of raw])
  next
    case (Inr chunk)
    show ?thesis
    proof (cases "chunk \<noteq> [] \<and> find_header_end (raw @ chunk) = None
                  \<and> length (raw @ chunk) \<le> MAX_HEADER_BYTES")
      case True
      with progress have grown:
        "length events + length raw \<le> length events' + length (raw @ chunk)" by (cases chunk) auto
      with "1.prems"(1) have "MAX_HEADER_BYTES < length events' + length (raw @ chunk)" by simp
      with "1.IH" [OF p [symmetric] Inr] True
      have IH: "read_head (raw @ chunk) (events' @ extra)
            = followed_by (read_head (raw @ chunk) events') extra"
          "\<forall>raw' e rest. read_head (raw @ chunk) events' = (Inr (raw', e), rest) \<longrightarrow>
             length events' + length (raw @ chunk) \<le> length rest + length raw'"
        by auto
      have "read_head raw events = read_head (raw @ chunk) events'"
        "read_head raw (events @ extra) = read_head (raw @ chunk) (events' @ extra)"
        using p followed Inr True by (simp_all add: read_head.simps [of raw])
      with IH grown show ?thesis by (auto intro: order_trans)
    next
      case False
      have "chunk \<noteq> [] \<Longrightarrow> 1 \<le> length chunk" by (cases chunk) simp_all
      with False p followed Inr progress show ?thesis
        by (auto simp: read_head.simps [of raw] split: option.splits)
    qed
  qed
qed

lemma read_body_followed:
  assumes "expected \<le> length events + length raw"
  shows "read_body expected raw (events @ extra) = followed_by (read_body expected raw events) extra"
  using assms
proof (induction expected raw events rule: read_body.induct)
  case (1 expected raw events)
  show ?case
  proof (cases "expected \<le> length raw")
    case False
    let ?limit = "min (expected - length raw) BUFFER_BYTES"
    from False "1.prems" have "events \<noteq> []" by auto
    note followed = read_before_deadline_followed [OF this, of ?limit extra]
    obtain piece events' where p: "read_before_deadline ?limit events = (piece, events')"
      by fastforce
    note progress = read_before_deadline_progress [OF p]
    show ?thesis
    proof (cases "\<exists>chunk. piece = Inr chunk \<and> chunk \<noteq> []")
      case True
      then obtain chunk where c: "piece = Inr chunk" "chunk \<noteq> []" by blast
      with progress "1.prems" have "expected \<le> length events' + length (raw @ chunk)"
        by (cases chunk) auto
      from "1.IH" [OF False p [symmetric] c this] c p followed False show ?thesis
        by (simp add: read_body.simps [of expected raw])
    next
      case False
      with p followed \<open>\<not> expected \<le> length raw\<close> show ?thesis
        by (cases piece) (simp_all add: read_body.simps [of expected raw])
    qed
  qed (simp add: read_body.simps)
qed

lemma read_http_request_followed:
  assumes "MAX_REQUEST_BYTES \<le> length events"
  shows "read_http_request tokenize (events @ extra) = followed_by (read_http_request tokenize events) extra"
proof -
  have many: "MAX_HEADER_BYTES < length events + length ([] :: nat list)"
    using assms by (simp add: MAX_REQUEST_BYTES_def MAX_MESSAGE_BYTES_def)
  obtain found events' where h: "read_head [] events = (found, events')" by fastforce
  with read_head_followed [OF many] have h': "read_head [] (events @ extra) = (found, events' @ extra)"
    by simp
  show ?thesis
  proof (cases found)
    case (Inl rejection)
    with h h' show ?thesis by (simp add: read_http_request_def)
  next
    case (Inr raw_end)
    obtain raw header_end where f: "found = Inr (raw, header_end)" using Inr by (cases raw_end) simp
    with read_head_followed [OF many] h have enough: "MAX_REQUEST_BYTES \<le> length events' + length raw"
      using assms by fastforce
    from read_head_spec [OF h] f have small: "header_end \<le> MAX_HEADER_BYTES"
      by (auto simp: head_read_def)
    show ?thesis
    proof (cases "parse_http_head tokenize (take header_end raw)")
      case (Inl rejection)
      with h h' f show ?thesis by (simp add: read_http_request_def)
    next
      case head: (Inr head)
      let ?expected = "header_end + hh_content_length head"
      have "?expected \<le> length events' + length raw"
        using enough small parse_http_head_length [OF head] by (simp add: MAX_REQUEST_BYTES_def)
      note body = read_body_followed [OF this, of extra]
      obtain r rest where "read_body ?expected raw events' = (r, rest)" by fastforce
      with h h' f head body show ?thesis
        by (cases r) (simp_all add: read_http_request_def expected_end [OF small head])
    qed
  qed
qed

end
