(* ===== verification/Https_Listener.thy ===== *)
theory Https_Listener
  imports Http_Behaviour
begin

text \<open>
  The listener of the Remote Agent (\<open>https_server.rs\<close>): admission of connections, the worker that
  each connection gets, and the loop that runs the handler. The listener thread and the workers
  interleave freely, at the operations through which they interact: the queue of ready requests,
  the answer of one request, the count of the open connections. The handler is a parameter.
\<close>

section \<open>The handler and its answers\<close>

record application_response =
  ap_status_code :: u16
  ap_body :: "nat list"

definition application_response_valid :: "application_response \<Rightarrow> bool" where
  "application_response_valid response \<longleftrightarrow>
     ap_status_code response \<in> {200, 400, 401, 403, 500, 503}
     \<and> length (ap_body response) \<le> MAX_MESSAGE_BYTES"

record 'h request_handler =
  rh_handle_json :: "str option \<Rightarrow> nat list \<Rightarrow> 'h \<Rightarrow> application_response \<times> 'h"
  rh_maintenance_tick :: "'h \<Rightarrow> 'h"

datatype connection_response =
    Application application_response
  | FixedError u16 string

text \<open>A request that a worker has handed over; its sender is the connection that waits for it.\<close>

record ready_request =
  rd_request :: parsed_http_request
  rd_response_sender :: nat

definition dispatch_ready_request ::
    "'h request_handler \<Rightarrow> parsed_http_request \<Rightarrow> 'h \<Rightarrow> connection_response \<times> 'h" where
  "dispatch_ready_request H request h =
     (case rh_handle_json H (hq_bearer request) (hq_body request) h of
        (response, h) \<Rightarrow>
          (if application_response_valid response then Application response
           else FixedError 500 ''internal_error'', h))"

fun write_connection_response :: "connection_response \<Rightarrow> nat list option" where
  "write_connection_response (Application response) =
     write_http_response (ap_status_code response) (ap_body response)"
| "write_connection_response (FixedError status_code code) = write_fixed_error status_code code"

section \<open>Admission\<close>

definition MAX_IN_FLIGHT_CONNECTIONS :: nat where "MAX_IN_FLIGHT_CONNECTIONS = 32"
definition MAINTENANCE_INTERVAL :: nat where "MAINTENANCE_INTERVAL = 30 * 1000"

record connection_admission =
  cd_active :: nat
  cd_limit :: nat

text \<open>\<open>ConnectionAdmission::new\<close> panics on no limit.\<close>

definition admission_new :: "nat \<Rightarrow> connection_admission option" where
  "admission_new limit = (if limit = 0 then None else Some \<lparr>cd_active = 0, cd_limit = limit\<rparr>)"

definition try_acquire :: "connection_admission \<Rightarrow> connection_admission option" where
  "try_acquire admission =
     (if cd_active admission < cd_limit admission
      then Some (admission\<lparr>cd_active := cd_active admission + 1\<rparr>) else None)"

definition drop_permit :: "connection_admission \<Rightarrow> connection_admission" where
  "drop_permit admission = admission\<lparr>cd_active := cd_active admission - 1\<rparr>"

text \<open>
  \<open>reap_finished_workers\<close> joins the workers that are done; \<open>swap_remove\<close> puts the last one in the
  place of the one it takes out.
\<close>

definition swap_remove :: "nat \<Rightarrow> 'w list \<Rightarrow> 'w list" where
  "swap_remove i workers = butlast (workers[i := last workers])"

function reap_from :: "('w \<Rightarrow> bool) \<Rightarrow> nat \<Rightarrow> 'w list \<Rightarrow> 'w list" where
  "reap_from finished i workers =
     (if i < length workers then
        if finished (workers ! i) then reap_from finished i (swap_remove i workers)
        else reap_from finished (i + 1) workers
      else workers)"
  by pat_completeness auto
termination
  by (relation "measure (\<lambda>(_, i, workers). length workers - i)") (auto simp: swap_remove_def)

definition reap_finished_workers :: "('w \<Rightarrow> bool) \<Rightarrow> 'w list \<Rightarrow> 'w list" where
  "reap_finished_workers finished workers = reap_from finished 0 workers"

declare reap_from.simps [simp del]

section \<open>The state\<close>

text \<open>
  A worker reads its request, hands it over, waits for the answer and ends; what it wrote stays
  with it. \<open>Awaiting\<close> holds the answer once the listener has sent it.
\<close>

datatype worker =
    Reading "read_event list"
  | Sending parsed_http_request
  | Awaiting "connection_response option"
  | Finished "nat list option"

text \<open>Where the loop of the listener stands; \<open>Closed\<close> once it has returned.\<close>

datatype loop_phase = Top | Receiving | Accepting | Closed

record 'h listener =
  ln_phase :: loop_phase
  ln_handler :: 'h
  ln_next_maintenance :: nat
  ln_admission :: connection_admission
  ln_ready :: "ready_request list"
  ln_connection :: "nat \<Rightarrow> worker option"
  ln_accepted :: nat
  ln_workers :: "nat list"

definition listener_start :: "'h \<Rightarrow> nat \<Rightarrow> 'h listener" where
  "listener_start h now =
     \<lparr>ln_phase = Top, ln_handler = h, ln_next_maintenance = now,
      ln_admission = \<lparr>cd_active = 0, cd_limit = MAX_IN_FLIGHT_CONNECTIONS\<rparr>, ln_ready = [],
      ln_connection = (\<lambda>_. None), ln_accepted = 0, ln_workers = []\<rparr>"

fun worker_finished :: "worker option \<Rightarrow> bool" where
  "worker_finished (Some (Finished _)) = True"
| "worker_finished _ = False"

text \<open>The worker ends: its stream is closed and its permit is dropped.\<close>

definition finish_worker :: "nat \<Rightarrow> nat list option \<Rightarrow> 'h listener \<Rightarrow> 'h listener" where
  "finish_worker i written s =
     s\<lparr>ln_connection := (ln_connection s)(i \<mapsto> Finished written),
       ln_admission := drop_permit (ln_admission s)\<rparr>"

section \<open>The loop\<close>

text \<open>What each step says to the outside.\<close>

datatype listener_event =
    Maintained
  | Dispatched nat parsed_http_request connection_response
  | Accepted nat "read_event list"
  | Silent

definition reap :: "'h listener \<Rightarrow> 'h listener" where
  "reap s = s\<lparr>ln_workers :=
     reap_finished_workers (\<lambda>i. worker_finished (ln_connection s i)) (ln_workers s)\<rparr>"

definition maintain :: "'h request_handler \<Rightarrow> nat \<Rightarrow> 'h listener \<Rightarrow> 'h listener" where
  "maintain H completed s =
     s\<lparr>ln_handler := rh_maintenance_tick H (ln_handler s),
       ln_next_maintenance := completed + MAINTENANCE_INTERVAL\<rparr>"

definition accept_connection :: "read_event list \<Rightarrow> connection_admission \<Rightarrow> 'h listener \<Rightarrow> 'h listener"
  where
  "accept_connection stream admission s =
     s\<lparr>ln_phase := Top, ln_admission := admission,
       ln_connection := (ln_connection s)(ln_accepted s \<mapsto> Reading stream),
       ln_accepted := ln_accepted s + 1, ln_workers := ln_workers s @ [ln_accepted s]\<rparr>"

text \<open>
  One step of the listener thread or of one worker. Times, the peers' streams, the outcomes of the
  operating system and the moment at which the loop is told to stop are arbitrary.
\<close>

inductive listener_step ::
    "tokenizer \<Rightarrow> 'h request_handler \<Rightarrow> 'h listener \<Rightarrow> listener_event \<Rightarrow> 'h listener \<Rightarrow> bool"
  for T H
  where
  stop: "ln_phase s = Top \<Longrightarrow> listener_step T H s Silent (s\<lparr>ln_phase := Closed, ln_ready := []\<rparr>)"
| tick: "ln_phase s = Top \<Longrightarrow> ln_next_maintenance s \<le> now \<Longrightarrow> now \<le> completed \<Longrightarrow>
    listener_step T H s Maintained (maintain H completed (reap s)\<lparr>ln_phase := Receiving\<rparr>)"
| no_tick: "ln_phase s = Top \<Longrightarrow> now < ln_next_maintenance s \<Longrightarrow>
    listener_step T H s Silent ((reap s)\<lparr>ln_phase := Receiving\<rparr>)"
| dispatch: "ln_phase s = Receiving \<Longrightarrow> ln_ready s = ready # rest \<Longrightarrow>
    dispatch_ready_request H (rd_request ready) (ln_handler s) = (response, h) \<Longrightarrow>
    listener_step T H s (Dispatched (rd_response_sender ready) (rd_request ready) response)
      (s\<lparr>ln_phase := Accepting, ln_handler := h, ln_ready := rest,
         ln_connection := (ln_connection s)(rd_response_sender ready \<mapsto> Awaiting (Some response))\<rparr>)"
| nothing_ready: "ln_phase s = Receiving \<Longrightarrow> ln_ready s = [] \<Longrightarrow>
    listener_step T H s Silent (s\<lparr>ln_phase := Accepting\<rparr>)"
| accept: "ln_phase s = Accepting \<Longrightarrow> try_acquire (ln_admission s) = Some admission \<Longrightarrow>
    listener_step T H s (Accepted (ln_accepted s) stream) (accept_connection stream admission s)"
| no_connection: "ln_phase s = Accepting \<Longrightarrow> listener_step T H s Silent (s\<lparr>ln_phase := Top\<rparr>)"
| no_worker: "ln_phase s = Accepting \<Longrightarrow> try_acquire (ln_admission s) = Some admission \<Longrightarrow>
    listener_step T H s Silent
      (s\<lparr>ln_phase := Closed, ln_ready := [], ln_admission := drop_permit admission\<rparr>)"
| reject: "ln_connection s i = Some (Reading stream) \<Longrightarrow>
    read_http_request T stream = (Inl rejection, rest) \<Longrightarrow>
    listener_step T H s Silent (finish_worker i
      (write_fixed_error (http_status_code rejection) (public_code rejection)) s)"
| read: "ln_connection s i = Some (Reading stream) \<Longrightarrow>
    read_http_request T stream = (Inr request, rest) \<Longrightarrow>
    listener_step T H s Silent
      (s\<lparr>ln_connection := (ln_connection s)(i \<mapsto> Sending request)\<rparr>)"
| send: "ln_connection s i = Some (Sending request) \<Longrightarrow> ln_phase s \<noteq> Closed \<Longrightarrow>
    length (ln_ready s) < MAX_IN_FLIGHT_CONNECTIONS \<Longrightarrow>
    listener_step T H s Silent
      (s\<lparr>ln_connection := (ln_connection s)(i \<mapsto> Awaiting None),
         ln_ready := ln_ready s @ [\<lparr>rd_request = request, rd_response_sender = i\<rparr>]\<rparr>)"
| send_failed: "ln_connection s i = Some (Sending request) \<Longrightarrow> ln_phase s = Closed \<Longrightarrow>
    listener_step T H s Silent (finish_worker i None s)"
| answer: "ln_connection s i = Some (Awaiting (Some response)) \<Longrightarrow>
    listener_step T H s Silent (finish_worker i (write_connection_response response) s)"
| unanswered: "ln_connection s i = Some (Awaiting None) \<Longrightarrow> ln_phase s = Closed \<Longrightarrow>
    listener_step T H s Silent (finish_worker i None s)"

inductive_cases listener_stepE: "listener_step T H s e s'"

text \<open>Runs, with the events that they say, oldest first.\<close>

inductive listener_run ::
    "tokenizer \<Rightarrow> 'h request_handler \<Rightarrow> 'h listener \<Rightarrow> listener_event list \<Rightarrow> 'h listener \<Rightarrow> bool"
  for T H
  where
  nil: "listener_run T H s [] s"
| snoc: "listener_run T H s es s' \<Longrightarrow> listener_step T H s' e s'' \<Longrightarrow> listener_run T H s (es @ [e]) s''"

end
