(* ===== verification/Remote_Agent.thy ===== *)
theory Remote_Agent
  imports Provider_Bridge Https_Listener Auth_Store Durable_Store
begin

text \<open>
  The operator's binary (\<open>bin/verisilo-remote-agent.rs\<close>): its arguments, its three commands, the
  provider it runs with, and the handler that puts the router behind the listener. The files, the
  stores' disks, the terminal and the clock are the operator's environment.
\<close>

section \<open>Arguments\<close>

datatype operator_error =
    ArgumentsInvalid
  | TerminalRequired
  | TerminalWriteFailed
  | ConfigurationInvalid
  | TlsConfigurationFailed
  | StateFailed
  | ProviderFailed
  | StartupFailed
  | ListenerFailed

datatype operator_command =
    InitToken file_path u64
  | RevokeAll file_path
  | Serve file_path

text \<open>\<open>parse::<u64>\<close>: decimal digits, after a plus sign if there is one.\<close>

definition parse_u64 :: "str \<Rightarrow> u64 option" where
  "parse_u64 value =
     (let digits = (if value \<noteq> [] \<and> hd value = 43 then tl value else value) in
      if digits = [] \<or> \<not> list_all is_ascii_digit digits \<or> 2 ^ 64 \<le> decimal_value digits then None
      else Some (of_nat (decimal_value digits)))"

text \<open>The options, which may come in any order but at most once each.\<close>

fun parse_options ::
    "str list \<Rightarrow> file_path option \<Rightarrow> u64 option \<Rightarrow> operator_error + file_path option \<times> u64 option"
  where
  "parse_options [] configuration_path lifetime_seconds = Inr (configuration_path, lifetime_seconds)"
| "parse_options (argument # arguments) configuration_path lifetime_seconds =
     (if argument = lit ''--config'' \<and> configuration_path = None
      then
        case arguments of
          [] \<Rightarrow> Inl ArgumentsInvalid
        | path # rest \<Rightarrow> parse_options rest (Some path) lifetime_seconds
      else if argument = lit ''--lifetime-seconds'' \<and> lifetime_seconds = None
      then
        case arguments of
          [] \<Rightarrow> Inl ArgumentsInvalid
        | raw # rest \<Rightarrow>
            (case parse_u64 raw of
               None \<Rightarrow> Inl ArgumentsInvalid
             | Some seconds \<Rightarrow>
                 if 30 \<le> seconds \<and> seconds \<le> 300
                 then parse_options rest configuration_path (Some seconds)
                 else Inl ArgumentsInvalid)
      else Inl ArgumentsInvalid)"

definition parse_arguments :: "str list \<Rightarrow> operator_error + operator_command" where
  "parse_arguments arguments =
     (case arguments of
        [] \<Rightarrow> Inl ArgumentsInvalid
      | command # options \<Rightarrow>
          rbind (parse_options options None None) (\<lambda>(configuration_path, lifetime_seconds).
          rbind (ok_or ArgumentsInvalid configuration_path) (\<lambda>configuration_path.
          if command = lit ''init-token''
          then Inr (InitToken configuration_path
                 (case lifetime_seconds of None \<Rightarrow> 300 | Some seconds \<Rightarrow> seconds))
          else if command = lit ''revoke-all'' \<and> lifetime_seconds = None
          then Inr (RevokeAll configuration_path)
          else if command = lit ''serve'' \<and> lifetime_seconds = None
          then Inr (Serve configuration_path)
          else Inl ArgumentsInvalid)))"

section \<open>The provider\<close>

datatype runtime_provider =
    Stdio stdio_provider
  | Unavailable "remote_capability list"

definition from_configuration ::
    "'w provider_host \<Rightarrow> local_provider_configuration \<Rightarrow> 'w \<Rightarrow> operator_error + runtime_provider" where
  "from_configuration X configuration w =
     (case configuration of
        local_provider_configuration.Stdio executable_path executable_sha256 capabilities \<Rightarrow>
          rbind (map_err (\<lambda>_. ProviderFailed)
                   (stdio_provider_new X executable_path executable_sha256 capabilities w))
            (\<lambda>provider. Inr (Stdio provider))
      | local_provider_configuration.Unavailable capabilities \<Rightarrow> Inr (Unavailable capabilities))"

fun runtime_capabilities :: "runtime_provider \<Rightarrow> remote_capability list" where
  "runtime_capabilities (Stdio provider) = bp_capabilities provider"
| "runtime_capabilities (Unavailable capabilities) = capabilities"

definition provider_unavailable :: "agent_error" where
  "provider_unavailable = agent_error.Unavailable (lit ''No local provider artifact is configured.'')"

text \<open>The provider that answers, or the one that has nothing to run.\<close>

definition with_provider ::
    "(stdio_provider \<Rightarrow> 'w \<Rightarrow> (agent_error, 'b, 'w) outcome) \<Rightarrow> runtime_provider \<times> 'w
     \<Rightarrow> (agent_error, 'b, runtime_provider \<times> 'w) outcome" where
  "with_provider f s =
     (case s of
        (Stdio provider, w) \<Rightarrow> (case f provider w of (r, w) \<Rightarrow> (r, (Stdio provider, w)))
      | (Unavailable capabilities, w) \<Rightarrow> (Inl provider_unavailable, s))"

definition runtime_ops :: "'w provider_host \<Rightarrow> (runtime_provider \<times> 'w) agent_provider_ops" where
  "runtime_ops X =
     \<lparr>ap_capabilities = (\<lambda>s. runtime_capabilities (fst s)),
      ap_create = (\<lambda>record. with_provider (\<lambda>p. bridge_create X p record)),
      ap_lifecycle = (\<lambda>operation record log_limit.
        with_provider (\<lambda>p. bridge_lifecycle X p operation record log_limit)),
      ap_destroy = (\<lambda>record. with_provider (\<lambda>p. bridge_destroy X p record)),
      ap_open_screen = (\<lambda>record authorization_id expires_at_unix_ms.
        with_provider (\<lambda>p. bridge_open_screen X p record authorization_id expires_at_unix_ms)),
      ap_send_input = (\<lambda>record authorization_id events.
        with_provider (\<lambda>p. bridge_send_input X p record authorization_id events))\<rparr>"

section \<open>The handler\<close>

definition service_handler :: "'a service_deps \<Rightarrow> 'a agent_service request_handler" where
  "service_handler D =
     \<lparr>rh_handle_json = (\<lambda>bearer body v.
        case route D bearer body v of
          (response, v) \<Rightarrow>
            (\<lparr>ap_status_code = sr_status_code response, ap_body = sr_body response\<rparr>, v)),
      rh_maintenance_tick = maintenance_tick D\<rparr>"

section \<open>The commands\<close>

text \<open>
  The environment of a command. The lock on the authentication state, the disks, and the contents
  of the file system are what they are when the command runs; \<open>oe_write\<close> tells whether the
  terminal took the lines.
\<close>

record ('w, 'tls) operator_environment =
  oe_files :: local_files
  oe_json :: configuration_json
  oe_tls :: "'tls tls_library"
  oe_auth :: auth_deps
  oe_auth_lock :: "auth_store_error + unit"
  oe_auth_disk :: disk
  oe_codec :: state_codec
  oe_agent_disk :: disk
  oe_json_len :: "agent_request \<Rightarrow> str + nat"
  oe_clock :: host
  oe_provider :: "'w provider_host"
  oe_world :: 'w
  oe_is_terminal :: bool
  oe_write :: "str list \<Rightarrow> bool"

text \<open>What the stores ask of a path.\<close>

definition auth_path_of :: "local_files \<Rightarrow> file_path \<Rightarrow> auth_path" where
  "auth_path_of L path =
     \<lparr>ap_is_absolute = path_is_absolute path, ap_has_file_name = (path_file_name path \<noteq> None),
      ap_has_parent = (path_parent path \<noteq> None), ap_parent_is_canonical = canonical_parent L path\<rparr>"

definition state_path_of :: "file_path \<Rightarrow> state_path" where
  "state_path_of path =
     \<lparr>sp_is_absolute = path_is_absolute path, sp_has_parent = (path_parent path \<noteq> None)\<rparr>"

text \<open>Opening the authentication store, with what that leaves on its disk.\<close>

definition open_auth ::
    "('w, 'tls) operator_environment \<Rightarrow> server_configuration
     \<Rightarrow> (operator_error, auth_store, disk) outcome" where
  "open_auth E cfg =
     (case auth_open (oe_auth E) (auth_path_of (oe_files E) (sf_auth_state_path cfg))
             (oe_auth_lock E) (oe_auth_disk E) (oe_clock E) of
        (Inl _, st) \<Rightarrow> (Inl StateFailed, as_disk st)
      | (Inr store, _) \<Rightarrow> (Inr store, as_disk store))"

definition token_lines :: "issued_pairing_token \<Rightarrow> str list" where
  "token_lines token =
     [lit ''pairing_token_id='' @ uuid_to_string (it_token_id token),
      lit ''pairing_token_expires_at_unix_ms='' @ show_nat (unat (it_expires_at_unix_ms token)),
      lit ''pairing_token='' @ it_secret token]"

text \<open>Both commands give what they print, and the disk of the authentication state.\<close>

definition init_token ::
    "('w, 'tls) operator_environment \<Rightarrow> file_path \<Rightarrow> u64 \<Rightarrow> (operator_error, str list, disk) outcome"
  where
  "init_token E configuration_path lifetime_seconds =
     (if \<not> oe_is_terminal E then (Inl TerminalRequired, oe_auth_disk E)
      else
        sbind (map_err (\<lambda>_. ConfigurationInvalid)
                 (load_configuration (oe_files E) (oe_json E) configuration_path), oe_auth_disk E)
          (\<lambda>cfg disk.
        if 2 ^ 64 \<le> unat lifetime_seconds * 1000
           \<or> unat AUTH_PAIRING_TOKEN_LIFETIME_MS < unat lifetime_seconds * 1000
        then (Inl ArgumentsInvalid, disk)
        else
          sbind (open_auth E cfg) (\<lambda>auth _.
          case issue_pairing_token (oe_auth E) (fst (now_unix_ms (oe_clock E)))
                 (lifetime_seconds * 1000) auth of
            (Inl _, auth) \<Rightarrow> (Inl StateFailed, as_disk auth)
          | (Inr token, auth) \<Rightarrow>
              (if oe_write E (token_lines token) then Inr (token_lines token)
               else Inl TerminalWriteFailed, as_disk auth))))"

definition revoke_all ::
    "('w, 'tls) operator_environment \<Rightarrow> file_path \<Rightarrow> (operator_error, str list, disk) outcome" where
  "revoke_all E configuration_path =
     sbind (map_err (\<lambda>_. ConfigurationInvalid)
              (load_configuration (oe_files E) (oe_json E) configuration_path), oe_auth_disk E)
       (\<lambda>cfg _.
     sbind (open_auth E cfg) (\<lambda>auth _.
     case revoke_all_credentials (oe_auth E) auth of
       (Inl _, auth) \<Rightarrow> (Inl StateFailed, as_disk auth)
     | (Inr revoked, auth) \<Rightarrow> (Inr [lit ''revoked_credentials='' @ show_nat revoked], as_disk auth)))"

type_synonym 'w runtime_core = "(runtime_provider \<times> 'w, durable_store) agent_core"

definition runtime_deps ::
    "('w, 'tls) operator_environment \<Rightarrow> (runtime_provider \<times> 'w, durable_store) agent_deps" where
  "runtime_deps E =
     \<lparr>d_provider = runtime_ops (oe_provider E), d_store = durable_ops (oe_codec E),
      d_json_len = oe_json_len E\<rparr>"

text \<open>
  What \<open>serve\<close> builds and hands to \<open>serve_https\<close>, which validates the configuration again before
  it binds. The service holds the opened stores with their disks.
\<close>

definition serve ::
    "('w, 'tls) operator_environment \<Rightarrow> file_path
     \<Rightarrow> operator_error + server_configuration \<times> 'tls \<times> 'w runtime_core agent_service" where
  "serve E configuration_path =
     rbind (map_err (\<lambda>_. ConfigurationInvalid)
              (load_configuration (oe_files E) (oe_json E) configuration_path)) (\<lambda>cfg.
     rbind (map_err (\<lambda>_. TlsConfigurationFailed)
              (load_tls_configuration (oe_files E) (oe_tls E) cfg)) (\<lambda>tls.
     rbind (fst (open_auth E cfg)) (\<lambda>auth.
     rbind (map_err (\<lambda>_. StateFailed)
              (fst (durable_open (oe_codec E) (state_path_of (sf_agent_state_path cfg))
                     (oe_agent_disk E) (oe_clock E)))) (\<lambda>store.
     let capabilities = provider_capabilities (sf_provider cfg) in
     rbind (from_configuration (oe_provider E) (sf_provider cfg) (oe_world E)) (\<lambda>provider.
     rbind (map_err (\<lambda>_. StartupFailed)
              (agent_core_new (runtime_deps E) (sf_node cfg) (provider, oe_world E) store (oe_clock E)))
       (\<lambda>core.
     rbind (map_err (\<lambda>_. ConfigurationInvalid) (configuration_credential_lifetime_ms cfg)) (\<lambda>lifetime.
     rbind (map_err (\<lambda>_. StartupFailed)
              (agent_service_new auth core (sf_node cfg) capabilities (oe_clock E) lifetime)) (\<lambda>service.
     rbind (map_err (\<lambda>_. ListenerFailed) (configuration_validate (oe_files E) cfg)) (\<lambda>_.
     Inr (cfg, tls, service))))))))))"

end
