(* ===== verification/Https_Behaviour.thy ===== *)
theory Https_Behaviour
  imports Https_Listener "HOL-Library.Multiset"
begin

text \<open>
  What the listener keeps over every interleaving: the permits that it has given out are the
  workers that live, a worker that hands over a request finds room for it, every connection is
  answered at most once and for its own request.
\<close>

section \<open>Reaping\<close>

lemma swap_remove_parts:
  assumes "i < length workers"
  shows "take i (swap_remove i workers) = take i workers"
    and "mset (drop i (swap_remove i workers)) = mset (drop (Suc i) workers)"
proof -
  obtain pre x post where w: "workers = pre @ x # post" "length pre = i"
    using assms by (metis id_take_nth_drop length_take min.absorb4)
  show "take i (swap_remove i workers) = take i workers"
    by (cases post rule: rev_cases) (simp_all add: swap_remove_def w list_update_append butlast_append)
  show "mset (drop i (swap_remove i workers)) = mset (drop (Suc i) workers)"
    by (cases post rule: rev_cases)
      (simp_all add: swap_remove_def w list_update_append butlast_append flip: w(2))
qed

lemma reap_from_mset:
  "i \<le> length workers \<Longrightarrow> mset (reap_from finished i workers)
     = mset (take i workers) + filter_mset (\<lambda>w. \<not> finished w) (mset (drop i workers))"
proof (induction finished i workers rule: reap_from.induct)
  case (1 finished i workers)
  show ?case
  proof (cases "i < length workers")
    case True
    note parts = swap_remove_parts [OF True]
    have split: "mset (drop i workers) = add_mset (workers ! i) (mset (drop (Suc i) workers))"
      using True by (metis Cons_nth_drop_Suc mset.simps(2))
    show ?thesis
    proof (cases "finished (workers ! i)")
      case reaped: True
      have "i \<le> length (swap_remove i workers)" using True by (simp add: swap_remove_def)
      with "1.IH"(1) [OF True reaped this] True reaped show ?thesis
        by (simp add: reap_from.simps [of finished i workers] parts split)
    next
      case False
      with "1.IH"(2) [OF True False] True show ?thesis
        by (simp add: reap_from.simps [of finished i workers] split take_Suc_conv_app_nth)
    qed
  qed (use 1 in \<open>subst reap_from.simps, simp\<close>)
qed

lemma reap_mset:
  "mset (reap_finished_workers finished workers) = filter_mset (\<lambda>w. \<not> finished w) (mset workers)"
  by (simp add: reap_finished_workers_def reap_from_mset)

lemma reap_set:
  "set (reap_finished_workers finished workers) = {w \<in> set workers. \<not> finished w}"
  by (metis reap_mset set_mset_filter set_mset_mset)

section \<open>The live workers\<close>

definition live :: "'h listener \<Rightarrow> nat set" where
  "live s = {i. ln_connection s i \<noteq> None \<and> \<not> worker_finished (ln_connection s i)}"

text \<open>The permits count the live workers, which are fewer than the accepted connections.\<close>

definition permits_ok :: "'h listener \<Rightarrow> bool" where
  "permits_ok s \<longleftrightarrow>
     (\<forall>i. ln_connection s i \<noteq> None \<longleftrightarrow> i < ln_accepted s)
     \<and> cd_active (ln_admission s) = card (live s)
     \<and> cd_limit (ln_admission s) = MAX_IN_FLIGHT_CONNECTIONS
     \<and> card (live s) \<le> MAX_IN_FLIGHT_CONNECTIONS"

text \<open>The queue of a loop that runs holds exactly the workers that wait for an answer.\<close>

definition queue_ok :: "'h listener \<Rightarrow> bool" where
  "queue_ok s \<longleftrightarrow>
     distinct (map rd_response_sender (ln_ready s))
     \<and> (\<forall>i \<in> set (map rd_response_sender (ln_ready s)). ln_connection s i = Some (Awaiting None))
     \<and> (ln_phase s \<noteq> Closed \<longrightarrow>
          (\<forall>i. ln_connection s i = Some (Awaiting None) \<longrightarrow> i \<in> set (map rd_response_sender (ln_ready s))))
     \<and> (ln_phase s = Closed \<longrightarrow> ln_ready s = [])"

definition listener_ok :: "'h listener \<Rightarrow> bool" where
  "listener_ok s \<longleftrightarrow> permits_ok s \<and> queue_ok s"

lemma live_finite: "permits_ok s \<Longrightarrow> finite (live s)"
  by (rule finite_subset [of _ "{..<ln_accepted s}"]) (auto simp: live_def permits_ok_def)

lemma finish_worker_sel [simp]:
  "ln_phase (finish_worker i written s) = ln_phase s"
  "ln_handler (finish_worker i written s) = ln_handler s"
  "ln_ready (finish_worker i written s) = ln_ready s"
  "ln_accepted (finish_worker i written s) = ln_accepted s"
  "ln_connection (finish_worker i written s) = (ln_connection s)(i \<mapsto> Finished written)"
  "ln_admission (finish_worker i written s) = drop_permit (ln_admission s)"
  "live (finish_worker i written s) = live s - {i}"
  by (auto simp: finish_worker_def live_def)

lemma permits_kept:
  assumes "permits_ok s" "live s' = live s" "ln_admission s' = ln_admission s"
    "ln_accepted s' = ln_accepted s" "dom (ln_connection s') = dom (ln_connection s)"
  shows "permits_ok s'"
  using assms by (auto simp: permits_ok_def dom_def) 

lemma permits_finish:
  assumes "permits_ok s" "i \<in> live s"
  shows "permits_ok (finish_worker i written s)"
proof -
  have "card (live s - {i}) = card (live s) - 1" "i < ln_accepted s"
    using assms by (auto simp: live_def permits_ok_def)
  with assms(1) show ?thesis
    by (auto simp: permits_ok_def drop_permit_def)
qed

lemma permits_accept:
  assumes "permits_ok s" "try_acquire (ln_admission s) = Some admission"
  shows "permits_ok (accept_connection stream admission s)"
proof -
  have "live (accept_connection stream admission s) = insert (ln_accepted s) (live s)"
    by (auto simp: live_def accept_connection_def)
  moreover have "ln_accepted s \<notin> live s"
    using assms(1) by (auto simp: live_def permits_ok_def)
  ultimately show ?thesis
    using assms live_finite [OF assms(1)]
    by (auto simp: permits_ok_def accept_connection_def try_acquire_def less_Suc_eq split: if_splits)
qed

lemma reap_sel [simp]:
  "ln_phase (reap s) = ln_phase s" "ln_handler (reap s) = ln_handler s"
  "ln_next_maintenance (reap s) = ln_next_maintenance s" "ln_admission (reap s) = ln_admission s"
  "ln_ready (reap s) = ln_ready s" "ln_connection (reap s) = ln_connection s"
  "ln_accepted (reap s) = ln_accepted s"
  by (simp_all add: reap_def)

lemma maintain_sel [simp]:
  "ln_phase (maintain H completed s) = ln_phase s"
  "ln_handler (maintain H completed s) = rh_maintenance_tick H (ln_handler s)"
  "ln_admission (maintain H completed s) = ln_admission s"
  "ln_ready (maintain H completed s) = ln_ready s"
  "ln_connection (maintain H completed s) = ln_connection s"
  "ln_accepted (maintain H completed s) = ln_accepted s"
  by (simp_all add: maintain_def)

lemma accept_connection_sel [simp]:
  "ln_phase (accept_connection stream admission s) = Top"
  "ln_handler (accept_connection stream admission s) = ln_handler s"
  "ln_ready (accept_connection stream admission s) = ln_ready s"
  "ln_connection (accept_connection stream admission s)
     = (ln_connection s)(ln_accepted s \<mapsto> Reading stream)"
  by (simp_all add: accept_connection_def)

lemma permits_step: "listener_step T H s e s' \<Longrightarrow> listener_ok s \<Longrightarrow> permits_ok s'"
proof (induction rule: listener_step.cases)
  case (accept s admission stream)
  then show ?case by (simp add: listener_ok_def permits_accept)
next
  case (no_worker s admission)
  then have "drop_permit admission = ln_admission s"
    by (auto simp: try_acquire_def drop_permit_def split: if_splits)
  with no_worker show ?case by (auto simp: listener_ok_def live_def elim: permits_kept)
next
  case (dispatch s ready rest response h)
  then have "ln_connection s (rd_response_sender ready) = Some (Awaiting None)"
    by (simp add: listener_ok_def queue_ok_def)
  with dispatch show ?case
    by (auto simp: listener_ok_def live_def split: if_splits elim!: permits_kept [of s])
next
  case (reject s i stream rejection rest)
  then show ?case using permits_finish [of s i] by (simp add: listener_ok_def live_def)
next
  case (send_failed s i request)
  then show ?case using permits_finish [of s i] by (simp add: listener_ok_def live_def)
next
  case (answer s i response)
  then show ?case using permits_finish [of s i] by (simp add: listener_ok_def live_def)
next
  case (unanswered s i)
  then show ?case using permits_finish [of s i] by (simp add: listener_ok_def live_def)
qed (auto simp: listener_ok_def live_def split: if_splits elim!: permits_kept)

lemma queue_step: "listener_step T H s e s' \<Longrightarrow> listener_ok s \<Longrightarrow> queue_ok s'"
proof (induction rule: listener_step.cases)
  case (send s i request)
  then show ?case by (auto simp: listener_ok_def queue_ok_def)
next
  case (dispatch s ready rest response h)
  then show ?case
    by (auto simp: listener_ok_def queue_ok_def split: if_splits) (metis image_eqI)
next
  case (accept s admission stream)
  then show ?case by (fastforce simp: listener_ok_def queue_ok_def permits_ok_def)
qed (fastforce simp: listener_ok_def queue_ok_def)+

lemma listener_ok_step: "listener_step T H s e s' \<Longrightarrow> listener_ok s \<Longrightarrow> listener_ok s'"
  using permits_step queue_step by (fastforce simp: listener_ok_def)

lemma listener_ok_start [simp]: "listener_ok (listener_start h now)"
  by (simp add: listener_ok_def permits_ok_def queue_ok_def listener_start_def live_def)

lemma listener_ok_run: "listener_run T H s es s' \<Longrightarrow> listener_ok s \<Longrightarrow> listener_ok s'"
  by (induction rule: listener_run.induct) (auto intro: listener_ok_step)

text \<open>A worker that has a request to hand over finds room in the queue.\<close>

lemma sending_has_room:
  assumes "listener_ok s" "ln_connection s i = Some (Sending request)"
  shows "length (ln_ready s) < MAX_IN_FLIGHT_CONNECTIONS"
proof -
  let ?senders = "set (map rd_response_sender (ln_ready s))"
  have "length (ln_ready s) = card ?senders"
    using assms(1) by (metis distinct_card length_map listener_ok_def queue_ok_def)
  also have "\<dots> < card (insert i ?senders)"
    using assms by (subst card_insert_disjoint) (auto simp: listener_ok_def queue_ok_def)
  also have "\<dots> \<le> card (live s)"
    using assms live_finite [of s]
    by (intro card_mono) (auto simp: listener_ok_def queue_ok_def live_def)
  also have "\<dots> \<le> MAX_IN_FLIGHT_CONNECTIONS"
    using assms(1) by (simp add: listener_ok_def permits_ok_def)
  finally show ?thesis .
qed

section \<open>The story of a connection\<close>

text \<open>What a run says of one connection: the streams it got and the answers it was sent.\<close>

definition streams_of :: "nat \<Rightarrow> listener_event list \<Rightarrow> read_event list list" where
  "streams_of i es = concat (map (\<lambda>e. case e of
     Accepted j stream \<Rightarrow> if j = i then [stream] else [] | _ \<Rightarrow> []) es)"

definition answers_of ::
    "nat \<Rightarrow> listener_event list \<Rightarrow> (parsed_http_request \<times> connection_response) list" where
  "answers_of i es = concat (map (\<lambda>e. case e of
     Dispatched j request response \<Rightarrow> if j = i then [(request, response)] else [] | _ \<Rightarrow> []) es)"

lemma streams_of_simps [simp]:
  "streams_of i [] = []" "streams_of i (es @ es') = streams_of i es @ streams_of i es'"
  "streams_of i [Maintained] = []" "streams_of i [Silent] = []"
  "streams_of i [Dispatched j request response] = []"
  "streams_of i [Accepted j stream] = (if j = i then [stream] else [])"
  by (simp_all add: streams_of_def)

lemma answers_of_simps [simp]:
  "answers_of i [] = []" "answers_of i (es @ es') = answers_of i es @ answers_of i es'"
  "answers_of i [Maintained] = []" "answers_of i [Silent] = []"
  "answers_of i [Dispatched j request response] = (if j = i then [(request, response)] else [])"
  "answers_of i [Accepted j stream] = []"
  by (simp_all add: answers_of_def)

definition requested :: "tokenizer \<Rightarrow> nat \<Rightarrow> listener_event list \<Rightarrow> parsed_http_request \<Rightarrow> bool" where
  "requested T i es request \<longleftrightarrow>
     (\<exists>stream. streams_of i es = [stream] \<and> fst (read_http_request T stream) = Inr request)"

text \<open>
  What a connection that has ended wrote: the fixed error of its refused request, the answer to
  its own request, or nothing when the loop closed first.
\<close>

definition own_reply :: "tokenizer \<Rightarrow> nat \<Rightarrow> listener_event list \<Rightarrow> nat list option \<Rightarrow> bool" where
  "own_reply T i es written \<longleftrightarrow>
     (\<exists>stream rejection. streams_of i es = [stream] \<and> answers_of i es = []
        \<and> fst (read_http_request T stream) = Inl rejection
        \<and> written = write_fixed_error (http_status_code rejection) (public_code rejection))
     \<or> (\<exists>request response. requested T i es request \<and> answers_of i es = [(request, response)]
        \<and> written = write_connection_response response)
     \<or> (\<exists>request. requested T i es request \<and> answers_of i es = [] \<and> written = None)"

fun worker_story :: "tokenizer \<Rightarrow> nat \<Rightarrow> listener_event list \<Rightarrow> worker option \<Rightarrow> bool" where
  "worker_story T i es None = (streams_of i es = [] \<and> answers_of i es = [])"
| "worker_story T i es (Some (Reading stream)) = (streams_of i es = [stream] \<and> answers_of i es = [])"
| "worker_story T i es (Some (Sending request)) = (requested T i es request \<and> answers_of i es = [])"
| "worker_story T i es (Some (Awaiting None)) =
     ((\<exists>request. requested T i es request) \<and> answers_of i es = [])"
| "worker_story T i es (Some (Awaiting (Some response))) =
     (\<exists>request. requested T i es request \<and> answers_of i es = [(request, response)])"
| "worker_story T i es (Some (Finished written)) = own_reply T i es written"

definition story_ok :: "tokenizer \<Rightarrow> listener_event list \<Rightarrow> 'h listener \<Rightarrow> bool" where
  "story_ok T es s \<longleftrightarrow>
     listener_ok s
     \<and> (\<forall>i. worker_story T i es (ln_connection s i))
     \<and> (\<forall>ready \<in> set (ln_ready s). requested T (rd_response_sender ready) es (rd_request ready))"

text \<open>The story of a connection that a step does not name stays the same.\<close>

lemma worker_story_frame:
  assumes "streams_of i es' = streams_of i es" "answers_of i es' = answers_of i es"
  shows "worker_story T i es' w = worker_story T i es w" "requested T i es' request = requested T i es request"
proof -
  have eq: "requested T i es' = requested T i es"
    by (rule ext) (simp add: requested_def assms)
  then show "requested T i es' request = requested T i es request" by simp
  show "worker_story T i es' w = worker_story T i es w"
    by (cases "(T, i, es, w)" rule: worker_story.cases) (simp_all add: assms eq own_reply_def)
qed

lemma story_silent [simp]:
  "worker_story T i (es @ [Silent]) w = worker_story T i es w"
  "worker_story T i (es @ [Maintained]) w = worker_story T i es w"
  "requested T i (es @ [Silent]) request = requested T i es request"
  "requested T i (es @ [Maintained]) request = requested T i es request"
  by (intro worker_story_frame; simp)+

lemma story_step: "listener_step T H s e s' \<Longrightarrow> story_ok T es s \<Longrightarrow> story_ok T (es @ [e]) s'"
proof -
  assume step: "listener_step T H s e s'" and story: "story_ok T es s"
  then have ok: "listener_ok s" and stories: "\<And>i. worker_story T i es (ln_connection s i)"
    and queue: "\<And>ready. ready \<in> set (ln_ready s)
        \<Longrightarrow> requested T (rd_response_sender ready) es (rd_request ready)"
    by (auto simp: story_ok_def)
  from ok step have "listener_ok s'" by (rule listener_ok_step [rotated])
  moreover have "(\<forall>i. worker_story T i (es @ [e]) (ln_connection s' i))
      \<and> (\<forall>ready \<in> set (ln_ready s'). requested T (rd_response_sender ready) (es @ [e]) (rd_request ready))"
    using step
  proof (cases rule: listener_step.cases)
    case (dispatch ready rest response h)
    let ?j = "rd_response_sender ready"
    from ok dispatch have "ln_connection s ?j = Some (Awaiting None)"
      "?j \<notin> set (map rd_response_sender rest)"
      by (auto simp: listener_ok_def queue_ok_def)
    with stories [of ?j] queue [of ready] dispatch
    have j: "requested T ?j es (rd_request ready)" "answers_of ?j es = []" by auto
    have "requested T i (es @ [e]) request = requested T i es request" for i request
      by (simp add: dispatch(1) requested_def)
    moreover have "i \<noteq> ?j \<Longrightarrow> worker_story T i (es @ [e]) w = worker_story T i es w" for i w
      by (intro worker_story_frame; simp add: dispatch(1))
    ultimately show ?thesis
      using stories queue dispatch j \<open>?j \<notin> set (map rd_response_sender rest)\<close> by auto
  next
    case (accept admission stream)
    let ?j = "ln_accepted s"
    from ok have "ln_connection s ?j = None" by (auto simp: listener_ok_def permits_ok_def)
    with stories [of ?j] have j: "streams_of ?j es = []" "answers_of ?j es = []" by auto
    have frame: "i \<noteq> ?j \<Longrightarrow> worker_story T i (es @ [e]) w = worker_story T i es w"
      "i \<noteq> ?j \<Longrightarrow> requested T i (es @ [e]) request = requested T i es request" for i w request
      by (intro worker_story_frame; simp add: accept(1))+
    have "rd_response_sender ready \<noteq> ?j" if "ready \<in> set (ln_ready s)" for ready
      using queue [OF that] j by (auto simp: requested_def)
    with frame stories queue j accept show ?thesis by auto
  next
    case (reject i stream rejection rest)
    with stories [of i] have "streams_of i es = [stream]" "answers_of i es = []" by auto
    with reject have "own_reply T i es (write_fixed_error (http_status_code rejection) (public_code rejection))"
      unfolding own_reply_def by (intro disjI1 exI conjI) auto
    with stories queue reject show ?thesis by auto
  next
    case (read i stream request rest)
    with stories [of i] have "requested T i es request" "answers_of i es = []"
      by (auto simp: requested_def)
    with stories queue read show ?thesis by auto
  next
    case (send i request)
    with stories [of i] have "requested T i es request" "answers_of i es = []" by auto
    with stories queue send show ?thesis by auto
  next
    case (send_failed i request)
    with stories [of i] have "own_reply T i es None" by (auto simp: own_reply_def)
    with stories queue send_failed show ?thesis by auto
  next
    case (answer i response)
    with stories [of i] have "own_reply T i es (write_connection_response response)"
      by (auto simp: own_reply_def)
    with stories queue answer show ?thesis by auto
  next
    case (unanswered i)
    with stories [of i] have "own_reply T i es None" by (auto simp: own_reply_def)
    with stories queue unanswered show ?thesis by auto
  qed (use stories queue in simp_all)
  ultimately show "story_ok T (es @ [e]) s'" by (simp add: story_ok_def)
qed

lemma story_run: "listener_run T H s es s' \<Longrightarrow> story_ok T [] s \<Longrightarrow> story_ok T es s'"
  by (induction rule: listener_run.induct) (auto intro: story_step)

lemma story_ok_start [simp]: "story_ok T [] (listener_start h now)"
  by (simp add: story_ok_def) (simp add: listener_start_def)

section \<open>Serial handling\<close>

text \<open>The calls that a run makes of the handler, one after the other, and their answers.\<close>

datatype handler_call = Handle "str option" "nat list" | MaintenanceTick

fun handler_step :: "'h request_handler \<Rightarrow> handler_call \<Rightarrow> 'h \<Rightarrow> application_response list \<times> 'h" where
  "handler_step H (Handle bearer body) h =
     (case rh_handle_json H bearer body h of (response, h) \<Rightarrow> ([response], h))"
| "handler_step H MaintenanceTick h = ([], rh_maintenance_tick H h)"

fun handler_run :: "'h request_handler \<Rightarrow> handler_call list \<Rightarrow> 'h \<Rightarrow> application_response list \<times> 'h" where
  "handler_run H [] h = ([], h)"
| "handler_run H (call # calls) h =
     (case handler_step H call h of (now, h) \<Rightarrow>
        case handler_run H calls h of (later, h) \<Rightarrow> (now @ later, h))"

lemma handler_run_append:
  "handler_run H (calls @ calls') h =
     (case handler_run H calls h of (earlier, h) \<Rightarrow>
        case handler_run H calls' h of (later, h) \<Rightarrow> (earlier @ later, h))"
  by (induction calls arbitrary: h) (auto split: prod.splits)

fun event_calls :: "listener_event \<Rightarrow> handler_call list" where
  "event_calls Maintained = [MaintenanceTick]"
| "event_calls (Dispatched i request response) = [Handle (hq_bearer request) (hq_body request)]"
| "event_calls _ = []"

fun event_answers :: "listener_event \<Rightarrow> connection_response list" where
  "event_answers (Dispatched i request response) = [response]"
| "event_answers _ = []"

text \<open>What the listener makes of an answer of the handler.\<close>

definition guarded :: "application_response \<Rightarrow> connection_response" where
  "guarded response = (if application_response_valid response then Application response
     else FixedError 500 ''internal_error'')"

lemma listener_step_serial:
  assumes "listener_step T H s e s'"
  shows "\<exists>responses. handler_run H (event_calls e) (ln_handler s) = (responses, ln_handler s')
    \<and> event_answers e = map guarded responses"
  using assms
  by cases (auto simp: dispatch_ready_request_def guarded_def accept_connection_def
      split: prod.splits if_splits)

lemma listener_run_serial:
  "listener_run T H s es s' \<Longrightarrow>
     \<exists>responses. handler_run H (concat (map event_calls es)) (ln_handler s) = (responses, ln_handler s')
       \<and> concat (map event_answers es) = map guarded responses"
proof (induction rule: listener_run.induct)
  case (snoc s es s' e s'')
  then obtain earlier later where
      "handler_run H (concat (map event_calls es)) (ln_handler s) = (earlier, ln_handler s')"
      "concat (map event_answers es) = map guarded earlier"
      "handler_run H (event_calls e) (ln_handler s') = (later, ln_handler s'')"
      "event_answers e = map guarded later"
    using listener_step_serial by blast
  then show ?case by (auto simp: handler_run_append)
qed simp

section \<open>The interface of the handler\<close>

text \<open>
  What the listener relies on: in every good state the handler answers with one of its statuses
  and a bounded body, and it stays good.
\<close>

locale json_handler =
  fixes handler :: "'h request_handler"
    and good :: "'h \<Rightarrow> bool"
  assumes handle_good: "good h \<Longrightarrow> rh_handle_json handler bearer body h = (response, h')
      \<Longrightarrow> application_response_valid response \<and> good h'"
    and tick_good: "good h \<Longrightarrow> good (rh_maintenance_tick handler h)"
begin

lemma step_good:
  assumes "listener_step T handler s e s'" "good (ln_handler s)"
  shows "good (ln_handler s')
    \<and> list_all (\<lambda>a. \<exists>response. a = Application response \<and> application_response_valid response)
        (event_answers e)"
  using assms
  by cases (auto simp: dispatch_ready_request_def accept_connection_def tick_good
      split: prod.splits if_splits dest: handle_good)

lemma run_good:
  "listener_run T handler s es s' \<Longrightarrow> good (ln_handler s) \<Longrightarrow>
     good (ln_handler s')
     \<and> list_all (\<lambda>a. \<exists>response. a = Application response \<and> application_response_valid response)
         (concat (map event_answers es))"
  by (induction rule: listener_run.induct) (auto dest: step_good)

end

section \<open>Written replies\<close>

text \<open>One whole response: a head that declares the length of the body, then the body.\<close>

definition whole_response :: "u16 \<Rightarrow> nat list \<Rightarrow> nat list \<Rightarrow> bool" where
  "whole_response status_code body written \<longleftrightarrow>
     length body \<le> MAX_MESSAGE_BYTES
     \<and> (\<exists>reason. reason_phrase status_code = Some reason
          \<and> written = str_bytes (response_head status_code reason (length body)) @ body)"

lemma write_http_response_Some:
  "write_http_response status_code body = Some written \<longleftrightarrow> whole_response status_code body written"
  by (auto simp: write_http_response_def whole_response_def)

lemma valid_response_written:
  "application_response_valid response \<Longrightarrow>
     \<exists>written. write_connection_response (Application response) = Some written
       \<and> whole_response (ap_status_code response) (ap_body response) written"
  by (auto simp: application_response_valid_def write_http_response_def whole_response_def)

definition error_body :: "string \<Rightarrow> nat list" where
  "error_body code = str_bytes (lit ''{\"error\":\"'' @ lit code @ lit ''\"}'')"

lemma rejection_written:
  "\<exists>written. write_fixed_error (http_status_code rejection) (public_code rejection) = Some written
     \<and> whole_response (http_status_code rejection) (error_body (public_code rejection)) written"
  by (cases rejection)
    (auto simp: write_fixed_error_def write_http_response_def whole_response_def error_body_def
      MAX_MESSAGE_BYTES_def lit_def str_bytes_def utf8_bytes_def)

text \<open>A connection that ended without a word ended because the loop closed, or its answer was not writable.\<close>

definition silent_when_closed :: "listener_event list \<Rightarrow> 'h listener \<Rightarrow> bool" where
  "silent_when_closed es s \<longleftrightarrow>
     (\<forall>i. ln_connection s i = Some (Finished None) \<longrightarrow>
        ln_phase s = Closed
        \<or> (\<exists>request response. answers_of i es = [(request, response)]
             \<and> write_connection_response response = None))"

lemma silent_when_closed_step:
  assumes "listener_step T H s e s'" "story_ok T es s" "silent_when_closed es s"
  shows "silent_when_closed (es @ [e]) s'"
  unfolding silent_when_closed_def
proof (intro allI impI)
  fix i assume ended: "ln_connection s' i = Some (Finished None)"
  note story = assms(2) [unfolded story_ok_def, THEN conjunct2, THEN conjunct1, rule_format]
  show "ln_phase s' = Closed \<or> (\<exists>request response. answers_of i (es @ [e]) = [(request, response)]
      \<and> write_connection_response response = None)"
  proof (cases "ln_connection s i = Some (Finished None)")
    case True
    then have "ln_phase s = Closed \<or> (\<exists>request response. answers_of i es = [(request, response)]
        \<and> write_connection_response response = None)"
      using assms(3) by (simp add: silent_when_closed_def)
    moreover have "answers_of i (es @ [e]) = answers_of i es"
      using assms(1) True assms(2)
      by cases (fastforce simp: story_ok_def listener_ok_def queue_ok_def)+
    moreover have "ln_phase s = Closed \<Longrightarrow> ln_phase s' = Closed"
      using assms(1) by cases simp_all
    ultimately show ?thesis by auto
  next
    case False
    with assms(1) ended consider
        (reject) rejection where "write_fixed_error (http_status_code rejection) (public_code rejection) = None"
      | (closed) "ln_phase s' = Closed"
      | (answer) response where "e = Silent" "ln_connection s i = Some (Awaiting (Some response))"
          "write_connection_response response = None"
      by cases (auto split: if_splits)
    then show ?thesis
    proof cases
      case reject
      with rejection_written show ?thesis by (metis option.distinct(1))
    next
      case answer
      with story [of i] show ?thesis by auto
    qed simp
  qed
qed

lemma silent_when_closed_run:
  "listener_run T H s es s' \<Longrightarrow> story_ok T [] s \<Longrightarrow> silent_when_closed [] s \<Longrightarrow> silent_when_closed es s'"
  by (induction rule: listener_run.induct) (auto intro: silent_when_closed_step dest: story_run)

lemma silent_when_closed_start [simp]: "silent_when_closed [] (listener_start h now)"
  by (simp add: silent_when_closed_def listener_start_def)

end
