(* ===== verification/Service_Behaviour.thy ===== *)
theory Service_Behaviour
  imports Agent_Service Auth_Behaviour
begin

text \<open>
  What the router does with one request: which operations of the authentication store it calls,
  which responses it gives, and when a request reaches the Agent. The interface to the Agent is
  the locale \<open>served_agent\<close>.
\<close>

section \<open>Vocabulary\<close>

definition sequence_of :: "'a agent_service \<Rightarrow> u64" where
  "sequence_of v = au_response_sequence (as_state (sv_auth v))"

text \<open>The configuration never changes; \<open>agent_kept\<close>: neither the Agent nor its health changed.\<close>

definition same_configuration :: "'a agent_service \<Rightarrow> 'a agent_service \<Rightarrow> bool" where
  "same_configuration v v' \<longleftrightarrow>
     sv_node v' = sv_node v \<and> sv_capabilities v' = sv_capabilities v
     \<and> sv_credential_lifetime_ms v' = sv_credential_lifetime_ms v"

definition agent_kept :: "'a agent_service \<Rightarrow> 'a agent_service \<Rightarrow> bool" where
  "agent_kept v v' \<longleftrightarrow>
     sv_agent v' = sv_agent v \<and> sv_agent_state_poisoned v' = sv_agent_state_poisoned v
     \<and> same_configuration v v'"

text \<open>The authentication store changed by a run of its operations.\<close>

definition auth_ran :: "'a service_deps \<Rightarrow> 'a agent_service \<Rightarrow> 'a agent_service \<Rightarrow> bool" where
  "auth_ran D v v' \<longleftrightarrow> (\<exists>calls rs. auth_run (sd_auth D) calls (sv_auth v) = (rs, sv_auth v'))"

text \<open>A response body is the encoding of an envelope with the sequence number.\<close>

definition carries_sequence :: "'a service_deps \<Rightarrow> u64 \<Rightarrow> service_response \<Rightarrow> bool" where
  "carries_sequence D n resp \<longleftrightarrow>
     (\<exists>e. sd_encode_pairing D e = Inr (sr_body resp) \<and> re_sequence e = n)
     \<or> (\<exists>e. sd_encode_operation D e = Inr (sr_body resp) \<and> re_sequence e = n)
     \<or> (\<exists>e. sd_encode_agent D e = Inr (sr_body resp) \<and> re_sequence e = n)
     \<or> (\<exists>e. sd_encode_pin_rotation D e = Inr (sr_body resp) \<and> re_sequence e = n)"

definition protocol_reply :: "'a service_deps \<Rightarrow> u64 \<Rightarrow> service_response \<Rightarrow> bool" where
  "protocol_reply D n resp \<longleftrightarrow>
     sr_status_code resp = 200 \<and> length (sr_body resp) \<le> MAX_MESSAGE_BYTES
     \<and> carries_sequence D n resp"

definition fixed_replies :: "service_response list" where
  "fixed_replies = [fixed_error 400 ''invalid_request'', fixed_error 400 ''invalid_pairing_request'',
     internal_error]"

text \<open>A response that is sent under the sequence \<open>n\<close>, or the fixed internal error.\<close>

definition sent_as :: "'a service_deps \<Rightarrow> u64 \<Rightarrow> 'a agent_service \<Rightarrow> 'a served \<Rightarrow> bool" where
  "sent_as D n v out \<longleftrightarrow>
     agent_kept v (snd out) \<and> sv_auth (snd out) = sv_auth v
     \<and> (protocol_reply D n (fst out) \<or> fst out = internal_error)"

definition numbered :: "'a service_deps \<Rightarrow> 'a agent_service \<Rightarrow> 'a served \<Rightarrow> bool" where
  "numbered D v out \<longleftrightarrow>
     protocol_reply D (sequence_of (snd out)) (fst out)
       \<and> checked_add (sequence_of v) 1 = Some (sequence_of (snd out))
     \<or> fst out \<in> set fixed_replies"

text \<open>
  The one way to the Agent: the bearer authenticated the request, the service was healthy, and
  the request carries the authenticated credential, as control plane for a lifecycle command.
\<close>

definition agent_reached ::
    "'a service_deps \<Rightarrow> str option \<Rightarrow> 'a agent_service \<Rightarrow> agent_request
     \<Rightarrow> agent_error + agent_response \<Rightarrow> 'a agent_service \<Rightarrow> bool" where
  "agent_reached D bearer v q r v' \<longleftrightarrow>
     \<not> sv_agent_state_poisoned v
     \<and> (\<exists>credential a now. bearer = Some credential
          \<and> authenticate_operation (sd_auth D) credential (rq_request_id q) (rq_nonce q)
              (rq_sequence q) now (sv_auth v) = (Inr a, sv_auth v')
          \<and> p_credential_id (rq_principal q) = ao_credential_id a)
     \<and> (is_interactive_command (rq_command q)
        \<or> p_kind (rq_principal q) = ControlPlane \<and> p_authorization_id (rq_principal q) = None)
     \<and> sg_execute (sd_agent D) q (sv_agent v) = (r, sv_agent v')
     \<and> sv_agent_state_poisoned v' = is_store_error r
     \<and> same_configuration v v'"

definition handled :: "'a service_deps \<Rightarrow> str option \<Rightarrow> 'a agent_service \<Rightarrow> 'a served \<Rightarrow> bool" where
  "handled D bearer v out \<longleftrightarrow>
     auth_ran D v (snd out) \<and> numbered D v out
     \<and> (agent_kept v (snd out) \<or> (\<exists>q r. agent_reached D bearer v q r (snd out)))"

section \<open>Frames\<close>

lemma same_configuration_refl [simp]: "same_configuration v v"
  by (simp add: same_configuration_def)

lemma agent_kept_refl [simp]: "agent_kept v v"
  by (simp add: agent_kept_def)

lemma agent_kept_trans: "agent_kept v v1 \<Longrightarrow> agent_kept v1 v2 \<Longrightarrow> agent_kept v v2"
  by (simp add: agent_kept_def same_configuration_def)

lemma agent_reached_kept: "agent_kept v0 v \<Longrightarrow> sv_auth v = sv_auth v0
   \<Longrightarrow> agent_reached D bearer v q r v' \<Longrightarrow> agent_reached D bearer v0 q r v'"
  unfolding agent_reached_def agent_kept_def same_configuration_def by simp

lemma sv_now_frame [simp]:
  "agent_kept v (snd (sv_now v))" "sv_auth (snd (sv_now v)) = sv_auth v"
  "agent_kept v (snd (sv_new_v4 v))" "sv_auth (snd (sv_new_v4 v)) = sv_auth v"
  by (simp_all add: sv_now_def sv_new_v4_def agent_kept_def same_configuration_def split_def)

lemma response_metadata_new_facts:
  assumes "response_metadata_new i t n v = (m, v')"
  shows "rm_sequence m = n" "rm_in_reply_to m = i" "agent_kept v v'" "sv_auth v' = sv_auth v"
  using assms by (auto simp: response_metadata_new_def Let_def split_def
      intro: agent_kept_trans [OF sv_now_frame(3)])

lemma envelope_of_sel [simp]:
  "re_sequence (envelope_of m b) = rm_sequence m" "re_in_reply_to (envelope_of m b) = rm_in_reply_to m"
  "re_body (envelope_of m b) = b"
  by (simp_all add: envelope_of_def)

section \<open>The authentication store\<close>

lemma auth_ran_refl [simp]: "sv_auth v' = sv_auth v \<Longrightarrow> auth_ran D v v'"
  unfolding auth_ran_def by (rule exI [of _ "[]"]) simp

lemma auth_run_append:
  "auth_run A calls st = (rs, st1) \<Longrightarrow> auth_run A calls' st1 = (rs', st2)
   \<Longrightarrow> auth_run A (calls @ calls') st = (rs @ rs', st2)"
  by (induction calls arbitrary: st rs) (auto split: prod.splits)

lemma auth_ran_trans: "auth_ran D v v1 \<Longrightarrow> auth_ran D v1 v2 \<Longrightarrow> auth_ran D v v2"
  unfolding auth_ran_def by (blast intro: auth_run_append)

lemma answering_result:
  "answering f m = (case m of (Inl e, st) \<Rightarrow> (Inl e, st) | (Inr x, st) \<Rightarrow> (Inr (f x), st))"
  by (auto simp: answering_def sbind_def split: prod.split sum.split)

text \<open>One call of the store through the service.\<close>

definition auth_called ::
    "'a service_deps \<Rightarrow> auth_call \<Rightarrow> u64 \<Rightarrow> ('x \<Rightarrow> auth_answer) \<Rightarrow> 'a agent_service
     \<Rightarrow> (auth_store_error, 'x, 'a agent_service) outcome \<Rightarrow> bool" where
  "auth_called D call now f v m \<longleftrightarrow>
     (case m of (r, v') \<Rightarrow>
        v' = v\<lparr>sv_auth := sv_auth v'\<rparr>
        \<and> auth_execute (sd_auth D) call now (sv_auth v) = (map_sum id f r, sv_auth v'))"

lemma in_auth_called:
  assumes "auth_execute (sd_auth D) call now (sv_auth v) = answering f (g (sv_auth v))"
  shows "auth_called D call now f v (in_auth g v)"
  using assms by (auto simp: auth_called_def in_auth_def answering_result split: prod.split sum.split)

lemma auth_called_frame:
  assumes "auth_called D call now f v (r, v')"
  shows "agent_kept v v'" "auth_ran D v v'"
proof -
  from assms have v': "v' = v\<lparr>sv_auth := sv_auth v'\<rparr>"
    and x: "auth_execute (sd_auth D) call now (sv_auth v) = (map_sum id f r, sv_auth v')"
    by (auto simp: auth_called_def)
  show "agent_kept v v'"
    by (subst v') (simp add: agent_kept_def same_configuration_def)
  show "auth_ran D v v'"
    unfolding auth_ran_def by (rule exI [of _ "[(call, now)]"]) (simp add: x)
qed

lemma auth_effect_next:
  "auth_effect A call now a s s' \<Longrightarrow> answered_sequence a = Some n
   \<Longrightarrow> checked_add (au_response_sequence s) 1 = Some n \<and> au_response_sequence s' = n"
  by (erule auth_effect.cases) (auto dest: redeem_change_sel(1))

lemma auth_called_sequence:
  assumes "digests_have_32_bytes (sd_auth D)" and "auth_called D call now f v (Inr x, v')"
    and "answered_sequence (f x) = Some n"
  shows "checked_add (sequence_of v) 1 = Some n" "sequence_of v' = n"
  using auth_effect_next [OF auth_execute_effect(1) [OF assms(1)] assms(3)] assms(2)
  by (auto simp: auth_called_def sequence_of_def)

lemma auth_called_failed:
  assumes "digests_have_32_bytes (sd_auth D)" and "auth_called D call now f v (Inl e, v')"
  shows "as_state (sv_auth v') = as_state (sv_auth v)"
  using auth_execute_failed [OF assms(1)] assms(2) by (auto simp: auth_called_def)

lemma called_operations:
  "auth_called D (AuthenticateOperation \<lparr>ci_bearer = b, ci_request_id = i, ci_nonce = w, ci_sequence = q\<rparr>)
     now OperationAuthenticated v (in_auth (authenticate_operation (sd_auth D) b i w q now) v)"
  "auth_called D ReserveSequence now SequenceReserved v (in_auth (reserve_response_sequence (sd_auth D)) v)"
  "auth_called D (AuthorizeRotation \<lparr>ci_bearer = b, ci_request_id = i, ci_nonce = w, ci_sequence = q\<rparr>
       k t pin) now RotationAuthorized v
     (in_auth (authorize_pin_rotation (sd_auth D) b i w q k t pin now) v)"
  by (rule in_auth_called, simp)+

lemma redeem_called:
  "auth_called D (RedeemToken \<lparr>rd_request_id = pq_request_id q, rd_nonce = pq_nonce q,
       rd_token_id = pb_pairing_token_id (pq_body q), rd_secret = pb_pairing_token (pq_body q),
       rd_advertised_expires_at = pb_pairing_token_expires_at_unix_ms (pq_body q),
       rd_lifetime_ms = sv_credential_lifetime_ms v,
       rd_rotation = pb_tls_pin_rotation (pq_body q)\<rparr>) now Paired v (redeem D q now v)"
  unfolding redeem_def Let_def
  by (rule in_auth_called) (cases "pb_tls_pin_rotation (pq_body q)"; simp)

section \<open>Responses\<close>

lemma serialize_bounded_Inr:
  "serialize_bounded f x = Inr raw \<longleftrightarrow> f x = Inr raw \<and> length raw \<le> MAX_MESSAGE_BYTES"
  by (cases "f x") (auto simp: serialize_bounded_def map_err_def)

lemma protocol_reply_encodings:
  "sd_encode_pairing D e = Inr raw \<Longrightarrow> length raw \<le> MAX_MESSAGE_BYTES
     \<Longrightarrow> protocol_reply D (re_sequence e) (protocol_response raw)"
  "sd_encode_operation D e1 = Inr raw \<Longrightarrow> length raw \<le> MAX_MESSAGE_BYTES
     \<Longrightarrow> protocol_reply D (re_sequence e1) (protocol_response raw)"
  "sd_encode_agent D e2 = Inr raw \<Longrightarrow> length raw \<le> MAX_MESSAGE_BYTES
     \<Longrightarrow> protocol_reply D (re_sequence e2) (protocol_response raw)"
  "sd_encode_pin_rotation D e3 = Inr raw \<Longrightarrow> length raw \<le> MAX_MESSAGE_BYTES
     \<Longrightarrow> protocol_reply D (re_sequence e3) (protocol_response raw)"
  by (auto simp: protocol_reply_def carries_sequence_def protocol_response_def)

lemma bodies_sent:
  "sent_as D n v (operation_body D i t n b1 v)" "sent_as D n v (agent_body D i t n b2 v)"
  "sent_as D n v (pin_rotation_body D i t n b3 v)" "sent_as D n v (pairing_envelope D i t n b4 v)"
proof -
  obtain m v' where m: "response_metadata_new i t n v = (m, v')" by force
  note facts = response_metadata_new_facts [OF m]
  note defs = sent_as_def protocol_or_internal_def m facts serialize_bounded_Inr
  show "sent_as D n v (operation_body D i t n b1 v)"
    by (auto simp: defs operation_body_def split: sum.split
        dest!: protocol_reply_encodings(2) simp del: not_None_eq)
  show "sent_as D n v (agent_body D i t n b2 v)"
    by (auto simp: defs agent_body_def split: sum.split dest!: protocol_reply_encodings(3))
  show "sent_as D n v (pin_rotation_body D i t n b3 v)"
    by (auto simp: defs pin_rotation_body_def split: sum.split dest!: protocol_reply_encodings(4))
  show "sent_as D n v (pairing_envelope D i t n b4 v)"
    by (auto simp: defs pairing_envelope_def split: sum.split dest!: protocol_reply_encodings(1))
qed

lemma sent_as_same: "sent_as D n v out \<Longrightarrow> agent_kept v (snd out) \<and> sv_auth (snd out) = sv_auth v"
  by (simp add: sent_as_def)

text \<open>A reply under the number just drawn from the store is numbered.\<close>

lemma sent_numbered:
  assumes "sent_as D n v1 out" and "checked_add (sequence_of v) 1 = Some n" and "sequence_of v1 = n"
  shows "numbered D v out"
  using assms by (auto simp: sent_as_def numbered_def sequence_of_def fixed_replies_def)

lemma sent_handled:
  assumes "sent_as D n v1 out" and "checked_add (sequence_of v) 1 = Some n" and "sequence_of v1 = n"
    and "auth_ran D v v1" and "agent_kept v v1"
  shows "handled D bearer v out"
  using assms sent_as_same [OF assms(1)] sent_numbered [OF assms(1-3)]
  by (auto simp: handled_def intro: agent_kept_trans auth_ran_trans [OF _ auth_ran_refl])

lemma fixed_handled:
  assumes "resp \<in> set fixed_replies" and "auth_ran D v v1" and "agent_kept v v1"
  shows "handled D bearer v (resp, v1)"
  using assms by (simp add: handled_def numbered_def)

text \<open>A rejection outside an authenticated request draws its own number.\<close>

lemma rejecting_handled:
  assumes "digests_have_32_bytes (sd_auth D)" and "\<And>n w. sent_as D n w (respond n w)"
    and "auth_ran D v w" and "agent_kept v w" and "as_state (sv_auth w) = as_state (sv_auth v)"
  shows "handled D bearer v (rejecting D None respond w)"
proof (cases "in_auth (reserve_response_sequence (sd_auth D)) w")
  case (Pair r w1)
  note called = called_operations(2) [of D 0 w, unfolded Pair]
  have ran: "auth_ran D v w1" "agent_kept v w1"
    using assms(3,4) auth_called_frame [OF called] by (blast intro: auth_ran_trans agent_kept_trans)+
  show ?thesis
  proof (cases r)
    case (Inl e)
    then show ?thesis
      using fixed_handled [OF _ ran, of internal_error]
      by (simp add: rejecting_def Pair fixed_replies_def)
  next
    case (Inr n)
    note drawn = auth_called_sequence [OF assms(1) called [unfolded Inr], of n]
    have "checked_add (sequence_of v) 1 = Some n" "sequence_of w1 = n"
      using drawn assms(5) by (simp_all add: sequence_of_def)
    then show ?thesis
      using sent_handled [OF assms(2) _ _ ran] by (simp add: rejecting_def Pair Inr)
  qed
qed

lemma rejections_handled:
  assumes "digests_have_32_bytes (sd_auth D)"
    and "auth_ran D v w" "agent_kept v w" "as_state (sv_auth w) = as_state (sv_auth v)"
  shows "handled D bearer v (operation_rejection D i why now None w)"
    "handled D bearer v (agent_rejection D i why now None w)"
    "handled D bearer v (pin_rotation_rejection D i why now None w)"
    "handled D bearer v (pairing_rejection D i code message now w)"
  unfolding operation_rejection_def agent_rejection_def pin_rotation_rejection_def
    pairing_rejection_def
  by (rule rejecting_handled [OF assms(1) _ assms(2-4)], rule bodies_sent)+

lemma reserved_rejections:
  "sent_as D n v (operation_rejection D i why now (Some n) v)"
  "sent_as D n v (agent_rejection D i why now (Some n) v)"
  by (simp_all add: operation_rejection_def agent_rejection_def rejecting_def bodies_sent)

section \<open>Authenticated requests\<close>

text \<open>
  What is known once the bearer authenticated the request: the state \<open>w\<close> from the state \<open>v\<close>.
\<close>

definition authenticated_from ::
    "'a service_deps \<Rightarrow> str option \<Rightarrow> uuid \<Rightarrow> str \<Rightarrow> u64 \<Rightarrow> 'a agent_service
     \<Rightarrow> authenticated_operation \<Rightarrow> 'a agent_service \<Rightarrow> bool" where
  "authenticated_from D bearer i nonce q v a w \<longleftrightarrow>
     agent_kept v w \<and> auth_ran D v w
     \<and> checked_add (sequence_of v) 1 = Some (ao_response_sequence a)
     \<and> sequence_of w = ao_response_sequence a
     \<and> (\<exists>credential now. bearer = Some credential
          \<and> authenticate_operation (sd_auth D) credential i nonce q now (sv_auth v)
              = (Inr a, sv_auth w))"

lemma authenticate_request_cases:
  assumes "digests_have_32_bytes (sd_auth D)"
    and "authenticate_request D bearer i nonce q now v = (r, w)"
  shows "case r of
      Inl _ \<Rightarrow> agent_kept v w \<and> auth_ran D v w \<and> as_state (sv_auth w) = as_state (sv_auth v)
    | Inr a \<Rightarrow> authenticated_from D bearer i nonce q v a w"
proof (cases bearer)
  case (Some credential)
  obtain r1 w1 where call: "in_auth (authenticate_operation (sd_auth D) credential i nonce q now) v
      = (r1, w1)" by force
  note called = called_operations(1) [of D credential i nonce q now v, unfolded call]
  have auth: "authenticate_operation (sd_auth D) credential i nonce q now (sv_auth v)
      = (r1, sv_auth w1)"
    using call by (auto simp: in_auth_def split: prod.splits)
  show ?thesis
  proof (cases r1)
    case (Inl e)
    then show ?thesis
      using assms(2) auth_called_frame [OF called] auth_called_failed [OF assms(1) called [unfolded Inl]]
      by (auto simp: authenticate_request_def Some call)
  next
    case (Inr a)
    then show ?thesis
      using assms(2) auth auth_called_frame [OF called]
        auth_called_sequence [OF assms(1) called [unfolded Inr]]
      by (auto simp: authenticate_request_def Some call authenticated_from_def)
  qed
qed (use assms(2) in \<open>auto simp: authenticate_request_def\<close>)

lemma authenticated_sent:
  assumes "authenticated_from D bearer i nonce q v a w" and "agent_kept w w1"
    and "sv_auth w1 = sv_auth w" and "sent_as D (ao_response_sequence a) w1 out"
  shows "handled D bearer v out"
  using assms sent_handled [OF assms(4), of v bearer]
  by (auto simp: authenticated_from_def sequence_of_def
      intro: agent_kept_trans auth_ran_trans [OF _ auth_ran_refl])

text \<open>The same after the Agent has executed a request under this authentication.\<close>

lemma reached_sent:
  assumes "authenticated_from D bearer (rq_request_id q) (rq_nonce q) (rq_sequence q) v a w"
    and "agent_kept w w0" "sv_auth w0 = sv_auth w" and "\<not> sv_agent_state_poisoned w0"
    and "p_credential_id (rq_principal q) = ao_credential_id a"
    and "is_interactive_command (rq_command q)
      \<or> p_kind (rq_principal q) = ControlPlane \<and> p_authorization_id (rq_principal q) = None"
    and "sg_execute (sd_agent D) q (sv_agent w0) = (r, agent)"
    and "w1 = w0\<lparr>sv_agent := agent, sv_agent_state_poisoned := is_store_error r\<rparr>"
    and "sent_as D (ao_response_sequence a) w1 out"
  shows "handled D bearer v out"
proof -
  have same: "sv_auth (snd out) = sv_auth w" "agent_kept w1 (snd out)"
    using sent_as_same [OF assms(9)] assms(3,8) by simp_all
  have "agent_reached D bearer v q r (snd out)"
    using assms(1-8) same by (auto simp: agent_reached_def authenticated_from_def agent_kept_def
        same_configuration_def)
  moreover have "auth_ran D v (snd out)"
    using assms(1) same(1) by (auto simp: authenticated_from_def intro: auth_ran_trans)
  moreover have "numbered D v out"
    by (rule sent_numbered [OF assms(9)])
      (use assms(1,3,8) in \<open>auto simp: authenticated_from_def sequence_of_def\<close>)
  ultimately show ?thesis by (auto simp: handled_def)
qed

section \<open>The routes\<close>

lemma mapped_create_frame:
  "mapped_create silo network ttl cost w = (r, w1) \<Longrightarrow> agent_kept w w1 \<and> sv_auth w1 = sv_auth w"
  by (auto simp: mapped_create_def Let_def split_def split: if_splits
      intro: agent_kept_trans [OF sv_now_frame(3)])

lemma map_lifecycle_command_frame:
  "map_lifecycle_command D silo body w = (r, w1) \<Longrightarrow> agent_kept w w1 \<and> sv_auth w1 = sv_auth w"
  by (cases body) (auto dest: mapped_create_frame)

lemma mapped_when_bound_command:
  "mapped_when_bound D v silo b i command = Inr m \<Longrightarrow> ml_command m = command
     \<and> ml_binding_id m = b \<and> ml_remote_environment_id m = i"
  by (auto simp: mapped_when_bound_def rbind_def split: sum.splits)

lemma map_lifecycle_command_not_interactive:
  "map_lifecycle_command D silo body w = (Inr m, w1) \<Longrightarrow> \<not> is_interactive_command (ml_command m)"
  by (cases body) (auto simp: mapped_create_def Let_def split_def rbind_def
      dest: mapped_when_bound_command split: if_splits sum.splits)

lemma lifecycle_request_sel [simp]:
  "rq_request_id (lifecycle_request q k c) = or_request_id q"
  "rq_nonce (lifecycle_request q k c) = or_nonce q"
  "rq_sequence (lifecycle_request q k c) = or_sequence q"
  "p_kind (rq_principal (lifecycle_request q k c)) = ControlPlane"
  "p_authorization_id (rq_principal (lifecycle_request q k c)) = None"
  "p_credential_id (rq_principal (lifecycle_request q k c)) = k"
  "rq_command (lifecycle_request q k c) = c"
  by (simp_all add: lifecycle_request_def)

text \<open>An execution leaves exactly the state that the Agent's answer determines.\<close>

lemma poison_on_store_error_eq:
  "\<not> sv_agent_state_poisoned v \<Longrightarrow> poison_on_store_error e v
     = v\<lparr>sv_agent_state_poisoned := is_store_error (Inl e :: agent_error + agent_response)\<rparr>"
  by (cases e) (auto simp: poison_on_store_error_def)

lemma execute_lifecycle_state:
  assumes "execute_lifecycle D q k operation m now w = (body, w1)" and "\<not> sv_agent_state_poisoned w"
  shows "\<exists>r agent. sg_execute (sd_agent D) (lifecycle_request q k (ml_command m)) (sv_agent w) = (r, agent)
    \<and> w1 = w\<lparr>sv_agent := agent, sv_agent_state_poisoned := is_store_error r\<rparr>"
  using assms
  by (cases "sg_execute (sd_agent D) (lifecycle_request q k (ml_command m)) (sv_agent w)")
    (auto simp: execute_lifecycle_def in_agent_def poison_on_store_error_eq split: sum.splits)

lemma execute_interactive_state:
  assumes "execute_interactive D q w = (body, w1)" and "\<not> sv_agent_state_poisoned w"
  shows "\<exists>r agent. sg_execute (sd_agent D) q (sv_agent w) = (r, agent)
    \<and> w1 = w\<lparr>sv_agent := agent, sv_agent_state_poisoned := is_store_error r\<rparr>"
  using assms
  by (cases "sg_execute (sd_agent D) q (sv_agent w)")
    (auto simp: execute_interactive_def in_agent_def poison_on_store_error_eq split: sum.splits)

lemma route_authenticated_operation_handled:
  assumes "authenticated_from D bearer (or_request_id q) (or_nonce q) (or_sequence q) v a w"
  shows "handled D bearer v (route_authenticated_operation D q a now w)"
proof -
  note sent = authenticated_sent [OF assms]
  let ?out = "route_authenticated_operation D q a now w"
  obtain r w1 where mapped: "map_lifecycle_command D (or_silo_id q) (or_body q) w = (r, w1)" by force
  note frame = map_lifecycle_command_frame [OF mapped]
  consider (poisoned) "sv_agent_state_poisoned w"
    | (refused) why where "\<not> sv_agent_state_poisoned w" "r = Inl why"
    | (unavailable) m reason where "\<not> sv_agent_state_poisoned w" "r = Inr m"
        "(if operation_body_operation (or_body q) \<noteq> remote_operation.Destroy
          then unavailable_reason (sv_capabilities w1) (operation_body_operation (or_body q))
          else None) = Some reason"
    | (executed) m where "\<not> sv_agent_state_poisoned w" "r = Inr m"
        "(if operation_body_operation (or_body q) \<noteq> remote_operation.Destroy
          then unavailable_reason (sv_capabilities w1) (operation_body_operation (or_body q))
          else None) = None"
    by (cases r) (auto simp del: not_None_eq, metis option.exhaust)
  then show ?thesis
  proof cases
    case poisoned
    then show ?thesis
      using sent [OF agent_kept_refl refl reserved_rejections(1)]
      by (simp add: route_authenticated_operation_def)
  next
    case refused
    then show ?thesis
      using sent [OF _ _ reserved_rejections(1)] frame
      by (simp add: route_authenticated_operation_def mapped)
  next
    case unavailable
    then show ?thesis
      using sent [OF _ _ bodies_sent(1)] frame
      by (simp add: route_authenticated_operation_def mapped Let_def)
  next
    case (executed m)
    obtain body w2 where run: "execute_lifecycle D q (ao_credential_id a)
        (operation_body_operation (or_body q)) m now w1 = (body, w2)" by force
    have healthy: "\<not> sv_agent_state_poisoned w1"
      using executed(1) frame by (simp add: agent_kept_def)
    from execute_lifecycle_state [OF run healthy] obtain s agent
      where x: "sg_execute (sd_agent D) (lifecycle_request q (ao_credential_id a) (ml_command m))
          (sv_agent w1) = (s, agent)"
        "w2 = w1\<lparr>sv_agent := agent, sv_agent_state_poisoned := is_store_error s\<rparr>" by blast
    have "?out = operation_body D (or_request_id q) now (ao_response_sequence a) body w2"
      using executed run by (simp add: route_authenticated_operation_def mapped Let_def)
    moreover have "handled D bearer v (operation_body D (or_request_id q) now
        (ao_response_sequence a) body w2)"
      by (rule reached_sent [OF _ conjunct1 [OF frame] conjunct2 [OF frame] healthy _ _ x
            bodies_sent(1)]) (use assms in simp_all)
    ultimately show ?thesis by simp
  qed
qed

lemma route_authenticated_agent_handled:
  assumes "authenticated_from D bearer (rq_request_id q) (rq_nonce q) (rq_sequence q) v a w"
  shows "handled D bearer v (route_authenticated_agent D q a now w)"
proof (cases "sv_agent_state_poisoned w \<or> \<not> is_interactive_command (rq_command q)
      \<or> p_credential_id (rq_principal q) \<noteq> ao_credential_id a")
  case True
  then show ?thesis
    using authenticated_sent [OF assms agent_kept_refl refl reserved_rejections(2)]
    by (auto simp: route_authenticated_agent_def)
next
  case False
  then have healthy: "\<not> sv_agent_state_poisoned w" by simp
  obtain body w1 where run: "execute_interactive D q w = (body, w1)" by force
  from execute_interactive_state [OF run healthy] obtain s agent
    where x: "sg_execute (sd_agent D) q (sv_agent w) = (s, agent)"
      "w1 = w\<lparr>sv_agent := agent, sv_agent_state_poisoned := is_store_error s\<rparr>" by blast
  have "handled D bearer v (agent_body D (rq_request_id q) now (ao_response_sequence a) body w1)"
    by (rule reached_sent [OF assms agent_kept_refl refl healthy _ _ x bodies_sent(2)])
      (use False in simp_all)
  with False run show ?thesis by (simp add: route_authenticated_agent_def)
qed

lemma handled_kept:
  assumes "handled D bearer w out" and "agent_kept v w" "sv_auth w = sv_auth v"
  shows "handled D bearer v out"
  using assms
  by (auto simp: handled_def numbered_def auth_ran_def sequence_of_def
      intro: agent_kept_trans agent_reached_kept)

lemma route_operation_handled:
  assumes "digests_have_32_bytes (sd_auth D)"
  shows "handled D bearer v (route_operation D q bearer v)"
proof -
  obtain now w where t: "sv_now v = (now, w)" by force
  have tick: "agent_kept v w" "sv_auth w = sv_auth v"
    using sv_now_frame(1,2) [of v] by (simp_all add: t)
  note rejected = rejections_handled(1) [OF assms, of w w bearer]
  obtain r w1 where auth: "authenticate_request D bearer (or_request_id q) (or_nonce q)
      (or_sequence q) now w = (r, w1)" by force
  have "handled D bearer w (route_operation D q bearer v)"
    using authenticate_request_cases [OF assms auth] rejected
      rejections_handled(1) [OF assms, of w w1 bearer]
    by (auto simp: route_operation_def t auth Let_def route_authenticated_operation_handled
        split: option.splits sum.splits)
  then show ?thesis by (rule handled_kept [OF _ tick])
qed

lemma route_agent_handled:
  assumes "digests_have_32_bytes (sd_auth D)"
  shows "handled D bearer v (route_agent D q bearer v)"
proof -
  obtain now w where t: "sv_now v = (now, w)" by force
  have tick: "agent_kept v w" "sv_auth w = sv_auth v"
    using sv_now_frame(1,2) [of v] by (simp_all add: t)
  obtain r w1 where auth: "authenticate_request D bearer (rq_request_id q) (rq_nonce q)
      (rq_sequence q) now w = (r, w1)" by force
  have "handled D bearer w (route_agent D q bearer v)"
    using authenticate_request_cases [OF assms auth] rejections_handled(2) [OF assms, of w w bearer]
      rejections_handled(2) [OF assms, of w w1 bearer]
    by (auto simp: route_agent_def t auth Let_def route_authenticated_agent_handled
        split: option.splits sum.splits)
  then show ?thesis by (rule handled_kept [OF _ tick])
qed

text \<open>A call of the store that is answered under the number it drew.\<close>

lemma called_handled:
  assumes "digests_have_32_bytes (sd_auth D)" and "auth_called D call now f w (Inr g, w1)"
    and "answered_sequence (f g) = Some n" and "sent_as D n w1 out"
  shows "handled D bearer w out"
  using sent_handled [OF assms(4) auth_called_sequence [OF assms(1-3)]]
    auth_called_frame [OF assms(2)] by blast

lemma route_pairing_handled:
  assumes "digests_have_32_bytes (sd_auth D)"
  shows "handled D bearer v (route_pairing D q v)"
proof -
  obtain now w where t: "sv_now v = (now, w)" by force
  have tick: "agent_kept v w" "sv_auth w = sv_auth v"
    using sv_now_frame(1,2) [of v] by (simp_all add: t)
  obtain r w1 where call: "redeem D q now w = (r, w1)" by force
  note called = redeem_called [of D q w now, unfolded call]
  note rejected = rejections_handled(4) [OF assms, of w w bearer]
  have redeemed: "handled D bearer w (case r of
      Inr grant \<Rightarrow> pairing_envelope D (pq_request_id q) now (pairing_grant.pg_response_sequence grant)
        (pairing_response_body.Success (pairing_success_body w1 grant)) w1
    | Inl error \<Rightarrow> (case pairing_error error of
        Some (code, message) \<Rightarrow> pairing_rejection D (pq_request_id q) code message now w1
      | None \<Rightarrow> (internal_error, w1)))"
  proof (cases r)
    case (Inl e)
    note failed = auth_called_frame [OF called] auth_called_failed [OF assms called [unfolded Inl]]
    show ?thesis
      using rejections_handled(4) [OF assms, of w w1 bearer] fixed_handled [of internal_error D w w1 bearer] failed
      by (auto simp: Inl fixed_replies_def split: option.split)
  next
    case (Inr g)
    show ?thesis
      using called_handled [OF assms called [unfolded Inr] _ bodies_sent(4)] by (simp add: Inr)
  qed
  have "handled D bearer w (route_pairing D q v)"
    using redeemed rejected fixed_handled [of "fixed_error 400 ''invalid_pairing_request''" D w w bearer]
    by (auto simp: route_pairing_def t call Let_def fixed_replies_def split_def
        split: option.splits sum.splits)
  then show ?thesis by (rule handled_kept [OF _ tick])
qed

lemma route_pin_rotation_handled:
  assumes "digests_have_32_bytes (sd_auth D)"
  shows "handled D bearer v (route_tls_pin_rotation_authorization D q bearer v)"
proof -
  obtain now w where t: "sv_now v = (now, w)" by force
  have tick: "agent_kept v w" "sv_auth w = sv_auth v"
    using sv_now_frame(1,2) [of v] by (simp_all add: t)
  obtain r w1 where call: "request_pin_rotation D q bearer now w = (r, w1)" by force
  note rejected = rejections_handled(3) [OF assms, of w w bearer]
  have authorized: "handled D bearer w (case r of
      Inr grant \<Rightarrow> pin_rotation_body D (tq_request_id q) now (rg_response_sequence grant)
        (tls_pin_rotation_authorization_response_body.Success
          (pin_rotation_success_body w1 (tq_body q) grant)) w1
    | Inl error \<Rightarrow> pin_rotation_rejection D (tq_request_id q) (pin_rotation_error error) now None w1)"
  proof (cases bearer)
    case None
    then show ?thesis using call rejected by (auto simp: request_pin_rotation_def)
  next
    case (Some credential)
    note called = called_operations(3) [of D credential "tq_request_id q" "tq_nonce q"
        "tq_sequence q" "tb_client_credential_id (tq_body q)" "tb_pairing_token_id (tq_body q)"
        "tb_new_pin (tq_body q)" now w]
    have called: "auth_called D (AuthorizeRotation \<lparr>ci_bearer = credential,
        ci_request_id = tq_request_id q, ci_nonce = tq_nonce q, ci_sequence = tq_sequence q\<rparr>
        (tb_client_credential_id (tq_body q)) (tb_pairing_token_id (tq_body q))
        (tb_new_pin (tq_body q))) now RotationAuthorized w (r, w1)"
      using called call by (simp add: request_pin_rotation_def Some)
    show ?thesis
    proof (cases r)
      case (Inl e)
      with auth_called_frame [OF called] auth_called_failed [OF assms called [unfolded Inl]]
        rejections_handled(3) [OF assms, of w w1 bearer]
      show ?thesis by simp
    next
      case (Inr g)
      show ?thesis
        using called_handled [OF assms called [unfolded Inr] _ bodies_sent(3)] by (simp add: Inr)
    qed
  qed
  have "handled D bearer w (route_tls_pin_rotation_authorization D q bearer v)"
    using authorized rejected
    by (auto simp: route_tls_pin_rotation_authorization_def t call Let_def
        split: option.splits sum.splits)
  then show ?thesis by (rule handled_kept [OF _ tick])
qed

lemma decode_and_route_handled:
  assumes "digests_have_32_bytes (sd_auth D)"
  shows "handled D bearer v (decode_and_route D bearer payload v)"
proof (cases "sd_decode_authenticated D payload")
  case (Inl e)
  then show ?thesis
    by (simp add: decode_and_route_def fixed_handled fixed_replies_def)
next
  case (Inr q)
  then show ?thesis
    by (cases q) (simp_all add: decode_and_route_def route_operation_handled [OF assms]
        route_agent_handled [OF assms] route_pin_rotation_handled [OF assms])
qed

theorem route_handled:
  assumes "digests_have_32_bytes (sd_auth D)"
  shows "handled D bearer v (route D bearer payload v)"
  by (auto simp: route_def fixed_replies_def decode_and_route_handled [OF assms]
      route_pairing_handled [OF assms] intro: fixed_handled split: option.split sum.split)

end
