(* ===== verification/Service_Machine.thy ===== *)
theory Service_Machine
  imports Service_Behaviour Agent_Behaviour
begin

text \<open>
  Runs of the router: requests and maintenance ticks in the order in which the listener hands them
  over. The locale \<open>served_agent\<close> states what the router expects of an Agent; it is
  interpreted on the request processor over the on-disk store.
\<close>

section \<open>Runs\<close>

datatype service_event = Incoming "str option" "nat list" | Tick

fun service_step ::
    "'a service_deps \<Rightarrow> service_event \<Rightarrow> 'a agent_service
     \<Rightarrow> service_response option \<times> 'a agent_service" where
  "service_step D (Incoming bearer payload) v =
     (case route D bearer payload v of (resp, v) \<Rightarrow> (Some resp, v))"
| "service_step D Tick v = (None, maintenance_tick D v)"

fun service_run ::
    "'a service_deps \<Rightarrow> service_event list \<Rightarrow> 'a agent_service
     \<Rightarrow> service_response list \<times> 'a agent_service" where
  "service_run D [] v = ([], v)"
| "service_run D (event # events) v =
     (case service_step D event v of (resp, v) \<Rightarrow>
        case service_run D events v of (resps, v) \<Rightarrow>
          (case resp of None \<Rightarrow> resps | Some r \<Rightarrow> r # resps, v))"

text \<open>A property that each event keeps holds after the run.\<close>

lemma service_run_keeps:
  assumes "Q v" and "\<And>e v. Q v \<Longrightarrow> Q (snd (service_step D e v))"
  shows "Q (snd (service_run D events v))"
  using assms(1)
proof (induction events arbitrary: v)
  case (Cons e events)
  then show ?case using assms(2) [of v e] by (simp add: split_def)
qed simp

lemma maintenance_tick_frame:
  "sv_auth (maintenance_tick D v) = sv_auth v" "same_configuration v (maintenance_tick D v)"
  "sv_agent_state_poisoned v \<Longrightarrow> maintenance_tick D v = v"
  by (simp_all add: maintenance_tick_def same_configuration_def split_def)

lemma maintenance_tick_agent:
  "sv_agent (maintenance_tick D v) = sv_agent v
   \<or> sv_agent (maintenance_tick D v) = snd (sg_maintenance_tick (sd_agent D) (sv_agent v))"
  by (simp add: maintenance_tick_def split_def)

lemma agent_reached_agent:
  "agent_reached D bearer v q r w \<Longrightarrow> sv_agent w = snd (sg_execute (sd_agent D) q (sv_agent v))"
  by (simp add: agent_reached_def)

lemma route_agent_cases:
  assumes "digests_have_32_bytes (sd_auth D)"
  shows "sv_agent (snd (route D bearer payload v)) = sv_agent v
    \<or> (\<exists>q. sv_agent (snd (route D bearer payload v)) = snd (sg_execute (sd_agent D) q (sv_agent v)))"
  using route_handled [OF assms, of bearer v payload]
  by (auto simp: handled_def agent_kept_def dest: agent_reached_agent)

section \<open>Poisoning\<close>

lemma poisoned_step:
  assumes "digests_have_32_bytes (sd_auth D)" and "sv_agent_state_poisoned v"
  shows "agent_kept v (snd (service_step D e v))"
proof (cases e)
  case (Incoming bearer payload)
  then show ?thesis
    using route_handled [OF assms(1), of bearer v payload] assms(2)
    by (auto simp: handled_def agent_reached_def split_def)
next
  case Tick
  then show ?thesis by (simp add: maintenance_tick_frame(3) assms(2))
qed

lemma poisoned_run:
  assumes "digests_have_32_bytes (sd_auth D)" and "sv_agent_state_poisoned v"
  shows "agent_kept v (snd (service_run D events v))"
  using service_run_keeps [of "\<lambda>w. agent_kept v w" v D events] poisoned_step [OF assms(1)] assms(2)
  by (auto simp: agent_kept_def same_configuration_def)

section \<open>Response numbers\<close>

text \<open>The numbers of the protocol responses of a run, in order.\<close>

inductive numbered_as :: "'a service_deps \<Rightarrow> service_response list \<Rightarrow> u64 list \<Rightarrow> bool"
  for D :: "'a service_deps"
  where
  none: "numbered_as D [] []"
| fixed: "numbered_as D resps ns \<Longrightarrow> resp \<in> set fixed_replies \<Longrightarrow> numbered_as D (resp # resps) ns"
| protocol: "numbered_as D resps ns \<Longrightarrow> protocol_reply D n resp \<Longrightarrow> numbered_as D (resp # resps) (n # ns)"

inductive_cases numbered_asE: "numbered_as D resps ns"

lemma auth_ran_sequence:
  "digests_have_32_bytes (sd_auth D) \<Longrightarrow> auth_ran D v w \<Longrightarrow> sequence_of v \<le> sequence_of w"
proof -
  assume "digests_have_32_bytes (sd_auth D)" "auth_ran D v w"
  then obtain calls rs where run: "auth_run (sd_auth D) calls (sv_auth v) = (rs, sv_auth w)"
    by (auto simp: auth_ran_def)
  show ?thesis
    using auth_run_sequences [OF \<open>digests_have_32_bytes (sd_auth D)\<close> run]
    by (cases "answered_sequences rs" rule: rev_cases) (auto simp: sequence_of_def sorted_wrt_append less_imp_le)
qed

lemma service_run_numbered:
  assumes "digests_have_32_bytes (sd_auth D)" and "service_run D events v = (resps, v')"
  shows "\<exists>ns. numbered_as D resps ns \<and> sorted_wrt (<) (sequence_of v # ns)
    \<and> list_all (\<lambda>n. n \<le> sequence_of v') (sequence_of v # ns)"
  using assms(2)
proof (induction events arbitrary: v resps)
  case Nil
  then show ?case by (auto intro: numbered_as.none)
next
  case (Cons e events)
  obtain r w where step: "service_step D e v = (r, w)" by force
  obtain rs where run: "service_run D events w = (rs, v')"
    and resps: "resps = (case r of None \<Rightarrow> rs | Some x \<Rightarrow> x # rs)"
    using Cons.prems by (auto simp: step split: prod.splits)
  from Cons.IH [OF run] obtain ns where ih: "numbered_as D rs ns"
    "sorted_wrt (<) (sequence_of w # ns)" "list_all (\<lambda>n. n \<le> sequence_of v') (sequence_of w # ns)"
    by blast
  show ?case
  proof (cases e)
    case Tick
    then have "r = None" "sequence_of w = sequence_of v"
      using step by (auto simp: sequence_of_def maintenance_tick_frame)
    with ih resps show ?thesis by auto
  next
    case (Incoming bearer payload)
    then obtain x where x: "r = Some x" "route D bearer payload v = (x, w)"
      using step by (auto split: prod.splits)
    have h: "auth_ran D v w" "numbered D v (x, w)"
      using route_handled [OF assms(1), of bearer v payload] by (auto simp: x handled_def)
    have le: "sequence_of v \<le> sequence_of w" by (rule auth_ran_sequence [OF assms(1) h(1)])
    from h(2) consider
        (protocol) "protocol_reply D (sequence_of w) x" "checked_add (sequence_of v) 1 = Some (sequence_of w)"
      | (fixed) "x \<in> set fixed_replies"
      by (auto simp: numbered_def)
    then show ?thesis
    proof cases
      case protocol
      then have "sequence_of v < sequence_of w" by (blast intro: checked_add_one_less)
      with protocol ih show ?thesis
        by (intro exI [of _ "sequence_of w # ns"])
          (auto simp: resps x intro: numbered_as.protocol less_trans order_trans less_imp_le)
    next
      case fixed
      with ih le show ?thesis
        by (intro exI [of _ ns]) (auto simp: resps x intro: numbered_as.fixed le_less_trans order_trans)
    qed
  qed
qed

section \<open>The interface of the Agent\<close>

text \<open>
  What the router relies on: every request and every tick keeps the Agent's invariant and moves
  it by steps of a relation that composes.
\<close>

locale served_agent =
  fixes agent :: "'a service_agent_ops"
    and good :: "'a \<Rightarrow> bool"
    and moves :: "'a \<Rightarrow> 'a \<Rightarrow> bool"
  assumes moves_refl: "moves a a"
    and moves_trans: "moves a b \<Longrightarrow> moves b c \<Longrightarrow> moves a c"
    and execute_good: "good a \<Longrightarrow> good (snd (sg_execute agent q a)) \<and> moves a (snd (sg_execute agent q a))"
    and tick_good: "good a \<Longrightarrow> good (snd (sg_maintenance_tick agent a))
      \<and> moves a (snd (sg_maintenance_tick agent a))"
begin

lemma step_good:
  assumes "digests_have_32_bytes (sd_auth D)" "sd_agent D = agent" "good (sv_agent v)"
  shows "good (sv_agent (snd (service_step D e v))) \<and> moves (sv_agent v) (sv_agent (snd (service_step D e v)))"
proof (cases e)
  case (Incoming bearer payload)
  then show ?thesis
    using route_agent_cases [OF assms(1), of bearer payload v] assms(2,3) execute_good moves_refl
    by (auto simp: split_def)
next
  case Tick
  then show ?thesis
    using maintenance_tick_agent [of D v] assms(2,3) tick_good moves_refl by auto
qed

lemma run_good:
  assumes "digests_have_32_bytes (sd_auth D)" "sd_agent D = agent" "good (sv_agent v)"
  shows "good (sv_agent (snd (service_run D events v)))
    \<and> moves (sv_agent v) (sv_agent (snd (service_run D events v)))"
  using service_run_keeps [of "\<lambda>w. good (sv_agent w) \<and> moves (sv_agent v) (sv_agent w)" v D events]
    step_good [OF assms(1,2)] assms(3) moves_refl moves_trans by blast

end

text \<open>The request processor over the on-disk store is such an Agent.\<close>

lemma sweep_durable:
  assumes "durable_invar (ac_store c)"
  shows "durable_invar (ac_store (snd (sweep_expired (durable_agent C P J) c)))
    \<and> agent_steps UNIV True (durable_view (ac_store c))
        (durable_view (ac_store (snd (sweep_expired (durable_agent C P J) c))))"
  using durable_core.keeps_sweep_expired [of True "durable_view (ac_store c)" c C P J]
    durable_view_wf [OF assms] assms
  by (simp add: durable_core.reach_def)

interpretation durable_served: served_agent
    "core_service_ops (durable_agent C P J)" "\<lambda>c. durable_invar (ac_store c)"
    "\<lambda>c c'. agent_steps UNIV True (durable_view (ac_store c)) (durable_view (ac_store c'))"
  by unfold_locales
    (auto simp: core_service_ops_def split_def execute_durable sweep_durable intro: rtranclp_trans)

end
