(* ===== verification/Pinned_Transport.thy ===== *)
theory Pinned_Transport
  imports Controller_Types Http_Request
begin

text \<open>
  The desktop's HTTPS transport (\<open>transport.rs\<close>): the certificate verifier that adds the pin to the
  ordinary checks, the exchange of one request, and the checks of the response. The HTTP client,
  the platform's verifier, the certificate parser and SHA-256 are parameters.
\<close>

section \<open>Parameters\<close>

definition CONNECT_TIMEOUT_SECONDS :: nat where "CONNECT_TIMEOUT_SECONDS = 8"
definition REQUEST_TIMEOUT_SECONDS :: nat where "REQUEST_TIMEOUT_SECONDS = 20"

datatype tls_error = BadEncoding | ApplicationVerificationFailure | OrdinaryVerification str

text \<open>What the client is built with.\<close>

record client_policy =
  cp_alpn_protocols :: "str list"
  cp_early_data :: bool
  cp_https_only :: bool
  cp_http1_only :: bool
  cp_follows_redirects :: bool
  cp_uses_proxy :: bool
  cp_connect_timeout_seconds :: nat
  cp_timeout_seconds :: nat
  cp_max_idle_connections :: nat
  cp_tls_info :: bool
  cp_user_agent :: str

record outgoing_request =
  og_url :: str
  og_headers :: "(str \<times> str) list"
  og_authorization :: "str option"
  og_body :: "nat list"

text \<open>
  A failed exchange: the answers of \<open>is_timeout\<close>, \<open>is_connect\<close> and \<open>is_redirect\<close>, and the text.
\<close>

record client_error =
  ce_is_timeout :: bool
  ce_is_connect :: bool
  ce_is_redirect :: bool
  ce_text :: str

text \<open>A response; \<open>ih_body\<close> is what reading the body up to a limit gives.\<close>

record incoming_response =
  ih_peer_certificate :: "nat list option"
  ih_status :: u16
  ih_content_type :: "nat list option"
  ih_body :: "nat \<Rightarrow> str + nat list"

type_synonym certificate_verifier = "nat list \<Rightarrow> tls_error + unit"

text \<open>
  \<open>hl_send\<close> exchanges one request over a connection that the verifier accepts; besides the response
  it tells the leaf certificates that the verifier was asked about. \<open>hl_parse_x509\<close> gives
  what follows the certificate and its public key.
\<close>

record 't https_library =
  hl_platform_verifier :: "str \<Rightarrow> certificate_verifier"
  hl_build :: "client_policy \<Rightarrow> str + unit"
  hl_send :: "certificate_verifier \<Rightarrow> outgoing_request \<Rightarrow> 't
    \<Rightarrow> (client_error + incoming_response) \<times> nat list list \<times> 't"
  hl_parse_x509 :: "nat list \<Rightarrow> unit + nat list \<times> nat list"
  hl_sha256 :: "nat list \<Rightarrow> nat list"
  hl_parse_url :: "str \<Rightarrow> str + url_parts"

section \<open>Pins\<close>

definition sha256_hex :: "(nat list \<Rightarrow> nat list) \<Rightarrow> nat list \<Rightarrow> str" where
  "sha256_hex sha256 value = concat (map (show_hex 2) (sha256 value))"

definition peer_pin ::
    "'t https_library \<Rightarrow> tls_pin_kind \<Rightarrow> nat list \<Rightarrow> remote_backend_error + tls_pin" where
  "peer_pin X kind certificate_der =
     rbind (case kind of
         CertificateSha256 \<Rightarrow> Inr (sha256_hex (hl_sha256 X) certificate_der)
       | SpkiSha256 \<Rightarrow>
           rbind (map_err (\<lambda>_. Transport
                    (lit ''The authenticated peer certificate is not valid X.509 DER.''))
                    (hl_parse_x509 X certificate_der)) (\<lambda>(remaining, public_key).
           if remaining \<noteq> []
           then Inl (Transport
                  (lit ''The authenticated peer certificate contains trailing DER data.''))
           else Inr (sha256_hex (hl_sha256 X) public_key)))
       (\<lambda>digest. Inr \<lparr>pin_kind = kind, pin_sha256 = digest\<rparr>)"

text \<open>The result of the verifier, and whether it found another pin.\<close>

definition verify_server_cert ::
    "'t https_library \<Rightarrow> remote_endpoint \<Rightarrow> nat list \<Rightarrow> (tls_error + unit) \<times> bool" where
  "verify_server_cert X endpoint end_entity =
     (case hl_platform_verifier X (ep_origin endpoint) end_entity of
        Inl error \<Rightarrow> (Inl error, False)
      | Inr _ \<Rightarrow>
          (case peer_pin X (pin_kind (ep_pin endpoint)) end_entity of
             Inl _ \<Rightarrow> (Inl BadEncoding, False)
           | Inr observed \<Rightarrow>
               if pin_sha256 observed \<noteq> pin_sha256 (ep_pin endpoint)
               then (Inl ApplicationVerificationFailure, True)
               else (Inr (), False)))"

section \<open>The exchange\<close>

definition pinned_client_policy :: client_policy where
  "pinned_client_policy =
     \<lparr>cp_alpn_protocols = [lit ''http/1.1''], cp_early_data = False, cp_https_only = True,
      cp_http1_only = True, cp_follows_redirects = False, cp_uses_proxy = False,
      cp_connect_timeout_seconds = CONNECT_TIMEOUT_SECONDS,
      cp_timeout_seconds = REQUEST_TIMEOUT_SECONDS, cp_max_idle_connections = 0,
      cp_tls_info = True, cp_user_agent = lit ''VeriSilo/0.9.0''\<rparr>"

definition client_for_pin :: "'t https_library \<Rightarrow> remote_backend_error + unit" where
  "client_for_pin X =
     map_err (\<lambda>error. Transport (lit ''Could not initialize the pinned HTTPS client: '' @ error))
       (hl_build X pinned_client_policy)"

definition validate_bearer_credential :: "str \<Rightarrow> remote_backend_error + unit" where
  "validate_bearer_credential credential =
     (if \<not> (32 \<le> str_len credential \<and> str_len credential \<le> 512)
         \<or> \<not> list_all is_base64url (str_bytes credential)
      then Inl (remote_backend_error.InvalidRequest
             (lit ''Remote credential must be 32-512 base64url characters.''))
      else Inr ())"

text \<open>\<open>HeaderValue::from_str\<close> takes tabs and the bytes from 32 on, but not 127.\<close>

definition header_value_from_str :: "str \<Rightarrow> str option" where
  "header_value_from_str value =
     (if list_all (\<lambda>byte. byte = 9 \<or> 32 \<le> byte \<and> byte \<noteq> 127) (str_bytes value)
      then Some value else None)"

definition authorization_header :: "str option \<Rightarrow> remote_backend_error + str option" where
  "authorization_header credential =
     (case credential of
        None \<Rightarrow> Inr None
      | Some secret \<Rightarrow>
          rbind (validate_bearer_credential secret) (\<lambda>_.
          rbind (ok_or (remote_backend_error.InvalidRequest
                   (lit ''Remote credential is not a valid bearer token.''))
                   (header_value_from_str (lit ''Bearer '' @ secret))) (\<lambda>value.
          Inr (Some value))))"

definition map_transport_error :: "client_error \<Rightarrow> bool \<Rightarrow> remote_backend_error" where
  "map_transport_error error pin_mismatch =
     (if pin_mismatch then PinMismatch
      else
        Transport (lit ''Remote Agent ''
          @ lit (if ce_is_timeout error then ''timed out''
                 else if ce_is_connect error then ''connection or TLS validation failed''
                 else if ce_is_redirect error then ''redirect was refused''
                 else ''request failed'')
          @ lit '': '' @ ce_text error))"

text \<open>\<open>HeaderValue::to_str\<close> gives visible ASCII only.\<close>

definition header_to_str :: "nat list \<Rightarrow> str option" where
  "header_to_str value =
     (if list_all (\<lambda>byte. byte = 9 \<or> 32 \<le> byte \<and> byte < 127) value then Some value else None)"

definition is_application_json :: "incoming_response \<Rightarrow> bool" where
  "is_application_json response =
     (let content_type = (case Option.bind (ih_content_type response) header_to_str of
            None \<Rightarrow> [] | Some value \<Rightarrow> value) in
      eq_ignore_ascii_case (str_trim (hd (split_at_char 59 content_type))) (lit ''application/json''))"

definition validate_http_response ::
    "'t https_library \<Rightarrow> tls_pin \<Rightarrow> incoming_response \<Rightarrow> remote_backend_error + transport_response"
  where
  "validate_http_response X expected_pin response =
     rbind (ok_or (Transport
              (lit ''TLS completed without exposing the authenticated leaf certificate.''))
              (ih_peer_certificate response)) (\<lambda>certificate.
     rbind (peer_pin X (pin_kind expected_pin) certificate) (\<lambda>observed_pin.
     if pin_sha256 observed_pin \<noteq> pin_sha256 expected_pin then Inl PinMismatch
     else if ih_status response \<noteq> 200
     then Inl (Transport (lit ''Pinned Remote Agent returned HTTP ''
            @ show_nat (unat (ih_status response)) @ lit ''; only 200 is accepted.''))
     else if \<not> is_application_json response
     then Inl (Transport (lit ''Pinned Remote Agent did not return application/json.''))
     else
       rbind (map_err (\<lambda>error. Transport (lit ''Could not read remote response: '' @ error))
                (ih_body response (MAX_MESSAGE_BYTES + 1))) (\<lambda>payload.
       if MAX_MESSAGE_BYTES < length payload
       then Inl (remote_backend_error.LimitExceeded (lit ''response exceeds ''
              @ show_nat MAX_MESSAGE_BYTES @ lit '' bytes''))
       else Inr \<lparr>tp_tls_validated = True, tp_peer_pin = observed_pin, tp_payload = payload\<rparr>)))"

definition exchange_inner ::
    "'t https_library \<Rightarrow> transport_request \<Rightarrow> 't
     \<Rightarrow> (remote_backend_error, transport_response, 't) outcome" where
  "exchange_inner X request t =
     sbind (endpoint_validate (hl_parse_url X) (tr_endpoint request), t) (\<lambda>_ t.
     if MAX_MESSAGE_BYTES < length (tr_payload request)
     then (Inl (remote_backend_error.LimitExceeded
             (lit ''request is '' @ show_nat (length (tr_payload request))
              @ lit '' bytes; maximum is '' @ show_nat MAX_MESSAGE_BYTES)), t)
     else
       sbind (client_for_pin X, t) (\<lambda>_ t.
       sbind (authorization_header (tr_credential request), t) (\<lambda>authorization t.
       case hl_send X (\<lambda>leaf. fst (verify_server_cert X (tr_endpoint request) leaf))
              \<lparr>og_url = ep_origin (tr_endpoint request),
               og_headers = [(lit ''content-type'', lit ''application/json''),
                             (lit ''accept'', lit ''application/json''),
                             (lit ''cache-control'', lit ''no-store''),
                             (lit ''x-verisilo-protocol'', show_nat (unat PROTOCOL_VERSION))],
               og_authorization = authorization, og_body = tr_payload request\<rparr> t of
         (Inl error, leaves, t) \<Rightarrow>
           (Inl (map_transport_error error
              (list_ex (\<lambda>leaf. snd (verify_server_cert X (tr_endpoint request) leaf)) leaves)), t)
       | (Inr response, leaves, t) \<Rightarrow>
           (validate_http_response X (ep_pin (tr_endpoint request)) response, t))))"

section \<open>What an exchange shows\<close>

lemma peer_pin_kind: "peer_pin X kind certificate = Inr pin \<Longrightarrow> pin_kind pin = kind"
  by (auto simp: peer_pin_def)

lemma bearer_credential_header:
  "validate_bearer_credential secret = Inr () \<Longrightarrow>
     authorization_header (Some secret) = Inr (Some (lit ''Bearer '' @ secret))"
proof -
  assume valid: "validate_bearer_credential secret = Inr ()"
  then have "list_all is_base64url (str_bytes secret)"
    by (simp add: validate_bearer_credential_def split: if_splits)
  then have "list_all (\<lambda>byte. byte = 9 \<or> 32 \<le> byte \<and> byte \<noteq> 127) (str_bytes secret)"
    by (rule list.pred_mono_strong) (auto simp: ascii_class_defs)
  with valid show ?thesis
    by (simp add: authorization_header_def header_value_from_str_def lit_def)
qed

lemma validate_http_response_Inr:
  assumes "validate_http_response X pin response = Inr answer"
  shows "\<exists>leaf. ih_peer_certificate response = Some leaf \<and> peer_pin X (pin_kind pin) leaf = Inr pin
    \<and> ih_status response = 200 \<and> is_application_json response
    \<and> ih_body response (MAX_MESSAGE_BYTES + 1) = Inr (tp_payload answer)
    \<and> tp_tls_validated answer \<and> tp_peer_pin answer = pin
    \<and> length (tp_payload answer) \<le> MAX_MESSAGE_BYTES"
proof -
  from assms obtain leaf observed payload where r: "ih_peer_certificate response = Some leaf"
      "peer_pin X (pin_kind pin) leaf = Inr observed" "pin_sha256 observed = pin_sha256 pin"
      "ih_status response = 200" "is_application_json response"
      "ih_body response (MAX_MESSAGE_BYTES + 1) = Inr payload" "length payload \<le> MAX_MESSAGE_BYTES"
      "answer = \<lparr>tp_tls_validated = True, tp_peer_pin = observed, tp_payload = payload\<rparr>"
    by (auto simp: validate_http_response_def split: if_splits)
  from peer_pin_kind [OF r(2)] r(3) have "observed = pin" by simp
  with r show ?thesis by auto
qed

end
