(* ===== verification/Remote_Agent_Behaviour.thy ===== *)
theory Remote_Agent_Behaviour
  imports Remote_Agent Https_Behaviour Service_Machine Pinned_Transport
begin

text \<open>
  The parts of the binary together: the router behind the listener is the handler that the
  listener relies on, a run of the listener is a run of the router, and a configuration that the
  gate accepts is accepted by everything behind it.
\<close>

section \<open>The router is the listener's handler\<close>

lemma fixed_replies_valid:
  "response \<in> set fixed_replies \<Longrightarrow>
     application_response_valid \<lparr>ap_status_code = sr_status_code response, ap_body = sr_body response\<rparr>"
  by (auto simp: fixed_replies_def fixed_error_def internal_error_def application_response_valid_def
      MAX_MESSAGE_BYTES_def lit_def str_bytes_def utf8_bytes_def)

lemma route_response_valid:
  assumes "digests_have_32_bytes (sd_auth D)"
  shows "application_response_valid \<lparr>ap_status_code = sr_status_code (fst (route D bearer body v)),
           ap_body = sr_body (fst (route D bearer body v))\<rparr>"
proof (cases "fst (route D bearer body v) \<in> set fixed_replies")
  case True
  then show ?thesis by (rule fixed_replies_valid)
next
  case False
  then show ?thesis
    using route_handled [OF assms, of bearer v body]
    by (auto simp: handled_def numbered_def protocol_reply_def application_response_valid_def)
qed

interpretation router: json_handler "service_handler D" "\<lambda>_. digests_have_32_bytes (sd_auth D)" for D
  by unfold_locales
    (auto simp: service_handler_def split: prod.splits, metis fst_conv route_response_valid)

section \<open>A run of the listener is a run of the router\<close>

fun call_event :: "handler_call \<Rightarrow> service_event" where
  "call_event (Handle bearer body) = Incoming bearer body"
| "call_event MaintenanceTick = Tick"

definition as_application :: "service_response \<Rightarrow> application_response" where
  "as_application response =
     \<lparr>ap_status_code = sr_status_code response, ap_body = sr_body response\<rparr>"

lemma handler_run_service:
  "handler_run (service_handler D) calls v = (responses, v')
   \<Longrightarrow> \<exists>replies. service_run D (map call_event calls) v = (replies, v')
         \<and> responses = map as_application replies"
proof (induction calls arbitrary: v responses)
  case (Cons call calls)
  then show ?case
    by (cases call)
      (fastforce simp: service_handler_def as_application_def split: prod.splits)+
qed simp

definition service_events :: "listener_event list \<Rightarrow> service_event list" where
  "service_events es = map call_event (concat (map event_calls es))"

lemma listener_run_service:
  assumes "digests_have_32_bytes (sd_auth D)" "listener_run T (service_handler D) s es s'"
  shows "\<exists>replies. service_run D (service_events es) (ln_handler s) = (replies, ln_handler s')
    \<and> concat (map event_answers es) = map (Application \<circ> as_application) replies"
proof -
  from listener_run_serial [OF assms(2)] obtain responses where
      run: "handler_run (service_handler D) (concat (map event_calls es)) (ln_handler s)
        = (responses, ln_handler s')"
      and answers: "concat (map event_answers es) = map guarded responses" by blast
  from handler_run_service [OF run] obtain replies where
      replies: "service_run D (service_events es) (ln_handler s) = (replies, ln_handler s')"
        "responses = map as_application replies"
    by (auto simp: service_events_def)
  have "list_all (\<lambda>a. \<exists>response. a = Application response) (map guarded responses)"
    using router.run_good [OF assms(2)] assms(1) unfolding answers
    by (auto elim: list.pred_mono_strong)
  then have "map guarded responses = map Application responses"
    by (induction responses) (auto simp: guarded_def split: if_splits)
  with replies answers show ?thesis by (simp add: comp_def)
qed

section \<open>Accepted configurations\<close>

lemma server_capabilities_pass:
  assumes "server_validate_capabilities capabilities = Inr ()"
  shows "service_validate_capabilities capabilities = Inr ()"
    and "Agent_Types.validate_capabilities capabilities = Inr ()"
proof -
  have safe: "\<not> list_ex (\<lambda>capability. case cap_availability capability of
        Available \<Rightarrow> False
      | capability_availability.Unavailable reason \<Rightarrow>
          reason = [] \<or> 512 < str_len reason \<or> str_trim reason \<noteq> reason
          \<or> list_ex is_control reason) capabilities"
    using assms by (auto simp: server_validate_capabilities_def split: if_splits)
  have "\<not> list_ex unsafe_reason capabilities"
  proof
    assume "list_ex unsafe_reason capabilities"
    then obtain capability where "capability \<in> set capabilities" "unsafe_reason capability"
      by (auto simp: list_ex_iff)
    moreover from this safe obtain reason where
        "cap_availability capability = capability_availability.Unavailable reason"
        "valid_safe_message reason"
      by (cases "cap_availability capability")
        (auto simp: list_ex_iff unsafe_reason_def valid_safe_message_def MAX_SAFE_MESSAGE_BYTES_def)
    ultimately show False by (simp add: unsafe_reason_def)
  qed
  with assms show "service_validate_capabilities capabilities = Inr ()"
    by (auto simp: server_validate_capabilities_def service_validate_capabilities_def split: if_splits)
  from assms show "Agent_Types.validate_capabilities capabilities = Inr ()"
    by (auto simp: server_validate_capabilities_def Agent_Types.validate_capabilities_def split: if_splits)
qed

lemma configuration_validate_Inr:
  assumes "configuration_validate L cfg = Inr ()"
  shows "nd_node_id (sf_node cfg) \<noteq> nil_uuid" "node_disclosure_validate (sf_node cfg) = Inr ()"
    and "60 \<le> sf_credential_lifetime_seconds cfg" "sf_credential_lifetime_seconds cfg \<le> 86400"
    and "server_validate_capabilities (provider_capabilities (sf_provider cfg)) = Inr ()"
    and "list_all valid_absolute_path (configured_paths cfg)" "\<not> repeated_path (configured_paths cfg)"
    and "canonical_parent L (sf_auth_state_path cfg)" "canonical_parent L (sf_agent_state_path cfg)"
  using assms
  by (auto simp: configuration_validate_def list_all_iff list_ex_iff isl_def split: if_splits)
    (cases "node_disclosure_validate (sf_node cfg)"; auto)+

lemma configuration_lifetime:
  assumes "configuration_validate L cfg = Inr ()"
  shows "\<exists>ms. configuration_credential_lifetime_ms cfg = Inr ms \<and> 60000 \<le> ms
    \<and> ms \<le> MAX_CONTROL_CREDENTIAL_LIFETIME_MS"
proof -
  let ?n = "unat (sf_credential_lifetime_seconds cfg)"
  have n: "60 \<le> ?n" "?n \<le> 86400"
    using configuration_validate_Inr(3,4) [OF assms] by (simp_all add: word_le_nat_alt)
  define product where "product = ?n * 1000"
  with n have product: "60000 \<le> product" "product \<le> 86400000" by simp_all
  then have "unat (of_nat product :: u64) = product" by (simp add: unat_of_nat)
  with product show ?thesis
    by (intro exI [of _ "of_nat product"])
      (simp add: configuration_credential_lifetime_ms_def word_le_nat_alt Let_def
        MAX_CONTROL_CREDENTIAL_LIFETIME_MS_def flip: product_def)
qed

lemma configuration_service:
  assumes "configuration_validate L cfg = Inr ()" "60000 \<le> ms" "ms \<le> MAX_CONTROL_CREDENTIAL_LIFETIME_MS"
  shows "\<exists>v. agent_service_new auth agent (sf_node cfg) (provider_capabilities (sf_provider cfg)) clock ms
      = Inr v \<and> sv_auth v = auth \<and> sv_agent v = agent"
  using assms(2,3) configuration_validate_Inr [OF assms(1)] server_capabilities_pass(1)
  by (simp add: agent_service_new_def)

text \<open>The authentication store takes the path; only a symbolic link can still be in the way.\<close>

lemma configuration_auth_path:
  assumes "configuration_validate L cfg = Inr ()"
  shows "validate_state_path (auth_path_of L (sf_auth_state_path cfg)) st = reject_symlink_if_present st"
proof -
  have "valid_absolute_path (sf_auth_state_path cfg)"
    using configuration_validate_Inr(6) [OF assms] by (simp add: configured_paths_def)
  moreover have "canonical_parent L (sf_auth_state_path cfg)"
    by (rule configuration_validate_Inr(8) [OF assms])
  moreover from this have "path_parent (sf_auth_state_path cfg) \<noteq> None"
    by (cases "path_parent (sf_auth_state_path cfg)") (simp_all add: canonical_parent_def)
  ultimately show ?thesis
    by (simp add: validate_state_path_def auth_path_of_def valid_absolute_path_def)
qed

lemma configuration_agent_path:
  "configuration_validate L cfg = Inr () \<Longrightarrow> sp_is_absolute (state_path_of (sf_agent_state_path cfg))"
  using configuration_validate_Inr(6) [of L cfg]
  by (simp add: configured_paths_def state_path_of_def valid_absolute_path_def)

lemma configuration_provider:
  assumes "configuration_validate L cfg = Inr ()"
    "from_configuration X (sf_provider cfg) w = Inr provider"
  shows "runtime_capabilities provider = provider_capabilities (sf_provider cfg)"
    "Agent_Types.validate_capabilities (runtime_capabilities provider) = Inr ()"
proof -
  show "runtime_capabilities provider = provider_capabilities (sf_provider cfg)"
    using assms(2)
    by (cases "sf_provider cfg")
      (auto simp: from_configuration_def stdio_provider_new_def Let_def split: if_splits)
  with server_capabilities_pass(2) [OF configuration_validate_Inr(5) [OF assms(1)]]
  show "Agent_Types.validate_capabilities (runtime_capabilities provider) = Inr ()" by simp
qed

lemma load_configuration_valid:
  "load_configuration L J path = Inr cfg \<Longrightarrow> configuration_validate L cfg = Inr ()"
  by (auto simp: load_configuration_def split: if_splits)

text \<open>What \<open>serve\<close> still depends on once the configuration is accepted.\<close>

lemma serve_starts:
  assumes "load_configuration (oe_files E) (oe_json E) path = Inr cfg"
    and "load_tls_configuration (oe_files E) (oe_tls E) cfg = Inr tls"
    and "fst (open_auth E cfg) = Inr auth"
    and "fst (durable_open (oe_codec E) (state_path_of (sf_agent_state_path cfg)) (oe_agent_disk E)
           (oe_clock E)) = Inr store"
    and "from_configuration (oe_provider E) (sf_provider cfg) (oe_world E) = Inr provider"
    and "recover_incomplete_creates (runtime_deps E) \<lparr>ac_node = sf_node cfg,
           ac_provider = (provider, oe_world E), ac_store = store, ac_host = oe_clock E\<rparr> = (Inr u, core)"
  shows "\<exists>v. serve E path = Inr (cfg, tls, v) \<and> sv_auth v = auth \<and> sv_agent v = core"
proof -
  note valid = load_configuration_valid [OF assms(1)]
  have core: "agent_core_new (runtime_deps E) (sf_node cfg) (provider, oe_world E) store (oe_clock E)
      = Inr core"
    using assms(6) configuration_validate_Inr(2) [OF valid] configuration_provider(2) [OF valid assms(5)]
    by (simp add: agent_core_new_def runtime_deps_def runtime_ops_def)
  obtain ms where ms: "configuration_credential_lifetime_ms cfg = Inr ms"
      "60000 \<le> ms" "ms \<le> MAX_CONTROL_CREDENTIAL_LIFETIME_MS"
    using configuration_lifetime [OF valid] by blast
  from configuration_service [OF valid ms(2,3), of auth core "oe_clock E"] obtain v where v:
      "agent_service_new auth core (sf_node cfg) (provider_capabilities (sf_provider cfg)) (oe_clock E) ms
         = Inr v" "sv_auth v = auth" "sv_agent v = core"
    by auto
  have "serve E path = Inr (cfg, tls, v)"
    by (simp add: serve_def Let_def assms(1-5) core ms(1) v(1) valid del: rbind_Inr_iff)
  with v show ?thesis by blast
qed

end
