(* ===== verification/Https_Properties.thy ===== *)
theory Https_Properties
  imports Remote_Agent_Behaviour
begin

text \<open>
  The properties of the listener: what it reads, what it accepts, how many connections it keeps
  open, and what each of them is answered; each with a witness on a small request.
\<close>

section \<open>A small request\<close>

definition sample_headers :: "(str \<times> nat list) list" where
  "sample_headers =
     map (\<lambda>(name, v). (lit name, lit v))
       [(''Host'', ''agent''), (''Content-Length'', ''2''), (''Content-Type'', ''application/json''),
        (''X-VeriSilo-Protocol'', ''1'')]"

definition sample_tokens :: "nat \<Rightarrow> tokenized_head" where
  "sample_tokens available =
     \<lparr>ht_consumed = Some available, ht_method = Some (lit ''POST''), ht_path = Some (lit ''/''),
      ht_version = Some 1, ht_headers = sample_headers\<rparr>"

definition sample_tokenizer :: tokenizer where
  "sample_tokenizer limit bytes = Inr (sample_tokens (length bytes))"

definition sample_chunks :: "nat list list" where
  "sample_chunks = [[80, 13, 10], [13, 10, 123], [125]]"

definition sample_http_request :: parsed_http_request where
  "sample_http_request = \<lparr>hq_bearer = None, hq_body = [123, 125]\<rparr>"

lemma ascii_from_utf8: "list_all (\<lambda>c. c < 128) s \<Longrightarrow> from_utf8 s = Some s"
  by (induction s) (simp_all add: utf8_width_def utf8_value_def is_scalar_value_def)

lemma sample_fields:
  "take_headers [] sample_headers no_header_fields
     = Inr \<lparr>hf_host = Some (lit ''agent''), hf_content_length = Some 2,
            hf_content_type = Some (lit ''application/json''), hf_protocol = Some (lit ''1''),
            hf_bearer = None\<rparr>"
  by (simp add: sample_headers_def Let_def lit_def ascii_from_utf8 to_ascii_lowercase_def
      ascii_lower_def ascii_class_defs str_trim_def is_whitespace_def is_control_def take_header_def
      parse_content_length_def parse_usize_def decimal_value_def MAX_MESSAGE_BYTES_def
      no_header_fields_def del: from_utf8.simps(2))

lemma sample_head:
  "parse_http_head sample_tokenizer bytes = Inr \<lparr>hh_content_length = 2, hh_bearer = None\<rparr>"
  by (simp add: parse_http_head_def sample_tokenizer_def sample_tokens_def head_line_ok_def
      sample_fields lit_def str_len_def eq_ignore_ascii_case_def)

lemma sample_chunks_parsed:
  "parse_http_request_bytes sample_tokenizer (concat sample_chunks) = Inr sample_http_request"
  by (simp add: parse_http_request_bytes_def sample_chunks_def sample_head find_header_end_Cons
      crlf_crlf_def checked_usize_add_def sample_http_request_def MAX_HEADER_BYTES_def)

section \<open>Reading\<close>

text \<open>
  C30. Reading agrees with parsing: from a peer that sends some nonempty pieces, whatever it does
  after them, the listener reads a request and exactly those bytes if and only if the parser of
  one complete request accepts the pieces put together; how the bytes are cut does not matter.
\<close>

theorem reading_agrees_with_parsing:
  assumes "[] \<notin> set chunks"
  shows "read_http_request T (sending chunks tail) = (Inr request, tail)
    \<longleftrightarrow> parse_http_request_bytes T (concat chunks) = Inr request"
proof
  assume "read_http_request T (sending chunks tail) = (Inr request, tail)"
  from read_http_request_spec [OF this] obtain taken
    where "arriving (sending chunks tail) = taken @ arriving tail"
      and "parse_http_request_bytes T taken = Inr request" by blast
  moreover have "arriving (sending chunks tail) = concat chunks @ arriving tail"
    by (induction chunks) (simp_all add: sending_def)
  ultimately show "parse_http_request_bytes T (concat chunks) = Inr request" by simp
next
  assume "parse_http_request_bytes T (concat chunks) = Inr request"
  then show "read_http_request T (sending chunks tail) = (Inr request, tail)"
    using assms by (rule read_http_request_complete)
qed

theorem reading_agrees_with_parsing_witness:
  "read_http_request sample_tokenizer (sending sample_chunks [TimedOut])
     = (Inr sample_http_request, [TimedOut])"
  using reading_agrees_with_parsing [of sample_chunks sample_tokenizer "[TimedOut]" sample_http_request]
    sample_chunks_parsed
  by (simp add: sample_chunks_def)

text \<open>
  C31. Reading a request ends: after at most 81,920 reads the reader has returned, whatever the peer
  would still do; its result and what it leaves on the stream no longer depend on that.
\<close>

theorem reading_ends:
  assumes "81920 \<le> length events"
  shows "read_http_request T (events @ extra)
    = (fst (read_http_request T events), snd (read_http_request T events) @ extra)"
  using read_http_request_followed [of events T extra] assms
  by (simp add: followed_by_def MAX_REQUEST_BYTES_def MAX_HEADER_BYTES_def MAX_MESSAGE_BYTES_def split_def)

theorem reading_ends_witness:
  "read_http_request sample_tokenizer (replicate 81920 (Arrived [65]) @ [TimedOut])
     = (fst (read_http_request sample_tokenizer (replicate 81920 (Arrived [65]))),
        snd (read_http_request sample_tokenizer (replicate 81920 (Arrived [65]))) @ [TimedOut])"
  by (rule reading_ends) simp

text \<open>
  C32. Reading is bounded: whatever the peer sends and however the read ends, it takes at most
  81,920 bytes off the front of the stream, in order.
\<close>

theorem reading_is_bounded:
  assumes "read_http_request T events = (r, rest)"
  shows "\<exists>taken. arriving events = taken @ arriving rest \<and> length taken \<le> 81920"
  using read_http_request_spec [OF assms]
  by (auto simp: takes_at_most_def MAX_REQUEST_BYTES_def MAX_HEADER_BYTES_def MAX_MESSAGE_BYTES_def)

theorem reading_is_bounded_witness:
  "\<exists>r rest taken. read_http_request sample_tokenizer [Arrived [1, 2], DeadlinePassed] = (r, rest)
    \<and> [1, 2] = taken @ arriving rest \<and> length taken \<le> 81920"
proof -
  obtain r rest where run: "read_http_request sample_tokenizer [Arrived [1, 2], DeadlinePassed] = (r, rest)"
    by force
  from reading_is_bounded [OF run] run show ?thesis by auto
qed



section \<open>The listener\<close>

text \<open>
  C16. Admission bounds the listener: in every interleaving, from the start, the permits given out
  are exactly the workers that have not ended, never more than 32; a worker that has a request to
  hand over finds room in the queue, so it never blocks; and reaping forgets the ended workers
  and no other.
\<close>

theorem admission_is_bounded:
  assumes "listener_run T H (listener_start h now) es s"
  shows "cd_active (ln_admission s) = card (live s) \<and> card (live s) \<le> 32 \<and> finite (live s)
    \<and> (\<forall>i request. ln_connection s i = Some (Sending request) \<longrightarrow> length (ln_ready s) < 32)
    \<and> set (ln_workers (reap s)) = {i \<in> set (ln_workers s). \<not> worker_finished (ln_connection s i)}"
proof -
  have ok: "listener_ok s" using listener_ok_run [OF assms] by simp
  then have permits: "permits_ok s" by (simp add: listener_ok_def)
  have "length (ln_ready s) < 32" if "ln_connection s i = Some (Sending request)" for i request
    using sending_has_room [OF ok that] by (simp add: MAX_IN_FLIGHT_CONNECTIONS_def)
  with permits live_finite [OF permits] show ?thesis
    by (auto simp: permits_ok_def MAX_IN_FLIGHT_CONNECTIONS_def reap_def reap_set)
qed

text \<open>
  A handler that echoes bodies and counts.
\<close>

definition echo_handler :: "nat request_handler" where
  "echo_handler = \<lparr>rh_handle_json = (\<lambda>bearer body n. (\<lparr>ap_status_code = 200, ap_body = body\<rparr>, n + 1)),
     rh_maintenance_tick = (\<lambda>n. n + 1)\<rparr>"

definition echo_answer :: connection_response where
  "echo_answer = Application \<lparr>ap_status_code = 200, ap_body = [123, 125]\<rparr>"

definition loop_state ::
    "loop_phase \<Rightarrow> 'h \<Rightarrow> nat \<Rightarrow> ready_request list \<Rightarrow> (nat \<Rightarrow> worker option) \<Rightarrow> nat \<Rightarrow> nat list
     \<Rightarrow> 'h listener" where
  "loop_state at h active ready connection accepted workers =
     \<lparr>ln_phase = at, ln_handler = h, ln_next_maintenance = 1,
      ln_admission = \<lparr>cd_active = active, cd_limit = MAX_IN_FLIGHT_CONNECTIONS\<rparr>, ln_ready = ready,
      ln_connection = connection, ln_accepted = accepted, ln_workers = workers\<rparr>"

lemmas loop_state_defs =
  loop_state_def reap_def reap_finished_workers_def reap_from.simps accept_connection_def
  try_acquire_def finish_worker_def drop_permit_def MAX_IN_FLIGHT_CONNECTIONS_def

definition one_request_events ::
    "read_event list \<Rightarrow> parsed_http_request \<Rightarrow> connection_response \<Rightarrow> listener_event list" where
  "one_request_events stream request response =
     [Silent, Silent, Accepted 0 stream, Silent, Silent, Silent, Dispatched 0 request response, Silent]"

text \<open>One connection on an idle listener: accepted, read, handed over, answered.\<close>

lemma one_request_accepted:
  "listener_run T H (listener_start h 1) [Silent, Silent, Accepted 0 stream]
     (loop_state Top h 1 [] [0 \<mapsto> Reading stream] 1 [0])"
proof -
  note run = listener_run.snoc [where T = T and H = H]
  let ?none = "\<lambda>_. None :: worker option"
  have start: "listener_start h 1 = loop_state Top h 0 [] ?none 0 []"
    by (simp add: listener_start_def loop_state_def)
  have "listener_step T H (loop_state Top h 0 [] ?none 0 []) Silent (loop_state Receiving h 0 [] ?none 0 [])"
    using listener_step.no_tick [of "loop_state Top h 0 [] ?none 0 []" 0] by (simp add: loop_state_defs)
  from run [OF listener_run.nil this] have "listener_run T H (listener_start h 1) [Silent]
      (loop_state Receiving h 0 [] ?none 0 [])" unfolding start by simp
  moreover have "listener_step T H (loop_state Receiving h 0 [] ?none 0 []) Silent
      (loop_state Accepting h 0 [] ?none 0 [])"
    using listener_step.nothing_ready [of "loop_state Receiving h 0 [] ?none 0 []"]
    by (simp add: loop_state_defs)
  ultimately have "listener_run T H (listener_start h 1) [Silent, Silent]
      (loop_state Accepting h 0 [] ?none 0 [])" by (auto dest: run)
  moreover have "listener_step T H (loop_state Accepting h 0 [] ?none 0 []) (Accepted 0 stream)
      (loop_state Top h 1 [] [0 \<mapsto> Reading stream] 1 [0])"
    using listener_step.accept [of "loop_state Accepting h 0 [] ?none 0 []"] by (simp add: loop_state_defs)
  ultimately show ?thesis by (auto dest: run)
qed

lemma one_request_run:
  assumes read: "read_http_request T stream = (Inr request, rest)"
    and answer: "dispatch_ready_request H request h = (response, h')"
  shows "listener_run T H (listener_start h 1) (one_request_events stream request response)
     (loop_state Accepting h' 0 [] [0 \<mapsto> Finished (write_connection_response response)] 1 [0])"
proof -
  note run = listener_run.snoc [where T = T and H = H]
  let ?ready = "\<lparr>rd_request = request, rd_response_sender = 0\<rparr>"
  note one_request_accepted [of T H h stream]
  moreover have "listener_step T H (loop_state Top h 1 [] [0 \<mapsto> Reading stream] 1 [0]) Silent
      (loop_state Top h 1 [] [0 \<mapsto> Sending request] 1 [0])"
    using listener_step.read [OF _ read, of "loop_state Top h 1 [] [0 \<mapsto> Reading stream] 1 [0]" 0]
    by (simp add: loop_state_defs)
  ultimately have "listener_run T H (listener_start h 1) [Silent, Silent, Accepted 0 stream, Silent]
      (loop_state Top h 1 [] [0 \<mapsto> Sending request] 1 [0])" by (auto dest: run)
  moreover have "listener_step T H (loop_state Top h 1 [] [0 \<mapsto> Sending request] 1 [0]) Silent
      (loop_state Top h 1 [?ready] [0 \<mapsto> Awaiting None] 1 [0])"
    using listener_step.send [of "loop_state Top h 1 [] [0 \<mapsto> Sending request] 1 [0]" 0]
    by (simp add: loop_state_defs)
  ultimately have "listener_run T H (listener_start h 1) [Silent, Silent, Accepted 0 stream, Silent, Silent]
      (loop_state Top h 1 [?ready] [0 \<mapsto> Awaiting None] 1 [0])" by (auto dest: run)
  moreover have "listener_step T H (loop_state Top h 1 [?ready] [0 \<mapsto> Awaiting None] 1 [0]) Silent
      (loop_state Receiving h 1 [?ready] [0 \<mapsto> Awaiting None] 1 [0])"
    using listener_step.no_tick [of "loop_state Top h 1 [?ready] [0 \<mapsto> Awaiting None] 1 [0]" 0]
    by (simp add: loop_state_defs)
  ultimately have "listener_run T H (listener_start h 1)
      [Silent, Silent, Accepted 0 stream, Silent, Silent, Silent]
      (loop_state Receiving h 1 [?ready] [0 \<mapsto> Awaiting None] 1 [0])" by (auto dest: run)
  moreover have "listener_step T H (loop_state Receiving h 1 [?ready] [0 \<mapsto> Awaiting None] 1 [0])
      (Dispatched 0 request response)
      (loop_state Accepting h' 1 [] [0 \<mapsto> Awaiting (Some response)] 1 [0])"
    using listener_step.dispatch [of "loop_state Receiving h 1 [?ready] [0 \<mapsto> Awaiting None] 1 [0]"
        ?ready "[]" H response h' T] answer
    by (simp add: loop_state_defs)
  ultimately have "listener_run T H (listener_start h 1)
      [Silent, Silent, Accepted 0 stream, Silent, Silent, Silent, Dispatched 0 request response]
      (loop_state Accepting h' 1 [] [0 \<mapsto> Awaiting (Some response)] 1 [0])" by (auto dest: run)
  moreover have "listener_step T H (loop_state Accepting h' 1 [] [0 \<mapsto> Awaiting (Some response)] 1 [0]) Silent
      (loop_state Accepting h' 0 [] [0 \<mapsto> Finished (write_connection_response response)] 1 [0])"
    using listener_step.answer [of "loop_state Accepting h' 1 [] [0 \<mapsto> Awaiting (Some response)] 1 [0]" 0]
    by (simp add: loop_state_defs del: write_connection_response.simps)
  ultimately show ?thesis by (auto dest: run simp: one_request_events_def)
qed

lemma echo_run:
  "listener_run sample_tokenizer echo_handler (listener_start 0 1)
     (one_request_events (sending sample_chunks []) sample_http_request echo_answer)
     (loop_state Accepting 1 0 [] [0 \<mapsto> Finished (write_connection_response echo_answer)] 1 [0])"
proof (rule one_request_run)
  show "read_http_request sample_tokenizer (sending sample_chunks []) = (Inr sample_http_request, [])"
    by (rule read_http_request_complete [OF sample_chunks_parsed]) (simp add: sample_chunks_def)
  show "dispatch_ready_request echo_handler sample_http_request 0 = (echo_answer, 1)"
    by (simp add: dispatch_ready_request_def echo_handler_def echo_answer_def sample_http_request_def
        application_response_valid_def MAX_MESSAGE_BYTES_def)
qed

theorem admission_is_bounded_witness:
  "\<exists>s. listener_run sample_tokenizer echo_handler (listener_start 0 1)
       (one_request_events (sending sample_chunks []) sample_http_request echo_answer) s
     \<and> cd_active (ln_admission s) = card (live s) \<and> card (live s) \<le> 32"
  using admission_is_bounded [OF echo_run] echo_run by blast



end
