(* ===== verification/Service_Composition.thy ===== *)
theory Service_Composition
  imports Service_Machine Controller
begin

text \<open>
  The controller and the router together: what the router reports as the result of an operation
  passes the controller's checks, and an operation that the controller reports as answered was
  executed by the Agent behind the router.
\<close>

section \<open>Results of the router pass the controller's checks\<close>

lemma valid_safe_message_text: "valid_safe_message m \<Longrightarrow> validate_text label m = Inr ()"
  by (auto simp: valid_safe_message_def validate_text_def MAX_SAFE_MESSAGE_BYTES_def
      MAX_TEXT_BYTES_def)

lemma number_logs_entries:
  "l \<in> set (number_logs k now entries) \<Longrightarrow> unat k + length entries < 2 ^ 64 \<Longrightarrow> k \<noteq> 0
   \<Longrightarrow> le_sequence l \<noteq> 0 \<and> le_observed_at_unix_ms l = now \<and> le_message l \<in> set entries"
proof (induction entries arbitrary: k)
  case (Cons m rest)
  have "unat (k + 1) = unat k + 1"
    using Cons.prems(2) by (simp add: unat_word_ariths(1))
  moreover from this have "k + 1 \<noteq> 0" by auto
  ultimately show ?case using Cons.IH [of "k + 1"] Cons.prems by auto
qed simp

lemma length_number_logs [simp]: "length (number_logs k now entries) = length entries"
  by (induction entries arbitrary: k) simp_all

lemma fresh_activity_later:
  "fresh_activity activity now \<Longrightarrow> now \<le> now' \<Longrightarrow>
   activity \<noteq> 0 \<and> \<not> saturating_add now' MAX_CLOCK_SKEW_MS < activity"
  by (auto simp: fresh_activity_def word_less_nat_alt word_le_nat_alt unat_saturating_add)

lemma ephemeral_key_bound:
  "resource_is_bound environment vol key EphemeralKey status r \<Longrightarrow> r = Some key"
  by (cases status; cases r) simp_all

lemma deletion_bound_key:
  assumes "deletion_resources_are_bound (dp_resource_deletions p) environment vol key"
  shows "proof_key_id p = Some key"
proof -
  from assms obtain resource
    where "find (\<lambda>resource. rd_kind resource = EphemeralKey) (dp_resource_deletions p) = Some resource"
      and "resource_is_bound environment vol key (rd_kind resource) (rd_status resource)
        (rd_resource_id resource)"
    by (auto simp: deletion_resources_are_bound_def REQUIRED_DELETION_RESOURCE_KINDS_def
        split: option.splits if_splits)
  moreover from this(1) have "rd_kind resource = EphemeralKey"
    by (auto simp: find_Some_iff)
  ultimately show ?thesis by (auto simp: proof_key_id_def dest: ephemeral_key_bound)
qed

text \<open>The controller's own checks, at a time \<open>now'\<close> that is not before the router's.\<close>

definition result_evidence_valid :: "operation_result \<Rightarrow> u64 \<Rightarrow> bool" where
  "result_evidence_valid result now \<longleftrightarrow>
     (case os_evidence result of None \<Rightarrow> True
      | Some evidence \<Rightarrow> guest_evidence_validate evidence (os_binding_id result)
          (os_remote_environment_id result) now = Inr ())"

definition proof_identified :: "operation_result \<Rightarrow> bool" where
  "proof_identified result \<longleftrightarrow>
     (case os_deletion_proof result of None \<Rightarrow> True | Some p \<Rightarrow> dp_proof_id p \<noteq> nil_uuid)"

lemma logs_pass:
  assumes "list_all valid_safe_message entries" "length entries \<le> unat MAX_LOG_ENTRIES"
    and "abs_diff now now' \<le> MAX_EVIDENCE_AGE_MS"
  shows "try_each (validate_log now') (number_logs 1 now entries) = Inr ()"
  unfolding try_each_Inr_iff
proof
  fix l assume l: "l \<in> set (number_logs 1 now entries)"
  have "unat (1 :: u64) + length entries < 2 ^ 64"
    using assms(2) by (simp add: MAX_LOG_ENTRIES_def)
  from number_logs_entries [OF l this] assms(1)
  have "le_sequence l \<noteq> 0" "le_observed_at_unix_ms l = now" "valid_safe_message (le_message l)"
    by (auto simp: list_all_iff)
  then show "validate_log now' l = Inr ()"
    using assms(3) by (simp add: validate_log_def validate_fresh_timestamp_def valid_safe_message_text)
qed

lemma lifecycle_result_cases:
  assumes "lifecycle_result operation silo expected server stored response now = Inr result"
  obtains (environment) r evidence where "response = Environment r evidence"
      "operation \<noteq> remote_operation.Destroy" "operation \<noteq> remote_operation.Logs"
      "environment_result operation silo expected server stored r evidence now = Inr result"
    | (deleted) dproof where "response = DeletedEnvironment dproof"
      "operation = remote_operation.Destroy"
      "destroy_result silo expected server stored dproof now = Inr result"
    | (logs) entries activity where "response = agent_response.Logs entries activity"
      "operation = remote_operation.Logs"
      "logs_result silo expected server stored entries activity now = Inr result"
  using assms by (auto simp: lifecycle_result_def split: if_splits agent_response.splits)

lemma result_state_accepted: "result_state_ok operation (result_state operation)"
  by (cases operation) simp_all

lemma lifecycle_result_passes:
  assumes result: "lifecycle_result operation silo expected server stored response now = Inr result"
    and pairing: "co_pairing c = Some pairing" "pg_server_id pairing = server"
    and time: "now \<le> now'" "abs_diff now now' \<le> MAX_EVIDENCE_AGE_MS"
    and valid: "result_evidence_valid result now'" "proof_identified result"
  shows "validate_result result operation silo now' c = Inr ()"
proof -
  have server: "server \<noteq> nil_uuid"
    using result by (auto simp: lifecycle_result_def split: if_splits)
  show ?thesis
    using result
  proof (cases rule: lifecycle_result_cases)
    case (environment e evidence)
    then have fresh: "fresh_activity (er_last_activity_at_unix_ms e) now"
      and evidence: "result_evidence_required operation \<longrightarrow> evidence \<noteq> None"
      and vol: "operation = remote_operation.Create \<Longrightarrow> va_encrypted (er_volume e)
          \<and> va_key_custody (er_volume e) = UserControlled \<and> va_volume_id (er_volume e) \<noteq> nil_uuid
          \<and> va_key_id (er_volume e) \<noteq> nil_uuid"
      and r: "result = \<lparr>os_operation = operation, os_silo_id = silo,
             os_binding_id = er_binding_id e,
             os_remote_environment_id = er_remote_environment_id e, os_server_id = server,
             os_last_activity_at_unix_ms = er_last_activity_at_unix_ms e,
             os_state = result_state operation,
             os_volume = (if operation = remote_operation.Create then Some (er_volume e) else None),
             os_evidence = evidence, os_logs = None, os_next_cursor = None,
             os_deletion_proof = None\<rparr>"
      by (auto simp: environment_result_def result_evidence_required_def split: if_splits)
    have "(case evidence of None \<Rightarrow> Inr () | Some g \<Rightarrow> guest_evidence_validate g (er_binding_id e)
        (er_remote_environment_id e) now') = Inr ()"
      using valid(1) by (simp add: result_evidence_valid_def r split: option.splits)
    moreover have "validate_result_volume result operation = Inr ()"
      "validate_result_proof result operation = Inr ()"
      using vol environment(2) by (auto simp: r validate_result_volume_def validate_result_proof_def)
    ultimately show ?thesis
      using fresh_activity_later [OF fresh time(1)] evidence server
      by (cases evidence; cases "operation = remote_operation.Create")
        (simp_all add: validate_result_def pairing r result_state_accepted)
  next
    case (deleted p)
    then obtain e where e: "stored = Some e"
      and match: "deletion_matches_record e silo expected p now"
      and r: "result = \<lparr>os_operation = remote_operation.Destroy, os_silo_id = silo,
            os_binding_id = dp_binding_id p, os_remote_environment_id = dp_remote_environment_id p,
            os_server_id = server, os_last_activity_at_unix_ms = er_last_activity_at_unix_ms e,
            os_state = Destroyed, os_volume = None, os_evidence = None, os_logs = None,
            os_next_cursor = None, os_deletion_proof = Some p\<rparr>"
      by (auto simp: destroy_result_def rbind_def ok_or_def split: option.splits if_splits)
    have bound: "deletion_resources_are_bound (dp_resource_deletions p) (dp_remote_environment_id p)
        (dp_volume_id p) (va_key_id (er_volume e))"
      using match by (auto simp: deletion_matches_record_def record_is_expected_def)
    then have "dp_volume_id p \<noteq> nil_uuid"
      by (auto simp: deletion_resources_are_bound_def split: if_splits)
    moreover have "fresh_activity (dp_deleted_at_unix_ms p) now"
      using match by (simp add: deletion_matches_record_def)
    note fresh_activity_later [OF this time(1)]
    ultimately show ?thesis
      using match valid(2) server deletion_bound_key [OF bound] bound
      by (simp add: r deleted(2) validate_result_def pairing result_evidence_required_def
          validate_result_volume_def validate_result_proof_def validate_deletion_proof_def
          deletion_matches_record_def proof_identified_def)
  next
    case (logs entries activity)
    then have entries: "list_all valid_safe_message entries" "length entries \<le> unat MAX_LOG_ENTRIES"
      and fresh: "fresh_activity activity now"
      and r: "result = \<lparr>os_operation = remote_operation.Logs, os_silo_id = silo,
            os_binding_id = fst expected, os_remote_environment_id = snd expected,
            os_server_id = server, os_last_activity_at_unix_ms = activity,
            os_state = LogsReturned, os_volume = None, os_evidence = None,
            os_logs = Some (number_logs 1 now entries), os_next_cursor = None,
            os_deletion_proof = None\<rparr>"
      by (auto simp: logs_result_def rbind_def ok_or_def list_ex_iff list_all_iff
          split: option.splits if_splits)
    from fresh_activity_later [OF fresh time(1)] entries(2) logs_pass [OF entries time(2)] server
    show ?thesis
      by (simp add: r logs(2) validate_result_def pairing result_evidence_required_def
          validate_result_volume_def validate_result_proof_def)
  qed
qed

section \<open>Operations through the whole stack\<close>

text \<open>
  The transport delivers what the router answers, and the two sides read each other's JSON:
  a serialized envelope is read back as itself, and the router's fixed errors are no envelopes.
\<close>

definition delivers ::
    "'a service_deps \<Rightarrow> ('a agent_service, 's) controller_deps \<Rightarrow> bool" where
  "delivers S D \<longleftrightarrow>
     (\<forall>q v response v'. cd_exchange D q v = (Inr response, v') \<longrightarrow>
        (\<exists>resp. route S (tr_credential q) (tr_payload q) v = (resp, v')
           \<and> tp_payload response = sr_body resp))"

definition codecs_agree ::
    "'a service_deps \<Rightarrow> ('t, 's) controller_deps \<Rightarrow> bool" where
  "codecs_agree S D \<longleftrightarrow>
     (\<forall>e raw. cd_encode_operation D e = Inr raw \<longrightarrow> sd_decode_authenticated S raw = Inr (Operation e))
     \<and> (\<forall>e raw. sd_encode_operation S e = Inr raw \<longrightarrow> cd_decode_operation D raw = Inr e)
     \<and> list_all (\<lambda>resp. isl (cd_decode_operation D (sr_body resp))) fixed_replies"

text \<open>A success that the controller reads is the success that the router executed.\<close>

definition reads_success ::
    "('t, 's) controller_deps \<Rightarrow> service_response \<Rightarrow> operation_result \<Rightarrow> bool" where
  "reads_success D resp result \<longleftrightarrow>
     (\<exists>e. cd_decode_operation D (sr_body resp) = Inr e \<and> re_body e = operation_response_body.Success result)"

lemma fixed_not_success:
  "codecs_agree S D \<Longrightarrow> resp \<in> set fixed_replies \<Longrightarrow> \<not> reads_success D resp result"
  by (auto simp: codecs_agree_def reads_success_def list_all_iff)

lemma operation_body_success:
  assumes "codecs_agree S D" and "reads_success D (fst (operation_body S i t n body v)) result"
  shows "body = operation_response_body.Success result"
proof -
  have fixed: "internal_error \<in> set fixed_replies" by (simp add: fixed_replies_def)
  show ?thesis
    using assms fixed_not_success [OF assms(1) fixed, of result]
    by (auto simp: operation_body_def Let_def split_def protocol_or_internal_def
        serialize_bounded_Inr codecs_agree_def reads_success_def protocol_response_def
        split: sum.splits)
qed

lemma operation_rejection_not_success:
  assumes "codecs_agree S D"
  shows "\<not> reads_success D (fst (operation_rejection S i why t n v)) result"
proof
  assume success: "reads_success D (fst (operation_rejection S i why t n v)) result"
  have fixed: "internal_error \<in> set fixed_replies" by (simp add: fixed_replies_def)
  have "\<not> reads_success D (fst (operation_body S i t k
      (operation_response_body.Rejected code message) w)) result" for k code message w
    using operation_body_success [OF assms] by blast
  with success fixed_not_success [OF assms fixed] show False
    by (auto simp: operation_rejection_def rejecting_def split: option.splits prod.splits sum.splits)
qed

text \<open>The command of a mapped operation is for its Silo and of its kind.\<close>

lemma map_lifecycle_command_silo:
  "map_lifecycle_command S silo body w = (Inr m, w1) \<Longrightarrow> command_silo_id (ml_command m) = silo"
  by (cases body) (auto simp: mapped_create_def Let_def split_def rbind_def
      dest: mapped_when_bound_command split: if_splits sum.splits)

fun performed_operation :: "agent_command \<Rightarrow> remote_operation option" where
  "performed_operation (agent_command.Create _ _ _ _ _ _) = Some remote_operation.Create"
| "performed_operation (agent_command.Start _) = Some remote_operation.Start"
| "performed_operation (agent_command.Stop _) = Some remote_operation.Stop"
| "performed_operation (agent_command.Pause _) = Some remote_operation.Pause"
| "performed_operation (agent_command.Snapshot _) = Some remote_operation.Snapshot"
| "performed_operation (agent_command.Destroy _ _) = Some remote_operation.Destroy"
| "performed_operation (agent_command.ConfigureNetwork _ _) = Some remote_operation.ConfigureNetwork"
| "performed_operation (agent_command.Health _) = Some remote_operation.Health"
| "performed_operation (agent_command.Logs _ _) = Some remote_operation.Logs"
| "performed_operation _ = None"

lemma map_lifecycle_command_operation:
  "map_lifecycle_command S silo body w = (Inr m, w1)
   \<Longrightarrow> performed_operation (ml_command m) = Some (operation_body_operation body)"
  by (cases body) (auto simp: mapped_create_def Let_def split_def rbind_def
      dest: mapped_when_bound_command split: if_splits sum.splits)

text \<open>What a success of the router rests on.\<close>

definition executed_as ::
    "'a service_deps \<Rightarrow> str option \<Rightarrow> 'a agent_service \<Rightarrow> uuid \<Rightarrow> remote_operation
     \<Rightarrow> operation_result \<Rightarrow> 'a agent_service \<Rightarrow> bool" where
  "executed_as S bearer v silo operation result v' \<longleftrightarrow>
     (\<exists>q response expected now. agent_reached S bearer v q (Inr response) v'
        \<and> p_kind (rq_principal q) = ControlPlane
        \<and> command_silo_id (rq_command q) = silo
        \<and> performed_operation (rq_command q) = Some operation
        \<and> lifecycle_result operation silo expected (server_id v)
            (sg_environment (sd_agent S) (sv_agent v') silo) response now = Inr result)"

lemma execute_lifecycle_success:
  assumes "execute_lifecycle S q k operation m now w = (operation_response_body.Success result, w1)"
  shows "\<exists>response. sg_execute (sd_agent S) (lifecycle_request q k (ml_command m)) (sv_agent w)
        = (Inr response, sv_agent w1)
    \<and> w1 = w\<lparr>sv_agent := sv_agent w1\<rparr>
    \<and> lifecycle_result operation (or_silo_id q) (ml_binding_id m, ml_remote_environment_id m)
        (server_id w) (sg_environment (sd_agent S) (sv_agent w1) (or_silo_id q)) response now
        = Inr result"
  using assms
  by (cases "sg_execute (sd_agent S) (lifecycle_request q k (ml_command m)) (sv_agent w)")
    (auto simp: execute_lifecycle_def in_agent_def operation_error_body_def server_id_def split_def
      split: sum.splits agent_error.splits)

lemma auth_ran_server:
  "digests_have_32_bytes (sd_auth S) \<Longrightarrow> auth_ran S v w \<Longrightarrow> server_id w = server_id v"
  by (auto simp: auth_ran_def server_id_def dest: auth_run_sequences)

lemma route_authenticated_operation_success:
  assumes digests: "digests_have_32_bytes (sd_auth S)" and codecs: "codecs_agree S D"
    and auth: "authenticated_from S bearer (or_request_id q) (or_nonce q) (or_sequence q) v a w"
    and run: "route_authenticated_operation S q a now w = (resp, v')"
    and success: "reads_success D resp result"
  shows "executed_as S bearer v (or_silo_id q) (operation_body_operation (or_body q)) result v'"
proof -
  note refused = operation_rejection_not_success [OF codecs]
  let ?op = "operation_body_operation (or_body q)"
  have healthy: "\<not> sv_agent_state_poisoned w"
  proof
    assume "sv_agent_state_poisoned w"
    then show False
      using run success refused [of "or_request_id q" uncertain_state now
          "Some (ao_response_sequence a)" w result]
      by (simp add: route_authenticated_operation_def)
  qed
  obtain r w1 where mapped: "map_lifecycle_command S (or_silo_id q) (or_body q) w = (r, w1)" by force
  note frame = map_lifecycle_command_frame [OF mapped]
  obtain m where r: "r = Inr m"
  proof (cases r)
    case (Inl why)
    then have False
      using run success healthy mapped refused [of "or_request_id q" why now
          "Some (ao_response_sequence a)" w1 result]
      by (simp add: route_authenticated_operation_def Let_def)
    then show ?thesis ..
  qed blast
  let ?unavailable = "if ?op \<noteq> remote_operation.Destroy
      then unavailable_reason (sv_capabilities w1) ?op else None"
  have available: "?unavailable = None"
  proof (cases ?unavailable)
    case (Some reason)
    then have "resp = fst (operation_body S (or_request_id q) now (ao_response_sequence a)
        (operation_response_body.Unavailable ?op reason) w1)"
      using run healthy mapped
      by (simp add: route_authenticated_operation_def Let_def r)
    with success operation_body_success [OF codecs] show ?thesis by blast
  qed
  obtain body w2 where exec: "execute_lifecycle S q (ao_credential_id a) ?op m now w1 = (body, w2)"
    by force
  have out: "(resp, v') = operation_body S (or_request_id q) now (ao_response_sequence a) body w2"
    using run healthy mapped available
    by (simp add: route_authenticated_operation_def Let_def r exec)
  have body: "body = operation_response_body.Success result"
    by (rule operation_body_success [OF codecs, of "or_request_id q" now "ao_response_sequence a" _ w2])
      (use success in \<open>simp flip: out\<close>)
  from execute_lifecycle_success [OF exec [unfolded body]] obtain response
    where x: "sg_execute (sd_agent S) (lifecycle_request q (ao_credential_id a) (ml_command m))
        (sv_agent w1) = (Inr response, sv_agent w2)"
      "w2 = w1\<lparr>sv_agent := sv_agent w2\<rparr>"
      "lifecycle_result ?op (or_silo_id q) (ml_binding_id m, ml_remote_environment_id m)
        (server_id w1) (sg_environment (sd_agent S) (sv_agent w2) (or_silo_id q)) response now
        = Inr result" by blast
  have sent: "agent_kept w2 v'" "sv_auth v' = sv_auth w2"
    using sent_as_same [OF bodies_sent(1) [of S "ao_response_sequence a" w2 "or_request_id q" now body]]
    by (metis out snd_conv)+
  have same: "sv_auth w2 = sv_auth w" "sv_agent w1 = sv_agent w"
    "sv_agent_state_poisoned w2 = sv_agent_state_poisoned w" "same_configuration w w2"
    using frame by (simp_all add: agent_kept_def same_configuration_def)
      (subst x(2), simp add: agent_kept_def same_configuration_def)+
  have "server_id w = server_id v"
    using auth auth_ran_server [OF digests] by (auto simp: authenticated_from_def)
  then have ids: "server_id w1 = server_id v"
    using frame by (simp add: server_id_def)
  show ?thesis
    unfolding executed_as_def
  proof (intro exI conjI)
    show "agent_reached S bearer v (lifecycle_request q (ao_credential_id a) (ml_command m))
        (Inr response) v'"
      using auth x(1) same sent healthy
      by (auto simp: agent_reached_def authenticated_from_def agent_kept_def same_configuration_def)
    show "lifecycle_result ?op (or_silo_id q) (ml_binding_id m, ml_remote_environment_id m)
        (server_id v) (sg_environment (sd_agent S) (sv_agent v') (or_silo_id q)) response now
        = Inr result"
      using x(3) sent(1) ids by (simp add: agent_kept_def)
  qed (use map_lifecycle_command_silo [OF mapped [unfolded r]]
      map_lifecycle_command_operation [OF mapped [unfolded r]] in simp_all)
qed

lemma executed_as_kept:
  assumes "executed_as S bearer w silo operation result v'" and "agent_kept v w" "sv_auth w = sv_auth v"
  shows "executed_as S bearer v silo operation result v'"
  using assms agent_reached_kept [OF assms(2,3)]
  by (fastforce simp: executed_as_def server_id_def)

lemma route_operation_success:
  assumes digests: "digests_have_32_bytes (sd_auth S)" and codecs: "codecs_agree S D"
    and run: "route_operation S q bearer v = (resp, v')"
    and success: "reads_success D resp result"
  shows "executed_as S bearer v (or_silo_id q) (operation_body_operation (or_body q)) result v'"
proof -
  obtain now w where t: "sv_now v = (now, w)" by force
  have tick: "agent_kept v w" "sv_auth w = sv_auth v"
    using sv_now_frame(1,2) [of v] by (simp_all add: t)
  have refused: "operation_rejection S i why t n u \<noteq> (resp, u')" for i why t n u u'
    using operation_rejection_not_success [OF codecs] success by (metis fst_conv)
  obtain r w1 where auth: "authenticate_request S bearer (or_request_id q) (or_nonce q)
      (or_sequence q) now w = (r, w1)" by force
  obtain a where a: "r = Inr a"
    and out: "route_authenticated_operation S q a now w1 = (resp, v')"
    using run
    by (auto simp: route_operation_def t auth Let_def refused split: option.splits if_splits sum.splits)
  have "authenticated_from S bearer (or_request_id q) (or_nonce q) (or_sequence q) w a w1"
    using authenticate_request_cases [OF digests auth] by (simp add: a)
  from route_authenticated_operation_success [OF digests codecs this out success]
  show ?thesis by (rule executed_as_kept [OF _ tick])
qed

lemma route_success:
  assumes digests: "digests_have_32_bytes (sd_auth S)" and codecs: "codecs_agree S D"
    and encoded: "cd_encode_operation D e = Inr payload"
    and run: "route S (Some credential) payload v = (resp, v')"
    and success: "reads_success D resp result"
  shows "executed_as S (Some credential) v (or_silo_id e) (operation_body_operation (or_body e)) result v'"
proof -
  have "sd_decode_authenticated S payload = Inr (Operation e)"
    using codecs encoded by (simp add: codecs_agree_def)
  moreover have "resp \<noteq> fixed_error 400 ''invalid_request''"
    using fixed_not_success [OF codecs] success by (auto simp: fixed_replies_def)
  ultimately have "route_operation S e (Some credential) v = (resp, v')"
    using run by (auto simp: route_def decode_and_route_def split: if_splits)
  from route_operation_success [OF digests codecs this success] show ?thesis .
qed

section \<open>The controller's side\<close>

lemma controller_draws [simp]:
  "co_transport (snd (co_now c)) = co_transport c" "co_pairing (snd (co_now c)) = co_pairing c"
  "co_transport (snd (co_new_v4 c)) = co_transport c" "co_pairing (snd (co_new_v4 c)) = co_pairing c"
  "co_transport (snd (co_new_nonce c)) = co_transport c"
  "co_pairing (snd (co_new_nonce c)) = co_pairing c"
  by (simp_all add: co_now_def co_new_v4_def co_new_nonce_def split_def)

lemma exchange_delivered:
  assumes "exchange_envelopes D to_vec from_slice endpoint (Some credential) q c = (Inr r, c')"
    and "delivers S D"
  shows "\<exists>payload resp. to_vec q = Inr payload
    \<and> route S (Some credential) payload (co_transport c) = (resp, co_transport c')
    \<and> from_slice (sr_body resp) = Inr r"
  using assms
  by (fastforce simp: exchange_envelopes_def encode_json_def decode_json_def map_err_def rbind_def
      sbind_Inr_iff delivers_def split: sum.splits prod.splits if_splits)

lemma validate_response_metadata_transport:
  "validate_response_metadata version i k nonce t n c = (Inr u, c')
   \<Longrightarrow> co_transport c' = co_transport c"
  by (auto simp: validate_response_metadata_def Let_def split_def sbind_Inr_iff
      record_response_nonce_def split: if_splits option.splits prod.splits)

lemma reserve_authenticated_request_transport:
  "reserve_authenticated_request c = (Inr (t, n, k, credential), c')
   \<Longrightarrow> co_transport c' = co_transport c
     \<and> (\<exists>p. co_pairing c = Some p \<and> credential = pg_credential p)"
  by (auto simp: reserve_authenticated_request_def Let_def split_def sbind_Inr_iff ok_or_def
      split: if_splits option.splits)

lemma sbind_InrE:
  assumes "sbind m f = (Inr y, t)"
  obtains x s where "m = (Inr x, s)" "f x s = (Inr y, t)"
  using assms by (auto simp: sbind_Inr_iff)

lemma answered_body:
  assumes "(case b of
      operation_response_body.Success result \<Rightarrow> sbind (f result, c) (\<lambda>_ c. (Inr result, c))
    | operation_response_body.Unavailable op reason \<Rightarrow>
        sbind (g reason, c) (\<lambda>_ c. if op \<noteq> operation then (Inl e1, c) else (Inl (e2 reason), c))
    | operation_response_body.Rejected code message \<Rightarrow>
        sbind (h message, c) (\<lambda>_ c. (Inl (e3 code message), c))) = (Inr result, c')"
  shows "b = operation_response_body.Success result \<and> c' = c"
  using assms by (cases b) (auto simp: sbind_Inr_iff split: if_splits)

lemma send_operation_success:
  assumes "digests_have_32_bytes (sd_auth S)" "codecs_agree S D" "delivers S D"
    and "send_operation D silo body c = (Inr result, c')"
  shows "\<exists>p. co_pairing c = Some p
    \<and> executed_as S (Some (pg_credential p)) (co_transport c) silo (operation_body_operation body)
        result (co_transport c')"
proof -
  from assms(4) obtain t n k credential c1 c2 x c3
    where reserved: "reserve_authenticated_request c = (Inr (t, n, k, credential), c1)"
      and exchanged: "exchange_envelopes D (cd_encode_operation D) (cd_decode_operation D)
          (co_endpoint (snd (co_new_nonce (snd (co_new_v4 c1))))) (Some credential)
          \<lparr>or_protocol_version = PROTOCOL_VERSION, or_request_id = fst (co_new_v4 c1),
            or_nonce = fst (co_new_nonce (snd (co_new_v4 c1))), or_sequence = n,
            or_sent_at_unix_ms = t, or_silo_id = silo, or_body = body\<rparr>
          (snd (co_new_nonce (snd (co_new_v4 c1)))) = (Inr x, c2)"
      and metadata: "validate_response_metadata (re_protocol_version x) (re_in_reply_to x)
          (fst (co_new_v4 c1)) (re_nonce x) (re_sent_at_unix_ms x) (re_sequence x) c2 = (Inr (), c3)"
      and body: "re_body x = operation_response_body.Success result" "c' = c3"
    unfolding send_operation_def Let_def split_def
    by - (elim sbind_InrE, drule answered_body,
        cases "operation_body_operation body = remote_operation.Destroy"; simp add: split_paired_all)
  from reserve_authenticated_request_transport [OF reserved] obtain p
    where p: "co_pairing c = Some p" "credential = pg_credential p"
      and transport: "co_transport c1 = co_transport c" by blast
  from exchange_delivered [OF exchanged assms(3)] obtain payload resp
    where payload: "cd_encode_operation D \<lparr>or_protocol_version = PROTOCOL_VERSION,
            or_request_id = fst (co_new_v4 c1),
            or_nonce = fst (co_new_nonce (snd (co_new_v4 c1))), or_sequence = n,
            or_sent_at_unix_ms = t, or_silo_id = silo, or_body = body\<rparr> = Inr payload"
      and run: "route S (Some credential) payload (co_transport c) = (resp, co_transport c2)"
      and decoded: "cd_decode_operation D (sr_body resp) = Inr x"
    using transport by auto
  have "reads_success D resp result" using decoded body by (auto simp: reads_success_def)
  from route_success [OF assms(1,2) payload run this] show ?thesis
    using p validate_response_metadata_transport [OF metadata] body(2) by simp
qed

end
