(* ===== verification/Service_Samples.thy ===== *)
theory Service_Samples
  imports Service_Composition Auth_Durability Controller_Samples
begin

text \<open>
  A concrete stack for the witnesses: a paired controller, a transport that hands its requests to
  the router, a router with one live credential, and an Agent that counts its executions and
  gives one fixed answer. All clocks stand still.
\<close>

section \<open>The router's side\<close>

definition stack_auth_deps :: auth_deps where
  "stack_auth_deps = \<lparr>ad_sha256 = (\<lambda>_. replicate 32 0), ad_encode = (\<lambda>_. Inr [0]),
     ad_decode = (\<lambda>_. Inl [])\<rparr>"

definition stack_auth_state :: persisted_auth_state where
  "stack_auth_state = \<lparr>au_schema_version = 1, au_server_id = Uuid 9, au_response_sequence = 8,
     au_pairing_token = None,
     au_credentials = [\<lparr>cr_credential_id = Uuid 30,
       cr_digest_sha256 = hash_secret_hex stack_auth_deps CREDENTIAL_HASH_DOMAIN (nonce_of 97),
       cr_issued_at_unix_ms = 1000, cr_expires_at_unix_ms = sample_clock + 1, cr_revoked = False,
       cr_last_request_sequence = 3\<rparr>],
     au_pairing_claims = [], au_operation_claims = [], au_pin_rotation_authorizations = []\<rparr>"

definition stack_auth_store :: auth_store where
  "stack_auth_store = \<lparr>as_state = stack_auth_state, as_poisoned = False,
     as_disk = crashed_disk (\<lambda>n. if n = StateFile then Some (Stable [0]) else None),
     as_host = sample_host\<rparr>"

definition stack_record :: environment_record where
  "stack_record = \<lparr>er_silo_id = Uuid 1, er_binding_id = Uuid 2, er_remote_environment_id = Uuid 3,
     er_node_id = Uuid 5, er_state = environment_state.Running, er_network = sample_policy,
     er_volume = sample_volume, er_created_at_unix_ms = 1, er_expires_at_unix_ms = sample_clock + 5,
     er_last_activity_at_unix_ms = sample_clock, er_deletion_proof_id = None\<rparr>"

definition stack_agent :: "agent_error + agent_response \<Rightarrow> nat service_agent_ops" where
  "stack_agent r = \<lparr>sg_environment = (\<lambda>_ silo. if silo = Uuid 1 then Some stack_record else None),
     sg_execute = (\<lambda>_ n. (r, Suc n)), sg_maintenance_tick = (\<lambda>n. (False, n))\<rparr>"

definition stack_service :: "nat agent_service" where
  "stack_service = \<lparr>sv_auth = stack_auth_store, sv_agent = 0, sv_node = sample_node,
     sv_capabilities = sample_capabilities, sv_clock = sample_host,
     sv_credential_lifetime_ms = 60000, sv_agent_state_poisoned = False\<rparr>"

definition stack_request :: operation_request_envelope where
  "stack_request = \<lparr>or_protocol_version = PROTOCOL_VERSION, or_request_id = Uuid 100,
     or_nonce = uuid_simple (Uuid 100) @ uuid_simple (Uuid 100), or_sequence = 4,
     or_sent_at_unix_ms = sample_clock, or_silo_id = Uuid 1,
     or_body = operation_body.Start (Uuid 2) (Uuid 3)\<rparr>"

definition stack_result :: operation_result where
  "stack_result = sample_result remote_operation.Start Started"

definition stack_reply :: "operation_response_body \<Rightarrow> operation_response_envelope" where
  "stack_reply body = \<lparr>re_protocol_version = PROTOCOL_VERSION, re_response_id = Uuid 100,
     re_in_reply_to = Uuid 100, re_nonce = uuid_simple (Uuid 100),
     re_sent_at_unix_ms = sample_clock, re_sequence = 9, re_body = body\<rparr>"

text \<open>The Agent's answer \<open>r\<close>; the JSON codec knows one request and one response.\<close>

definition stack_deps :: "agent_error + agent_response \<Rightarrow> operation_response_body \<Rightarrow> nat service_deps" where
  "stack_deps r body = \<lparr>sd_agent = stack_agent r, sd_auth = stack_auth_deps,
     sd_decode_pairing = (\<lambda>_. Inl []),
     sd_decode_authenticated = (\<lambda>_. Inr (Operation stack_request)),
     sd_encode_pairing = (\<lambda>_. Inl []),
     sd_encode_operation = (\<lambda>e. if e = stack_reply body then Inr [2] else Inl []),
     sd_encode_agent = (\<lambda>_. Inl []), sd_encode_pin_rotation = (\<lambda>_. Inl [])\<rparr>"

definition stack_started :: "agent_error + agent_response" where
  "stack_started = Inr (Environment stack_record (Some (sample_evidence 3)))"

lemma stack_deps_sel [simp]:
  "sd_agent (stack_deps r body) = stack_agent r" "sd_auth (stack_deps r body) = stack_auth_deps"
  "sd_decode_authenticated (stack_deps r body) raw = Inr (Operation stack_request)"
  "sd_encode_operation (stack_deps r body) e = (if e = stack_reply body then Inr [2] else Inl [])"
  by (simp_all add: stack_deps_def)

lemma stack_digests [simp]: "digests_have_32_bytes stack_auth_deps"
  by (simp add: digests_have_32_bytes_def stack_auth_deps_def)

lemma stack_strings:
  "validate_secret (nonce_of 97) = Inr ()"
  "validate_request_identity (Uuid 100) (uuid_simple (Uuid 100) @ uuid_simple (Uuid 100)) = Inr ()"
  "service_valid_nonce (uuid_simple (Uuid 100) @ uuid_simple (Uuid 100))"
  "validate_nonce (uuid_simple (Uuid 100)) = Inr ()"
proof -
  have len: "length (uuid_simple (Uuid 100)) = 32" by (simp add: uuid_simple_def)
  have hex: "list_all is_base64url (uuid_simple (Uuid 100))"
    by (auto simp: list_all_iff uuid_simple_def ascii_class_defs dest!: show_hex_lower_hex)
  have bytes: "str_bytes (uuid_simple (Uuid 100) @ uuid_simple (Uuid 100))
      = uuid_simple (Uuid 100) @ uuid_simple (Uuid 100)"
    by (simp add: str_bytes_append)
  show "validate_secret (nonce_of 97) = Inr ()"
    by (simp add: validate_secret_def nonce_of_def str_len_def str_bytes_replicate ascii_class_defs
        list_all_iff)
  show "validate_request_identity (Uuid 100) (uuid_simple (Uuid 100) @ uuid_simple (Uuid 100)) = Inr ()"
    "service_valid_nonce (uuid_simple (Uuid 100) @ uuid_simple (Uuid 100))"
    "validate_nonce (uuid_simple (Uuid 100)) = Inr ()"
    using len hex
    by (simp_all add: validate_request_identity_def service_valid_nonce_def validate_nonce_def
        str_len_def bytes nil_uuid_def)
qed

lemma stack_authenticated:
  "\<exists>st'. authenticate_operation stack_auth_deps (nonce_of 97) (Uuid 100)
        (uuid_simple (Uuid 100) @ uuid_simple (Uuid 100)) 4 sample_clock stack_auth_store
      = (Inr \<lparr>ao_credential_id = Uuid 30, ao_response_sequence = 9\<rparr>, st')"
proof -
  let ?c = "\<lparr>ci_bearer = nonce_of 97, ci_request_id = Uuid 100,
    ci_nonce = uuid_simple (Uuid 100) @ uuid_simple (Uuid 100), ci_sequence = 4\<rparr>"
  have digest: "decode_digest (hash_secret_hex stack_auth_deps CREDENTIAL_HASH_DOMAIN (nonce_of 97))
      = Inr (hash_secret stack_auth_deps CREDENTIAL_HASH_DOMAIN (nonce_of 97))"
    by (simp add: hash_secret_hex_def decode_encode_digest hash_secret_length)
  have state: "as_state stack_auth_store = stack_auth_state" by (simp add: stack_auth_store_def)
  have "\<exists>st'. auth_execute stack_auth_deps (AuthenticateOperation ?c) sample_clock stack_auth_store
      = (Inr (OperationAuthenticated
           \<lparr>ao_credential_id = cr_credential_id (au_credentials (as_state stack_auth_store) ! 0),
            ao_response_sequence = 9\<rparr>), st')
    \<and> auth_healthy st'
    \<and> as_state st' = (record_operation (ci_request_id ?c) (ci_nonce ?c) (ci_sequence ?c) 0
         (as_state stack_auth_store))\<lparr>au_response_sequence := 9\<rparr>"
  proof (rule operation_commits [where raw = "[0]"])
    show "auth_healthy stack_auth_store"
      by (simp add: auth_healthy_def stack_auth_store_def crashed_disk_def)
    show "validate_auth_state (as_state stack_auth_store) = Inr ()"
      unfolding state validate_auth_state_Inr
      by (simp add: stack_auth_state_def AUTH_SCHEMA_VERSION_def nil_uuid_def MAX_CREDENTIALS_def
          digest sample_clock_def MAX_CONTROL_CREDENTIAL_LIFETIME_MS_def)
    show "claims_as stack_auth_deps ?c sample_clock (as_state stack_auth_store) 0"
      unfolding state
      by (simp add: claims_as_def stack_auth_state_def digest credential_is_active_def sample_clock_def)
    show "\<not> claim_window_blocked (as_state stack_auth_store)"
      unfolding state by (simp add: claim_window_blocked_def stack_auth_state_def)
    show "checked_add (au_response_sequence (as_state stack_auth_store)) 1 = Some 9"
      unfolding state by (simp add: stack_auth_state_def checked_add_def)
  qed (simp_all add: stack_strings stack_auth_deps_def digests_have_32_bytes_def
      MAX_AUTH_STATE_BYTES_def)
  then show ?thesis
    by (auto simp: answering_result state stack_auth_state_def split: prod.splits sum.splits)
qed

section \<open>The request through the router\<close>

definition stack_body :: "agent_error + agent_response \<Rightarrow> operation_response_body" where
  "stack_body r =
     (case r of
        Inl e \<Rightarrow> operation_error_body remote_operation.Start e
      | Inr response \<Rightarrow>
          (case lifecycle_result remote_operation.Start (Uuid 1) (Uuid 2, Uuid 3) (Uuid 9)
                  (Some stack_record) response sample_clock of
             Inr result \<Rightarrow> operation_response_body.Success result
           | Inl e \<Rightarrow> operation_error_body remote_operation.Start e))"

definition stack_after :: "auth_store \<Rightarrow> nat \<Rightarrow> nat \<Rightarrow> nat \<Rightarrow> bool \<Rightarrow> nat agent_service" where
  "stack_after st executed reads draws poisoned =
     \<lparr>sv_auth = st, sv_agent = executed, sv_node = sample_node,
      sv_capabilities = sample_capabilities,
      sv_clock = sample_host\<lparr>clock_reads := reads, uuid_draws := draws\<rparr>,
      sv_credential_lifetime_ms = 60000, sv_agent_state_poisoned = poisoned\<rparr>"

lemma stack_service_after: "stack_service = stack_after stack_auth_store 0 0 0 False"
  by (simp add: stack_service_def stack_after_def sample_host_def)

lemma stack_after_sel [simp]:
  "sv_auth (stack_after st k t d b) = st" "sv_agent (stack_after st k t d b) = k"
  "sv_capabilities (stack_after st k t d b) = sample_capabilities"
  "sv_agent_state_poisoned (stack_after st k t d b) = b"
  "(stack_after st k t d b)\<lparr>sv_auth := st'\<rparr> = stack_after st' k t d b"
  "(stack_after st k t d b)\<lparr>sv_agent := k'\<rparr> = stack_after st k' t d b"
  "(stack_after st k t d b)\<lparr>sv_agent_state_poisoned := b'\<rparr> = stack_after st k t d b'"
  "sv_now (stack_after st k t d b) = (sample_clock, stack_after st k (Suc t) d b)"
  "sv_new_v4 (stack_after st k t d b) = (Uuid 100, stack_after st k t (Suc d) b)"
  by (simp_all add: stack_after_def sv_now_def sv_new_v4_def now_unix_ms_def new_v4_def sample_host_def)

lemma stack_request_sel [simp]:
  "or_protocol_version stack_request = PROTOCOL_VERSION" "or_request_id stack_request = Uuid 100"
  "or_nonce stack_request = uuid_simple (Uuid 100) @ uuid_simple (Uuid 100)"
  "or_sequence stack_request = 4" "or_sent_at_unix_ms stack_request = sample_clock"
  "or_silo_id stack_request = Uuid 1" "or_body stack_request = operation_body.Start (Uuid 2) (Uuid 3)"
  by (simp_all add: stack_request_def)

lemma stack_mapped:
  "map_lifecycle_command (stack_deps r body) (Uuid 1) (operation_body.Start (Uuid 2) (Uuid 3))
      (stack_after st k t d b)
   = (Inr \<lparr>ml_command = agent_command.Start (Uuid 1), ml_binding_id = Uuid 2,
           ml_remote_environment_id = Uuid 3\<rparr>, stack_after st k t d b)"
  by (simp add: mapped_when_bound_def bound_environment_def nil_uuid_def stack_agent_def
      stack_record_def ok_or_def)

lemma stack_metadata:
  "validate_authenticated_metadata PROTOCOL_VERSION (Uuid 100)
     (uuid_simple (Uuid 100) @ uuid_simple (Uuid 100)) 4 sample_clock sample_clock = None"
  by (simp add: validate_authenticated_metadata_def nil_uuid_def stack_strings MAX_CLOCK_SKEW_MS_def
      abs_diff_def)

lemma stack_available: "unavailable_reason sample_capabilities operation = None"
  by (simp add: unavailable_reason_def sample_available)

lemma stack_executed:
  assumes "au_server_id (as_state st) = Uuid 9"
  shows "execute_lifecycle (stack_deps r body) stack_request (Uuid 30) remote_operation.Start
      \<lparr>ml_command = agent_command.Start (Uuid 1), ml_binding_id = Uuid 2,
       ml_remote_environment_id = Uuid 3\<rparr> sample_clock (stack_after st k t d False)
    = (stack_body r, stack_after st (Suc k) t d (is_store_error r))"
  using assms
  by (cases r)
    (auto simp: execute_lifecycle_def in_agent_def stack_agent_def stack_body_def server_id_def
      poison_on_store_error_def split: sum.split agent_error.split)

lemma stack_sent:
  "operation_body (stack_deps r body) (Uuid 100) sample_clock 9 body (stack_after st k t d b)
     = (protocol_response [2], stack_after st k t (Suc (Suc d)) b)"
  by (simp add: operation_body_def response_metadata_new_def envelope_of_def stack_reply_def
      serialize_bounded_def map_err_def MAX_MESSAGE_BYTES_def)

lemma stack_route:
  assumes "payload \<noteq> []" "length payload \<le> MAX_MESSAGE_BYTES"
  shows "\<exists>st. route (stack_deps r (stack_body r)) (Some (nonce_of 97)) payload stack_service
      = (protocol_response [2], stack_after st 1 1 2 (is_store_error r))"
proof -
  from stack_authenticated obtain st
    where auth: "authenticate_operation stack_auth_deps (nonce_of 97) (Uuid 100)
        (uuid_simple (Uuid 100) @ uuid_simple (Uuid 100)) 4 sample_clock stack_auth_store
      = (Inr \<lparr>ao_credential_id = Uuid 30, ao_response_sequence = 9\<rparr>, st)" by blast
  have "auth_execute stack_auth_deps (AuthenticateOperation \<lparr>ci_bearer = nonce_of 97,
      ci_request_id = Uuid 100, ci_nonce = uuid_simple (Uuid 100) @ uuid_simple (Uuid 100),
      ci_sequence = 4\<rparr>) sample_clock stack_auth_store
    = (Inr (OperationAuthenticated \<lparr>ao_credential_id = Uuid 30, ao_response_sequence = 9\<rparr>), st)"
    by (simp add: auth answering_result)
  from auth_effect_sequence [OF auth_execute_effect(1) [OF stack_digests this]]
  have server: "au_server_id (as_state st) = Uuid 9"
    by (simp add: stack_auth_store_def stack_auth_state_def)
  have "authenticate_request (stack_deps r body) (Some (nonce_of 97)) (Uuid 100)
        (uuid_simple (Uuid 100) @ uuid_simple (Uuid 100)) 4 sample_clock
        (stack_after stack_auth_store 0 (Suc 0) 0 False)
      = (Inr \<lparr>ao_credential_id = Uuid 30, ao_response_sequence = 9\<rparr>,
         stack_after st 0 (Suc 0) 0 False)" for body
    by (simp add: authenticate_request_def in_auth_def auth)
  then have "route_operation (stack_deps r (stack_body r)) stack_request (Some (nonce_of 97)) stack_service
      = (protocol_response [2], stack_after st 1 1 2 (is_store_error r))"
    by (simp add: route_operation_def stack_service_after stack_metadata nil_uuid_def
        route_authenticated_operation_def stack_mapped stack_available stack_executed [OF server]
        stack_sent Let_def del: map_lifecycle_command.simps)
      (simp add: numeral_2_eq_2)
  with assms show ?thesis
    by (auto simp: route_def decode_and_route_def)
qed

lemma stack_started_body: "stack_body stack_started = operation_response_body.Success stack_result"
  by (simp add: stack_body_def stack_started_def lifecycle_result_def environment_result_def
      nil_uuid_def record_is_expected_def stack_record_def fresh_activity_def saturating_add_def
      sample_clock_def MAX_CLOCK_SKEW_MS_def)
    (simp add: stack_result_def sample_result_def sample_evidence_def sample_clock_def)

section \<open>The controller in front of it\<close>

text \<open>The transport hands the request to the router and its answer back, from the pinned peer.\<close>

definition stack_controller_deps ::
    "agent_error + agent_response
     \<Rightarrow> (nat agent_service, memory_binding_store) controller_deps" where
  "stack_controller_deps r =
     \<lparr>cd_exchange = (\<lambda>q v. case route (stack_deps r (stack_body r)) (tr_credential q) (tr_payload q) v of
        (resp, v) \<Rightarrow> (Inr \<lparr>tp_tls_validated = True, tp_peer_pin = ep_pin (tr_endpoint q),
           tp_payload = sr_body resp\<rparr>, v)),
      cd_store = memory_binding_ops, cd_parse_url = (\<lambda>_. Inr sample_url),
      cd_encode_operation = (\<lambda>e. if e = stack_request then Inr [3] else Inl []),
      cd_decode_operation = (\<lambda>raw. if raw = [2] then Inr (stack_reply (stack_body r)) else Inl []),
      cd_encode_pairing = (\<lambda>_. Inl []), cd_decode_pairing = (\<lambda>_. Inl []),
      cd_encode_rotation = (\<lambda>_. Inl []), cd_decode_rotation = (\<lambda>_. Inl []),
      cd_encode_agent = (\<lambda>_. Inl []), cd_decode_agent = (\<lambda>_. Inl [])\<rparr>"

definition stack_controller :: "(nat agent_service, memory_binding_store) controller" where
  "stack_controller = \<lparr>co_endpoint = sample_endpoint, co_transport = stack_service,
     co_store = [(Uuid 1, sample_binding)], co_host = sample_host,
     co_pairing = Some sample_pairing, co_used_pairing_tokens = [], co_response_replay = []\<rparr>"

lemma stack_delivers: "delivers (stack_deps r (stack_body r)) (stack_controller_deps r)"
  by (auto simp: delivers_def stack_controller_deps_def split: prod.splits)

lemma stack_codecs: "codecs_agree (stack_deps r (stack_body r)) (stack_controller_deps r)"
proof -
  have "[2] \<noteq> sr_body (fixed_error n code)" for n code
    by (simp add: fixed_error_def lit_def str_bytes_def utf8_bytes_def)
  then have "sr_body (fixed_error n code) \<noteq> [2]" for n code by metis
  then show ?thesis
    by (simp add: codecs_agree_def stack_controller_deps_def fixed_replies_def internal_error_def)
qed

lemma stack_answered:
  "\<exists>c'. send_operation (stack_controller_deps stack_started) (Uuid 1)
      (operation_body.Start (Uuid 2) (Uuid 3)) stack_controller = (Inr stack_result, c')"
proof -
  obtain st where run: "route (stack_deps stack_started (stack_body stack_started)) (Some (nonce_of 97))
      [3] stack_service = (protocol_response [2], stack_after st 1 1 2 (is_store_error stack_started))"
    using stack_route [of "[3]" stack_started] by (auto simp: MAX_MESSAGE_BYTES_def)
  have avail: "require_available remote_operation.Start stack_controller = Inr ()"
    by (simp add: require_available_def stack_controller_def sample_pairing_def sample_available ok_or_def)
  have reserved: "reserve_authenticated_request stack_controller
      = (Inr (sample_clock, 4, Uuid 30, nonce_of 97),
         stack_controller\<lparr>co_host := sample_host\<lparr>clock_reads := 1\<rparr>,
           co_pairing := Some (sample_pairing\<lparr>pg_last_client_sequence := 4\<rparr>)\<rparr>)"
    by (simp add: reserve_authenticated_request_def stack_controller_def co_now_def now_unix_ms_def
        sample_host_def sample_pairing_def sample_clock_def checked_add_def ok_or_def)
  have valid: "validate_result stack_result remote_operation.Start (Uuid 1) sample_clock c = Inr ()"
    if "co_pairing c = Some (sample_pairing\<lparr>pg_last_client_sequence := m, pg_last_server_sequence := n\<rparr>)"
    for c :: "(nat agent_service, memory_binding_store) controller" and m n
    using that
    by (simp add: validate_result_def sample_pairing_def nil_uuid_def saturating_add_def stack_result_def
        MAX_CLOCK_SKEW_MS_def validate_result_volume_def validate_result_proof_def)
      (simp add: sample_result_def sample_clock_def)
  have last: "pg_last_server_sequence sample_pairing = 4" by (simp add: sample_pairing_def)
  have "fst (send_operation (stack_controller_deps stack_started) (Uuid 1)
      (operation_body.Start (Uuid 2) (Uuid 3)) stack_controller) = Inr stack_result"
    by (simp add: send_operation_def avail reserved)
      (simp add: stack_controller_def co_new_v4_def co_new_nonce_def new_v4_def new_nonce_def
        sample_host_def exchange_envelopes_def encode_json_def decode_json_def map_err_def
        stack_controller_deps_def MAX_MESSAGE_BYTES_def run [unfolded stack_started_body] validate_transport_response_def
        protocol_response_def stack_request_def stack_reply_def stack_started_body
        validate_response_metadata_def co_now_def now_unix_ms_def validate_fresh_timestamp_def
        abs_diff_def record_response_nonce_def check_and_record_def stack_strings
        MAX_REPLAY_WINDOW_ENTRIES_def last valid)
  then show ?thesis by (metis prod.collapse)
qed

end
