(* ===== verification/Service_Properties.thy ===== *)
theory Service_Properties
  imports Service_Samples Agent_Properties
begin

text \<open>
  The properties of the router and of the stack from the controller to the Agent, each with a
  witness on the sample stack.
\<close>

section \<open>The way to the Agent\<close>

text \<open>
  C6. Only authenticated requests reach the Agent: when a request changed the Agent, or made the
  router distrust it, the router was healthy, the bearer is the secret of a live stored
  credential that has not used the request's sequence, identity or nonce, and the Agent
  executed one request, in the name of that credential and, unless it is interactive, as the
  control plane; the router distrusts the Agent from then on exactly if its store failed.
\<close>

theorem agent_requests_are_authenticated:
  assumes "digests_have_32_bytes (sd_auth D)" and "route D bearer payload v = (resp, v')"
    and "\<not> agent_kept v v'"
  shows "\<exists>q r c i now. \<not> sv_agent_state_poisoned v \<and> bearer = Some (ci_bearer c)
    \<and> claims_as (sd_auth D) c now (as_state (sv_auth v)) i
    \<and> rq_request_id q = ci_request_id c \<and> rq_nonce q = ci_nonce c \<and> rq_sequence q = ci_sequence c
    \<and> p_credential_id (rq_principal q) = cr_credential_id (au_credentials (as_state (sv_auth v)) ! i)
    \<and> (is_interactive_command (rq_command q) \<or> p_kind (rq_principal q) = ControlPlane)
    \<and> sg_execute (sd_agent D) q (sv_agent v) = (r, sv_agent v')
    \<and> sv_agent_state_poisoned v' = is_store_error r"
proof -
  from route_handled [OF assms(1), of bearer v payload] assms(2,3)
  obtain q r where reached: "agent_reached D bearer v q r v'"
    by (auto simp: handled_def)
  then obtain credential a now where bearer: "bearer = Some credential"
    and auth: "authenticate_operation (sd_auth D) credential (rq_request_id q) (rq_nonce q)
        (rq_sequence q) now (sv_auth v) = (Inr a, sv_auth v')"
    and principal: "p_credential_id (rq_principal q) = ao_credential_id a"
    by (auto simp: agent_reached_def)
  let ?c = "\<lparr>ci_bearer = credential, ci_request_id = rq_request_id q, ci_nonce = rq_nonce q,
    ci_sequence = rq_sequence q\<rparr>"
  have "auth_execute (sd_auth D) (AuthenticateOperation ?c) now (sv_auth v)
      = (Inr (OperationAuthenticated a), sv_auth v')"
    by (simp add: auth answering_result)
  from auth_execute_effect(1) [OF assms(1) this] obtain i
    where "claims_as (sd_auth D) ?c now (as_state (sv_auth v)) i"
      and "ao_credential_id a = cr_credential_id (au_credentials (as_state (sv_auth v)) ! i)"
    by (auto elim: auth_effectE)
  with reached bearer principal show ?thesis
    unfolding agent_reached_def
    by (intro exI [of _ q] exI [of _ r] exI [of _ ?c] exI [of _ i] exI [of _ now]) auto
qed

theorem agent_requests_are_authenticated_witness:
  "\<exists>v' q r. route (stack_deps stack_started (stack_body stack_started)) (Some (nonce_of 97)) [3] stack_service
      = (protocol_response [2], v')
    \<and> sg_execute (stack_agent stack_started) q 0 = (r, sv_agent v') \<and> rq_sequence q \<noteq> 0"
proof -
  obtain st where run: "route (stack_deps stack_started (stack_body stack_started)) (Some (nonce_of 97))
      [3] stack_service = (protocol_response [2], stack_after st 1 1 2 (is_store_error stack_started))"
    using stack_route [of "[3]" stack_started] by (auto simp: MAX_MESSAGE_BYTES_def)
  have "\<not> agent_kept stack_service (stack_after st 1 1 2 (is_store_error stack_started))"
    by (simp add: agent_kept_def stack_service_def)
  from agent_requests_are_authenticated [OF _ run this] run show ?thesis
    by (fastforce simp: claims_as_def stack_service_def)
qed

text \<open>
  C17. A store failure stops the Agent: the router starts to distrust the Agent only when an
  execution ended with a store error or a maintenance tick reported one; from then on, whatever
  requests and ticks follow, neither the Agent nor the distrust changes.
\<close>

theorem store_errors_stop_the_agent:
  assumes "digests_have_32_bytes (sd_auth D)" and "service_step D e v = (resp, v1)"
    and "\<not> sv_agent_state_poisoned v" "sv_agent_state_poisoned v1"
    and "service_run D events v1 = (resps, v2)"
  shows "sv_agent v2 = sv_agent v1 \<and> sv_agent_state_poisoned v2
    \<and> ((\<exists>q. is_store_error (fst (sg_execute (sd_agent D) q (sv_agent v))))
       \<or> e = Tick \<and> fst (sg_maintenance_tick (sd_agent D) (sv_agent v)))"
proof -
  have kept: "agent_kept v1 v2"
    using poisoned_run [OF assms(1,4), of events] assms(5) by simp
  have "(\<exists>q. is_store_error (fst (sg_execute (sd_agent D) q (sv_agent v))))
      \<or> e = Tick \<and> fst (sg_maintenance_tick (sd_agent D) (sv_agent v))"
  proof (cases e)
    case Tick
    with assms(2-4) show ?thesis by (auto simp: maintenance_tick_def split: prod.splits if_splits)
  next
    case (Incoming bearer payload)
    with assms(2) have v1: "v1 = snd (route D bearer payload v)" by (auto split: prod.splits)
    from route_handled [OF assms(1), of bearer v payload] assms(3,4) obtain q r
      where "agent_reached D bearer v q r v1"
      by (auto simp: handled_def agent_kept_def v1)
    with assms(4) show ?thesis by (auto simp: agent_reached_def intro: exI [of _ q])
  qed
  with kept assms(4) show ?thesis by (auto simp: agent_kept_def)
qed

theorem store_errors_stop_the_agent_witness:
  "\<exists>v1 resps v2. service_step (stack_deps (Inl (agent_error.Store [])) (stack_body (Inl (agent_error.Store []))))
        (Incoming (Some (nonce_of 97)) [3]) stack_service = (Some (protocol_response [2]), v1)
    \<and> service_run (stack_deps (Inl (agent_error.Store [])) (stack_body (Inl (agent_error.Store []))))
        [Tick, Incoming (Some (nonce_of 97)) [4]] v1 = (resps, v2)
    \<and> sv_agent v1 = 1 \<and> sv_agent v2 = 1"
proof -
  let ?r = "Inl (agent_error.Store []) :: agent_error + agent_response"
  let ?D = "stack_deps ?r (stack_body ?r)"
  obtain st where run: "route ?D (Some (nonce_of 97)) [3] stack_service
      = (protocol_response [2], stack_after st 1 1 2 (is_store_error ?r))"
    using stack_route [of "[3]" ?r] by (auto simp: MAX_MESSAGE_BYTES_def)
  then have step: "service_step ?D (Incoming (Some (nonce_of 97)) [3]) stack_service
      = (Some (protocol_response [2]), stack_after st 1 1 2 True)" by simp
  obtain resps v2 where rest: "service_run ?D [Tick, Incoming (Some (nonce_of 97)) [4]]
      (stack_after st 1 1 2 True) = (resps, v2)" by force
  have "sv_agent v2 = 1"
    using store_errors_stop_the_agent [OF _ step _ _ rest] by (simp add: stack_service_def)
  with step rest show ?thesis by auto
qed

section \<open>Responses\<close>

text \<open>
  Every response of a run is either one of three fixed errors or a protocol response of at
  most 64 KiB, sent with status 200 under a number of its own; the numbers increase strictly,
  from above the store's counter at the start to at most its counter at the end.
\<close>

theorem responses_are_numbered:
  assumes "digests_have_32_bytes (sd_auth D)" and "service_run D events v = (resps, v')"
  shows "\<exists>ns. numbered_as D resps ns \<and> sorted_wrt (<) (sequence_of v # ns)
    \<and> list_all (\<lambda>n. n \<le> sequence_of v') (sequence_of v # ns)"
  by (rule service_run_numbered [OF assms])

theorem responses_are_numbered_witness:
  "\<exists>resps v' ns. service_run (stack_deps stack_started (stack_body stack_started))
      [Tick, Incoming (Some (nonce_of 97)) [3], Incoming None [], Tick] stack_service = (resps, v')
    \<and> numbered_as (stack_deps stack_started (stack_body stack_started)) resps ns
    \<and> sorted_wrt (<) (8 # ns)"
proof -
  let ?D = "stack_deps stack_started (stack_body stack_started)"
  let ?events = "[Tick, Incoming (Some (nonce_of 97)) [3], Incoming None [], Tick]"
  obtain resps v' where run: "service_run ?D ?events stack_service = (resps, v')" by force
  have "sequence_of stack_service = 8"
    by (simp add: sequence_of_def stack_service_def stack_auth_store_def stack_auth_state_def)
  with responses_are_numbered [OF _ run] run show ?thesis by fastforce
qed

section \<open>The stack\<close>

text \<open>
  The environments of the Agent outlive the router's work: over any requests and maintenance
  ticks, sweeps included, a recorded environment of the on-disk Agent behind the router keeps its
  identity and lifetime, keeps its volume once provisioned and never changes once deleted.
\<close>

theorem environments_persist_behind_the_router:
  assumes "digests_have_32_bytes (sd_auth S)" and "sd_agent S = core_service_ops (durable_agent C P J)"
    and "durable_invar (ac_store (sv_agent v))"
    and "v_environments (durable_view (ac_store (sv_agent v))) silo = Some r"
  shows "\<exists>r'. v_environments
      (durable_view (ac_store (sv_agent (snd (service_run S events v))))) silo = Some r'
    \<and> same_identity r r'
    \<and> (er_state r = environment_state.Deleted \<longrightarrow> r' = r)
    \<and> (er_state r \<noteq> Provisioning \<longrightarrow> er_state r' \<noteq> Provisioning \<and> er_volume r' = er_volume r)"
  using agent_steps_continues [OF conjunct2 [OF durable_served.run_good [OF assms(1-3)]]
      durable_view_wf [OF assms(3)] assms(4)]
  by (simp add: continues_def)

definition durable_service :: "(unit, durable_store) agent_core agent_service" where
  "durable_service = \<lparr>sv_auth = stack_auth_store, sv_agent = sample_core [(Uuid 1, Agent_Properties.sample_record Running)],
     sv_node = Agent_Properties.sample_node, sv_capabilities = sample_capabilities,
     sv_clock = Controller_Samples.sample_host,
     sv_credential_lifetime_ms = 60000, sv_agent_state_poisoned = False\<rparr>"

definition durable_service_deps :: "(unit, durable_store) agent_core service_deps" where
  "durable_service_deps = \<lparr>sd_agent = core_service_ops sample_agent, sd_auth = stack_auth_deps,
     sd_decode_pairing = (\<lambda>_. Inl []),
     sd_decode_authenticated = (\<lambda>_. Inr (Operation stack_request)),
     sd_encode_pairing = (\<lambda>_. Inl []), sd_encode_operation = (\<lambda>_. Inr [2]),
     sd_encode_agent = (\<lambda>_. Inl []), sd_encode_pin_rotation = (\<lambda>_. Inl [])\<rparr>"

theorem environments_persist_behind_the_router_witness:
  "\<exists>r'. v_environments (durable_view (ac_store (sv_agent (snd (service_run durable_service_deps
      [Incoming (Some (nonce_of 97)) [3], Tick] durable_service))))) (Uuid 1) = Some r'
    \<and> same_identity (Agent_Properties.sample_record Running) r'"
proof -
  have "v_environments (durable_view (ac_store (sv_agent durable_service))) (Uuid 1)
      = Some (Agent_Properties.sample_record Running)"
    by (simp add: durable_service_def sample_core_def sample_store_def durable_view_def)
  moreover have "sd_agent durable_service_deps
      = core_service_ops (durable_agent sample_codec sample_provider (\<lambda>_. Inr 100))"
    by (simp add: durable_service_deps_def sample_agent_def)
  moreover have "durable_invar (ac_store (sv_agent durable_service))"
    using sample_store_invar(2) by (simp add: durable_service_def)
  ultimately show ?thesis
    using environments_persist_behind_the_router [of durable_service_deps sample_codec sample_provider
        "\<lambda>_. Inr 100" durable_service "Uuid 1"]
    by (fastforce simp: durable_service_deps_def)
qed



text \<open>
  C5. An answered operation was executed: when the transport delivers the router's answers and
  both sides read each other's envelopes, an operation that the controller reports as answered was
  executed by the Agent behind the router, once, as the control plane, for that Silo and as that
  operation, under the authentication of the paired credential, and the reported result is the
  router's result of the Agent's answer.
\<close>

theorem answered_operations_were_executed:
  assumes "digests_have_32_bytes (sd_auth S)" "codecs_agree S D" "delivers S D"
    and "send_operation D silo body c = (Inr result, c')"
  shows "\<exists>p. co_pairing c = Some p
    \<and> executed_as S (Some (pg_credential p)) (co_transport c) silo (operation_body_operation body)
        result (co_transport c')"
  by (rule send_operation_success [OF assms])

theorem answered_operations_were_executed_witness:
  "\<exists>c'. send_operation (stack_controller_deps stack_started) (Uuid 1)
        (operation_body.Start (Uuid 2) (Uuid 3)) stack_controller = (Inr stack_result, c')
    \<and> executed_as (stack_deps stack_started (stack_body stack_started)) (Some (nonce_of 97)) stack_service
        (Uuid 1) remote_operation.Start stack_result (co_transport c')"
proof -
  from stack_answered obtain c' where sent: "send_operation (stack_controller_deps stack_started) (Uuid 1)
      (operation_body.Start (Uuid 2) (Uuid 3)) stack_controller = (Inr stack_result, c')" by blast
  show ?thesis
    using answered_operations_were_executed [OF _ stack_codecs stack_delivers sent] sent
    by (simp add: stack_controller_def sample_pairing_def)
qed

end
