(* ===== verification/Remote_Agent_Properties.thy ===== *)
theory Remote_Agent_Properties
  imports Https_Properties Service_Properties
begin

text \<open>
  The properties of the whole Remote Agent behind its listener, of its configuration, of the
  provider bridge, and of the desktop's transport, each with a witness.
\<close>

section \<open>The Agent behind the listener\<close>

text \<open>
  C3. Concurrency changes nothing: whatever the interleaving of connections and workers, the
  router ends in the state, and the connections are sent the responses, of one sequential run of
  the router over the requests in the order in which the listener took them.
\<close>

theorem listener_serves_in_order:
  assumes "digests_have_32_bytes (sd_auth D)"
    and "listener_run T (service_handler D) s es s'"
  shows "\<exists>replies. service_run D (service_events es) (ln_handler s) = (replies, ln_handler s')
    \<and> concat (map event_answers es) = map (Application \<circ> as_application) replies"
  by (rule listener_run_service [OF assms])

text \<open>A request of the sample stack, as the bytes that carry it.\<close>

definition stack_bearer :: str where
  "stack_bearer = lit ''Bearer '' @ nonce_of 97"

definition stack_headers :: "(str \<times> nat list) list" where
  "stack_headers =
     (lit ''Authorization'', stack_bearer)
     # map (\<lambda>(name, v). (lit name, lit v))
         [(''Host'', ''agent''), (''Content-Length'', ''1''), (''Content-Type'', ''application/json''),
          (''X-VeriSilo-Protocol'', ''1'')]"

definition stack_tokenizer :: tokenizer where
  "stack_tokenizer limit bytes = Inr \<lparr>ht_consumed = Some (length bytes), ht_method = Some (lit ''POST''),
     ht_path = Some (lit ''/''), ht_version = Some 1, ht_headers = stack_headers\<rparr>"

definition stack_stream :: "read_event list" where
  "stack_stream = sending [[80, 13, 10, 13], [10, 3]] []"

definition stack_http_request :: parsed_http_request where
  "stack_http_request = \<lparr>hq_bearer = Some (nonce_of 97), hq_body = [3]\<rparr>"

lemma base64url_bytes: "list_all is_base64url token \<Longrightarrow> str_bytes token = token"
  by (induction token) (auto dest: base64url_ascii)

lemma str_trim_same:
  assumes "s \<noteq> []" "\<not> is_whitespace (hd s)" "\<not> is_whitespace (last s)"
  shows "str_trim s = s"
proof -
  have "dropWhile is_whitespace s = s" using assms(1,2) by (cases s) auto
  moreover have "dropWhile is_whitespace (rev s) = rev s"
    using assms(1,3) by (cases s rule: rev_cases) auto
  ultimately show ?thesis by (simp add: str_trim_def)
qed

lemma stack_bearer_facts:
  "from_utf8 stack_bearer = Some stack_bearer" "str_trim stack_bearer = stack_bearer"
  "\<not> list_ex is_control stack_bearer" "parse_bearer stack_bearer = Inr (nonce_of 97)"
proof -
  show "from_utf8 stack_bearer = Some stack_bearer"
    by (rule ascii_from_utf8) (simp add: stack_bearer_def lit_def nonce_of_def list_all_iff)
  show "str_trim stack_bearer = stack_bearer"
    by (rule str_trim_same) (simp_all add: stack_bearer_def lit_def nonce_of_def is_whitespace_def)
  show "\<not> list_ex is_control stack_bearer"
    by (simp add: stack_bearer_def lit_def nonce_of_def is_control_def list_ex_iff)
  have "list_all is_base64url (nonce_of 97)" by (simp add: nonce_of_def list_all_iff ascii_class_defs)
  then show "parse_bearer stack_bearer = Inr (nonce_of 97)"
    by (simp add: stack_bearer_def parse_bearer_Inr str_len_def base64url_bytes) (simp add: nonce_of_def)
qed

lemma stack_fields:
  "take_headers [] stack_headers no_header_fields
     = Inr \<lparr>hf_host = Some (lit ''agent''), hf_content_length = Some 1,
            hf_content_type = Some (lit ''application/json''), hf_protocol = Some (lit ''1''),
            hf_bearer = Some (nonce_of 97)\<rparr>"
proof -
  have "to_ascii_lowercase (lit ''Authorization'') = lit ''authorization''"
    by (simp add: lit_def to_ascii_lowercase_def ascii_lower_def ascii_class_defs)
  then have "take_headers [] ((lit ''Authorization'', stack_bearer) # headers) no_header_fields
      = take_headers [lit ''authorization''] headers (no_header_fields\<lparr>hf_bearer := Some (nonce_of 97)\<rparr>)"
    for headers
    by (simp add: Let_def stack_bearer_facts take_header_def lit_eq_iff)
  then show ?thesis
    by (simp add: stack_headers_def Let_def lit_def ascii_from_utf8 to_ascii_lowercase_def
        ascii_lower_def ascii_class_defs str_trim_def is_whitespace_def is_control_def take_header_def
        parse_content_length_def parse_usize_def decimal_value_def MAX_MESSAGE_BYTES_def
        no_header_fields_def del: from_utf8.simps(2))
qed

lemma stack_read: "read_http_request stack_tokenizer stack_stream = (Inr stack_http_request, [])"
proof -
  have "parse_http_head stack_tokenizer bytes = Inr \<lparr>hh_content_length = 1, hh_bearer = Some (nonce_of 97)\<rparr>"
    for bytes
    by (simp add: parse_http_head_def stack_tokenizer_def head_line_ok_def stack_fields lit_def
        str_len_def eq_ignore_ascii_case_def)
  then have "parse_http_request_bytes stack_tokenizer (concat [[80, 13, 10, 13], [10, 3]])
      = Inr stack_http_request"
    by (simp add: parse_http_request_bytes_def find_header_end_Cons crlf_crlf_def
        checked_usize_add_def stack_http_request_def MAX_HEADER_BYTES_def)
  from read_http_request_complete [OF this, of "[]"] show ?thesis by (simp add: stack_stream_def)
qed

text \<open>One request of the desktop, from the bytes on the stream to the answer of the sample router.\<close>

definition stack_answer :: connection_response where
  "stack_answer = Application \<lparr>ap_status_code = 200, ap_body = [2]\<rparr>"

lemma stack_run:
  "\<exists>st. listener_run stack_tokenizer (service_handler (stack_deps stack_started (stack_body stack_started)))
     (listener_start stack_service 1) (one_request_events stack_stream stack_http_request stack_answer)
     (loop_state Accepting (stack_after st 1 1 2 (is_store_error stack_started)) 0 []
       [0 \<mapsto> Finished (write_connection_response stack_answer)] 1 [0])"
proof -
  obtain st where "route (stack_deps stack_started (stack_body stack_started)) (Some (nonce_of 97)) [3]
      stack_service = (protocol_response [2], stack_after st 1 1 2 (is_store_error stack_started))"
    using stack_route [of "[3]" stack_started] by (auto simp: MAX_MESSAGE_BYTES_def)
  then have "dispatch_ready_request (service_handler (stack_deps stack_started (stack_body stack_started)))
      stack_http_request stack_service
      = (stack_answer, stack_after st 1 1 2 (is_store_error stack_started))"
    by (simp add: dispatch_ready_request_def service_handler_def stack_http_request_def stack_answer_def
        protocol_response_def application_response_valid_def MAX_MESSAGE_BYTES_def)
  from one_request_run [OF stack_read this] show ?thesis by blast
qed

theorem listener_serves_in_order_witness:
  "\<exists>replies v. service_run (stack_deps stack_started (stack_body stack_started))
      [Incoming (Some (nonce_of 97)) [3]] stack_service = (replies, v)
    \<and> map (Application \<circ> as_application) replies = [stack_answer]"
proof -
  obtain s where run: "listener_run stack_tokenizer
      (service_handler (stack_deps stack_started (stack_body stack_started))) (listener_start stack_service 1)
      (one_request_events stack_stream stack_http_request stack_answer) s"
    using stack_run by blast
  from listener_serves_in_order [OF _ run] show ?thesis
    by (fastforce simp: one_request_events_def service_events_def stack_http_request_def listener_start_def)
qed

lemma answers_of_events:
  "answers_of i es = [(request, response)] \<Longrightarrow> response \<in> set (concat (map event_answers es))"
proof -
  assume "answers_of i es = [(request, response)]"
  then have "(request, response) \<in> set (answers_of i es)" by simp
  then obtain e where "e \<in> set es" "e = Dispatched i request response"
    by (auto simp: answers_of_def split: listener_event.splits if_splits)
  then show ?thesis by (auto intro!: bexI [of _ e])
qed

text \<open>
  Every connection that the router serves gets one whole response: as long as the loop runs, in
  every interleaving, a connection that has ended was written a head with one of the listener's
  statuses that declares the length of the body, and then exactly that body of at most 64 KiB.
\<close>

theorem served_connections_get_whole_responses:
  assumes "digests_have_32_bytes (sd_auth D)"
    and "listener_run T (service_handler D) (listener_start v now) es s"
    and "ln_connection s i = Some (Finished output)" and "ln_phase s \<noteq> Closed"
  shows "\<exists>status_code body bytes. output = Some bytes \<and> whole_response status_code body bytes"
proof -
  have "story_ok T es s" by (rule story_run [OF assms(2)]) simp
  then have "worker_story T i es (ln_connection s i)" by (simp add: story_ok_def)
  then have "own_reply T i es output" using assms(3) by simp
  then show ?thesis unfolding own_reply_def
  proof (elim disjE exE conjE)
    fix stream rejection
    assume "output = write_fixed_error (http_status_code rejection) (public_code rejection)"
    with rejection_written [of rejection] show ?thesis by auto
  next
    fix request response
    assume answered: "answers_of i es = [(request, response)]" "output = write_connection_response response"
    from router.run_good [OF assms(2)] assms(1) answers_of_events [OF answered(1)]
    obtain valid where "response = Application valid" "application_response_valid valid"
      by (auto simp: list_all_iff)
    with valid_response_written [of valid] answered(2) show ?thesis by metis
  next
    fix request
    assume "answers_of i es = []" "output = None"
    moreover have "silent_when_closed es s"
      by (rule silent_when_closed_run [OF assms(2)]) simp_all
    ultimately show ?thesis using assms(3,4) by (auto simp: silent_when_closed_def)
  qed
qed

theorem served_connections_get_whole_responses_witness:
  "\<exists>status_code body bytes. write_connection_response stack_answer = Some bytes
     \<and> whole_response status_code body bytes"
proof -
  obtain st where run: "listener_run stack_tokenizer
      (service_handler (stack_deps stack_started (stack_body stack_started))) (listener_start stack_service 1)
      (one_request_events stack_stream stack_http_request stack_answer)
      (loop_state Accepting (stack_after st 1 1 2 (is_store_error stack_started)) 0 []
         [0 \<mapsto> Finished (write_connection_response stack_answer)] 1 [0])"
    using stack_run by blast
  show ?thesis
    by (rule served_connections_get_whole_responses [OF _ run, where i = 0]) (simp_all add: loop_state_def)
qed

text \<open>
  C11. The environments of the Agent outlive the service: over any interleaving of connections,
  requests and maintenance ticks, a recorded environment of the on-disk Agent behind the listener
  keeps its identity and lifetime, keeps its volume once provisioned and never changes once
  deleted.
\<close>

theorem environments_persist_behind_the_listener:
  assumes "digests_have_32_bytes (sd_auth S)" and "sd_agent S = core_service_ops (durable_agent C P J)"
    and "durable_invar (ac_store (sv_agent (ln_handler s)))"
    and "listener_run T (service_handler S) s es s'"
    and "v_environments (durable_view (ac_store (sv_agent (ln_handler s)))) silo = Some r"
  shows "\<exists>r'. v_environments (durable_view (ac_store (sv_agent (ln_handler s')))) silo = Some r'
    \<and> same_identity r r'
    \<and> (er_state r = environment_state.Deleted \<longrightarrow> r' = r)
    \<and> (er_state r \<noteq> Provisioning \<longrightarrow> er_state r' \<noteq> Provisioning \<and> er_volume r' = er_volume r)"
proof -
  from listener_run_service [OF assms(1,4)] obtain replies
    where "service_run S (service_events es) (ln_handler s) = (replies, ln_handler s')" by blast
  with environments_persist_behind_the_router [OF assms(1-3,5), of "service_events es"]
  show ?thesis by simp
qed

theorem environments_persist_behind_the_listener_witness:
  "\<exists>s' r'. listener_run stack_tokenizer (service_handler durable_service_deps)
        (listener_start durable_service 1) (one_request_events stack_stream stack_http_request
           (fst (dispatch_ready_request (service_handler durable_service_deps) stack_http_request durable_service))) s'
    \<and> v_environments (durable_view (ac_store (sv_agent (ln_handler s')))) (Uuid 1) = Some r'
    \<and> same_identity (Agent_Properties.sample_record environment_state.Running) r'"
proof -
  let ?H = "service_handler durable_service_deps"
  obtain response v where answer:
      "dispatch_ready_request ?H stack_http_request durable_service = (response, v)" by force
  note run = one_request_run [OF stack_read answer]
  have "v_environments (durable_view (ac_store (sv_agent durable_service))) (Uuid 1)
      = Some (Agent_Properties.sample_record environment_state.Running)"
    by (simp add: durable_service_def sample_core_def sample_store_def durable_view_def)
  moreover have "sd_agent durable_service_deps
      = core_service_ops (durable_agent sample_codec sample_provider (\<lambda>_. Inr 100))"
    by (simp add: durable_service_deps_def sample_agent_def)
  moreover have "durable_invar (ac_store (sv_agent durable_service))"
    using sample_store_invar(2) by (simp add: durable_service_def)
  moreover have "digests_have_32_bytes (sd_auth durable_service_deps)"
    by (simp add: durable_service_deps_def)
  ultimately show ?thesis
    using environments_persist_behind_the_listener [of durable_service_deps sample_codec sample_provider
        "\<lambda>_. Inr 100" "listener_start durable_service 1" stack_tokenizer _ _ "Uuid 1", OF _ _ _ run] run answer
    by (fastforce simp: listener_start_def)
qed

end
