(* ===== verification/Deployment_Properties.thy ===== *)
theory Deployment_Properties
  imports Remote_Agent_Properties
begin

text \<open>
  The properties of what surrounds the Agent: its configuration, the provider that it runs, and the
  desktop's transport, each with a witness; and what the checks of the configuration miss.
\<close>

section \<open>The configuration\<close>

text \<open>
  What the configuration gate accepts is accepted by everything behind it: its lifetime is in
  range and has no overflow, the router builds for every store, Agent and clock, the Agent takes
  the provider's capabilities, and both stores take their paths, except that the authentication
  store may still find a symbolic link.
\<close>

theorem accepted_configurations_build_the_service:
  assumes "configuration_validate L cfg = Inr ()"
  shows "\<exists>ms. configuration_credential_lifetime_ms cfg = Inr ms
    \<and> (\<forall>auth agent clock. \<exists>v. agent_service_new auth agent (sf_node cfg)
          (provider_capabilities (sf_provider cfg)) clock ms = Inr v)
    \<and> Agent_Types.validate_capabilities (provider_capabilities (sf_provider cfg)) = Inr ()
    \<and> validate_state_path (auth_path_of L (sf_auth_state_path cfg)) = reject_symlink_if_present
    \<and> sp_is_absolute (state_path_of (sf_agent_state_path cfg))"
  using configuration_lifetime [OF assms] configuration_service [OF assms]
    server_capabilities_pass(2) [OF configuration_validate_Inr(5) [OF assms]]
    configuration_auth_path [OF assms] configuration_agent_path [OF assms]
  by (metis (no_types, lifting) ext)

definition unavailable_capabilities :: "remote_capability list" where
  "unavailable_capabilities = map (\<lambda>operation. \<lparr>cap_operation = operation,
     cap_availability = capability_availability.Unavailable (lit ''none'')\<rparr>) ALL_OPERATIONS"

text \<open>A deployment in which no state file exists yet.\<close>

definition fresh_files :: local_files where
  "fresh_files = \<lparr>lf_canonicalize = Some, lf_exists = (\<lambda>_. False), lf_metadata = (\<lambda>_. None),
     lf_symlink_metadata = (\<lambda>_. None), lf_read = (\<lambda>_ _. None)\<rparr>"

definition fresh_configuration :: "string \<Rightarrow> string \<Rightarrow> server_configuration" where
  "fresh_configuration auth_path agent_path =
     \<lparr>sf_listen_address = \<lparr>so_ip = [127, 0, 0, 1], so_port = 8443\<rparr>,
      sf_tls_certificate_chain_path = lit ''/c'', sf_tls_private_key_path = lit ''/k'',
      sf_auth_state_path = lit auth_path, sf_agent_state_path = lit agent_path,
      sf_credential_lifetime_seconds = 3600, sf_node = Agent_Properties.sample_node,
      sf_provider = local_provider_configuration.Unavailable unavailable_capabilities\<rparr>"

lemma sample_node_identified: "nd_node_id Agent_Properties.sample_node \<noteq> nil_uuid"
  by (simp add: Agent_Properties.sample_node_def nil_uuid_def)

lemma unavailable_capabilities_valid:
  "server_validate_capabilities unavailable_capabilities = Inr ()"
  "\<not> list_ex (\<lambda>capability. cap_availability capability = Available) unavailable_capabilities"
  by (simp_all add: server_validate_capabilities_def unavailable_capabilities_def ALL_OPERATIONS_def
      count_capability_def capability_is_available_def lit_def str_len_def str_trim_def
      is_whitespace_def is_control_def)

lemmas path_defs =
  path_components_def path_is_absolute_def path_part_def path_file_name_def path_parent_def
  path_with_extension_def file_stem_of_def valid_absolute_path_def same_path_def
  canonical_parent_def optional_private_state_file_def MAX_PATH_BYTES_def Let_def

lemma fresh_configuration_valid:
  "configuration_validate fresh_files (fresh_configuration ''/s/u'' ''/s/v'') = Inr ()"
  by (simp add: configuration_validate_def fresh_configuration_def fresh_files_def configured_paths_def
      path_defs lit_def str_len_def Agent_Properties.sample_node_valid sample_node_identified
      unavailable_capabilities_valid)

theorem accepted_configurations_build_the_service_witness:
  "\<exists>ms v. configuration_credential_lifetime_ms (fresh_configuration ''/s/u'' ''/s/v'') = Inr ms
     \<and> agent_service_new stack_auth_store (0 :: nat) Agent_Properties.sample_node unavailable_capabilities
         Controller_Samples.sample_host ms = Inr v"
  using accepted_configurations_build_the_service [OF fresh_configuration_valid]
  by (force simp: fresh_configuration_def)

text \<open>
  The gate compares the configured paths with each other, but not with the backup that the Agent's
  store keeps beside its state file: a configuration passes in which the backup of the Agent's
  state is the authentication state, which the Agent's store then removes or overwrites.
\<close>

theorem backup_may_be_the_auth_state:
  "configuration_validate fresh_files (fresh_configuration ''/s/v.bak'' ''/s/v.db'') = Inr ()
   \<and> path_with_extension (lit ''bak'')
        (sf_agent_state_path (fresh_configuration ''/s/v.bak'' ''/s/v.db''))
      = sf_auth_state_path (fresh_configuration ''/s/v.bak'' ''/s/v.db'')"
proof
  show "configuration_validate fresh_files (fresh_configuration ''/s/v.bak'' ''/s/v.db'') = Inr ()"
    by (simp add: configuration_validate_def fresh_configuration_def fresh_files_def configured_paths_def
        path_defs lit_def str_len_def Agent_Properties.sample_node_valid sample_node_identified
        unavailable_capabilities_valid)
qed (simp add: fresh_configuration_def path_defs lit_def)

text \<open>
  A path may contain a component \<open>.\<close>, although the check is there to refuse it: the components of
  an absolute path never include one.
\<close>

theorem dot_components_are_accepted:
  "valid_absolute_path (lit ''/s/./v'')"
  "path_is_absolute path \<Longrightarrow> CurDir \<notin> set (path_components path)"
  by (simp add: path_defs lit_def str_len_def) (auto simp: path_components_def path_part_def Let_def)

section \<open>The desktop's transport\<close>





lemma digest_text: "concat (map (show_hex 2) (replicate 32 170)) = replicate 64 97"
proof -
  have "concat (replicate n [97, 97]) = replicate (2 * n) (97 :: nat)" for n :: nat
    by (induction n) simp_all
  moreover have "show_hex 2 170 = [97, 97]" by (simp add: numeral_2_eq_2 hex_digit_def)
  ultimately show ?thesis by simp
qed

lemma nonce_credential: "validate_bearer_credential (nonce_of 97) = Inr ()"
proof -
  have "list_all is_base64url (nonce_of 97)" by (simp add: nonce_of_def list_all_iff ascii_class_defs)
  moreover from this have "str_bytes (nonce_of 97) = nonce_of 97" by (rule base64url_bytes)
  ultimately show ?thesis
    by (simp add: validate_bearer_credential_def str_len_def) (simp add: nonce_of_def)
qed



text \<open>
  The bearer that the desktop sends is the bearer that the listener reads: for every credential
  that the transport accepts, the authorization header parses back to that credential.
\<close>

theorem bearer_round_trips:
  assumes "authorization_header (Some secret) = Inr header"
  shows "\<exists>v. header = Some v \<and> parse_bearer v = Inr secret"
proof -
  from assms have valid: "validate_bearer_credential secret = Inr ()"
    by (auto simp: authorization_header_def)
  moreover from this have "parse_bearer (lit ''Bearer '' @ secret) = Inr secret"
    by (simp add: parse_bearer_Inr validate_bearer_credential_def split: if_splits)
  ultimately show ?thesis using assms bearer_credential_header by auto
qed

theorem bearer_round_trips_witness:
  "parse_bearer (lit ''Bearer '' @ nonce_of 97) = Inr (nonce_of 97)"
  using bearer_round_trips [OF bearer_credential_header [OF nonce_credential]] by simp

section \<open>The provider\<close>

text \<open>
  C24. Only the pinned executable runs: for a provider that the Agent was configured with, a call
  either leaves the world as it was and fails, or the executable at the configured path had the
  configured digest when the call began; and an answered call is one run of it, with the
  fixed argument and the request on its input, that ended in time and in success, whose output
  of at most 64 KiB is the response.
\<close>

theorem only_the_pinned_provider_runs:
  assumes "stdio_provider_new X path sha256 capabilities w0 = Inr p"
    and "provider_exchange X p request w = (r, w')"
  shows "(runs_pinned_executable X p w \<or> isl r \<and> w' = w) \<and> bp_executable_sha256 p = sha256
    \<and> (\<forall>response. r = Inr response \<longrightarrow> provider_answered X p request w response w')"
proof -
  from assms(1) have pin: "bp_executable_sha256 p = sha256" "validate_provider_digest sha256 = Inr ()"
    by (auto simp: stdio_provider_new_def Let_def split: if_splits)
  then have hex: "list_all is_lower_hex (str_bytes (bp_executable_sha256 p))"
    by (simp add: validate_provider_digest_def split: if_splits)
  show ?thesis
  proof (cases "verify_executable X p w")
    case (Inl error)
    from provider_exchange_refused [OF this] assms(2) pin(1) show ?thesis by auto
  next
    case (Inr u)
    then have "runs_pinned_executable X p w" using verify_executable_pinned [OF _ hex] by simp
    with assms(2) pin(1) show ?thesis by (auto dest: provider_exchange_Inr)
  qed
qed

definition sample_process :: provider_process where
  "sample_process = \<lparr>pp_written = Inr (), pp_poll = (\<lambda>i. if i = 0 then provider_poll.Running else Exited True),
     pp_late = (\<lambda>_. 0), pp_stdout = StreamOf [1], pp_stderr = StreamOf []\<rparr>"

definition sample_provider_host :: "nat provider_host" where
  "sample_provider_host = \<lparr>po_canonicalize = (\<lambda>_ path. Inr path),
     po_metadata = (\<lambda>_ _. Inr \<lparr>fm_is_symlink = False, fm_is_file = True, fm_len = 9, fm_mode = 493\<rparr>),
     po_open = (\<lambda>_ _. Inr ()), po_content = (\<lambda>_ _. Inr [7]), po_sha256 = (\<lambda>_. replicate 32 170),
     po_spawn = (\<lambda>_ _ _ w. (Inr sample_process, w + 1)), po_encode = (\<lambda>_. Inr [2]),
     po_decode = (\<lambda>_. Inr (provider_response.InputAccepted True))\<rparr>"

definition sample_stdio_provider :: stdio_provider where
  "sample_stdio_provider = \<lparr>bp_executable_path = lit ''/p'', bp_executable_sha256 = replicate 64 97,
     bp_capabilities = unavailable_capabilities\<rparr>"

lemma sample_provider_verified: "verify_executable sample_provider_host sample_stdio_provider w = Inr ()"
proof -
  have "str_bytes (replicate 64 97) = replicate 64 97"
    by (rule str_bytes_lower_hex) (simp add: ascii_class_defs)
  moreover have "provider_constant_time_eq (replicate 64 97) (replicate 64 97)"
    by (subst provider_constant_time_eq_iff) simp_all
  ultimately show ?thesis
    by (simp add: verify_executable_def secure_provider_path_def sha256_file_def sample_provider_host_def
        sample_stdio_provider_def path_is_absolute_def lit_def same_path_def MAX_PROVIDER_BYTES_def
        digest_text del: map_replicate)
qed

lemma sample_provider_built:
  "stdio_provider_new sample_provider_host (lit ''/p'') (replicate 64 97) unavailable_capabilities w
     = Inr sample_stdio_provider"
proof -
  have bytes: "str_bytes (replicate 64 97) = replicate 64 97"
    by (rule str_bytes_lower_hex) (simp add: ascii_class_defs)
  then have "validate_provider_digest (replicate 64 97) = Inr ()"
    by (simp add: validate_provider_digest_def str_len_def list_all_iff ascii_class_defs)
  moreover have "secure_provider_path sample_provider_host w (lit ''/p'') = Inr (lit ''/p'')"
    by (simp add: secure_provider_path_def sample_provider_host_def path_is_absolute_def lit_def
        MAX_PROVIDER_BYTES_def)
  ultimately show ?thesis
    using unavailable_capabilities_valid(1) sample_provider_verified [of w]
    by (simp add: stdio_provider_new_def server_validate_capabilities_def Let_def
        flip: sample_stdio_provider_def split: if_splits)
qed

lemma sample_provider_answers:
  "provider_exchange sample_provider_host sample_stdio_provider request 0
     = (Inr (provider_response.InputAccepted True), 1)"
proof -
  have "wait_for_provider (pp_poll sample_process) (pp_late sample_process) 0 0 = Inr True"
    by (simp add: sample_process_def wait_for_provider.simps PROVIDER_TIMEOUT_def)
  moreover have "collect_response sample_provider_host sample_process True
      = Inr (provider_response.InputAccepted True)"
    by (simp add: collect_response_def bounded_read_def sample_process_def sample_provider_host_def
        accepted_response_def MAX_MESSAGE_BYTES_def)
  moreover have "po_encode sample_provider_host request = Inr [2]"
    "po_spawn sample_provider_host path arguments payload 0 = (Inr sample_process, 1)" for path arguments payload
    by (simp_all add: sample_provider_host_def)
  moreover have "pp_written sample_process = Inr ()" by (simp add: sample_process_def)
  ultimately show ?thesis
    by (simp add: provider_exchange_def sample_provider_verified MAX_MESSAGE_BYTES_def)
qed

theorem only_the_pinned_provider_runs_witness:
  "provider_answered sample_provider_host sample_stdio_provider
      (SendInput PROVIDER_PROTOCOL_VERSION (Agent_Properties.sample_record environment_state.Running)
         (Uuid 5) []) 0 (provider_response.InputAccepted True) 1
    \<and> runs_pinned_executable sample_provider_host sample_stdio_provider 0"
  using only_the_pinned_provider_runs [OF sample_provider_built sample_provider_answers] by simp

text \<open>
  Waiting for the provider ends: the result of the wait is decided by the first 1,501 polls and
  the pauses between them, whatever the process would do later.
\<close>

theorem provider_wait_ends:
  assumes "\<forall>i \<le> 1500. polls i = polls' i \<and> late i = late' i"
  shows "wait_for_provider polls late 0 0 = wait_for_provider polls' late' 0 0"
  by (rule wait_for_provider_cong) (use assms in \<open>auto simp: PROVIDER_TIMEOUT_def\<close>)

theorem provider_wait_ends_witness:
  "wait_for_provider (\<lambda>_. provider_poll.Running) (\<lambda>_. 0) 0 0
     = wait_for_provider (\<lambda>i. if i \<le> 1500 then provider_poll.Running else Exited True) (\<lambda>_. 0) 0 0"
  by (rule provider_wait_ends) simp

end
