(* ===== verification/Silo_Types.thy ===== *)
theory Silo_Types
  imports Complex_Main Wire_Protocol
begin

text \<open>
  The desktop's data model of a Silo (\<open>domain.rs\<close>, with the engine configuration of \<open>engine.rs\<close>):
  browser, execution target, network profile, identity engine, and the inputs of the operations
  that create and change a Silo.
\<close>

section \<open>Times and floating point numbers\<close>

text \<open>
  \<open>DateTime<Utc>\<close> in nanoseconds since the epoch, without the bounds of \<open>chrono\<close> (about 262,000
  years on either side); a duration is a difference of times.
\<close>

type_synonym time = int

definition seconds :: "int \<Rightarrow> time" where "seconds n = n * 1000000000"
definition minutes :: "int \<Rightarrow> time" where "minutes n = seconds (60 * n)"

text \<open>A finite \<open>f64\<close> is a rational number; the code only asks whether it is finite and in a range.\<close>

datatype f64 = Finite rat | Infinite | NotANumber

definition f64_between :: "rat \<Rightarrow> rat \<Rightarrow> f64 \<Rightarrow> bool" where
  "f64_between low high x \<longleftrightarrow> (case x of Finite r \<Rightarrow> low \<le> r \<and> r \<le> high | _ \<Rightarrow> False)"

section \<open>Browser and execution target\<close>

definition SILO_SCHEMA_VERSION :: u32 where "SILO_SCHEMA_VERSION = 3"

datatype browser_kind = Chrome | Edge

record browser_descriptor =
  brd_kind :: browser_kind
  brd_executable_path :: str
  brd_version :: "str option"

datatype silo_execution_target =
    Local
  | Wsl str
  | Remote str

fun is_local :: "silo_execution_target \<Rightarrow> bool" where
  "is_local Local = True"
| "is_local _ = False"

section \<open>Network profile\<close>

datatype proxy_scheme = Http | Https | Socks4 | Socks5

record external_mihomo_binding =
  emb_controller_url :: str
  emb_selector_group :: str
  emb_node_name :: str
  emb_controller_secret_reference :: "uuid option"

text \<open>
  The arguments of a fixed proxy are \<open>proxy_required\<close>, \<open>scheme\<close>, \<open>host\<close>, \<open>port\<close>, \<open>bypass_list\<close>,
  \<open>credential_reference\<close> and \<open>external_mihomo\<close>; those of a PAC profile \<open>proxy_required\<close> and
  \<open>pac_url\<close>.
\<close>

datatype network_profile =
    Direct bool
  | FixedProxy bool proxy_scheme str u16 "str list" "uuid option" "external_mihomo_binding option"
  | Pac bool str

fun requires_proxy :: "network_profile \<Rightarrow> bool" where
  "requires_proxy (Direct proxy_required) = proxy_required"
| "requires_proxy (FixedProxy proxy_required _ _ _ _ _ _) = proxy_required"
| "requires_proxy (Pac proxy_required _) = proxy_required"

fun credential_reference :: "network_profile \<Rightarrow> uuid option" where
  "credential_reference (FixedProxy _ _ _ _ _ reference _) = reference"
| "credential_reference _ = None"

fun external_mihomo :: "network_profile \<Rightarrow> external_mihomo_binding option" where
  "external_mihomo (FixedProxy _ _ _ _ _ _ binding) = binding"
| "external_mihomo _ = None"

definition mihomo_controller_secret_reference :: "network_profile \<Rightarrow> uuid option" where
  "mihomo_controller_secret_reference profile =
     Option.bind (external_mihomo profile) emb_controller_secret_reference"

section \<open>Identity engine\<close>

datatype browser_family = Chromium | Firefox

record identity_operating_system =
  ios_family :: str
  ios_version :: str
  ios_architecture :: str

record identity_ua_ch_brand =
  uab_brand :: str
  uab_version :: str

record identity_ua_ch =
  uac_brands :: "identity_ua_ch_brand list"
  uac_platform :: str
  uac_platform_version :: str
  uac_architecture :: str
  uac_bitness :: str
  uac_mobile :: bool

record identity_browser =
  idb_family :: browser_family
  idb_major_version :: u16
  idb_user_agent :: str
  idb_ua_ch :: "identity_ua_ch option"

record identity_languages =
  idl_primary :: str
  idl_accepted :: "str list"

record identity_screen =
  ids_width :: u32
  ids_height :: u32
  ids_available_width :: u32
  ids_available_height :: u32
  ids_device_pixel_ratio :: f64
  ids_color_depth :: u8

datatype canvas_mode = Native | Normalized | Controlled

record identity_render =
  idr_canvas :: canvas_mode
  idr_web_gl_vendor :: "str option"
  idr_web_gl_renderer :: "str option"

record identity_media =
  idm_microphones :: u8
  idm_cameras :: u8
  idm_speakers :: u8
  idm_labels_exposed :: bool

datatype desired_quic = BrowserDefault | Disabled

record identity_network =
  idn_proxy_required :: bool
  idn_country_code :: "str option"
  idn_timezone :: "str option"
  idn_locale :: "str option"
  idn_desired_quic :: desired_quic

record identity_template =
  idt_schema_version :: u32
  idt_template_id :: uuid
  idt_os :: identity_operating_system
  idt_browser :: identity_browser
  idt_languages :: identity_languages
  idt_timezone :: str
  idt_screen :: identity_screen
  idt_render :: identity_render
  idt_fonts :: "str list"
  idt_media :: identity_media
  idt_network :: identity_network

datatype engine_capability_id =
    ProfileIsolation | LaunchNetwork | IdentityTemplate | UaUaCh | LanguageTimezone | Screen | Canvas
  | Webgl | Fonts | MediaDevices | RequestHeaders | Window | Iframe | DedicatedWorker
  | TlsClientHello | Quic | SiteFallback

datatype site_fallback_action = RestoreExperimentalControls | RestoreThenReload

record site_fallback_rule =
  sfr_site_pattern :: str
  sfr_disable_capabilities :: "engine_capability_id list"
  sfr_action :: site_fallback_action

record artifact_binding =
  cab_artifact_id :: str
  cab_artifact_file_sha256 :: str
  cab_schema :: str

datatype engine_adapter_id = StockChrome | StockEdge | ControlledChromium | Camoufox

datatype silo_engine_config =
    Stock
  | ControlledChromium identity_template "site_fallback_rule list"
  | Camoufox "identity_template option" "site_fallback_rule list" "artifact_binding option"

fun adapter_id :: "silo_engine_config \<Rightarrow> browser_kind \<Rightarrow> engine_adapter_id" where
  "adapter_id Stock Chrome = StockChrome"
| "adapter_id Stock Edge = StockEdge"
| "adapter_id (silo_engine_config.ControlledChromium _ _) _ = engine_adapter_id.ControlledChromium"
| "adapter_id (silo_engine_config.Camoufox _ _ _) _ = engine_adapter_id.Camoufox"

fun is_stock :: "silo_engine_config \<Rightarrow> bool" where
  "is_stock Stock = True"
| "is_stock _ = False"

fun is_camoufox :: "silo_engine_config \<Rightarrow> bool" where
  "is_camoufox (silo_engine_config.Camoufox _ _ _) = True"
| "is_camoufox _ = False"

fun engine_identity_template :: "silo_engine_config \<Rightarrow> identity_template option" where
  "engine_identity_template (silo_engine_config.ControlledChromium template _) = Some template"
| "engine_identity_template _ = None"

fun camoufox_artifact_binding :: "silo_engine_config \<Rightarrow> artifact_binding option" where
  "camoufox_artifact_binding (silo_engine_config.Camoufox _ _ binding) = binding"
| "camoufox_artifact_binding _ = None"

text \<open>\<open>Path::join\<close> with a relative path.\<close>

definition path_join :: "str \<Rightarrow> str \<Rightarrow> str" where
  "path_join base part =
     (if base = [] then part else if last base = 47 then base @ part else base @ [47] @ part)"

text \<open>The three profile directories a Silo may use, one per engine.\<close>

fun engine_profile_directory :: "silo_engine_config \<Rightarrow> str \<Rightarrow> str" where
  "engine_profile_directory Stock stock = stock"
| "engine_profile_directory (silo_engine_config.ControlledChromium _ _) stock =
     path_join (path_join stock (lit ''engines'')) (lit ''controlled-chromium'')"
| "engine_profile_directory (silo_engine_config.Camoufox _ _ _) stock =
     path_join (path_join stock (lit ''engines'')) (lit ''camoufox'')"

definition all_profile_directories :: "str \<Rightarrow> str list" where
  "all_profile_directories stock =
     [stock, path_join (path_join stock (lit ''engines'')) (lit ''controlled-chromium''),
      path_join (path_join stock (lit ''engines'')) (lit ''camoufox'')]"

section \<open>Silos and the inputs of their operations\<close>

record silo =
  sil_id :: uuid
  sil_schema_version :: u32
  sil_name :: str
  sil_color :: str
  sil_browser :: "browser_descriptor option"
  sil_execution_target :: silo_execution_target
  sil_profile_directory :: str
  sil_network_profile :: network_profile
  sil_engine :: silo_engine_config
  sil_seed_reference :: uuid
  sil_created_at :: time
  sil_identity_locked_at :: "time option"
  sil_archived_at :: "time option"

text \<open>\<open>Silo::adapter_id\<close> panics on a stock Silo without a browser.\<close>

definition silo_adapter_id :: "silo \<Rightarrow> engine_adapter_id option" where
  "silo_adapter_id s =
     (if is_stock (sil_engine s)
      then map_option (\<lambda>browser. adapter_id (sil_engine s) (brd_kind browser)) (sil_browser s)
      else Some (adapter_id (sil_engine s) Chrome))"

record proxy_credentials_input =
  pci_username :: str
  pci_password :: str

record create_silo_input =
  csi_name :: str
  csi_color :: str
  csi_browser_kind :: browser_kind
  csi_executable_path :: str
  csi_execution_target :: silo_execution_target
  csi_network_profile :: network_profile
  csi_engine :: silo_engine_config
  csi_proxy_credentials :: "proxy_credentials_input option"
  csi_mihomo_controller_secret :: "str option"

record update_silo_input =
  usi_name :: str
  usi_color :: str
  usi_browser_kind :: browser_kind
  usi_executable_path :: str

record update_silo_network_input =
  uni_network_profile :: network_profile
  uni_proxy_credentials :: "proxy_credentials_input option"
  uni_mihomo_controller_secret :: "str option"

datatype managed_identity_preset =
    BalancedEnUs | BalancedZhCn | BalancedDeDe | BalancedJaJp | BalancedKoKr | BalancedEnGb
  | BalancedFrFr | BalancedEsEs | BalancedItIt | BalancedRuRu | BalancedPtBr | BalancedEnCa
  | BalancedEnAu | BalancedEnIn | BalancedEnSg | BalancedEnPh | BalancedTrTr | BalancedArEg
  | MatchFixedProxy

record managed_identity_intent =
  mii_identity_preset :: managed_identity_preset
  mii_follow_network_exit :: bool
  mii_screen_width :: u32
  mii_screen_height :: u32
  mii_hardware_concurrency :: "u32 option"
  mii_gpu_preset :: "str option"
  mii_timezone :: "str option"

record create_managed_silo_input =
  cmi_name :: str
  cmi_color :: str
  cmi_identity_intent :: managed_identity_intent
  cmi_network_profile :: network_profile
  cmi_proxy_credentials :: "proxy_credentials_input option"
  cmi_mihomo_controller_secret :: "str option"

datatype domain_error =
    InvalidSilo str
  | InvalidNetwork str
  | InvalidEngine str

text \<open>The message of an error, as \<open>Display\<close> prints it.\<close>

fun domain_error_to_string :: "domain_error \<Rightarrow> str" where
  "domain_error_to_string (InvalidSilo why) = lit ''Invalid Silo: '' @ why"
| "domain_error_to_string (InvalidNetwork why) = lit ''Invalid network profile: '' @ why"
| "domain_error_to_string (InvalidEngine why) = lit ''Invalid engine configuration: '' @ why"

end
