(* ===== verification/Silo_Validation.thy ===== *)
theory Silo_Validation
  imports Silo_Types Http_Request
begin

text \<open>
  The validators of the desktop's data model: identity templates, fallback rules and Artifact
  bindings (\<open>engine.rs\<close>), network profiles, execution targets and the inputs of the Silo operations
  (\<open>domain.rs\<close>). \<open>Url::parse\<close> is the parameter \<open>parse_url\<close>, whose result also has the port.
\<close>

section \<open>Strings\<close>

definition is_ascii_alphabetic :: "nat \<Rightarrow> bool" where
  "is_ascii_alphabetic c \<longleftrightarrow> is_ascii_uppercase c \<or> is_ascii_lowercase c"

definition is_ascii_hexdigit :: "nat \<Rightarrow> bool" where
  "is_ascii_hexdigit c \<longleftrightarrow> is_ascii_digit c \<or> 65 \<le> c \<and> c \<le> 70 \<or> 97 \<le> c \<and> c \<le> 102"

text \<open>What comes after the first occurrence of a string.\<close>

fun after_first :: "str \<Rightarrow> str \<Rightarrow> str option" where
  "after_first needle [] = (if needle = [] then Some [] else None)"
| "after_first needle (c # cs) =
     (if take (length needle) (c # cs) = needle then Some (drop (length needle) (c # cs))
      else after_first needle cs)"

definition str_contains :: "str \<Rightarrow> str \<Rightarrow> bool" where
  "str_contains s needle \<longleftrightarrow> after_first needle s \<noteq> None"

definition valid_text :: "str \<Rightarrow> nat \<Rightarrow> bool" where
  "valid_text value maximum \<longleftrightarrow>
     str_trim value \<noteq> [] \<and> str_len value \<le> maximum \<and> \<not> list_ex is_control value"

definition valid_optional_text :: "str option \<Rightarrow> nat \<Rightarrow> bool" where
  "valid_optional_text value maximum \<longleftrightarrow>
     (case value of None \<Rightarrow> True | Some value \<Rightarrow> valid_text value maximum)"

section \<open>Engine configuration\<close>

datatype engine_error =
    CapabilityUnavailable str
  | InvalidIdentityTemplate str
  | InvalidPackage str
  | VerificationUnavailable str
  | HostProvisionRejected str str
  | EmergencyDisabled str
  | InvalidTransition str
  | UnsafePath str
  | EngineIo str
  | EngineSerialization str
  | InvalidBootstrap str
  | InvalidRuntimeReceipt str

fun engine_error_to_string :: "engine_error \<Rightarrow> str" where
  "engine_error_to_string (CapabilityUnavailable why) =
     lit ''Engine capability is unavailable: '' @ why"
| "engine_error_to_string (InvalidIdentityTemplate why) =
     lit ''Engine identity template is inconsistent: '' @ why"
| "engine_error_to_string (InvalidPackage why) = lit ''Engine package is invalid: '' @ why"
| "engine_error_to_string (VerificationUnavailable why) =
     lit ''Engine package verification is unavailable or failed: '' @ why"
| "engine_error_to_string (HostProvisionRejected code message) =
     lit ''Camoufox provisioning rejected ('' @ code @ lit ''): '' @ message"
| "engine_error_to_string (EmergencyDisabled why) =
     lit ''Engine adapter is emergency-disabled: '' @ why"
| "engine_error_to_string (InvalidTransition why) =
     lit ''Engine state transition is invalid: '' @ why"
| "engine_error_to_string (UnsafePath why) = lit ''Engine path is unsafe: '' @ why"
| "engine_error_to_string (EngineIo why) = lit ''Engine I/O error: '' @ why"
| "engine_error_to_string (EngineSerialization why) =
     lit ''Engine manifest serialization error: '' @ why"
| "engine_error_to_string (InvalidBootstrap why) =
     lit ''Engine bootstrap envelope is invalid: '' @ why"
| "engine_error_to_string (InvalidRuntimeReceipt why) =
     lit ''Engine runtime receipt is invalid: '' @ why"

definition CAMOUFOX_ARTIFACT_SCHEMA_V3 :: str where
  "CAMOUFOX_ARTIFACT_SCHEMA_V3 = lit ''verisilo-camoufox-resolved-identity/v3''"
definition CAMOUFOX_ARTIFACT_SCHEMA_V5 :: str where
  "CAMOUFOX_ARTIFACT_SCHEMA_V5 = lit ''verisilo-camoufox-resolved-identity/v5''"
definition CAMOUFOX_ARTIFACT_SCHEMA_V6 :: str where
  "CAMOUFOX_ARTIFACT_SCHEMA_V6 = lit ''verisilo-camoufox-resolved-identity/v6''"

definition valid_artifact_id :: "str \<Rightarrow> bool" where
  "valid_artifact_id value \<longleftrightarrow>
     (case strip_prefix (lit ''identity-'') value of
        None \<Rightarrow> False
      | Some suffix \<Rightarrow>
          suffix \<noteq> [] \<and> str_len suffix \<le> 64
          \<and> list_all (\<lambda>c. is_ascii_lowercase c \<or> is_ascii_digit c \<or> c = 45) suffix
          \<and> hd suffix \<noteq> 45)"

definition lower_hex_text :: "str \<Rightarrow> nat \<Rightarrow> bool" where
  "lower_hex_text value exact_length \<longleftrightarrow> str_len value = exact_length \<and> list_all is_lower_hex value"

definition is_artifact_schema :: "str \<Rightarrow> bool" where
  "is_artifact_schema schema \<longleftrightarrow>
     schema = CAMOUFOX_ARTIFACT_SCHEMA_V3 \<or> schema = CAMOUFOX_ARTIFACT_SCHEMA_V5
     \<or> schema = CAMOUFOX_ARTIFACT_SCHEMA_V6"

definition artifact_binding_validate :: "artifact_binding \<Rightarrow> engine_error + unit" where
  "artifact_binding_validate binding =
     (if \<not> valid_artifact_id (cab_artifact_id binding)
         \<or> \<not> lower_hex_text (cab_artifact_file_sha256 binding) 64
         \<or> \<not> is_artifact_schema (cab_schema binding)
      then Inl (InvalidIdentityTemplate (lit (''identity_artifact_unavailable: Camoufox Artifact '' @
             ''binding is not a strict v3/v6 ID/raw-SHA binding'')))
      else Inr ())"

text \<open>\<open>ua_major\<close>, with \<open>parse::<u16>\<close> of a string of digits.\<close>

definition ua_major :: "str \<Rightarrow> str \<Rightarrow> u16 option" where
  "ua_major user_agent marker =
     Option.bind (after_first marker user_agent) (\<lambda>rest.
       let digits = takeWhile is_ascii_digit rest in
       if digits = [] \<or> 2 ^ 16 \<le> decimal_value digits then None
       else Some (of_nat (decimal_value digits)))"

definition valid_numeric_version :: "str \<Rightarrow> bool" where
  "valid_numeric_version value \<longleftrightarrow>
     (let parts = split_at_char 46 value in
      parts \<noteq> [] \<and> length parts \<le> 4
      \<and> list_all (\<lambda>part. part \<noteq> [] \<and> list_all is_ascii_digit part) parts)"

definition is_decimal :: "str \<Rightarrow> nat \<Rightarrow> bool" where
  "is_decimal value maximum_digits \<longleftrightarrow>
     value \<noteq> [] \<and> str_len value \<le> maximum_digits \<and> list_all is_ascii_digit value"

definition valid_language_tag :: "str \<Rightarrow> bool" where
  "valid_language_tag value \<longleftrightarrow>
     (case split_at_char 45 value of
        [language] \<Rightarrow>
          str_len language \<in> {2, 3} \<and> list_all is_ascii_alphabetic language
      | [language, region] \<Rightarrow>
          str_len language \<in> {2, 3} \<and> list_all is_ascii_alphabetic language
          \<and> str_len region = 2 \<and> list_all is_ascii_alphabetic region
      | _ \<Rightarrow> False)"

definition valid_timezone :: "str \<Rightarrow> bool" where
  "valid_timezone value \<longleftrightarrow>
     value = lit ''UTC''
     \<or> valid_text value 80 \<and> 47 \<in> set value
       \<and> list_all (\<lambda>c. is_ascii_alphanumeric c \<or> c \<in> {47, 95, 43, 45, 46}) value"

definition lowercase_distinct :: "str list \<Rightarrow> bool" where
  "lowercase_distinct values \<longleftrightarrow> distinct (map to_ascii_lowercase values)"

definition template_error :: "string \<Rightarrow> engine_error + unit" where
  "template_error why = Inl (InvalidIdentityTemplate (lit why))"

definition ua_ch_is_coordinated :: "identity_browser \<Rightarrow> identity_ua_ch \<Rightarrow> bool" where
  "ua_ch_is_coordinated browser ua_ch \<longleftrightarrow>
     list_ex (\<lambda>brand. uab_brand brand = lit ''Chromium''
        \<and> uab_version brand = show_nat (unat (idb_major_version browser))) (uac_brands ua_ch)
     \<and> length (uac_brands ua_ch) \<le> 8
     \<and> uac_platform ua_ch = lit ''Windows'' \<and> uac_architecture ua_ch = lit ''x86''
     \<and> uac_bitness ua_ch = lit ''64'' \<and> \<not> uac_mobile ua_ch
     \<and> valid_numeric_version (uac_platform_version ua_ch)
     \<and> list_all (\<lambda>brand. valid_text (uab_brand brand) 64 \<and> is_decimal (uab_version brand) 3)
         (uac_brands ua_ch)"

text \<open>
  \<open>validate_identity_template\<close> for the Chromium family without an expected version, the only way
  in which a Silo's configuration is checked; the conditions are those of the source, in order.
\<close>

definition validate_identity_template :: "identity_template \<Rightarrow> engine_error + unit" where
  "validate_identity_template template =
     (let os = idt_os template; browser = idt_browser template; screen = idt_screen template;
          languages = idt_languages template; render = idt_render template;
          fonts = idt_fonts template; media = idt_media template; network = idt_network template in
      if idt_schema_version template \<noteq> 1
         \<or> ios_family os \<noteq> lit ''windows''
         \<or> ios_version os \<notin> {lit ''10'', lit ''11''}
         \<or> ios_architecture os \<noteq> lit ''x64''
         \<or> idb_family browser \<noteq> Chromium
         \<or> \<not> (100 \<le> idb_major_version browser \<and> idb_major_version browser \<le> 999)
         \<or> \<not> valid_text (idb_user_agent browser) 512
         \<or> \<not> str_contains (idb_user_agent browser) (lit ''Windows NT 10.0'')
      then template_error
             ''OS, browser family, package major version, or user-agent is inconsistent''
      else if (case ua_major (idb_user_agent browser) (lit ''Chrome/'') of
                 None \<Rightarrow> ua_major (idb_user_agent browser) (lit ''Edg/'') | found \<Rightarrow> found)
              \<noteq> Some (idb_major_version browser)
      then template_error ''user-agent major version does not match browser.majorVersion''
      else
        case idb_ua_ch browser of
          None \<Rightarrow> template_error ''Chromium templates require coordinated UA-CH''
        | Some ua_ch \<Rightarrow>
            if \<not> ua_ch_is_coordinated browser ua_ch
            then template_error
              ''Chromium UA-CH must be a matching 64-bit non-mobile Windows declaration''
            else if idl_accepted languages = [] \<or> 8 < length (idl_accepted languages)
              \<or> hd (idl_accepted languages) \<noteq> idl_primary languages
              \<or> \<not> valid_language_tag (idl_primary languages)
              \<or> \<not> list_all valid_language_tag (idl_accepted languages)
              \<or> \<not> lowercase_distinct (idl_accepted languages)
              \<or> \<not> valid_timezone (idt_timezone template)
            then template_error ''language order, uniqueness, or timezone is invalid''
            else if \<not> (800 \<le> ids_width screen \<and> ids_width screen \<le> 16384)
              \<or> \<not> (600 \<le> ids_height screen \<and> ids_height screen \<le> 16384)
              \<or> ids_available_width screen < 640 \<or> ids_available_height screen < 480
              \<or> ids_width screen < ids_available_width screen
              \<or> ids_height screen < ids_available_height screen
              \<or> \<not> f64_between (1 / 2) 8 (ids_device_pixel_ratio screen)
              \<or> ids_color_depth screen \<notin> {24, 30, 32}
            then template_error ''screen dimensions, pixel ratio, or color depth is invalid''
            else if (idr_web_gl_vendor render = None) \<noteq> (idr_web_gl_renderer render = None)
              \<or> \<not> valid_optional_text (idr_web_gl_vendor render) 160
              \<or> \<not> valid_optional_text (idr_web_gl_renderer render) 300
            then template_error
              ''WebGL vendor and renderer must be bounded and configured together''
            else if fonts = [] \<or> 64 < length fonts \<or> \<not> list_all (\<lambda>font. valid_text font 100) fonts
              \<or> \<not> lowercase_distinct fonts \<or> lit ''Segoe UI'' \<notin> set fonts
            then template_error ''Windows font declarations must be unique and include Segoe UI''
            else if 16 < idm_microphones media \<or> 16 < idm_cameras media \<or> 16 < idm_speakers media
              \<or> idm_labels_exposed media
                \<and> idm_microphones media + idm_cameras media + idm_speakers media = 0
            then template_error ''media device count and label exposure are inconsistent''
            else if (case idn_country_code network of None \<Rightarrow> False
                 | Some country \<Rightarrow> str_len country \<noteq> 2 \<or> \<not> list_all is_ascii_uppercase country)
              \<or> (case idn_timezone network of None \<Rightarrow> False
                 | Some timezone \<Rightarrow> timezone \<noteq> idt_timezone template)
              \<or> (case idn_locale network of None \<Rightarrow> False
                 | Some locale \<Rightarrow> \<not> eq_ignore_ascii_case locale (idl_primary languages))
              \<or> idn_desired_quic network \<noteq> BrowserDefault
            then template_error (''network country, timezone, locale, or unsupported QUIC control ''
              @ ''contradicts the browser template'')
            else Inr ())"

definition identity_capabilities :: "engine_capability_id list" where
  "identity_capabilities =
     [IdentityTemplate, UaUaCh, LanguageTimezone, Screen, Canvas, Webgl, Fonts, MediaDevices,
      RequestHeaders, Window, Iframe, DedicatedWorker]"

definition valid_site_label :: "str \<Rightarrow> bool" where
  "valid_site_label label \<longleftrightarrow>
     label \<noteq> [] \<and> str_len label \<le> 63 \<and> is_ascii_alphanumeric (hd label)
     \<and> is_ascii_alphanumeric (last label)
     \<and> list_all (\<lambda>c. is_ascii_alphanumeric c \<or> c = 45) label"

definition valid_site_pattern :: "str \<Rightarrow> bool" where
  "valid_site_pattern value \<longleftrightarrow>
     (let host = (case strip_prefix (lit ''*.'') value of None \<Rightarrow> value | Some host \<Rightarrow> host) in
      host \<noteq> [] \<and> str_len value \<le> 253 \<and> list_all valid_site_label (split_at_char 46 host))"

fun check_fallback_rules :: "str list \<Rightarrow> site_fallback_rule list \<Rightarrow> bool" where
  "check_fallback_rules sites [] = True"
| "check_fallback_rules sites (rule # rules) =
     (valid_site_pattern (sfr_site_pattern rule)
      \<and> to_ascii_lowercase (sfr_site_pattern rule) \<notin> set sites
      \<and> sfr_disable_capabilities rule \<noteq> [] \<and> distinct (sfr_disable_capabilities rule)
      \<and> length (sfr_disable_capabilities rule) \<le> 16
      \<and> list_all (\<lambda>capability. capability \<in> set identity_capabilities)
          (sfr_disable_capabilities rule)
      \<and> sfr_action rule = RestoreThenReload
      \<and> check_fallback_rules (to_ascii_lowercase (sfr_site_pattern rule) # sites) rules)"

definition validate_fallback_rules :: "site_fallback_rule list \<Rightarrow> engine_error + unit" where
  "validate_fallback_rules rules =
     (if 100 < length rules then template_error ''site fallback policy exceeds 100 rules''
      else if \<not> check_fallback_rules [] rules
      then template_error
        ''site fallback rules must use unique host patterns and experimental controls''
      else Inr ())"

fun engine_validate :: "silo_engine_config \<Rightarrow> bool \<Rightarrow> engine_error + unit" where
  "engine_validate Stock proxy_required = Inr ()"
| "engine_validate (silo_engine_config.ControlledChromium template rules) proxy_required =
     rbind (validate_identity_template template) (\<lambda>_.
     rbind (validate_fallback_rules rules) (\<lambda>_.
     if idn_proxy_required (idt_network template) \<noteq> proxy_required
     then template_error
       ''identity template network.proxyRequired must match the Silo network policy''
     else Inr ()))"
| "engine_validate (silo_engine_config.Camoufox template rules binding) proxy_required =
     (if template \<noteq> None \<or> rules \<noteq> []
      then template_error
        ''Camoufox records cannot retain an identity template or fallback rules''
      else case binding of None \<Rightarrow> Inr () | Some binding \<Rightarrow> artifact_binding_validate binding)"

end
