(* ===== verification/Silo_Domain.thy ===== *)
theory Silo_Domain
  imports Silo_Validation
begin

text \<open>
  The validators of network profiles, execution targets and Silo inputs, and the browser arguments
  that a Silo is launched with (\<open>domain.rs\<close>). \<open>Url::parse\<close> and \<open>Path::is_file\<close> are parameters; the
  platform is Linux (\<open>cfg!(any(windows, target_os = "linux"))\<close> holds).
\<close>

record desktop_url = url_parts +
  url_port :: "u16 option"

type_synonym url_parser = "str \<Rightarrow> str + desktop_url"

definition invalid_network :: "string \<Rightarrow> domain_error + 'a" where
  "invalid_network why = Inl (InvalidNetwork (lit why))"

definition invalid_silo :: "string \<Rightarrow> domain_error + 'a" where
  "invalid_silo why = Inl (InvalidSilo (lit why))"

section \<open>Network profiles\<close>

definition trim_brackets :: "str \<Rightarrow> str" where
  "trim_brackets s = rev (dropWhile (\<lambda>c. c \<in> {91, 93}) (rev (dropWhile (\<lambda>c. c \<in> {91, 93}) s)))"

definition is_loopback_host :: "str \<Rightarrow> bool" where
  "is_loopback_host host \<longleftrightarrow>
     to_ascii_lowercase (trim_brackets (str_trim host)) \<in> {lit ''127.0.0.1'', lit ''::1''}"

definition no_credentials_or_suffix :: "desktop_url \<Rightarrow> bool" where
  "no_credentials_or_suffix url \<longleftrightarrow>
     url_username url = [] \<and> url_password url = None \<and> url_query url = None
     \<and> url_fragment url = None"

definition controller_is_local :: "desktop_url \<Rightarrow> bool" where
  "controller_is_local url \<longleftrightarrow>
     (let host = (case url_host url of None \<Rightarrow> [] | Some host \<Rightarrow> host) in
      url_scheme url = lit ''pipe'' \<and> host = lit ''verge-mihomo'' \<and> url_port url = None
        \<and> no_credentials_or_suffix url \<and> url_path url \<in> {lit ''/'', []}
      \<or> url_scheme url = lit ''http'' \<and> is_loopback_host host \<and> url_port url \<noteq> None
        \<and> no_credentials_or_suffix url \<and> url_path url = lit ''/'')"

definition validate_mihomo_binding ::
    "url_parser \<Rightarrow> external_mihomo_binding \<Rightarrow> domain_error + unit" where
  "validate_mihomo_binding parse_url binding =
     (if 2048 < str_len (emb_controller_url binding)
      then invalid_network ''The Mihomo controller URL is too long.''
      else
        rbind (map_err (\<lambda>_. InvalidNetwork (lit ''The Mihomo controller URL is invalid.''))
                 (parse_url (emb_controller_url binding))) (\<lambda>controller.
        if \<not> controller_is_local controller
        then invalid_network (''The Mihomo controller must be a loopback HTTP URL such as '' @
               ''http://127.0.0.1:9090/, or the Clash Verge kernel pipe.'')
        else if str_trim (emb_selector_group binding) = [] \<or> 128 < length (emb_selector_group binding)
           \<or> list_ex is_control (emb_selector_group binding)
           \<or> str_trim (emb_node_name binding) = [] \<or> 256 < length (emb_node_name binding)
           \<or> list_ex is_control (emb_node_name binding)
        then invalid_network (''Mihomo selector and node names must be short, non-empty values '' @
               ''without control characters.'')
        else Inr ()))"

definition valid_proxy_host :: "str \<Rightarrow> bool" where
  "valid_proxy_host host \<longleftrightarrow>
     str_trim host \<noteq> [] \<and> str_len host \<le> 253
     \<and> list_all (\<lambda>c. is_ascii_alphanumeric c \<or> c \<in> {46, 58, 45, 91, 93}) host"

definition valid_bypass_entry :: "str \<Rightarrow> bool" where
  "valid_bypass_entry entry \<longleftrightarrow>
     str_trim entry \<noteq> [] \<and> str_len entry \<le> 255 \<and> 59 \<notin> set entry \<and> \<not> list_ex is_control entry"

fun network_profile_validate :: "url_parser \<Rightarrow> network_profile \<Rightarrow> domain_error + unit" where
  "network_profile_validate parse_url (Direct proxy_required) =
     (if proxy_required then invalid_network ''A direct profile cannot require a proxy.''
      else Inr ())"
| "network_profile_validate parse_url
     (FixedProxy proxy_required scheme host port bypass_list reference binding) =
     (if \<not> valid_proxy_host host
      then invalid_network ''Proxy host contains unsupported characters.''
      else if port = 0 then invalid_network ''Proxy port must be between 1 and 65535.''
      else if 100 < length bypass_list \<or> \<not> list_all valid_bypass_entry bypass_list
      then invalid_network
        ''Proxy bypass entries must be short, non-empty values without separators.''
      else if proxy_required \<and> bypass_list \<noteq> []
      then invalid_network ''A required proxy profile cannot contain direct bypass rules.''
      else if reference \<noteq> None \<and> scheme \<notin> {Http, Socks5}
      then invalid_network ''Stored proxy credentials require an HTTP or SOCKS5 upstream.''
      else
        case binding of
          None \<Rightarrow> Inr ()
        | Some binding \<Rightarrow>
            if \<not> proxy_required \<or> scheme \<noteq> Socks5 \<or> \<not> is_loopback_host host
            then invalid_network
              ''An external Mihomo binding requires a fail-closed loopback SOCKS5 endpoint.''
            else validate_mihomo_binding parse_url binding)"
| "network_profile_validate parse_url (Pac proxy_required pac_url) =
     (if proxy_required
      then invalid_network (''A PAC profile cannot guarantee fail-closed proxy routing because '' @
             ''PAC rules may return DIRECT.'')
      else if 2048 < str_len pac_url then invalid_network ''PAC URL is too long.''
      else
        rbind (map_err (\<lambda>_. InvalidNetwork (lit ''PAC URL is invalid.'')) (parse_url pac_url)) (\<lambda>url.
        if url_scheme url \<notin> {lit ''http'', lit ''https''}
        then invalid_network ''PAC URL must use HTTPS or HTTP.''
        else if url_username url \<noteq> [] \<or> url_password url \<noteq> None
        then invalid_network ''PAC URL must not include credentials.''
        else Inr ()))"

text \<open>The two setters of references; they fail on a profile that cannot carry one.\<close>

fun set_credential_reference :: "uuid \<Rightarrow> network_profile \<Rightarrow> network_profile option" where
  "set_credential_reference reference (FixedProxy required scheme host port bypass _ binding) =
     Some (FixedProxy required scheme host port bypass (Some reference) binding)"
| "set_credential_reference _ _ = None"

fun set_mihomo_controller_secret_reference :: "uuid \<Rightarrow> network_profile \<Rightarrow> network_profile option" where
  "set_mihomo_controller_secret_reference reference
     (FixedProxy required scheme host port bypass credential (Some binding)) =
     Some (FixedProxy required scheme host port bypass credential
       (Some (binding\<lparr>emb_controller_secret_reference := Some reference\<rparr>)))"
| "set_mihomo_controller_secret_reference _ _ = None"

definition valid_credentials :: "str \<Rightarrow> str \<Rightarrow> bool" where
  "valid_credentials username password \<longleftrightarrow>
     str_trim username \<noteq> [] \<and> str_len username \<le> 512 \<and> str_len password \<le> 1024
     \<and> \<not> list_ex is_control username \<and> \<not> list_ex is_control password"

definition valid_controller_secret :: "str \<Rightarrow> bool" where
  "valid_controller_secret secret \<longleftrightarrow> str_len secret \<le> 1024 \<and> \<not> list_ex is_control secret"

fun takes_credentials :: "network_profile \<Rightarrow> bool" where
  "takes_credentials (FixedProxy _ scheme _ _ _ _ _) = (scheme \<in> {Http, Socks5})"
| "takes_credentials _ = False"

fun is_fixed_proxy :: "network_profile \<Rightarrow> bool" where
  "is_fixed_proxy (FixedProxy _ _ _ _ _ _ _) = True"
| "is_fixed_proxy _ = False"

definition check_new_credentials ::
    "network_profile \<Rightarrow> proxy_credentials_input \<Rightarrow> domain_error + unit" where
  "check_new_credentials profile credentials =
     (if \<not> is_fixed_proxy profile
      then invalid_network ''Proxy credentials require a fixed proxy profile.''
      else if \<not> valid_credentials (pci_username credentials) (pci_password credentials)
      then invalid_network
        ''Proxy credentials are empty, too long, or contain control characters.''
      else if \<not> takes_credentials profile
      then invalid_network (''Automatic proxy authentication currently supports HTTP and SOCKS5. '' @
        ''Use an external Mihomo endpoint for other authenticated protocols.'')
      else Inr ())"

definition check_new_secret :: "network_profile \<Rightarrow> str \<Rightarrow> domain_error + unit" where
  "check_new_secret profile secret =
     (if external_mihomo profile = None
      then invalid_network ''A Mihomo controller secret requires an external Mihomo binding.''
      else if \<not> valid_controller_secret secret
      then invalid_network
        ''The Mihomo controller secret is too long or contains control characters.''
      else Inr ())"

definition validate_network_replacement ::
    "url_parser \<Rightarrow> network_profile \<Rightarrow> proxy_credentials_input option \<Rightarrow> str option
     \<Rightarrow> domain_error + unit" where
  "validate_network_replacement parse_url profile credentials secret =
     rbind (network_profile_validate parse_url profile) (\<lambda>_.
     if credential_reference profile \<noteq> None
     then invalid_network ''Network updates cannot supply an existing credential reference.''
     else if mihomo_controller_secret_reference profile \<noteq> None
     then invalid_network (''Network updates cannot supply an existing Mihomo controller secret '' @
            ''reference.'')
     else
       rbind (case credentials of None \<Rightarrow> Inr ()
              | Some credentials \<Rightarrow> check_new_credentials profile credentials) (\<lambda>_.
       case secret of None \<Rightarrow> Inr () | Some secret \<Rightarrow> check_new_secret profile secret))"

section \<open>Execution targets\<close>

definition remote_origin_parts :: "str \<Rightarrow> (str \<times> str) option" where
  "remote_origin_parts origin =
     map_option (\<lambda>rest. (takeWhile (\<lambda>c. c \<notin> {47, 63, 35}) rest, dropWhile (\<lambda>c. c \<notin> {47, 63, 35}) rest))
       (after_first (lit ''://'') origin)"

definition invalid_origin :: "domain_error + 'a" where
  "invalid_origin = invalid_silo ''The remote endpoint must be a valid HTTPS origin.''"

fun execution_target_validate :: "url_parser \<Rightarrow> silo_execution_target \<Rightarrow> domain_error + unit" where
  "execution_target_validate parse_url Local = Inr ()"
| "execution_target_validate parse_url (Wsl distribution) =
     (if str_trim distribution = [] \<or> 128 < str_len distribution \<or> list_ex is_control distribution
      then invalid_silo (''The WSL distribution must be non-empty, at most 128 bytes, and contain '' @
             ''no control characters.'')
      else Inr ())"
| "execution_target_validate parse_url (Remote origin) =
     (if str_trim origin \<noteq> origin \<or> origin = [] \<or> 2048 < str_len origin \<or> list_ex is_control origin
      then invalid_silo (''The remote endpoint origin is empty, too long, or contains unsafe '' @
             ''characters.'')
      else
        case parse_url origin of
          Inl _ \<Rightarrow> invalid_origin
        | Inr url \<Rightarrow>
            (case remote_origin_parts origin of
               None \<Rightarrow> invalid_origin
             | Some (authority, suffix) \<Rightarrow>
                 if url_scheme url \<noteq> lit ''https'' \<or> url_host url = None
                    \<or> \<not> no_credentials_or_suffix url \<or> url_path url \<noteq> lit ''/''
                    \<or> 64 \<in> set authority \<or> suffix \<notin> {[], lit ''/''}
                 then invalid_silo (''The remote endpoint must be an HTTPS origin without '' @
                        ''credentials, a path, query, or fragment.'')
                 else Inr ()))"

fun wsl_network_supported :: "network_profile \<Rightarrow> bool" where
  "wsl_network_supported (Direct proxy_required) = (\<not> proxy_required)"
| "wsl_network_supported (FixedProxy _ Socks5 host port bypass_list None None) =
     (host = lit ''127.0.0.1'' \<and> 0 < port \<and> bypass_list = [])"
| "wsl_network_supported _ = False"

definition validate_network_input ::
    "url_parser \<Rightarrow> silo_execution_target \<Rightarrow> network_profile \<Rightarrow> proxy_credentials_input option
     \<Rightarrow> str option \<Rightarrow> domain_error + unit" where
  "validate_network_input parse_url target profile credentials secret =
     rbind (validate_network_replacement parse_url profile credentials secret) (\<lambda>_.
     case target of
       Local \<Rightarrow> Inr ()
     | Wsl _ \<Rightarrow>
         if credentials = None \<and> secret = None \<and> wsl_network_supported profile then Inr ()
         else invalid_network (''A WSL Silo currently accepts direct access or a credential-free '' @
                ''loopback SOCKS5 endpoint inside that Linux environment.'')
     | Remote _ \<Rightarrow>
         invalid_network (''Remote Silo network changes are unavailable until the remote browser '' @
           ''identity runtime is verified.''))"

section \<open>Silo inputs\<close>

definition is_hex_color :: "str \<Rightarrow> bool" where
  "is_hex_color color \<longleftrightarrow>
     str_len color = 7 \<and> color \<noteq> [] \<and> hd color = 35 \<and> list_all is_ascii_hexdigit (tl color)"

definition validate_silo_name :: "str \<Rightarrow> domain_error + unit" where
  "validate_silo_name name =
     (if str_trim name = [] \<or> 64 < length name
      then Inl (InvalidSilo (lit ''Silo name must contain 1'' @ [8211] @ lit ''64 characters.''))
      else Inr ())"

definition validate_silo_appearance :: "str \<Rightarrow> str \<Rightarrow> domain_error + unit" where
  "validate_silo_appearance name color =
     rbind (validate_silo_name name) (\<lambda>_.
     if \<not> is_hex_color color then invalid_silo ''Silo color must be a six-digit hex color.''
     else Inr ())"

definition validate_browser_executable :: "(str \<Rightarrow> bool) \<Rightarrow> str \<Rightarrow> domain_error + unit" where
  "validate_browser_executable is_file executable_path =
     (if \<not> is_file executable_path
      then invalid_silo ''The selected browser executable does not exist.'' else Inr ())"

definition validate_engine_configuration ::
    "silo_engine_config \<Rightarrow> network_profile \<Rightarrow> domain_error + unit" where
  "validate_engine_configuration engine profile =
     map_err (\<lambda>error. InvalidEngine (engine_error_to_string error))
       (engine_validate engine (requires_proxy profile))"

definition create_silo_validate ::
    "url_parser \<Rightarrow> (str \<Rightarrow> bool) \<Rightarrow> create_silo_input \<Rightarrow> domain_error + unit" where
  "create_silo_validate parse_url is_file input =
     rbind (validate_silo_appearance (csi_name input) (csi_color input)) (\<lambda>_.
     rbind (execution_target_validate parse_url (csi_execution_target input)) (\<lambda>_.
     if \<not> is_stock (csi_engine input)
     then Inl (InvalidEngine (lit
       ''Managed browser Silos must be created through the managed-browser command.''))
     else
       rbind (if is_local (csi_execution_target input)
              then validate_browser_executable is_file (csi_executable_path input)
              else Inr ()) (\<lambda>_.
       rbind (validate_network_input parse_url (csi_execution_target input)
                (csi_network_profile input) (csi_proxy_credentials input)
                (csi_mihomo_controller_secret input)) (\<lambda>_.
       validate_engine_configuration (csi_engine input) (csi_network_profile input)))))"

definition update_silo_validate_for_target ::
    "(str \<Rightarrow> bool) \<Rightarrow> silo_execution_target \<Rightarrow> update_silo_input \<Rightarrow> domain_error + unit" where
  "update_silo_validate_for_target is_file target input =
     rbind (validate_silo_appearance (usi_name input) (usi_color input)) (\<lambda>_.
     if is_local target then validate_browser_executable is_file (usi_executable_path input)
     else Inr ())"

definition network_input_validate_for_target ::
    "url_parser \<Rightarrow> silo_execution_target \<Rightarrow> update_silo_network_input \<Rightarrow> domain_error + unit" where
  "network_input_validate_for_target parse_url target input =
     validate_network_input parse_url target (uni_network_profile input) (uni_proxy_credentials input)
       (uni_mihomo_controller_secret input)"

section \<open>Managed identities\<close>

fun preset_requires_proxy :: "managed_identity_preset \<Rightarrow> bool" where
  "preset_requires_proxy MatchFixedProxy = True"
| "preset_requires_proxy _ = False"

definition is_supported_gpu_preset :: "str \<Rightarrow> bool" where
  "is_supported_gpu_preset gpu \<longleftrightarrow> gpu \<in> lit `
     {''auto'', ''nvidia-rtx-3060'', ''nvidia-rtx-3070'', ''nvidia-rtx-4060'', ''nvidia-rtx-4070'',
      ''nvidia-rtx-4080'', ''nvidia-gtx-1660'', ''amd-rx-6600'', ''amd-rx-7600'', ''amd-rx-7800xt'',
      ''intel-uhd-770''}"

definition is_supported_managed_timezone :: "str \<Rightarrow> bool" where
  "is_supported_managed_timezone timezone \<longleftrightarrow> timezone \<in> lit `
     {''Asia/Shanghai'', ''Asia/Hong_Kong'', ''Asia/Tokyo'', ''Asia/Seoul'', ''Asia/Singapore'',
      ''Asia/Kolkata'', ''Asia/Manila'', ''Europe/London'', ''Europe/Berlin'', ''Europe/Paris'',
      ''Europe/Madrid'', ''Europe/Rome'', ''Europe/Moscow'', ''Europe/Istanbul'', ''Africa/Cairo'',
      ''America/New_York'', ''America/Chicago'', ''America/Los_Angeles'', ''America/Toronto'',
      ''America/Sao_Paulo'', ''Australia/Sydney'', ''UTC''}"

text \<open>The message that an identity following the exit needs a required proxy.\<close>

definition exit_needs_proxy :: str where
  "exit_needs_proxy =
     [36319, 38543, 20986, 21475, 30340, 36523, 20221, 38656, 35201, 37197, 32622, 24517, 39035,
      20195, 29702, 12290]"

definition identity_intent_validate :: "managed_identity_intent \<Rightarrow> bool \<Rightarrow> domain_error + unit" where
  "identity_intent_validate intent has_proxy =
     (if \<not> (800 \<le> mii_screen_width intent \<and> mii_screen_width intent \<le> 7680)
         \<or> \<not> (600 \<le> mii_screen_height intent \<and> mii_screen_height intent \<le> 4320)
      then invalid_network ''Managed identity screen size is out of range.''
      else if (case mii_hardware_concurrency intent of None \<Rightarrow> False
          | Some cores \<Rightarrow> cores \<notin> {2, 4, 6, 8, 12, 16})
      then invalid_network
        ''Managed identity hardware concurrency is not a supported core count.''
      else if (case mii_gpu_preset intent of None \<Rightarrow> False
          | Some gpu \<Rightarrow> \<not> is_supported_gpu_preset gpu)
      then invalid_network ''Managed identity GPU profile is not supported.''
      else if (case mii_timezone intent of None \<Rightarrow> False
          | Some timezone \<Rightarrow> \<not> is_supported_managed_timezone timezone)
      then invalid_network ''Managed identity timezone is not supported.''
      else if (preset_requires_proxy (mii_identity_preset intent) \<or> mii_follow_network_exit intent)
              \<and> \<not> has_proxy
      then Inl (InvalidNetwork exit_needs_proxy)
      else Inr ())"

text \<open>The two kinds of network a managed identity takes: a required HTTP or SOCKS5 proxy, or none.\<close>

fun is_managed_proxy :: "network_profile \<Rightarrow> bool" where
  "is_managed_proxy (FixedProxy proxy_required scheme _ _ _ _ _) =
     (proxy_required \<and> scheme \<in> {Http, Socks5})"
| "is_managed_proxy _ = False"

fun is_managed_direct :: "network_profile \<Rightarrow> bool" where
  "is_managed_direct (Direct proxy_required) = (\<not> proxy_required)"
| "is_managed_direct _ = False"

definition create_managed_silo_validate ::
    "url_parser \<Rightarrow> create_managed_silo_input \<Rightarrow> domain_error + unit" where
  "create_managed_silo_validate parse_url input =
     (let profile = cmi_network_profile input;
          has_proxy = is_managed_proxy profile; direct = is_managed_direct profile in
      rbind (validate_silo_appearance (cmi_name input) (cmi_color input)) (\<lambda>_.
      rbind (validate_network_replacement parse_url profile (cmi_proxy_credentials input)
               (cmi_mihomo_controller_secret input)) (\<lambda>_.
      if \<not> direct \<and> \<not> has_proxy
      then invalid_network (''Managed identity browsers accept Direct or a required HTTP/SOCKS5 '' @
             ''proxy, including a local Clash/Mihomo binding.'')
      else if direct \<and> (cmi_proxy_credentials input \<noteq> None \<or> cmi_mihomo_controller_secret input \<noteq> None)
      then invalid_network ''Direct managed identity browsers cannot carry proxy credentials.''
      else identity_intent_validate (cmi_identity_intent input) has_proxy)))"

section \<open>Launch arguments\<close>

fun proxy_scheme_as_str :: "proxy_scheme \<Rightarrow> str" where
  "proxy_scheme_as_str Http = lit ''http''"
| "proxy_scheme_as_str Https = lit ''https''"
| "proxy_scheme_as_str Socks4 = lit ''socks4''"
| "proxy_scheme_as_str Socks5 = lit ''socks5''"

text \<open>\<open>Vec::join(";")\<close>\<close>

fun join_semicolons :: "str list \<Rightarrow> str" where
  "join_semicolons [] = []"
| "join_semicolons [entry] = entry"
| "join_semicolons (entry # entries) = entry @ [59] @ join_semicolons entries"

definition authority_host :: "str \<Rightarrow> str" where
  "authority_host host = (if 58 \<in> set host \<and> hd host \<noteq> 91 then [91] @ host @ [93] else host)"

fun network_launch_arguments :: "(str \<times> u16) option \<Rightarrow> network_profile \<Rightarrow> str list" where
  "network_launch_arguments proxy_override (Direct _) = [lit ''--no-proxy-server'']"
| "network_launch_arguments proxy_override
     (FixedProxy proxy_required scheme host port bypass_list _ _) =
     (let (launch_scheme, launch_host, launch_port) = (case proxy_override of
            Some (override_host, override_port) \<Rightarrow> (lit ''socks5'', override_host, override_port)
          | None \<Rightarrow> (proxy_scheme_as_str scheme, host, port)) in
      [lit ''--proxy-server='' @ launch_scheme @ lit ''://'' @ authority_host launch_host @ lit '':''
         @ show_nat (unat launch_port)]
      @ (if bypass_list = [] then []
         else [lit ''--proxy-bypass-list='' @ join_semicolons bypass_list])
      @ (if proxy_required
         then [lit ''--proxy-bypass-list=<-loopback>'',
               lit ''--host-resolver-rules=MAP * ~NOTFOUND , EXCLUDE '' @ launch_host,
               lit ''--disable-quic'',
               lit ''--webrtc-ip-handling-policy=disable_non_proxied_udp'']
         else []))"
| "network_launch_arguments proxy_override (Pac _ pac_url) = [lit ''--proxy-pac-url='' @ pac_url]"

definition silo_launch_arguments :: "(str \<times> u16) option \<Rightarrow> silo \<Rightarrow> str list" where
  "silo_launch_arguments proxy_override s =
     [lit ''--user-data-dir='' @ sil_profile_directory s, lit ''--no-first-run'',
      lit ''--no-default-browser-check'', lit ''--disable-sync'']
     @ network_launch_arguments proxy_override (sil_network_profile s)"

end
