(* ===== verification/Runtime_Types.thy ===== *)
theory Runtime_Types
  imports Silo_Domain
begin

text \<open>
  What the desktop records about a running Silo (\<open>domain.rs\<close>, with the capability states and
  receipts of \<open>engine.rs\<close>): the runtime's state, the evidence about identity, engine and network,
  and the record of a Silo's most recent run. JSON values stand for \<open>serde_json::Value\<close>.
\<close>

section \<open>JSON values\<close>

text \<open>
  Objects are association lists with distinct keys; a number is a \<open>u64\<close>, a negative integer or a
  floating point number, as \<open>serde_json\<close> keeps it.
\<close>

datatype json_number = PosInt u64 | NegInt int | Float f64

datatype json =
    JNull
  | JBool bool
  | JNumber json_number
  | JString str
  | JArray "json list"
  | JObject "(str \<times> json) list"

text \<open>\<open>Value::get\<close> with a key, \<open>as_str\<close>, \<open>as_u64\<close>, \<open>as_f64\<close>, \<open>as_object\<close>.\<close>

fun json_get :: "str \<Rightarrow> json \<Rightarrow> json option" where
  "json_get key (JObject members) = map_of members key"
| "json_get key _ = None"

fun json_as_str :: "json \<Rightarrow> str option" where
  "json_as_str (JString s) = Some s"
| "json_as_str _ = None"

fun json_as_u64 :: "json \<Rightarrow> u64 option" where
  "json_as_u64 (JNumber (PosInt n)) = Some n"
| "json_as_u64 _ = None"

fun json_as_object :: "json \<Rightarrow> (str \<times> json) list option" where
  "json_as_object (JObject members) = Some members"
| "json_as_object _ = None"

section \<open>Evidence about the engine\<close>

datatype engine_capability_availability = Supported | Experimental | UnavailableCapability

datatype engine_capability_operation =
    NotConfigured | ConfiguredCapability | AppliedCapability | VerifiedCapability | FailedCapability

record engine_capability_state =
  ecs_id :: engine_capability_id
  ecs_availability :: engine_capability_availability
  ecs_operation :: engine_capability_operation
  ecs_reason :: str
  ecs_verified_at :: "time option"
  ecs_evidence :: "str list"

datatype engine_control_phase = Observe | Apply | Verify | Restore

record engine_capability_evidence =
  ece_id :: engine_capability_id
  ece_evidence :: "str list"

record engine_control_phase_receipt =
  ecp_phase :: engine_control_phase
  ecp_recorded_at :: time
  ecp_capabilities :: "engine_capability_evidence list"

record site_fallback_receipt =
  sfc_site :: str
  sfc_matched_pattern :: str
  sfc_action :: site_fallback_action
  sfc_restored_at :: time
  sfc_capabilities :: "engine_capability_evidence list"

datatype runtime_evidence_state =
    NotApplicable | NotRequested | Configured | Reachable | Applied | Observed | Verified | Failed
  | Unavailable

record runtime_package_verification =
  rpv_verifier_id :: str
  rpv_artifact_sha256 :: str
  rpv_digest_verified :: bool
  rpv_signature_verified :: bool
  rpv_package_manifest_sha256 :: str
  rpv_package_tree_sha256 :: "str option"
  rpv_host_sha256 :: str
  rpv_signer_certificate_sha256 :: str
  rpv_engine_revision :: "str option"
  rpv_verified_at :: time

record runtime_engine_evidence =
  ree_configured_adapter :: engine_adapter_id
  ree_launched_adapter :: "engine_adapter_id option"
  ree_verified_adapter :: "engine_adapter_id option"
  ree_package_verification :: runtime_evidence_state
  ree_package_verification_details :: "runtime_package_verification option"
  ree_bootstrap_delivery :: runtime_evidence_state
  ree_host_launch :: runtime_evidence_state
  ree_runtime_receipts :: runtime_evidence_state
  ree_restore_receipt :: runtime_evidence_state
  ree_capabilities :: "engine_capability_state list"
  ree_phase_receipts :: "engine_control_phase_receipt list"
  ree_fallback_receipts :: "site_fallback_receipt list"

definition runtime_engine_evidence_configured ::
    "engine_adapter_id \<Rightarrow> bool \<Rightarrow> runtime_engine_evidence" where
  "runtime_engine_evidence_configured adapter externally_packaged =
     (let camoufox_host = adapter = engine_adapter_id.Camoufox;
          native_control = externally_packaged \<and> \<not> camoufox_host;
          requested = (\<lambda>b. if b then NotRequested else NotApplicable) in
      \<lparr>ree_configured_adapter = adapter, ree_launched_adapter = None, ree_verified_adapter = None,
       ree_package_verification = requested externally_packaged,
       ree_package_verification_details = None,
       ree_bootstrap_delivery = requested native_control,
       ree_host_launch = requested camoufox_host,
       ree_runtime_receipts = requested native_control,
       ree_restore_receipt = requested native_control,
       ree_capabilities = [], ree_phase_receipts = [], ree_fallback_receipts = []\<rparr>)"

section \<open>Evidence about the website-visible identity\<close>

datatype identity_evidence_state = Matched | Mismatched | UnavailableIdentity | Stale

record runtime_identity_signal =
  rsg_signal :: str
  rsg_expected :: json
  rsg_observed :: json
  rsg_state :: identity_evidence_state
  rsg_reason :: "str option"

record runtime_identity_evidence =
  rie_silo_id :: uuid
  rie_runtime_id :: uuid
  rie_session_id :: str
  rie_artifact_id :: str
  rie_artifact_file_sha256 :: str
  rie_engine_adapter :: engine_adapter_id
  rie_observed_at :: time
  rie_state :: identity_evidence_state
  rie_signals :: "runtime_identity_signal list"
  rie_reason :: "str option"

section \<open>Evidence about the network\<close>

datatype runtime_network_provider = DirectProvider | FixedProxyProvider | ExternalMihomo | PacProvider

datatype runtime_network_evidence_provenance = DesktopControlPlane | ExtensionAsserted | RelayObserved

record runtime_network_evidence =
  rne_runtime_id :: uuid
  rne_evidence_id :: uuid
  rne_observed_at :: time
  rne_expires_at :: "time option"
  rne_provenance :: runtime_network_evidence_provenance
  rne_provider :: runtime_network_provider
  rne_configuration :: runtime_evidence_state
  rne_controller_binding :: runtime_evidence_state
  rne_endpoint :: runtime_evidence_state
  rne_authentication :: runtime_evidence_state
  rne_authentication_provenance :: runtime_network_evidence_provenance
  rne_browser_routing :: runtime_evidence_state
  rne_exit :: runtime_evidence_state
  rne_dns :: runtime_evidence_state
  rne_web_rtc :: runtime_evidence_state
  rne_endpoint_label :: "str option"
  rne_safeguards :: "str list"

text \<open>\<open>format!("{host}:{port}")\<close>\<close>

definition host_port_label :: "str \<Rightarrow> u16 \<Rightarrow> str" where
  "host_port_label host port = host @ lit '':'' @ show_nat (unat port)"

text \<open>The declaration at launch; the runtime's id, the evidence's id and the time are drawn for it.\<close>

fun runtime_network_evidence_configured ::
    "uuid \<Rightarrow> uuid \<Rightarrow> time \<Rightarrow> network_profile \<Rightarrow> bool \<Rightarrow> runtime_network_evidence" where
  "runtime_network_evidence_configured runtime_id evidence_id now
     (FixedProxy proxy_required scheme host port bypass reference external) has_authentication =
     \<lparr>rne_runtime_id = runtime_id, rne_evidence_id = evidence_id, rne_observed_at = now,
      rne_expires_at = None, rne_provenance = DesktopControlPlane,
      rne_provider = (if external \<noteq> None then ExternalMihomo else FixedProxyProvider),
      rne_configuration = Configured,
      rne_controller_binding = (if external \<noteq> None then Configured else NotApplicable),
      rne_endpoint = NotRequested,
      rne_authentication = (if has_authentication then Configured else NotApplicable),
      rne_authentication_provenance = DesktopControlPlane,
      rne_browser_routing = NotRequested, rne_exit = NotRequested, rne_dns = NotRequested,
      rne_web_rtc = NotRequested, rne_endpoint_label = Some (host_port_label host port),
      rne_safeguards = (if proxy_required
        then [lit ''no_direct_fallback'', lit ''browser_dns_through_proxy'', lit ''quic_disabled'',
              lit ''non_proxied_webrtc_udp_disabled'']
        else [])\<rparr>"
| "runtime_network_evidence_configured runtime_id evidence_id now profile has_authentication =
     \<lparr>rne_runtime_id = runtime_id, rne_evidence_id = evidence_id, rne_observed_at = now,
      rne_expires_at = None, rne_provenance = DesktopControlPlane,
      rne_provider = (case profile of Pac _ _ \<Rightarrow> PacProvider | _ \<Rightarrow> DirectProvider),
      rne_configuration = Configured, rne_controller_binding = NotApplicable,
      rne_endpoint = (case profile of Pac _ _ \<Rightarrow> Unavailable | _ \<Rightarrow> NotApplicable),
      rne_authentication = NotApplicable, rne_authentication_provenance = DesktopControlPlane,
      rne_browser_routing = NotRequested, rne_exit = NotRequested, rne_dns = NotRequested,
      rne_web_rtc = NotRequested, rne_endpoint_label = None, rne_safeguards = []\<rparr>"

section \<open>Runtime state and the record of a run\<close>

datatype runtime_state =
    Idle | Preflight | Launching | Running | VerificationFailed | RecoveryRequired | Stopped
  | FailedRuntime

datatype browser_verification_state =
    VerifiedBrowser | BaselineMissing | VersionDrift | Missing | PathChanged | KindMismatch
  | PublisherMismatch | ProbeFailed

record browser_verification =
  brv_state :: browser_verification_state
  brv_expected_kind :: browser_kind
  brv_expected_version :: "str option"
  brv_actual_version :: "str option"
  brv_executable_path :: str
  brv_checked_at :: time
  brv_message :: str

record runtime_activation =
  rta_active_silo_id :: "uuid option"
  rta_state :: runtime_state
  rta_updated_at :: time
  rta_message :: "str option"
  rta_browser_verification :: "browser_verification option"
  rta_engine_evidence :: "runtime_engine_evidence option"
  rta_network_evidence :: "runtime_network_evidence option"
  rta_identity_evidence :: "runtime_identity_evidence option"

definition runtime_activation_idle :: "time \<Rightarrow> runtime_activation" where
  "runtime_activation_idle now =
     \<lparr>rta_active_silo_id = None, rta_state = Idle, rta_updated_at = now, rta_message = None,
      rta_browser_verification = None, rta_engine_evidence = None, rta_network_evidence = None,
      rta_identity_evidence = None\<rparr>"

datatype recent_run_network_mode = DirectMode | FixedProxyMode | PacMode

record recent_run_network_policy =
  rnp_mode :: recent_run_network_mode
  rnp_proxy_required :: bool
  rnp_endpoint_label :: "str option"
  rnp_external_mihomo :: bool

fun recent_run_network_policy_from :: "network_profile \<Rightarrow> recent_run_network_policy" where
  "recent_run_network_policy_from (Direct proxy_required) =
     \<lparr>rnp_mode = DirectMode, rnp_proxy_required = proxy_required, rnp_endpoint_label = None,
      rnp_external_mihomo = False\<rparr>"
| "recent_run_network_policy_from (FixedProxy proxy_required _ host port _ _ binding) =
     \<lparr>rnp_mode = FixedProxyMode, rnp_proxy_required = proxy_required,
      rnp_endpoint_label = Some (host_port_label host port),
      rnp_external_mihomo = (binding \<noteq> None)\<rparr>"
| "recent_run_network_policy_from (Pac proxy_required _) =
     \<lparr>rnp_mode = PacMode, rnp_proxy_required = proxy_required, rnp_endpoint_label = None,
      rnp_external_mihomo = False\<rparr>"

record recent_run_record =
  rrr_silo_id :: uuid
  rrr_run_id :: uuid
  rrr_runtime_id :: "uuid option"
  rrr_started_at :: "time option"
  rrr_updated_at :: time
  rrr_ended_at :: "time option"
  rrr_profile_silo_id :: uuid
  rrr_artifact_binding :: "artifact_binding option"
  rrr_engine_adapter :: engine_adapter_id
  rrr_network_policy :: recent_run_network_policy
  rrr_state :: runtime_state
  rrr_reason :: "str option"
  rrr_identity_evidence :: "runtime_identity_evidence option"
  rrr_engine_evidence :: "runtime_engine_evidence option"
  rrr_network_evidence :: "runtime_network_evidence option"

end
