(* ===== verification/Network_Evidence.thy ===== *)
theory Network_Evidence
  imports Silo_Validation
begin

text \<open>
  The network evidence that the Companion extension reports and the Vault stores, and its validator
  (\<open>native_host.rs\<close>), with the parser of IP addresses of the standard library.
\<close>

section \<open>Entries\<close>

datatype native_ip_version = Ipv4 | Ipv6 | UnknownVersion
datatype native_network_hint = CloudOrHosting | UnknownHint

text \<open>An absent coordinate is \<open>None\<close>, a null one \<open>Some None\<close>.\<close>

record native_ip_exit_observation =
  nip_address :: str
  nip_version :: native_ip_version
  nip_country :: "str option"
  nip_country_code :: "str option"
  nip_region :: "str option"
  nip_city :: "str option"
  nip_asn :: "str option"
  nip_organization :: "str option"
  nip_isp :: "str option"
  nip_timezone :: "str option"
  nip_network_hint :: native_network_hint
  nip_latitude :: "f64 option option"
  nip_longitude :: "f64 option option"

datatype native_dns_state = Consistent | Different | ResolverError | PartialDns | FailedDns
datatype native_dnssec_state = Validated | NotValidated | PartialDnssec | UnavailableDnssec
datatype native_dns_provider = Cloudflare | Google

record native_dns_provider_observation =
  ndp_provider :: native_dns_provider
  ndp_status :: u16
  ndp_dnssec_authenticated :: bool
  ndp_addresses :: "str list"

record native_dns_observation =
  ndo_state :: native_dns_state
  ndo_dnssec :: native_dnssec_state
  ndo_query_name :: str
  ndo_providers :: "native_dns_provider_observation list"

text \<open>The reputation is not scored, in its only state; its explanation is fixed.\<close>

record native_network_check_result =
  ncr_schema_version :: u32
  ncr_checked_at :: time
  ncr_ip :: "native_ip_exit_observation option"
  ncr_dns :: native_dns_observation
  ncr_reputation_explanation :: str
  ncr_errors :: "str list"

record native_network_evidence_coverage =
  nec_trigger :: str
  nec_transport :: str
  nec_ip :: str
  nec_public_dns :: str
  nec_actual_dns_path :: str
  nec_web_rtc :: str
  nec_quic :: str

record network_evidence =
  nee_schema_version :: u32
  nee_protocol_version :: u32
  nee_evidence_id :: uuid
  nee_request_id :: uuid
  nee_silo_id :: uuid
  nee_runtime_id :: uuid
  nee_received_at :: time
  nee_expires_at :: time
  nee_coverage :: native_network_evidence_coverage
  nee_result :: native_network_check_result

section \<open>IP addresses\<close>

text \<open>
  \<open>IpAddr::from_str\<close>: four decimal octets without leading zeros, or groups of up to four hexadecimal
  digits, of which the last two may be written as an IPv4 address and one run of which may be left
  out as \<open>::\<close>.
\<close>

datatype ip_addr = V4 "nat list" | V6 "nat list"

definition parse_octet :: "str \<Rightarrow> nat option" where
  "parse_octet s =
     (if s = [] \<or> 3 < length s \<or> \<not> list_all is_ascii_digit s \<or> 1 < length s \<and> hd s = 48
         \<or> 255 < decimal_value s
      then None else Some (decimal_value s))"

fun all_some :: "'a option list \<Rightarrow> 'a list option" where
  "all_some [] = Some []"
| "all_some (x # xs) = Option.bind x (\<lambda>x. map_option ((#) x) (all_some xs))"

definition parse_ipv4 :: "str \<Rightarrow> nat list option" where
  "parse_ipv4 s =
     (let octets = split_at_char 46 s in
      if length octets = 4 then all_some (map parse_octet octets) else None)"

definition hex_value :: "str \<Rightarrow> nat" where
  "hex_value s = foldl (\<lambda>n c. 16 * n + (if c < 58 then c - 48 else if c < 71 then c - 55 else c - 87)) 0 s"

definition parse_group :: "str \<Rightarrow> nat option" where
  "parse_group s =
     (if s = [] \<or> 4 < length s \<or> \<not> list_all is_ascii_hexdigit s then None else Some (hex_value s))"

text \<open>Groups separated by colons; an IPv4 address at the end makes two of them.\<close>

fun parse_groups :: "bool \<Rightarrow> str list \<Rightarrow> nat list option" where
  "parse_groups dotted [] = Some []"
| "parse_groups dotted [g] =
     (case parse_group g of
        Some n \<Rightarrow> Some [n]
      | None \<Rightarrow>
          (case if dotted then parse_ipv4 g else None of
             Some [a, b, c, d] \<Rightarrow> Some [256 * a + b, 256 * c + d]
           | _ \<Rightarrow> None))"
| "parse_groups dotted (g # gs) =
     Option.bind (parse_group g) (\<lambda>n. map_option ((#) n) (parse_groups dotted gs))"

definition colon_groups :: "bool \<Rightarrow> str \<Rightarrow> nat list option" where
  "colon_groups dotted s = (if s = [] then Some [] else parse_groups dotted (split_at_char 58 s))"

fun split_double_colon :: "str \<Rightarrow> (str \<times> str) option" where
  "split_double_colon (a # b # s) =
     (if a = 58 \<and> b = 58 then Some ([], s)
      else map_option (\<lambda>(head, tail). (a # head, tail)) (split_double_colon (b # s)))"
| "split_double_colon _ = None"

definition parse_ipv6 :: "str \<Rightarrow> nat list option" where
  "parse_ipv6 s =
     (case split_double_colon s of
        None \<Rightarrow> filter_option (\<lambda>groups. length groups = 8) (colon_groups True s)
      | Some (front, back) \<Rightarrow>
          Option.bind (colon_groups False front) (\<lambda>front.
          Option.bind (colon_groups True back) (\<lambda>back.
          if length front + length back \<le> 7
          then Some (front @ replicate (8 - length front - length back) 0 @ back) else None)))"

definition parse_ip_addr :: "str \<Rightarrow> ip_addr option" where
  "parse_ip_addr s =
     (case parse_ipv4 s of Some octets \<Rightarrow> Some (V4 octets) | None \<Rightarrow> map_option V6 (parse_ipv6 s))"

section \<open>Validation\<close>

fun is_public_observation_ip :: "ip_addr \<Rightarrow> bool" where
  "is_public_observation_ip (V4 [a, b, c, d]) =
     (\<not> (a = 10 \<or> a = 172 \<and> 16 \<le> b \<and> b \<le> 31 \<or> a = 192 \<and> b = 168
         \<or> a = 127 \<or> a = 169 \<and> b = 254
         \<or> a = 192 \<and> b = 0 \<and> c = 2 \<or> a = 198 \<and> b = 51 \<and> c = 100 \<or> a = 203 \<and> b = 0 \<and> c = 113
         \<or> 224 \<le> a \<and> a \<le> 239 \<or> a = 0
         \<or> a = 100 \<and> 64 \<le> b \<and> b \<le> 127 \<or> a = 192 \<and> b = 0 \<and> c = 0
         \<or> a = 198 \<and> 18 \<le> b \<and> b \<le> 19 \<or> 240 \<le> a))"
| "is_public_observation_ip (V6 (s0 # s1 # _)) =
     (0x2000 \<le> s0 \<and> s0 < 0x4000 \<and> \<not> (s0 = 0x2001 \<and> s1 = 0x0db8))"
| "is_public_observation_ip _ = False"

definition EVIDENCE_ENTRY_SCHEMA_VERSION :: u32 where "EVIDENCE_ENTRY_SCHEMA_VERSION = 1"
definition NATIVE_PROTOCOL_VERSION :: u32 where "NATIVE_PROTOCOL_VERSION = 2"
definition EVIDENCE_ENTRY_TTL_SECONDS :: int where "EVIDENCE_ENTRY_TTL_SECONDS = 10 * 60"
definition NETWORK_CHECK_MAX_AGE_SECONDS :: int where "NETWORK_CHECK_MAX_AGE_SECONDS = 5 * 60"
definition SNAPSHOT_CLOCK_SKEW_SECONDS :: int where "SNAPSHOT_CLOCK_SKEW_SECONDS = 5"

definition NETWORK_REPUTATION_EXPLANATION :: str where
  "NETWORK_REPUTATION_EXPLANATION =
     [26410, 26597, 35810, 21830, 19994, 20449, 35465, 24211, 25110, 40657, 21517, 21333,
      65307, 36816, 33829, 21830, 19982, 26426, 25151, 32447, 32034, 19981, 33021, 20195,
      34920, 32, 73, 80, 32, 19968, 23450, 24178, 20928, 25110, 19968, 23450, 26377, 39118,
      38505, 12290]"

definition valid_coverage :: "native_network_evidence_coverage \<Rightarrow> bool" where
  "valid_coverage coverage \<longleftrightarrow>
     nec_trigger coverage = lit ''user_initiated''
     \<and> nec_transport coverage = lit ''companion_extension_fetch''
     \<and> nec_ip coverage = lit ''third_party_https_observation''
     \<and> nec_public_dns coverage = lit ''public_doh_answer_comparison''
     \<and> nec_actual_dns_path coverage = lit ''not_observed''
     \<and> nec_web_rtc coverage = lit ''not_observed'' \<and> nec_quic coverage = lit ''not_observed''"

definition valid_coordinates :: "u32 \<Rightarrow> native_ip_exit_observation \<Rightarrow> bool" where
  "valid_coordinates schema_version ip \<longleftrightarrow>
     (let latitude = Option.bind (nip_latitude ip) id; longitude = Option.bind (nip_longitude ip) id in
      (schema_version = 1 \<longrightarrow> nip_latitude ip = None \<and> nip_longitude ip = None)
      \<and> (schema_version = 2 \<longrightarrow> nip_latitude ip \<noteq> None \<and> nip_longitude ip \<noteq> None
            \<and> (latitude = None) = (longitude = None))
      \<and> (case latitude of None \<Rightarrow> True | Some x \<Rightarrow> f64_between (- 90) 90 x)
      \<and> (case longitude of None \<Rightarrow> True | Some x \<Rightarrow> f64_between (- 180) 180 x))"

definition valid_asn :: "str \<Rightarrow> bool" where
  "valid_asn asn \<longleftrightarrow>
     3 \<le> str_len asn \<and> str_len asn \<le> 12 \<and> take 2 asn = lit ''AS''
     \<and> list_all is_ascii_digit (drop 2 asn)"

definition version_matches :: "native_ip_version \<Rightarrow> ip_addr \<Rightarrow> bool" where
  "version_matches version address \<longleftrightarrow>
     (case address of V4 _ \<Rightarrow> version = Ipv4 | V6 _ \<Rightarrow> version = Ipv6)"

definition valid_ip_observation :: "u32 \<Rightarrow> native_ip_exit_observation \<Rightarrow> bool" where
  "valid_ip_observation schema_version ip \<longleftrightarrow>
     valid_coordinates schema_version ip
     \<and> (case parse_ip_addr (nip_address ip) of
           None \<Rightarrow> False
         | Some address \<Rightarrow>
             valid_text (nip_address ip) 64 \<and> version_matches (nip_version ip) address
             \<and> is_public_observation_ip address)
     \<and> valid_optional_text (nip_country ip) 100 \<and> valid_optional_text (nip_country_code ip) 8
     \<and> valid_optional_text (nip_region ip) 120 \<and> valid_optional_text (nip_city ip) 120
     \<and> valid_optional_text (nip_organization ip) 160 \<and> valid_optional_text (nip_isp ip) 160
     \<and> valid_optional_text (nip_timezone ip) 80
     \<and> (case nip_asn ip of None \<Rightarrow> True | Some asn \<Rightarrow> valid_asn asn)"

text \<open>Sorting and removing duplicates leaves a list as it is if and only if it ascends strictly.\<close>

fun str_less :: "str \<Rightarrow> str \<Rightarrow> bool" where
  "str_less _ [] = False"
| "str_less [] (_ # _) = True"
| "str_less (a # as) (b # bs) = (a < b \<or> a = b \<and> str_less as bs)"

fun ascending :: "str list \<Rightarrow> bool" where
  "ascending (a # b # rest) = (str_less a b \<and> ascending (b # rest))"
| "ascending _ = True"

definition valid_dns_provider :: "native_dns_provider_observation \<Rightarrow> bool" where
  "valid_dns_provider provider \<longleftrightarrow>
     length (ndp_addresses provider) \<le> 16 \<and> ascending (ndp_addresses provider)
     \<and> list_all (\<lambda>address. parse_ipv4 address \<noteq> None) (ndp_addresses provider)"

definition expected_dns_state :: "native_dns_provider_observation list \<Rightarrow> native_dns_state" where
  "expected_dns_state providers =
     (case providers of
        [] \<Rightarrow> FailedDns
      | [_] \<Rightarrow> PartialDns
      | first # second # _ \<Rightarrow>
          if list_ex (\<lambda>provider. ndp_status provider \<noteq> 0) providers then ResolverError
          else if ndp_addresses first \<noteq> [] \<and> ndp_addresses first = ndp_addresses second
          then Consistent else Different)"

definition expected_dnssec_state :: "native_dns_provider_observation list \<Rightarrow> native_dnssec_state" where
  "expected_dnssec_state providers =
     (case providers of
        [] \<Rightarrow> UnavailableDnssec
      | [_] \<Rightarrow> PartialDnssec
      | _ \<Rightarrow> if list_all ndp_dnssec_authenticated providers then Validated else NotValidated)"

definition valid_dns_observation :: "native_dns_observation \<Rightarrow> bool" where
  "valid_dns_observation dns \<longleftrightarrow>
     ndo_query_name dns = lit ''example.com'' \<and> length (ndo_providers dns) \<le> 2
     \<and> distinct (map ndp_provider (ndo_providers dns))
     \<and> list_all valid_dns_provider (ndo_providers dns)
     \<and> ndo_state dns = expected_dns_state (ndo_providers dns)
     \<and> ndo_dnssec dns = expected_dnssec_state (ndo_providers dns)"

definition valid_network_check :: "native_network_check_result \<Rightarrow> time \<Rightarrow> bool" where
  "valid_network_check result reference_time \<longleftrightarrow>
     (let age = reference_time - ncr_checked_at result in
      ncr_schema_version result \<in> {1, 2}
      \<and> age \<le> seconds NETWORK_CHECK_MAX_AGE_SECONDS
      \<and> - seconds SNAPSHOT_CLOCK_SKEW_SECONDS \<le> age
      \<and> length (ncr_errors result) \<le> 10
      \<and> list_all (\<lambda>error. valid_text error 300) (ncr_errors result)
      \<and> (case ncr_ip result of None \<Rightarrow> True
         | Some ip \<Rightarrow> valid_ip_observation (ncr_schema_version result) ip)
      \<and> valid_dns_observation (ncr_dns result)
      \<and> ncr_reputation_explanation result = NETWORK_REPUTATION_EXPLANATION)"

text \<open>
  Every refusal of the validator is the same error, so the validator is the conjunction of its
  conditions.
\<close>

definition valid_network_evidence :: "network_evidence \<Rightarrow> bool" where
  "valid_network_evidence entry \<longleftrightarrow>
     nee_schema_version entry = EVIDENCE_ENTRY_SCHEMA_VERSION
     \<and> nee_protocol_version entry \<in> {1, NATIVE_PROTOCOL_VERSION}
     \<and> nee_expires_at entry = nee_received_at entry + seconds EVIDENCE_ENTRY_TTL_SECONDS
     \<and> valid_coverage (nee_coverage entry)
     \<and> valid_network_check (nee_result entry) (nee_received_at entry)"

end
