(* ===== verification/Vault_Types.thy ===== *)
theory Vault_Types
  imports Runtime_Types Network_Evidence Binding_Store
begin

text \<open>
  The data of the encrypted Vault and its validators (\<open>vault.rs\<close>): Silos, seeds, Artifacts, secrets,
  network evidence, recent runs and the state of the remote control plane. Hash maps are association
  lists with distinct keys. What the Vault takes from libraries (JSON, base64, SHA-256, Argon2id,
  AES-256-GCM, URLs) is the record \<open>vault_library\<close>, of which nothing is assumed here.
\<close>

section \<open>Data\<close>

definition VAULT_ENVELOPE_VERSION :: u32 where "VAULT_ENVELOPE_VERSION = 2"
definition VAULT_DATA_SCHEMA_VERSION :: u32 where "VAULT_DATA_SCHEMA_VERSION = 9"
definition MAX_NETWORK_EVIDENCE_RECORDS :: nat where "MAX_NETWORK_EVIDENCE_RECORDS = 1000"
definition MAX_NETWORK_EVIDENCE_PER_SILO :: nat where "MAX_NETWORK_EVIDENCE_PER_SILO = 100"
definition MAX_REMOTE_BINDINGS :: nat where "MAX_REMOTE_BINDINGS = 10000"
definition MAX_REMOTE_OPERATION_RESULTS :: nat where "MAX_REMOTE_OPERATION_RESULTS = 10000"
definition MAX_USED_PAIRING_TOKENS :: nat where "MAX_USED_PAIRING_TOKENS = 4096"
definition MAX_REMOTE_ORPHAN_RECEIPTS :: nat where "MAX_REMOTE_ORPHAN_RECEIPTS = 10000"
definition MAX_VAULT_BACKUP_BYTES :: nat where "MAX_VAULT_BACKUP_BYTES = 64 * 1024 * 1024"
definition MAX_IDENTITY_ARTIFACTS :: nat where "MAX_IDENTITY_ARTIFACTS = 256"
definition MAX_IDENTITY_ARTIFACT_BYTES :: nat where "MAX_IDENTITY_ARTIFACT_BYTES = 4 * 1024 * 1024"
definition MAX_STORED_SILOS :: nat where "MAX_STORED_SILOS = 10000"

lemmas vault_limits =
  MAX_NETWORK_EVIDENCE_RECORDS_def MAX_NETWORK_EVIDENCE_PER_SILO_def MAX_REMOTE_BINDINGS_def
  MAX_REMOTE_OPERATION_RESULTS_def MAX_USED_PAIRING_TOKENS_def MAX_REMOTE_ORPHAN_RECEIPTS_def
  MAX_IDENTITY_ARTIFACTS_def MAX_STORED_SILOS_def

record stored_proxy_credential =
  spc_username :: str
  spc_password :: str

record stored_identity_artifact =
  sia_artifact_id :: str
  sia_schema :: str
  sia_raw_json :: str
  sia_raw_sha256 :: str

record remote_vault_state =
  rvs_endpoint :: "remote_endpoint option"
  rvs_backend :: remote_backend_snapshot
  rvs_last_results :: "(uuid, operation_result) hmap"
  rvs_pairing_revoked_at :: "time option"
  rvs_orphan_receipts :: "remote_orphan_receipt list"

definition remote_vault_state_default :: remote_vault_state where
  "remote_vault_state_default =
     \<lparr>rvs_endpoint = None,
      rvs_backend = \<lparr>rs_pairing = None, rs_used_pairing_token_ids = [], rs_bindings = []\<rparr>,
      rvs_last_results = [], rvs_pairing_revoked_at = None, rvs_orphan_receipts = []\<rparr>"

text \<open>A Mihomo controller secret is a record of one string.\<close>

record vault_data =
  vd_schema_version :: u32
  vd_silos :: "silo list"
  vd_seed_material :: "(uuid, str) hmap"
  vd_identity_artifacts :: "(str, stored_identity_artifact) hmap"
  vd_proxy_credentials :: "(uuid, stored_proxy_credential) hmap"
  vd_mihomo_controller_secrets :: "(uuid, str) hmap"
  vd_network_evidence :: "network_evidence list"
  vd_recent_runs :: "(uuid, recent_run_record) hmap"
  vd_remote_control_plane :: remote_vault_state

definition vault_data_empty :: vault_data where
  "vault_data_empty =
     \<lparr>vd_schema_version = VAULT_DATA_SCHEMA_VERSION, vd_silos = [], vd_seed_material = [],
      vd_identity_artifacts = [], vd_proxy_credentials = [], vd_mihomo_controller_secrets = [],
      vd_network_evidence = [], vd_recent_runs = [],
      vd_remote_control_plane = remote_vault_state_default\<rparr>"

record vault_envelope =
  ven_version :: u32
  ven_kdf :: str
  ven_salt :: str
  ven_wrap_nonce :: "str option"
  ven_wrapped_dek :: "str option"
  ven_nonce :: str
  ven_ciphertext :: str

text \<open>\<open>Panicked\<close> is no error of the source: it stands for the panic of an \<open>expect\<close> that finds nothing.\<close>

datatype vault_error =
    Panicked
  | AlreadyInitialized
  | NotInitialized
  | Locked
  | InvalidPassphrase
  | InvalidData
  | Filesystem str
  | Serialization str
  | CryptographicSetup
  | SiloNotFound
  | SiloRunning
  | SiloProfileInUse
  | BrowserVerification str
  | SiloIdentityLocked
  | UnmanagedProfile
  | PermanentDeleteNotConfirmed
  | SiloRemoteBound
  | RestoreOverwriteNotConfirmed
  | RestoreCurrentVaultLocked
  | RestoreActiveRemoteBindings
  | RestoreRemoteOwnershipConflict
  | RestoreIdentityConflict
  | BackupDestinationExists
  | BackupTooLarge
  | InvalidSilo str

text \<open>
  The libraries: \<open>Url::parse\<close>; base64 without padding; SHA-256 in hexadecimal; the strict JSON
  parser; the JSON texts and values of stored data; Argon2id with the Vault's parameters (of which
  \<open>None\<close> is a failed setup); AES-256-GCM under a key and a nonce.
\<close>

record vault_library =
  vl_parse_url :: url_parser
  vl_b64_encode :: "nat list \<Rightarrow> str"
  vl_b64_decode :: "str \<Rightarrow> nat list option"
  vl_sha256_hex :: "nat list \<Rightarrow> str"
  vl_strict_json :: "str \<Rightarrow> json option"
  vl_template_value :: "identity_template option \<Rightarrow> str + json"
  vl_record_value :: "recent_run_record \<Rightarrow> str + json"
  vl_record_to_vec :: "recent_run_record \<Rightarrow> str + nat list"
  vl_data_to_vec :: "vault_data \<Rightarrow> str + nat list"
  vl_json_from_slice :: "nat list \<Rightarrow> json option"
  vl_data_from_value :: "json \<Rightarrow> vault_data option"
  vl_envelope_to_vec :: "vault_envelope \<Rightarrow> str + nat list"
  vl_envelope_from_slice :: "nat list \<Rightarrow> vault_envelope option"
  vl_argon2 :: "str \<Rightarrow> nat list \<Rightarrow> nat list option"
  vl_encrypt :: "nat list \<Rightarrow> nat list \<Rightarrow> nat list \<Rightarrow> nat list option"
  vl_decrypt :: "nat list \<Rightarrow> nat list \<Rightarrow> nat list \<Rightarrow> nat list option"

text \<open>The parser of the remote crate's validators, which do not ask for the port.\<close>

definition plain_url :: "url_parser \<Rightarrow> str \<Rightarrow> str + url_parts" where
  "plain_url parse_url text =
     (case parse_url text of Inl e \<Rightarrow> Inl e | Inr url \<Rightarrow> Inr (url_parts.truncate url))"

section \<open>Identity Artifacts\<close>

definition valid_artifact_record :: "vault_library \<Rightarrow> str \<Rightarrow> stored_identity_artifact \<Rightarrow> bool" where
  "valid_artifact_record L key artifact \<longleftrightarrow>
     key = sia_artifact_id artifact \<and> strip_prefix (lit ''identity-'') key \<noteq> None
     \<and> str_len key \<le> 72
     \<and> list_all (\<lambda>c. is_ascii_lowercase c \<or> is_ascii_digit c \<or> c = 45) key
     \<and> sia_raw_json artifact \<noteq> [] \<and> str_len (sia_raw_json artifact) \<le> MAX_IDENTITY_ARTIFACT_BYTES
     \<and> is_artifact_schema (sia_schema artifact)
     \<and> str_len (sia_raw_sha256 artifact) = 64
     \<and> list_all (\<lambda>c. is_ascii_hexdigit c \<and> \<not> is_ascii_uppercase c) (sia_raw_sha256 artifact)
     \<and> vl_sha256_hex L (str_bytes (sia_raw_json artifact)) = sia_raw_sha256 artifact"

definition validate_identity_artifact_record ::
    "vault_library \<Rightarrow> str \<Rightarrow> stored_identity_artifact \<Rightarrow> vault_error + unit" where
  "validate_identity_artifact_record L key artifact =
     (if \<not> valid_artifact_record L key artifact then Inl InvalidData
      else
        rbind (ok_or InvalidData (vl_strict_json L (sia_raw_json artifact))) (\<lambda>value.
        rbind (ok_or InvalidData (json_as_object value)) (\<lambda>members.
        if Option.bind (map_of members (lit ''artifactId'')) json_as_str \<noteq> Some key
           \<or> Option.bind (map_of members (lit ''schema'')) json_as_str \<noteq> Some (sia_schema artifact)
        then Inl InvalidData else Inr ())))"

definition validate_silo_artifact ::
    "(str, stored_identity_artifact) hmap \<Rightarrow> silo \<Rightarrow> vault_error + unit" where
  "validate_silo_artifact artifacts s =
     (case camoufox_artifact_binding (sil_engine s) of
        None \<Rightarrow> Inr ()
      | Some binding \<Rightarrow>
          rbind (ok_or InvalidData (map_of artifacts (cab_artifact_id binding))) (\<lambda>artifact.
          if sia_schema artifact \<noteq> cab_schema binding
             \<or> sia_raw_sha256 artifact \<noteq> cab_artifact_file_sha256 binding
          then Inl InvalidData else Inr ()))"

definition validate_identity_artifacts :: "vault_library \<Rightarrow> vault_data \<Rightarrow> vault_error + unit" where
  "validate_identity_artifacts L data =
     (if MAX_IDENTITY_ARTIFACTS < length (vd_identity_artifacts data) then Inl InvalidData
      else
        rbind (try_each (\<lambda>(key, artifact). validate_identity_artifact_record L key artifact)
                 (vd_identity_artifacts data)) (\<lambda>_.
        try_each (validate_silo_artifact (vd_identity_artifacts data)) (vd_silos data)))"

section \<open>The remote control plane\<close>

definition valid_remote_pairing :: "remote_vault_state \<Rightarrow> pairing_snapshot \<Rightarrow> bool" where
  "valid_remote_pairing remote pairing \<longleftrightarrow>
     rvs_endpoint remote \<noteq> None
     \<and> pn_server_id pairing \<noteq> nil_uuid \<and> pn_client_credential_id pairing \<noteq> nil_uuid
     \<and> 32 \<le> str_len (pn_client_credential pairing) \<and> str_len (pn_client_credential pairing) \<le> 512
     \<and> list_all is_base64url (str_bytes (pn_client_credential pairing))
     \<and> pn_credential_expires_at_unix_ms pairing \<noteq> 0 \<and> pn_last_server_sequence pairing \<noteq> 0
     \<and> length (pn_capabilities pairing) = length ALL_OPERATIONS
     \<and> is_ok (node_disclosure_validate (pn_node pairing))
     \<and> list_all (\<lambda>operation. count_capability (pn_capabilities pairing) operation = 1) ALL_OPERATIONS
     \<and> list_all (\<lambda>capability. case cap_availability capability of
           capability_availability.Available \<Rightarrow> True
         | capability_availability.Unavailable reason \<Rightarrow> str_trim reason \<noteq> [] \<and> str_len reason \<le> 1024)
         (pn_capabilities pairing)"

definition valid_remote_binding :: "vault_library \<Rightarrow> vault_data \<Rightarrow> silo_binding \<Rightarrow> bool" where
  "valid_remote_binding L data binding \<longleftrightarrow>
     (let remote = vd_remote_control_plane data in
      sb_silo_id binding \<in> set (map sil_id (vd_silos data))
      \<and> is_ok (endpoint_validate (plain_url (vl_parse_url L)) (sb_endpoint binding))
      \<and> rvs_endpoint remote = Some (sb_endpoint binding)
      \<and> (case rs_pairing (rvs_backend remote) of None \<Rightarrow> True
         | Some pairing \<Rightarrow> pn_server_id pairing = sb_server_id binding)
      \<and> va_encrypted (sb_volume binding) \<and> va_key_custody (sb_volume binding) = UserControlled
      \<and> va_volume_id (sb_volume binding) \<noteq> nil_uuid \<and> va_key_id (sb_volume binding) \<noteq> nil_uuid)"

definition remote_identity :: "remote_orphan_receipt \<Rightarrow> uuid \<times> uuid" where
  "remote_identity receipt = (oo_server_id receipt, oo_remote_environment_id receipt)"

definition bound_identity :: "silo_binding \<Rightarrow> uuid \<times> uuid" where
  "bound_identity binding = (sb_server_id binding, sb_remote_environment_id binding)"

definition valid_result_volume :: "operation_result \<Rightarrow> bool" where
  "valid_result_volume result \<longleftrightarrow>
     (case os_volume result of
        Some volume \<Rightarrow>
          os_operation result = remote_operation.Create \<and> va_encrypted volume
          \<and> va_key_custody volume = UserControlled
          \<and> va_volume_id volume \<noteq> nil_uuid \<and> va_key_id volume \<noteq> nil_uuid
      | None \<Rightarrow> os_operation result \<noteq> remote_operation.Create)"

definition valid_result_deletion :: "operation_result \<Rightarrow> bool" where
  "valid_result_deletion result \<longleftrightarrow>
     (case os_deletion_proof result of
        Some dproof \<Rightarrow>
          os_operation result = remote_operation.Destroy
          \<and> dp_proof_id dproof \<noteq> nil_uuid \<and> dp_provider_receipt_id dproof \<noteq> nil_uuid
          \<and> dp_volume_id dproof \<noteq> nil_uuid
          \<and> dp_silo_id dproof = os_silo_id result \<and> dp_binding_id dproof = os_binding_id result
          \<and> dp_remote_environment_id dproof = os_remote_environment_id result
          \<and> dp_deleted_at_unix_ms dproof = os_last_activity_at_unix_ms result
          \<and> (case proof_key_id dproof of None \<Rightarrow> False
             | Some key_id \<Rightarrow> deletion_resources_are_bound (dp_resource_deletions dproof)
                 (dp_remote_environment_id dproof) (dp_volume_id dproof) key_id)
      | None \<Rightarrow> os_operation result \<noteq> remote_operation.Destroy)"

definition valid_last_result :: "vault_data \<Rightarrow> uuid \<times> operation_result \<Rightarrow> bool" where
  "valid_last_result data entry \<longleftrightarrow>
     (let silo_id = fst entry; result = snd entry in
      silo_id = os_silo_id result \<and> silo_id \<in> set (map sil_id (vd_silos data))
      \<and> os_server_id result \<noteq> nil_uuid \<and> os_last_activity_at_unix_ms result \<noteq> 0
      \<and> (case rs_pairing (rvs_backend (vd_remote_control_plane data)) of None \<Rightarrow> True
         | Some pairing \<Rightarrow> pn_server_id pairing = os_server_id result)
      \<and> (case os_logs result of None \<Rightarrow> True | Some logs \<Rightarrow> length logs \<le> 200)
      \<and> valid_result_volume result \<and> valid_result_deletion result)"

text \<open>Every refusal is \<open>InvalidData\<close>, so the validator is the conjunction of its conditions.\<close>

definition valid_remote_control_plane :: "vault_library \<Rightarrow> vault_data \<Rightarrow> bool" where
  "valid_remote_control_plane L data \<longleftrightarrow>
     (let remote = vd_remote_control_plane data; backend = rvs_backend remote;
          bindings = rs_bindings backend; receipts = rvs_orphan_receipts remote;
          parse_url = plain_url (vl_parse_url L) in
      length bindings \<le> MAX_REMOTE_BINDINGS
      \<and> length (rvs_last_results remote) \<le> MAX_REMOTE_OPERATION_RESULTS
      \<and> length (rs_used_pairing_token_ids backend) \<le> MAX_USED_PAIRING_TOKENS
      \<and> length receipts \<le> MAX_REMOTE_ORPHAN_RECEIPTS
      \<and> (case rvs_endpoint remote of None \<Rightarrow> True
         | Some endpoint \<Rightarrow> is_ok (endpoint_validate parse_url endpoint))
      \<and> (case rs_pairing backend of None \<Rightarrow> True | Some pairing \<Rightarrow> valid_remote_pairing remote pairing)
      \<and> (bindings = [] \<or> rvs_endpoint remote \<noteq> None)
      \<and> is_ok (from_bindings parse_url bindings)
      \<and> distinct (map sb_silo_id bindings)
      \<and> list_all (valid_remote_binding L data) bindings
      \<and> distinct (rs_used_pairing_token_ids backend)
      \<and> distinct (map oo_receipt_id receipts) \<and> distinct (map oo_binding_id receipts)
      \<and> distinct (map remote_identity receipts)
      \<and> list_all (\<lambda>receipt. is_ok (remote_orphan_receipt_validate parse_url receipt)) receipts
      \<and> \<not> list_ex (\<lambda>binding. sb_binding_id binding \<in> set (map oo_binding_id receipts)
                          \<or> bound_identity binding \<in> set (map remote_identity receipts)) bindings
      \<and> list_all (valid_last_result data) (rvs_last_results remote))"

definition validate_remote_control_plane :: "vault_library \<Rightarrow> vault_data \<Rightarrow> vault_error + unit" where
  "validate_remote_control_plane L data =
     (if valid_remote_control_plane L data then Inr () else Inl InvalidData)"

section \<open>The whole of the data\<close>

definition valid_stored_secrets :: "vault_data \<Rightarrow> bool" where
  "valid_stored_secrets data \<longleftrightarrow>
     list_all (\<lambda>(_, stored). valid_credentials (spc_username stored) (spc_password stored))
       (vd_proxy_credentials data)
     \<and> list_all (\<lambda>(_, secret). valid_controller_secret secret) (vd_mihomo_controller_secrets data)"

definition validate_engine :: "silo \<Rightarrow> domain_error + unit" where
  "validate_engine s = validate_engine_configuration (sil_engine s) (sil_network_profile s)"

definition valid_stored_browser :: "browser_descriptor \<Rightarrow> bool" where
  "valid_stored_browser browser \<longleftrightarrow>
     brd_executable_path browser \<noteq> [] \<and> str_len (brd_executable_path browser) \<le> 32768
     \<and> \<not> list_ex is_control (brd_executable_path browser)
     \<and> (case brd_version browser of None \<Rightarrow> True
        | Some version \<Rightarrow> version \<noteq> [] \<and> str_len version \<le> 512)"

definition WSL_BROWSER :: browser_descriptor where
  "WSL_BROWSER =
     \<lparr>brd_kind = Chrome, brd_executable_path = lit ''/usr/bin/chromium'', brd_version = None\<rparr>"

text \<open>What is asked of a Silo by itself.\<close>

definition valid_stored_silo :: "vault_library \<Rightarrow> silo \<Rightarrow> bool" where
  "valid_stored_silo L s \<longleftrightarrow>
     sil_schema_version s = SILO_SCHEMA_VERSION
     \<and> is_ok (validate_silo_name (sil_name s)) \<and> is_hex_color (sil_color s)
     \<and> sil_profile_directory s \<noteq> [] \<and> str_len (sil_profile_directory s) \<le> 32768
     \<and> is_ok (execution_target_validate (vl_parse_url L) (sil_execution_target s))
     \<and> (is_local (sil_execution_target s) \<or> is_stock (sil_engine s))
     \<and> \<not> (is_camoufox (sil_engine s) \<and> sil_browser s \<noteq> None)
     \<and> \<not> (is_stock (sil_engine s) \<and> sil_browser s = None)
     \<and> is_ok (network_profile_validate (vl_parse_url L) (sil_network_profile s))
     \<and> is_ok (validate_engine s)
     \<and> (case sil_browser s of None \<Rightarrow> True | Some browser \<Rightarrow> valid_stored_browser browser)
     \<and> (case sil_execution_target s of Wsl _ \<Rightarrow> sil_browser s = Some WSL_BROWSER | _ \<Rightarrow> True)"

definition stored_seed :: "vault_library \<Rightarrow> vault_data \<Rightarrow> uuid \<Rightarrow> nat list option" where
  "stored_seed L data reference = Option.bind (map_of (vd_seed_material data) reference) (vl_b64_decode L)"

text \<open>What is asked of the stored data for a Silo: its seed, its credential and its secret.\<close>

definition silo_is_backed :: "vault_library \<Rightarrow> vault_data \<Rightarrow> silo \<Rightarrow> bool" where
  "silo_is_backed L data s \<longleftrightarrow>
     (case stored_seed L data (sil_seed_reference s) of None \<Rightarrow> False | Some seed \<Rightarrow> length seed = 32)
     \<and> (case credential_reference (sil_network_profile s) of None \<Rightarrow> True
        | Some reference \<Rightarrow> map_of (vd_proxy_credentials data) reference \<noteq> None)
     \<and> (case mihomo_controller_secret_reference (sil_network_profile s) of None \<Rightarrow> True
        | Some reference \<Rightarrow> map_of (vd_mihomo_controller_secrets data) reference \<noteq> None)"

text \<open>Every prefix of the evidence has at most \<open>MAX_NETWORK_EVIDENCE_PER_SILO\<close> entries of a Silo.\<close>

definition evidence_of :: "uuid \<Rightarrow> network_evidence list \<Rightarrow> network_evidence list" where
  "evidence_of silo_id entries = filter (\<lambda>entry. nee_silo_id entry = silo_id) entries"

definition valid_stored_evidence :: "vault_data \<Rightarrow> bool" where
  "valid_stored_evidence data \<longleftrightarrow>
     (let entries = vd_network_evidence data in
      distinct (map nee_evidence_id entries) \<and> distinct (map nee_request_id entries)
      \<and> list_all (\<lambda>entry. nee_silo_id entry \<in> set (map sil_id (vd_silos data))
            \<and> length (evidence_of (nee_silo_id entry) entries) \<le> MAX_NETWORK_EVIDENCE_PER_SILO
            \<and> valid_network_evidence entry) entries)"

definition short_text :: "str \<Rightarrow> bool" where
  "short_text text \<longleftrightarrow> str_len text \<le> 512 \<and> \<not> list_ex is_control text"

definition evidence_matches_binding :: "artifact_binding option \<Rightarrow> runtime_identity_evidence \<Rightarrow> bool" where
  "evidence_matches_binding binding evidence \<longleftrightarrow>
     (case binding of None \<Rightarrow> False
      | Some binding \<Rightarrow> cab_artifact_id binding = rie_artifact_id evidence
          \<and> cab_artifact_file_sha256 binding = rie_artifact_file_sha256 evidence)"

definition valid_recent_run :: "vault_data \<Rightarrow> uuid \<Rightarrow> recent_run_record \<Rightarrow> bool" where
  "valid_recent_run data silo_id record \<longleftrightarrow>
     silo_id = rrr_silo_id record \<and> rrr_profile_silo_id record = rrr_silo_id record
     \<and> list_ex (\<lambda>s. sil_id s = silo_id \<and> is_local (sil_execution_target s)) (vd_silos data)
     \<and> (case rrr_reason record of None \<Rightarrow> True | Some reason \<Rightarrow> short_text reason)
     \<and> (case rnp_endpoint_label (rrr_network_policy record) of None \<Rightarrow> True
        | Some label \<Rightarrow> short_text label)
     \<and> (case rrr_artifact_binding record of None \<Rightarrow> True
        | Some binding \<Rightarrow> is_ok (artifact_binding_validate binding))
     \<and> (case rrr_network_evidence record of None \<Rightarrow> True
        | Some evidence \<Rightarrow> rrr_runtime_id record = Some (rne_runtime_id evidence))
     \<and> (case rrr_engine_evidence record of None \<Rightarrow> True
        | Some evidence \<Rightarrow> ree_configured_adapter evidence = rrr_engine_adapter record)
     \<and> (case rrr_identity_evidence record of None \<Rightarrow> True
        | Some evidence \<Rightarrow> rie_silo_id evidence = silo_id
            \<and> rrr_runtime_id record = Some (rie_runtime_id evidence)
            \<and> rie_engine_adapter evidence = rrr_engine_adapter record
            \<and> evidence_matches_binding (rrr_artifact_binding record) evidence)"

definition MAX_RECENT_RUN_BYTES :: nat where "MAX_RECENT_RUN_BYTES = 512 * 1024"

definition validate_recent_run ::
    "vault_library \<Rightarrow> vault_data \<Rightarrow> uuid \<times> recent_run_record \<Rightarrow> vault_error + unit" where
  "validate_recent_run L data entry =
     (if \<not> valid_recent_run data (fst entry) (snd entry) then Inl InvalidData
      else
        rbind (map_err Serialization (vl_record_to_vec L (snd entry))) (\<lambda>bytes.
        if MAX_RECENT_RUN_BYTES < length bytes then Inl InvalidData else Inr ()))"

definition within_vault_limits :: "vault_data \<Rightarrow> bool" where
  "within_vault_limits data \<longleftrightarrow>
     length (vd_silos data) \<le> MAX_STORED_SILOS \<and> length (vd_seed_material data) \<le> MAX_STORED_SILOS
     \<and> length (vd_identity_artifacts data) \<le> MAX_IDENTITY_ARTIFACTS
     \<and> length (vd_proxy_credentials data) \<le> MAX_STORED_SILOS
     \<and> length (vd_mihomo_controller_secrets data) \<le> MAX_STORED_SILOS
     \<and> length (vd_network_evidence data) \<le> MAX_NETWORK_EVIDENCE_RECORDS
     \<and> length (vd_recent_runs data) \<le> length (vd_silos data)"

text \<open>
  The loops refuse with \<open>InvalidData\<close> only, except that a record of a run may fail to serialize. The
  sets that the loop over the Silos collects make the ids and the seed references distinct.
\<close>

definition validate_vault_data :: "vault_library \<Rightarrow> vault_data \<Rightarrow> vault_error + unit" where
  "validate_vault_data L data =
     (if \<not> within_vault_limits data then Inl InvalidData
      else if \<not> valid_stored_secrets data then Inl InvalidData
      else if \<not> distinct (map sil_id (vd_silos data))
         \<or> \<not> distinct (map sil_seed_reference (vd_silos data))
         \<or> \<not> list_all (\<lambda>s. valid_stored_silo L s \<and> silo_is_backed L data s) (vd_silos data)
      then Inl InvalidData
      else if \<not> valid_stored_evidence data then Inl InvalidData
      else
        rbind (try_each (validate_recent_run L data) (vd_recent_runs data)) (\<lambda>_.
        rbind (validate_identity_artifacts L data) (\<lambda>_.
        validate_remote_control_plane L data)))"

end
