(* ===== verification/Vault.thy ===== *)
theory Vault
  imports Vault_Types File_System
begin

text \<open>
  The Vault's runtime (\<open>vault.rs\<close>): unlocking and locking, the auto-lock deadline, and the
  persistence of the data in the encrypted envelope file \<open>vault.json\<close>, which is \<open>StateFile\<close> of
  \<open>File_System\<close>, with its siblings \<open>vault.tmp\<close> (\<open>TmpFile\<close>) and \<open>vault.bak\<close> (\<open>BackupFile\<close>).

  Everything else of the operating system is a world \<open>'w\<close>, which \<open>'w vault_os\<close> asks and changes: the
  clock, randomness, directories, profile leases and the browser inspection. A profile lease is given
  back when its guard is dropped; nothing in the Vault asks for it after that. Key material is kept
  as byte lists; its erasure from memory is not modelled.
\<close>

section \<open>The world and the runtime\<close>

record browser_inspection =
  bri_resolved_path :: str
  bri_version :: str

text \<open>What \<open>fs::symlink_metadata\<close> says of a path: it is absent, a link, something else, or an error.\<close>

datatype path_kind = Absent | Link | Plain | Unreadable str

record 'w vault_os =
  vo_now :: "'w \<Rightarrow> time \<times> 'w"
  vo_new_v4 :: "'w \<Rightarrow> uuid \<times> 'w"
  vo_random_bytes :: "nat \<Rightarrow> 'w \<Rightarrow> nat list \<times> 'w"
  vo_create_dir_all :: "str \<Rightarrow> 'w \<Rightarrow> (str, unit, 'w) outcome"
  vo_remove_dir_all :: "str \<Rightarrow> 'w \<Rightarrow> (str, unit, 'w) outcome"
  vo_rename :: "str \<Rightarrow> str \<Rightarrow> 'w \<Rightarrow> (str, unit, 'w) outcome"
  vo_exists :: "str \<Rightarrow> 'w \<Rightarrow> bool"
  vo_is_file :: "str \<Rightarrow> 'w \<Rightarrow> bool"
  vo_path_kind :: "str \<Rightarrow> 'w \<Rightarrow> path_kind"
  vo_check_tree :: "str \<Rightarrow> 'w \<Rightarrow> (vault_error, unit, 'w) outcome"
  vo_remove_cache_links :: "str \<Rightarrow> 'w \<Rightarrow> (vault_error, unit, 'w) outcome"
  vo_metadata :: "str \<Rightarrow> 'w \<Rightarrow> str + bool \<times> nat"
  vo_read :: "str \<Rightarrow> 'w \<Rightarrow> (str, nat list, 'w) outcome"
  vo_write_new :: "str \<Rightarrow> nat list \<Rightarrow> 'w \<Rightarrow> (vault_error, unit, 'w) outcome"
  vo_inspect_browser :: "browser_kind \<Rightarrow> str \<Rightarrow> 'w \<Rightarrow> (str, browser_inspection, 'w) outcome"
  vo_acquire_lease :: "str list \<Rightarrow> 'w \<Rightarrow> (vault_error, unit, 'w) outcome"

record unlocked_vault =
  uv_dek :: "nat list"
  uv_kek :: "nat list"
  uv_salt :: "nat list"
  uv_data :: vault_data
  uv_auto_lock_at :: time

record 'w vault =
  vt_unlocked :: "unlocked_vault option"
  vt_disk :: disk
  vt_world :: 'w

definition in_vault_world ::
    "('w \<Rightarrow> ('e, 'a, 'w) outcome) \<Rightarrow> ('e \<Rightarrow> vault_error) \<Rightarrow> 'w vault \<Rightarrow> (vault_error, 'a, 'w vault) outcome"
  where
  "in_vault_world f g s = (case f (vt_world s) of (r, w) \<Rightarrow> (map_err g r, s\<lparr>vt_world := w\<rparr>))"

definition in_vault_disk ::
    "(disk \<Rightarrow> (str, 'a, disk) outcome) \<Rightarrow> 'w vault \<Rightarrow> (vault_error, 'a, 'w vault) outcome" where
  "in_vault_disk f s = (case f (vt_disk s) of (r, d) \<Rightarrow> (map_err Filesystem r, s\<lparr>vt_disk := d\<rparr>))"

definition draw_time :: "'w vault_os \<Rightarrow> 'w vault \<Rightarrow> time \<times> 'w vault" where
  "draw_time W s = (case vo_now W (vt_world s) of (now, w) \<Rightarrow> (now, s\<lparr>vt_world := w\<rparr>))"

definition draw_uuid :: "'w vault_os \<Rightarrow> 'w vault \<Rightarrow> uuid \<times> 'w vault" where
  "draw_uuid W s = (case vo_new_v4 W (vt_world s) of (u, w) \<Rightarrow> (u, s\<lparr>vt_world := w\<rparr>))"

definition draw_bytes :: "'w vault_os \<Rightarrow> nat \<Rightarrow> 'w vault \<Rightarrow> nat list \<times> 'w vault" where
  "draw_bytes W n s = (case vo_random_bytes W n (vt_world s) of (b, w) \<Rightarrow> (b, s\<lparr>vt_world := w\<rparr>))"

section \<open>Locking\<close>

definition AUTO_LOCK_MINUTES :: int where "AUTO_LOCK_MINUTES = 15"

definition vault_lock :: "'w vault \<Rightarrow> 'w vault" where
  "vault_lock s = s\<lparr>vt_unlocked := None\<rparr>"

definition expire_if_needed_at :: "time \<Rightarrow> 'w vault \<Rightarrow> 'w vault" where
  "expire_if_needed_at now s =
     (case vt_unlocked s of
        None \<Rightarrow> s
      | Some unlocked \<Rightarrow> if uv_auto_lock_at unlocked \<le> now then s\<lparr>vt_unlocked := None\<rparr> else s)"

definition expire_if_needed :: "'w vault_os \<Rightarrow> 'w vault \<Rightarrow> 'w vault" where
  "expire_if_needed W s = (case draw_time W s of (now, s) \<Rightarrow> expire_if_needed_at now s)"

definition auto_lock_time :: "'w vault_os \<Rightarrow> 'w vault \<Rightarrow> time \<times> 'w vault" where
  "auto_lock_time W s = (case draw_time W s of (now, s) \<Rightarrow> (now + minutes AUTO_LOCK_MINUTES, s))"

text \<open>The shared and the mutable access differ in Rust's types only.\<close>

definition unlocked_without_activity ::
    "'w vault_os \<Rightarrow> 'w vault \<Rightarrow> (vault_error, unlocked_vault, 'w vault) outcome" where
  "unlocked_without_activity W s =
     (let s = expire_if_needed W s in (ok_or Locked (vt_unlocked s), s))"

definition record_activity :: "'w vault_os \<Rightarrow> 'w vault \<Rightarrow> (vault_error, unit, 'w vault) outcome" where
  "record_activity W s =
     (case draw_time W s of (now, s) \<Rightarrow>
      let s = expire_if_needed_at now s in
      case vt_unlocked s of
        None \<Rightarrow> (Inl Locked, s)
      | Some unlocked \<Rightarrow>
          (Inr (), s\<lparr>vt_unlocked :=
             Some (unlocked\<lparr>uv_auto_lock_at := now + minutes AUTO_LOCK_MINUTES\<rparr>)\<rparr>))"

definition unlocked_mut_for_activity ::
    "'w vault_os \<Rightarrow> 'w vault \<Rightarrow> (vault_error, unlocked_vault, 'w vault) outcome" where
  "unlocked_mut_for_activity W s =
     sbind (record_activity W s) (\<lambda>_ s. (ok_or Locked (vt_unlocked s), s))"

text \<open>\<open>self.unlocked_mut_without_activity()?.data = data;\<close>\<close>

definition replace_data ::
    "'w vault_os \<Rightarrow> vault_data \<Rightarrow> 'w vault \<Rightarrow> (vault_error, unit, 'w vault) outcome" where
  "replace_data W data s =
     sbind (unlocked_without_activity W s) (\<lambda>unlocked s.
     (Inr (), s\<lparr>vt_unlocked := Some (unlocked\<lparr>uv_data := data\<rparr>)\<rparr>))"

section \<open>The envelope file\<close>

definition vault_recover_interrupted_write ::
    "'w vault \<Rightarrow> (vault_error, unit, 'w vault) outcome" where
  "vault_recover_interrupted_write s =
     (if \<not> fs_exists StateFile (vt_disk s) \<and> fs_exists BackupFile (vt_disk s)
      then in_vault_disk (fs_rename BackupFile StateFile) s
      else if fs_exists StateFile (vt_disk s) \<and> fs_exists BackupFile (vt_disk s)
      then (Inr (), snd (in_vault_disk (fs_remove_file BackupFile) s))
      else (Inr (), s))"

text \<open>\<open>fs::File::create\<close>: an absent file is created, a present one is emptied.\<close>

definition fs_create :: "file_name \<Rightarrow> disk \<Rightarrow> (str, unit, disk) outcome" where
  "fs_create n = fs_change (\<lambda>dir. Inr (dir(n := Some (Volatile []))))"

text \<open>\<open>replace_file\<close> and \<open>sync_parent_directory\<close> as on Linux: a rename, and a sync of the directory.\<close>

definition vault_atomic_write :: "nat list \<Rightarrow> 'w vault \<Rightarrow> (vault_error, unit, 'w vault) outcome" where
  "vault_atomic_write contents s =
     sbind (in_vault_disk (fs_create TmpFile) s) (\<lambda>_ s.
     sbind (in_vault_disk (fs_write_all TmpFile contents) s) (\<lambda>_ s.
     sbind (in_vault_disk (fs_sync_file TmpFile) s) (\<lambda>_ s.
     sbind (in_vault_disk (fs_rename TmpFile StateFile) s) (\<lambda>_ s.
     in_vault_disk fs_sync_dir s))))"

definition ARGON2ID :: str where "ARGON2ID = lit ''argon2id''"

definition vault_persist_data ::
    "vault_library \<Rightarrow> 'w vault_os \<Rightarrow> vault_data \<Rightarrow> 'w vault \<Rightarrow> (vault_error, unit, 'w vault) outcome"
  where
  "vault_persist_data L W data s =
     sbind (vault_recover_interrupted_write s) (\<lambda>_ s.
     sbind (ok_or Locked (vt_unlocked s), s) (\<lambda>unlocked s.
     sbind (map_err Serialization (vl_data_to_vec L data), s) (\<lambda>plaintext s.
     case draw_bytes W 12 s of (nonce, s) \<Rightarrow>
     sbind (ok_or CryptographicSetup (vl_encrypt L (uv_dek unlocked) nonce plaintext), s)
       (\<lambda>ciphertext s.
     case draw_bytes W 12 s of (wrap_nonce, s) \<Rightarrow>
     sbind (ok_or CryptographicSetup (vl_encrypt L (uv_kek unlocked) wrap_nonce (uv_dek unlocked)), s)
       (\<lambda>wrapped_dek s.
     let envelope = \<lparr>ven_version = VAULT_ENVELOPE_VERSION, ven_kdf = ARGON2ID,
           ven_salt = vl_b64_encode L (uv_salt unlocked),
           ven_wrap_nonce = Some (vl_b64_encode L wrap_nonce),
           ven_wrapped_dek = Some (vl_b64_encode L wrapped_dek),
           ven_nonce = vl_b64_encode L nonce, ven_ciphertext = vl_b64_encode L ciphertext\<rparr> in
     sbind (map_err Serialization (vl_envelope_to_vec L envelope), s) (\<lambda>encoded s.
     vault_atomic_write encoded s))))))"

definition vault_persist ::
    "vault_library \<Rightarrow> 'w vault_os \<Rightarrow> 'w vault \<Rightarrow> (vault_error, unit, 'w vault) outcome" where
  "vault_persist L W s =
     sbind (ok_or Locked (vt_unlocked s), s) (\<lambda>unlocked s. vault_persist_data L W (uv_data unlocked) s)"

text \<open>The end of the operations that change the data: persist the prospective data, then adopt it.\<close>

definition commit_data ::
    "vault_library \<Rightarrow> 'w vault_os \<Rightarrow> vault_data \<Rightarrow> 'w vault \<Rightarrow> (vault_error, unit, 'w vault) outcome"
  where
  "commit_data L W data s =
     sbind (vault_persist_data L W data s) (\<lambda>_ s. replace_data W data s)"

end
