(* ===== verification/Vault_Json.thy ===== *)
theory Vault_Json
  imports Vault_Types
begin

text \<open>
  The strict shapes of the Vault's JSON (\<open>vault.rs\<close>): which members each schema version of the data,
  of a Silo, of its execution target, network profile and engine may and must have, and the reader
  \<open>deserialize_vault_data\<close>, which checks them before \<open>serde_json\<close> builds the data. Beside it stands the
  JSON value that the Vault writes for a Silo: \<open>VaultSiloRef\<close> with its derived serializers.
\<close>

section \<open>Known members\<close>

definition expected_vault_data_fields :: "u32 \<Rightarrow> str list option" where
  "expected_vault_data_fields schema_version =
     (let v1 = map lit [''schemaVersion'', ''silos'', ''seedMaterial''];
          v2 = v1 @ [lit ''proxyCredentials'']; v3 = v2 @ [lit ''mihomoControllerSecrets''];
          v4 = v3 @ [lit ''networkEvidence'']; v5 = v4 @ [lit ''remoteControlPlane''] in
      if schema_version = 1 then Some v1 else if schema_version = 2 then Some v2
      else if schema_version = 3 then Some v3 else if schema_version = 4 then Some v4
      else if 5 \<le> schema_version \<and> schema_version \<le> 8 then Some v5
      else if schema_version = VAULT_DATA_SCHEMA_VERSION
      then Some (map lit [''schemaVersion'', ''silos'', ''seedMaterial'', ''identityArtifacts'',
             ''proxyCredentials'', ''mihomoControllerSecrets'', ''networkEvidence'',
             ''remoteControlPlane'', ''recentRuns''])
      else None)"

definition VAULT_DATA_REQUIRED_FIELDS_V9 :: "str list" where
  "VAULT_DATA_REQUIRED_FIELDS_V9 =
     map lit [''schemaVersion'', ''silos'', ''seedMaterial'', ''identityArtifacts'',
       ''proxyCredentials'', ''mihomoControllerSecrets'', ''networkEvidence'',
       ''remoteControlPlane'']"

definition has_known_fields :: "str list \<Rightarrow> str list \<Rightarrow> json \<Rightarrow> bool" where
  "has_known_fields allowed required value \<longleftrightarrow>
     (case value of
        JObject members \<Rightarrow>
          list_all (\<lambda>(key, _). key \<in> set allowed) members
          \<and> list_all (\<lambda>key. map_of members key \<noteq> None) required
      | _ \<Rightarrow> False)"

definition object_with_known_fields ::
    "str list \<Rightarrow> str list \<Rightarrow> json \<Rightarrow> vault_error + (str \<times> json) list" where
  "object_with_known_fields allowed required value =
     (case value of
        JObject members \<Rightarrow>
          if has_known_fields allowed required value then Inr members else Inl InvalidData
      | _ \<Rightarrow> Inl InvalidData)"

definition expect_fields :: "string list \<Rightarrow> string list \<Rightarrow> json \<Rightarrow> vault_error + unit" where
  "expect_fields allowed required value =
     rbind (object_with_known_fields (map lit allowed) (map lit required) value) (\<lambda>_. Inr ())"

definition member :: "string \<Rightarrow> json \<Rightarrow> vault_error + json" where
  "member key value = ok_or InvalidData (json_get (lit key) value)"

definition member_str :: "string \<Rightarrow> json \<Rightarrow> str option" where
  "member_str key value = Option.bind (json_get (lit key) value) json_as_str"

section \<open>Shapes of a Silo\<close>

definition ENGINE_ARTIFACT_BINDING_FIELDS :: "string list" where
  "ENGINE_ARTIFACT_BINDING_FIELDS = [''artifactId'', ''artifactFileSha256'', ''schema'']"

definition validate_current_engine_json_shape :: "json \<Rightarrow> vault_error + unit" where
  "validate_current_engine_json_shape value =
     (case member_str ''adapter'' value of
        None \<Rightarrow> Inl InvalidData
      | Some adapter \<Rightarrow>
          if adapter = lit ''stock'' then expect_fields [''adapter''] [''adapter''] value
          else if adapter = lit ''controlled-chromium''
          then expect_fields [''adapter'', ''identityTemplate'', ''fallbackRules'']
                 [''adapter'', ''identityTemplate'', ''fallbackRules''] value
          else if adapter = lit ''camoufox''
          then rbind (expect_fields [''adapter'', ''artifactBinding''] [''adapter''] value) (\<lambda>_.
               case json_get (lit ''artifactBinding'') value of
                 None \<Rightarrow> Inr ()
               | Some JNull \<Rightarrow> Inr ()
               | Some binding \<Rightarrow> expect_fields ENGINE_ARTIFACT_BINDING_FIELDS
                   ENGINE_ARTIFACT_BINDING_FIELDS binding)
          else Inl InvalidData)"

definition validate_target_shape :: "json \<Rightarrow> vault_error + unit" where
  "validate_target_shape target =
     (case member_str ''kind'' target of
        None \<Rightarrow> Inl InvalidData
      | Some kind \<Rightarrow>
          if kind = lit ''local'' then expect_fields [''kind''] [''kind''] target
          else if kind = lit ''wsl''
          then expect_fields [''kind'', ''distribution''] [''kind'', ''distribution''] target
          else if kind = lit ''remote''
          then expect_fields [''kind'', ''endpointOrigin''] [''kind'', ''endpointOrigin''] target
          else Inl InvalidData)"

definition validate_network_shape :: "json \<Rightarrow> vault_error + unit" where
  "validate_network_shape network =
     rbind (ok_or InvalidData (json_as_object network)) (\<lambda>_.
     case member_str ''mode'' network of
       None \<Rightarrow> Inl InvalidData
     | Some mode \<Rightarrow>
         if mode = lit ''direct''
         then expect_fields [''mode'', ''proxy_required''] [''mode'', ''proxy_required''] network
         else if mode = lit ''fixed_proxy''
         then rbind (expect_fields
                [''mode'', ''proxy_required'', ''scheme'', ''host'', ''port'', ''bypass_list'',
                 ''credential_reference'', ''external_mihomo'']
                [''mode'', ''proxy_required'', ''scheme'', ''host'', ''port'', ''bypass_list'']
                network) (\<lambda>_.
              case json_get (lit ''external_mihomo'') network of
                None \<Rightarrow> Inr ()
              | Some binding \<Rightarrow> expect_fields
                  [''controllerUrl'', ''selectorGroup'', ''nodeName'', ''controllerSecretReference'']
                  [''controllerUrl'', ''selectorGroup'', ''nodeName''] binding)
         else if mode = lit ''pac''
         then expect_fields [''mode'', ''proxy_required'', ''pac_url'']
                [''mode'', ''proxy_required'', ''pac_url''] network
         else Inl InvalidData)"

definition LEGACY_SILO_REQUIRED_FIELDS :: "string list" where
  "LEGACY_SILO_REQUIRED_FIELDS =
     [''id'', ''schemaVersion'', ''name'', ''color'', ''browser'', ''profileDirectory'',
      ''networkProfile'', ''seedReference'', ''createdAt'', ''archivedAt'']"

definition CURRENT_SILO_REQUIRED_FIELDS :: "string list" where
  "CURRENT_SILO_REQUIRED_FIELDS =
     [''id'', ''schemaVersion'', ''name'', ''color'', ''browser'', ''executionTarget'',
      ''profileDirectory'', ''networkProfile'', ''seedReference'', ''createdAt'',
      ''identityLockedAt'', ''archivedAt'']"

definition validate_silo_json_shape :: "json \<Rightarrow> u32 \<Rightarrow> vault_error + unit" where
  "validate_silo_json_shape value vault_schema_version =
     (let newest = vault_schema_version = VAULT_DATA_SCHEMA_VERSION;
          current = newest \<or> vault_schema_version = 8 \<and> json_get (lit ''executionTarget'') value \<noteq> None;
          required = (if current then CURRENT_SILO_REQUIRED_FIELDS else LEGACY_SILO_REQUIRED_FIELDS);
          expected = (if newest then SILO_SCHEMA_VERSION else if current then 2 else 1) in
      rbind (expect_fields (''engine'' # required) required value) (\<lambda>_.
      if Option.bind (json_get (lit ''schemaVersion'') value) json_as_u64 \<noteq> Some (ucast expected)
      then Inl InvalidData
      else
        rbind (member ''browser'' value) (\<lambda>browser.
        rbind (if browser = JNull then Inr ()
               else expect_fields [''kind'', ''executablePath'', ''version'']
                      [''kind'', ''executablePath'', ''version''] browser) (\<lambda>_.
        rbind (if newest
               then rbind (member ''engine'' value) validate_current_engine_json_shape
               else Inr ()) (\<lambda>_.
        rbind (if current then rbind (member ''executionTarget'' value) validate_target_shape
               else Inr ()) (\<lambda>_.
        rbind (member ''networkProfile'' value) validate_network_shape))))))"

section \<open>Reading the data\<close>

definition json_array :: "json \<Rightarrow> vault_error + json list" where
  "json_array value = (case value of JArray values \<Rightarrow> Inr values | _ \<Rightarrow> Inl InvalidData)"

definition REMOTE_ORPHAN_RECEIPTS_SCHEMA_VERSION :: u32 where
  "REMOTE_ORPHAN_RECEIPTS_SCHEMA_VERSION = 7"

definition carries_deletion_proof :: "json \<Rightarrow> bool" where
  "carries_deletion_proof result \<longleftrightarrow> json_get (lit ''deletionProof'') result \<noteq> None"

definition validate_remote_shape :: "u32 \<Rightarrow> json \<Rightarrow> vault_error + unit" where
  "validate_remote_shape schema_version remote =
     rbind (if schema_version < REMOTE_ORPHAN_RECEIPTS_SCHEMA_VERSION
            then expect_fields [''endpoint'', ''backend'', ''lastResults'', ''pairingRevokedAt'']
                   [''backend'', ''lastResults''] remote
            else expect_fields [''endpoint'', ''backend'', ''lastResults'', ''pairingRevokedAt'',
                     ''orphanReceipts''] [''backend'', ''lastResults'', ''orphanReceipts''] remote) (\<lambda>_.
     if schema_version < 6
     then rbind (member ''lastResults'' remote) (\<lambda>results.
          rbind (ok_or InvalidData (json_as_object results)) (\<lambda>results.
          if list_ex (\<lambda>(_, result). carries_deletion_proof result) results then Inl InvalidData
          else Inr ()))
     else Inr ())"

definition validate_artifact_shapes :: "json \<Rightarrow> vault_error + unit" where
  "validate_artifact_shapes value =
     rbind (member ''identityArtifacts'' value) (\<lambda>artifacts.
     rbind (ok_or InvalidData (json_as_object artifacts)) (\<lambda>artifacts.
     try_each (\<lambda>(_, record). expect_fields [''artifactId'', ''schema'', ''rawJson'', ''rawSha256'']
         [''artifactId'', ''schema'', ''rawJson'', ''rawSha256''] record) artifacts))"

definition json_as_u32 :: "json \<Rightarrow> u32 option" where
  "json_as_u32 value =
     Option.bind (json_as_u64 value) (\<lambda>n. if unat n < 2 ^ 32 then Some (ucast n) else None)"

definition validate_vault_json_shape :: "json \<Rightarrow> vault_error + u32" where
  "validate_vault_json_shape value =
     rbind (ok_or InvalidData (json_as_object value)) (\<lambda>_.
     rbind (ok_or InvalidData
              (Option.bind (json_get (lit ''schemaVersion'') value) json_as_u32)) (\<lambda>schema_version.
     rbind (ok_or InvalidData (expected_vault_data_fields schema_version)) (\<lambda>expected_fields.
     rbind (object_with_known_fields expected_fields
              (if schema_version = VAULT_DATA_SCHEMA_VERSION then VAULT_DATA_REQUIRED_FIELDS_V9
               else expected_fields) value) (\<lambda>_.
     rbind (rbind (member ''silos'' value) json_array) (\<lambda>silos.
     rbind (try_each (\<lambda>s. validate_silo_json_shape s schema_version) silos) (\<lambda>_.
     rbind (if schema_version = VAULT_DATA_SCHEMA_VERSION then validate_artifact_shapes value
            else Inr ()) (\<lambda>_.
     rbind (if 5 \<le> schema_version
            then rbind (member ''remoteControlPlane'' value) (validate_remote_shape schema_version)
            else Inr ()) (\<lambda>_.
     Inr schema_version))))))))"

definition deserialize_vault_data ::
    "vault_library \<Rightarrow> nat list \<Rightarrow> vault_error + vault_data \<times> u32" where
  "deserialize_vault_data L plaintext =
     rbind (ok_or InvalidData (vl_json_from_slice L plaintext)) (\<lambda>value.
     rbind (validate_vault_json_shape value) (\<lambda>schema_version.
     rbind (ok_or InvalidData (vl_data_from_value L value)) (\<lambda>data.
     Inr (data, schema_version))))"

section \<open>Writing the data\<close>

text \<open>
  The value that the derived serializers write for the data, with the values of the parts that the
  shapes above do not look into as parameters.
\<close>

record json_writer =
  jw_time :: "time \<Rightarrow> str"
  jw_template :: "identity_template \<Rightarrow> json"
  jw_endpoint :: "remote_endpoint \<Rightarrow> json"
  jw_backend :: "remote_backend_snapshot \<Rightarrow> json"
  jw_result :: "operation_result \<Rightarrow> json"
  jw_receipt :: "remote_orphan_receipt \<Rightarrow> json"
  jw_evidence :: "network_evidence \<Rightarrow> json"
  jw_run :: "recent_run_record \<Rightarrow> json"

definition json_string_of :: "string \<Rightarrow> json" where "json_string_of s = JString (lit s)"

definition json_nat :: "'a::len word \<Rightarrow> json" where "json_nat n = JNumber (PosInt (ucast n))"

definition json_uuid :: "uuid \<Rightarrow> json" where "json_uuid u = JString (uuid_to_string u)"

definition json_option :: "('a \<Rightarrow> json) \<Rightarrow> 'a option \<Rightarrow> json" where
  "json_option f v = (case v of None \<Rightarrow> JNull | Some x \<Rightarrow> f x)"

text \<open>A member that \<open>skip_serializing_if = "Option::is_none"\<close> leaves out.\<close>

definition optional_member :: "string \<Rightarrow> ('a \<Rightarrow> json) \<Rightarrow> 'a option \<Rightarrow> (str \<times> json) list" where
  "optional_member key f v = (case v of None \<Rightarrow> [] | Some x \<Rightarrow> [(lit key, f x)])"

fun browser_kind_name :: "browser_kind \<Rightarrow> string" where
  "browser_kind_name Chrome = ''chrome''"
| "browser_kind_name Edge = ''edge''"

definition browser_to_value :: "browser_descriptor \<Rightarrow> json" where
  "browser_to_value browser =
     JObject [(lit ''kind'', json_string_of (browser_kind_name (brd_kind browser))),
              (lit ''executablePath'', JString (brd_executable_path browser)),
              (lit ''version'', json_option JString (brd_version browser))]"

fun execution_target_to_value :: "silo_execution_target \<Rightarrow> json" where
  "execution_target_to_value Local = JObject [(lit ''kind'', json_string_of ''local'')]"
| "execution_target_to_value (Wsl distribution) =
     JObject [(lit ''kind'', json_string_of ''wsl''), (lit ''distribution'', JString distribution)]"
| "execution_target_to_value (Remote origin) =
     JObject [(lit ''kind'', json_string_of ''remote''), (lit ''endpointOrigin'', JString origin)]"

definition mihomo_to_value :: "external_mihomo_binding \<Rightarrow> json" where
  "mihomo_to_value binding =
     JObject ([(lit ''controllerUrl'', JString (emb_controller_url binding)),
               (lit ''selectorGroup'', JString (emb_selector_group binding)),
               (lit ''nodeName'', JString (emb_node_name binding))]
              @ optional_member ''controllerSecretReference'' json_uuid
                  (emb_controller_secret_reference binding))"

fun vault_network_to_value :: "network_profile \<Rightarrow> json" where
  "vault_network_to_value (network_profile.Direct proxy_required) =
     JObject [(lit ''mode'', json_string_of ''direct''), (lit ''proxy_required'', JBool proxy_required)]"
| "vault_network_to_value (network_profile.FixedProxy proxy_required scheme host port bypass_list
      reference binding) =
     JObject ([(lit ''mode'', json_string_of ''fixed_proxy''),
               (lit ''proxy_required'', JBool proxy_required),
               (lit ''scheme'', JString (proxy_scheme_as_str scheme)), (lit ''host'', JString host),
               (lit ''port'', json_nat port), (lit ''bypass_list'', JArray (map JString bypass_list))]
              @ optional_member ''credential_reference'' json_uuid reference
              @ optional_member ''external_mihomo'' mihomo_to_value binding)"
| "vault_network_to_value (Pac proxy_required pac_url) =
     JObject [(lit ''mode'', json_string_of ''pac''), (lit ''proxy_required'', JBool proxy_required),
              (lit ''pac_url'', JString pac_url)]"

definition artifact_binding_to_value :: "artifact_binding \<Rightarrow> json" where
  "artifact_binding_to_value binding =
     JObject [(lit ''artifactId'', JString (cab_artifact_id binding)),
              (lit ''artifactFileSha256'', JString (cab_artifact_file_sha256 binding)),
              (lit ''schema'', JString (cab_schema binding))]"

fun capability_name :: "engine_capability_id \<Rightarrow> string" where
  "capability_name ProfileIsolation = ''profile_isolation''"
| "capability_name LaunchNetwork = ''launch_network''"
| "capability_name IdentityTemplate = ''identity_template''"
| "capability_name UaUaCh = ''ua_ua_ch''"
| "capability_name LanguageTimezone = ''language_timezone''"
| "capability_name engine_capability_id.Screen = ''screen''"
| "capability_name Canvas = ''canvas''"
| "capability_name Webgl = ''webgl''"
| "capability_name Fonts = ''fonts''"
| "capability_name MediaDevices = ''media_devices''"
| "capability_name RequestHeaders = ''request_headers''"
| "capability_name Window = ''window''"
| "capability_name Iframe = ''iframe''"
| "capability_name DedicatedWorker = ''dedicated_worker''"
| "capability_name TlsClientHello = ''tls_client_hello''"
| "capability_name Quic = ''quic''"
| "capability_name SiteFallback = ''site_fallback''"

fun fallback_action_name :: "site_fallback_action \<Rightarrow> string" where
  "fallback_action_name RestoreExperimentalControls = ''restore_experimental_controls''"
| "fallback_action_name RestoreThenReload = ''restore_then_reload''"

definition fallback_rule_to_value :: "site_fallback_rule \<Rightarrow> json" where
  "fallback_rule_to_value rule =
     JObject [(lit ''sitePattern'', JString (sfr_site_pattern rule)),
              (lit ''disableCapabilities'',
               JArray (map (\<lambda>c. json_string_of (capability_name c)) (sfr_disable_capabilities rule))),
              (lit ''action'', json_string_of (fallback_action_name (sfr_action rule)))]"

fun engine_to_value :: "json_writer \<Rightarrow> silo_engine_config \<Rightarrow> json" where
  "engine_to_value J Stock = JObject [(lit ''adapter'', json_string_of ''stock'')]"
| "engine_to_value J (silo_engine_config.ControlledChromium template rules) =
     JObject [(lit ''adapter'', json_string_of ''controlled-chromium''),
              (lit ''identityTemplate'', jw_template J template),
              (lit ''fallbackRules'', JArray (map fallback_rule_to_value rules))]"
| "engine_to_value J (silo_engine_config.Camoufox template rules binding) =
     JObject ([(lit ''adapter'', json_string_of ''camoufox'')]
              @ optional_member ''identityTemplate'' (jw_template J) template
              @ (if rules = [] then []
                 else [(lit ''fallbackRules'', JArray (map fallback_rule_to_value rules))])
              @ optional_member ''artifactBinding'' artifact_binding_to_value binding)"

definition json_time :: "json_writer \<Rightarrow> time \<Rightarrow> json" where "json_time J t = JString (jw_time J t)"

definition vault_silo_to_value :: "json_writer \<Rightarrow> silo \<Rightarrow> json" where
  "vault_silo_to_value J s =
     JObject [(lit ''id'', json_uuid (sil_id s)),
              (lit ''schemaVersion'', json_nat (sil_schema_version s)),
              (lit ''name'', JString (sil_name s)), (lit ''color'', JString (sil_color s)),
              (lit ''browser'', json_option browser_to_value (sil_browser s)),
              (lit ''executionTarget'', execution_target_to_value (sil_execution_target s)),
              (lit ''profileDirectory'', JString (sil_profile_directory s)),
              (lit ''networkProfile'', vault_network_to_value (sil_network_profile s)),
              (lit ''engine'', engine_to_value J (sil_engine s)),
              (lit ''seedReference'', json_uuid (sil_seed_reference s)),
              (lit ''createdAt'', json_time J (sil_created_at s)),
              (lit ''identityLockedAt'', json_option (json_time J) (sil_identity_locked_at s)),
              (lit ''archivedAt'', json_option (json_time J) (sil_archived_at s))]"

definition by_uuid :: "('v \<Rightarrow> json) \<Rightarrow> (uuid, 'v) hmap \<Rightarrow> json" where
  "by_uuid f m = JObject (map (\<lambda>(key, v). (uuid_to_string key, f v)) m)"

definition remote_state_to_value :: "json_writer \<Rightarrow> remote_vault_state \<Rightarrow> json" where
  "remote_state_to_value J remote =
     JObject (optional_member ''endpoint'' (jw_endpoint J) (rvs_endpoint remote)
              @ [(lit ''backend'', jw_backend J (rvs_backend remote)),
                 (lit ''lastResults'', by_uuid (jw_result J) (rvs_last_results remote))]
              @ optional_member ''pairingRevokedAt'' (json_time J) (rvs_pairing_revoked_at remote)
              @ [(lit ''orphanReceipts'', JArray (map (jw_receipt J) (rvs_orphan_receipts remote)))])"

definition identity_artifact_to_value :: "stored_identity_artifact \<Rightarrow> json" where
  "identity_artifact_to_value artifact =
     JObject [(lit ''artifactId'', JString (sia_artifact_id artifact)),
              (lit ''schema'', JString (sia_schema artifact)),
              (lit ''rawJson'', JString (sia_raw_json artifact)),
              (lit ''rawSha256'', JString (sia_raw_sha256 artifact))]"

definition proxy_credential_to_value :: "stored_proxy_credential \<Rightarrow> json" where
  "proxy_credential_to_value stored =
     JObject [(lit ''username'', JString (spc_username stored)),
              (lit ''password'', JString (spc_password stored))]"

definition vault_data_to_value :: "json_writer \<Rightarrow> vault_data \<Rightarrow> json" where
  "vault_data_to_value J data =
     JObject [(lit ''schemaVersion'', json_nat (vd_schema_version data)),
              (lit ''silos'', JArray (map (vault_silo_to_value J) (vd_silos data))),
              (lit ''seedMaterial'', by_uuid JString (vd_seed_material data)),
              (lit ''identityArtifacts'', JObject (map (\<lambda>(key, artifact).
                 (key, identity_artifact_to_value artifact)) (vd_identity_artifacts data))),
              (lit ''proxyCredentials'', by_uuid proxy_credential_to_value (vd_proxy_credentials data)),
              (lit ''mihomoControllerSecrets'',
               by_uuid (\<lambda>secret. JObject [(lit ''secret'', JString secret)])
                 (vd_mihomo_controller_secrets data)),
              (lit ''networkEvidence'', JArray (map (jw_evidence J) (vd_network_evidence data))),
              (lit ''recentRuns'', by_uuid (jw_run J) (vd_recent_runs data)),
              (lit ''remoteControlPlane'',
               remote_state_to_value J (vd_remote_control_plane data))]"

end
