(* ===== verification/Vault_Lifecycle.thy ===== *)
theory Vault_Lifecycle
  imports Vault Vault_Json
begin

text \<open>
  Opening the Vault (\<open>vault.rs\<close>): the envelope and its migration, initialization, unlocking, the
  change of the passphrase, backup and restore. A restore merges into the backup what the current
  Vault must not lose: identity locks, Artifacts, the ledger of pairing tokens, a revoked pairing
  and the receipts of orphaned environments.
\<close>

section \<open>Passphrase and envelope\<close>

definition validate_passphrase :: "str \<Rightarrow> vault_error + unit" where
  "validate_passphrase passphrase =
     (if length passphrase < 12
      then Inl (vault_error.InvalidSilo
             (lit ''Vault passphrase must contain at least 12 characters.''))
      else Inr ())"

definition derive_key :: "vault_library \<Rightarrow> str \<Rightarrow> nat list \<Rightarrow> vault_error + nat list" where
  "derive_key L passphrase salt = ok_or CryptographicSetup (vl_argon2 L passphrase salt)"

definition decode_fixed :: "vault_library \<Rightarrow> nat \<Rightarrow> str \<Rightarrow> nat list option" where
  "decode_fixed L n text =
     Option.bind (vl_b64_decode L text) (\<lambda>bytes. if length bytes = n then Some bytes else None)"

record opened_envelope =
  oe_dek :: "nat list"
  oe_kek :: "nat list"
  oe_salt :: "nat list"
  oe_data :: vault_data
  oe_needs_migration :: bool

text \<open>The migration of the data of an older schema.\<close>

fun migrate_engine :: "silo_engine_config \<Rightarrow> silo_engine_config" where
  "migrate_engine (silo_engine_config.Camoufox _ _ _) = silo_engine_config.Camoufox None [] None"
| "migrate_engine engine = engine"

definition migrate_silo :: "silo \<Rightarrow> silo" where
  "migrate_silo s =
     s\<lparr>sil_schema_version := SILO_SCHEMA_VERSION, sil_execution_target := Local,
       sil_engine := migrate_engine (sil_engine s),
       sil_browser := (if is_camoufox (sil_engine s) then None else sil_browser s),
       sil_identity_locked_at := Some (sil_created_at s)\<rparr>"

definition migrate_vault_data :: "vault_data \<Rightarrow> u32 \<Rightarrow> vault_error + vault_data \<times> bool" where
  "migrate_vault_data data source_schema_version =
     (if 1 \<le> source_schema_version \<and> source_schema_version < VAULT_DATA_SCHEMA_VERSION
      then Inr (data\<lparr>vd_schema_version := VAULT_DATA_SCHEMA_VERSION,
                     vd_silos := map migrate_silo (vd_silos data)\<rparr>, True)
      else if source_schema_version = VAULT_DATA_SCHEMA_VERSION then Inr (data, False)
      else Inl InvalidData)"

text \<open>The data key of a version 2 envelope is wrapped under the password's key.\<close>

definition unwrap_dek :: "vault_library \<Rightarrow> vault_envelope \<Rightarrow> nat list \<Rightarrow> vault_error + nat list" where
  "unwrap_dek L envelope kek =
     rbind (ok_or InvalidData (Option.bind (ven_wrap_nonce envelope) (decode_fixed L 12)))
       (\<lambda>wrap_nonce.
     rbind (ok_or InvalidData (Option.bind (ven_wrapped_dek envelope) (vl_b64_decode L)))
       (\<lambda>wrapped_dek.
     rbind (ok_or InvalidPassphrase (vl_decrypt L kek wrap_nonce wrapped_dek)) (\<lambda>raw_dek.
     if length raw_dek = 32 then Inr raw_dek else Inl InvalidData)))"

definition open_envelope ::
    "vault_library \<Rightarrow> 'w vault_os \<Rightarrow> nat list \<Rightarrow> str \<Rightarrow> 'w vault
     \<Rightarrow> (vault_error, opened_envelope, 'w vault) outcome" where
  "open_envelope L W raw passphrase s =
     sbind (ok_or InvalidData (vl_envelope_from_slice L raw), s) (\<lambda>envelope s.
     if ven_version envelope \<notin> {1, VAULT_ENVELOPE_VERSION} \<or> ven_kdf envelope \<noteq> ARGON2ID
     then (Inl InvalidData, s)
     else
       sbind (ok_or InvalidData (decode_fixed L 16 (ven_salt envelope)), s) (\<lambda>salt s.
       sbind (derive_key L passphrase salt, s) (\<lambda>kek s.
       sbind (ok_or InvalidData (vl_b64_decode L (ven_ciphertext envelope)), s) (\<lambda>ciphertext s.
       sbind (ok_or InvalidData (decode_fixed L 12 (ven_nonce envelope)), s) (\<lambda>nonce s.
       let legacy = ven_version envelope = 1 in
       sbind (if legacy then (case draw_bytes W 32 s of (dek, s) \<Rightarrow> (Inr dek, s))
              else (unwrap_dek L envelope kek, s)) (\<lambda>dek s.
       sbind (ok_or InvalidPassphrase
                (vl_decrypt L (if legacy then kek else dek) nonce ciphertext), s) (\<lambda>plaintext s.
       sbind (deserialize_vault_data L plaintext, s) (\<lambda>(data, source_schema_version) s.
       sbind (migrate_vault_data data source_schema_version, s) (\<lambda>(data, migrated) s.
       sbind (validate_vault_data L data, s) (\<lambda>_ s.
       (Inr \<lparr>oe_dek = dek, oe_kek = kek, oe_salt = salt, oe_data = data,
             oe_needs_migration = (legacy \<or> migrated)\<rparr>, s)))))))))))"

section \<open>Status, initialization, unlocking\<close>

datatype vault_lock_state = Uninitialized | LockedState | UnlockedState

record vault_status =
  vst_state :: vault_lock_state
  vst_auto_lock_at :: "time option"

definition vault_status :: "'w vault_os \<Rightarrow> 'w vault \<Rightarrow> vault_status \<times> 'w vault" where
  "vault_status W s =
     (let s = expire_if_needed W (snd (vault_recover_interrupted_write s)) in
      case vt_unlocked s of
        Some unlocked \<Rightarrow>
          (\<lparr>vst_state = UnlockedState, vst_auto_lock_at = Some (uv_auto_lock_at unlocked)\<rparr>, s)
      | None \<Rightarrow>
          if fs_exists StateFile (vt_disk s) \<or> fs_exists BackupFile (vt_disk s)
          then (\<lparr>vst_state = LockedState, vst_auto_lock_at = None\<rparr>, s)
          else (\<lparr>vst_state = Uninitialized, vst_auto_lock_at = None\<rparr>, s))"

text \<open>Persisting, and locking when that fails.\<close>

definition persist_or_lock ::
    "vault_library \<Rightarrow> 'w vault_os \<Rightarrow> 'w vault \<Rightarrow> (vault_error, unit, 'w vault) outcome" where
  "persist_or_lock L W s =
     (case vault_persist L W s of
        (Inl error, s) \<Rightarrow> (Inl error, vault_lock s)
      | (Inr _, s) \<Rightarrow> (Inr (), s))"

definition vault_initialize ::
    "vault_library \<Rightarrow> 'w vault_os \<Rightarrow> str \<Rightarrow> 'w vault \<Rightarrow> (vault_error, unit, 'w vault) outcome" where
  "vault_initialize L W passphrase s =
     sbind (validate_passphrase passphrase, s) (\<lambda>_ s.
     sbind (vault_recover_interrupted_write s) (\<lambda>_ s.
     if fs_exists StateFile (vt_disk s) then (Inl AlreadyInitialized, s)
     else
       case draw_bytes W 16 s of (salt, s) \<Rightarrow>
       sbind (derive_key L passphrase salt, s) (\<lambda>kek s.
       case draw_bytes W 32 s of (dek, s) \<Rightarrow>
       case auto_lock_time W s of (auto_lock_at, s) \<Rightarrow>
       persist_or_lock L W (s\<lparr>vt_unlocked :=
         Some \<lparr>uv_dek = dek, uv_kek = kek, uv_salt = salt, uv_data = vault_data_empty,
               uv_auto_lock_at = auto_lock_at\<rparr>\<rparr>))))"

text \<open>\<open>fs::read(vault_path(root))\<close>, with the absent file told from other errors.\<close>

definition read_vault_file :: "'w vault \<Rightarrow> (vault_error, nat list, 'w vault) outcome" where
  "read_vault_file s =
     (case fs_read StateFile (vt_disk s) of
        (r, d) \<Rightarrow> (map_err (\<lambda>error. if error = fs_not_found then NotInitialized else Filesystem error) r,
                   s\<lparr>vt_disk := d\<rparr>))"

text \<open>
  \<open>recover_managed\<close> is \<open>recover_interrupted_managed_restore\<close>, which completes or undoes a restore of
  one managed profile that a crash interrupted, before the Vault's file is read.
\<close>

definition vault_unlock ::
    "vault_library \<Rightarrow> 'w vault_os \<Rightarrow> ('w vault \<Rightarrow> (vault_error, unit, 'w vault) outcome) \<Rightarrow> str
     \<Rightarrow> 'w vault \<Rightarrow> (vault_error, unit, 'w vault) outcome" where
  "vault_unlock L W recover_managed passphrase s =
     sbind (validate_passphrase passphrase, s) (\<lambda>_ s.
     sbind (recover_managed s) (\<lambda>_ s.
     sbind (vault_recover_interrupted_write s) (\<lambda>_ s.
     sbind (read_vault_file s) (\<lambda>raw s.
     sbind (open_envelope L W raw passphrase s) (\<lambda>opened s.
     case auto_lock_time W s of (auto_lock_at, s) \<Rightarrow>
     let s = s\<lparr>vt_unlocked :=
           Some \<lparr>uv_dek = oe_dek opened, uv_kek = oe_kek opened, uv_salt = oe_salt opened,
                 uv_data = oe_data opened, uv_auto_lock_at = auto_lock_at\<rparr>\<rparr> in
     if oe_needs_migration opened then persist_or_lock L W s else (Inr (), s))))))"

definition change_passphrase ::
    "vault_library \<Rightarrow> 'w vault_os \<Rightarrow> str \<Rightarrow> str \<Rightarrow> 'w vault \<Rightarrow> (vault_error, unit, 'w vault) outcome"
  where
  "change_passphrase L W current_passphrase new_passphrase s =
     sbind (validate_passphrase current_passphrase, s) (\<lambda>_ s.
     sbind (validate_passphrase new_passphrase, s) (\<lambda>_ s.
     sbind (vault_recover_interrupted_write s) (\<lambda>_ s.
     sbind (read_vault_file s) (\<lambda>raw s.
     sbind (open_envelope L W raw current_passphrase s) (\<lambda>current s.
     sbind (unlocked_mut_for_activity W s) (\<lambda>unlocked s.
     if oe_dek current \<noteq> uv_dek unlocked then (Inl InvalidData, s)
     else
       case draw_bytes W 16 s of (new_salt, s) \<Rightarrow>
       sbind (derive_key L new_passphrase new_salt, s) (\<lambda>new_kek s.
       case draw_bytes W 32 s of (new_dek, s) \<Rightarrow>
       sbind (unlocked_without_activity W s) (\<lambda>old s.
       case vault_persist L W (s\<lparr>vt_unlocked := Some (old\<lparr>uv_salt := new_salt, uv_kek := new_kek,
                                                       uv_dek := new_dek\<rparr>)\<rparr>) of
         (Inl error, s) \<Rightarrow>
           (Inl error, s\<lparr>vt_unlocked := map_option (\<lambda>u. u\<lparr>uv_salt := uv_salt old,
                          uv_kek := uv_kek old, uv_dek := uv_dek old\<rparr>) (vt_unlocked s)\<rparr>)
       | (Inr _, s) \<Rightarrow> (Inr (), s)))))))))"

section \<open>Backup\<close>

definition vault_backup ::
    "vault_library \<Rightarrow> 'w vault_os \<Rightarrow> str \<Rightarrow> 'w vault \<Rightarrow> (vault_error, str \<times> nat, 'w vault) outcome"
  where
  "vault_backup L W destination_path s =
     sbind (record_activity W s) (\<lambda>_ s.
     if vo_exists W destination_path (vt_world s) then (Inl BackupDestinationExists, s)
     else
       sbind (vault_persist L W s) (\<lambda>_ s.
       sbind (in_vault_disk (fs_read StateFile) s) (\<lambda>raw s.
       if MAX_VAULT_BACKUP_BYTES < length raw then (Inl BackupTooLarge, s)
       else
         sbind (ok_or InvalidData (vl_envelope_from_slice L raw), s) (\<lambda>envelope s.
         if ven_version envelope \<noteq> VAULT_ENVELOPE_VERSION \<or> ven_kdf envelope \<noteq> ARGON2ID
         then (Inl InvalidData, s)
         else
           sbind (in_vault_world (vo_write_new W destination_path raw) id s) (\<lambda>_ s.
           (Inr (destination_path, length raw), s))))))"

section \<open>What a restore keeps of the current Vault\<close>

definition engine_identity_changed ::
    "vault_library \<Rightarrow> silo_engine_config \<Rightarrow> silo_engine_config \<Rightarrow> browser_kind \<Rightarrow> vault_error + bool"
  where
  "engine_identity_changed L current candidate browser_kind =
     (if adapter_id current browser_kind \<noteq> adapter_id candidate browser_kind then Inr True
      else
        rbind (map_err Serialization (vl_template_value L (engine_identity_template current))) (\<lambda>a.
        rbind (map_err Serialization (vl_template_value L (engine_identity_template candidate))) (\<lambda>b.
        Inr (a \<noteq> b))))"

text \<open>The kind of a Silo's browser, with the default the code takes for a Silo without one.\<close>

definition browser_kind_or_chrome :: "silo \<Rightarrow> browser_kind" where
  "browser_kind_or_chrome s =
     (case sil_browser s of None \<Rightarrow> Chrome | Some browser \<Rightarrow> brd_kind browser)"

text \<open>\<open>Iterator::position\<close>\<close>

fun position :: "('a \<Rightarrow> bool) \<Rightarrow> 'a list \<Rightarrow> nat option" where
  "position p [] = None"
| "position p (x # xs) = (if p x then Some 0 else map_option Suc (position p xs))"

text \<open>One iteration of the loop over the current Silos.\<close>

definition merge_locked_silo ::
    "vault_library \<Rightarrow> (uuid, str) hmap \<Rightarrow> silo \<Rightarrow> vault_data \<Rightarrow> vault_error + vault_data" where
  "merge_locked_silo L current_seed_material current restored =
     (case sil_identity_locked_at current of
        None \<Rightarrow> Inr restored
      | Some locked_at \<Rightarrow>
          rbind (ok_or RestoreIdentityConflict
                   (position (\<lambda>candidate. sil_id candidate = sil_id current) (vd_silos restored)))
            (\<lambda>index.
          let candidate = vd_silos restored ! index in
          rbind (if sil_browser current \<noteq> sil_browser candidate then Inr True
                 else engine_identity_changed L (sil_engine current) (sil_engine candidate)
                        (browser_kind_or_chrome current)) (\<lambda>engine_conflicts.
          if sil_execution_target current \<noteq> sil_execution_target candidate
             \<or> engine_conflicts
             \<or> sil_seed_reference current \<noteq> sil_seed_reference candidate
             \<or> map_of current_seed_material (sil_seed_reference current)
                \<noteq> map_of (vd_seed_material restored) (sil_seed_reference candidate)
          then Inl RestoreIdentityConflict
          else Inr (restored\<lparr>vd_silos := (vd_silos restored)[index :=
                     candidate\<lparr>sil_identity_locked_at := Some locked_at\<rparr>]\<rparr>))))"

fun merge_preserved_silo_identity_state ::
    "vault_library \<Rightarrow> (uuid, str) hmap \<Rightarrow> silo list \<Rightarrow> vault_data \<Rightarrow> vault_error + vault_data" where
  "merge_preserved_silo_identity_state L current_seed_material [] restored = Inr restored"
| "merge_preserved_silo_identity_state L current_seed_material (current # rest) restored =
     rbind (merge_locked_silo L current_seed_material current restored)
       (merge_preserved_silo_identity_state L current_seed_material rest)"

definition merge_silo_artifact ::
    "(str, stored_identity_artifact) hmap \<Rightarrow> silo \<Rightarrow> vault_data \<Rightarrow> vault_error + vault_data" where
  "merge_silo_artifact current_artifacts current restored =
     (case camoufox_artifact_binding (sil_engine current) of
        None \<Rightarrow> Inr restored
      | Some binding \<Rightarrow>
          (case map_of current_artifacts (cab_artifact_id binding) of
             None \<Rightarrow> Inr restored
           | Some artifact \<Rightarrow>
               (case map_of (vd_identity_artifacts restored) (cab_artifact_id binding) of
                  Some restored_artifact \<Rightarrow>
                    if restored_artifact = artifact then Inr restored else Inl RestoreIdentityConflict
                | None \<Rightarrow> Inr (restored\<lparr>vd_identity_artifacts :=
                    AList.update (cab_artifact_id binding) artifact
                      (vd_identity_artifacts restored)\<rparr>))))"

fun merge_preserved_identity_artifacts ::
    "(str, stored_identity_artifact) hmap \<Rightarrow> silo list \<Rightarrow> vault_data \<Rightarrow> vault_error + vault_data" where
  "merge_preserved_identity_artifacts current_artifacts [] restored = Inr restored"
| "merge_preserved_identity_artifacts current_artifacts (current # rest) restored =
     rbind (merge_silo_artifact current_artifacts current restored)
       (merge_preserved_identity_artifacts current_artifacts rest)"

text \<open>The pairing and the endpoint after the merge.\<close>

definition same_pairing :: "pairing_snapshot \<Rightarrow> pairing_snapshot \<Rightarrow> bool" where
  "same_pairing a b \<longleftrightarrow>
     pn_server_id a = pn_server_id b \<and> pn_client_credential_id a = pn_client_credential_id b
     \<and> pn_node a = pn_node b \<and> pn_client_credential a = pn_client_credential b
     \<and> pn_credential_expires_at_unix_ms a = pn_credential_expires_at_unix_ms b
     \<and> pn_capabilities a = pn_capabilities b"

definition merge_pairing ::
    "remote_vault_state \<Rightarrow> remote_vault_state
     \<Rightarrow> vault_error + remote_endpoint option \<times> pairing_snapshot option" where
  "merge_pairing remote preserved =
     (case rs_pairing (rvs_backend preserved) of
        None \<Rightarrow>
          if rvs_pairing_revoked_at preserved \<noteq> None
          then Inr (if rvs_endpoint preserved \<noteq> None then rvs_endpoint preserved
                    else rvs_endpoint remote, None)
          else Inr (rvs_endpoint remote, rs_pairing (rvs_backend remote))
      | Some current \<Rightarrow>
          (case rs_pairing (rvs_backend remote) of
             None \<Rightarrow> Inr (rvs_endpoint preserved, Some current)
           | Some restored \<Rightarrow>
               if \<not> same_pairing restored current then Inl RestoreRemoteOwnershipConflict
               else if rvs_endpoint remote \<noteq> rvs_endpoint preserved
               then Inl RestoreRemoteOwnershipConflict
               else Inr (rvs_endpoint remote,
                 Some (restored\<lparr>pn_last_client_sequence :=
                          max (pn_last_client_sequence restored) (pn_last_client_sequence current),
                        pn_last_server_sequence :=
                          max (pn_last_server_sequence restored) (pn_last_server_sequence current)\<rparr>))))"

text \<open>The loop over the preserved receipts.\<close>

definition conflicts_with_binding :: "remote_orphan_receipt \<Rightarrow> silo_binding \<Rightarrow> bool" where
  "conflicts_with_binding receipt binding \<longleftrightarrow>
     sb_binding_id binding = oo_binding_id receipt \<or> bound_identity binding = remote_identity receipt"

fun merge_receipts ::
    "silo_binding list \<Rightarrow> remote_orphan_receipt list \<Rightarrow> remote_orphan_receipt list
     \<Rightarrow> vault_error + remote_orphan_receipt list" where
  "merge_receipts bindings [] kept = Inr kept"
| "merge_receipts bindings (receipt # rest) kept =
     (if list_ex (conflicts_with_binding receipt) bindings then Inl RestoreRemoteOwnershipConflict
      else
        (case find (\<lambda>existing. oo_receipt_id existing = oo_receipt_id receipt) kept of
           Some existing \<Rightarrow>
             if existing \<noteq> receipt then Inl RestoreRemoteOwnershipConflict
             else merge_receipts bindings rest kept
         | None \<Rightarrow>
             if list_ex (\<lambda>existing. oo_binding_id existing = oo_binding_id receipt
                           \<or> remote_identity existing = remote_identity receipt) kept
                \<or> MAX_REMOTE_ORPHAN_RECEIPTS \<le> length kept
             then Inl RestoreRemoteOwnershipConflict
             else merge_receipts bindings rest (kept @ [receipt])))"

text \<open>The later of the two revocation times.\<close>

definition merge_revoked_at :: "time option \<Rightarrow> time option \<Rightarrow> time option" where
  "merge_revoked_at restored preserved =
     (case preserved of
        None \<Rightarrow> restored
      | Some revoked_at \<Rightarrow>
          (case restored of
             None \<Rightarrow> Some revoked_at
           | Some restored_at \<Rightarrow> if restored_at < revoked_at then Some revoked_at else restored))"

definition merge_tokens :: "uuid list \<Rightarrow> uuid list \<Rightarrow> uuid list" where
  "merge_tokens restored preserved = sort (remdups (restored @ preserved))"

definition merge_preserved_remote_security_state ::
    "vault_library \<Rightarrow> remote_vault_state \<Rightarrow> vault_data \<Rightarrow> vault_error + vault_data" where
  "merge_preserved_remote_security_state L preserved data =
     (let remote = vd_remote_control_plane data; backend = rvs_backend remote;
          tokens = merge_tokens (rs_used_pairing_token_ids backend)
                     (rs_used_pairing_token_ids (rvs_backend preserved)) in
      rbind (merge_pairing remote preserved) (\<lambda>(endpoint, pairing).
      if MAX_USED_PAIRING_TOKENS < length tokens then Inl RestoreRemoteOwnershipConflict
      else
        rbind (merge_receipts (rs_bindings backend) (rvs_orphan_receipts preserved)
                 (rvs_orphan_receipts remote)) (\<lambda>receipts.
        let data = data\<lparr>vd_remote_control_plane :=
              \<lparr>rvs_endpoint = endpoint,
               rvs_backend = \<lparr>rs_pairing = pairing, rs_used_pairing_token_ids = tokens,
                             rs_bindings = rs_bindings backend\<rparr>,
               rvs_last_results = rvs_last_results remote,
               rvs_pairing_revoked_at = merge_revoked_at (rvs_pairing_revoked_at remote)
                 (rvs_pairing_revoked_at preserved),
               rvs_orphan_receipts = receipts\<rparr>\<rparr> in
        rbind (map_err (\<lambda>_. RestoreRemoteOwnershipConflict) (validate_vault_data L data)) (\<lambda>_.
        Inr data))))"

section \<open>Restore\<close>

text \<open>A Silo's managed directory and the profile directory in it.\<close>

definition managed_silo_directory :: "str \<Rightarrow> uuid \<Rightarrow> str" where
  "managed_silo_directory base silo_id =
     path_join (path_join base (lit ''silos'')) (uuid_to_string silo_id)"

definition managed_profile_directory :: "str \<Rightarrow> uuid \<Rightarrow> str" where
  "managed_profile_directory base silo_id =
     path_join (managed_silo_directory base silo_id) (lit ''browser-data'')"

fun create_directories ::
    "'w vault_os \<Rightarrow> str list \<Rightarrow> 'w vault \<Rightarrow> (vault_error, unit, 'w vault) outcome" where
  "create_directories W [] s = (Inr (), s)"
| "create_directories W (path # paths) s =
     sbind (in_vault_world (vo_create_dir_all W path) Filesystem s) (\<lambda>_ s. create_directories W paths s)"

text \<open>What the current Vault preserves: nothing when there is none.\<close>

definition preserved_state ::
    "'w vault_os \<Rightarrow> bool \<Rightarrow> 'w vault \<Rightarrow> (vault_error, vault_data option, 'w vault) outcome" where
  "preserved_state W confirm_overwrite s =
     (if \<not> fs_exists StateFile (vt_disk s) then (Inr None, s)
      else if \<not> confirm_overwrite then (Inl RestoreOverwriteNotConfirmed, s)
      else
        (case unlocked_without_activity W s of
           (Inl _, s) \<Rightarrow> (Inl RestoreCurrentVaultLocked, s)
         | (Inr unlocked, s) \<Rightarrow>
             if rs_bindings (rvs_backend (vd_remote_control_plane (uv_data unlocked))) \<noteq> []
             then (Inl RestoreActiveRemoteBindings, s)
             else (Inr (Some (uv_data unlocked)), s)))"

definition merge_preserved ::
    "vault_library \<Rightarrow> vault_data \<Rightarrow> vault_data \<Rightarrow> vault_error + vault_data" where
  "merge_preserved L current restored =
     rbind (merge_preserved_silo_identity_state L (vd_seed_material current) (vd_silos current) restored)
       (\<lambda>restored.
     rbind (merge_preserved_identity_artifacts (vd_identity_artifacts current) (vd_silos current) restored)
       (\<lambda>restored.
     merge_preserved_remote_security_state L (vd_remote_control_plane current) restored))"

definition rebase_profiles :: "str \<Rightarrow> vault_data \<Rightarrow> vault_data" where
  "rebase_profiles base data =
     data\<lparr>vd_silos := map (\<lambda>s. s\<lparr>sil_profile_directory := managed_profile_directory base (sil_id s)\<rparr>)
            (vd_silos data)\<rparr>"

definition vault_restore ::
    "vault_library \<Rightarrow> 'w vault_os \<Rightarrow> str \<Rightarrow> str \<Rightarrow> str \<Rightarrow> bool \<Rightarrow> 'w vault
     \<Rightarrow> (vault_error, unit, 'w vault) outcome" where
  "vault_restore L W base source_path passphrase confirm_overwrite s =
     sbind (validate_passphrase passphrase, s) (\<lambda>_ s.
     sbind (map_err Filesystem (vo_metadata W source_path (vt_world s)), s) (\<lambda>(is_file, file_length) s.
     if \<not> is_file then (Inl InvalidData, s)
     else if MAX_VAULT_BACKUP_BYTES < file_length then (Inl BackupTooLarge, s)
     else
       sbind (in_vault_world (vo_read W source_path) Filesystem s) (\<lambda>raw s.
       sbind (open_envelope L W raw passphrase s) (\<lambda>opened s.
       sbind (vault_recover_interrupted_write s) (\<lambda>_ s.
       sbind (preserved_state W confirm_overwrite s) (\<lambda>current s.
       sbind (merge_preserved L (case current of None \<Rightarrow> vault_data_empty | Some data \<Rightarrow> data)
                (oe_data opened), s) (\<lambda>merged s.
       let data = rebase_profiles base merged in
       sbind (create_directories W (map sil_profile_directory (vd_silos data)) s) (\<lambda>_ s.
       let previous = vt_unlocked s in
       case auto_lock_time W (vault_lock s) of (auto_lock_at, s) \<Rightarrow>
       case vault_persist L W (s\<lparr>vt_unlocked :=
              Some \<lparr>uv_dek = oe_dek opened, uv_kek = oe_kek opened, uv_salt = oe_salt opened,
                    uv_data = data, uv_auto_lock_at = auto_lock_at\<rparr>\<rparr>) of
         (Inl error, s) \<Rightarrow> (Inl error, s\<lparr>vt_unlocked := previous\<rparr>)
       | (Inr _, s) \<Rightarrow> (Inr (), s)))))))))"

end
