(* ===== verification/Vault_Silos.thy ===== *)
theory Vault_Silos
  imports Vault_Lifecycle
begin

text \<open>
  The operations on the Silos of the unlocked Vault (\<open>vault.rs\<close>): reading, creating, changing,
  archiving and deleting them. Each builds the prospective data from a copy, persists it, and only
  then adopts it (\<open>commit_data\<close>).
\<close>

section \<open>Reading\<close>

definition stored_silo :: "uuid \<Rightarrow> vault_data \<Rightarrow> silo option" where
  "stored_silo silo_id data = find (\<lambda>s. sil_id s = silo_id) (vd_silos data)"

definition active_silo :: "uuid \<Rightarrow> vault_data \<Rightarrow> silo option" where
  "active_silo silo_id data =
     find (\<lambda>s. sil_id s = silo_id \<and> sil_archived_at s = None) (vd_silos data)"

text \<open>The body of an operation that only reads the data.\<close>

definition reading ::
    "'w vault_os \<Rightarrow> (vault_data \<Rightarrow> vault_error + 'a) \<Rightarrow> 'w vault \<Rightarrow> (vault_error, 'a, 'w vault) outcome"
  where
  "reading W f s =
     sbind (unlocked_without_activity W s) (\<lambda>unlocked s. (f (uv_data unlocked), s))"

definition list_silos :: "'w vault_os \<Rightarrow> 'w vault \<Rightarrow> (vault_error, silo list, 'w vault) outcome" where
  "list_silos W = reading W (\<lambda>data. Inr (vd_silos data))"

definition list_active_silos :: "'w vault_os \<Rightarrow> 'w vault \<Rightarrow> (vault_error, silo list, 'w vault) outcome"
  where
  "list_active_silos W = reading W (\<lambda>data. Inr (filter (\<lambda>s. sil_archived_at s = None) (vd_silos data)))"

definition list_archived_silos ::
    "'w vault_os \<Rightarrow> 'w vault \<Rightarrow> (vault_error, silo list, 'w vault) outcome" where
  "list_archived_silos W =
     reading W (\<lambda>data. Inr (filter (\<lambda>s. sil_archived_at s \<noteq> None) (vd_silos data)))"

definition silo_by_id :: "'w vault_os \<Rightarrow> uuid \<Rightarrow> 'w vault \<Rightarrow> (vault_error, silo, 'w vault) outcome" where
  "silo_by_id W silo_id = reading W (\<lambda>data. ok_or SiloNotFound (stored_silo silo_id data))"

definition get_silo :: "'w vault_os \<Rightarrow> uuid \<Rightarrow> 'w vault \<Rightarrow> (vault_error, silo, 'w vault) outcome" where
  "get_silo W silo_id = reading W (\<lambda>data. ok_or SiloNotFound (active_silo silo_id data))"

definition managed_profile_directories ::
    "'w vault_os \<Rightarrow> 'w vault \<Rightarrow> (vault_error, str list, 'w vault) outcome" where
  "managed_profile_directories W =
     reading W (\<lambda>data. Inr (concat (map (all_profile_directories \<circ> sil_profile_directory) (vd_silos data))))"

definition identity_seed_for_silo ::
    "vault_library \<Rightarrow> 'w vault_os \<Rightarrow> uuid \<Rightarrow> 'w vault \<Rightarrow> (vault_error, nat list, 'w vault) outcome" where
  "identity_seed_for_silo L W silo_id =
     reading W (\<lambda>data.
       rbind (ok_or SiloNotFound (active_silo silo_id data)) (\<lambda>silo.
       rbind (ok_or InvalidData (stored_seed L data (sil_seed_reference silo))) (\<lambda>seed.
       if length seed = 32 then Inr seed else Inl InvalidData)))"

definition artifact_of_silo :: "uuid \<Rightarrow> vault_data \<Rightarrow> vault_error + stored_identity_artifact" where
  "artifact_of_silo silo_id data =
     rbind (ok_or SiloNotFound (active_silo silo_id data)) (\<lambda>silo.
     rbind (ok_or InvalidData (camoufox_artifact_binding (sil_engine silo))) (\<lambda>binding.
     ok_or InvalidData (map_of (vd_identity_artifacts data) (cab_artifact_id binding))))"

definition identity_artifact_for_silo ::
    "'w vault_os \<Rightarrow> uuid \<Rightarrow> 'w vault \<Rightarrow> (vault_error, stored_identity_artifact, 'w vault) outcome" where
  "identity_artifact_for_silo W silo_id = reading W (artifact_of_silo silo_id)"

definition proxy_authentication_for_silo ::
    "'w vault_os \<Rightarrow> uuid \<Rightarrow> 'w vault \<Rightarrow> (vault_error, stored_proxy_credential option, 'w vault) outcome"
  where
  "proxy_authentication_for_silo W silo_id =
     reading W (\<lambda>data.
       rbind (ok_or SiloNotFound (active_silo silo_id data)) (\<lambda>silo.
       case credential_reference (sil_network_profile silo) of
         None \<Rightarrow> Inr None
       | Some reference \<Rightarrow>
           rbind (ok_or InvalidData (map_of (vd_proxy_credentials data) reference)) (\<lambda>credential.
           Inr (Some credential))))"

definition mihomo_controller_authentication_for_silo ::
    "'w vault_os \<Rightarrow> uuid \<Rightarrow> 'w vault \<Rightarrow> (vault_error, str option, 'w vault) outcome" where
  "mihomo_controller_authentication_for_silo W silo_id =
     reading W (\<lambda>data.
       rbind (ok_or SiloNotFound (active_silo silo_id data)) (\<lambda>silo.
       case mihomo_controller_secret_reference (sil_network_profile silo) of
         None \<Rightarrow> Inr None
       | Some reference \<Rightarrow>
           rbind (ok_or InvalidData (map_of (vd_mihomo_controller_secrets data) reference)) (\<lambda>secret.
           Inr (Some secret))))"

definition silo_profile_directory :: "'w vault_os \<Rightarrow> uuid \<Rightarrow> 'w vault \<Rightarrow> (vault_error, str, 'w vault) outcome"
  where
  "silo_profile_directory W silo_id =
     reading W (\<lambda>data. ok_or SiloNotFound (map_option sil_profile_directory (stored_silo silo_id data)))"

text \<open>The loop over the three paths that must not be links.\<close>

fun check_not_links :: "('w \<Rightarrow> path_kind) list \<Rightarrow> 'w \<Rightarrow> vault_error + unit" where
  "check_not_links [] w = Inr ()"
| "check_not_links (kind # kinds) w =
     (case kind w of
        Link \<Rightarrow> Inl UnmanagedProfile
      | Unreadable why \<Rightarrow> Inl (Filesystem why)
      | _ \<Rightarrow> check_not_links kinds w)"

definition verified_managed_silo_directory ::
    "'w vault_os \<Rightarrow> str \<Rightarrow> uuid \<Rightarrow> str \<Rightarrow> 'w vault \<Rightarrow> vault_error + str" where
  "verified_managed_silo_directory W base silo_id profile_directory s =
     (if profile_directory \<noteq> managed_profile_directory base silo_id then Inl UnmanagedProfile
      else
        rbind (check_not_links
                 (map (vo_path_kind W) [path_join base (lit ''silos''),
                    managed_silo_directory base silo_id, managed_profile_directory base silo_id])
                 (vt_world s)) (\<lambda>_. Inr (managed_silo_directory base silo_id)))"

definition verified_silo_profile_directory ::
    "'w vault_os \<Rightarrow> str \<Rightarrow> uuid \<Rightarrow> 'w vault \<Rightarrow> (vault_error, str, 'w vault) outcome" where
  "verified_silo_profile_directory W base silo_id s =
     sbind (silo_profile_directory W silo_id s) (\<lambda>profile_directory s.
     (verified_managed_silo_directory W base silo_id profile_directory s, s))"

definition acquire_silo_profile_lease ::
    "'w vault_os \<Rightarrow> uuid \<Rightarrow> 'w vault \<Rightarrow> (vault_error, unit, 'w vault) outcome" where
  "acquire_silo_profile_lease W silo_id s =
     sbind (silo_by_id W silo_id s) (\<lambda>silo s.
     in_vault_world (vo_acquire_lease W (all_profile_directories (sil_profile_directory silo))) id s)"

definition silo_has_browser_lock :: "'w vault_os \<Rightarrow> uuid \<Rightarrow> 'w vault \<Rightarrow> bool \<times> 'w vault" where
  "silo_has_browser_lock W silo_id s =
     (case acquire_silo_profile_lease W silo_id s of (r, s) \<Rightarrow> (\<not> is_ok r, s))"

section \<open>Changes of the data\<close>

definition domain_refusal :: "domain_error + 'a \<Rightarrow> vault_error + 'a" where
  "domain_refusal = map_err (\<lambda>error. vault_error.InvalidSilo (domain_error_to_string error))"

definition refuse :: "string \<Rightarrow> vault_error" where
  "refuse why = vault_error.InvalidSilo (lit why)"

text \<open>\<open>data.silos.iter_mut().find(..).ok_or(SiloNotFound)?\<close> and the change of what it finds.\<close>

fun change_first :: "('a \<Rightarrow> bool) \<Rightarrow> ('a \<Rightarrow> 'a) \<Rightarrow> 'a list \<Rightarrow> 'a list option" where
  "change_first p f [] = None"
| "change_first p f (x # xs) =
     (if p x then Some (f x # xs) else map_option (Cons x) (change_first p f xs))"

definition change_silo :: "uuid \<Rightarrow> (silo \<Rightarrow> silo) \<Rightarrow> vault_data \<Rightarrow> vault_error + vault_data" where
  "change_silo silo_id f data =
     rbind (ok_or SiloNotFound (change_first (\<lambda>s. sil_id s = silo_id) f (vd_silos data))) (\<lambda>silos.
     Inr (data\<lparr>vd_silos := silos\<rparr>))"

definition remove_unreferenced_secrets ::
    "uuid option \<Rightarrow> uuid option \<Rightarrow> vault_data \<Rightarrow> vault_data" where
  "remove_unreferenced_secrets proxy_reference mihomo_reference data =
     (let data = (case proxy_reference of
            None \<Rightarrow> data
          | Some reference \<Rightarrow>
              if list_ex (\<lambda>s. credential_reference (sil_network_profile s) = Some reference)
                   (vd_silos data) then data
              else data\<lparr>vd_proxy_credentials := AList.delete reference (vd_proxy_credentials data)\<rparr>) in
      case mihomo_reference of
        None \<Rightarrow> data
      | Some reference \<Rightarrow>
          if list_ex (\<lambda>s. mihomo_controller_secret_reference (sil_network_profile s) = Some reference)
               (vd_silos data) then data
          else data\<lparr>vd_mihomo_controller_secrets :=
                      AList.delete reference (vd_mihomo_controller_secrets data)\<rparr>)"

definition binds_artifact :: "str \<Rightarrow> silo \<Rightarrow> bool" where
  "binds_artifact artifact_id s \<longleftrightarrow>
     (case camoufox_artifact_binding (sil_engine s) of None \<Rightarrow> False
      | Some binding \<Rightarrow> cab_artifact_id binding = artifact_id)"

definition remove_unreferenced_identity_artifact :: "str option \<Rightarrow> vault_data \<Rightarrow> vault_data" where
  "remove_unreferenced_identity_artifact artifact_id data =
     (case artifact_id of
        None \<Rightarrow> data
      | Some artifact_id \<Rightarrow>
          if list_ex (binds_artifact artifact_id) (vd_silos data) then data
          else data\<lparr>vd_identity_artifacts :=
                      AList.delete artifact_id (vd_identity_artifacts data)\<rparr>)"

section \<open>Secrets of a new network profile\<close>

record prepared_network =
  pnw_profile :: network_profile
  pnw_proxy :: "(uuid \<times> stored_proxy_credential) option"
  pnw_mihomo :: "(uuid \<times> str) option"

text \<open>
  The secrets get fresh references, which are put into the profile; a profile that cannot carry the
  reference makes the code panic.
\<close>

definition prepare_network ::
    "'w vault_os \<Rightarrow> network_profile \<Rightarrow> proxy_credentials_input option \<Rightarrow> str option \<Rightarrow> 'w vault
     \<Rightarrow> (vault_error, prepared_network, 'w vault) outcome" where
  "prepare_network W profile credentials secret s =
     sbind (case credentials of
              None \<Rightarrow> (Inr (profile, None), s)
            | Some credentials \<Rightarrow>
                (case draw_uuid W s of (reference, s) \<Rightarrow>
                 sbind (ok_or Panicked (set_credential_reference reference profile), s) (\<lambda>profile s.
                 (Inr (profile, Some (reference, \<lparr>spc_username = pci_username credentials,
                    spc_password = pci_password credentials\<rparr>)), s)))) (\<lambda>(profile, proxy) s.
     case secret of
       None \<Rightarrow> (Inr \<lparr>pnw_profile = profile, pnw_proxy = proxy, pnw_mihomo = None\<rparr>, s)
     | Some secret \<Rightarrow>
         (case draw_uuid W s of (reference, s) \<Rightarrow>
          sbind (ok_or Panicked (set_mihomo_controller_secret_reference reference profile), s)
            (\<lambda>profile s.
          (Inr \<lparr>pnw_profile = profile, pnw_proxy = proxy, pnw_mihomo = Some (reference, secret)\<rparr>, s))))"

definition insert_secrets :: "prepared_network \<Rightarrow> vault_data \<Rightarrow> vault_data" where
  "insert_secrets prepared data =
     data\<lparr>vd_proxy_credentials :=
            (case pnw_proxy prepared of None \<Rightarrow> vd_proxy_credentials data
             | Some (reference, stored) \<Rightarrow> AList.update reference stored (vd_proxy_credentials data)),
          vd_mihomo_controller_secrets :=
            (case pnw_mihomo prepared of None \<Rightarrow> vd_mihomo_controller_secrets data
             | Some (reference, secret) \<Rightarrow>
                 AList.update reference secret (vd_mihomo_controller_secrets data))\<rparr>"

section \<open>Creating\<close>

text \<open>The browser of a new Silo: inspected when local, fixed in WSL, refused when remote.\<close>

definition inspected_browser ::
    "'w vault_os \<Rightarrow> browser_kind \<Rightarrow> str \<Rightarrow> 'w vault \<Rightarrow> (vault_error, browser_descriptor, 'w vault) outcome"
  where
  "inspected_browser W kind executable_path s =
     sbind (in_vault_world (vo_inspect_browser W kind executable_path) BrowserVerification s)
       (\<lambda>inspection s.
     (Inr \<lparr>brd_kind = kind, brd_executable_path = bri_resolved_path inspection,
           brd_version = Some (bri_version inspection)\<rparr>, s))"

definition browser_of_new_silo ::
    "'w vault_os \<Rightarrow> create_silo_input \<Rightarrow> 'w vault \<Rightarrow> (vault_error, browser_descriptor, 'w vault) outcome"
  where
  "browser_of_new_silo W input s =
     (case csi_execution_target input of
        Local \<Rightarrow> inspected_browser W (csi_browser_kind input) (csi_executable_path input) s
      | Wsl _ \<Rightarrow> (Inr WSL_BROWSER, s)
      | Remote _ \<Rightarrow> (Inl (refuse (''Remote Silo creation is unavailable until the paired guest can '' @
            ''return browser identity receipts.'')), s))"

definition create_silo ::
    "vault_library \<Rightarrow> 'w vault_os \<Rightarrow> str \<Rightarrow> create_silo_input \<Rightarrow> 'w vault
     \<Rightarrow> (vault_error, silo, 'w vault) outcome" where
  "create_silo L W base input s =
     sbind (domain_refusal (create_silo_validate (vl_parse_url L)
              (\<lambda>path. vo_is_file W path (vt_world s)) input), s) (\<lambda>_ s.
     sbind (record_activity W s) (\<lambda>_ s.
     sbind (browser_of_new_silo W input s) (\<lambda>browser s.
     case draw_uuid W s of (silo_id, s) \<Rightarrow>
     case draw_uuid W s of (seed_reference, s) \<Rightarrow>
     let profile_directory = managed_profile_directory base silo_id in
     sbind (create_directories W [profile_directory] s) (\<lambda>_ s.
     sbind (prepare_network W (csi_network_profile input) (csi_proxy_credentials input)
              (csi_mihomo_controller_secret input) s) (\<lambda>prepared s.
     case draw_time W s of (now, s) \<Rightarrow>
     let silo = \<lparr>sil_id = silo_id, sil_schema_version = SILO_SCHEMA_VERSION,
           sil_name = str_trim (csi_name input), sil_color = csi_color input,
           sil_browser = Some browser, sil_execution_target = csi_execution_target input,
           sil_profile_directory = profile_directory,
           sil_network_profile = pnw_profile prepared, sil_engine = csi_engine input,
           sil_seed_reference = seed_reference, sil_created_at = now,
           sil_identity_locked_at = None, sil_archived_at = None\<rparr> in
     sbind (create_directories W [engine_profile_directory (sil_engine silo) profile_directory] s)
       (\<lambda>_ s.
     case draw_bytes W 32 s of (seed, s) \<Rightarrow>
     sbind (unlocked_without_activity W s) (\<lambda>unlocked s.
     let data = insert_secrets prepared (uv_data unlocked);
         data = data\<lparr>vd_seed_material :=
                       AList.update seed_reference (vl_b64_encode L seed) (vd_seed_material data),
                     vd_silos := vd_silos data @ [silo]\<rparr> in
     sbind (commit_data L W data s) (\<lambda>_ s. (Inr silo, s)))))))))"

text \<open>The first writer of an Artifact id is the authority: a stored record is kept as it is.\<close>

definition first_writer ::
    "vault_library \<Rightarrow> 'w vault_os \<Rightarrow> stored_identity_artifact \<Rightarrow> 'w vault
     \<Rightarrow> (vault_error, stored_identity_artifact, 'w vault) outcome" where
  "first_writer L W artifact s =
     sbind (unlocked_without_activity W s) (\<lambda>unlocked s.
     case map_of (vd_identity_artifacts (uv_data unlocked)) (sia_artifact_id artifact) of
       None \<Rightarrow> (Inr artifact, s)
     | Some existing \<Rightarrow>
         sbind (validate_identity_artifact_record L (sia_artifact_id existing) existing, s) (\<lambda>_ s.
         if sia_schema existing \<noteq> sia_schema artifact then (Inl InvalidData, s)
         else (Inr existing, s)))"

definition binding_of :: "stored_identity_artifact \<Rightarrow> artifact_binding" where
  "binding_of artifact =
     \<lparr>cab_artifact_id = sia_artifact_id artifact,
      cab_artifact_file_sha256 = sia_raw_sha256 artifact, cab_schema = sia_schema artifact\<rparr>"

definition expected_artifact_schema :: "network_profile \<Rightarrow> str" where
  "expected_artifact_schema profile =
     (if Silo_Types.requires_proxy profile then CAMOUFOX_ARTIFACT_SCHEMA_V6
      else CAMOUFOX_ARTIFACT_SCHEMA_V5)"

definition create_managed_silo ::
    "vault_library \<Rightarrow> 'w vault_os \<Rightarrow> str \<Rightarrow> create_managed_silo_input \<Rightarrow> stored_identity_artifact
     \<Rightarrow> nat list \<Rightarrow> 'w vault \<Rightarrow> (vault_error, silo, 'w vault) outcome" where
  "create_managed_silo L W base input artifact seed s =
     sbind (domain_refusal (create_managed_silo_validate (vl_parse_url L) input), s) (\<lambda>_ s.
     sbind (validate_identity_artifact_record L (sia_artifact_id artifact) artifact, s) (\<lambda>_ s.
     if sia_schema artifact \<noteq> expected_artifact_schema (cmi_network_profile input)
     then (Inl (if Silo_Types.requires_proxy (cmi_network_profile input)
                then refuse ''a required proxy managed identity requires a network-bound Artifact v6''
                else refuse ''a Direct managed identity requires an Artifact v5''), s)
     else
       sbind (record_activity W s) (\<lambda>_ s.
       sbind (first_writer L W artifact s) (\<lambda>artifact s.
       case draw_uuid W s of (silo_id, s) \<Rightarrow>
       case draw_uuid W s of (seed_reference, s) \<Rightarrow>
       let managed_directory = managed_silo_directory base silo_id;
           profile_directory = managed_profile_directory base silo_id in
       sbind (create_directories W [profile_directory,
                path_join (path_join profile_directory (lit ''engines'')) (lit ''camoufox'')] s) (\<lambda>_ s.
       sbind (prepare_network W (cmi_network_profile input) (cmi_proxy_credentials input)
                (cmi_mihomo_controller_secret input) s) (\<lambda>prepared s.
       case draw_time W s of (now, s) \<Rightarrow>
       let silo = \<lparr>sil_id = silo_id, sil_schema_version = SILO_SCHEMA_VERSION,
             sil_name = str_trim (cmi_name input), sil_color = cmi_color input,
             sil_browser = None, sil_execution_target = Local,
             sil_profile_directory = profile_directory,
             sil_network_profile = pnw_profile prepared,
             sil_engine = silo_engine_config.Camoufox None [] (Some (binding_of artifact)),
             sil_seed_reference = seed_reference, sil_created_at = now,
             sil_identity_locked_at = None, sil_archived_at = None\<rparr> in
       sbind (unlocked_without_activity W s) (\<lambda>unlocked s.
       let data = insert_secrets prepared (uv_data unlocked);
           data = data\<lparr>vd_seed_material :=
                         AList.update seed_reference (vl_b64_encode L seed) (vd_seed_material data),
                       vd_identity_artifacts := AList.update (sia_artifact_id artifact) artifact
                         (vd_identity_artifacts data),
                       vd_silos := vd_silos data @ [silo]\<rparr> in
       case vault_persist_data L W data s of
         (Inl error, s) \<Rightarrow>
           (Inl error, snd (in_vault_world (vo_remove_dir_all W managed_directory) Filesystem s))
       | (Inr _, s) \<Rightarrow>
           sbind (replace_data W data s) (\<lambda>_ s. (Inr silo, s)))))))))"

section \<open>Changing\<close>

text \<open>Checks on the current Silo.\<close>

definition ensure_identity_update_allowed ::
    "vault_library \<Rightarrow> silo \<Rightarrow> browser_kind \<Rightarrow> silo_engine_config option \<Rightarrow> vault_error + unit" where
  "ensure_identity_update_allowed L current browser_kind engine =
     (if sil_identity_locked_at current = None then Inr ()
      else if (case sil_browser current of None \<Rightarrow> False | Some browser \<Rightarrow> brd_kind browser \<noteq> browser_kind)
      then Inl SiloIdentityLocked
      else
        case engine of
          None \<Rightarrow> Inr ()
        | Some candidate \<Rightarrow>
            rbind (engine_identity_changed L (sil_engine current) candidate
                     (browser_kind_or_chrome current)) (\<lambda>changed.
            if changed then Inl SiloIdentityLocked else Inr ()))"

definition ensure_non_local_metadata_only :: "silo \<Rightarrow> update_silo_input \<Rightarrow> vault_error + unit" where
  "ensure_non_local_metadata_only current input =
     (if \<not> is_local (sil_execution_target current)
         \<and> (case sil_browser current of None \<Rightarrow> True
            | Some browser \<Rightarrow> brd_kind browser \<noteq> usi_browser_kind input
                \<or> brd_executable_path browser \<noteq> usi_executable_path input)
      then Inl (refuse (''A WSL or remote Silo may update only its name and color; its guest browser '' @
             ''metadata is fixed.''))
      else Inr ())"

text \<open>The browser after an update: inspected again when local, kept otherwise.\<close>

definition updated_browser ::
    "'w vault_os \<Rightarrow> silo \<Rightarrow> update_silo_input \<Rightarrow> 'w vault
     \<Rightarrow> (vault_error, browser_descriptor option, 'w vault) outcome" where
  "updated_browser W current input s =
     (if is_local (sil_execution_target current)
      then sbind (inspected_browser W (usi_browser_kind input) (usi_executable_path input) s)
             (\<lambda>browser s. (Inr (Some browser), s))
      else (Inr (sil_browser current), s))"

definition rename_metadata :: "update_silo_input \<Rightarrow> silo \<Rightarrow> silo" where
  "rename_metadata input s = s\<lparr>sil_name := str_trim (usi_name input), sil_color := usi_color input\<rparr>"

text \<open>The end of an update: change the Silo in a copy, commit it, and read the Silo back.\<close>

definition commit_change ::
    "vault_library \<Rightarrow> 'w vault_os \<Rightarrow> uuid \<Rightarrow> (vault_data \<Rightarrow> vault_error + vault_data) \<Rightarrow> 'w vault
     \<Rightarrow> (vault_error, silo, 'w vault) outcome" where
  "commit_change L W silo_id change s =
     sbind (unlocked_mut_for_activity W s) (\<lambda>unlocked s.
     sbind (change (uv_data unlocked), s) (\<lambda>data s.
     sbind (commit_data L W data s) (\<lambda>_ s. silo_by_id W silo_id s)))"

text \<open>The first lock time is kept: locking a locked identity changes nothing.\<close>

definition mark_silo_identity_locked ::
    "vault_library \<Rightarrow> 'w vault_os \<Rightarrow> uuid \<Rightarrow> 'w vault \<Rightarrow> (vault_error, silo, 'w vault) outcome" where
  "mark_silo_identity_locked L W silo_id s =
     sbind (silo_by_id W silo_id s) (\<lambda>current s.
     if sil_identity_locked_at current \<noteq> None then (Inr current, s)
     else
       case draw_time W s of (locked_at, s) \<Rightarrow>
       commit_change L W silo_id
         (change_silo silo_id (\<lambda>silo. silo\<lparr>sil_identity_locked_at := Some locked_at\<rparr>)) s)"

definition validate_managed_metadata :: "update_silo_input \<Rightarrow> domain_error + unit" where
  "validate_managed_metadata input = validate_silo_appearance (usi_name input) (usi_color input)"

definition update_silo ::
    "vault_library \<Rightarrow> 'w vault_os \<Rightarrow> uuid \<Rightarrow> update_silo_input \<Rightarrow> bool \<Rightarrow> 'w vault
     \<Rightarrow> (vault_error, silo, 'w vault) outcome" where
  "update_silo L W silo_id input is_active s =
     (if is_active then (Inl SiloRunning, s)
      else
        sbind (silo_by_id W silo_id s) (\<lambda>current s.
        if \<not> is_stock (sil_engine current)
        then
          sbind (domain_refusal (validate_managed_metadata input), s) (\<lambda>_ s.
          sbind (acquire_silo_profile_lease W silo_id s) (\<lambda>_ s.
          commit_change L W silo_id (change_silo silo_id (rename_metadata input)) s))
        else
          sbind (domain_refusal (update_silo_validate_for_target
                   (\<lambda>path. vo_is_file W path (vt_world s)) (sil_execution_target current) input), s)
            (\<lambda>_ s.
          sbind (ensure_non_local_metadata_only current input, s) (\<lambda>_ s.
          sbind (ensure_identity_update_allowed L current (usi_browser_kind input) None, s) (\<lambda>_ s.
          sbind (in_vault_world (vo_acquire_lease W
                   (all_profile_directories (sil_profile_directory current))) id s) (\<lambda>_ s.
          sbind (updated_browser W current input s) (\<lambda>browser s.
          commit_change L W silo_id
            (change_silo silo_id (\<lambda>silo. (rename_metadata input silo)\<lparr>sil_browser := browser\<rparr>)) s)))))))"

end
