(* ===== verification/Vault_Updates.thy ===== *)
theory Vault_Updates
  imports Vault_Silos
begin

text \<open>
  The operations that change a stored Silo's configuration, network, engine or identity, archive and
  delete it, and those on network evidence, recent runs and the remote control plane
  (\<open>vault.rs\<close>).
\<close>

section \<open>Configuration\<close>

text \<open>Puts a prepared network into a Silo's record and drops the secrets that it leaves unused.\<close>

definition change_network :: "uuid \<Rightarrow> prepared_network \<Rightarrow> vault_data \<Rightarrow> vault_error + vault_data" where
  "change_network silo_id prepared data =
     rbind (ok_or SiloNotFound (stored_silo silo_id data)) (\<lambda>old.
     rbind (change_silo silo_id (\<lambda>silo. silo\<lparr>sil_network_profile := pnw_profile prepared\<rparr>) data) (\<lambda>data.
     Inr (remove_unreferenced_secrets (credential_reference (sil_network_profile old))
            (mihomo_controller_secret_reference (sil_network_profile old))
            (insert_secrets prepared data))))"

definition prepare_network_input ::
    "'w vault_os \<Rightarrow> update_silo_network_input \<Rightarrow> 'w vault
     \<Rightarrow> (vault_error, prepared_network, 'w vault) outcome" where
  "prepare_network_input W input =
     prepare_network W (uni_network_profile input) (uni_proxy_credentials input)
       (uni_mihomo_controller_secret input)"

definition managed_network_refusal :: vault_error where
  "managed_network_refusal = refuse (''Managed network edits require an atomic native '' @
     ''re-provision/rebind and are unavailable in this build; the existing network and Artifact were '' @
     ''retained.'')"

definition managed_engine_refusal :: vault_error where
  "managed_engine_refusal = refuse (''Managed engine identity is fixed by its verified package and '' @
     ''cannot be replaced in place.'')"

definition validate_engine_input :: "silo_engine_config \<Rightarrow> network_profile \<Rightarrow> vault_error + unit" where
  "validate_engine_input engine profile = domain_refusal (validate_engine_configuration engine profile)"

definition change_configuration ::
    "uuid \<Rightarrow> update_silo_input \<Rightarrow> browser_descriptor option \<Rightarrow> silo_engine_config option
     \<Rightarrow> prepared_network option \<Rightarrow> vault_data \<Rightarrow> vault_error + vault_data" where
  "change_configuration silo_id input browser engine prepared data =
     rbind (change_silo silo_id (\<lambda>silo. (rename_metadata input silo)
              \<lparr>sil_browser := browser,
               sil_engine := (case engine of None \<Rightarrow> sil_engine silo | Some engine \<Rightarrow> engine)\<rparr>) data)
       (\<lambda>data.
     case prepared of None \<Rightarrow> Inr data | Some prepared \<Rightarrow> change_network silo_id prepared data)"

definition update_silo_configuration ::
    "vault_library \<Rightarrow> 'w vault_os \<Rightarrow> uuid \<Rightarrow> update_silo_input \<Rightarrow> update_silo_network_input option
     \<Rightarrow> silo_engine_config option \<Rightarrow> bool \<Rightarrow> 'w vault \<Rightarrow> (vault_error, silo, 'w vault) outcome" where
  "update_silo_configuration L W silo_id input network_input engine_input is_active s =
     (if is_active then (Inl SiloRunning, s)
      else
        sbind (silo_by_id W silo_id s) (\<lambda>current s.
        if \<not> is_stock (sil_engine current)
        then
          sbind (domain_refusal (validate_managed_metadata input), s) (\<lambda>_ s.
          if network_input \<noteq> None then (Inl managed_network_refusal, s)
          else if engine_input \<noteq> None then (Inl managed_engine_refusal, s)
          else
            sbind (acquire_silo_profile_lease W silo_id s) (\<lambda>_ s.
            commit_change L W silo_id (change_silo silo_id (rename_metadata input)) s))
        else
          sbind (domain_refusal (update_silo_validate_for_target
                   (\<lambda>path. vo_is_file W path (vt_world s)) (sil_execution_target current) input), s)
            (\<lambda>_ s.
          sbind (ensure_non_local_metadata_only current input, s) (\<lambda>_ s.
          if \<not> is_local (sil_execution_target current) \<and> engine_input \<noteq> None
          then (Inl (refuse (''A WSL or remote Silo cannot replace its browser identity engine in '' @
                 ''place.'')), s)
          else
            sbind (ensure_identity_update_allowed L current (usi_browser_kind input) engine_input, s)
              (\<lambda>_ s.
            sbind (case network_input of
                     None \<Rightarrow> Inr ()
                   | Some network \<Rightarrow> domain_refusal (network_input_validate_for_target (vl_parse_url L)
                       (sil_execution_target current) network), s) (\<lambda>_ s.
            let effective_network = (case network_input of
                  None \<Rightarrow> sil_network_profile current
                | Some network \<Rightarrow> uni_network_profile network) in
            sbind (case engine_input of
                     Some engine \<Rightarrow> validate_engine_input engine effective_network
                   | None \<Rightarrow> if network_input \<noteq> None
                       then validate_engine_input (sil_engine current) effective_network
                       else Inr (), s) (\<lambda>_ s.
            sbind (acquire_silo_profile_lease W silo_id s) (\<lambda>_ s.
            sbind (updated_browser W current input s) (\<lambda>browser s.
            sbind (case network_input of
                     None \<Rightarrow> (Inr None, s)
                   | Some network \<Rightarrow> sbind (prepare_network_input W network s) (\<lambda>prepared s.
                       (Inr (Some prepared), s))) (\<lambda>prepared s.
            commit_change L W silo_id
              (change_configuration silo_id input browser engine_input prepared) s))))))))))"

definition browser_paths_match :: "str \<Rightarrow> str \<Rightarrow> bool" where
  "browser_paths_match stored resolved \<longleftrightarrow> stored = resolved"

text \<open>\<open>format!("\<dots>\<dots>")\<close>: the user has confirmed the version baseline.\<close>

definition baseline_confirmed :: "str \<Rightarrow> str" where
  "baseline_confirmed version =
     [24050, 30001, 29992, 25143, 30830, 35748, 27983, 35272, 22120, 29256, 26412, 22522, 32447, 32]
     @ version @ [12290]"

definition set_browser_version :: "str \<Rightarrow> uuid \<Rightarrow> vault_data \<Rightarrow> vault_error + vault_data" where
  "set_browser_version version silo_id data =
     rbind (ok_or SiloNotFound (stored_silo silo_id data)) (\<lambda>silo.
     rbind (ok_or InvalidData (sil_browser silo)) (\<lambda>browser.
     change_silo silo_id (\<lambda>silo. silo\<lparr>sil_browser := Some (browser\<lparr>brd_version := Some version\<rparr>)\<rparr>) data))"

definition recheck_silo_browser ::
    "vault_library \<Rightarrow> 'w vault_os \<Rightarrow> uuid \<Rightarrow> bool \<Rightarrow> 'w vault
     \<Rightarrow> (vault_error, browser_verification, 'w vault) outcome" where
  "recheck_silo_browser L W silo_id is_active s =
     (if is_active then (Inl SiloRunning, s)
      else
        sbind (silo_by_id W silo_id s) (\<lambda>current s.
        if \<not> is_local (sil_execution_target current)
        then (Inl (refuse (''WSL and remote browser versions must be verified by their guest runtime, '' @
               ''not by the local executable checker.'')), s)
        else
          sbind (ok_or (refuse (''Managed browser identity is backed by its Artifact, not a stock '' @
                   ''executable.'')) (sil_browser current), s) (\<lambda>descriptor s.
          sbind (acquire_silo_profile_lease W silo_id s) (\<lambda>_ s.
          sbind (in_vault_world (vo_inspect_browser W (brd_kind descriptor)
                   (brd_executable_path descriptor)) BrowserVerification s) (\<lambda>inspection s.
          if \<not> browser_paths_match (brd_executable_path descriptor) (bri_resolved_path inspection)
          then (Inl (BrowserVerification (lit (''The canonical browser path changed; select the '' @
                 ''intended browser explicitly in Silo settings.''))), s)
          else
            sbind (unlocked_mut_for_activity W s) (\<lambda>unlocked s.
            sbind (set_browser_version (bri_version inspection) silo_id (uv_data unlocked), s) (\<lambda>data s.
            sbind (commit_data L W data s) (\<lambda>_ s.
            case draw_time W s of (now, s) \<Rightarrow>
            (Inr \<lparr>brv_state = VerifiedBrowser, brv_expected_kind = brd_kind descriptor,
                  brv_expected_version = Some (bri_version inspection),
                  brv_actual_version = Some (bri_version inspection),
                  brv_executable_path = bri_resolved_path inspection, brv_checked_at = now,
                  brv_message = baseline_confirmed (bri_version inspection)\<rparr>, s)))))))))"

definition rename_silo ::
    "vault_library \<Rightarrow> 'w vault_os \<Rightarrow> uuid \<Rightarrow> str \<Rightarrow> bool \<Rightarrow> 'w vault
     \<Rightarrow> (vault_error, silo, 'w vault) outcome" where
  "rename_silo L W silo_id name is_active s =
     (if is_active then (Inl SiloRunning, s)
      else
        sbind (domain_refusal (validate_silo_name name), s) (\<lambda>_ s.
        sbind (acquire_silo_profile_lease W silo_id s) (\<lambda>_ s.
        commit_change L W silo_id (change_silo silo_id (\<lambda>silo. silo\<lparr>sil_name := str_trim name\<rparr>)) s)))"

fun is_remote :: "silo_execution_target \<Rightarrow> bool" where
  "is_remote (Remote _) = True"
| "is_remote _ = False"

definition update_silo_network ::
    "vault_library \<Rightarrow> 'w vault_os \<Rightarrow> uuid \<Rightarrow> update_silo_network_input \<Rightarrow> bool \<Rightarrow> 'w vault
     \<Rightarrow> (vault_error, silo, 'w vault) outcome" where
  "update_silo_network L W silo_id input is_active s =
     (if is_active then (Inl SiloRunning, s)
      else
        sbind (silo_by_id W silo_id s) (\<lambda>current s.
        if \<not> is_stock (sil_engine current) then (Inl managed_network_refusal, s)
        else if is_remote (sil_execution_target current)
        then (Inl (refuse (''Remote network policy cannot be changed until the bound browser runtime '' @
               ''is verified.'')), s)
        else
          sbind (domain_refusal (network_input_validate_for_target (vl_parse_url L)
                   (sil_execution_target current) input), s) (\<lambda>_ s.
          sbind (validate_engine_input (sil_engine current) (uni_network_profile input), s) (\<lambda>_ s.
          sbind (acquire_silo_profile_lease W silo_id s) (\<lambda>_ s.
          sbind (prepare_network_input W input s) (\<lambda>prepared s.
          commit_change L W silo_id (change_network silo_id prepared) s))))))"

definition update_silo_engine ::
    "vault_library \<Rightarrow> 'w vault_os \<Rightarrow> uuid \<Rightarrow> silo_engine_config \<Rightarrow> bool \<Rightarrow> 'w vault
     \<Rightarrow> (vault_error, silo, 'w vault) outcome" where
  "update_silo_engine L W silo_id engine is_active s =
     (if is_active then (Inl SiloRunning, s)
      else
        sbind (silo_by_id W silo_id s) (\<lambda>current s.
        if \<not> is_stock (sil_engine current) then (Inl managed_engine_refusal, s)
        else if \<not> is_local (sil_execution_target current)
        then (Inl (refuse (''WSL and remote browser engines are fixed by their managed runtime '' @
               ''target.'')), s)
        else
          sbind (ensure_identity_update_allowed L current (browser_kind_or_chrome current) (Some engine), s)
            (\<lambda>_ s.
          sbind (validate_engine_input engine (sil_network_profile current), s) (\<lambda>_ s.
          sbind (acquire_silo_profile_lease W silo_id s) (\<lambda>_ s.
          commit_change L W silo_id (change_silo silo_id (\<lambda>silo. silo\<lparr>sil_engine := engine\<rparr>)) s)))))"

section \<open>Archiving and deleting\<close>

definition archive_silo ::
    "vault_library \<Rightarrow> 'w vault_os \<Rightarrow> uuid \<Rightarrow> bool \<Rightarrow> 'w vault \<Rightarrow> (vault_error, unit, 'w vault) outcome"
  where
  "archive_silo L W silo_id is_active s =
     (if is_active then (Inl SiloRunning, s)
      else
        sbind (acquire_silo_profile_lease W silo_id s) (\<lambda>_ s.
        sbind (unlocked_mut_for_activity W s) (\<lambda>unlocked s.
        sbind (ok_or SiloNotFound (stored_silo silo_id (uv_data unlocked)), s) (\<lambda>silo s.
        case (if sil_archived_at silo = None
              then (case draw_time W s of (now, s) \<Rightarrow> (Some now, s))
              else (sil_archived_at silo, s)) of (archived_at, s) \<Rightarrow>
        sbind (change_silo silo_id (\<lambda>silo. silo\<lparr>sil_archived_at := archived_at\<rparr>) (uv_data unlocked), s)
          (\<lambda>data s.
        commit_data L W data s)))))"

definition restore_archived_silo ::
    "vault_library \<Rightarrow> 'w vault_os \<Rightarrow> uuid \<Rightarrow> 'w vault \<Rightarrow> (vault_error, silo, 'w vault) outcome" where
  "restore_archived_silo L W silo_id s =
     sbind (acquire_silo_profile_lease W silo_id s) (\<lambda>_ s.
     commit_change L W silo_id (change_silo silo_id (\<lambda>silo. silo\<lparr>sil_archived_at := None\<rparr>)) s)"

text \<open>The data without a Silo and all that belongs to it alone.\<close>

definition remove_silo :: "uuid \<Rightarrow> vault_data \<Rightarrow> vault_error + vault_data" where
  "remove_silo silo_id data =
     rbind (ok_or SiloNotFound (position (\<lambda>s. sil_id s = silo_id) (vd_silos data))) (\<lambda>index.
     let removed = vd_silos data ! index;
         remote = vd_remote_control_plane data;
         data = data\<lparr>vd_silos := take index (vd_silos data) @ drop (Suc index) (vd_silos data),
           vd_seed_material := AList.delete (sil_seed_reference removed) (vd_seed_material data),
           vd_network_evidence :=
             filter (\<lambda>entry. nee_silo_id entry \<noteq> sil_id removed) (vd_network_evidence data),
           vd_recent_runs := AList.delete (sil_id removed) (vd_recent_runs data),
           vd_remote_control_plane := remote\<lparr>rvs_last_results :=
             AList.delete (sil_id removed) (rvs_last_results remote)\<rparr>\<rparr> in
     Inr (remove_unreferenced_identity_artifact
            (map_option cab_artifact_id (camoufox_artifact_binding (sil_engine removed)))
            (remove_unreferenced_secrets (credential_reference (sil_network_profile removed))
               (mihomo_controller_secret_reference (sil_network_profile removed)) data)))"

definition quarantine_directory :: "str \<Rightarrow> uuid \<Rightarrow> str" where
  "quarantine_directory base silo_id =
     path_join (path_join base (lit ''silos'')) (lit ''.deleting-'' @ uuid_to_string silo_id)"

text \<open>Moves the managed directory, when there is one, into quarantine.\<close>

definition quarantine ::
    "'w vault_os \<Rightarrow> str \<Rightarrow> str \<Rightarrow> 'w vault \<Rightarrow> (vault_error, bool, 'w vault) outcome" where
  "quarantine W managed_directory target s =
     (if \<not> vo_exists W managed_directory (vt_world s) then (Inr False, s)
      else
        sbind (in_vault_world (vo_remove_cache_links W (path_join (path_join managed_directory
                 (lit ''engine-state'')) (lit ''camoufox-cache''))) id s) (\<lambda>_ s.
        sbind (in_vault_world (vo_check_tree W managed_directory) id s) (\<lambda>_ s.
        case vo_path_kind W target (vt_world s) of
          Link \<Rightarrow> (Inl UnmanagedProfile, s)
        | Plain \<Rightarrow> (Inl UnmanagedProfile, s)
        | _ \<Rightarrow>
            sbind (in_vault_world (vo_rename W managed_directory target) Filesystem s) (\<lambda>_ s.
            (Inr True, s)))))"

definition delete_silo ::
    "vault_library \<Rightarrow> 'w vault_os \<Rightarrow> str \<Rightarrow> uuid \<Rightarrow> bool \<Rightarrow> bool \<Rightarrow> 'w vault
     \<Rightarrow> (vault_error, unit, 'w vault) outcome" where
  "delete_silo L W base silo_id is_active confirm_permanent s =
     (if \<not> confirm_permanent then (Inl PermanentDeleteNotConfirmed, s)
      else if is_active then (Inl SiloRunning, s)
      else
        sbind (unlocked_mut_for_activity W s) (\<lambda>unlocked s.
        if list_ex (\<lambda>binding. sb_silo_id binding = silo_id)
             (rs_bindings (rvs_backend (vd_remote_control_plane (uv_data unlocked))))
        then (Inl SiloRemoteBound, s)
        else
          sbind (verified_silo_profile_directory W base silo_id s) (\<lambda>managed_directory s.
          case silo_has_browser_lock W silo_id s of (in_use, s) \<Rightarrow>
          if in_use then (Inl SiloProfileInUse, s)
          else
            sbind (unlocked_without_activity W s) (\<lambda>unlocked s.
            sbind (remove_silo silo_id (uv_data unlocked), s) (\<lambda>data s.
            let target = quarantine_directory base silo_id in
            sbind (quarantine W managed_directory target s) (\<lambda>moved_to_quarantine s.
            case vault_persist_data L W data s of
              (Inl error, s) \<Rightarrow>
                (Inl error, if moved_to_quarantine
                            then snd (in_vault_world (vo_rename W target managed_directory) Filesystem s)
                            else s)
            | (Inr _, s) \<Rightarrow>
                sbind (replace_data W data s) (\<lambda>_ s.
                if moved_to_quarantine
                then sbind (in_vault_world (vo_check_tree W target) id s) (\<lambda>_ s.
                     in_vault_world (vo_remove_dir_all W target) Filesystem s)
                else (Inr (), s))))))))"

end
