(* ===== verification/Vault_Records.thy ===== *)
theory Vault_Records
  imports Vault_Updates
begin

text \<open>
  The Vault's operations on managed identities, network evidence, recent runs and the remote control
  plane (\<open>vault.rs\<close>).
\<close>

section \<open>Managed identities\<close>

text \<open>Binds a Camoufox Silo to an Artifact; another engine is refused.\<close>

definition bind_artifact ::
    "uuid \<Rightarrow> stored_identity_artifact \<Rightarrow> (silo \<Rightarrow> silo) \<Rightarrow> vault_data \<Rightarrow> vault_error + vault_data" where
  "bind_artifact silo_id artifact edit data =
     rbind (ok_or SiloNotFound (stored_silo silo_id data)) (\<lambda>silo.
     if \<not> is_camoufox (sil_engine silo) then Inl InvalidData
     else change_silo silo_id (\<lambda>silo. (edit silo)
            \<lparr>sil_engine := silo_engine_config.Camoufox None [] (Some (binding_of artifact))\<rparr>) data)"

definition insert_artifact :: "stored_identity_artifact \<Rightarrow> vault_data \<Rightarrow> vault_data" where
  "insert_artifact artifact data =
     data\<lparr>vd_identity_artifacts :=
            AList.update (sia_artifact_id artifact) artifact (vd_identity_artifacts data)\<rparr>"

text \<open>The message that a locked managed identity cannot be replaced.\<close>

definition managed_identity_locked :: vault_error where
  "managed_identity_locked = vault_error.InvalidSilo
     [25176, 31649, 36523, 20221, 24050, 22312, 39318, 27425, 21551, 21160, 21518, 38145, 23450,
      65292, 35831, 21019, 24314, 26032, 30340, 32, 83, 105, 108, 111, 12290]"

definition legacy_managed :: "string \<Rightarrow> vault_error" where
  "legacy_managed what = refuse
     (''identity_artifact_unavailable: legacy Managed Silo has no '' @ what @ '' Artifact'')"

definition replace_managed_identity ::
    "vault_library \<Rightarrow> 'w vault_os \<Rightarrow> uuid \<Rightarrow> stored_identity_artifact \<Rightarrow> nat list option \<Rightarrow> 'w vault
     \<Rightarrow> (vault_error, silo, 'w vault) outcome" where
  "replace_managed_identity L W silo_id artifact seed s =
     sbind (silo_by_id W silo_id s) (\<lambda>current s.
     if sil_identity_locked_at current \<noteq> None then (Inl managed_identity_locked, s)
     else
       case camoufox_artifact_binding (sil_engine current) of
         None \<Rightarrow> (Inl (legacy_managed ''replaceable''), s)
       | Some old_binding \<Rightarrow>
           sbind (validate_identity_artifact_record L (sia_artifact_id artifact) artifact, s) (\<lambda>_ s.
           if sia_schema artifact \<noteq> expected_artifact_schema (sil_network_profile current)
           then (Inl (vault_error.InvalidSilo (lit ''identity replace requires Artifact ''
                  @ expected_artifact_schema (sil_network_profile current))), s)
           else
             sbind (record_activity W s) (\<lambda>_ s.
             sbind (first_writer L W artifact s) (\<lambda>artifact s.
             sbind (unlocked_without_activity W s) (\<lambda>unlocked s.
             sbind (bind_artifact silo_id artifact (\<lambda>silo. silo) (uv_data unlocked), s) (\<lambda>data s.
             let data = (case seed of None \<Rightarrow> data
                   | Some seed \<Rightarrow> data\<lparr>vd_seed_material := AList.update (sil_seed_reference current)
                       (vl_b64_encode L seed) (vd_seed_material data)\<rparr>);
                 data = remove_unreferenced_identity_artifact (Some (cab_artifact_id old_binding))
                   (insert_artifact artifact data) in
             sbind (commit_data L W data s) (\<lambda>_ s. silo_by_id W silo_id s)))))))"

definition rename_optional :: "update_silo_input option \<Rightarrow> silo \<Rightarrow> silo" where
  "rename_optional metadata s = (case metadata of None \<Rightarrow> s | Some input \<Rightarrow> rename_metadata input s)"

definition change_rebound ::
    "uuid \<Rightarrow> update_silo_input option \<Rightarrow> prepared_network \<Rightarrow> stored_identity_artifact \<Rightarrow> silo
     \<Rightarrow> vault_data \<Rightarrow> vault_error + vault_data" where
  "change_rebound silo_id metadata prepared artifact current data =
     rbind (bind_artifact silo_id artifact (\<lambda>silo. (rename_optional metadata silo)
              \<lparr>sil_network_profile := pnw_profile prepared\<rparr>) data) (\<lambda>data.
     Inr (remove_unreferenced_identity_artifact
            (map_option cab_artifact_id (camoufox_artifact_binding (sil_engine current)))
            (remove_unreferenced_secrets (credential_reference (sil_network_profile current))
               (mihomo_controller_secret_reference (sil_network_profile current))
               (insert_artifact artifact (insert_secrets prepared data)))))"

definition rebind_managed_silo_configuration ::
    "vault_library \<Rightarrow> 'w vault_os \<Rightarrow> uuid \<Rightarrow> update_silo_input option \<Rightarrow> update_silo_network_input
     \<Rightarrow> stored_identity_artifact \<Rightarrow> 'w vault \<Rightarrow> (vault_error, silo, 'w vault) outcome" where
  "rebind_managed_silo_configuration L W silo_id metadata input artifact s =
     sbind (silo_by_id W silo_id s) (\<lambda>current s.
     if is_stock (sil_engine current)
     then (Inl (refuse ''network rebind is only available for Managed Camoufox Silos''), s)
     else if camoufox_artifact_binding (sil_engine current) = None
     then (Inl (legacy_managed ''rebindable''), s)
     else
       sbind (case metadata of None \<Rightarrow> Inr ()
              | Some metadata \<Rightarrow> domain_refusal (validate_managed_metadata metadata), s) (\<lambda>_ s.
       sbind (domain_refusal (network_input_validate_for_target (vl_parse_url L)
                (sil_execution_target current) input), s) (\<lambda>_ s.
       if \<not> is_managed_direct (uni_network_profile input) \<and> \<not> is_managed_proxy (uni_network_profile input)
       then (Inl (refuse (''Managed Camoufox network rebind accepts Direct or a required HTTP/SOCKS5 '' @
              ''proxy, including a local Clash/Mihomo binding.'')), s)
       else
         sbind (validate_identity_artifact_record L (sia_artifact_id artifact) artifact, s) (\<lambda>_ s.
         if sia_schema artifact \<noteq> expected_artifact_schema (uni_network_profile input)
         then (Inl (vault_error.InvalidSilo (lit ''network rebind requires Artifact ''
                @ expected_artifact_schema (uni_network_profile input))), s)
         else
           sbind (record_activity W s) (\<lambda>_ s.
           sbind (first_writer L W artifact s) (\<lambda>artifact s.
           sbind (prepare_network_input W input s) (\<lambda>prepared s.
           sbind (unlocked_without_activity W s) (\<lambda>unlocked s.
           sbind (change_rebound silo_id metadata prepared artifact current (uv_data unlocked), s)
             (\<lambda>data s.
           sbind (commit_data L W data s) (\<lambda>_ s. silo_by_id W silo_id s))))))))))"

definition rebind_managed_silo_network ::
    "vault_library \<Rightarrow> 'w vault_os \<Rightarrow> uuid \<Rightarrow> update_silo_network_input \<Rightarrow> stored_identity_artifact
     \<Rightarrow> 'w vault \<Rightarrow> (vault_error, silo, 'w vault) outcome" where
  "rebind_managed_silo_network L W silo_id input artifact =
     rebind_managed_silo_configuration L W silo_id None input artifact"

section \<open>Network evidence\<close>

text \<open>The loop over the entries: those of known Silos that are new, or the refusal of a bad one.\<close>

fun new_evidence ::
    "uuid list \<Rightarrow> uuid list \<Rightarrow> uuid list \<Rightarrow> network_evidence list
     \<Rightarrow> vault_error + network_evidence list" where
  "new_evidence silo_ids evidence_ids request_ids [] = Inr []"
| "new_evidence silo_ids evidence_ids request_ids (entry # entries) =
     (if \<not> valid_network_evidence entry then Inl InvalidData
      else if nee_silo_id entry \<notin> set silo_ids
         \<or> nee_evidence_id entry \<in> set evidence_ids \<or> nee_request_id entry \<in> set request_ids
      then new_evidence silo_ids evidence_ids request_ids entries
      else
        rbind (new_evidence silo_ids (nee_evidence_id entry # evidence_ids)
                 (nee_request_id entry # request_ids) entries) (\<lambda>rest. Inr (entry # rest)))"

text \<open>The newest first, as the stable sort leaves them; then at most so many of each Silo.\<close>

definition newest_first :: "network_evidence list \<Rightarrow> network_evidence list" where
  "newest_first entries = sort_key (\<lambda>entry. - nee_received_at entry) entries"

fun retain_per_silo :: "(uuid \<Rightarrow> nat) \<Rightarrow> network_evidence list \<Rightarrow> network_evidence list" where
  "retain_per_silo retained [] = []"
| "retain_per_silo retained (entry # entries) =
     (let silo_id = nee_silo_id entry in
      if MAX_NETWORK_EVIDENCE_PER_SILO \<le> retained silo_id then retain_per_silo retained entries
      else entry # retain_per_silo (retained(silo_id := Suc (retained silo_id))) entries)"

definition merge_evidence :: "network_evidence list \<Rightarrow> network_evidence list \<Rightarrow> network_evidence list" where
  "merge_evidence stored new_entries =
     take MAX_NETWORK_EVIDENCE_RECORDS
       (retain_per_silo (\<lambda>_. 0) (newest_first (stored @ new_entries)))"

definition import_network_evidence ::
    "vault_library \<Rightarrow> 'w vault_os \<Rightarrow> network_evidence list \<Rightarrow> 'w vault
     \<Rightarrow> (vault_error, nat, 'w vault) outcome" where
  "import_network_evidence L W entries s =
     (if entries = [] then (Inr 0, s)
      else
        sbind (unlocked_without_activity W s) (\<lambda>unlocked s.
        let data = uv_data unlocked; stored = vd_network_evidence data in
        sbind (new_evidence (map sil_id (vd_silos data)) (map nee_evidence_id stored)
                 (map nee_request_id stored) entries, s) (\<lambda>new_entries s.
        if new_entries = [] then (Inr 0, s)
        else
          sbind (unlocked_without_activity W s) (\<lambda>unlocked s.
          let data = uv_data unlocked;
              merged = merge_evidence (vd_network_evidence data) new_entries;
              newly_seen = map nee_evidence_id new_entries;
              imported = length (filter (\<lambda>entry. nee_evidence_id entry \<in> set newly_seen) merged) in
          if 0 < imported
          then sbind (commit_data L W (data\<lparr>vd_network_evidence := merged\<rparr>) s) (\<lambda>_ s.
               (Inr imported, s))
          else (Inr imported, s)))))"

definition list_network_evidence ::
    "'w vault_os \<Rightarrow> uuid option \<Rightarrow> 'w vault \<Rightarrow> (vault_error, network_evidence list, 'w vault) outcome"
  where
  "list_network_evidence W silo_id =
     reading W (\<lambda>data. Inr (newest_first (filter (\<lambda>entry. case silo_id of None \<Rightarrow> True
       | Some silo_id \<Rightarrow> nee_silo_id entry = silo_id) (vd_network_evidence data))))"

definition clear_network_evidence ::
    "vault_library \<Rightarrow> 'w vault_os \<Rightarrow> uuid \<Rightarrow> bool \<Rightarrow> 'w vault \<Rightarrow> (vault_error, nat, 'w vault) outcome"
  where
  "clear_network_evidence L W silo_id confirm_clear s =
     (if \<not> confirm_clear then (Inl PermanentDeleteNotConfirmed, s)
      else
        sbind (unlocked_mut_for_activity W s) (\<lambda>unlocked s.
        let data = uv_data unlocked in
        if silo_id \<notin> set (map sil_id (vd_silos data)) then (Inl SiloNotFound, s)
        else
          let before = length (vd_network_evidence data);
              kept = filter (\<lambda>entry. nee_silo_id entry \<noteq> silo_id) (vd_network_evidence data);
              removed = before - length kept in
          if 0 < removed
          then sbind (commit_data L W (data\<lparr>vd_network_evidence := kept\<rparr>) s) (\<lambda>_ s. (Inr removed, s))
          else (Inr removed, s)))"

section \<open>The remote control plane\<close>

definition remote_control_plane ::
    "'w vault_os \<Rightarrow> 'w vault \<Rightarrow> (vault_error, remote_vault_state, 'w vault) outcome" where
  "remote_control_plane W = reading W (\<lambda>data. Inr (vd_remote_control_plane data))"

definition persist_remote_control_plane ::
    "vault_library \<Rightarrow> 'w vault_os \<Rightarrow> remote_vault_state \<Rightarrow> 'w vault
     \<Rightarrow> (vault_error, unit, 'w vault) outcome" where
  "persist_remote_control_plane L W remote s =
     sbind (unlocked_mut_for_activity W s) (\<lambda>unlocked s.
     let data = (uv_data unlocked)\<lparr>vd_remote_control_plane := remote\<rparr> in
     sbind (validate_remote_control_plane L data, s) (\<lambda>_ s. commit_data L W data s))"

section \<open>Recent runs\<close>

definition list_recent_runs ::
    "'w vault_os \<Rightarrow> 'w vault \<Rightarrow> (vault_error, recent_run_record list, 'w vault) outcome" where
  "list_recent_runs W =
     reading W (\<lambda>data. Inr (sort_key (\<lambda>record. - rrr_updated_at record) (map snd (vd_recent_runs data))))"

definition get_recent_run ::
    "'w vault_os \<Rightarrow> uuid \<Rightarrow> 'w vault \<Rightarrow> (vault_error, recent_run_record option, 'w vault) outcome" where
  "get_recent_run W silo_id = reading W (\<lambda>data. Inr (map_of (vd_recent_runs data) silo_id))"

definition insert_recent_run :: "recent_run_record \<Rightarrow> uuid \<Rightarrow> vault_data \<Rightarrow> vault_data" where
  "insert_recent_run record silo_id data =
     data\<lparr>vd_recent_runs := AList.update silo_id record (vd_recent_runs data)\<rparr>"

text \<open>\<open>Silo::adapter_id\<close> panics on a stock Silo without a browser.\<close>

definition begin_recent_run ::
    "vault_library \<Rightarrow> 'w vault_os \<Rightarrow> silo \<Rightarrow> 'w vault \<Rightarrow> (vault_error, unit, 'w vault) outcome" where
  "begin_recent_run L W silo s =
     (if \<not> is_local (sil_execution_target silo) then (Inl InvalidData, s)
      else
        sbind (ok_or Panicked (silo_adapter_id silo), s) (\<lambda>adapter s.
        if adapter \<notin> {StockChrome, StockEdge, engine_adapter_id.Camoufox} then (Inl InvalidData, s)
        else
          case draw_time W s of (now, s) \<Rightarrow>
          case draw_uuid W s of (run_id, s) \<Rightarrow>
          let record = \<lparr>rrr_silo_id = sil_id silo, rrr_run_id = run_id, rrr_runtime_id = None,
                rrr_started_at = Some now, rrr_updated_at = now, rrr_ended_at = None,
                rrr_profile_silo_id = sil_id silo,
                rrr_artifact_binding = camoufox_artifact_binding (sil_engine silo),
                rrr_engine_adapter = adapter,
                rrr_network_policy = recent_run_network_policy_from (sil_network_profile silo),
                rrr_state = Preflight, rrr_reason = None, rrr_identity_evidence = None,
                rrr_engine_evidence = None, rrr_network_evidence = None\<rparr> in
          sbind (unlocked_without_activity W s) (\<lambda>unlocked s.
          if sil_id silo \<notin> set (map sil_id (vd_silos (uv_data unlocked))) then (Inl SiloNotFound, s)
          else commit_data L W (insert_recent_run record (sil_id silo) (uv_data unlocked)) s)))"

text \<open>The runtime that an activation's evidence names.\<close>

definition evidence_runtime_id :: "runtime_activation \<Rightarrow> uuid option" where
  "evidence_runtime_id activation =
     (case rta_network_evidence activation of
        Some evidence \<Rightarrow> Some (rne_runtime_id evidence)
      | None \<Rightarrow> map_option rie_runtime_id (rta_identity_evidence activation))"

definition evidence_fits_run :: "uuid \<Rightarrow> runtime_activation \<Rightarrow> recent_run_record \<Rightarrow> bool" where
  "evidence_fits_run silo_id activation record \<longleftrightarrow>
     (case rta_network_evidence activation of None \<Rightarrow> True
      | Some evidence \<Rightarrow> Some (rne_runtime_id evidence) = rrr_runtime_id record)
     \<and> (case rta_identity_evidence activation of None \<Rightarrow> True
        | Some evidence \<Rightarrow> rie_silo_id evidence = silo_id
            \<and> Some (rie_runtime_id evidence) = rrr_runtime_id record
            \<and> rie_engine_adapter evidence = rrr_engine_adapter record
            \<and> evidence_matches_binding (rrr_artifact_binding record) evidence)
     \<and> (case rta_engine_evidence activation of None \<Rightarrow> True
        | Some evidence \<Rightarrow> ree_configured_adapter evidence = rrr_engine_adapter record)"

text \<open>The fixed reasons, in the order failed verification, recovery, failure, stop.\<close>

definition reason_verification_failed :: str where
  "reason_verification_failed =
     [36816, 34892, 26102, 39564, 35777, 26410, 36890, 36807, 65307, 35831, 26597, 30475, 36825, 27425,
      35760, 24405, 20013, 30340, 35777, 25454, 12290]"

definition reason_recovery_required :: str where
  "reason_recovery_required =
     [26080, 27861, 30830, 35748, 36816, 34892, 29615, 22659, 24050, 23433, 20840, 20572, 27490, 65292,
      38656, 35201, 24674, 22797, 22788, 29702, 12290]"

definition reason_failed :: str where
  "reason_failed =
     [26412, 27425, 21551, 21160, 26410, 23436, 25104, 65307, 27809, 26377, 21487, 30830, 35748, 30340,
      36816, 34892, 29615, 22659, 12290]"

definition reason_stopped :: str where
  "reason_stopped = [27983, 35272, 22120, 24050, 20572, 27490, 12290]"

definition run_reason :: "runtime_state \<Rightarrow> str option \<Rightarrow> str option" where
  "run_reason state reason =
     (case state of
        VerificationFailed \<Rightarrow> Some reason_verification_failed
      | RecoveryRequired \<Rightarrow> Some reason_recovery_required
      | FailedRuntime \<Rightarrow> Some reason_failed
      | runtime_state.Stopped \<Rightarrow> (case reason of None \<Rightarrow> Some reason_stopped | Some _ \<Rightarrow> reason)
      | _ \<Rightarrow> reason)"

definition or_else :: "'a option \<Rightarrow> 'a option \<Rightarrow> 'a option" where
  "or_else a b = (case a of None \<Rightarrow> b | Some _ \<Rightarrow> a)"

definition advance_run :: "runtime_activation \<Rightarrow> recent_run_record \<Rightarrow> recent_run_record" where
  "advance_run activation record =
     record\<lparr>rrr_state := rta_state activation,
            rrr_identity_evidence :=
              or_else (rta_identity_evidence activation) (rrr_identity_evidence record),
            rrr_engine_evidence := or_else (rta_engine_evidence activation) (rrr_engine_evidence record),
            rrr_network_evidence :=
              or_else (rta_network_evidence activation) (rrr_network_evidence record),
            rrr_reason := run_reason (rta_state activation) (rrr_reason record),
            rrr_ended_at :=
              (if rrr_ended_at record = None \<and> rta_active_silo_id activation = None
                  \<and> rta_state activation \<in> {runtime_state.Stopped, FailedRuntime, VerificationFailed}
               then Some (rta_updated_at activation) else rrr_ended_at record)\<rparr>"

definition update_recent_run ::
    "vault_library \<Rightarrow> 'w vault_os \<Rightarrow> uuid \<Rightarrow> runtime_activation \<Rightarrow> 'w vault
     \<Rightarrow> (vault_error, bool, 'w vault) outcome" where
  "update_recent_run L W silo_id activation s =
     (if rta_state activation = Idle then (Inr False, s)
      else if rta_active_silo_id activation \<notin> {None, Some silo_id} then (Inl InvalidData, s)
      else
        sbind (unlocked_without_activity W s) (\<lambda>unlocked s.
        case map_of (vd_recent_runs (uv_data unlocked)) silo_id of
          None \<Rightarrow> (Inr False, s)
        | Some current \<Rightarrow>
            let named = evidence_runtime_id activation in
            if rrr_runtime_id current \<noteq> None \<and> named \<noteq> None \<and> rrr_runtime_id current \<noteq> named
            then (Inl InvalidData, s)
            else
              let identified = current\<lparr>rrr_runtime_id := or_else (rrr_runtime_id current) named\<rparr> in
              if \<not> evidence_fits_run silo_id activation identified then (Inl InvalidData, s)
              else
                let advanced = advance_run activation identified in
                sbind (map_err Serialization (vl_record_value L advanced), s) (\<lambda>a s.
                sbind (map_err Serialization (vl_record_value L current), s) (\<lambda>b s.
                if a = b then (Inr False, s)
                else
                  case draw_time W s of (now, s) \<Rightarrow>
                  sbind (unlocked_without_activity W s) (\<lambda>unlocked s.
                  sbind (commit_data L W (insert_recent_run (advanced\<lparr>rrr_updated_at := now\<rparr>) silo_id
                           (uv_data unlocked)) s) (\<lambda>_ s.
                  (Inr True, s)))))))"

end
