(* ===== verification/Vault_Facts.thy ===== *)
theory Vault_Facts
  imports Vault_Records
begin

text \<open>
  What every operation of the Vault keeps: until it commits, an operation leaves the data in memory
  as they are, or locked by the deadline (\<open>data_kept\<close>); a commit writes the file first and then
  adopts the prospective data (\<open>changed\<close>). The contract \<open>vault_operation\<close> says so of an operation and
  of the change that it makes.
\<close>

section \<open>The data in memory\<close>

definition vault_data_of :: "'w vault \<Rightarrow> vault_data option" where
  "vault_data_of s = map_option uv_data (vt_unlocked s)"

text \<open>The Vault has been locked, or has the keys and the data that it had, until perhaps another time.\<close>

definition same_unlocked :: "'w vault \<Rightarrow> 'w vault \<Rightarrow> bool" where
  "same_unlocked s t \<longleftrightarrow>
     vt_unlocked t = None
     \<or> (\<exists>u a. vt_unlocked s = Some u \<and> vt_unlocked t = Some (u\<lparr>uv_auto_lock_at := a\<rparr>))"

definition data_kept :: "'w vault \<Rightarrow> 'w vault \<Rightarrow> bool" where
  "data_kept s t \<longleftrightarrow> same_unlocked s t \<and> vt_disk t = vt_disk s"

lemma unlocked_until: "\<exists>a. u = u\<lparr>uv_auto_lock_at := a\<rparr>"
  by (rule exI [of _ "uv_auto_lock_at u"]) simp

lemma same_unlocked_eq: "vt_unlocked t = vt_unlocked s \<Longrightarrow> same_unlocked s t"
  unfolding same_unlocked_def by (cases "vt_unlocked s") (auto intro: unlocked_until)

lemma same_unlocked_locked: "vt_unlocked t = None \<Longrightarrow> same_unlocked s t"
  by (simp add: same_unlocked_def)

lemma same_unlocked_trans: "same_unlocked s t \<Longrightarrow> same_unlocked t u \<Longrightarrow> same_unlocked s u"
  by (auto simp: same_unlocked_def)

lemma same_unlocked_data: "same_unlocked s t \<Longrightarrow> vault_data_of t = None \<or> vault_data_of t = vault_data_of s"
  by (auto simp: same_unlocked_def vault_data_of_def)

lemma data_kept_refl [simp]: "data_kept s s"
  by (simp add: data_kept_def same_unlocked_eq)

lemma data_kept_trans: "data_kept s t \<Longrightarrow> data_kept t u \<Longrightarrow> data_kept s u"
  by (auto simp: data_kept_def intro: same_unlocked_trans)

lemma data_kept_frame: "vt_unlocked t = vt_unlocked s \<Longrightarrow> vt_disk t = vt_disk s \<Longrightarrow> data_kept s t"
  by (simp add: data_kept_def same_unlocked_eq)

lemma data_kept_locked: "vt_unlocked t = None \<Longrightarrow> vt_disk t = vt_disk s \<Longrightarrow> data_kept s t"
  by (simp add: data_kept_def same_unlocked_locked)

lemma vault_data_of_updates [simp]:
  "vault_data_of (s\<lparr>vt_disk := d\<rparr>) = vault_data_of s"
  "vault_data_of (s\<lparr>vt_world := w\<rparr>) = vault_data_of s"
  "vault_data_of (s\<lparr>vt_unlocked := None\<rparr>) = None"
  "vault_data_of (s\<lparr>vt_unlocked := Some u\<rparr>) = Some (uv_data u)"
  by (simp_all add: vault_data_of_def)

lemma vault_data_of_unlocked: "vt_unlocked s = Some u \<Longrightarrow> vault_data_of s = Some (uv_data u)"
  by (simp add: vault_data_of_def)

lemma data_kept_unlocked:
  "data_kept s0 t \<Longrightarrow> vt_unlocked t = Some u \<Longrightarrow> vault_data_of s0 = Some (uv_data u)"
  by (auto simp: data_kept_def same_unlocked_def vault_data_of_def)

lemma draw_frame [simp]:
  "vt_unlocked (snd (draw_bytes W n s)) = vt_unlocked s" "vt_disk (snd (draw_bytes W n s)) = vt_disk s"
  "vt_unlocked (snd (draw_uuid W s)) = vt_unlocked s" "vt_disk (snd (draw_uuid W s)) = vt_disk s"
  "vt_unlocked (snd (draw_time W s)) = vt_unlocked s" "vt_disk (snd (draw_time W s)) = vt_disk s"
  by (simp_all add: draw_bytes_def draw_uuid_def draw_time_def split: prod.split)

lemma world_frame [simp]:
  "vt_unlocked (snd (in_vault_world f g s)) = vt_unlocked s"
  "vt_disk (snd (in_vault_world f g s)) = vt_disk s"
  by (simp_all add: in_vault_world_def split: prod.split)

lemma data_kept_world: "data_kept s (snd (in_vault_world f g s))"
  by (rule data_kept_frame) simp_all

lemma data_kept_draws:
  "data_kept s (snd (draw_time W s))" "data_kept s (snd (draw_uuid W s))" "data_kept s (snd (draw_bytes W n s))"
  by (rule data_kept_frame; simp)+

lemma data_kept_expire: "data_kept s (expire_if_needed W s)"
proof -
  have "expire_if_needed_at now t = t \<or> expire_if_needed_at now t = t\<lparr>vt_unlocked := None\<rparr>" for now and t :: "'a vault"
    by (simp add: expire_if_needed_at_def split: option.split)
  then show ?thesis
    using draw_frame(5,6) [of W s]
    by (cases "draw_time W s")
       (metis data_kept_frame data_kept_locked expire_if_needed_def case_prod_conv snd_conv
          vault.select_convs(1) vault.surjective vault.update_convs(1) vault.select_convs(2))
qed

section \<open>A relation kept by steps\<close>

text \<open>
  The postcondition \<open>quietly s0 Q m\<close>: on success \<open>Q\<close>, and in both cases the state that \<open>m\<close> leaves
  keeps the data of \<open>s0\<close>.
\<close>

definition quietly ::
    "'w vault \<Rightarrow> ('a \<Rightarrow> 'w vault \<Rightarrow> bool) \<Rightarrow> (vault_error, 'a, 'w vault) outcome \<Rightarrow> bool" where
  "quietly s0 Q m \<longleftrightarrow> outcome (\<lambda>x t. data_kept s0 t \<and> Q x t) (\<lambda>_ t. data_kept s0 t) m"

lemma quietlyI: "data_kept s0 s \<Longrightarrow> data_kept s (snd m) \<Longrightarrow> quietly s0 (\<lambda>_ _. True) m"
  by (cases m; cases "fst m") (auto simp: quietly_def dest: data_kept_trans)

lemma quietly_bind:
  assumes "quietly s0 Q m" and "\<And>x t. data_kept s0 t \<Longrightarrow> Q x t \<Longrightarrow> outcome P E (f x t)"
    and "\<And>e t. data_kept s0 t \<Longrightarrow> E e t"
  shows "outcome P E (sbind m f)"
  using assms unfolding quietly_def
  by (auto intro!: outcome_sbindW [where R = "\<lambda>x t. data_kept s0 t \<and> Q x t" and F = "\<lambda>_ t. data_kept s0 t"]
      simp del: outcome_sbind)

lemma quietly_mono: "quietly s0 Q m \<Longrightarrow> (\<And>x t. data_kept s0 t \<Longrightarrow> Q x t \<Longrightarrow> Q' x t) \<Longrightarrow> quietly s0 Q' m"
  unfolding quietly_def by (erule outcome_mono) auto

text \<open>The access to the unlocked Vault finds the data that were there.\<close>

lemma quietly_ok_or_unlocked:
  "data_kept s0 s \<Longrightarrow> quietly s0 (\<lambda>u t. vault_data_of s0 = Some (uv_data u) \<and> vt_unlocked t = Some u)
     (ok_or e (vt_unlocked s), s)"
  by (cases "vt_unlocked s") (auto simp: quietly_def dest: data_kept_unlocked)

lemma quietly_unlocked:
  "data_kept s0 s \<Longrightarrow> quietly s0 (\<lambda>u t. vault_data_of s0 = Some (uv_data u) \<and> vt_unlocked t = Some u)
     (unlocked_without_activity W s)"
  unfolding unlocked_without_activity_def Let_def
  by (rule quietly_ok_or_unlocked) (rule data_kept_trans [OF _ data_kept_expire])

lemma quietly_activity: "data_kept s0 s \<Longrightarrow> quietly s0 (\<lambda>_ _. True) (record_activity W s)"
  by (auto simp: quietly_def record_activity_def Let_def data_kept_def same_unlocked_def draw_time_def
      expire_if_needed_at_def split: prod.split option.split) blast

lemma quietly_for_activity:
  "data_kept s0 s \<Longrightarrow> quietly s0 (\<lambda>u t. vault_data_of s0 = Some (uv_data u) \<and> vt_unlocked t = Some u)
     (unlocked_mut_for_activity W s)"
  unfolding unlocked_mut_for_activity_def quietly_def
  by (rule quietly_bind [OF quietly_activity])
     (auto dest: quietly_ok_or_unlocked simp: quietly_def simp del: outcome_pure)

lemma quietly_reading: "data_kept s0 s \<Longrightarrow> quietly s0 (\<lambda>x t. \<exists>d. vault_data_of s0 = Some d \<and> f d = Inr x)
     (reading W f s)"
  unfolding reading_def quietly_def
  by (rule quietly_bind [OF quietly_unlocked]) (auto split: sum.split)

lemma quietly_world: "data_kept s0 s \<Longrightarrow> quietly s0 (\<lambda>_ _. True) (in_vault_world f g s)"
  by (rule quietlyI [OF _ data_kept_world])

lemma quietly_pure: "data_kept s0 s \<Longrightarrow> quietly s0 (\<lambda>x t. r = Inr x \<and> t = s) (r, s)"
  by (cases r) (auto simp: quietly_def)

lemma quietly_silo_by_id:
  "data_kept s0 s \<Longrightarrow> quietly s0 (\<lambda>x t. \<exists>d. vault_data_of s0 = Some d \<and> stored_silo silo_id d = Some x)
     (silo_by_id W silo_id s)"
  unfolding silo_by_id_def by (drule quietly_reading) (auto elim: quietly_mono)

lemma quietly_lease: "data_kept s0 s \<Longrightarrow> quietly s0 (\<lambda>_ _. True) (acquire_silo_profile_lease W silo_id s)"
  unfolding acquire_silo_profile_lease_def quietly_def
  by (rule quietly_bind [OF quietly_silo_by_id])
     (auto dest: quietly_world simp: quietly_def)

lemma quietly_create_directories:
  "data_kept s0 s \<Longrightarrow> quietly s0 (\<lambda>_ _. True) (create_directories W paths s)"
proof (induction paths arbitrary: s)
  case (Cons path paths)
  then show ?case
    unfolding create_directories.simps quietly_def
    by (intro quietly_bind [OF quietly_world]) (auto simp: quietly_def)
qed (simp add: quietly_def)

text \<open>Draws from the world.\<close>

lemma data_kept_draw_uuid: "data_kept s0 s \<Longrightarrow> draw_uuid W s = (u, t) \<Longrightarrow> data_kept s0 t"
  using data_kept_draws(2) [of s W] by (auto dest: data_kept_trans)

lemma data_kept_draw_time: "data_kept s0 s \<Longrightarrow> draw_time W s = (u, t) \<Longrightarrow> data_kept s0 t"
  using data_kept_draws(1) [of s W] by (auto dest: data_kept_trans)

lemma data_kept_draw_bytes: "data_kept s0 s \<Longrightarrow> draw_bytes W n s = (b, t) \<Longrightarrow> data_kept s0 t"
  using data_kept_draws(3) [of s W n] by (auto dest: data_kept_trans)

lemmas data_kept_draw = data_kept_draw_uuid data_kept_draw_time data_kept_draw_bytes

section \<open>Writing the file\<close>

text \<open>
  The file that a later start finds in a directory, after \<open>recover_interrupted_write\<close>; and the
  directories that there have been, or that a crash may expose.
\<close>

definition vault_file :: "dir \<Rightarrow> stored_file option" where
  "vault_file dir = (case dir StateFile of Some file \<Rightarrow> Some file | None \<Rightarrow> dir BackupFile)"

definition shown :: "'w vault \<Rightarrow> dir set" where
  "shown s = insert (dk_now (vt_disk s)) (set (dk_images (vt_disk s)) \<union> set (dk_history (vt_disk s)))"

text \<open>Since \<open>s\<close>, every file that has been shown was shown before or satisfies \<open>N\<close>.\<close>

definition exposes :: "(stored_file option \<Rightarrow> bool) \<Rightarrow> 'w vault \<Rightarrow> 'w vault \<Rightarrow> bool" where
  "exposes N s t \<longleftrightarrow>
     (\<forall>dir \<in> shown t. vault_file dir \<in> vault_file ` shown s \<or> N (vault_file dir))"

lemma exposes_frame: "vt_disk t = vt_disk s \<Longrightarrow> exposes N s t"
  by (simp add: exposes_def shown_def)

lemma exposes_trans: "exposes N s t \<Longrightarrow> exposes N t u \<Longrightarrow> exposes N s u"
  unfolding exposes_def by force

lemma exposes_mono: "exposes N s t \<Longrightarrow> (\<And>file. N file \<Longrightarrow> N' file) \<Longrightarrow> exposes N' s t"
  by (auto simp: exposes_def)

lemmas vault_disk_defs =
  vault_atomic_write_def in_vault_disk_def fs_create_def fs_write_all_def fs_sync_file_def
  fs_rename_def fs_sync_dir_def fs_change_def Let_def

lemma vault_file_simps [simp]:
  "vault_file (dir(TmpFile := f)) = vault_file dir"
  "vault_file (dir(StateFile := Some file, TmpFile := f)) = Some file"
  "vault_file (dir(StateFile := Some file)) = Some file"
  by (simp_all add: vault_file_def split: option.split)

lemma atomic_write_outcome:
  "outcome (\<lambda>_ t. vt_unlocked t = vt_unlocked s
        \<and> (\<forall>dir \<in> set (dk_images (vt_disk t)). vault_file dir = Some (Stable contents)))
     (\<lambda>_ t. vt_unlocked t = vt_unlocked s) (vault_atomic_write contents s)"
  by (auto simp: vault_disk_defs outcome_def split: option.split)

lemma atomic_write_exposes:
  "exposes (\<lambda>file. file = Some (Stable contents)) s (snd (vault_atomic_write contents s))"
  by (auto simp: vault_disk_defs exposes_def shown_def split: option.split)

lemma atomic_write_steps:
  "outcome (\<lambda>_ t. vt_unlocked t = vt_unlocked s \<and> exposes (\<lambda>file. file = Some (Stable contents)) s t
        \<and> (\<forall>dir \<in> set (dk_images (vt_disk t)). vault_file dir = Some (Stable contents)))
     (\<lambda>_ t. vt_unlocked t = vt_unlocked s \<and> exposes (\<lambda>file. file = Some (Stable contents)) s t)
     (vault_atomic_write contents s)"
  using atomic_write_outcome [of s contents] atomic_write_exposes [of contents s]
  by (cases "vault_atomic_write contents s"; cases "fst (vault_atomic_write contents s)") auto

lemma recover_frame [simp]:
  "vt_unlocked (snd (vault_recover_interrupted_write s)) = vt_unlocked s"
  "vt_world (snd (vault_recover_interrupted_write s)) = vt_world s"
  by (simp_all add: vault_recover_interrupted_write_def in_vault_disk_def split: prod.split)

lemma recover_exposes: "exposes N s (snd (vault_recover_interrupted_write s))"
  by (auto simp: vault_recover_interrupted_write_def in_vault_disk_def fs_rename_def fs_remove_file_def
      fs_exists_def fs_change_def Let_def exposes_def shown_def vault_file_def split: option.splits)

section \<open>Persisting\<close>

definition envelope_of ::
    "vault_library \<Rightarrow> unlocked_vault \<Rightarrow> nat list \<Rightarrow> nat list \<Rightarrow> nat list \<Rightarrow> nat list \<Rightarrow> vault_envelope"
  where
  "envelope_of L u nonce ciphertext wrap_nonce wrapped_dek =
     \<lparr>ven_version = VAULT_ENVELOPE_VERSION, ven_kdf = ARGON2ID,
      ven_salt = vl_b64_encode L (uv_salt u), ven_wrap_nonce = Some (vl_b64_encode L wrap_nonce),
      ven_wrapped_dek = Some (vl_b64_encode L wrapped_dek), ven_nonce = vl_b64_encode L nonce,
      ven_ciphertext = vl_b64_encode L ciphertext\<rparr>"

definition drawn :: "'w vault_os \<Rightarrow> nat list \<Rightarrow> bool" where
  "drawn W nonce \<longleftrightarrow> (\<exists>w. nonce = fst (vo_random_bytes W 12 w))"

text \<open>The bytes of an envelope that holds the data under the keys of an unlocked Vault.\<close>

definition sealed ::
    "vault_library \<Rightarrow> 'w vault_os \<Rightarrow> unlocked_vault \<Rightarrow> vault_data \<Rightarrow> nat list \<Rightarrow> bool" where
  "sealed L W u data bytes \<longleftrightarrow>
     (\<exists>plaintext nonce ciphertext wrap_nonce wrapped_dek.
        vl_data_to_vec L data = Inr plaintext \<and> drawn W nonce \<and> drawn W wrap_nonce
        \<and> vl_encrypt L (uv_dek u) nonce plaintext = Some ciphertext
        \<and> vl_encrypt L (uv_kek u) wrap_nonce (uv_dek u) = Some wrapped_dek
        \<and> vl_envelope_to_vec L (envelope_of L u nonce ciphertext wrap_nonce wrapped_dek) = Inr bytes)"

definition holds_sealed ::
    "vault_library \<Rightarrow> 'w vault_os \<Rightarrow> unlocked_vault \<Rightarrow> vault_data \<Rightarrow> stored_file option \<Rightarrow> bool" where
  "holds_sealed L W u data file \<longleftrightarrow> (\<exists>bytes. file = Some (Stable bytes) \<and> sealed L W u data bytes)"

lemma drawn_draw: "drawn W (fst (draw_bytes W 12 s))"
  by (auto simp: drawn_def draw_bytes_def split: prod.split) (metis fst_conv)

lemma sealedI:
  assumes "vl_data_to_vec L data = Inr plaintext"
    and "vl_encrypt L (uv_dek u) (fst (draw_bytes W 12 s)) plaintext = Some ciphertext"
    and "vl_encrypt L (uv_kek u) (fst (draw_bytes W 12 t)) (uv_dek u) = Some wrapped_dek"
    and "vl_envelope_to_vec L (envelope_of L u (fst (draw_bytes W 12 s)) ciphertext
           (fst (draw_bytes W 12 t)) wrapped_dek) = Inr bytes"
  shows "sealed L W u data bytes"
  using assms drawn_draw unfolding sealed_def by blast

lemma sealed_updates [simp]:
  "sealed L W (u\<lparr>uv_data := d\<rparr>) = sealed L W u"
  "sealed L W (u\<lparr>uv_auto_lock_at := a\<rparr>) = sealed L W u"
  "holds_sealed L W (u\<lparr>uv_data := d\<rparr>) = holds_sealed L W u"
  "holds_sealed L W (u\<lparr>uv_auto_lock_at := a\<rparr>) = holds_sealed L W u"
  by (simp_all add: sealed_def holds_sealed_def envelope_of_def fun_eq_iff)

text \<open>The new contents that a write of \<open>data\<close> may show.\<close>

definition new_file :: "vault_library \<Rightarrow> 'w vault_os \<Rightarrow> 'w vault \<Rightarrow> vault_data \<Rightarrow> stored_file option \<Rightarrow> bool"
  where
  "new_file L W s data file \<longleftrightarrow> (\<exists>u. vt_unlocked s = Some u \<and> holds_sealed L W u data file)"

lemma persist_data_outcome:
  "outcome (\<lambda>_ t. vt_unlocked t = vt_unlocked s \<and> exposes (new_file L W s data) s t
        \<and> (\<forall>dir \<in> set (dk_images (vt_disk t)). new_file L W s data (vault_file dir)))
     (\<lambda>_ t. vt_unlocked t = vt_unlocked s \<and> exposes (new_file L W s data) s t)
     (vault_persist_data L W data s)"
proof -
  let ?N = "new_file L W s data"
  let ?Q = "\<lambda>_ t. vt_unlocked t = vt_unlocked s \<and> exposes ?N s t
        \<and> (\<forall>dir \<in> set (dk_images (vt_disk t)). ?N (vault_file dir))"
  let ?E = "\<lambda>_ t. vt_unlocked t = vt_unlocked s \<and> exposes ?N s t"
  have recovered: "outcome (\<lambda>_ t. vt_unlocked t = vt_unlocked s \<and> exposes ?N s t)
      (\<lambda>_ t. ?E () t) (vault_recover_interrupted_write s)"
    using recover_exposes [of ?N s] recover_frame(1) [of s]
    by (cases "vault_recover_interrupted_write s"; cases "fst (vault_recover_interrupted_write s)") auto
  have kept: "exposes ?N s t'" if "exposes ?N s t" "vt_disk t' = vt_disk t" for t t'
    using that by (auto simp: exposes_def shown_def)
  have wrote: "outcome ?Q ?E (vault_atomic_write bytes t')"
    if "exposes ?N s t" "vt_disk t' = vt_disk t" "vt_unlocked t' = vt_unlocked s" "vt_unlocked s = Some u"
      "sealed L W u data bytes" for t t' u bytes
  proof -
    have new: "?N (Some (Stable bytes))" using that by (auto simp: new_file_def holds_sealed_def)
    have "exposes ?N s v" if "exposes (\<lambda>file. file = Some (Stable bytes)) t' v" for v
      using exposes_mono [OF that, where N' = ?N] new kept [OF \<open>exposes ?N s t\<close> \<open>vt_disk t' = vt_disk t\<close>]
      by (auto intro: exposes_trans)
    then show ?thesis
      using that new by (auto intro!: outcome_mono [OF atomic_write_steps])
  qed
  show ?thesis
    unfolding vault_persist_data_def Let_def envelope_of_def [symmetric]
    apply (rule outcome_sbindW [OF recovered])
     apply (rule outcome_rules | simp only: split_def)+
           apply (elim conjE, erule wrote)
              apply (auto simp: map_err_def ok_or_def split: option.splits sum.splits
        intro: kept sealedI)
    done
qed

section \<open>Committing\<close>

lemma unlocked_outcome:
  "outcome (\<lambda>u t. vt_unlocked s = Some u \<and> vt_unlocked t = Some u \<and> vt_disk t = vt_disk s)
     (\<lambda>_ t. vt_unlocked t = None \<and> vt_disk t = vt_disk s) (unlocked_without_activity W s)"
  by (auto simp: unlocked_without_activity_def expire_if_needed_def expire_if_needed_at_def Let_def
      draw_time_def outcome_def split: prod.split option.split)

lemma replace_data_outcome:
  "outcome (\<lambda>_ t. \<exists>u. vt_unlocked s = Some u \<and> vt_unlocked t = Some (u\<lparr>uv_data := data\<rparr>)
        \<and> vt_disk t = vt_disk s)
     (\<lambda>_ t. vt_unlocked t = None \<and> vt_disk t = vt_disk s) (replace_data W data s)"
  unfolding replace_data_def by (rule outcome_sbindW [OF unlocked_outcome]) auto

text \<open>
  The data in memory changed by \<open>C\<close>, the keys as they were, and every directory that a crash may
  leave holding the new data; and the file that a crash may expose on the way.
\<close>

definition changed ::
    "vault_library \<Rightarrow> 'w vault_os \<Rightarrow> (vault_data \<Rightarrow> vault_data \<Rightarrow> bool) \<Rightarrow> 'w vault \<Rightarrow> 'w vault \<Rightarrow> bool"
  where
  "changed L W C s t \<longleftrightarrow>
     (\<exists>u d' a. vt_unlocked s = Some u \<and> C (uv_data u) d'
        \<and> vt_unlocked t = Some (u\<lparr>uv_data := d', uv_auto_lock_at := a\<rparr>)
        \<and> (\<forall>dir \<in> set (dk_images (vt_disk t)). holds_sealed L W u d' (vault_file dir)))"

definition changed_file ::
    "vault_library \<Rightarrow> 'w vault_os \<Rightarrow> (vault_data \<Rightarrow> vault_data \<Rightarrow> bool) \<Rightarrow> 'w vault
     \<Rightarrow> stored_file option \<Rightarrow> bool" where
  "changed_file L W C s file \<longleftrightarrow>
     (\<exists>u d'. vt_unlocked s = Some u \<and> C (uv_data u) d' \<and> holds_sealed L W u d' file)"

lemma changed_frame:
  "changed L W C s t \<Longrightarrow> vt_unlocked t' = vt_unlocked t \<Longrightarrow> vt_disk t' = vt_disk t \<Longrightarrow> changed L W C s t'"
  by (simp add: changed_def)

lemma exposes_kept: "exposes N s t \<Longrightarrow> vt_disk t' = vt_disk t \<Longrightarrow> exposes N s t'"
  by (simp add: exposes_def shown_def)

lemma commit_data_outcome:
  fixes s :: "'w vault"
  assumes "data_kept s0 s" and "vault_data_of s0 = Some d" and "C d data"
  shows "outcome (\<lambda>_ t. changed L W C s0 t \<and> vault_data_of t = Some data \<and> exposes (changed_file L W C s0) s0 t)
    (\<lambda>_ t. same_unlocked s0 t \<and> exposes (changed_file L W C s0) s0 t) (commit_data L W data s)"
proof -
  have shows_new: "changed_file L W C s0 f" if "new_file L W s data f" for f
    using that assms by (fastforce simp: new_file_def changed_file_def data_kept_def same_unlocked_def vault_data_of_def)
  have exposed: "exposes (changed_file L W C s0) s0 t'"
    if "exposes (new_file L W s data) s t" "vt_disk t' = vt_disk t" for t t' :: "'w vault"
    using that assms(1) shows_new by (auto simp: exposes_def shown_def data_kept_def)
  have new: "changed L W C s0 t'"
    if "\<forall>dir \<in> set (dk_images (vt_disk t)). new_file L W s data (vault_file dir)" "vt_disk t' = vt_disk t"
      "vt_unlocked s = Some u" "vt_unlocked t' = Some (u\<lparr>uv_data := data\<rparr>)" for t t' :: "'w vault" and u
  proof -
    note unlocked = that(3)
    obtain u0 a where "vt_unlocked s0 = Some u0" "u = u0\<lparr>uv_auto_lock_at := a\<rparr>" "uv_data u0 = d"
      using assms(1,2) unlocked by (auto simp: data_kept_def same_unlocked_def vault_data_of_def)
    then show ?thesis
      using that assms(3) unfolding changed_def new_file_def
      by (intro exI [of _ u0] exI [of _ data] exI [of _ a]) simp
  qed
  have locked: "same_unlocked s0 t'" if "vt_unlocked t' = None \<or> vt_unlocked t' = vt_unlocked s" for t'
    using that assms(1) by (auto simp: data_kept_def same_unlocked_def)
  show ?thesis
    unfolding commit_data_def
    apply (rule outcome_sbindW [OF persist_data_outcome])
     apply (rule outcome_mono [OF replace_data_outcome])
      apply (auto intro: exposed new locked simp: vault_data_of_def)
    done
qed

section \<open>The contract of an operation\<close>

text \<open>
  On success the data are as they were, or changed by \<open>C\<close> and in the file; on failure they are as
  they were. Either way the deadline may have locked the Vault, and no crash on the way can expose
  anything but the old file or the changed data.
\<close>

definition adopts ::
    "vault_library \<Rightarrow> 'w vault_os \<Rightarrow> (vault_data \<Rightarrow> vault_data \<Rightarrow> bool) \<Rightarrow> 'w vault \<Rightarrow> 'w vault \<Rightarrow> bool"
  where
  "adopts L W C s t \<longleftrightarrow>
     (same_unlocked s t \<or> changed L W C s t) \<and> exposes (changed_file L W C s) s t"

definition unadopted ::
    "vault_library \<Rightarrow> 'w vault_os \<Rightarrow> (vault_data \<Rightarrow> vault_data \<Rightarrow> bool) \<Rightarrow> 'w vault \<Rightarrow> 'w vault \<Rightarrow> bool"
  where
  "unadopted L W C s t \<longleftrightarrow> same_unlocked s t \<and> exposes (changed_file L W C s) s t"

definition transacts ::
    "vault_library \<Rightarrow> 'w vault_os \<Rightarrow> (vault_data \<Rightarrow> vault_data \<Rightarrow> bool) \<Rightarrow> 'w vault
     \<Rightarrow> (vault_error, 'a, 'w vault) outcome \<Rightarrow> bool" where
  "transacts L W C s m \<longleftrightarrow> outcome (\<lambda>_ t. adopts L W C s t) (\<lambda>_ t. unadopted L W C s t) m"

lemma unadopted_adopts: "unadopted L W C s t \<Longrightarrow> adopts L W C s t"
  by (simp add: adopts_def unadopted_def)

lemma data_kept_unadopted [simp, intro]: "data_kept s t \<Longrightarrow> unadopted L W C s t"
  by (simp add: unadopted_def data_kept_def exposes_frame)

text \<open>
  An operation that may still fail after its commit only promises that what it adopts is saved.
\<close>

locale vault_step =
  fixes L :: vault_library
    and W :: "'w vault_os"
    and perform :: "'w vault \<Rightarrow> (vault_error, 'a, 'w vault) outcome"
    and change :: "vault_data \<Rightarrow> vault_data \<Rightarrow> bool"
  assumes settles: "adopts L W change s (snd (perform s))"
begin

text \<open>What the change keeps of the data, the operation keeps, whether it succeeds or fails.\<close>

lemma relates:
  assumes "vault_data_of s = Some d" "vault_data_of (snd (perform s)) = Some d'"
  shows "d' = d \<or> change d d'"
  using settles [of s] assms by (auto simp: adopts_def changed_def vault_data_of_def dest: same_unlocked_data)

lemma keeps:
  assumes "vault_data_of s = Some d" "vault_data_of (snd (perform s)) = Some d'" "P d"
    and "change d d' \<Longrightarrow> P d \<Longrightarrow> P d'"
  shows "P d'"
  using relates [OF assms(1,2)] assms(3,4) by auto

lemma adopted_is_saved:
  assumes "vault_data_of (snd (perform s)) = Some d'" "vault_data_of s \<noteq> Some d'"
  shows "changed L W change s (snd (perform s))"
  using settles [of s] assms by (auto simp: adopts_def dest: same_unlocked_data)

lemma crash_atomic: "exposes (changed_file L W change s) s (snd (perform s))"
  using settles [of s] by (simp add: adopts_def)

lemma stays_locked: "vt_unlocked s = None \<Longrightarrow> vt_unlocked (snd (perform s)) = None"
  using settles [of s] by (auto simp: adopts_def changed_def same_unlocked_def)

end

locale vault_operation = vault_step +
  assumes failure_unadopted: "perform s = (Inl e, t) \<Longrightarrow> unadopted L W change s t"
begin

lemma failure_keeps_data:
  assumes "perform s = (Inl e, t)" "vault_data_of t = Some d'"
  shows "vault_data_of s = Some d'"
  using failure_unadopted [OF assms(1)] assms(2) by (auto simp: unadopted_def dest: same_unlocked_data)

end

lemma vault_operationI:
  assumes "\<And>s. transacts L W C s (perform s)"
  shows "vault_operation L W perform C"
proof
  fix s
  show "adopts L W C s (snd (perform s))"
    using assms [of s] by (cases "perform s"; cases "fst (perform s)")
      (auto simp: transacts_def intro: unadopted_adopts)
next
  fix s e t
  assume "perform s = (Inl e, t)"
  then show "unadopted L W C s t" using assms [of s] by (auto simp: transacts_def)
qed

end
