(* ===== verification/Vault_Behaviour.thy ===== *)
theory Vault_Behaviour
  imports Vault_Facts
begin

text \<open>
  The rules of the collection \<open>transacts_rules\<close>: along them a proof follows the steps of an operation
  of the Vault up to its commit.
\<close>

section \<open>Rules\<close>

named_theorems transacts_rules \<open>steps of an operation that transacts\<close>

lemma transacts_bind:
  assumes "quietly s0 Q m" and "\<And>x t. data_kept s0 t \<Longrightarrow> Q x t \<Longrightarrow> transacts L W C s0 (f x t)"
  shows "transacts L W C s0 (sbind m f)"
  using assms unfolding transacts_def by (auto intro!: quietly_bind simp del: outcome_sbind)

lemma transacts_fail [transacts_rules]: "data_kept s0 s \<Longrightarrow> transacts L W C s0 (Inl e, s)"
  by (auto simp: transacts_def)

lemma transacts_same [transacts_rules]: "data_kept s0 s \<Longrightarrow> transacts L W C s0 (Inr x, s)"
  by (auto simp: transacts_def intro: unadopted_adopts)

lemma transacts_pure [transacts_rules]:
  assumes "data_kept s0 s" and "\<And>x. r = Inr x \<Longrightarrow> transacts L W C s0 (f x s)"
  shows "transacts L W C s0 (sbind (r, s) f)"
  using assms by (cases r) (auto intro: transacts_fail)

lemma transacts_if [transacts_rules]:
  assumes "b \<Longrightarrow> transacts L W C s0 m" and "\<not> b \<Longrightarrow> transacts L W C s0 n"
  shows "transacts L W C s0 (if b then m else n)"
  using assms by simp

lemma transacts_option [transacts_rules]:
  assumes "v = None \<Longrightarrow> transacts L W C s0 m" and "\<And>x. v = Some x \<Longrightarrow> transacts L W C s0 (f x)"
  shows "transacts L W C s0 (case v of None \<Rightarrow> m | Some x \<Rightarrow> f x)"
  using assms by (cases v) auto

lemma transacts_let [transacts_rules]:
  "transacts L W C s0 (f x) \<Longrightarrow> transacts L W C s0 (let y = x in f y)"
  by simp

lemma transacts_draw_uuid [transacts_rules]:
  assumes "data_kept s0 s"
    and "\<And>u t. draw_uuid W s = (u, t) \<Longrightarrow> data_kept s0 t \<Longrightarrow> transacts L W C s0 (f u t)"
  shows "transacts L W C s0 (case draw_uuid W s of (u, t) \<Rightarrow> f u t)"
  by (cases "draw_uuid W s") (simp add: assms data_kept_draw_uuid [OF assms(1)])

lemma transacts_draw_time [transacts_rules]:
  assumes "data_kept s0 s"
    and "\<And>u t. draw_time W s = (u, t) \<Longrightarrow> data_kept s0 t \<Longrightarrow> transacts L W C s0 (f u t)"
  shows "transacts L W C s0 (case draw_time W s of (u, t) \<Rightarrow> f u t)"
  by (cases "draw_time W s") (simp add: assms data_kept_draw_time [OF assms(1)])

lemma transacts_draw_bytes [transacts_rules]:
  assumes "data_kept s0 s"
    and "\<And>u t. draw_bytes W n s = (u, t) \<Longrightarrow> data_kept s0 t \<Longrightarrow> transacts L W C s0 (f u t)"
  shows "transacts L W C s0 (case draw_bytes W n s of (u, t) \<Rightarrow> f u t)"
  by (cases "draw_bytes W n s") (simp add: assms data_kept_draw_bytes [OF assms(1)])

text \<open>An access to the unlocked Vault finds the data of the start.\<close>

lemma transacts_unlocked [transacts_rules]:
  assumes "data_kept s0 s"
    and "\<And>u t. \<lbrakk>data_kept s0 t; vault_data_of s0 = Some (uv_data u); vt_unlocked t = Some u\<rbrakk>
      \<Longrightarrow> transacts L W C s0 (f u t)"
  shows "transacts L W C s0 (sbind (unlocked_without_activity W s) f)"
    and "transacts L W C s0 (sbind (unlocked_mut_for_activity W s) f)"
  by (rule transacts_bind [OF quietly_unlocked] transacts_bind [OF quietly_for_activity],
      rule assms(1), auto intro: assms(2))+

lemma transacts_silo [transacts_rules]:
  assumes "data_kept s0 s"
    and "\<And>silo d t. \<lbrakk>data_kept s0 t; vault_data_of s0 = Some d; stored_silo silo_id d = Some silo\<rbrakk>
      \<Longrightarrow> transacts L W C s0 (f silo t)"
  shows "transacts L W C s0 (sbind (silo_by_id W silo_id s) f)"
  by (rule transacts_bind [OF quietly_silo_by_id], rule assms(1), auto intro: assms(2))

lemmas [transacts_rules] =
  transacts_bind [OF quietly_activity] transacts_bind [OF quietly_lease]
  transacts_bind [OF quietly_world] transacts_bind [OF quietly_create_directories]

text \<open>A step that is itself a sequence or a choice.\<close>

lemma transacts_assoc [transacts_rules]:
  "transacts L W C s0 (sbind m (\<lambda>x s. sbind (f x s) g)) \<Longrightarrow> transacts L W C s0 (sbind (sbind m f) g)"
  by (simp add: sbind_assoc)

lemma transacts_choice [transacts_rules]:
  assumes "v = None \<Longrightarrow> transacts L W C s0 (sbind m g)"
    and "\<And>x. v = Some x \<Longrightarrow> transacts L W C s0 (sbind (f x) g)"
  shows "transacts L W C s0 (sbind (case v of None \<Rightarrow> m | Some x \<Rightarrow> f x) g)"
  using assms by (cases v) auto

text \<open>The steps that end a change.\<close>

lemma adopts_frame:
  assumes "adopts L W C s0 t" "vt_unlocked u = vt_unlocked t" "vt_disk u = vt_disk t"
  shows "adopts L W C s0 u"
  using assms by (auto simp: adopts_def same_unlocked_def changed_def exposes_def shown_def)

lemma unadopted_frame:
  assumes "unadopted L W C s0 t" "same_unlocked t u" "vt_disk u = vt_disk t"
  shows "unadopted L W C s0 u"
  using assms by (auto simp: unadopted_def exposes_def shown_def intro: same_unlocked_trans)

lemma transacts_adopted [transacts_rules]: "adopts L W C s0 t \<Longrightarrow> transacts L W C s0 (Inr x, t)"
  by (simp add: transacts_def)

lemma transacts_commit [transacts_rules]:
  assumes "data_kept s0 s" and "vault_data_of s0 = Some d" and "C d d'"
    and "\<And>t. vault_data_of t = Some d' \<Longrightarrow> adopts L W C s0 t \<Longrightarrow> transacts L W C s0 (f () t)"
  shows "transacts L W C s0 (sbind (commit_data L W d' s) f)"
  unfolding transacts_def
  by (rule outcome_sbindW [OF commit_data_outcome [where C = C, OF assms(1-3)]])
     (auto simp: unadopted_def transacts_def [symmetric] intro!: assms(4), simp add: adopts_def)

lemma transacts_commit_last [transacts_rules]:
  assumes "data_kept s0 s" and "vault_data_of s0 = Some d" and "C d d'"
  shows "transacts L W C s0 (commit_data L W d' s)"
  unfolding transacts_def
  by (rule outcome_mono [OF commit_data_outcome [where C = C, OF assms]]) (auto simp: adopts_def unadopted_def)

lemma transacts_adopted_time [transacts_rules]:
  assumes "adopts L W C s0 s" and "\<And>now t. adopts L W C s0 t \<Longrightarrow> transacts L W C s0 (f now t)"
  shows "transacts L W C s0 (case draw_time W s of (now, t) \<Rightarrow> f now t)"
  using assms(2) adopts_frame [OF assms(1) draw_frame(5) draw_frame(6)]
  by (cases "draw_time W s") (metis (no_types, lifting) case_prod_conv snd_conv)

text \<open>A commit that undoes what it did outside the Vault when the file cannot be written.\<close>

lemma transacts_persist_or_undo [transacts_rules]:
  assumes "data_kept s0 s" and "vault_data_of s0 = Some d" and "C d d'"
    and "\<And>t. data_kept t (undo t)"
    and "\<And>t. vault_data_of t = Some d' \<Longrightarrow> adopts L W C s0 t \<Longrightarrow> transacts L W C s0 (f () t)"
  shows "transacts L W C s0 (case vault_persist_data L W d' s of
      (Inl error, s) \<Rightarrow> (Inl error, undo s)
    | (Inr _, s) \<Rightarrow> sbind (replace_data W d' s) f)"
proof -
  have "transacts L W C s0 (sbind (commit_data L W d' s) f)"
    using assms(1-3,5) by (rule transacts_commit)
  then show ?thesis
    using assms(4)
    by (cases "vault_persist_data L W d' s"; cases "fst (vault_persist_data L W d' s)")
       (auto simp: commit_data_def transacts_def data_kept_def intro: unadopted_frame)
qed

lemma transacts_draw_if [transacts_rules]:
  assumes "data_kept s0 s"
    and "\<And>now t. b \<Longrightarrow> data_kept s0 t \<Longrightarrow> transacts L W C s0 (f (Some now) t)"
    and "\<not> b \<Longrightarrow> transacts L W C s0 (f v s)"
  shows "transacts L W C s0 (case if b then (case draw_time W s of (now, s) \<Rightarrow> (Some now, s)) else (v, s)
    of (x, s) \<Rightarrow> f x s)"
  using assms data_kept_draw_time [OF assms(1)] by (auto split: prod.split)

lemma transacts_read_back:
  fixes t :: "'w vault"
  assumes "adopts L W C s0 t" "vault_data_of t = Some d'" "stored_silo silo_id d' \<noteq> None"
  shows "transacts L W C s0 (silo_by_id W silo_id t)"
  unfolding transacts_def silo_by_id_def reading_def
proof (rule outcome_sbindW [OF unlocked_outcome])
  fix u and v :: "'w vault"
  assume "vt_unlocked t = Some u \<and> vt_unlocked v = Some u \<and> vt_disk v = vt_disk t"
  with assms adopts_frame [OF assms(1), of v]
  show "outcome (\<lambda>_ t. adopts L W C s0 t) (\<lambda>_ t. unadopted L W C s0 t)
      (ok_or SiloNotFound (stored_silo silo_id (uv_data u)), v)"
    by (auto simp: vault_data_of_def)
qed (use assms(1) in \<open>auto simp: unadopted_def adopts_def same_unlocked_def exposes_def shown_def\<close>)

section \<open>Changes that leave the Silo in place\<close>

lemma change_first_find:
  assumes "change_first p f xs = Some ys" and "\<And>x. p (f x) = p x"
  shows "\<exists>x. find p xs = Some x \<and> find p ys = Some (f x)"
  using assms by (induction xs arbitrary: ys) (auto split: if_splits)

lemma change_first_other:
  assumes "change_first p f xs = Some ys" and "\<And>x. q (f x) = q x" and "\<And>x. p x \<Longrightarrow> \<not> q x"
  shows "find q ys = find q xs"
  using assms by (induction xs arbitrary: ys) (auto split: if_splits)

lemma change_silo_stored:
  assumes "change_silo silo_id f d = Inr d'" and "\<And>s. sil_id (f s) = sil_id s"
  shows "\<exists>s. stored_silo silo_id d = Some s \<and> stored_silo silo_id d' = Some (f s)"
  using assms change_first_find [where f = f and p = "\<lambda>s. sil_id s = silo_id"]
  by (fastforce simp: change_silo_def stored_silo_def)

lemma rename_metadata_simps [simp]:
  "sil_id (rename_metadata input s) = sil_id s"
  "sil_engine (rename_metadata input s) = sil_engine s"
  by (simp_all add: rename_metadata_def)

lemma remove_unreferenced_silos [simp]:
  "vd_silos (remove_unreferenced_secrets a b d) = vd_silos d"
  "vd_silos (remove_unreferenced_identity_artifact c d) = vd_silos d"
  "vd_silos (insert_secrets p d) = vd_silos d"
  "vd_silos (insert_artifact artifact d) = vd_silos d"
  by (auto simp: remove_unreferenced_secrets_def remove_unreferenced_identity_artifact_def
      insert_secrets_def insert_artifact_def Let_def split: option.split)

lemma stored_silo_cong: "vd_silos d = vd_silos d' \<Longrightarrow> stored_silo silo_id d = stored_silo silo_id d'"
  by (simp add: stored_silo_def)

lemma stored_silo_updates [simp]:
  "stored_silo silo_id (remove_unreferenced_secrets a b d) = stored_silo silo_id d"
  "stored_silo silo_id (remove_unreferenced_identity_artifact c d) = stored_silo silo_id d"
  "stored_silo silo_id (insert_secrets p d) = stored_silo silo_id d"
  "stored_silo silo_id (insert_artifact artifact d) = stored_silo silo_id d"
  "stored_silo silo_id (d\<lparr>vd_seed_material := seeds\<rparr>) = stored_silo silo_id d"
  by (simp_all add: stored_silo_def)

lemma bind_artifact_stored:
  assumes "bind_artifact silo_id artifact edit d = Inr d'" and "\<And>s. sil_id (edit s) = sil_id s"
  shows "\<exists>s. stored_silo silo_id d = Some s \<and> is_camoufox (sil_engine s)
    \<and> stored_silo silo_id d' = Some ((edit s)
        \<lparr>sil_engine := silo_engine_config.Camoufox None [] (Some (binding_of artifact))\<rparr>)"
  using assms change_silo_stored [where silo_id = silo_id and d = d and d' = d']
  unfolding bind_artifact_def by (fastforce split: if_splits)

lemma rename_optional_id [simp]: "sil_id (rename_optional metadata s) = sil_id s"
  by (simp add: rename_optional_def split: option.split)

lemma change_rebound_stored:
  assumes "change_rebound silo_id metadata prepared artifact current d = Inr d'"
  shows "stored_silo silo_id d' \<noteq> None"
  using assms bind_artifact_stored [where edit = "\<lambda>silo. (rename_optional metadata silo)
      \<lparr>sil_network_profile := pnw_profile prepared\<rparr>"]
  unfolding change_rebound_def by fastforce

text \<open>A change keeps the Silo that it is about among the stored ones.\<close>

definition keeps_silo :: "uuid \<Rightarrow> (vault_data \<Rightarrow> vault_error + vault_data) \<Rightarrow> bool" where
  "keeps_silo silo_id change \<longleftrightarrow> (\<forall>d d'. change d = Inr d' \<longrightarrow> stored_silo silo_id d' \<noteq> None)"

lemma transacts_commit_change [transacts_rules]:
  assumes "data_kept s0 s" and "\<And>d d'. vault_data_of s0 = Some d \<Longrightarrow> change d = Inr d' \<Longrightarrow> C d d'"
    and "keeps_silo silo_id change"
  shows "transacts L W C s0 (commit_change L W silo_id change s)"
  using assms(3) unfolding commit_change_def keeps_silo_def
  by (auto intro!: transacts_rules transacts_read_back assms(1,2))

lemma keeps_silo_change [transacts_rules]:
  assumes "\<And>s. sil_id (f s) = sil_id s"
  shows "keeps_silo silo_id (change_silo silo_id f)"
  using change_silo_stored assms unfolding keeps_silo_def by fastforce

lemma keeps_silo_network [transacts_rules]: "keeps_silo silo_id (change_network silo_id prepared)"
  unfolding keeps_silo_def change_network_def
  using change_silo_stored [of silo_id "\<lambda>silo. silo\<lparr>sil_network_profile := pnw_profile prepared\<rparr>"]
  by (fastforce simp: stored_silo_cong [OF remove_unreferenced_silos(1)]
      stored_silo_cong [OF remove_unreferenced_silos(3)])

section \<open>Preparing secrets\<close>

text \<open>What \<open>prepare_network\<close> makes of a profile and its new secrets, with the references it drew.\<close>

definition prepares ::
    "network_profile \<Rightarrow> proxy_credentials_input option \<Rightarrow> str option \<Rightarrow> prepared_network \<Rightarrow> bool" where
  "prepares profile credentials secret prepared \<longleftrightarrow>
     (\<exists>profile'.
        (case credentials of
           None \<Rightarrow> profile' = profile \<and> pnw_proxy prepared = None
         | Some c \<Rightarrow> (\<exists>reference. set_credential_reference reference profile = Some profile'
             \<and> pnw_proxy prepared = Some (reference,
                 \<lparr>spc_username = pci_username c, spc_password = pci_password c\<rparr>)))
        \<and> (case secret of
             None \<Rightarrow> pnw_profile prepared = profile' \<and> pnw_mihomo prepared = None
           | Some text \<Rightarrow> (\<exists>reference.
               set_mihomo_controller_secret_reference reference profile' = Some (pnw_profile prepared)
               \<and> pnw_mihomo prepared = Some (reference, text))))"

lemma quietly_bindQ:
  assumes "quietly s0 Q m" and "\<And>x t. data_kept s0 t \<Longrightarrow> Q x t \<Longrightarrow> quietly s0 P (f x t)"
  shows "quietly s0 P (sbind m f)"
  using assms unfolding quietly_def by (auto intro!: quietly_bind simp: quietly_def simp del: outcome_sbind)

lemma quietly_prepare:
  fixes s :: "'w vault"
  assumes "data_kept s0 s"
  shows "quietly s0 (\<lambda>prepared _. prepares profile credentials secret prepared)
    (prepare_network W profile credentials secret s)"
  unfolding prepare_network_def
proof (rule quietly_bindQ [where Q = "\<lambda>(profile', proxy) _. case credentials of
      None \<Rightarrow> profile' = profile \<and> proxy = None
    | Some c \<Rightarrow> (\<exists>reference. set_credential_reference reference profile = Some profile'
        \<and> proxy = Some (reference,
            \<lparr>spc_username = pci_username c, spc_password = pci_password c\<rparr>))"], goal_cases)
  case 1
  then show ?case
    using assms data_kept_draw_uuid [OF assms]
    by (auto simp: quietly_def ok_or_def split: option.split prod.split)
next
  case (2 x t)
  then show ?case
    using data_kept_draw_uuid [of s0 t]
    by (cases x) (auto simp: quietly_def ok_or_def prepares_def split: option.splits prod.split)
qed

lemmas [transacts_rules] = transacts_bind [OF quietly_prepare]

section \<open>Other steps\<close>

text \<open>A browser descriptor that an inspection returned.\<close>

definition inspects :: "'w vault_os \<Rightarrow> browser_kind \<Rightarrow> str \<Rightarrow> browser_descriptor \<Rightarrow> bool" where
  "inspects W kind path browser \<longleftrightarrow>
     (\<exists>w inspection w'. vo_inspect_browser W kind path w = (Inr inspection, w')
        \<and> browser = \<lparr>brd_kind = kind, brd_executable_path = bri_resolved_path inspection,
                     brd_version = Some (bri_version inspection)\<rparr>)"

lemma quietly_inspected:
  "data_kept s0 s \<Longrightarrow> quietly s0 (\<lambda>browser _. inspects W kind path browser) (inspected_browser W kind path s)"
  by (cases "vo_inspect_browser W kind path (vt_world s)"; cases "fst (vo_inspect_browser W kind path (vt_world s))")
     (auto simp: quietly_def inspected_browser_def in_vault_world_def inspects_def data_kept_def same_unlocked_def)

lemma quietly_inspection:
  "data_kept s0 s \<Longrightarrow> quietly s0 (\<lambda>inspection _. inspects W kind path
     \<lparr>brd_kind = kind, brd_executable_path = bri_resolved_path inspection,
      brd_version = Some (bri_version inspection)\<rparr>)
     (in_vault_world (vo_inspect_browser W kind path) e s)"
  by (cases "vo_inspect_browser W kind path (vt_world s)"; cases "fst (vo_inspect_browser W kind path (vt_world s))")
     (auto simp: quietly_def in_vault_world_def inspects_def data_kept_def same_unlocked_def)

lemmas transacts_inspection = transacts_bind [OF quietly_inspection]

definition updates_browser ::
    "'w vault_os \<Rightarrow> silo \<Rightarrow> update_silo_input \<Rightarrow> browser_descriptor option \<Rightarrow> bool" where
  "updates_browser W current input browser \<longleftrightarrow>
     (if is_local (sil_execution_target current)
      then (\<exists>b. browser = Some b \<and> inspects W (usi_browser_kind input) (usi_executable_path input) b)
      else browser = sil_browser current)"

lemma quietly_updated_browser:
  "data_kept s0 s \<Longrightarrow> quietly s0 (\<lambda>browser _. updates_browser W current input browser)
     (updated_browser W current input s)"
  unfolding updated_browser_def updates_browser_def
  by (auto intro!: quietly_bindQ [OF quietly_inspected]) (auto simp: quietly_def)

definition new_browser :: "'w vault_os \<Rightarrow> create_silo_input \<Rightarrow> browser_descriptor \<Rightarrow> bool" where
  "new_browser W input browser \<longleftrightarrow>
     (case csi_execution_target input of
        Local \<Rightarrow> inspects W (csi_browser_kind input) (csi_executable_path input) browser
      | Wsl _ \<Rightarrow> browser = WSL_BROWSER
      | Remote _ \<Rightarrow> False)"

lemma quietly_browser_of_new:
  "data_kept s0 s \<Longrightarrow> quietly s0 (\<lambda>browser _. new_browser W input browser) (browser_of_new_silo W input s)"
  unfolding browser_of_new_silo_def new_browser_def
  by (cases "csi_execution_target input") (auto dest: quietly_inspected simp: quietly_def)

text \<open>The record that stands for an Artifact id: the stored one, when there is one.\<close>

definition first_written ::
    "vault_library \<Rightarrow> vault_data \<Rightarrow> stored_identity_artifact \<Rightarrow> stored_identity_artifact \<Rightarrow> bool" where
  "first_written L d artifact kept \<longleftrightarrow>
     (case map_of (vd_identity_artifacts d) (sia_artifact_id artifact) of
        None \<Rightarrow> kept = artifact
      | Some existing \<Rightarrow> kept = existing \<and> sia_schema existing = sia_schema artifact
          \<and> validate_identity_artifact_record L (sia_artifact_id existing) existing = Inr ())"

lemma quietly_first_writer:
  "data_kept s0 s \<Longrightarrow> quietly s0 (\<lambda>kept _. \<exists>d. vault_data_of s0 = Some d \<and> first_written L d artifact kept)
     (first_writer L W artifact s)"
  unfolding first_writer_def
  by (rule quietly_bindQ [OF quietly_unlocked])
     (auto simp: quietly_def first_written_def split: option.split sum.split)

lemma quietly_verified:
  "data_kept s0 s \<Longrightarrow> quietly s0 (\<lambda>_ _. True) (verified_silo_profile_directory W base silo_id s)"
  unfolding verified_silo_profile_directory_def silo_profile_directory_def
  by (rule quietly_bindQ [OF quietly_reading]) (auto simp: quietly_def split: sum.split)

lemma quietly_quarantine: "data_kept s0 s \<Longrightarrow> quietly s0 (\<lambda>_ _. True) (quarantine W directory target s)"
  unfolding quarantine_def
  by (auto intro!: quietly_bindQ [OF quietly_world] simp: quietly_def [of s0 _ "(_, _)"]
      split: path_kind.split)

lemma data_kept_browser_lock:
  assumes "data_kept s0 s" "silo_has_browser_lock W silo_id s = (b, t)"
  shows "data_kept s0 t"
  using quietly_lease [OF assms(1), of W silo_id] assms(2)
  by (cases "acquire_silo_profile_lease W silo_id s"; cases "fst (acquire_silo_profile_lease W silo_id s)")
     (auto simp: silo_has_browser_lock_def quietly_def)

lemmas [transacts_rules] =
  transacts_bind [OF quietly_updated_browser] transacts_bind [OF quietly_browser_of_new]
  transacts_bind [OF quietly_first_writer] transacts_bind [OF quietly_verified]
  transacts_bind [OF quietly_quarantine]

lemma transacts_browser_lock [transacts_rules]:
  assumes "data_kept s0 s" and "\<And>b t. data_kept s0 t \<Longrightarrow> transacts L W C s0 (f b t)"
  shows "transacts L W C s0 (case silo_has_browser_lock W silo_id s of (b, t) \<Rightarrow> f b t)"
  by (cases "silo_has_browser_lock W silo_id s") (simp add: assms data_kept_browser_lock [OF assms(1)])

end
