(* ===== verification/Vault_Contracts.thy ===== *)
theory Vault_Contracts
  imports Vault_Behaviour
begin

text \<open>
  The abstract specification of the Vault's operations: for each, the relation between the data
  before and after, with the checks that have passed. The operations of the code keep the contract
  \<open>vault_operation\<close> with it (one interpretation each): they read and check, and then make exactly this
  change in the file and in memory, or none.
\<close>

section \<open>Changes of a Silo\<close>

lemma domain_refusal_Inr_iff [simp]: "domain_refusal r = Inr x \<longleftrightarrow> r = Inr x"
  by (simp add: domain_refusal_def)

definition chg_mark_locked :: "uuid \<Rightarrow> vault_data \<Rightarrow> vault_data \<Rightarrow> bool" where
  "chg_mark_locked silo_id d d' \<longleftrightarrow>
     (\<exists>current locked_at. stored_silo silo_id d = Some current \<and> sil_identity_locked_at current = None
        \<and> change_silo silo_id (\<lambda>s. s\<lparr>sil_identity_locked_at := Some locked_at\<rparr>) d = Inr d')"

definition chg_metadata :: "uuid \<Rightarrow> update_silo_input \<Rightarrow> vault_data \<Rightarrow> vault_data \<Rightarrow> bool" where
  "chg_metadata silo_id input d d' \<longleftrightarrow>
     validate_managed_metadata input = Inr () \<and> change_silo silo_id (rename_metadata input) d = Inr d'"

definition checked_update ::
    "vault_library \<Rightarrow> 'w vault_os \<Rightarrow> silo \<Rightarrow> update_silo_input \<Rightarrow> silo_engine_config option
     \<Rightarrow> browser_descriptor option \<Rightarrow> bool" where
  "checked_update L W current input engine browser \<longleftrightarrow>
     is_stock (sil_engine current)
     \<and> (\<exists>is_file. update_silo_validate_for_target is_file (sil_execution_target current) input = Inr ())
     \<and> ensure_non_local_metadata_only current input = Inr ()
     \<and> ensure_identity_update_allowed L current (usi_browser_kind input) engine = Inr ()
     \<and> updates_browser W current input browser"

definition chg_update_silo ::
    "vault_library \<Rightarrow> 'w vault_os \<Rightarrow> uuid \<Rightarrow> update_silo_input \<Rightarrow> vault_data \<Rightarrow> vault_data \<Rightarrow> bool" where
  "chg_update_silo L W silo_id input d d' \<longleftrightarrow>
     chg_metadata silo_id input d d'
     \<or> (\<exists>current browser. stored_silo silo_id d = Some current
          \<and> checked_update L W current input None browser
          \<and> change_silo silo_id (\<lambda>s. (rename_metadata input s)\<lparr>sil_browser := browser\<rparr>) d = Inr d')"

text \<open>The checks of a new network and a new engine of a stock Silo, with what becomes effective.\<close>

definition checked_network ::
    "vault_library \<Rightarrow> silo \<Rightarrow> update_silo_network_input option \<Rightarrow> prepared_network option \<Rightarrow> bool" where
  "checked_network L current input prepared \<longleftrightarrow>
     (case input of
        None \<Rightarrow> prepared = None
      | Some network \<Rightarrow>
          network_input_validate_for_target (vl_parse_url L) (sil_execution_target current) network = Inr ()
          \<and> (\<exists>p. prepared = Some p \<and> prepares (uni_network_profile network)
                 (uni_proxy_credentials network) (uni_mihomo_controller_secret network) p))"

definition checked_engine ::
    "silo \<Rightarrow> update_silo_network_input option \<Rightarrow> silo_engine_config option \<Rightarrow> bool" where
  "checked_engine current network engine \<longleftrightarrow>
     (let effective = (case network of None \<Rightarrow> sil_network_profile current
            | Some network \<Rightarrow> uni_network_profile network) in
      case engine of
        Some engine \<Rightarrow> is_local (sil_execution_target current)
          \<and> validate_engine_configuration engine effective = Inr ()
      | None \<Rightarrow> network = None \<or> validate_engine_configuration (sil_engine current) effective = Inr ())"

definition chg_configuration ::
    "vault_library \<Rightarrow> 'w vault_os \<Rightarrow> uuid \<Rightarrow> update_silo_input \<Rightarrow> update_silo_network_input option
     \<Rightarrow> silo_engine_config option \<Rightarrow> vault_data \<Rightarrow> vault_data \<Rightarrow> bool" where
  "chg_configuration L W silo_id input network engine d d' \<longleftrightarrow>
     chg_metadata silo_id input d d'
     \<or> (\<exists>current browser prepared. stored_silo silo_id d = Some current
          \<and> checked_update L W current input engine browser
          \<and> checked_network L current network prepared \<and> checked_engine current network engine
          \<and> change_configuration silo_id input browser engine prepared d = Inr d')"

definition chg_recheck :: "'w vault_os \<Rightarrow> uuid \<Rightarrow> vault_data \<Rightarrow> vault_data \<Rightarrow> bool" where
  "chg_recheck W silo_id d d' \<longleftrightarrow>
     (\<exists>current old new. stored_silo silo_id d = Some current \<and> is_local (sil_execution_target current)
        \<and> sil_browser current = Some old
        \<and> inspects W (brd_kind old) (brd_executable_path old) new
        \<and> brd_executable_path new = brd_executable_path old
        \<and> set_browser_version (the (brd_version new)) silo_id d = Inr d')"

definition chg_rename :: "uuid \<Rightarrow> str \<Rightarrow> vault_data \<Rightarrow> vault_data \<Rightarrow> bool" where
  "chg_rename silo_id name d d' \<longleftrightarrow>
     validate_silo_name name = Inr ()
     \<and> change_silo silo_id (\<lambda>s. s\<lparr>sil_name := str_trim name\<rparr>) d = Inr d'"

definition chg_network ::
    "vault_library \<Rightarrow> uuid \<Rightarrow> update_silo_network_input \<Rightarrow> vault_data \<Rightarrow> vault_data \<Rightarrow> bool" where
  "chg_network L silo_id input d d' \<longleftrightarrow>
     (\<exists>current prepared. stored_silo silo_id d = Some current \<and> is_stock (sil_engine current)
        \<and> checked_network L current (Some input) (Some prepared)
        \<and> checked_engine current (Some input) None
        \<and> change_network silo_id prepared d = Inr d')"

definition chg_engine ::
    "vault_library \<Rightarrow> uuid \<Rightarrow> silo_engine_config \<Rightarrow> vault_data \<Rightarrow> vault_data \<Rightarrow> bool" where
  "chg_engine L silo_id engine d d' \<longleftrightarrow>
     (\<exists>current. stored_silo silo_id d = Some current \<and> is_stock (sil_engine current)
        \<and> is_local (sil_execution_target current)
        \<and> ensure_identity_update_allowed L current (browser_kind_or_chrome current) (Some engine) = Inr ()
        \<and> checked_engine current None (Some engine)
        \<and> change_silo silo_id (\<lambda>s. s\<lparr>sil_engine := engine\<rparr>) d = Inr d')"

definition chg_archive :: "uuid \<Rightarrow> vault_data \<Rightarrow> vault_data \<Rightarrow> bool" where
  "chg_archive silo_id d d' \<longleftrightarrow>
     (\<exists>archived_at. change_silo silo_id (\<lambda>s. s\<lparr>sil_archived_at := archived_at\<rparr>) d = Inr d')"

definition chg_delete :: "uuid \<Rightarrow> vault_data \<Rightarrow> vault_data \<Rightarrow> bool" where
  "chg_delete silo_id d d' \<longleftrightarrow>
     \<not> list_ex (\<lambda>binding. sb_silo_id binding = silo_id)
        (rs_bindings (rvs_backend (vd_remote_control_plane d)))
     \<and> remove_silo silo_id d = Inr d'"

section \<open>Additions\<close>

definition add_silo :: "silo \<Rightarrow> str \<Rightarrow> prepared_network \<Rightarrow> vault_data \<Rightarrow> vault_data" where
  "add_silo silo seed prepared d =
     (let d = insert_secrets prepared d in
      d\<lparr>vd_seed_material := AList.update (sil_seed_reference silo) seed (vd_seed_material d),
        vd_silos := vd_silos d @ [silo]\<rparr>)"

text \<open>The Silo that a creation adds, under the identities and at the time that it drew.\<close>

definition new_silo ::
    "str \<Rightarrow> create_silo_input \<Rightarrow> browser_descriptor \<Rightarrow> prepared_network \<Rightarrow> uuid \<Rightarrow> uuid \<Rightarrow> time \<Rightarrow> silo"
  where
  "new_silo base input browser prepared silo_id seed_reference now =
     \<lparr>sil_id = silo_id, sil_schema_version = SILO_SCHEMA_VERSION,
      sil_name = str_trim (csi_name input), sil_color = csi_color input,
      sil_browser = Some browser, sil_execution_target = csi_execution_target input,
      sil_profile_directory = managed_profile_directory base silo_id,
      sil_network_profile = pnw_profile prepared, sil_engine = csi_engine input,
      sil_seed_reference = seed_reference, sil_created_at = now,
      sil_identity_locked_at = None, sil_archived_at = None\<rparr>"

definition new_managed_silo ::
    "str \<Rightarrow> create_managed_silo_input \<Rightarrow> stored_identity_artifact \<Rightarrow> prepared_network \<Rightarrow> uuid \<Rightarrow> uuid
     \<Rightarrow> time \<Rightarrow> silo" where
  "new_managed_silo base input kept prepared silo_id seed_reference now =
     \<lparr>sil_id = silo_id, sil_schema_version = SILO_SCHEMA_VERSION,
      sil_name = str_trim (cmi_name input), sil_color = cmi_color input,
      sil_browser = None, sil_execution_target = Local,
      sil_profile_directory = managed_profile_directory base silo_id,
      sil_network_profile = pnw_profile prepared,
      sil_engine = silo_engine_config.Camoufox None [] (Some (binding_of kept)),
      sil_seed_reference = seed_reference, sil_created_at = now,
      sil_identity_locked_at = None, sil_archived_at = None\<rparr>"

definition chg_create ::
    "vault_library \<Rightarrow> 'w vault_os \<Rightarrow> str \<Rightarrow> create_silo_input \<Rightarrow> vault_data \<Rightarrow> vault_data \<Rightarrow> bool" where
  "chg_create L W base input d d' \<longleftrightarrow>
     (\<exists>is_file browser prepared silo_id seed_reference now seed.
        create_silo_validate (vl_parse_url L) is_file input = Inr ()
        \<and> new_browser W input browser
        \<and> prepares (csi_network_profile input) (csi_proxy_credentials input)
            (csi_mihomo_controller_secret input) prepared
        \<and> (\<exists>w. seed = fst (vo_random_bytes W 32 w)) \<and> (\<exists>w. seed_reference = fst (vo_new_v4 W w))
        \<and> d' = add_silo (new_silo base input browser prepared silo_id seed_reference now)
                 (vl_b64_encode L seed) prepared d)"

definition chg_create_managed ::
    "vault_library \<Rightarrow> 'w vault_os \<Rightarrow> str \<Rightarrow> create_managed_silo_input \<Rightarrow> stored_identity_artifact
     \<Rightarrow> nat list \<Rightarrow> vault_data \<Rightarrow> vault_data \<Rightarrow> bool" where
  "chg_create_managed L W base input artifact seed d d' \<longleftrightarrow>
     (\<exists>kept prepared silo_id seed_reference now.
        create_managed_silo_validate (vl_parse_url L) input = Inr ()
        \<and> validate_identity_artifact_record L (sia_artifact_id artifact) artifact = Inr ()
        \<and> sia_schema artifact = expected_artifact_schema (cmi_network_profile input)
        \<and> first_written L d artifact kept
        \<and> prepares (cmi_network_profile input) (cmi_proxy_credentials input)
            (cmi_mihomo_controller_secret input) prepared
        \<and> (\<exists>w. seed_reference = fst (vo_new_v4 W w))
        \<and> d' = insert_artifact kept
                 (add_silo (new_managed_silo base input kept prepared silo_id seed_reference now)
                   (vl_b64_encode L seed) prepared d))"

text \<open>The data that the operations build are those that the specification names.\<close>

lemma add_new_silo:
  "insert_secrets prepared d
     \<lparr>vd_seed_material := AList.update seed_reference seed (vd_seed_material (insert_secrets prepared d)),
      vd_silos := vd_silos (insert_secrets prepared d) @
        [\<lparr>sil_id = silo_id, sil_schema_version = SILO_SCHEMA_VERSION,
         sil_name = str_trim (csi_name input), sil_color = csi_color input,
         sil_browser = Some browser, sil_execution_target = csi_execution_target input,
         sil_profile_directory = managed_profile_directory base silo_id,
         sil_network_profile = pnw_profile prepared, sil_engine = csi_engine input,
         sil_seed_reference = seed_reference, sil_created_at = now,
         sil_identity_locked_at = None, sil_archived_at = None\<rparr>]\<rparr> =
   add_silo (new_silo base input browser prepared silo_id seed_reference now) seed prepared d"
  by (simp add: add_silo_def new_silo_def Let_def)

lemma add_new_managed_silo:
  "insert_secrets prepared d
     \<lparr>vd_seed_material := AList.update seed_reference seed (vd_seed_material (insert_secrets prepared d)),
      vd_identity_artifacts := AList.update (sia_artifact_id kept) kept
        (vd_identity_artifacts (insert_secrets prepared d)),
      vd_silos := vd_silos (insert_secrets prepared d) @
        [\<lparr>sil_id = silo_id, sil_schema_version = SILO_SCHEMA_VERSION,
         sil_name = str_trim (cmi_name input), sil_color = cmi_color input,
         sil_browser = None, sil_execution_target = Local,
         sil_profile_directory = managed_profile_directory base silo_id,
         sil_network_profile = pnw_profile prepared,
         sil_engine = silo_engine_config.Camoufox None [] (Some (binding_of kept)),
         sil_seed_reference = seed_reference, sil_created_at = now,
         sil_identity_locked_at = None, sil_archived_at = None\<rparr>]\<rparr> =
   insert_artifact kept
     (add_silo (new_managed_silo base input kept prepared silo_id seed_reference now) seed prepared d)"
  by (simp add: add_silo_def new_managed_silo_def insert_artifact_def Let_def)

lemma drawn_uuid: "draw_uuid W s = (u, t) \<Longrightarrow> \<exists>w. u = fst (vo_new_v4 W w)"
  by (auto simp: draw_uuid_def split: prod.splits) (metis fst_conv)

lemma chg_createI:
  assumes "create_silo_validate (vl_parse_url L) is_file input = Inr ()"
    and "new_browser W input browser"
    and "prepares (csi_network_profile input) (csi_proxy_credentials input)
      (csi_mihomo_controller_secret input) prepared"
    and "draw_bytes W 32 s = (seed, t)" and "draw_uuid W s' = (seed_reference, t')"
  shows "chg_create L W base input d
    (add_silo (new_silo base input browser prepared silo_id seed_reference now)
      (vl_b64_encode L seed) prepared d)"
proof -
  have "seed = fst (vo_random_bytes W 32 (vt_world s))"
    using assms(4) by (auto simp: draw_bytes_def split: prod.splits)
  with assms(1-3) drawn_uuid [OF assms(5)] show ?thesis
    unfolding chg_create_def by blast
qed

lemma chg_create_managedI:
  assumes "create_managed_silo_validate (vl_parse_url L) input = Inr ()"
    and "validate_identity_artifact_record L (sia_artifact_id artifact) artifact = Inr ()"
    and "sia_schema artifact = expected_artifact_schema (cmi_network_profile input)"
    and "first_written L d artifact kept"
    and "prepares (cmi_network_profile input) (cmi_proxy_credentials input)
      (cmi_mihomo_controller_secret input) prepared"
    and "draw_uuid W s = (seed_reference, t)"
  shows "chg_create_managed L W base input artifact seed d
    (insert_artifact kept
      (add_silo (new_managed_silo base input kept prepared silo_id seed_reference now)
        (vl_b64_encode L seed) prepared d))"
  using assms(1-5) drawn_uuid [OF assms(6)] unfolding chg_create_managed_def by blast

section \<open>Managed identities\<close>

definition chg_replace_identity ::
    "vault_library \<Rightarrow> uuid \<Rightarrow> stored_identity_artifact \<Rightarrow> nat list option \<Rightarrow> vault_data \<Rightarrow> vault_data
     \<Rightarrow> bool" where
  "chg_replace_identity L silo_id artifact seed d d' \<longleftrightarrow>
     (\<exists>current old_binding kept bound.
        stored_silo silo_id d = Some current \<and> sil_identity_locked_at current = None
        \<and> camoufox_artifact_binding (sil_engine current) = Some old_binding
        \<and> validate_identity_artifact_record L (sia_artifact_id artifact) artifact = Inr ()
        \<and> sia_schema artifact = expected_artifact_schema (sil_network_profile current)
        \<and> first_written L d artifact kept
        \<and> bind_artifact silo_id kept (\<lambda>silo. silo) d = Inr bound
        \<and> d' = remove_unreferenced_identity_artifact (Some (cab_artifact_id old_binding))
                 (insert_artifact kept (case seed of None \<Rightarrow> bound
                    | Some seed \<Rightarrow> bound\<lparr>vd_seed_material := AList.update (sil_seed_reference current)
                        (vl_b64_encode L seed) (vd_seed_material bound)\<rparr>)))"

definition chg_rebind ::
    "vault_library \<Rightarrow> uuid \<Rightarrow> update_silo_input option \<Rightarrow> update_silo_network_input
     \<Rightarrow> stored_identity_artifact \<Rightarrow> vault_data \<Rightarrow> vault_data \<Rightarrow> bool" where
  "chg_rebind L silo_id metadata input artifact d d' \<longleftrightarrow>
     (\<exists>current kept prepared.
        stored_silo silo_id d = Some current
        \<and> camoufox_artifact_binding (sil_engine current) \<noteq> None
        \<and> (case metadata of None \<Rightarrow> True | Some metadata \<Rightarrow> validate_managed_metadata metadata = Inr ())
        \<and> network_input_validate_for_target (vl_parse_url L) (sil_execution_target current) input = Inr ()
        \<and> (is_managed_direct (uni_network_profile input) \<or> is_managed_proxy (uni_network_profile input))
        \<and> validate_identity_artifact_record L (sia_artifact_id artifact) artifact = Inr ()
        \<and> sia_schema artifact = expected_artifact_schema (uni_network_profile input)
        \<and> first_written L d artifact kept
        \<and> prepares (uni_network_profile input) (uni_proxy_credentials input)
            (uni_mihomo_controller_secret input) prepared
        \<and> change_rebound silo_id metadata prepared kept current d = Inr d')"

section \<open>Evidence, runs and the remote control plane\<close>

definition chg_import :: "network_evidence list \<Rightarrow> vault_data \<Rightarrow> vault_data \<Rightarrow> bool" where
  "chg_import entries d d' \<longleftrightarrow>
     (\<exists>fresh. new_evidence (map sil_id (vd_silos d)) (map nee_evidence_id (vd_network_evidence d))
          (map nee_request_id (vd_network_evidence d)) entries = Inr fresh
        \<and> d' = d\<lparr>vd_network_evidence := merge_evidence (vd_network_evidence d) fresh\<rparr>)"

definition chg_clear :: "uuid \<Rightarrow> vault_data \<Rightarrow> vault_data \<Rightarrow> bool" where
  "chg_clear silo_id d d' \<longleftrightarrow>
     silo_id \<in> set (map sil_id (vd_silos d))
     \<and> d' = d\<lparr>vd_network_evidence :=
               filter (\<lambda>entry. nee_silo_id entry \<noteq> silo_id) (vd_network_evidence d)\<rparr>"

definition chg_remote :: "vault_library \<Rightarrow> remote_vault_state \<Rightarrow> vault_data \<Rightarrow> vault_data \<Rightarrow> bool" where
  "chg_remote L remote d d' \<longleftrightarrow>
     d' = d\<lparr>vd_remote_control_plane := remote\<rparr> \<and> validate_remote_control_plane L d' = Inr ()"

definition initial_run :: "silo \<Rightarrow> engine_adapter_id \<Rightarrow> recent_run_record \<Rightarrow> bool" where
  "initial_run silo adapter record \<longleftrightarrow>
     record = \<lparr>rrr_silo_id = sil_id silo, rrr_run_id = rrr_run_id record, rrr_runtime_id = None,
       rrr_started_at = Some (rrr_updated_at record), rrr_updated_at = rrr_updated_at record,
       rrr_ended_at = None, rrr_profile_silo_id = sil_id silo,
       rrr_artifact_binding = camoufox_artifact_binding (sil_engine silo),
       rrr_engine_adapter = adapter,
       rrr_network_policy = recent_run_network_policy_from (sil_network_profile silo),
       rrr_state = Preflight, rrr_reason = None, rrr_identity_evidence = None,
       rrr_engine_evidence = None, rrr_network_evidence = None\<rparr>"

definition chg_begin_run :: "silo \<Rightarrow> vault_data \<Rightarrow> vault_data \<Rightarrow> bool" where
  "chg_begin_run silo d d' \<longleftrightarrow>
     is_local (sil_execution_target silo) \<and> sil_id silo \<in> set (map sil_id (vd_silos d))
     \<and> (\<exists>adapter record. silo_adapter_id silo = Some adapter \<and> initial_run silo adapter record
          \<and> d' = insert_recent_run record (sil_id silo) d)"

definition chg_update_run :: "uuid \<Rightarrow> runtime_activation \<Rightarrow> vault_data \<Rightarrow> vault_data \<Rightarrow> bool" where
  "chg_update_run silo_id activation d d' \<longleftrightarrow>
     rta_active_silo_id activation \<in> {None, Some silo_id}
     \<and> (\<exists>current identified now. map_of (vd_recent_runs d) silo_id = Some current
          \<and> identified = current\<lparr>rrr_runtime_id :=
              or_else (rrr_runtime_id current) (evidence_runtime_id activation)\<rparr>
          \<and> (rrr_runtime_id current = None \<or> evidence_runtime_id activation = None
             \<or> rrr_runtime_id current = evidence_runtime_id activation)
          \<and> evidence_fits_run silo_id activation identified
          \<and> d' = insert_recent_run ((advance_run activation identified)\<lparr>rrr_updated_at := now\<rparr>)
                   silo_id d)"

text \<open>The checks of \<open>update_silo_configuration\<close> on the engine.\<close>

lemma checked_engineI:
  assumes "\<not> (\<not> is_local (sil_execution_target current) \<and> engine \<noteq> None)"
    and "(case engine of
        Some engine \<Rightarrow> validate_engine_input engine (case network of None \<Rightarrow> sil_network_profile current
          | Some network \<Rightarrow> uni_network_profile network)
      | None \<Rightarrow> if network \<noteq> None
          then validate_engine_input (sil_engine current) (case network of None \<Rightarrow> sil_network_profile current
            | Some network \<Rightarrow> uni_network_profile network)
          else Inr ()) = Inr ()"
  shows "checked_engine current network engine"
  using assms by (auto simp: checked_engine_def validate_engine_input_def split: option.splits if_splits)

lemma chg_configurationI:
  assumes "stored_silo silo_id d = Some current" "checked_update L W current input engine browser"
    and "checked_network L current network prepared" "checked_engine current network engine"
    and "change_configuration silo_id input browser engine prepared d = Inr d'"
  shows "chg_configuration L W silo_id input network engine d d'"
  using assms unfolding chg_configuration_def by blast

lemma checked_updateI:
  assumes "is_stock (sil_engine current)"
    and "domain_refusal (update_silo_validate_for_target is_file (sil_execution_target current) input) = Inr ()"
    and "ensure_non_local_metadata_only current input = Inr ()"
    and "ensure_identity_update_allowed L current (usi_browser_kind input) engine = Inr ()"
    and "updates_browser W current input browser"
  shows "checked_update L W current input engine browser"
  using assms unfolding checked_update_def by auto

lemma checked_network_simps [simp]:
  "checked_network L current None prepared \<longleftrightarrow> prepared = None"
  "checked_network L current (Some network) prepared \<longleftrightarrow>
     network_input_validate_for_target (vl_parse_url L) (sil_execution_target current) network = Inr ()
     \<and> (\<exists>p. prepared = Some p \<and> prepares (uni_network_profile network)
            (uni_proxy_credentials network) (uni_mihomo_controller_secret network) p)"
  by (simp_all add: checked_network_def)

lemma chg_recheckI:
  assumes "stored_silo silo_id d = Some current" "is_local (sil_execution_target current)"
    and "sil_browser current = Some old"
    and "inspects W (brd_kind old) (brd_executable_path old)
      \<lparr>brd_kind = brd_kind old, brd_executable_path = path, brd_version = Some version\<rparr>"
    and "browser_paths_match (brd_executable_path old) path"
    and "set_browser_version version silo_id d = Inr d'"
  shows "chg_recheck W silo_id d d'"
  unfolding chg_recheck_def using assms
  by (intro exI [of _ current] exI [of _ old] exI [of _ "\<lparr>brd_kind = brd_kind old,
        brd_executable_path = path, brd_version = Some version\<rparr>"]) (auto simp: browser_paths_match_def)

lemma chg_replace_identityI:
  assumes "stored_silo silo_id d = Some current" "sil_identity_locked_at current = None"
    and "camoufox_artifact_binding (sil_engine current) = Some old_binding"
    and "validate_identity_artifact_record L (sia_artifact_id artifact) artifact = Inr ()"
    and "sia_schema artifact = expected_artifact_schema (sil_network_profile current)"
    and "first_written L d artifact kept"
    and "bind_artifact silo_id kept (\<lambda>silo. silo) d = Inr bound"
  shows "chg_replace_identity L silo_id artifact seed d
    (remove_unreferenced_identity_artifact (Some (cab_artifact_id old_binding))
      (insert_artifact kept (case seed of None \<Rightarrow> bound
        | Some seed \<Rightarrow> bound\<lparr>vd_seed_material := AList.update (sil_seed_reference current)
            (vl_b64_encode L seed) (vd_seed_material bound)\<rparr>)))"
  using assms unfolding chg_replace_identity_def by blast

end
