(* ===== verification/Vault_Transactions.thy ===== *)
theory Vault_Transactions
  imports Vault_Contracts
begin

text \<open>
  Each operation of the Vault makes the change that its specification names, or none: one lemma along
  its steps and one interpretation of \<open>vault_operation\<close> per operation.
\<close>

section \<open>Silos\<close>

lemma data_kept_undo: "data_kept s (if b then snd (in_vault_world f g s) else s)"
  by (simp add: data_kept_world)

lemma transacts_mark_locked:
  "transacts L W (chg_mark_locked silo_id) s (mark_silo_identity_locked L W silo_id s)"
  unfolding mark_silo_identity_locked_def
  by (rule transacts_rules data_kept_refl | assumption
      | fastforce simp: chg_mark_locked_def)+

lemma transacts_update_silo:
  "transacts L W (chg_update_silo L W silo_id input) s (update_silo L W silo_id input is_active s)"
  unfolding update_silo_def
  by (rule transacts_rules data_kept_refl | assumption
      | fastforce simp: chg_update_silo_def chg_metadata_def checked_update_def)+

lemma transacts_rename:
  "transacts L W (chg_rename silo_id name) s (rename_silo L W silo_id name is_active s)"
  unfolding rename_silo_def
  by (rule transacts_rules data_kept_refl | assumption
      | fastforce simp: chg_rename_def)+

lemma transacts_network:
  "transacts L W (chg_network L silo_id input) s (update_silo_network L W silo_id input is_active s)"
  unfolding update_silo_network_def prepare_network_input_def
  by (rule transacts_rules data_kept_refl | assumption
      | fastforce simp: chg_network_def checked_network_def checked_engine_def validate_engine_input_def)+

lemma transacts_engine:
  "transacts L W (chg_engine L silo_id engine) s (update_silo_engine L W silo_id engine is_active s)"
  unfolding update_silo_engine_def
  by (rule transacts_rules data_kept_refl | assumption
      | fastforce simp: chg_engine_def checked_engine_def validate_engine_input_def)+

lemma transacts_restore_archived:
  "transacts L W (chg_archive silo_id) s (restore_archived_silo L W silo_id s)"
  unfolding restore_archived_silo_def
  by (rule transacts_rules data_kept_refl | assumption
      | fastforce simp: chg_archive_def)+

lemma keeps_silo_configuration [transacts_rules]:
  "keeps_silo silo_id (change_configuration silo_id input browser engine prepared)"
proof -
  have "stored_silo silo_id d' \<noteq> None"
    if "change_configuration silo_id input browser engine prepared d = Inr d'" for d d'
    using that change_silo_stored keeps_silo_network [unfolded keeps_silo_def]
    unfolding change_configuration_def by (cases prepared) fastforce+
  then show ?thesis unfolding keeps_silo_def by blast
qed

lemma transacts_configuration:
  "transacts L W (chg_configuration L W silo_id input network engine) s
     (update_silo_configuration L W silo_id input network engine is_active s)"
  unfolding update_silo_configuration_def prepare_network_input_def Let_def
  by (rule transacts_rules data_kept_refl | assumption
      | fastforce simp: chg_configuration_def chg_metadata_def
      | rule chg_configurationI checked_updateI checked_engineI)+

lemma transacts_recheck:
  "transacts L W (chg_recheck W silo_id) s (recheck_silo_browser L W silo_id is_active s)"
  unfolding recheck_silo_browser_def
  by (rule transacts_inspection transacts_rules data_kept_refl | assumption
      | rule chg_recheckI | fastforce)+

lemma transacts_archive:
  "transacts L W (chg_archive silo_id) s (archive_silo L W silo_id is_active s)"
  unfolding archive_silo_def
  by (rule transacts_rules data_kept_refl | assumption
      | fastforce simp: chg_archive_def)+

section \<open>Deleting\<close>

text \<open>Deleting up to the adoption of the data; what follows only clears the quarantined directory.\<close>

definition delete_data ::
    "vault_library \<Rightarrow> 'w vault_os \<Rightarrow> str \<Rightarrow> uuid \<Rightarrow> bool \<Rightarrow> bool \<Rightarrow> 'w vault
     \<Rightarrow> (vault_error, bool, 'w vault) outcome" where
  "delete_data L W base silo_id is_active confirm_permanent s =
     (if \<not> confirm_permanent then (Inl PermanentDeleteNotConfirmed, s)
      else if is_active then (Inl SiloRunning, s)
      else
        sbind (unlocked_mut_for_activity W s) (\<lambda>unlocked s.
        if list_ex (\<lambda>binding. sb_silo_id binding = silo_id)
             (rs_bindings (rvs_backend (vd_remote_control_plane (uv_data unlocked))))
        then (Inl SiloRemoteBound, s)
        else
          sbind (verified_silo_profile_directory W base silo_id s) (\<lambda>managed_directory s.
          case silo_has_browser_lock W silo_id s of (in_use, s) \<Rightarrow>
          if in_use then (Inl SiloProfileInUse, s)
          else
            sbind (unlocked_without_activity W s) (\<lambda>unlocked s.
            sbind (remove_silo silo_id (uv_data unlocked), s) (\<lambda>data s.
            sbind (quarantine W managed_directory (quarantine_directory base silo_id) s)
              (\<lambda>moved_to_quarantine s.
            case vault_persist_data L W data s of
              (Inl error, s) \<Rightarrow>
                (Inl error, if moved_to_quarantine
                            then snd (in_vault_world (vo_rename W (quarantine_directory base silo_id)
                                        managed_directory) Filesystem s)
                            else s)
            | (Inr _, s) \<Rightarrow> sbind (replace_data W data s) (\<lambda>_ s. (Inr moved_to_quarantine, s))))))))"

definition clear_quarantine ::
    "'w vault_os \<Rightarrow> str \<Rightarrow> bool \<Rightarrow> 'w vault \<Rightarrow> (vault_error, unit, 'w vault) outcome" where
  "clear_quarantine W target moved_to_quarantine s =
     (if moved_to_quarantine
      then sbind (in_vault_world (vo_check_tree W target) id s) (\<lambda>_ s.
           in_vault_world (vo_remove_dir_all W target) Filesystem s)
      else (Inr (), s))"

lemma delete_silo_split:
  "delete_silo L W base silo_id is_active confirm_permanent s =
   sbind (delete_data L W base silo_id is_active confirm_permanent s)
     (clear_quarantine W (quarantine_directory base silo_id))"
  unfolding delete_silo_def delete_data_def clear_quarantine_def Let_def
  by (auto simp: sbind_def split: prod.splits sum.splits)

lemma transacts_delete_data:
  "transacts L W (chg_delete silo_id) s (delete_data L W base silo_id is_active confirm s)"
  unfolding delete_data_def
  by (rule transacts_rules data_kept_refl data_kept_undo | assumption | fastforce simp: chg_delete_def)+

lemma clear_quarantine_frame [simp]:
  "vt_unlocked (snd (clear_quarantine W target moved s)) = vt_unlocked s"
  "vt_disk (snd (clear_quarantine W target moved s)) = vt_disk s"
  by (auto simp: clear_quarantine_def sbind_def in_vault_world_def split: prod.split sum.split)

lemma delete_settles:
  "adopts L W (chg_delete silo_id) s (snd (delete_silo L W base silo_id is_active confirm s))"
proof (cases "delete_data L W base silo_id is_active confirm s")
  case (Pair r t)
  have "adopts L W (chg_delete silo_id) s t"
    using transacts_delete_data [of L W silo_id s base is_active confirm] Pair
    by (cases r) (auto simp: transacts_def intro: unadopted_adopts)
  then have "adopts L W (chg_delete silo_id) s (snd (clear_quarantine W target moved t))" for target moved
    by (rule adopts_frame) simp_all
  with \<open>adopts L W (chg_delete silo_id) s t\<close> show ?thesis
    unfolding delete_silo_split by (cases r) (simp_all add: Pair)
qed

section \<open>Additions\<close>

lemma transacts_create:
  "transacts L W (chg_create L W base input) s (create_silo L W base input s)"
  unfolding create_silo_def Let_def add_new_silo
  by (rule transacts_rules data_kept_refl chg_createI | assumption | fastforce)+

lemma transacts_create_managed:
  "transacts L W (chg_create_managed L W base input artifact seed) s
     (create_managed_silo L W base input artifact seed s)"
  unfolding create_managed_silo_def Let_def add_new_managed_silo
  by (rule transacts_rules data_kept_refl data_kept_world chg_create_managedI | assumption | fastforce)+

lemma transacts_replace_identity:
  "transacts L W (chg_replace_identity L silo_id artifact seed) s
     (replace_managed_identity L W silo_id artifact seed s)"
  unfolding replace_managed_identity_def
  by (rule transacts_rules transacts_read_back data_kept_refl | assumption
      | rule chg_replace_identityI | fastforce dest: bind_artifact_stored split: option.split)+

lemma transacts_rebind:
  "transacts L W (chg_rebind L silo_id metadata input artifact) s
     (rebind_managed_silo_configuration L W silo_id metadata input artifact s)"
  unfolding rebind_managed_silo_configuration_def prepare_network_input_def
  by (rule transacts_rules transacts_read_back data_kept_refl | assumption
      | (auto simp: chg_rebind_def change_rebound_stored split: option.splits; fail))+

section \<open>Records\<close>

lemma transacts_import:
  "transacts L W (chg_import entries) s (import_network_evidence L W entries s)"
  unfolding import_network_evidence_def
  by (rule transacts_rules data_kept_refl | assumption
      | fastforce simp: chg_import_def)+

lemma transacts_clear:
  "transacts L W (chg_clear silo_id) s (clear_network_evidence L W silo_id confirm s)"
  unfolding clear_network_evidence_def
  by (rule transacts_rules data_kept_refl | assumption
      | fastforce simp: chg_clear_def)+

lemma transacts_remote:
  "transacts L W (chg_remote L remote) s (persist_remote_control_plane L W remote s)"
  unfolding persist_remote_control_plane_def
  by (rule transacts_rules data_kept_refl | assumption
      | fastforce simp: chg_remote_def)+

lemma transacts_begin_run:
  "transacts L W (chg_begin_run silo) s (begin_recent_run L W silo s)"
  unfolding begin_recent_run_def
  by (rule transacts_rules data_kept_refl | assumption
      | fastforce simp: chg_begin_run_def initial_run_def)+

lemma transacts_update_run:
  "transacts L W (chg_update_run silo_id activation) s (update_recent_run L W silo_id activation s)"
  unfolding update_recent_run_def
  by (rule transacts_rules data_kept_refl | assumption
      | fastforce simp: chg_update_run_def)+

section \<open>The contract of each operation\<close>

interpretation mark_locked:
  vault_operation L W "mark_silo_identity_locked L W silo_id" "chg_mark_locked silo_id" for L W silo_id
  by (rule vault_operationI) (rule transacts_mark_locked)

interpretation updating:
  vault_operation L W "\<lambda>s. update_silo L W silo_id input is_active s" "chg_update_silo L W silo_id input"
  for L W silo_id input is_active
  by (rule vault_operationI) (rule transacts_update_silo)

interpretation configuring:
  vault_operation L W "\<lambda>s. update_silo_configuration L W silo_id input network engine is_active s"
    "chg_configuration L W silo_id input network engine"
  for L W silo_id input network engine is_active
  by (rule vault_operationI) (rule transacts_configuration)

interpretation rechecking:
  vault_operation L W "\<lambda>s. recheck_silo_browser L W silo_id is_active s" "chg_recheck W silo_id"
  for L W silo_id is_active
  by (rule vault_operationI) (rule transacts_recheck)

interpretation renaming:
  vault_operation L W "\<lambda>s. rename_silo L W silo_id name is_active s" "chg_rename silo_id name"
  for L W silo_id name is_active
  by (rule vault_operationI) (rule transacts_rename)

interpretation networking:
  vault_operation L W "\<lambda>s. update_silo_network L W silo_id input is_active s" "chg_network L silo_id input"
  for L W silo_id input is_active
  by (rule vault_operationI) (rule transacts_network)

interpretation reengining:
  vault_operation L W "\<lambda>s. update_silo_engine L W silo_id engine is_active s" "chg_engine L silo_id engine"
  for L W silo_id engine is_active
  by (rule vault_operationI) (rule transacts_engine)

interpretation archiving:
  vault_operation L W "\<lambda>s. archive_silo L W silo_id is_active s" "chg_archive silo_id"
  for L W silo_id is_active
  by (rule vault_operationI) (rule transacts_archive)

interpretation reviving:
  vault_operation L W "\<lambda>s. restore_archived_silo L W silo_id s" "chg_archive silo_id" for L W silo_id
  by (rule vault_operationI) (rule transacts_restore_archived)

interpretation deleting:
  vault_step L W "\<lambda>s. delete_silo L W base silo_id is_active confirm s" "chg_delete silo_id"
  for L W base silo_id is_active confirm
  by unfold_locales (rule delete_settles)

interpretation creating:
  vault_operation L W "\<lambda>s. create_silo L W base input s" "chg_create L W base input" for L W base input
  by (rule vault_operationI) (rule transacts_create)

interpretation creating_managed:
  vault_operation L W "\<lambda>s. create_managed_silo L W base input artifact seed s"
    "chg_create_managed L W base input artifact seed" for L W base input artifact seed
  by (rule vault_operationI) (rule transacts_create_managed)

interpretation replacing:
  vault_operation L W "\<lambda>s. replace_managed_identity L W silo_id artifact seed s"
    "chg_replace_identity L silo_id artifact seed" for L W silo_id artifact seed
  by (rule vault_operationI) (rule transacts_replace_identity)

interpretation rebinding:
  vault_operation L W "\<lambda>s. rebind_managed_silo_configuration L W silo_id metadata input artifact s"
    "chg_rebind L silo_id metadata input artifact" for L W silo_id metadata input artifact
  by (rule vault_operationI) (rule transacts_rebind)

interpretation importing:
  vault_operation L W "\<lambda>s. import_network_evidence L W entries s" "chg_import entries" for L W entries
  by (rule vault_operationI) (rule transacts_import)

interpretation clearing:
  vault_operation L W "\<lambda>s. clear_network_evidence L W silo_id confirm s" "chg_clear silo_id"
  for L W silo_id confirm
  by (rule vault_operationI) (rule transacts_clear)

interpretation remote_plane:
  vault_operation L W "\<lambda>s. persist_remote_control_plane L W remote s" "chg_remote L remote" for L W remote
  by (rule vault_operationI) (rule transacts_remote)

interpretation beginning:
  vault_operation L W "\<lambda>s. begin_recent_run L W silo s" "chg_begin_run silo" for L W silo
  by (rule vault_operationI) (rule transacts_begin_run)

interpretation advancing:
  vault_operation L W "\<lambda>s. update_recent_run L W silo_id activation s" "chg_update_run silo_id activation"
  for L W silo_id activation
  by (rule vault_operationI) (rule transacts_update_run)

end
