(* ===== verification/Vault_Machine.thy ===== *)
theory Vault_Machine
  imports Vault_Transactions
begin

text \<open>
  The Vault as a machine: the commands with which the application calls an open Vault, what each
  performs (the operation of the code) and which change of the data each stands for (the abstract
  specification), and runs of commands. A command settles as its change or as nothing, and a crash at
  any moment of a run leaves data that a sequence of specified changes reaches.
\<close>

section \<open>Commands\<close>

datatype vault_command =
    LockVault
  | VaultStatus
  | RecordActivity
  | BackupVault str
  | MarkIdentityLocked uuid
  | UpdateSilo uuid update_silo_input bool
  | UpdateConfiguration uuid update_silo_input "update_silo_network_input option"
      "silo_engine_config option" bool
  | RecheckBrowser uuid bool
  | RenameSilo uuid str bool
  | UpdateNetwork uuid update_silo_network_input bool
  | UpdateEngine uuid silo_engine_config bool
  | ArchiveSilo uuid bool
  | RestoreArchived uuid
  | DeleteSilo uuid bool bool
  | CreateSilo create_silo_input
  | CreateManagedSilo create_managed_silo_input stored_identity_artifact "nat list"
  | ReplaceIdentity uuid stored_identity_artifact "nat list option"
  | RebindManaged uuid "update_silo_input option" update_silo_network_input stored_identity_artifact
  | ImportEvidence "network_evidence list"
  | ClearEvidence uuid bool
  | PersistRemote remote_vault_state
  | BeginRun silo
  | UpdateRun uuid runtime_activation

text \<open>An operation whose answer is of no interest here.\<close>

definition settled :: "(vault_error, 'a, 's) outcome \<Rightarrow> (vault_error, unit, 's) outcome" where
  "settled m = (map_sum id (\<lambda>_. ()) (fst m), snd m)"

fun vault_perform ::
    "vault_library \<Rightarrow> 'w vault_os \<Rightarrow> str \<Rightarrow> vault_command \<Rightarrow> 'w vault \<Rightarrow> (vault_error, unit, 'w vault) outcome"
  where
  "vault_perform L W base LockVault s = (Inr (), vault_lock s)"
| "vault_perform L W base VaultStatus s = (Inr (), snd (vault_status W s))"
| "vault_perform L W base RecordActivity s = record_activity W s"
| "vault_perform L W base (BackupVault path) s = settled (vault_backup L W path s)"
| "vault_perform L W base (MarkIdentityLocked silo_id) s =
     settled (mark_silo_identity_locked L W silo_id s)"
| "vault_perform L W base (UpdateSilo silo_id input is_active) s =
     settled (update_silo L W silo_id input is_active s)"
| "vault_perform L W base (UpdateConfiguration silo_id input network engine is_active) s =
     settled (update_silo_configuration L W silo_id input network engine is_active s)"
| "vault_perform L W base (RecheckBrowser silo_id is_active) s =
     settled (recheck_silo_browser L W silo_id is_active s)"
| "vault_perform L W base (RenameSilo silo_id name is_active) s =
     settled (rename_silo L W silo_id name is_active s)"
| "vault_perform L W base (UpdateNetwork silo_id input is_active) s =
     settled (update_silo_network L W silo_id input is_active s)"
| "vault_perform L W base (UpdateEngine silo_id engine is_active) s =
     settled (update_silo_engine L W silo_id engine is_active s)"
| "vault_perform L W base (ArchiveSilo silo_id is_active) s = archive_silo L W silo_id is_active s"
| "vault_perform L W base (RestoreArchived silo_id) s = settled (restore_archived_silo L W silo_id s)"
| "vault_perform L W base (DeleteSilo silo_id is_active confirm) s =
     delete_silo L W base silo_id is_active confirm s"
| "vault_perform L W base (CreateSilo input) s = settled (create_silo L W base input s)"
| "vault_perform L W base (CreateManagedSilo input artifact seed) s =
     settled (create_managed_silo L W base input artifact seed s)"
| "vault_perform L W base (ReplaceIdentity silo_id artifact seed) s =
     settled (replace_managed_identity L W silo_id artifact seed s)"
| "vault_perform L W base (RebindManaged silo_id metadata input artifact) s =
     settled (rebind_managed_silo_configuration L W silo_id metadata input artifact s)"
| "vault_perform L W base (ImportEvidence entries) s =
     settled (import_network_evidence L W entries s)"
| "vault_perform L W base (ClearEvidence silo_id confirm) s =
     settled (clear_network_evidence L W silo_id confirm s)"
| "vault_perform L W base (PersistRemote remote) s = persist_remote_control_plane L W remote s"
| "vault_perform L W base (BeginRun silo) s = begin_recent_run L W silo s"
| "vault_perform L W base (UpdateRun silo_id activation) s =
     settled (update_recent_run L W silo_id activation s)"

fun command_change ::
    "vault_library \<Rightarrow> 'w vault_os \<Rightarrow> str \<Rightarrow> vault_command \<Rightarrow> vault_data \<Rightarrow> vault_data \<Rightarrow> bool" where
  "command_change L W base (BackupVault path) = (=)"
| "command_change L W base (MarkIdentityLocked silo_id) = chg_mark_locked silo_id"
| "command_change L W base (UpdateSilo silo_id input is_active) = chg_update_silo L W silo_id input"
| "command_change L W base (UpdateConfiguration silo_id input network engine is_active) =
     chg_configuration L W silo_id input network engine"
| "command_change L W base (RecheckBrowser silo_id is_active) = chg_recheck W silo_id"
| "command_change L W base (RenameSilo silo_id name is_active) = chg_rename silo_id name"
| "command_change L W base (UpdateNetwork silo_id input is_active) = chg_network L silo_id input"
| "command_change L W base (UpdateEngine silo_id engine is_active) = chg_engine L silo_id engine"
| "command_change L W base (ArchiveSilo silo_id is_active) = chg_archive silo_id"
| "command_change L W base (RestoreArchived silo_id) = chg_archive silo_id"
| "command_change L W base (DeleteSilo silo_id is_active confirm) = chg_delete silo_id"
| "command_change L W base (CreateSilo input) = chg_create L W base input"
| "command_change L W base (CreateManagedSilo input artifact seed) =
     chg_create_managed L W base input artifact seed"
| "command_change L W base (ReplaceIdentity silo_id artifact seed) =
     chg_replace_identity L silo_id artifact seed"
| "command_change L W base (RebindManaged silo_id metadata input artifact) =
     chg_rebind L silo_id metadata input artifact"
| "command_change L W base (ImportEvidence entries) = chg_import entries"
| "command_change L W base (ClearEvidence silo_id confirm) = chg_clear silo_id"
| "command_change L W base (PersistRemote remote) = chg_remote L remote"
| "command_change L W base (BeginRun silo) = chg_begin_run silo"
| "command_change L W base (UpdateRun silo_id activation) = chg_update_run silo_id activation"
| "command_change L W base _ = (\<lambda>_ _. False)"

fun is_delete :: "vault_command \<Rightarrow> bool" where
  "is_delete (DeleteSilo _ _ _) = True"
| "is_delete _ = False"

section \<open>Commands that only look\<close>

lemma transacts_settled: "transacts L W C s m \<Longrightarrow> transacts L W C s (settled m)"
  by (cases m; cases "fst m") (auto simp: settled_def transacts_def)

lemma settled_snd [simp]: "snd (settled m) = snd m"
  by (simp add: settled_def)

lemma transacts_lock: "transacts L W C s (Inr (), vault_lock s)"
  by (rule transacts_same) (simp add: vault_lock_def data_kept_locked)

lemma transacts_activity: "transacts L W C s (record_activity W s)"
  using quietly_activity [OF data_kept_refl, of s W]
  by (cases "record_activity W s"; cases "fst (record_activity W s)")
     (auto simp: quietly_def transacts_def intro: unadopted_adopts)

lemma transacts_status: "transacts L W C s (Inr (), snd (vault_status W s))"
proof -
  let ?t = "snd (vault_recover_interrupted_write s)"
  have "snd (vault_status W s) = expire_if_needed W ?t"
    by (simp add: vault_status_def Let_def split: option.split)
  moreover have "same_unlocked s ?t" by (simp add: same_unlocked_eq)
  moreover have "data_kept ?t (expire_if_needed W ?t)" by (rule data_kept_expire)
  ultimately show ?thesis
    by (auto simp: transacts_def adopts_def data_kept_def
        intro: same_unlocked_trans exposes_kept [OF recover_exposes])
qed

text \<open>A backup writes the file anew with the data that are in memory.\<close>

lemma persist_unadopted:
  assumes "data_kept s0 s"
  shows "outcome (\<lambda>_ t. unadopted L W (=) s0 t) (\<lambda>_ t. unadopted L W (=) s0 t) (vault_persist L W s)"
proof (cases "vt_unlocked s")
  case None
  then show ?thesis
    using assms by (auto simp: vault_persist_def)
next
  case (Some u)
  then obtain u0 a where u0: "vt_unlocked s0 = Some u0" "u = u0\<lparr>uv_auto_lock_at := a\<rparr>"
    using assms by (auto simp: data_kept_def same_unlocked_def)
  have "unadopted L W (=) s0 t"
    if "vt_unlocked t = vt_unlocked s" "exposes (new_file L W s (uv_data u)) s t" for t
  proof -
    have "same_unlocked s0 t" using that(1) assms by (simp add: data_kept_def same_unlocked_def)
    moreover have "exposes (changed_file L W (=) s0) s0 t"
      using that(2) u0 Some assms
      by (auto simp: data_kept_def exposes_def shown_def new_file_def changed_file_def)
    ultimately show ?thesis by (simp add: unadopted_def)
  qed
  with Some show ?thesis
    unfolding vault_persist_def
    by (auto simp del: outcome_sbind intro!: outcome_sbindW outcome_mono [OF persist_data_outcome])
qed

lemma read_unadopted: "unadopted L W C s0 s \<Longrightarrow> unadopted L W C s0 (snd (in_vault_disk (fs_read n) s))"
  by (auto simp: unadopted_def same_unlocked_def exposes_def shown_def in_vault_disk_def fs_read_def
      fs_change_def Let_def split: option.splits)

lemma world_unadopted: "unadopted L W C s0 s \<Longrightarrow> unadopted L W C s0 (snd (in_vault_world f g s))"
  by (rule unadopted_frame [where t = s]) (simp_all add: same_unlocked_eq)

lemma unadopted_bind:
  assumes "U (snd m)" and "\<And>x t. U t \<Longrightarrow> outcome (\<lambda>_ t. U t) (\<lambda>_ t. U t) (f x t)"
  shows "outcome (\<lambda>_ t. U t) (\<lambda>_ t. U t) (sbind m f)"
  using assms by (cases m; cases "fst m") auto

lemma transacts_backup: "transacts L W (=) s (vault_backup L W path s)"
proof -
  let ?U = "unadopted L W (=) s"
  have "outcome (\<lambda>_ t. ?U t) (\<lambda>_ t. ?U t) (vault_backup L W path s)"
    unfolding vault_backup_def
    apply (rule quietly_bind [OF quietly_activity [OF data_kept_refl]])
     apply (split if_split, intro conjI impI)
      apply (simp add: data_kept_unadopted)
     apply (erule outcome_sbindW [OF persist_unadopted])
      apply (rule unadopted_bind, erule read_unadopted)
      apply (split if_split, intro conjI impI, simp)
      apply (rule unadopted_bind, simp)
      apply (split if_split, intro conjI impI, simp)
      apply (rule unadopted_bind, erule world_unadopted, simp)
     apply simp
    apply (rule data_kept_unadopted, assumption)
    done
  then show ?thesis
    unfolding transacts_def by (rule outcome_mono) (auto intro: unadopted_adopts)
qed

section \<open>The contract of the machine\<close>

lemma perform_transacts:
  "\<not> is_delete c \<Longrightarrow> transacts L W (command_change L W base c) s (vault_perform L W base c s)"
  by (cases c) (simp_all add: transacts_settled transacts_lock transacts_status transacts_activity
      transacts_backup transacts_mark_locked transacts_update_silo transacts_configuration
      transacts_recheck transacts_rename transacts_network transacts_engine transacts_archive
      transacts_restore_archived transacts_create transacts_create_managed transacts_replace_identity
      transacts_rebind transacts_import transacts_clear transacts_remote transacts_begin_run
      transacts_update_run)

lemma perform_adopts: "adopts L W (command_change L W base c) s (snd (vault_perform L W base c s))"
proof (cases "is_delete c")
  case True
  then show ?thesis by (cases c) (simp_all add: delete_settles)
next
  case False
  then show ?thesis
    using perform_transacts [of c L W base s]
    by (cases "vault_perform L W base c s"; cases "fst (vault_perform L W base c s)")
       (auto simp: transacts_def intro: unadopted_adopts)
qed

interpretation commanding:
  vault_step L W "\<lambda>s. vault_perform L W base c s" "command_change L W base c" for L W base c
  by unfold_locales (rule perform_adopts)

section \<open>Runs\<close>

definition vault_run ::
    "vault_library \<Rightarrow> 'w vault_os \<Rightarrow> str \<Rightarrow> vault_command list \<Rightarrow> 'w vault \<Rightarrow> 'w vault" where
  "vault_run L W base commands s = fold (\<lambda>c s. snd (vault_perform L W base c s)) commands s"

lemma vault_run_simps [simp]:
  "vault_run L W base [] s = s"
  "vault_run L W base (c # cs) s = vault_run L W base cs (snd (vault_perform L W base c s))"
  "vault_run L W base (cs @ cs') s = vault_run L W base cs' (vault_run L W base cs s)"
  by (simp_all add: vault_run_def)

text \<open>The changes that any of the commands makes, and what a sequence of them reaches.\<close>

definition some_change ::
    "vault_library \<Rightarrow> 'w vault_os \<Rightarrow> str \<Rightarrow> vault_command list \<Rightarrow> vault_data \<Rightarrow> vault_data \<Rightarrow> bool" where
  "some_change L W base cs d d' \<longleftrightarrow> (\<exists>c \<in> set cs. command_change L W base c d d')"

definition reached ::
    "vault_library \<Rightarrow> 'w vault_os \<Rightarrow> str \<Rightarrow> vault_command list \<Rightarrow> vault_data \<Rightarrow> vault_data \<Rightarrow> bool" where
  "reached L W base cs = (some_change L W base cs)\<^sup>*\<^sup>*"

text \<open>The state of a run: locked, or open under the first keys with reached data; and its files.\<close>

definition run_invariant ::
    "vault_library \<Rightarrow> 'w vault_os \<Rightarrow> str \<Rightarrow> vault_command list \<Rightarrow> 'w vault \<Rightarrow> 'w vault \<Rightarrow> bool" where
  "run_invariant L W base cs s t \<longleftrightarrow>
     (vt_unlocked t = None
      \<or> (\<exists>u d a. vt_unlocked s = Some u \<and> reached L W base cs (uv_data u) d
            \<and> vt_unlocked t = Some (u\<lparr>uv_data := d, uv_auto_lock_at := a\<rparr>)))
     \<and> exposes (\<lambda>file. \<exists>u d. vt_unlocked s = Some u \<and> reached L W base cs (uv_data u) d
          \<and> holds_sealed L W u d file) s t"

lemma run_invariant_step:
  assumes "run_invariant L W base cs s t" and "c \<in> set cs"
  shows "run_invariant L W base cs s (snd (vault_perform L W base c t))"
proof -
  let ?t = "snd (vault_perform L W base c t)"
  let ?N = "\<lambda>f. \<exists>u d. vt_unlocked s = Some u \<and> reached L W base cs (uv_data u) d
          \<and> holds_sealed L W u d f"
  have reach: "reached L W base cs d d''" if "reached L W base cs d d'" "command_change L W base c d' d''"
    for d d' d''
    using that assms(2) unfolding reached_def
    by (meson rtranclp.rtrancl_into_rtrancl some_change_def)
  have covered: "?N f" if "changed_file L W (command_change L W base c) t f" for f
  proof -
    from that obtain v d'' where v: "vt_unlocked t = Some v" "command_change L W base c (uv_data v) d''"
        "holds_sealed L W v d'' f"
      unfolding changed_file_def by blast
    with assms(1) obtain u d a where u: "vt_unlocked s = Some u" "reached L W base cs (uv_data u) d"
        "v = u\<lparr>uv_data := d, uv_auto_lock_at := a\<rparr>"
      unfolding run_invariant_def by auto
    show ?thesis
      using v u by (intro exI [of _ u] exI [of _ d'']) (simp add: reach)
  qed
  have exposed: "exposes (changed_file L W (command_change L W base c)  t) t ?t"
    by (rule commanding.crash_atomic)
  then have "exposes ?N t ?t"
    using covered by (rule exposes_mono)
  with assms(1) have "exposes ?N s ?t"
    unfolding run_invariant_def by (blast intro: exposes_trans)
  moreover have "vt_unlocked ?t = None
      \<or> (\<exists>u d a. vt_unlocked s = Some u \<and> reached L W base cs (uv_data u) d
            \<and> vt_unlocked ?t = Some (u\<lparr>uv_data := d, uv_auto_lock_at := a\<rparr>))"
    using assms(1) perform_adopts [of L W base c t] reach
    unfolding run_invariant_def adopts_def same_unlocked_def changed_def by fastforce
  ultimately show ?thesis unfolding run_invariant_def by blast
qed

lemma run_invariant_refl: "run_invariant L W base cs s s"
proof -
  have "\<exists>d a. reached L W base cs (uv_data u) d \<and> u = u\<lparr>uv_data := d, uv_auto_lock_at := a\<rparr>" for u
    by (rule exI [of _ "uv_data u"], rule exI [of _ "uv_auto_lock_at u"]) (simp add: reached_def)
  then show ?thesis
    by (cases "vt_unlocked s") (simp_all add: run_invariant_def exposes_frame)
qed

lemma run_invariant_prefix: "set cs' \<subseteq> set cs \<Longrightarrow> run_invariant L W base cs s (vault_run L W base cs' s)"
  by (induction cs' rule: rev_induct) (simp_all add: run_invariant_refl run_invariant_step)

lemma run_keeps_invariant: "run_invariant L W base cs s (vault_run L W base cs s)"
  by (rule run_invariant_prefix) simp

text \<open>What every specified change keeps, a run keeps.\<close>

lemma reached_keeps:
  assumes "reached L W base cs d d'" "P d" and "\<And>c d d'. c \<in> set cs \<Longrightarrow> command_change L W base c d d' \<Longrightarrow> P d \<Longrightarrow> P d'"
  shows "P d'"
  using assms(1,2) unfolding reached_def
  by induction (auto simp: some_change_def intro: assms(3))

lemma vault_run_keeps:
  assumes "vault_data_of s = Some d" "vault_data_of (vault_run L W base cs s) = Some d'" "P d"
    and "\<And>c d d'. c \<in> set cs \<Longrightarrow> command_change L W base c d d' \<Longrightarrow> P d \<Longrightarrow> P d'"
  shows "P d'"
proof -
  have "reached L W base cs d d'"
    using run_keeps_invariant [of L W base cs s] assms(1,2)
    by (auto simp: run_invariant_def vault_data_of_def)
  then show ?thesis by (rule reached_keeps) (use assms in auto)
qed

end
