(* ===== verification/Vault_Opening.thy ===== *)
theory Vault_Opening
  imports Vault_Machine
begin

text \<open>
  Opening what was written: the JSON value of valid data has the current shape, and the envelope file
  that a change leaves opens again with the passphrase, to the same keys and the same data, after a
  restart from any directory that a crash may have left.
\<close>

section \<open>The shape of what is written\<close>

lemmas shape_defs =
  expect_fields_def object_with_known_fields_def has_known_fields_def member_str_def member_def
  json_string_of_def optional_member_def lit_eq_iff

lemma target_shape [simp]: "validate_target_shape (execution_target_to_value target) = Inr ()"
  by (cases target) (simp_all add: validate_target_shape_def shape_defs)

lemma network_shape [simp]: "validate_network_shape (vault_network_to_value profile) = Inr ()"
  by (cases profile) (auto simp: validate_network_shape_def shape_defs mihomo_to_value_def
      split: option.split)

definition carries_no_template :: "silo_engine_config \<Rightarrow> bool" where
  "carries_no_template engine \<longleftrightarrow>
     (case engine of silo_engine_config.Camoufox template rules _ \<Rightarrow> template = None \<and> rules = [] | _ \<Rightarrow> True)"

lemma engine_shape:
  "carries_no_template engine \<Longrightarrow> validate_current_engine_json_shape (engine_to_value J engine) = Inr ()"
  by (cases engine) (auto simp: validate_current_engine_json_shape_def shape_defs
      carries_no_template_def artifact_binding_to_value_def ENGINE_ARTIFACT_BINDING_FIELDS_def
      split: option.split)

lemma valid_engine_carries_no_template: "is_ok (validate_engine s) \<Longrightarrow> carries_no_template (sil_engine s)"
  by (cases "sil_engine s")
     (auto simp: validate_engine_def validate_engine_configuration_def carries_no_template_def
       template_error_def is_ok_def map_err_def split: if_splits)

lemma silo_shape:
  assumes "sil_schema_version s = SILO_SCHEMA_VERSION" "carries_no_template (sil_engine s)"
  shows "validate_silo_json_shape (vault_silo_to_value J s) VAULT_DATA_SCHEMA_VERSION = Inr ()"
  using assms engine_shape [OF assms(2), of J]
  by (cases "sil_browser s")
     (simp_all add: validate_silo_json_shape_def vault_silo_to_value_def CURRENT_SILO_REQUIRED_FIELDS_def
       shape_defs json_option_def browser_to_value_def json_nat_def Let_def)

lemma data_shape:
  assumes "vd_schema_version data = VAULT_DATA_SCHEMA_VERSION"
    and "list_all (\<lambda>s. sil_schema_version s = SILO_SCHEMA_VERSION \<and> carries_no_template (sil_engine s))
      (vd_silos data)"
  shows "validate_vault_json_shape (vault_data_to_value J data) = Inr VAULT_DATA_SCHEMA_VERSION"
proof -
  have silos: "try_each (\<lambda>s. validate_silo_json_shape s VAULT_DATA_SCHEMA_VERSION)
      (map (vault_silo_to_value J) silos) = Inr ()"
    if "list_all (\<lambda>s. sil_schema_version s = SILO_SCHEMA_VERSION \<and> carries_no_template (sil_engine s)) silos"
    for silos
    using that by (induction silos) (simp_all add: silo_shape)
  have artifacts: "try_each (\<lambda>(_, record). expect_fields [''artifactId'', ''schema'', ''rawJson'', ''rawSha256'']
        [''artifactId'', ''schema'', ''rawJson'', ''rawSha256''] record)
      (map (\<lambda>(key, artifact). (key, identity_artifact_to_value artifact)) m) = Inr ()"
    for m :: "(str, stored_identity_artifact) hmap"
    by (induction m) (auto simp: identity_artifact_to_value_def shape_defs)
  have remote: "validate_remote_shape VAULT_DATA_SCHEMA_VERSION (remote_state_to_value J remote) = Inr ()"
    for remote
    by (auto simp: validate_remote_shape_def remote_state_to_value_def shape_defs
        VAULT_DATA_SCHEMA_VERSION_def REMOTE_ORPHAN_RECEIPTS_SCHEMA_VERSION_def split: option.split)
  have version: "json_as_u32 (json_nat VAULT_DATA_SCHEMA_VERSION) = Some VAULT_DATA_SCHEMA_VERSION"
    by (simp add: json_as_u32_def json_nat_def VAULT_DATA_SCHEMA_VERSION_def)
  show ?thesis
    using assms silos [OF assms(2)] artifacts remote version
    by (simp add: validate_vault_json_shape_def vault_data_to_value_def shape_defs json_array_def
        expected_vault_data_fields_def VAULT_DATA_REQUIRED_FIELDS_V9_def validate_artifact_shapes_def
        VAULT_DATA_SCHEMA_VERSION_def Let_def)
qed

text \<open>Data of the current schema, whose value has the current shape.\<close>

definition current_data :: "vault_data \<Rightarrow> bool" where
  "current_data data \<longleftrightarrow> vd_schema_version data = VAULT_DATA_SCHEMA_VERSION
     \<and> list_all (\<lambda>s. sil_schema_version s = SILO_SCHEMA_VERSION \<and> carries_no_template (sil_engine s))
         (vd_silos data)"

lemma valid_data_are_current:
  assumes "validate_vault_data L data = Inr ()" "vd_schema_version data = VAULT_DATA_SCHEMA_VERSION"
  shows "current_data data"
  using assms
  by (auto simp: current_data_def validate_vault_data_def list_all_iff valid_stored_silo_def
      intro: valid_engine_carries_no_template split: if_splits)

section \<open>Opening\<close>

text \<open>
  The documented laws of the libraries for the values at hand: decoding inverts base64, decryption
  inverts encryption under the same key and nonce, and reading inverts writing of the envelope and of
  the data, whose value is the one above.
\<close>

definition library_laws :: "vault_library \<Rightarrow> json_writer \<Rightarrow> vault_data \<Rightarrow> bool" where
  "library_laws L J data \<longleftrightarrow>
     (\<forall>bytes. vl_b64_decode L (vl_b64_encode L bytes) = Some bytes)
     \<and> (\<forall>key nonce plaintext ciphertext. vl_encrypt L key nonce plaintext = Some ciphertext
           \<longrightarrow> vl_decrypt L key nonce ciphertext = Some plaintext)
     \<and> (\<forall>envelope bytes. vl_envelope_to_vec L envelope = Inr bytes
           \<longrightarrow> vl_envelope_from_slice L bytes = Some envelope)
     \<and> (\<forall>plaintext. vl_data_to_vec L data = Inr plaintext
           \<longrightarrow> vl_json_from_slice L plaintext = Some (vault_data_to_value J data))
     \<and> vl_data_from_value L (vault_data_to_value J data) = Some data"

text \<open>Keys that belong to a passphrase, of the lengths the code makes them.\<close>

definition keys_of_passphrase :: "vault_library \<Rightarrow> str \<Rightarrow> unlocked_vault \<Rightarrow> bool" where
  "keys_of_passphrase L passphrase u \<longleftrightarrow>
     vl_argon2 L passphrase (uv_salt u) = Some (uv_kek u)
     \<and> length (uv_salt u) = 16 \<and> length (uv_dek u) = 32"

definition draws_lengths :: "'w vault_os \<Rightarrow> bool" where
  "draws_lengths W \<longleftrightarrow> (\<forall>n w. length (fst (vo_random_bytes W n w)) = n)"

lemma drawn_length: "draws_lengths W \<Longrightarrow> drawn W nonce \<Longrightarrow> length nonce = 12"
  by (auto simp: draws_lengths_def drawn_def)

lemma deserialize_written:
  assumes "library_laws L J data" "vl_data_to_vec L data = Inr plaintext"
    and "current_data data"
  shows "deserialize_vault_data L plaintext = Inr (data, VAULT_DATA_SCHEMA_VERSION)"
  using assms data_shape [of data J]
  by (simp add: deserialize_vault_data_def library_laws_def current_data_def)

lemma open_sealed:
  assumes "sealed L W u data bytes" "library_laws L J data" "keys_of_passphrase L passphrase u"
    and "draws_lengths W" "current_data data"
  shows "open_envelope L W bytes passphrase s =
    (rbind (validate_vault_data L data) (\<lambda>_.
       Inr \<lparr>oe_dek = uv_dek u, oe_kek = uv_kek u, oe_salt = uv_salt u, oe_data = data,
            oe_needs_migration = False\<rparr>), s)"
proof -
  obtain plaintext nonce ciphertext wrap_nonce wrapped_dek where
    plaintext: "vl_data_to_vec L data = Inr plaintext"
    and nonces: "drawn W nonce" "drawn W wrap_nonce"
    and encrypted: "vl_encrypt L (uv_dek u) nonce plaintext = Some ciphertext"
      "vl_encrypt L (uv_kek u) wrap_nonce (uv_dek u) = Some wrapped_dek"
    and written: "vl_envelope_to_vec L (envelope_of L u nonce ciphertext wrap_nonce wrapped_dek) = Inr bytes"
    using assms(1) unfolding sealed_def by blast
  have laws: "vl_b64_decode L (vl_b64_encode L b) = Some b"
    "vl_decrypt L (uv_dek u) nonce ciphertext = Some plaintext"
    "vl_decrypt L (uv_kek u) wrap_nonce wrapped_dek = Some (uv_dek u)"
    "vl_envelope_from_slice L bytes = Some (envelope_of L u nonce ciphertext wrap_nonce wrapped_dek)" for b
    using assms(2) encrypted written by (auto simp: library_laws_def)
  have lengths: "length nonce = 12" "length wrap_nonce = 12"
    using drawn_length [OF assms(4)] nonces by auto
  show ?thesis
    using assms(3) laws lengths deserialize_written [OF assms(2) plaintext assms(5)]
    by (cases "validate_vault_data L data")
      (simp_all add: open_envelope_def envelope_of_def decode_fixed_def unwrap_dek_def derive_key_def
        keys_of_passphrase_def VAULT_ENVELOPE_VERSION_def migrate_vault_data_def
        VAULT_DATA_SCHEMA_VERSION_def Let_def)
qed

text \<open>The application after a crash: nothing in memory, one of the directories, a disk without faults.\<close>

definition restarted :: "dir \<Rightarrow> 'w \<Rightarrow> 'w vault" where
  "restarted dir w =
     \<lparr>vt_unlocked = None,
      vt_disk = \<lparr>dk_now = dir, dk_images = [dir], dk_history = [], dk_fault_at = (\<lambda>_. None), dk_count = 0\<rparr>,
      vt_world = w\<rparr>"

lemma recovered_file:
  assumes "vault_file dir = Some file"
  shows "\<exists>s. vault_recover_interrupted_write (restarted dir w) = (Inr (), s) \<and> vt_unlocked s = None
    \<and> vt_world s = w \<and> dk_now (vt_disk s) StateFile = Some file \<and> dk_fault_at (vt_disk s) = (\<lambda>_. None)"
  using assms
  by (auto simp: restarted_def vault_recover_interrupted_write_def in_vault_disk_def fs_rename_def
      fs_remove_file_def fs_exists_def fs_change_def Let_def vault_file_def split: option.splits)

lemma unlock_sealed:
  assumes "vault_file dir = Some (Stable bytes)" "sealed L W u data bytes" "library_laws L J data"
    and "keys_of_passphrase L passphrase u" "draws_lengths W" "12 \<le> length passphrase"
    and "current_data data"
  shows "\<exists>t. vault_unlock L W (\<lambda>s. (Inr (), s)) passphrase (restarted dir w) = (validate_vault_data L data, t)
    \<and> vt_unlocked t = (case validate_vault_data L data of Inl _ \<Rightarrow> None
        | Inr _ \<Rightarrow> Some (u\<lparr>uv_data := data,
            uv_auto_lock_at := fst (vo_now W w) + minutes AUTO_LOCK_MINUTES\<rparr>))"
proof -
  obtain s where s: "vault_recover_interrupted_write (restarted dir w) = (Inr (), s)"
      "vt_unlocked s = None" "vt_world s = w" "dk_now (vt_disk s) StateFile = Some (Stable bytes)"
      "dk_fault_at (vt_disk s) = (\<lambda>_. None)"
    using recovered_file [OF assms(1), of w] by (elim exE conjE) (rule that)
  define d where "d = snd (fs_read StateFile (vt_disk s))"
  have "fst (fs_read StateFile (vt_disk s)) = Inr bytes"
    unfolding fs_read_def fs_change_def Let_def by (simp add: s(4,5))
  then have d: "read_vault_file s = (Inr bytes, s\<lparr>vt_disk := d\<rparr>)"
    unfolding d_def read_vault_file_def by (cases "fs_read StateFile (vt_disk s)") simp
  let ?at = "fst (vo_now W w) + minutes AUTO_LOCK_MINUTES"
  have now: "auto_lock_time W (s\<lparr>vt_disk := d\<rparr>) = (?at, s\<lparr>vt_disk := d, vt_world := snd (vo_now W w)\<rparr>)"
    using s(3) by (simp add: auto_lock_time_def draw_time_def split: prod.split)
  have unlocked: "\<lparr>uv_dek = uv_dek u, uv_kek = uv_kek u, uv_salt = uv_salt u, uv_data = data, uv_auto_lock_at = ?at\<rparr>
      = u\<lparr>uv_data := data, uv_auto_lock_at := ?at\<rparr>"
    by (cases u) simp
  show ?thesis
    unfolding vault_unlock_def Let_def using assms(6)
    by (cases "validate_vault_data L data")
       (simp_all add: validate_passphrase_def s(1,2) d now open_sealed [OF assms(2,3,4,5,7)] unlocked)
qed

end
