(* ===== verification/Vault_Samples.thy ===== *)
theory Vault_Samples
  imports Vault_Opening
begin

text \<open>
  A concrete Vault for the witnesses: libraries that leave bytes as they are, a world that counts its
  draws, and two stored Silos, a locked managed one and a stock one.
\<close>

section \<open>Parameters\<close>

definition sample_keys :: unlocked_vault where
  "sample_keys = \<lparr>uv_dek = replicate 32 2, uv_kek = replicate 32 3, uv_salt = replicate 16 1,
     uv_data = vault_data_empty, uv_auto_lock_at = 10000000000000\<rparr>"

definition sample_envelope :: vault_envelope where
  "sample_envelope =
     \<lparr>ven_version = VAULT_ENVELOPE_VERSION, ven_kdf = ARGON2ID, ven_salt = replicate 16 1,
      ven_wrap_nonce = Some (replicate 12 0), ven_wrapped_dek = Some (replicate 32 2),
      ven_nonce = replicate 12 0, ven_ciphertext = [1]\<rparr>"

definition sample_writer :: json_writer where
  "sample_writer = \<lparr>jw_time = (\<lambda>_. []), jw_template = (\<lambda>_. JNull), jw_endpoint = (\<lambda>_. JNull),
     jw_backend = (\<lambda>_. JNull), jw_result = (\<lambda>_. JNull), jw_receipt = (\<lambda>_. JNull),
     jw_evidence = (\<lambda>_. JNull), jw_run = (\<lambda>_. JNull)\<rparr>"

text \<open>All data serialize to one byte, which reads back as the data \<open>stored\<close>.\<close>

definition sample_library :: "vault_data \<Rightarrow> vault_library" where
  "sample_library stored =
     \<lparr>vl_parse_url = (\<lambda>_. Inl []), vl_b64_encode = (\<lambda>bytes. bytes), vl_b64_decode = Some,
      vl_sha256_hex = (\<lambda>_. []), vl_strict_json = (\<lambda>_. None), vl_template_value = (\<lambda>_. Inr JNull),
      vl_record_value = (\<lambda>_. Inr JNull), vl_record_to_vec = (\<lambda>_. Inr []),
      vl_data_to_vec = (\<lambda>_. Inr [1]),
      vl_json_from_slice = (\<lambda>_. Some (vault_data_to_value sample_writer stored)),
      vl_data_from_value = (\<lambda>_. Some stored),
      vl_envelope_to_vec = (\<lambda>envelope. if envelope = sample_envelope then Inr [0] else Inl []),
      vl_envelope_from_slice = (\<lambda>_. Some sample_envelope),
      vl_argon2 = (\<lambda>_ _. Some (replicate 32 3)), vl_encrypt = (\<lambda>_ _ plaintext. Some plaintext),
      vl_decrypt = (\<lambda>_ _ ciphertext. Some ciphertext)\<rparr>"

definition sample_os :: "nat vault_os" where
  "sample_os =
     \<lparr>vo_now = (\<lambda>w. (int w, Suc w)), vo_new_v4 = (\<lambda>w. (Uuid 50, Suc w)),
      vo_random_bytes = (\<lambda>n w. (replicate n 0, w)), vo_create_dir_all = (\<lambda>_ w. (Inr (), w)),
      vo_remove_dir_all = (\<lambda>_ w. (Inr (), w)), vo_rename = (\<lambda>_ _ w. (Inr (), w)),
      vo_exists = (\<lambda>_ _. False), vo_is_file = (\<lambda>_ _. True), vo_path_kind = (\<lambda>_ _. Plain),
      vo_check_tree = (\<lambda>_ w. (Inr (), w)), vo_remove_cache_links = (\<lambda>_ w. (Inr (), w)),
      vo_metadata = (\<lambda>_ _. Inr (True, 1)), vo_read = (\<lambda>_ w. (Inr [0], w)),
      vo_write_new = (\<lambda>_ _ w. (Inr (), w)),
      vo_inspect_browser = (\<lambda>_ path w. (Inr \<lparr>bri_resolved_path = path, bri_version = [49]\<rparr>, w)),
      vo_acquire_lease = (\<lambda>_ w. (Inr (), w))\<rparr>"

section \<open>States\<close>

definition managed_sample :: silo where
  "managed_sample =
     \<lparr>sil_id = Uuid 1, sil_schema_version = SILO_SCHEMA_VERSION, sil_name = [97],
      sil_color = [35, 48, 48, 48, 48, 48, 48], sil_browser = None, sil_execution_target = Local,
      sil_profile_directory = [47], sil_network_profile = network_profile.Direct False,
      sil_engine = silo_engine_config.Camoufox None [] None, sil_seed_reference = Uuid 11,
      sil_created_at = 0, sil_identity_locked_at = Some 5, sil_archived_at = None\<rparr>"

definition stock_sample :: silo where
  "stock_sample =
     \<lparr>sil_id = Uuid 2, sil_schema_version = SILO_SCHEMA_VERSION, sil_name = [98],
      sil_color = [35, 48, 48, 48, 48, 48, 48],
      sil_browser = Some \<lparr>brd_kind = Chrome, brd_executable_path = [47], brd_version = Some [49]\<rparr>,
      sil_execution_target = Local, sil_profile_directory = [47, 98],
      sil_network_profile = network_profile.Direct False, sil_engine = Stock,
      sil_seed_reference = Uuid 12, sil_created_at = 0, sil_identity_locked_at = None,
      sil_archived_at = None\<rparr>"

definition sample_data :: vault_data where
  "sample_data = vault_data_empty\<lparr>vd_silos := [managed_sample, stock_sample],
     vd_seed_material := [(Uuid 11, replicate 32 0), (Uuid 12, replicate 32 0)]\<rparr>"

definition sample_dir :: dir where
  "sample_dir = (\<lambda>_. None)(StateFile := Some (Stable [9]))"

text \<open>An open Vault whose file is that directory's, on a disk without faults.\<close>

definition open_sample :: "vault_data \<Rightarrow> nat vault" where
  "open_sample data = (restarted sample_dir 0)\<lparr>vt_unlocked := Some (sample_keys\<lparr>uv_data := data\<rparr>)\<rparr>"

section \<open>Facts\<close>

lemma sample_laws: "library_laws (sample_library data) sample_writer data"
  by (simp add: library_laws_def sample_library_def)

lemma sample_keys_of_passphrase: "keys_of_passphrase (sample_library data) passphrase sample_keys"
  by (simp add: keys_of_passphrase_def sample_library_def sample_keys_def)

lemma sample_draws: "draws_lengths sample_os"
  by (simp add: draws_lengths_def sample_os_def)

lemma sample_sealed: "sealed (sample_library stored) sample_os sample_keys data [0]"
proof (rule sealedI [where s = "restarted sample_dir 0" and t = "restarted sample_dir 0"])
  show "vl_data_to_vec (sample_library stored) data = Inr [1]"
    by (simp add: sample_library_def)
qed (simp_all add: sample_library_def sample_os_def sample_keys_def envelope_of_def sample_envelope_def
    draw_bytes_def)

lemma sample_data_current: "vd_schema_version sample_data = VAULT_DATA_SCHEMA_VERSION"
  by (simp add: sample_data_def vault_data_empty_def)

lemma sample_names: "is_ok (validate_silo_name [97])" "is_ok (validate_silo_name [98])"
  "is_hex_color [35, 48, 48, 48, 48, 48, 48]"
  by (simp_all add: validate_silo_name_def str_trim_def is_whitespace_def is_hex_color_def str_len_def
      str_bytes_def utf8_bytes_def is_ascii_hexdigit_def is_ascii_digit_def)

lemma managed_sample_valid: "valid_stored_silo L managed_sample"
  by (simp add: valid_stored_silo_def managed_sample_def sample_names str_len_def str_bytes_def utf8_bytes_def
      validate_engine_def validate_engine_configuration_def)

lemma stock_sample_valid: "valid_stored_silo L stock_sample"
  by (simp add: valid_stored_silo_def stock_sample_def sample_names str_len_def str_bytes_def utf8_bytes_def
      validate_engine_def validate_engine_configuration_def valid_stored_browser_def is_control_def)

lemma sample_silo_fields [simp]:
  "sil_id managed_sample = Uuid 1" "sil_id stock_sample = Uuid 2"
  "sil_seed_reference managed_sample = Uuid 11" "sil_seed_reference stock_sample = Uuid 12"
  "sil_engine managed_sample = silo_engine_config.Camoufox None [] None" "sil_engine stock_sample = Stock"
  "sil_network_profile managed_sample = network_profile.Direct False"
  "sil_network_profile stock_sample = network_profile.Direct False"
  "sil_execution_target managed_sample = Local" "sil_execution_target stock_sample = Local"
  "sil_profile_directory managed_sample = [47]" "sil_profile_directory stock_sample = [47, 98]"
  "sil_identity_locked_at managed_sample = Some 5" "sil_identity_locked_at stock_sample = None"
  by (simp_all add: managed_sample_def stock_sample_def)

lemma sample_data_fields [simp]:
  "vd_silos sample_data = [managed_sample, stock_sample]"
  "vd_seed_material sample_data = [(Uuid 11, replicate 32 0), (Uuid 12, replicate 32 0)]"
  "vd_identity_artifacts sample_data = []" "vd_proxy_credentials sample_data = []"
  "vd_mihomo_controller_secrets sample_data = []" "vd_network_evidence sample_data = []"
  "vd_recent_runs sample_data = []" "vd_remote_control_plane sample_data = remote_vault_state_default"
  by (simp_all add: sample_data_def vault_data_empty_def)

lemma sample_remote_valid: "vd_remote_control_plane d = remote_vault_state_default \<Longrightarrow> valid_remote_control_plane L d"
  by (simp add: valid_remote_control_plane_def remote_vault_state_default_def Let_def from_bindings_def is_ok_def)

lemma sample_backed:
  "silo_is_backed (sample_library stored) sample_data managed_sample"
  "silo_is_backed (sample_library stored) sample_data stock_sample"
  by (simp_all add: silo_is_backed_def stored_seed_def sample_library_def mihomo_controller_secret_reference_def)

lemma sample_data_valid: "validate_vault_data (sample_library stored) sample_data = Inr ()"
  by (simp add: validate_vault_data_def managed_sample_valid
      stock_sample_valid within_vault_limits_def vault_limits valid_stored_secrets_def sample_backed
      valid_stored_evidence_def validate_identity_artifacts_def validate_silo_artifact_def
      validate_remote_control_plane_def sample_remote_valid)

lemma sample_unlocked [simp]:
  "vt_unlocked (open_sample data) = Some (sample_keys\<lparr>uv_data := data\<rparr>)"
  "vt_world (open_sample data) = 0"
  by (simp_all add: open_sample_def restarted_def)

text \<open>The steps of a command on these parameters.\<close>

lemmas sample_access =
  unlocked_without_activity_def expire_if_needed_def expire_if_needed_at_def draw_time_def
  unlocked_mut_for_activity_def record_activity_def minutes_def seconds_def AUTO_LOCK_MINUTES_def
  silo_by_id_def reading_def acquire_silo_profile_lease_def in_vault_world_def stored_silo_def Let_def

lemmas sample_commit =
  commit_change_def change_silo_def commit_data_def vault_persist_data_def replace_data_def
  vault_recover_interrupted_write_def vault_disk_defs draw_bytes_def fs_exists_def

definition sample_renamed :: "nat vault" where
  "sample_renamed = vault_run (sample_library sample_data) sample_os [] [RenameSilo (Uuid 1) [99] False]
     (open_sample sample_data)"

lemma sample_rename:
  "vault_data_of (vault_run (sample_library stored) sample_os [] [RenameSilo (Uuid 1) [99] False]
     (open_sample sample_data)) =
   Some (sample_data\<lparr>vd_silos := [managed_sample\<lparr>sil_name := [99]\<rparr>, stock_sample]\<rparr>)"
  by (simp add: rename_silo_def domain_refusal_def validate_silo_name_def str_trim_def is_whitespace_def
    sample_access sample_commit sample_os_def sample_library_def sample_keys_def open_sample_def restarted_def
    sample_dir_def sample_envelope_def vault_data_of_def)

end
