(* ===== verification/Vault_Identity.thy ===== *)
theory Vault_Identity
  imports Vault_Machine
begin

text \<open>
  What the changes of the Vault keep of one Silo: how each acts on the Silo that is stored under an
  id and on the seeds, and the identity of a Silo that has been locked, which no command changes.
\<close>

section \<open>The stored Silo after a change\<close>

lemma change_silo_at:
  assumes "change_silo silo_id f d = Inr d'" and "\<And>s. sil_id (f s) = sil_id s"
  shows "stored_silo i d' = (if i = silo_id then map_option f (stored_silo i d) else stored_silo i d)"
proof (cases "i = silo_id")
  case True
  then show ?thesis using change_silo_stored [OF assms] by auto
next
  case False
  from assms(1) obtain silos where "change_first (\<lambda>s. sil_id s = silo_id) f (vd_silos d) = Some silos"
      "d' = d\<lparr>vd_silos := silos\<rparr>"
    by (auto simp: change_silo_def)
  with False assms(2) show ?thesis
    by (auto simp: stored_silo_def intro!: change_first_other)
qed

lemma change_silo_rest:
  assumes "change_silo silo_id f d = Inr d'"
  shows "vd_seed_material d' = vd_seed_material d"
    and "vd_identity_artifacts d' = vd_identity_artifacts d"
    and "vd_proxy_credentials d' = vd_proxy_credentials d"
    and "vd_mihomo_controller_secrets d' = vd_mihomo_controller_secrets d"
    and "vd_network_evidence d' = vd_network_evidence d" and "vd_recent_runs d' = vd_recent_runs d"
    and "vd_remote_control_plane d' = vd_remote_control_plane d"
    and "vd_schema_version d' = vd_schema_version d"
  using assms by (auto simp: change_silo_def)

lemma change_first_set:
  "change_first p f xs = Some ys \<Longrightarrow> y \<in> set ys \<Longrightarrow> y \<in> set xs \<or> (\<exists>x. find p xs = Some x \<and> y = f x)"
  by (induction xs arbitrary: ys) (auto split: if_splits)

lemma change_silo_set:
  "change_silo silo_id f d = Inr d' \<Longrightarrow> s \<in> set (vd_silos d')
    \<Longrightarrow> s \<in> set (vd_silos d) \<or> (\<exists>x. stored_silo silo_id d = Some x \<and> s = f x)"
  by (auto simp: change_silo_def stored_silo_def dest: change_first_set)

lemma find_member: "find p xs = Some x \<Longrightarrow> x \<in> set xs \<and> p x"
  by (induction xs) (auto split: if_splits)

lemma stored_silo_member: "stored_silo silo_id d = Some s \<Longrightarrow> s \<in> set (vd_silos d) \<and> sil_id s = silo_id"
  unfolding stored_silo_def by (drule find_member) simp

lemma remove_unreferenced_seeds [simp]:
  "vd_seed_material (remove_unreferenced_secrets a b d) = vd_seed_material d"
  "vd_seed_material (remove_unreferenced_identity_artifact c d) = vd_seed_material d"
  "vd_seed_material (insert_secrets p d) = vd_seed_material d"
  "vd_seed_material (insert_artifact artifact d) = vd_seed_material d"
  by (auto simp: remove_unreferenced_secrets_def remove_unreferenced_identity_artifact_def
      insert_secrets_def insert_artifact_def Let_def split: option.split)

lemma find_append: "find p (xs @ ys) = (case find p xs of None \<Rightarrow> find p ys | Some x \<Rightarrow> Some x)"
  by (induction xs) auto

lemma position_find:
  "position p xs = Some n \<Longrightarrow> n < length xs \<and> find p xs = Some (xs ! n) \<and> p (xs ! n)"
  by (induction xs arbitrary: n) (auto split: if_splits)

lemma position_other:
  "position p xs = Some n \<Longrightarrow> (\<And>x. q x \<Longrightarrow> \<not> p x) \<Longrightarrow> find q (take n xs @ drop (Suc n) xs) = find q xs"
  by (induction xs arbitrary: n) (auto split: if_splits)

section \<open>The identity of a Silo\<close>

text \<open>What a lock freezes, apart from the seed itself.\<close>

definition same_silo_identity :: "silo \<Rightarrow> silo \<Rightarrow> bool" where
  "same_silo_identity s s' \<longleftrightarrow>
     sil_identity_locked_at s' = sil_identity_locked_at s
     \<and> sil_seed_reference s' = sil_seed_reference s
     \<and> sil_execution_target s' = sil_execution_target s
     \<and> sil_created_at s' = sil_created_at s
     \<and> silo_adapter_id s' = silo_adapter_id s
     \<and> map_option brd_kind (sil_browser s') = map_option brd_kind (sil_browser s)
     \<and> engine_identity_template (sil_engine s') = engine_identity_template (sil_engine s)
     \<and> (is_stock (sil_engine s) \<longrightarrow> sil_engine s' = sil_engine s)"

lemma same_silo_identity_refl: "same_silo_identity s s"
  by (simp add: same_silo_identity_def)

lemma same_silo_identity_trans: "same_silo_identity a b \<Longrightarrow> same_silo_identity b c \<Longrightarrow> same_silo_identity a c"
  unfolding same_silo_identity_def by auto

text \<open>A locked Silo with a browser or a managed engine.\<close>

definition frozen :: "silo \<Rightarrow> bool" where
  "frozen s \<longleftrightarrow> sil_identity_locked_at s \<noteq> None \<and> silo_adapter_id s \<noteq> None"

lemma frozen_same: "frozen s \<Longrightarrow> same_silo_identity s s' \<Longrightarrow> frozen s'"
  by (auto simp: frozen_def same_silo_identity_def)

text \<open>No Silo under another id has the seed reference; and what a step keeps of a frozen Silo.\<close>

definition sole :: "uuid \<Rightarrow> uuid \<Rightarrow> vault_data \<Rightarrow> bool" where
  "sole i reference d \<longleftrightarrow> (\<forall>x \<in> set (vd_silos d). sil_seed_reference x = reference \<longrightarrow> sil_id x = i)"

definition keeps_frozen :: "uuid \<Rightarrow> uuid \<Rightarrow> vault_data \<Rightarrow> vault_data \<Rightarrow> bool" where
  "keeps_frozen i reference d d' \<longleftrightarrow>
     (\<forall>s. stored_silo i d = Some s \<and> frozen s \<and> sil_seed_reference s = reference \<and> sole i reference d
        \<longrightarrow> (\<exists>s'. stored_silo i d' = Some s' \<and> same_silo_identity s s') \<and> sole i reference d'
          \<and> map_of (vd_seed_material d') reference = map_of (vd_seed_material d) reference)"

lemma keeps_frozen_trans:
  assumes "keeps_frozen i reference d d'" "keeps_frozen i reference d' d''"
  shows "keeps_frozen i reference d d''"
  unfolding keeps_frozen_def
proof (intro allI impI, elim conjE)
  fix s
  assume s: "stored_silo i d = Some s" "frozen s" "sil_seed_reference s = reference" "sole i reference d"
  with assms(1) obtain s' where s': "stored_silo i d' = Some s'" "same_silo_identity s s'" "sole i reference d'"
      "map_of (vd_seed_material d') reference = map_of (vd_seed_material d) reference"
    unfolding keeps_frozen_def by blast
  moreover have "frozen s'" "sil_seed_reference s' = reference"
    using s s' frozen_same by (auto simp: same_silo_identity_def)
  ultimately show "(\<exists>s'. stored_silo i d'' = Some s' \<and> same_silo_identity s s') \<and> sole i reference d''
      \<and> map_of (vd_seed_material d'') reference = map_of (vd_seed_material d) reference"
    using assms(2) unfolding keeps_frozen_def by (metis same_silo_identity_trans)
qed

lemma keeps_frozen_cong:
  "vd_silos d' = vd_silos d \<Longrightarrow> vd_seed_material d' = vd_seed_material d \<Longrightarrow> keeps_frozen i reference d d'"
  by (auto simp: keeps_frozen_def sole_def stored_silo_def intro: same_silo_identity_refl)

lemma keeps_frozen_silo:
  assumes "change_silo silo_id f d = Inr d'"
    and "\<And>x. sil_id (f x) = sil_id x" "\<And>x. sil_seed_reference (f x) = sil_seed_reference x"
    and "\<And>x. stored_silo silo_id d = Some x \<Longrightarrow> frozen x \<Longrightarrow> same_silo_identity x (f x)"
  shows "keeps_frozen i reference d d'"
  unfolding keeps_frozen_def
proof (intro allI impI conjI, elim conjE)
  fix s
  assume "stored_silo i d = Some s" "frozen s"
  then show "\<exists>s'. stored_silo i d' = Some s' \<and> same_silo_identity s s'"
    using change_silo_at [OF assms(1,2), of i] assms(4) by (auto simp: same_silo_identity_refl)
next
  fix s
  assume "stored_silo i d = Some s \<and> frozen s \<and> sil_seed_reference s = reference \<and> sole i reference d"
  then show "sole i reference d'"
    using change_silo_set [OF assms(1)] assms(2,3) stored_silo_member unfolding sole_def by metis
qed (simp add: change_silo_rest [OF assms(1)])

section \<open>Every command but a deletion keeps a frozen Silo\<close>

lemma keeps_frozen_network:
  "change_network silo_id prepared d = Inr d' \<Longrightarrow> keeps_frozen i reference d d'"
  unfolding change_network_def
  by (auto intro!: keeps_frozen_trans [OF keeps_frozen_silo keeps_frozen_cong]
      simp: same_silo_identity_def silo_adapter_id_def)

lemma checked_update_browser:
  assumes "checked_update L W current input engine browser" "frozen current"
  shows "map_option brd_kind browser = map_option brd_kind (sil_browser current)"
  using assms
  by (auto simp: checked_update_def updates_browser_def inspects_def frozen_def silo_adapter_id_def
      ensure_identity_update_allowed_def split: if_splits option.splits)

lemma checked_update_engine:
  assumes "ensure_identity_update_allowed L current kind (Some engine) = Inr ()" "frozen current"
    and "is_stock (sil_engine current)"
  shows "engine = sil_engine current"
  using assms
  by (cases engine; cases "sil_engine current"; cases "browser_kind_or_chrome current")
     (auto simp: frozen_def ensure_identity_update_allowed_def engine_identity_changed_def split: if_splits)

lemma keeps_frozen_configuration:
  assumes "stored_silo silo_id d = Some current" "checked_update L W current input engine browser"
    and "change_configuration silo_id input browser engine prepared d = Inr d'"
  shows "keeps_frozen i reference d d'"
proof -
  let ?f = "\<lambda>silo. (rename_metadata input silo)\<lparr>sil_browser := browser,
    sil_engine := (case engine of None \<Rightarrow> sil_engine silo | Some engine \<Rightarrow> engine)\<rparr>"
  obtain d1 where d1: "change_silo silo_id ?f d = Inr d1"
      "(case prepared of None \<Rightarrow> Inr d1 | Some prepared \<Rightarrow> change_network silo_id prepared d1) = Inr d'"
    using assms(3) by (auto simp: change_configuration_def)
  have "same_silo_identity x (?f x)" if "stored_silo silo_id d = Some x" "frozen x" for x
    using that assms(1,2) checked_update_browser [OF assms(2)] checked_update_engine [of L current]
    by (cases engine; cases "sil_browser x"; cases browser)
       (auto simp: same_silo_identity_def silo_adapter_id_def rename_metadata_def checked_update_def)
  then have "keeps_frozen i reference d d1"
    by (intro keeps_frozen_silo [OF d1(1)]) (simp_all add: rename_metadata_def)
  moreover have "keeps_frozen i reference d1 d'"
    using d1(2) by (cases prepared) (auto intro: keeps_frozen_network keeps_frozen_cong)
  ultimately show ?thesis by (rule keeps_frozen_trans)
qed

lemma keeps_frozen_bind:
  assumes "bind_artifact silo_id artifact edit d = Inr d'"
    and "\<And>x. sil_id (edit x) = sil_id x" "\<And>x. sil_seed_reference (edit x) = sil_seed_reference x"
    and "\<And>x. frozen x \<Longrightarrow> same_silo_identity x (edit x)" "\<And>x. sil_browser (edit x) = sil_browser x"
  shows "keeps_frozen i reference d d'"
proof -
  let ?f = "\<lambda>silo. (edit silo)\<lparr>sil_engine := silo_engine_config.Camoufox None [] (Some (binding_of artifact))\<rparr>"
  obtain current where c: "stored_silo silo_id d = Some current" "is_camoufox (sil_engine current)"
      "change_silo silo_id ?f d = Inr d'"
    using assms(1) by (auto simp: bind_artifact_def split: if_splits)
  have "same_silo_identity current (?f current)" if "frozen current"
    using assms(4) [OF that] c(2)
    by (cases "sil_engine current") (auto simp: same_silo_identity_def silo_adapter_id_def)
  with c assms(2,3) show ?thesis
    by (intro keeps_frozen_silo [OF c(3)]) auto
qed

lemma keeps_frozen_add:
  assumes "sil_seed_reference silo \<noteq> reference"
  shows "keeps_frozen i reference d (add_silo silo seed prepared d)"
  using assms by (auto simp: keeps_frozen_def add_silo_def Let_def stored_silo_def sole_def find_append
      insert_secrets_def update_conv' intro: same_silo_identity_refl)

lemma keeps_frozen_remove:
  assumes "remove_silo silo_id d = Inr d'" "silo_id \<noteq> i"
  shows "keeps_frozen i reference d d'"
  unfolding keeps_frozen_def
proof (intro allI impI, elim conjE)
  fix s
  assume s: "stored_silo i d = Some s" "frozen s" "sil_seed_reference s = reference" "sole i reference d"
  obtain n where n: "position (\<lambda>s. sil_id s = silo_id) (vd_silos d) = Some n"
      "vd_silos d' = take n (vd_silos d) @ drop (Suc n) (vd_silos d)"
      "vd_seed_material d' = AList.delete (sil_seed_reference (vd_silos d ! n)) (vd_seed_material d)"
    using assms(1) by (auto simp: remove_silo_def Let_def ok_or_def split: option.splits)
  have "sil_seed_reference (vd_silos d ! n) \<noteq> reference"
    using s(4) position_find [OF n(1)] assms(2) unfolding sole_def by (metis nth_mem)
  moreover have "find (\<lambda>s. sil_id s = i) (vd_silos d') = find (\<lambda>s. sil_id s = i) (vd_silos d)"
    unfolding n(2) using assms(2) by (intro position_other [OF n(1)]) auto
  moreover have "set (vd_silos d') \<subseteq> set (vd_silos d)"
    unfolding n(2) by (auto dest: in_set_takeD in_set_dropD)
  ultimately show "(\<exists>s'. stored_silo i d' = Some s' \<and> same_silo_identity s s') \<and> sole i reference d'
      \<and> map_of (vd_seed_material d') reference = map_of (vd_seed_material d) reference"
    using s n(3) by (auto simp: stored_silo_def sole_def delete_conv' intro: same_silo_identity_refl)
qed

fun deletes :: "uuid \<Rightarrow> vault_command \<Rightarrow> bool" where
  "deletes i (DeleteSilo silo_id _ _) \<longleftrightarrow> silo_id = i"
| "deletes i _ \<longleftrightarrow> False"

lemma keeps_frozen_metadata: "chg_metadata silo_id input d d' \<Longrightarrow> keeps_frozen i reference d d'"
  by (auto simp: chg_metadata_def rename_metadata_def same_silo_identity_def silo_adapter_id_def
      elim!: keeps_frozen_silo)

lemma keeps_frozen_update:
  assumes "chg_update_silo L W silo_id input d d'"
  shows "keeps_frozen i reference d d'"
  using assms unfolding chg_update_silo_def
proof (elim disjE exE conjE)
  fix current browser
  let ?f = "\<lambda>s. (rename_metadata input s)\<lparr>sil_browser := browser\<rparr>"
  assume c: "stored_silo silo_id d = Some current" "checked_update L W current input None browser"
    "change_silo silo_id ?f d = Inr d'"
  have "same_silo_identity current (?f current)" if "frozen current"
    using checked_update_browser [OF c(2) that]
    by (cases "sil_browser current"; cases browser)
       (auto simp: same_silo_identity_def silo_adapter_id_def rename_metadata_def)
  with c(1) show ?thesis
    by (intro keeps_frozen_silo [OF c(3)]) (auto simp: rename_metadata_def)
qed (rule keeps_frozen_metadata)

lemma keeps_frozen_recheck: "chg_recheck W silo_id d d' \<Longrightarrow> keeps_frozen i reference d d'"
  unfolding chg_recheck_def set_browser_version_def
  by (auto elim!: keeps_frozen_silo simp: same_silo_identity_def silo_adapter_id_def)

lemma keeps_frozen_engine: "chg_engine L silo_id engine d d' \<Longrightarrow> keeps_frozen i reference d d'"
  unfolding chg_engine_def
  by (auto elim!: keeps_frozen_silo dest: checked_update_engine simp: same_silo_identity_def silo_adapter_id_def)

lemma keeps_frozen_replace:
  assumes "chg_replace_identity L silo_id artifact seed d d'"
  shows "keeps_frozen i reference d d'"
proof -
  obtain current kept bound and old :: artifact_binding where c: "stored_silo silo_id d = Some current"
      "sil_identity_locked_at current = None" "bind_artifact silo_id kept (\<lambda>silo. silo) d = Inr bound"
      and d': "d' = remove_unreferenced_identity_artifact (Some (cab_artifact_id old))
        (insert_artifact kept (case seed of None \<Rightarrow> bound
          | Some seed \<Rightarrow> bound\<lparr>vd_seed_material := AList.update (sil_seed_reference current)
              (vl_b64_encode L seed) (vd_seed_material bound)\<rparr>))"
    using assms unfolding chg_replace_identity_def by blast
  have seeds: "vd_silos d' = vd_silos bound"
      "x \<noteq> sil_seed_reference current \<Longrightarrow> map_of (vd_seed_material d') x = map_of (vd_seed_material bound) x" for x
    by (cases seed; simp add: d' update_conv')+
  have bound: "keeps_frozen i reference d bound"
    by (rule keeps_frozen_bind [OF c(3)]) (simp_all add: same_silo_identity_refl)
  show ?thesis
    unfolding keeps_frozen_def
  proof (intro allI impI)
    fix s
    assume s: "stored_silo i d = Some s \<and> frozen s \<and> sil_seed_reference s = reference \<and> sole i reference d"
    have "sil_seed_reference current \<noteq> reference"
    proof
      assume "sil_seed_reference current = reference"
      then have "silo_id = i" using s stored_silo_member [OF c(1)] unfolding sole_def by metis
      then show False using s c(1,2) by (auto simp: frozen_def)
    qed
    then show "(\<exists>s'. stored_silo i d' = Some s' \<and> same_silo_identity s s') \<and> sole i reference d'
        \<and> map_of (vd_seed_material d') reference = map_of (vd_seed_material d) reference"
      using bound s seeds unfolding keeps_frozen_def stored_silo_def sole_def by auto
  qed
qed

lemma change_rebound_bound:
  assumes "change_rebound silo_id metadata prepared artifact current d = Inr d'"
  shows "\<exists>bound. bind_artifact silo_id artifact (\<lambda>silo. (rename_optional metadata silo)
       \<lparr>sil_network_profile := pnw_profile prepared\<rparr>) d = Inr bound
    \<and> vd_silos d' = vd_silos bound \<and> vd_seed_material d' = vd_seed_material bound"
  using assms unfolding change_rebound_def by auto

lemma keeps_frozen_rebind:
  assumes "chg_rebind L silo_id metadata input artifact d d'"
  shows "keeps_frozen i reference d d'"
proof -
  obtain current kept prepared where "change_rebound silo_id metadata prepared kept current d = Inr d'"
    using assms unfolding chg_rebind_def by blast
  then obtain bound where
    "bind_artifact silo_id kept (\<lambda>silo. (rename_optional metadata silo)
       \<lparr>sil_network_profile := pnw_profile prepared\<rparr>) d = Inr bound"
    "vd_silos d' = vd_silos bound" "vd_seed_material d' = vd_seed_material bound"
    using change_rebound_bound by blast
  then show ?thesis
    by (elim keeps_frozen_trans [OF keeps_frozen_bind keeps_frozen_cong])
       (auto simp: same_silo_identity_def silo_adapter_id_def rename_optional_def rename_metadata_def
         split: option.split)
qed

lemma change_keeps_frozen:
  assumes "command_change L W base c d d'" "\<not> deletes i c" "\<forall>w. fst (vo_new_v4 W w) \<noteq> reference"
  shows "keeps_frozen i reference d d'"
proof (cases c)
  case (MarkIdentityLocked silo_id)
  then show ?thesis
    using assms(1) by (auto simp: chg_mark_locked_def frozen_def elim!: keeps_frozen_silo)
next
  case (CreateSilo input)
  then show ?thesis
    using assms(1,3) by (auto simp: chg_create_def new_silo_def intro!: keeps_frozen_add)
next
  case (CreateManagedSilo input artifact seed)
  then show ?thesis
    using assms(1,3)
    by (auto simp: chg_create_managed_def new_managed_silo_def
        intro!: keeps_frozen_trans [OF keeps_frozen_add keeps_frozen_cong])
qed (use assms in \<open>auto simp: chg_rename_def chg_archive_def chg_network_def chg_delete_def chg_import_def
    chg_clear_def chg_remote_def chg_begin_run_def chg_update_run_def insert_recent_run_def
    same_silo_identity_def silo_adapter_id_def chg_configuration_def
    intro: keeps_frozen_cong keeps_frozen_remove keeps_frozen_network keeps_frozen_configuration
      keeps_frozen_metadata keeps_frozen_update keeps_frozen_recheck keeps_frozen_engine
      keeps_frozen_replace keeps_frozen_rebind elim!: keeps_frozen_silo\<close>)

end
