(* ===== verification/Vault_Properties.thy ===== *)
theory Vault_Properties
  imports Vault_Samples Vault_Identity
begin

text \<open>
  The properties of the encrypted Vault: its commands settle as the changes that specify them, no
  crash exposes anything else, what was written opens again, and what each kind of change keeps.
\<close>

section \<open>Commands and crashes\<close>


text \<open>
  C4. Crash safety over runs. Through any run of commands, with faults of the disk at any step, every
  directory that a crash may expose holds a file that was there before the run, or data that some
  sequence of the commands' specified changes reaches from the data before the run, sealed under the
  keys of the Vault.
\<close>
theorem crashes_expose_reached_data:
  assumes "dir \<in> shown (vault_run L W base cs s)"
  shows "vault_file dir \<in> vault_file ` shown s
    \<or> (\<exists>u d. vt_unlocked s = Some u \<and> reached L W base cs (uv_data u) d
          \<and> holds_sealed L W u d (vault_file dir))"
  using run_keeps_invariant [of L W base cs s] assms unfolding run_invariant_def exposes_def by blast

theorem crashes_expose_reached_data_witness:
  "vault_file (dk_now (vt_disk sample_renamed)) \<in> vault_file ` shown (open_sample sample_data)
    \<or> (\<exists>u d. vt_unlocked (open_sample sample_data) = Some u
          \<and> reached (sample_library sample_data) sample_os [] [RenameSilo (Uuid 1) [99] False] (uv_data u) d
          \<and> holds_sealed (sample_library sample_data) sample_os u d (vault_file (dk_now (vt_disk sample_renamed))))"
  unfolding sample_renamed_def by (rule crashes_expose_reached_data) (simp add: shown_def)

section \<open>Opening again\<close>



text \<open>
  C35. Type. The JSON value that the Vault writes for valid data of the current schema has the shape that
  its own strict reader asks for, and is recognized as the current schema.
\<close>
theorem written_data_have_the_current_shape:
  assumes "validate_vault_data L data = Inr ()" "vd_schema_version data = VAULT_DATA_SCHEMA_VERSION"
  shows "validate_vault_json_shape (vault_data_to_value J data) = Inr VAULT_DATA_SCHEMA_VERSION"
  using data_shape valid_data_are_current [OF assms] by (auto simp: current_data_def)

theorem written_data_have_the_current_shape_witness:
  "validate_vault_json_shape (vault_data_to_value sample_writer sample_data) = Inr VAULT_DATA_SCHEMA_VERSION"
  by (rule written_data_have_the_current_shape [OF sample_data_valid sample_data_current])

section \<open>Locked identities\<close>

text \<open>
  C9. Invariant. Through any run of commands that does not delete it, a Silo whose identity is locked
  keeps the time of the lock, its seed reference and the seed itself, its execution target, engine
  adapter, identity template and kind of browser, and a stock engine stays as it is; provided no other
  Silo has its seed reference and the randomness never draws that reference again.
\<close>
theorem locked_identities_are_frozen:
  assumes "vault_data_of s = Some d" "vault_data_of (vault_run L W base cs s) = Some d'"
    and "stored_silo i d = Some silo" "sil_identity_locked_at silo \<noteq> None" "silo_adapter_id silo \<noteq> None"
    and "list_all (\<lambda>c. \<not> deletes i c) cs" "sole i (sil_seed_reference silo) d"
    and "\<forall>w. fst (vo_new_v4 W w) \<noteq> sil_seed_reference silo"
  shows "\<exists>silo'. stored_silo i d' = Some silo' \<and> same_silo_identity silo silo'
    \<and> map_of (vd_seed_material d') (sil_seed_reference silo) =
        map_of (vd_seed_material d) (sil_seed_reference silo)"
proof -
  let ?reference = "sil_seed_reference silo"
  have "keeps_frozen i ?reference d d'"
  proof (rule vault_run_keeps [OF assms(1,2), where P = "keeps_frozen i ?reference d"])
    fix c d1 d2
    assume "c \<in> set cs" "command_change L W base c d1 d2" "keeps_frozen i ?reference d d1"
    moreover have "keeps_frozen i ?reference d1 d2"
      using calculation(1,2) assms(6,8) by (auto simp: list_all_iff intro: change_keeps_frozen)
    ultimately show "keeps_frozen i ?reference d d2" by (blast intro: keeps_frozen_trans)
  qed (simp add: keeps_frozen_cong)
  with assms(3-5,7) show ?thesis unfolding keeps_frozen_def frozen_def by blast
qed

theorem locked_identities_are_frozen_witness:
  "\<exists>silo'. stored_silo (Uuid 1) (sample_data\<lparr>vd_silos := [managed_sample\<lparr>sil_name := [99]\<rparr>, stock_sample]\<rparr>) =
        Some silo' \<and> same_silo_identity managed_sample silo'
    \<and> map_of (vd_seed_material (sample_data\<lparr>vd_silos := [managed_sample\<lparr>sil_name := [99]\<rparr>, stock_sample]\<rparr>))
        (sil_seed_reference managed_sample) =
      map_of (vd_seed_material sample_data) (sil_seed_reference managed_sample)"
  by (rule locked_identities_are_frozen [OF _ sample_rename])
     (simp_all add: vault_data_of_def stored_silo_def silo_adapter_id_def sole_def sample_os_def)

end
