(* ===== verification/Spec2Isabelle.thy ===== *)
theory Spec2Isabelle
  imports Agent_Properties Auth_Properties Controller_Properties Deployment_Properties
    Vault_Properties
begin

text \<open>
  VeriSilo keeps browser profiles apart ("Silos"). This development models two parts of it in full:
  the remote environment stack (\<open>src/crates/verisilo-remote-backend/src\<close>) and the desktop's
  encrypted Vault (\<open>src/apps/desktop/src-tauri/src/vault.rs\<close>) with the domain types that it stores.

  The remote stack, from the desktop to the environment, with the theories that model each part:

    \<^item> Types that both sides share (\<open>lib.rs\<close>): \<open>Wire_Protocol\<close>, \<open>Controller_Types\<close>.
    \<^item> The desktop's controller \<open>RemoteEnvironmentBackend\<close> (\<open>lib.rs\<close>): \<open>Binding_Store\<close> (the trait
      \<open>BindingStore\<close> and its in-memory implementation), \<open>Controller\<close> (one exchange),
      \<open>Controller_Operations\<close> (the public operations). It sends requests through the transport, a
      parameter that \<open>Pinned_Transport\<close> (\<open>transport.rs\<close>) models.
    \<^item> The listener of the Remote Agent (\<open>https_server.rs\<close>): \<open>Http_Request\<close> (reading, parsing, writing),
      \<open>Https_Listener\<close> (admission, workers and loop as an inductive step relation over every
      interleaving), \<open>Https_Configuration\<close> (the deployment configuration).
    \<^item> The router behind it (\<open>agent_service.rs\<close>): \<open>Agent_Service\<close>, which authenticates requests with
      \<open>Auth_Store\<close> (\<open>auth_store.rs\<close>) and hands them to the Agent.
    \<^item> The Agent (\<open>agent.rs\<close>, \<open>durable_store.rs\<close>): \<open>Agent_Types\<close>, \<open>Agent_Store\<close> (the trait and the memory
      store), \<open>Agent_Core\<close> (authorization, the fifteen commands, deletion, recovery), \<open>Durable_Store\<close>
      (journalled persistence). It calls a provider through \<open>Provider_Bridge\<close> (\<open>provider_bridge.rs\<close>).
    \<^item> The binary that puts these together (\<open>bin/verisilo-remote-agent.rs\<close>): \<open>Remote_Agent\<close>.

  The Vault:

    \<^item> \<open>Silo_Types\<close>, \<open>Silo_Validation\<close>, \<open>Silo_Domain\<close>, \<open>Network_Evidence\<close>, \<open>Runtime_Types\<close>: the types and
      validators of \<open>domain.rs\<close>, \<open>engine.rs\<close> and \<open>native_host.rs\<close> that the Vault stores and checks.
    \<^item> \<open>Vault_Types\<close> (\<open>VaultData\<close>, \<open>RemoteVaultState\<close> and \<open>validate_vault_data\<close>), \<open>Vault_Json\<close> (the
      strict shapes of the stored JSON and the value that is written).
    \<^item> \<open>Vault\<close> (\<open>VaultRuntime\<close>: the auto-lock deadline, \<open>persist_data\<close>, the atomic write), \<open>Vault_Lifecycle\<close>
      (initialize, unlock, change of the passphrase, backup, restore with its merges).
    \<^item> \<open>Vault_Silos\<close>, \<open>Vault_Updates\<close>, \<open>Vault_Records\<close>: every operation that changes the stored data.

  State and operations. A Rust struct is a record with a prefix for its fields, an enum a datatype, an
  integer a word of its width; a hash map is an association list with distinct keys; a Rust string is
  the list of its Unicode scalar values. An operation is a function to \<open>('e + 'a) \<times> 'state\<close>; \<open>sbind\<close> is
  the \<open>?\<close> operator and keeps the state of the failing step. The disk of \<open>File_System\<close> keeps the present
  directory, the images that a crash may expose since the last directory sync, and the history of all
  directories; each of its operations may fail at the will of a fault oracle. The clock and randomness
  are draws from a host or world. A panic of the code is an error value of its own.

  What the lemmas show.

    \<^item> \<open>Transactions\<close> has the contract of the two state files of the Agent (locale \<open>transactional\<close>);
      \<open>Agent_Store\<close>, \<open>Binding_Store\<close>, \<open>Service_Machine\<close> and \<open>Https_Behaviour\<close> have the contracts of the
      stores, of the Agent behind the router and of the handler behind the listener (locales
      \<open>agent_store\<close>, \<open>binding_store\<close>, \<open>served_agent\<close>, \<open>json_handler\<close>). Each is interpreted on the code's
      own model where the provider of the contract is, and the clients' lemmas are proved inside it.
    \<^item> \<open>Agent_Machine\<close>, \<open>Auth_Machine\<close>, \<open>Controller_Machine\<close>, \<open>Service_Machine\<close> and \<open>Vault_Machine\<close> have the
      abstract machines; \<open>Agent_Refinement\<close>, \<open>Auth_Behaviour\<close>, \<open>Controller_Behaviour\<close>,
      \<open>Controller_Sessions\<close>, \<open>Controller_Pairing\<close>, \<open>Service_Behaviour\<close>, \<open>Service_Composition\<close>,
      \<open>Remote_Agent_Behaviour\<close> prove that the code refines them, and what their runs keep.
    \<^item> \<open>Auth_Durability\<close> and \<open>Durable_Store\<close> prove that a crash exposes the old or the new complete state.
    \<^item> \<open>Vault_Facts\<close> has the contract of an operation of the Vault (locales \<open>vault_step\<close>,
      \<open>vault_operation\<close>): its change is adopted in memory and in the file, or nothing is, and no crash on
      the way exposes anything else. \<open>Vault_Behaviour\<close> has the rules along which \<open>Vault_Transactions\<close>
      proves the contract of each operation for the change that \<open>Vault_Contracts\<close> specifies.
      \<open>Vault_Opening\<close> proves that what was written opens again, \<open>Vault_Identity\<close> what a lock freezes.
    \<^item> The theories \<open>..._Properties\<close> state the properties of each part, each with a witness on the
      samples of \<open>..._Samples\<close> where it has hypotheses.

  Bounds and fuel. Limits are those of the code: 81,920 bytes of a request, 32 connections, 64 KiB of
  a response, 1,501 polls of a provider, 10,000 Silos, 1,000 entries of network evidence, 256
  Artifacts. The reading loops of the listener take as fuel the number of reads, and \<open>Https_Properties\<close>
  proves that 81,920 suffice for any peer; waiting for the provider likewise ends within its polls.

  Parameters. Code that is not in the repository is a parameter, and what a property needs of it is
  a hypothesis with the name of its law: serde's JSON codecs, \<open>url\<close>, \<open>httparse\<close>, \<open>reqwest\<close>, TLS and
  X.509, SHA-256, base64, Argon2id, AES-256-GCM, the operating system's files, processes and clocks,
  and the environment provider. Profile leases, the inspection of browsers and the walks over profile
  directories are functions of the Vault's world, since they are input and output.

  Not modelled, and why: branches for other platforms than Linux; arguments that are not UTF-8;
  sleeping, socket options and other timing; erasure of secrets from memory; the disks of a \<open>serve\<close>
  that failed to start. Of the desktop application: the backup of managed profiles (archives of file
  trees), the launcher and the engine adapters (processes, Windows signatures, package trees), the
  local environment backends (WSL, Sandbox, Hyper-V), the proxy relay and the Mihomo adapter (network
  input and output), the labels of websites, the local interface, and the services and Tauri commands
  that pass calls on. Of the Vault: previews of managed identities, materialization of an Artifact in
  the file system and storage usage, which only read the data.

  What modelling showed is recorded with the manifest: states that the code itself produces and later
  refuses (a claim window that blocks every operation, a first write that is never recovered, a
  snapshot that is never restored, a stored engine that the next unlock refuses), and checks that miss
  what they mean to catch (the backup file of the Agent among the configured paths, components \<open>.\<close>).
\<close>

end
